(* ===== verification/Prelude.thy ===== *)
theory Prelude
  imports Main "HOL-Library.Word" "HOL-Library.Monad_Syntax"
begin

text \<open>
  Shared vocabulary of the development: the fixed-width integer types of \<^verbatim>\<open>stdint.h\<close>, the
  checked memory accesses behind every array subscript of the C code, and the generic lemmas on
  lists, options and words that the component theories use.

  Two conventions hold everywhere.
  \<^item> A value of type \<open>'a option\<close> in the result of an operation that indexes memory or divides
    stands for a C execution: \<open>None\<close> is undefined behaviour (an access outside the object, a
    division by zero, a conversion out of range), \<open>Some\<close> is a defined outcome. That an operation
    is never \<open>None\<close> is therefore a memory-safety theorem.
  \<^item> A pointer argument that the code compares with \<^verbatim>\<open>NULL\<close> is an \<open>option\<close> argument when it
    carries input data. Pointers to the state or to the result are passed and returned by value.
\<close>

unbundle bit_operations_syntax

section \<open>Collections of facts\<close>

named_theorems mem_simps \<open>checked reads and writes that succeed\<close>
named_theorems enum_simps \<open>codes of the enumerations\<close>
named_theorems frame_intros \<open>fields an operation leaves alone\<close>

section \<open>Machine integers\<close>

type_synonym u8 = "8 word"
type_synonym u16 = "16 word"
type_synonym u32 = "32 word"
type_synonym i16 = "16 word"
type_synonym i32 = "32 word"

text \<open>
  \<open>i16\<close> and \<open>i32\<close> are read with \<^const>\<open>sint\<close>. The unsigned difference of two millisecond
  counters, \<open>now - then\<close>, wraps: it is the elapsed time as long as less than \<open>2 ^ 32\<close> ms passed.
\<close>

lemma unat_elapsed: "unat (now - past :: u32) = (unat now + 2 ^ 32 - unat past) mod 2 ^ 32"
proof -
  have p: "unat past < 2 ^ 32" and n: "unat now < 2 ^ 32"
    using unsigned_less [of past, where ?'a = nat] unsigned_less [of now, where ?'a = nat] by simp_all
  have "unat (now - past) = nat ((uint now - uint past) mod 2 ^ 32)"
    by (simp add: unat_eq_nat_uint uint_word_ariths)
  also have "(uint now - uint past) mod 2 ^ 32 = (uint now - uint past + 2 ^ 32) mod 2 ^ 32"
    by simp
  also have "uint now - uint past + 2 ^ 32 = int (unat now + 2 ^ 32 - unat past)"
    using p by (simp add: of_nat_diff)
  finally show ?thesis by (simp add: nat_mod_distrib nat_add_distrib)
qed

lemma unat_eq_iff: "unat a = unat b \<longleftrightarrow> a = b"
  by (simp add: word_unat_eq_iff)

text \<open>
  Little-endian splitting of 16- and 32-bit values, with the masks and shifts as the codec writes
  them: joining the split bytes gives the value, splitting a joined value gives the bytes.
\<close>

lemma low_byte: "v AND 255 = (take_bit 8 v :: 'a :: len word)"
  by (simp add: take_bit_eq_mask mask_eq_exp_minus_1)

lemma u16_join_split:
  "(ucast (ucast (v AND 255) :: u8) :: u16) OR push_bit 8 (ucast (ucast (drop_bit 8 v) :: u8)) = v"
  unfolding low_byte by (rule bit_word_eqI) (auto simp: bit_simps)

lemma u16_split_join:
  "ucast ((ucast (a :: u8) OR push_bit 8 (ucast (b :: u8)) :: u16) AND 255) = a"
  "ucast (drop_bit 8 (ucast (a :: u8) OR push_bit 8 (ucast (b :: u8)) :: u16)) = b"
  unfolding low_byte by (rule bit_word_eqI, auto simp: bit_simps dest: bit_imp_le_length)+

definition le32 :: "u8 \<Rightarrow> u8 \<Rightarrow> u8 \<Rightarrow> u8 \<Rightarrow> u32" where
  "le32 a b c d = ucast a OR push_bit 8 (ucast b) OR push_bit 16 (ucast c) OR push_bit 24 (ucast d)"

lemma u32_join_split:
  "le32 (ucast (v AND 255)) (ucast (drop_bit 8 v AND 255)) (ucast (drop_bit 16 v AND 255))
     (ucast (drop_bit 24 v AND 255)) = v"
  unfolding le32_def low_byte
  apply (rule bit_word_eqI)
  apply (auto simp: bit_simps)
  subgoal for n by (cases "24 \<le> n") simp_all
  done

lemma u32_split_join:
  "ucast (le32 a b c d AND 255) = a" "ucast (drop_bit 8 (le32 a b c d) AND 255) = b"
  "ucast (drop_bit 16 (le32 a b c d) AND 255) = c" "ucast (drop_bit 24 (le32 a b c d) AND 255) = d"
  unfolding le32_def low_byte
  by (rule bit_word_eqI, auto simp: bit_simps dest: bit_imp_le_length)+

section \<open>Checked memory\<close>

definition mem_read :: "'a list \<Rightarrow> nat \<Rightarrow> 'a option" where
  "mem_read b i = (if i < length b then Some (b ! i) else None)"

definition mem_write :: "'a list \<Rightarrow> nat \<Rightarrow> 'a \<Rightarrow> 'a list option" where
  "mem_write b i v = (if i < length b then Some (b[i := v]) else None)"

lemma mem_read_Some [mem_simps]: "i < length b \<Longrightarrow> mem_read b i = Some (b ! i)"
  by (simp add: mem_read_def)

lemma mem_write_Some [mem_simps]: "i < length b \<Longrightarrow> mem_write b i v = Some (b[i := v])"
  by (simp add: mem_write_def)

lemma mem_read_eq_None: "mem_read b i = None \<longleftrightarrow> length b \<le> i"
  by (simp add: mem_read_def)

lemma mem_write_eq_None: "mem_write b i v = None \<longleftrightarrow> length b \<le> i"
  by (simp add: mem_write_def)

section \<open>Lists\<close>

lemma list_update_numeral [simp]:
  "(x # xs)[numeral k := v] = x # xs[pred_numeral k := v]"
  by (simp add: numeral_eq_Suc)

lemma take_update_append:
  "length xs = n \<Longrightarrow> n < length (xs @ ys) \<Longrightarrow> (xs @ ys)[n := v] = xs @ v # tl ys"
  by (cases ys) auto

lemma take_Suc_update: "n < length xs \<Longrightarrow> take (Suc n) (xs[n := v]) = take n xs @ [v]"
  by (simp add: take_Suc_conv_app_nth)

lemma split6:
  assumes "6 \<le> length xs"
  obtains a b c d e f rest where "xs = a # b # c # d # e # f # rest"
proof -
  have "\<exists>a b c d e f rest. xs = a # b # c # d # e # f # rest"
    using assms by (auto simp: numeral_eq_Suc Suc_le_length_iff)
  then show ?thesis using that by blast
qed

lemma take_drop_6 [simp]:
  "take (6 + n) (a # b # c # d # e # f # r) = a # b # c # d # e # f # take n r"
  "drop (6 + n) (a # b # c # d # e # f # r) = drop n r"
  by (simp_all add: eval_nat_numeral)

lemma nth_take_drop_eq:
  "o' + n \<le> length b \<Longrightarrow> i < n \<Longrightarrow> take n (drop o' b) ! i = b ! (o' + i)"
  by simp

lemma upt_4: "[0..<4] = [0, 1, 2, 3]"
  by (simp add: upt_conv_Cons)

lemma upt_3: "[0..<3] = [0, 1, 2]"
  by (simp add: upt_conv_Cons)

lemma less_4_cases: "(i::nat) < 4 \<Longrightarrow> i = 0 \<or> i = 1 \<or> i = 2 \<or> i = 3"
  by arith

end
