(* ===== verification/Rounding.thy ===== *)
theory Rounding
  imports Prelude "HOL-Library.Log_Nat"
begin

text \<open>
  Rounding of exact rational results to a binary floating-point grid, the arithmetic behind the
  \<^verbatim>\<open>float\<close> and \<^verbatim>\<open>double\<close> operations of the C code: round to nearest, ties to even, with a
  precision in bits and a smallest quantum (gradual underflow). The lemmas of this theory are the
  ones the component proofs rest on: the rounding is monotone, odd, exact on integers that fit the
  precision, and within half a quantum of its argument.
\<close>

named_theorems fp_eval \<open>evaluation of closed floating-point terms by simp\<close>

section \<open>Nearest integer, ties to even\<close>

definition rne :: "rat \<Rightarrow> int" where
  "rne x = (let f = \<lfloor>x\<rfloor>; d = x - of_int f in
     if d < 1 / 2 then f else if 1 / 2 < d then f + 1 else if even f then f else f + 1)"

lemma rne_of_int [simp]: "rne (of_int k) = k"
  by (simp add: rne_def)

lemma rne_0 [simp]: "rne 0 = 0"
  using rne_of_int [of 0] by simp

lemma rne_error: "\<bar>of_int (rne x) - x\<bar> \<le> 1 / 2"
proof -
  have "of_int \<lfloor>x\<rfloor> \<le> x" "x < of_int \<lfloor>x\<rfloor> + 1" by linarith+
  then show ?thesis by (auto simp: rne_def Let_def)
qed

lemma rne_mono: "x \<le> y \<Longrightarrow> rne x \<le> rne y"
proof (rule ccontr)
  assume xy: "x \<le> y" and "\<not> rne x \<le> rne y"
  then have "rne y + 1 \<le> rne x" by simp
  then have r: "of_int (rne y) + 1 \<le> (of_int (rne x) :: rat)"
    by (metis of_int_1 of_int_add of_int_le_iff)
  have "of_int (rne x) - x \<le> 1 / 2" "y - of_int (rne y) \<le> 1 / 2"
    using rne_error [of x] rne_error [of y] by linarith+
  with r xy have "x = y" by linarith
  with r show False by simp
qed

lemma rne_minus: "rne (- x) = - rne x"
proof (cases "x = of_int \<lfloor>x\<rfloor>")
  case True
  then show ?thesis by (metis of_int_minus rne_of_int)
next
  case False
  then have "of_int \<lfloor>x\<rfloor> < x" by (metis of_int_floor_le order_less_le)
  then have "\<lfloor>- x\<rfloor> = - \<lfloor>x\<rfloor> - 1"
    by (intro floor_unique) (simp_all, linarith)
  then show ?thesis by (auto simp: rne_def Let_def)
qed

lemma rne_le_of_int: "x \<le> of_int k \<Longrightarrow> rne x \<le> k"
  using rne_mono [of x "of_int k"] by simp

lemma rne_ge_of_int: "of_int k \<le> x \<Longrightarrow> k \<le> rne x"
  using rne_mono [of "of_int k" x] by simp

section \<open>Binary exponent\<close>

definition ilog2 :: "rat \<Rightarrow> int" where
  "ilog2 x = (if 1 \<le> x then int (floorlog 2 (nat \<lfloor>x\<rfloor>)) - 1
     else - int (floorlog 2 (nat (\<lceil>1 / x\<rceil> - 1))))"

lemma powi_pos [simp]: "0 < (2 :: rat) powi e"
  by (simp add: power_int_def)

lemma powi_add: "(2 :: rat) powi (a + b) = 2 powi a * 2 powi b"
  by (rule power_int_add) simp

lemma powi_less_iff: "(2 :: rat) powi a < 2 powi b \<longleftrightarrow> a < b"
proof
  assume "(2 :: rat) powi a < 2 powi b"
  then show "a < b"
    using power_int_increasing [of b a "2 :: rat"] by (cases "a < b") auto
qed (simp add: power_int_strict_increasing)

lemma powi_le_iff: "(2 :: rat) powi a \<le> 2 powi b \<longleftrightarrow> a \<le> b"
  using powi_less_iff [of b a] by (simp add: not_less [symmetric] del: not_less)

lemma powi_nat: "0 \<le> e \<Longrightarrow> (2 :: rat) powi e = of_int (2 ^ nat e)"
  by (simp add: power_int_def)

lemma floorlog2_bounds:
  assumes "0 < n"
  shows "2 ^ (floorlog 2 n - 1) \<le> n" and "n < 2 ^ floorlog 2 n" and "0 < floorlog 2 n"
  using floorlog_bounds [of n 2] assms by (auto simp: floorlog_def)

lemma ilog2_bounds:
  assumes "0 < x"
  shows "2 powi ilog2 x \<le> x \<and> x < 2 powi (ilog2 x + 1)"
proof (cases "1 \<le> x")
  case True
  define n where "n = nat \<lfloor>x\<rfloor>"
  have n: "0 < n" "rat_of_nat n \<le> x" "x < rat_of_nat n + 1"
    using True by (auto simp: n_def le_floor_iff) linarith
  define k where "k = floorlog 2 n"
  have k: "2 ^ (k - 1) \<le> n" "n < 2 ^ k" "0 < k"
    using floorlog2_bounds [OF n(1)] by (auto simp: k_def)
  have "rat_of_nat (2 ^ (k - 1)) \<le> rat_of_nat n" using k(1) of_nat_le_iff by blast
  then have lo: "(2 :: rat) ^ (k - 1) \<le> x" using n(2) by (simp only: of_nat_power of_nat_numeral order_trans)
  have "Suc n \<le> 2 ^ k" using k(2) by simp
  then have "rat_of_nat (Suc n) \<le> rat_of_nat (2 ^ k)" using of_nat_le_iff by blast
  then have hi: "x < (2 :: rat) ^ k" using n(3) by simp
  have e: "ilog2 x = int k - 1" using True by (simp add: ilog2_def n_def k_def)
  have "(2 :: rat) powi (int k - 1) = 2 ^ (k - 1)"
    using k(3) by (simp add: power_int_def nat_diff_distrib)
  then show ?thesis using lo hi e by simp
next
  case False
  define y where "y = 1 / x"
  have y: "1 < y" using False assms by (simp add: y_def)
  define m where "m = nat (\<lceil>y\<rceil> - 1)"
  have "1 < \<lceil>y\<rceil>" using y by (simp add: less_ceiling_iff)
  then have m: "0 < m" "rat_of_nat m < y" "y \<le> rat_of_nat m + 1"
    by (simp_all add: m_def) linarith+
  define k where "k = floorlog 2 m"
  have k: "2 ^ (k - 1) \<le> m" "m < 2 ^ k" "0 < k"
    using floorlog2_bounds [OF m(1)] by (auto simp: k_def)
  have "rat_of_nat (2 ^ (k - 1)) \<le> rat_of_nat m" using k(1) of_nat_le_iff by blast
  then have lo: "(2 :: rat) ^ (k - 1) < y"
    using m(2) by (metis of_nat_numeral of_nat_power order_le_less_trans)
  have "Suc m \<le> 2 ^ k" using k(2) by simp
  then have "rat_of_nat (Suc m) \<le> rat_of_nat (2 ^ k)" using of_nat_le_iff by blast
  then have hi: "y \<le> (2 :: rat) ^ k" using m(3) by simp
  have e: "ilog2 x = - int k" using False by (simp add: ilog2_def y_def m_def k_def)
  have p1: "(2 :: rat) powi (- int k) = 1 / 2 ^ k" by (simp add: power_int_minus field_simps)
  have p2: "(2 :: rat) powi (- int k + 1) = 1 / 2 ^ (k - 1)"
    using k(3) by (cases k) (simp_all add: power_int_minus field_simps)
  have x: "x = 1 / y" by (simp add: y_def)
  have "1 / 2 ^ k \<le> x" unfolding x using hi y by (intro divide_left_mono) auto
  moreover have "x < 1 / 2 ^ (k - 1)" unfolding x using lo y by (intro divide_strict_left_mono) auto
  ultimately show ?thesis using e p1 p2 by simp
qed

lemma ilog2_mono: "0 < x \<Longrightarrow> x \<le> y \<Longrightarrow> ilog2 x \<le> ilog2 y"
proof -
  assume "0 < x" "x \<le> y"
  then have "(2 :: rat) powi ilog2 x < 2 powi (ilog2 y + 1)"
    using ilog2_bounds [of x] ilog2_bounds [of y] by linarith
  then show ?thesis by (simp add: powi_less_iff)
qed

lemma ilog2_less: "0 < x \<Longrightarrow> x < 2 powi e \<Longrightarrow> ilog2 x < e"
  using ilog2_bounds [of x] powi_less_iff [of "ilog2 x" e] by linarith

section \<open>Rounding to the grid of a format\<close>

definition quantum :: "int \<Rightarrow> int \<Rightarrow> rat \<Rightarrow> rat" where
  "quantum p qmin x = 2 powi (max (ilog2 \<bar>x\<bar> - (p - 1)) qmin)"

definition grid :: "int \<Rightarrow> int \<Rightarrow> rat \<Rightarrow> rat" where
  "grid p qmin x = (if x = 0 then 0
     else of_int (rne (x / quantum p qmin x)) * quantum p qmin x)"

lemma quantum_pos [simp]: "0 < quantum p qmin x"
  by (simp add: quantum_def)

lemma quantum_minus [simp]: "quantum p qmin (- x) = quantum p qmin x"
  by (simp add: quantum_def)

lemma grid_0 [simp]: "grid p qmin 0 = 0"
  by (simp add: grid_def)

lemma grid_minus: "grid p qmin (- x) = - grid p qmin x"
  by (simp add: grid_def rne_minus)

lemma grid_error: "\<bar>grid p qmin x - x\<bar> \<le> quantum p qmin x / 2"
proof (cases "x = 0")
  case False
  define q where "q = quantum p qmin x"
  have q: "0 < q" by (simp add: q_def)
  have "grid p qmin x - x = (of_int (rne (x / q)) - x / q) * q"
    using False quantum_pos [of p qmin x] by (simp add: grid_def q_def field_simps del: quantum_pos)
  then have "\<bar>grid p qmin x - x\<bar> = \<bar>of_int (rne (x / q)) - x / q\<bar> * q"
    using q by (simp add: abs_mult)
  also have "\<dots> \<le> 1 / 2 * q" using q rne_error by (intro mult_right_mono) auto
  finally show ?thesis by (simp add: q_def)
qed (simp add: less_imp_le)

lemma grid_le_multiple:
  assumes "x \<le> of_int k * quantum p qmin x"
  shows "grid p qmin x \<le> of_int k * quantum p qmin x"
proof (cases "x = 0")
  case False
  have "x / quantum p qmin x \<le> of_int k" using assms by (simp add: divide_le_eq)
  then have "rne (x / quantum p qmin x) \<le> k" by (rule rne_le_of_int)
  then show ?thesis using False by (simp add: grid_def)
qed (use assms in simp)

lemma grid_ge_multiple:
  assumes "of_int k * quantum p qmin x \<le> x"
  shows "of_int k * quantum p qmin x \<le> grid p qmin x"
proof (cases "x = 0")
  case False
  have "of_int k \<le> x / quantum p qmin x" using assms by (simp add: le_divide_eq)
  then have "k \<le> rne (x / quantum p qmin x)" by (rule rne_ge_of_int)
  then show ?thesis using False by (simp add: grid_def)
qed (use assms in simp)

lemma grid_mono_pos:
  assumes p: "1 \<le> p" and x: "0 < x" and xy: "x \<le> y"
  shows "grid p qmin x \<le> grid p qmin y"
proof -
  define kx where "kx = max (ilog2 x - (p - 1)) qmin"
  define ky where "ky = max (ilog2 y - (p - 1)) qmin"
  have y: "0 < y" using x xy by simp
  have qx: "quantum p qmin x = 2 powi kx" and qy: "quantum p qmin y = 2 powi ky"
    using x y by (simp_all add: quantum_def kx_def ky_def)
  have exy: "ilog2 x \<le> ilog2 y" using x xy by (rule ilog2_mono)
  show ?thesis
  proof (cases "kx = ky")
    case True
    have "x / 2 powi ky \<le> y / 2 powi ky" using xy by (simp add: divide_right_mono less_imp_le)
    then have "rne (x / 2 powi ky) \<le> rne (y / 2 powi ky)" by (rule rne_mono)
    then show ?thesis using x y qx qy True by (simp add: grid_def)
  next
    case False
    then have lt: "kx < ky" and kye: "ky = ilog2 y - (p - 1)"
      using exy by (auto simp: kx_def ky_def)
    have "ilog2 x < ilog2 y" using lt by (auto simp: kx_def ky_def)
    define b where "b = (2 :: rat) powi ilog2 y"
    have "x < 2 powi (ilog2 x + 1)" using ilog2_bounds [OF x] by simp
    also have "\<dots> \<le> b" unfolding b_def using \<open>ilog2 x < ilog2 y\<close> by (simp add: powi_le_iff)
    finally have xb: "x < b" .
    have "b = 2 powi (ilog2 y - kx) * 2 powi kx" by (simp add: b_def flip: powi_add)
    then have bx: "b = of_int (2 ^ nat (ilog2 y - kx)) * quantum p qmin x"
      using lt kye p by (simp add: qx powi_nat)
    have "b = 2 powi (ilog2 y - ky) * 2 powi ky" by (simp add: b_def flip: powi_add)
    then have by': "b = of_int (2 ^ nat (ilog2 y - ky)) * quantum p qmin y"
      using kye p by (simp add: qy powi_nat)
    have "grid p qmin x \<le> b" using grid_le_multiple [of x "2 ^ nat (ilog2 y - kx)" p qmin] bx xb by simp
    also have "b \<le> grid p qmin y"
      using grid_ge_multiple [of "2 ^ nat (ilog2 y - ky)" p qmin y] by' ilog2_bounds [OF y]
      by (simp add: b_def)
    finally show ?thesis .
  qed
qed

lemma grid_nonneg: "0 \<le> x \<Longrightarrow> 0 \<le> grid p qmin x"
  using grid_ge_multiple [of 0 p qmin x] by simp

lemma grid_mono: "1 \<le> p \<Longrightarrow> x \<le> y \<Longrightarrow> grid p qmin x \<le> grid p qmin y"
proof -
  assume p: "1 \<le> p" and xy: "x \<le> y"
  consider "0 < x" | "y < 0" | "x \<le> 0" "0 \<le> y" by linarith
  then show ?thesis
  proof cases
    case 1
    then show ?thesis using grid_mono_pos p xy by blast
  next
    case 2
    then have "grid p qmin (- y) \<le> grid p qmin (- x)" using grid_mono_pos [of p "- y" "- x"] p xy by simp
    then show ?thesis by (simp add: grid_minus)
  next
    case 3
    then have "0 \<le> grid p qmin y" "0 \<le> grid p qmin (- x)" by (simp_all add: grid_nonneg)
    then show ?thesis by (simp add: grid_minus)
  qed
qed

lemma grid_of_int:
  assumes p: "1 \<le> p" and q: "qmin \<le> 0" and n: "\<bar>n\<bar> < 2 ^ nat p"
  shows "grid p qmin (of_int n) = of_int n"
proof (cases "n = 0")
  case False
  define k where "k = max (ilog2 \<bar>of_int n\<bar> - (p - 1)) qmin"
  have "(of_int \<bar>n\<bar> :: rat) < of_int (2 ^ nat p)" using n by (simp only: of_int_less_iff)
  then have "\<bar>of_int n :: rat\<bar> < 2 powi p" using p by (simp add: powi_nat)
  then have "ilog2 \<bar>of_int n :: rat\<bar> < p" using False by (intro ilog2_less) auto
  then have k0: "k \<le> 0" using q by (simp add: k_def)
  have e: "(of_int n :: rat) / 2 powi k = of_int (n * 2 ^ nat (- k))"
    using k0 by (simp add: power_int_def field_simps)
  then have "grid p qmin (of_int n) = of_int n / 2 powi k * 2 powi k"
    using False by (simp add: grid_def quantum_def rne_of_int [of "n * 2 ^ nat (- k)", simplified] flip: k_def)
  then show ?thesis by simp
qed simp

lemma grid_idem_multiple:
  assumes "x = of_int k * quantum p qmin x"
  shows "grid p qmin x = x"
  using grid_le_multiple [of x k p qmin] grid_ge_multiple [of k p qmin x] assms by linarith

end
