(* ===== verification/Ieee_Float.thy ===== *)
theory Ieee_Float
  imports Rounding
begin

text \<open>
  The \<^verbatim>\<open>float\<close> (binary32) and \<^verbatim>\<open>double\<close> (binary64) values of the C code and the operations the
  navigation core applies to them: each arithmetic operation is the exact rational result rounded
  to the format, with overflow to infinity, gradual underflow and NaN propagation; comparisons are
  false on NaN. \<^verbatim>\<open>float\<close> to \<^verbatim>\<open>double\<close> is the identity, \<^verbatim>\<open>double\<close> to \<^verbatim>\<open>float\<close> is
  \<open>fp_cvt binary32\<close>.

  The two zeros of IEEE 754 are one value here: they compare equal, and the modelled code neither
  divides by a zero that could be negative nor looks at the sign of a zero.
\<close>

section \<open>Values and formats\<close>

datatype fp = NaN | PInf | NInf | Fin rat

record fp_format =
  fmt_prec :: int
  fmt_qmin :: int
  fmt_max :: rat

definition binary32 :: fp_format where
  "binary32 = \<lparr>fmt_prec = 24, fmt_qmin = -149, fmt_max = 2 ^ 128 - 2 ^ 104\<rparr>"

definition binary64 :: fp_format where
  "binary64 = \<lparr>fmt_prec = 53, fmt_qmin = -1074, fmt_max = 2 ^ 1024 - 2 ^ 971\<rparr>"

definition fp_pack :: "rat \<Rightarrow> rat \<Rightarrow> fp" where
  "fp_pack mx y = (if mx < y then PInf else if y < - mx then NInf else Fin y)"

definition fp_rnd :: "fp_format \<Rightarrow> rat \<Rightarrow> fp" where
  "fp_rnd f x = fp_pack (fmt_max f) (grid (fmt_prec f) (fmt_qmin f) x)"

section \<open>Comparison\<close>

fun fp_lt :: "fp \<Rightarrow> fp \<Rightarrow> bool" where
  "fp_lt (Fin a) (Fin b) = (a < b)"
| "fp_lt (Fin a) PInf = True"
| "fp_lt NInf (Fin b) = True"
| "fp_lt NInf PInf = True"
| "fp_lt _ _ = False"

fun fp_eq :: "fp \<Rightarrow> fp \<Rightarrow> bool" where
  "fp_eq (Fin a) (Fin b) = (a = b)"
| "fp_eq PInf PInf = True"
| "fp_eq NInf NInf = True"
| "fp_eq _ _ = False"

definition fp_le :: "fp \<Rightarrow> fp \<Rightarrow> bool" where
  "fp_le a b = (fp_lt a b \<or> fp_eq a b)"

fun fp_isfinite :: "fp \<Rightarrow> bool" where
  "fp_isfinite (Fin _) = True"
| "fp_isfinite _ = False"

lemma fp_le_simps [simp]:
  "fp_le (Fin a) (Fin b) = (a \<le> b)" "fp_le (Fin a) PInf" "fp_le NInf (Fin a)"
  "\<not> fp_le NaN x" "\<not> fp_le x NaN" "\<not> fp_le PInf (Fin a)" "\<not> fp_le (Fin a) NInf"
  "fp_le NInf PInf" "fp_le PInf PInf" "fp_le NInf NInf" "\<not> fp_le PInf NInf"
  by (auto simp: fp_le_def)

lemma fp_le_trans: "fp_le a b \<Longrightarrow> fp_le b c \<Longrightarrow> fp_le a c"
  by (cases a; cases b; cases c) auto

lemma fp_le_refl: "a \<noteq> NaN \<Longrightarrow> fp_le a a"
  by (cases a) auto

lemma fp_not_lt_iff: "a \<noteq> NaN \<Longrightarrow> b \<noteq> NaN \<Longrightarrow> \<not> fp_lt a b \<longleftrightarrow> fp_le b a"
  by (cases a; cases b) auto

lemma fp_lt_le_trans: "fp_lt a b \<Longrightarrow> fp_le b c \<Longrightarrow> fp_lt a c"
  by (cases a; cases b; cases c) auto

section \<open>Arithmetic\<close>

fun fp_neg :: "fp \<Rightarrow> fp" where
  "fp_neg (Fin a) = Fin (- a)"
| "fp_neg PInf = NInf"
| "fp_neg NInf = PInf"
| "fp_neg NaN = NaN"

fun fp_abs :: "fp \<Rightarrow> fp" where
  "fp_abs (Fin a) = Fin \<bar>a\<bar>"
| "fp_abs NaN = NaN"
| "fp_abs _ = PInf"

fun fp_add :: "fp_format \<Rightarrow> fp \<Rightarrow> fp \<Rightarrow> fp" where
  "fp_add f (Fin a) (Fin b) = fp_rnd f (a + b)"
| "fp_add f NaN _ = NaN"
| "fp_add f _ NaN = NaN"
| "fp_add f PInf NInf = NaN"
| "fp_add f NInf PInf = NaN"
| "fp_add f PInf _ = PInf"
| "fp_add f NInf _ = NInf"
| "fp_add f _ PInf = PInf"
| "fp_add f _ NInf = NInf"

definition fp_sub :: "fp_format \<Rightarrow> fp \<Rightarrow> fp \<Rightarrow> fp" where
  "fp_sub f a b = fp_add f a (fp_neg b)"

definition fp_inf :: "bool \<Rightarrow> fp" where
  "fp_inf negative = (if negative then NInf else PInf)"

fun fp_sgn :: "fp \<Rightarrow> int" where
  "fp_sgn (Fin a) = (if a < 0 then -1 else if a = 0 then 0 else 1)"
| "fp_sgn PInf = 1"
| "fp_sgn NInf = -1"
| "fp_sgn NaN = 0"

fun fp_mul :: "fp_format \<Rightarrow> fp \<Rightarrow> fp \<Rightarrow> fp" where
  "fp_mul f (Fin a) (Fin b) = fp_rnd f (a * b)"
| "fp_mul f NaN _ = NaN"
| "fp_mul f _ NaN = NaN"
| "fp_mul f x y = (if fp_sgn x * fp_sgn y = 0 then NaN else fp_inf (fp_sgn x * fp_sgn y < 0))"

fun fp_div :: "fp_format \<Rightarrow> fp \<Rightarrow> fp \<Rightarrow> fp" where
  "fp_div f (Fin a) (Fin b) =
     (if b = 0 then (if a = 0 then NaN else fp_inf (a < 0)) else fp_rnd f (a / b))"
| "fp_div f NaN _ = NaN"
| "fp_div f _ NaN = NaN"
| "fp_div f (Fin a) _ = Fin 0"
| "fp_div f x (Fin b) = fp_inf (if b < 0 then fp_sgn x = 1 else fp_sgn x = -1)"
| "fp_div f _ _ = NaN"

text \<open>\<^verbatim>\<open>fmax\<close> and \<^verbatim>\<open>fmin\<close> ignore a NaN argument when the other is a number.\<close>

definition fp_fmax :: "fp \<Rightarrow> fp \<Rightarrow> fp" where
  "fp_fmax a b = (if a = NaN then b else if b = NaN then a else if fp_lt a b then b else a)"

definition fp_fmin :: "fp \<Rightarrow> fp \<Rightarrow> fp" where
  "fp_fmin a b = (if a = NaN then b else if b = NaN then a else if fp_lt b a then b else a)"

section \<open>Conversions\<close>

definition fp_of_int :: "fp_format \<Rightarrow> int \<Rightarrow> fp" where
  "fp_of_int f n = fp_rnd f (of_int n)"

fun fp_cvt :: "fp_format \<Rightarrow> fp \<Rightarrow> fp" where
  "fp_cvt f (Fin a) = fp_rnd f a"
| "fp_cvt f x = x"

definition rat_trunc :: "rat \<Rightarrow> int" where
  "rat_trunc a = (if a < 0 then - \<lfloor>- a\<rfloor> else \<lfloor>a\<rfloor>)"

definition rat_round_away :: "rat \<Rightarrow> int" where
  "rat_round_away a = (if a < 0 then - \<lfloor>- a + 1 / 2\<rfloor> else \<lfloor>a + 1 / 2\<rfloor>)"

text \<open>
  A conversion to an integer type truncates; it is undefined (\<open>None\<close>) for a NaN, an infinity or a
  truncated value outside \<open>[lo, hi]\<close>. \<^verbatim>\<open>llround\<close> rounds half away from zero into 64 bits.
\<close>

fun fp_to_int :: "int \<Rightarrow> int \<Rightarrow> fp \<Rightarrow> int option" where
  "fp_to_int lo hi (Fin a) = (let n = rat_trunc a in if lo \<le> n \<and> n \<le> hi then Some n else None)"
| "fp_to_int lo hi _ = None"

fun fp_llround :: "fp \<Rightarrow> int option" where
  "fp_llround (Fin a) =
     (let n = rat_round_away a in if - (2 ^ 63) \<le> n \<and> n < 2 ^ 63 then Some n else None)"
| "fp_llround _ = None"

text \<open>\<^verbatim>\<open>round\<close> on doubles: the nearest integer, half away from zero, which is representable.\<close>

fun fp_round :: "fp \<Rightarrow> fp" where
  "fp_round (Fin a) = Fin (of_int (rat_round_away a))"
| "fp_round x = x"

text \<open>\<^verbatim>\<open>fmod\<close> is exact: the remainder of the truncated quotient.\<close>

fun fp_fmod :: "fp \<Rightarrow> fp \<Rightarrow> fp" where
  "fp_fmod (Fin a) (Fin b) = (if b = 0 then NaN else Fin (a - b * of_int (rat_trunc (a / b))))"
| "fp_fmod (Fin a) PInf = Fin a"
| "fp_fmod (Fin a) NInf = Fin a"
| "fp_fmod _ _ = NaN"

section \<open>Square root\<close>

text \<open>
  The integer square root by digit recursion, and the correctly rounded square root built on it:
  the scaled argument \<open>t = a / q\<^sup>2\<close> lies between two squares, and the comparison with the square
  of the midpoint decides the direction.
\<close>

fun isqrt :: "nat \<Rightarrow> nat" where
  "isqrt n = (if n = 0 then 0
     else let s = 2 * isqrt (n div 4) in if (s + 1) ^ 2 \<le> n then s + 1 else s)"

declare isqrt.simps [simp del]

definition sqrt_exp :: "fp_format \<Rightarrow> rat \<Rightarrow> int" where
  "sqrt_exp f a = max (ilog2 a div 2 - (fmt_prec f - 1)) (fmt_qmin f)"

fun fp_sqrt :: "fp_format \<Rightarrow> fp \<Rightarrow> fp" where
  "fp_sqrt f (Fin a) =
     (if a < 0 then NaN else if a = 0 then Fin 0
      else let q = 2 powi sqrt_exp f a; t = a / (q * q); n = isqrt (nat \<lfloor>t\<rfloor>);
               mid = of_nat (n ^ 2 + n) + 1 / 4
           in Fin (of_nat (if t < mid then n else if mid < t then n + 1
                           else if even n then n else n + 1) * q))"
| "fp_sqrt f PInf = PInf"
| "fp_sqrt f _ = NaN"

lemma isqrt_bounds: "isqrt n ^ 2 \<le> n \<and> n < (isqrt n + 1) ^ 2"
proof (induction n rule: isqrt.induct)
  case (1 n)
  show ?case
  proof (cases "n = 0")
    case False
    define m where "m = isqrt (n div 4)"
    have "m ^ 2 \<le> n div 4" "n div 4 < (m + 1) ^ 2" using 1 False by (simp_all add: m_def)
    then have "4 * m ^ 2 \<le> n" "n < 4 * (m + 1) ^ 2" by linarith+
    then have lo: "(2 * m) ^ 2 \<le> n" and hi: "n < (2 * m + 2) ^ 2"
      by (simp_all add: power2_eq_square algebra_simps)
    show ?thesis
      using False lo hi by (subst (1 2) isqrt.simps) (simp add: Let_def m_def [symmetric])
  qed (simp add: isqrt.simps)
qed

lemma fp_sqrt_nonneg: "fp_le (Fin 0) (fp_sqrt f (Fin a)) \<or> a < 0"
  by (simp add: Let_def)

section \<open>Rounding as an interface\<close>

text \<open>
  What the component proofs need of a rounding to a format. The quality scores stay in the unit
  interval and decrease with age because of these laws alone.
\<close>

locale fp_rounding =
  fixes rnd :: "rat \<Rightarrow> fp"
  assumes rnd_mono: "x \<le> y \<Longrightarrow> fp_le (rnd x) (rnd y)"
    and rnd_zero: "rnd 0 = Fin 0"
    and rnd_one: "rnd 1 = Fin 1"
begin

lemma rnd_unit: "0 \<le> x \<Longrightarrow> x \<le> 1 \<Longrightarrow> \<exists>r. rnd x = Fin r \<and> 0 \<le> r \<and> r \<le> 1"
  using rnd_mono [of 0 x] rnd_mono [of x 1] rnd_zero rnd_one by (cases "rnd x") auto

lemma rnd_nonneg: "0 \<le> x \<Longrightarrow> fp_le (Fin 0) (rnd x)"
  using rnd_mono [of 0 x] rnd_zero by simp

lemma rnd_not_NaN: "rnd x \<noteq> NaN"
  using rnd_mono [of x x] by auto

end

lemma fp_pack_mono: "0 \<le> mx \<Longrightarrow> x \<le> y \<Longrightarrow> fp_le (fp_pack mx x) (fp_pack mx y)"
  by (auto simp: fp_pack_def)

lemma fp_rnd_mono: "1 \<le> fmt_prec f \<Longrightarrow> 0 \<le> fmt_max f \<Longrightarrow> x \<le> y \<Longrightarrow> fp_le (fp_rnd f x) (fp_rnd f y)"
  unfolding fp_rnd_def by (intro fp_pack_mono grid_mono)

lemma fp_rnd_of_int:
  "1 \<le> fmt_prec f \<Longrightarrow> fmt_qmin f \<le> 0 \<Longrightarrow> \<bar>n\<bar> < 2 ^ nat (fmt_prec f) \<Longrightarrow> \<bar>of_int n\<bar> \<le> fmt_max f
   \<Longrightarrow> fp_rnd f (of_int n) = Fin (of_int n)"
  by (auto simp: fp_rnd_def grid_of_int fp_pack_def)

lemma binary32_params [simp]:
  "fmt_prec binary32 = 24" "fmt_qmin binary32 = -149"
  "fmt_max binary32 = 340282346638528859811704183484516925440"
  by (simp_all add: binary32_def)

lemma binary64_params [simp]:
  "fmt_prec binary64 = 53" "fmt_qmin binary64 = -1074"
  by (simp_all add: binary64_def)

lemma fmt_max_binary64: "2 ^ 1000 \<le> fmt_max binary64"
  by (simp add: binary64_def)

lemma fp_rnd_0 [simp]: "0 \<le> fmt_max f \<Longrightarrow> fp_rnd f 0 = Fin 0"
  by (simp add: fp_rnd_def fp_pack_def)

interpretation f32: fp_rounding "fp_rnd binary32"
proof
  show "fp_rnd binary32 1 = Fin 1" using fp_rnd_of_int [of binary32 1] by simp
qed (simp_all add: fp_rnd_mono)

interpretation f64: fp_rounding "fp_rnd binary64"
proof
  have mx: "0 \<le> fmt_max binary64" "\<bar>1\<bar> \<le> fmt_max binary64" using fmt_max_binary64 by simp_all
  show "fp_rnd binary64 1 = Fin 1" using fp_rnd_of_int [of binary64 1] mx by simp
  show "fp_rnd binary64 0 = Fin 0" using mx by simp
  show "\<And>x y. x \<le> y \<Longrightarrow> fp_le (fp_rnd binary64 x) (fp_rnd binary64 y)"
    using mx by (simp add: fp_rnd_mono)
qed

section \<open>Values in the unit interval\<close>

definition fp_unit :: "fp \<Rightarrow> bool" where
  "fp_unit x = (fp_le (Fin 0) x \<and> fp_le x (Fin 1))"

lemma fp_unit_iff: "fp_unit x \<longleftrightarrow> (\<exists>r. x = Fin r \<and> 0 \<le> r \<and> r \<le> 1)"
  by (cases x) (auto simp: fp_unit_def)

lemma fp_unit_consts [simp]: "fp_unit (Fin 0)" "fp_unit (Fin 1)"
  by (simp_all add: fp_unit_def)

lemma fp_unit_mul: "fp_unit x \<Longrightarrow> fp_unit y \<Longrightarrow> fp_unit (fp_mul binary32 x y)"
  by (auto simp: fp_unit_iff intro!: f32.rnd_unit mult_le_one)

lemma fp_unit_one_minus: "fp_unit x \<Longrightarrow> fp_unit (fp_sub binary32 (Fin 1) x)"
  by (auto simp: fp_unit_iff fp_sub_def intro!: f32.rnd_unit)

lemma fp_mul_mono:
  assumes "fp_unit a" "fp_unit b" "fp_unit c" "fp_unit d" "fp_le a c" "fp_le b d"
  shows "fp_le (fp_mul binary32 a b) (fp_mul binary32 c d)"
proof -
  obtain ra rb rc rd where "a = Fin ra" "b = Fin rb" "c = Fin rc" "d = Fin rd"
    "0 \<le> ra" "0 \<le> rb" "ra \<le> rc" "rb \<le> rd"
    using assms by (auto simp: fp_unit_iff)
  then show ?thesis by (auto intro!: f32.rnd_mono mult_mono)
qed

lemma fp_one_minus_antimono:
  assumes "fp_unit x" "fp_unit y" "fp_le x y"
  shows "fp_le (fp_sub binary32 (Fin 1) y) (fp_sub binary32 (Fin 1) x)"
  using assms by (auto simp: fp_unit_iff fp_sub_def intro!: f32.rnd_mono)

section \<open>Rounding error\<close>

lemma rnd32_error:
  assumes x: "0 \<le> x" "x < 2 ^ k" and k: "k \<le> 100"
  shows "\<exists>s. fp_rnd binary32 x = Fin s \<and> 0 \<le> s \<and> \<bar>s - x\<bar> \<le> 2 ^ k / 2 ^ 25"
proof (cases "x = 0")
  case False
  define s where "s = grid 24 (-149) x"
  have "ilog2 x < int k" using x False by (intro ilog2_less) simp_all
  then have "quantum 24 (-149) x \<le> 2 powi (int k - 24)"
    using x(1) by (simp add: quantum_def powi_le_iff)
  also have "\<dots> * 2 ^ 24 = 2 ^ k"
    using powi_add [of "int k - 24" 24] by (simp add: power_int_def)
  finally have err: "\<bar>s - x\<bar> * 2 ^ 25 \<le> 2 ^ k"
    using grid_error [of 24 "-149" x] by (simp add: s_def)
  have s0: "0 \<le> s" using x(1) by (simp add: s_def grid_nonneg)
  have "(2 :: rat) ^ k \<le> 2 ^ 100" using k by (intro power_increasing) simp_all
  moreover have "\<bar>s - x\<bar> * 33554432 \<le> 2 ^ k" using err by simp
  moreover have "s \<le> 2 * c"
    if "b \<le> c" "y * 33554432 \<le> b" "0 \<le> x" "x < b" "s - x \<le> y" "0 \<le> y" for b c y :: rat
    using that by linarith
  ultimately have "s \<le> 2 * 2 ^ 100" using x abs_ge_self [of "s - x"] abs_ge_zero [of "s - x"] by blast
  then have "s \<le> fmt_max binary32" by simp
  moreover have "\<bar>s - x\<bar> \<le> 2 ^ k / 2 ^ 25" using err by (simp add: le_divide_eq)
  ultimately show ?thesis using s0 by (auto simp: fp_rnd_def fp_pack_def s_def)
qed (simp add: fp_rnd_0)

section \<open>Evaluation of closed terms\<close>

lemma floorlog2_numeral [fp_eval]: "floorlog 2 (numeral k) = Suc (floorlog 2 (numeral k div 2))"
  using compute_floorlog [of 2 "numeral k"] by simp

lemma floorlog2_small [fp_eval]: "floorlog 2 0 = 0" "floorlog 2 (Suc 0) = 1" "floorlog 2 1 = 1"
  using compute_floorlog [of 2 1] by (simp_all add: floorlog_def)

lemma floor_rat_numeral [fp_eval]:
  "\<lfloor>(numeral a :: rat) / numeral b\<rfloor> = numeral a div numeral b"
  "\<lfloor>(1 :: rat) / numeral b\<rfloor> = 1 div numeral b"
  "\<lfloor>- ((numeral a :: rat) / numeral b)\<rfloor> = (- numeral a) div numeral b"
  "\<lfloor>- ((1 :: rat) / numeral b)\<rfloor> = (- 1) div numeral b"
  using floor_divide_of_int_eq [of "numeral a" "numeral b", where ?'a = rat]
    floor_divide_of_int_eq [of 1 "numeral b", where ?'a = rat]
    floor_divide_of_int_eq [of "- numeral a" "numeral b", where ?'a = rat]
    floor_divide_of_int_eq [of "-1" "numeral b", where ?'a = rat]
  by simp_all

lemma ceiling_rat_numeral [fp_eval]:
  "\<lceil>(numeral a :: rat) / numeral b\<rceil> = - ((- numeral a) div numeral b)"
  "\<lceil>(1 :: rat) / numeral b\<rceil> = - ((- 1) div numeral b)"
  by (simp_all add: ceiling_def fp_eval)

lemma isqrt_numeral [fp_eval]:
  "isqrt (numeral k) = (let s = 2 * isqrt (numeral k div 4) in
     if (s + 1) ^ 2 \<le> numeral k then s + 1 else s)"
  "isqrt 0 = 0" "isqrt (Suc 0) = 1" "isqrt 1 = 1"
  by (simp_all add: isqrt.simps)

lemma powi_eval [fp_eval]: "(2 :: rat) powi e = (if 0 \<le> e then 2 ^ nat e else 1 / 2 ^ nat (- e))"
  by (simp add: power_int_def field_simps)

lemmas fp_defs [fp_eval] =
  fp_rnd_def fp_pack_def grid_def quantum_def rne_def ilog2_def Let_def
  rat_trunc_def rat_round_away_def fp_of_int_def fp_sub_def fp_inf_def sqrt_exp_def
  binary64_def fp_fmax_def fp_fmin_def

end
