(* ===== verification/Nav_Types.thy ===== *)
theory Nav_Types
  imports Ieee_Float
begin

text \<open>
  The data model of \<^verbatim>\<open>core/include/nav/nav_types.h\<close>, \<^verbatim>\<open>nav_events.h\<close> and \<^verbatim>\<open>nav_config.h\<close>: one
  \<^theory_text>\<open>datatype\<close> per enumeration, one \<^theory_text>\<open>record\<close> per structure. Record fields carry a prefix per
  structure, since several C structures share field names.

  An enumeration that the code obtains by casting a byte of a received frame can hold a number
  that no enumerator names. Its datatype has a last constructor \<open>\<dots>_RAW n\<close> for these values, and the
  functions \<open>\<dots>_code\<close> and \<open>\<dots>_of_code\<close> are the two conversions; the remaining enumerations only
  take named values. \<^verbatim>\<open>size_t\<close> counters are \<open>nat\<close>; \<^verbatim>\<open>float\<close> and \<^verbatim>\<open>double\<close> are \<^typ>\<open>fp\<close>.
\<close>

abbreviation (input) NAV_MAX_NODES :: nat where "NAV_MAX_NODES \<equiv> 4"
abbreviation (input) NAV_TRILAT_ANCHOR_COUNT :: nat where "NAV_TRILAT_ANCHOR_COUNT \<equiv> 3"
abbreviation (input) NAV_INVALID_NODE_ID :: u8 where "NAV_INVALID_NODE_ID \<equiv> 255"

section \<open>Enumerations\<close>

datatype nav_status = NAV_STATUS_OK | NAV_STATUS_INVALID_ARGUMENT | NAV_STATUS_NOT_FOUND
  | NAV_STATUS_NO_SPACE | NAV_STATUS_BAD_FRAME | NAV_STATUS_NOT_IMPLEMENTED
  | NAV_STATUS_INTERNAL_ERROR

datatype nav_mode = NAV_MODE_BOOT | NAV_MODE_GNSS_ACQUIRE | NAV_MODE_GNSS_OK
  | NAV_MODE_GNSS_SUSPECT | NAV_MODE_GPS_DENIED | NAV_MODE_RADIO_NAV_OK
  | NAV_MODE_RADIO_NAV_DEGRADED | NAV_MODE_NO_NAV_SOLUTION | NAV_MODE_DEMO_FORCED_DENIED
  | NAV_MODE_RAW int

datatype nav_solution_status = NAV_SOLUTION_NONE | NAV_SOLUTION_GNSS_DIRECT | NAV_SOLUTION_RADIO_3D
  | NAV_SOLUTION_DEGRADED | NAV_SOLUTION_REJECTED | NAV_SOLUTION_RAW int

datatype nav_solution_source = NAV_SOURCE_NONE | NAV_SOURCE_LOCAL_GNSS | NAV_SOURCE_RADIO_3D
  | NAV_SOURCE_REPLAY | NAV_SOURCE_SIM | NAV_SOURCE_RAW int

datatype nav_reject_reason = NAV_REJECT_NONE | NAV_REJECT_STALE_TELEMETRY | NAV_REJECT_STALE_RANGE
  | NAV_REJECT_BAD_GNSS | NAV_REJECT_BAD_POSITION | NAV_REJECT_BAD_RANGE_SIGMA
  | NAV_REJECT_RANGE_OUTLIER | NAV_REJECT_BAD_GEOMETRY | NAV_REJECT_NOT_ENOUGH_ANCHORS
  | NAV_REJECT_MISSING_LOCAL_ALTITUDE | NAV_REJECT_TRILATERATION_FAILED

datatype nav_gnss_fix_type = NAV_GNSS_FIX_NONE | NAV_GNSS_FIX_2D | NAV_GNSS_FIX_3D
  | NAV_GNSS_FIX_RTK_FLOAT | NAV_GNSS_FIX_RTK_FIXED | NAV_GNSS_FIX_RAW int

datatype nav_altitude_source = NAV_ALT_SOURCE_NONE | NAV_ALT_SOURCE_GNSS | NAV_ALT_SOURCE_BARO
  | NAV_ALT_SOURCE_FC | NAV_ALT_SOURCE_SIM | NAV_ALT_SOURCE_MANUAL

datatype nav_range_fail_reason = NAV_RANGE_FAIL_NONE | NAV_RANGE_FAIL_TIMEOUT
  | NAV_RANGE_FAIL_NO_RESPONSE | NAV_RANGE_FAIL_RADIO_BUSY | NAV_RANGE_FAIL_BAD_FRAME
  | NAV_RANGE_FAIL_RANGING_ENGINE_ERROR | NAV_RANGE_FAIL_ABORTED | NAV_RANGE_FAIL_UNKNOWN
  | NAV_RANGE_FAIL_RAW int

datatype nav_radio_solve_outcome = NAV_RADIO_SOLVE_NONE | NAV_RADIO_SOLVE_GNSS_DIRECT
  | NAV_RADIO_SOLVE_SOLVED | NAV_RADIO_SOLVE_REJECTED | NAV_RADIO_SOLVE_SKIPPED_CADENCE
  | NAV_RADIO_SOLVE_SKIPPED_UNCHANGED_INPUTS

subsection \<open>Codes of the enumerations that travel on the wire\<close>

fun nav_mode_code :: "nav_mode \<Rightarrow> int" where
  "nav_mode_code NAV_MODE_BOOT = 0"
| "nav_mode_code NAV_MODE_GNSS_ACQUIRE = 1"
| "nav_mode_code NAV_MODE_GNSS_OK = 2"
| "nav_mode_code NAV_MODE_GNSS_SUSPECT = 3"
| "nav_mode_code NAV_MODE_GPS_DENIED = 4"
| "nav_mode_code NAV_MODE_RADIO_NAV_OK = 5"
| "nav_mode_code NAV_MODE_RADIO_NAV_DEGRADED = 6"
| "nav_mode_code NAV_MODE_NO_NAV_SOLUTION = 7"
| "nav_mode_code NAV_MODE_DEMO_FORCED_DENIED = 8"
| "nav_mode_code (NAV_MODE_RAW n) = n"

definition nav_mode_of_code :: "int \<Rightarrow> nav_mode" where
  "nav_mode_of_code n = (if n = 0 then NAV_MODE_BOOT else if n = 1 then NAV_MODE_GNSS_ACQUIRE
     else if n = 2 then NAV_MODE_GNSS_OK else if n = 3 then NAV_MODE_GNSS_SUSPECT
     else if n = 4 then NAV_MODE_GPS_DENIED else if n = 5 then NAV_MODE_RADIO_NAV_OK
     else if n = 6 then NAV_MODE_RADIO_NAV_DEGRADED else if n = 7 then NAV_MODE_NO_NAV_SOLUTION
     else if n = 8 then NAV_MODE_DEMO_FORCED_DENIED else NAV_MODE_RAW n)"

fun nav_solution_status_code :: "nav_solution_status \<Rightarrow> int" where
  "nav_solution_status_code NAV_SOLUTION_NONE = 0"
| "nav_solution_status_code NAV_SOLUTION_GNSS_DIRECT = 1"
| "nav_solution_status_code NAV_SOLUTION_RADIO_3D = 2"
| "nav_solution_status_code NAV_SOLUTION_DEGRADED = 3"
| "nav_solution_status_code NAV_SOLUTION_REJECTED = 4"
| "nav_solution_status_code (NAV_SOLUTION_RAW n) = n"

definition nav_solution_status_of_code :: "int \<Rightarrow> nav_solution_status" where
  "nav_solution_status_of_code n = (if n = 0 then NAV_SOLUTION_NONE
     else if n = 1 then NAV_SOLUTION_GNSS_DIRECT else if n = 2 then NAV_SOLUTION_RADIO_3D
     else if n = 3 then NAV_SOLUTION_DEGRADED else if n = 4 then NAV_SOLUTION_REJECTED
     else NAV_SOLUTION_RAW n)"

fun nav_solution_source_code :: "nav_solution_source \<Rightarrow> int" where
  "nav_solution_source_code NAV_SOURCE_NONE = 0"
| "nav_solution_source_code NAV_SOURCE_LOCAL_GNSS = 1"
| "nav_solution_source_code NAV_SOURCE_RADIO_3D = 2"
| "nav_solution_source_code NAV_SOURCE_REPLAY = 3"
| "nav_solution_source_code NAV_SOURCE_SIM = 4"
| "nav_solution_source_code (NAV_SOURCE_RAW n) = n"

definition nav_solution_source_of_code :: "int \<Rightarrow> nav_solution_source" where
  "nav_solution_source_of_code n = (if n = 0 then NAV_SOURCE_NONE
     else if n = 1 then NAV_SOURCE_LOCAL_GNSS else if n = 2 then NAV_SOURCE_RADIO_3D
     else if n = 3 then NAV_SOURCE_REPLAY else if n = 4 then NAV_SOURCE_SIM
     else NAV_SOURCE_RAW n)"

fun nav_gnss_fix_type_code :: "nav_gnss_fix_type \<Rightarrow> int" where
  "nav_gnss_fix_type_code NAV_GNSS_FIX_NONE = 0"
| "nav_gnss_fix_type_code NAV_GNSS_FIX_2D = 2"
| "nav_gnss_fix_type_code NAV_GNSS_FIX_3D = 3"
| "nav_gnss_fix_type_code NAV_GNSS_FIX_RTK_FLOAT = 4"
| "nav_gnss_fix_type_code NAV_GNSS_FIX_RTK_FIXED = 5"
| "nav_gnss_fix_type_code (NAV_GNSS_FIX_RAW n) = n"

definition nav_gnss_fix_type_of_code :: "int \<Rightarrow> nav_gnss_fix_type" where
  "nav_gnss_fix_type_of_code n = (if n = 0 then NAV_GNSS_FIX_NONE
     else if n = 2 then NAV_GNSS_FIX_2D else if n = 3 then NAV_GNSS_FIX_3D
     else if n = 4 then NAV_GNSS_FIX_RTK_FLOAT else if n = 5 then NAV_GNSS_FIX_RTK_FIXED
     else NAV_GNSS_FIX_RAW n)"

fun nav_range_fail_reason_code :: "nav_range_fail_reason \<Rightarrow> int" where
  "nav_range_fail_reason_code NAV_RANGE_FAIL_NONE = 0"
| "nav_range_fail_reason_code NAV_RANGE_FAIL_TIMEOUT = 1"
| "nav_range_fail_reason_code NAV_RANGE_FAIL_NO_RESPONSE = 2"
| "nav_range_fail_reason_code NAV_RANGE_FAIL_RADIO_BUSY = 3"
| "nav_range_fail_reason_code NAV_RANGE_FAIL_BAD_FRAME = 4"
| "nav_range_fail_reason_code NAV_RANGE_FAIL_RANGING_ENGINE_ERROR = 5"
| "nav_range_fail_reason_code NAV_RANGE_FAIL_ABORTED = 6"
| "nav_range_fail_reason_code NAV_RANGE_FAIL_UNKNOWN = 7"
| "nav_range_fail_reason_code (NAV_RANGE_FAIL_RAW n) = n"

definition nav_range_fail_reason_of_code :: "int \<Rightarrow> nav_range_fail_reason" where
  "nav_range_fail_reason_of_code n = (if n = 0 then NAV_RANGE_FAIL_NONE
     else if n = 1 then NAV_RANGE_FAIL_TIMEOUT else if n = 2 then NAV_RANGE_FAIL_NO_RESPONSE
     else if n = 3 then NAV_RANGE_FAIL_RADIO_BUSY else if n = 4 then NAV_RANGE_FAIL_BAD_FRAME
     else if n = 5 then NAV_RANGE_FAIL_RANGING_ENGINE_ERROR
     else if n = 6 then NAV_RANGE_FAIL_ABORTED else if n = 7 then NAV_RANGE_FAIL_UNKNOWN
     else NAV_RANGE_FAIL_RAW n)"

text \<open>A cast from a number and back gives the number.\<close>

lemma code_of_code [enum_simps, simp]:
  "nav_mode_code (nav_mode_of_code n) = n"
  "nav_solution_status_code (nav_solution_status_of_code n) = n"
  "nav_solution_source_code (nav_solution_source_of_code n) = n"
  "nav_gnss_fix_type_code (nav_gnss_fix_type_of_code n) = n"
  "nav_range_fail_reason_code (nav_range_fail_reason_of_code n) = n"
  by (simp_all add: nav_mode_of_code_def nav_solution_status_of_code_def
      nav_solution_source_of_code_def nav_gnss_fix_type_of_code_def nav_range_fail_reason_of_code_def)

text \<open>
  What the codec of a message relies on: a byte decodes to the value whose code it is. A value is
  \<open>on_wire\<close> when its code fits a byte and no enumerator hides behind a \<open>RAW\<close> constructor.
\<close>

locale wire_enum =
  fixes code :: "'e \<Rightarrow> int" and of_code :: "int \<Rightarrow> 'e"
  assumes code_of_code: "code (of_code n) = n"
begin

definition on_wire :: "'e \<Rightarrow> bool" where
  "on_wire e \<longleftrightarrow> of_code (code e) = e \<and> 0 \<le> code e \<and> code e < 256"

lemma byte_round_trip: "on_wire e \<Longrightarrow> of_code (uint (word_of_int (code e) :: u8)) = e"
  by (simp add: on_wire_def uint_word_of_int)

lemma on_wire_of_byte: "on_wire (of_code (uint (b :: u8)))"
proof -
  have "uint b < 256" using uint_bounded [of b] by simp
  then show ?thesis by (simp add: on_wire_def code_of_code)
qed

lemma byte_code: "word_of_int (code (of_code (uint (b :: u8)))) = b"
  by (simp add: code_of_code)

end

interpretation mode_w: wire_enum nav_mode_code nav_mode_of_code
  by unfold_locales simp
interpretation status_w: wire_enum nav_solution_status_code nav_solution_status_of_code
  by unfold_locales simp
interpretation source_w: wire_enum nav_solution_source_code nav_solution_source_of_code
  by unfold_locales simp
interpretation fix_w: wire_enum nav_gnss_fix_type_code nav_gnss_fix_type_of_code
  by unfold_locales simp
interpretation fail_w: wire_enum nav_range_fail_reason_code nav_range_fail_reason_of_code
  by unfold_locales simp

section \<open>Structures\<close>

record nav_position =
  lat_e7 :: i32
  lon_e7 :: i32
  alt_mm :: i32

record nav_velocity =
  vel_n_mmps :: i32
  vel_e_mmps :: i32
  vel_d_mmps :: i32

record nav_gnss_sample =
  gs_node_id :: u8
  gs_timestamp_ms :: u32
  gs_position :: nav_position
  gs_velocity :: nav_velocity
  gs_fix_type :: nav_gnss_fix_type
  gs_valid :: bool
  gs_satellites :: u8
  gs_hdop_centi :: u16
  gs_hacc_mm :: u32
  gs_vacc_mm :: u32

record nav_local_altitude =
  la_alt_mm :: i32
  la_timestamp_ms :: u32
  la_source :: nav_altitude_source
  la_valid :: bool

record nav_peer_telemetry =
  pt_node_id :: u8
  pt_packet_seq :: u32
  pt_timestamp_ms :: u32
  pt_position :: nav_position
  pt_velocity :: nav_velocity
  pt_fix_type :: nav_gnss_fix_type
  pt_gnss_valid :: bool
  pt_satellites :: u8
  pt_hdop_centi :: u16
  pt_hacc_mm :: u32
  pt_vacc_mm :: u32
  pt_nav_mode :: nav_mode
  pt_solution_status :: nav_solution_status
  pt_solution_source :: nav_solution_source

record nav_peer_beacon_rx =
  br_telemetry :: nav_peer_telemetry
  br_rssi_dbm :: i16
  br_snr_db :: i16

record nav_range_result =
  rr_peer_id :: u8
  rr_request_id :: u16
  rr_timestamp_ms :: u32
  rr_range_mm :: u32
  rr_range_sigma_mm :: u32
  rr_rssi_dbm :: i16
  rr_snr_db :: i16
  rr_valid :: bool

record nav_range_failure =
  rf_peer_id :: u8
  rf_request_id :: u16
  rf_timestamp_ms :: u32
  rf_reason :: nav_range_fail_reason

record nav_debug_enable =
  de_origin_node_id :: u8
  de_ttl_ms :: u16

record nav_node_quality_report =
  qr_node_id :: u8
  qr_nav_mode :: nav_mode
  qr_solution_status :: nav_solution_status
  qr_solution_source :: nav_solution_source
  qr_num_anchors :: u8
  qr_anchor_ids :: "u8 list"
  qr_fix_type :: nav_gnss_fix_type
  qr_satellites :: u8
  qr_geometry_score :: fp
  qr_total_quality :: fp
  qr_residual_rms_mm :: u32
  qr_max_residual_mm :: u32
  qr_hdop_centi :: u16
  qr_hacc_mm :: u32
  qr_vacc_mm :: u32
  qr_position :: nav_position
  qr_packet_seq :: u32

record nav_anchor =
  an_node_id :: u8
  an_lat_e7 :: i32
  an_lon_e7 :: i32
  an_alt_mm :: i32
  an_range_mm :: u32
  an_range_sigma_mm :: u32
  an_quality :: fp
  an_reject_reason :: nav_reject_reason

record nav_anchor_selection =
  sel_anchors :: "nav_anchor list"
  sel_count :: nat
  sel_reject_reason :: nav_reject_reason
  sel_rejected_node_ids :: "u8 list"
  sel_rejected_reasons :: "nav_reject_reason list"
  sel_rejected_count :: nat

record nav_snapshot =
  sn_node_id :: u8
  sn_time_ms :: u32
  sn_nav_mode :: nav_mode
  sn_solution_status :: nav_solution_status
  sn_solution_source :: nav_solution_source
  sn_position :: nav_position
  sn_hacc_mm :: u32
  sn_vacc_mm :: u32
  sn_num_anchors :: u8
  sn_selected_anchor_node_ids :: "u8 list"
  sn_anchor_residuals_mm :: "i32 list"
  sn_rejected_node_ids :: "u8 list"
  sn_rejected_reasons :: "nav_reject_reason list"
  sn_rejected_count :: nat
  sn_residual_rms_m :: fp
  sn_max_residual_m :: fp
  sn_geometry_score :: fp
  sn_anchor_triangle_area_m2 :: fp
  sn_total_quality :: fp
  sn_reject_reason :: nav_reject_reason
  sn_altitude_source :: nav_altitude_source
  sn_local_altitude_valid :: bool
  sn_local_gnss_present :: bool
  sn_local_gnss_valid :: bool
  sn_local_gnss_used :: bool
  sn_local_gnss_age_ms :: u32
  sn_local_gnss_fix_type :: nav_gnss_fix_type
  sn_local_gnss_satellites :: u8
  sn_local_gnss_hdop_centi :: u16
  sn_local_gnss_hacc_mm :: u32
  sn_local_gnss_vacc_mm :: u32
  sn_local_gnss_position :: nav_position
  sn_radio_solve_outcome :: nav_radio_solve_outcome
  sn_radio_solve_age_ms :: u32
  sn_radio_solve_elapsed_ms :: u32
  sn_radio_solve_interval_ms :: u32
  sn_radio_solve_generation :: u32
  sn_radio_solve_last_generation :: u32

subsection \<open>Events and configuration\<close>

datatype nav_config_command_type = NAV_CONFIG_CMD_NONE | NAV_CONFIG_CMD_FORCE_GPS_DENIED
  | NAV_CONFIG_CMD_USE_GNSS

text \<open>The tagged union \<^verbatim>\<open>nav_event_t\<close>: the tag and the member it selects.\<close>

datatype nav_event_data =
    NAV_EVT_NONE
  | NAV_EVT_TICK
  | NAV_EVT_LOCAL_GNSS_SAMPLE nav_gnss_sample
  | NAV_EVT_LOCAL_ALTITUDE_SAMPLE nav_local_altitude
  | NAV_EVT_PEER_TELEMETRY_RX nav_peer_beacon_rx
  | NAV_EVT_RANGE_RESULT nav_range_result
  | NAV_EVT_RANGE_FAIL nav_range_failure
  | NAV_EVT_CONFIG_COMMAND nav_config_command_type bool

record nav_event =
  ev_timestamp_ms :: u32
  ev_data :: nav_event_data

record nav_config =
  cfg_local_node_id :: u8
  cfg_telemetry_ttl_ms :: u32
  cfg_range_ttl_ms :: u32
  cfg_local_altitude_ttl_ms :: u32
  cfg_tick_period_ms :: u32
  cfg_radio_solve_interval_ms :: u32
  cfg_max_range_sigma_mm :: u32
  cfg_min_anchor_quality :: fp
  cfg_min_solution_quality :: fp
  cfg_max_residual_rms_m :: fp
  cfg_max_residual_m :: fp
  cfg_min_anchor_triangle_area_m2 :: fp
  cfg_degraded_anchor_triangle_area_m2 :: fp
  cfg_demo_force_gps_denied :: bool
  cfg_allow_gnss_altitude_in_demo_forced_denied :: bool
  cfg_ignore_altitude_for_radio_solve :: bool
  cfg_retain_last_range_on_failure :: bool

subsection \<open>Zero-initialised structures\<close>

text \<open>The values a \<^verbatim>\<open>memset(\<dots>, 0, \<dots>)\<close> or an \<^verbatim>\<open>= {0}\<close> initialiser leaves.\<close>

definition nav_position_zero :: nav_position where
  "nav_position_zero = \<lparr>lat_e7 = 0, lon_e7 = 0, alt_mm = 0\<rparr>"

definition nav_velocity_zero :: nav_velocity where
  "nav_velocity_zero = \<lparr>vel_n_mmps = 0, vel_e_mmps = 0, vel_d_mmps = 0\<rparr>"

definition nav_gnss_sample_zero :: nav_gnss_sample where
  "nav_gnss_sample_zero = \<lparr>gs_node_id = 0, gs_timestamp_ms = 0, gs_position = nav_position_zero,
     gs_velocity = nav_velocity_zero, gs_fix_type = NAV_GNSS_FIX_NONE, gs_valid = False,
     gs_satellites = 0, gs_hdop_centi = 0, gs_hacc_mm = 0, gs_vacc_mm = 0\<rparr>"

definition nav_local_altitude_zero :: nav_local_altitude where
  "nav_local_altitude_zero = \<lparr>la_alt_mm = 0, la_timestamp_ms = 0,
     la_source = NAV_ALT_SOURCE_NONE, la_valid = False\<rparr>"

end
