(* ===== verification/Nav_Radio_Protocol.thy ===== *)
theory Nav_Radio_Protocol
  imports Nav_Types
begin

text \<open>
  \<^verbatim>\<open>core/src/nav_radio_protocol.c\<close>: the frame envelope \<open>magic, type, sequence, length, payload\<close>.
  A buffer argument is the list of the bytes it points at, a \<^verbatim>\<open>payload\<close> pointer is the list of the
  bytes from that address to the end of the object it points into, or \<open>None\<close> for \<^verbatim>\<open>NULL\<close>. All
  accesses are checked, so the results of type \<open>option\<close> are \<open>None\<close> when the C program would read or
  write outside a buffer. The lemmas give the exact effect of an encode on the output buffer, the
  round trip, and that a decoded frame re-encodes to the bytes it came from.
\<close>

abbreviation (input) NAV_RADIO_MAX_FRAME_BYTES :: nat where "NAV_RADIO_MAX_FRAME_BYTES \<equiv> 128"
abbreviation (input) NAV_RADIO_HEADER_LEN :: nat where "NAV_RADIO_HEADER_LEN \<equiv> 6"
abbreviation (input) NAV_RADIO_MAGIC0 :: u8 where "NAV_RADIO_MAGIC0 \<equiv> 0x4e"
abbreviation (input) NAV_RADIO_MAGIC1 :: u8 where "NAV_RADIO_MAGIC1 \<equiv> 0x52"

section \<open>Message types and frames\<close>

datatype nav_radio_message_type = NAV_RADIO_MSG_SET_NODE_ID | NAV_RADIO_MSG_SET_CONFIG
  | NAV_RADIO_MSG_SET_SLOT_CONFIG | NAV_RADIO_MSG_SEND_BEACON | NAV_RADIO_MSG_REQUEST_RANGE
  | NAV_RADIO_MSG_GET_STATUS | NAV_RADIO_MSG_RESET | NAV_RADIO_MSG_HEARTBEAT
  | NAV_RADIO_MSG_STATUS | NAV_RADIO_MSG_BEACON_RX | NAV_RADIO_MSG_RANGE_RESULT
  | NAV_RADIO_MSG_RANGE_FAIL | NAV_RADIO_MSG_STATS | NAV_RADIO_MSG_LOG_TEXT
  | NAV_RADIO_MSG_DEBUG_ENABLE | NAV_RADIO_MSG_NODE_QUALITY_REPORT | NAV_RADIO_MSG_RAW int

fun nav_radio_message_type_code :: "nav_radio_message_type \<Rightarrow> int" where
  "nav_radio_message_type_code NAV_RADIO_MSG_SET_NODE_ID = 1"
| "nav_radio_message_type_code NAV_RADIO_MSG_SET_CONFIG = 2"
| "nav_radio_message_type_code NAV_RADIO_MSG_SET_SLOT_CONFIG = 3"
| "nav_radio_message_type_code NAV_RADIO_MSG_SEND_BEACON = 4"
| "nav_radio_message_type_code NAV_RADIO_MSG_REQUEST_RANGE = 5"
| "nav_radio_message_type_code NAV_RADIO_MSG_GET_STATUS = 6"
| "nav_radio_message_type_code NAV_RADIO_MSG_RESET = 7"
| "nav_radio_message_type_code NAV_RADIO_MSG_HEARTBEAT = 64"
| "nav_radio_message_type_code NAV_RADIO_MSG_STATUS = 65"
| "nav_radio_message_type_code NAV_RADIO_MSG_BEACON_RX = 66"
| "nav_radio_message_type_code NAV_RADIO_MSG_RANGE_RESULT = 67"
| "nav_radio_message_type_code NAV_RADIO_MSG_RANGE_FAIL = 68"
| "nav_radio_message_type_code NAV_RADIO_MSG_STATS = 69"
| "nav_radio_message_type_code NAV_RADIO_MSG_LOG_TEXT = 70"
| "nav_radio_message_type_code NAV_RADIO_MSG_DEBUG_ENABLE = 71"
| "nav_radio_message_type_code NAV_RADIO_MSG_NODE_QUALITY_REPORT = 72"
| "nav_radio_message_type_code (NAV_RADIO_MSG_RAW n) = n"

definition nav_radio_message_type_of_code :: "int \<Rightarrow> nav_radio_message_type" where
  "nav_radio_message_type_of_code n =
     (if n = 1 then NAV_RADIO_MSG_SET_NODE_ID else if n = 2 then NAV_RADIO_MSG_SET_CONFIG
      else if n = 3 then NAV_RADIO_MSG_SET_SLOT_CONFIG else if n = 4 then NAV_RADIO_MSG_SEND_BEACON
      else if n = 5 then NAV_RADIO_MSG_REQUEST_RANGE else if n = 6 then NAV_RADIO_MSG_GET_STATUS
      else if n = 7 then NAV_RADIO_MSG_RESET else if n = 64 then NAV_RADIO_MSG_HEARTBEAT
      else if n = 65 then NAV_RADIO_MSG_STATUS else if n = 66 then NAV_RADIO_MSG_BEACON_RX
      else if n = 67 then NAV_RADIO_MSG_RANGE_RESULT else if n = 68 then NAV_RADIO_MSG_RANGE_FAIL
      else if n = 69 then NAV_RADIO_MSG_STATS else if n = 70 then NAV_RADIO_MSG_LOG_TEXT
      else if n = 71 then NAV_RADIO_MSG_DEBUG_ENABLE
      else if n = 72 then NAV_RADIO_MSG_NODE_QUALITY_REPORT else NAV_RADIO_MSG_RAW n)"

interpretation msg_w: wire_enum nav_radio_message_type_code nav_radio_message_type_of_code
  by unfold_locales (simp add: nav_radio_message_type_of_code_def)

record nav_radio_frame =
  fr_type :: nav_radio_message_type
  fr_frame_seq :: u16
  fr_payload :: "u8 list option"
  fr_payload_len :: nat

fun nav_radio_message_type_to_string :: "nav_radio_message_type \<Rightarrow> string" where
  "nav_radio_message_type_to_string NAV_RADIO_MSG_SET_NODE_ID = ''SET_NODE_ID''"
| "nav_radio_message_type_to_string NAV_RADIO_MSG_SET_CONFIG = ''SET_CONFIG''"
| "nav_radio_message_type_to_string NAV_RADIO_MSG_SET_SLOT_CONFIG = ''SET_SLOT_CONFIG''"
| "nav_radio_message_type_to_string NAV_RADIO_MSG_SEND_BEACON = ''SEND_BEACON''"
| "nav_radio_message_type_to_string NAV_RADIO_MSG_REQUEST_RANGE = ''REQUEST_RANGE''"
| "nav_radio_message_type_to_string NAV_RADIO_MSG_GET_STATUS = ''GET_STATUS''"
| "nav_radio_message_type_to_string NAV_RADIO_MSG_RESET = ''RESET''"
| "nav_radio_message_type_to_string NAV_RADIO_MSG_HEARTBEAT = ''HEARTBEAT''"
| "nav_radio_message_type_to_string NAV_RADIO_MSG_STATUS = ''STATUS''"
| "nav_radio_message_type_to_string NAV_RADIO_MSG_BEACON_RX = ''BEACON_RX''"
| "nav_radio_message_type_to_string NAV_RADIO_MSG_RANGE_RESULT = ''RANGE_RESULT''"
| "nav_radio_message_type_to_string NAV_RADIO_MSG_RANGE_FAIL = ''RANGE_FAIL''"
| "nav_radio_message_type_to_string NAV_RADIO_MSG_STATS = ''STATS''"
| "nav_radio_message_type_to_string NAV_RADIO_MSG_LOG_TEXT = ''LOG_TEXT''"
| "nav_radio_message_type_to_string NAV_RADIO_MSG_DEBUG_ENABLE = ''DEBUG_ENABLE''"
| "nav_radio_message_type_to_string NAV_RADIO_MSG_NODE_QUALITY_REPORT = ''NODE_QUALITY_REPORT''"
| "nav_radio_message_type_to_string (NAV_RADIO_MSG_RAW n) = ''UNKNOWN''"

section \<open>Decoding and encoding\<close>

definition nav_radio_decode_frame ::
  "u8 list option \<Rightarrow> nat \<Rightarrow> nav_radio_frame \<Rightarrow> (nav_status \<times> nav_radio_frame) option" where
  "nav_radio_decode_frame bytes len out = (case bytes of
     None \<Rightarrow> Some (NAV_STATUS_INVALID_ARGUMENT, out)
   | Some b \<Rightarrow>
      if len < NAV_RADIO_HEADER_LEN then Some (NAV_STATUS_BAD_FRAME, out)
      else do {
        b0 \<leftarrow> mem_read b 0;
        if b0 \<noteq> NAV_RADIO_MAGIC0 then Some (NAV_STATUS_BAD_FRAME, out)
        else do {
          b1 \<leftarrow> mem_read b 1;
          if b1 \<noteq> NAV_RADIO_MAGIC1 then Some (NAV_STATUS_BAD_FRAME, out)
          else do {
            b5 \<leftarrow> mem_read b 5;
            let payload_len = unat b5;
            if payload_len > NAV_RADIO_MAX_FRAME_BYTES \<or> len \<noteq> NAV_RADIO_HEADER_LEN + payload_len
            then Some (NAV_STATUS_BAD_FRAME, out)
            else do {
              b2 \<leftarrow> mem_read b 2;
              b3 \<leftarrow> mem_read b 3;
              b4 \<leftarrow> mem_read b 4;
              Some (NAV_STATUS_OK, out
                \<lparr>fr_type := nav_radio_message_type_of_code (uint b2),
                 fr_frame_seq := ucast b3 OR push_bit 8 (ucast b4),
                 fr_payload := Some (drop NAV_RADIO_HEADER_LEN b),
                 fr_payload_len := payload_len\<rparr>)
            }
          }
        }
      })"

fun encode_payload :: "u8 list option \<Rightarrow> nat \<Rightarrow> nat \<Rightarrow> u8 list \<Rightarrow> u8 list option" where
  "encode_payload payload i 0 out = Some out"
| "encode_payload payload i (Suc left) out = do {
     v \<leftarrow> (case payload of None \<Rightarrow> Some 0 | Some p \<Rightarrow> mem_read p i);
     out' \<leftarrow> mem_write out (NAV_RADIO_HEADER_LEN + i) v;
     encode_payload payload (Suc i) left out'
   }"

definition nav_radio_encode_frame ::
  "nav_radio_frame option \<Rightarrow> u8 list \<Rightarrow> nat \<Rightarrow> nat \<Rightarrow> (nav_status \<times> u8 list \<times> nat) option" where
  "nav_radio_encode_frame frame out out_capacity out_len = (case frame of
     None \<Rightarrow> Some (NAV_STATUS_INVALID_ARGUMENT, out, out_len)
   | Some f \<Rightarrow>
      if fr_payload_len f > NAV_RADIO_MAX_FRAME_BYTES
         \<or> out_capacity < NAV_RADIO_HEADER_LEN + fr_payload_len f
      then Some (NAV_STATUS_BAD_FRAME, out, out_len)
      else do {
        o1 \<leftarrow> mem_write out 0 NAV_RADIO_MAGIC0;
        o2 \<leftarrow> mem_write o1 1 NAV_RADIO_MAGIC1;
        o3 \<leftarrow> mem_write o2 2 (word_of_int (nav_radio_message_type_code (fr_type f)));
        o4 \<leftarrow> mem_write o3 3 (ucast (fr_frame_seq f AND 0xFF));
        o5 \<leftarrow> mem_write o4 4 (ucast (drop_bit 8 (fr_frame_seq f)));
        o6 \<leftarrow> mem_write o5 5 (of_nat (fr_payload_len f));
        o7 \<leftarrow> encode_payload (fr_payload f) 0 (fr_payload_len f) o6;
        Some (NAV_STATUS_OK, o7, NAV_RADIO_HEADER_LEN + fr_payload_len f)
      })"

section \<open>The wire image of a frame\<close>

definition payload_bytes :: "nav_radio_frame \<Rightarrow> u8 list" where
  "payload_bytes f = (case fr_payload f of
     None \<Rightarrow> replicate (fr_payload_len f) 0 | Some p \<Rightarrow> take (fr_payload_len f) p)"

definition frame_bytes :: "nav_radio_frame \<Rightarrow> u8 list" where
  "frame_bytes f = [NAV_RADIO_MAGIC0, NAV_RADIO_MAGIC1,
     word_of_int (nav_radio_message_type_code (fr_type f)), ucast (fr_frame_seq f AND 0xFF),
     ucast (drop_bit 8 (fr_frame_seq f)), of_nat (fr_payload_len f)] @ payload_bytes f"

text \<open>A frame whose payload pointer, when it is one, covers the announced length.\<close>

definition frame_ok :: "nav_radio_frame \<Rightarrow> bool" where
  "frame_ok f \<longleftrightarrow> (case fr_payload f of None \<Rightarrow> True | Some p \<Rightarrow> fr_payload_len f \<le> length p)"

lemma length_payload_bytes: "frame_ok f \<Longrightarrow> length (payload_bytes f) = fr_payload_len f"
  by (auto simp: frame_ok_def payload_bytes_def split: option.splits)

lemma length_frame_bytes: "frame_ok f \<Longrightarrow> length (frame_bytes f) = 6 + fr_payload_len f"
  by (simp add: frame_bytes_def length_payload_bytes)

lemma encode_payload_spec:
  "length out \<ge> 6 + i + n \<Longrightarrow> (\<forall>p. payload = Some p \<longrightarrow> i + n \<le> length p) \<Longrightarrow>
   encode_payload payload i n out = Some (take (6 + i) out @
     (case payload of None \<Rightarrow> replicate n 0 | Some p \<Rightarrow> take n (drop i p)) @ drop (6 + i + n) out)"
proof (induction n arbitrary: i out)
  case (Suc n)
  define v where "v = (case payload of None \<Rightarrow> 0 | Some p \<Rightarrow> p ! i)"
  have rd: "(case payload of None \<Rightarrow> Some 0 | Some p \<Rightarrow> mem_read p i) = Some v"
    using Suc.prems(2) by (auto simp: v_def mem_simps split: option.splits)
  have body: "(case payload of None \<Rightarrow> replicate (Suc n) 0 | Some p \<Rightarrow> take (Suc n) (drop i p))
      = v # (case payload of None \<Rightarrow> replicate n 0 | Some p \<Rightarrow> take n (drop (Suc i) p))"
    using Suc.prems(2) by (auto simp: v_def Cons_nth_drop_Suc [symmetric] split: option.splits)
  have "take (Suc (6 + i)) (out[6 + i := v]) = take (6 + i) out @ [v]"
    using Suc.prems(1) by (intro take_Suc_update) simp
  then show ?case using Suc by (simp add: rd mem_simps body add.assoc)
qed (auto split: option.split)

lemma encode_frame_eq:
  assumes "frame_ok f" "fr_payload_len f \<le> 128" "6 + fr_payload_len f \<le> cap" "cap \<le> length out"
  shows "nav_radio_encode_frame (Some f) out cap out_len =
    Some (NAV_STATUS_OK, frame_bytes f @ drop (6 + fr_payload_len f) out, 6 + fr_payload_len f)"
proof -
  obtain c0 c1 c2 c3 c4 c5 rest where out: "out = c0 # c1 # c2 # c3 # c4 # c5 # rest"
    using assms(3,4) by (elim split6 [of out, rotated]) simp
  then have len: "fr_payload_len f \<le> length rest" using assms(3,4) by simp
  show ?thesis using assms len
    by (simp add: nav_radio_encode_frame_def out mem_write_def encode_payload_spec frame_ok_def
        frame_bytes_def payload_bytes_def split: option.splits)
qed

lemma u8_of_len: "n \<le> 128 \<Longrightarrow> unat (of_nat n :: u8) = n"
  by (simp add: unat_of_nat)

lemma decode_frame_eq:
  assumes "len \<le> length b"
  shows "nav_radio_decode_frame (Some b) len out = Some (
    if 6 \<le> len \<and> b ! 0 = 0x4e \<and> b ! 1 = 0x52 \<and> unat (b ! 5) \<le> 128 \<and> len = 6 + unat (b ! 5)
    then (NAV_STATUS_OK, out\<lparr>fr_type := nav_radio_message_type_of_code (uint (b ! 2)),
        fr_frame_seq := ucast (b ! 3) OR push_bit 8 (ucast (b ! 4)),
        fr_payload := Some (drop 6 b), fr_payload_len := unat (b ! 5)\<rparr>)
    else (NAV_STATUS_BAD_FRAME, out))"
proof (cases "len < 6")
  case False
  then have "0 < length b" "1 < length b" "2 < length b" "3 < length b" "4 < length b" "5 < length b"
    using assms by linarith+
  with False show ?thesis
    by (auto simp only: nav_radio_decode_frame_def mem_read_Some Let_def option.case bind.bind_lunit
        split: if_split)
qed (simp add: nav_radio_decode_frame_def)

lemma decode_frame_bytes:
  assumes "frame_ok f" "fr_payload_len f \<le> 128"
  shows "nav_radio_decode_frame (Some (frame_bytes f @ rest)) (6 + fr_payload_len f) out =
    Some (NAV_STATUS_OK, out\<lparr>fr_type := nav_radio_message_type_of_code
        (uint (word_of_int (nav_radio_message_type_code (fr_type f)) :: u8)),
      fr_frame_seq := fr_frame_seq f, fr_payload := Some (payload_bytes f @ rest),
      fr_payload_len := fr_payload_len f\<rparr>)"
proof -
  have "6 + fr_payload_len f \<le> length (frame_bytes f @ rest)"
    using assms by (simp add: length_frame_bytes)
  then show ?thesis using assms
    by (simp add: decode_frame_eq frame_bytes_def u8_of_len u16_join_split length_payload_bytes
        del: uint_word_of_int)
qed

lemma encode_OK_D:
  assumes "frame_ok f" "cap \<le> length out"
    and "nav_radio_encode_frame (Some f) out cap n0 = Some (NAV_STATUS_OK, sent, n)"
  shows "fr_payload_len f \<le> 128 \<and> 6 + fr_payload_len f \<le> cap \<and>
    sent = frame_bytes f @ drop (6 + fr_payload_len f) out \<and> n = 6 + fr_payload_len f"
proof -
  have fits: "fr_payload_len f \<le> 128 \<and> 6 + fr_payload_len f \<le> cap"
    using assms(3) by (auto simp: nav_radio_encode_frame_def split: if_splits)
  then show ?thesis using encode_frame_eq [OF assms(1), of cap out n0] assms(2,3) by simp
qed

section \<open>Properties\<close>

text \<open>Encoding a frame into a buffer that really has the announced capacity never leaves it:
  it succeeds exactly when the payload has at most 128 bytes and the frame fits the capacity, then
  writes the six header bytes and the payload at the front and leaves every later byte alone, and
  otherwise reports a bad frame and changes nothing.\<close>

theorem encode_frame_spec:
  assumes "frame_ok f" and "cap \<le> length out"
  shows "nav_radio_encode_frame (Some f) out cap out_len = Some (
    if fr_payload_len f \<le> 128 \<and> 6 + fr_payload_len f \<le> cap
    then (NAV_STATUS_OK, frame_bytes f @ drop (6 + fr_payload_len f) out, 6 + fr_payload_len f)
    else (NAV_STATUS_BAD_FRAME, out, out_len))"
proof (cases "fr_payload_len f \<le> 128 \<and> 6 + fr_payload_len f \<le> cap")
  case False
  then show ?thesis by (auto simp: nav_radio_encode_frame_def)
qed (use assms in \<open>simp add: encode_frame_eq\<close>)

text \<open>C19: What one node encodes the other decodes: the bytes of a successfully encoded frame decode
  to the same type, sequence number and payload.\<close>

theorem frame_round_trip:
  assumes "frame_ok f" and "msg_w.on_wire (fr_type f)" and "cap \<le> length out"
    and "nav_radio_encode_frame (Some f) out cap n0 = Some (NAV_STATUS_OK, sent, n)"
  shows "\<exists>g. nav_radio_decode_frame (Some (take n sent)) n g0 = Some (NAV_STATUS_OK, g) \<and>
    fr_type g = fr_type f \<and> fr_frame_seq g = fr_frame_seq f \<and>
    fr_payload g = Some (payload_bytes f) \<and> fr_payload_len g = fr_payload_len f"
proof -
  note enc = encode_OK_D [OF assms(1,3,4)]
  have "take n sent = frame_bytes f @ []"
    using assms(1) enc by (simp add: length_frame_bytes)
  then show ?thesis
    using decode_frame_bytes [OF assms(1), of "[]" g0] assms(2) enc
    by (simp add: msg_w.byte_round_trip del: uint_word_of_int)
qed

text \<open>C35: Decoding is safe and canonical: on any received bytes it never reads outside them, and
  when it accepts, the accepted bytes are exactly the wire image of the frame it returns, so no two
  byte strings decode to the same frame.\<close>

theorem decode_frame_canonical:
  assumes "len \<le> length b"
  shows "\<exists>s g. nav_radio_decode_frame (Some b) len g0 = Some (s, g) \<and>
    (s = NAV_STATUS_OK \<longrightarrow> frame_ok g \<and> len = 6 + fr_payload_len g \<and> take len b = frame_bytes g) \<and>
    (s \<noteq> NAV_STATUS_OK \<longrightarrow> s = NAV_STATUS_BAD_FRAME \<and> g = g0)"
proof (cases "6 \<le> len \<and> b ! 0 = 0x4e \<and> b ! 1 = 0x52 \<and> unat (b ! 5) \<le> 128 \<and> len = 6 + unat (b ! 5)")
  case True
  then have "6 + unat (b ! 5) \<le> length b" using assms by simp
  moreover have "take (6 + unat (b ! 5)) b = [b ! 0, b ! 1, b ! 2, b ! 3, b ! 4, b ! 5]
      @ take (unat (b ! 5)) (drop 6 b)" if "6 \<le> length b"
    using that by (elim split6) simp
  moreover have "unat (b ! 5) \<le> length b - 6" using calculation(1) by linarith
  ultimately show ?thesis using True
    by (simp add: decode_frame_eq frame_ok_def frame_bytes_def payload_bytes_def u16_split_join
        msg_w.byte_code del: drop_bit_or)
qed (use assms in \<open>auto simp: decode_frame_eq\<close>)

section \<open>A concrete frame\<close>

definition ex_frame :: nav_radio_frame where
  "ex_frame = \<lparr>fr_type = NAV_RADIO_MSG_DEBUG_ENABLE, fr_frame_seq = 0x1234,
     fr_payload = Some [2, 0xD0, 0x07, 9], fr_payload_len = 3\<rparr>"

lemma ex_frame_ok: "frame_ok ex_frame" "msg_w.on_wire (fr_type ex_frame)"
  by (simp_all add: frame_ok_def ex_frame_def msg_w.on_wire_def nav_radio_message_type_of_code_def)

theorem encode_frame_spec_witness:
  "nav_radio_encode_frame (Some ex_frame) [0, 0, 0, 0, 0, 0, 0, 0, 0, 0, 0, 0] 10 0 =
     Some (NAV_STATUS_OK, [0x4e, 0x52, 71, 0x34, 0x12, 3, 2, 0xD0, 0x07, 0, 0, 0], 9)"
  using encode_frame_spec [OF ex_frame_ok(1), of 10 "[0, 0, 0, 0, 0, 0, 0, 0, 0, 0, 0, 0]" 0]
  by (simp add: ex_frame_def frame_bytes_def payload_bytes_def)

theorem frame_round_trip_witness:
  "\<exists>g. nav_radio_decode_frame (Some [0x4e, 0x52, 71, 0x34, 0x12, 3, 2, 0xD0, 0x07]) 9 ex_frame
     = Some (NAV_STATUS_OK, g) \<and> fr_payload g = Some [2, 0xD0, 0x07]"
proof -
  have "nav_radio_encode_frame (Some ex_frame) [0, 0, 0, 0, 0, 0, 0, 0, 0, 0, 0, 0] 10 0 =
     Some (NAV_STATUS_OK, [0x4e, 0x52, 71, 0x34, 0x12, 3, 2, 0xD0, 0x07, 0, 0, 0], 9)"
    using encode_frame_eq [OF ex_frame_ok(1), of 10 "[0, 0, 0, 0, 0, 0, 0, 0, 0, 0, 0, 0]" 0]
    by (simp add: ex_frame_def frame_bytes_def payload_bytes_def)
  from frame_round_trip [OF ex_frame_ok _ this, of ex_frame] show ?thesis
    by (auto simp: payload_bytes_def ex_frame_def)
qed

theorem decode_frame_canonical_witness:
  "\<exists>g. nav_radio_decode_frame (Some [0x4e, 0x52, 200, 0, 0, 1, 7]) 7 ex_frame = Some (NAV_STATUS_OK, g) \<and>
     fr_type g = NAV_RADIO_MSG_RAW 200 \<and> frame_bytes g = [0x4e, 0x52, 200, 0, 0, 1, 7]"
proof -
  have d: "nav_radio_decode_frame (Some [0x4e, 0x52, 200, 0, 0, 1, 7]) 7 ex_frame = Some (NAV_STATUS_OK,
      \<lparr>fr_type = NAV_RADIO_MSG_RAW 200, fr_frame_seq = 0, fr_payload = Some [7], fr_payload_len = 1\<rparr>)"
    by (simp add: decode_frame_eq nav_radio_message_type_of_code_def ex_frame_def)
  then show ?thesis
    using decode_frame_canonical [of 7 "[0x4e, 0x52, 200, 0, 0, 1, 7]" ex_frame] by simp
qed

end
