(* ===== verification/Nav_Telemetry.thy ===== *)
theory Nav_Telemetry
  imports Nav_Radio_Protocol
begin

text \<open>
  \<^verbatim>\<open>core/src/nav_telemetry.c\<close>: the little-endian bodies of the radio messages and their mapping to
  core events. A cursor \<open>(b, o)\<close> is the buffer together with the offset that the C threads through
  the calls. The local array \<^verbatim>\<open>payload\<close> of an encoder is not initialised, so the encoders take its
  indeterminate content as an argument \<open>junk\<close>. The locale \<open>field_codec\<close> states what a put and a get
  of one width promise each other; the wire images, the round trips and the memory safety of every
  encoder and decoder rest on its five interpretations.
\<close>

abbreviation (input) NAV_TELEMETRY_BEACON_LEN :: nat where "NAV_TELEMETRY_BEACON_LEN \<equiv> 43"
abbreviation (input) NAV_TELEMETRY_RANGE_RESULT_LEN :: nat where "NAV_TELEMETRY_RANGE_RESULT_LEN \<equiv> 21"
abbreviation (input) NAV_TELEMETRY_RANGE_FAIL_LEN :: nat where "NAV_TELEMETRY_RANGE_FAIL_LEN \<equiv> 13"
abbreviation (input) NAV_TELEMETRY_DEBUG_ENABLE_LEN :: nat where "NAV_TELEMETRY_DEBUG_ENABLE_LEN \<equiv> 3"
abbreviation (input) NAV_TELEMETRY_HEARTBEAT_LEN :: nat where "NAV_TELEMETRY_HEARTBEAT_LEN \<equiv> 18"
abbreviation (input) NAV_TELEMETRY_NODE_QUALITY_REPORT_LEN :: nat
  where "NAV_TELEMETRY_NODE_QUALITY_REPORT_LEN \<equiv> 42"

section \<open>Cursor helpers\<close>

type_synonym cursor = "u8 list \<times> nat"

definition put_u8 :: "cursor \<Rightarrow> u8 \<Rightarrow> cursor option" where
  "put_u8 = (\<lambda>(b, off) v. do { b1 \<leftarrow> mem_write b off v; Some (b1, off + 1) })"

definition put_u16 :: "cursor \<Rightarrow> u16 \<Rightarrow> cursor option" where
  "put_u16 = (\<lambda>(b, off) v. do {
     b1 \<leftarrow> mem_write b off (ucast (v AND 0xFF));
     b2 \<leftarrow> mem_write b1 (off + 1) (ucast (drop_bit 8 v));
     Some (b2, off + 2) })"

definition put_u32 :: "cursor \<Rightarrow> u32 \<Rightarrow> cursor option" where
  "put_u32 = (\<lambda>(b, off) v. do {
     b1 \<leftarrow> mem_write b off (ucast (v AND 0xFF));
     b2 \<leftarrow> mem_write b1 (off + 1) (ucast (drop_bit 8 v AND 0xFF));
     b3 \<leftarrow> mem_write b2 (off + 2) (ucast (drop_bit 16 v AND 0xFF));
     b4 \<leftarrow> mem_write b3 (off + 3) (ucast (drop_bit 24 v AND 0xFF));
     Some (b4, off + 4) })"

definition put_i16 :: "cursor \<Rightarrow> i16 \<Rightarrow> cursor option" where
  "put_i16 c v = put_u16 c v"

definition put_i32 :: "cursor \<Rightarrow> i32 \<Rightarrow> cursor option" where
  "put_i32 c v = put_u32 c v"

definition get_u8 :: "cursor \<Rightarrow> (u8 \<times> cursor) option" where
  "get_u8 = (\<lambda>(b, off). do { v \<leftarrow> mem_read b off; Some (v, (b, off + 1)) })"

definition get_u16 :: "cursor \<Rightarrow> (u16 \<times> cursor) option" where
  "get_u16 = (\<lambda>(b, off). do {
     b0 \<leftarrow> mem_read b off;
     b1 \<leftarrow> mem_read b (off + 1);
     Some (ucast b0 OR push_bit 8 (ucast b1), (b, off + 2)) })"

definition get_u32 :: "cursor \<Rightarrow> (u32 \<times> cursor) option" where
  "get_u32 = (\<lambda>(b, off). do {
     b0 \<leftarrow> mem_read b off;
     b1 \<leftarrow> mem_read b (off + 1);
     b2 \<leftarrow> mem_read b (off + 2);
     b3 \<leftarrow> mem_read b (off + 3);
     Some (ucast b0 OR push_bit 8 (ucast b1) OR push_bit 16 (ucast b2) OR push_bit 24 (ucast b3),
       (b, off + 4)) })"

definition get_i16 :: "cursor \<Rightarrow> (i16 \<times> cursor) option" where
  "get_i16 c = get_u16 c"

definition get_i32 :: "cursor \<Rightarrow> (i32 \<times> cursor) option" where
  "get_i32 c = get_u32 c"

section \<open>The field contract\<close>

text \<open>
  A field of fixed width: \<open>enc\<close> and \<open>dec\<close> are inverse between values and byte strings of that
  width, a put replaces exactly these bytes and moves the cursor past them, a get reads them. The
  state \<open>cur done left\<close> is a buffer whose first bytes are \<open>done\<close>, with the cursor behind them.
\<close>

definition cur :: "u8 list \<Rightarrow> u8 list \<Rightarrow> cursor" where
  "cur pre rest = (pre @ rest, length pre)"

lemma cur_start: "(b, 0) = cur [] b"
  by (simp add: cur_def)

lemma cur_end: "cur pre [] = (pre, length pre)"
  by (simp add: cur_def)

locale field_codec =
  fixes put :: "cursor \<Rightarrow> 'v \<Rightarrow> cursor option"
    and get :: "cursor \<Rightarrow> ('v \<times> cursor) option"
    and enc :: "'v \<Rightarrow> u8 list" and dec :: "u8 list \<Rightarrow> 'v" and width :: nat
  assumes enc_width: "length (enc v) = width"
    and dec_enc: "dec (enc v) = v"
    and enc_dec: "length l = width \<Longrightarrow> enc (dec l) = l"
    and put_cur: "width \<le> length rest \<Longrightarrow> put (cur pre rest) v = Some (cur (pre @ enc v) (drop width rest))"
    and get_at: "off + width \<le> length b \<Longrightarrow> get (b, off) = Some (dec (take width (drop off b)), (b, off + width))"
begin

lemma get_put:
  assumes "width \<le> length rest"
  shows "\<exists>b'. put (cur pre rest) v = Some (b', length pre + width) \<and>
    get (b', length pre) = Some (v, (b', length pre + width))"
  unfolding put_cur [OF assms] using assms by (simp add: cur_def get_at enc_width dec_enc)

lemma put_total: "width \<le> length rest \<Longrightarrow> put (cur pre rest) v \<noteq> None"
  by (simp add: put_cur)

lemma get_total: "off + width \<le> length b \<Longrightarrow> \<exists>v. get (b, off) = Some (v, (b, off + width))
    \<and> take width (drop off b) = enc v"
  by (simp add: get_at enc_dec)

end

definition enc_u8 :: "u8 \<Rightarrow> u8 list" where
  "enc_u8 v = [v]"

definition enc_u16 :: "u16 \<Rightarrow> u8 list" where
  "enc_u16 v = [ucast (v AND 0xFF), ucast (drop_bit 8 v)]"

definition enc_u32 :: "u32 \<Rightarrow> u8 list" where
  "enc_u32 v = [ucast (v AND 0xFF), ucast (drop_bit 8 v AND 0xFF), ucast (drop_bit 16 v AND 0xFF),
     ucast (drop_bit 24 v AND 0xFF)]"

definition dec_u8 :: "u8 list \<Rightarrow> u8" where
  "dec_u8 l = l ! 0"

definition dec_u16 :: "u8 list \<Rightarrow> u16" where
  "dec_u16 l = ucast (l ! 0) OR push_bit 8 (ucast (l ! 1))"

definition dec_u32 :: "u8 list \<Rightarrow> u32" where
  "dec_u32 l = le32 (l ! 0) (l ! 1) (l ! 2) (l ! 3)"

lemma list2: "length l = 2 \<Longrightarrow> [l ! 0, l ! 1] = l"
  by (cases l; cases "tl l") auto

lemma list4: "length l = 4 \<Longrightarrow> [l ! 0, l ! 1, l ! 2, l ! 3] = l"
  by (auto simp: numeral_eq_Suc length_Suc_conv)

lemma split4:
  assumes "4 \<le> length xs" obtains a b c d rest where "xs = a # b # c # d # rest"
proof -
  have "\<exists>a b c d rest. xs = a # b # c # d # rest"
    using assms by (auto simp: numeral_eq_Suc Suc_le_length_iff)
  then show ?thesis using that by blast
qed

lemma update_after: "(pre @ a # rest)[length pre := v] = pre @ v # rest"
  by simp

lemma put_u16_cur: "2 \<le> length rest \<Longrightarrow> put_u16 (cur pre rest) v = Some (cur (pre @ enc_u16 v) (drop 2 rest))"
  by (auto simp: put_u16_def cur_def mem_write_def enc_u16_def list_update_append numeral_2_eq_2
      Suc_le_length_iff)

lemma put_u32_cur: "4 \<le> length rest \<Longrightarrow> put_u32 (cur pre rest) v = Some (cur (pre @ enc_u32 v) (drop 4 rest))"
  by (elim split4) (simp add: put_u32_def cur_def mem_write_def enc_u32_def list_update_append)

lemma get_u16_at: "off + 2 \<le> length b \<Longrightarrow> get_u16 (b, off) = Some (dec_u16 (take 2 (drop off b)), (b, off + 2))"
  by (simp add: get_u16_def mem_read_def dec_u16_def)

lemma get_u32_at: "off + 4 \<le> length b \<Longrightarrow> get_u32 (b, off) = Some (dec_u32 (take 4 (drop off b)), (b, off + 4))"
  by (simp add: get_u32_def mem_read_def dec_u32_def le32_def)

interpretation u8f: field_codec put_u8 get_u8 enc_u8 dec_u8 1
proof
  show "1 \<le> length rest \<Longrightarrow> put_u8 (cur pre rest) v = Some (cur (pre @ enc_u8 v) (drop 1 rest))"
    for rest pre v by (cases rest) (simp_all add: put_u8_def cur_def mem_write_def enc_u8_def)
  show "length l = 1 \<Longrightarrow> enc_u8 (dec_u8 l) = l" for l
    by (cases l) (simp_all add: enc_u8_def dec_u8_def)
qed (simp_all add: enc_u8_def dec_u8_def get_u8_def mem_read_def)

lemma enc_dec_u16: "length l = 2 \<Longrightarrow> enc_u16 (dec_u16 l) = l"
  using list2 [of l] by (simp add: enc_u16_def dec_u16_def u16_split_join del: drop_bit_or)

lemma enc_dec_u32: "length l = 4 \<Longrightarrow> enc_u32 (dec_u32 l) = l"
  using list4 [of l] by (simp add: enc_u32_def dec_u32_def u32_split_join)

lemma dec_enc_u16: "dec_u16 (enc_u16 v) = v"
  by (simp add: enc_u16_def dec_u16_def u16_join_split)

lemma dec_enc_u32: "dec_u32 (enc_u32 v) = v"
  by (simp add: enc_u32_def dec_u32_def u32_join_split)

interpretation u16f: field_codec put_u16 get_u16 enc_u16 dec_u16 2
  by unfold_locales (simp_all add: put_u16_cur get_u16_at enc_dec_u16 dec_enc_u16,
      simp add: enc_u16_def)

interpretation u32f: field_codec put_u32 get_u32 enc_u32 dec_u32 4
  by unfold_locales (simp_all add: put_u32_cur get_u32_at enc_dec_u32 dec_enc_u32,
      simp add: enc_u32_def)

interpretation i16f: field_codec put_i16 get_i16 enc_u16 dec_u16 2
  by unfold_locales (simp_all add: put_i16_def get_i16_def u16f.put_cur u16f.get_at u16f.enc_width
      enc_dec_u16 dec_enc_u16)

interpretation i32f: field_codec put_i32 get_i32 enc_u32 dec_u32 4
  by unfold_locales (simp_all add: put_i32_def get_i32_def u32f.put_cur u32f.get_at u32f.enc_width
      enc_dec_u32 dec_enc_u32)

lemmas put_laws = u8f.put_cur u16f.put_cur u32f.put_cur i16f.put_cur i32f.put_cur
lemmas get_laws = u8f.get_at u16f.get_at u32f.get_at i16f.get_at i32f.get_at
lemmas enc_laws = u8f.enc_width u16f.enc_width u32f.enc_width u8f.dec_enc dec_enc_u16 dec_enc_u32

section \<open>Saturation and quantisation\<close>

definition clamp_quality_to_u8 :: "fp \<Rightarrow> u8 option" where
  "clamp_quality_to_u8 v =
     (if fp_le v (Fin 0) then Some 0
      else if fp_le (Fin 1) v then Some 255
      else map_option word_of_int
        (fp_to_int 0 255 (fp_add binary32 (fp_mul binary32 v (Fin 255)) (Fin (1 / 2)))))"

definition quality_from_u8 :: "u8 \<Rightarrow> fp" where
  "quality_from_u8 v = fp_div binary32 (fp_of_int binary32 (uint v)) (Fin 255)"

definition saturate_u16 :: "u32 \<Rightarrow> u16" where
  "saturate_u16 v = (if v > 65535 then 65535 else ucast v)"

definition clamp_anchor_count :: "u8 \<Rightarrow> u8" where
  "clamp_anchor_count c = (if c > of_nat NAV_TRILAT_ANCHOR_COUNT then of_nat NAV_TRILAT_ANCHOR_COUNT else c)"

section \<open>Encoders\<close>

record nav_radio_heartbeat_payload =
  hb_node_id :: u8
  hb_uptime_ms :: u32
  hb_status_flags :: u32
  hb_tdma_frame_index :: u32
  hb_tdma_slot_index :: u8
  hb_tdma_slot_ms :: u16
  hb_tdma_slot_elapsed_ms :: u16

text \<open>
  \<open>stack_bytes junk n\<close> is the local array \<^verbatim>\<open>uint8_t payload[n]\<close> before it is written.
\<close>

definition stack_bytes :: "(nat \<Rightarrow> u8) \<Rightarrow> nat \<Rightarrow> u8 list" where
  "stack_bytes junk n = map junk [0..<n]"

definition send_frame ::
  "nav_radio_message_type \<Rightarrow> u16 \<Rightarrow> cursor \<Rightarrow> u8 list \<Rightarrow> nat \<Rightarrow> nat \<Rightarrow> (nav_status \<times> u8 list \<times> nat) option" where
  "send_frame type seq c out cap out_len = nav_radio_encode_frame (Some
     \<lparr>fr_type = type, fr_frame_seq = seq, fr_payload = Some (fst c), fr_payload_len = snd c\<rparr>)
     out cap out_len"

definition nav_telemetry_encode_beacon ::
  "(nat \<Rightarrow> u8) \<Rightarrow> nav_peer_telemetry option \<Rightarrow> u16 \<Rightarrow> u8 list \<Rightarrow> nat \<Rightarrow> nat \<Rightarrow>
   (nav_status \<times> u8 list \<times> nat) option" where
  "nav_telemetry_encode_beacon junk telemetry packet_seq out cap out_len = (case telemetry of
     None \<Rightarrow> Some (NAV_STATUS_INVALID_ARGUMENT, out, out_len)
   | Some t \<Rightarrow> do {
       c \<leftarrow> put_u8 (stack_bytes junk NAV_TELEMETRY_BEACON_LEN, 0) (pt_node_id t);
       c \<leftarrow> put_u32 c (pt_packet_seq t);
       c \<leftarrow> put_u32 c (pt_timestamp_ms t);
       c \<leftarrow> put_i32 c (lat_e7 (pt_position t));
       c \<leftarrow> put_i32 c (lon_e7 (pt_position t));
       c \<leftarrow> put_i32 c (alt_mm (pt_position t));
       c \<leftarrow> put_i32 c (vel_n_mmps (pt_velocity t));
       c \<leftarrow> put_i32 c (vel_e_mmps (pt_velocity t));
       c \<leftarrow> put_i32 c (vel_d_mmps (pt_velocity t));
       c \<leftarrow> put_u8 c (word_of_int (nav_gnss_fix_type_code (pt_fix_type t)));
       c \<leftarrow> put_u8 c (if pt_gnss_valid t then 1 else 0);
       c \<leftarrow> put_u8 c (word_of_int (nav_mode_code (pt_nav_mode t)));
       c \<leftarrow> put_u8 c (word_of_int (nav_solution_status_code (pt_solution_status t)));
       c \<leftarrow> put_u8 c (word_of_int (nav_solution_source_code (pt_solution_source t)));
       c \<leftarrow> put_i16 c 0;
       c \<leftarrow> put_i16 c 0;
       c \<leftarrow> put_u8 c 0;
       send_frame NAV_RADIO_MSG_BEACON_RX packet_seq c out cap out_len })"

definition nav_telemetry_encode_range_result ::
  "(nat \<Rightarrow> u8) \<Rightarrow> nav_range_result option \<Rightarrow> u16 \<Rightarrow> u8 list \<Rightarrow> nat \<Rightarrow> nat \<Rightarrow>
   (nav_status \<times> u8 list \<times> nat) option" where
  "nav_telemetry_encode_range_result junk rng frame_seq out cap out_len = (case rng of
     None \<Rightarrow> Some (NAV_STATUS_INVALID_ARGUMENT, out, out_len)
   | Some r \<Rightarrow> do {
       c \<leftarrow> put_u8 (stack_bytes junk NAV_TELEMETRY_RANGE_RESULT_LEN, 0) (rr_peer_id r);
       c \<leftarrow> put_u8 c (if rr_valid r then 0 else 1);
       c \<leftarrow> put_u32 c (rr_timestamp_ms r);
       c \<leftarrow> put_u32 c (rr_range_mm r);
       c \<leftarrow> put_u32 c (rr_range_sigma_mm r);
       c \<leftarrow> put_i16 c (rr_rssi_dbm r);
       c \<leftarrow> put_i16 c (rr_snr_db r);
       c \<leftarrow> put_u8 c 1;
       c \<leftarrow> put_u16 c (rr_request_id r);
       send_frame NAV_RADIO_MSG_RANGE_RESULT frame_seq c out cap out_len })"

definition nav_telemetry_encode_debug_enable ::
  "(nat \<Rightarrow> u8) \<Rightarrow> nav_debug_enable option \<Rightarrow> u16 \<Rightarrow> u8 list \<Rightarrow> nat \<Rightarrow> nat \<Rightarrow>
   (nav_status \<times> u8 list \<times> nat) option" where
  "nav_telemetry_encode_debug_enable junk debug frame_seq out cap out_len = (case debug of
     None \<Rightarrow> Some (NAV_STATUS_INVALID_ARGUMENT, out, out_len)
   | Some d \<Rightarrow> do {
       c \<leftarrow> put_u8 (stack_bytes junk NAV_TELEMETRY_DEBUG_ENABLE_LEN, 0) (de_origin_node_id d);
       c \<leftarrow> put_u16 c (de_ttl_ms d);
       send_frame NAV_RADIO_MSG_DEBUG_ENABLE frame_seq c out cap out_len })"

definition nav_telemetry_encode_heartbeat ::
  "(nat \<Rightarrow> u8) \<Rightarrow> nav_radio_heartbeat_payload option \<Rightarrow> u16 \<Rightarrow> u8 list \<Rightarrow> nat \<Rightarrow> nat \<Rightarrow>
   (nav_status \<times> u8 list \<times> nat) option" where
  "nav_telemetry_encode_heartbeat junk heartbeat frame_seq out cap out_len = (case heartbeat of
     None \<Rightarrow> Some (NAV_STATUS_INVALID_ARGUMENT, out, out_len)
   | Some h \<Rightarrow> do {
       c \<leftarrow> put_u8 (stack_bytes junk NAV_TELEMETRY_HEARTBEAT_LEN, 0) (hb_node_id h);
       c \<leftarrow> put_u32 c (hb_uptime_ms h);
       c \<leftarrow> put_u32 c (hb_status_flags h);
       c \<leftarrow> put_u32 c (hb_tdma_frame_index h);
       c \<leftarrow> put_u8 c (hb_tdma_slot_index h);
       c \<leftarrow> put_u16 c (hb_tdma_slot_ms h);
       c \<leftarrow> put_u16 c (hb_tdma_slot_elapsed_ms h);
       send_frame NAV_RADIO_MSG_HEARTBEAT frame_seq c out cap out_len })"

fun put_anchor_ids :: "u8 list \<Rightarrow> nat \<Rightarrow> nat \<Rightarrow> cursor \<Rightarrow> cursor option" where
  "put_anchor_ids ids i 0 c = Some c"
| "put_anchor_ids ids i (Suc left) c = do {
     v \<leftarrow> mem_read ids i;
     c \<leftarrow> put_u8 c v;
     put_anchor_ids ids (Suc i) left c }"

definition nav_telemetry_encode_node_quality_report ::
  "(nat \<Rightarrow> u8) \<Rightarrow> nav_node_quality_report option \<Rightarrow> u16 \<Rightarrow> u8 list \<Rightarrow> nat \<Rightarrow> nat \<Rightarrow>
   (nav_status \<times> u8 list \<times> nat) option" where
  "nav_telemetry_encode_node_quality_report junk report frame_seq out cap out_len = (case report of
     None \<Rightarrow> Some (NAV_STATUS_INVALID_ARGUMENT, out, out_len)
   | Some q \<Rightarrow> do {
       let num_anchors = clamp_anchor_count (qr_num_anchors q);
       c \<leftarrow> put_u8 (stack_bytes junk NAV_TELEMETRY_NODE_QUALITY_REPORT_LEN, 0) (qr_node_id q);
       c \<leftarrow> put_u8 c (word_of_int (nav_mode_code (qr_nav_mode q)));
       c \<leftarrow> put_u8 c (word_of_int (nav_solution_status_code (qr_solution_status q)));
       c \<leftarrow> put_u8 c (word_of_int (nav_solution_source_code (qr_solution_source q)));
       c \<leftarrow> put_u8 c num_anchors;
       c \<leftarrow> put_anchor_ids (qr_anchor_ids q) 0 NAV_TRILAT_ANCHOR_COUNT c;
       c \<leftarrow> put_u8 c (word_of_int (nav_gnss_fix_type_code (qr_fix_type q)));
       c \<leftarrow> put_u8 c (qr_satellites q);
       g \<leftarrow> clamp_quality_to_u8 (qr_geometry_score q);
       c \<leftarrow> put_u8 c g;
       tq \<leftarrow> clamp_quality_to_u8 (qr_total_quality q);
       c \<leftarrow> put_u8 c tq;
       c \<leftarrow> put_u16 c (saturate_u16 (qr_residual_rms_mm q));
       c \<leftarrow> put_u16 c (saturate_u16 (qr_max_residual_mm q));
       c \<leftarrow> put_u16 c (qr_hdop_centi q);
       c \<leftarrow> put_u32 c (qr_hacc_mm q);
       c \<leftarrow> put_u32 c (qr_vacc_mm q);
       c \<leftarrow> put_i32 c (lat_e7 (qr_position q));
       c \<leftarrow> put_i32 c (lon_e7 (qr_position q));
       c \<leftarrow> put_i32 c (alt_mm (qr_position q));
       c \<leftarrow> put_u32 c (qr_packet_seq q);
       send_frame NAV_RADIO_MSG_NODE_QUALITY_REPORT frame_seq c out cap out_len })"

section \<open>Decoders\<close>

definition nav_telemetry_decode_debug_enable ::
  "nav_radio_frame option \<Rightarrow> nav_debug_enable \<Rightarrow> (nav_status \<times> nav_debug_enable) option" where
  "nav_telemetry_decode_debug_enable frame out = (case frame of
     None \<Rightarrow> Some (NAV_STATUS_INVALID_ARGUMENT, out)
   | Some f \<Rightarrow>
      if fr_type f \<noteq> NAV_RADIO_MSG_DEBUG_ENABLE then Some (NAV_STATUS_NOT_IMPLEMENTED, out)
      else if fr_payload_len f < NAV_TELEMETRY_DEBUG_ENABLE_LEN then Some (NAV_STATUS_BAD_FRAME, out)
      else do {
        p \<leftarrow> fr_payload f;
        (origin, c) \<leftarrow> get_u8 (p, 0);
        (ttl, c) \<leftarrow> get_u16 c;
        Some (NAV_STATUS_OK, \<lparr>de_origin_node_id = origin, de_ttl_ms = ttl\<rparr>) })"

definition nav_telemetry_decode_heartbeat ::
  "nav_radio_frame option \<Rightarrow> nav_radio_heartbeat_payload \<Rightarrow> (nav_status \<times> nav_radio_heartbeat_payload) option" where
  "nav_telemetry_decode_heartbeat frame out = (case frame of
     None \<Rightarrow> Some (NAV_STATUS_INVALID_ARGUMENT, out)
   | Some f \<Rightarrow>
      if fr_type f \<noteq> NAV_RADIO_MSG_HEARTBEAT then Some (NAV_STATUS_NOT_IMPLEMENTED, out)
      else if fr_payload_len f < NAV_TELEMETRY_HEARTBEAT_LEN then Some (NAV_STATUS_BAD_FRAME, out)
      else do {
        p \<leftarrow> fr_payload f;
        (node, c) \<leftarrow> get_u8 (p, 0);
        (uptime, c) \<leftarrow> get_u32 c;
        (flags, c) \<leftarrow> get_u32 c;
        (frame_index, c) \<leftarrow> get_u32 c;
        (slot_index, c) \<leftarrow> get_u8 c;
        (slot_ms, c) \<leftarrow> get_u16 c;
        (elapsed, c) \<leftarrow> get_u16 c;
        Some (NAV_STATUS_OK, \<lparr>hb_node_id = node, hb_uptime_ms = uptime, hb_status_flags = flags,
          hb_tdma_frame_index = frame_index, hb_tdma_slot_index = slot_index,
          hb_tdma_slot_ms = slot_ms, hb_tdma_slot_elapsed_ms = elapsed\<rparr>) })"

fun get_anchor_ids :: "nat \<Rightarrow> cursor \<Rightarrow> (u8 list \<times> cursor) option" where
  "get_anchor_ids 0 c = Some ([], c)"
| "get_anchor_ids (Suc left) c = do {
     (v, c) \<leftarrow> get_u8 c;
     (vs, c) \<leftarrow> get_anchor_ids left c;
     Some (v # vs, c) }"

definition nav_telemetry_decode_node_quality_report ::
  "nav_radio_frame option \<Rightarrow> nav_node_quality_report \<Rightarrow> (nav_status \<times> nav_node_quality_report) option" where
  "nav_telemetry_decode_node_quality_report frame out = (case frame of
     None \<Rightarrow> Some (NAV_STATUS_INVALID_ARGUMENT, out)
   | Some f \<Rightarrow>
      if fr_type f \<noteq> NAV_RADIO_MSG_NODE_QUALITY_REPORT then Some (NAV_STATUS_NOT_IMPLEMENTED, out)
      else if fr_payload_len f < NAV_TELEMETRY_NODE_QUALITY_REPORT_LEN
      then Some (NAV_STATUS_BAD_FRAME, out)
      else do {
        p \<leftarrow> fr_payload f;
        (node, c) \<leftarrow> get_u8 (p, 0);
        (mode, c) \<leftarrow> get_u8 c;
        (status, c) \<leftarrow> get_u8 c;
        (source, c) \<leftarrow> get_u8 c;
        (num, c) \<leftarrow> get_u8 c;
        let num = clamp_anchor_count num;
        (ids, c) \<leftarrow> get_anchor_ids NAV_TRILAT_ANCHOR_COUNT c;
        (fix_type, c) \<leftarrow> get_u8 c;
        (satellites, c) \<leftarrow> get_u8 c;
        (geometry, c) \<leftarrow> get_u8 c;
        (total, c) \<leftarrow> get_u8 c;
        (rms, c) \<leftarrow> get_u16 c;
        (maxr, c) \<leftarrow> get_u16 c;
        (hdop, c) \<leftarrow> get_u16 c;
        (hacc, c) \<leftarrow> get_u32 c;
        (vacc, c) \<leftarrow> get_u32 c;
        (lat, c) \<leftarrow> get_i32 c;
        (lon, c) \<leftarrow> get_i32 c;
        (alt, c) \<leftarrow> get_i32 c;
        (seq, c) \<leftarrow> get_u32 c;
        Some (NAV_STATUS_OK, \<lparr>qr_node_id = node,
          qr_nav_mode = nav_mode_of_code (uint mode),
          qr_solution_status = nav_solution_status_of_code (uint status),
          qr_solution_source = nav_solution_source_of_code (uint source),
          qr_num_anchors = num, qr_anchor_ids = ids,
          qr_fix_type = nav_gnss_fix_type_of_code (uint fix_type), qr_satellites = satellites,
          qr_geometry_score = quality_from_u8 geometry, qr_total_quality = quality_from_u8 total,
          qr_residual_rms_mm = ucast rms, qr_max_residual_mm = ucast maxr, qr_hdop_centi = hdop,
          qr_hacc_mm = hacc, qr_vacc_mm = vacc,
          qr_position = \<lparr>lat_e7 = lat, lon_e7 = lon, alt_mm = alt\<rparr>, qr_packet_seq = seq\<rparr>) })"

definition decode_beacon ::
  "nav_radio_frame \<Rightarrow> u32 \<Rightarrow> i16 \<Rightarrow> i16 \<Rightarrow> nav_event \<Rightarrow> (nav_status \<times> nav_event) option" where
  "decode_beacon f now_ms rssi_dbm snr_db out_event =
     (if fr_payload_len f < NAV_TELEMETRY_BEACON_LEN then Some (NAV_STATUS_BAD_FRAME, out_event)
      else do {
        p \<leftarrow> fr_payload f;
        (node, c) \<leftarrow> get_u8 (p, 0);
        (seq, c) \<leftarrow> get_u32 c;
        (timestamp, c) \<leftarrow> get_u32 c;
        (lat, c) \<leftarrow> get_i32 c;
        (lon, c) \<leftarrow> get_i32 c;
        (alt, c) \<leftarrow> get_i32 c;
        (vn, c) \<leftarrow> get_i32 c;
        (ve, c) \<leftarrow> get_i32 c;
        (vd, c) \<leftarrow> get_i32 c;
        (fix_type, c) \<leftarrow> get_u8 c;
        (valid, c) \<leftarrow> get_u8 c;
        (mode, c) \<leftarrow> get_u8 c;
        (status, c) \<leftarrow> get_u8 c;
        (source, c) \<leftarrow> get_u8 c;
        (ignored, c) \<leftarrow> get_i16 c;
        (ignored, c) \<leftarrow> get_i16 c;
        (reserved, c) \<leftarrow> get_u8 c;
        let t = \<lparr>pt_node_id = node, pt_packet_seq = seq, pt_timestamp_ms = timestamp,
          pt_position = \<lparr>lat_e7 = lat, lon_e7 = lon, alt_mm = alt\<rparr>,
          pt_velocity = \<lparr>vel_n_mmps = vn, vel_e_mmps = ve, vel_d_mmps = vd\<rparr>,
          pt_fix_type = nav_gnss_fix_type_of_code (uint fix_type), pt_gnss_valid = (valid \<noteq> 0),
          pt_satellites = 0, pt_hdop_centi = 0, pt_hacc_mm = 0, pt_vacc_mm = 0,
          pt_nav_mode = nav_mode_of_code (uint mode),
          pt_solution_status = nav_solution_status_of_code (uint status),
          pt_solution_source = nav_solution_source_of_code (uint source)\<rparr>;
        Some (NAV_STATUS_OK, \<lparr>ev_timestamp_ms = now_ms, ev_data = NAV_EVT_PEER_TELEMETRY_RX
          \<lparr>br_telemetry = t, br_rssi_dbm = rssi_dbm, br_snr_db = snr_db\<rparr>\<rparr>) })"

definition decode_range_result ::
  "nav_radio_frame \<Rightarrow> u32 \<Rightarrow> nav_event \<Rightarrow> (nav_status \<times> nav_event) option" where
  "decode_range_result f now_ms out_event =
     (if fr_payload_len f < NAV_TELEMETRY_RANGE_RESULT_LEN then Some (NAV_STATUS_BAD_FRAME, out_event)
      else do {
        p \<leftarrow> fr_payload f;
        (peer, c) \<leftarrow> get_u8 (p, 0);
        (status, c) \<leftarrow> get_u8 c;
        (timestamp, c) \<leftarrow> get_u32 c;
        (range_mm, c) \<leftarrow> get_u32 c;
        (sigma, c) \<leftarrow> get_u32 c;
        (rssi, c) \<leftarrow> get_i16 c;
        (snr, c) \<leftarrow> get_i16 c;
        (attempt, c) \<leftarrow> get_u8 c;
        (request, c) \<leftarrow> get_u16 c;
        Some (NAV_STATUS_OK, \<lparr>ev_timestamp_ms = now_ms, ev_data = NAV_EVT_RANGE_RESULT
          \<lparr>rr_peer_id = peer, rr_request_id = request, rr_timestamp_ms = timestamp,
           rr_range_mm = range_mm, rr_range_sigma_mm = sigma, rr_rssi_dbm = rssi,
           rr_snr_db = snr, rr_valid = (status = 0)\<rparr>\<rparr>) })"

definition decode_range_fail ::
  "nav_radio_frame \<Rightarrow> u32 \<Rightarrow> nav_event \<Rightarrow> (nav_status \<times> nav_event) option" where
  "decode_range_fail f now_ms out_event =
     (if fr_payload_len f < NAV_TELEMETRY_RANGE_FAIL_LEN then Some (NAV_STATUS_BAD_FRAME, out_event)
      else do {
        p \<leftarrow> fr_payload f;
        (peer, c) \<leftarrow> get_u8 (p, 0);
        (reason, c) \<leftarrow> get_u8 c;
        (timestamp, c) \<leftarrow> get_u32 c;
        (attempt, c) \<leftarrow> get_u8 c;
        (ignored, c) \<leftarrow> get_i16 c;
        (ignored, c) \<leftarrow> get_i16 c;
        (request, c) \<leftarrow> get_u16 c;
        Some (NAV_STATUS_OK, \<lparr>ev_timestamp_ms = now_ms, ev_data = NAV_EVT_RANGE_FAIL
          \<lparr>rf_peer_id = peer, rf_request_id = request, rf_timestamp_ms = timestamp,
           rf_reason = nav_range_fail_reason_of_code (uint reason)\<rparr>\<rparr>) })"

definition nav_event_zero :: nav_event where
  "nav_event_zero = \<lparr>ev_timestamp_ms = 0, ev_data = NAV_EVT_NONE\<rparr>"

text \<open>The local \<^verbatim>\<open>frame\<close> is only read after a successful decode, which writes all of it.\<close>

definition frame_local :: nav_radio_frame where
  "frame_local = \<lparr>fr_type = NAV_RADIO_MSG_RAW 0, fr_frame_seq = 0, fr_payload = None, fr_payload_len = 0\<rparr>"

definition nav_telemetry_decode_event ::
  "u8 list option \<Rightarrow> nat \<Rightarrow> u32 \<Rightarrow> i16 \<Rightarrow> i16 \<Rightarrow> nav_event \<Rightarrow> (nav_status \<times> nav_event) option" where
  "nav_telemetry_decode_event bytes len now_ms rssi_dbm snr_db out_event = (case bytes of
     None \<Rightarrow> Some (NAV_STATUS_INVALID_ARGUMENT, out_event)
   | Some b \<Rightarrow> do {
       (decoded, frame) \<leftarrow> nav_radio_decode_frame (Some b) len frame_local;
       if decoded \<noteq> NAV_STATUS_OK then Some (decoded, out_event)
       else case fr_type frame of
           NAV_RADIO_MSG_BEACON_RX \<Rightarrow> decode_beacon frame now_ms rssi_dbm snr_db nav_event_zero
         | NAV_RADIO_MSG_RANGE_RESULT \<Rightarrow> decode_range_result frame now_ms nav_event_zero
         | NAV_RADIO_MSG_RANGE_FAIL \<Rightarrow> decode_range_fail frame now_ms nav_event_zero
         | _ \<Rightarrow> Some (NAV_STATUS_NOT_IMPLEMENTED, nav_event_zero) })"

section \<open>Wire images of the bodies\<close>

definition beacon_body :: "nav_peer_telemetry \<Rightarrow> u8 list" where
  "beacon_body t = enc_u8 (pt_node_id t) @ enc_u32 (pt_packet_seq t) @ enc_u32 (pt_timestamp_ms t)
     @ enc_u32 (lat_e7 (pt_position t)) @ enc_u32 (lon_e7 (pt_position t)) @ enc_u32 (alt_mm (pt_position t))
     @ enc_u32 (vel_n_mmps (pt_velocity t)) @ enc_u32 (vel_e_mmps (pt_velocity t))
     @ enc_u32 (vel_d_mmps (pt_velocity t))
     @ enc_u8 (word_of_int (nav_gnss_fix_type_code (pt_fix_type t)))
     @ enc_u8 (if pt_gnss_valid t then 1 else 0)
     @ enc_u8 (word_of_int (nav_mode_code (pt_nav_mode t)))
     @ enc_u8 (word_of_int (nav_solution_status_code (pt_solution_status t)))
     @ enc_u8 (word_of_int (nav_solution_source_code (pt_solution_source t)))
     @ enc_u16 0 @ enc_u16 0 @ enc_u8 0"

definition range_result_body :: "nav_range_result \<Rightarrow> u8 list" where
  "range_result_body r = enc_u8 (rr_peer_id r) @ enc_u8 (if rr_valid r then 0 else 1)
     @ enc_u32 (rr_timestamp_ms r) @ enc_u32 (rr_range_mm r) @ enc_u32 (rr_range_sigma_mm r)
     @ enc_u16 (rr_rssi_dbm r) @ enc_u16 (rr_snr_db r) @ enc_u8 1 @ enc_u16 (rr_request_id r)"

definition heartbeat_body :: "nav_radio_heartbeat_payload \<Rightarrow> u8 list" where
  "heartbeat_body h = enc_u8 (hb_node_id h) @ enc_u32 (hb_uptime_ms h) @ enc_u32 (hb_status_flags h)
     @ enc_u32 (hb_tdma_frame_index h) @ enc_u8 (hb_tdma_slot_index h) @ enc_u16 (hb_tdma_slot_ms h)
     @ enc_u16 (hb_tdma_slot_elapsed_ms h)"

definition debug_enable_body :: "nav_debug_enable \<Rightarrow> u8 list" where
  "debug_enable_body d = enc_u8 (de_origin_node_id d) @ enc_u16 (de_ttl_ms d)"

definition quality_report_body :: "nav_node_quality_report \<Rightarrow> u8 \<Rightarrow> u8 \<Rightarrow> u8 list" where
  "quality_report_body q g tq = enc_u8 (qr_node_id q)
     @ enc_u8 (word_of_int (nav_mode_code (qr_nav_mode q)))
     @ enc_u8 (word_of_int (nav_solution_status_code (qr_solution_status q)))
     @ enc_u8 (word_of_int (nav_solution_source_code (qr_solution_source q)))
     @ enc_u8 (clamp_anchor_count (qr_num_anchors q)) @ qr_anchor_ids q
     @ enc_u8 (word_of_int (nav_gnss_fix_type_code (qr_fix_type q))) @ enc_u8 (qr_satellites q)
     @ enc_u8 g @ enc_u8 tq @ enc_u16 (saturate_u16 (qr_residual_rms_mm q))
     @ enc_u16 (saturate_u16 (qr_max_residual_mm q)) @ enc_u16 (qr_hdop_centi q)
     @ enc_u32 (qr_hacc_mm q) @ enc_u32 (qr_vacc_mm q) @ enc_u32 (lat_e7 (qr_position q))
     @ enc_u32 (lon_e7 (qr_position q)) @ enc_u32 (alt_mm (qr_position q)) @ enc_u32 (qr_packet_seq q)"

definition body_frame :: "nav_radio_message_type \<Rightarrow> u16 \<Rightarrow> u8 list \<Rightarrow> nav_radio_frame" where
  "body_frame type seq body =
     \<lparr>fr_type = type, fr_frame_seq = seq, fr_payload = Some body, fr_payload_len = length body\<rparr>"

lemma length_stack_bytes [simp]: "length (stack_bytes junk n) = n"
  by (simp add: stack_bytes_def)

lemma send_frame_cur:
  "send_frame type seq (cur body []) out cap n = nav_radio_encode_frame (Some (body_frame type seq body)) out cap n"
  by (simp add: send_frame_def cur_end body_frame_def)

text \<open>
  Every encoder fills its local array completely, whatever was in it, and hands exactly the body to
  the frame encoder.
\<close>

lemma encode_beacon_eq:
  "nav_telemetry_encode_beacon junk (Some t) seq out cap n =
   nav_radio_encode_frame (Some (body_frame NAV_RADIO_MSG_BEACON_RX seq (beacon_body t))) out cap n"
  by (simp add: nav_telemetry_encode_beacon_def cur_start put_laws send_frame_cur beacon_body_def)

lemma encode_range_result_eq:
  "nav_telemetry_encode_range_result junk (Some r) seq out cap n =
   nav_radio_encode_frame (Some (body_frame NAV_RADIO_MSG_RANGE_RESULT seq (range_result_body r))) out cap n"
  by (simp add: nav_telemetry_encode_range_result_def cur_start put_laws send_frame_cur range_result_body_def)

lemma encode_debug_enable_eq:
  "nav_telemetry_encode_debug_enable junk (Some d) seq out cap n =
   nav_radio_encode_frame (Some (body_frame NAV_RADIO_MSG_DEBUG_ENABLE seq (debug_enable_body d))) out cap n"
  by (simp add: nav_telemetry_encode_debug_enable_def cur_start put_laws send_frame_cur debug_enable_body_def)

lemma encode_heartbeat_eq:
  "nav_telemetry_encode_heartbeat junk (Some h) seq out cap n =
   nav_radio_encode_frame (Some (body_frame NAV_RADIO_MSG_HEARTBEAT seq (heartbeat_body h))) out cap n"
  by (simp add: nav_telemetry_encode_heartbeat_def cur_start put_laws send_frame_cur heartbeat_body_def)

lemma list3: "length l = 3 \<Longrightarrow> [l ! 0, l ! 1, l ! 2] = l"
  by (auto simp: numeral_eq_Suc length_Suc_conv)

lemma put_anchor_ids_cur:
  "length ids = 3 \<Longrightarrow> 3 \<le> length rest \<Longrightarrow>
   put_anchor_ids ids 0 3 (cur pre rest) = Some (cur (pre @ ids) (drop 3 rest))"
  using list3 [of ids]
  by (simp add: numeral_3_eq_3 mem_simps put_laws enc_u8_def numeral_2_eq_2 drop_Suc [symmetric])

lemma encode_quality_report_eq:
  assumes "length (qr_anchor_ids q) = 3"
    and "clamp_quality_to_u8 (qr_geometry_score q) = Some g"
    and "clamp_quality_to_u8 (qr_total_quality q) = Some tq"
  shows "nav_telemetry_encode_node_quality_report junk (Some q) seq out cap n =
   nav_radio_encode_frame (Some (body_frame NAV_RADIO_MSG_NODE_QUALITY_REPORT seq
     (quality_report_body q g tq))) out cap n"
  using assms by (simp add: nav_telemetry_encode_node_quality_report_def cur_start put_laws
      put_anchor_ids_cur Let_def send_frame_cur quality_report_body_def del: put_anchor_ids.simps)

lemma body_lengths [simp]:
  "length (beacon_body t) = 43" "length (range_result_body r) = 21"
  "length (heartbeat_body h) = 18" "length (debug_enable_body d) = 3"
  "length (qr_anchor_ids q) = 3 \<Longrightarrow> length (quality_report_body q g tq) = 42"
  by (simp_all add: beacon_body_def range_result_body_def heartbeat_body_def debug_enable_body_def
      quality_report_body_def enc_laws)

section \<open>Decoding a received body\<close>

text \<open>The decoders read fields at fixed offsets; \<open>u32_at p k\<close> is the field of the body at offset \<open>k\<close>.\<close>

abbreviation u32_at :: "u8 list \<Rightarrow> nat \<Rightarrow> u32" where
  "u32_at p k \<equiv> dec_u32 (take 4 (drop k p))"

abbreviation u16_at :: "u8 list \<Rightarrow> nat \<Rightarrow> u16" where
  "u16_at p k \<equiv> dec_u16 (take 2 (drop k p))"

abbreviation u8_at :: "u8 list \<Rightarrow> nat \<Rightarrow> u8" where
  "u8_at p k \<equiv> dec_u8 (take 1 (drop k p))"

definition telemetry_at :: "u8 list \<Rightarrow> nav_peer_telemetry" where
  "telemetry_at p = \<lparr>pt_node_id = u8_at p 0, pt_packet_seq = u32_at p 1, pt_timestamp_ms = u32_at p 5,
     pt_position = \<lparr>lat_e7 = u32_at p 9, lon_e7 = u32_at p 13, alt_mm = u32_at p 17\<rparr>,
     pt_velocity = \<lparr>vel_n_mmps = u32_at p 21, vel_e_mmps = u32_at p 25, vel_d_mmps = u32_at p 29\<rparr>,
     pt_fix_type = nav_gnss_fix_type_of_code (uint (u8_at p 33)),
     pt_gnss_valid = (u8_at p 34 \<noteq> 0), pt_satellites = 0, pt_hdop_centi = 0, pt_hacc_mm = 0,
     pt_vacc_mm = 0, pt_nav_mode = nav_mode_of_code (uint (u8_at p 35)),
     pt_solution_status = nav_solution_status_of_code (uint (u8_at p 36)),
     pt_solution_source = nav_solution_source_of_code (uint (u8_at p 37))\<rparr>"

definition range_result_at :: "u8 list \<Rightarrow> nav_range_result" where
  "range_result_at p = \<lparr>rr_peer_id = u8_at p 0, rr_request_id = u16_at p 19, rr_timestamp_ms = u32_at p 2,
     rr_range_mm = u32_at p 6, rr_range_sigma_mm = u32_at p 10, rr_rssi_dbm = u16_at p 14,
     rr_snr_db = u16_at p 16, rr_valid = (u8_at p 1 = 0)\<rparr>"

definition range_failure_at :: "u8 list \<Rightarrow> nav_range_failure" where
  "range_failure_at p = \<lparr>rf_peer_id = u8_at p 0, rf_request_id = u16_at p 11,
     rf_timestamp_ms = u32_at p 2, rf_reason = nav_range_fail_reason_of_code (uint (u8_at p 1))\<rparr>"

lemma decode_beacon_eq:
  assumes "fr_payload f = Some p" "fr_payload_len f \<le> length p"
  shows "decode_beacon f now rssi snr e =
    Some (if fr_payload_len f < 43 then (NAV_STATUS_BAD_FRAME, e) else (NAV_STATUS_OK,
      \<lparr>ev_timestamp_ms = now, ev_data = NAV_EVT_PEER_TELEMETRY_RX
        \<lparr>br_telemetry = telemetry_at p, br_rssi_dbm = rssi, br_snr_db = snr\<rparr>\<rparr>))"
proof (cases "fr_payload_len f < 43")
  case False
  then have "43 \<le> length p" using assms(2) by simp
  then show ?thesis using False assms(1)
    by (simp add: decode_beacon_def get_laws telemetry_at_def)
qed (simp add: decode_beacon_def)

lemma decode_range_result_eq:
  assumes "fr_payload f = Some p" "fr_payload_len f \<le> length p"
  shows "decode_range_result f now e =
    Some (if fr_payload_len f < 21 then (NAV_STATUS_BAD_FRAME, e) else (NAV_STATUS_OK,
      \<lparr>ev_timestamp_ms = now, ev_data = NAV_EVT_RANGE_RESULT (range_result_at p)\<rparr>))"
proof (cases "fr_payload_len f < 21")
  case False
  then have "21 \<le> length p" using assms(2) by simp
  then show ?thesis using False assms(1)
    by (simp add: decode_range_result_def get_laws range_result_at_def numeral_2_eq_2 [symmetric])
qed (simp add: decode_range_result_def)

lemma decode_range_fail_eq:
  assumes "fr_payload f = Some p" "fr_payload_len f \<le> length p"
  shows "decode_range_fail f now e =
    Some (if fr_payload_len f < 13 then (NAV_STATUS_BAD_FRAME, e) else (NAV_STATUS_OK,
      \<lparr>ev_timestamp_ms = now, ev_data = NAV_EVT_RANGE_FAIL (range_failure_at p)\<rparr>))"
proof (cases "fr_payload_len f < 13")
  case False
  then have "13 \<le> length p" using assms(2) by simp
  then show ?thesis using False assms(1)
    by (simp add: decode_range_fail_def get_laws range_failure_at_def numeral_2_eq_2 [symmetric])
qed (simp add: decode_range_fail_def)

section \<open>From sender to receiver\<close>

text \<open>What one node's encoder put on the air, another node's frame decoder returns.\<close>

lemma body_frame_ok [simp]: "frame_ok (body_frame type seq body)"
  by (simp add: frame_ok_def body_frame_def)

lemma deliver:
  assumes "nav_radio_encode_frame (Some (body_frame type seq body)) out cap n0 = Some (NAV_STATUS_OK, sent, n)"
    and "cap \<le> length out" and "msg_w.on_wire type"
  shows "nav_radio_decode_frame (Some (take n sent)) n frame_local =
    Some (NAV_STATUS_OK, body_frame type seq body) \<and> n \<le> length sent"
proof -
  note enc = encode_OK_D [OF body_frame_ok assms(2,1)]
  then have "take n sent = frame_bytes (body_frame type seq body) @ []" "n \<le> length sent"
    using length_frame_bytes [OF body_frame_ok] by simp_all
  then show ?thesis
    using decode_frame_bytes [OF body_frame_ok, of type seq body "[]" frame_local] enc assms(3)
    by (simp add: body_frame_def payload_bytes_def msg_w.byte_round_trip frame_local_def
        del: uint_word_of_int)
qed

lemma msg_types_on_wire [simp]:
  "msg_w.on_wire NAV_RADIO_MSG_BEACON_RX" "msg_w.on_wire NAV_RADIO_MSG_RANGE_RESULT"
  "msg_w.on_wire NAV_RADIO_MSG_DEBUG_ENABLE" "msg_w.on_wire NAV_RADIO_MSG_HEARTBEAT"
  "msg_w.on_wire NAV_RADIO_MSG_NODE_QUALITY_REPORT"
  by (simp_all add: msg_w.on_wire_def nav_radio_message_type_of_code_def)

lemma body_frame_sel [simp]:
  "fr_type (body_frame type seq body) = type" "fr_payload (body_frame type seq body) = Some body"
  "fr_payload_len (body_frame type seq body) = length body"
  by (simp_all add: body_frame_def)

definition telemetry_on_wire :: "nav_peer_telemetry \<Rightarrow> bool" where
  "telemetry_on_wire t \<longleftrightarrow> fix_w.on_wire (pt_fix_type t) \<and> mode_w.on_wire (pt_nav_mode t) \<and>
     status_w.on_wire (pt_solution_status t) \<and> source_w.on_wire (pt_solution_source t)"

lemmas enum_bytes = fix_w.byte_round_trip mode_w.byte_round_trip status_w.byte_round_trip
  source_w.byte_round_trip fail_w.byte_round_trip

lemma telemetry_at_body:
  "telemetry_on_wire t \<Longrightarrow> telemetry_at (beacon_body t) =
     t\<lparr>pt_satellites := 0, pt_hdop_centi := 0, pt_hacc_mm := 0, pt_vacc_mm := 0\<rparr>"
  by (simp add: telemetry_at_def beacon_body_def enc_laws telemetry_on_wire_def enum_bytes
      del: uint_word_of_int)

lemma range_result_at_body: "range_result_at (range_result_body r) = r"
  by (simp add: range_result_at_def range_result_body_def enc_laws)

lemma beacon_delivered:
  assumes "telemetry_on_wire t" and "cap \<le> length out"
    and "nav_telemetry_encode_beacon junk (Some t) seq out cap n0 = Some (NAV_STATUS_OK, sent, n)"
  shows "nav_telemetry_decode_event (Some (take n sent)) n now rssi snr e0 =
    Some (NAV_STATUS_OK, \<lparr>ev_timestamp_ms = now, ev_data = NAV_EVT_PEER_TELEMETRY_RX
      \<lparr>br_telemetry = t\<lparr>pt_satellites := 0, pt_hdop_centi := 0, pt_hacc_mm := 0, pt_vacc_mm := 0\<rparr>,
       br_rssi_dbm = rssi, br_snr_db = snr\<rparr>\<rparr>)"
  using deliver [OF assms(3) [unfolded encode_beacon_eq] assms(2)] telemetry_at_body [OF assms(1)]
  by (simp add: nav_telemetry_decode_event_def decode_beacon_eq)

text \<open>C20: What a beacon carries across the radio: whatever was in the sender's uninitialised buffer,
  the frame it sends decodes at a receiver to a telemetry event at the receive time with the
  receiver's signal strength and the sender's identity, sequence, time, position, velocity, fix,
  mode and solution. The message has no room for the satellites and the three accuracy figures: whatever
  the sender had there, the receiver reads zero.\<close>

theorem beacon_round_trip:
  assumes "telemetry_on_wire t" and "cap \<le> length out"
    and "nav_telemetry_encode_beacon junk (Some t) seq out cap n0 = Some (NAV_STATUS_OK, sent, n)"
  shows "nav_telemetry_decode_event (Some (take n sent)) n now rssi snr e0 =
    Some (NAV_STATUS_OK, \<lparr>ev_timestamp_ms = now, ev_data = NAV_EVT_PEER_TELEMETRY_RX
      \<lparr>br_telemetry = t\<lparr>pt_satellites := 0, pt_hdop_centi := 0, pt_hacc_mm := 0, pt_vacc_mm := 0\<rparr>,
       br_rssi_dbm = rssi, br_snr_db = snr\<rparr>\<rparr>)"
  by (rule beacon_delivered [OF assms])

text \<open>A range result crosses the radio unchanged, every field included, valid or not.\<close>

theorem range_result_round_trip:
  assumes "cap \<le> length out"
    and "nav_telemetry_encode_range_result junk (Some r) seq out cap n0 = Some (NAV_STATUS_OK, sent, n)"
  shows "nav_telemetry_decode_event (Some (take n sent)) n now rssi snr e0 =
    Some (NAV_STATUS_OK, \<lparr>ev_timestamp_ms = now, ev_data = NAV_EVT_RANGE_RESULT r\<rparr>)"
  using deliver [OF assms(2) [unfolded encode_range_result_eq] assms(1)]
  by (simp add: nav_telemetry_decode_event_def decode_range_result_eq range_result_at_body)

text \<open>Heartbeats and debug requests cross the radio unchanged.\<close>

theorem control_round_trip:
  assumes "cap \<le> length out"
    and "nav_telemetry_encode_heartbeat junk (Some h) seq out cap n0 = Some (NAV_STATUS_OK, sent, n)"
    and "nav_telemetry_encode_debug_enable junk (Some d) seq out cap n0 = Some (NAV_STATUS_OK, sent', n')"
  shows "\<exists>f f'. nav_radio_decode_frame (Some (take n sent)) n frame_local = Some (NAV_STATUS_OK, f) \<and>
    nav_telemetry_decode_heartbeat (Some f) h0 = Some (NAV_STATUS_OK, h) \<and>
    nav_radio_decode_frame (Some (take n' sent')) n' frame_local = Some (NAV_STATUS_OK, f') \<and>
    nav_telemetry_decode_debug_enable (Some f') d0 = Some (NAV_STATUS_OK, d)"
proof -
  have "nav_telemetry_decode_heartbeat (Some (body_frame NAV_RADIO_MSG_HEARTBEAT seq (heartbeat_body h))) h0
      = Some (NAV_STATUS_OK, h)"
    by (simp add: nav_telemetry_decode_heartbeat_def get_laws) (simp add: heartbeat_body_def enc_laws)
  moreover have "nav_telemetry_decode_debug_enable
      (Some (body_frame NAV_RADIO_MSG_DEBUG_ENABLE seq (debug_enable_body d))) d0 = Some (NAV_STATUS_OK, d)"
    by (simp add: nav_telemetry_decode_debug_enable_def get_laws) (simp add: debug_enable_body_def enc_laws)
  ultimately show ?thesis
    using deliver [OF assms(2) [unfolded encode_heartbeat_eq] assms(1)]
      deliver [OF assms(3) [unfolded encode_debug_enable_eq] assms(1)] by auto
qed

section \<open>Hostile input\<close>

text \<open>Arbitrary received bytes are handled safely: decoding an event never reads outside them,
  it returns one of the three documented statuses, and an accepted frame is a beacon of at least 43,
  a range result of at least 21 or a range failure of at least 13 body bytes whose event carries
  exactly the fields of the body and the receive time.\<close>

theorem decode_event_safe:
  assumes "len \<le> length b"
  shows "\<exists>s e. nav_telemetry_decode_event (Some b) len now rssi snr e0 = Some (s, e) \<and>
    s \<in> {NAV_STATUS_OK, NAV_STATUS_BAD_FRAME, NAV_STATUS_NOT_IMPLEMENTED} \<and>
    (s = NAV_STATUS_OK \<longrightarrow> ev_timestamp_ms e = now \<and> (
       (len \<ge> 49 \<and> b ! 2 = 66 \<and> ev_data e = NAV_EVT_PEER_TELEMETRY_RX
          \<lparr>br_telemetry = telemetry_at (drop 6 b), br_rssi_dbm = rssi, br_snr_db = snr\<rparr>) \<or>
       (len \<ge> 27 \<and> b ! 2 = 67 \<and> ev_data e = NAV_EVT_RANGE_RESULT (range_result_at (drop 6 b))) \<or>
       (len \<ge> 19 \<and> b ! 2 = 68 \<and> ev_data e = NAV_EVT_RANGE_FAIL (range_failure_at (drop 6 b)))))"
proof (cases "6 \<le> len \<and> b ! 0 = 0x4e \<and> b ! 1 = 0x52 \<and> unat (b ! 5) \<le> 128 \<and> len = 6 + unat (b ! 5)")
  case True
  define ty where "ty = nav_radio_message_type_of_code (uint (b ! 2))"
  have byte: "uint (b ! 2) = nav_radio_message_type_code ty"
    by (simp add: ty_def msg_w.code_of_code)
  have b2: "b ! 2 = word_of_int (nav_radio_message_type_code ty)"
    using byte by (metis word_of_int_uint)
  have pl: "unat (b ! 5) \<le> length b - 6" using True assms by linarith
  define f where "f = frame_local\<lparr>fr_type := ty, fr_frame_seq := ucast (b ! 3) OR push_bit 8 (ucast (b ! 4)),
      fr_payload := Some (drop 6 b), fr_payload_len := unat (b ! 5)\<rparr>"
  have f: "nav_radio_decode_frame (Some b) len frame_local = Some (NAV_STATUS_OK, f)"
    using True decode_frame_eq [OF assms, of frame_local] by (simp add: f_def ty_def)
  have sel: "fr_type f = ty" "fr_payload f = Some (drop 6 b)" "fr_payload_len f = unat (b ! 5)"
    by (simp_all add: f_def)
  have pl': "unat (b ! 5) = len - 6" "6 \<le> len" using True by simp_all
  have "nav_telemetry_decode_event (Some b) len now rssi snr e0 = (case ty of
      NAV_RADIO_MSG_BEACON_RX \<Rightarrow> decode_beacon f now rssi snr nav_event_zero
    | NAV_RADIO_MSG_RANGE_RESULT \<Rightarrow> decode_range_result f now nav_event_zero
    | NAV_RADIO_MSG_RANGE_FAIL \<Rightarrow> decode_range_fail f now nav_event_zero
    | _ \<Rightarrow> Some (NAV_STATUS_NOT_IMPLEMENTED, nav_event_zero))"
    by (simp add: nav_telemetry_decode_event_def f sel)
  then show ?thesis using pl pl'
    by (cases ty) (auto simp: sel b2 decode_beacon_eq decode_range_result_eq decode_range_fail_eq)
next
  case False
  then have "nav_radio_decode_frame (Some b) len frame_local = Some (NAV_STATUS_BAD_FRAME, frame_local)"
    using decode_frame_eq [OF assms, of frame_local] by auto
  then show ?thesis by (simp add: nav_telemetry_decode_event_def)
qed

section \<open>Quality reports\<close>

lemma ucast_saturated: "\<not> v > (65535 :: u32) \<Longrightarrow> ucast (ucast v :: u16) = v"
proof -
  assume "\<not> v > 65535"
  then have "uint v < 2 ^ 16" by (simp add: word_less_def)
  then show ?thesis
    by (simp only: word_uint_eq_iff unsigned_ucast_eq) (simp add: unsigned_take_bit_eq take_bit_int_eq_self)
qed

text \<open>A score is sent as a byte; for a score in the unit interval this loses less than 1/500.\<close>

definition fp_near :: "rat \<Rightarrow> fp \<Rightarrow> fp \<Rightarrow> bool" where
  "fp_near eps a b = (case (a, b) of (Fin x, Fin y) \<Rightarrow> \<bar>x - y\<bar> \<le> eps | _ \<Rightarrow> False)"

lemma quality_byte:
  assumes "0 \<le> n" "n \<le> 255"
  obtains q where "quality_from_u8 (word_of_int n) = Fin q" "\<bar>q - of_int n / 255\<bar> \<le> 1 / 2 ^ 24"
proof -
  obtain m where m: "n = int m" "m \<le> 255" using assms by (metis nonneg_int_cases of_nat_le_iff of_nat_numeral)
  have u: "uint (word_of_int n :: u8) = n" using assms by (simp add: uint_word_of_int)
  have i: "fp_of_int binary32 n = Fin (of_int n)"
    using assms by (simp add: fp_of_int_def fp_rnd_of_int)
  have "0 \<le> (of_int n :: rat) / 255" "(of_int n :: rat) / 255 < 2 ^ 1" using m by simp_all
  then obtain q where "fp_rnd binary32 (of_int n / 255) = Fin q" "\<bar>q - of_int n / 255\<bar> \<le> 2 ^ 1 / 2 ^ 25"
    using rnd32_error [of "of_int n / 255" 1] by auto
  then show ?thesis by (intro that [of q]) (simp_all add: quality_from_u8_def u i)
qed

lemma quality_quantised:
  assumes "fp_unit v"
  shows "\<exists>g. clamp_quality_to_u8 v = Some g \<and> fp_near (1 / 500) (quality_from_u8 g) v"
proof -
  obtain r where r: "v = Fin r" "0 \<le> r" "r \<le> 1" using assms by (auto simp: fp_unit_iff)
  consider "r = 0" | "r = 1" | "0 < r" "r < 1" using r by linarith
  then show ?thesis
  proof cases
    case 3
    obtain s where s: "fp_rnd binary32 (r * 255) = Fin s" "0 \<le> s" "\<bar>s - r * 255\<bar> \<le> 2 ^ 8 / 2 ^ 25"
      using rnd32_error [of "r * 255" 8] 3 by auto
    have s255: "s \<le> 255"
      using f32.rnd_mono [of "r * 255" 255] fp_rnd_of_int [of binary32 255] 3 by (simp add: s(1))
    obtain t where t: "fp_rnd binary32 (s + 1 / 2) = Fin t" "0 \<le> t" "\<bar>t - (s + 1 / 2)\<bar> \<le> 2 ^ 8 / 2 ^ 25"
      using rnd32_error [of "s + 1 / 2" 8] s(2) s255 by auto
    define n where "n = \<lfloor>t\<rfloor>"
    have n: "of_int n \<le> t" "t < of_int n + 1" unfolding n_def by linarith+
    have "0 \<le> n" using t(2) by (simp add: n_def)
    moreover have "n \<le> 255"
    proof -
      have "t - (s + 1 / 2) \<le> 2 ^ 8 / 2 ^ 25" using t(3) by (rule abs_le_D1)
      then have "of_int n < (256 :: rat)" using n(1) s255 by simp
      then show ?thesis by simp
    qed
    ultimately have n255: "0 \<le> n" "n \<le> 255" by auto
    obtain q where q: "quality_from_u8 (word_of_int n) = Fin q" "\<bar>q - of_int n / 255\<bar> \<le> 1 / 2 ^ 24"
      using quality_byte [OF n255] by blast
    have "clamp_quality_to_u8 v = Some (word_of_int n)"
      using 3 r(1) s t n255 by (simp add: clamp_quality_to_u8_def rat_trunc_def n_def Let_def)
    moreover have "\<bar>q - r\<bar> \<le> 1 / 500"
    proof (rule abs_leI)
      show "q - r \<le> 1 / 500"
        using abs_le_D1 [OF q(2)] abs_le_D1 [OF s(3)] abs_le_D1 [OF t(3)] n by (simp add: field_simps)
      show "- (q - r) \<le> 1 / 500"
        using abs_le_D2 [OF q(2)] abs_le_D2 [OF s(3)] abs_le_D2 [OF t(3)] n by (simp add: field_simps)
    qed
    ultimately show ?thesis using q(1) r(1) by (auto simp: fp_near_def)
  qed (use r in \<open>auto simp: clamp_quality_to_u8_def fp_near_def quality_from_u8_def fp_eval\<close>)
qed

lemma quality_report_decode:
  assumes "length (qr_anchor_ids q) = 3"
    and "mode_w.on_wire (qr_nav_mode q)" "status_w.on_wire (qr_solution_status q)"
      "source_w.on_wire (qr_solution_source q)" "fix_w.on_wire (qr_fix_type q)"
  shows "nav_telemetry_decode_node_quality_report
      (Some (body_frame NAV_RADIO_MSG_NODE_QUALITY_REPORT seq (quality_report_body q g tq))) r0 =
    Some (NAV_STATUS_OK, q\<lparr>qr_num_anchors := clamp_anchor_count (qr_num_anchors q),
      qr_geometry_score := quality_from_u8 g, qr_total_quality := quality_from_u8 tq,
      qr_residual_rms_mm := ucast (saturate_u16 (qr_residual_rms_mm q)),
      qr_max_residual_mm := ucast (saturate_u16 (qr_max_residual_mm q))\<rparr>)"
proof -
  obtain x y z where ids: "qr_anchor_ids q = [x, y, z]"
    using assms(1) by (auto simp: numeral_3_eq_3 length_Suc_conv)
  have cc: "clamp_anchor_count (clamp_anchor_count c) = clamp_anchor_count c" for c
    by (simp add: clamp_anchor_count_def)
  show ?thesis using assms
    by (simp add: nav_telemetry_decode_node_quality_report_def get_laws numeral_3_eq_3 Let_def)
      (simp add: quality_report_body_def enc_laws enum_bytes ids dec_u8_def enc_u8_def cc
        del: uint_word_of_int)
qed

text \<open>A quality report crosses the radio with bounded loss: the scores come back within 1/500,
  the residuals saturate at 65535 mm, the anchor count is clamped to three and every other field is
  unchanged.\<close>

theorem quality_report_round_trip:
  assumes "length (qr_anchor_ids q) = 3"
    and "mode_w.on_wire (qr_nav_mode q)" "status_w.on_wire (qr_solution_status q)"
      "source_w.on_wire (qr_solution_source q)" "fix_w.on_wire (qr_fix_type q)"
    and "fp_unit (qr_geometry_score q)" "fp_unit (qr_total_quality q)" and "cap \<le> length out"
    and "nav_telemetry_encode_node_quality_report junk (Some q) seq out cap n0 = Some (NAV_STATUS_OK, sent, n)"
  shows "\<exists>f r. nav_radio_decode_frame (Some (take n sent)) n frame_local = Some (NAV_STATUS_OK, f) \<and>
    nav_telemetry_decode_node_quality_report (Some f) r0 = Some (NAV_STATUS_OK, r) \<and>
    fp_near (1 / 500) (qr_geometry_score r) (qr_geometry_score q) \<and>
    fp_near (1 / 500) (qr_total_quality r) (qr_total_quality q) \<and>
    r = q\<lparr>qr_num_anchors := min 3 (qr_num_anchors q),
      qr_geometry_score := qr_geometry_score r, qr_total_quality := qr_total_quality r,
      qr_residual_rms_mm := min 65535 (qr_residual_rms_mm q),
      qr_max_residual_mm := min 65535 (qr_max_residual_mm q)\<rparr>"
proof -
  obtain g tq where g: "clamp_quality_to_u8 (qr_geometry_score q) = Some g"
      "fp_near (1 / 500) (quality_from_u8 g) (qr_geometry_score q)"
    and tq: "clamp_quality_to_u8 (qr_total_quality q) = Some tq"
      "fp_near (1 / 500) (quality_from_u8 tq) (qr_total_quality q)"
    using quality_quantised assms(6,7) by meson
  have sat: "ucast (saturate_u16 v) = min 65535 v" for v
    by (auto simp: saturate_u16_def min_def ucast_saturated)
  have "clamp_anchor_count c = min 3 c" for c by (auto simp: clamp_anchor_count_def min_def)
  then show ?thesis
    using deliver [OF assms(9) [unfolded encode_quality_report_eq [OF assms(1) g(1) tq(1)]] assms(8)]
      quality_report_decode [OF assms(1-5), of seq g tq r0] g(2) tq(2)
    by (simp add: sat)
qed

section \<open>Concrete messages\<close>

definition ex_tx_telemetry :: nav_peer_telemetry where
  "ex_tx_telemetry = \<lparr>pt_node_id = 2, pt_packet_seq = 9, pt_timestamp_ms = 400,
     pt_position = \<lparr>lat_e7 = 504501000, lon_e7 = 305234000, alt_mm = 180000\<rparr>,
     pt_velocity = nav_velocity_zero, pt_fix_type = NAV_GNSS_FIX_3D, pt_gnss_valid = True,
     pt_satellites = 11, pt_hdop_centi = 90, pt_hacc_mm = 1200, pt_vacc_mm = 1800,
     pt_nav_mode = NAV_MODE_GNSS_OK, pt_solution_status = NAV_SOLUTION_GNSS_DIRECT,
     pt_solution_source = NAV_SOURCE_LOCAL_GNSS\<rparr>"

definition ex_report :: nav_node_quality_report where
  "ex_report = \<lparr>qr_node_id = 3, qr_nav_mode = NAV_MODE_RADIO_NAV_OK,
     qr_solution_status = NAV_SOLUTION_RADIO_3D, qr_solution_source = NAV_SOURCE_RADIO_3D,
     qr_num_anchors = 3, qr_anchor_ids = [0, 1, 2], qr_fix_type = NAV_GNSS_FIX_NONE,
     qr_satellites = 0, qr_geometry_score = Fin (3 / 4), qr_total_quality = Fin (1 / 2),
     qr_residual_rms_mm = 80000, qr_max_residual_mm = 120, qr_hdop_centi = 0, qr_hacc_mm = 10,
     qr_vacc_mm = 20, qr_position = nav_position_zero, qr_packet_seq = 5\<rparr>"

definition ex_heartbeat :: nav_radio_heartbeat_payload where
  "ex_heartbeat = \<lparr>hb_node_id = 0, hb_uptime_ms = 123456, hb_status_flags = 1,
     hb_tdma_frame_index = 77, hb_tdma_slot_index = 4, hb_tdma_slot_ms = 500,
     hb_tdma_slot_elapsed_ms = 120\<rparr>"

definition ex_air :: "u8 list" where
  "ex_air = replicate 64 0"

lemma send_ok:
  assumes "length body \<le> 58"
  shows "\<exists>sent n. nav_radio_encode_frame (Some (body_frame type seq body)) ex_air 64 0 = Some (NAV_STATUS_OK, sent, n)"
  using encode_frame_eq [OF body_frame_ok, of type seq body 64 ex_air 0] assms
  by (simp add: ex_air_def)

lemma length_ex_air: "64 \<le> length ex_air"
  by (simp add: ex_air_def)

lemma ex_on_wire: "telemetry_on_wire ex_tx_telemetry"
  by (simp add: telemetry_on_wire_def ex_tx_telemetry_def fix_w.on_wire_def mode_w.on_wire_def
      status_w.on_wire_def source_w.on_wire_def nav_gnss_fix_type_of_code_def nav_mode_of_code_def
      nav_solution_status_of_code_def nav_solution_source_of_code_def)

theorem beacon_round_trip_witness:
  "\<exists>sent n. nav_telemetry_encode_beacon (\<lambda>_. 0xAA) (Some ex_tx_telemetry) 7 ex_air 64 0
      = Some (NAV_STATUS_OK, sent, n) \<and>
    nav_telemetry_decode_event (Some (take n sent)) n 500 (-60) 10 nav_event_zero =
      Some (NAV_STATUS_OK, \<lparr>ev_timestamp_ms = 500, ev_data = NAV_EVT_PEER_TELEMETRY_RX
        \<lparr>br_telemetry = ex_tx_telemetry\<lparr>pt_satellites := 0, pt_hdop_centi := 0, pt_hacc_mm := 0, pt_vacc_mm := 0\<rparr>,
         br_rssi_dbm = -60, br_snr_db = 10\<rparr>\<rparr>)"
proof -
  obtain sent n where e: "nav_telemetry_encode_beacon (\<lambda>_. 0xAA) (Some ex_tx_telemetry) 7 ex_air 64 0
      = Some (NAV_STATUS_OK, sent, n)"
    using send_ok [of "beacon_body ex_tx_telemetry" NAV_RADIO_MSG_BEACON_RX 7] by (auto simp: encode_beacon_eq)
  show ?thesis using e beacon_round_trip [OF ex_on_wire length_ex_air e] by blast
qed

theorem range_result_round_trip_witness:
  "\<exists>sent n. nav_telemetry_decode_event (Some (take n sent)) n 500 0 0 nav_event_zero =
     Some (NAV_STATUS_OK, \<lparr>ev_timestamp_ms = 500, ev_data = NAV_EVT_RANGE_RESULT
       \<lparr>rr_peer_id = 1, rr_request_id = 515, rr_timestamp_ms = 200, rr_range_mm = 621957,
        rr_range_sigma_mm = 100, rr_rssi_dbm = -61, rr_snr_db = 10, rr_valid = False\<rparr>\<rparr>)"
proof -
  let ?r = "\<lparr>rr_peer_id = 1, rr_request_id = 515, rr_timestamp_ms = 200, rr_range_mm = 621957,
        rr_range_sigma_mm = 100, rr_rssi_dbm = -61, rr_snr_db = 10, rr_valid = False\<rparr>"
  obtain sent n where e: "nav_telemetry_encode_range_result (\<lambda>_. 0) (Some ?r) 7 ex_air 64 0
      = Some (NAV_STATUS_OK, sent, n)"
    using send_ok [of "range_result_body ?r" NAV_RADIO_MSG_RANGE_RESULT 7] by (auto simp: encode_range_result_eq)
  show ?thesis using range_result_round_trip [OF length_ex_air e] by blast
qed

theorem control_round_trip_witness:
  "\<exists>f f'. nav_telemetry_decode_heartbeat (Some f) ex_heartbeat = Some (NAV_STATUS_OK, ex_heartbeat) \<and>
     nav_telemetry_decode_debug_enable (Some f') \<lparr>de_origin_node_id = 0, de_ttl_ms = 0\<rparr>
       = Some (NAV_STATUS_OK, \<lparr>de_origin_node_id = 2, de_ttl_ms = 3000\<rparr>)"
proof -
  let ?d = "\<lparr>de_origin_node_id = 2, de_ttl_ms = 3000\<rparr>"
  obtain s n where e: "nav_telemetry_encode_heartbeat (\<lambda>_. 0) (Some ex_heartbeat) 7 ex_air 64 0
      = Some (NAV_STATUS_OK, s, n)"
    using send_ok [of "heartbeat_body ex_heartbeat" NAV_RADIO_MSG_HEARTBEAT 7] by (auto simp: encode_heartbeat_eq)
  obtain s' n' where e': "nav_telemetry_encode_debug_enable (\<lambda>_. 0) (Some ?d) 7 ex_air 64 0
      = Some (NAV_STATUS_OK, s', n')"
    using send_ok [of "debug_enable_body ?d" NAV_RADIO_MSG_DEBUG_ENABLE 7] by (auto simp: encode_debug_enable_eq)
  show ?thesis using control_round_trip [OF length_ex_air e e'] by blast
qed

theorem decode_event_safe_witness:
  "\<exists>s e. nav_telemetry_decode_event (Some [0x4e, 0x52, 67, 0, 0, 2, 1, 0]) 8 500 0 0 nav_event_zero = Some (s, e) \<and>
     s \<noteq> NAV_STATUS_OK"
  using decode_event_safe [of 8 "[0x4e, 0x52, 67, 0, 0, 2, 1, 0]" 500 0 0 nav_event_zero] by auto

theorem quality_report_round_trip_witness:
  "\<exists>f r. nav_telemetry_decode_node_quality_report (Some f) ex_report = Some (NAV_STATUS_OK, r) \<and>
     fp_near (1 / 500) (qr_geometry_score r) (Fin (3 / 4)) \<and> qr_residual_rms_mm r = 65535 \<and>
     qr_position r = nav_position_zero"
proof -
  have u: "fp_unit (qr_geometry_score ex_report)" "fp_unit (qr_total_quality ex_report)"
    "length (qr_anchor_ids ex_report) = 3"
    by (simp_all add: ex_report_def fp_unit_def)
  have w: "mode_w.on_wire (qr_nav_mode ex_report)" "status_w.on_wire (qr_solution_status ex_report)"
    "source_w.on_wire (qr_solution_source ex_report)" "fix_w.on_wire (qr_fix_type ex_report)"
    by (simp_all add: ex_report_def fix_w.on_wire_def mode_w.on_wire_def
      status_w.on_wire_def source_w.on_wire_def nav_gnss_fix_type_of_code_def nav_mode_of_code_def
      nav_solution_status_of_code_def nav_solution_source_of_code_def)
  obtain g tq where g: "clamp_quality_to_u8 (qr_geometry_score ex_report) = Some g"
    "clamp_quality_to_u8 (qr_total_quality ex_report) = Some tq"
    using quality_quantised u(1,2) by meson
  obtain sent n where e: "nav_telemetry_encode_node_quality_report (\<lambda>_. 0) (Some ex_report) 7 ex_air 64 0
      = Some (NAV_STATUS_OK, sent, n)"
    using send_ok [of "quality_report_body ex_report g tq" NAV_RADIO_MSG_NODE_QUALITY_REPORT 7] u(3)
    by (auto simp: encode_quality_report_eq [OF u(3) g])
  obtain f r where fr: "nav_telemetry_decode_node_quality_report (Some f) ex_report = Some (NAV_STATUS_OK, r)"
    "fp_near (1 / 500) (qr_geometry_score r) (qr_geometry_score ex_report)"
    "r = ex_report\<lparr>qr_num_anchors := min 3 (qr_num_anchors ex_report),
      qr_geometry_score := qr_geometry_score r, qr_total_quality := qr_total_quality r,
      qr_residual_rms_mm := min 65535 (qr_residual_rms_mm ex_report),
      qr_max_residual_mm := min 65535 (qr_max_residual_mm ex_report)\<rparr>"
    using quality_report_round_trip [OF u(3) w u(1,2) length_ex_air e, of ex_report] by blast
  have "qr_residual_rms_mm r = 65535" "qr_position r = nav_position_zero"
    by (subst fr(3), simp add: ex_report_def)+
  then show ?thesis using fr(1,2) by (auto simp: ex_report_def)
qed

end
