(* ===== verification/Nav_Tdma.thy ===== *)
theory Nav_Tdma
  imports Nav_Types "HOL-Library.Multiset"
begin

text \<open>
  \<^verbatim>\<open>core/src/nav_tdma.c\<close>: the single-hop slot scheduler. The state is the sorted member array with
  its count, the local id and the slot length; an action is a function of the state and the wall
  clock. Array accesses are checked and a division by a zero slot length is \<open>None\<close>. The lemmas give
  the insertion sort, the closed form of the pair walk, the exclusive use of every slot, the
  coverage of a frame and the wrap-safe timing tests.
\<close>

section \<open>State\<close>

datatype nav_tdma_action_type = NAV_TDMA_LISTEN | NAV_TDMA_TX_BEACON | NAV_TDMA_RANGE_PEER

record nav_tdma_action =
  act_type :: nav_tdma_action_type
  act_peer_id :: u8
  act_from_id :: u8
  act_to_id :: u8
  act_slot_index :: u32
  act_frame_index :: u32
  act_slot_start_ms :: u32
  act_slot_end_ms :: u32
  act_remaining_ms :: u32

record nav_tdma_timing_heartbeat =
  th_authority_id :: u8
  th_frame_index :: u32
  th_slot_index :: u32
  th_slot_ms :: u16
  th_slot_elapsed_ms :: u16

record nav_tdma =
  td_members :: "u8 list"
  td_member_count :: nat
  td_local_node_id :: u8
  td_slot_ms :: u32

abbreviation (input) NAV_TDMA_AUTHORITY_ID :: u8 where "NAV_TDMA_AUTHORITY_ID \<equiv> 0"
abbreviation (input) NAV_TDMA_FIXED_SLOT_MS :: u32 where "NAV_TDMA_FIXED_SLOT_MS \<equiv> 500"
abbreviation (input) NAV_TDMA_AUTHORITY_TIMEOUT_MS :: u32 where "NAV_TDMA_AUTHORITY_TIMEOUT_MS \<equiv> 15000"
abbreviation (input) NAV_TDMA_RANGE_MIN_REMAINING_MS :: u32 where "NAV_TDMA_RANGE_MIN_REMAINING_MS \<equiv> 450"
abbreviation (input) NAV_TDMA_BEACON_MIN_REMAINING_MS :: u32 where "NAV_TDMA_BEACON_MIN_REMAINING_MS \<equiv> 100"

section \<open>Operations\<close>

definition nav_tdma_init :: "u8 \<Rightarrow> u32 \<Rightarrow> nav_tdma" where
  "nav_tdma_init local_node_id slot_ms = \<lparr>td_members = replicate NAV_MAX_NODES 0, td_member_count = 0,
     td_local_node_id = local_node_id, td_slot_ms = (if slot_ms = 0 then 1 else slot_ms)\<rparr>"

fun copy_members :: "u8 list \<Rightarrow> nat \<Rightarrow> nat \<Rightarrow> u8 list \<Rightarrow> u8 list option" where
  "copy_members ids i 0 members = Some members"
| "copy_members ids i (Suc left) members = do {
     v \<leftarrow> mem_read ids i;
     members' \<leftarrow> mem_write members i v;
     copy_members ids (Suc i) left members' }"

fun insert_shift :: "u8 \<Rightarrow> nat \<Rightarrow> u8 list \<Rightarrow> (nat \<times> u8 list) option" where
  "insert_shift key 0 members = Some (0, members)"
| "insert_shift key (Suc j) members = do {
     below \<leftarrow> mem_read members j;
     if below > key then do {
       members' \<leftarrow> mem_write members (Suc j) below;
       insert_shift key j members' }
     else Some (Suc j, members) }"

fun sort_members :: "nat \<Rightarrow> nat \<Rightarrow> u8 list \<Rightarrow> u8 list option" where
  "sort_members i 0 members = Some members"
| "sort_members i (Suc left) members = do {
     key \<leftarrow> mem_read members i;
     (j, members') \<leftarrow> insert_shift key i members;
     members'' \<leftarrow> mem_write members' j key;
     sort_members (Suc i) left members'' }"

definition nav_tdma_set_members ::
  "nav_tdma \<Rightarrow> u8 list option \<Rightarrow> nat \<Rightarrow> (nav_status \<times> nav_tdma) option" where
  "nav_tdma_set_members tdma ids cnt =
     (if ids = None \<and> cnt > 0 then Some (NAV_STATUS_INVALID_ARGUMENT, tdma)
      else if cnt > NAV_MAX_NODES then Some (NAV_STATUS_NO_SPACE, tdma)
      else do {
        copied \<leftarrow> copy_members (case ids of None \<Rightarrow> [] | Some l \<Rightarrow> l) 0 cnt (td_members tdma);
        sorted \<leftarrow> sort_members 1 (cnt - 1) copied;
        Some (NAV_STATUS_OK, tdma\<lparr>td_members := sorted, td_member_count := cnt\<rparr>) })"

definition nav_tdma_set_fixed_field_members :: "nav_tdma \<Rightarrow> (nav_status \<times> nav_tdma) option" where
  "nav_tdma_set_fixed_field_members tdma = nav_tdma_set_members tdma (Some [0, 1, 2, 3]) NAV_MAX_NODES"

definition pair_count :: "nat \<Rightarrow> nat" where
  "pair_count n = (if n < 2 then 0 else (n * (n - 1)) div 2)"

definition nav_tdma_slots_per_frame :: "nav_tdma \<Rightarrow> nat" where
  "nav_tdma_slots_per_frame tdma =
     (if td_member_count tdma = 0 then 0 else td_member_count tdma + pair_count (td_member_count tdma))"

definition nav_tdma_frame_duration_ms :: "nav_tdma \<Rightarrow> u32 option" where
  "nav_tdma_frame_duration_ms tdma = (let slots = nav_tdma_slots_per_frame tdma in
     if slots = 0 then Some 0
     else if td_slot_ms tdma = 0 then None
     else if slots > unat ((- 1 :: u32) div td_slot_ms tdma) then Some 0
     else Some (of_nat slots * td_slot_ms tdma))"

fun members_match :: "u8 list \<Rightarrow> nat \<Rightarrow> nat \<Rightarrow> bool option" where
  "members_match members i 0 = Some True"
| "members_match members i (Suc left) = do {
     v \<leftarrow> mem_read members i;
     if v \<noteq> of_nat i then Some False else members_match members (Suc i) left }"

definition nav_tdma_fixed_plan_valid :: "nav_tdma \<Rightarrow> bool option" where
  "nav_tdma_fixed_plan_valid tdma =
     (if td_member_count tdma \<noteq> NAV_MAX_NODES \<or> td_slot_ms tdma \<noteq> NAV_TDMA_FIXED_SLOT_MS then Some False
      else members_match (td_members tdma) 0 NAV_MAX_NODES)"

definition nav_tdma_is_time_authority :: "nav_tdma \<Rightarrow> bool option" where
  "nav_tdma_is_time_authority tdma = (if td_member_count tdma = 0 then Some False
     else do { m \<leftarrow> mem_read (td_members tdma) 0; Some (m = td_local_node_id tdma) })"

function ranging_walk ::
  "u8 list \<Rightarrow> nat \<Rightarrow> nat \<Rightarrow> nat \<Rightarrow> nat \<Rightarrow> nat \<Rightarrow> (u8 \<times> u8) option" where
  "ranging_walk members cnt ordinal i j seen =
     (if \<not> i < cnt then Some (NAV_INVALID_NODE_ID, NAV_INVALID_NODE_ID)
      else if \<not> j < cnt then ranging_walk members cnt ordinal (i + 1) (i + 1 + 1) seen
      else if seen = ordinal then do {
        lo \<leftarrow> mem_read members i;
        hi \<leftarrow> mem_read members j;
        Some (lo, hi) }
      else ranging_walk members cnt ordinal i (j + 1) (seen + 1))"
  by pat_completeness auto
termination
  by (relation "measures [\<lambda>(members, cnt, ordinal, i, j, seen). cnt - i,
       \<lambda>(members, cnt, ordinal, i, j, seen). cnt - j]") auto

declare ranging_walk.simps [simp del]

definition ranging_pair :: "nav_tdma \<Rightarrow> nat \<Rightarrow> (u8 \<times> u8) option" where
  "ranging_pair tdma ordinal =
     ranging_walk (td_members tdma) (td_member_count tdma) ordinal 0 (0 + 1) 0"

definition nav_tdma_action_at :: "nav_tdma \<Rightarrow> u32 \<Rightarrow> (nav_status \<times> nav_tdma_action) option" where
  "nav_tdma_action_at tdma now_ms =
     (let out = \<lparr>act_type = NAV_TDMA_LISTEN, act_peer_id = NAV_INVALID_NODE_ID,
            act_from_id = NAV_INVALID_NODE_ID, act_to_id = NAV_INVALID_NODE_ID, act_slot_index = 0,
            act_frame_index = 0, act_slot_start_ms = 0, act_slot_end_ms = 0, act_remaining_ms = 0\<rparr>;
          slots = nav_tdma_slots_per_frame tdma in
      if slots = 0 then Some (NAV_STATUS_OK, out)
      else if td_slot_ms tdma = 0 then None
      else
        let absolute_slot = now_ms div td_slot_ms tdma;
            slot = unat (absolute_slot mod of_nat slots);
            start = absolute_slot * td_slot_ms tdma;
            slot_end = start + td_slot_ms tdma;
            out = out\<lparr>act_frame_index := absolute_slot div of_nat slots, act_slot_index := of_nat slot,
              act_slot_start_ms := start, act_slot_end_ms := slot_end,
              act_remaining_ms := slot_end - now_ms\<rparr> in
        if slot < td_member_count tdma then do {
          m \<leftarrow> mem_read (td_members tdma) slot;
          let out = out\<lparr>act_from_id := m\<rparr>;
          Some (NAV_STATUS_OK, if m = td_local_node_id tdma
            then out\<lparr>act_type := NAV_TDMA_TX_BEACON, act_peer_id := NAV_INVALID_NODE_ID\<rparr> else out) }
        else do {
          (lo, hi) \<leftarrow> ranging_pair tdma (slot - td_member_count tdma);
          let out = out\<lparr>act_from_id := lo, act_to_id := hi\<rparr>;
          Some (NAV_STATUS_OK,
            if td_local_node_id tdma = lo
            then out\<lparr>act_type := NAV_TDMA_RANGE_PEER, act_peer_id := hi\<rparr>
            else if td_local_node_id tdma = hi then out\<lparr>act_peer_id := lo\<rparr> else out) })"

definition nav_tdma_action_can_start :: "nav_tdma_action option \<Rightarrow> bool" where
  "nav_tdma_action_can_start action = (case action of None \<Rightarrow> False
   | Some a \<Rightarrow> (case act_type a of
       NAV_TDMA_TX_BEACON \<Rightarrow> act_remaining_ms a \<ge> NAV_TDMA_BEACON_MIN_REMAINING_MS
     | NAV_TDMA_RANGE_PEER \<Rightarrow> act_remaining_ms a \<ge> NAV_TDMA_RANGE_MIN_REMAINING_MS
     | NAV_TDMA_LISTEN \<Rightarrow> True))"

definition nav_tdma_validate_timing_heartbeat ::
  "nav_tdma \<Rightarrow> nav_tdma_timing_heartbeat option \<Rightarrow> nav_status option" where
  "nav_tdma_validate_timing_heartbeat tdma heartbeat = (case heartbeat of
     None \<Rightarrow> Some NAV_STATUS_INVALID_ARGUMENT
   | Some h \<Rightarrow> do {
       fixed_plan \<leftarrow> nav_tdma_fixed_plan_valid tdma;
       Some (if \<not> fixed_plan then NAV_STATUS_BAD_FRAME
         else if th_authority_id h \<noteq> NAV_TDMA_AUTHORITY_ID \<or> ucast (th_slot_ms h) \<noteq> td_slot_ms tdma
         then NAV_STATUS_BAD_FRAME
         else if unat (th_slot_index h) \<ge> nav_tdma_slots_per_frame tdma then NAV_STATUS_BAD_FRAME
         else if th_slot_elapsed_ms h \<ge> th_slot_ms h then NAV_STATUS_BAD_FRAME
         else NAV_STATUS_OK) })"

definition nav_tdma_authority_expired :: "u32 \<Rightarrow> u32 \<Rightarrow> bool" where
  "nav_tdma_authority_expired now_ms last_heartbeat_ms =
     (now_ms - last_heartbeat_ms > NAV_TDMA_AUTHORITY_TIMEOUT_MS)"

section \<open>Membership\<close>

definition tdma_wf :: "nav_tdma \<Rightarrow> bool" where
  "tdma_wf t \<longleftrightarrow> length (td_members t) = NAV_MAX_NODES \<and> td_member_count t \<le> NAV_MAX_NODES \<and>
     sorted (take (td_member_count t) (td_members t)) \<and> td_slot_ms t \<noteq> 0"

abbreviation membership :: "nav_tdma \<Rightarrow> u8 list" where
  "membership t \<equiv> take (td_member_count t) (td_members t)"

lemma init_wf: "tdma_wf (nav_tdma_init i slot)"
  by (simp add: tdma_wf_def nav_tdma_init_def)

lemma copy_members_eq:
  "i + n \<le> length ids \<Longrightarrow> i + n \<le> length m \<Longrightarrow>
   copy_members ids i n m = Some (take i m @ take n (drop i ids) @ drop (i + n) m)"
proof (induction n arbitrary: i m)
  case (Suc n)
  have "take (Suc i) (m[i := ids ! i]) = take i m @ [ids ! i]"
    using Suc.prems by (intro take_Suc_update) simp
  moreover have "take (Suc n) (drop i ids) = ids ! i # take n (drop (Suc i) ids)"
    using Suc.prems by (simp add: Cons_nth_drop_Suc [symmetric])
  ultimately show ?case using Suc by (simp add: mem_simps)
qed simp

lemma insort_eqI: "sorted xs \<Longrightarrow> sorted ys \<Longrightarrow> mset ys = add_mset k (mset xs) \<Longrightarrow> insort k xs = ys"
  using properties_for_sort [of ys "k # xs"] by (simp add: sorted_sort_id)

lemma insert_shift_eq:
  "sorted xs \<Longrightarrow> \<exists>j m. insert_shift key (length xs) (xs @ h # ys) = Some (j, m) \<and> j < length m \<and>
     m[j := key] = insort key xs @ ys"
proof (induction xs arbitrary: h ys rule: rev_induct)
  case (snoc z zs)
  have srt: "sorted zs" "\<And>y. y \<in> set zs \<Longrightarrow> y \<le> z" using snoc.prems by (auto simp: sorted_append)
  show ?case
  proof (cases "z > key")
    case True
    obtain j m where jm: "insert_shift key (length zs) (zs @ z # (z # ys)) = Some (j, m)"
      "j < length m" "m[j := key] = insort key zs @ z # ys"
      using snoc.IH [OF srt(1), of z "z # ys"] by auto
    have "insort key (zs @ [z]) = insort key zs @ [z]"
      using snoc.prems srt True
      by (intro insort_eqI) (auto simp: sorted_append sorted_insort set_insort_key)
    with jm True show ?thesis by (simp add: mem_simps nth_append list_update_append)
  next
    case False
    have "insort key (zs @ [z]) = (zs @ [z]) @ [key]"
      using snoc.prems srt False by (intro insort_eqI) (force simp: sorted_append)+
    with False show ?thesis by (simp add: mem_simps nth_append list_update_append)
  qed
qed simp

lemma sort_members_eq:
  "i + n = length xs \<Longrightarrow> sort_members i n (sort (take i xs) @ drop i xs @ ys) = Some (sort xs @ ys)"
proof (induction n arbitrary: i)
  case (Suc n)
  define s where "s = sort (take i xs)"
  have s: "sorted s" "length s = i" using Suc.prems by (simp_all add: s_def)
  have d: "drop i xs = xs ! i # drop (Suc i) xs" using Suc.prems by (simp add: Cons_nth_drop_Suc)
  obtain j m where jm: "insert_shift (xs ! i) (length s) (s @ xs ! i # (drop (Suc i) xs @ ys)) = Some (j, m)"
    "j < length m" "m[j := xs ! i] = insort (xs ! i) s @ drop (Suc i) xs @ ys"
    using insert_shift_eq [OF s(1)] by blast
  have "sort (take (Suc i) xs) = insort (xs ! i) s"
    using Suc.prems by (intro properties_for_sort) (simp_all add: s_def take_Suc_conv_app_nth sorted_insort)
  then show ?case
    using Suc.IH [of "Suc i"] Suc.prems jm s
    by (simp add: s_def [symmetric] d mem_simps nth_append)
qed simp

lemma set_members_eq:
  assumes "length (td_members t) = 4" "cnt \<le> 4" "cnt \<le> length ids"
  shows "nav_tdma_set_members t (Some ids) cnt = Some (NAV_STATUS_OK,
    t\<lparr>td_members := sort (take cnt ids) @ drop cnt (td_members t), td_member_count := cnt\<rparr>)"
proof -
  have c: "copy_members ids 0 cnt (td_members t) = Some (take cnt ids @ drop cnt (td_members t))"
    using assms by (simp add: copy_members_eq)
  have "sort_members 1 (cnt - 1) (take cnt ids @ drop cnt (td_members t)) =
      Some (sort (take cnt ids) @ drop cnt (td_members t))"
  proof (cases "cnt = 0")
    case False
    then obtain x xs where x: "take cnt ids = x # xs" using assms(3) by (cases "take cnt ids") auto
    with False have "1 + (cnt - 1) = length (x # xs)" using assms(3) by (metis length_take min.absorb2 le_add_diff_inverse not_less_eq_eq One_nat_def le_0_eq)
    from sort_members_eq [OF this] show ?thesis by (simp add: x)
  qed simp
  with c assms show ?thesis by (simp add: nav_tdma_set_members_def)
qed

text \<open>Setting the membership of a scheduler: more than four ids are refused and change nothing,
  otherwise the stored members are exactly the given ids in ascending order (the array insertion
  sort never leaves the array), and the scheduler stays well-formed.\<close>

theorem set_members_sorts:
  assumes "tdma_wf t" and "cnt \<le> length ids"
  shows "if cnt > 4 then nav_tdma_set_members t (Some ids) cnt = Some (NAV_STATUS_NO_SPACE, t)
    else \<exists>t'. nav_tdma_set_members t (Some ids) cnt = Some (NAV_STATUS_OK, t') \<and> tdma_wf t' \<and>
      membership t' = sort (take cnt ids) \<and> mset (membership t') = mset (take cnt ids) \<and>
      td_local_node_id t' = td_local_node_id t \<and> td_slot_ms t' = td_slot_ms t"
proof (cases "cnt > 4")
  case False
  then show ?thesis using assms set_members_eq [of t cnt ids] by (simp add: tdma_wf_def)
qed (simp add: nav_tdma_set_members_def)

section \<open>The frame as a list of jobs\<close>

text \<open>
  The abstract schedule: one beacon per member, then one exchange per pair of members, as a list of
  (sender, receiver), with 255 for the broadcast of a beacon.
\<close>

fun pairs_of :: "'a list \<Rightarrow> ('a \<times> 'a) list" where
  "pairs_of [] = []"
| "pairs_of (x # xs) = map (Pair x) xs @ pairs_of xs"

definition schedule :: "u8 list \<Rightarrow> (u8 \<times> u8) list" where
  "schedule ms = map (\<lambda>m. (m, NAV_INVALID_NODE_ID)) ms @ pairs_of ms"

lemma length_pairs_of_twice: "2 * length (pairs_of xs) = length xs * (length xs - 1)"
proof (induction xs)
  case (Cons x xs)
  then show ?case by (cases xs) (simp_all add: algebra_simps)
qed simp

lemma length_pairs_of: "length (pairs_of xs) = pair_count (length xs)"
  using length_pairs_of_twice [of xs] by (auto simp: pair_count_def less_2_cases_iff)

lemma length_schedule:
  "tdma_wf t \<Longrightarrow> length (schedule (membership t)) = nav_tdma_slots_per_frame t"
  by (auto simp: schedule_def length_pairs_of nav_tdma_slots_per_frame_def tdma_wf_def pair_count_def)

definition pairs_from :: "u8 list \<Rightarrow> nat \<Rightarrow> nat \<Rightarrow> nat \<Rightarrow> (u8 \<times> u8) list" where
  "pairs_from m n i j =
     (if i < n then map (\<lambda>k. (m ! i, m ! k)) [j..<n] @ pairs_of (drop (Suc i) (take n m)) else [])"

lemma pairs_from_next_row: "n \<le> length m \<Longrightarrow> i < n \<Longrightarrow> n \<le> j \<Longrightarrow> pairs_from m n i j = pairs_from m n (Suc i) (Suc (Suc i))"
proof -
  assume n: "n \<le> length m" "i < n" "n \<le> j"
  show ?thesis
  proof (cases "Suc i < n")
    case True
    have "drop (Suc i) (take n m) = m ! Suc i # drop (Suc (Suc i)) (take n m)"
      using True n by (metis Cons_nth_drop_Suc length_take min.absorb2 nth_take)
    moreover have "drop (Suc (Suc i)) (take n m) = map ((!) m) [Suc (Suc i)..<n]"
      using n True by (intro nth_equalityI) simp_all
    ultimately show ?thesis using True n by (simp add: pairs_from_def)
  qed (use n in \<open>simp add: pairs_from_def\<close>)
qed

lemma pairs_from_step: "i < n \<Longrightarrow> j < n \<Longrightarrow> pairs_from m n i j = (m ! i, m ! j) # pairs_from m n i (Suc j)"
  by (simp add: pairs_from_def upt_conv_Cons)

lemma ranging_walk_eq:
  "n \<le> length m \<Longrightarrow> seen \<le> ord \<Longrightarrow> ranging_walk m n ord i j seen = Some
     (if ord - seen < length (pairs_from m n i j) then pairs_from m n i j ! (ord - seen)
      else (NAV_INVALID_NODE_ID, NAV_INVALID_NODE_ID))"
proof (induction m n ord i j seen rule: ranging_walk.induct)
  case (1 m n ord i j seen)
  consider "\<not> i < n" | "i < n" "\<not> j < n" | "i < n" "j < n" "seen = ord" | "i < n" "j < n" "seen < ord"
    using "1.prems"(2) by linarith
  then show ?case
  proof cases
    case 1
    then show ?thesis by (simp add: ranging_walk.simps [of m n] pairs_from_def)
  next
    case 2
    with "1.IH"(1) "1.prems" show ?thesis
      by (simp add: ranging_walk.simps [of m n ord i j] pairs_from_next_row)
  next
    case 3
    with "1.prems" show ?thesis
      by (simp add: ranging_walk.simps [of m n ord i j] pairs_from_step mem_simps)
  next
    case 4
    then have "ord - seen = Suc (ord - Suc seen)" by simp
    with 4 "1.IH"(2) "1.prems" show ?thesis
      by (simp add: ranging_walk.simps [of m n ord i j] pairs_from_step)
  qed
qed

lemma ranging_pair_eq:
  assumes "tdma_wf t" "k < pair_count (td_member_count t)"
  shows "ranging_pair t k = Some (pairs_of (membership t) ! k)"
proof -
  let ?n = "td_member_count t" and ?m = "td_members t"
  have n: "?n \<le> length ?m" using assms(1) by (simp add: tdma_wf_def)
  have n0: "0 < ?n" using assms(2) by (cases ?n) (simp_all add: pair_count_def)
  have "pairs_from ?m ?n 0 1 = pairs_of (membership t)"
  proof -
    obtain x xs where x: "membership t = x # xs" using n n0 by (cases "membership t") auto
    have "xs = map ((!) ?m) [1..<?n]"
    proof -
      have "take ?n ?m = map ((!) ?m) [0..<?n]" using n by (intro nth_equalityI) simp_all
      then have "x # xs = map ((!) ?m) [0..<?n]" using x by simp
      then show ?thesis using n0 by (simp add: upt_conv_Cons)
    qed
    moreover have "x = ?m ! 0" using x n n0 by (metis nth_Cons_0 nth_take)
    ultimately show ?thesis using n0 x by (simp add: pairs_from_def drop_Suc)
  qed
  moreover have "k < length (pairs_of (membership t))" using assms n by (simp add: length_pairs_of)
  ultimately show ?thesis using n by (simp add: ranging_pair_def ranging_walk_eq)
qed

definition slot_at :: "nav_tdma \<Rightarrow> u32 \<Rightarrow> nat" where
  "slot_at t now = (unat now div unat (td_slot_ms t)) mod nav_tdma_slots_per_frame t"

lemma slots_bounds: "tdma_wf t \<Longrightarrow> td_member_count t \<noteq> 0 \<Longrightarrow>
    0 < nav_tdma_slots_per_frame t \<and> nav_tdma_slots_per_frame t \<le> 10"
proof -
  assume "tdma_wf t" "td_member_count t \<noteq> 0"
  then have "td_member_count t \<in> {1, 2, 3, 4}" by (auto simp: tdma_wf_def)
  then show ?thesis by (auto simp: nav_tdma_slots_per_frame_def pair_count_def)
qed

lemma slot_at_word:
  assumes "tdma_wf t" "td_member_count t \<noteq> 0"
  shows "unat ((now div td_slot_ms t) mod of_nat (nav_tdma_slots_per_frame t)) = slot_at t now"
    and "slot_at t now < nav_tdma_slots_per_frame t"
proof -
  have u: "unat (of_nat (nav_tdma_slots_per_frame t) :: u32) = nav_tdma_slots_per_frame t"
    using slots_bounds [OF assms] by (simp add: unat_of_nat)
  show "unat ((now div td_slot_ms t) mod of_nat (nav_tdma_slots_per_frame t)) = slot_at t now"
    by (simp only: slot_at_def unat_mod unat_div u)
  show "slot_at t now < nav_tdma_slots_per_frame t"
    using slots_bounds [OF assms] by (simp add: slot_at_def)
qed

text \<open>The action of a node in closed form: its part in the job of the current slot.\<close>

definition action_view :: "nav_tdma \<Rightarrow> u32 \<Rightarrow> nav_tdma_action \<Rightarrow> bool" where
  "action_view t now a \<longleftrightarrow> (let k = slot_at t now; (src, dst) = schedule (membership t) ! k;
       me = td_local_node_id t in
     act_from_id a = src \<and> act_to_id a = dst \<and> unat (act_slot_index a) = k \<and>
     act_type a = (if me \<noteq> src then NAV_TDMA_LISTEN
       else if k < td_member_count t then NAV_TDMA_TX_BEACON else NAV_TDMA_RANGE_PEER) \<and>
     act_peer_id a = (if k < td_member_count t then NAV_INVALID_NODE_ID
       else if me = src then dst else if me = dst then src else NAV_INVALID_NODE_ID) \<and>
     act_remaining_ms a = td_slot_ms t - now mod td_slot_ms t)"

lemma action_view_job: "action_view t now a \<Longrightarrow>
    (act_from_id a, act_to_id a) = schedule (membership t) ! slot_at t now"
  by (cases "schedule (membership t) ! slot_at t now") (simp add: action_view_def Let_def)

lemma action_view_remaining: "action_view t now a \<Longrightarrow>
    act_remaining_ms a = td_slot_ms t - now mod td_slot_ms t"
  by (cases "schedule (membership t) ! slot_at t now") (simp add: action_view_def Let_def)

lemma remaining_eq: "(now div s) * s + s - now = s - now mod (s :: u32)"
proof -
  have "n = d + r \<Longrightarrow> d + s - n = s - r" for n d r :: u32 by simp
  from this [OF div_mult_mod_eq [symmetric]] show ?thesis .
qed

lemma action_at_view:
  assumes "tdma_wf t" "td_member_count t \<noteq> 0"
  shows "\<exists>a. nav_tdma_action_at t now = Some (NAV_STATUS_OK, a) \<and> action_view t now a"
proof -
  let ?k = "slot_at t now"
  have kw: "of_nat ?k = (now div td_slot_ms t) mod of_nat (nav_tdma_slots_per_frame t)"
    using slot_at_word(1) [OF assms, of now] by (metis of_nat_unat ucast_id)
  have ku: "unat (of_nat ?k :: u32) = ?k" using slot_at_word [OF assms, of now] kw by metis
  have n: "td_member_count t \<le> length (td_members t)" using assms(1) by (simp add: tdma_wf_def)
  have nz: "td_slot_ms t \<noteq> 0" using assms(1) by (simp add: tdma_wf_def)
  note facts = slot_at_word(1) [OF assms] slots_bounds [OF assms] nz
  show ?thesis
  proof (cases "?k < td_member_count t")
    case True
    then have "schedule (membership t) ! ?k = (td_members t ! ?k, NAV_INVALID_NODE_ID)"
      using n by (simp add: schedule_def nth_append)
    with True n facts show ?thesis
      by (simp add: nav_tdma_action_at_def Let_def mem_simps action_view_def remaining_eq ku)
  next
    case False
    have lt: "?k - td_member_count t < pair_count (td_member_count t)"
      using False slot_at_word(2) [OF assms, of now] assms(2) by (auto simp: nav_tdma_slots_per_frame_def)
    have "schedule (membership t) ! ?k = pairs_of (membership t) ! (?k - td_member_count t)"
      using False n by (simp add: schedule_def nth_append)
    with False facts ranging_pair_eq [OF assms(1) lt] show ?thesis
      by (auto simp: nav_tdma_action_at_def Let_def action_view_def remaining_eq ku split: prod.split)
  qed
qed

section \<open>Properties of the schedule\<close>

lemma local_irrelevant [simp]:
  "tdma_wf (t\<lparr>td_local_node_id := i\<rparr>) = tdma_wf t"
  "slot_at (t\<lparr>td_local_node_id := i\<rparr>) now = slot_at t now"
  by (simp_all add: tdma_wf_def slot_at_def nav_tdma_slots_per_frame_def)

text \<open>C10: Every slot belongs to one node: at any time all nodes with the same membership and slot
  length, whatever their own id, resolve the slot to the same job (sender, receiver), exactly the
  sender's action is not to listen, and the peer it ranges is the receiver of the job. Two nodes
  therefore never start transmitting in the same slot.\<close>

theorem slot_exclusive:
  assumes "tdma_wf t" and "td_member_count t \<noteq> 0"
  shows "\<exists>src dst. (src, dst) \<in> set (schedule (membership t)) \<and> (\<forall>i. \<exists>a.
    nav_tdma_action_at (t\<lparr>td_local_node_id := i\<rparr>) now = Some (NAV_STATUS_OK, a) \<and>
    act_from_id a = src \<and> act_to_id a = dst \<and> (act_type a \<noteq> NAV_TDMA_LISTEN \<longleftrightarrow> i = src) \<and>
    (act_type a = NAV_TDMA_RANGE_PEER \<longrightarrow> act_peer_id a = dst))"
proof -
  obtain src dst where sd: "schedule (membership t) ! slot_at t now = (src, dst)" by fastforce
  then have "(src, dst) \<in> set (schedule (membership t))"
    using slot_at_word(2) [OF assms, of now] length_schedule [OF assms(1)] by (metis nth_mem)
  moreover have "\<exists>a. nav_tdma_action_at (t\<lparr>td_local_node_id := i\<rparr>) now = Some (NAV_STATUS_OK, a) \<and>
      act_from_id a = src \<and> act_to_id a = dst \<and> (act_type a \<noteq> NAV_TDMA_LISTEN \<longleftrightarrow> i = src) \<and>
      (act_type a = NAV_TDMA_RANGE_PEER \<longrightarrow> act_peer_id a = dst)" for i
    using action_at_view [of "t\<lparr>td_local_node_id := i\<rparr>" now] assms
    by (auto simp: action_view_def Let_def sd)
  ultimately show ?thesis by blast
qed

definition job_at :: "nav_tdma \<Rightarrow> u32 \<Rightarrow> u8 \<times> u8" where
  "job_at t now = (case nav_tdma_action_at t now of
     Some (_, a) \<Rightarrow> (act_from_id a, act_to_id a) | None \<Rightarrow> (NAV_INVALID_NODE_ID, NAV_INVALID_NODE_ID))"

lemma job_at_eq:
  "tdma_wf t \<Longrightarrow> td_member_count t \<noteq> 0 \<Longrightarrow> job_at t now = schedule (membership t) ! slot_at t now"
  using action_at_view [of t now] by (auto simp: job_at_def dest: action_view_job)

lemma set_pairs_of:
  "sorted xs \<Longrightarrow> distinct xs \<Longrightarrow> (a, b) \<in> set (pairs_of xs) \<longleftrightarrow> a \<in> set xs \<and> b \<in> set xs \<and> a < (b :: u8)"
  by (induction xs) (auto simp: order_less_le)

lemma distinct_pairs_of: "sorted xs \<Longrightarrow> distinct xs \<Longrightarrow> distinct (pairs_of (xs :: u8 list))"
  by (induction xs) (auto simp: distinct_map inj_on_def set_pairs_of)

lemma distinct_schedule:
  "sorted xs \<Longrightarrow> distinct xs \<Longrightarrow> 255 \<notin> set xs \<Longrightarrow> distinct (schedule xs)"
  by (auto simp: schedule_def distinct_map inj_on_def distinct_pairs_of set_pairs_of)

lemma distinct_ex1_nth: "distinct xs \<Longrightarrow> x \<in> set xs \<Longrightarrow> \<exists>!k. k < length xs \<and> xs ! k = x"
  by (rule distinct_Ex1)

text \<open>Of any \<open>n\<close> consecutive numbers exactly one has a given remainder.\<close>

lemma window_mod:
  assumes "j < (n :: nat)"
  shows "\<exists>!k. first \<le> k \<and> k < first + n \<and> k mod n = j"
proof (rule ex_ex1I)
  have n: "0 < n" using assms by simp
  define k where "k = first + (j + n - first mod n) mod n"
  have "k mod n = (first + (j + n - first mod n)) mod n" by (simp add: k_def mod_add_right_eq)
  also have "first + (j + n - first mod n) = j + n * (1 + first div n)"
  proof -
    obtain q r where "first = n * q + r" "first mod n = r" "first div n = q"
      by (metis mult_div_mod_eq)
    then show ?thesis using mod_less_divisor [OF n, of first] by (simp add: distrib_left)
  qed
  finally have "k mod n = j" using assms mod_mult_self2 [of j n "1 + first div n"] by simp
  moreover have "first \<le> k \<and> k < first + n" using n by (simp add: k_def)
  ultimately show "\<exists>k. first \<le> k \<and> k < first + n \<and> k mod n = j" by blast
next
  fix k l assume kl: "first \<le> k \<and> k < first + n \<and> k mod n = j" "first \<le> l \<and> l < first + n \<and> l mod n = j"
  have close: "x = y" if "x \<le> y" "y < x + n" "x mod n = y mod n" for x y
  proof -
    have "n dvd y - x" using that(1,3) mod_eq_dvd_iff_nat [of x y n] by simp
    then show ?thesis using that(1,2) by (auto dest: dvd_imp_le)
  qed
  show "k = l" using close [of k l] close [of l k] kl by (cases "k \<le> l") simp_all
qed

lemma job_in_slot:
  assumes "tdma_wf t" "td_member_count t \<noteq> 0" "(k + 1) * unat (td_slot_ms t) \<le> 2 ^ 32" "off < unat (td_slot_ms t)"
  shows "job_at t (of_nat (k * unat (td_slot_ms t) + off)) = schedule (membership t) ! (k mod nav_tdma_slots_per_frame t)"
proof -
  have "k * unat (td_slot_ms t) + off < 2 ^ 32" using assms(3,4) by simp
  then have "unat (of_nat (k * unat (td_slot_ms t) + off) :: u32) = k * unat (td_slot_ms t) + off"
    unfolding unat_of_nat by simp
  then have "slot_at t (of_nat (k * unat (td_slot_ms t) + off)) = k mod nav_tdma_slots_per_frame t"
    using assms(4) by (simp add: slot_at_def)
  then show ?thesis using job_at_eq [OF assms(1,2)] by simp
qed

lemma schedule_jobs:
  assumes "sorted ms" "distinct ms" "x \<in> set (schedule ms)"
  shows "(\<exists>m \<in> set ms. x = (m, 255)) \<or> (\<exists>a \<in> set ms. \<exists>b \<in> set ms. a < b \<and> x = (a, b))"
proof -
  obtain a b where "x = (a, b)" by fastforce
  then show ?thesis using assms(3) set_pairs_of [OF assms(1,2), of a b] by (auto simp: schedule_def)
qed

text \<open>C29: A frame covers the network exactly once, and so does every other frame: whichever \<open>n\<close> consecutive slots
  of the 32-bit clock one takes, \<open>n\<close> the slots of a frame, and at whichever millisecond of the slots one looks,
  the jobs come in the order of the schedule, every member has exactly one beacon slot, every pair of members
  has exactly one ranging slot, which the lower id initiates, and there are no other slots.\<close>

theorem frame_covers:
  assumes "tdma_wf t" and "td_member_count t \<noteq> 0"
    and "distinct (membership t)" and "255 \<notin> set (membership t)"
    and "(first + nav_tdma_slots_per_frame t) * unat (td_slot_ms t) \<le> 2 ^ 32" and "off < unat (td_slot_ms t)"
  shows "(\<forall>k. first \<le> k \<and> k < first + nav_tdma_slots_per_frame t \<longrightarrow> job_at t (of_nat (k * unat (td_slot_ms t) + off)) =
      schedule (membership t) ! (k mod nav_tdma_slots_per_frame t)) \<and>
    (\<forall>m \<in> set (membership t). \<exists>!k. first \<le> k \<and> k < first + nav_tdma_slots_per_frame t \<and>
      job_at t (of_nat (k * unat (td_slot_ms t) + off)) = (m, 255)) \<and>
    (\<forall>a \<in> set (membership t). \<forall>b \<in> set (membership t). a < b \<longrightarrow>
      (\<exists>!k. first \<le> k \<and> k < first + nav_tdma_slots_per_frame t \<and>
        job_at t (of_nat (k * unat (td_slot_ms t) + off)) = (a, b))) \<and>
    (\<forall>k. first \<le> k \<and> k < first + nav_tdma_slots_per_frame t \<longrightarrow>
      (\<exists>m \<in> set (membership t). job_at t (of_nat (k * unat (td_slot_ms t) + off)) = (m, 255)) \<or>
      (\<exists>a \<in> set (membership t). \<exists>b \<in> set (membership t). a < b \<and>
        job_at t (of_nat (k * unat (td_slot_ms t) + off)) = (a, b)))"
proof -
  let ?n = "nav_tdma_slots_per_frame t" and ?s = "unat (td_slot_ms t)" and ?M = "membership t"
  have srt: "sorted ?M" using assms(1) by (simp add: tdma_wf_def)
  have len: "length (schedule ?M) = ?n" by (rule length_schedule [OF assms(1)])
  have job: "job_at t (of_nat (k * ?s + off)) = schedule ?M ! (k mod ?n)" if "k < first + ?n" for k
  proof -
    have "(k + 1) * ?s \<le> (first + ?n) * ?s" using that by (intro mult_le_mono1) simp
    then show ?thesis using assms(5) by (intro job_in_slot [OF assms(1,2) _ assms(6)]) simp
  qed
  have once: "\<exists>!k. first \<le> k \<and> k < first + ?n \<and> job_at t (of_nat (k * ?s + off)) = x" if x: "x \<in> set (schedule ?M)" for x
  proof -
    obtain j where j: "j < ?n" "\<And>i. i < ?n \<Longrightarrow> schedule ?M ! i = x \<longleftrightarrow> i = j"
      using distinct_Ex1 [OF distinct_schedule [OF srt assms(3,4)] x] len by metis
    have "k mod ?n < ?n" for k using j(1) by simp
    then have "first \<le> k \<and> k < first + ?n \<and> job_at t (of_nat (k * ?s + off)) = x \<longleftrightarrow>
        first \<le> k \<and> k < first + ?n \<and> k mod ?n = j" for k
      using job [of k] j(2) [of "k mod ?n"] by auto
    then show ?thesis using window_mod [OF j(1), of first] by simp
  qed
  have beacon: "(m, 255) \<in> set (schedule ?M)" if "m \<in> set ?M" for m
    using that by (simp add: schedule_def)
  have pair: "(a, b) \<in> set (schedule ?M)" if "a \<in> set ?M" "b \<in> set ?M" "a < b" for a b
    using that set_pairs_of [OF srt assms(3)] by (simp add: schedule_def)
  have other: "(\<exists>m \<in> set ?M. job_at t (of_nat (k * ?s + off)) = (m, 255)) \<or>
      (\<exists>a \<in> set ?M. \<exists>b \<in> set ?M. a < b \<and> job_at t (of_nat (k * ?s + off)) = (a, b))" if "k < first + ?n" for k
  proof -
    have "k mod ?n < length (schedule ?M)" using slots_bounds [OF assms(1,2)] len by simp
    then have "job_at t (of_nat (k * ?s + off)) \<in> set (schedule ?M)" using job [OF that] nth_mem by metis
    then show ?thesis using schedule_jobs [OF srt assms(3)] by blast
  qed
  show ?thesis
    by (intro conjI ballI allI impI once beacon pair) (use job other in blast)+
qed

lemma fixed_members_eq:
  "nav_tdma_set_fixed_field_members (nav_tdma_init i 500) = Some (NAV_STATUS_OK,
     \<lparr>td_members = [0, 1, 2, 3], td_member_count = 4, td_local_node_id = i, td_slot_ms = 500\<rparr>)"
  using set_members_eq [of "nav_tdma_init i 500" 4 "[0, 1, 2, 3]"]
  by (simp add: nav_tdma_set_fixed_field_members_def nav_tdma_init_def)

lemma unat_mod_500: "unat (now mod (500 :: u32)) = unat now mod 500"
  by (simp add: unat_mod)

lemma remaining_500: "500 - now mod (500 :: u32) \<ge> of_nat k \<longleftrightarrow> unat now mod 500 \<le> 500 - k" if "k \<le> 500"
proof -
  have "now mod 500 \<le> (500 :: u32)"
    by (simp add: word_le_nat_alt unat_mod_500 less_imp_le)
  then have "unat (500 - now mod (500 :: u32)) = 500 - unat now mod 500"
    by (simp add: unat_sub unat_mod_500)
  moreover have "unat (of_nat k :: u32) = k" using that by (simp add: unat_of_nat)
  moreover have "unat now mod 500 < 500" by simp
  ultimately show ?thesis using that by (auto simp: word_le_nat_alt)
qed

text \<open>The four-node field plan: ten slots of 500 ms in a five second frame, node 0 is the time
  authority, and an action starts only when enough of its slot is left: a range in the first 50 ms
  of the slot, a beacon in the first 400 ms.\<close>

theorem fixed_plan:
  "\<exists>t. nav_tdma_set_fixed_field_members (nav_tdma_init i 500) = Some (NAV_STATUS_OK, t) \<and> tdma_wf t \<and>
     nav_tdma_fixed_plan_valid t = Some True \<and> nav_tdma_slots_per_frame t = 10 \<and>
     nav_tdma_frame_duration_ms t = Some 5000 \<and>
     nav_tdma_is_time_authority t = Some (i = NAV_TDMA_AUTHORITY_ID) \<and>
     (\<exists>a. nav_tdma_action_at t now = Some (NAV_STATUS_OK, a) \<and>
       nav_tdma_action_can_start (Some a) = (case act_type a of
         NAV_TDMA_LISTEN \<Rightarrow> True
       | NAV_TDMA_TX_BEACON \<Rightarrow> unat now mod 500 \<le> 400
       | NAV_TDMA_RANGE_PEER \<Rightarrow> unat now mod 500 \<le> 50))"
proof -
  define t where "t = \<lparr>td_members = [0, 1, 2, 3], td_member_count = 4, td_local_node_id = i, td_slot_ms = 500\<rparr>"
  have wf: "tdma_wf t" "td_member_count t \<noteq> 0" "td_slot_ms t = 500"
    by (simp_all add: t_def tdma_wf_def)
  obtain a where a: "nav_tdma_action_at t now = Some (NAV_STATUS_OK, a)"
    "act_remaining_ms a = 500 - now mod 500"
    using action_at_view [OF wf(1,2), of now] wf(3) by (auto dest: action_view_remaining)
  have can: "nav_tdma_action_can_start (Some a) = (case act_type a of NAV_TDMA_LISTEN \<Rightarrow> True
       | NAV_TDMA_TX_BEACON \<Rightarrow> unat now mod 500 \<le> 400 | NAV_TDMA_RANGE_PEER \<Rightarrow> unat now mod 500 \<le> 50)"
    using remaining_500 [of 100 now] remaining_500 [of 450 now]
    by (simp add: nav_tdma_action_can_start_def a(2) split: nav_tdma_action_type.split)
  have "members_match [0, 1, 2, 3] 0 4 = Some True"
    by (simp add: eval_nat_numeral mem_simps)
  then have "nav_tdma_fixed_plan_valid t = Some True" "nav_tdma_slots_per_frame t = 10"
    "nav_tdma_frame_duration_ms t = Some 5000" "nav_tdma_is_time_authority t = Some (i = 0)"
    by (auto simp: t_def nav_tdma_fixed_plan_valid_def nav_tdma_slots_per_frame_def pair_count_def
        nav_tdma_frame_duration_ms_def nav_tdma_is_time_authority_def mem_simps)
  then show ?thesis using fixed_members_eq [of i] wf(1) a(1) can by (auto simp: t_def)
qed

text \<open>A timing heartbeat is accepted exactly when it comes from node 0, names the 500 ms slot
  length of the fixed plan, one of its ten slots and a time inside the slot; a node that does not
  run the fixed plan accepts none.\<close>

theorem validate_heartbeat_iff:
  assumes "tdma_wf t"
  shows "nav_tdma_validate_timing_heartbeat t (Some h) = Some NAV_STATUS_OK \<longleftrightarrow>
    membership t = [0, 1, 2, 3] \<and> td_slot_ms t = 500 \<and> th_authority_id h = 0 \<and> th_slot_ms h = 500 \<and>
    th_slot_index h < 10 \<and> th_slot_elapsed_ms h < 500"
proof -
  have l4: "\<exists>a b c d. td_members t = [a, b, c, d]"
    using assms by (auto simp: tdma_wf_def numeral_eq_Suc length_Suc_conv)
  then obtain a b c d where m: "td_members t = [a, b, c, d]" by blast
  have plan: "nav_tdma_fixed_plan_valid t = Some (membership t = [0, 1, 2, 3] \<and> td_slot_ms t = 500)"
    using assms by (auto simp: nav_tdma_fixed_plan_valid_def m eval_nat_numeral mem_simps tdma_wf_def
        take_Cons' split: if_splits)
  have slots: "membership t = [0, 1, 2, 3] \<Longrightarrow> nav_tdma_slots_per_frame t = 10"
  proof -
    assume "membership t = [0, 1, 2, 3]"
    then have "td_member_count t = 4"
      using assms by (auto simp: tdma_wf_def dest: arg_cong [of _ _ length])
    then show ?thesis by (simp add: nav_tdma_slots_per_frame_def pair_count_def)
  qed
  have u: "ucast (x :: u16) = (500 :: u32) \<longleftrightarrow> x = 500" for x
  proof -
    have "uint x < 2 ^ 32" using uint_bounded [of x] by simp
    then show ?thesis by (simp add: word_uint_eq_iff unsigned_ucast_eq take_bit_int_eq_self)
  qed
  show ?thesis
    by (cases "membership t = [0, 1, 2, 3] \<and> td_slot_ms t = 500")
      (auto simp: nav_tdma_validate_timing_heartbeat_def plan slots u word_less_nat_alt word_le_nat_alt)
qed

text \<open>The loss of the time authority is detected correctly across the wrap of the millisecond
  counter: for any two instants less than \<open>2 ^ 32\<close> ms apart, the test on the wrapped 32-bit stamps
  reports exactly an age above 15 seconds.\<close>

theorem authority_expiry_wraps:
  assumes "past \<le> now" and "now - past < 2 ^ 32"
  shows "nav_tdma_authority_expired (of_nat now) (of_nat past) \<longleftrightarrow> now - past > 15000"
proof -
  have "(of_nat now - of_nat past :: u32) = of_nat (now - past)"
    using assms(1) by (simp add: of_nat_diff)
  then have "unat (of_nat now - of_nat past :: u32) = now - past"
    using assms(2) by (simp add: unat_of_nat)
  then show ?thesis by (simp add: nav_tdma_authority_expired_def word_less_nat_alt)
qed

section \<open>A concrete scheduler\<close>

definition ex_tdma :: nav_tdma where
  "ex_tdma = \<lparr>td_members = [1, 4, 9, 0], td_member_count = 3, td_local_node_id = 4, td_slot_ms = 100\<rparr>"

lemma ex_tdma_facts: "tdma_wf ex_tdma" "td_member_count ex_tdma \<noteq> 0"
  "membership ex_tdma = [1, 4, 9]" "nav_tdma_slots_per_frame ex_tdma = 6" "td_slot_ms ex_tdma = 100"
  by (simp_all add: ex_tdma_def tdma_wf_def nav_tdma_slots_per_frame_def pair_count_def)

theorem set_members_sorts_witness:
  "\<exists>t'. nav_tdma_set_members ex_tdma (Some [7, 2, 5]) 3 = Some (NAV_STATUS_OK, t') \<and> membership t' = [2, 5, 7]"
  using set_members_sorts [of ex_tdma 3 "[7, 2, 5]"] ex_tdma_facts by auto

theorem slot_exclusive_witness:
  "\<exists>src. \<forall>i. \<exists>a. nav_tdma_action_at (ex_tdma\<lparr>td_local_node_id := i\<rparr>) 4294967290 = Some (NAV_STATUS_OK, a) \<and>
     (act_type a \<noteq> NAV_TDMA_LISTEN \<longleftrightarrow> i = src)"
  using slot_exclusive [OF ex_tdma_facts(1,2), of 4294967290] by metis

theorem frame_covers_witness:
  "(\<exists>!k. 8 \<le> k \<and> k < 14 \<and> job_at ex_tdma (of_nat (k * 100 + 99)) = (4, 9)) \<and> schedule (membership ex_tdma) ! 5 = (4, 9)"
proof -
  have "schedule [1, 4, 9] = [(1, 255), (4, 255), (9, 255), (1, 4), (1, 9), (4, 9)]"
    by (simp add: schedule_def)
  then show ?thesis
    using frame_covers [OF ex_tdma_facts(1,2), of 8 99] by (simp add: ex_tdma_facts del: of_nat_add of_nat_mult)
qed

theorem validate_heartbeat_iff_witness:
  "nav_tdma_validate_timing_heartbeat ex_tdma (Some \<lparr>th_authority_id = 0, th_frame_index = 1,
     th_slot_index = 2, th_slot_ms = 100, th_slot_elapsed_ms = 5\<rparr>) \<noteq> Some NAV_STATUS_OK"
  using validate_heartbeat_iff [OF ex_tdma_facts(1)] by (simp add: ex_tdma_facts)

theorem authority_expiry_wraps_witness:
  "nav_tdma_authority_expired (of_nat (2 ^ 32 + 10000)) (of_nat (2 ^ 32 - 5001))"
  using authority_expiry_wraps [of "2 ^ 32 - 5001" "2 ^ 32 + 10000"] by simp

end
