(* ===== verification/Nav_Peer_Table.thy ===== *)
theory Nav_Peer_Table
  imports Nav_Types
begin

text \<open>
  \<^verbatim>\<open>core/src/nav_peer_table.c\<close>: the fixed table of \<open>NAV_MAX_NODES\<close> peer slots indexed by node id.
  The table is a record with the C array \<^verbatim>\<open>peers[NAV_MAX_NODES]\<close> as a list of length four. Lookup
  returns an \<open>option\<close> where the C returns a pointer or \<^verbatim>\<open>NULL\<close>; an update through a returned
  pointer is \<open>set_slot\<close>. The lemmas give the table invariant, what each update changes and what it
  leaves alone, and the locale \<open>peer_store\<close> states the contract that anchor selection relies on.
\<close>

section \<open>State\<close>

record nav_peer_state =
  ps_node_id :: u8
  ps_present :: bool
  ps_last_telemetry_timestamp_ms :: u32
  ps_last_range_timestamp_ms :: u32
  ps_packet_seq :: u32
  ps_last_range_request_id :: u16
  ps_position :: nav_position
  ps_range_position :: nav_position
  ps_range_position_timestamp_ms :: u32
  ps_velocity :: nav_velocity
  ps_fix_type :: nav_gnss_fix_type
  ps_gnss_valid :: bool
  ps_satellites :: u8
  ps_hdop_centi :: u16
  ps_hacc_mm :: u32
  ps_vacc_mm :: u32
  ps_peer_nav_mode :: nav_mode
  ps_solution_status :: nav_solution_status
  ps_solution_source :: nav_solution_source
  ps_range_mm :: u32
  ps_range_sigma_mm :: u32
  ps_range_valid :: bool
  ps_range_position_valid :: bool
  ps_rssi_dbm :: i16
  ps_snr_db :: i16
  ps_packet_loss_estimate :: fp
  ps_telemetry_quality :: fp
  ps_range_quality :: fp
  ps_anchor_quality :: fp
  ps_last_residual_m :: fp
  ps_last_reject_reason :: nav_reject_reason

record nav_peer_table =
  peers :: "nav_peer_state list"

definition nav_peer_state_zero :: nav_peer_state where
  "nav_peer_state_zero = \<lparr>ps_node_id = 0, ps_present = False,
     ps_last_telemetry_timestamp_ms = 0, ps_last_range_timestamp_ms = 0, ps_packet_seq = 0,
     ps_last_range_request_id = 0, ps_position = nav_position_zero,
     ps_range_position = nav_position_zero, ps_range_position_timestamp_ms = 0,
     ps_velocity = nav_velocity_zero, ps_fix_type = NAV_GNSS_FIX_NONE, ps_gnss_valid = False,
     ps_satellites = 0, ps_hdop_centi = 0, ps_hacc_mm = 0, ps_vacc_mm = 0,
     ps_peer_nav_mode = NAV_MODE_BOOT, ps_solution_status = NAV_SOLUTION_NONE,
     ps_solution_source = NAV_SOURCE_NONE, ps_range_mm = 0, ps_range_sigma_mm = 0,
     ps_range_valid = False, ps_range_position_valid = False, ps_rssi_dbm = 0, ps_snr_db = 0,
     ps_packet_loss_estimate = Fin 0, ps_telemetry_quality = Fin 0, ps_range_quality = Fin 0,
     ps_anchor_quality = Fin 0, ps_last_residual_m = Fin 0,
     ps_last_reject_reason = NAV_REJECT_NONE\<rparr>"

section \<open>Operations\<close>

definition node_id_valid :: "u8 \<Rightarrow> bool" where
  "node_id_valid node_id = (node_id < of_nat NAV_MAX_NODES)"

definition slot_for :: "nav_peer_table \<Rightarrow> u8 \<Rightarrow> nav_peer_state option" where
  "slot_for table node_id =
     (if \<not> node_id_valid node_id then None else Some (peers table ! unat node_id))"

definition set_slot :: "nav_peer_table \<Rightarrow> u8 \<Rightarrow> nav_peer_state \<Rightarrow> nav_peer_table" where
  "set_slot table node_id p = table\<lparr>peers := (peers table)[unat node_id := p]\<rparr>"

definition nav_peer_table_init :: nav_peer_table where
  "nav_peer_table_init = \<lparr>peers = map (\<lambda>i. nav_peer_state_zero
     \<lparr>ps_node_id := of_nat i, ps_last_reject_reason := NAV_REJECT_NONE\<rparr>) [0..<NAV_MAX_NODES]\<rparr>"

definition nav_peer_table_get :: "nav_peer_table \<Rightarrow> u8 \<Rightarrow> nav_peer_state option" where
  "nav_peer_table_get table node_id = (case slot_for table node_id of
     None \<Rightarrow> None | Some peer \<Rightarrow> if \<not> ps_present peer then None else Some peer)"

definition nav_peer_table_get_const :: "nav_peer_table \<Rightarrow> u8 \<Rightarrow> nav_peer_state option" where
  "nav_peer_table_get_const table node_id =
     (if \<not> node_id_valid node_id then None
      else let peer = peers table ! unat node_id in if ps_present peer then Some peer else None)"

definition telemetry_into :: "nav_peer_telemetry \<Rightarrow> u32 \<Rightarrow> nav_peer_state \<Rightarrow> nav_peer_state" where
  "telemetry_into telemetry now_ms peer = peer
     \<lparr>ps_node_id := pt_node_id telemetry,
      ps_present := True,
      ps_last_telemetry_timestamp_ms := now_ms,
      ps_packet_seq := pt_packet_seq telemetry,
      ps_position := pt_position telemetry,
      ps_velocity := pt_velocity telemetry,
      ps_fix_type := pt_fix_type telemetry,
      ps_gnss_valid := pt_gnss_valid telemetry,
      ps_satellites := pt_satellites telemetry,
      ps_hdop_centi := pt_hdop_centi telemetry,
      ps_hacc_mm := pt_hacc_mm telemetry,
      ps_vacc_mm := pt_vacc_mm telemetry,
      ps_peer_nav_mode := pt_nav_mode telemetry,
      ps_solution_status := pt_solution_status telemetry,
      ps_solution_source := pt_solution_source telemetry,
      ps_last_reject_reason := NAV_REJECT_NONE\<rparr>"

definition nav_peer_table_update_telemetry ::
  "nav_peer_table \<Rightarrow> nav_peer_telemetry option \<Rightarrow> u32 \<Rightarrow> bool \<times> nav_peer_table" where
  "nav_peer_table_update_telemetry table telemetry now_ms = (case telemetry of
     None \<Rightarrow> (False, table)
   | Some t \<Rightarrow> (case slot_for table (pt_node_id t) of
       None \<Rightarrow> (False, table)
     | Some peer \<Rightarrow> (True, set_slot table (pt_node_id t) (telemetry_into t now_ms peer))))"

definition nav_peer_table_update_beacon_rx ::
  "nav_peer_table \<Rightarrow> nav_peer_beacon_rx option \<Rightarrow> u32 \<Rightarrow> bool \<times> nav_peer_table" where
  "nav_peer_table_update_beacon_rx table beacon now_ms = (case beacon of
     None \<Rightarrow> (False, table)
   | Some b \<Rightarrow>
       (case nav_peer_table_update_telemetry table (Some (br_telemetry b)) now_ms of
          (False, table') \<Rightarrow> (False, table')
        | (True, table') \<Rightarrow>
            (case nav_peer_table_get table' (pt_node_id (br_telemetry b)) of
               None \<Rightarrow> (False, table')
             | Some peer \<Rightarrow> (True, set_slot table' (pt_node_id (br_telemetry b))
                 (peer\<lparr>ps_rssi_dbm := br_rssi_dbm b, ps_snr_db := br_snr_db b\<rparr>)))))"

definition range_into :: "nav_range_result \<Rightarrow> u32 \<Rightarrow> nav_peer_state \<Rightarrow> nav_peer_state" where
  "range_into rng now_ms peer =
     (let p = peer
        \<lparr>ps_node_id := rr_peer_id rng,
         ps_present := True,
         ps_last_range_timestamp_ms := now_ms,
         ps_last_range_request_id := rr_request_id rng,
         ps_range_mm := rr_range_mm rng,
         ps_range_sigma_mm := rr_range_sigma_mm rng,
         ps_range_valid := rr_valid rng,
         ps_range_position := ps_position peer,
         ps_range_position_timestamp_ms := ps_last_telemetry_timestamp_ms peer,
         ps_range_position_valid := (rr_valid rng \<and> ps_gnss_valid peer),
         ps_rssi_dbm := rr_rssi_dbm rng,
         ps_snr_db := rr_snr_db rng,
         ps_last_reject_reason :=
           (if rr_valid rng then NAV_REJECT_NONE else NAV_REJECT_STALE_RANGE)\<rparr>
      in if \<not> rr_valid rng then p\<lparr>ps_range_position_valid := False\<rparr> else p)"

definition nav_peer_table_update_range ::
  "nav_peer_table \<Rightarrow> nav_range_result option \<Rightarrow> u32 \<Rightarrow> bool \<times> nav_peer_table" where
  "nav_peer_table_update_range table rng now_ms = (case rng of
     None \<Rightarrow> (False, table)
   | Some r \<Rightarrow> (case slot_for table (rr_peer_id r) of
       None \<Rightarrow> (False, table)
     | Some peer \<Rightarrow> (True, set_slot table (rr_peer_id r) (range_into r now_ms peer))))"

definition mark_stale_peer :: "u32 \<Rightarrow> u32 \<Rightarrow> u32 \<Rightarrow> nav_peer_state \<Rightarrow> nav_peer_state" where
  "mark_stale_peer now_ms telemetry_ttl_ms range_ttl_ms peer =
     (if \<not> ps_present peer then peer
      else let telemetry_age = now_ms - ps_last_telemetry_timestamp_ms peer;
               range_age = now_ms - ps_last_range_timestamp_ms peer;
               p1 = (if telemetry_ttl_ms > 0 \<and> telemetry_age > telemetry_ttl_ms
                     then peer\<lparr>ps_gnss_valid := False, ps_telemetry_quality := Fin 0,
                               ps_anchor_quality := Fin 0,
                               ps_last_reject_reason := NAV_REJECT_STALE_TELEMETRY\<rparr>
                     else peer)
           in if range_ttl_ms > 0 \<and> range_age > range_ttl_ms
              then let p2 = p1\<lparr>ps_range_valid := False, ps_range_position_valid := False,
                               ps_range_quality := Fin 0, ps_anchor_quality := Fin 0\<rparr>
                   in if ps_last_reject_reason p2 = NAV_REJECT_NONE
                      then p2\<lparr>ps_last_reject_reason := NAV_REJECT_STALE_RANGE\<rparr> else p2
              else p1)"

definition nav_peer_table_mark_stale ::
  "nav_peer_table \<Rightarrow> u32 \<Rightarrow> u32 \<Rightarrow> u32 \<Rightarrow> nav_peer_table" where
  "nav_peer_table_mark_stale table now_ms telemetry_ttl_ms range_ttl_ms =
     table\<lparr>peers := map (mark_stale_peer now_ms telemetry_ttl_ms range_ttl_ms) (peers table)\<rparr>"

section \<open>The store as an interface\<close>

text \<open>
  A store of peer slots: which ids have a slot, and what a write through the pointer to a slot
  changes. Every table operation is a write to one slot or a pass over all slots.
\<close>

locale peer_store =
  fixes slot :: "'t \<Rightarrow> u8 \<Rightarrow> nav_peer_state option"
    and put :: "'t \<Rightarrow> u8 \<Rightarrow> nav_peer_state \<Rightarrow> 't"
    and invar :: "'t \<Rightarrow> bool"
  assumes slot_bound: "slot t i = None \<longleftrightarrow> \<not> i < 4"
    and slot_id: "invar t \<Longrightarrow> slot t i = Some p \<Longrightarrow> ps_node_id p = i"
    and slot_put: "invar t \<Longrightarrow> i < 4 \<Longrightarrow> slot (put t i p) j = (if j = i then Some p else slot t j)"
    and put_invar: "invar t \<Longrightarrow> i < 4 \<Longrightarrow> ps_node_id p = i \<Longrightarrow> invar (put t i p)"
begin

lemma slot_Some: "i < 4 \<Longrightarrow> \<exists>p. slot t i = Some p"
  using slot_bound [of t i] by auto

lemma slot_None: "\<not> i < 4 \<Longrightarrow> slot t i = None"
  by (simp add: slot_bound)

lemma slot_SomeD: "slot t i = Some p \<Longrightarrow> i < 4"
  using slot_bound [of t i] by auto

lemma slot_put_other: "invar t \<Longrightarrow> i < 4 \<Longrightarrow> j \<noteq> i \<Longrightarrow> slot (put t i p) j = slot t j"
  by (simp add: slot_put)

lemma slot_put_same: "invar t \<Longrightarrow> i < 4 \<Longrightarrow> slot (put t i p) i = Some p"
  by (simp add: slot_put)

lemma put_keeps:
  "invar t \<Longrightarrow> slot t i = Some p \<Longrightarrow> f p' = f p \<Longrightarrow>
   map_option f (slot (put t i p') j) = map_option f (slot t j)"
  using slot_SomeD [of t i p] by (cases "j = i") (simp_all add: slot_put)

end

definition peer_table_wf :: "nav_peer_table \<Rightarrow> bool" where
  "peer_table_wf t \<longleftrightarrow> length (peers t) = NAV_MAX_NODES \<and>
     (\<forall>i < NAV_MAX_NODES. ps_node_id (peers t ! i) = of_nat i)"

lemma u8_less_4_iff: "(i :: u8) < 4 \<longleftrightarrow> unat i < 4"
  by (simp add: word_less_nat_alt)

lemma node_id_valid_iff [simp]: "node_id_valid i \<longleftrightarrow> i < 4"
  by (simp add: node_id_valid_def)

interpretation ps: peer_store slot_for set_slot peer_table_wf
proof
  show "slot_for t i = None \<longleftrightarrow> \<not> i < 4" for t i
    by (simp add: slot_for_def)
  show "peer_table_wf t \<Longrightarrow> slot_for t i = Some p \<Longrightarrow> ps_node_id p = i" for t i p
    by (auto simp: slot_for_def peer_table_wf_def u8_less_4_iff split: if_splits)
  show "peer_table_wf t \<Longrightarrow> i < 4 \<Longrightarrow>
      slot_for (set_slot t i p) j = (if j = i then Some p else slot_for t j)" for t i p j
    by (auto simp: slot_for_def set_slot_def peer_table_wf_def u8_less_4_iff nth_list_update
        unat_eq_iff)
  show "peer_table_wf t \<Longrightarrow> i < 4 \<Longrightarrow> ps_node_id p = i \<Longrightarrow> peer_table_wf (set_slot t i p)" for t i p
    by (auto simp: set_slot_def peer_table_wf_def nth_list_update u8_less_4_iff)
qed

lemma get_eq_get_const: "nav_peer_table_get t i = nav_peer_table_get_const t i"
  by (simp add: nav_peer_table_get_def nav_peer_table_get_const_def slot_for_def Let_def)

lemma get_const_slot:
  "nav_peer_table_get_const t i =
     (case slot_for t i of None \<Rightarrow> None | Some p \<Rightarrow> if ps_present p then Some p else None)"
  by (simp add: nav_peer_table_get_const_def slot_for_def Let_def)

lemma get_const_SomeD:
  "peer_table_wf t \<Longrightarrow> nav_peer_table_get_const t i = Some p \<Longrightarrow>
     i < 4 \<and> ps_present p \<and> ps_node_id p = i \<and> slot_for t i = Some p"
  by (auto simp: get_const_slot dest: ps.slot_id ps.slot_SomeD split: option.splits if_splits)

lemma peer_table_wf_init [simp]: "peer_table_wf nav_peer_table_init"
  by (auto simp: peer_table_wf_def nav_peer_table_init_def)

section \<open>What the updates change\<close>

lemma telemetry_into_id [simp]: "ps_node_id (telemetry_into t now p) = pt_node_id t"
  by (simp add: telemetry_into_def)

lemma range_into_id [simp]: "ps_node_id (range_into r now p) = rr_peer_id r"
  by (simp add: range_into_def Let_def)

definition beacon_into :: "nav_peer_beacon_rx \<Rightarrow> u32 \<Rightarrow> nav_peer_state \<Rightarrow> nav_peer_state" where
  "beacon_into b now p = (telemetry_into (br_telemetry b) now p)
     \<lparr>ps_rssi_dbm := br_rssi_dbm b, ps_snr_db := br_snr_db b\<rparr>"

lemma set_slot_twice [simp]: "set_slot (set_slot t i p) i q = set_slot t i q"
  by (simp add: set_slot_def)

text \<open>
  A beacon is one write of its slot: the telemetry and the receive metadata together. A beacon or
  range of an id outside the table is refused and changes nothing.
\<close>

lemma update_beacon_eq:
  assumes "peer_table_wf t"
  shows "nav_peer_table_update_beacon_rx t (Some b) now =
    (case slot_for t (pt_node_id (br_telemetry b)) of None \<Rightarrow> (False, t)
     | Some p \<Rightarrow> (True, set_slot t (pt_node_id (br_telemetry b)) (beacon_into b now p)))"
proof (cases "slot_for t (pt_node_id (br_telemetry b))")
  case None
  then show ?thesis
    by (simp add: nav_peer_table_update_beacon_rx_def nav_peer_table_update_telemetry_def)
next
  case (Some p)
  then have "slot_for (set_slot t (pt_node_id (br_telemetry b)) (telemetry_into (br_telemetry b) now p))
      (pt_node_id (br_telemetry b)) = Some (telemetry_into (br_telemetry b) now p)"
    using assms by (intro ps.slot_put_same) (auto dest: ps.slot_SomeD)
  with Some show ?thesis
    by (simp add: nav_peer_table_update_beacon_rx_def nav_peer_table_update_telemetry_def
        nav_peer_table_get_def telemetry_into_def beacon_into_def)
qed

lemma update_range_eq:
  "nav_peer_table_update_range t (Some r) now =
    (case slot_for t (rr_peer_id r) of None \<Rightarrow> (False, t)
     | Some p \<Rightarrow> (True, set_slot t (rr_peer_id r) (range_into r now p)))"
  by (simp add: nav_peer_table_update_range_def)

lemma update_beacon_wf [frame_intros]:
  "peer_table_wf t \<Longrightarrow> peer_table_wf (snd (nav_peer_table_update_beacon_rx t (Some b) now))"
  by (auto simp: update_beacon_eq beacon_into_def split: option.split
      intro!: ps.put_invar dest: ps.slot_SomeD)

lemma update_range_wf [frame_intros]:
  "peer_table_wf t \<Longrightarrow> peer_table_wf (snd (nav_peer_table_update_range t (Some r) now))"
  by (auto simp: update_range_eq split: option.split intro!: ps.put_invar dest: ps.slot_SomeD)

lemma update_beacon_slot:
  "peer_table_wf t \<Longrightarrow> slot_for (snd (nav_peer_table_update_beacon_rx t (Some b) now)) j =
     (if j = pt_node_id (br_telemetry b) then map_option (beacon_into b now) (slot_for t j)
      else slot_for t j)"
  by (auto simp: update_beacon_eq ps.slot_put split: option.split dest: ps.slot_SomeD)

lemma update_range_slot:
  "peer_table_wf t \<Longrightarrow> slot_for (snd (nav_peer_table_update_range t (Some r) now)) j =
     (if j = rr_peer_id r then map_option (range_into r now) (slot_for t j) else slot_for t j)"
  by (auto simp: update_range_eq ps.slot_put split: option.split dest: ps.slot_SomeD)

lemma mark_stale_id [simp]: "ps_node_id (mark_stale_peer now a b p) = ps_node_id p"
  by (simp add: mark_stale_peer_def Let_def)

lemma mark_stale_present [simp]: "ps_present (mark_stale_peer now a b p) = ps_present p"
  by (simp add: mark_stale_peer_def Let_def)

lemma mark_stale_wf [frame_intros]:
  "peer_table_wf t \<Longrightarrow> peer_table_wf (nav_peer_table_mark_stale t now a b)"
  by (simp add: peer_table_wf_def nav_peer_table_mark_stale_def)

lemma mark_stale_slot:
  "peer_table_wf t \<Longrightarrow>
   slot_for (nav_peer_table_mark_stale t now a b) j = map_option (mark_stale_peer now a b) (slot_for t j)"
  by (simp add: slot_for_def nav_peer_table_mark_stale_def peer_table_wf_def u8_less_4_iff)

section \<open>Range and position stay paired\<close>

definition range_view where
  "range_view p = (ps_range_position p, ps_range_position_timestamp_ms p, ps_range_position_valid p,
     ps_range_mm p, ps_range_sigma_mm p, ps_range_valid p, ps_last_range_timestamp_ms p)"

lemma beacon_into_range_view [simp]: "range_view (beacon_into b now p) = range_view p"
  by (simp add: range_view_def beacon_into_def telemetry_into_def)

lemma beacon_into_present [simp]: "ps_present (beacon_into b now p)"
  by (simp add: beacon_into_def telemetry_into_def)

definition recv_beacons :: "(nav_peer_beacon_rx \<times> u32) list \<Rightarrow> nav_peer_table \<Rightarrow> nav_peer_table" where
  "recv_beacons bs t = fold (\<lambda>(b, now) t. snd (nav_peer_table_update_beacon_rx t (Some b) now)) bs t"

lemma recv_beacons_slot:
  "peer_table_wf t \<Longrightarrow> slot_for t j = Some p \<Longrightarrow> ps_present p \<Longrightarrow>
   \<exists>q. slot_for (recv_beacons bs t) j = Some q \<and> ps_present q \<and> range_view q = range_view p"
proof (induction bs arbitrary: t p)
  case (Cons bn bs)
  obtain b now where bn: "bn = (b, now)" by (cases bn)
  let ?t = "snd (nav_peer_table_update_beacon_rx t (Some b) now)"
  obtain q where q: "slot_for ?t j = Some q" "ps_present q" "range_view q = range_view p"
    using Cons.prems by (cases "j = pt_node_id (br_telemetry b)") (simp_all add: update_beacon_slot)
  with Cons.IH [of ?t q] Cons.prems(1) show ?case
    by (simp add: recv_beacons_def bn update_beacon_wf)
qed (simp add: recv_beacons_def)

text \<open>C8: A range report of peer \<open>i\<close> fixes the pair (distance, coordinate): the stored range
  position is the coordinate the peer had advertised when the range arrived, with the time of that
  advertisement, and no sequence of later beacons from any peers changes the pair, so a solve never
  combines a new coordinate with an old distance.\<close>

theorem range_position_locked:
  assumes "peer_table_wf t" and "slot_for t (rr_peer_id r) = Some p"
  shows "\<exists>q. nav_peer_table_get_const
      (recv_beacons bs (snd (nav_peer_table_update_range t (Some r) now))) (rr_peer_id r) = Some q \<and>
    ps_range_mm q = rr_range_mm r \<and> ps_last_range_timestamp_ms q = now \<and>
    ps_range_position q = ps_position p \<and>
    ps_range_position_timestamp_ms q = ps_last_telemetry_timestamp_ms p \<and>
    ps_range_position_valid q = (rr_valid r \<and> ps_gnss_valid p)"
proof -
  let ?t = "snd (nav_peer_table_update_range t (Some r) now)"
  have "slot_for ?t (rr_peer_id r) = Some (range_into r now p)"
    using assms by (simp add: update_range_slot)
  moreover have "ps_present (range_into r now p)" by (simp add: range_into_def Let_def)
  ultimately obtain q where "slot_for (recv_beacons bs ?t) (rr_peer_id r) = Some q" "ps_present q"
    "range_view q = range_view (range_into r now p)"
    using recv_beacons_slot [of ?t] update_range_wf [OF assms(1)] by blast
  then show ?thesis by (auto simp: get_const_slot range_view_def range_into_def Let_def)
qed

section \<open>Ageing\<close>

definition expired :: "u32 \<Rightarrow> u32 \<Rightarrow> u32 \<Rightarrow> bool" where
  "expired ttl now stamp \<longleftrightarrow> ttl > 0 \<and> now - stamp > ttl"

text \<open>What ageing promises of a present peer, given which of its two stamps are expired.\<close>

definition aged :: "bool \<Rightarrow> bool \<Rightarrow> nav_peer_state \<Rightarrow> nav_peer_state \<Rightarrow> bool" where
  "aged te re p q \<longleftrightarrow>
     ps_gnss_valid q = (ps_gnss_valid p \<and> \<not> te) \<and>
     ps_range_valid q = (ps_range_valid p \<and> \<not> re) \<and>
     ps_range_position_valid q = (ps_range_position_valid p \<and> \<not> re) \<and>
     ps_last_reject_reason q = (if te then NAV_REJECT_STALE_TELEMETRY
        else if re \<and> ps_last_reject_reason p = NAV_REJECT_NONE then NAV_REJECT_STALE_RANGE
        else ps_last_reject_reason p) \<and>
     ps_range_mm q = ps_range_mm p \<and> ps_position q = ps_position p \<and>
     ps_range_position q = ps_range_position p \<and> (\<not> te \<and> \<not> re \<longrightarrow> q = p)"

lemma mark_stale_peer_aged:
  "ps_present p \<Longrightarrow> aged (expired tttl now (ps_last_telemetry_timestamp_ms p))
     (expired rttl now (ps_last_range_timestamp_ms p)) p (mark_stale_peer now tttl rttl p)"
  by (simp add: mark_stale_peer_def Let_def aged_def expired_def)

text \<open>The two writes of ageing, for the proof that a second pass changes nothing.\<close>

definition age_telemetry :: "nav_peer_state \<Rightarrow> nav_peer_state" where
  "age_telemetry p = p\<lparr>ps_gnss_valid := False, ps_telemetry_quality := Fin 0,
     ps_anchor_quality := Fin 0, ps_last_reject_reason := NAV_REJECT_STALE_TELEMETRY\<rparr>"

definition age_range :: "nav_peer_state \<Rightarrow> nav_peer_state" where
  "age_range p = p\<lparr>ps_range_valid := False, ps_range_position_valid := False,
     ps_range_quality := Fin 0, ps_anchor_quality := Fin 0,
     ps_last_reject_reason := (if ps_last_reject_reason p = NAV_REJECT_NONE
       then NAV_REJECT_STALE_RANGE else ps_last_reject_reason p)\<rparr>"

lemma age_keeps [simp]:
  "ps_last_telemetry_timestamp_ms (age_telemetry p) = ps_last_telemetry_timestamp_ms p"
  "ps_last_range_timestamp_ms (age_telemetry p) = ps_last_range_timestamp_ms p"
  "ps_last_telemetry_timestamp_ms (age_range p) = ps_last_telemetry_timestamp_ms p"
  "ps_last_range_timestamp_ms (age_range p) = ps_last_range_timestamp_ms p"
  "ps_present (age_telemetry p) = ps_present p" "ps_present (age_range p) = ps_present p"
  by (simp_all add: age_telemetry_def age_range_def)

lemma age_idem [simp]:
  "age_telemetry (age_telemetry p) = age_telemetry p"
  "age_range (age_range p) = age_range p"
  "age_range (age_telemetry (age_range (age_telemetry p))) = age_range (age_telemetry p)"
  by (simp_all add: age_telemetry_def age_range_def)

lemma mark_stale_peer_eq:
  "mark_stale_peer now tttl rttl p = (if \<not> ps_present p then p else
     let p1 = (if expired tttl now (ps_last_telemetry_timestamp_ms p) then age_telemetry p else p)
     in if expired rttl now (ps_last_range_timestamp_ms p) then age_range p1 else p1)"
  by (simp add: mark_stale_peer_def Let_def expired_def age_telemetry_def age_range_def)

lemma mark_stale_peer_idem:
  "mark_stale_peer now tttl rttl (mark_stale_peer now tttl rttl p) = mark_stale_peer now tttl rttl p"
  by (simp add: mark_stale_peer_eq Let_def)

text \<open>C13: Ageing the table touches exactly the expired evidence: telemetry older than its TTL
  stops the peer from being GNSS-valid, a range older than its TTL loses its validity and its
  paired coordinate, the telemetry reason takes precedence, a fresh peer and all coordinates and
  distances are kept, and ageing twice at the same time is ageing once.\<close>

theorem mark_stale_spec:
  assumes "peer_table_wf t" and "nav_peer_table_get_const t i = Some p"
  shows "\<exists>q. nav_peer_table_get_const (nav_peer_table_mark_stale t now tttl rttl) i = Some q \<and>
      aged (expired tttl now (ps_last_telemetry_timestamp_ms p))
        (expired rttl now (ps_last_range_timestamp_ms p)) p q \<and>
      nav_peer_table_mark_stale (nav_peer_table_mark_stale t now tttl rttl) now tttl rttl
        = nav_peer_table_mark_stale t now tttl rttl"
proof -
  from get_const_SomeD [OF assms] have s: "slot_for t i = Some p" and pr: "ps_present p" by auto
  have "nav_peer_table_get_const (nav_peer_table_mark_stale t now tttl rttl) i
      = Some (mark_stale_peer now tttl rttl p)"
    by (simp add: get_const_slot mark_stale_slot [OF assms(1)] s pr)
  moreover have "nav_peer_table_mark_stale (nav_peer_table_mark_stale t now tttl rttl) now tttl rttl
      = nav_peer_table_mark_stale t now tttl rttl"
    by (simp add: nav_peer_table_mark_stale_def mark_stale_peer_idem)
  ultimately show ?thesis using mark_stale_peer_aged [OF pr] by blast
qed

section \<open>A concrete table\<close>

text \<open>Peer 1 has sent a GNSS-valid beacon at 100 ms and was ranged at 200 ms.\<close>

definition ex_telemetry :: "u8 \<Rightarrow> nav_peer_telemetry" where
  "ex_telemetry i = \<lparr>pt_node_id = i, pt_packet_seq = 7, pt_timestamp_ms = 90,
     pt_position = \<lparr>lat_e7 = 504501000, lon_e7 = 305234000, alt_mm = 180000\<rparr>,
     pt_velocity = nav_velocity_zero, pt_fix_type = NAV_GNSS_FIX_3D, pt_gnss_valid = True,
     pt_satellites = 12, pt_hdop_centi = 80, pt_hacc_mm = 1000, pt_vacc_mm = 1500,
     pt_nav_mode = NAV_MODE_GNSS_OK, pt_solution_status = NAV_SOLUTION_GNSS_DIRECT,
     pt_solution_source = NAV_SOURCE_LOCAL_GNSS\<rparr>"

definition ex_beacon :: "u8 \<Rightarrow> nav_peer_beacon_rx" where
  "ex_beacon i = \<lparr>br_telemetry = ex_telemetry i, br_rssi_dbm = -60, br_snr_db = 10\<rparr>"

definition ex_range :: "u8 \<Rightarrow> nav_range_result" where
  "ex_range i = \<lparr>rr_peer_id = i, rr_request_id = 3, rr_timestamp_ms = 200, rr_range_mm = 621957,
     rr_range_sigma_mm = 100, rr_rssi_dbm = -61, rr_snr_db = 10, rr_valid = True\<rparr>"

definition ex_table :: nav_peer_table where
  "ex_table = snd (nav_peer_table_update_range
     (snd (nav_peer_table_update_beacon_rx nav_peer_table_init (Some (ex_beacon 1)) 100))
     (Some (ex_range 1)) 200)"

definition ex_peer :: nav_peer_state where
  "ex_peer = range_into (ex_range 1) 200 (beacon_into (ex_beacon 1) 100
     (nav_peer_state_zero\<lparr>ps_node_id := 1\<rparr>))"

lemma slot_init: "i < 4 \<Longrightarrow> slot_for nav_peer_table_init i = Some (nav_peer_state_zero\<lparr>ps_node_id := i\<rparr>)"
  by (simp add: slot_for_def nav_peer_table_init_def u8_less_4_iff nav_peer_state_zero_def)

lemma ex_table_wf [simp]: "peer_table_wf ex_table"
  by (simp add: ex_table_def frame_intros)

lemma ex_ids [simp]:
  "pt_node_id (ex_telemetry i) = i" "pt_position (ex_telemetry i) =
     \<lparr>lat_e7 = 504501000, lon_e7 = 305234000, alt_mm = 180000\<rparr>" "pt_gnss_valid (ex_telemetry i)"
  "br_telemetry (ex_beacon i) = ex_telemetry i" "rr_peer_id (ex_range i) = i" "rr_valid (ex_range i)"
  by (simp_all add: ex_telemetry_def ex_beacon_def ex_range_def)

lemma ex_table_slot: "slot_for ex_table 1 = Some ex_peer"
proof -
  have "slot_for (snd (nav_peer_table_update_beacon_rx nav_peer_table_init (Some (ex_beacon 1)) 100)) 1
      = Some (beacon_into (ex_beacon 1) 100 (nav_peer_state_zero\<lparr>ps_node_id := 1\<rparr>))"
    unfolding update_beacon_slot [OF peer_table_wf_init] ex_ids
    using slot_init [of 1] by (simp del: nav_peer_state.simps)
  then show ?thesis
    unfolding ex_table_def ex_peer_def
      update_range_slot [OF update_beacon_wf [OF peer_table_wf_init]] ex_ids
    by (simp del: nav_peer_state.simps)
qed

lemma ex_table_get: "nav_peer_table_get_const ex_table 1 = Some ex_peer"
  by (simp add: get_const_slot ex_table_slot ex_peer_def range_into_def Let_def)

theorem range_position_locked_witness:
  "\<exists>q. nav_peer_table_get_const
      (recv_beacons [(ex_beacon 1, 300)] (snd (nav_peer_table_update_range ex_table (Some (ex_range 1)) 250))) 1
      = Some q \<and> ps_range_position q = \<lparr>lat_e7 = 504501000, lon_e7 = 305234000, alt_mm = 180000\<rparr>"
proof -
  have "ps_position ex_peer = pt_position (ex_telemetry 1)"
    by (simp add: ex_peer_def range_into_def Let_def beacon_into_def telemetry_into_def)
  then show ?thesis
    using range_position_locked [of ex_table "ex_range 1" ex_peer "[(ex_beacon 1, 300)]" 250]
    by (auto simp: ex_table_slot)
qed

theorem mark_stale_spec_witness:
  "\<exists>q. nav_peer_table_get_const (nav_peer_table_mark_stale ex_table 2150 2000 1000) 1 = Some q \<and>
    \<not> ps_gnss_valid q \<and> ps_last_reject_reason q = NAV_REJECT_STALE_TELEMETRY"
proof -
  have "expired 2000 2150 (ps_last_telemetry_timestamp_ms ex_peer)"
    by (simp add: expired_def ex_peer_def range_into_def Let_def beacon_into_def telemetry_into_def)
  then show ?thesis
    using mark_stale_spec [OF ex_table_wf ex_table_get, of 2150 2000 1000] by (auto simp: aged_def)
qed

end
