(* ===== verification/Nav_Quality.thy ===== *)
theory Nav_Quality
  imports Nav_Peer_Table
begin

text \<open>
  \<^verbatim>\<open>core/src/nav_quality.c\<close> and \<^verbatim>\<open>core/src/nav_gnss.c\<close>: the score of a peer as a trilateration
  anchor, the usability test of a GNSS sample and the names of the enumerations. The score is in
  \<^verbatim>\<open>float\<close> arithmetic; the lemmas give the exact acceptance condition, the order in which the
  rejection reasons win, the unit interval and that a score never grows as evidence ages.
\<close>

section \<open>Scores\<close>

record nav_anchor_quality =
  gnss_quality :: fp
  telemetry_quality :: fp
  range_quality :: fp
  geometry_quality :: fp
  total_quality :: fp
  q_reject_reason :: nav_reject_reason

definition freshness_quality :: "u32 \<Rightarrow> u32 \<Rightarrow> fp" where
  "freshness_quality age_ms ttl_ms =
     (if ttl_ms = 0 \<or> age_ms \<ge> ttl_ms then Fin 0
      else fp_sub binary32 (Fin 1)
        (fp_div binary32 (fp_of_int binary32 (uint age_ms)) (fp_of_int binary32 (uint ttl_ms))))"

definition nav_quality_score_anchor ::
  "nav_peer_state option \<Rightarrow> u32 \<Rightarrow> u32 \<Rightarrow> u32 \<Rightarrow> u32 \<Rightarrow> nav_anchor_quality" where
  "nav_quality_score_anchor peer now_ms telemetry_ttl_ms range_ttl_ms max_range_sigma_mm =
     (let quality = \<lparr>gnss_quality = Fin 0, telemetry_quality = Fin 0, range_quality = Fin 0,
                     geometry_quality = Fin 1, total_quality = Fin 0,
                     q_reject_reason = NAV_REJECT_NONE\<rparr> in
      case peer of
        None \<Rightarrow> quality\<lparr>q_reject_reason := NAV_REJECT_STALE_TELEMETRY\<rparr>
      | Some p \<Rightarrow>
          if \<not> ps_present p then quality\<lparr>q_reject_reason := NAV_REJECT_STALE_TELEMETRY\<rparr>
          else
            let telemetry_age = now_ms - ps_last_telemetry_timestamp_ms p;
                range_age = now_ms - ps_last_range_timestamp_ms p in
            if telemetry_ttl_ms > 0 \<and> telemetry_age > telemetry_ttl_ms
            then quality\<lparr>q_reject_reason := NAV_REJECT_STALE_TELEMETRY\<rparr>
            else if range_ttl_ms > 0 \<and> range_age > range_ttl_ms
            then quality\<lparr>q_reject_reason := NAV_REJECT_STALE_RANGE\<rparr>
            else if \<not> ps_gnss_valid p \<or> nav_gnss_fix_type_code (ps_fix_type p) < 3
            then quality\<lparr>q_reject_reason := NAV_REJECT_BAD_GNSS\<rparr>
            else if \<not> ps_range_valid p \<or> ps_range_mm p = 0
            then quality\<lparr>q_reject_reason := NAV_REJECT_STALE_RANGE\<rparr>
            else if max_range_sigma_mm > 0 \<and> ps_range_sigma_mm p > max_range_sigma_mm
            then quality\<lparr>q_reject_reason := NAV_REJECT_BAD_RANGE_SIGMA\<rparr>
            else
              let g = Fin 1;
                  t = (if telemetry_ttl_ms = 0 then Fin 1
                       else freshness_quality telemetry_age telemetry_ttl_ms);
                  r = (if range_ttl_ms = 0 then Fin 1
                       else freshness_quality range_age range_ttl_ms)
              in quality\<lparr>gnss_quality := g, telemetry_quality := t, range_quality := r,
                   total_quality := fp_mul binary32 (fp_mul binary32 (fp_mul binary32 g t) r)
                     (geometry_quality quality)\<rparr>)"

definition nav_gnss_sample_is_usable :: "nav_gnss_sample option \<Rightarrow> bool" where
  "nav_gnss_sample_is_usable sample = (case sample of None \<Rightarrow> False
     | Some s \<Rightarrow> gs_valid s \<and> nav_gnss_fix_type_code (gs_fix_type s) \<ge> 3)"

section \<open>Names\<close>

fun nav_reject_reason_to_string :: "nav_reject_reason \<Rightarrow> string" where
  "nav_reject_reason_to_string NAV_REJECT_NONE = ''NONE''"
| "nav_reject_reason_to_string NAV_REJECT_STALE_TELEMETRY = ''STALE_TELEMETRY''"
| "nav_reject_reason_to_string NAV_REJECT_STALE_RANGE = ''STALE_RANGE''"
| "nav_reject_reason_to_string NAV_REJECT_BAD_GNSS = ''BAD_GNSS''"
| "nav_reject_reason_to_string NAV_REJECT_BAD_POSITION = ''BAD_POSITION''"
| "nav_reject_reason_to_string NAV_REJECT_BAD_RANGE_SIGMA = ''BAD_RANGE_SIGMA''"
| "nav_reject_reason_to_string NAV_REJECT_RANGE_OUTLIER = ''RANGE_OUTLIER''"
| "nav_reject_reason_to_string NAV_REJECT_BAD_GEOMETRY = ''BAD_GEOMETRY''"
| "nav_reject_reason_to_string NAV_REJECT_NOT_ENOUGH_ANCHORS = ''NOT_ENOUGH_ANCHORS''"
| "nav_reject_reason_to_string NAV_REJECT_MISSING_LOCAL_ALTITUDE = ''MISSING_LOCAL_ALTITUDE''"
| "nav_reject_reason_to_string NAV_REJECT_TRILATERATION_FAILED = ''TRILATERATION_FAILED''"

fun nav_altitude_source_to_string :: "nav_altitude_source \<Rightarrow> string" where
  "nav_altitude_source_to_string NAV_ALT_SOURCE_NONE = ''NONE''"
| "nav_altitude_source_to_string NAV_ALT_SOURCE_GNSS = ''GNSS''"
| "nav_altitude_source_to_string NAV_ALT_SOURCE_BARO = ''BARO''"
| "nav_altitude_source_to_string NAV_ALT_SOURCE_FC = ''FC''"
| "nav_altitude_source_to_string NAV_ALT_SOURCE_SIM = ''SIM''"
| "nav_altitude_source_to_string NAV_ALT_SOURCE_MANUAL = ''MANUAL''"

fun nav_solution_source_to_string :: "nav_solution_source \<Rightarrow> string" where
  "nav_solution_source_to_string NAV_SOURCE_NONE = ''NONE''"
| "nav_solution_source_to_string NAV_SOURCE_LOCAL_GNSS = ''LOCAL_GNSS''"
| "nav_solution_source_to_string NAV_SOURCE_RADIO_3D = ''RADIO_3D''"
| "nav_solution_source_to_string NAV_SOURCE_REPLAY = ''REPLAY''"
| "nav_solution_source_to_string NAV_SOURCE_SIM = ''SIM''"
| "nav_solution_source_to_string (NAV_SOURCE_RAW n) = ''UNKNOWN''"

fun nav_solution_status_to_string :: "nav_solution_status \<Rightarrow> string" where
  "nav_solution_status_to_string NAV_SOLUTION_NONE = ''NONE''"
| "nav_solution_status_to_string NAV_SOLUTION_GNSS_DIRECT = ''GNSS_DIRECT''"
| "nav_solution_status_to_string NAV_SOLUTION_RADIO_3D = ''RADIO_3D''"
| "nav_solution_status_to_string NAV_SOLUTION_DEGRADED = ''DEGRADED''"
| "nav_solution_status_to_string NAV_SOLUTION_REJECTED = ''REJECTED''"
| "nav_solution_status_to_string (NAV_SOLUTION_RAW n) = ''UNKNOWN''"

fun nav_range_fail_reason_to_string :: "nav_range_fail_reason \<Rightarrow> string" where
  "nav_range_fail_reason_to_string NAV_RANGE_FAIL_NONE = ''NONE''"
| "nav_range_fail_reason_to_string NAV_RANGE_FAIL_TIMEOUT = ''TIMEOUT''"
| "nav_range_fail_reason_to_string NAV_RANGE_FAIL_NO_RESPONSE = ''NO_RESPONSE''"
| "nav_range_fail_reason_to_string NAV_RANGE_FAIL_RADIO_BUSY = ''RADIO_BUSY''"
| "nav_range_fail_reason_to_string NAV_RANGE_FAIL_BAD_FRAME = ''BAD_FRAME''"
| "nav_range_fail_reason_to_string NAV_RANGE_FAIL_RANGING_ENGINE_ERROR = ''RANGING_ENGINE_ERROR''"
| "nav_range_fail_reason_to_string NAV_RANGE_FAIL_ABORTED = ''ABORTED''"
| "nav_range_fail_reason_to_string NAV_RANGE_FAIL_UNKNOWN = ''UNKNOWN''"
| "nav_range_fail_reason_to_string (NAV_RANGE_FAIL_RAW n) = ''UNKNOWN''"

text \<open>Each name stands for one reason, so a log line identifies the reason it reports.\<close>

lemma reject_reason_to_string_inj:
  "nav_reject_reason_to_string r = nav_reject_reason_to_string s \<longleftrightarrow> r = s"
  by (cases r; cases s) simp_all

section \<open>Freshness\<close>

text \<open>
  A 32-bit age divided by a larger time-to-live stays in the unit interval through all three
  roundings: both conversions and the division are monotone and fix 0 and 1.
\<close>

lemma fp_of_u32_pos: "0 < (x :: u32) \<Longrightarrow> \<exists>r. fp_of_int binary32 (uint x) = Fin r \<and> 1 \<le> r"
proof -
  assume "0 < x"
  then have "1 \<le> uint x" "uint x < 2 ^ 32"
    using uint_bounded [of x] by (simp_all add: word_less_def)
  then obtain n :: int where n: "uint x = n" "1 \<le> n" "n < 2 ^ 32" by blast
  have "fp_le (Fin 1) (fp_rnd binary32 (of_int n))"
    using f32.rnd_mono [of 1 "of_int n"] n(2) by (simp add: f32.rnd_one)
  moreover have "fp_le (fp_rnd binary32 (of_int n)) (fp_rnd binary32 (of_int (2 ^ 32)))"
    using n(3) by (intro f32.rnd_mono) (simp only: of_int_le_iff less_imp_le)
  moreover have "fp_rnd binary32 (of_int (2 ^ 32)) = Fin 4294967296"
    by (simp add: fp_eval)
  ultimately show ?thesis by (cases "fp_rnd binary32 (of_int n)") (auto simp: fp_of_int_def n(1))
qed

lemma fp_of_u32_mono: "(x :: u32) \<le> y \<Longrightarrow> fp_le (fp_of_int binary32 (uint x)) (fp_of_int binary32 (uint y))"
  unfolding fp_of_int_def word_le_def by (intro f32.rnd_mono) (simp only: of_int_le_iff)

lemma fp_of_u32_nonneg: "\<exists>r. fp_of_int binary32 (uint (x :: u32)) = Fin r \<and> 0 \<le> r"
proof (cases "x = 0")
  case False
  then show ?thesis using fp_of_u32_pos [of x] by (force simp: word_greater_zero_iff)
qed (simp add: fp_of_int_def)

definition age_ratio :: "u32 \<Rightarrow> u32 \<Rightarrow> fp" where
  "age_ratio age ttl = fp_div binary32 (fp_of_int binary32 (uint age)) (fp_of_int binary32 (uint ttl))"

lemma age_ratio_unit: "age < ttl \<Longrightarrow> fp_unit (age_ratio age ttl)"
proof -
  assume "age < ttl"
  then have "0 < ttl" by (rule le_less_trans [OF word_zero_le])
  then obtain t where t: "fp_of_int binary32 (uint ttl) = Fin t" "1 \<le> t" using fp_of_u32_pos by blast
  obtain a where a: "fp_of_int binary32 (uint age) = Fin a" "0 \<le> a" using fp_of_u32_nonneg by blast
  have "a \<le> t" using fp_of_u32_mono [of age ttl] \<open>age < ttl\<close> a t by (simp add: less_imp_le)
  with a t show ?thesis by (auto simp: age_ratio_def fp_unit_iff intro!: f32.rnd_unit)
qed

lemma age_ratio_mono: "a \<le> b \<Longrightarrow> b < ttl \<Longrightarrow> fp_le (age_ratio a ttl) (age_ratio b ttl)"
proof -
  assume ab: "a \<le> b" and bt: "b < ttl"
  from bt have "0 < ttl" by (rule le_less_trans [OF word_zero_le])
  then obtain t where t: "fp_of_int binary32 (uint ttl) = Fin t" "1 \<le> t" using fp_of_u32_pos by blast
  obtain x y where "fp_of_int binary32 (uint a) = Fin x" "fp_of_int binary32 (uint b) = Fin y"
    using fp_of_u32_nonneg by blast
  with t fp_of_u32_mono [OF ab] show ?thesis
    by (auto simp: age_ratio_def intro!: f32.rnd_mono divide_right_mono)
qed

lemma fp_unit_refl: "fp_unit x \<Longrightarrow> fp_le x x"
  by (auto simp: fp_unit_iff)

lemma freshness_unit: "fp_unit (freshness_quality age ttl)"
  by (auto simp: freshness_quality_def age_ratio_def [symmetric] not_le
      intro!: fp_unit_one_minus age_ratio_unit)

lemma freshness_antimono:
  assumes "a \<le> b" shows "fp_le (freshness_quality b ttl) (freshness_quality a ttl)"
proof (cases "ttl = 0 \<or> b \<ge> ttl")
  case True
  then show ?thesis using freshness_unit [of a ttl] assms
    by (auto simp: freshness_quality_def [of b] fp_unit_def)
next
  case False
  with assms have "b < ttl" "a < ttl" by auto
  with False assms show ?thesis
    by (auto simp: freshness_quality_def age_ratio_def [symmetric] not_le
        intro!: fp_one_minus_antimono age_ratio_unit age_ratio_mono)
qed

section \<open>The anchor score\<close>

text \<open>The abstract decision: the first evidence that fails, in the order of the code.\<close>

definition anchor_verdict :: "nav_peer_state option \<Rightarrow> u32 \<Rightarrow> u32 \<Rightarrow> u32 \<Rightarrow> u32 \<Rightarrow> nav_reject_reason" where
  "anchor_verdict peer now tttl rttl sigma = (case peer of None \<Rightarrow> NAV_REJECT_STALE_TELEMETRY
   | Some p \<Rightarrow>
      (case filter fst
         [(\<not> ps_present p, NAV_REJECT_STALE_TELEMETRY),
          (expired tttl now (ps_last_telemetry_timestamp_ms p), NAV_REJECT_STALE_TELEMETRY),
          (expired rttl now (ps_last_range_timestamp_ms p), NAV_REJECT_STALE_RANGE),
          (\<not> (ps_gnss_valid p \<and> nav_gnss_fix_type_code (ps_fix_type p) \<ge> 3), NAV_REJECT_BAD_GNSS),
          (\<not> (ps_range_valid p \<and> ps_range_mm p > 0), NAV_REJECT_STALE_RANGE),
          (sigma > 0 \<and> ps_range_sigma_mm p > sigma, NAV_REJECT_BAD_RANGE_SIGMA)]
       of [] \<Rightarrow> NAV_REJECT_NONE | (_, r) # _ \<Rightarrow> r))"

definition anchor_score :: "nav_peer_state \<Rightarrow> u32 \<Rightarrow> u32 \<Rightarrow> u32 \<Rightarrow> fp" where
  "anchor_score p now tttl rttl = fp_mul binary32 (fp_mul binary32 (fp_mul binary32 (Fin 1)
     (if tttl = 0 then Fin 1 else freshness_quality (now - ps_last_telemetry_timestamp_ms p) tttl))
     (if rttl = 0 then Fin 1 else freshness_quality (now - ps_last_range_timestamp_ms p) rttl)) (Fin 1)"

lemma anchor_score_unit: "fp_unit (anchor_score p now tttl rttl)"
  unfolding anchor_score_def by (intro fp_unit_mul) (simp_all add: freshness_unit)

lemma anchor_score_ages:
  assumes "now - ps_last_telemetry_timestamp_ms p \<le> later - ps_last_telemetry_timestamp_ms p"
    and "now - ps_last_range_timestamp_ms p \<le> later - ps_last_range_timestamp_ms p"
  shows "fp_le (anchor_score p later tttl rttl) (anchor_score p now tttl rttl)"
  unfolding anchor_score_def using assms
  by (intro fp_mul_mono fp_unit_mul)
    (simp_all add: freshness_unit fp_unit_refl freshness_antimono)

lemma score_anchor_None:
  "q_reject_reason (nav_quality_score_anchor None now tttl rttl sigma) = NAV_REJECT_STALE_TELEMETRY"
  by (simp add: nav_quality_score_anchor_def)

lemma score_anchor_verdict:
  "q_reject_reason (nav_quality_score_anchor peer now tttl rttl sigma) = anchor_verdict peer now tttl rttl sigma"
  by (cases peer) (auto simp: nav_quality_score_anchor_def anchor_verdict_def Let_def expired_def
      word_greater_zero_iff)

lemma score_anchor_total:
  "total_quality (nav_quality_score_anchor peer now tttl rttl sigma) =
     (if anchor_verdict peer now tttl rttl sigma = NAV_REJECT_NONE
      then anchor_score (the peer) now tttl rttl else Fin 0)"
  by (cases peer) (auto simp: nav_quality_score_anchor_def anchor_verdict_def Let_def expired_def
      anchor_score_def word_greater_zero_iff)

text \<open>Ageing never improves an anchor: evaluated at a later time, with the same evidence and no
  counter wrapping in between, the score of a peer that is still accepted is at most the earlier
  score, through every \<^verbatim>\<open>float\<close> rounding.\<close>

theorem score_anchor_ages:
  assumes "now - ps_last_telemetry_timestamp_ms p \<le> later - ps_last_telemetry_timestamp_ms p"
    and "now - ps_last_range_timestamp_ms p \<le> later - ps_last_range_timestamp_ms p"
    and "q_reject_reason (nav_quality_score_anchor (Some p) now tttl rttl sigma) = NAV_REJECT_NONE"
  shows "fp_le (total_quality (nav_quality_score_anchor (Some p) later tttl rttl sigma))
               (total_quality (nav_quality_score_anchor (Some p) now tttl rttl sigma))"
proof -
  have "fp_le (anchor_score p later tttl rttl) (anchor_score p now tttl rttl)"
    using assms(1,2) by (rule anchor_score_ages)
  then show ?thesis using assms(3) anchor_score_unit [of p now tttl rttl]
    by (simp add: score_anchor_verdict score_anchor_total fp_unit_def)
qed

section \<open>The documented checks\<close>

text \<open>The evidence that makes a peer an anchor, as a whole and without an order.\<close>

definition anchor_evidence :: "nav_peer_state \<Rightarrow> u32 \<Rightarrow> u32 \<Rightarrow> u32 \<Rightarrow> u32 \<Rightarrow> bool" where
  "anchor_evidence p now tttl rttl sigma \<longleftrightarrow> ps_present p \<and>
     (tttl = 0 \<or> now - ps_last_telemetry_timestamp_ms p \<le> tttl) \<and>
     (rttl = 0 \<or> now - ps_last_range_timestamp_ms p \<le> rttl) \<and> ps_range_valid p \<and> ps_range_mm p \<noteq> 0 \<and>
     ps_gnss_valid p \<and> nav_gnss_fix_type_code (ps_fix_type p) \<ge> 3 \<and>
     (sigma = 0 \<or> ps_range_sigma_mm p \<le> sigma)"

text \<open>The chart \<^verbatim>\<open>Anchor Rejection Path\<close> of \<^verbatim>\<open>docs/data_flow.md\<close>, box by box.\<close>

definition documented_verdict :: "nav_peer_state \<Rightarrow> u32 \<Rightarrow> u32 \<Rightarrow> u32 \<Rightarrow> u32 \<Rightarrow> nav_reject_reason" where
  "documented_verdict p now tttl rttl sigma =
     (if \<not> ps_present p then NAV_REJECT_STALE_TELEMETRY
      else if expired tttl now (ps_last_telemetry_timestamp_ms p) then NAV_REJECT_STALE_TELEMETRY
      else if expired rttl now (ps_last_range_timestamp_ms p) \<or> \<not> ps_range_valid p \<or> ps_range_mm p = 0 then NAV_REJECT_STALE_RANGE
      else if \<not> ps_gnss_valid p \<or> nav_gnss_fix_type_code (ps_fix_type p) < 3 then NAV_REJECT_BAD_GNSS
      else if 0 < sigma \<and> ps_range_sigma_mm p > sigma then NAV_REJECT_BAD_RANGE_SIGMA
      else NAV_REJECT_NONE)"

text \<open>The one case in which the code's order shows: a fresh range without a value, and a bad fix as well.\<close>

definition two_reasons :: "nav_peer_state \<Rightarrow> u32 \<Rightarrow> u32 \<Rightarrow> u32 \<Rightarrow> bool" where
  "two_reasons p now tttl rttl \<longleftrightarrow> ps_present p \<and> \<not> expired tttl now (ps_last_telemetry_timestamp_ms p) \<and>
     \<not> expired rttl now (ps_last_range_timestamp_ms p) \<and> (\<not> ps_range_valid p \<or> ps_range_mm p = 0) \<and>
     (\<not> ps_gnss_valid p \<or> nav_gnss_fix_type_code (ps_fix_type p) < 3)"

lemma verdict_documented:
  "anchor_verdict (Some p) now tttl rttl sigma =
     (if two_reasons p now tttl rttl then NAV_REJECT_BAD_GNSS else documented_verdict p now tttl rttl sigma)"
  unfolding anchor_verdict_def documented_verdict_def two_reasons_def
  by (simp add: word_greater_zero_iff not_le)

lemma verdict_evidence: "anchor_verdict (Some p) now tttl rttl sigma = NAV_REJECT_NONE \<longleftrightarrow> anchor_evidence p now tttl rttl sigma"
proof -
  have e: "expired ttl now x \<longleftrightarrow> \<not> (ttl = 0 \<or> now - x \<le> ttl)" for ttl x :: u32
    by (auto simp: expired_def word_greater_zero_iff)
  have "anchor_verdict (Some p) now tttl rttl sigma = NAV_REJECT_NONE \<longleftrightarrow>
      documented_verdict p now tttl rttl sigma = NAV_REJECT_NONE"
    unfolding verdict_documented by (auto simp: two_reasons_def documented_verdict_def)
  also have "\<dots> \<longleftrightarrow> anchor_evidence p now tttl rttl sigma"
    unfolding documented_verdict_def anchor_evidence_def e word_greater_zero_iff not_less [symmetric, where ?'a = int]
      not_less [symmetric, of "ps_range_sigma_mm p"] by auto
  finally show ?thesis .
qed

text \<open>C16: Which peers are anchors, and what a rejection says. A present peer is accepted exactly when all the
  evidence holds together: fresh telemetry, a fresh range with a value, a 3D fix, a range sigma within the
  limit. The reason of a rejection is the one of the documented chart, except when a fresh range has no value
  and the fix is bad as well: then both reasons are true, the chart names the range and the code the fix. A
  rejected peer scores exactly zero, an absent one is stale, every score lies in the unit interval, a peer
  with new evidence scores exactly one, and the score of a peer that was accepted never grows while its
  evidence ages, through every \<^verbatim>\<open>float\<close> rounding.\<close>

theorem score_anchor_spec:
  "(q_reject_reason (nav_quality_score_anchor (Some p) now tttl rttl sigma) = NAV_REJECT_NONE
      \<longleftrightarrow> anchor_evidence p now tttl rttl sigma) \<and>
   q_reject_reason (nav_quality_score_anchor (Some p) now tttl rttl sigma) =
     (if two_reasons p now tttl rttl then NAV_REJECT_BAD_GNSS else documented_verdict p now tttl rttl sigma) \<and>
   q_reject_reason (nav_quality_score_anchor None now tttl rttl sigma) = NAV_REJECT_STALE_TELEMETRY \<and>
   fp_unit (total_quality (nav_quality_score_anchor (Some p) now tttl rttl sigma)) \<and>
   (\<not> anchor_evidence p now tttl rttl sigma \<longrightarrow>
      total_quality (nav_quality_score_anchor (Some p) now tttl rttl sigma) = Fin 0) \<and>
   (anchor_evidence p now tttl rttl sigma \<and> ps_last_telemetry_timestamp_ms p = now \<and> ps_last_range_timestamp_ms p = now \<longrightarrow>
      total_quality (nav_quality_score_anchor (Some p) now tttl rttl sigma) = Fin 1) \<and>
   (\<forall>later. anchor_evidence p now tttl rttl sigma \<and>
      now - ps_last_telemetry_timestamp_ms p \<le> later - ps_last_telemetry_timestamp_ms p \<and>
      now - ps_last_range_timestamp_ms p \<le> later - ps_last_range_timestamp_ms p \<longrightarrow>
      fp_le (total_quality (nav_quality_score_anchor (Some p) later tttl rttl sigma))
            (total_quality (nav_quality_score_anchor (Some p) now tttl rttl sigma)))"
proof -
  have "freshness_quality 0 ttl = Fin 1" if "ttl \<noteq> 0" for ttl
    using fp_of_u32_pos [of ttl] that by (auto simp: freshness_quality_def fp_of_int_def word_greater_zero_iff f32.rnd_one fp_sub_def)
  then have "anchor_score p now tttl rttl = Fin 1"
    if "ps_last_telemetry_timestamp_ms p = now" "ps_last_range_timestamp_ms p = now"
    using that by (simp add: anchor_score_def f32.rnd_one)
  then have one: "anchor_evidence p now tttl rttl sigma \<and> ps_last_telemetry_timestamp_ms p = now \<and> ps_last_range_timestamp_ms p = now \<longrightarrow>
      total_quality (nav_quality_score_anchor (Some p) now tttl rttl sigma) = Fin 1"
    by (simp add: score_anchor_total verdict_evidence)
  have r: "q_reject_reason (nav_quality_score_anchor (Some p) now tttl rttl sigma) = NAV_REJECT_NONE
      \<longleftrightarrow> anchor_evidence p now tttl rttl sigma" for now
    by (simp only: score_anchor_verdict verdict_evidence)
  have u: "fp_unit (total_quality (nav_quality_score_anchor (Some p) now tttl rttl sigma))"
    using anchor_score_unit [of p now tttl rttl] by (simp add: score_anchor_total)
  have z: "\<not> anchor_evidence p now tttl rttl sigma \<longrightarrow>
      total_quality (nav_quality_score_anchor (Some p) now tttl rttl sigma) = Fin 0"
    by (simp add: score_anchor_total verdict_evidence)
  have v: "q_reject_reason (nav_quality_score_anchor (Some p) now tttl rttl sigma) =
     (if two_reasons p now tttl rttl then NAV_REJECT_BAD_GNSS else documented_verdict p now tttl rttl sigma)"
    by (simp only: score_anchor_verdict verdict_documented)
  show ?thesis
    by (intro conjI allI impI r v score_anchor_None u z [rule_format] one [rule_format])
      (simp_all add: score_anchor_ages r)
qed

lemma ex_peer_fields [simp]:
  "ps_present ex_peer" "ps_last_telemetry_timestamp_ms ex_peer = 100"
  "ps_last_range_timestamp_ms ex_peer = 200" "ps_gnss_valid ex_peer"
  "ps_fix_type ex_peer = NAV_GNSS_FIX_3D" "ps_range_valid ex_peer" "ps_range_mm ex_peer = 621957"
  "ps_range_sigma_mm ex_peer = 100"
  by (simp_all add: ex_peer_def range_into_def Let_def beacon_into_def telemetry_into_def
      ex_telemetry_def ex_beacon_def ex_range_def)

theorem score_anchor_spec_witness:
  "q_reject_reason (nav_quality_score_anchor (Some ex_peer) 300 2000 1000 10000) = NAV_REJECT_NONE \<and>
   fp_le (total_quality (nav_quality_score_anchor (Some ex_peer) 500 2000 1000 10000))
         (total_quality (nav_quality_score_anchor (Some ex_peer) 300 2000 1000 10000))"
proof -
  have "q_reject_reason (nav_quality_score_anchor (Some ex_peer) 300 2000 1000 10000) = NAV_REJECT_NONE"
    by (simp add: score_anchor_verdict anchor_verdict_def expired_def)
  moreover from this have "anchor_evidence ex_peer 300 2000 1000 10000" by (simp add: score_anchor_verdict verdict_evidence)
  ultimately show ?thesis using score_anchor_spec [of ex_peer 300 2000 1000 10000] by simp
qed

end
