(* ===== verification/Nav_Trilateration.thy ===== *)
theory Nav_Trilateration
  imports Nav_Types
begin

text \<open>
  \<^verbatim>\<open>core/src/nav_trilateration.c\<close>: the position solver for three anchors and a known altitude, in
  \<^verbatim>\<open>double\<close> arithmetic on the WGS84 ellipsoid: a linearised initial guess in the local tangent plane
  and at most thirty damped Gauss-Newton steps. Additions, products, quotients, \<^verbatim>\<open>sqrt\<close>, \<^verbatim>\<open>fmod\<close>,
  \<^verbatim>\<open>fabs\<close>, \<^verbatim>\<open>fmax\<close> and \<^verbatim>\<open>fmin\<close> are the rounded operations of \<^verbatim>\<open>Ieee_Float\<close>; \<^verbatim>\<open>sin\<close>, \<^verbatim>\<open>cos\<close>,
  \<^verbatim>\<open>atan2\<close> and \<^verbatim>\<open>hypot\<close>, whose accuracy the C standard leaves open, are the functions of a \<open>libm\<close>
  argument, and every lemma holds for all of them. The lemmas give the bound on the iterations and
  the contract of an accepted solution.
\<close>

section \<open>Numbers\<close>

record libm =
  lm_sin :: "fp \<Rightarrow> fp"
  lm_cos :: "fp \<Rightarrow> fp"
  lm_atan2 :: "fp \<Rightarrow> fp \<Rightarrow> fp"
  lm_hypot :: "fp \<Rightarrow> fp \<Rightarrow> fp"

abbreviation dadd :: "fp \<Rightarrow> fp \<Rightarrow> fp" where "dadd \<equiv> fp_add binary64"
abbreviation dsub :: "fp \<Rightarrow> fp \<Rightarrow> fp" where "dsub \<equiv> fp_sub binary64"
abbreviation dmul :: "fp \<Rightarrow> fp \<Rightarrow> fp" where "dmul \<equiv> fp_mul binary64"
abbreviation ddiv :: "fp \<Rightarrow> fp \<Rightarrow> fp" where "ddiv \<equiv> fp_div binary64"
abbreviation dsqrt :: "fp \<Rightarrow> fp" where "dsqrt \<equiv> fp_sqrt binary64"
abbreviation dlit :: "rat \<Rightarrow> fp" where "dlit \<equiv> fp_rnd binary64"

definition WGS84_A_M :: fp where "WGS84_A_M = Fin 6378137"
definition WGS84_F :: fp where "WGS84_F = ddiv (Fin 1) (dlit (298257223563 / 1000000000))"
definition WGS84_B_M :: fp where "WGS84_B_M = dmul WGS84_A_M (dsub (Fin 1) WGS84_F)"
definition WGS84_E2 :: fp where "WGS84_E2 = dmul WGS84_F (dsub (Fin 2) WGS84_F)"
definition WGS84_EP2 :: fp where
  "WGS84_EP2 = ddiv (dsub (dmul WGS84_A_M WGS84_A_M) (dmul WGS84_B_M WGS84_B_M)) (dmul WGS84_B_M WGS84_B_M)"
definition NAV_TRILAT_PI :: fp where
  "NAV_TRILAT_PI = dlit (314159265358979323846264338327950288 / 10 ^ 35)"
definition DEG_TO_RAD :: fp where "DEG_TO_RAD = ddiv NAV_TRILAT_PI (Fin 180)"
definition RAD_TO_DEG :: fp where "RAD_TO_DEG = ddiv (Fin 180) NAV_TRILAT_PI"
definition MAX_GEOMETRY_CONDITION :: fp where "MAX_GEOMETRY_CONDITION = Fin 100000000"
abbreviation (input) MAX_ITERATIONS :: nat where "MAX_ITERATIONS \<equiv> 30"
definition FINITE_DIFF_RAD :: fp where "FINITE_DIFF_RAD = dlit (1 / 10 ^ 8)"
definition CONVERGENCE_STEP_RAD :: fp where "CONVERGENCE_STEP_RAD = dlit (1 / 10 ^ 14)"
definition DBL_MAX :: fp where "DBL_MAX = Fin (fmt_max binary64)"

section \<open>Interface types\<close>

datatype nav_trilat_status = NAV_TRILAT_OK | NAV_TRILAT_ERR_NULL | NAV_TRILAT_ERR_INVALID_INPUT
  | NAV_TRILAT_ERR_POOR_GEOMETRY | NAV_TRILAT_ERR_NO_CONVERGENCE

record nav_trilat_anchor =
  ta_lat_deg :: fp
  ta_lon_deg :: fp
  ta_alt_m :: fp
  ta_distance_m :: fp
  ta_node_id :: u8

record nav_trilat_result =
  tr_lat_deg :: fp
  tr_lon_deg :: fp
  tr_alt_m :: fp
  tr_rms_error_m :: fp
  tr_max_abs_error_m :: fp
  tr_residuals_m :: "fp list"
  tr_expected_distances_m :: "fp list"
  tr_iterations :: nat
  tr_geometry_condition :: fp

definition nav_trilat_result_zero :: nav_trilat_result where
  "nav_trilat_result_zero = \<lparr>tr_lat_deg = Fin 0, tr_lon_deg = Fin 0, tr_alt_m = Fin 0,
     tr_rms_error_m = Fin 0, tr_max_abs_error_m = Fin 0, tr_residuals_m = [Fin 0, Fin 0, Fin 0],
     tr_expected_distances_m = [Fin 0, Fin 0, Fin 0], tr_iterations = 0, tr_geometry_condition = Fin 0\<rparr>"

fun nav_trilat_status_to_string :: "nav_trilat_status \<Rightarrow> string" where
  "nav_trilat_status_to_string NAV_TRILAT_OK = ''NAV_TRILAT_OK''"
| "nav_trilat_status_to_string NAV_TRILAT_ERR_NULL = ''NAV_TRILAT_ERR_NULL''"
| "nav_trilat_status_to_string NAV_TRILAT_ERR_INVALID_INPUT = ''NAV_TRILAT_ERR_INVALID_INPUT''"
| "nav_trilat_status_to_string NAV_TRILAT_ERR_POOR_GEOMETRY = ''NAV_TRILAT_ERR_POOR_GEOMETRY''"
| "nav_trilat_status_to_string NAV_TRILAT_ERR_NO_CONVERGENCE = ''NAV_TRILAT_ERR_NO_CONVERGENCE''"

section \<open>Geometry\<close>

record nav_vec3 =
  v_x :: fp
  v_y :: fp
  v_z :: fp

definition vec3 :: "fp \<Rightarrow> fp \<Rightarrow> fp \<Rightarrow> nav_vec3" where
  "vec3 x y z = \<lparr>v_x = x, v_y = y, v_z = z\<rparr>"

definition is_valid_lat_lon :: "fp \<Rightarrow> fp \<Rightarrow> bool" where
  "is_valid_lat_lon lat_deg lon_deg \<longleftrightarrow> fp_isfinite lat_deg \<and> fp_isfinite lon_deg \<and>
     fp_le (Fin (- 90)) lat_deg \<and> fp_le lat_deg (Fin 90) \<and>
     fp_le (Fin (- 180)) lon_deg \<and> fp_le lon_deg (Fin 180)"

definition normalize_lon_deg :: "fp \<Rightarrow> fp" where
  "normalize_lon_deg lon_deg =
     (let lon = fp_fmod (dadd lon_deg (Fin 180)) (Fin 360);
          lon = (if fp_lt lon (Fin 0) then dadd lon (Fin 360) else lon)
      in dsub lon (Fin 180))"

definition vec_sub :: "nav_vec3 \<Rightarrow> nav_vec3 \<Rightarrow> nav_vec3" where
  "vec_sub a b = vec3 (dsub (v_x a) (v_x b)) (dsub (v_y a) (v_y b)) (dsub (v_z a) (v_z b))"

definition vec_norm :: "nav_vec3 \<Rightarrow> fp" where
  "vec_norm v = dsqrt (dadd (dadd (dmul (v_x v) (v_x v)) (dmul (v_y v) (v_y v))) (dmul (v_z v) (v_z v)))"

definition geodetic_to_ecef :: "libm \<Rightarrow> fp \<Rightarrow> fp \<Rightarrow> fp \<Rightarrow> nav_vec3" where
  "geodetic_to_ecef lm lat_deg lon_deg alt_m =
     (let lat = dmul lat_deg DEG_TO_RAD;
          lon = dmul lon_deg DEG_TO_RAD;
          sin_lat = lm_sin lm lat; cos_lat = lm_cos lm lat;
          sin_lon = lm_sin lm lon; cos_lon = lm_cos lm lon;
          n = ddiv WGS84_A_M (dsqrt (dsub (Fin 1) (dmul (dmul WGS84_E2 sin_lat) sin_lat)))
      in vec3 (dmul (dmul (dadd n alt_m) cos_lat) cos_lon)
           (dmul (dmul (dadd n alt_m) cos_lat) sin_lon)
           (dmul (dadd (dmul n (dsub (Fin 1) WGS84_E2)) alt_m) sin_lat))"

definition ecef_to_geodetic :: "libm \<Rightarrow> nav_vec3 \<Rightarrow> fp \<times> fp \<times> fp" where
  "ecef_to_geodetic lm ecef =
     (let p = lm_hypot lm (v_x ecef) (v_y ecef) in
      if fp_eq p (Fin 0)
      then (if fp_le (Fin 0) (v_z ecef) then Fin 90 else Fin (- 90), Fin 0,
            dsub (fp_abs (v_z ecef)) WGS84_B_M)
      else
        let theta = lm_atan2 lm (dmul (v_z ecef) WGS84_A_M) (dmul p WGS84_B_M);
            st = lm_sin lm theta; ct = lm_cos lm theta;
            lat = lm_atan2 lm
              (dadd (v_z ecef) (dmul (dmul (dmul (dmul WGS84_EP2 WGS84_B_M) st) st) st))
              (dsub p (dmul (dmul (dmul (dmul WGS84_E2 WGS84_A_M) ct) ct) ct));
            lon = lm_atan2 lm (v_y ecef) (v_x ecef);
            sin_lat = lm_sin lm lat;
            n = ddiv WGS84_A_M (dsqrt (dsub (Fin 1) (dmul (dmul WGS84_E2 sin_lat) sin_lat)))
        in (dmul lat RAD_TO_DEG, normalize_lon_deg (dmul lon RAD_TO_DEG),
            dsub (ddiv p (lm_cos lm lat)) n))"

text \<open>The rotation matrix as its three rows.\<close>

definition ecef_to_enu_matrix :: "libm \<Rightarrow> fp \<Rightarrow> fp \<Rightarrow> nav_vec3 \<times> nav_vec3 \<times> nav_vec3" where
  "ecef_to_enu_matrix lm ref_lat_deg ref_lon_deg =
     (let lat = dmul ref_lat_deg DEG_TO_RAD;
          lon = dmul ref_lon_deg DEG_TO_RAD;
          sin_lat = lm_sin lm lat; cos_lat = lm_cos lm lat;
          sin_lon = lm_sin lm lon; cos_lon = lm_cos lm lon
      in (vec3 (fp_neg sin_lon) cos_lon (Fin 0),
          vec3 (dmul (fp_neg sin_lat) cos_lon) (dmul (fp_neg sin_lat) sin_lon) cos_lat,
          vec3 (dmul cos_lat cos_lon) (dmul cos_lat sin_lon) sin_lat))"

definition dot3 :: "fp \<Rightarrow> fp \<Rightarrow> fp \<Rightarrow> nav_vec3 \<Rightarrow> fp" where
  "dot3 a b c v = dadd (dadd (dmul a (v_x v)) (dmul b (v_y v))) (dmul c (v_z v))"

definition apply_rot :: "nav_vec3 \<times> nav_vec3 \<times> nav_vec3 \<Rightarrow> nav_vec3 \<Rightarrow> nav_vec3" where
  "apply_rot rot v = (case rot of (r0, r1, r2) \<Rightarrow>
     vec3 (dot3 (v_x r0) (v_y r0) (v_z r0) v) (dot3 (v_x r1) (v_y r1) (v_z r1) v)
       (dot3 (v_x r2) (v_y r2) (v_z r2) v))"

definition enu_to_ecef :: "libm \<Rightarrow> nav_vec3 \<Rightarrow> fp \<Rightarrow> fp \<Rightarrow> fp \<Rightarrow> nav_vec3" where
  "enu_to_ecef lm enu ref_lat_deg ref_lon_deg ref_alt_m =
     (case ecef_to_enu_matrix lm ref_lat_deg ref_lon_deg of (r0, r1, r2) \<Rightarrow>
        let ref = geodetic_to_ecef lm ref_lat_deg ref_lon_deg ref_alt_m;
            delta = vec3 (dot3 (v_x r0) (v_x r1) (v_x r2) enu) (dot3 (v_y r0) (v_y r1) (v_y r2) enu)
              (dot3 (v_z r0) (v_z r1) (v_z r2) enu)
        in vec3 (dadd (v_x ref) (v_x delta)) (dadd (v_y ref) (v_y delta)) (dadd (v_z ref) (v_z delta)))"

definition solve_2x2 :: "fp \<Rightarrow> fp \<Rightarrow> fp \<Rightarrow> fp \<Rightarrow> fp \<Rightarrow> fp \<Rightarrow> (fp \<times> fp) option" where
  "solve_2x2 a00 a01 a10 a11 b0 b1 =
     (let det = dsub (dmul a00 a11) (dmul a01 a10) in
      if \<not> fp_isfinite det \<or> fp_lt (fp_abs det) (dlit (1 / 10 ^ 18)) then None
      else
        let x0 = ddiv (dsub (dmul b0 a11) (dmul a01 b1)) det;
            x1 = ddiv (dsub (dmul a00 b1) (dmul b0 a10)) det
        in if fp_isfinite x0 \<and> fp_isfinite x1 then Some (x0, x1) else None)"

text \<open>The mean of one coordinate of the anchors, summed in array order as the loops do.\<close>

definition mean_of :: "('a \<Rightarrow> fp) \<Rightarrow> 'a list \<Rightarrow> fp" where
  "mean_of f xs = foldl (\<lambda>acc a. dadd acc (ddiv (f a) (Fin 3))) (Fin 0) xs"

definition anchor_enu :: "libm \<Rightarrow> nav_vec3 \<times> nav_vec3 \<times> nav_vec3 \<Rightarrow> nav_vec3 \<Rightarrow> nav_trilat_anchor \<Rightarrow> nav_vec3" where
  "anchor_enu lm rot ref a =
     apply_rot rot (vec_sub (geodetic_to_ecef lm (ta_lat_deg a) (ta_lon_deg a) (ta_alt_m a)) ref)"

definition geometry_condition :: "libm \<Rightarrow> nav_trilat_anchor list \<Rightarrow> fp" where
  "geometry_condition lm anchors =
     (let ref_lat = mean_of ta_lat_deg anchors;
          ref_lon = mean_of ta_lon_deg anchors;
          ref_alt = mean_of ta_alt_m anchors;
          ref = geodetic_to_ecef lm ref_lat ref_lon ref_alt;
          rot = ecef_to_enu_matrix lm ref_lat ref_lon;
          points = map (anchor_enu lm rot ref) anchors;
          mean_x = mean_of v_x points;
          mean_y = mean_of v_y points;
          moment = (\<lambda>f g. foldl (\<lambda>acc p. dadd acc (dmul (f p) (g p))) (Fin 0) points);
          dx = (\<lambda>p. dsub (v_x p) mean_x);
          dy = (\<lambda>p. dsub (v_y p) mean_y);
          sxx = moment dx dx; sxy = moment dx dy; syy = moment dy dy;
          tr = dadd sxx syy;
          disc = dsqrt (fp_fmax (Fin 0) (dadd (dmul (dsub sxx syy) (dsub sxx syy))
            (dmul (dmul (Fin 4) sxy) sxy)));
          lambda_min = dmul (Fin (1 / 2)) (dsub tr disc);
          lambda_max = dmul (Fin (1 / 2)) (dadd tr disc)
      in if fp_lt lambda_min (dlit (1 / 10 ^ 12)) then PInf else dsqrt (ddiv lambda_max lambda_min))"

record normal_eqs =
  ne_a00 :: fp
  ne_a01 :: fp
  ne_a10 :: fp
  ne_a11 :: fp
  ne_b0 :: fp
  ne_b1 :: fp

definition initial_guess :: "libm \<Rightarrow> nav_trilat_anchor list \<Rightarrow> fp \<Rightarrow> bool \<times> fp \<times> fp" where
  "initial_guess lm anchors target_alt_m =
     (let ref_lat = mean_of ta_lat_deg anchors;
          ref_lon = mean_of ta_lon_deg anchors;
          ref = geodetic_to_ecef lm ref_lat ref_lon target_alt_m;
          rot = ecef_to_enu_matrix lm ref_lat ref_lon;
          enu = map (\<lambda>a. (ta_distance_m a, anchor_enu lm rot ref a)) anchors;
          first = snd (hd enu);
          first_range_sq = dsub (dmul (fst (hd enu)) (fst (hd enu))) (dmul (v_z first) (v_z first));
          ne = foldl (\<lambda>s (dist, point).
            let range_sq = dsub (dmul dist dist) (dmul (v_z point) (v_z point));
                row0 = dmul (Fin 2) (dsub (v_x point) (v_x first));
                row1 = dmul (Fin 2) (dsub (v_y point) (v_y first));
                rhs = dsub (dsub (dadd (dadd (dsub first_range_sq range_sq)
                    (dmul (v_x point) (v_x point))) (dmul (v_y point) (v_y point)))
                    (dmul (v_x first) (v_x first))) (dmul (v_y first) (v_y first))
            in \<lparr>ne_a00 = dadd (ne_a00 s) (dmul row0 row0), ne_a01 = dadd (ne_a01 s) (dmul row0 row1),
                ne_a10 = dadd (ne_a10 s) (dmul row1 row0), ne_a11 = dadd (ne_a11 s) (dmul row1 row1),
                ne_b0 = dadd (ne_b0 s) (dmul row0 rhs), ne_b1 = dadd (ne_b1 s) (dmul row1 rhs)\<rparr>)
            \<lparr>ne_a00 = Fin 0, ne_a01 = Fin 0, ne_a10 = Fin 0, ne_a11 = Fin 0, ne_b0 = Fin 0, ne_b1 = Fin 0\<rparr>
            (tl enu)
      in case solve_2x2 (ne_a00 ne) (ne_a01 ne) (ne_a10 ne) (ne_a11 ne) (ne_b0 ne) (ne_b1 ne) of
           None \<Rightarrow> (False, ref_lat, ref_lon)
         | Some (local_x, local_y) \<Rightarrow>
             (case ecef_to_geodetic lm (enu_to_ecef lm (vec3 local_x local_y (Fin 0)) ref_lat ref_lon target_alt_m) of
                (lat, lon, ignored_alt) \<Rightarrow> (True, lat, lon)))"

section \<open>Residuals\<close>

record fit =
  ft_residuals :: "fp list"
  ft_expected :: "fp list"
  ft_rms :: fp
  ft_max_abs :: fp

definition compute_residuals :: "libm \<Rightarrow> nav_trilat_anchor list \<Rightarrow> fp \<Rightarrow> fp \<Rightarrow> fp \<Rightarrow> fit" where
  "compute_residuals lm anchors lat_deg lon_deg alt_m =
     (let target = geodetic_to_ecef lm lat_deg lon_deg alt_m;
          expected = map (\<lambda>a. vec_norm (vec_sub
            (geodetic_to_ecef lm (ta_lat_deg a) (ta_lon_deg a) (ta_alt_m a)) target)) anchors;
          residuals = map2 (\<lambda>e a. dsub e (ta_distance_m a)) expected anchors;
          sum_sq = foldl (\<lambda>s r. dadd s (dmul r r)) (Fin 0) residuals;
          max_abs = foldl (\<lambda>m r. fp_fmax m (fp_abs r)) (Fin 0) residuals
      in \<lparr>ft_residuals = residuals, ft_expected = expected, ft_rms = dsqrt (ddiv sum_sq (Fin 3)),
          ft_max_abs = max_abs\<rparr>)"

definition residual_vector :: "libm \<Rightarrow> nav_trilat_anchor list \<Rightarrow> fp \<Rightarrow> fp \<Rightarrow> fp \<Rightarrow> fit option" where
  "residual_vector lm anchors lat_rad lon_rad target_alt_m =
     (let lat_deg = dmul lat_rad RAD_TO_DEG;
          lon_deg = normalize_lon_deg (dmul lon_rad RAD_TO_DEG)
      in if \<not> is_valid_lat_lon lat_deg lon_deg then None
         else Some (compute_residuals lm anchors lat_deg lon_deg target_alt_m))"

section \<open>The damped iteration\<close>

record lm_state =
  ls_lat_rad :: fp
  ls_lon_rad :: fp
  ls_lambda :: fp
  ls_fit :: fit
  ls_accepted :: bool

datatype lm_outcome = Failed nav_trilat_status | Continue lm_state | Converged lm_state

definition jacobian_column ::
  "libm \<Rightarrow> nav_trilat_anchor list \<Rightarrow> fp \<Rightarrow> fp \<Rightarrow> fp \<Rightarrow> nat \<Rightarrow> fp list option" where
  "jacobian_column lm anchors target lat_rad lon_rad param =
     (let step = FINITE_DIFF_RAD;
          plus_lat = dadd lat_rad (if param = 0 then step else Fin 0);
          plus_lon = dadd lon_rad (if param = 1 then step else Fin 0);
          minus_lat = dsub lat_rad (if param = 0 then step else Fin 0);
          minus_lon = dsub lon_rad (if param = 1 then step else Fin 0)
      in do {
        plus \<leftarrow> residual_vector lm anchors plus_lat plus_lon target;
        minus \<leftarrow> residual_vector lm anchors minus_lat minus_lon target;
        Some (map2 (\<lambda>p m. ddiv (dsub p m) (dmul (Fin 2) step)) (ft_residuals plus) (ft_residuals minus)) })"

definition damped_eqs :: "fp \<Rightarrow> ((fp \<times> fp) \<times> fp) list \<Rightarrow> normal_eqs" where
  "damped_eqs lambda rows = foldl (\<lambda>e ((c0, c1), r).
     \<lparr>ne_a00 = dadd (ne_a00 e) (dmul c0 c0), ne_a01 = dadd (ne_a01 e) (dmul c0 c1),
      ne_a10 = dadd (ne_a10 e) (dmul c1 c0), ne_a11 = dadd (ne_a11 e) (dmul c1 c1),
      ne_b0 = dsub (ne_b0 e) (dmul c0 r), ne_b1 = dsub (ne_b1 e) (dmul c1 r)\<rparr>)
     \<lparr>ne_a00 = lambda, ne_a01 = Fin 0, ne_a10 = Fin 0, ne_a11 = lambda, ne_b0 = Fin 0, ne_b1 = Fin 0\<rparr> rows"

definition lm_try :: "libm \<Rightarrow> nav_trilat_anchor list \<Rightarrow> fp \<Rightarrow> lm_state \<Rightarrow> fp \<Rightarrow> fp \<Rightarrow> lm_outcome" where
  "lm_try lm anchors target s delta_lat delta_lon =
     (let max_step = dlit (1 / 1000);
          step_norm = lm_hypot lm delta_lat delta_lon;
          too_long = fp_lt max_step step_norm;
          d_lat = (if too_long then dmul delta_lat (ddiv max_step step_norm) else delta_lat);
          d_lon = (if too_long then dmul delta_lon (ddiv max_step step_norm) else delta_lon);
          candidate_lat = dadd (ls_lat_rad s) d_lat;
          candidate_lon = dadd (ls_lon_rad s) d_lon
      in case residual_vector lm anchors candidate_lat candidate_lon target of
           None \<Rightarrow> Continue (s\<lparr>ls_lambda := dmul (ls_lambda s) (Fin 10)\<rparr>)
         | Some candidate \<Rightarrow>
             if fp_le (ft_rms candidate) (ft_rms (ls_fit s)) then
               let s' = \<lparr>ls_lat_rad = candidate_lat, ls_lon_rad = candidate_lon,
                     ls_lambda = fp_fmax (ddiv (ls_lambda s) (Fin 10)) (dlit (1 / 10 ^ 12)),
                     ls_fit = candidate, ls_accepted = True\<rparr>
               in if fp_lt (lm_hypot lm d_lat d_lon) CONVERGENCE_STEP_RAD
                     \<or> fp_lt (ft_rms candidate) (dlit (1 / 10 ^ 6))
                  then Converged s' else Continue s'
             else Continue (s\<lparr>ls_lambda :=
               fp_fmin (dmul (ls_lambda s) (Fin 10)) (Fin (10 ^ 12))\<rparr>))"

definition lm_step :: "libm \<Rightarrow> nav_trilat_anchor list \<Rightarrow> fp \<Rightarrow> lm_state \<Rightarrow> lm_outcome" where
  "lm_step lm anchors target s =
     (case (jacobian_column lm anchors target (ls_lat_rad s) (ls_lon_rad s) 0,
            jacobian_column lm anchors target (ls_lat_rad s) (ls_lon_rad s) 1) of
        (Some j0, Some j1) \<Rightarrow>
          (let ne = damped_eqs (ls_lambda s) (zip (zip j0 j1) (ft_residuals (ls_fit s)))
           in case solve_2x2 (ne_a00 ne) (ne_a01 ne) (ne_a10 ne) (ne_a11 ne) (ne_b0 ne) (ne_b1 ne) of
                None \<Rightarrow> Failed NAV_TRILAT_ERR_POOR_GEOMETRY
              | Some (delta_lat, delta_lon) \<Rightarrow> lm_try lm anchors target s delta_lat delta_lon)
      | _ \<Rightarrow> Failed NAV_TRILAT_ERR_INVALID_INPUT)"

text \<open>
  The loop over \<^verbatim>\<open>iter\<close>: the result is the failure or the converged flag with the last state,
  and in both cases the value \<^verbatim>\<open>result->iterations\<close> has then.
\<close>

fun lm_loop :: "libm \<Rightarrow> nav_trilat_anchor list \<Rightarrow> fp \<Rightarrow> nat \<Rightarrow> nat \<Rightarrow> lm_state \<Rightarrow>
    (nav_trilat_status + bool \<times> lm_state) \<times> nat" where
  "lm_loop lm anchors target 0 iter s = (Inr (False, s), iter)"
| "lm_loop lm anchors target (Suc left) iter s =
     (case lm_step lm anchors target s of
        Failed e \<Rightarrow> (Inl e, iter + 1)
      | Converged s' \<Rightarrow> (Inr (True, s'), iter + 1)
      | Continue s' \<Rightarrow> lm_loop lm anchors target left (iter + 1) s')"

definition anchor_input_ok :: "nav_trilat_anchor \<Rightarrow> bool" where
  "anchor_input_ok a \<longleftrightarrow> \<not> (\<not> is_valid_lat_lon (ta_lat_deg a) (ta_lon_deg a) \<or> \<not> fp_isfinite (ta_alt_m a) \<or>
     \<not> fp_isfinite (ta_distance_m a) \<or> fp_le (ta_distance_m a) (Fin 0))"

definition nav_trilat_solve_3_anchor_altitude ::
  "libm \<Rightarrow> nav_trilat_anchor list option \<Rightarrow> fp \<Rightarrow> nav_trilat_result \<Rightarrow> nav_trilat_status \<times> nav_trilat_result" where
  "nav_trilat_solve_3_anchor_altitude lm anchors_ptr target_alt_m result = (case anchors_ptr of
     None \<Rightarrow> (NAV_TRILAT_ERR_NULL, result)
   | Some anchors \<Rightarrow>
      (let res = nav_trilat_result_zero in
       if \<not> fp_isfinite target_alt_m then (NAV_TRILAT_ERR_INVALID_INPUT, res)
       else if \<not> list_all anchor_input_ok anchors then (NAV_TRILAT_ERR_INVALID_INPUT, res)
       else
         let cond = geometry_condition lm anchors;
             res = res\<lparr>tr_geometry_condition := cond\<rparr> in
         if \<not> fp_isfinite cond \<or> fp_lt MAX_GEOMETRY_CONDITION cond
         then (NAV_TRILAT_ERR_POOR_GEOMETRY, res)
         else (case initial_guess lm anchors target_alt_m of (found, lat_deg, lon_deg) \<Rightarrow>
           (let lat_rad = dmul lat_deg DEG_TO_RAD; lon_rad = dmul lon_deg DEG_TO_RAD in
            case residual_vector lm anchors lat_rad lon_rad target_alt_m of
              None \<Rightarrow> (NAV_TRILAT_ERR_INVALID_INPUT, res)
            | Some fit \<Rightarrow>
               (case lm_loop lm anchors target_alt_m MAX_ITERATIONS 0
                   \<lparr>ls_lat_rad = lat_rad, ls_lon_rad = lon_rad, ls_lambda = dlit (1 / 1000),
                    ls_fit = fit, ls_accepted = False\<rparr> of
                  (Inl e, iters) \<Rightarrow> (e, res\<lparr>tr_iterations := iters\<rparr>)
                | (Inr (converged, s), iters) \<Rightarrow>
                    (if \<not> converged \<and> (\<not> ls_accepted s \<or> \<not> fp_isfinite (ft_rms (ls_fit s))
                          \<or> \<not> fp_isfinite (ft_max_abs (ls_fit s)))
                     then NAV_TRILAT_ERR_NO_CONVERGENCE else NAV_TRILAT_OK,
                     res\<lparr>tr_iterations := iters,
                       tr_lat_deg := dmul (ls_lat_rad s) RAD_TO_DEG,
                       tr_lon_deg := normalize_lon_deg (dmul (ls_lon_rad s) RAD_TO_DEG),
                       tr_alt_m := target_alt_m,
                       tr_rms_error_m := ft_rms (ls_fit s),
                       tr_max_abs_error_m := ft_max_abs (ls_fit s),
                       tr_residuals_m := ft_residuals (ls_fit s),
                       tr_expected_distances_m := ft_expected (ls_fit s)\<rparr>))))))"

definition nav_trilat_distance_m :: "libm \<Rightarrow> fp \<Rightarrow> fp \<Rightarrow> fp \<Rightarrow> fp \<Rightarrow> fp \<Rightarrow> fp \<Rightarrow> fp" where
  "nav_trilat_distance_m lm lat1 lon1 alt1 lat2 lon2 alt2 =
     vec_norm (vec_sub (geodetic_to_ecef lm lat1 lon1 alt1) (geodetic_to_ecef lm lat2 lon2 alt2))"

section \<open>The contract of a solution\<close>

text \<open>
  What a step does to the state: it moves to a candidate whose fit is the fit at the candidate and
  is not worse, or it only changes the damping.
\<close>

definition lm_progress :: "libm \<Rightarrow> nav_trilat_anchor list \<Rightarrow> fp \<Rightarrow> lm_state \<Rightarrow> lm_outcome \<Rightarrow> bool" where
  "lm_progress lm anchors target s out \<longleftrightarrow> (case out of
     Failed e \<Rightarrow> e \<noteq> NAV_TRILAT_OK
   | Converged s' \<Rightarrow> ls_accepted s' \<and> fp_le (ft_rms (ls_fit s')) (ft_rms (ls_fit s)) \<and>
       residual_vector lm anchors (ls_lat_rad s') (ls_lon_rad s') target = Some (ls_fit s')
   | Continue s' \<Rightarrow> (ls_accepted s' \<and> fp_le (ft_rms (ls_fit s')) (ft_rms (ls_fit s)) \<and>
       residual_vector lm anchors (ls_lat_rad s') (ls_lon_rad s') target = Some (ls_fit s'))
       \<or> (\<exists>l. s' = s\<lparr>ls_lambda := l\<rparr>))"

lemma lm_try_progress: "lm_progress lm anchors target s (lm_try lm anchors target s x y)"
proof -
  define dx dy where "dx = (if fp_lt (dlit (1 / 1000)) (lm_hypot lm x y)
      then dmul x (ddiv (dlit (1 / 1000)) (lm_hypot lm x y)) else x)"
    and "dy = (if fp_lt (dlit (1 / 1000)) (lm_hypot lm x y)
      then dmul y (ddiv (dlit (1 / 1000)) (lm_hypot lm x y)) else y)"
  define la lo where "la = dadd (ls_lat_rad s) dx" and "lo = dadd (ls_lon_rad s) dy"
  show ?thesis
    unfolding lm_try_def Let_def dx_def [symmetric] dy_def [symmetric] la_def [symmetric] lo_def [symmetric]
    by (cases "residual_vector lm anchors la lo target") (auto simp: lm_progress_def)
qed

lemma lm_step_progress: "lm_progress lm anchors target s (lm_step lm anchors target s)"
  unfolding lm_step_def Let_def
  by (auto simp: lm_try_progress split: option.split) (simp_all add: lm_progress_def)

definition lm_inv :: "libm \<Rightarrow> nav_trilat_anchor list \<Rightarrow> fp \<Rightarrow> fit \<Rightarrow> lm_state \<Rightarrow> bool" where
  "lm_inv lm anchors target fit0 s \<longleftrightarrow>
     residual_vector lm anchors (ls_lat_rad s) (ls_lon_rad s) target = Some (ls_fit s) \<and>
     (if ls_accepted s then fp_le (ft_rms (ls_fit s)) (ft_rms fit0) else ls_fit s = fit0)"

lemma lm_inv_step:
  assumes "lm_inv lm anchors target fit0 s"
  shows "case lm_step lm anchors target s of Failed e \<Rightarrow> e \<noteq> NAV_TRILAT_OK
    | Converged s' \<Rightarrow> lm_inv lm anchors target fit0 s' \<and> ls_accepted s'
    | Continue s' \<Rightarrow> lm_inv lm anchors target fit0 s'"
  using assms lm_step_progress [of lm anchors target s]
  by (auto simp: lm_inv_def lm_progress_def dest: fp_le_trans split: lm_outcome.splits if_splits)

lemma lm_loop_spec:
  "lm_inv lm anchors target fit0 s \<Longrightarrow> lm_loop lm anchors target left iter s = (r, n) \<Longrightarrow>
   n \<le> iter + left \<and> (case r of Inl e \<Rightarrow> e \<noteq> NAV_TRILAT_OK
     | Inr (c, s') \<Rightarrow> lm_inv lm anchors target fit0 s' \<and> (c \<longrightarrow> ls_accepted s'))"
proof (induction left arbitrary: iter s)
  case (Suc left)
  show ?case
  proof (cases "lm_step lm anchors target s")
    case (Continue s')
    then show ?thesis using Suc.IH [of s' "iter + 1"] Suc.prems lm_inv_step [OF Suc.prems(1)] by simp
  qed (use Suc.prems lm_inv_step [OF Suc.prems(1)] in auto)
qed auto

lemma residual_vector_SomeD:
  "residual_vector lm anchors lat lon target = Some f \<Longrightarrow>
   is_valid_lat_lon (dmul lat RAD_TO_DEG) (normalize_lon_deg (dmul lon RAD_TO_DEG)) \<and>
   f = compute_residuals lm anchors (dmul lat RAD_TO_DEG) (normalize_lon_deg (dmul lon RAD_TO_DEG)) target"
  by (auto simp: residual_vector_def Let_def split: if_splits)

text \<open>The fit at the initial guess.\<close>

definition initial_fit :: "libm \<Rightarrow> nav_trilat_anchor list \<Rightarrow> fp \<Rightarrow> fit option" where
  "initial_fit lm anchors target = (case initial_guess lm anchors target of (found, lat, lon) \<Rightarrow>
     residual_vector lm anchors (dmul lat DEG_TO_RAD) (dmul lon DEG_TO_RAD) target)"

definition solution_of :: "nav_trilat_result \<Rightarrow> fit" where
  "solution_of r = \<lparr>ft_residuals = tr_residuals_m r, ft_expected = tr_expected_distances_m r,
     ft_rms = tr_rms_error_m r, ft_max_abs = tr_max_abs_error_m r\<rparr>"

text \<open>C28: Whatever the mathematics library computes, the solver stops after at most thirty
  iterations, and a solution it reports as good is meaningful: the inputs were valid and the
  geometry conditioned, the position is a valid latitude and longitude at exactly the requested
  altitude, the reported residuals, distances and errors are those of the reported position, and the
  fit is at least as good as that of the initial guess.\<close>

theorem solver_contract:
  assumes "nav_trilat_solve_3_anchor_altitude lm (Some anchors) target r0 = (status, r)"
  shows "tr_iterations r \<le> 30 \<and> (status = NAV_TRILAT_OK \<longrightarrow>
    list_all anchor_input_ok anchors \<and> fp_isfinite target \<and>
    fp_isfinite (tr_geometry_condition r) \<and> \<not> fp_lt MAX_GEOMETRY_CONDITION (tr_geometry_condition r) \<and>
    is_valid_lat_lon (tr_lat_deg r) (tr_lon_deg r) \<and> tr_alt_m r = target \<and>
    solution_of r = compute_residuals lm anchors (tr_lat_deg r) (tr_lon_deg r) target \<and>
    (\<exists>f0. initial_fit lm anchors target = Some f0 \<and> fp_le (tr_rms_error_m r) (ft_rms f0)))"
proof -
  obtain found lat lon where g: "initial_guess lm anchors target = (found, lat, lon)"
    by (cases "initial_guess lm anchors target") auto
  let ?f0 = "initial_fit lm anchors target"
  show ?thesis
  proof (cases "fp_isfinite target \<and> list_all anchor_input_ok anchors \<and>
      fp_isfinite (geometry_condition lm anchors) \<and>
      \<not> fp_lt MAX_GEOMETRY_CONDITION (geometry_condition lm anchors) \<and> ?f0 \<noteq> None")
    case True
    then obtain f0 where f0: "residual_vector lm anchors (dmul lat DEG_TO_RAD) (dmul lon DEG_TO_RAD) target = Some f0"
      "?f0 = Some f0" by (auto simp: initial_fit_def g)
    define s0 where "s0 = \<lparr>ls_lat_rad = dmul lat DEG_TO_RAD, ls_lon_rad = dmul lon DEG_TO_RAD,
      ls_lambda = dlit (1 / 1000), ls_fit = f0, ls_accepted = False\<rparr>"
    obtain out n where loop: "lm_loop lm anchors target 30 0 s0 = (out, n)" by fastforce
    have inv: "lm_inv lm anchors target f0 s0" using f0(1) by (simp add: lm_inv_def s0_def)
    note spec = lm_loop_spec [OF inv loop]
    show ?thesis
    proof (cases out)
      case (Inl e)
      then have "e \<noteq> NAV_TRILAT_OK" using spec by simp
      then show ?thesis using assms True g f0 loop spec Inl
        by (auto simp: nav_trilat_solve_3_anchor_altitude_def Let_def s0_def)
    next
      case (Inr cs)
      obtain c s where cs: "cs = (c, s)" by fastforce
      have i: "lm_inv lm anchors target f0 s" "c \<longrightarrow> ls_accepted s" "n \<le> 30"
        using spec Inr cs by auto
      have fit: "is_valid_lat_lon (dmul (ls_lat_rad s) RAD_TO_DEG) (normalize_lon_deg (dmul (ls_lon_rad s) RAD_TO_DEG))"
        "ls_fit s = compute_residuals lm anchors (dmul (ls_lat_rad s) RAD_TO_DEG)
           (normalize_lon_deg (dmul (ls_lon_rad s) RAD_TO_DEG)) target"
        using i(1) residual_vector_SomeD by (auto simp: lm_inv_def)
      have best: "ls_accepted s \<Longrightarrow> fp_le (ft_rms (ls_fit s)) (ft_rms f0)"
        using i(1) by (simp add: lm_inv_def)
      show ?thesis using assms True g f0 loop Inr cs i(2,3) fit best
        by (auto simp: nav_trilat_solve_3_anchor_altitude_def Let_def s0_def solution_of_def split: if_splits)
    qed
  next
    case False
    then show ?thesis using assms g
      by (auto simp: nav_trilat_solve_3_anchor_altitude_def Let_def initial_fit_def
          nav_trilat_result_zero_def split: if_splits option.splits)
  qed
qed

end
