(* ===== verification/Nav_Logging.thy ===== *)
theory Nav_Logging
  imports Nav_Types
begin

text \<open>
  \<^verbatim>\<open>core/src/nav_logging.c\<close> and the part of \<^verbatim>\<open>snprintf\<close> that the core's messages use. A logger is
  the presence of a callback and a minimum level; what the callback receives is the value of
  \<open>nav_log_emit\<close>, a list of at most one entry, and the components append it to a trace. The opaque
  \<^verbatim>\<open>user\<close> pointer of the callback is not represented.
\<close>

section \<open>Formatting\<close>

text \<open>Decimal digits of a natural number, most significant first.\<close>

fun digits :: "nat \<Rightarrow> string" where
  "digits n = (if n < 10 then [char_of (48 + n)] else digits (n div 10) @ [char_of (48 + n mod 10)])"

declare digits.simps [simp del]

definition fmt_u :: "nat \<Rightarrow> string" where
  "fmt_u n = digits n"

text \<open>A number below \<open>10^k\<close> takes at most \<open>k\<close> digits.\<close>

lemma digits_length: "n < 10 ^ k \<Longrightarrow> 0 < k \<Longrightarrow> length (digits n) \<le> k"
proof (induction n arbitrary: k rule: digits.induct)
  case (1 n)
  show ?case
  proof (cases "n < 10")
    case True
    then show ?thesis using 1(3) by (simp add: digits.simps [of n])
  next
    case False
    have "k \<noteq> 1" using False 1(2) by auto
    then obtain m where k: "k = Suc m" "0 < m" using 1(3) by (cases k) auto
    have "n div 10 < 10 ^ m" using 1(2) k by (simp add: less_mult_imp_div_less mult.commute)
    then show ?thesis using 1(1) [OF False, of m] False k by (simp add: digits.simps [of n])
  qed
qed

lemma fmt_u_short: "LENGTH('a) \<le> 32 \<Longrightarrow> length (fmt_u (unat (v :: 'a::len word))) \<le> 10"
proof -
  assume w: "LENGTH('a) \<le> 32"
  have "unat v < 2 ^ LENGTH('a)" by (rule unsigned_less)
  moreover have "(2 :: nat) ^ LENGTH('a) \<le> 2 ^ 32" using w by (intro power_increasing) simp_all
  ultimately have "unat v < 2 ^ 32" by linarith
  then have "unat v < 10 ^ 10" by simp
  then show ?thesis using digits_length [of "unat v" 10] by (simp add: fmt_u_def)
qed

definition fmt_d :: "int \<Rightarrow> string" where
  "fmt_d n = (if n < 0 then CHR ''-'' # digits (nat (- n)) else digits (nat n))"

text \<open>
  \<^verbatim>\<open>%.<k>f\<close>: the exact value rounded to \<open>k\<close> decimals, ties to even. A zero prints without a sign,
  as \<^typ>\<open>fp\<close> has one zero.
\<close>

definition pad_zeros :: "nat \<Rightarrow> string \<Rightarrow> string" where
  "pad_zeros k s = replicate (k - length s) (CHR ''0'') @ s"

fun fmt_f :: "nat \<Rightarrow> fp \<Rightarrow> string" where
  "fmt_f k (Fin r) = (let n = nat (rne (\<bar>r\<bar> * 10 ^ k)) in
     (if r < 0 then ''-'' else '''') @ digits (n div 10 ^ k) @ ''.'' @ pad_zeros k (digits (n mod 10 ^ k)))"
| "fmt_f k PInf = ''inf''"
| "fmt_f k NInf = ''-inf''"
| "fmt_f k NaN = ''nan''"

text \<open>\<^verbatim>\<open>snprintf\<close> into a buffer of \<open>cap\<close> bytes keeps the characters that fit before the final NUL.\<close>

definition snprintf :: "nat \<Rightarrow> string list \<Rightarrow> string" where
  "snprintf cap parts = take (cap - 1) (concat parts)"

lemma snprintf_fits: "0 < cap \<Longrightarrow> length (snprintf cap parts) < cap"
  by (simp add: snprintf_def)

section \<open>Levels and categories\<close>

datatype nav_log_level = NAV_LOG_TRACE | NAV_LOG_DEBUG | NAV_LOG_INFO | NAV_LOG_WARN | NAV_LOG_ERROR

datatype nav_log_category = NAV_LOG_CAT_BOOT | NAV_LOG_CAT_CONFIG | NAV_LOG_CAT_GNSS
  | NAV_LOG_CAT_RADIO_PROTO | NAV_LOG_CAT_PEER_TABLE | NAV_LOG_CAT_RANGE | NAV_LOG_CAT_QUALITY
  | NAV_LOG_CAT_STATE | NAV_LOG_CAT_SOLUTION | NAV_LOG_CAT_REPLAY | NAV_LOG_CAT_SIM
  | NAV_LOG_CAT_ERROR

fun level_code :: "nav_log_level \<Rightarrow> nat" where
  "level_code NAV_LOG_TRACE = 0"
| "level_code NAV_LOG_DEBUG = 1"
| "level_code NAV_LOG_INFO = 2"
| "level_code NAV_LOG_WARN = 3"
| "level_code NAV_LOG_ERROR = 4"

instantiation nav_log_level :: linorder
begin

definition less_eq_nav_log_level :: "nav_log_level \<Rightarrow> nav_log_level \<Rightarrow> bool" where
  "less_eq_nav_log_level a b = (level_code a \<le> level_code b)"

definition less_nav_log_level :: "nav_log_level \<Rightarrow> nav_log_level \<Rightarrow> bool" where
  "less_nav_log_level a b = (level_code a < level_code b)"

instance
proof
  fix a b :: nav_log_level
  show "a \<le> b \<Longrightarrow> b \<le> a \<Longrightarrow> a = b"
    by (cases a; cases b) (simp_all add: less_eq_nav_log_level_def)
qed (auto simp: less_eq_nav_log_level_def less_nav_log_level_def)

end

record nav_logger =
  lg_callback :: bool
  lg_min_level :: nav_log_level

record log_entry =
  le_timestamp_ms :: u32
  le_level :: nav_log_level
  le_category :: nav_log_category
  le_event :: string
  le_message :: string

definition nav_logger_init :: "bool \<Rightarrow> nav_log_level \<Rightarrow> nav_logger" where
  "nav_logger_init callback min_level = \<lparr>lg_callback = callback, lg_min_level = min_level\<rparr>"

definition nav_log_emit ::
  "nav_logger option \<Rightarrow> u32 \<Rightarrow> nav_log_level \<Rightarrow> nav_log_category \<Rightarrow> string \<Rightarrow> string \<Rightarrow> log_entry list" where
  "nav_log_emit logger timestamp_ms level category event message = (case logger of
     None \<Rightarrow> []
   | Some l \<Rightarrow> if \<not> lg_callback l \<or> level < lg_min_level l then []
       else [\<lparr>le_timestamp_ms = timestamp_ms, le_level = level, le_category = category,
              le_event = event, le_message = message\<rparr>])"

fun nav_log_level_to_string :: "nav_log_level \<Rightarrow> string" where
  "nav_log_level_to_string NAV_LOG_TRACE = ''TRACE''"
| "nav_log_level_to_string NAV_LOG_DEBUG = ''DEBUG''"
| "nav_log_level_to_string NAV_LOG_INFO = ''INFO''"
| "nav_log_level_to_string NAV_LOG_WARN = ''WARN''"
| "nav_log_level_to_string NAV_LOG_ERROR = ''ERROR''"

fun nav_log_category_to_string :: "nav_log_category \<Rightarrow> string" where
  "nav_log_category_to_string NAV_LOG_CAT_BOOT = ''BOOT''"
| "nav_log_category_to_string NAV_LOG_CAT_CONFIG = ''CONFIG''"
| "nav_log_category_to_string NAV_LOG_CAT_GNSS = ''GNSS''"
| "nav_log_category_to_string NAV_LOG_CAT_RADIO_PROTO = ''RADIO_PROTO''"
| "nav_log_category_to_string NAV_LOG_CAT_PEER_TABLE = ''PEER_TABLE''"
| "nav_log_category_to_string NAV_LOG_CAT_RANGE = ''RANGE''"
| "nav_log_category_to_string NAV_LOG_CAT_QUALITY = ''QUALITY''"
| "nav_log_category_to_string NAV_LOG_CAT_STATE = ''STATE''"
| "nav_log_category_to_string NAV_LOG_CAT_SOLUTION = ''SOLUTION''"
| "nav_log_category_to_string NAV_LOG_CAT_REPLAY = ''REPLAY''"
| "nav_log_category_to_string NAV_LOG_CAT_SIM = ''SIM''"
| "nav_log_category_to_string NAV_LOG_CAT_ERROR = ''ERROR''"

lemma log_emit_levels: "e \<in> set (nav_log_emit (Some l) ts lv c ev msg) \<Longrightarrow> lg_min_level l \<le> le_level e"
  by (auto simp: nav_log_emit_def split: if_splits)

end
