(* ===== verification/Nav_State_Machine.thy ===== *)
theory Nav_State_Machine
  imports Nav_Types
begin

text \<open>
  \<^verbatim>\<open>core/src/nav_state_machine.c\<close>: the names of the navigation modes and the stand-alone mode
  selector. The core does not call the selector; it sets the mode while it builds the snapshot.
\<close>

fun nav_mode_to_string :: "nav_mode \<Rightarrow> string" where
  "nav_mode_to_string NAV_MODE_BOOT = ''BOOT''"
| "nav_mode_to_string NAV_MODE_GNSS_ACQUIRE = ''GNSS_ACQUIRE''"
| "nav_mode_to_string NAV_MODE_GNSS_OK = ''GNSS_OK''"
| "nav_mode_to_string NAV_MODE_GNSS_SUSPECT = ''GNSS_SUSPECT''"
| "nav_mode_to_string NAV_MODE_GPS_DENIED = ''GPS_DENIED''"
| "nav_mode_to_string NAV_MODE_RADIO_NAV_OK = ''RADIO_NAV_OK''"
| "nav_mode_to_string NAV_MODE_RADIO_NAV_DEGRADED = ''RADIO_NAV_DEGRADED''"
| "nav_mode_to_string NAV_MODE_NO_NAV_SOLUTION = ''NO_NAV_SOLUTION''"
| "nav_mode_to_string NAV_MODE_DEMO_FORCED_DENIED = ''DEMO_FORCED_DENIED''"
| "nav_mode_to_string (NAV_MODE_RAW n) = ''UNKNOWN''"

definition nav_state_machine_select_mode :: "bool \<Rightarrow> bool \<Rightarrow> u8 \<Rightarrow> nav_mode" where
  "nav_state_machine_select_mode local_gnss_valid forced_denied usable_anchor_count =
     (if forced_denied then
        (if unat usable_anchor_count \<ge> NAV_TRILAT_ANCHOR_COUNT then NAV_MODE_DEMO_FORCED_DENIED
         else NAV_MODE_GPS_DENIED)
      else if local_gnss_valid then NAV_MODE_GNSS_OK
      else if unat usable_anchor_count \<ge> NAV_TRILAT_ANCHOR_COUNT then NAV_MODE_RADIO_NAV_OK
      else NAV_MODE_NO_NAV_SOLUTION)"

text \<open>Local GNSS is selected only when it is valid and not denied.\<close>

lemma select_mode_gnss_iff:
  "nav_state_machine_select_mode v d n = NAV_MODE_GNSS_OK \<longleftrightarrow> v \<and> \<not> d"
  by (simp add: nav_state_machine_select_mode_def)

end
