(* ===== verification/Nav_Core.thy ===== *)
theory Nav_Core
  imports Nav_Quality Nav_Trilateration Nav_Logging Nav_State_Machine
begin

text \<open>
  \<^verbatim>\<open>core/src/nav_core.c\<close>: the navigation core. Its state is \<^verbatim>\<open>nav_system_t\<close> with one more field,
  \<open>sy_trace\<close>, the calls of the log callback so far. Events and ticks are functions from state to
  state; they are \<open>None\<close> only where a solved quantity is not finite and \<^verbatim>\<open>llround\<close> of it is
  unspecified. The functions of the mathematics library are the argument \<open>lm\<close>. A subscript that a
  guard in the same C function bounds by the array length is a plain list access here.
\<close>

section \<open>State\<close>

record nav_system =
  sy_config :: nav_config
  sy_peer_table :: nav_peer_table
  sy_logger :: nav_logger
  sy_local_gnss :: nav_gnss_sample
  sy_local_altitude :: nav_local_altitude
  sy_local_gnss_present :: bool
  sy_local_altitude_present :: bool
  sy_mode :: nav_mode
  sy_snapshot :: nav_snapshot
  sy_last_tick_ms :: u32
  sy_last_radio_solve_ms :: u32
  sy_radio_solve_generation :: u32
  sy_last_radio_solve_generation :: u32
  sy_radio_solve_ran :: bool
  sy_last_radio_solve_outcome :: nav_radio_solve_outcome
  sy_last_radio_solve_elapsed_ms :: u32
  sy_trace :: "log_entry list"

definition nav_config_default :: "u8 \<Rightarrow> nav_config" where
  "nav_config_default local_node_id = \<lparr>
     cfg_local_node_id = local_node_id,
     cfg_telemetry_ttl_ms = 2000,
     cfg_range_ttl_ms = 1000,
     cfg_local_altitude_ttl_ms = 1000,
     cfg_tick_period_ms = 100,
     cfg_radio_solve_interval_ms = 500,
     cfg_max_range_sigma_mm = 10000,
     cfg_min_anchor_quality = fp_rnd binary32 (5 / 100),
     cfg_min_solution_quality = fp_rnd binary32 (20 / 100),
     cfg_max_residual_rms_m = Fin 2,
     cfg_max_residual_m = Fin 5,
     cfg_min_anchor_triangle_area_m2 = Fin 100,
     cfg_degraded_anchor_triangle_area_m2 = Fin 1000,
     cfg_demo_force_gps_denied = False,
     cfg_allow_gnss_altitude_in_demo_forced_denied = False,
     cfg_ignore_altitude_for_radio_solve = False,
     cfg_retain_last_range_on_failure = False\<rparr>"

definition nav_snapshot_zero :: nav_snapshot where
  "nav_snapshot_zero = \<lparr>sn_node_id = 0, sn_time_ms = 0, sn_nav_mode = NAV_MODE_BOOT,
     sn_solution_status = NAV_SOLUTION_NONE, sn_solution_source = NAV_SOURCE_NONE,
     sn_position = nav_position_zero, sn_hacc_mm = 0, sn_vacc_mm = 0, sn_num_anchors = 0,
     sn_selected_anchor_node_ids = [0, 0, 0], sn_anchor_residuals_mm = [0, 0, 0],
     sn_rejected_node_ids = [0, 0, 0, 0],
     sn_rejected_reasons = replicate 4 NAV_REJECT_NONE, sn_rejected_count = 0,
     sn_residual_rms_m = Fin 0, sn_max_residual_m = Fin 0, sn_geometry_score = Fin 0,
     sn_anchor_triangle_area_m2 = Fin 0, sn_total_quality = Fin 0,
     sn_reject_reason = NAV_REJECT_NONE, sn_altitude_source = NAV_ALT_SOURCE_NONE,
     sn_local_altitude_valid = False, sn_local_gnss_present = False, sn_local_gnss_valid = False,
     sn_local_gnss_used = False, sn_local_gnss_age_ms = 0,
     sn_local_gnss_fix_type = NAV_GNSS_FIX_NONE, sn_local_gnss_satellites = 0,
     sn_local_gnss_hdop_centi = 0, sn_local_gnss_hacc_mm = 0, sn_local_gnss_vacc_mm = 0,
     sn_local_gnss_position = nav_position_zero, sn_radio_solve_outcome = NAV_RADIO_SOLVE_NONE,
     sn_radio_solve_age_ms = 0, sn_radio_solve_elapsed_ms = 0, sn_radio_solve_interval_ms = 0,
     sn_radio_solve_generation = 0, sn_radio_solve_last_generation = 0\<rparr>"

definition emit_log ::
  "u32 \<Rightarrow> nav_log_level \<Rightarrow> nav_log_category \<Rightarrow> string \<Rightarrow> string \<Rightarrow> nav_system \<Rightarrow> nav_system" where
  "emit_log now_ms level category event message sys =
     sys\<lparr>sy_trace := sy_trace sys @ nav_log_emit (Some (sy_logger sys)) now_ms level category event message\<rparr>"

section \<open>Positions and evidence\<close>

definition position_valid :: "nav_position \<Rightarrow> bool" where
  "position_valid p \<longleftrightarrow> sint (lat_e7 p) \<ge> - 900000000 \<and> sint (lat_e7 p) \<le> 900000000 \<and>
     sint (lon_e7 p) \<ge> - 1800000000 \<and> sint (lon_e7 p) \<le> 1800000000"

definition peer_position_valid :: "nav_position \<Rightarrow> bool" where
  "peer_position_valid p = (if \<not> position_valid p then False
     else \<not> (lat_e7 p = 0 \<and> lon_e7 p = 0 \<and> alt_mm p = 0))"

definition snapshot_clear_diagnostics :: "nav_snapshot \<Rightarrow> nav_snapshot" where
  "snapshot_clear_diagnostics sn = sn
     \<lparr>sn_num_anchors := 0, sn_rejected_count := 0, sn_residual_rms_m := Fin 0,
      sn_max_residual_m := Fin 0, sn_geometry_score := Fin 0, sn_anchor_triangle_area_m2 := Fin 0,
      sn_total_quality := Fin 0, sn_altitude_source := NAV_ALT_SOURCE_NONE,
      sn_local_altitude_valid := False, sn_solution_source := NAV_SOURCE_NONE,
      sn_selected_anchor_node_ids := replicate NAV_TRILAT_ANCHOR_COUNT NAV_INVALID_NODE_ID,
      sn_anchor_residuals_mm := replicate NAV_TRILAT_ANCHOR_COUNT 0,
      sn_rejected_node_ids := replicate NAV_MAX_NODES NAV_INVALID_NODE_ID,
      sn_rejected_reasons := replicate NAV_MAX_NODES NAV_REJECT_NONE\<rparr>"

definition populate_local_gnss_evidence :: "u32 \<Rightarrow> nav_system \<Rightarrow> nav_system" where
  "populate_local_gnss_evidence now_ms sys =
     (let g = sy_local_gnss sys;
          cleared = (sy_snapshot sys)
            \<lparr>sn_local_gnss_present := sy_local_gnss_present sys, sn_local_gnss_valid := False,
             sn_local_gnss_used := False, sn_local_gnss_age_ms := 0,
             sn_local_gnss_fix_type := NAV_GNSS_FIX_NONE, sn_local_gnss_satellites := 0,
             sn_local_gnss_hdop_centi := 0, sn_local_gnss_hacc_mm := 0, sn_local_gnss_vacc_mm := 0,
             sn_local_gnss_position := nav_position_zero\<rparr>
      in sys\<lparr>sy_snapshot :=
        (if \<not> sy_local_gnss_present sys then cleared
         else cleared\<lparr>sn_local_gnss_valid := nav_gnss_sample_is_usable (Some g),
           sn_local_gnss_age_ms := now_ms - gs_timestamp_ms g,
           sn_local_gnss_fix_type := gs_fix_type g, sn_local_gnss_satellites := gs_satellites g,
           sn_local_gnss_hdop_centi := gs_hdop_centi g, sn_local_gnss_hacc_mm := gs_hacc_mm g,
           sn_local_gnss_vacc_mm := gs_vacc_mm g, sn_local_gnss_position := gs_position g\<rparr>)\<rparr>)"

definition populate_radio_solve_diagnostics ::
  "u32 \<Rightarrow> nav_radio_solve_outcome \<Rightarrow> u32 \<Rightarrow> nav_system \<Rightarrow> nav_system" where
  "populate_radio_solve_diagnostics now_ms outcome elapsed_ms sys = sys
     \<lparr>sy_last_radio_solve_outcome := outcome,
      sy_last_radio_solve_elapsed_ms := elapsed_ms,
      sy_snapshot := (sy_snapshot sys)
        \<lparr>sn_radio_solve_outcome := outcome,
         sn_radio_solve_age_ms := (if sy_radio_solve_ran sys then now_ms - sy_last_radio_solve_ms sys else 0),
         sn_radio_solve_elapsed_ms := elapsed_ms,
         sn_radio_solve_interval_ms := cfg_radio_solve_interval_ms (sy_config sys),
         sn_radio_solve_generation := sy_radio_solve_generation sys,
         sn_radio_solve_last_generation := sy_last_radio_solve_generation sys\<rparr>\<rparr>"

definition mark_radio_solve_inputs_changed :: "nav_system \<Rightarrow> nav_system" where
  "mark_radio_solve_inputs_changed sys =
     (let g = sy_radio_solve_generation sys + 1
      in sys\<lparr>sy_radio_solve_generation := (if g = 0 then g + 1 else g)\<rparr>)"

definition local_gnss_can_affect_radio_solution :: "nav_system \<Rightarrow> bool" where
  "local_gnss_can_affect_radio_solution sys \<longleftrightarrow> cfg_demo_force_gps_denied (sy_config sys) \<and>
     cfg_allow_gnss_altitude_in_demo_forced_denied (sy_config sys) \<and>
     \<not> cfg_ignore_altitude_for_radio_solve (sy_config sys)"

section \<open>Anchor selection\<close>

definition nav_anchor_zero :: nav_anchor where
  "nav_anchor_zero = \<lparr>an_node_id = 0, an_lat_e7 = 0, an_lon_e7 = 0, an_alt_mm = 0, an_range_mm = 0,
     an_range_sigma_mm = 0, an_quality = Fin 0, an_reject_reason = NAV_REJECT_NONE\<rparr>"

definition selection_init :: nav_anchor_selection where
  "selection_init = \<lparr>sel_anchors = replicate NAV_TRILAT_ANCHOR_COUNT nav_anchor_zero, sel_count = 0,
     sel_reject_reason = NAV_REJECT_NONE,
     sel_rejected_node_ids = replicate NAV_MAX_NODES NAV_INVALID_NODE_ID,
     sel_rejected_reasons = replicate NAV_MAX_NODES NAV_REJECT_NONE, sel_rejected_count = 0\<rparr>"

definition selection_add_rejection ::
  "u8 \<Rightarrow> nav_reject_reason \<Rightarrow> nav_anchor_selection \<Rightarrow> nav_anchor_selection" where
  "selection_add_rejection node_id reason selection =
     (if sel_rejected_count selection \<ge> NAV_MAX_NODES then selection
      else selection
        \<lparr>sel_rejected_node_ids := (sel_rejected_node_ids selection)[sel_rejected_count selection := node_id],
         sel_rejected_reasons := (sel_rejected_reasons selection)[sel_rejected_count selection := reason],
         sel_rejected_count := sel_rejected_count selection + 1\<rparr>)"

definition worst_anchor :: "nav_anchor list \<Rightarrow> nat" where
  "worst_anchor anchors = foldl (\<lambda>worst i.
     if fp_lt (an_quality (anchors ! i)) (an_quality (anchors ! worst)) then i else worst)
     0 [1..<NAV_TRILAT_ANCHOR_COUNT]"

definition selection_add_candidate :: "nav_anchor \<Rightarrow> nav_anchor_selection \<Rightarrow> nav_anchor_selection" where
  "selection_add_candidate anchor selection =
     (if sel_count selection < NAV_TRILAT_ANCHOR_COUNT
      then selection\<lparr>sel_anchors := (sel_anchors selection)[sel_count selection := anchor],
             sel_count := sel_count selection + 1\<rparr>
      else
        let worst = worst_anchor (sel_anchors selection) in
        if fp_lt (an_quality (sel_anchors selection ! worst)) (an_quality anchor)
        then (let s = selection_add_rejection (an_node_id (sel_anchors selection ! worst)) NAV_REJECT_NONE selection
              in s\<lparr>sel_anchors := (sel_anchors s)[worst := anchor]\<rparr>)
        else selection_add_rejection (an_node_id anchor) NAV_REJECT_NONE selection)"

definition select_node :: "nav_system \<Rightarrow> u32 \<Rightarrow> u8 \<Rightarrow> nav_anchor_selection \<Rightarrow> nav_anchor_selection" where
  "select_node sys now_ms node_id out =
     (if node_id = cfg_local_node_id (sy_config sys) then out
      else
        let peer = nav_peer_table_get_const (sy_peer_table sys) node_id;
            quality = nav_quality_score_anchor peer now_ms (cfg_telemetry_ttl_ms (sy_config sys))
              (cfg_range_ttl_ms (sy_config sys)) (cfg_max_range_sigma_mm (sy_config sys));
            reason = q_reject_reason quality;
            reason = (if reason = NAV_REJECT_NONE \<and> (\<exists>p. peer = Some p \<and>
                (\<not> ps_range_position_valid p \<or> \<not> peer_position_valid (ps_range_position p)))
              then NAV_REJECT_BAD_POSITION else reason);
            reason = (if reason = NAV_REJECT_NONE \<and>
                fp_lt (total_quality quality) (cfg_min_anchor_quality (sy_config sys))
              then NAV_REJECT_STALE_TELEMETRY else reason)
        in case peer of
             None \<Rightarrow> selection_add_rejection node_id reason out
           | Some p \<Rightarrow>
               if reason \<noteq> NAV_REJECT_NONE then selection_add_rejection node_id reason out
               else selection_add_candidate
                 \<lparr>an_node_id = node_id, an_lat_e7 = lat_e7 (ps_range_position p),
                  an_lon_e7 = lon_e7 (ps_range_position p), an_alt_mm = alt_mm (ps_range_position p),
                  an_range_mm = ps_range_mm p, an_range_sigma_mm = ps_range_sigma_mm p,
                  an_quality = total_quality quality, an_reject_reason = NAV_REJECT_NONE\<rparr> out)"

definition nav_select_radio_anchors :: "nav_system \<Rightarrow> u32 \<Rightarrow> nav_status \<times> nav_anchor_selection" where
  "nav_select_radio_anchors sys now_ms =
     (let out = fold (select_node sys now_ms) [0, 1, 2, 3] selection_init
      in if sel_count out < NAV_TRILAT_ANCHOR_COUNT
         then (NAV_STATUS_NOT_FOUND, out\<lparr>sel_reject_reason := NAV_REJECT_NOT_ENOUGH_ANCHORS\<rparr>)
         else (NAV_STATUS_OK, out))"

section \<open>Altitude and geometry\<close>

definition local_altitude_is_fresh :: "nav_local_altitude \<Rightarrow> u32 \<Rightarrow> u32 \<Rightarrow> bool" where
  "local_altitude_is_fresh altitude now_ms ttl_ms =
     (if \<not> la_valid altitude \<or> la_source altitude = NAV_ALT_SOURCE_NONE then False
      else ttl_ms = 0 \<or> now_ms - la_timestamp_ms altitude \<le> ttl_ms)"

definition resolve_local_altitude :: "nav_system \<Rightarrow> u32 \<Rightarrow> nav_local_altitude option" where
  "resolve_local_altitude sys now_ms =
     (let cfg = sy_config sys; g = sy_local_gnss sys in
      if sy_local_altitude_present sys \<and>
         local_altitude_is_fresh (sy_local_altitude sys) now_ms (cfg_local_altitude_ttl_ms cfg)
      then Some (sy_local_altitude sys)
      else
        let gnss_alt_allowed = (\<not> cfg_demo_force_gps_denied cfg \<or> cfg_allow_gnss_altitude_in_demo_forced_denied cfg);
            age_ms = now_ms - gs_timestamp_ms g in
        if gnss_alt_allowed \<and> sy_local_gnss_present sys \<and> nav_gnss_sample_is_usable (Some g) \<and>
           (cfg_local_altitude_ttl_ms cfg = 0 \<or> age_ms \<le> cfg_local_altitude_ttl_ms cfg)
        then Some \<lparr>la_alt_mm = alt_mm (gs_position g), la_timestamp_ms = gs_timestamp_ms g,
               la_source = NAV_ALT_SOURCE_GNSS, la_valid = True\<rparr>
        else None)"

definition NAV_DEG_TO_RAD :: fp where
  "NAV_DEG_TO_RAD = dlit (1745329251994329576923690768489 / 10 ^ 32)"

definition NAV_EARTH_RADIUS_M :: fp where
  "NAV_EARTH_RADIUS_M = Fin 6378137"

definition e7_to_rad :: "i32 \<Rightarrow> fp" where
  "e7_to_rad e7 = dmul (ddiv (fp_of_int binary64 (sint e7)) (Fin 10000000)) NAV_DEG_TO_RAD"

definition anchor_x_m :: "libm \<Rightarrow> nav_anchor \<Rightarrow> fp \<Rightarrow> fp \<Rightarrow> fp" where
  "anchor_x_m lm anchor ref_lat_rad ref_lon_rad =
     dmul (dmul (dsub (e7_to_rad (an_lon_e7 anchor)) ref_lon_rad) (lm_cos lm ref_lat_rad)) NAV_EARTH_RADIUS_M"

definition anchor_y_m :: "nav_anchor \<Rightarrow> fp \<Rightarrow> fp" where
  "anchor_y_m anchor ref_lat_rad =
     dmul (dsub (e7_to_rad (an_lat_e7 anchor)) ref_lat_rad) NAV_EARTH_RADIUS_M"

definition compute_anchor_triangle_area_m2 :: "libm \<Rightarrow> nav_anchor list \<Rightarrow> fp" where
  "compute_anchor_triangle_area_m2 lm anchors =
     (let ref_lat = e7_to_rad (an_lat_e7 (anchors ! 0));
          ref_lon = e7_to_rad (an_lon_e7 (anchors ! 0));
          x0 = Fin 0; y0 = Fin 0;
          x1 = anchor_x_m lm (anchors ! 1) ref_lat ref_lon;
          y1 = anchor_y_m (anchors ! 1) ref_lat;
          x2 = anchor_x_m lm (anchors ! 2) ref_lat ref_lon;
          y2 = anchor_y_m (anchors ! 2) ref_lat;
          area = dmul (Fin (1 / 2)) (fp_abs (dsub (dmul (dsub x1 x0) (dsub y2 y0))
            (dmul (dsub x2 x0) (dsub y1 y0))))
      in fp_cvt binary32 area)"

definition geometry_score_from_area :: "fp \<Rightarrow> nav_config \<Rightarrow> fp" where
  "geometry_score_from_area area_m2 config =
     (if fp_le (cfg_degraded_anchor_triangle_area_m2 config) (Fin 0)
         \<or> fp_le (cfg_degraded_anchor_triangle_area_m2 config) area_m2 then Fin 1
      else if fp_le area_m2 (Fin 0) then Fin 0
      else fp_div binary32 area_m2 (cfg_degraded_anchor_triangle_area_m2 config))"

definition copy_selection_to_snapshot :: "nav_anchor_selection \<Rightarrow> nav_snapshot \<Rightarrow> nav_snapshot" where
  "copy_selection_to_snapshot selection sn = sn
     \<lparr>sn_num_anchors := of_nat (sel_count selection),
      sn_rejected_count := sel_rejected_count selection,
      sn_selected_anchor_node_ids := map (\<lambda>i. if i < sel_count selection
        then an_node_id (sel_anchors selection ! i) else sn_selected_anchor_node_ids sn ! i)
        [0..<NAV_TRILAT_ANCHOR_COUNT],
      sn_rejected_node_ids := map (\<lambda>i. if i < sel_rejected_count selection
        then sel_rejected_node_ids selection ! i else sn_rejected_node_ids sn ! i) [0..<NAV_MAX_NODES],
      sn_rejected_reasons := map (\<lambda>i. if i < sel_rejected_count selection
        then sel_rejected_reasons selection ! i else sn_rejected_reasons sn ! i) [0..<NAV_MAX_NODES]\<rparr>"

section \<open>Messages and diagnostics\<close>

abbreviation (input) u8s :: "u8 \<Rightarrow> string" where "u8s v \<equiv> fmt_u (unat v)"
abbreviation (input) u16s :: "u16 \<Rightarrow> string" where "u16s v \<equiv> fmt_u (unat v)"
abbreviation (input) u32s :: "u32 \<Rightarrow> string" where "u32s v \<equiv> fmt_u (unat v)"
abbreviation (input) i32s :: "i32 \<Rightarrow> string" where "i32s v \<equiv> fmt_d (sint v)"
abbreviation (input) i16s :: "i16 \<Rightarrow> string" where "i16s v \<equiv> fmt_d (sint v)"
abbreviation (input) bits :: "bool \<Rightarrow> string" where "bits b \<equiv> (if b then ''1'' else ''0'')"

definition emit_mode_status_changes ::
  "u32 \<Rightarrow> nav_mode \<Rightarrow> nav_solution_status \<Rightarrow> nav_system \<Rightarrow> nav_system" where
  "emit_mode_status_changes now_ms old_mode old_status sys =
     (let new_mode = sn_nav_mode (sy_snapshot sys);
          new_status = sn_solution_status (sy_snapshot sys);
          sys = (if nav_mode_code old_mode \<noteq> nav_mode_code new_mode
            then emit_log now_ms NAV_LOG_INFO NAV_LOG_CAT_STATE ''mode_transition''
              (snprintf 128 [''from='', nav_mode_to_string old_mode, '' to='', nav_mode_to_string new_mode]) sys
            else sys)
      in if nav_solution_status_code old_status \<noteq> nav_solution_status_code new_status
         then emit_log now_ms NAV_LOG_INFO NAV_LOG_CAT_SOLUTION ''solution_status_transition''
           (snprintf 128 [''from='', nav_solution_status_to_string old_status,
             '' to='', nav_solution_status_to_string new_status]) sys
         else sys)"

text \<open>A write through the pointer that a lookup returned; nothing when it returned \<^verbatim>\<open>NULL\<close>.\<close>

definition modify_peer :: "u8 \<Rightarrow> (nav_peer_state \<Rightarrow> nav_peer_state) \<Rightarrow> nav_peer_table \<Rightarrow> nav_peer_table" where
  "modify_peer node_id f table = (case nav_peer_table_get table node_id of
     None \<Rightarrow> table | Some p \<Rightarrow> set_slot table node_id (f p))"

definition update_peer_diagnostics_from_selection ::
  "nav_anchor_selection \<Rightarrow> nav_system \<Rightarrow> nav_system" where
  "update_peer_diagnostics_from_selection selection sys =
     (let t0 = sy_peer_table sys;
          t1 = fold (\<lambda>node_id. modify_peer node_id (\<lambda>p. p\<lparr>ps_anchor_quality := Fin 0,
                 ps_last_reject_reason := NAV_REJECT_NONE\<rparr>)) [0, 1, 2, 3] t0;
          t2 = fold (\<lambda>i. let a = sel_anchors selection ! i in modify_peer (an_node_id a)
                 (\<lambda>p. p\<lparr>ps_anchor_quality := an_quality a, ps_last_reject_reason := NAV_REJECT_NONE\<rparr>))
                 [0..<sel_count selection] t1;
          t3 = fold (\<lambda>i. modify_peer (sel_rejected_node_ids selection ! i)
                 (\<lambda>p. p\<lparr>ps_anchor_quality := Fin 0,
                   ps_last_reject_reason := sel_rejected_reasons selection ! i\<rparr>))
                 [0..<sel_rejected_count selection] t2
      in sys\<lparr>sy_peer_table := t3\<rparr>)"

definition log_anchor_selection :: "u32 \<Rightarrow> nav_anchor_selection \<Rightarrow> nav_system \<Rightarrow> nav_system" where
  "log_anchor_selection now_ms selection sys =
     fold (\<lambda>i. emit_log now_ms NAV_LOG_WARN NAV_LOG_CAT_QUALITY ''anchor_rejected''
         (snprintf 160 [''peer='', u8s (sel_rejected_node_ids selection ! i), '' reason='',
           nav_reject_reason_to_string (sel_rejected_reasons selection ! i)]))
       [0..<sel_rejected_count selection]
     (fold (\<lambda>i. let a = sel_anchors selection ! i in
         emit_log now_ms NAV_LOG_DEBUG NAV_LOG_CAT_QUALITY ''anchor_accepted''
         (snprintf 160 [''peer='', u8s (an_node_id a), '' quality='', fmt_f 3 (an_quality a),
           '' range_mm='', u32s (an_range_mm a), '' range_sigma_mm='', u32s (an_range_sigma_mm a)]))
       [0..<sel_count selection] sys)"

definition set_rejected_snapshot :: "u32 \<Rightarrow> nav_reject_reason \<Rightarrow> nav_mode \<Rightarrow> nav_system \<Rightarrow> nav_system" where
  "set_rejected_snapshot now_ms reason mode sys = sys\<lparr>sy_snapshot := (sy_snapshot sys)
     \<lparr>sn_time_ms := now_ms, sn_node_id := cfg_local_node_id (sy_config sys), sn_nav_mode := mode,
      sn_solution_status := NAV_SOLUTION_REJECTED, sn_solution_source := NAV_SOURCE_NONE,
      sn_reject_reason := reason, sn_position := nav_position_zero, sn_hacc_mm := 0,
      sn_vacc_mm := 0\<rparr>\<rparr>"

definition reuse_previous_radio_snapshot ::
  "nav_snapshot \<Rightarrow> u32 \<Rightarrow> nav_radio_solve_outcome \<Rightarrow> u32 \<Rightarrow> nav_system \<Rightarrow> nav_system" where
  "reuse_previous_radio_snapshot previous now_ms outcome elapsed_ms sys =
     populate_radio_solve_diagnostics now_ms outcome elapsed_ms
       (populate_local_gnss_evidence now_ms
         (sys\<lparr>sy_snapshot := previous\<lparr>sn_time_ms := now_ms,
            sn_node_id := cfg_local_node_id (sy_config sys)\<rparr>\<rparr>))"

section \<open>The radio solution\<close>

text \<open>
  \<^verbatim>\<open>(int32_t)llround(x)\<close> and \<^verbatim>\<open>(uint32_t)llround(x)\<close>: the 64-bit result is reduced modulo
  \<open>2 ^ 32\<close>; the result of \<^verbatim>\<open>llround\<close> is unspecified (\<open>None\<close>) when it does not fit 64 bits.
\<close>

definition llround_32 :: "fp \<Rightarrow> 32 word option" where
  "llround_32 x = map_option word_of_int (fp_llround x)"

definition trilat_anchor_of :: "nav_config \<Rightarrow> nav_anchor \<Rightarrow> nav_trilat_anchor" where
  "trilat_anchor_of cfg a =
     \<lparr>ta_lat_deg = ddiv (fp_of_int binary64 (sint (an_lat_e7 a))) (Fin 10000000),
      ta_lon_deg = ddiv (fp_of_int binary64 (sint (an_lon_e7 a))) (Fin 10000000),
      ta_alt_m = (if cfg_ignore_altitude_for_radio_solve cfg then Fin 0
        else ddiv (fp_of_int binary64 (sint (an_alt_mm a))) (Fin 1000)),
      ta_distance_m = ddiv (fp_of_int binary64 (uint (an_range_mm a))) (Fin 1000),
      ta_node_id = an_node_id a\<rparr>"

definition average_quality :: "nav_anchor list \<Rightarrow> fp" where
  "average_quality anchors = foldl (\<lambda>acc a. fp_add binary32 acc (fp_div binary32 (an_quality a) (Fin 3)))
     (Fin 0) (take NAV_TRILAT_ANCHOR_COUNT anchors)"

text \<open>The part of \<^verbatim>\<open>attempt_radio_solution\<close> behind each early return.\<close>

definition reject_radio :: "u32 \<Rightarrow> nav_reject_reason \<Rightarrow> nav_anchor_selection \<Rightarrow> nav_system \<Rightarrow> nav_system" where
  "reject_radio now_ms reason selection sys =
     (let sys = set_rejected_snapshot now_ms reason NAV_MODE_NO_NAV_SOLUTION sys
      in sys\<lparr>sy_snapshot := copy_selection_to_snapshot selection (sy_snapshot sys)\<rparr>)"

definition finish_rejection :: "u32 \<Rightarrow> nav_log_level \<Rightarrow> string \<Rightarrow> nav_system \<Rightarrow> nav_system" where
  "finish_rejection now_ms level message sys =
     emit_log now_ms level NAV_LOG_CAT_SOLUTION ''solve_rejected'' message
       (populate_radio_solve_diagnostics now_ms NAV_RADIO_SOLVE_REJECTED 0
         (populate_local_gnss_evidence now_ms sys))"

definition store_residual :: "nav_anchor_selection \<Rightarrow> nav_trilat_result \<Rightarrow> nat \<Rightarrow> nav_system \<Rightarrow> nav_system option" where
  "store_residual selection result i sys = do {
     mm \<leftarrow> llround_32 (dmul (tr_residuals_m result ! i) (Fin 1000));
     Some (sys\<lparr>sy_snapshot := (sy_snapshot sys)
         \<lparr>sn_anchor_residuals_mm := (sn_anchor_residuals_mm (sy_snapshot sys))[i := mm]\<rparr>,
       sy_peer_table := modify_peer (an_node_id (sel_anchors selection ! i))
         (\<lambda>p. p\<lparr>ps_last_residual_m := fp_cvt binary32 (tr_residuals_m result ! i)\<rparr>) (sy_peer_table sys)\<rparr>) }"

definition publish_solution ::
  "u32 \<Rightarrow> nav_anchor_selection \<Rightarrow> nav_local_altitude \<Rightarrow> fp \<Rightarrow> fp \<Rightarrow> nav_trilat_result \<Rightarrow> nav_system \<Rightarrow> nav_system option" where
  "publish_solution now_ms selection altitude average geometry_score result sys = do {
     lat \<leftarrow> llround_32 (dmul (tr_lat_deg result) (Fin 10000000));
     lon \<leftarrow> llround_32 (dmul (tr_lon_deg result) (Fin 10000000));
     let sys = sys\<lparr>sy_snapshot := (sy_snapshot sys)
       \<lparr>sn_position := \<lparr>lat_e7 = lat, lon_e7 = lon, alt_mm = la_alt_mm altitude\<rparr>,
        sn_residual_rms_m := fp_cvt binary32 (tr_rms_error_m result),
        sn_max_residual_m := fp_cvt binary32 (tr_max_abs_error_m result)\<rparr>\<rparr>;
     sys \<leftarrow> store_residual selection result 0 sys;
     sys \<leftarrow> store_residual selection result 1 sys;
     sys \<leftarrow> store_residual selection result 2 sys;
     hacc \<leftarrow> llround_32 (dmul (fp_abs (tr_max_abs_error_m result)) (Fin 1000));
     Some (sys\<lparr>sy_snapshot := (sy_snapshot sys)
       \<lparr>sn_hacc_mm := hacc, sn_vacc_mm := 0,
        sn_total_quality := fp_mul binary32 average geometry_score,
        sn_reject_reason := NAV_REJECT_NONE\<rparr>\<rparr>) }"

definition classify_solution ::
  "u32 \<Rightarrow> nav_anchor_selection \<Rightarrow> fp \<Rightarrow> nav_trilat_result \<Rightarrow> nav_system \<Rightarrow> nav_system" where
  "classify_solution now_ms selection geometry_score result sys =
     (let sn = sy_snapshot sys; cfg = sy_config sys in
      if fp_lt (cfg_max_residual_rms_m cfg) (sn_residual_rms_m sn)
         \<or> fp_lt (cfg_max_residual_m cfg) (sn_max_residual_m sn)
      then
        (let sys = populate_radio_solve_diagnostics now_ms NAV_RADIO_SOLVE_REJECTED 0
               (sys\<lparr>sy_snapshot := sn\<lparr>sn_nav_mode := NAV_MODE_NO_NAV_SOLUTION,
                  sn_solution_status := NAV_SOLUTION_REJECTED, sn_solution_source := NAV_SOURCE_NONE,
                  sn_reject_reason := NAV_REJECT_RANGE_OUTLIER\<rparr>\<rparr>)
         in emit_log now_ms NAV_LOG_WARN NAV_LOG_CAT_SOLUTION ''solve_rejected''
              (snprintf 192 [''reason=RANGE_OUTLIER residual_rms_m='', fmt_f 6 (sn_residual_rms_m sn),
                '' max_residual_m='', fmt_f 6 (sn_max_residual_m sn)]) sys)
      else
        (let degraded = (fp_lt (sn_total_quality sn) (cfg_min_solution_quality cfg)
               \<or> fp_lt geometry_score (Fin 1));
             sys = populate_radio_solve_diagnostics now_ms NAV_RADIO_SOLVE_SOLVED 0
               (sys\<lparr>sy_snapshot := sn
                 \<lparr>sn_nav_mode := (if degraded then NAV_MODE_RADIO_NAV_DEGRADED else NAV_MODE_RADIO_NAV_OK),
                  sn_solution_status := (if degraded then NAV_SOLUTION_DEGRADED else NAV_SOLUTION_RADIO_3D),
                  sn_solution_source := NAV_SOURCE_RADIO_3D\<rparr>\<rparr>);
             sys = emit_log now_ms NAV_LOG_INFO NAV_LOG_CAT_SOLUTION ''solve_succeeded''
               (snprintf 192 [''lat_e7='', i32s (lat_e7 (sn_position sn)),
                 '' lon_e7='', i32s (lon_e7 (sn_position sn)), '' alt_mm='', i32s (alt_mm (sn_position sn)),
                 '' residual_rms_m='', fmt_f 6 (sn_residual_rms_m sn),
                 '' max_residual_m='', fmt_f 6 (sn_max_residual_m sn),
                 '' quality='', fmt_f 3 (sn_total_quality sn),
                 '' geometry_score='', fmt_f 3 (sn_geometry_score sn),
                 '' iterations='', fmt_u (tr_iterations result)]) sys
         in fold (\<lambda>i. emit_log now_ms NAV_LOG_DEBUG NAV_LOG_CAT_SOLUTION ''residual''
               (snprintf 192 [''peer='', u8s (an_node_id (sel_anchors selection ! i)),
                 '' residual_mm='', i32s (sn_anchor_residuals_mm sn ! i),
                 '' expected_range_m='', fmt_f 6 (tr_expected_distances_m result ! i)]))
             [0, 1, 2] sys))"

definition set_altitude_source :: "nav_local_altitude \<Rightarrow> nav_system \<Rightarrow> nav_system" where
  "set_altitude_source altitude sys = sys\<lparr>sy_snapshot := (sy_snapshot sys)
     \<lparr>sn_local_altitude_valid := True, sn_altitude_source := la_source altitude\<rparr>\<rparr>"

definition set_geometry :: "fp \<Rightarrow> fp \<Rightarrow> nav_system \<Rightarrow> nav_system" where
  "set_geometry area_m2 geometry_score sys = sys\<lparr>sy_snapshot := (sy_snapshot sys)
     \<lparr>sn_anchor_triangle_area_m2 := area_m2, sn_geometry_score := geometry_score\<rparr>\<rparr>"

definition log_solve_attempt ::
  "u32 \<Rightarrow> nav_anchor_selection \<Rightarrow> nav_local_altitude \<Rightarrow> nav_system \<Rightarrow> nav_system" where
  "log_solve_attempt now_ms selection altitude sys =
     emit_log now_ms NAV_LOG_INFO NAV_LOG_CAT_SOLUTION ''solve_attempt''
       (snprintf 192 [''anchors='', u8s (an_node_id (sel_anchors selection ! 0)), '','',
         u8s (an_node_id (sel_anchors selection ! 1)), '','',
         u8s (an_node_id (sel_anchors selection ! 2)), '' target_alt_mm='', i32s (la_alt_mm altitude),
         '' generation='', u32s (sy_radio_solve_generation sys),
         '' interval_ms='', u32s (cfg_radio_solve_interval_ms (sy_config sys))]) sys"

definition run_solver ::
  "libm \<Rightarrow> u32 \<Rightarrow> nav_anchor_selection \<Rightarrow> nav_local_altitude \<Rightarrow> fp \<Rightarrow> nav_system \<Rightarrow> nav_system option" where
  "run_solver lm now_ms selection altitude geometry_score sys =
     (let cfg = sy_config sys;
          anchors = map (trilat_anchor_of cfg) (take NAV_TRILAT_ANCHOR_COUNT (sel_anchors selection));
          target = (if cfg_ignore_altitude_for_radio_solve cfg then Fin 0
            else ddiv (fp_of_int binary64 (sint (la_alt_mm altitude))) (Fin 1000));
          average = average_quality (sel_anchors selection);
          sys = log_solve_attempt now_ms selection altitude sys
      in case nav_trilat_solve_3_anchor_altitude lm (Some anchors) target nav_trilat_result_zero of
           (status, result) \<Rightarrow>
             (let sys = sys\<lparr>sy_last_radio_solve_generation := sy_radio_solve_generation sys\<rparr> in
              if status \<noteq> NAV_TRILAT_OK then
                Some (finish_rejection now_ms NAV_LOG_ERROR
                  (snprintf 192 [''reason=TRILATERATION_FAILED status='', nav_trilat_status_to_string status])
                  (set_altitude_source altitude
                    (reject_radio now_ms NAV_REJECT_TRILATERATION_FAILED selection sys)))
              else do {
                sys \<leftarrow> publish_solution now_ms selection altitude average geometry_score result sys;
                Some (classify_solution now_ms selection geometry_score result sys) }))"

definition solve_selected ::
  "libm \<Rightarrow> u32 \<Rightarrow> nav_snapshot \<Rightarrow> nav_anchor_selection \<Rightarrow> nav_system \<Rightarrow> nav_system option" where
  "solve_selected lm now_ms previous selection sys =
     (case resolve_local_altitude sys now_ms of
        None \<Rightarrow> Some (finish_rejection now_ms NAV_LOG_WARN ''reason=MISSING_LOCAL_ALTITUDE''
          (reject_radio now_ms NAV_REJECT_MISSING_LOCAL_ALTITUDE selection sys))
      | Some altitude \<Rightarrow>
         (let area_m2 = compute_anchor_triangle_area_m2 lm (sel_anchors selection);
              geometry_score = geometry_score_from_area area_m2 (sy_config sys);
              sys = set_geometry area_m2 geometry_score (set_altitude_source altitude sys) in
          if fp_lt area_m2 (cfg_min_anchor_triangle_area_m2 (sy_config sys))
          then Some (finish_rejection now_ms NAV_LOG_WARN
            (snprintf 192 [''reason=BAD_GEOMETRY triangle_area_m2='', fmt_f 3 area_m2])
            (set_geometry area_m2 geometry_score (reject_radio now_ms NAV_REJECT_BAD_GEOMETRY selection sys)))
          else if sy_radio_solve_generation sys = sy_last_radio_solve_generation sys
          then Some (emit_log now_ms NAV_LOG_DEBUG NAV_LOG_CAT_SOLUTION ''solve_skipped''
            (snprintf 192 [''reason=UNCHANGED_INPUTS generation='', u32s (sy_radio_solve_generation sys)])
            (reuse_previous_radio_snapshot previous now_ms NAV_RADIO_SOLVE_SKIPPED_UNCHANGED_INPUTS 0 sys))
          else run_solver lm now_ms selection altitude geometry_score sys))"

definition cadence_holds :: "u32 \<Rightarrow> nav_system \<Rightarrow> bool" where
  "cadence_holds now_ms sys \<longleftrightarrow> sy_radio_solve_ran sys \<and>
     cfg_radio_solve_interval_ms (sy_config sys) > 0 \<and>
     now_ms - sy_last_radio_solve_ms sys < cfg_radio_solve_interval_ms (sy_config sys)"

definition begin_solve :: "u32 \<Rightarrow> nav_anchor_selection \<Rightarrow> nav_system \<Rightarrow> nav_system" where
  "begin_solve now_ms selection sys =
     (let sys = update_peer_diagnostics_from_selection selection sys;
          sys = sys\<lparr>sy_snapshot := copy_selection_to_snapshot selection (sy_snapshot sys)\<rparr>;
          sys = log_anchor_selection now_ms selection sys
      in sys\<lparr>sy_last_radio_solve_ms := now_ms, sy_radio_solve_ran := True\<rparr>)"

definition attempt_radio_solution ::
  "libm \<Rightarrow> u32 \<Rightarrow> nav_snapshot \<Rightarrow> nav_system \<Rightarrow> nav_system option" where
  "attempt_radio_solution lm now_ms previous sys =
     (if cadence_holds now_ms sys then
        (let elapsed_ms = now_ms - sy_last_radio_solve_ms sys in
         Some (emit_log now_ms NAV_LOG_DEBUG NAV_LOG_CAT_SOLUTION ''solve_skipped''
           (snprintf 192 [''reason=CADENCE elapsed_ms='', u32s elapsed_ms, '' interval_ms='',
             u32s (cfg_radio_solve_interval_ms (sy_config sys))])
           (reuse_previous_radio_snapshot previous now_ms NAV_RADIO_SOLVE_SKIPPED_CADENCE elapsed_ms sys)))
      else
        (case nav_select_radio_anchors sys now_ms of (select_status, selection) \<Rightarrow>
          (let sys = begin_solve now_ms selection sys in
           if select_status \<noteq> NAV_STATUS_OK then
             Some (finish_rejection now_ms NAV_LOG_WARN
               (snprintf 192 [''reason='', nav_reject_reason_to_string (sel_reject_reason selection),
                 '' anchors='', fmt_u (sel_count selection)])
               (set_rejected_snapshot now_ms (sel_reject_reason selection) NAV_MODE_NO_NAV_SOLUTION sys))
           else solve_selected lm now_ms previous selection sys)))"

section \<open>The public operations\<close>

definition local_usable :: "nav_system \<Rightarrow> bool" where
  "local_usable sys \<longleftrightarrow> nav_gnss_sample_is_usable (Some (sy_local_gnss sys)) \<and>
     \<not> cfg_demo_force_gps_denied (sy_config sys)"

definition use_gnss :: "u32 \<Rightarrow> nav_system \<Rightarrow> nav_system" where
  "use_gnss now_ms sys = populate_radio_solve_diagnostics now_ms NAV_RADIO_SOLVE_GNSS_DIRECT 0
     (sys\<lparr>sy_snapshot := (sy_snapshot sys)
       \<lparr>sn_nav_mode := NAV_MODE_GNSS_OK, sn_solution_status := NAV_SOLUTION_GNSS_DIRECT,
        sn_solution_source := NAV_SOURCE_LOCAL_GNSS, sn_position := gs_position (sy_local_gnss sys),
        sn_hacc_mm := gs_hacc_mm (sy_local_gnss sys), sn_vacc_mm := gs_vacc_mm (sy_local_gnss sys),
        sn_total_quality := Fin 1, sn_reject_reason := NAV_REJECT_NONE,
        sn_local_altitude_valid := True, sn_altitude_source := NAV_ALT_SOURCE_GNSS,
        sn_local_gnss_used := True\<rparr>\<rparr>)"

definition update_snapshot :: "libm \<Rightarrow> u32 \<Rightarrow> bool \<Rightarrow> nav_system \<Rightarrow> nav_system option" where
  "update_snapshot lm now_ms allow_radio_solve sys =
     (let old_mode = sn_nav_mode (sy_snapshot sys);
          old_status = sn_solution_status (sy_snapshot sys);
          usable = local_usable sys;
          previous = sy_snapshot sys;
          sys = sys\<lparr>sy_snapshot := (snapshot_clear_diagnostics (sy_snapshot sys))
            \<lparr>sn_time_ms := now_ms, sn_node_id := cfg_local_node_id (sy_config sys)\<rparr>\<rparr>;
          sys = populate_local_gnss_evidence now_ms sys
      in do {
        sys \<leftarrow> (if usable then Some (use_gnss now_ms sys)
          else if allow_radio_solve then attempt_radio_solution lm now_ms previous sys
          else Some (reuse_previous_radio_snapshot previous now_ms (sy_last_radio_solve_outcome sys)
            (sy_last_radio_solve_elapsed_ms sys) sys));
        let sys = sys\<lparr>sy_mode := sn_nav_mode (sy_snapshot sys)\<rparr>;
        Some (emit_mode_status_changes now_ms old_mode old_status sys) })"

definition nav_core_init :: "nav_config option \<Rightarrow> nav_system" where
  "nav_core_init config =
     (let cfg = (case config of None \<Rightarrow> nav_config_default 0 | Some c \<Rightarrow> c) in
      \<lparr>sy_config = cfg, sy_peer_table = nav_peer_table_init,
       sy_logger = \<lparr>lg_callback = False, lg_min_level = NAV_LOG_TRACE\<rparr>,
       sy_local_gnss = nav_gnss_sample_zero, sy_local_altitude = nav_local_altitude_zero,
       sy_local_gnss_present = False, sy_local_altitude_present = False, sy_mode = NAV_MODE_BOOT,
       sy_snapshot = snapshot_clear_diagnostics (nav_snapshot_zero
         \<lparr>sn_node_id := cfg_local_node_id cfg, sn_nav_mode := NAV_MODE_BOOT,
          sn_solution_status := NAV_SOLUTION_NONE, sn_solution_source := NAV_SOURCE_NONE,
          sn_reject_reason := NAV_REJECT_NONE\<rparr>),
       sy_last_tick_ms = 0, sy_last_radio_solve_ms = 0, sy_radio_solve_generation = 0,
       sy_last_radio_solve_generation = 0, sy_radio_solve_ran = False,
       sy_last_radio_solve_outcome = NAV_RADIO_SOLVE_NONE, sy_last_radio_solve_elapsed_ms = 0,
       sy_trace = []\<rparr>)"

definition nav_core_set_logger :: "nav_logger option \<Rightarrow> nav_system \<Rightarrow> nav_system" where
  "nav_core_set_logger logger sys = (case logger of None \<Rightarrow> sys
   | Some l \<Rightarrow> emit_log 0 NAV_LOG_INFO NAV_LOG_CAT_BOOT ''core_init'' ''nav core initialized''
       (sys\<lparr>sy_logger := l\<rparr>))"

definition log_stale_peer :: "u32 \<Rightarrow> u8 \<Rightarrow> nav_system \<Rightarrow> nav_system" where
  "log_stale_peer now_ms node_id sys =
     (case nav_peer_table_get_const (sy_peer_table sys) node_id of
        None \<Rightarrow> sys
      | Some peer \<Rightarrow>
          if ps_last_reject_reason peer = NAV_REJECT_STALE_TELEMETRY
             \<or> ps_last_reject_reason peer = NAV_REJECT_STALE_RANGE
          then emit_log now_ms NAV_LOG_WARN NAV_LOG_CAT_PEER_TABLE ''peer_marked_stale''
            (snprintf 144 [''peer='', u8s node_id, '' reason='',
              nav_reject_reason_to_string (ps_last_reject_reason peer), '' telemetry_age_ms='',
              u32s (now_ms - ps_last_telemetry_timestamp_ms peer), '' range_age_ms='',
              u32s (now_ms - ps_last_range_timestamp_ms peer)]) sys
          else sys)"

definition nav_core_tick :: "libm \<Rightarrow> u32 \<Rightarrow> nav_system \<Rightarrow> nav_system option" where
  "nav_core_tick lm now_ms sys =
     (let sys = sys\<lparr>sy_last_tick_ms := now_ms,
            sy_peer_table := nav_peer_table_mark_stale (sy_peer_table sys) now_ms
              (cfg_telemetry_ttl_ms (sy_config sys)) (cfg_range_ttl_ms (sy_config sys))\<rparr>;
          sys = fold (log_stale_peer now_ms) [0, 1, 2, 3] sys;
          sys = emit_log now_ms NAV_LOG_TRACE NAV_LOG_CAT_STATE ''tick'' ''timer tick'' sys
      in update_snapshot lm now_ms True sys)"

definition handle_gnss :: "u32 \<Rightarrow> nav_gnss_sample \<Rightarrow> nav_system \<Rightarrow> nav_system" where
  "handle_gnss now_ms g sys =
     (let sys = sys\<lparr>sy_local_gnss := g, sy_local_gnss_present := True\<rparr>;
          sys = (if local_gnss_can_affect_radio_solution sys then mark_radio_solve_inputs_changed sys else sys)
      in emit_log now_ms NAV_LOG_INFO NAV_LOG_CAT_GNSS ''local_gnss_sample''
        (snprintf 160 [''valid='', bits (gs_valid g), '' fix_type='', fmt_d (nav_gnss_fix_type_code (gs_fix_type g)),
          '' lat_e7='', i32s (lat_e7 (gs_position g)), '' lon_e7='', i32s (lon_e7 (gs_position g)),
          '' alt_mm='', i32s (alt_mm (gs_position g)),
          '' forced_denied='', bits (cfg_demo_force_gps_denied (sy_config sys))]) sys)"

definition handle_altitude :: "u32 \<Rightarrow> nav_local_altitude \<Rightarrow> nav_system \<Rightarrow> nav_system" where
  "handle_altitude now_ms a sys =
     (let old = sy_local_altitude sys;
          altitude_changed = (\<not> sy_local_altitude_present sys \<or> la_alt_mm old \<noteq> la_alt_mm a
            \<or> la_source old \<noteq> la_source a \<or> la_valid old \<noteq> la_valid a);
          sys = sys\<lparr>sy_local_altitude := a, sy_local_altitude_present := True\<rparr>;
          sys = (if altitude_changed \<and> \<not> cfg_ignore_altitude_for_radio_solve (sy_config sys)
            then mark_radio_solve_inputs_changed sys else sys)
      in emit_log now_ms (if la_valid a then NAV_LOG_INFO else NAV_LOG_WARN) NAV_LOG_CAT_GNSS
        (if la_valid a then ''local_altitude_accepted'' else ''local_altitude_rejected'')
        (snprintf 160 [''valid='', bits (la_valid a), '' source='',
          nav_altitude_source_to_string (la_source a), '' alt_mm='', i32s (la_alt_mm a)]) sys)"

definition handle_telemetry :: "u32 \<Rightarrow> nav_peer_beacon_rx \<Rightarrow> nav_system \<Rightarrow> nav_system" where
  "handle_telemetry now_ms b sys =
     (case nav_peer_table_update_beacon_rx (sy_peer_table sys) (Some b) now_ms of (ok, table) \<Rightarrow>
       (let sys = sys\<lparr>sy_peer_table := table\<rparr>; t = br_telemetry b in
        if ok then emit_log now_ms NAV_LOG_INFO NAV_LOG_CAT_PEER_TABLE ''telemetry_update''
          (snprintf 160 [''peer='', u8s (pt_node_id t), '' packet_seq='', u32s (pt_packet_seq t),
            '' lat_e7='', i32s (lat_e7 (pt_position t)), '' lon_e7='', i32s (lon_e7 (pt_position t)),
            '' alt_mm='', i32s (alt_mm (pt_position t)), '' gnss_valid='', bits (pt_gnss_valid t),
            '' rssi_dbm='', i16s (br_rssi_dbm b), '' snr_db='', i16s (br_snr_db b)])
          (mark_radio_solve_inputs_changed sys)
        else sys))"

definition handle_range :: "u32 \<Rightarrow> nav_range_result \<Rightarrow> nav_system \<Rightarrow> nav_system" where
  "handle_range now_ms r sys =
     (case nav_peer_table_update_range (sy_peer_table sys) (Some r) now_ms of (ok, table) \<Rightarrow>
       (let sys = sys\<lparr>sy_peer_table := table\<rparr> in
        if ok then emit_log now_ms NAV_LOG_INFO NAV_LOG_CAT_RANGE ''range_update''
          (snprintf 160 [''peer='', u8s (rr_peer_id r), '' request_id='', u16s (rr_request_id r),
            '' range_mm='', u32s (rr_range_mm r), '' range_sigma_mm='', u32s (rr_range_sigma_mm r),
            '' valid='', bits (rr_valid r), '' rssi_dbm='', i16s (rr_rssi_dbm r),
            '' snr_db='', i16s (rr_snr_db r)])
          (mark_radio_solve_inputs_changed sys)
        else sys))"

definition failed_range :: "nav_range_failure \<Rightarrow> nav_range_result" where
  "failed_range f = \<lparr>rr_peer_id = rf_peer_id f, rr_request_id = rf_request_id f,
     rr_timestamp_ms = rf_timestamp_ms f, rr_range_mm = 0, rr_range_sigma_mm = 0, rr_rssi_dbm = 0,
     rr_snr_db = 0, rr_valid = False\<rparr>"

definition handle_range_fail :: "u32 \<Rightarrow> nav_range_failure \<Rightarrow> nav_system \<Rightarrow> nav_system" where
  "handle_range_fail now_ms f sys =
     (let sys = (if \<not> cfg_retain_last_range_on_failure (sy_config sys)
            then mark_radio_solve_inputs_changed (sys\<lparr>sy_peer_table :=
              snd (nav_peer_table_update_range (sy_peer_table sys) (Some (failed_range f)) now_ms)\<rparr>)
            else sys)
      in emit_log now_ms NAV_LOG_WARN NAV_LOG_CAT_RANGE ''range_fail''
        (snprintf 160 [''peer='', u8s (rf_peer_id f), '' request_id='', u16s (rf_request_id f),
          '' range_fail_reason='', nav_range_fail_reason_to_string (rf_reason f)]) sys)"

definition handle_config :: "u32 \<Rightarrow> nav_config_command_type \<Rightarrow> bool \<Rightarrow> nav_system \<Rightarrow> nav_system" where
  "handle_config now_ms command enabled sys =
     (let sys = (case command of
            NAV_CONFIG_CMD_FORCE_GPS_DENIED \<Rightarrow>
              sys\<lparr>sy_config := (sy_config sys)\<lparr>cfg_demo_force_gps_denied := enabled\<rparr>\<rparr>
          | NAV_CONFIG_CMD_USE_GNSS \<Rightarrow>
              sys\<lparr>sy_config := (sy_config sys)\<lparr>cfg_demo_force_gps_denied := False\<rparr>\<rparr>
          | NAV_CONFIG_CMD_NONE \<Rightarrow> sys);
          sys = mark_radio_solve_inputs_changed sys
      in emit_log now_ms NAV_LOG_INFO NAV_LOG_CAT_CONFIG ''config_command''
        (snprintf 160 [''forced_denied='', bits (cfg_demo_force_gps_denied (sy_config sys))]) sys)"

definition nav_core_handle_event :: "libm \<Rightarrow> nav_event option \<Rightarrow> nav_system \<Rightarrow> nav_system option" where
  "nav_core_handle_event lm event sys = (case event of
     None \<Rightarrow> Some sys
   | Some e \<Rightarrow>
      (let now_ms = ev_timestamp_ms e in
       case ev_data e of
         NAV_EVT_TICK \<Rightarrow> nav_core_tick lm now_ms sys
       | NAV_EVT_LOCAL_GNSS_SAMPLE g \<Rightarrow> update_snapshot lm now_ms False (handle_gnss now_ms g sys)
       | NAV_EVT_LOCAL_ALTITUDE_SAMPLE a \<Rightarrow> update_snapshot lm now_ms False (handle_altitude now_ms a sys)
       | NAV_EVT_PEER_TELEMETRY_RX b \<Rightarrow> update_snapshot lm now_ms False (handle_telemetry now_ms b sys)
       | NAV_EVT_RANGE_RESULT r \<Rightarrow> update_snapshot lm now_ms False (handle_range now_ms r sys)
       | NAV_EVT_RANGE_FAIL f \<Rightarrow> update_snapshot lm now_ms False (handle_range_fail now_ms f sys)
       | NAV_EVT_CONFIG_COMMAND c enabled \<Rightarrow>
           update_snapshot lm now_ms False (handle_config now_ms c enabled sys)
       | NAV_EVT_NONE \<Rightarrow> Some sys))"

definition nav_core_get_snapshot :: "nav_system \<Rightarrow> bool \<times> nav_snapshot" where
  "nav_core_get_snapshot sys = (True, sy_snapshot sys)"

end
