(* ===== verification/Nav_Core_Selection.thy ===== *)
theory Nav_Core_Selection
  imports Nav_Core
begin

text \<open>
  Lemmas about \<^verbatim>\<open>nav_select_radio_anchors\<close>: what is selected, what is rejected and why. The verdict
  on a node is the reason the selection loop computes for it; the list views \<open>selected\<close> and
  \<open>rejected\<close> are the used prefixes of the arrays of the selection.
\<close>

section \<open>Verdict and candidate of a node\<close>

definition node_quality :: "nav_system \<Rightarrow> u32 \<Rightarrow> u8 \<Rightarrow> nav_anchor_quality" where
  "node_quality sys now i = nav_quality_score_anchor (nav_peer_table_get_const (sy_peer_table sys) i) now
     (cfg_telemetry_ttl_ms (sy_config sys)) (cfg_range_ttl_ms (sy_config sys))
     (cfg_max_range_sigma_mm (sy_config sys))"

definition node_verdict :: "nav_system \<Rightarrow> u32 \<Rightarrow> u8 \<Rightarrow> nav_reject_reason" where
  "node_verdict sys now i =
     (let r = q_reject_reason (node_quality sys now i) in
      case nav_peer_table_get_const (sy_peer_table sys) i of
        None \<Rightarrow> r
      | Some p \<Rightarrow>
          if r \<noteq> NAV_REJECT_NONE then r
          else if \<not> ps_range_position_valid p \<or> \<not> peer_position_valid (ps_range_position p)
          then NAV_REJECT_BAD_POSITION
          else if fp_lt (total_quality (node_quality sys now i)) (cfg_min_anchor_quality (sy_config sys))
          then NAV_REJECT_STALE_TELEMETRY else NAV_REJECT_NONE)"

definition anchor_for :: "nav_system \<Rightarrow> u32 \<Rightarrow> u8 \<Rightarrow> nav_anchor" where
  "anchor_for sys now i = (let p = the (nav_peer_table_get_const (sy_peer_table sys) i) in
     \<lparr>an_node_id = i, an_lat_e7 = lat_e7 (ps_range_position p), an_lon_e7 = lon_e7 (ps_range_position p),
      an_alt_mm = alt_mm (ps_range_position p), an_range_mm = ps_range_mm p,
      an_range_sigma_mm = ps_range_sigma_mm p, an_quality = total_quality (node_quality sys now i),
      an_reject_reason = NAV_REJECT_NONE\<rparr>)"

lemma anchor_for_id [simp]: "an_node_id (anchor_for sys now i) = i"
  by (simp add: anchor_for_def Let_def)

lemma anchor_for_unit: "fp_unit (an_quality (anchor_for sys now i))"
  by (simp add: anchor_for_def Let_def node_quality_def score_anchor_total anchor_score_unit)

lemma select_node_eq:
  "select_node sys now i out = (if i = cfg_local_node_id (sy_config sys) then out
     else if node_verdict sys now i \<noteq> NAV_REJECT_NONE
     then selection_add_rejection i (node_verdict sys now i) out
     else selection_add_candidate (anchor_for sys now i) out)"
proof (cases "nav_peer_table_get_const (sy_peer_table sys) i")
  case None
  then show ?thesis
    by (simp add: select_node_def node_verdict_def node_quality_def Let_def score_anchor_None)
next
  case (Some p)
  then show ?thesis
    by (simp add: select_node_def node_verdict_def node_quality_def anchor_for_def Let_def)
qed

section \<open>Views of a selection\<close>

definition selected :: "nav_anchor_selection \<Rightarrow> nav_anchor list" where
  "selected s = take (sel_count s) (sel_anchors s)"

definition rejected :: "nav_anchor_selection \<Rightarrow> (u8 \<times> nav_reject_reason) list" where
  "rejected s = zip (take (sel_rejected_count s) (sel_rejected_node_ids s))
     (take (sel_rejected_count s) (sel_rejected_reasons s))"

definition selection_wf :: "nav_anchor_selection \<Rightarrow> bool" where
  "selection_wf s \<longleftrightarrow> length (sel_anchors s) = 3 \<and> length (sel_rejected_node_ids s) = 4 \<and>
     length (sel_rejected_reasons s) = 4 \<and> sel_count s \<le> 3 \<and> sel_rejected_count s \<le> 4"

lemma selection_wf_init: "selection_wf selection_init"
  by (simp add: selection_wf_def selection_init_def)

lemma add_rejection_view:
  assumes "selection_wf s" "sel_rejected_count s < 4"
  shows "selection_wf (selection_add_rejection i r s)"
    and "selected (selection_add_rejection i r s) = selected s"
    and "rejected (selection_add_rejection i r s) = rejected s @ [(i, r)]"
    and "sel_count (selection_add_rejection i r s) = sel_count s"
    and "sel_rejected_count (selection_add_rejection i r s) = Suc (sel_rejected_count s)"
    and "sel_anchors (selection_add_rejection i r s) = sel_anchors s"
  using assms by (simp_all add: selection_add_rejection_def selection_wf_def selected_def rejected_def
      take_Suc_update)

lemma worst_anchor_eq:
  "worst_anchor as = (let w = (if fp_lt (an_quality (as ! 1)) (an_quality (as ! 0)) then 1 else 0)
     in if fp_lt (an_quality (as ! 2)) (an_quality (as ! w)) then 2 else w)"
proof -
  have "[Suc 0..<3] = [1, 2]" by (simp add: upt_conv_Cons)
  then show ?thesis by (simp add: worst_anchor_def Let_def)
qed

lemma worst_anchor_min:
  assumes "length as = 3" "\<forall>a \<in> set as. an_quality a \<noteq> NaN"
  shows "worst_anchor as < 3" and "\<forall>a \<in> set as. fp_le (an_quality (as ! worst_anchor as)) (an_quality a)"
proof -
  obtain x y z where as: "as = [x, y, z]" using assms(1) by (auto simp: numeral_3_eq_3 length_Suc_conv)
  show "worst_anchor as < 3" by (simp add: worst_anchor_eq Let_def)
  show "\<forall>a \<in> set as. fp_le (an_quality (as ! worst_anchor as)) (an_quality a)"
    using assms(2) unfolding as worst_anchor_eq Let_def
    by (cases "an_quality x"; cases "an_quality y"; cases "an_quality z") auto
qed

lemma add_candidate_room:
  assumes "selection_wf s" "sel_count s < 3"
  shows "selection_wf (selection_add_candidate a s)"
    and "selected (selection_add_candidate a s) = selected s @ [a]"
    and "rejected (selection_add_candidate a s) = rejected s"
    and "sel_count (selection_add_candidate a s) = Suc (sel_count s)"
    and "sel_rejected_count (selection_add_candidate a s) = sel_rejected_count s"
  using assms by (simp_all add: selection_add_candidate_def selection_wf_def selected_def rejected_def
      take_Suc_update)

lemma add_candidate_full:
  fixes a :: nav_anchor and s :: nav_anchor_selection
  assumes wf: "selection_wf s" "sel_count s = 3" "sel_rejected_count s < 4"
    and q: "\<forall>b \<in> set (selected s). an_quality b \<noteq> NaN"
  defines "s' \<equiv> selection_add_candidate a s"
  shows "selection_wf s' \<and> sel_count s' = 3 \<and> sel_rejected_count s' = Suc (sel_rejected_count s) \<and>
    (\<exists>w < 3. (\<forall>b \<in> set (selected s). fp_le (an_quality (selected s ! w)) (an_quality b)) \<and>
      (if fp_lt (an_quality (selected s ! w)) (an_quality a)
       then selected s' = (selected s)[w := a] \<and>
         rejected s' = rejected s @ [(an_node_id (selected s ! w), NAV_REJECT_NONE)]
       else selected s' = selected s \<and> rejected s' = rejected s @ [(an_node_id a, NAV_REJECT_NONE)]))"
proof -
  have full: "selected s = sel_anchors s" using wf by (simp add: selected_def selection_wf_def)
  define w where "w = worst_anchor (sel_anchors s)"
  have len: "length (sel_anchors s) = 3" using wf by (simp add: selection_wf_def)
  have w: "w < 3" "\<forall>b \<in> set (selected s). fp_le (an_quality (selected s ! w)) (an_quality b)"
    using worst_anchor_min [OF len] q full by (simp_all add: w_def)
  show ?thesis
  proof (cases "fp_lt (an_quality (selected s ! w)) (an_quality a)")
    case True
    note r = add_rejection_view [OF wf(1,3), of "an_node_id (sel_anchors s ! w)" NAV_REJECT_NONE]
    have s': "s' = (selection_add_rejection (an_node_id (sel_anchors s ! w)) NAV_REJECT_NONE s)
        \<lparr>sel_anchors := (sel_anchors s)[w := a]\<rparr>"
      using True wf full r(6) by (simp add: s'_def selection_add_candidate_def Let_def w_def)
    have "selection_wf s'" "sel_count s' = 3" "sel_rejected_count s' = Suc (sel_rejected_count s)"
      "selected s' = (selected s)[w := a]"
      "rejected s' = rejected s @ [(an_node_id (selected s ! w), NAV_REJECT_NONE)]"
      using r wf(2) len by (simp_all add: s' selection_wf_def selected_def rejected_def)
    with True w show ?thesis by auto
  next
    case False
    then have "s' = selection_add_rejection (an_node_id a) NAV_REJECT_NONE s"
      using wf full by (simp add: s'_def selection_add_candidate_def Let_def w_def)
    with add_rejection_view [OF wf(1,3)] False w wf(2) show ?thesis by auto
  qed
qed

section \<open>The selection loop\<close>

text \<open>The invariant of the loop after the nodes \<open>done\<close>.\<close>

definition usable_nodes :: "nav_system \<Rightarrow> u32 \<Rightarrow> u8 list \<Rightarrow> u8 list" where
  "usable_nodes sys now ids = filter (\<lambda>i. i \<noteq> cfg_local_node_id (sy_config sys) \<and>
     node_verdict sys now i = NAV_REJECT_NONE) ids"

definition justified :: "nav_system \<Rightarrow> u32 \<Rightarrow> nav_anchor_selection \<Rightarrow> u8 \<times> nav_reject_reason \<Rightarrow> bool" where
  "justified sys now s = (\<lambda>(i, r). if r = NAV_REJECT_NONE
     then node_verdict sys now i = NAV_REJECT_NONE \<and> sel_count s = 3 \<and>
       (\<forall>a \<in> set (selected s). fp_le (an_quality (anchor_for sys now i)) (an_quality a))
     else r = node_verdict sys now i)"

definition selection_inv :: "nav_system \<Rightarrow> u32 \<Rightarrow> u8 list \<Rightarrow> nav_anchor_selection \<Rightarrow> bool" where
  "selection_inv sys now ids s \<longleftrightarrow> selection_wf s \<and>
     sel_count s = min 3 (length (usable_nodes sys now ids)) \<and>
     sel_count s + sel_rejected_count s = length (filter (\<lambda>i. i \<noteq> cfg_local_node_id (sy_config sys)) ids) \<and>
     distinct (map an_node_id (selected s)) \<and>
     (\<forall>a \<in> set (selected s). an_node_id a \<in> set (usable_nodes sys now ids) \<and>
        a = anchor_for sys now (an_node_id a)) \<and>
     (\<forall>x \<in> set (rejected s). justified sys now s x) \<and>
     an_node_id ` set (selected s) \<union> fst ` set (rejected s) = set ids - {cfg_local_node_id (sy_config sys)}"

lemma selection_inv_init: "selection_inv sys now [] selection_init"
  by (simp add: selection_inv_def selection_wf_init usable_nodes_def) (simp add: selected_def rejected_def
      selection_init_def)

lemma fp_le_antisym_lt: "fp_le a b \<Longrightarrow> fp_lt b c \<Longrightarrow> fp_le a c"
  by (cases a; cases b; cases c) auto

lemma selection_inv_count: "selection_inv sys now ids s \<Longrightarrow> sel_count s + sel_rejected_count s \<le> length ids"
  unfolding selection_inv_def by (metis length_filter_le)

lemma selection_inv_reject:
  assumes inv: "selection_inv sys now ids s" and len: "length ids < 4"
    and i: "i \<noteq> cfg_local_node_id (sy_config sys)" "node_verdict sys now i \<noteq> NAV_REJECT_NONE"
  shows "selection_inv sys now (ids @ [i]) (selection_add_rejection i (node_verdict sys now i) s)"
proof -
  have wf: "selection_wf s" using inv by (simp add: selection_inv_def)
  have lt: "sel_rejected_count s < 4" using selection_inv_count [OF inv] len by simp
  note v = add_rejection_view [OF wf lt, of i "node_verdict sys now i"]
  show ?thesis using inv i v
    by (auto simp: selection_inv_def usable_nodes_def justified_def)
qed

lemma selection_inv_candidate:
  assumes inv: "selection_inv sys now ids s" and len: "length ids < 4" and new: "i \<notin> set ids"
    and i: "i \<noteq> cfg_local_node_id (sy_config sys)" "node_verdict sys now i = NAV_REJECT_NONE"
  shows "selection_inv sys now (ids @ [i]) (selection_add_candidate (anchor_for sys now i) s)"
proof (cases "sel_count s < 3")
  case True
  have wf: "selection_wf s" using inv by (simp add: selection_inv_def)
  have u: "i \<notin> set (usable_nodes sys now ids)" using new by (simp add: usable_nodes_def)
  have none: "\<forall>x \<in> set (rejected s). snd x \<noteq> NAV_REJECT_NONE"
    using inv True by (auto simp: selection_inv_def justified_def split: if_splits)
  show ?thesis using inv i u True none
    by (auto simp: selection_inv_def add_candidate_room [OF wf True] usable_nodes_def justified_def
        split: if_splits)
next
  case False
  then have full: "sel_count s = 3" using inv by (simp add: selection_inv_def)
  have wf: "selection_wf s" using inv by (simp add: selection_inv_def)
  have lt: "sel_rejected_count s < 4" using selection_inv_count [OF inv] len by simp
  have sel: "\<forall>b \<in> set (selected s). an_node_id b \<in> set (usable_nodes sys now ids) \<and>
      b = anchor_for sys now (an_node_id b)"
    using inv by (simp add: selection_inv_def)
  have q: "\<forall>b \<in> set (selected s). an_quality b \<noteq> NaN"
    using sel anchor_for_unit [of sys now] by (metis fp_le_simps(4) fp_unit_def)
  let ?a = "anchor_for sys now i" and ?s = "selection_add_candidate (anchor_for sys now i) s"
  obtain w where w: "w < 3" "\<forall>b \<in> set (selected s). fp_le (an_quality (selected s ! w)) (an_quality b)"
    "if fp_lt (an_quality (selected s ! w)) (an_quality ?a)
     then selected ?s = (selected s)[w := ?a] \<and>
       rejected ?s = rejected s @ [(an_node_id (selected s ! w), NAV_REJECT_NONE)]
     else selected ?s = selected s \<and> rejected ?s = rejected s @ [(an_node_id ?a, NAV_REJECT_NONE)]"
    and s': "selection_wf ?s" "sel_count ?s = 3" "sel_rejected_count ?s = Suc (sel_rejected_count s)"
    using add_candidate_full [OF wf full lt q, of ?a] by auto
  have l3: "length (selected s) = 3" using wf full by (simp add: selected_def selection_wf_def)
  have win: "selected s ! w \<in> set (selected s)" using w(1) l3 by simp
  have qa: "an_quality ?a \<noteq> NaN" using anchor_for_unit [of sys now i] by (auto simp: fp_unit_iff)
  show ?thesis
  proof (cases "fp_lt (an_quality (selected s ! w)) (an_quality ?a)")
    case lt: True
    then have v: "selected ?s = (selected s)[w := ?a]"
      "rejected ?s = rejected s @ [(an_node_id (selected s ! w), NAV_REJECT_NONE)]" using w(3) by simp_all
    have dm: "distinct (map an_node_id (selected s))" using inv by (simp add: selection_inv_def)
    have iu: "i \<notin> an_node_id ` set (selected s)" using sel new by (auto simp: usable_nodes_def)
    have sets: "set (selected ?s) = insert ?a (set (selected s) - {selected s ! w})"
      using dm w(1) l3 by (simp add: v set_update_distinct distinct_map)
    have ids: "an_node_id ` set (selected ?s) \<union> fst ` set (rejected ?s)
        = insert i (an_node_id ` set (selected s) \<union> fst ` set (rejected s))"
      using win by (auto simp: sets v(2))
    have d: "distinct (map an_node_id (selected ?s))"
      using dm iu by (simp add: v(1) map_update distinct_list_update)
    have le: "fp_le (an_quality (selected s ! w)) (an_quality b)" if "b \<in> set (selected ?s)" for b
      using that w(2) lt by (auto simp: sets fp_le_def)
    have keep: "justified sys now ?s x" if "x \<in> set (rejected s)" for x
    proof -
      have "justified sys now s x" using that inv by (simp add: selection_inv_def)
      moreover have "fp_le (an_quality (anchor_for sys now (fst x))) (an_quality ?a)"
        if "fp_le (an_quality (anchor_for sys now (fst x))) (an_quality (selected s ! w))"
        using that lt by (rule fp_le_antisym_lt)
      ultimately show ?thesis using win s'(2) by (auto simp: justified_def sets split: prod.splits if_splits)
    qed
    have wnode: "node_verdict sys now (an_node_id (selected s ! w)) = NAV_REJECT_NONE"
      "anchor_for sys now (an_node_id (selected s ! w)) = selected s ! w"
      using sel win by (auto simp: usable_nodes_def)
    have "justified sys now ?s (an_node_id (selected s ! w), NAV_REJECT_NONE)"
      using le s'(2) wnode by (simp add: justified_def)
    then have just: "\<forall>x \<in> set (rejected ?s). justified sys now ?s x"
      using keep by (auto simp: v(2))
    have selq: "\<forall>b \<in> set (selected ?s). an_node_id b \<in> set (usable_nodes sys now (ids @ [i])) \<and>
        b = anchor_for sys now (an_node_id b)"
      using sel i by (auto simp: sets usable_nodes_def)
    have u: "usable_nodes sys now (ids @ [i]) = usable_nodes sys now ids @ [i]"
      "min 3 (length (usable_nodes sys now ids)) = 3"
      using i inv full by (simp_all add: usable_nodes_def selection_inv_def)
    have c: "sel_count ?s = min 3 (length (usable_nodes sys now (ids @ [i])))"
      using u s'(2) by (simp add: min_def split: if_splits)
    have n: "sel_count ?s + sel_rejected_count ?s
        = length (filter (\<lambda>i. i \<noteq> cfg_local_node_id (sy_config sys)) (ids @ [i]))"
      using i inv full s'(2,3) by (simp add: selection_inv_def)
    have "an_node_id ` set (selected ?s) \<union> fst ` set (rejected ?s)
        = set (ids @ [i]) - {cfg_local_node_id (sy_config sys)}"
      using i inv unfolding ids by (auto simp: selection_inv_def)
    with s'(1) c n d selq just show ?thesis unfolding selection_inv_def by blast
  next
    case False
    then have v: "selected ?s = selected s" "rejected ?s = rejected s @ [(i, NAV_REJECT_NONE)]"
      using w(3) by simp_all
    have le: "fp_le (an_quality ?a) (an_quality b)" if "b \<in> set (selected s)" for b
      using that False w(2) q win qa by (metis fp_le_trans fp_not_lt_iff)
    show ?thesis using inv i s' v le full
      by (auto simp: selection_inv_def usable_nodes_def justified_def split: if_splits)
  qed
qed

lemma selection_inv_fold:
  "selection_inv sys now ids s \<Longrightarrow> distinct (ids @ rest) \<Longrightarrow> length (ids @ rest) \<le> 4 \<Longrightarrow>
   selection_inv sys now (ids @ rest) (fold (select_node sys now) rest s)"
proof (induction rest arbitrary: ids s)
  case (Cons i rest)
  have "selection_inv sys now (ids @ [i]) (select_node sys now i s)"
  proof (cases "i = cfg_local_node_id (sy_config sys)")
    case True
    then show ?thesis using Cons.prems(1) by (auto simp: select_node_eq selection_inv_def usable_nodes_def)
  next
    case False
    then show ?thesis
      using Cons.prems selection_inv_reject [OF Cons.prems(1)] selection_inv_candidate [OF Cons.prems(1)]
      by (simp add: select_node_eq)
  qed
  then show ?case using Cons.IH [of "ids @ [i]"] Cons.prems by simp
qed simp

lemma select_anchors_inv:
  "selection_inv sys now [0, 1, 2, 3] (fold (select_node sys now) [0, 1, 2, 3] selection_init)"
  using selection_inv_fold [OF selection_inv_init, of "[0, 1, 2, 3]" sys now] by simp

text \<open>C9: Anchor selection: it succeeds exactly when at least three other nodes have usable
  evidence; the selected anchors are then three different usable nodes, never the local one, each
  with the coordinate, range and score of its evidence; every other node is listed as rejected, with
  the first failing reason, or with no reason when it is usable and scores no better than any
  selected anchor.\<close>

theorem select_anchors_spec:
  "\<exists>st s. nav_select_radio_anchors sys now = (st, s) \<and> selection_wf s \<and>
    (st = NAV_STATUS_OK \<longleftrightarrow> 3 \<le> length (usable_nodes sys now [0, 1, 2, 3])) \<and>
    length (selected s) = min 3 (length (usable_nodes sys now [0, 1, 2, 3])) \<and>
    distinct (map an_node_id (selected s)) \<and>
    (\<forall>a \<in> set (selected s). an_node_id a \<in> set (usable_nodes sys now [0, 1, 2, 3]) \<and>
      a = anchor_for sys now (an_node_id a)) \<and>
    an_node_id ` set (selected s) \<union> fst ` set (rejected s)
      = {0, 1, 2, 3} - {cfg_local_node_id (sy_config sys)} \<and>
    (\<forall>(i, r) \<in> set (rejected s). if r = NAV_REJECT_NONE
       then node_verdict sys now i = NAV_REJECT_NONE \<and>
         (\<forall>a \<in> set (selected s). fp_le (an_quality (anchor_for sys now i)) (an_quality a))
       else r = node_verdict sys now i)"
proof -
  define out where "out = fold (select_node sys now) [0, 1, 2, 3] selection_init"
  have inv: "selection_inv sys now [0, 1, 2, 3] out" using select_anchors_inv by (simp only: out_def)
  then have wf: "selection_wf out" by (simp only: selection_inv_def)
  have len: "length (selected out) = sel_count out"
    using wf by (auto simp: selected_def selection_wf_def)
  have just: "\<forall>(i, r) \<in> set (rejected out). if r = NAV_REJECT_NONE
       then node_verdict sys now i = NAV_REJECT_NONE \<and>
         (\<forall>a \<in> set (selected out). fp_le (an_quality (anchor_for sys now i)) (an_quality a))
       else r = node_verdict sys now i"
    using inv by (auto simp: selection_inv_def justified_def split: if_splits)
  have nodes: "an_node_id ` set (selected out) \<union> fst ` set (rejected out)
      = {0, 1, 2, 3} - {cfg_local_node_id (sy_config sys)}"
    using inv by (simp only: selection_inv_def list.set)
  have cnt: "sel_count out = min 3 (length (usable_nodes sys now [0, 1, 2, 3]))"
    and dist: "distinct (map an_node_id (selected out))"
    and sel: "\<forall>a \<in> set (selected out). an_node_id a \<in> set (usable_nodes sys now [0, 1, 2, 3]) \<and>
      a = anchor_for sys now (an_node_id a)"
    using inv unfolding selection_inv_def by blast+
  have upd: "selected (out\<lparr>sel_reject_reason := r\<rparr>) = selected out"
    "rejected (out\<lparr>sel_reject_reason := r\<rparr>) = rejected out"
    "selection_wf (out\<lparr>sel_reject_reason := r\<rparr>) = selection_wf out" for r
    by (simp_all add: selected_def rejected_def selection_wf_def)
  have "nav_select_radio_anchors sys now = (if sel_count out < 3
      then (NAV_STATUS_NOT_FOUND, out\<lparr>sel_reject_reason := NAV_REJECT_NOT_ENOUGH_ANCHORS\<rparr>)
      else (NAV_STATUS_OK, out))"
    by (simp only: nav_select_radio_anchors_def Let_def out_def)
  then obtain st s where s: "nav_select_radio_anchors sys now = (st, s)" "selection_wf s"
      "selected s = selected out" "rejected s = rejected out" "st = NAV_STATUS_OK \<longleftrightarrow> \<not> sel_count out < 3"
    using upd wf by (cases "sel_count out < 3") simp_all
  have st: "st = NAV_STATUS_OK \<longleftrightarrow> 3 \<le> length (usable_nodes sys now [0, 1, 2, 3])"
    "length (selected out) = min 3 (length (usable_nodes sys now [0, 1, 2, 3]))"
    using s(5) len cnt by auto
  show ?thesis
    by (rule exI [of _ st], rule exI [of _ s], unfold s(1,3,4))
      (intro conjI refl s(2) st dist sel nodes just)
qed

end
