(* ===== verification/Nav_Core_Policy.thy ===== *)
theory Nav_Core_Policy
  imports Nav_Core_Selection
begin

text \<open>
  Lemmas about the decisions of the core: which fields each helper leaves alone, the decision list
  that a tick implements, and the navigation result that goes with each decision.
\<close>

section \<open>What the helpers leave alone\<close>

lemma emit_log_sel [simp]:
  "sy_config (emit_log n l c e m s) = sy_config s" "sy_peer_table (emit_log n l c e m s) = sy_peer_table s"
  "sy_local_gnss (emit_log n l c e m s) = sy_local_gnss s"
  "sy_local_altitude (emit_log n l c e m s) = sy_local_altitude s"
  "sy_local_gnss_present (emit_log n l c e m s) = sy_local_gnss_present s"
  "sy_local_altitude_present (emit_log n l c e m s) = sy_local_altitude_present s"
  "sy_snapshot (emit_log n l c e m s) = sy_snapshot s" "sy_mode (emit_log n l c e m s) = sy_mode s"
  "sy_last_radio_solve_ms (emit_log n l c e m s) = sy_last_radio_solve_ms s"
  "sy_radio_solve_generation (emit_log n l c e m s) = sy_radio_solve_generation s"
  "sy_last_radio_solve_generation (emit_log n l c e m s) = sy_last_radio_solve_generation s"
  "sy_radio_solve_ran (emit_log n l c e m s) = sy_radio_solve_ran s"
  "sy_last_radio_solve_outcome (emit_log n l c e m s) = sy_last_radio_solve_outcome s"
  "sy_last_radio_solve_elapsed_ms (emit_log n l c e m s) = sy_last_radio_solve_elapsed_ms s"
  by (simp_all add: emit_log_def)

text \<open>The state without the log: two states that agree on it differ only in the trace.\<close>

definition silent :: "nav_system \<Rightarrow> nav_system" where
  "silent s = s\<lparr>sy_trace := []\<rparr>"

lemma silent_emit [simp]: "silent (emit_log n l c e m s) = silent s"
  by (simp add: silent_def emit_log_def)

lemma silent_fold: "(\<And>i s. silent (f i s) = silent s) \<Longrightarrow> silent (fold f xs s) = silent s"
  by (induction xs arbitrary: s) simp_all

lemma silent_sel:
  assumes "silent s = silent t"
  shows "sy_config s = sy_config t" "sy_peer_table s = sy_peer_table t" "sy_local_gnss s = sy_local_gnss t"
    "sy_local_altitude s = sy_local_altitude t" "sy_local_gnss_present s = sy_local_gnss_present t"
    "sy_local_altitude_present s = sy_local_altitude_present t" "sy_snapshot s = sy_snapshot t"
    "sy_mode s = sy_mode t" "sy_last_radio_solve_ms s = sy_last_radio_solve_ms t"
    "sy_radio_solve_generation s = sy_radio_solve_generation t"
    "sy_last_radio_solve_generation s = sy_last_radio_solve_generation t"
    "sy_radio_solve_ran s = sy_radio_solve_ran t"
    "sy_last_radio_solve_outcome s = sy_last_radio_solve_outcome t"
    "sy_last_radio_solve_elapsed_ms s = sy_last_radio_solve_elapsed_ms t"
  using assms by (cases s; cases t; simp add: silent_def)+

lemma silent_log_selection: "silent (log_anchor_selection n sel s) = silent s"
  unfolding log_anchor_selection_def by (simp add: silent_fold Let_def)

lemma silent_log_stale: "silent (log_stale_peer n i s) = silent s"
  by (simp add: log_stale_peer_def split: option.split)

lemma silent_mode_changes: "silent (emit_mode_status_changes n m st s) = silent s"
  by (simp add: emit_mode_status_changes_def Let_def)

lemmas log_selection_sel [simp] = silent_sel [OF silent_log_selection]
lemmas mode_changes_sel [simp] = silent_sel [OF silent_mode_changes]
lemmas log_stale_sel [simp] = silent_sel [OF silent_fold [OF silent_log_stale]]

lemma evidence_sel [simp]:
  "sy_config (populate_local_gnss_evidence n s) = sy_config s"
  "sy_peer_table (populate_local_gnss_evidence n s) = sy_peer_table s"
  "sy_local_gnss (populate_local_gnss_evidence n s) = sy_local_gnss s"
  "sy_local_altitude (populate_local_gnss_evidence n s) = sy_local_altitude s"
  "sy_local_gnss_present (populate_local_gnss_evidence n s) = sy_local_gnss_present s"
  "sy_local_altitude_present (populate_local_gnss_evidence n s) = sy_local_altitude_present s"
  "sy_mode (populate_local_gnss_evidence n s) = sy_mode s"
  "sy_last_radio_solve_ms (populate_local_gnss_evidence n s) = sy_last_radio_solve_ms s"
  "sy_radio_solve_generation (populate_local_gnss_evidence n s) = sy_radio_solve_generation s"
  "sy_last_radio_solve_generation (populate_local_gnss_evidence n s) = sy_last_radio_solve_generation s"
  "sy_radio_solve_ran (populate_local_gnss_evidence n s) = sy_radio_solve_ran s"
  "sy_last_radio_solve_outcome (populate_local_gnss_evidence n s) = sy_last_radio_solve_outcome s"
  "sy_last_radio_solve_elapsed_ms (populate_local_gnss_evidence n s) = sy_last_radio_solve_elapsed_ms s"
  by (simp_all add: populate_local_gnss_evidence_def Let_def)

text \<open>The navigation result of a snapshot: everything but times, GNSS evidence and diagnostics.\<close>

type_synonym nav_view = "nav_mode \<times> nav_solution_status \<times> nav_solution_source \<times> nav_reject_reason \<times>
  nav_position \<times> u32 \<times> u32 \<times> u8 \<times> u8 list \<times> i32 list \<times> fp \<times> fp \<times> fp \<times> fp \<times> fp"

definition nav_view :: "nav_snapshot \<Rightarrow> nav_view" where
  "nav_view sn = (sn_nav_mode sn, sn_solution_status sn, sn_solution_source sn, sn_reject_reason sn,
     sn_position sn, sn_hacc_mm sn, sn_vacc_mm sn, sn_num_anchors sn, sn_selected_anchor_node_ids sn,
     sn_anchor_residuals_mm sn, sn_residual_rms_m sn, sn_max_residual_m sn, sn_geometry_score sn,
     sn_anchor_triangle_area_m2 sn, sn_total_quality sn)"

lemma nav_view_eqD:
  "nav_view a = nav_view b \<Longrightarrow> sn_nav_mode a = sn_nav_mode b \<and> sn_solution_status a = sn_solution_status b \<and>
     sn_solution_source a = sn_solution_source b \<and> sn_reject_reason a = sn_reject_reason b \<and>
     sn_position a = sn_position b"
  by (simp add: nav_view_def)

lemma evidence_view [simp]:
  "nav_view (sy_snapshot (populate_local_gnss_evidence n s)) = nav_view (sy_snapshot s)"
  by (simp add: populate_local_gnss_evidence_def Let_def nav_view_def)

lemma diagnostics_sel [simp]:
  "sy_config (populate_radio_solve_diagnostics n out el s) = sy_config s"
  "sy_peer_table (populate_radio_solve_diagnostics n out el s) = sy_peer_table s"
  "sy_local_gnss (populate_radio_solve_diagnostics n out el s) = sy_local_gnss s"
  "sy_local_gnss_present (populate_radio_solve_diagnostics n out el s) = sy_local_gnss_present s"
  "sy_last_radio_solve_ms (populate_radio_solve_diagnostics n out el s) = sy_last_radio_solve_ms s"
  "sy_radio_solve_generation (populate_radio_solve_diagnostics n out el s) = sy_radio_solve_generation s"
  "sy_last_radio_solve_generation (populate_radio_solve_diagnostics n out el s) = sy_last_radio_solve_generation s"
  "sy_radio_solve_ran (populate_radio_solve_diagnostics n out el s) = sy_radio_solve_ran s"
  "sy_last_radio_solve_outcome (populate_radio_solve_diagnostics n out el s) = out"
  "sn_radio_solve_outcome (sy_snapshot (populate_radio_solve_diagnostics n out el s)) = out"
  "nav_view (sy_snapshot (populate_radio_solve_diagnostics n out el s)) = nav_view (sy_snapshot s)"
  by (simp_all add: populate_radio_solve_diagnostics_def nav_view_def)

lemma reuse_previous_view:
  "nav_view (sy_snapshot (reuse_previous_radio_snapshot previous n out el s)) = nav_view previous"
  "sn_radio_solve_outcome (sy_snapshot (reuse_previous_radio_snapshot previous n out el s)) = out"
  by (simp_all add: reuse_previous_radio_snapshot_def) (simp add: nav_view_def)

lemma set_altitude_source_sel [simp]:
  "sy_config (set_altitude_source a s) = sy_config s"
  "sy_radio_solve_generation (set_altitude_source a s) = sy_radio_solve_generation s"
  "sy_last_radio_solve_generation (set_altitude_source a s) = sy_last_radio_solve_generation s"
  "nav_view (sy_snapshot (set_altitude_source a s)) = nav_view (sy_snapshot s)"
  by (simp_all add: set_altitude_source_def nav_view_def)

lemma set_geometry_sel [simp]:
  "sy_config (set_geometry x y s) = sy_config s"
  "sy_radio_solve_generation (set_geometry x y s) = sy_radio_solve_generation s"
  "sy_last_radio_solve_generation (set_geometry x y s) = sy_last_radio_solve_generation s"
  "sn_geometry_score (sy_snapshot (set_geometry x y s)) = y"
  by (simp_all add: set_geometry_def)

lemma log_solve_attempt_sel [simp]:
  "sy_config (log_solve_attempt n sel a s) = sy_config s"
  "sy_snapshot (log_solve_attempt n sel a s) = sy_snapshot s"
  "sy_radio_solve_generation (log_solve_attempt n sel a s) = sy_radio_solve_generation s"
  by (simp_all add: log_solve_attempt_def)

section \<open>The decision of a radio solve\<close>

definition solver_call :: "libm \<Rightarrow> nav_system \<Rightarrow> nav_anchor_selection \<Rightarrow> nav_local_altitude \<Rightarrow>
    nav_trilat_status \<times> nav_trilat_result" where
  "solver_call lm sys sel altitude = nav_trilat_solve_3_anchor_altitude lm
     (Some (map (trilat_anchor_of (sy_config sys)) (take 3 (sel_anchors sel))))
     (if cfg_ignore_altitude_for_radio_solve (sy_config sys) then Fin 0
      else ddiv (fp_of_int binary64 (sint (la_alt_mm altitude))) (Fin 1000)) nav_trilat_result_zero"

definition residuals_too_large :: "nav_config \<Rightarrow> nav_trilat_result \<Rightarrow> bool" where
  "residuals_too_large cfg r \<longleftrightarrow> fp_lt (cfg_max_residual_rms_m cfg) (fp_cvt binary32 (tr_rms_error_m r))
     \<or> fp_lt (cfg_max_residual_m cfg) (fp_cvt binary32 (tr_max_abs_error_m r))"

text \<open>
  The abstract decision list: the outcome of a tick without usable GNSS, with the reason of a
  rejection, from the evidence alone.
\<close>

definition radio_decision :: "libm \<Rightarrow> u32 \<Rightarrow> nav_system \<Rightarrow> nav_radio_solve_outcome \<times> nav_reject_reason" where
  "radio_decision lm now sys =
     (let sel = snd (nav_select_radio_anchors sys now); cfg = sy_config sys in
      if cadence_holds now sys then (NAV_RADIO_SOLVE_SKIPPED_CADENCE, NAV_REJECT_NONE)
      else if length (usable_nodes sys now [0, 1, 2, 3]) < 3
      then (NAV_RADIO_SOLVE_REJECTED, NAV_REJECT_NOT_ENOUGH_ANCHORS)
      else case resolve_local_altitude sys now of
        None \<Rightarrow> (NAV_RADIO_SOLVE_REJECTED, NAV_REJECT_MISSING_LOCAL_ALTITUDE)
      | Some altitude \<Rightarrow>
          if fp_lt (compute_anchor_triangle_area_m2 lm (sel_anchors sel)) (cfg_min_anchor_triangle_area_m2 cfg)
          then (NAV_RADIO_SOLVE_REJECTED, NAV_REJECT_BAD_GEOMETRY)
          else if sy_radio_solve_generation sys = sy_last_radio_solve_generation sys
          then (NAV_RADIO_SOLVE_SKIPPED_UNCHANGED_INPUTS, NAV_REJECT_NONE)
          else case solver_call lm sys sel altitude of (status, r) \<Rightarrow>
            if status \<noteq> NAV_TRILAT_OK then (NAV_RADIO_SOLVE_REJECTED, NAV_REJECT_TRILATERATION_FAILED)
            else if residuals_too_large cfg r then (NAV_RADIO_SOLVE_REJECTED, NAV_REJECT_RANGE_OUTLIER)
            else (NAV_RADIO_SOLVE_SOLVED, NAV_REJECT_NONE))"

text \<open>What the snapshot says after each outcome.\<close>

definition rejected_view :: "nav_reject_reason \<Rightarrow> nav_snapshot \<Rightarrow> bool" where
  "rejected_view reason sn \<longleftrightarrow> sn_nav_mode sn = NAV_MODE_NO_NAV_SOLUTION \<and>
     sn_solution_status sn = NAV_SOLUTION_REJECTED \<and> sn_solution_source sn = NAV_SOURCE_NONE \<and>
     sn_reject_reason sn = reason"

definition solved_view :: "nav_config \<Rightarrow> nav_snapshot \<Rightarrow> bool" where
  "solved_view cfg sn \<longleftrightarrow> sn_solution_source sn = NAV_SOURCE_RADIO_3D \<and> sn_reject_reason sn = NAV_REJECT_NONE \<and>
     \<not> fp_lt (cfg_max_residual_rms_m cfg) (sn_residual_rms_m sn) \<and>
     \<not> fp_lt (cfg_max_residual_m cfg) (sn_max_residual_m sn) \<and>
     (if fp_lt (sn_total_quality sn) (cfg_min_solution_quality cfg) \<or> fp_lt (sn_geometry_score sn) (Fin 1)
      then sn_nav_mode sn = NAV_MODE_RADIO_NAV_DEGRADED \<and> sn_solution_status sn = NAV_SOLUTION_DEGRADED
      else sn_nav_mode sn = NAV_MODE_RADIO_NAV_OK \<and> sn_solution_status sn = NAV_SOLUTION_RADIO_3D)"

lemma rejected_view_cong: "nav_view a = nav_view b \<Longrightarrow> rejected_view r a = rejected_view r b"
  by (simp add: rejected_view_def nav_view_def)

lemma solved_view_cong: "nav_view a = nav_view b \<Longrightarrow> solved_view c a = solved_view c b"
  by (simp add: solved_view_def nav_view_def)

lemma rejected_view_adds [simp]:
  "rejected_view r (sy_snapshot (set_altitude_source a s)) = rejected_view r (sy_snapshot s)"
  "rejected_view r (sy_snapshot (set_geometry x y s)) = rejected_view r (sy_snapshot s)"
  by (simp_all add: rejected_view_def set_altitude_source_def set_geometry_def)

definition outcome_holds :: "nav_config \<Rightarrow> nav_snapshot \<Rightarrow> nav_radio_solve_outcome \<times> nav_reject_reason \<Rightarrow>
    nav_snapshot \<Rightarrow> bool" where
  "outcome_holds cfg previous d sn \<longleftrightarrow> sn_radio_solve_outcome sn = fst d \<and>
     (case fst d of
        NAV_RADIO_SOLVE_REJECTED \<Rightarrow> rejected_view (snd d) sn
      | NAV_RADIO_SOLVE_SOLVED \<Rightarrow> solved_view cfg sn
      | _ \<Rightarrow> nav_view sn = nav_view previous)"

lemma finish_rejection_view [simp]:
  "nav_view (sy_snapshot (finish_rejection n l m s)) = nav_view (sy_snapshot s)"
  "sn_radio_solve_outcome (sy_snapshot (finish_rejection n l m s)) = NAV_RADIO_SOLVE_REJECTED"
  by (simp_all add: finish_rejection_def)

lemma finish_rejection_holds:
  "rejected_view r (sy_snapshot s) \<Longrightarrow>
   outcome_holds cfg previous (NAV_RADIO_SOLVE_REJECTED, r) (sy_snapshot (finish_rejection n l m s))"
  using rejected_view_cong [OF finish_rejection_view(1)] by (simp add: outcome_holds_def)

lemma set_rejected_view: "rejected_view r (sy_snapshot (set_rejected_snapshot n r NAV_MODE_NO_NAV_SOLUTION s))"
  by (simp add: rejected_view_def set_rejected_snapshot_def)

lemma reject_radio_view: "rejected_view r (sy_snapshot (reject_radio n r sel s))"
  by (simp add: rejected_view_def reject_radio_def set_rejected_snapshot_def copy_selection_to_snapshot_def Let_def)

lemma reuse_holds:
  "out \<in> {NAV_RADIO_SOLVE_SKIPPED_CADENCE, NAV_RADIO_SOLVE_SKIPPED_UNCHANGED_INPUTS} \<Longrightarrow>
   outcome_holds cfg previous (out, r) (sy_snapshot (reuse_previous_radio_snapshot previous n out el s))"
  by (auto simp: outcome_holds_def reuse_previous_view)

lemma begin_solve_sel [simp]:
  "sy_config (begin_solve n sel s) = sy_config s" "sy_local_gnss (begin_solve n sel s) = sy_local_gnss s"
  "sy_local_altitude (begin_solve n sel s) = sy_local_altitude s"
  "sy_local_gnss_present (begin_solve n sel s) = sy_local_gnss_present s"
  "sy_local_altitude_present (begin_solve n sel s) = sy_local_altitude_present s"
  "sy_radio_solve_generation (begin_solve n sel s) = sy_radio_solve_generation s"
  "sy_last_radio_solve_generation (begin_solve n sel s) = sy_last_radio_solve_generation s"
  by (simp_all add: begin_solve_def Let_def update_peer_diagnostics_from_selection_def)

lemma store_residual_keeps:
  "store_residual sel r i s = Some s' \<Longrightarrow> sy_config s' = sy_config s \<and>
     sn_residual_rms_m (sy_snapshot s') = sn_residual_rms_m (sy_snapshot s) \<and>
     sn_max_residual_m (sy_snapshot s') = sn_max_residual_m (sy_snapshot s) \<and>
     sn_geometry_score (sy_snapshot s') = sn_geometry_score (sy_snapshot s) \<and>
     sn_position (sy_snapshot s') = sn_position (sy_snapshot s)"
  by (auto simp: store_residual_def bind_eq_Some_conv)

lemma publish_solution_keeps:
  assumes "publish_solution n sel alt avg geo r s = Some s'"
  shows "sy_config s' = sy_config s \<and> sn_reject_reason (sy_snapshot s') = NAV_REJECT_NONE \<and>
     sn_residual_rms_m (sy_snapshot s') = fp_cvt binary32 (tr_rms_error_m r) \<and>
     sn_max_residual_m (sy_snapshot s') = fp_cvt binary32 (tr_max_abs_error_m r) \<and>
     sn_total_quality (sy_snapshot s') = fp_mul binary32 avg geo \<and>
     sn_geometry_score (sy_snapshot s') = sn_geometry_score (sy_snapshot s) \<and>
     alt_mm (sn_position (sy_snapshot s')) = la_alt_mm alt"
  using assms by (auto simp: publish_solution_def bind_eq_Some_conv Let_def dest!: store_residual_keeps)

lemma classify_solution_holds:
  assumes "sn_geometry_score (sy_snapshot s) = geo" "sn_reject_reason (sy_snapshot s) = NAV_REJECT_NONE"
  shows "outcome_holds (sy_config s) previous
    (if fp_lt (cfg_max_residual_rms_m (sy_config s)) (sn_residual_rms_m (sy_snapshot s))
        \<or> fp_lt (cfg_max_residual_m (sy_config s)) (sn_max_residual_m (sy_snapshot s))
     then (NAV_RADIO_SOLVE_REJECTED, NAV_REJECT_RANGE_OUTLIER) else (NAV_RADIO_SOLVE_SOLVED, NAV_REJECT_NONE))
    (sy_snapshot (classify_solution n sel geo r s))"
proof -
  have log: "sy_snapshot (fold (\<lambda>i. emit_log n l c e (f i)) is t) = sy_snapshot t" for l c e f "is" t
    by (induction "is" arbitrary: t) simp_all
  show ?thesis using assms
    by (auto simp: classify_solution_def Let_def outcome_holds_def log rejected_view_def solved_view_def
        populate_radio_solve_diagnostics_def simp del: fold.simps)
qed

lemma run_solver_holds:
  assumes "run_solver lm now sel alt geo s = Some s'" and "sn_geometry_score (sy_snapshot s) = geo"
  shows "outcome_holds (sy_config s) previous
    (case solver_call lm s sel alt of (status, r) \<Rightarrow>
       if status \<noteq> NAV_TRILAT_OK then (NAV_RADIO_SOLVE_REJECTED, NAV_REJECT_TRILATERATION_FAILED)
       else if residuals_too_large (sy_config s) r then (NAV_RADIO_SOLVE_REJECTED, NAV_REJECT_RANGE_OUTLIER)
       else (NAV_RADIO_SOLVE_SOLVED, NAV_REJECT_NONE)) (sy_snapshot s')"
proof -
  obtain status r where c: "solver_call lm s sel alt = (status, r)" by fastforce
  then have call: "nav_trilat_solve_3_anchor_altitude lm
     (Some (map (trilat_anchor_of (sy_config s)) (take 3 (sel_anchors sel))))
     (if cfg_ignore_altitude_for_radio_solve (sy_config s) then Fin 0
      else ddiv (fp_of_int binary64 (sint (la_alt_mm alt))) (Fin 1000)) nav_trilat_result_zero = (status, r)"
    by (simp add: solver_call_def)
  show ?thesis
  proof (cases "status = NAV_TRILAT_OK")
    case False
    show ?thesis using False assms(1) unfolding c
      by (auto simp: run_solver_def Let_def call reject_radio_view intro!: finish_rejection_holds)
  next
    case True
    let ?s1 = "(log_solve_attempt now sel alt s)\<lparr>sy_last_radio_solve_generation := sy_radio_solve_generation s\<rparr>"
    obtain s2 where s2: "publish_solution now sel alt (average_quality (sel_anchors sel)) geo r ?s1 = Some s2"
      "s' = classify_solution now sel geo r s2"
      using assms(1) True by (auto simp: run_solver_def Let_def call bind_eq_Some_conv)
    note p = publish_solution_keeps [OF s2(1)]
    have "sy_config s2 = sy_config s" "sn_geometry_score (sy_snapshot s2) = geo"
      using p assms(2) by simp_all
    then show ?thesis
      using classify_solution_holds [of s2 geo previous now sel r] p True
      by (simp add: c s2(2) residuals_too_large_def)
  qed
qed

lemma solve_selected_holds:
  assumes "solve_selected lm now previous sel s = Some s'"
  shows "outcome_holds (sy_config s) previous
    (case resolve_local_altitude s now of
        None \<Rightarrow> (NAV_RADIO_SOLVE_REJECTED, NAV_REJECT_MISSING_LOCAL_ALTITUDE)
      | Some altitude \<Rightarrow>
          if fp_lt (compute_anchor_triangle_area_m2 lm (sel_anchors sel)) (cfg_min_anchor_triangle_area_m2 (sy_config s))
          then (NAV_RADIO_SOLVE_REJECTED, NAV_REJECT_BAD_GEOMETRY)
          else if sy_radio_solve_generation s = sy_last_radio_solve_generation s
          then (NAV_RADIO_SOLVE_SKIPPED_UNCHANGED_INPUTS, NAV_REJECT_NONE)
          else case solver_call lm s sel altitude of (status, r) \<Rightarrow>
            if status \<noteq> NAV_TRILAT_OK then (NAV_RADIO_SOLVE_REJECTED, NAV_REJECT_TRILATERATION_FAILED)
            else if residuals_too_large (sy_config s) r then (NAV_RADIO_SOLVE_REJECTED, NAV_REJECT_RANGE_OUTLIER)
            else (NAV_RADIO_SOLVE_SOLVED, NAV_REJECT_NONE)) (sy_snapshot s')"
proof (cases "resolve_local_altitude s now")
  case None
  then show ?thesis using assms
    by (auto simp: solve_selected_def reject_radio_view intro!: finish_rejection_holds)
next
  case (Some alt)
  define area where "area = compute_anchor_triangle_area_m2 lm (sel_anchors sel)"
  define geo where "geo = geometry_score_from_area area (sy_config s)"
  define s1 where "s1 = set_geometry area geo (set_altitude_source alt s)"
  have s1: "sy_config s1 = sy_config s" "sn_geometry_score (sy_snapshot s1) = geo"
    "sy_radio_solve_generation s1 = sy_radio_solve_generation s"
    "sy_last_radio_solve_generation s1 = sy_last_radio_solve_generation s"
    by (simp_all add: s1_def)
  have call: "solver_call lm s1 sel alt = solver_call lm s sel alt" by (simp add: solver_call_def s1)
  have eq: "Some s' = (if fp_lt area (cfg_min_anchor_triangle_area_m2 (sy_config s))
      then Some (finish_rejection now NAV_LOG_WARN
        (snprintf 192 [''reason=BAD_GEOMETRY triangle_area_m2='', fmt_f 3 area])
        (set_geometry area geo (reject_radio now NAV_REJECT_BAD_GEOMETRY sel s1)))
      else if sy_radio_solve_generation s = sy_last_radio_solve_generation s
      then Some (emit_log now NAV_LOG_DEBUG NAV_LOG_CAT_SOLUTION ''solve_skipped''
        (snprintf 192 [''reason=UNCHANGED_INPUTS generation='', u32s (sy_radio_solve_generation s)])
        (reuse_previous_radio_snapshot previous now NAV_RADIO_SOLVE_SKIPPED_UNCHANGED_INPUTS 0 s1))
      else run_solver lm now sel alt geo s1)"
    using assms by (simp add: solve_selected_def Some Let_def area_def geo_def s1_def cong: if_cong)
  consider "fp_lt area (cfg_min_anchor_triangle_area_m2 (sy_config s))"
    | "\<not> fp_lt area (cfg_min_anchor_triangle_area_m2 (sy_config s))"
      "sy_radio_solve_generation s = sy_last_radio_solve_generation s"
    | "\<not> fp_lt area (cfg_min_anchor_triangle_area_m2 (sy_config s))"
      "sy_radio_solve_generation s \<noteq> sy_last_radio_solve_generation s" by blast
  then show ?thesis
  proof cases
    case 1
    then show ?thesis using eq
      by (simp add: Some area_def [symmetric] finish_rejection_holds reject_radio_view)
  next
    case 2
    then show ?thesis using eq by (simp add: Some area_def [symmetric] reuse_holds)
  next
    case 3
    then have "run_solver lm now sel alt geo s1 = Some s'" using eq by simp
    from run_solver_holds [OF this s1(2), of previous, unfolded call s1(1)] 3 show ?thesis
      by (simp add: Some area_def [symmetric])
  qed
qed

lemma select_status:
  "fst (nav_select_radio_anchors sys now) = NAV_STATUS_OK \<longleftrightarrow> 3 \<le> length (usable_nodes sys now [0, 1, 2, 3])"
  "fst (nav_select_radio_anchors sys now) \<noteq> NAV_STATUS_OK \<Longrightarrow>
     sel_reject_reason (snd (nav_select_radio_anchors sys now)) = NAV_REJECT_NOT_ENOUGH_ANCHORS"
proof -
  define out where "out = fold (select_node sys now) [0, 1, 2, 3] selection_init"
  have "sel_count out = min 3 (length (usable_nodes sys now [0, 1, 2, 3]))"
    using select_anchors_inv [of sys now] unfolding out_def [symmetric] selection_inv_def by blast
  moreover have "nav_select_radio_anchors sys now = (if sel_count out < 3
      then (NAV_STATUS_NOT_FOUND, out\<lparr>sel_reject_reason := NAV_REJECT_NOT_ENOUGH_ANCHORS\<rparr>)
      else (NAV_STATUS_OK, out))"
    by (simp only: nav_select_radio_anchors_def Let_def out_def)
  ultimately show "fst (nav_select_radio_anchors sys now) = NAV_STATUS_OK \<longleftrightarrow> 3 \<le> length (usable_nodes sys now [0, 1, 2, 3])"
    "fst (nav_select_radio_anchors sys now) \<noteq> NAV_STATUS_OK \<Longrightarrow>
     sel_reject_reason (snd (nav_select_radio_anchors sys now)) = NAV_REJECT_NOT_ENOUGH_ANCHORS"
    by auto
qed

lemma resolve_begin_solve [simp]:
  "resolve_local_altitude (begin_solve n sel s) now = resolve_local_altitude s now"
  by (simp add: resolve_local_altitude_def Let_def)

lemma solver_call_begin_solve [simp]: "solver_call lm (begin_solve n sel s) x alt = solver_call lm s x alt"
  by (simp add: solver_call_def)

lemma attempt_holds:
  assumes "attempt_radio_solution lm now previous s = Some s'"
  shows "outcome_holds (sy_config s) previous (radio_decision lm now s) (sy_snapshot s')"
proof -
  obtain st sel where ss: "nav_select_radio_anchors s now = (st, sel)" by fastforce
  note sel = select_status [of s now, unfolded ss fst_conv snd_conv]
  consider "cadence_holds now s" | "\<not> cadence_holds now s" "st \<noteq> NAV_STATUS_OK"
    | "\<not> cadence_holds now s" "st = NAV_STATUS_OK" by blast
  then show ?thesis
  proof cases
    case 1
    then show ?thesis using assms
      by (auto simp: attempt_radio_solution_def radio_decision_def Let_def reuse_holds)
  next
    case 2
    then have "length (usable_nodes s now [0, 1, 2, 3]) < 3" using sel(1) by simp
    then show ?thesis using 2 assms sel(2)
      by (auto simp: attempt_radio_solution_def radio_decision_def Let_def ss set_rejected_view
          intro!: finish_rejection_holds)
  next
    case 3
    then have u: "\<not> length (usable_nodes s now [0, 1, 2, 3]) < 3" using sel(1) by simp
    have "solve_selected lm now previous sel (begin_solve now sel s) = Some s'"
      using 3 assms by (simp add: attempt_radio_solution_def Let_def ss)
    from solve_selected_holds [OF this] 3 u show ?thesis
      by (simp add: radio_decision_def Let_def ss cong: if_cong option.case_cong)
  qed
qed

section \<open>The snapshot of a tick\<close>

definition aged_system :: "u32 \<Rightarrow> nav_system \<Rightarrow> nav_system" where
  "aged_system now sys = sys\<lparr>sy_peer_table := nav_peer_table_mark_stale (sy_peer_table sys) now
     (cfg_telemetry_ttl_ms (sy_config sys)) (cfg_range_ttl_ms (sy_config sys))\<rparr>"

text \<open>The decisions read the configuration, the peers, the local samples and the solve counters.\<close>

definition same_evidence :: "nav_system \<Rightarrow> nav_system \<Rightarrow> bool" where
  "same_evidence s t \<longleftrightarrow> sy_config s = sy_config t \<and> sy_peer_table s = sy_peer_table t \<and>
     sy_local_gnss s = sy_local_gnss t \<and> sy_local_gnss_present s = sy_local_gnss_present t \<and>
     sy_local_altitude s = sy_local_altitude t \<and>
     sy_local_altitude_present s = sy_local_altitude_present t \<and>
     sy_last_radio_solve_ms s = sy_last_radio_solve_ms t \<and> sy_radio_solve_ran s = sy_radio_solve_ran t \<and>
     sy_radio_solve_generation s = sy_radio_solve_generation t \<and>
     sy_last_radio_solve_generation s = sy_last_radio_solve_generation t"

lemma select_node_cong: "same_evidence s t \<Longrightarrow> select_node s now = select_node t now"
  by (intro ext) (simp add: select_node_def same_evidence_def)

lemma radio_decision_cong: "same_evidence s t \<Longrightarrow> radio_decision lm now s = radio_decision lm now t"
proof -
  assume e: "same_evidence s t"
  have "nav_select_radio_anchors s now = nav_select_radio_anchors t now"
    by (simp only: nav_select_radio_anchors_def select_node_cong [OF e])
  moreover have "usable_nodes s now ids = usable_nodes t now ids" for ids
    using e by (simp add: usable_nodes_def node_verdict_def node_quality_def same_evidence_def)
  moreover have "resolve_local_altitude s now = resolve_local_altitude t now"
    using e by (simp add: resolve_local_altitude_def same_evidence_def Let_def cong: if_cong)
  moreover have "solver_call lm s = solver_call lm t"
    using e by (intro ext) (simp add: solver_call_def same_evidence_def)
  moreover have "cadence_holds now s = cadence_holds now t"
    using e by (simp add: cadence_holds_def same_evidence_def)
  ultimately show ?thesis using e
    by (simp add: radio_decision_def same_evidence_def cong: if_cong option.case_cong)
qed

lemma update_snapshot_holds:
  assumes "update_snapshot lm now True s = Some s'" and "\<not> local_usable s"
  shows "outcome_holds (sy_config s) (sy_snapshot s) (radio_decision lm now s) (sy_snapshot s') \<and>
    sy_mode s' = sn_nav_mode (sy_snapshot s')"
proof -
  let ?s1 = "populate_local_gnss_evidence now (s\<lparr>sy_snapshot := (snapshot_clear_diagnostics (sy_snapshot s))
            \<lparr>sn_time_ms := now, sn_node_id := cfg_local_node_id (sy_config s)\<rparr>\<rparr>)"
  obtain s2 where s2: "attempt_radio_solution lm now (sy_snapshot s) ?s1 = Some s2"
    "s' = emit_mode_status_changes now (sn_nav_mode (sy_snapshot s)) (sn_solution_status (sy_snapshot s))
       (s2\<lparr>sy_mode := sn_nav_mode (sy_snapshot s2)\<rparr>)"
    using assms by (auto simp: update_snapshot_def Let_def bind_eq_Some_conv)
  have "same_evidence ?s1 s" by (simp add: same_evidence_def)
  then have "radio_decision lm now ?s1 = radio_decision lm now s" by (rule radio_decision_cong)
  then show ?thesis using attempt_holds [OF s2(1)] by (simp add: s2(2))
qed

lemma tick_before_snapshot:
  "\<exists>t. nav_core_tick lm now s = update_snapshot lm now True t \<and> same_evidence t (aged_system now s) \<and>
     sy_snapshot t = sy_snapshot s"
proof -
  define s1 where "s1 = s\<lparr>sy_last_tick_ms := now,
    sy_peer_table := nav_peer_table_mark_stale (sy_peer_table s) now
      (cfg_telemetry_ttl_ms (sy_config s)) (cfg_range_ttl_ms (sy_config s))\<rparr>"
  define t where "t = emit_log now NAV_LOG_TRACE NAV_LOG_CAT_STATE ''tick'' ''timer tick''
    (fold (log_stale_peer now) [0, 1, 2, 3] s1)"
  have "nav_core_tick lm now s = update_snapshot lm now True t"
    by (simp only: nav_core_tick_def Let_def t_def s1_def)
  moreover have "same_evidence t s1"
    by (simp add: t_def same_evidence_def del: fold.simps)
  moreover have "sy_snapshot t = sy_snapshot s" by (simp add: t_def s1_def del: fold.simps)
  ultimately show ?thesis by (auto simp: s1_def aged_system_def same_evidence_def)
qed

lemma local_usable_cong: "same_evidence s t \<Longrightarrow> local_usable s = local_usable t"
  by (simp add: local_usable_def same_evidence_def)

text \<open>C4: The decision of a tick: when local GNSS is not usable, the snapshot after a tick is the one
  that the decision list over the aged evidence prescribes: a cadence skip or unchanged inputs keep
  the previous navigation result, fewer than three usable anchors, a missing altitude, a small
  triangle, a failed solver or large residuals give a rejected result with exactly that reason, and
  only a solution that passed every gate is published, as degraded when its quality or geometry is
  below the configured bounds.\<close>

theorem tick_decision:
  assumes "nav_core_tick lm now s = Some s'" and "\<not> local_usable s"
  shows "outcome_holds (sy_config s) (sy_snapshot s) (radio_decision lm now (aged_system now s)) (sy_snapshot s') \<and>
    sy_mode s' = sn_nav_mode (sy_snapshot s')"
proof -
  obtain t where t: "nav_core_tick lm now s = update_snapshot lm now True t" "same_evidence t (aged_system now s)"
    "sy_snapshot t = sy_snapshot s" using tick_before_snapshot by blast
  have "sy_config t = sy_config s" "\<not> local_usable t"
    using t(2) assms(2) local_usable_cong [OF t(2)] by (simp_all add: same_evidence_def aged_system_def local_usable_def)
  then show ?thesis
    using update_snapshot_holds [of lm now t s'] assms(1) t(1,3) radio_decision_cong [OF t(2), of lm now] by simp
qed

end
