(* ===== verification/Nav_Core_Machine.thy ===== *)
theory Nav_Core_Machine
  imports Nav_Core_Policy
begin

text \<open>
  The core as a state machine: the calls of its environment as steps, the invariant of the reachable
  states, and an abstract description of how the navigation result evolves that the core refines.
\<close>

section \<open>Inputs an update does not touch\<close>

text \<open>Building a snapshot leaves the configuration, the local samples and the logger alone.\<close>

definition inputs_of where
  "inputs_of s = (sy_config s, sy_local_gnss s, sy_local_altitude s, sy_local_gnss_present s,
     sy_local_altitude_present s, sy_radio_solve_generation s, sy_last_tick_ms s, sy_logger s)"

lemma inputs_emit [simp]: "inputs_of (emit_log n l c e m s) = inputs_of s"
  by (simp add: inputs_of_def emit_log_def)

lemma inputs_fold: "(\<And>i s. inputs_of (f i s) = inputs_of s) \<Longrightarrow> inputs_of (fold f xs s) = inputs_of s"
  by (induction xs arbitrary: s) simp_all

lemma inputs_log_selection [simp]: "inputs_of (log_anchor_selection n sel s) = inputs_of s"
  unfolding log_anchor_selection_def by (simp add: inputs_fold Let_def del: fold.simps)

lemma inputs_mode_changes [simp]: "inputs_of (emit_mode_status_changes n m st s) = inputs_of s"
  by (simp add: emit_mode_status_changes_def Let_def)

lemma inputs_basic [simp]:
  "inputs_of (populate_local_gnss_evidence n s) = inputs_of s"
  "inputs_of (populate_radio_solve_diagnostics n out el s) = inputs_of s"
  "inputs_of (reuse_previous_radio_snapshot previous n out el s) = inputs_of s"
  "inputs_of (set_rejected_snapshot n r m s) = inputs_of s"
  "inputs_of (reject_radio n r sel s) = inputs_of s"
  "inputs_of (set_altitude_source a s) = inputs_of s"
  "inputs_of (set_geometry x y s) = inputs_of s"
  "inputs_of (s\<lparr>sy_snapshot := sn\<rparr>) = inputs_of s"
  "inputs_of (s\<lparr>sy_mode := md\<rparr>) = inputs_of s"
  "inputs_of (s\<lparr>sy_last_radio_solve_generation := g\<rparr>) = inputs_of s"
  by (simp_all add: inputs_of_def populate_local_gnss_evidence_def populate_radio_solve_diagnostics_def
      reuse_previous_radio_snapshot_def set_rejected_snapshot_def reject_radio_def
      set_altitude_source_def set_geometry_def Let_def)

lemma inputs_steps [simp]:
  "inputs_of (finish_rejection n l m s) = inputs_of s"
  "inputs_of (log_solve_attempt n sel a s) = inputs_of s"
  "inputs_of (use_gnss n s) = inputs_of s"
  by (simp_all add: finish_rejection_def log_solve_attempt_def use_gnss_def)

lemma inputs_begin_solve [simp]: "inputs_of (begin_solve n sel s) = inputs_of s"
  using inputs_log_selection [of n sel]
  by (simp add: inputs_of_def begin_solve_def Let_def update_peer_diagnostics_from_selection_def)

lemma inputs_classify [simp]: "inputs_of (classify_solution n sel geo r s) = inputs_of s"
  by (simp add: classify_solution_def Let_def inputs_fold del: fold.simps)

lemma inputs_store_residual: "store_residual sel r i s = Some s' \<Longrightarrow> inputs_of s' = inputs_of s"
  by (auto simp: store_residual_def bind_eq_Some_conv inputs_of_def)

lemma inputs_publish: "publish_solution n sel alt avg geo r s = Some s' \<Longrightarrow> inputs_of s' = inputs_of s"
  by (auto simp: publish_solution_def bind_eq_Some_conv Let_def dest!: inputs_store_residual)

lemma inputs_run_solver: "run_solver lm n sel alt geo s = Some s' \<Longrightarrow> inputs_of s' = inputs_of s"
  by (auto simp: run_solver_def bind_eq_Some_conv Let_def dest!: inputs_publish
      split: prod.splits if_splits)

lemma inputs_solve_selected: "solve_selected lm n previous sel s = Some s' \<Longrightarrow> inputs_of s' = inputs_of s"
  by (auto simp: solve_selected_def Let_def dest!: inputs_run_solver split: option.splits if_splits)

lemma inputs_attempt: "attempt_radio_solution lm n previous s = Some s' \<Longrightarrow> inputs_of s' = inputs_of s"
  by (auto simp: attempt_radio_solution_def Let_def dest!: inputs_solve_selected split: prod.splits if_splits)

lemma inputs_update: "update_snapshot lm n allow s = Some s' \<Longrightarrow> inputs_of s' = inputs_of s"
  by (auto simp: update_snapshot_def Let_def bind_eq_Some_conv dest!: inputs_attempt split: if_splits)

lemma inputs_ofD:
  "inputs_of s = inputs_of t \<Longrightarrow> sy_config s = sy_config t \<and> sy_local_gnss s = sy_local_gnss t \<and>
     local_usable s = local_usable t"
  by (simp add: inputs_of_def local_usable_def)

section \<open>Well-formed states\<close>

definition snapshot_wf :: "nav_snapshot \<Rightarrow> bool" where
  "snapshot_wf sn \<longleftrightarrow> length (sn_selected_anchor_node_ids sn) = 3 \<and> length (sn_anchor_residuals_mm sn) = 3 \<and>
     length (sn_rejected_node_ids sn) = 4 \<and> length (sn_rejected_reasons sn) = 4 \<and>
     sn_num_anchors sn \<le> 3 \<and> sn_rejected_count sn \<le> 4"

text \<open>The arrays have their C lengths, the counts stay within them and the peer table is indexed by id.\<close>

definition system_wf :: "nav_system \<Rightarrow> bool" where
  "system_wf s \<longleftrightarrow> peer_table_wf (sy_peer_table s) \<and> snapshot_wf (sy_snapshot s)"

lemma system_wf_emit [simp]: "system_wf (emit_log n l c e m s) = system_wf s"
  by (simp add: system_wf_def)

lemma system_wf_fold: "(\<And>i s. system_wf (f i s) = system_wf s) \<Longrightarrow> system_wf (fold f xs s) = system_wf s"
  by (induction xs arbitrary: s) simp_all

lemma system_wf_log_selection [simp]: "system_wf (log_anchor_selection n sel s) = system_wf s"
  unfolding log_anchor_selection_def by (simp add: system_wf_fold Let_def del: fold.simps)

lemma system_wf_basic [simp]:
  "system_wf (populate_local_gnss_evidence n s) = system_wf s"
  "system_wf (populate_radio_solve_diagnostics n out el s) = system_wf s"
  "system_wf (set_rejected_snapshot n r m s) = system_wf s"
  "system_wf (set_altitude_source a s) = system_wf s"
  "system_wf (set_geometry x y s) = system_wf s"
  "system_wf (emit_mode_status_changes n md st s) = system_wf s"
  "system_wf (s\<lparr>sy_last_radio_solve_generation := g\<rparr>) = system_wf s"
  "system_wf (s\<lparr>sy_mode := md\<rparr>) = system_wf s"
  by (simp_all add: system_wf_def snapshot_wf_def populate_local_gnss_evidence_def
      populate_radio_solve_diagnostics_def set_rejected_snapshot_def set_altitude_source_def
      set_geometry_def emit_mode_status_changes_def Let_def)

lemma system_wf_steps [simp]:
  "system_wf (finish_rejection n l m s) = system_wf s"
  "system_wf (log_solve_attempt n sel a s) = system_wf s"
  "system_wf (classify_solution n sel geo r s) = system_wf s"
  by (simp_all add: finish_rejection_def log_solve_attempt_def classify_solution_def Let_def
      system_wf_fold del: fold.simps) (simp_all add: system_wf_def snapshot_wf_def)

lemma system_wf_reuse:
  "system_wf s \<Longrightarrow> snapshot_wf previous \<Longrightarrow> system_wf (reuse_previous_radio_snapshot previous n out el s)"
  by (simp add: reuse_previous_radio_snapshot_def) (simp add: system_wf_def snapshot_wf_def)

lemma copy_selection_wf: "selection_wf sel \<Longrightarrow> snapshot_wf sn \<Longrightarrow> snapshot_wf (copy_selection_to_snapshot sel sn)"
  by (auto simp: snapshot_wf_def copy_selection_to_snapshot_def selection_wf_def word_le_nat_alt
      unat_of_nat)

lemma system_wf_snapshot: "snapshot_wf sn \<Longrightarrow> system_wf s \<Longrightarrow> system_wf (s\<lparr>sy_snapshot := sn\<rparr>)"
  by (simp add: system_wf_def)

lemma system_wf_reject_radio:
  assumes "system_wf s" and "selection_wf sel"
  shows "system_wf (reject_radio n r sel s)"
proof -
  have "system_wf (set_rejected_snapshot n r NAV_MODE_NO_NAV_SOLUTION s)" using assms(1) by simp
  then show ?thesis
    unfolding reject_radio_def Let_def
    by (intro system_wf_snapshot copy_selection_wf assms(2)) (simp_all add: system_wf_def)
qed

lemma modify_peer_wf:
  "peer_table_wf t \<Longrightarrow> (\<And>p. ps_node_id (f p) = ps_node_id p) \<Longrightarrow> peer_table_wf (modify_peer i f t)"
  using get_const_SomeD [of t i]
  by (auto simp: modify_peer_def get_eq_get_const intro!: ps.put_invar split: option.split)

lemma modify_peers_wf:
  "peer_table_wf t \<Longrightarrow> (\<And>j p. ps_node_id (f j p) = ps_node_id p) \<Longrightarrow>
   peer_table_wf (fold (\<lambda>j. modify_peer (g j) (f j)) js t)"
  by (induction js arbitrary: t) (simp_all add: modify_peer_wf)

lemma system_wf_diagnostics: "system_wf s \<Longrightarrow> system_wf (update_peer_diagnostics_from_selection sel s)"
  by (simp add: system_wf_def update_peer_diagnostics_from_selection_def Let_def modify_peers_wf
      del: fold.simps)

lemma system_wf_begin_solve: "system_wf s \<Longrightarrow> selection_wf sel \<Longrightarrow> system_wf (begin_solve n sel s)"
  using system_wf_diagnostics [of s sel] copy_selection_wf
  by (simp add: begin_solve_def Let_def system_wf_def)

lemma system_wf_store_residual: "store_residual sel r i s = Some s' \<Longrightarrow> system_wf s \<Longrightarrow> system_wf s'"
  by (auto simp: store_residual_def bind_eq_Some_conv system_wf_def snapshot_wf_def modify_peer_wf)

lemma system_wf_publish: "publish_solution n sel alt avg geo r s = Some s' \<Longrightarrow> system_wf s \<Longrightarrow> system_wf s'"
proof -
  assume s: "publish_solution n sel alt avg geo r s = Some s'" "system_wf s"
  have keep: "system_wf (t\<lparr>sy_snapshot := sn\<rparr>)"
    if "system_wf t" "snapshot_wf sn = snapshot_wf (sy_snapshot t)" for t sn
    using that by (simp add: system_wf_def)
  obtain lat lon s0 s1 s2 s3 hacc where
    r: "store_residual sel r 0 s0 = Some s1" "store_residual sel r 1 s1 = Some s2"
      "store_residual sel r 2 s2 = Some s3" and
    s0: "s0 = s\<lparr>sy_snapshot := (sy_snapshot s)
       \<lparr>sn_position := \<lparr>lat_e7 = lat, lon_e7 = lon, alt_mm = la_alt_mm alt\<rparr>,
        sn_residual_rms_m := fp_cvt binary32 (tr_rms_error_m r),
        sn_max_residual_m := fp_cvt binary32 (tr_max_abs_error_m r)\<rparr>\<rparr>" and
    s': "s' = s3\<lparr>sy_snapshot := (sy_snapshot s3)\<lparr>sn_hacc_mm := hacc, sn_vacc_mm := 0,
        sn_total_quality := fp_mul binary32 avg geo, sn_reject_reason := NAV_REJECT_NONE\<rparr>\<rparr>"
    using s(1) by (auto simp: publish_solution_def bind_eq_Some_conv Let_def)
  have "system_wf s0" unfolding s0 by (intro keep s(2)) (simp add: snapshot_wf_def)
  then have "system_wf s3" using r by (blast intro: system_wf_store_residual)
  then show ?thesis unfolding s' by (intro keep) (simp_all add: snapshot_wf_def)
qed

lemma system_wf_run_solver:
  assumes "run_solver lm n sel alt geo s = Some s'" and "system_wf s" and "selection_wf sel"
  shows "system_wf s'"
proof -
  let ?s1 = "(log_solve_attempt n sel alt s)\<lparr>sy_last_radio_solve_generation := sy_radio_solve_generation s\<rparr>"
  have s1: "system_wf ?s1" using assms(2) by simp
  obtain st r where "nav_trilat_solve_3_anchor_altitude lm
     (Some (map (trilat_anchor_of (sy_config s)) (take 3 (sel_anchors sel))))
     (if cfg_ignore_altitude_for_radio_solve (sy_config s) then Fin 0
      else ddiv (fp_of_int binary64 (sint (la_alt_mm alt))) (Fin 1000)) nav_trilat_result_zero = (st, r)"
    by fastforce
  then consider m where "s' = finish_rejection n NAV_LOG_ERROR m (set_altitude_source alt
      (reject_radio n NAV_REJECT_TRILATERATION_FAILED sel ?s1))"
    | s2 where "publish_solution n sel alt (average_quality (sel_anchors sel)) geo r ?s1 = Some s2"
      "s' = classify_solution n sel geo r s2"
    using assms(1) by (auto simp: run_solver_def Let_def bind_eq_Some_conv split: if_splits)
  then show ?thesis
  proof cases
    case 1
    then show ?thesis using system_wf_reject_radio [OF s1 assms(3)] by simp
  next
    case 2
    then show ?thesis using system_wf_publish [OF 2(1) s1] by simp
  qed
qed

lemma system_wf_solve_selected:
  assumes "solve_selected lm n previous sel s = Some s'" and "system_wf s" and "snapshot_wf previous"
    and "selection_wf sel"
  shows "system_wf s'"
proof (cases "resolve_local_altitude s n")
  case None
  then show ?thesis using assms(1) system_wf_reject_radio [OF assms(2,4)]
    by (auto simp: solve_selected_def)
next
  case (Some alt)
  define area where "area = compute_anchor_triangle_area_m2 lm (sel_anchors sel)"
  define geo where "geo = geometry_score_from_area area (sy_config s)"
  define s1 where "s1 = set_geometry area geo (set_altitude_source alt s)"
  have s1: "system_wf s1" using assms(2) by (simp add: s1_def)
  consider m r where "s' = finish_rejection n NAV_LOG_WARN m
      (set_geometry area geo (reject_radio n r sel s1))"
    | m where "s' = emit_log n NAV_LOG_DEBUG NAV_LOG_CAT_SOLUTION ''solve_skipped'' m
      (reuse_previous_radio_snapshot previous n NAV_RADIO_SOLVE_SKIPPED_UNCHANGED_INPUTS 0 s1)"
    | "run_solver lm n sel alt geo s1 = Some s'"
    using assms(1) unfolding solve_selected_def Let_def Some option.case
      area_def [symmetric] geo_def [symmetric] s1_def [symmetric]
    by (metis option.inject)
  then show ?thesis
  proof cases
    case 1
    then show ?thesis using system_wf_reject_radio [OF s1 assms(4)] by simp
  next
    case 2
    then show ?thesis using system_wf_reuse [OF s1 assms(3)] by simp
  next
    case 3
    then show ?thesis using system_wf_run_solver s1 assms(4) by blast
  qed
qed

lemma select_wf: "nav_select_radio_anchors sys now = (st, sel) \<Longrightarrow> selection_wf sel"
  using select_anchors_inv [of sys now]
  by (auto simp: nav_select_radio_anchors_def selection_inv_def selection_wf_def Let_def split: if_splits
      simp del: fold.simps)

lemma system_wf_attempt:
  "attempt_radio_solution lm n previous s = Some s' \<Longrightarrow> system_wf s \<Longrightarrow> snapshot_wf previous \<Longrightarrow> system_wf s'"
  by (auto simp: attempt_radio_solution_def Let_def system_wf_reuse system_wf_begin_solve select_wf
      dest!: system_wf_solve_selected split: prod.splits if_splits)

lemma cleared_wf: "snapshot_wf sn \<Longrightarrow> snapshot_wf (snapshot_clear_diagnostics sn)"
  by (simp add: snapshot_wf_def snapshot_clear_diagnostics_def)

text \<open>The three ways an update of the snapshot can go.\<close>

definition begin_update :: "u32 \<Rightarrow> nav_system \<Rightarrow> nav_system" where
  "begin_update n s = populate_local_gnss_evidence n (s\<lparr>sy_snapshot := (snapshot_clear_diagnostics (sy_snapshot s))
     \<lparr>sn_time_ms := n, sn_node_id := cfg_local_node_id (sy_config s)\<rparr>\<rparr>)"

lemma update_snapshot_cases:
  assumes "update_snapshot lm n allow s = Some s'"
  obtains (direct) s2 where "local_usable s" "s2 = use_gnss n (begin_update n s)"
      "s' = emit_mode_status_changes n (sn_nav_mode (sy_snapshot s)) (sn_solution_status (sy_snapshot s))
        (s2\<lparr>sy_mode := sn_nav_mode (sy_snapshot s2)\<rparr>)"
    | (radio) s2 where "\<not> local_usable s" "allow"
      "attempt_radio_solution lm n (sy_snapshot s) (begin_update n s) = Some s2"
      "s' = emit_mode_status_changes n (sn_nav_mode (sy_snapshot s)) (sn_solution_status (sy_snapshot s))
        (s2\<lparr>sy_mode := sn_nav_mode (sy_snapshot s2)\<rparr>)"
    | (reuse) s2 where "\<not> local_usable s" "\<not> allow"
      "s2 = reuse_previous_radio_snapshot (sy_snapshot s) n (sy_last_radio_solve_outcome s)
        (sy_last_radio_solve_elapsed_ms s) (begin_update n s)"
      "s' = emit_mode_status_changes n (sn_nav_mode (sy_snapshot s)) (sn_solution_status (sy_snapshot s))
        (s2\<lparr>sy_mode := sn_nav_mode (sy_snapshot s2)\<rparr>)"
  using assms unfolding update_snapshot_def Let_def begin_update_def
  by (auto simp: bind_eq_Some_conv split: if_splits)

lemma begin_update_wf: "system_wf s \<Longrightarrow> system_wf (begin_update n s)"
  using cleared_wf [of "sy_snapshot s"] by (simp add: begin_update_def) (simp add: system_wf_def snapshot_wf_def)

lemma use_gnss_wf: "system_wf (use_gnss n s) = system_wf s"
  by (simp add: use_gnss_def) (simp add: system_wf_def snapshot_wf_def)

lemma system_wf_update:
  assumes "update_snapshot lm n allow s = Some s'" and "system_wf s"
  shows "system_wf s'"
proof -
  have p: "snapshot_wf (sy_snapshot s)" using assms(2) by (simp add: system_wf_def)
  from assms(1) show ?thesis
  proof (cases rule: update_snapshot_cases)
    case direct
    then show ?thesis using begin_update_wf [OF assms(2)] by (simp add: use_gnss_wf)
  next
    case radio
    then show ?thesis using system_wf_attempt [OF _ begin_update_wf [OF assms(2)] p] by simp
  next
    case reuse
    then show ?thesis using system_wf_reuse [OF begin_update_wf [OF assms(2)] p] by simp
  qed
qed

section \<open>The calls of the environment\<close>

text \<open>After initialisation the environment posts events, ticks the core and installs loggers.\<close>

datatype nav_call = Call_event "nav_event option" | Call_tick u32 | Call_logger "nav_logger option"

inductive nav_step :: "libm \<Rightarrow> nav_system \<Rightarrow> nav_call \<Rightarrow> nav_system \<Rightarrow> bool" for lm where
  step_event: "nav_core_handle_event lm e s = Some s' \<Longrightarrow> nav_step lm s (Call_event e) s'"
| step_tick: "nav_core_tick lm now s = Some s' \<Longrightarrow> nav_step lm s (Call_tick now) s'"
| step_logger: "nav_step lm s (Call_logger l) (nav_core_set_logger l s)"

inductive_simps nav_step_simps:
  "nav_step lm s (Call_event e) s'" "nav_step lm s (Call_tick now) s'" "nav_step lm s (Call_logger l) s'"

inductive_cases nav_stepE: "nav_step lm s c s'"

inductive nav_reachable :: "libm \<Rightarrow> nav_system \<Rightarrow> bool" for lm where
  reach_init: "nav_reachable lm (nav_core_init config)"
| reach_step: "nav_reachable lm s \<Longrightarrow> nav_step lm s c s' \<Longrightarrow> nav_reachable lm s'"

text \<open>
  What a call may do to the navigation result: nothing at all, report (an event that carries data
  reuses the result unless local GNSS gives one) or decide (a tick may also run the radio solution).
\<close>

datatype call_kind = Idle | Report | Decide

fun event_kind :: "nav_event_data \<Rightarrow> call_kind" where
  "event_kind NAV_EVT_NONE = Idle"
| "event_kind NAV_EVT_TICK = Decide"
| "event_kind _ = Report"

fun call_kind_of :: "nav_call \<Rightarrow> call_kind" where
  "call_kind_of (Call_event None) = Idle"
| "call_kind_of (Call_event (Some e)) = event_kind (ev_data e)"
| "call_kind_of (Call_tick now) = Decide"
| "call_kind_of (Call_logger l) = Idle"

definition input_state :: "u32 \<Rightarrow> nav_event_data \<Rightarrow> nav_system \<Rightarrow> nav_system" where
  "input_state now d s = (case d of
     NAV_EVT_LOCAL_GNSS_SAMPLE g \<Rightarrow> handle_gnss now g s
   | NAV_EVT_LOCAL_ALTITUDE_SAMPLE a \<Rightarrow> handle_altitude now a s
   | NAV_EVT_PEER_TELEMETRY_RX b \<Rightarrow> handle_telemetry now b s
   | NAV_EVT_RANGE_RESULT r \<Rightarrow> handle_range now r s
   | NAV_EVT_RANGE_FAIL f \<Rightarrow> handle_range_fail now f s
   | NAV_EVT_CONFIG_COMMAND c enabled \<Rightarrow> handle_config now c enabled s
   | _ \<Rightarrow> s)"

lemma report_event_eq:
  "event_kind (ev_data e) = Report \<Longrightarrow>
   nav_core_handle_event lm (Some e) s = update_snapshot lm (ev_timestamp_ms e) False
     (input_state (ev_timestamp_ms e) (ev_data e) s)"
  by (cases "ev_data e") (simp_all add: nav_core_handle_event_def input_state_def Let_def)

lemma core_report_total: "event_kind (ev_data e) = Report \<Longrightarrow> \<exists>s'. nav_core_handle_event lm (Some e) s = Some s'"
  by (simp add: report_event_eq update_snapshot_def Let_def)

lemma handle_snapshot [simp]:
  "sy_snapshot (handle_gnss n g s) = sy_snapshot s" "sy_snapshot (handle_altitude n a s) = sy_snapshot s"
  "sy_snapshot (handle_telemetry n b s) = sy_snapshot s" "sy_snapshot (handle_range n r s) = sy_snapshot s"
  "sy_snapshot (handle_range_fail n f s) = sy_snapshot s" "sy_snapshot (handle_config n c en s) = sy_snapshot s"
  by (simp_all add: handle_gnss_def handle_altitude_def handle_telemetry_def handle_range_def
      handle_range_fail_def handle_config_def mark_radio_solve_inputs_changed_def Let_def
      split: prod.split nav_config_command_type.split)

lemma input_snapshot [simp]: "sy_snapshot (input_state n d s) = sy_snapshot s"
  by (simp add: input_state_def split: nav_event_data.split)

lemma mark_changed_sel [simp]:
  "sy_peer_table (mark_radio_solve_inputs_changed s) = sy_peer_table s"
  "sy_snapshot (mark_radio_solve_inputs_changed s) = sy_snapshot s"
  by (simp_all add: mark_radio_solve_inputs_changed_def Let_def)

lemma handle_table_wf:
  assumes "peer_table_wf (sy_peer_table s)"
  shows "peer_table_wf (sy_peer_table (handle_gnss n g s))"
    "peer_table_wf (sy_peer_table (handle_altitude n a s))"
    "peer_table_wf (sy_peer_table (handle_telemetry n b s))"
    "peer_table_wf (sy_peer_table (handle_range n r s))"
    "peer_table_wf (sy_peer_table (handle_range_fail n f s))"
    "peer_table_wf (sy_peer_table (handle_config n c en s))"
  using assms update_beacon_wf [OF assms, of b n] update_range_wf [OF assms, of r n]
    update_range_wf [OF assms, of "failed_range f" n]
  by (simp_all add: handle_gnss_def handle_altitude_def handle_telemetry_def handle_range_def
      handle_range_fail_def handle_config_def Let_def
      split: prod.split nav_config_command_type.split) auto

lemma input_state_wf: "system_wf s \<Longrightarrow> system_wf (input_state n d s)"
  using handle_table_wf [of s n]
  by (simp add: system_wf_def) (simp add: input_state_def split: nav_event_data.split)

section \<open>The abstract rule of the navigation result\<close>

definition direct_view :: "nav_gnss_sample \<Rightarrow> nav_snapshot \<Rightarrow> bool" where
  "direct_view g sn \<longleftrightarrow> sn_nav_mode sn = NAV_MODE_GNSS_OK \<and> sn_solution_status sn = NAV_SOLUTION_GNSS_DIRECT \<and>
     sn_solution_source sn = NAV_SOURCE_LOCAL_GNSS \<and> sn_reject_reason sn = NAV_REJECT_NONE \<and>
     sn_position sn = gs_position g \<and> sn_hacc_mm sn = gs_hacc_mm g \<and> sn_vacc_mm sn = gs_vacc_mm g \<and>
     sn_num_anchors sn = 0"

text \<open>The usable local GNSS sample of a state, if it has one and it is not forced denied.\<close>

definition gnss_of :: "nav_system \<Rightarrow> nav_gnss_sample option" where
  "gnss_of s = (if local_usable s then Some (sy_local_gnss s) else None)"

text \<open>
  The abstract machine, over snapshots only: local GNSS always wins; without it a report keeps the
  result and a tick keeps, rejects or solves it.
\<close>

inductive nav_rule :: "nav_config \<Rightarrow> nav_gnss_sample option \<Rightarrow> call_kind \<Rightarrow> nav_snapshot \<Rightarrow> nav_snapshot \<Rightarrow> bool"
  for cfg where
  rule_idle: "sn' = sn \<Longrightarrow> nav_rule cfg g Idle sn sn'"
| rule_direct: "k \<noteq> Idle \<Longrightarrow> direct_view g sn' \<Longrightarrow> nav_rule cfg (Some g) k sn sn'"
| rule_keep: "k \<noteq> Idle \<Longrightarrow> nav_view sn' = nav_view sn \<Longrightarrow> nav_rule cfg None k sn sn'"
| rule_reject: "r \<noteq> NAV_REJECT_NONE \<Longrightarrow> rejected_view r sn' \<Longrightarrow> nav_rule cfg None Decide sn sn'"
| rule_solve: "solved_view cfg sn' \<Longrightarrow> nav_rule cfg None Decide sn sn'"

inductive_cases nav_rule_reportE: "nav_rule cfg None Report sn sn'"
inductive_cases nav_rule_directE: "nav_rule cfg (Some g) k sn sn'"

lemma decision_reason:
  "radio_decision lm now s = (out, r) \<Longrightarrow>
   (out = NAV_RADIO_SOLVE_REJECTED \<longrightarrow> r \<noteq> NAV_REJECT_NONE) \<and>
   out \<in> {NAV_RADIO_SOLVE_SKIPPED_CADENCE, NAV_RADIO_SOLVE_SKIPPED_UNCHANGED_INPUTS,
     NAV_RADIO_SOLVE_REJECTED, NAV_RADIO_SOLVE_SOLVED}"
  by (auto simp: radio_decision_def Let_def split: if_splits option.splits prod.splits)

lemma outcome_rule:
  assumes "outcome_holds cfg sn (radio_decision lm now s) sn'"
  shows "nav_rule cfg None Decide sn sn'"
proof -
  obtain out r where d: "radio_decision lm now s = (out, r)" by fastforce
  show ?thesis using assms decision_reason [OF d]
    by (auto simp: outcome_holds_def d intro: nav_rule.intros)
qed

lemma begin_update_num [simp]: "sn_num_anchors (sy_snapshot (begin_update n s)) = 0"
  by (simp add: begin_update_def snapshot_clear_diagnostics_def populate_local_gnss_evidence_def Let_def)

lemma begin_update_gnss [simp]: "sy_local_gnss (begin_update n s) = sy_local_gnss s"
  by (simp add: begin_update_def)

lemma use_gnss_direct: "sn_num_anchors (sy_snapshot s) = 0 \<Longrightarrow> direct_view (sy_local_gnss s) (sy_snapshot (use_gnss n s))"
  by (simp add: direct_view_def use_gnss_def populate_radio_solve_diagnostics_def)

lemma update_rule:
  assumes "update_snapshot lm n allow s = Some s'"
  shows "nav_rule (sy_config s') (gnss_of s') (if allow then Decide else Report) (sy_snapshot s) (sy_snapshot s')
     \<and> sy_mode s' = sn_nav_mode (sy_snapshot s')"
proof -
  have g: "gnss_of s' = gnss_of s" "sy_config s' = sy_config s"
    using inputs_update [OF assms] by (auto simp: gnss_of_def dest!: inputs_ofD)
  from assms show ?thesis
  proof (cases rule: update_snapshot_cases)
    case (direct s2)
    then show ?thesis using use_gnss_direct [of "begin_update n s" n] g
      by (simp add: gnss_of_def rule_direct)
  next
    case (radio s2)
    then show ?thesis using update_snapshot_holds [of lm n s s'] assms g
      by (auto simp: gnss_of_def intro: outcome_rule)
  next
    case (reuse s2)
    then show ?thesis using g by (simp add: gnss_of_def rule_keep reuse_previous_view)
  qed
qed

lemma tick_eq_update:
  "\<exists>t. nav_core_tick lm now s = update_snapshot lm now True t \<and> sy_snapshot t = sy_snapshot s \<and>
     sy_peer_table t = sy_peer_table (aged_system now s)"
  using tick_before_snapshot [of lm now s] by (auto simp: same_evidence_def)

text \<open>A call is idle, or it is an update of the snapshot after its input was stored.\<close>

lemma nav_step_update:
  assumes "nav_step lm s c s'"
  shows "if call_kind_of c = Idle then sy_snapshot s' = sy_snapshot s \<and> sy_peer_table s' = sy_peer_table s
       \<and> sy_mode s' = sy_mode s
    else \<exists>n t. update_snapshot lm n (call_kind_of c = Decide) t = Some s' \<and>
      sy_snapshot t = sy_snapshot s \<and> (peer_table_wf (sy_peer_table s) \<longrightarrow> peer_table_wf (sy_peer_table t))"
proof -
  have tick: "\<exists>n t. update_snapshot lm n True t = Some s' \<and> sy_snapshot t = sy_snapshot s \<and>
      (peer_table_wf (sy_peer_table s) \<longrightarrow> peer_table_wf (sy_peer_table t))"
    if "nav_core_tick lm now s = Some s'" for now
    using tick_eq_update [of lm now s] that mark_stale_wf by (fastforce simp: aged_system_def)
  from assms show ?thesis
  proof (cases rule: nav_step.cases)
    case (step_event e)
    show ?thesis
    proof (cases e)
      case None
      then show ?thesis using step_event by (simp add: nav_core_handle_event_def)
    next
      case (Some ev)
      consider "ev_data ev = NAV_EVT_NONE" | "ev_data ev = NAV_EVT_TICK" | "event_kind (ev_data ev) = Report"
        by (cases "ev_data ev") simp_all
      then show ?thesis
      proof cases
        case 1
        then show ?thesis using step_event Some by (simp add: nav_core_handle_event_def Let_def)
      next
        case 2
        then show ?thesis using step_event Some tick by (simp add: nav_core_handle_event_def Let_def)
      next
        case 3
        have "peer_table_wf (sy_peer_table s) \<longrightarrow>
            peer_table_wf (sy_peer_table (input_state (ev_timestamp_ms ev) (ev_data ev) s))"
          using handle_table_wf [of s] by (simp add: input_state_def split: nav_event_data.split)
        then show ?thesis using step_event Some 3 report_event_eq [OF 3, of lm s]
          by (auto intro!: exI [of _ "ev_timestamp_ms ev"]
              exI [of _ "input_state (ev_timestamp_ms ev) (ev_data ev) s"])
      qed
    qed
  next
    case (step_tick now)
    then show ?thesis using tick by simp
  next
    case (step_logger l)
    then show ?thesis by (simp add: nav_core_set_logger_def split: option.split)
  qed
qed

lemma core_refines_step:
  assumes "nav_step lm s c s'"
  shows "nav_rule (sy_config s') (gnss_of s') (call_kind_of c) (sy_snapshot s) (sy_snapshot s')"
proof (cases "call_kind_of c = Idle")
  case True
  then show ?thesis using nav_step_update [OF assms] by (simp add: rule_idle)
next
  case False
  then obtain n t where t: "update_snapshot lm n (call_kind_of c = Decide) t = Some s'"
    "sy_snapshot t = sy_snapshot s" using nav_step_update [OF assms] by auto
  have "(if call_kind_of c = Decide then Decide else Report) = call_kind_of c"
    using False by (cases "call_kind_of c") simp_all
  then show ?thesis using update_rule [OF t(1)] t(2) by simp
qed

text \<open>C1: Refinement: whatever the environment calls, the navigation result evolves as the abstract
  rule allows. Usable local GNSS that is not forced denied is reported by every event that carries
  data and by every tick, with its position and accuracies; without it such an event keeps the
  previous result, and a tick keeps it, rejects it with a reason, or publishes a solution that passed
  the residual gates. Empty events and logger changes do nothing to the result.\<close>

theorem core_refines_rule:
  assumes "nav_step lm s c s'"
  shows "nav_rule (sy_config s') (gnss_of s') (call_kind_of c) (sy_snapshot s) (sy_snapshot s')"
  using assms by (rule core_refines_step)

section \<open>The invariant of the reachable states\<close>

fun result_consistent :: "nav_mode \<Rightarrow> nav_solution_status \<Rightarrow> nav_solution_source \<Rightarrow> nav_reject_reason \<Rightarrow> bool" where
  "result_consistent NAV_MODE_BOOT st src r \<longleftrightarrow> st = NAV_SOLUTION_NONE \<and> src = NAV_SOURCE_NONE \<and> r = NAV_REJECT_NONE"
| "result_consistent NAV_MODE_GNSS_OK st src r \<longleftrightarrow>
     st = NAV_SOLUTION_GNSS_DIRECT \<and> src = NAV_SOURCE_LOCAL_GNSS \<and> r = NAV_REJECT_NONE"
| "result_consistent NAV_MODE_RADIO_NAV_OK st src r \<longleftrightarrow>
     st = NAV_SOLUTION_RADIO_3D \<and> src = NAV_SOURCE_RADIO_3D \<and> r = NAV_REJECT_NONE"
| "result_consistent NAV_MODE_RADIO_NAV_DEGRADED st src r \<longleftrightarrow>
     st = NAV_SOLUTION_DEGRADED \<and> src = NAV_SOURCE_RADIO_3D \<and> r = NAV_REJECT_NONE"
| "result_consistent NAV_MODE_NO_NAV_SOLUTION st src r \<longleftrightarrow>
     st = NAV_SOLUTION_REJECTED \<and> src = NAV_SOURCE_NONE \<and> r \<noteq> NAV_REJECT_NONE"
| "result_consistent _ st src r \<longleftrightarrow> False"

definition core_inv :: "nav_system \<Rightarrow> bool" where
  "core_inv s \<longleftrightarrow> system_wf s \<and> sy_mode s = sn_nav_mode (sy_snapshot s) \<and>
     result_consistent (sn_nav_mode (sy_snapshot s)) (sn_solution_status (sy_snapshot s))
       (sn_solution_source (sy_snapshot s)) (sn_reject_reason (sy_snapshot s))"

abbreviation (input) consistent :: "nav_snapshot \<Rightarrow> bool" where
  "consistent sn \<equiv> result_consistent (sn_nav_mode sn) (sn_solution_status sn) (sn_solution_source sn)
     (sn_reject_reason sn)"

lemma rule_consistent: "nav_rule cfg g k sn sn' \<Longrightarrow> consistent sn \<Longrightarrow> consistent sn'"
  by (induction rule: nav_rule.induct)
    (auto simp: direct_view_def rejected_view_def solved_view_def dest: nav_view_eqD split: if_splits)

lemma core_inv_init: "core_inv (nav_core_init config)"
  by (simp add: core_inv_def system_wf_def snapshot_wf_def nav_core_init_def Let_def
      snapshot_clear_diagnostics_def nav_snapshot_zero_def)

lemma core_inv_step:
  assumes "nav_step lm s c s'" and "core_inv s"
  shows "core_inv s'"
proof -
  have r: "consistent (sy_snapshot s')"
    using rule_consistent [OF core_refines_step [OF assms(1)]] assms(2) by (simp add: core_inv_def)
  show ?thesis
  proof (cases "call_kind_of c = Idle")
    case True
    then show ?thesis using nav_step_update [OF assms(1)] assms(2) by (simp add: core_inv_def system_wf_def)
  next
    case False
    then obtain n t where t: "update_snapshot lm n (call_kind_of c = Decide) t = Some s'"
      "sy_snapshot t = sy_snapshot s" "system_wf t"
      using nav_step_update [OF assms(1)] assms(2) by (auto simp: core_inv_def system_wf_def)
    then show ?thesis using system_wf_update [OF t(1,3)] update_rule [OF t(1)] r by (simp add: core_inv_def)
  qed
qed

text \<open>C2: Invariant: in every state reachable from initialisation by events, ticks and logger
  changes the peer table is indexed by node id, the arrays of the snapshot have their lengths and
  their counts stay within them, the mode of the system is that of the snapshot, and mode, status,
  source and reject reason agree: a rejection always has a reason and no source, a result always has
  a source and no reason.\<close>

theorem reachable_core_inv:
  assumes "nav_reachable lm s"
  shows "core_inv s"
  using assms by induction (auto intro: core_inv_init core_inv_step)

end
