(* ===== verification/Nav_Core_Safety.thy ===== *)
theory Nav_Core_Safety
  imports Nav_Core_Machine
begin

text \<open>
  What the core guarantees about single calls: events always return, a published radio position rests
  on three fresh anchors at the fused altitude, the retention of ranges after a failure, and the runs
  on which the result outlives the evidence behind it.
\<close>

section \<open>Events\<close>

text \<open>An event that is not a tick always returns: reading a sample, a beacon, a range, a failure
  or a command runs no solver. Unless the state then has usable local GNSS the navigation result is
  exactly the previous one, so only ticks change the radio result.\<close>

theorem report_returns:
  assumes "event_kind (ev_data e) = Report"
  shows "\<exists>s'. nav_core_handle_event lm (Some e) s = Some s' \<and>
    (if local_usable s' then direct_view (sy_local_gnss s') (sy_snapshot s')
     else nav_view (sy_snapshot s') = nav_view (sy_snapshot s))"
proof -
  let ?t = "input_state (ev_timestamp_ms e) (ev_data e) s"
  have "\<exists>s'. update_snapshot lm (ev_timestamp_ms e) False ?t = Some s'"
    by (simp add: update_snapshot_def Let_def)
  then obtain s' where s': "update_snapshot lm (ev_timestamp_ms e) False ?t = Some s'" by blast
  have "nav_rule (sy_config s') (gnss_of s') Report (sy_snapshot s) (sy_snapshot s')"
    using update_rule [OF s'] by simp
  then have "if local_usable s' then direct_view (sy_local_gnss s') (sy_snapshot s')
     else nav_view (sy_snapshot s') = nav_view (sy_snapshot s)"
    by (auto simp: gnss_of_def elim: nav_rule_directE nav_rule_reportE)
  then show ?thesis using s' report_event_eq [OF assms, of lm s] by auto
qed

section \<open>The evidence behind a published position\<close>

text \<open>What the core requires of the stored evidence of a node that it uses as an anchor.\<close>

definition trusted_anchor :: "nav_system \<Rightarrow> u32 \<Rightarrow> u8 \<Rightarrow> bool" where
  "trusted_anchor s now i \<longleftrightarrow> i \<noteq> cfg_local_node_id (sy_config s) \<and>
     (case nav_peer_table_get_const (sy_peer_table s) i of None \<Rightarrow> False
      | Some p \<Rightarrow> \<not> expired (cfg_telemetry_ttl_ms (sy_config s)) now (ps_last_telemetry_timestamp_ms p) \<and>
          \<not> expired (cfg_range_ttl_ms (sy_config s)) now (ps_last_range_timestamp_ms p) \<and>
          ps_gnss_valid p \<and> nav_gnss_fix_type_code (ps_fix_type p) \<ge> 3 \<and> ps_range_valid p \<and> ps_range_mm p \<noteq> 0 \<and>
          (cfg_max_range_sigma_mm (sy_config s) > 0 \<longrightarrow> ps_range_sigma_mm p \<le> cfg_max_range_sigma_mm (sy_config s)) \<and>
          ps_range_position_valid p \<and> peer_position_valid (ps_range_position p))"

lemma usable_trusted: "i \<in> set (usable_nodes s now ids) \<Longrightarrow> trusted_anchor s now i"
  by (auto simp: usable_nodes_def node_verdict_def node_quality_def trusted_anchor_def score_anchor_verdict
      anchor_verdict_def Let_def not_less split: option.splits if_splits)

text \<open>The anchors that a snapshot reports.\<close>

definition reported_anchors :: "nav_snapshot \<Rightarrow> u8 list" where
  "reported_anchors sn = take (unat (sn_num_anchors sn)) (sn_selected_anchor_node_ids sn)"

definition anchors_of where
  "anchors_of s = (sn_num_anchors (sy_snapshot s), sn_selected_anchor_node_ids (sy_snapshot s))"

lemma anchors_of_basic [simp]:
  "anchors_of (emit_log n l c e m s) = anchors_of s"
  "anchors_of (populate_radio_solve_diagnostics n out el s) = anchors_of s"
  "anchors_of (set_altitude_source a s) = anchors_of s"
  "anchors_of (set_geometry x y s) = anchors_of s"
  "anchors_of (log_solve_attempt n sel a s) = anchors_of s"
  "anchors_of (s\<lparr>sy_last_radio_solve_generation := g\<rparr>) = anchors_of s"
  by (simp_all add: anchors_of_def populate_radio_solve_diagnostics_def set_altitude_source_def
      set_geometry_def)

lemma anchors_of_fold: "(\<And>i s. anchors_of (f i s) = anchors_of s) \<Longrightarrow> anchors_of (fold f xs s) = anchors_of s"
  by (induction xs arbitrary: s) simp_all

lemma anchors_of_classify: "anchors_of (classify_solution n sel geo r s) = anchors_of s"
  by (simp add: classify_solution_def Let_def anchors_of_fold del: fold.simps) (simp add: anchors_of_def)

lemma anchors_of_store: "store_residual sel r i s = Some s' \<Longrightarrow> anchors_of s' = anchors_of s"
  by (auto simp: store_residual_def bind_eq_Some_conv anchors_of_def)

lemma anchors_of_publish: "publish_solution n sel alt avg geo r s = Some s' \<Longrightarrow> anchors_of s' = anchors_of s"
  by (auto simp: publish_solution_def bind_eq_Some_conv Let_def anchors_of_def
      dest!: anchors_of_store [unfolded anchors_of_def])

text \<open>The position that a snapshot carries is the fused one of a solver result at an altitude.\<close>

definition fused_position :: "nav_trilat_result \<Rightarrow> nav_local_altitude \<Rightarrow> nav_position \<Rightarrow> bool" where
  "fused_position r alt p \<longleftrightarrow> llround_32 (dmul (tr_lat_deg r) (Fin 10000000)) = Some (lat_e7 p) \<and>
     llround_32 (dmul (tr_lon_deg r) (Fin 10000000)) = Some (lon_e7 p) \<and> alt_mm p = la_alt_mm alt"

lemma publish_fused:
  "publish_solution n sel alt avg geo r s = Some s' \<Longrightarrow> fused_position r alt (sn_position (sy_snapshot s'))"
  by (auto simp: publish_solution_def bind_eq_Some_conv Let_def fused_position_def
      dest!: store_residual_keeps)

lemma classify_position: "sn_position (sy_snapshot (classify_solution n sel geo r s)) = sn_position (sy_snapshot s)"
proof -
  have log: "sn_position (sy_snapshot (fold (\<lambda>i. emit_log n l c e (f i)) is t)) = sn_position (sy_snapshot t)"
    for l c e f "is" t by (induction "is" arbitrary: t) simp_all
  show ?thesis
    by (simp add: classify_solution_def Let_def populate_radio_solve_diagnostics_def log del: fold.simps)
qed

lemma run_solver_solved:
  assumes "run_solver lm n sel alt geo s = Some s'"
    and "sn_radio_solve_outcome (sy_snapshot s') = NAV_RADIO_SOLVE_SOLVED"
  shows "\<exists>r. solver_call lm s sel alt = (NAV_TRILAT_OK, r) \<and> anchors_of s' = anchors_of s \<and>
    fused_position r alt (sn_position (sy_snapshot s'))"
proof -
  let ?s1 = "(log_solve_attempt n sel alt s)\<lparr>sy_last_radio_solve_generation := sy_radio_solve_generation s\<rparr>"
  obtain st r where c: "solver_call lm s sel alt = (st, r)" by fastforce
  then have call: "nav_trilat_solve_3_anchor_altitude lm
     (Some (map (trilat_anchor_of (sy_config s)) (take 3 (sel_anchors sel))))
     (if cfg_ignore_altitude_for_radio_solve (sy_config s) then Fin 0
      else ddiv (fp_of_int binary64 (sint (la_alt_mm alt))) (Fin 1000)) nav_trilat_result_zero = (st, r)"
    by (simp add: solver_call_def)
  have ok: "st = NAV_TRILAT_OK" using assms by (auto simp: run_solver_def Let_def call split: if_splits)
  then obtain s2 where s2: "publish_solution n sel alt (average_quality (sel_anchors sel)) geo r ?s1 = Some s2"
    "s' = classify_solution n sel geo r s2"
    using assms(1) by (auto simp: run_solver_def Let_def call bind_eq_Some_conv)
  show ?thesis
    using c ok anchors_of_publish [OF s2(1)] publish_fused [OF s2(1)]
    by (simp add: s2(2) anchors_of_classify classify_position)
qed

lemma solve_selected_solved:
  assumes "solve_selected lm n previous sel s = Some s'"
    and "sn_radio_solve_outcome (sy_snapshot s') = NAV_RADIO_SOLVE_SOLVED"
  shows "\<exists>alt r. resolve_local_altitude s n = Some alt \<and> solver_call lm s sel alt = (NAV_TRILAT_OK, r) \<and>
    anchors_of s' = anchors_of s \<and> fused_position r alt (sn_position (sy_snapshot s'))"
proof (cases "resolve_local_altitude s n")
  case None
  then show ?thesis using assms by (auto simp: solve_selected_def)
next
  case (Some alt)
  define area where "area = compute_anchor_triangle_area_m2 lm (sel_anchors sel)"
  define geo where "geo = geometry_score_from_area area (sy_config s)"
  define s1 where "s1 = set_geometry area geo (set_altitude_source alt s)"
  have s1: "solver_call lm s1 sel alt = solver_call lm s sel alt" "anchors_of s1 = anchors_of s"
    by (simp_all add: s1_def solver_call_def)
  consider m t where "s' = finish_rejection n NAV_LOG_WARN m t"
    | m where "s' = emit_log n NAV_LOG_DEBUG NAV_LOG_CAT_SOLUTION ''solve_skipped'' m
      (reuse_previous_radio_snapshot previous n NAV_RADIO_SOLVE_SKIPPED_UNCHANGED_INPUTS 0 s1)"
    | "run_solver lm n sel alt geo s1 = Some s'"
    using assms(1) unfolding solve_selected_def Let_def Some option.case
      area_def [symmetric] geo_def [symmetric] s1_def [symmetric]
    by (metis option.inject)
  then show ?thesis
  proof cases
    case 3
    show ?thesis using run_solver_solved [OF 3 assms(2)] Some s1 by auto
  qed (use assms(2) in \<open>simp_all add: reuse_previous_view\<close>)
qed

lemma attempt_solved:
  assumes "attempt_radio_solution lm n previous s = Some s'"
    and "sn_radio_solve_outcome (sy_snapshot s') = NAV_RADIO_SOLVE_SOLVED"
  shows "\<exists>sel alt r. nav_select_radio_anchors s n = (NAV_STATUS_OK, sel) \<and>
    resolve_local_altitude s n = Some alt \<and> solver_call lm s sel alt = (NAV_TRILAT_OK, r) \<and>
    anchors_of s' = anchors_of (begin_solve n sel s) \<and> fused_position r alt (sn_position (sy_snapshot s'))"
proof -
  obtain st sel where ss: "nav_select_radio_anchors s n = (st, sel)" by fastforce
  have "\<not> cadence_holds n s"
    using assms by (auto simp: attempt_radio_solution_def Let_def reuse_previous_view)
  moreover from this have "st = NAV_STATUS_OK"
    using assms by (auto simp: attempt_radio_solution_def Let_def ss split: if_splits)
  ultimately have "solve_selected lm n previous sel (begin_solve n sel s) = Some s'"
    using assms(1) by (simp add: attempt_radio_solution_def Let_def ss)
  from solve_selected_solved [OF this assms(2)] show ?thesis using ss \<open>st = NAV_STATUS_OK\<close> by auto
qed

lemma list3_eq: "length xs = 3 \<Longrightarrow> xs = [xs ! 0, xs ! 1, xs ! 2]"
  by (auto simp: numeral_3_eq_3 numeral_2_eq_2 length_Suc_conv)

lemma begin_solve_anchors:
  assumes "selection_wf sel" and "sel_count sel = 3"
  shows "reported_anchors (sy_snapshot (begin_solve n sel s)) = map an_node_id (selected sel)"
proof -
  have l: "length (sel_anchors sel) = 3" using assms(1) by (simp add: selection_wf_def)
  have "map an_node_id (selected sel) = map an_node_id (sel_anchors sel)"
    using l assms(2) by (simp add: selected_def)
  also have "\<dots> = [an_node_id (sel_anchors sel ! 0), an_node_id (sel_anchors sel ! 1), an_node_id (sel_anchors sel ! 2)]"
    using arg_cong [OF list3_eq [OF l], of "map an_node_id"] by (simp only: list.map)
  finally have ids: "map an_node_id (selected sel) = \<dots>" .
  have up: "[0..<3] = [0, 1, 2 :: nat]" by (simp add: eval_nat_numeral)
  show ?thesis
    by (simp add: reported_anchors_def begin_solve_def Let_def copy_selection_to_snapshot_def assms(2)
        up ids)
qed

lemma select_evidence:
  assumes "nav_select_radio_anchors s now = (NAV_STATUS_OK, sel)"
  shows "selection_wf sel \<and> sel_count sel = 3 \<and> distinct (map an_node_id (selected sel)) \<and>
    (\<forall>a \<in> set (selected sel). trusted_anchor s now (an_node_id a) \<and> a = anchor_for s now (an_node_id a))"
proof -
  define out where "out = fold (select_node s now) [0, 1, 2, 3] selection_init"
  have inv: "selection_inv s now [0, 1, 2, 3] out" using select_anchors_inv by (simp only: out_def)
  have "nav_select_radio_anchors s now = (if sel_count out < 3
      then (NAV_STATUS_NOT_FOUND, out\<lparr>sel_reject_reason := NAV_REJECT_NOT_ENOUGH_ANCHORS\<rparr>)
      else (NAV_STATUS_OK, out))"
    by (simp only: nav_select_radio_anchors_def Let_def out_def)
  then have "sel = out" "\<not> sel_count out < 3" using assms by (auto split: if_splits)
  then show ?thesis using inv usable_trusted unfolding selection_inv_def selection_wf_def
    by (metis le_neq_implies_less)
qed

lemma resolve_altitude_fresh:
  "resolve_local_altitude s now = Some alt \<Longrightarrow>
   la_valid alt \<and> \<not> expired (cfg_local_altitude_ttl_ms (sy_config s)) now (la_timestamp_ms alt)"
  by (auto simp: resolve_local_altitude_def local_altitude_is_fresh_def expired_def Let_def split: if_splits)

text \<open>C3: The evidence behind a published position: when a tick solves, the snapshot names three
  different anchors, none of them the local node; each one's stored telemetry and range are within
  their time-to-live at that tick, with a GNSS fix, a plausible range and a valid position stored
  together with the range; the solver succeeded on exactly these anchors at the altitude of a fresh
  local source, and the published position is the solver's, at that altitude.\<close>

theorem solved_evidence:
  assumes "nav_core_tick lm now s = Some s'" and "\<not> local_usable s"
    and "sn_radio_solve_outcome (sy_snapshot s') = NAV_RADIO_SOLVE_SOLVED"
  shows "\<exists>sel alt r. nav_select_radio_anchors (aged_system now s) now = (NAV_STATUS_OK, sel) \<and>
    resolve_local_altitude (aged_system now s) now = Some alt \<and> la_valid alt \<and>
    \<not> expired (cfg_local_altitude_ttl_ms (sy_config s)) now (la_timestamp_ms alt) \<and>
    solver_call lm (aged_system now s) sel alt = (NAV_TRILAT_OK, r) \<and>
    fused_position r alt (sn_position (sy_snapshot s')) \<and>
    reported_anchors (sy_snapshot s') = map an_node_id (sel_anchors sel) \<and>
    length (reported_anchors (sy_snapshot s')) = 3 \<and> distinct (reported_anchors (sy_snapshot s')) \<and>
    list_all (trusted_anchor (aged_system now s) now) (reported_anchors (sy_snapshot s'))"
proof -
  obtain t where t: "nav_core_tick lm now s = update_snapshot lm now True t" "same_evidence t (aged_system now s)"
    "sy_snapshot t = sy_snapshot s" using tick_before_snapshot by blast
  have nu: "\<not> local_usable t"
    using t(2) assms(2) by (simp add: same_evidence_def local_usable_def aged_system_def)
  have e: "same_evidence (begin_update now t) (aged_system now s)"
    using t(2) by (simp add: same_evidence_def begin_update_def)
  have upd: "update_snapshot lm now True t = Some s'" using assms(1) t(1) by simp
  then obtain s2 where s2: "attempt_radio_solution lm now (sy_snapshot t) (begin_update now t) = Some s2"
    "sy_snapshot s' = sy_snapshot s2"
    using nu by (cases rule: update_snapshot_cases) auto
  obtain sel alt r where r: "nav_select_radio_anchors (begin_update now t) now = (NAV_STATUS_OK, sel)"
    "resolve_local_altitude (begin_update now t) now = Some alt"
    "solver_call lm (begin_update now t) sel alt = (NAV_TRILAT_OK, r)"
    "anchors_of s2 = anchors_of (begin_solve now sel (begin_update now t))"
    "fused_position r alt (sn_position (sy_snapshot s2))"
    using attempt_solved [OF s2(1)] assms(3) s2(2) by auto
  have same: "nav_select_radio_anchors (begin_update now t) now = nav_select_radio_anchors (aged_system now s) now"
    "resolve_local_altitude (begin_update now t) now = resolve_local_altitude (aged_system now s) now"
    "solver_call lm (begin_update now t) sel alt = solver_call lm (aged_system now s) sel alt"
    using e by (simp_all only: nav_select_radio_anchors_def select_node_cong [OF e])
      (simp_all add: same_evidence_def resolve_local_altitude_def solver_call_def Let_def cong: if_cong)
  note ev = select_evidence [OF r(1) [unfolded same(1)]]
  have ids: "reported_anchors (sy_snapshot s') = map an_node_id (selected sel)"
    using begin_solve_anchors [of sel now "begin_update now t"] r(4) ev
    by (simp add: reported_anchors_def anchors_of_def s2(2))
  have l: "selected sel = sel_anchors sel" using ev by (simp add: selected_def selection_wf_def)
  have "length (sel_anchors sel) = 3" using ev by (simp add: selection_wf_def)
  moreover have "la_valid alt \<and> \<not> expired (cfg_local_altitude_ttl_ms (sy_config s)) now (la_timestamp_ms alt)"
    using resolve_altitude_fresh [OF r(2) [unfolded same(2)]] by (simp add: aged_system_def)
  ultimately show ?thesis
    using r(1-3,5) ids ev unfolding same s2(2) l by (auto simp: list_all_iff)
qed

section \<open>Failed ranges\<close>

lemma update_report_table:
  assumes "update_snapshot lm n False s = Some s'"
  shows "sy_peer_table s' = sy_peer_table s"
  using assms by (cases rule: update_snapshot_cases)
    (simp_all add: use_gnss_def reuse_previous_radio_snapshot_def begin_update_def)

lemma handle_range_fail_table:
  "sy_peer_table (handle_range_fail n f s) = (if cfg_retain_last_range_on_failure (sy_config s) then sy_peer_table s
     else snd (nav_peer_table_update_range (sy_peer_table s) (Some (failed_range f)) n))"
  "sy_config (handle_range_fail n f s) = sy_config s"
  by (simp_all add: handle_range_fail_def Let_def) (simp add: mark_radio_solve_inputs_changed_def Let_def)

lemma range_fail_table:
  assumes "nav_core_handle_event lm (Some \<lparr>ev_timestamp_ms = n, ev_data = NAV_EVT_RANGE_FAIL f\<rparr>) s = Some s'"
  shows "sy_config s' = sy_config s \<and> sy_peer_table s' = (if cfg_retain_last_range_on_failure (sy_config s)
    then sy_peer_table s else snd (nav_peer_table_update_range (sy_peer_table s) (Some (failed_range f)) n))"
proof -
  have u: "update_snapshot lm n False (handle_range_fail n f s) = Some s'"
    using assms by (simp add: nav_core_handle_event_def Let_def)
  show ?thesis
    using update_report_table [OF u] inputs_ofD [OF inputs_update [OF u]] by (simp add: handle_range_fail_table)
qed

text \<open>C30: A failed range exchange: with retention configured it leaves every node as trustworthy as
  it was, at every later time; without it the failed peer is not an anchor again before a new range
  arrives, and the other nodes are untouched.\<close>

theorem range_fail_retention:
  assumes "nav_core_handle_event lm (Some \<lparr>ev_timestamp_ms = n, ev_data = NAV_EVT_RANGE_FAIL f\<rparr>) s = Some s'"
    and "peer_table_wf (sy_peer_table s)"
  shows "trusted_anchor s' later i = (trusted_anchor s later i \<and>
    (cfg_retain_last_range_on_failure (sy_config s) \<or> i \<noteq> rf_peer_id f))"
proof (cases "cfg_retain_last_range_on_failure (sy_config s)")
  case True
  then have "sy_config s' = sy_config s" "sy_peer_table s' = sy_peer_table s"
    using range_fail_table [OF assms(1)] by simp_all
  then have "trusted_anchor s' later i = trusted_anchor s later i" by (simp only: trusted_anchor_def)
  then show ?thesis using True by simp
next
  case False
  then have t: "sy_config s' = sy_config s"
    "\<And>j. slot_for (sy_peer_table s') j = (if j = rf_peer_id f
      then map_option (range_into (failed_range f) n) (slot_for (sy_peer_table s) j) else slot_for (sy_peer_table s) j)"
    using range_fail_table [OF assms(1)] update_range_slot [OF assms(2), of "failed_range f" n]
    by (simp_all add: failed_range_def)
  have "\<not> ps_range_valid (range_into (failed_range f) n p)" for p
    by (simp add: range_into_def failed_range_def Let_def)
  then show ?thesis using False
    by (auto simp: trusted_anchor_def get_const_slot t split: option.splits)
qed

section \<open>Results that outlive their evidence\<close>

text \<open>The command that denies local GNSS does not withdraw a position that came from it: the result is
  replaced only by the next tick that decides.\<close>

lemma denied_command_keeps_result:
  assumes "nav_core_handle_event lm (Some \<lparr>ev_timestamp_ms = n,
    ev_data = NAV_EVT_CONFIG_COMMAND NAV_CONFIG_CMD_FORCE_GPS_DENIED True\<rparr>) s = Some s'"
  shows "cfg_demo_force_gps_denied (sy_config s')" "nav_view (sy_snapshot s') = nav_view (sy_snapshot s)"
proof -
  have u: "update_snapshot lm n False (handle_config n NAV_CONFIG_CMD_FORCE_GPS_DENIED True s) = Some s'"
    using assms by (simp add: nav_core_handle_event_def Let_def)
  have d: "cfg_demo_force_gps_denied (sy_config (handle_config n NAV_CONFIG_CMD_FORCE_GPS_DENIED True s))"
    by (simp add: handle_config_def Let_def) (simp add: mark_radio_solve_inputs_changed_def Let_def)
  then show "cfg_demo_force_gps_denied (sy_config s')"
    using inputs_ofD [OF inputs_update [OF u]] by simp
  have "\<not> local_usable (handle_config n NAV_CONFIG_CMD_FORCE_GPS_DENIED True s)"
    using d by (simp add: local_usable_def)
  with u show "nav_view (sy_snapshot s') = nav_view (sy_snapshot s)"
    by (cases rule: update_snapshot_cases) (simp_all add: reuse_previous_view)
qed

text \<open>A local GNSS sample does not count as a change of the inputs of the radio solution. So when a
  fix comes and goes after a radio solution and no beacon or range arrives, the ticks that follow are
  skipped and the local GNSS result stays published.\<close>

lemma gnss_sample_not_an_input:
  assumes "nav_core_handle_event lm (Some \<lparr>ev_timestamp_ms = n, ev_data = NAV_EVT_LOCAL_GNSS_SAMPLE g\<rparr>) s = Some s'"
    and "\<not> cfg_demo_force_gps_denied (sy_config s)"
  shows "sy_radio_solve_generation s' = sy_radio_solve_generation s"
proof -
  have u: "update_snapshot lm n False (handle_gnss n g s) = Some s'"
    using assms(1) by (simp add: nav_core_handle_event_def Let_def)
  have g: "sy_radio_solve_generation (handle_gnss n g s) = sy_radio_solve_generation s"
    using assms(2) by (simp add: handle_gnss_def local_gnss_can_affect_radio_solution_def Let_def)
  from u show ?thesis
    by (cases rule: update_snapshot_cases)
      (simp_all add: g use_gnss_def reuse_previous_radio_snapshot_def begin_update_def)
qed

lemma skipped_tick_keeps_result:
  assumes "nav_core_tick lm now s = Some s'" and "\<not> local_usable s"
    and "fst (radio_decision lm now (aged_system now s)) \<in>
      {NAV_RADIO_SOLVE_SKIPPED_CADENCE, NAV_RADIO_SOLVE_SKIPPED_UNCHANGED_INPUTS}"
  shows "nav_view (sy_snapshot s') = nav_view (sy_snapshot s)"
proof -
  obtain t where t: "nav_core_tick lm now s = update_snapshot lm now True t" "same_evidence t (aged_system now s)"
    "sy_snapshot t = sy_snapshot s" using tick_before_snapshot by blast
  have "\<not> local_usable t"
    using assms(2) local_usable_cong [OF t(2)] by (simp add: aged_system_def local_usable_def)
  then show ?thesis
    using update_snapshot_holds [of lm now t s'] assms(1,3) t(1,3) radio_decision_cong [OF t(2), of lm now]
    by (auto simp: outcome_holds_def)
qed

section \<open>Ticks that return\<close>

text \<open>A tick is undefined only when it publishes a number that does not round to 64 bits.\<close>

definition publishable :: "nav_trilat_result \<Rightarrow> bool" where
  "publishable r \<longleftrightarrow> llround_32 (dmul (tr_lat_deg r) (Fin 10000000)) \<noteq> None \<and>
     llround_32 (dmul (tr_lon_deg r) (Fin 10000000)) \<noteq> None \<and>
     llround_32 (dmul (tr_residuals_m r ! 0) (Fin 1000)) \<noteq> None \<and>
     llround_32 (dmul (tr_residuals_m r ! 1) (Fin 1000)) \<noteq> None \<and>
     llround_32 (dmul (tr_residuals_m r ! 2) (Fin 1000)) \<noteq> None \<and>
     llround_32 (dmul (fp_abs (tr_max_abs_error_m r)) (Fin 1000)) \<noteq> None"

lemma publish_returns: "publishable r \<Longrightarrow> \<exists>s'. publish_solution n sel alt avg geo r s = Some s'"
  by (auto simp: publishable_def publish_solution_def store_residual_def Let_def)

lemma run_solver_returns:
  assumes "\<And>r. solver_call lm s sel alt = (NAV_TRILAT_OK, r) \<Longrightarrow> publishable r"
  shows "\<exists>s'. run_solver lm n sel alt geo s = Some s'"
proof -
  obtain st r where c: "solver_call lm s sel alt = (st, r)" by fastforce
  then have call: "nav_trilat_solve_3_anchor_altitude lm
     (Some (map (trilat_anchor_of (sy_config s)) (take 3 (sel_anchors sel))))
     (if cfg_ignore_altitude_for_radio_solve (sy_config s) then Fin 0
      else ddiv (fp_of_int binary64 (sint (la_alt_mm alt))) (Fin 1000)) nav_trilat_result_zero = (st, r)"
    by (simp add: solver_call_def)
  let ?s1 = "(log_solve_attempt n sel alt s)\<lparr>sy_last_radio_solve_generation := sy_radio_solve_generation s\<rparr>"
  show ?thesis
  proof (cases "st = NAV_TRILAT_OK")
    case True
    then obtain s2 where "publish_solution n sel alt (average_quality (sel_anchors sel)) geo r ?s1 = Some s2"
      using assms c publish_returns by blast
    then show ?thesis using True by (simp add: run_solver_def Let_def call)
  next
    case False
    then show ?thesis by (simp add: run_solver_def Let_def call)
  qed
qed

lemma attempt_returns:
  assumes "\<And>sel alt r. nav_select_radio_anchors s n = (NAV_STATUS_OK, sel) \<Longrightarrow>
     resolve_local_altitude s n = Some alt \<Longrightarrow> solver_call lm s sel alt = (NAV_TRILAT_OK, r) \<Longrightarrow> publishable r"
  shows "\<exists>s'. attempt_radio_solution lm n previous s = Some s'"
proof -
  obtain st sel where ss: "nav_select_radio_anchors s n = (st, sel)" by fastforce
  have "\<exists>s'. solve_selected lm n previous sel (begin_solve n sel s) = Some s'" if "st = NAV_STATUS_OK"
  proof (cases "resolve_local_altitude s n")
    case None
    then show ?thesis by (simp add: solve_selected_def)
  next
    case (Some alt)
    have "\<exists>s'. run_solver lm n sel alt geo (set_geometry x y (set_altitude_source alt (begin_solve n sel s))) = Some s'"
      for geo x y
      by (rule run_solver_returns) (use assms ss that Some in \<open>simp add: solver_call_def\<close>)
    then show ?thesis by (simp add: solve_selected_def Some Let_def)
  qed
  then show ?thesis by (simp add: attempt_radio_solution_def Let_def ss)
qed

lemma tick_returns_if:
  assumes "\<And>sel alt r. nav_select_radio_anchors (aged_system now s) now = (NAV_STATUS_OK, sel) \<Longrightarrow>
     resolve_local_altitude (aged_system now s) now = Some alt \<Longrightarrow>
     solver_call lm (aged_system now s) sel alt = (NAV_TRILAT_OK, r) \<Longrightarrow> publishable r"
  shows "\<exists>s'. nav_core_tick lm now s = Some s'"
proof -
  obtain t where t: "nav_core_tick lm now s = update_snapshot lm now True t" "same_evidence t (aged_system now s)"
    using tick_before_snapshot by blast
  have e: "same_evidence (begin_update now t) (aged_system now s)"
    using t(2) by (simp add: same_evidence_def begin_update_def)
  have same: "nav_select_radio_anchors (begin_update now t) now = nav_select_radio_anchors (aged_system now s) now"
    "resolve_local_altitude (begin_update now t) now = resolve_local_altitude (aged_system now s) now"
    "solver_call lm (begin_update now t) = solver_call lm (aged_system now s)"
    by (simp_all only: nav_select_radio_anchors_def select_node_cong [OF e])
      (use e in \<open>auto simp: same_evidence_def resolve_local_altitude_def solver_call_def Let_def fun_eq_iff cong: if_cong\<close>)
  have "\<exists>s'. attempt_radio_solution lm now previous (begin_update now t) = Some s'" for previous
    by (rule attempt_returns) (use assms in \<open>auto simp: same\<close>)
  then show ?thesis
    unfolding t(1) update_snapshot_def Let_def begin_update_def [symmetric] by (auto simp: bind_eq_Some_conv)
qed

end
