(* ===== verification/Fp_Eval.thy ===== *)
theory Fp_Eval
  imports Ieee_Float
begin

text \<open>
  Evaluation of closed floating-point terms in integer arithmetic. A finite value is written
  \<open>dy m e\<close>, the number \<open>m * 2 ^ e\<close>; the rules of the collection \<open>dy_eval\<close> compute every operation on
  this form with exact integer products, quotients and comparisons, so that a run of the solver is a
  chain of rewriting steps.
\<close>

named_theorems dy_eval \<open>integer evaluation of floating-point operations\<close>

definition dy :: "int \<Rightarrow> int \<Rightarrow> fp" where
  "dy m e = Fin (of_int m * 2 powi e)"

section \<open>Rounded quotients\<close>

definition rne_frac :: "int \<Rightarrow> int \<Rightarrow> int" where
  "rne_frac a b = (let q = a div b; r = 2 * (a mod b) in
     if r < b then q else if b < r then q + 1 else if even q then q else q + 1)"

lemma rne_frac:
  assumes "0 < b"
  shows "rne (of_int a / of_int b) = rne_frac a b"
proof -
  have f: "\<lfloor>rat_of_int a / of_int b\<rfloor> = a div b" by (rule floor_divide_of_int_eq)
  have "rat_of_int a = of_int b * of_int (a div b) + of_int (a mod b)"
    by (metis mult_div_mod_eq of_int_add of_int_mult)
  then have d: "rat_of_int a / of_int b - of_int (a div b) = of_int (a mod b) / of_int b"
    using assms by (simp add: field_simps)
  have "rat_of_int (a mod b) / of_int b < 1 / 2 \<longleftrightarrow> 2 * (a mod b) < b"
    "1 / 2 < rat_of_int (a mod b) / of_int b \<longleftrightarrow> b < 2 * (a mod b)"
    using assms by (simp_all add: field_simps) (metis of_int_less_iff of_int_mult of_int_numeral)+
  then show ?thesis unfolding rne_def Let_def f d rne_frac_def by presburger
qed

definition bl :: "int \<Rightarrow> int" where
  "bl x = int (floorlog 2 (nat x))"

lemma bl_numeral [dy_eval]:
  "bl (numeral (Num.Bit0 n)) = bl (numeral n) + 1" "bl (numeral (Num.Bit1 n)) = bl (numeral n) + 1" "bl 1 = 1"
proof -
  have "(numeral (Num.Bit0 n) :: nat) div 2 = numeral n" "(numeral (Num.Bit1 n) :: nat) div 2 = numeral n"
    by simp_all
  then show "bl (numeral (Num.Bit0 n)) = bl (numeral n) + 1" "bl (numeral (Num.Bit1 n)) = bl (numeral n) + 1"
    by (simp_all only: bl_def nat_numeral floorlog2_numeral of_nat_Suc)
  show "bl 1 = 1" using floorlog2_small by (simp add: bl_def)
qed

lemma bl_bounds: "0 < x \<Longrightarrow> 2 powi (bl x - 1) \<le> rat_of_int x \<and> rat_of_int x < 2 powi bl x"
proof -
  assume x: "0 < x"
  note b = floorlog2_bounds [of "nat x"]
  have "rat_of_nat (2 ^ (floorlog 2 (nat x) - 1)) \<le> rat_of_nat (nat x)"
    "rat_of_nat (nat x) < rat_of_nat (2 ^ floorlog 2 (nat x))" "0 < floorlog 2 (nat x)"
    using b x by (simp_all only: of_nat_le_iff of_nat_less_iff zero_less_nat_eq)
  then show ?thesis using x
    by (simp add: bl_def power_int_def nat_diff_distrib)
qed

lemma ilog2_eq: "0 < x \<Longrightarrow> 2 powi k \<le> x \<Longrightarrow> x < 2 powi (k + 1) \<Longrightarrow> ilog2 x = k"
proof -
  assume x: "0 < x" "2 powi k \<le> x" "x < 2 powi (k + 1)"
  have "(2 :: rat) powi ilog2 x < 2 powi (k + 1)" "(2 :: rat) powi k < 2 powi (ilog2 x + 1)"
    using ilog2_bounds [OF x(1)] x by linarith+
  then show ?thesis by (simp add: powi_less_iff)
qed

text \<open>The binary exponent of the quotient of two positive integers.\<close>

definition frac_log :: "int \<Rightarrow> int \<Rightarrow> int" where
  "frac_log a b = (let l = bl a - bl b in if b * 2 ^ nat l \<le> a * 2 ^ nat (- l) then l else l - 1)"

lemma powi_split: "(2 :: rat) powi l = of_int (2 ^ nat l) / of_int (2 ^ nat (- l))"
  by (cases "0 \<le> l") (simp_all add: power_int_def field_simps)

lemma ilog2_frac:
  assumes "0 < a" "0 < b"
  shows "ilog2 (of_int a / of_int b * 2 powi e) = frac_log a b + e"
proof -
  define l where "l = bl a - bl b"
  define x where "x = rat_of_int a / of_int b"
  have x: "0 < x" using assms by (simp add: x_def)
  have A: "2 powi (bl a - 1) \<le> rat_of_int a" "rat_of_int a < 2 powi bl a"
    and B: "2 powi (bl b - 1) \<le> rat_of_int b" "rat_of_int b < 2 powi bl b"
    using bl_bounds assms by blast+
  have lo: "2 powi (l - 1) < x"
  proof -
    have "2 powi (l - 1) * rat_of_int b < 2 powi (l - 1) * 2 powi bl b" using B(2) by simp
    also have "\<dots> = 2 powi (bl a - 1)" by (simp add: powi_add [symmetric] l_def)
    finally show ?thesis using A(1) assms by (simp add: x_def field_simps)
  qed
  have hi: "x < 2 powi (l + 1)"
  proof -
    have "2 powi bl a = (2 :: rat) powi (l + 1) * 2 powi (bl b - 1)" by (simp add: powi_add [symmetric] l_def)
    also have "\<dots> \<le> 2 powi (l + 1) * rat_of_int b" using B(1) by simp
    finally show ?thesis using A(2) assms by (simp add: x_def field_simps)
  qed
  have cmp: "2 powi l \<le> x \<longleftrightarrow> b * 2 ^ nat l \<le> a * 2 ^ nat (- l)"
  proof -
    have "2 powi l \<le> x \<longleftrightarrow> rat_of_int (b * 2 ^ nat l) \<le> of_int (a * 2 ^ nat (- l))"
      using assms unfolding powi_split x_def by (simp add: field_simps)
    then show ?thesis by (simp only: of_int_le_iff)
  qed
  have "ilog2 (x * 2 powi e) = (if 2 powi l \<le> x then l else l - 1) + e"
  proof (rule ilog2_eq)
    show "0 < x * 2 powi e" using x by simp
    show "2 powi ((if 2 powi l \<le> x then l else l - 1) + e) \<le> x * 2 powi e"
      using lo by (simp add: powi_add)
    show "x * 2 powi e < 2 powi ((if 2 powi l \<le> x then l else l - 1) + e + 1)"
      using hi by (simp add: powi_add power_int_diff mult.assoc)
  qed
  then show ?thesis unfolding cmp [unfolded x_def] frac_log_def Let_def l_def [symmetric] x_def .
qed

definition rnd_frac :: "int \<Rightarrow> int \<Rightarrow> int \<Rightarrow> int \<Rightarrow> int \<Rightarrow> fp" where
  "rnd_frac p qmin a b e = (let t = max (frac_log \<bar>a\<bar> b + e - (p - 1)) qmin in
     dy (rne_frac (a * 2 ^ nat (e - t)) (b * 2 ^ nat (t - e))) t)"

lemma grid_frac:
  assumes "a \<noteq> 0" "0 < b"
  shows "Fin (grid p qmin (of_int a / of_int b * 2 powi e)) = rnd_frac p qmin a b e"
proof -
  define x where "x = rat_of_int a / of_int b * 2 powi e"
  define t where "t = max (frac_log \<bar>a\<bar> b + e - (p - 1)) qmin"
  have x: "x \<noteq> 0" using assms by (simp add: x_def)
  have "\<bar>x\<bar> = of_int \<bar>a\<bar> / of_int b * 2 powi e" using assms by (simp add: x_def abs_mult)
  then have "ilog2 \<bar>x\<bar> = frac_log \<bar>a\<bar> b + e" using ilog2_frac [of "\<bar>a\<bar>" b e] assms by simp
  then have q: "quantum p qmin x = 2 powi t" by (simp add: quantum_def t_def)
  have "x / 2 powi t = rat_of_int a / of_int b * 2 powi (e - t)"
    by (simp add: x_def power_int_diff)
  also have "\<dots> = of_int (a * 2 ^ nat (e - t)) / of_int (b * 2 ^ nat (t - e))"
    unfolding powi_split [of "e - t"] by simp
  finally have "rne (x / 2 powi t) = rne_frac (a * 2 ^ nat (e - t)) (b * 2 ^ nat (t - e))"
    using rne_frac [of "b * 2 ^ nat (t - e)" "a * 2 ^ nat (e - t)"] assms by (simp only: zero_less_mult_iff) simp
  then show ?thesis
    unfolding rnd_frac_def Let_def t_def [symmetric] dy_def x_def [symmetric] using x
    by (simp add: grid_def q)
qed

lemma fp_rnd_in_range: "\<bar>grid (fmt_prec f) (fmt_qmin f) x\<bar> \<le> fmt_max f \<Longrightarrow> fp_rnd f x = Fin (grid (fmt_prec f) (fmt_qmin f) x)"
  by (auto simp: fp_rnd_def fp_pack_def)

lemma grid_abs_bound:
  assumes "x \<noteq> 0" "ilog2 \<bar>x\<bar> \<le> L" "0 \<le> L" "qmin \<le> 0" "1 \<le> p"
  shows "\<bar>grid p qmin x\<bar> \<le> 2 powi (L + 2)"
proof -
  have "\<bar>x\<bar> < 2 powi (ilog2 \<bar>x\<bar> + 1)" using ilog2_bounds [of "\<bar>x\<bar>"] assms(1) by simp
  also have "\<dots> \<le> 2 powi (L + 1)" using assms(2) by (simp add: powi_le_iff)
  finally have "\<bar>x\<bar> \<le> 2 powi (L + 1)" by simp
  moreover have "quantum p qmin x \<le> 2 powi (L + 1)" using assms by (simp add: quantum_def powi_le_iff)
  moreover have "2 powi (L + 2) = (2 :: rat) * 2 powi (L + 1)" using powi_add [of "L + 1" 1] by (simp add: add.assoc)
  ultimately show ?thesis using grid_error [of p qmin x] quantum_pos [of p qmin x] by linarith
qed

text \<open>The rounded quotient in the two formats; outside the range of the rule the definition stays.\<close>

definition rnd64 :: "int \<Rightarrow> int \<Rightarrow> int \<Rightarrow> fp" where
  "rnd64 a b e = fp_rnd binary64 (of_int a / of_int b * 2 powi e)"

definition rnd32 :: "int \<Rightarrow> int \<Rightarrow> int \<Rightarrow> fp" where
  "rnd32 a b e = fp_rnd binary32 (of_int a / of_int b * 2 powi e)"

lemma rnd_frac_zero [dy_eval]: "rnd64 0 b e = dy 0 0" "rnd32 0 b e = dy 0 0"
  using fmt_max_binary64 by (simp_all add: rnd64_def rnd32_def dy_def)

lemma rnd64_eval:
  assumes "a \<noteq> 0" "0 < b" "frac_log \<bar>a\<bar> b + e \<le> 900"
  shows "rnd64 a b e = rnd_frac 53 (-1074) a b e"
proof -
  define x where "x = rat_of_int a / of_int b * 2 powi e"
  have x: "x \<noteq> 0" using assms by (simp add: x_def)
  have "\<bar>x\<bar> = of_int \<bar>a\<bar> / of_int b * 2 powi e" using assms by (simp add: x_def abs_mult)
  then have "ilog2 \<bar>x\<bar> \<le> 900" using ilog2_frac [of "\<bar>a\<bar>" b e] assms by simp
  from grid_abs_bound [OF x this, of "-1074" 53] have "\<bar>grid 53 (-1074) x\<bar> \<le> 2 powi 902" by simp
  also have "(2 :: rat) powi 902 \<le> 2 ^ 1000" using powi_le_iff [of 902 1000] by (simp add: power_int_def)
  also note fmt_max_binary64
  finally have "fp_rnd binary64 x = Fin (grid 53 (-1074) x)" using fp_rnd_in_range [of binary64 x] by simp
  then show ?thesis using grid_frac [OF assms(1,2), of 53 "-1074" e] by (simp add: rnd64_def x_def)
qed

lemma rnd32_eval:
  assumes "a \<noteq> 0" "0 < b" "frac_log \<bar>a\<bar> b + e \<le> 100"
  shows "rnd32 a b e = rnd_frac 24 (-149) a b e"
proof -
  define x where "x = rat_of_int a / of_int b * 2 powi e"
  have x: "x \<noteq> 0" using assms by (simp add: x_def)
  have "\<bar>x\<bar> = of_int \<bar>a\<bar> / of_int b * 2 powi e" using assms by (simp add: x_def abs_mult)
  then have "ilog2 \<bar>x\<bar> \<le> 100" using ilog2_frac [of "\<bar>a\<bar>" b e] assms by simp
  from grid_abs_bound [OF x this, of "-149" 24] have "\<bar>grid 24 (-149) x\<bar> \<le> 2 powi 102" by simp
  also have "(2 :: rat) powi 102 \<le> fmt_max binary32" by (simp add: power_int_def)
  finally have "fp_rnd binary32 x = Fin (grid 24 (-149) x)" using fp_rnd_in_range [of binary32 x] by simp
  then show ?thesis using grid_frac [OF assms(1,2), of 24 "-149" e] by (simp add: rnd32_def x_def)
qed

section \<open>Operations on integers times powers of two\<close>

definition al :: "int \<Rightarrow> int \<Rightarrow> int \<Rightarrow> int" where
  "al m i j = m * 2 ^ nat (i - j)"

lemma dy_common: "j \<le> i \<Longrightarrow> rat_of_int m * 2 powi i = of_int (al m i j) * 2 powi j"
  using powi_add [of "i - j" j] by (simp add: al_def power_int_def)

lemma dy_add [dy_eval]:
  "fp_add binary64 (dy a i) (dy b j) = (let k = min i j in rnd64 (al a i k + al b j k) 1 k)"
  using dy_common [of "min i j" i a] dy_common [of "min i j" j b]
  by (simp add: dy_def rnd64_def Let_def distrib_right)

lemma dy_mul [dy_eval]: "fp_mul binary64 (dy a i) (dy b j) = rnd64 (a * b) 1 (i + j)"
  "fp_mul binary32 (dy a i) (dy b j) = rnd32 (a * b) 1 (i + j)"
  by (simp_all add: dy_def rnd64_def rnd32_def powi_add mult_ac)

lemma dy_div [dy_eval]:
  "0 < b \<Longrightarrow> fp_div binary64 (dy a i) (dy b j) = rnd64 a b (i - j)"
  "0 < b \<Longrightarrow> fp_div binary32 (dy a i) (dy b j) = rnd32 a b (i - j)"
  by (simp_all add: dy_def rnd64_def rnd32_def power_int_diff)

lemma dy_neg [dy_eval]: "fp_neg (dy a i) = dy (- a) i" "fp_abs (dy a i) = dy \<bar>a\<bar> i"
  by (simp_all add: dy_def abs_mult)

lemma dy_sub [dy_eval]: "fp_sub binary64 (dy a i) (dy b j) = fp_add binary64 (dy a i) (dy (- b) j)"
  "fp_sub binary32 (dy a i) (dy b j) = fp_add binary32 (dy a i) (dy (- b) j)"
  by (simp_all add: fp_sub_def dy_neg)

lemma dy_add32 [dy_eval]:
  "fp_add binary32 (dy a i) (dy b j) = (let k = min i j in rnd32 (al a i k + al b j k) 1 k)"
  using dy_common [of "min i j" i a] dy_common [of "min i j" j b]
  by (simp add: dy_def rnd32_def Let_def distrib_right)

lemma dy_compare [dy_eval]:
  "fp_lt (dy a i) (dy b j) \<longleftrightarrow> (let k = min i j in al a i k < al b j k)"
  "fp_le (dy a i) (dy b j) \<longleftrightarrow> (let k = min i j in al a i k \<le> al b j k)"
  "fp_eq (dy a i) (dy b j) \<longleftrightarrow> (let k = min i j in al a i k = al b j k)"
  using dy_common [of "min i j" i a] dy_common [of "min i j" j b]
  by (simp_all add: dy_def Let_def)

lemma dy_class [dy_eval]: "fp_isfinite (dy a i)" "dy a i \<noteq> NaN" "NaN \<noteq> dy a i"
  by (simp_all add: dy_def)

lemma dy_minmax [dy_eval]:
  "fp_fmax (dy a i) (dy b j) = (if fp_lt (dy a i) (dy b j) then dy b j else dy a i)"
  "fp_fmin (dy a i) (dy b j) = (if fp_lt (dy b j) (dy a i) then dy b j else dy a i)"
  by (simp_all add: fp_fmax_def fp_fmin_def dy_class)

lemma dy_conversions [dy_eval]:
  "fp_of_int binary64 n = rnd64 n 1 0" "fp_of_int binary32 n = rnd32 n 1 0" "fp_cvt binary32 (dy a i) = rnd32 a 1 i"
  by (simp_all add: fp_of_int_def rnd64_def rnd32_def dy_def)

lemma dy_fmod [dy_eval]:
  assumes "0 \<le> a" "0 < b"
  shows "fp_fmod (dy a i) (dy b j) = (let k = min i j in dy (al a i k mod al b j k) k)"
proof -
  define k A B where "k = min i j" and "A = al a i k" and "B = al b j k"
  have a: "dy a i = dy A k" "dy b j = dy B k"
    using dy_common [of k i a] dy_common [of k j b] by (simp_all add: dy_def k_def A_def B_def)
  have B: "0 < B" "0 \<le> A" using assms by (simp_all add: A_def B_def al_def)
  have "rat_of_int A * 2 powi k / (of_int B * 2 powi k) = of_int A / of_int B" by simp
  moreover have "0 \<le> rat_of_int A / of_int B" using B by simp
  ultimately have "rat_trunc (rat_of_int A * 2 powi k / (of_int B * 2 powi k)) = A div B"
    by (simp add: rat_trunc_def floor_divide_of_int_eq)
  then have "fp_fmod (dy A k) (dy B k) = Fin ((of_int A - of_int B * of_int (A div B)) * 2 powi k)"
    using B by (simp add: dy_def left_diff_distrib)
  also have "rat_of_int A - of_int B * of_int (A div B) = of_int (A mod B)"
    by (metis minus_mult_div_eq_mod of_int_diff of_int_mult)
  finally have "fp_fmod (dy A k) (dy B k) = dy (A mod B) k" by (simp only: dy_def)
  then show ?thesis unfolding a Let_def k_def [symmetric] A_def [symmetric] B_def [symmetric] .
qed

definition scaled_round :: "int \<Rightarrow> int \<Rightarrow> int" where
  "scaled_round m e = (let K = 2 ^ nat (- e); r = (2 * (\<bar>m\<bar> * 2 ^ nat e) + K) div (2 * K) in if m < 0 then - r else r)"

definition scaled_trunc :: "int \<Rightarrow> int \<Rightarrow> int" where
  "scaled_trunc m e = (let r = (\<bar>m\<bar> * 2 ^ nat e) div 2 ^ nat (- e) in if m < 0 then - r else r)"

lemma scaled_parts:
  fixes m e :: int
  defines "v \<equiv> rat_of_int m * 2 powi e"
  shows "rat_round_away v = scaled_round m e" "rat_trunc v = scaled_trunc m e"
proof -
  define K M where "K = (2 :: int) ^ nat (- e)" and "M = \<bar>m\<bar> * 2 ^ nat e"
  have K: "0 < K" by (simp add: K_def)
  have "\<bar>v\<bar> = rat_of_int \<bar>m\<bar> * 2 powi e" by (simp add: v_def abs_mult)
  also have "\<dots> = of_int M / of_int K" unfolding powi_split [of e] by (simp add: M_def K_def)
  finally have v: "\<bar>v\<bar> = of_int M / of_int K" .
  have "\<bar>v\<bar> + 1 / 2 = of_int (2 * M + K) / of_int (2 * K)" using K unfolding v by (simp add: field_simps)
  then have f: "\<lfloor>\<bar>v\<bar> + 1 / 2\<rfloor> = (2 * M + K) div (2 * K)" by (simp only: floor_divide_of_int_eq)
  have g: "\<lfloor>\<bar>v\<bar>\<rfloor> = M div K" unfolding v by (simp only: floor_divide_of_int_eq)
  have "v < 0 \<longleftrightarrow> rat_of_int m < 0"
    using mult_less_cancel_right_pos [OF powi_pos [of e], of "rat_of_int m" 0] by (simp add: v_def)
  then have s: "v < 0 \<longleftrightarrow> m < 0" by simp
  show "rat_round_away v = scaled_round m e"
    using f s unfolding scaled_round_def Let_def K_def [symmetric] M_def [symmetric] by (auto simp: rat_round_away_def)
  show "rat_trunc v = scaled_trunc m e"
    using g s unfolding scaled_trunc_def Let_def K_def [symmetric] M_def [symmetric] by (auto simp: rat_trunc_def)
qed

lemmas [dy_eval] = scaled_round_def scaled_trunc_def

lemma dy_llround [dy_eval]: "fp_llround (dy m e) = (let n = scaled_round m e in
    if - (2 ^ 63) \<le> n \<and> n < 2 ^ 63 then Some n else None)"
  by (simp only: dy_def fp_llround.simps scaled_parts)

lemma dy_to_int [dy_eval]: "fp_to_int lo hi (dy m e) = (let n = scaled_trunc m e in
    if lo \<le> n \<and> n \<le> hi then Some n else None)"
  by (simp only: dy_def fp_to_int.simps scaled_parts)

lemma dy_round [dy_eval]: "fp_round (dy m e) = dy (scaled_round m e) 0"
  by (simp only: dy_def fp_round.simps scaled_parts power_int_0_right mult_1_right)

text \<open>The integer below the square root of a scaled integer and the comparison with the midpoint.\<close>

lemma dy_sqrt [dy_eval]:
  assumes "0 < m"
  shows "fp_sqrt binary64 (dy m e) = (let k = max ((bl m - 1 + e) div 2 - 52) (-1074);
     u = m * 2 ^ nat (e - 2 * k); v = 2 ^ nat (2 * k - e); n = int (isqrt (nat (u div v)));
     mid = (4 * (n * n + n) + 1) * v in
     dy (if 4 * u < mid then n else if mid < 4 * u then n + 1 else if even n then n else n + 1) k)"
proof -
  define a where "a = rat_of_int m * 2 powi e"
  define k where "k = max ((bl m - 1 + e) div 2 - 52) (-1074)"
  define u v where "u = m * 2 ^ nat (e - 2 * k)" and "v = (2 :: int) ^ nat (2 * k - e)"
  define q where "q = (2 :: rat) powi k"
  have a: "0 < a" using assms by (simp add: a_def)
  have v: "0 < v" by (simp add: v_def)
  have "ilog2 a = bl m - 1 + e"
  proof (rule ilog2_eq [OF a])
    show "2 powi (bl m - 1 + e) \<le> a" using bl_bounds [OF assms] unfolding a_def powi_add by simp
    have "bl m - 1 + e + 1 = bl m + e" by simp
    then show "a < 2 powi (bl m - 1 + e + 1)"
      using bl_bounds [OF assms] unfolding a_def by (simp only: powi_add) simp
  qed
  then have ex: "sqrt_exp binary64 a = k" by (simp add: sqrt_exp_def k_def)
  have "q * q = 2 powi (2 * k)" by (simp only: q_def mult_2 powi_add)
  then have "a / (q * q) = rat_of_int m * 2 powi (e - 2 * k)" by (simp add: a_def power_int_diff)
  also have "\<dots> = of_int u / of_int v"
    unfolding powi_split [of "e - 2 * k"] by (simp add: u_def v_def)
  finally have t: "a / (q * q) = of_int u / of_int v" .
  define n where "n = isqrt (nat (u div v))"
  have fl: "\<lfloor>rat_of_int u / of_int v\<rfloor> = u div v" by (rule floor_divide_of_int_eq)
  define mid where "mid = (4 * (int n * int n + int n) + 1) * v"
  have "rat_of_int mid = 4 * (of_nat (n ^ 2 + n) + 1 / 4) * of_int v"
    by (simp add: mid_def power2_eq_square algebra_simps)
  moreover have quot: "U / V < M \<longleftrightarrow> 4 * U < 4 * M * V" "M < U / V \<longleftrightarrow> 4 * M * V < 4 * U"
    if "0 < V" for U V M :: rat
    using that by (simp_all add: field_simps)
  ultimately have c: "rat_of_int u / of_int v < of_nat (n ^ 2 + n) + 1 / 4 \<longleftrightarrow> 4 * u < mid"
    "of_nat (n ^ 2 + n) + 1 / 4 < rat_of_int u / of_int v \<longleftrightarrow> mid < 4 * u"
  proof -
    assume m: "rat_of_int mid = 4 * (of_nat (n ^ 2 + n) + 1 / 4) * of_int v"
    have "4 * u < mid \<longleftrightarrow> rat_of_int (4 * u) < of_int mid" "mid < 4 * u \<longleftrightarrow> rat_of_int mid < of_int (4 * u)"
      by (simp_all only: of_int_less_iff)
    then show "rat_of_int u / of_int v < of_nat (n ^ 2 + n) + 1 / 4 \<longleftrightarrow> 4 * u < mid"
      "of_nat (n ^ 2 + n) + 1 / 4 < rat_of_int u / of_int v \<longleftrightarrow> mid < 4 * u"
      using quot(1) [of "rat_of_int v" "rat_of_int u" "of_nat (n ^ 2 + n) + 1 / 4"]
        quot(2) [of "rat_of_int v" "of_nat (n ^ 2 + n) + 1 / 4" "rat_of_int u"] v unfolding m by simp_all
  qed
  have "fp_sqrt binary64 (Fin a) = Fin (of_nat (if 4 * u < mid then n else if mid < 4 * u then n + 1
        else if even n then n else n + 1) * q)"
    using a by (simp only: fp_sqrt.simps ex q_def [symmetric] t fl Let_def n_def [symmetric] c) simp
  also have "\<dots> = dy (if 4 * u < mid then int n else if mid < 4 * u then int n + 1
        else if even (int n) then int n else int n + 1) k"
    by (simp add: dy_def q_def)
  finally show ?thesis
    unfolding Let_def k_def [symmetric] u_def [symmetric] v_def [symmetric] n_def [symmetric] mid_def [symmetric]
    by (simp add: dy_def a_def)
qed

lemma dy_sqrt_0 [dy_eval]: "fp_sqrt binary64 (dy 0 e) = dy 0 0"
  by (simp add: dy_def)

section \<open>Rounding an integer by shifting\<close>

definition rne_shift :: "int \<Rightarrow> nat \<Rightarrow> int" where
  "rne_shift a k = (let h = drop_bit k a; q = drop_bit (Suc 0) h in
     if even h then q else if even q then (if h * 2 ^ k = a then q else q + 1) else q + 1)"

lemma rne_shift: "rne_frac a (2 ^ Suc k) = rne_shift a k"
proof -
  define h q r where "h = a div 2 ^ k" and "q = h div 2" and "r = a mod 2 ^ k"
  have a: "a = h * 2 ^ k + r" "0 \<le> r" "r < 2 ^ k" unfolding h_def r_def by (simp_all only: div_mult_mod_eq) simp_all
  have q: "a div 2 ^ Suc k = q" unfolding q_def h_def power_Suc2 by (simp add: zdiv_zmult2_eq del: power_Suc)
  have "h = 2 * q + h mod 2" by (simp add: q_def)
  then have "h * 2 ^ k = (2 * q + h mod 2) * 2 ^ k" by simp
  then have "a = q * 2 ^ Suc k + ((h mod 2) * 2 ^ k + r)" using a(1) by (simp add: distrib_right)
  moreover have "a = q * 2 ^ Suc k + a mod 2 ^ Suc k" using q by (metis div_mult_mod_eq)
  ultimately have m: "a mod 2 ^ Suc k = (h mod 2) * 2 ^ k + r" by linarith
  show ?thesis
  proof (cases "even h")
    case True
    then show ?thesis using a m q
      by (simp add: rne_frac_def rne_shift_def Let_def drop_bit_eq_div q_def h_def [symmetric])
  next
    case False
    then have "h mod 2 = 1" by presburger
    then show ?thesis using a False m q
      by (auto simp: rne_frac_def rne_shift_def Let_def drop_bit_eq_div q_def h_def [symmetric])
  qed
qed

definition rnd_int :: "int \<Rightarrow> int \<Rightarrow> int \<Rightarrow> int \<Rightarrow> fp" where
  "rnd_int p qmin a e = (let s = max (bl a + e - p) qmin - e in
     if s \<le> 0 then dy a e else dy (rne_shift a (nat (s - 1))) (e + s))"

lemma frac_log_1: "0 < a \<Longrightarrow> frac_log a 1 = bl a - 1"
proof -
  assume a: "0 < a"
  have l: "0 \<le> bl a - 1" using bl_bounds [OF a] a by (auto simp: bl_def floorlog_def)
  have "rat_of_int (2 ^ nat (bl a - 1)) \<le> of_int a" "rat_of_int a < of_int (2 ^ nat (bl a))"
    using bl_bounds [OF a] l by (simp_all add: power_int_def)
  then have "2 ^ nat (bl a - 1) \<le> a" "a < 2 ^ nat (bl a)" by (simp_all only: of_int_le_iff of_int_less_iff)
  then show ?thesis using l by (simp add: frac_log_def Let_def bl_numeral(3))
qed

lemma rnd_frac_int:
  assumes "0 < a"
  shows "rnd_frac p qmin a 1 e = rnd_int p qmin a e"
proof -
  define t where "t = max (bl a + e - p) qmin"
  have f: "max (frac_log \<bar>a\<bar> 1 + e - (p - 1)) qmin = t" using assms frac_log_1 [OF assms] by (simp add: t_def algebra_simps)
  show ?thesis
  proof (cases "t \<le> e")
    case True
    have "rne_frac (a * 2 ^ nat (e - t)) 1 = a * 2 ^ nat (e - t)" by (simp add: rne_frac_def)
    then have "rnd_frac p qmin a 1 e = dy (a * 2 ^ nat (e - t)) t"
      using True by (simp add: rnd_frac_def f Let_def)
    also have "\<dots> = dy a e" using dy_common [OF True, of a] by (simp only: dy_def al_def)
    finally show ?thesis using True by (simp add: rnd_int_def t_def [symmetric] Let_def)
  next
    case False
    then have "nat (t - e) = Suc (nat (t - e - 1))" "nat (e - t) = 0" by linarith+
    then have "rnd_frac p qmin a 1 e = dy (rne_shift a (nat (t - e - 1))) t"
      by (simp only: rnd_frac_def f Let_def rne_shift power_0 mult_1 mult_1_right)
    moreover have "\<not> t - e \<le> 0" "e + (t - e) = t" using False by simp_all
    ultimately show ?thesis by (simp only: rnd_int_def t_def [symmetric] Let_def if_False)
  qed
qed

lemma rnd_int_eval [dy_eval]:
  "bl (numeral n) + e \<le> 900 \<Longrightarrow> rnd64 (numeral n) 1 e = rnd_int 53 (-1074) (numeral n) e"
  "bl (numeral n) + e \<le> 100 \<Longrightarrow> rnd32 (numeral n) 1 e = rnd_int 24 (-149) (numeral n) e"
  "e \<le> 800 \<Longrightarrow> rnd64 1 1 e = rnd_int 53 (-1074) 1 e"
  "e \<le> 90 \<Longrightarrow> rnd32 1 1 e = rnd_int 24 (-149) 1 e"
  using frac_log_1 [of "numeral n"] frac_log_1 [of 1]
  by (simp_all add: rnd64_eval rnd32_eval rnd_frac_int bl_numeral(3))

lemma rnd_frac_eval:
  "rnd_frac p qmin a b e = (let t = max (frac_log \<bar>a\<bar> b + e - (p - 1)) qmin in
     dy (rne_frac (a * 2 ^ nat (e - t)) (b * 2 ^ nat (t - e))) t)"
  by (simp only: rnd_frac_def)

lemma grid_neg: "fp_rnd f (- x) = fp_neg (fp_rnd f x)" if "0 \<le> fmt_max f"
  using that by (simp add: fp_rnd_def fp_pack_def grid_minus)

lemma rnd_neg [dy_eval]:
  "rnd64 (- numeral n) b e = fp_neg (rnd64 (numeral n) b e)" "rnd64 (- 1) b e = fp_neg (rnd64 1 b e)"
  "rnd32 (- numeral n) b e = fp_neg (rnd32 (numeral n) b e)" "rnd32 (- 1) b e = fp_neg (rnd32 1 b e)"
proof -
  have "0 \<le> fmt_max binary64" using fmt_max_binary64 by (meson order_trans zero_le_numeral zero_le_power)
  then show "rnd64 (- numeral n) b e = fp_neg (rnd64 (numeral n) b e)" "rnd64 (- 1) b e = fp_neg (rnd64 1 b e)"
    "rnd32 (- numeral n) b e = fp_neg (rnd32 (numeral n) b e)" "rnd32 (- 1) b e = fp_neg (rnd32 1 b e)"
    by (simp_all add: rnd64_def rnd32_def grid_neg [symmetric])
qed

text \<open>The rules for quotients apply to a proper denominator.\<close>

lemma rnd_quot_eval [dy_eval]:
  assumes "0 < a"
  shows "frac_log a (numeral b) + e \<le> 900 \<Longrightarrow> rnd64 a (numeral b) e = rnd_frac 53 (-1074) a (numeral b) e"
    "frac_log a (numeral b) + e \<le> 100 \<Longrightarrow> rnd32 a (numeral b) e = rnd_frac 24 (-149) a (numeral b) e"
  using assms by (simp_all add: rnd64_eval rnd32_eval)

lemma rne_frac_eval [dy_eval]: "rne_frac a b = (let q = a div b; r = 2 * (a - q * b) in
     if r < b then q else if b < r then q + 1 else if even q then q else q + 1)"
  by (simp only: rne_frac_def minus_div_mult_eq_mod Let_def)

lemmas [dy_eval] = rnd_int_def rne_shift_def rnd_frac_eval frac_log_def al_def isqrt_numeral

text \<open>The canonical form has an odd integer.\<close>

lemma dy_even: "dy (2 * m) e = dy m (e + 1)"
  by (simp add: dy_def powi_add)

lemma dy_canonical [dy_eval]:
  "dy (numeral (Num.Bit0 n)) e = dy (numeral n) (e + 1)"
  "dy (- numeral (Num.Bit0 n)) e = dy (- numeral n) (e + 1)"
  using dy_even [of "numeral n" e] dy_even [of "- numeral n" e] by simp_all

lemma dy_zero [dy_eval]: "dy 0 (numeral n) = dy 0 0" "dy 0 (- numeral n) = dy 0 0" "dy 0 1 = dy 0 0" "dy 0 (- 1) = dy 0 0"
  by (simp_all add: dy_def)

lemma fin_dy [dy_eval]:
  "Fin (numeral n) = dy (numeral n) 0" "Fin 0 = dy 0 0" "Fin 1 = dy 1 0"
  "Fin (- numeral n) = dy (- numeral n) 0" "Fin (- 1) = dy (- 1) 0" "Fin (1 / 2) = dy 1 (- 1)"
  by (simp_all add: dy_def power_int_minus)

lemma literal64 [dy_eval]:
  "fp_rnd binary64 (numeral a / numeral b) = rnd64 (numeral a) (numeral b) 0"
  "fp_rnd binary64 (1 / numeral b) = rnd64 1 (numeral b) 0"
  by (simp_all add: rnd64_def)

lemma literal32 [dy_eval]:
  "fp_rnd binary32 (numeral a / numeral b) = rnd32 (numeral a) (numeral b) 0"
  "fp_rnd binary32 (1 / numeral b) = rnd32 1 (numeral b) 0"
  by (simp_all add: rnd32_def)

end
