(* ===== verification/Nav_Trilateration_Run.thy ===== *)
theory Nav_Trilateration_Run
  imports Nav_Trilateration Fp_Eval
begin

text \<open>
  A complete run of the solver, evaluated step by step with the integer rules of \<^verbatim>\<open>Fp_Eval\<close>: three
  anchors, a target altitude of 180 m and a coarse mathematics library. It ends with a solution after
  one iteration, so the contract of the solver is not about error codes only.
\<close>

definition run_libm :: libm where
  "run_libm = \<lparr>lm_sin = (\<lambda>x. if fp_lt (Fin 1) x then Fin (1 / 1024)
       else if fp_lt x (Fin (- 1)) then Fin (- 1 / 1024) else Fin 0),
     lm_cos = (\<lambda>x. Fin 1), lm_atan2 = (\<lambda>y x. Fin 0), lm_hypot = (\<lambda>x y. Fin (1 / 1125899906842624))\<rparr>"

lemma run_consts [dy_eval]:
  "Fin (1 / 1024) = dy 1 (- 10)" "Fin (- 1 / 1024) = dy (- 1) (- 10)" "Fin (1 / 1125899906842624) = dy 1 (- 50)"
  "Fin (- (1 / 1024)) = dy (- 1) (- 10)"
  by (simp_all add: dy_def power_int_minus)

lemma run_libm_eval [dy_eval]:
  "lm_sin run_libm (dy m e) = (if fp_lt (dy 1 0) (dy m e) then dy 1 (- 10)
     else if fp_lt (dy m e) (dy (- 1) 0) then dy (- 1) (- 10) else dy 0 0)"
  "lm_cos run_libm x = dy 1 0" "lm_atan2 run_libm y x = dy 0 0" "lm_hypot run_libm y x = dy 1 (- 50)"
  by (simp_all only: run_libm_def libm.simps dy_eval)

lemma run_constants [dy_eval]:
  "WGS84_A_M = dy 6378137 0" "WGS84_F = dy 966381879065637 (- 58)" "WGS84_E2 = dy 482380915665231 (- 56)"
  "DEG_TO_RAD = dy 5030569068109113 (- 58)" "RAD_TO_DEG = dy 1007958012753983 (- 44)"
proof -
  show "WGS84_A_M = dy 6378137 0" by (simp add: WGS84_A_M_def dy_eval)
  show f: "WGS84_F = dy 966381879065637 (- 58)" by (simp add: WGS84_F_def dy_eval)
  show "WGS84_E2 = dy 482380915665231 (- 56)" by (simp add: WGS84_E2_def f dy_eval)
  show "DEG_TO_RAD = dy 5030569068109113 (- 58)" by (simp add: NAV_TRILAT_PI_def DEG_TO_RAD_def dy_eval)
  show "RAD_TO_DEG = dy 1007958012753983 (- 44)" by (simp add: NAV_TRILAT_PI_def RAD_TO_DEG_def dy_eval)
qed

definition run_anchors :: "nav_trilat_anchor list" where
  "run_anchors = [\<lparr>ta_lat_deg = Fin (- 90), ta_lon_deg = Fin (- 90), ta_alt_m = Fin 180,
       ta_distance_m = Fin 8779, ta_node_id = 1\<rparr>,
     \<lparr>ta_lat_deg = Fin 90, ta_lon_deg = Fin 0, ta_alt_m = Fin 180, ta_distance_m = Fin 6187, ta_node_id = 2\<rparr>,
     \<lparr>ta_lat_deg = Fin 0, ta_lon_deg = Fin 90, ta_alt_m = Fin 180, ta_distance_m = Fin 6229, ta_node_id = 3\<rparr>]"

lemma run_points [dy_eval]:
  "geodetic_to_ecef run_libm (dy (- 45) 1) (dy (- 45) 1) (dy 45 2) =
     \<lparr>v_x = dy 856083218936427 (- 27), v_y = dy (- 856083218936427) (- 37), v_z = dy (- 3401409737185953) (- 39)\<rparr>"
  "geodetic_to_ecef run_libm (dy 45 1) (dy 0 0) (dy 45 2) =
     \<lparr>v_x = dy 856083218936427 (- 27), v_y = dy 0 0, v_z = dy 3401409737185953 (- 39)\<rparr>"
  "geodetic_to_ecef run_libm (dy 0 0) (dy 45 1) (dy 45 2) =
     \<lparr>v_x = dy 6378317 0, v_y = dy 6378317 (- 10), v_z = dy 0 0\<rparr>"
  by (simp_all add: geodetic_to_ecef_def vec3_def dy_eval)

text \<open>Near the equator and the prime meridian the sines of this library are zero.\<close>

lemma run_origin:
  assumes "lm_sin run_libm (dmul lat DEG_TO_RAD) = dy 0 0" "lm_sin run_libm (dmul lon DEG_TO_RAD) = dy 0 0"
  shows "geodetic_to_ecef run_libm lat lon (dy 45 2) = \<lparr>v_x = dy 6378317 0, v_y = dy 0 0, v_z = dy 0 0\<rparr>"
  unfolding geodetic_to_ecef_def assms vec3_def run_libm_eval Let_def
  by (simp add: dy_eval)

lemma run_mean [dy_eval]: "mean_of ta_lat_deg run_anchors = dy 0 0" "mean_of ta_lon_deg run_anchors = dy 0 0"
  "mean_of ta_alt_m run_anchors = dy 45 2"
  by (simp_all add: mean_of_def run_anchors_def dy_eval)

text \<open>The anchors in the tangent plane at their mean.\<close>

definition run_enu :: "nav_vec3 list" where
  "run_enu = [\<lparr>v_x = dy (- 856083218936427) (- 37), v_y = dy (- 3401409737185953) (- 39), v_z = dy 2732651 (- 27)\<rparr>,
     \<lparr>v_x = dy 0 0, v_y = dy 3401409737185953 (- 39), v_z = dy 2732651 (- 27)\<rparr>,
     \<lparr>v_x = dy 6378317 (- 10), v_y = dy 0 0, v_z = dy 0 0\<rparr>]"

lemma run_enu:
  "map (anchor_enu run_libm (ecef_to_enu_matrix run_libm (dy 0 0) (dy 0 0))
     (geodetic_to_ecef run_libm (dy 0 0) (dy 0 0) (dy 45 2))) run_anchors = run_enu"
  by (simp add: dy_eval run_origin run_anchors_def run_enu_def anchor_enu_def apply_rot_def dot3_def vec_sub_def
      vec3_def ecef_to_enu_matrix_def Let_def)

text \<open>The condition number from the points, and from their second moments.\<close>

definition moments_condition :: "fp \<Rightarrow> fp \<Rightarrow> fp \<Rightarrow> fp" where
  "moments_condition sxx sxy syy =
     (let tr = dadd sxx syy;
          disc = dsqrt (fp_fmax (Fin 0) (dadd (dmul (dsub sxx syy) (dsub sxx syy))
            (dmul (dmul (Fin 4) sxy) sxy)));
          lambda_min = dmul (Fin (1 / 2)) (dsub tr disc);
          lambda_max = dmul (Fin (1 / 2)) (dadd tr disc)
      in if fp_lt lambda_min (dlit (1 / 10 ^ 12)) then PInf else dsqrt (ddiv lambda_max lambda_min))"

definition moment_of :: "(nav_vec3 \<Rightarrow> fp) \<Rightarrow> (nav_vec3 \<Rightarrow> fp) \<Rightarrow> nav_vec3 list \<Rightarrow> fp" where
  "moment_of f g points = foldl (\<lambda>acc p. dadd acc (dmul (dsub (f p) (mean_of f points)) (dsub (g p) (mean_of g points))))
     (Fin 0) points"

lemma geometry_split:
  "geometry_condition lm anchors = (let points = map (anchor_enu lm
       (ecef_to_enu_matrix lm (mean_of ta_lat_deg anchors) (mean_of ta_lon_deg anchors))
       (geodetic_to_ecef lm (mean_of ta_lat_deg anchors) (mean_of ta_lon_deg anchors) (mean_of ta_alt_m anchors))) anchors
     in moments_condition (moment_of v_x v_x points) (moment_of v_x v_y points) (moment_of v_y v_y points))"
  by (simp only: geometry_condition_def moments_condition_def moment_of_def Let_def)

lemma run_means [dy_eval]: "mean_of v_x run_enu = dy (- 14574139) (- 41)" "mean_of v_y run_enu = dy 0 0"
  by (simp_all add: mean_of_def run_enu_def dy_eval)

lemma run_moments:
  "moment_of v_x v_x run_enu = dy 5207414768940863 (- 26)"
  "moment_of v_x v_y run_enu = dy 2586277678002219 (- 26)"
  "moment_of v_y v_y run_enu = dy 321120580132989 (- 22)"
  unfolding moment_of_def run_means by (simp_all add: run_enu_def dy_eval)

lemma run_condition: "geometry_condition run_libm run_anchors = dy 3900407641695659 (- 51)"
  unfolding geometry_split run_mean run_enu Let_def run_moments
  by (simp add: moments_condition_def dy_eval)

lemma run_ecef: "\<exists>z. ecef_to_geodetic run_libm v = (dy 0 0, dy 0 0, z)"
  by (simp add: ecef_to_geodetic_def run_libm_eval Let_def normalize_lon_deg_def dy_eval)

lemma run_guess: "\<exists>found. initial_guess run_libm run_anchors t = (found, dy 0 0, dy 0 0)"
proof -
  have "\<exists>z. ecef_to_geodetic run_libm (enu_to_ecef run_libm v a b c) = (dy 0 0, dy 0 0, z)" for v a b c
    by (rule run_ecef)
  then show ?thesis
    unfolding initial_guess_def run_mean Let_def
    by (auto split: option.split prod.split) (metis prod.inject)+
qed

definition run_fit :: fit where
  "run_fit = \<lparr>ft_residuals = [dy 249815866441 (- 39), dy 70516679313 (- 39), dy (- 179) (- 10)],
     ft_expected = [dy 4826556105989193 (- 39), dy 3401409737204369 (- 39), dy 6378317 (- 10)],
     ft_rms = dy 5236587453061817 (- 54), ft_max_abs = dy 249815866441 (- 39)\<rparr>"

lemma run_fit:
  assumes "lm_sin run_libm (dmul lat DEG_TO_RAD) = dy 0 0" "lm_sin run_libm (dmul lon DEG_TO_RAD) = dy 0 0"
  shows "compute_residuals run_libm run_anchors lat lon (dy 45 2) = run_fit"
  unfolding compute_residuals_def run_origin [OF assms] run_fit_def
  by (simp add: run_anchors_def dy_eval vec_sub_def vec_norm_def vec3_def)

lemma run_residuals:
  assumes "is_valid_lat_lon (dmul lat RAD_TO_DEG) (normalize_lon_deg (dmul lon RAD_TO_DEG))"
    and "lm_sin run_libm (dmul (dmul lat RAD_TO_DEG) DEG_TO_RAD) = dy 0 0"
    and "lm_sin run_libm (dmul (normalize_lon_deg (dmul lon RAD_TO_DEG)) DEG_TO_RAD) = dy 0 0"
  shows "residual_vector run_libm run_anchors lat lon (dy 45 2) = Some run_fit"
  unfolding residual_vector_def Let_def using assms run_fit [OF assms(2,3)] by simp

lemma run_residuals_near [dy_eval]:
  "residual_vector run_libm run_anchors (dy 0 0) (dy 0 0) (dy 45 2) = Some run_fit"
  "residual_vector run_libm run_anchors FINITE_DIFF_RAD (dy 0 0) (dy 45 2) = Some run_fit"
  "residual_vector run_libm run_anchors (fp_neg FINITE_DIFF_RAD) (dy 0 0) (dy 45 2) = Some run_fit"
  "residual_vector run_libm run_anchors (dy 0 0) FINITE_DIFF_RAD (dy 45 2) = Some run_fit"
  "residual_vector run_libm run_anchors (dy 0 0) (fp_neg FINITE_DIFF_RAD) (dy 45 2) = Some run_fit"
  by (rule run_residuals; simp add: is_valid_lat_lon_def normalize_lon_deg_def FINITE_DIFF_RAD_def dy_eval)+

definition run_start :: lm_state where
  "run_start = \<lparr>ls_lat_rad = dy 0 0, ls_lon_rad = dy 0 0, ls_lambda = dlit (1 / 1000),
     ls_fit = run_fit, ls_accepted = False\<rparr>"

lemma run_jacobian:
  "param < 2 \<Longrightarrow> jacobian_column run_libm run_anchors (dy 45 2) (dy 0 0) (dy 0 0) param = Some [dy 0 0, dy 0 0, dy 0 0]"
proof -
  assume p: "param < 2"
  have add: "dadd (dy 0 0) FINITE_DIFF_RAD = FINITE_DIFF_RAD" "dsub (dy 0 0) FINITE_DIFF_RAD = fp_neg FINITE_DIFF_RAD"
    "dadd (dy 0 0) (dy 0 0) = dy 0 0" "dsub (dy 0 0) (dy 0 0) = dy 0 0"
    by (simp_all add: FINITE_DIFF_RAD_def dy_eval)
  have z: "ft_residuals run_fit = [dy 249815866441 (- 39), dy 70516679313 (- 39), dy (- 179) (- 10)]"
    by (simp add: run_fit_def)
  have d: "ddiv (dy 0 0) (dmul (Fin 2) FINITE_DIFF_RAD) = dy 0 0" by (simp add: FINITE_DIFF_RAD_def dy_eval)
  have s: "dsub (dy a i) (dy a i) = dy 0 0" for a i by (simp add: dy_eval)
  consider "param = 0" | "param = 1" using p by linarith
  then show ?thesis
    by cases (simp_all add: jacobian_column_def add run_residuals_near z d s fin_dy(2))
qed

lemma run_step: "lm_step run_libm run_anchors (dy 45 2) run_start = Converged (run_start
   \<lparr>ls_lambda := dy 7378697629483821 (- 66), ls_accepted := True\<rparr>)"
  using run_jacobian [of 0] run_jacobian [of 1]
  by (simp add: lm_step_def run_start_def run_fit_def damped_eqs_def solve_2x2_def dy_eval lm_try_def Let_def
      CONVERGENCE_STEP_RAD_def run_residuals_near [unfolded run_fit_def])

definition run_result :: nav_trilat_result where
  "run_result = \<lparr>tr_lat_deg = dy 0 0, tr_lon_deg = dy 0 0, tr_alt_m = dy 45 2, tr_rms_error_m = ft_rms run_fit,
     tr_max_abs_error_m = ft_max_abs run_fit, tr_residuals_m = ft_residuals run_fit,
     tr_expected_distances_m = ft_expected run_fit, tr_iterations = 1,
     tr_geometry_condition = dy 3900407641695659 (- 51)\<rparr>"

lemma run_solves:
  "nav_trilat_solve_3_anchor_altitude run_libm (Some run_anchors) (dy 45 2) r = (NAV_TRILAT_OK, run_result)"
proof -
  have ok: "list_all anchor_input_ok run_anchors"
    by (simp add: run_anchors_def anchor_input_ok_def is_valid_lat_lon_def dy_eval)
  obtain found where g: "initial_guess run_libm run_anchors (dy 45 2) = (found, dy 0 0, dy 0 0)"
    using run_guess by blast
  have z: "dmul (dy 0 0) DEG_TO_RAD = dy 0 0" "dmul (dy 0 0) RAD_TO_DEG = dy 0 0"
    "normalize_lon_deg (dy 0 0) = dy 0 0"
    by (simp_all add: normalize_lon_deg_def dy_eval)
  have loop: "lm_loop run_libm run_anchors (dy 45 2) 30 0 run_start = (Inr (True, run_start
      \<lparr>ls_lambda := dy 7378697629483821 (- 66), ls_accepted := True\<rparr>), 1)"
    by (simp add: numeral_eq_Suc run_step del: lm_loop.simps) (simp add: run_step)
  have c: "fp_isfinite (dy 3900407641695659 (- 51))" "\<not> fp_lt MAX_GEOMETRY_CONDITION (dy 3900407641695659 (- 51))"
    by (simp_all add: MAX_GEOMETRY_CONDITION_def dy_eval)
  show ?thesis
    unfolding nav_trilat_solve_3_anchor_altitude_def Let_def
    by (simp add: dy_class(1) ok run_condition c g z run_residuals_near(1) loop [unfolded run_start_def]
        run_result_def nav_trilat_result_zero_def)
qed

theorem solver_contract_witness:
  "nav_trilat_solve_3_anchor_altitude run_libm (Some run_anchors) (dy 45 2) nav_trilat_result_zero
     = (NAV_TRILAT_OK, run_result) \<and> tr_iterations run_result \<le> 30 \<and>
   is_valid_lat_lon (tr_lat_deg run_result) (tr_lon_deg run_result) \<and>
   solution_of run_result = compute_residuals run_libm run_anchors (tr_lat_deg run_result)
     (tr_lon_deg run_result) (dy 45 2)"
  using solver_contract [OF run_solves [of nav_trilat_result_zero]] run_solves [of nav_trilat_result_zero] by simp

end
