(* ===== verification/Nav_Core_Run.thy ===== *)
theory Nav_Core_Run
  imports Nav_Core_Safety Nav_Trilateration_Run
begin

text \<open>
  A concrete state of the core and its next tick, evaluated: node 0 has heard and ranged the three
  other nodes and knows its altitude, so the tick at 200 ms selects them, solves and publishes. The
  witnesses of the properties of the core are stated here.
\<close>

section \<open>The state\<close>

definition run_peer :: "u8 \<Rightarrow> i32 \<Rightarrow> i32 \<Rightarrow> u32 \<Rightarrow> nav_peer_state" where
  "run_peer i lat lon mm = range_into ((ex_range i)\<lparr>rr_range_mm := mm\<rparr>) 200 (beacon_into
     ((ex_beacon i)\<lparr>br_telemetry := (ex_telemetry i)\<lparr>pt_position := \<lparr>lat_e7 = lat, lon_e7 = lon, alt_mm = 180000\<rparr>\<rparr>\<rparr>)
     200 (nav_peer_state_zero\<lparr>ps_node_id := i\<rparr>))"

definition run_system :: nav_system where
  "run_system = (nav_core_init None)
     \<lparr>sy_peer_table := \<lparr>peers = [nav_peer_state_zero, run_peer 1 (- 900000000) (- 900000000) 8779000,
        run_peer 2 900000000 0 6187000, run_peer 3 0 900000000 6229000]\<rparr>,
      sy_local_altitude := \<lparr>la_alt_mm = 180000, la_timestamp_ms = 200, la_source = NAV_ALT_SOURCE_BARO,
        la_valid = True\<rparr>,
      sy_local_altitude_present := True, sy_radio_solve_generation := 7\<rparr>"

lemma run_peer_sel [simp]:
  "ps_present (run_peer i a b mm)" "ps_node_id (run_peer i a b mm) = i"
  "ps_last_telemetry_timestamp_ms (run_peer i a b mm) = 200"
  "ps_last_range_timestamp_ms (run_peer i a b mm) = 200"
  "ps_gnss_valid (run_peer i a b mm)" "ps_fix_type (run_peer i a b mm) = NAV_GNSS_FIX_3D"
  "ps_range_valid (run_peer i a b mm)" "ps_range_mm (run_peer i a b mm) = mm"
  "ps_range_sigma_mm (run_peer i a b mm) = 100" "ps_range_position_valid (run_peer i a b mm)"
  "ps_range_position (run_peer i a b mm) = \<lparr>lat_e7 = a, lon_e7 = b, alt_mm = 180000\<rparr>"
  by (simp_all add: run_peer_def range_into_def Let_def beacon_into_def telemetry_into_def
      ex_telemetry_def ex_beacon_def ex_range_def)

lemma run_config [simp]:
  "cfg_local_node_id (nav_config_default i) = i" "cfg_telemetry_ttl_ms (nav_config_default i) = 2000"
  "cfg_range_ttl_ms (nav_config_default i) = 1000" "cfg_max_range_sigma_mm (nav_config_default i) = 10000"
  "cfg_local_altitude_ttl_ms (nav_config_default i) = 1000"
  "cfg_min_anchor_quality (nav_config_default i) = fp_rnd binary32 (5 / 100)"
  "cfg_min_anchor_triangle_area_m2 (nav_config_default i) = Fin 100"
  "cfg_ignore_altitude_for_radio_solve (nav_config_default i) = False"
  "cfg_max_residual_rms_m (nav_config_default i) = Fin 2" "cfg_max_residual_m (nav_config_default i) = Fin 5"
  "cfg_demo_force_gps_denied (nav_config_default i) = False"
  "cfg_retain_last_range_on_failure (nav_config_default i) = False"
  by (simp_all add: nav_config_default_def)

lemma run_system_sel [simp]:
  "sy_config run_system = nav_config_default 0" "sy_local_altitude_present run_system"
  "sy_local_altitude run_system = \<lparr>la_alt_mm = 180000, la_timestamp_ms = 200, la_source = NAV_ALT_SOURCE_BARO,
     la_valid = True\<rparr>"
  "sy_radio_solve_generation run_system = 7" "sy_last_radio_solve_generation run_system = 0"
  "sy_radio_solve_ran run_system = False" "sy_local_gnss run_system = nav_gnss_sample_zero"
  by (simp_all add: run_system_def nav_core_init_def Let_def)

lemma run_table_wf [simp]: "peer_table_wf (sy_peer_table run_system)"
  by (simp add: peer_table_wf_def run_system_def less_Suc_eq numeral_eq_Suc nav_peer_state_zero_def)

lemma run_get:
  "nav_peer_table_get_const (sy_peer_table run_system) 1 = Some (run_peer 1 (- 900000000) (- 900000000) 8779000)"
  "nav_peer_table_get_const (sy_peer_table run_system) 2 = Some (run_peer 2 900000000 0 6187000)"
  "nav_peer_table_get_const (sy_peer_table run_system) 3 = Some (run_peer 3 0 900000000 6229000)"
  by (simp_all add: get_const_slot slot_for_def run_system_def)

section \<open>Ageing, selection and geometry\<close>

text \<open>At 200 ms nothing is expired, so ageing changes nothing.\<close>

lemma run_peer_fresh: "mark_stale_peer 200 2000 1000 (run_peer i a b mm) = run_peer i a b mm"
  by (simp add: mark_stale_peer_def Let_def)

lemma run_aged: "aged_system 200 run_system = run_system"
proof -
  have "mark_stale_peer 200 2000 1000 nav_peer_state_zero = nav_peer_state_zero"
    by (simp add: mark_stale_peer_def nav_peer_state_zero_def Let_def)
  then have "nav_peer_table_mark_stale (sy_peer_table run_system) 200 2000 1000 = sy_peer_table run_system"
    by (simp add: run_system_def nav_peer_table_mark_stale_def run_peer_fresh)
  then show ?thesis by (simp add: aged_system_def)
qed

lemma run_score: "anchor_score (run_peer i a b mm) 200 2000 1000 = Fin 1"
  by (simp add: anchor_score_def freshness_quality_def fp_sub_def dy_eval)

lemma run_quality:
  assumes "mm \<noteq> 0"
  shows "q_reject_reason (nav_quality_score_anchor (Some (run_peer i a b mm)) 200 2000 1000 10000) = NAV_REJECT_NONE"
    and "total_quality (nav_quality_score_anchor (Some (run_peer i a b mm)) 200 2000 1000 10000) = Fin 1"
  using assms by (simp_all add: score_anchor_verdict score_anchor_total anchor_verdict_def expired_def
      word_neq_0_conv run_score)

lemma run_verdict: "node_verdict run_system 200 i = NAV_REJECT_NONE" if "i \<in> {1, 2, 3}"
  using that by (auto simp: node_verdict_def node_quality_def run_get run_quality Let_def
      peer_position_valid_def position_valid_def dy_eval)

lemma run_usable: "usable_nodes run_system 200 [0, 1, 2, 3] = [1, 2, 3]"
  by (simp add: usable_nodes_def run_verdict)

definition run_anchor :: "u8 \<Rightarrow> i32 \<Rightarrow> i32 \<Rightarrow> u32 \<Rightarrow> nav_anchor" where
  "run_anchor i lat lon mm = \<lparr>an_node_id = i, an_lat_e7 = lat, an_lon_e7 = lon, an_alt_mm = 180000,
     an_range_mm = mm, an_range_sigma_mm = 100, an_quality = Fin 1, an_reject_reason = NAV_REJECT_NONE\<rparr>"

lemma run_anchor_for:
  "anchor_for run_system 200 1 = run_anchor 1 (- 900000000) (- 900000000) 8779000"
  "anchor_for run_system 200 2 = run_anchor 2 900000000 0 6187000"
  "anchor_for run_system 200 3 = run_anchor 3 0 900000000 6229000"
  by (simp_all add: anchor_for_def node_quality_def run_get run_quality Let_def run_anchor_def)

definition run_selection :: nav_anchor_selection where
  "run_selection = selection_init\<lparr>sel_anchors := [run_anchor 1 (- 900000000) (- 900000000) 8779000,
     run_anchor 2 900000000 0 6187000, run_anchor 3 0 900000000 6229000], sel_count := 3\<rparr>"

lemma run_select: "nav_select_radio_anchors run_system 200 = (NAV_STATUS_OK, run_selection)"
proof -
  have "fold (select_node run_system 200) [0, 1, 2, 3] selection_init = run_selection"
    by (simp add: select_node_eq run_verdict run_anchor_for selection_add_candidate_def run_selection_def
        selection_init_def numeral_3_eq_3)
  then show ?thesis by (simp add: nav_select_radio_anchors_def Let_def run_selection_def)
qed

lemma run_altitude: "resolve_local_altitude run_system 200 = Some (sy_local_altitude run_system)"
  by (simp add: resolve_local_altitude_def local_altitude_is_fresh_def)

section \<open>The solve\<close>

lemma run_trilat_anchors:
  "map (trilat_anchor_of (sy_config run_system)) (take 3 (sel_anchors run_selection)) = run_anchors"
  by (simp add: run_selection_def run_anchors_def run_anchor_def trilat_anchor_of_def dy_eval)

lemma run_call: "solver_call run_libm run_system run_selection (sy_local_altitude run_system) = (NAV_TRILAT_OK, run_result)"
proof -
  have "ddiv (fp_of_int binary64 180000) (Fin 1000) = dy 45 2" by (simp add: dy_eval)
  then show ?thesis
    by (simp add: solver_call_def run_trilat_anchors [simplified] run_solves)
qed

lemma run_area: "\<not> fp_lt (compute_anchor_triangle_area_m2 run_libm (sel_anchors run_selection)) (Fin 100)"
  by (simp add: compute_anchor_triangle_area_m2_def run_selection_def run_anchor_def anchor_x_m_def anchor_y_m_def
      e7_to_rad_def NAV_DEG_TO_RAD_def NAV_EARTH_RADIUS_M_def dy_eval)

lemma run_residual_bounds: "\<not> residuals_too_large (nav_config_default 0) run_result"
  by (simp add: residuals_too_large_def run_result_def run_fit_def dy_eval)

lemma run_call_unfolded:
  "solver_call run_libm run_system run_selection \<lparr>la_alt_mm = 180000, la_timestamp_ms = 200,
     la_source = NAV_ALT_SOURCE_BARO, la_valid = True\<rparr> = (NAV_TRILAT_OK, run_result)"
  using run_call by simp

lemma run_decision: "radio_decision run_libm 200 run_system = (NAV_RADIO_SOLVE_SOLVED, NAV_REJECT_NONE)"
  by (simp add: radio_decision_def Let_def cadence_holds_def run_usable run_altitude run_select run_call_unfolded
      run_area run_residual_bounds)

lemma run_publishable: "publishable run_result"
  by (simp add: publishable_def llround_32_def run_result_def run_fit_def dy_eval)

lemma run_not_usable: "\<not> local_usable run_system"
  by (simp add: local_usable_def nav_gnss_sample_is_usable_def nav_gnss_sample_zero_def)

lemma run_tick: "\<exists>s'. nav_core_tick run_libm 200 run_system = Some s'"
  by (rule tick_returns_if) (auto simp: run_aged run_select run_altitude run_call_unfolded run_publishable)

text \<open>The tick at 200 ms and what it leaves.\<close>

definition run_after :: nav_system where
  "run_after = the (nav_core_tick run_libm 200 run_system)"

lemma run_after: "nav_core_tick run_libm 200 run_system = Some run_after"
  using run_tick by (auto simp: run_after_def)

lemma run_outcome: "sn_radio_solve_outcome (sy_snapshot run_after) = NAV_RADIO_SOLVE_SOLVED"
proof -
  obtain t where t: "nav_core_tick run_libm 200 run_system = update_snapshot run_libm 200 True t"
    "same_evidence t (aged_system 200 run_system)" using tick_before_snapshot by blast
  have "\<not> local_usable t"
    using local_usable_cong [OF t(2)] run_not_usable by (simp add: run_aged)
  moreover have "update_snapshot run_libm 200 True t = Some run_after" using t(1) run_after by (simp only:)
  ultimately have "outcome_holds (sy_config t) (sy_snapshot t) (radio_decision run_libm 200 t) (sy_snapshot run_after)"
    using update_snapshot_holds by blast
  then show ?thesis by (simp add: radio_decision_cong [OF t(2)] run_aged run_decision outcome_holds_def)
qed

section \<open>Witnesses\<close>

theorem select_anchors_spec_witness:
  "nav_select_radio_anchors run_system 200 = (NAV_STATUS_OK, run_selection) \<and> selection_wf run_selection \<and>
   length (selected run_selection) = 3 \<and> distinct (map an_node_id (selected run_selection)) \<and>
   an_node_id ` set (selected run_selection) \<union> fst ` set (rejected run_selection) = {0, 1, 2, 3} - {0}"
  using select_anchors_spec [of run_system 200, unfolded run_select run_usable prod.inject run_system_sel run_config]
  by (elim exE conjE, intro conjI) (simp_all only: run_select simp_thms list.size min_def, simp_all)

theorem tick_decision_witness:
  "nav_core_tick run_libm 200 run_system = Some run_after \<and>
   solved_view (nav_config_default 0) (sy_snapshot run_after) \<and>
   sy_mode run_after = sn_nav_mode (sy_snapshot run_after)"
  using tick_decision [OF run_after run_not_usable, unfolded run_aged run_decision] run_after
  by (simp add: outcome_holds_def)

theorem core_refines_rule_witness:
  "nav_rule (sy_config run_after) (gnss_of run_after) Decide (sy_snapshot run_system) (sy_snapshot run_after)"
  using core_refines_rule [OF step_tick [OF run_after]] by simp

theorem reachable_core_inv_witness: "nav_reachable run_libm (nav_core_init None) \<and> core_inv (nav_core_init None)"
  using reachable_core_inv [OF reach_init [of run_libm None]] reach_init by blast

theorem solved_evidence_witness:
  "sn_radio_solve_outcome (sy_snapshot run_after) = NAV_RADIO_SOLVE_SOLVED \<and>
   fused_position run_result (sy_local_altitude run_system) (sn_position (sy_snapshot run_after)) \<and>
   reported_anchors (sy_snapshot run_after) = [1, 2, 3] \<and>
   list_all (trusted_anchor run_system 200) [1, 2, 3]"
proof -
  have "map an_node_id (sel_anchors run_selection) = [1, 2, 3]" by (simp add: run_selection_def run_anchor_def)
  then show ?thesis
    using solved_evidence [OF run_after run_not_usable run_outcome, unfolded run_aged run_select run_altitude]
      run_outcome run_call by fastforce
qed

text \<open>A failed range with node 2, with and without retention.\<close>

definition run_failure :: nav_event where
  "run_failure = \<lparr>ev_timestamp_ms = 210, ev_data = NAV_EVT_RANGE_FAIL \<lparr>rf_peer_id = 2, rf_request_id = 9,
     rf_timestamp_ms = 210, rf_reason = NAV_RANGE_FAIL_NONE\<rparr>\<rparr>"

theorem report_returns_witness:
  "\<exists>s'. nav_core_handle_event run_libm (Some run_failure) run_system = Some s' \<and>
    (if local_usable s' then direct_view (sy_local_gnss s') (sy_snapshot s')
     else nav_view (sy_snapshot s') = nav_view (sy_snapshot run_system))"
  by (rule report_returns) (simp add: run_failure_def)

theorem range_fail_retention_witness:
  "\<exists>s'. nav_core_handle_event run_libm (Some run_failure) run_system = Some s' \<and>
     \<not> trusted_anchor s' 210 2 \<and> trusted_anchor s' 210 1 = trusted_anchor run_system 210 1"
proof -
  have "update_snapshot run_libm 210 False (handle_range_fail 210 f run_system) \<noteq> None" for f
    by (auto simp: update_snapshot_def Let_def)
  then obtain s' where s': "nav_core_handle_event run_libm (Some run_failure) run_system = Some s'"
    by (auto simp: nav_core_handle_event_def run_failure_def)
  note r = range_fail_retention [OF s' [unfolded run_failure_def] run_table_wf, of 210]
  show ?thesis using s' r [of 2] r [of 1] by simp
qed

end
