(* ===== verification/C_Text.thy ===== *)
theory C_Text
  imports Ieee_Float
begin

text \<open>
  C strings and the number scanners of \<^verbatim>\<open>stdlib.h\<close> that the text components call. Bytes of text are
  HOL characters (eight bits); a C string is the list of characters in front of the first NUL of an
  array, and an array without a NUL has none: reading it as a string is undefined. The scanners return
  the value, the unread rest of the string (the \<^verbatim>\<open>end\<close> pointer) and whether \<^verbatim>\<open>errno\<close> was set.
\<close>

section \<open>Strings in arrays\<close>

abbreviation NUL :: char where "NUL \<equiv> CHR 0x00"

definition c_string :: "char list \<Rightarrow> string option" where
  "c_string b = (if NUL \<in> set b then Some (takeWhile (\<lambda>c. c \<noteq> NUL) b) else None)"

lemma takeWhile_upto: "c \<notin> set l \<Longrightarrow> takeWhile (\<lambda>x. x \<noteq> c) (l @ c # r) = l"
  by (induction l) auto

lemma c_string_append: "NUL \<notin> set s \<Longrightarrow> c_string (s @ NUL # r) = Some s"
  by (simp add: c_string_def takeWhile_upto)

lemma c_string_Cons: "c \<noteq> NUL \<Longrightarrow> c_string (c # b) = map_option ((#) c) (c_string b)"
  by (auto simp: c_string_def)

lemma c_string_len: "c_string b = Some s \<Longrightarrow> length s < length b \<and> b ! length s = NUL \<and> s = take (length s) b"
proof -
  assume "c_string b = Some s"
  then have s: "s = takeWhile (\<lambda>c. c \<noteq> NUL) b" "NUL \<in> set b" by (auto simp: c_string_def split: if_splits)
  then obtain l r where b: "b = l @ NUL # r" "NUL \<notin> set l" by (metis split_list_first)
  then have "s = l" using s(1) by (simp add: takeWhile_upto)
  then show ?thesis using b by simp
qed

lemma c_string_no_NUL: "c_string b = Some s \<Longrightarrow> NUL \<notin> set s"
  by (auto simp: c_string_def dest: set_takeWhileD split: if_splits)

text \<open>The position of the first occurrence of a character: \<^verbatim>\<open>strchr\<close>.\<close>

fun strchr :: "string \<Rightarrow> char \<Rightarrow> nat option" where
  "strchr [] c = None"
| "strchr (a # s) c = (if a = c then Some 0 else map_option Suc (strchr s c))"

lemma strchr_Some: "strchr s c = Some k \<longleftrightarrow> k < length s \<and> s ! k = c \<and> c \<notin> set (take k s)"
proof (induction s arbitrary: k)
  case (Cons a s)
  then show ?case by (cases k) auto
qed simp

lemma strchr_None: "strchr s c = None \<longleftrightarrow> c \<notin> set s"
  by (induction s c rule: strchr.induct) auto

lemma strchr_append: "c \<notin> set s \<Longrightarrow> strchr (s @ c # r) c = Some (length s)"
  by (induction s) auto

text \<open>\<^verbatim>\<open>strstr\<close>: the first position where the needle is a prefix of the rest.\<close>

fun strstr :: "string \<Rightarrow> string \<Rightarrow> nat option" where
  "strstr [] needle = (if needle = [] then Some 0 else None)"
| "strstr (c # s) needle = (if take (length needle) (c # s) = needle then Some 0
     else map_option Suc (strstr s needle))"

lemma strstr_Some: "strstr s n = Some k \<Longrightarrow> k + length n \<le> length s \<and> take (length n) (drop k s) = n"
proof (induction s n arbitrary: k rule: strstr.induct)
  case (2 c s needle)
  show ?case
  proof (cases "take (length needle) (c # s) = needle")
    case True
    then have "length needle \<le> length (c # s)" by (metis length_take min.cobounded1)
    then show ?thesis using True 2(2) by auto
  next
    case False
    then show ?thesis using 2 by auto
  qed
qed (auto split: if_splits)

section \<open>Character classes\<close>

definition code :: "char \<Rightarrow> nat" where
  "code c = of_char c"

definition isspace :: "char \<Rightarrow> bool" where
  "isspace c \<longleftrightarrow> c \<in> {CHR '' '', CHR 0x09, CHR 0x0A, CHR 0x0B, CHR 0x0C, CHR 0x0D}"

definition isdigit :: "char \<Rightarrow> bool" where
  "isdigit c \<longleftrightarrow> code (CHR ''0'') \<le> code c \<and> code c \<le> code (CHR ''9'')"

definition isxdigit :: "char \<Rightarrow> bool" where
  "isxdigit c \<longleftrightarrow> isdigit c \<or> (code (CHR ''A'') \<le> code c \<and> code c \<le> code (CHR ''F''))
     \<or> (code (CHR ''a'') \<le> code c \<and> code c \<le> code (CHR ''f''))"

definition toupper :: "char \<Rightarrow> char" where
  "toupper c = (if code (CHR ''a'') \<le> code c \<and> code c \<le> code (CHR ''z'') then char_of (code c - 32) else c)"

definition xdigit :: "char \<Rightarrow> nat" where
  "xdigit c = (if isdigit c then code c - code (CHR ''0'')
     else if code (CHR ''a'') \<le> code c then code c - code (CHR ''a'') + 10 else code c - code (CHR ''A'') + 10)"

text \<open>The value of a run of digits.\<close>

definition digits_value :: "nat \<Rightarrow> string \<Rightarrow> nat" where
  "digits_value base s = foldl (\<lambda>n c. n * base + xdigit c) 0 s"

section \<open>Integers\<close>

definition scan_sign :: "string \<Rightarrow> bool \<times> string" where
  "scan_sign s = (case s of [] \<Rightarrow> (False, s)
     | c # r \<Rightarrow> if c = CHR ''-'' then (True, r) else if c = CHR ''+'' then (False, r) else (False, s))"

text \<open>
  \<^verbatim>\<open>strtol\<close> in base ten, for a \<^verbatim>\<open>long\<close> of \<open>w\<close> bits: white space, a sign, digits; the value saturates
  and sets \<^verbatim>\<open>errno\<close> when it does not fit; without a digit the whole string is unread.
\<close>

definition strtol :: "nat \<Rightarrow> string \<Rightarrow> int \<times> string \<times> bool" where
  "strtol w s =
     (let (neg, r) = scan_sign (dropWhile isspace s);
          ds = takeWhile isdigit r;
          v = (if neg then - int (digits_value 10 ds) else int (digits_value 10 ds))
      in if ds = [] then (0, s, False)
         else if v < - (2 ^ (w - 1)) then (- (2 ^ (w - 1)), dropWhile isdigit r, True)
         else if v \<ge> 2 ^ (w - 1) then (2 ^ (w - 1) - 1, dropWhile isdigit r, True)
         else (v, dropWhile isdigit r, False))"

section \<open>Doubles\<close>

text \<open>
  \<^verbatim>\<open>strtod\<close> in the C locale. A numeral is digits with an optional point and at least one digit, then
  an optional exponent, which counts only when it has a digit; \<^verbatim>\<open>0x\<close> numerals have hexadecimal digits
  and a binary exponent; the words for infinity and NaN are case-insensitive. The exact value is
  rounded to nearest. \<^verbatim>\<open>errno\<close> is set on overflow, and on underflow to an inexact subnormal, as the
  GNU library does.
\<close>

definition scan_exponent :: "char \<Rightarrow> string \<Rightarrow> int \<times> string" where
  "scan_exponent mark s = (case s of [] \<Rightarrow> (0, s)
     | c # r \<Rightarrow> if toupper c \<noteq> mark then (0, s)
         else (let (neg, t) = scan_sign r; ds = takeWhile isdigit t
               in if ds = [] then (0, s)
                  else ((if neg then - int (digits_value 10 ds) else int (digits_value 10 ds)), dropWhile isdigit t)))"

text \<open>Digits, point, digits: the digit value, the number of digits behind the point, the rest.\<close>

definition scan_mantissa :: "nat \<Rightarrow> (char \<Rightarrow> bool) \<Rightarrow> string \<Rightarrow> (nat \<times> nat \<times> string) option" where
  "scan_mantissa base isd s =
     (let ip = takeWhile isd s; r = dropWhile isd s;
          fp = (if r \<noteq> [] \<and> hd r = CHR ''.'' then takeWhile isd (tl r) else []);
          r' = (if r \<noteq> [] \<and> hd r = CHR ''.'' then dropWhile isd (tl r) else r)
      in if ip = [] \<and> fp = [] then None else Some (digits_value base (ip @ fp), length fp, r'))"

definition scan_decimal :: "string \<Rightarrow> (rat \<times> string) option" where
  "scan_decimal s = (case scan_mantissa 10 isdigit s of None \<Rightarrow> None
     | Some (m, k, r) \<Rightarrow> (let (e, r') = scan_exponent (CHR ''E'') r
         in Some (rat_of_nat m * 10 powi (e - int k), r')))"

definition scan_hex :: "string \<Rightarrow> (rat \<times> string) option" where
  "scan_hex s = (if length s < 2 \<or> s ! 0 \<noteq> CHR ''0'' \<or> toupper (s ! 1) \<noteq> CHR ''X'' then None
     else case scan_mantissa 16 isxdigit (drop 2 s) of None \<Rightarrow> None
     | Some (m, k, r) \<Rightarrow> (let (e, r') = scan_exponent (CHR ''P'') r
         in Some (rat_of_nat m * 2 powi (e - 4 * int k), r')))"

definition scan_word :: "string \<Rightarrow> string \<Rightarrow> string option" where
  "scan_word w s = (if map toupper (take (length w) s) = w then Some (drop (length w) s) else None)"

text \<open>\<^verbatim>\<open>NAN\<close> may be followed by letters, digits and underscores in parentheses.\<close>

definition isnchar :: "char \<Rightarrow> bool" where
  "isnchar c \<longleftrightarrow> isdigit c \<or> c = CHR ''_'' \<or> (code (CHR ''A'') \<le> code (toupper c) \<and> code (toupper c) \<le> code (CHR ''Z''))"

definition scan_nan_payload :: "string \<Rightarrow> string" where
  "scan_nan_payload s = (if s \<noteq> [] \<and> hd s = CHR ''(''
     then (case dropWhile isnchar (tl s) of [] \<Rightarrow> s | c # r \<Rightarrow> if c = CHR '')'' then r else s)
     else s)"

definition signed_fp :: "bool \<Rightarrow> fp \<Rightarrow> fp" where
  "signed_fp neg x = (if neg then fp_neg x else x)"

definition strtod_range_error :: "rat \<Rightarrow> bool" where
  "strtod_range_error v \<longleftrightarrow> (case fp_rnd binary64 v of Fin r \<Rightarrow> r \<noteq> v \<and> r < 1 / 2 ^ 1022 | _ \<Rightarrow> True)"

definition strtod :: "string \<Rightarrow> fp \<times> string \<times> bool" where
  "strtod s =
     (let (neg, r) = scan_sign (dropWhile isspace s)
      in case scan_hex r of
           Some (v, r') \<Rightarrow> (signed_fp neg (fp_rnd binary64 v), r', strtod_range_error v)
         | None \<Rightarrow> (case scan_decimal r of
             Some (v, r') \<Rightarrow> (signed_fp neg (fp_rnd binary64 v), r', strtod_range_error v)
           | None \<Rightarrow> (case scan_word ''INFINITY'' r of
               Some r' \<Rightarrow> (signed_fp neg PInf, r', False)
             | None \<Rightarrow> (case scan_word ''INF'' r of
                 Some r' \<Rightarrow> (signed_fp neg PInf, r', False)
               | None \<Rightarrow> (case scan_word ''NAN'' r of
                   Some r' \<Rightarrow> (NaN, scan_nan_payload r', False)
                 | None \<Rightarrow> (Fin 0, s, False))))))"

end
