(* ===== verification/Nav_Nmea.thy ===== *)
theory Nav_Nmea
  imports Nav_Types C_Text
begin

text \<open>
  \<^verbatim>\<open>core/src/nav_nmea.c\<close>: the streaming parser of NMEA sentences. The 96-byte sentence buffer is a
  list of characters written and read with checks, so \<open>None\<close> is an access outside it; it is also the
  conversion of a coordinate to \<^verbatim>\<open>int\<close> when it does not fit. A field parser that returns \<^verbatim>\<open>false\<close> is
  \<open>Rejected\<close>, and \<open>Parsed\<close> carries the value it stores.
\<close>

section \<open>Types\<close>

abbreviation (input) NAV_NMEA_MAX_SENTENCE_LEN :: nat where "NAV_NMEA_MAX_SENTENCE_LEN \<equiv> 96"
abbreviation (input) NAV_NMEA_MAX_FIELDS :: nat where "NAV_NMEA_MAX_FIELDS \<equiv> 24"

datatype nav_nmea_result = NAV_NMEA_RESULT_NONE | NAV_NMEA_RESULT_SAMPLE
  | NAV_NMEA_RESULT_CHECKSUM_ERROR | NAV_NMEA_RESULT_UNSUPPORTED_SENTENCE
  | NAV_NMEA_RESULT_MALFORMED_SENTENCE | NAV_NMEA_RESULT_OVERFLOW

record nav_nmea_parser =
  np_sentence :: "char list"
  np_length :: nat
  np_in_sentence :: bool

datatype 'a parsed = Rejected | Parsed 'a

fun nav_nmea_result_to_string :: "nav_nmea_result \<Rightarrow> string" where
  "nav_nmea_result_to_string NAV_NMEA_RESULT_NONE = ''NONE''"
| "nav_nmea_result_to_string NAV_NMEA_RESULT_SAMPLE = ''SAMPLE''"
| "nav_nmea_result_to_string NAV_NMEA_RESULT_CHECKSUM_ERROR = ''CHECKSUM_ERROR''"
| "nav_nmea_result_to_string NAV_NMEA_RESULT_UNSUPPORTED_SENTENCE = ''UNSUPPORTED_SENTENCE''"
| "nav_nmea_result_to_string NAV_NMEA_RESULT_MALFORMED_SENTENCE = ''MALFORMED_SENTENCE''"
| "nav_nmea_result_to_string NAV_NMEA_RESULT_OVERFLOW = ''OVERFLOW''"

definition sample_clear :: nav_gnss_sample where
  "sample_clear = nav_gnss_sample_zero\<lparr>gs_fix_type := NAV_GNSS_FIX_NONE\<rparr>"

definition nav_nmea_parser_init :: nav_nmea_parser where
  "nav_nmea_parser_init = \<lparr>np_sentence = replicate NAV_NMEA_MAX_SENTENCE_LEN NUL, np_length = 0,
     np_in_sentence = False\<rparr>"

definition nav_gnss_sample_set_time :: "u32 \<Rightarrow> nav_gnss_sample \<Rightarrow> nav_gnss_sample" where
  "nav_gnss_sample_set_time now_ms sample = sample\<lparr>gs_timestamp_ms := now_ms\<rparr>"

section \<open>Fields\<close>

definition hex_value :: "char \<Rightarrow> int" where
  "hex_value c =
     (if code (CHR ''0'') \<le> code c \<and> code c \<le> code (CHR ''9'') then int (code c) - int (code (CHR ''0''))
      else if code (CHR ''A'') \<le> code c \<and> code c \<le> code (CHR ''F'') then int (code c) - int (code (CHR ''A'')) + 10
      else if code (CHR ''a'') \<le> code c \<and> code c \<le> code (CHR ''f'') then int (code c) - int (code (CHR ''a'')) + 10
      else - 1)"

text \<open>The bounds are small, so the width of \<^verbatim>\<open>long\<close> (64 bits here) does not show.\<close>

definition parse_long_field :: "string \<Rightarrow> int \<Rightarrow> int \<Rightarrow> int parsed" where
  "parse_long_field field min_value max_value =
     (if field = [] then Rejected
      else (case strtol 64 field of (value, end, errno) \<Rightarrow>
        if errno \<or> end = field \<or> end \<noteq> [] \<or> value < min_value \<or> value > max_value then Rejected
        else Parsed value))"

definition parse_double_field :: "string \<Rightarrow> fp parsed" where
  "parse_double_field field =
     (if field = [] then Rejected
      else (case strtod field of (value, end, errno) \<Rightarrow>
        if errno \<or> end = field \<or> end \<noteq> [] \<or> \<not> fp_isfinite value then Rejected else Parsed value))"

definition INT32_MIN :: int where "INT32_MIN = - (2 ^ 31)"
definition INT32_MAX :: int where "INT32_MAX = 2 ^ 31 - 1"

definition round_to_i32 :: "fp \<Rightarrow> i32 parsed option" where
  "round_to_i32 value =
     (if \<not> fp_isfinite value then Some Rejected
      else let rounded = fp_round value in
        if fp_lt rounded (fp_of_int binary64 INT32_MIN) \<or> fp_lt (fp_of_int binary64 INT32_MAX) rounded
        then Some Rejected
        else do { n \<leftarrow> fp_to_int INT32_MIN INT32_MAX rounded; Some (Parsed (word_of_int n)) })"

definition round_to_u16 :: "fp \<Rightarrow> u16 parsed option" where
  "round_to_u16 value =
     (if \<not> fp_isfinite value then Some Rejected
      else let rounded = fp_round value in
        if fp_lt rounded (Fin 0) \<or> fp_lt (Fin 65535) rounded then Some Rejected
        else do { n \<leftarrow> fp_to_int 0 65535 rounded; Some (Parsed (word_of_int n)) })"

definition parse_coordinate_e7 :: "string \<Rightarrow> string \<Rightarrow> bool \<Rightarrow> i32 parsed option" where
  "parse_coordinate_e7 value_field hemisphere_field longitude =
     (if length hemisphere_field \<noteq> 1 then Some Rejected
      else case parse_double_field value_field of
        Rejected \<Rightarrow> Some Rejected
      | Parsed raw \<Rightarrow>
          if fp_lt raw (Fin 0) then Some Rejected
          else do {
            degrees \<leftarrow> fp_to_int INT32_MIN INT32_MAX (fp_div binary64 raw (Fin 100));
            let minutes = fp_sub binary64 raw (fp_mul binary64 (fp_of_int binary64 degrees) (Fin 100));
            if fp_lt minutes (Fin 0) \<or> fp_le (Fin 60) minutes then Some Rejected
            else
              (let hemisphere = toupper (hemisphere_field ! 0) in
               if longitude \<and> (hemisphere \<noteq> CHR ''E'' \<and> hemisphere \<noteq> CHR ''W'' \<or> degrees > 180) then Some Rejected
               else if \<not> longitude \<and> (hemisphere \<noteq> CHR ''N'' \<and> hemisphere \<noteq> CHR ''S'' \<or> degrees > 90) then Some Rejected
               else
                 (let decimal_degrees = fp_add binary64 (fp_of_int binary64 degrees) (fp_div binary64 minutes (Fin 60));
                      decimal_degrees = (if hemisphere = CHR ''S'' \<or> hemisphere = CHR ''W''
                        then fp_neg decimal_degrees else decimal_degrees)
                  in round_to_i32 (fp_mul binary64 decimal_degrees (Fin 10000000)))) })"

definition parse_optional_coordinate_e7 :: "string \<Rightarrow> string \<Rightarrow> bool \<Rightarrow> i32 parsed option" where
  "parse_optional_coordinate_e7 value_field hemisphere_field longitude =
     (if value_field = [] then Some (Parsed 0)
      else parse_coordinate_e7 value_field hemisphere_field longitude)"

definition fix_type_from_gga_quality :: "int \<Rightarrow> nav_gnss_fix_type" where
  "fix_type_from_gga_quality quality =
     (if quality = 0 then NAV_GNSS_FIX_NONE
      else if quality = 4 then NAV_GNSS_FIX_RTK_FIXED
      else if quality = 5 then NAV_GNSS_FIX_RTK_FLOAT
      else NAV_GNSS_FIX_3D)"

section \<open>Splitting a payload\<close>

text \<open>
  The loop of \<^verbatim>\<open>split_fields\<close> over the work buffer: a comma becomes a NUL and the next position starts
  a field, until the terminator or the last slot of the field array.
\<close>

function split_loop :: "nat \<Rightarrow> char list \<Rightarrow> nat list \<Rightarrow> (char list \<times> nat list) option" where
  "split_loop cursor work flds =
     (if cursor < length work then
        (let c = work ! cursor in
         if c \<noteq> NUL \<and> length flds < NAV_NMEA_MAX_FIELDS
         then (if c = CHR '','' then split_loop (cursor + 1) (work[cursor := NUL]) (flds @ [cursor + 1])
               else split_loop (cursor + 1) work flds)
         else Some (work, flds))
      else None)"
  by pat_completeness auto
termination by (relation "measure (\<lambda>(cursor, work, flds). length work - cursor)") auto

declare split_loop.simps [simp del]

definition split_fields :: "char list \<Rightarrow> (char list \<times> nat list) option" where
  "split_fields payload = split_loop 0 payload [0]"

text \<open>The string that a field pointer points to.\<close>

definition field_string :: "char list \<Rightarrow> nat \<Rightarrow> string option" where
  "field_string work position = c_string (drop position work)"

definition field_strings :: "char list \<Rightarrow> nat list \<Rightarrow> string list option" where
  "field_strings work flds = those (map (field_string work) flds)"

section \<open>Sentences\<close>

text \<open>Both coordinates, as the two sentence parsers read them, in the order of the \<^verbatim>\<open>||\<close>.\<close>

definition parse_position ::
  "(string \<Rightarrow> string \<Rightarrow> bool \<Rightarrow> i32 parsed option) \<Rightarrow> string \<Rightarrow> string \<Rightarrow> string \<Rightarrow> string \<Rightarrow> (i32 \<times> i32) parsed option"
where
  "parse_position coordinate lat ns lon ew = do {
     a \<leftarrow> coordinate lat ns False;
     case a of Rejected \<Rightarrow> Some Rejected
     | Parsed la \<Rightarrow> do {
         b \<leftarrow> coordinate lon ew True;
         case b of Rejected \<Rightarrow> Some Rejected | Parsed lo \<Rightarrow> Some (Parsed (la, lo)) } }"

definition parse_gga :: "string list \<Rightarrow> nav_gnss_sample \<Rightarrow> (nav_nmea_result \<times> nav_gnss_sample) option" where
  "parse_gga flds out_sample =
     (let malformed = Some (NAV_NMEA_RESULT_MALFORMED_SENTENCE, out_sample) in
      if length flds < 10 then malformed
      else case (parse_long_field (flds ! 6) 0 99, parse_long_field (flds ! 7) 0 255,
                 if flds ! 8 = [] then Parsed (Fin 0) else parse_double_field (flds ! 8),
                 if flds ! 9 = [] then Parsed (Fin 0) else parse_double_field (flds ! 9)) of
        (Parsed fix_quality, Parsed satellites, Parsed hdop, Parsed altitude_m) \<Rightarrow> do {
          let valid = (fix_quality \<noteq> 0);
          hdop_centi \<leftarrow> (if flds ! 8 = [] then Some (Parsed 0)
             else round_to_u16 (fp_mul binary64 hdop (Fin 100)));
          (case hdop_centi of Rejected \<Rightarrow> malformed
           | Parsed hdop_centi \<Rightarrow> do {
               position \<leftarrow> parse_position (if valid then parse_coordinate_e7 else parse_optional_coordinate_e7)
                 (flds ! 2) (flds ! 3) (flds ! 4) (flds ! 5);
               (case position of Rejected \<Rightarrow> malformed
                | Parsed (lat, lon) \<Rightarrow> do {
                    alt \<leftarrow> (if flds ! 9 = [] then Some (Parsed 0)
                       else round_to_i32 (fp_mul binary64 altitude_m (Fin 1000)));
                    (case alt of Rejected \<Rightarrow> malformed
                     | Parsed alt \<Rightarrow> Some (NAV_NMEA_RESULT_SAMPLE, nav_gnss_sample_zero
                         \<lparr>gs_fix_type := fix_type_from_gga_quality fix_quality, gs_valid := valid,
                          gs_satellites := word_of_int satellites, gs_hacc_mm := 0, gs_vacc_mm := 0,
                          gs_hdop_centi := hdop_centi,
                          gs_position := \<lparr>lat_e7 = lat, lon_e7 = lon, alt_mm = alt\<rparr>\<rparr>)) }) }) }
      | _ \<Rightarrow> malformed)"

definition parse_rmc :: "string list \<Rightarrow> nav_gnss_sample \<Rightarrow> (nav_nmea_result \<times> nav_gnss_sample) option" where
  "parse_rmc flds out_sample =
     (let malformed = Some (NAV_NMEA_RESULT_MALFORMED_SENTENCE, out_sample) in
      if length flds < 7 \<or> length (flds ! 2) \<noteq> 1 then malformed
      else
        let status = toupper (flds ! 2 ! 0) in
        if status \<noteq> CHR ''A'' \<and> status \<noteq> CHR ''V'' then malformed
        else do {
          let valid = (status = CHR ''A'');
          position \<leftarrow> parse_position (if valid then parse_coordinate_e7 else parse_optional_coordinate_e7)
            (flds ! 3) (flds ! 4) (flds ! 5) (flds ! 6);
          (case position of Rejected \<Rightarrow> malformed
           | Parsed (lat, lon) \<Rightarrow> Some (NAV_NMEA_RESULT_SAMPLE, nav_gnss_sample_zero
               \<lparr>gs_valid := valid, gs_fix_type := (if valid then NAV_GNSS_FIX_3D else NAV_GNSS_FIX_NONE),
                gs_hacc_mm := 0, gs_vacc_mm := 0,
                gs_position := \<lparr>lat_e7 = lat, lon_e7 = lon, alt_mm = 0\<rparr>\<rparr>)) })"

text \<open>The work array is uninitialised behind the copied payload: \<open>NUL\<close>s, which nothing reads.\<close>

definition parse_payload :: "char list \<Rightarrow> nat \<Rightarrow> nav_gnss_sample \<Rightarrow> (nav_nmea_result \<times> nav_gnss_sample) option" where
  "parse_payload payload payload_len out_sample =
     (if payload_len = 0 \<or> payload_len \<ge> NAV_NMEA_MAX_SENTENCE_LEN
      then Some (NAV_NMEA_RESULT_MALFORMED_SENTENCE, out_sample)
      else if length payload < payload_len then None
      else
        let work = take payload_len payload @ replicate (NAV_NMEA_MAX_SENTENCE_LEN - payload_len) NUL in do {
        (work, positions) \<leftarrow> split_fields work;
        flds \<leftarrow> field_strings work positions;
        (if flds = [] \<or> length (flds ! 0) \<noteq> 5 then Some (NAV_NMEA_RESULT_MALFORMED_SENTENCE, out_sample)
         else if flds ! 0 = ''GPGGA'' \<or> flds ! 0 = ''GNGGA'' then parse_gga flds out_sample
         else if flds ! 0 = ''GPRMC'' \<or> flds ! 0 = ''GNRMC'' then parse_rmc flds out_sample
         else Some (NAV_NMEA_RESULT_UNSUPPORTED_SENTENCE, out_sample)) })"

definition xor_checksum :: "string \<Rightarrow> u8" where
  "xor_checksum s = fold (\<lambda>c checksum. checksum XOR of_nat (code c)) s 0"

definition parse_sentence :: "nav_nmea_parser \<Rightarrow> (nav_nmea_result \<times> nav_nmea_parser \<times> nav_gnss_sample) option" where
  "parse_sentence parser = do {
     sentence \<leftarrow> mem_write (np_sentence parser) (np_length parser) NUL;
     let parser = parser\<lparr>np_sentence := sentence\<rparr>;
     let malformed = Some (NAV_NMEA_RESULT_MALFORMED_SENTENCE, parser, sample_clear);
     s \<leftarrow> c_string sentence;
     (case strchr s (CHR ''*'') of
        None \<Rightarrow> malformed
      | Some star \<Rightarrow> do {
          c1 \<leftarrow> mem_read sentence (star + 1);
          if c1 = NUL then malformed else do {
          c2 \<leftarrow> mem_read sentence (star + 2);
          if c2 = NUL then malformed else do {
          c3 \<leftarrow> mem_read sentence (star + 3);
          if c3 \<noteq> NUL then malformed
          else
            (let high = hex_value c1; low = hex_value c2 in
             if high < 0 \<or> low < 0 then malformed
             else
               (let checksum = xor_checksum (take star sentence);
                    expected = word_of_int (16 * high + low) in
                if checksum \<noteq> expected then Some (NAV_NMEA_RESULT_CHECKSUM_ERROR, parser, sample_clear)
                else do {
                  (result, sample) \<leftarrow> parse_payload sentence star sample_clear;
                  Some (result, parser, sample) })) } } }) }"

definition nav_nmea_parser_push ::
  "u8 \<Rightarrow> nav_nmea_parser \<Rightarrow> (nav_nmea_result \<times> nav_nmea_parser \<times> nav_gnss_sample) option" where
  "nav_nmea_parser_push byte parser =
     (let c = char_of (unat byte) in
      if c = CHR ''$'' then
        Some (NAV_NMEA_RESULT_NONE, parser\<lparr>np_length := 0, np_in_sentence := True\<rparr>, sample_clear)
      else if \<not> np_in_sentence parser then Some (NAV_NMEA_RESULT_NONE, parser, sample_clear)
      else if c = CHR 0x0D \<or> c = CHR 0x0A then
        (let parser = parser\<lparr>np_in_sentence := False\<rparr> in
         if np_length parser = 0 then Some (NAV_NMEA_RESULT_NONE, parser, sample_clear)
         else parse_sentence parser)
      else if np_length parser + 1 \<ge> NAV_NMEA_MAX_SENTENCE_LEN then
        Some (NAV_NMEA_RESULT_OVERFLOW, parser\<lparr>np_length := 0, np_in_sentence := False\<rparr>, sample_clear)
      else do {
        sentence \<leftarrow> mem_write (np_sentence parser) (np_length parser) c;
        Some (NAV_NMEA_RESULT_NONE, parser\<lparr>np_sentence := sentence, np_length := np_length parser + 1\<rparr>,
          sample_clear) })"

end
