(* ===== verification/Nav_Nmea_Sentence.thy ===== *)
theory Nav_Nmea_Sentence
  imports Nav_Nmea
begin

text \<open>
  What the sentence parser of \<^verbatim>\<open>Nav_Nmea\<close> computes, in terms of the text alone: the field splitter on
  the work buffer refines splitting a string at its first 23 commas, and the result of a sentence is a
  function of its characters, whatever the buffer held before.
\<close>

section \<open>Splitting refines\<close>

fun split_commas :: "nat \<Rightarrow> string \<Rightarrow> string list" where
  "split_commas n [] = [[]]"
| "split_commas n (c # s) = (if n = 0 then [c # s]
     else if c = CHR '','' then [] # split_commas (n - 1) s
     else (case split_commas n s of [] \<Rightarrow> [] | f # fs \<Rightarrow> (c # f) # fs))"

fun join_terminated :: "string list \<Rightarrow> char list" where
  "join_terminated [] = []"
| "join_terminated (f # fs) = f @ NUL # join_terminated fs"

fun starts :: "nat \<Rightarrow> string list \<Rightarrow> nat list" where
  "starts p [] = []"
| "starts p (f # fs) = p # starts (p + length f + 1) fs"

lemma split_commas_ne [simp]: "split_commas n s \<noteq> []"
  by (induction n s rule: split_commas.induct) (auto split: list.splits)

lemma split_commas_zero: "split_commas 0 s = [s]"
  by (cases s) simp_all

lemma split_commas_no_NUL: "NUL \<notin> set s \<Longrightarrow> f \<in> set (split_commas n s) \<Longrightarrow> NUL \<notin> set f"
  by (induction n s arbitrary: f rule: split_commas.induct) (auto split: list.splits if_splits)

lemma split_loop_spec:
  assumes "NUL \<notin> set s" and "length flds \<le> 24"
  shows "split_loop (length pre) (pre @ s @ NUL # post) flds =
    Some (pre @ join_terminated (split_commas (24 - length flds) s) @ post,
      flds @ tl (starts (length pre) (split_commas (24 - length flds) s)))"
  using assms
proof (induction s arbitrary: pre flds)
  case Nil
  then show ?case by (simp add: split_loop.simps)
next
  case (Cons c s)
  consider "length flds = 24" | "length flds < 24" "c = CHR '',''" | "length flds < 24" "c \<noteq> CHR '',''"
    using Cons.prems(2) by linarith
  then show ?case
  proof cases
    case 1
    then show ?thesis by (simp add: split_loop.simps)
  next
    case 2
    have "split_loop (length pre) (pre @ (c # s) @ NUL # post) flds =
      split_loop (length (pre @ [NUL])) ((pre @ [NUL]) @ s @ NUL # post) (flds @ [length pre + 1])"
      using 2 Cons.prems by (subst split_loop.simps) (simp add: nth_append)
    moreover obtain f fs where "split_commas (24 - length (flds @ [length pre + 1])) s = f # fs"
      by (meson neq_Nil_conv split_commas_ne)
    ultimately show ?thesis
      using Cons.IH [of "flds @ [length pre + 1]" "pre @ [NUL]"] Cons.prems 2 by simp
  next
    case 3
    have "split_loop (length pre) (pre @ (c # s) @ NUL # post) flds =
      split_loop (length (pre @ [c])) ((pre @ [c]) @ s @ NUL # post) flds"
      using 3 Cons.prems by (subst split_loop.simps) (auto simp: nth_append)
    moreover obtain f fs where "split_commas (24 - length flds) s = f # fs"
      by (meson neq_Nil_conv split_commas_ne)
    ultimately show ?thesis
      using Cons.IH [of flds "pre @ [c]"] Cons.prems 3 by simp
  qed
qed

lemma field_strings_starts:
  assumes "\<forall>f \<in> set fs. NUL \<notin> set f"
  shows "field_strings (pre @ join_terminated fs @ post) (starts (length pre) fs) = Some fs"
  using assms
proof (induction fs arbitrary: pre)
  case Nil
  then show ?case by (simp add: field_strings_def)
next
  case (Cons f fs)
  have "field_string (pre @ f @ NUL # join_terminated fs @ post) (length pre) = Some f"
    using Cons.prems by (simp add: field_string_def c_string_append)
  moreover have "field_strings (pre @ f @ NUL # join_terminated fs @ post) (starts (Suc (length pre + length f)) fs) = Some fs"
    using Cons.IH [of "pre @ f @ [NUL]"] Cons.prems by simp
  ultimately show ?case by (simp add: field_strings_def)
qed

lemma split_fields_strings:
  assumes "NUL \<notin> set s"
  shows "\<exists>work positions. split_fields (s @ NUL # post) = Some (work, positions) \<and>
    field_strings work positions = Some (split_commas 23 s)"
proof -
  have split: "split_loop 0 (s @ NUL # post) [0] =
      Some (join_terminated (split_commas 23 s) @ post, 0 # tl (starts 0 (split_commas 23 s)))"
    using split_loop_spec [of s "[0]" "[]" post] assms by simp
  obtain f fs where f: "split_commas 23 s = f # fs" by (meson neq_Nil_conv split_commas_ne)
  have "field_strings (join_terminated (split_commas 23 s) @ post) (starts 0 (split_commas 23 s)) =
      Some (split_commas 23 s)"
    using field_strings_starts [of "split_commas 23 s" "[]" post] split_commas_no_NUL [OF assms] by simp
  then show ?thesis using split f by (simp add: split_fields_def)
qed

section \<open>The result of a sentence\<close>

definition parse_fields :: "string list \<Rightarrow> (nav_nmea_result \<times> nav_gnss_sample) option" where
  "parse_fields fs =
     (if length (hd fs) \<noteq> 5 then Some (NAV_NMEA_RESULT_MALFORMED_SENTENCE, sample_clear)
      else if hd fs \<in> {''GPGGA'', ''GNGGA''} then parse_gga fs sample_clear
      else if hd fs \<in> {''GPRMC'', ''GNRMC''} then parse_rmc fs sample_clear
      else Some (NAV_NMEA_RESULT_UNSUPPORTED_SENTENCE, sample_clear))"

definition checksum_of :: "string \<Rightarrow> u8 option" where
  "checksum_of t = (case t of [h, l] \<Rightarrow>
      if hex_value h < 0 \<or> hex_value l < 0 then None else Some (word_of_int (16 * hex_value h + hex_value l))
    | _ \<Rightarrow> None)"

text \<open>The sentence \<open>s\<close>: a payload, a star and two hexadecimal digits.\<close>

definition sentence_result :: "string \<Rightarrow> (nav_nmea_result \<times> nav_gnss_sample) option" where
  "sentence_result s = (case strchr s (CHR ''*'') of
     None \<Rightarrow> Some (NAV_NMEA_RESULT_MALFORMED_SENTENCE, sample_clear)
   | Some star \<Rightarrow> (case checksum_of (drop (star + 1) s) of
       None \<Rightarrow> Some (NAV_NMEA_RESULT_MALFORMED_SENTENCE, sample_clear)
     | Some expected \<Rightarrow>
         if xor_checksum (take star s) \<noteq> expected then Some (NAV_NMEA_RESULT_CHECKSUM_ERROR, sample_clear)
         else if star = 0 then Some (NAV_NMEA_RESULT_MALFORMED_SENTENCE, sample_clear)
         else parse_fields (split_commas 23 (take star s))))"

lemma parse_payload_eq:
  assumes "NUL \<notin> set s" "s \<noteq> []" "length s < 96"
  shows "parse_payload (s @ rest) (length s) sample_clear = parse_fields (split_commas 23 s)"
proof -
  obtain post where post: "replicate (96 - length s) NUL = NUL # post"
    using assms(3) by (metis Suc_diff_Suc replicate_Suc)
  obtain work ps where "split_fields (s @ replicate (96 - length s) NUL) = Some (work, ps)"
    "field_strings work ps = Some (split_commas 23 s)"
    using split_fields_strings [OF assms(1), of post] post by auto
  moreover obtain f fs where "split_commas 23 s = f # fs" by (meson neq_Nil_conv split_commas_ne)
  ultimately show ?thesis using assms by (simp add: parse_payload_def parse_fields_def)
qed

lemma read_behind_star:
  assumes "NUL \<notin> set t" and "b = u @ CHR ''*'' # t @ NUL # r"
  shows "(do {
     c1 \<leftarrow> mem_read b (length u + 1);
     if c1 = NUL then malformed else do {
     c2 \<leftarrow> mem_read b (length u + 2);
     if c2 = NUL then malformed else do {
     c3 \<leftarrow> mem_read b (length u + 3);
     if c3 \<noteq> NUL then malformed else f c1 c2 } } })
   = (case t of [h, l] \<Rightarrow> f h l | _ \<Rightarrow> malformed)"
proof -
  have rd: "mem_read b (Suc (length u)) = Some ((t @ NUL # r) ! 0)"
    "mem_read b (Suc (Suc (length u))) = (if 1 < length t + 1 + length r then Some ((t @ NUL # r) ! 1) else None)"
    "mem_read b (length u + 3) = (if 2 < length t + 1 + length r then Some ((t @ NUL # r) ! 2) else None)"
    by (simp_all add: assms(2) mem_read_def nth_append eval_nat_numeral)
  consider "t = []" | h where "t = [h]" | h l where "t = [h, l]" | h l m t' where "t = h # l # m # t'"
    by (metis neq_Nil_conv)
  then show ?thesis
    using assms(1) by cases (auto simp: rd nth_append)
qed

lemma parse_sentence_eq:
  assumes "length (np_sentence p) = 96" "np_length p < 96"
    and s: "s = takeWhile (\<lambda>c. c \<noteq> NUL) (take (np_length p) (np_sentence p))"
  shows "parse_sentence p = map_option (\<lambda>(r, g). (r, p\<lparr>np_sentence := (np_sentence p)[np_length p := NUL]\<rparr>, g))
    (sentence_result s)"
proof -
  let ?b = "(np_sentence p)[np_length p := NUL]"
  have cs: "c_string ?b = Some s"
  proof -
    have "?b = take (np_length p) (np_sentence p) @ NUL # drop (Suc (np_length p)) (np_sentence p)"
      using assms by (simp add: upd_conv_take_nth_drop)
    moreover have "takeWhile (\<lambda>c. c \<noteq> NUL) (xs @ NUL # ys) = takeWhile (\<lambda>c. c \<noteq> NUL) xs" for xs ys
      by (induction xs) auto
    ultimately show ?thesis unfolding s c_string_def by simp
  qed
  note len = c_string_len [OF cs]
  have len_b: "length ?b = 96" using assms by simp
  have nz: "NUL \<notin> set s" using cs by (rule c_string_no_NUL)
  show ?thesis
  proof (cases "strchr s (CHR ''*'')")
    case None
    then show ?thesis using assms cs by (simp add: parse_sentence_def mem_simps sentence_result_def)
  next
    case (Some k)
    then have k: "k < length s" "s ! k = CHR ''*''" by (simp_all add: strchr_Some)
    define u t r where "u = take k s" and "t = drop (k + 1) s" and "r = drop (length s + 1) ?b"
    have st: "s = u @ CHR ''*'' # t" using id_take_nth_drop [OF k(1)] k(2) by (simp add: u_def t_def)
    have "?b = take (length s) ?b @ ?b ! length s # drop (Suc (length s)) ?b"
      using len by (intro id_take_nth_drop) simp
    then have b: "?b = u @ CHR ''*'' # t @ NUL # r" using len by (simp add: r_def) (metis append.assoc append_Cons st)
    have uk: "length u = k" "take k ?b = u" using k(1) b by (simp_all add: u_def)
    have pay: "parse_payload ?b (length u) sample_clear = parse_fields (split_commas 23 u)" if "u \<noteq> []"
    proof -
      have "NUL \<notin> set u" using nz st by simp
      moreover have "length u < 96" using k(1) uk(1) len len_b by simp
      ultimately show ?thesis using that parse_payload_eq [of u "CHR ''*'' # t @ NUL # r"] b by simp
    qed
    have pay0: "parse_payload ?b 0 sample_clear = Some (NAV_NMEA_RESULT_MALFORMED_SENTENCE, sample_clear)"
      by (simp add: parse_payload_def)
    let ?m = "Some (NAV_NMEA_RESULT_MALFORMED_SENTENCE, p\<lparr>np_sentence := ?b\<rparr>, sample_clear)"
    have w: "mem_write (np_sentence p) (np_length p) NUL = Some ?b" using assms by (simp add: mem_simps)
    have nt: "NUL \<notin> set t" using nz st by simp
    have "parse_sentence p = (case t of [h, l] \<Rightarrow>
        (if hex_value h < 0 \<or> hex_value l < 0 then ?m
         else if xor_checksum (take k ?b) \<noteq> word_of_int (16 * hex_value h + hex_value l)
         then Some (NAV_NMEA_RESULT_CHECKSUM_ERROR, p\<lparr>np_sentence := ?b\<rparr>, sample_clear)
         else do {
             (result, sample) \<leftarrow> parse_payload ?b k sample_clear;
             Some (result, p\<lparr>np_sentence := ?b\<rparr>, sample) }) | _ \<Rightarrow> ?m)"
      unfolding parse_sentence_def w Option.bind.simps Let_def cs Some option.case
      by (rule read_behind_star [OF nt b, of ?m, unfolded uk(1)])
    moreover have "(k = 0) = (u = [])" using uk(1) by auto
    moreover have "sentence_result s = (case checksum_of t of
        None \<Rightarrow> Some (NAV_NMEA_RESULT_MALFORMED_SENTENCE, sample_clear)
      | Some expected \<Rightarrow>
          if xor_checksum u \<noteq> expected then Some (NAV_NMEA_RESULT_CHECKSUM_ERROR, sample_clear)
          else parse_payload ?b k sample_clear)"
    proof -
      have "parse_payload ?b k sample_clear = (if k = 0 then Some (NAV_NMEA_RESULT_MALFORMED_SENTENCE, sample_clear)
          else parse_fields (split_commas 23 u))"
        using pay pay0 uk(1) by (cases "k = 0") auto
      then show ?thesis unfolding sentence_result_def Some option.case t_def u_def by (simp only:)
    qed
    ultimately show ?thesis unfolding checksum_of_def uk(2)
      by (cases "parse_payload ?b k sample_clear") (auto split: list.split)
  qed
qed

end
