(* ===== verification/Nav_Nmea_Stream.thy ===== *)
theory Nav_Nmea_Stream
  imports Nav_Nmea_Sentence
begin

text \<open>
  The parser on a stream of bytes: its invariant, what each byte does, and the framing of sentences.
\<close>

section \<open>Streams\<close>

text \<open>Pushing a sequence of bytes, as every caller of the parser does; the list of the results.\<close>

fun nmea_feed :: "u8 list \<Rightarrow> nav_nmea_parser \<Rightarrow>
    ((nav_nmea_result \<times> nav_gnss_sample) list \<times> nav_nmea_parser) option" where
  "nmea_feed [] p = Some ([], p)"
| "nmea_feed (b # bs) p = do {
     (r, p, g) \<leftarrow> nav_nmea_parser_push b p;
     (rs, p) \<leftarrow> nmea_feed bs p;
     Some ((r, g) # rs, p) }"

lemma nmea_feed_append:
  "nmea_feed (xs @ ys) p = do { (rs, p) \<leftarrow> nmea_feed xs p; (rs', p) \<leftarrow> nmea_feed ys p; Some (rs @ rs', p) }"
  by (induction xs arbitrary: p) (auto split: prod.splits Option.bind_splits)

definition byte_of :: "char \<Rightarrow> u8" where
  "byte_of c = of_nat (code c)"

lemma code_less [simp]: "code c < 256"
  by (simp add: code_def)

lemma char_of_byte [simp]: "char_of (unat (byte_of c)) = c"
  by (simp add: byte_of_def unat_of_nat code_def take_bit_nat_eq_self)

lemma byte_of_char [simp]: "byte_of (char_of (unat b)) = b"
proof -
  have "unat b < 256" using unsigned_less [of b, where ?'a = nat] by simp
  then show ?thesis by (simp add: byte_of_def code_def of_char_of)
qed

section \<open>The invariant\<close>

definition parser_wf :: "nav_nmea_parser \<Rightarrow> bool" where
  "parser_wf p \<longleftrightarrow> length (np_sentence p) = 96 \<and> np_length p \<le> 95"

text \<open>The text received since the last dollar sign.\<close>

definition pending :: "nav_nmea_parser \<Rightarrow> string" where
  "pending p = take (np_length p) (np_sentence p)"

definition c_part :: "string \<Rightarrow> string" where
  "c_part s = takeWhile (\<lambda>c. c \<noteq> NUL) s"

lemma parser_wf_init: "parser_wf nav_nmea_parser_init"
  by (simp add: parser_wf_def nav_nmea_parser_init_def)

lemma push_cases:
  assumes "parser_wf p"
  shows "nav_nmea_parser_push (byte_of c) p =
   (if c = CHR ''$'' then Some (NAV_NMEA_RESULT_NONE, p\<lparr>np_length := 0, np_in_sentence := True\<rparr>, sample_clear)
    else if \<not> np_in_sentence p then Some (NAV_NMEA_RESULT_NONE, p, sample_clear)
    else if c \<in> {CHR 0x0D, CHR 0x0A} then
      (if np_length p = 0 then Some (NAV_NMEA_RESULT_NONE, p\<lparr>np_in_sentence := False\<rparr>, sample_clear)
       else map_option (\<lambda>(r, g). (r, p\<lparr>np_in_sentence := False,
         np_sentence := (np_sentence p)[np_length p := NUL]\<rparr>, g)) (sentence_result (c_part (pending p))))
    else if np_length p = 95
      then Some (NAV_NMEA_RESULT_OVERFLOW, p\<lparr>np_length := 0, np_in_sentence := False\<rparr>, sample_clear)
    else Some (NAV_NMEA_RESULT_NONE, p\<lparr>np_sentence := (np_sentence p)[np_length p := c],
      np_length := np_length p + 1\<rparr>, sample_clear))"
proof -
  have "parse_sentence (p\<lparr>np_in_sentence := False\<rparr>) = map_option (\<lambda>(r, g). (r, p\<lparr>np_in_sentence := False,
         np_sentence := (np_sentence p)[np_length p := NUL]\<rparr>, g)) (sentence_result (c_part (pending p)))"
    using parse_sentence_eq [of "p\<lparr>np_in_sentence := False\<rparr>"] assms
    by (simp add: parser_wf_def c_part_def pending_def)
  then show ?thesis using assms
    by (simp add: nav_nmea_parser_push_def Let_def parser_wf_def mem_simps)
qed

lemma push_wf:
  assumes "parser_wf p" "nav_nmea_parser_push b p = Some (r, p', g)"
  shows "parser_wf p'"
proof -
  have "nav_nmea_parser_push (byte_of (char_of (unat b))) p = Some (r, p', g)" using assms(2) by simp
  then show ?thesis using assms(1) unfolding push_cases [OF assms(1)]
    by (auto simp: parser_wf_def split: if_splits)
qed

lemma feed_wf: "nmea_feed bs p = Some (rs, p') \<Longrightarrow> parser_wf p \<Longrightarrow> parser_wf p'"
  by (induction bs arbitrary: p rs p') (auto dest: push_wf split: Option.bind_splits prod.splits)

section \<open>Framing\<close>

definition plain :: "string \<Rightarrow> bool" where
  "plain s \<longleftrightarrow> set s \<inter> {CHR ''$'', CHR 0x0D, CHR 0x0A} = {}"

lemma feed_body:
  assumes "parser_wf p" "np_in_sentence p" "plain s" "np_length p + length s \<le> 95"
  shows "\<exists>p'. nmea_feed (map byte_of s) p = Some (replicate (length s) (NAV_NMEA_RESULT_NONE, sample_clear), p') \<and>
    parser_wf p' \<and> np_in_sentence p' \<and> np_length p' = np_length p + length s \<and> pending p' = pending p @ s"
  using assms
proof (induction s arbitrary: p)
  case (Cons c s)
  define q where "q = p\<lparr>np_sentence := (np_sentence p)[np_length p := c], np_length := np_length p + 1\<rparr>"
  have "nav_nmea_parser_push (byte_of c) p = Some (NAV_NMEA_RESULT_NONE, q, sample_clear)"
    using Cons.prems by (auto simp: push_cases plain_def q_def)
  moreover have "parser_wf q" "np_in_sentence q" "plain s" "np_length q + length s \<le> 95"
    "np_length q = np_length p + 1" "pending q = pending p @ [c]"
    using Cons.prems by (auto simp: q_def parser_wf_def plain_def pending_def take_Suc_update)
  ultimately show ?case using Cons.IH [of q] by auto
qed simp

lemma feed_idle:
  assumes "parser_wf p" "\<not> np_in_sentence p" "CHR ''$'' \<notin> set s"
  shows "nmea_feed (map byte_of s) p = Some (replicate (length s) (NAV_NMEA_RESULT_NONE, sample_clear), p)"
  using assms by (induction s) (auto simp: push_cases)

lemma feed_start:
  assumes "parser_wf p"
  shows "\<exists>q. nav_nmea_parser_push (byte_of (CHR ''$'')) p = Some (NAV_NMEA_RESULT_NONE, q, sample_clear) \<and>
    parser_wf q \<and> np_in_sentence q \<and> np_length q = 0 \<and> pending q = []"
  using assms by (auto simp: push_cases parser_wf_def pending_def)

text \<open>The bytes of a sentence on the wire.\<close>

definition nmea_line :: "string \<Rightarrow> u8 list" where
  "nmea_line s = map byte_of (CHR ''$'' # s @ [CHR 0x0D, CHR 0x0A])"

lemma feed_line:
  assumes "parser_wf p" "plain s" "s \<noteq> []" "length s \<le> 95"
  shows "\<exists>p'. parser_wf p' \<and> \<not> np_in_sentence p' \<and> nmea_feed (nmea_line s) p = map_option (\<lambda>result.
    (replicate (length s + 1) (NAV_NMEA_RESULT_NONE, sample_clear) @ [result, (NAV_NMEA_RESULT_NONE, sample_clear)], p'))
    (sentence_result (c_part s))"
proof -
  obtain q where q: "nav_nmea_parser_push (byte_of (CHR ''$'')) p = Some (NAV_NMEA_RESULT_NONE, q, sample_clear)"
    "parser_wf q" "np_in_sentence q" "np_length q = 0" "pending q = []"
    using feed_start [OF assms(1)] by blast
  obtain t where t: "nmea_feed (map byte_of s) q = Some (replicate (length s) (NAV_NMEA_RESULT_NONE, sample_clear), t)"
    "parser_wf t" "np_in_sentence t" "np_length t = length s" "pending t = s"
    using feed_body [OF q(2,3) assms(2)] q(4,5) assms(4) by auto
  define u where "u = t\<lparr>np_in_sentence := False, np_sentence := (np_sentence t)[np_length t := NUL]\<rparr>"
  have u: "parser_wf u" "\<not> np_in_sentence u" using t(2) by (simp_all add: u_def parser_wf_def)
  have cr: "nav_nmea_parser_push (byte_of (CHR 0x0D)) t = map_option (\<lambda>(r, g). (r, u, g)) (sentence_result (c_part s))"
    using t(3-5) assms(3) by (simp add: push_cases [OF t(2)] u_def)
  have lf: "nav_nmea_parser_push (byte_of (CHR 0x0A)) u = Some (NAV_NMEA_RESULT_NONE, u, sample_clear)"
    using u by (simp add: push_cases)
  have "nmea_feed (nmea_line s) p = map_option (\<lambda>result.
    (replicate (length s + 1) (NAV_NMEA_RESULT_NONE, sample_clear) @ [result, (NAV_NMEA_RESULT_NONE, sample_clear)], u))
    (sentence_result (c_part s))"
    by (cases "sentence_result (c_part s)") (auto simp: nmea_line_def q(1) nmea_feed_append t(1) cr lf)
  then show ?thesis using u by blast
qed

lemma feed_overlong_line:
  assumes "parser_wf p" "plain s" "95 < length s"
  shows "\<exists>p'. parser_wf p' \<and> \<not> np_in_sentence p' \<and> np_length p' = 0 \<and>
    nmea_feed (nmea_line s) p = Some (replicate 96 (NAV_NMEA_RESULT_NONE, sample_clear) @
      (NAV_NMEA_RESULT_OVERFLOW, sample_clear) # replicate (length s - 94) (NAV_NMEA_RESULT_NONE, sample_clear), p')"
proof -
  define s1 where "s1 = take 95 s"
  obtain c s2 where "drop 95 s = c # s2" using assms(3) by (cases "drop 95 s") auto
  then have s: "s = s1 @ c # s2" "length s1 = 95"
    using assms(3) append_take_drop_id [of 95 s] by (simp_all add: s1_def)
  have pl: "plain s1" "c \<notin> {CHR ''$'', CHR 0x0D, CHR 0x0A}" "CHR ''$'' \<notin> set (s2 @ [CHR 0x0D, CHR 0x0A])"
    using assms(2) by (auto simp: plain_def s(1))
  obtain q where q: "nav_nmea_parser_push (byte_of (CHR ''$'')) p = Some (NAV_NMEA_RESULT_NONE, q, sample_clear)"
    "parser_wf q" "np_in_sentence q" "np_length q = 0"
    using feed_start [OF assms(1)] by blast
  obtain t where t: "nmea_feed (map byte_of s1) q = Some (replicate 95 (NAV_NMEA_RESULT_NONE, sample_clear), t)"
    "parser_wf t" "np_in_sentence t" "np_length t = 95"
    using feed_body [OF q(2,3) pl(1)] q(4) s(2) by auto
  define u where "u = t\<lparr>np_length := 0, np_in_sentence := False\<rparr>"
  have u: "parser_wf u" "\<not> np_in_sentence u" "np_length u = 0" using t(2) by (simp_all add: u_def parser_wf_def)
  have o: "nav_nmea_parser_push (byte_of c) t = Some (NAV_NMEA_RESULT_OVERFLOW, u, sample_clear)"
    using t(3,4) pl(2) by (simp add: push_cases [OF t(2)] u_def)
  have idle: "nmea_feed (map byte_of (s2 @ [CHR 0x0D, CHR 0x0A])) u =
      Some (replicate (length s2 + 2) (NAV_NMEA_RESULT_NONE, sample_clear), u)"
    using feed_idle [OF u(1,2) pl(3)] by simp
  have line: "nmea_line s = byte_of (CHR ''$'') # map byte_of s1 @ byte_of c # map byte_of (s2 @ [CHR 0x0D, CHR 0x0A])"
    by (simp add: nmea_line_def s(1))
  have "replicate 96 x = x # replicate 95 x" for x :: "nav_nmea_result \<times> nav_gnss_sample"
    using replicate_Suc [of 95 x] by simp
  moreover have "length s - 94 = length s2 + 2" by (simp add: s)
  ultimately have "nmea_feed (nmea_line s) p = Some (replicate 96 (NAV_NMEA_RESULT_NONE, sample_clear) @
      (NAV_NMEA_RESULT_OVERFLOW, sample_clear) # replicate (length s - 94) (NAV_NMEA_RESULT_NONE, sample_clear), u)"
    unfolding line nmea_feed.simps q(1) nmea_feed_append
    by (simp only: t(1) o idle Option.bind.simps prod.case nmea_feed.simps append.simps)
  then show ?thesis using u by blast
qed

text \<open>C22: Framing and resynchronisation: whatever the parser has seen before, a line of up to 95 characters
  is answered by exactly one result, the one its text determines, when the line ends; a longer line
  gives one overflow result at its 96th character and nothing else, and the parser then waits for the
  next dollar sign.\<close>

theorem nmea_line_answer:
  assumes "parser_wf p" "plain s" "s \<noteq> []"
  shows "\<exists>p'. parser_wf p' \<and> \<not> np_in_sentence p' \<and> nmea_feed (nmea_line s) p =
    (if length s \<le> 95 then map_option (\<lambda>result.
       (replicate (length s + 1) (NAV_NMEA_RESULT_NONE, sample_clear) @
         [result, (NAV_NMEA_RESULT_NONE, sample_clear)], p')) (sentence_result (c_part s))
     else Some (replicate 96 (NAV_NMEA_RESULT_NONE, sample_clear) @ (NAV_NMEA_RESULT_OVERFLOW, sample_clear) #
         replicate (length s - 94) (NAV_NMEA_RESULT_NONE, sample_clear), p'))"
  using feed_line [OF assms] feed_overlong_line [OF assms(1,2)] by (cases "length s \<le> 95") auto

end
