(* ===== verification/Nav_Nmea_Accept.thy ===== *)
theory Nav_Nmea_Accept
  imports Nav_Nmea_Stream Nav_Quality
begin

text \<open>
  What the NMEA parser accepts: the shape of an accepted sentence, the bounds of the position it
  yields, the detection of a corrupted character, and when the parser is undefined.
\<close>

section \<open>Numbers\<close>

lemma rnd64_of_int: "\<bar>n\<bar> < 2 ^ 53 \<Longrightarrow> fp_rnd binary64 (of_int n) = Fin (of_int n)"
proof (rule fp_rnd_of_int)
  assume n: "\<bar>n\<bar> < 2 ^ 53"
  then have "\<bar>rat_of_int n\<bar> \<le> 2 ^ 53" by (metis less_imp_le of_int_abs of_int_le_iff of_int_numeral of_int_power)
  also have "(2 :: rat) ^ 53 \<le> 2 ^ 1000" by (intro power_increasing) simp_all
  finally show "\<bar>rat_of_int n\<bar> \<le> fmt_max binary64" using fmt_max_binary64 by linarith
qed simp_all

lemma rnd64_between:
  assumes "of_int lo \<le> x" "x \<le> of_int hi" "\<bar>lo\<bar> < 2 ^ 53" "\<bar>hi\<bar> < 2 ^ 53"
  shows "\<exists>r. fp_rnd binary64 x = Fin r \<and> of_int lo \<le> r \<and> r \<le> of_int hi"
  using f64.rnd_mono [OF assms(1)] f64.rnd_mono [OF assms(2)] assms(3,4)
  by (cases "fp_rnd binary64 x") (simp_all add: rnd64_of_int)

lemma round_away_bounds: "of_int lo \<le> x \<Longrightarrow> x \<le> of_int hi \<Longrightarrow> lo \<le> rat_round_away x \<and> rat_round_away x \<le> hi"
  unfolding rat_round_away_def by (auto simp: floor_le_iff le_floor_iff) linarith+

lemma rat_trunc_of_int [simp]: "rat_trunc (of_int n) = n"
  by (simp add: rat_trunc_def)

lemma int32_consts: "fp_of_int binary64 INT32_MIN = Fin (- 2147483648)" "fp_of_int binary64 INT32_MAX = Fin 2147483647"
  using rnd64_of_int [of "- 2147483648"] rnd64_of_int [of 2147483647]
  by (simp_all add: fp_of_int_def INT32_MIN_def INT32_MAX_def)

lemma round_to_i32_cases:
  obtains "round_to_i32 v = Some Rejected"
  | a where "v = Fin a" "- (2 ^ 31) \<le> rat_round_away a" "rat_round_away a < 2 ^ 31"
      "round_to_i32 v = Some (Parsed (word_of_int (rat_round_away a)))"
proof (cases "\<exists>a. v = Fin a \<and> - (2 ^ 31) \<le> rat_round_away a \<and> rat_round_away a < 2 ^ 31")
  case True
  then obtain a where a: "v = Fin a" "- (2 ^ 31) \<le> rat_round_away a" "rat_round_away a < 2 ^ 31" by blast
  have "rat_of_int (rat_round_away a) \<le> 2147483647" "- 2147483648 \<le> rat_of_int (rat_round_away a)"
    using a(2,3) by (simp_all only: of_int_le_iff [where ?'a = rat, symmetric]) simp_all
  then have "round_to_i32 v = Some (Parsed (word_of_int (rat_round_away a)))"
    using a by (simp add: round_to_i32_def Let_def int32_consts) (simp add: INT32_MIN_def INT32_MAX_def)
  then show ?thesis using a that(2) by blast
next
  case False
  then show ?thesis
  proof (cases v)
    case (Fin a)
    have "rat_of_int (rat_round_away a) < - 2147483648 \<or> 2147483647 < rat_of_int (rat_round_away a)"
      if "\<not> (- (2 ^ 31) \<le> rat_round_away a \<and> rat_round_away a < 2 ^ 31)"
      using that by (simp only: of_int_less_iff [where ?'a = rat, symmetric] not_le) auto
    then have "round_to_i32 v = Some Rejected"
      using False Fin by (auto simp: round_to_i32_def Let_def int32_consts)
    then show ?thesis by (rule that(1))
  qed (rule that(1), simp add: round_to_i32_def)+
qed

lemma round_to_u16_total: "round_to_u16 v \<noteq> None"
proof (cases v)
  case (Fin a)
  have "0 \<le> n \<and> n \<le> 65535" if "\<not> rat_of_int n < 0" "\<not> 65535 < rat_of_int n" for n
    using that by (simp only: of_int_le_iff [where ?'a = rat, symmetric] not_less) simp
  then show ?thesis using Fin by (auto simp: round_to_u16_def Let_def)
qed (simp_all add: round_to_u16_def)

section \<open>Coordinates\<close>

text \<open>The value whose hundredth does not fit an \<^verbatim>\<open>int\<close>.\<close>

definition coordinate_overflow :: "string \<Rightarrow> bool" where
  "coordinate_overflow v \<longleftrightarrow> (case parse_double_field v of Rejected \<Rightarrow> False
     | Parsed raw \<Rightarrow> fp_le (Fin (2 ^ 31)) (fp_div binary64 raw (Fin 100)))"

lemma parse_double_finite: "parse_double_field v = Parsed x \<Longrightarrow> \<exists>a. x = Fin a"
  by (cases x) (auto simp: parse_double_field_def split: if_splits prod.splits)

lemma degrees_None:
  assumes "parse_double_field v = Parsed raw" "\<not> fp_lt raw (Fin 0)"
  shows "fp_to_int INT32_MIN INT32_MAX (fp_div binary64 raw (Fin 100)) = None \<longleftrightarrow> coordinate_overflow v"
proof -
  obtain a where a: "raw = Fin a" "0 \<le> a" using assms parse_double_finite by fastforce
  then have "fp_le (Fin 0) (fp_rnd binary64 (a / 100))" by (simp add: f64.rnd_nonneg)
  then show ?thesis using a assms(1)
    by (cases "fp_rnd binary64 (a / 100)")
      (auto simp: coordinate_overflow_def rat_trunc_def INT32_MIN_def INT32_MAX_def Let_def floor_le_iff le_floor_iff
        split: if_splits)
qed

definition coordinate_bound :: "bool \<Rightarrow> int" where
  "coordinate_bound longitude = (if longitude then 1810000000 else 910000000)"

text \<open>A parsed coordinate comes from whole degrees below the limit and minutes below sixty.\<close>

lemma minutes_unit:
  assumes "0 \<le> a" "0 \<le> d" "d \<le> 180"
    and m: "m = fp_sub binary64 (Fin a) (fp_mul binary64 (fp_of_int binary64 d) (Fin 100))"
    and "\<not> fp_lt m (Fin 0)" "\<not> fp_le (Fin 60) m"
  shows "\<exists>z. fp_add binary64 (fp_of_int binary64 d) (fp_div binary64 m (Fin 60)) = Fin z \<and>
    0 \<le> z \<and> z \<le> of_int (d + 1)"
proof -
  have d: "fp_of_int binary64 d = Fin (of_int d)" using assms(2,3) by (simp add: fp_of_int_def rnd64_of_int)
  have dd: "fp_mul binary64 (Fin (of_int d)) (Fin 100) = Fin (of_int (d * 100))"
    using assms(2,3) rnd64_of_int [of "d * 100"] by simp
  have "m = fp_rnd binary64 (a - of_int (d * 100))" by (simp only: m d dd) (simp add: fp_sub_def)
  then have "m \<noteq> NaN" using f64.rnd_not_NaN by simp
  then obtain x where x: "m = Fin x" "0 \<le> x" "x < 60" using assms(5,6) by (cases m) auto
  then obtain y where y: "fp_rnd binary64 (x / 60) = Fin y" "0 \<le> y" "y \<le> 1"
    using f64.rnd_unit [of "x / 60"] by auto
  have "\<exists>r. fp_rnd binary64 (of_int d + y) = Fin r \<and> of_int 0 \<le> r \<and> r \<le> of_int (d + 1)"
    using assms(2,3) y by (intro rnd64_between) simp_all
  then show ?thesis using x y d by simp
qed

lemma coordinate_scaled:
  assumes "0 \<le> z" "z \<le> of_int d" "d \<le> 181"
    and "round_to_i32 (fp_mul binary64 (if s then fp_neg (Fin z) else Fin z) (Fin 10000000)) = Some (Parsed w)"
  shows "\<bar>sint w\<bar> \<le> d * 10000000"
proof -
  let ?x = "(if s then - z else z) * 10000000"
  have "of_int (- (d * 10000000)) \<le> ?x" "?x \<le> of_int (d * 10000000)" using assms(1,2) by auto
  moreover have d: "0 \<le> d" using assms(1,2) by (metis of_int_0_le_iff order_trans)
  ultimately obtain r where r: "fp_rnd binary64 ?x = Fin r" "of_int (- (d * 10000000)) \<le> r" "r \<le> of_int (d * 10000000)"
    using rnd64_between [of "- (d * 10000000)" ?x "d * 10000000"] assms(3) by auto
  have "fp_mul binary64 (if s then fp_neg (Fin z) else Fin z) (Fin 10000000) = Fin r" using r(1) by (cases s) simp_all
  then have "w = word_of_int (rat_round_away r)" "- (2 ^ 31) \<le> rat_round_away r" "rat_round_away r < 2 ^ 31"
    using assms(4) by (cases rule: round_to_i32_cases [of "Fin r"]; simp)+
  then have "sint w = rat_round_away r" by (simp add: sint_sbintrunc' signed_take_bit_int_eq_self)
  then show ?thesis using round_away_bounds [OF r(2,3)] by (simp add: abs_le_iff)
qed

lemma coordinate_result:
  obtains "parse_coordinate_e7 v h lon = None" "coordinate_overflow v"
  | "parse_coordinate_e7 v h lon = Some Rejected"
  | w where "parse_coordinate_e7 v h lon = Some (Parsed w)" "\<bar>sint w\<bar> \<le> coordinate_bound lon"
proof (cases "length h = 1 \<and> (\<exists>raw. parse_double_field v = Parsed raw \<and> \<not> fp_lt raw (Fin 0))")
  case False
  then have "parse_coordinate_e7 v h lon = Some Rejected"
    by (auto simp: parse_coordinate_e7_def split: parsed.split)
  then show ?thesis by (rule that(2))
next
  case True
  then obtain raw where h: "length h = 1" and raw: "parse_double_field v = Parsed raw" "\<not> fp_lt raw (Fin 0)" by blast
  then obtain a where a: "raw = Fin a" "0 \<le> a" using parse_double_finite by fastforce
  show ?thesis
  proof (cases "fp_to_int INT32_MIN INT32_MAX (fp_div binary64 raw (Fin 100))")
    case None
    then have "parse_coordinate_e7 v h lon = None" using h raw by (simp add: parse_coordinate_e7_def)
    then show ?thesis using that(1) degrees_None [OF raw] None by blast
  next
    case (Some d)
    have d0: "0 \<le> d"
    proof -
      have "fp_le (Fin 0) (fp_rnd binary64 (a / 100))" using a by (simp add: f64.rnd_nonneg)
      then show ?thesis using Some a
        by (cases "fp_rnd binary64 (a / 100)") (auto simp: rat_trunc_def Let_def split: if_splits)
    qed
    define m where "m = fp_sub binary64 (Fin a) (fp_mul binary64 (fp_of_int binary64 d) (Fin 100))"
    define hem where "hem = toupper (h ! 0)"
    have eq: "parse_coordinate_e7 v h lon =
       (if fp_lt m (Fin 0) \<or> fp_le (Fin 60) m then Some Rejected
        else if lon \<and> (hem \<noteq> CHR ''E'' \<and> hem \<noteq> CHR ''W'' \<or> d > 180) then Some Rejected
        else if \<not> lon \<and> (hem \<noteq> CHR ''N'' \<and> hem \<noteq> CHR ''S'' \<or> d > 90) then Some Rejected
        else round_to_i32 (fp_mul binary64 (if hem = CHR ''S'' \<or> hem = CHR ''W''
          then fp_neg (fp_add binary64 (fp_of_int binary64 d) (fp_div binary64 m (Fin 60)))
          else fp_add binary64 (fp_of_int binary64 d) (fp_div binary64 m (Fin 60))) (Fin 10000000)))"
      unfolding parse_coordinate_e7_def using h raw Some by (simp add: Let_def m_def hem_def a(1))
    show ?thesis
    proof (cases "parse_coordinate_e7 v h lon = Some Rejected")
      case True
      then show ?thesis by (rule that(2))
    next
      case False
      define d' :: int where "d' = (if lon then 180 else 90)"
      have m: "\<not> fp_lt m (Fin 0)" "\<not> fp_le (Fin 60) m" and dle: "d \<le> d'"
        using False eq by (auto simp: d'_def split: if_splits)
      have "d \<le> 180" using dle by (simp add: d'_def split: if_splits)
      then obtain z where z: "fp_add binary64 (fp_of_int binary64 d) (fp_div binary64 m (Fin 60)) = Fin z"
        "0 \<le> z" "z \<le> of_int (d + 1)"
        using minutes_unit [OF a(2) d0 _ m_def m] by blast
      have r: "parse_coordinate_e7 v h lon = round_to_i32 (fp_mul binary64 (if hem = CHR ''S'' \<or> hem = CHR ''W''
          then fp_neg (Fin z) else Fin z) (Fin 10000000))"
        using eq False z(1) by (auto split: if_splits)
      obtain w where w: "parse_coordinate_e7 v h lon = Some (Parsed w)"
        using False unfolding r by (cases rule: round_to_i32_cases) auto
      have "\<bar>sint w\<bar> \<le> (d + 1) * 10000000"
        using coordinate_scaled [OF z(2,3)] r w \<open>d \<le> 180\<close> by simp
      also have "\<dots> \<le> coordinate_bound lon" using dle by (auto simp: coordinate_bound_def d'_def)
      finally show ?thesis using that(3) w by blast
    qed
  qed
qed

section \<open>Accepted sentences\<close>

definition position_in_bounds :: "nav_position \<Rightarrow> bool" where
  "position_in_bounds p \<longleftrightarrow> \<bar>sint (lat_e7 p)\<bar> \<le> coordinate_bound False \<and> \<bar>sint (lon_e7 p)\<bar> \<le> coordinate_bound True"

lemma optional_result:
  obtains "parse_optional_coordinate_e7 v h lon = None" "coordinate_overflow v"
  | "parse_optional_coordinate_e7 v h lon = Some Rejected"
  | w where "parse_optional_coordinate_e7 v h lon = Some (Parsed w)" "\<bar>sint w\<bar> \<le> coordinate_bound lon"
proof (cases "v = []")
  case True
  then show ?thesis using that(3) [of 0] by (simp add: parse_optional_coordinate_e7_def coordinate_bound_def)
next
  case False
  then have "parse_optional_coordinate_e7 v h lon = parse_coordinate_e7 v h lon"
    by (simp add: parse_optional_coordinate_e7_def)
  then show ?thesis using that by (cases rule: coordinate_result [of v h lon]) auto
qed

lemma coordinates_result:
  assumes "coordinate = parse_coordinate_e7 \<or> coordinate = parse_optional_coordinate_e7"
  obtains "coordinate v h lon = None" "coordinate_overflow v"
  | "coordinate v h lon = Some Rejected"
  | w where "coordinate v h lon = Some (Parsed w)" "\<bar>sint w\<bar> \<le> coordinate_bound lon"
  using assms that coordinate_result [of v h lon] optional_result [of v h lon] by metis

lemma position_result:
  assumes "coordinate = parse_coordinate_e7 \<or> coordinate = parse_optional_coordinate_e7"
  obtains "parse_position coordinate a b c d = None" "coordinate_overflow a \<or> coordinate_overflow c"
  | "parse_position coordinate a b c d = Some Rejected"
  | la lo where "parse_position coordinate a b c d = Some (Parsed (la, lo))"
      "\<bar>sint la\<bar> \<le> coordinate_bound False" "\<bar>sint lo\<bar> \<le> coordinate_bound True"
  using that by (cases rule: coordinates_result [OF assms, of a b False];
      cases rule: coordinates_result [OF assms, of c d True]) (simp_all add: parse_position_def)

lemma rmc_result:
  obtains "parse_rmc fs g = None" "list_ex coordinate_overflow fs"
  | "parse_rmc fs g = Some (NAV_NMEA_RESULT_MALFORMED_SENTENCE, g)"
  | s where "parse_rmc fs g = Some (NAV_NMEA_RESULT_SAMPLE, s)" "position_in_bounds (gs_position s)"
      "nav_gnss_sample_is_usable (Some s) = gs_valid s"
proof (cases "length fs < 7 \<or> length (fs ! 2) \<noteq> 1 \<or> toupper (fs ! 2 ! 0) \<notin> {CHR ''A'', CHR ''V''}")
  case True
  then have "parse_rmc fs g = Some (NAV_NMEA_RESULT_MALFORMED_SENTENCE, g)" by (auto simp: parse_rmc_def Let_def)
  then show ?thesis by (rule that(2))
next
  case False
  define valid where "valid = (toupper (fs ! 2 ! 0) = CHR ''A'')"
  define coordinate where "coordinate = (if valid then parse_coordinate_e7 else parse_optional_coordinate_e7)"
  have c: "coordinate = parse_coordinate_e7 \<or> coordinate = parse_optional_coordinate_e7"
    by (simp add: coordinate_def)
  have eq: "parse_rmc fs g = (case parse_position coordinate (fs ! 3) (fs ! 4) (fs ! 5) (fs ! 6) of
      None \<Rightarrow> None | Some Rejected \<Rightarrow> Some (NAV_NMEA_RESULT_MALFORMED_SENTENCE, g)
    | Some (Parsed (lat, lon)) \<Rightarrow> Some (NAV_NMEA_RESULT_SAMPLE, nav_gnss_sample_zero
               \<lparr>gs_valid := valid, gs_fix_type := (if valid then NAV_GNSS_FIX_3D else NAV_GNSS_FIX_NONE),
                gs_hacc_mm := 0, gs_vacc_mm := 0,
                gs_position := \<lparr>lat_e7 = lat, lon_e7 = lon, alt_mm = 0\<rparr>\<rparr>))"
    unfolding parse_rmc_def Let_def valid_def [symmetric] coordinate_def [symmetric] using False
    by (auto simp: valid_def split: option.split parsed.split prod.split)
  have "fs ! 3 \<in> set fs" "fs ! 5 \<in> set fs" using False by simp_all
  then have ov: "coordinate_overflow (fs ! 3) \<or> coordinate_overflow (fs ! 5) \<Longrightarrow> list_ex coordinate_overflow fs"
    by (auto simp: list_ex_iff)
  show ?thesis
    by (cases rule: position_result [OF c, of "fs ! 3" "fs ! 4" "fs ! 5" "fs ! 6"])
      (use that ov in \<open>auto simp: eq position_in_bounds_def nav_gnss_sample_is_usable_def\<close>)
qed

lemma gga_result:
  obtains "parse_gga fs g = None" "list_ex coordinate_overflow fs"
  | "parse_gga fs g = Some (NAV_NMEA_RESULT_MALFORMED_SENTENCE, g)"
  | s where "parse_gga fs g = Some (NAV_NMEA_RESULT_SAMPLE, s)" "position_in_bounds (gs_position s)"
      "nav_gnss_sample_is_usable (Some s) = gs_valid s"
proof (cases "length fs < 10")
  case True
  then have "parse_gga fs g = Some (NAV_NMEA_RESULT_MALFORMED_SENTENCE, g)" by (simp add: parse_gga_def)
  then show ?thesis by (rule that(2))
next
  case len: False
  define q sat hd al where "q = parse_long_field (fs ! 6) 0 99" and "sat = parse_long_field (fs ! 7) 0 255"
    and "hd = (if fs ! 8 = [] then Parsed (Fin 0) else parse_double_field (fs ! 8))"
    and "al = (if fs ! 9 = [] then Parsed (Fin 0) else parse_double_field (fs ! 9))"
  show ?thesis
  proof (cases "q = Rejected \<or> sat = Rejected \<or> hd = Rejected \<or> al = Rejected")
    case True
    then have "parse_gga fs g = Some (NAV_NMEA_RESULT_MALFORMED_SENTENCE, g)"
      unfolding parse_gga_def Let_def q_def [symmetric] sat_def [symmetric] hd_def [symmetric] al_def [symmetric]
      using len by (auto split: parsed.split)
    then show ?thesis by (rule that(2))
  next
    case False
    then obtain fq sats hdop alt where p: "q = Parsed fq" "sat = Parsed sats" "hd = Parsed hdop" "al = Parsed alt"
      by (meson parsed.exhaust)
    define coordinate where "coordinate = (if fq \<noteq> 0 then parse_coordinate_e7 else parse_optional_coordinate_e7)"
    define rh where "rh = (if fs ! 8 = [] then Some (Parsed 0) else round_to_u16 (fp_mul binary64 hdop (Fin 100)))"
    define ra where "ra = (if fs ! 9 = [] then Some (Parsed 0) else round_to_i32 (fp_mul binary64 alt (Fin 1000)))"
    have c: "coordinate = parse_coordinate_e7 \<or> coordinate = parse_optional_coordinate_e7"
      by (simp add: coordinate_def)
    have rh: "rh \<noteq> None" using round_to_u16_total [of "fp_mul binary64 hdop (Fin 100)"] by (simp add: rh_def)
    have ra: "ra \<noteq> None"
      by (cases rule: round_to_i32_cases [of "fp_mul binary64 alt (Fin 1000)"]) (simp_all add: ra_def)
    have eq: "parse_gga fs g = (case the rh of Rejected \<Rightarrow> Some (NAV_NMEA_RESULT_MALFORMED_SENTENCE, g)
      | Parsed hdop_centi \<Rightarrow> (case parse_position coordinate (fs ! 2) (fs ! 3) (fs ! 4) (fs ! 5) of
          None \<Rightarrow> None | Some Rejected \<Rightarrow> Some (NAV_NMEA_RESULT_MALFORMED_SENTENCE, g)
        | Some (Parsed (lat, lon)) \<Rightarrow> (case the ra of Rejected \<Rightarrow> Some (NAV_NMEA_RESULT_MALFORMED_SENTENCE, g)
          | Parsed a \<Rightarrow> Some (NAV_NMEA_RESULT_SAMPLE, nav_gnss_sample_zero
                         \<lparr>gs_fix_type := fix_type_from_gga_quality fq, gs_valid := fq \<noteq> 0,
                          gs_satellites := word_of_int sats, gs_hacc_mm := 0, gs_vacc_mm := 0,
                          gs_hdop_centi := hdop_centi,
                          gs_position := \<lparr>lat_e7 = lat, lon_e7 = lon, alt_mm = a\<rparr>\<rparr>))))"
      unfolding parse_gga_def Let_def q_def [symmetric] sat_def [symmetric] hd_def [symmetric] al_def [symmetric]
        p prod.case parsed.case coordinate_def [symmetric] rh_def [symmetric] ra_def [symmetric]
      using len rh ra by (auto split: option.split parsed.split prod.split)
    have "fs ! 2 \<in> set fs" "fs ! 4 \<in> set fs" using len by simp_all
    then have ov: "coordinate_overflow (fs ! 2) \<or> coordinate_overflow (fs ! 4) \<Longrightarrow> list_ex coordinate_overflow fs"
      by (auto simp: list_ex_iff)
    have us: "nav_gnss_sample_is_usable (Some s) = gs_valid s"
      if "gs_valid s = (fq \<noteq> 0)" "gs_fix_type s = fix_type_from_gga_quality fq" for s
      using that by (simp add: nav_gnss_sample_is_usable_def fix_type_from_gga_quality_def)
    show ?thesis
      by (cases rule: position_result [OF c, of "fs ! 2" "fs ! 3" "fs ! 4" "fs ! 5"]; cases "the rh"; cases "the ra")
        (use that ov us in \<open>auto simp: eq position_in_bounds_def\<close>)
  qed
qed

lemma fields_result:
  obtains "parse_fields fs = None" "list_ex coordinate_overflow fs"
  | r where "parse_fields fs = Some (r, sample_clear)" "r \<noteq> NAV_NMEA_RESULT_SAMPLE"
  | s where "parse_fields fs = Some (NAV_NMEA_RESULT_SAMPLE, s)" "position_in_bounds (gs_position s)"
      "nav_gnss_sample_is_usable (Some s) = gs_valid s" "hd fs \<in> {''GPGGA'', ''GNGGA'', ''GPRMC'', ''GNRMC''}"
proof (cases "length (hd fs) = 5 \<and> hd fs \<in> {''GPGGA'', ''GNGGA'', ''GPRMC'', ''GNRMC''}")
  case False
  then have "parse_fields fs = Some (if length (hd fs) \<noteq> 5 then NAV_NMEA_RESULT_MALFORMED_SENTENCE
      else NAV_NMEA_RESULT_UNSUPPORTED_SENTENCE, sample_clear)"
    by (auto simp: parse_fields_def)
  then show ?thesis by (rule that(2)) simp
next
  case True
  then have "parse_fields fs = (if hd fs \<in> {''GPGGA'', ''GNGGA''} then parse_gga fs sample_clear
    else parse_rmc fs sample_clear)" by (auto simp: parse_fields_def)
  then show ?thesis using that True
    by (cases rule: gga_result [of fs sample_clear]; cases rule: rmc_result [of fs sample_clear]) auto
qed

text \<open>The fields of a sentence that may be converted to coordinates.\<close>

definition sentence_fields :: "string \<Rightarrow> string list" where
  "sentence_fields s = split_commas 23 (takeWhile (\<lambda>c. c \<noteq> CHR ''*'') s)"

lemma strchr_takeWhile: "strchr s c = Some k \<Longrightarrow> take k s = takeWhile (\<lambda>x. x \<noteq> c) s"
  by (induction s arbitrary: k) (auto split: if_splits)

lemma sentence_result_cases:
  obtains "sentence_result s = None" "list_ex coordinate_overflow (sentence_fields s)"
  | r where "sentence_result s = Some (r, sample_clear)" "r \<noteq> NAV_NMEA_RESULT_SAMPLE"
  | g payload h l where "sentence_result s = Some (NAV_NMEA_RESULT_SAMPLE, g)"
      "s = payload @ [CHR ''*'', h, l]" "CHR ''*'' \<notin> set payload"
      "checksum_of [h, l] = Some (xor_checksum payload)"
      "hd (sentence_fields s) \<in> {''GPGGA'', ''GNGGA'', ''GPRMC'', ''GNRMC''}"
      "position_in_bounds (gs_position g)" "nav_gnss_sample_is_usable (Some g) = gs_valid g"
proof (cases "strchr s (CHR ''*'')")
  case None
  then show ?thesis using that(2) by (simp add: sentence_result_def)
next
  case (Some k)
  have k: "k < length s" "s ! k = CHR ''*''" "CHR ''*'' \<notin> set (take k s)" using Some by (simp_all add: strchr_Some)
  have f: "split_commas 23 (take k s) = sentence_fields s"
    using strchr_takeWhile [OF Some] by (simp add: sentence_fields_def)
  show ?thesis
  proof (cases "checksum_of (drop (k + 1) s)")
    case None
    then show ?thesis using that(2) Some by (simp add: sentence_result_def)
  next
    case ck: (Some e)
    then obtain h l where hl: "drop (k + 1) s = [h, l]"
      by (auto simp: checksum_of_def split: list.splits)
    then have s: "s = take k s @ [CHR ''*'', h, l]" using id_take_nth_drop [OF k(1)] k(2) by simp
    have r: "sentence_result s = (if xor_checksum (take k s) \<noteq> e then Some (NAV_NMEA_RESULT_CHECKSUM_ERROR, sample_clear)
         else if k = 0 then Some (NAV_NMEA_RESULT_MALFORMED_SENTENCE, sample_clear)
         else parse_fields (sentence_fields s))"
      unfolding sentence_result_def Some option.case ck f by (rule refl)
    show ?thesis
    proof (cases "xor_checksum (take k s) \<noteq> e \<or> k = 0")
      case True
      then have "sentence_result s = Some (if xor_checksum (take k s) \<noteq> e then NAV_NMEA_RESULT_CHECKSUM_ERROR
          else NAV_NMEA_RESULT_MALFORMED_SENTENCE, sample_clear)"
        by (simp add: r)
      then show ?thesis by (rule that(2)) simp
    next
      case False
      then have r: "sentence_result s = parse_fields (sentence_fields s)" "checksum_of [h, l] = Some (xor_checksum (take k s))"
        using r ck hl by simp_all
      show ?thesis
        by (cases rule: fields_result [of "sentence_fields s"]) (use that r s k(3) in \<open>simp_all, blast\<close>)
    qed
  qed
qed

section \<open>Properties of the parser\<close>

text \<open>C21: The parser stays in bounds: from a well-formed state every byte is handled without touching
  memory outside the 96-byte buffer and leaves a well-formed state, unless it ends a sentence one of
  whose fields is a number of at least 2 to the 31 hundreds; a result other than a sample comes with a
  cleared sample.\<close>

theorem nmea_push_defined:
  assumes "parser_wf p" and "\<not> list_ex coordinate_overflow (sentence_fields (c_part (pending p)))"
  shows "\<exists>r p' g. nav_nmea_parser_push b p = Some (r, p', g) \<and> parser_wf p' \<and>
    (r \<noteq> NAV_NMEA_RESULT_SAMPLE \<longrightarrow> g = sample_clear)"
proof -
  obtain r g where s: "sentence_result (c_part (pending p)) = Some (r, g)" "r \<noteq> NAV_NMEA_RESULT_SAMPLE \<longrightarrow> g = sample_clear"
    using assms(2) by (cases rule: sentence_result_cases [of "c_part (pending p)"]) auto
  have "\<exists>r p' g. nav_nmea_parser_push (byte_of (char_of (unat b))) p = Some (r, p', g) \<and>
      (r \<noteq> NAV_NMEA_RESULT_SAMPLE \<longrightarrow> g = sample_clear)"
    unfolding push_cases [OF assms(1)] using s by auto
  then show ?thesis using push_wf [OF assms(1)] by (metis byte_of_char)
qed

text \<open>C31: What is accepted: a sample is produced only at the end of a line whose text is a payload, a star
  and the two hexadecimal digits of the payload's checksum, of one of the four supported sentences; the
  sample is usable exactly when it is marked valid, and its position is within 91 degrees of latitude
  and 181 of longitude.\<close>

theorem nmea_sample_sound:
  assumes "parser_wf p" and "nav_nmea_parser_push b p = Some (NAV_NMEA_RESULT_SAMPLE, p', g)"
  shows "np_in_sentence p \<and> \<not> np_in_sentence p' \<and> b \<in> {0x0D, 0x0A} \<and>
    (\<exists>payload h l. c_part (pending p) = payload @ [CHR ''*'', h, l] \<and> CHR ''*'' \<notin> set payload \<and>
      checksum_of [h, l] = Some (xor_checksum payload) \<and>
      hd (sentence_fields (c_part (pending p))) \<in> {''GPGGA'', ''GNGGA'', ''GPRMC'', ''GNRMC''}) \<and>
    position_in_bounds (gs_position g) \<and> nav_gnss_sample_is_usable (Some g) = gs_valid g"
proof -
  define c where "c = (char_of (unat b) :: char)"
  have "nav_nmea_parser_push (byte_of c) p = Some (NAV_NMEA_RESULT_SAMPLE, p', g)" using assms(2) by (simp add: c_def)
  then have r: "np_in_sentence p" "c \<in> {CHR 0x0D, CHR 0x0A}" "\<not> np_in_sentence p'"
    "sentence_result (c_part (pending p)) = Some (NAV_NMEA_RESULT_SAMPLE, g)"
    unfolding push_cases [OF assms(1)] by (auto split: if_splits)
  have "b = byte_of c" by (simp add: c_def)
  then have "b \<in> {0x0D, 0x0A}" using r(2) by (auto simp: byte_of_def code_def)
  then show ?thesis using r
    by (cases rule: sentence_result_cases [of "c_part (pending p)"]) auto
qed

lemma xor_checksum_Cons: "xor_checksum (c # s) = byte_of c XOR xor_checksum s"
proof -
  have f: "fold (\<lambda>c (checksum :: u8). checksum XOR of_nat (code c)) s a = a XOR xor_checksum s" for s a
  proof (induction s arbitrary: a)
    case (Cons c s)
    have "xor_checksum (c # s) = of_nat (code c) XOR xor_checksum s"
      using Cons.IH [of "of_nat (code c)"] by (simp add: xor_checksum_def [of "c # s"])
    then show ?case using Cons.IH by (simp add: xor.assoc)
  qed (simp add: xor_checksum_def)
  show ?thesis using f [of s "byte_of c"] by (simp add: xor_checksum_def byte_of_def)
qed

lemma xor_checksum_Nil [simp]: "xor_checksum [] = 0"
  by (simp add: xor_checksum_def)

lemma byte_of_inject: "byte_of a = byte_of b \<longleftrightarrow> a = b"
  by (metis char_of_byte)

lemma xor_cancel: "a XOR b = c XOR b \<longleftrightarrow> a = (c :: u8)" "b XOR a = b XOR c \<longleftrightarrow> a = (c :: u8)"
  by (metis xor.assoc xor.right_neutral xor_self_eq) (metis xor.assoc xor.left_neutral xor_self_eq)

lemma xor_checksum_change:
  "i < length s \<Longrightarrow> c \<noteq> s ! i \<Longrightarrow> xor_checksum (s[i := c]) \<noteq> xor_checksum s"
proof (induction s arbitrary: i)
  case (Cons a s)
  then show ?case
    by (cases i) (auto simp: xor_checksum_Cons xor_cancel byte_of_inject)
qed simp

lemma sentence_result_text:
  assumes "CHR ''*'' \<notin> set u" "u \<noteq> []" "checksum_of [h, l] = Some e"
  shows "sentence_result (u @ [CHR ''*'', h, l]) = (if xor_checksum u \<noteq> e
     then Some (NAV_NMEA_RESULT_CHECKSUM_ERROR, sample_clear) else parse_fields (split_commas 23 u))"
  using assms by (simp add: sentence_result_def strchr_append)

lemma c_part_id: "NUL \<notin> set s \<Longrightarrow> c_part s = s"
  by (simp add: c_part_def takeWhile_eq_all_conv) metis

text \<open>C36: Error detection: when a line yields a sample, the same line with any one character of its payload
  replaced by another, other than a delimiter of the protocol, is reported as a checksum error by a
  parser in any state.\<close>

theorem nmea_corruption_detected:
  assumes "parser_wf p" "parser_wf q" "plain s" "length s \<le> 95" "NUL \<notin> set s"
    and "nmea_feed (nmea_line s) p = Some (rs, p')" "(NAV_NMEA_RESULT_SAMPLE, g) \<in> set rs"
    and "strchr s (CHR ''*'') = Some k" "i < k" "c \<noteq> s ! i"
    and "c \<notin> {CHR ''$'', CHR ''*'', CHR 0x0D, CHR 0x0A, NUL}"
  shows "\<exists>q'. nmea_feed (nmea_line (s[i := c])) q = Some (replicate (length s + 1) (NAV_NMEA_RESULT_NONE, sample_clear) @
    [(NAV_NMEA_RESULT_CHECKSUM_ERROR, sample_clear), (NAV_NMEA_RESULT_NONE, sample_clear)], q')"
proof -
  have ne: "s \<noteq> []" using assms(8) by auto
  have "sentence_result (c_part s) = Some (NAV_NMEA_RESULT_SAMPLE, g)"
    using feed_line [OF assms(1,3) ne assms(4)] assms(6,7) by (cases "sentence_result (c_part s)") auto
  then have "sentence_result s = Some (NAV_NMEA_RESULT_SAMPLE, g)" using assms(5) by (simp add: c_part_id)
  then obtain payload h l where s: "s = payload @ [CHR ''*'', h, l]" "CHR ''*'' \<notin> set payload"
      "checksum_of [h, l] = Some (xor_checksum payload)"
    by (cases rule: sentence_result_cases [of s]) auto
  have k: "k = length payload" using assms(8) s by (simp add: strchr_append)
  define u where "u = payload[i := c]"
  have su: "s[i := c] = u @ [CHR ''*'', h, l]" using assms(9) k by (simp add: u_def s(1) list_update_append)
  have su': "set (s[i := c]) \<subseteq> insert c (set s)" by (rule set_update_subset_insert)
  have star: "CHR ''*'' \<notin> set u" "u \<noteq> []"
    using s(2) assms(9,11) k set_update_subset_insert [of payload i c] by (auto simp: u_def)
  have "s ! i = payload ! i" using assms(9) k by (simp add: s(1) nth_append)
  then have "sentence_result (s[i := c]) = Some (NAV_NMEA_RESULT_CHECKSUM_ERROR, sample_clear)"
    unfolding su using sentence_result_text [OF star s(3)] xor_checksum_change [of i payload c] assms(9,10) k
    by (simp add: u_def)
  moreover have "c_part (s[i := c]) = s[i := c]" using su' assms(5,11) by (intro c_part_id) auto
  moreover have "plain (s[i := c])" using su' assms(3,11) unfolding plain_def by blast
  moreover have "s[i := c] \<noteq> []" "length (s[i := c]) \<le> 95" using ne assms(4) by simp_all
  ultimately show ?thesis using feed_line [OF assms(2), of "s[i := c]"] by fastforce
qed

section \<open>Concrete sentences\<close>

lemma byte_of_hex: "byte_of c = of_nat (of_char c)"
  by (simp add: byte_of_def code_def)

text \<open>An inactive sentence without coordinates is a sample that is not valid.\<close>

definition void_sentence :: string where "void_sentence = ''GPRMC,,V,,,,*1D''"

lemma void_plain: "plain void_sentence" "NUL \<notin> set void_sentence" "length void_sentence = 15"
  by (simp_all add: void_sentence_def plain_def)

lemma void_result: "sentence_result void_sentence = Some (NAV_NMEA_RESULT_SAMPLE, nav_gnss_sample_zero)"
proof -
  have v: "void_sentence = ''GPRMC,,V,,,,'' @ [CHR ''*'', CHR ''1'', CHR ''D'']" by (simp add: void_sentence_def)
  have c: "checksum_of [CHR ''1'', CHR ''D''] = Some 29" by (simp add: checksum_of_def hex_value_def code_def)
  have x: "xor_checksum ''GPRMC,,V,,,,'' = 29"
    by (simp add: xor_checksum_Cons byte_of_hex)
  have s: "split_commas 23 ''GPRMC,,V,,,,'' = [''GPRMC'', [], ''V'', [], [], [], []]" by simp
  have t: "toupper (CHR ''V'') = CHR ''V''" by (simp add: toupper_def code_def)
  show ?thesis unfolding v
    by (subst sentence_result_text [OF _ _ c]) (simp_all add: x s t parse_fields_def parse_rmc_def parse_position_def
        parse_optional_coordinate_e7_def nav_gnss_sample_zero_def nav_position_zero_def)
qed

lemma void_c_part: "c_part void_sentence = void_sentence"
  using void_plain(2) by (rule c_part_id)

end
