(* ===== verification/Nav_Nmea_Run.thy ===== *)
theory Nav_Nmea_Run
  imports Nav_Nmea_Accept Fp_Eval
begin

text \<open>
  Concrete sentences pushed through the parser: the witnesses of its properties, and two sentences
  with a correct checksum that it should not accept as it does.
\<close>

section \<open>A parser at the end of a line\<close>

text \<open>The parser after a dollar sign and the text \<open>s\<close>, from the initial state.\<close>

lemma parser_before_end:
  assumes "plain s" "length s \<le> 95"
  shows "\<exists>p. parser_wf p \<and> np_in_sentence p \<and> pending p = s \<and> np_length p = length s"
proof -
  obtain q where q: "parser_wf q" "np_in_sentence q" "np_length q = 0" "pending q = []"
    using feed_start [OF parser_wf_init] by blast
  show ?thesis using feed_body [OF q(1,2) assms(1)] assms(2) q(3,4) by fastforce
qed

lemma push_end:
  assumes "parser_wf p" "np_in_sentence p" "np_length p \<noteq> 0" "sentence_result (c_part (pending p)) = Some (r, g)"
  shows "\<exists>p'. nav_nmea_parser_push 0x0D p = Some (r, p', g)"
  using push_cases [OF assms(1), of "CHR 0x0D"] assms(2-4) by (simp add: byte_of_def code_def)

section \<open>Two sentences that are accepted or converted wrongly\<close>

lemma dec_point_free:
  "scan_exponent m [] = (0, [])" "scan_sign [] = (False, [])"
  by (simp_all add: scan_exponent_def scan_sign_def)

lemmas scan_defs = strtod_def scan_sign_def scan_hex_def scan_decimal_def scan_mantissa_def dec_point_free
  isspace_def isdigit_def code_def toupper_def digits_value_def xdigit_def Let_def signed_fp_def
  strtod_range_error_def

lemma parse_9030: "parse_double_field ''9030'' = Parsed (dy 4515 1)"
proof -
  have r: "fp_rnd binary64 9030 = Fin 9030" "fp_rnd binary64 (9030 * 1) = Fin 9030"
    using rnd64_of_int [of 9030] by simp_all
  have "strtod ''9030'' = (Fin 9030, [], False)" by (simp add: scan_defs r)
  then show ?thesis by (simp add: parse_double_field_def dy_eval)
qed

lemma parse_0: "parse_double_field ''0'' = Parsed (dy 0 0)"
proof -
  have "strtod ''0'' = (Fin 0, [], False)" by (simp add: scan_defs f64.rnd_zero)
  then show ?thesis by (simp add: parse_double_field_def dy_eval)
qed

lemma parse_huge: "parse_double_field ''999999999999'' = Parsed (Fin 999999999999)"
proof -
  have r: "fp_rnd binary64 999999999999 = Fin 999999999999"
    using rnd64_of_int [of 999999999999] by simp
  have "strtod ''999999999999'' = (Fin 999999999999, [], False)" by (simp add: scan_defs r)
  then show ?thesis by (simp add: parse_double_field_def)
qed

lemma toupper_hemispheres [simp]:
  "toupper (CHR ''N'') = CHR ''N''" "toupper (CHR ''E'') = CHR ''E''" "toupper (CHR ''A'') = CHR ''A''"
  by (simp_all add: toupper_def code_def)

lemma coordinate_9030: "parse_coordinate_e7 ''9030'' ''N'' False = Some (Parsed 905000000)"
  by (simp add: parse_coordinate_e7_def parse_9030 round_to_i32_def int32_consts dy_eval INT32_MIN_def INT32_MAX_def)

lemma coordinate_0: "parse_coordinate_e7 ''0'' ''E'' True = Some (Parsed 0)"
  by (simp add: parse_coordinate_e7_def parse_0 round_to_i32_def int32_consts dy_eval INT32_MIN_def INT32_MAX_def)

text \<open>A sentence for half a degree north of the pole is a usable sample.\<close>

definition pole_sentence :: string where "pole_sentence = ''GPRMC,,A,9030,N,0,E*3B''"

theorem latitude_beyond_pole:
  "\<exists>g. sentence_result pole_sentence = Some (NAV_NMEA_RESULT_SAMPLE, g) \<and>
     nav_gnss_sample_is_usable (Some g) \<and> sint (lat_e7 (gs_position g)) = 905000000"
proof -
  have v: "pole_sentence = ''GPRMC,,A,9030,N,0,E'' @ [CHR ''*'', CHR ''3'', CHR ''B'']" by (simp add: pole_sentence_def)
  have c: "checksum_of [CHR ''3'', CHR ''B''] = Some 59" by (simp add: checksum_of_def hex_value_def code_def)
  have x: "xor_checksum ''GPRMC,,A,9030,N,0,E'' = 59" by (simp add: xor_checksum_Cons byte_of_hex)
  have s: "split_commas 23 ''GPRMC,,A,9030,N,0,E'' = [''GPRMC'', [], ''A'', ''9030'', ''N'', ''0'', ''E'']" by simp
  show ?thesis unfolding v
    by (subst sentence_result_text [OF _ _ c]) (simp_all add: x s parse_fields_def parse_rmc_def parse_position_def
      coordinate_9030 coordinate_0 nav_gnss_sample_is_usable_def)
qed

text \<open>A sentence whose latitude is a number of twelve digits: the conversion to \<^verbatim>\<open>int\<close> is undefined.\<close>

definition huge_sentence :: string where "huge_sentence = ''GPRMC,,A,999999999999,N,0,E*31''"

lemma huge_undefined: "parse_coordinate_e7 ''999999999999'' ''N'' False = None"
proof -
  have "fp_le (fp_rnd binary64 (of_int (2 ^ 31))) (fp_rnd binary64 (999999999999 / 100))"
    by (rule f64.rnd_mono) simp
  then have "coordinate_overflow ''999999999999''"
    using rnd64_of_int [of "2 ^ 31"] by (simp add: coordinate_overflow_def parse_huge)
  then show ?thesis using degrees_None [OF parse_huge] by (simp add: parse_coordinate_e7_def parse_huge)
qed

theorem huge_coordinate_undefined: "sentence_result huge_sentence = None"
proof -
  have v: "huge_sentence = ''GPRMC,,A,999999999999,N,0,E'' @ [CHR ''*'', CHR ''3'', CHR ''1'']" by (simp add: huge_sentence_def)
  have c: "checksum_of [CHR ''3'', CHR ''1''] = Some 49" by (simp add: checksum_of_def hex_value_def code_def)
  have x: "xor_checksum ''GPRMC,,A,999999999999,N,0,E'' = 49" by (simp add: xor_checksum_Cons byte_of_hex)
  have s: "split_commas 23 ''GPRMC,,A,999999999999,N,0,E'' = [''GPRMC'', [], ''A'', ''999999999999'', ''N'', ''0'', ''E'']"
    by simp
  show ?thesis unfolding v
    by (subst sentence_result_text [OF _ _ c]) (simp_all add: x s parse_fields_def parse_rmc_def parse_position_def
      huge_undefined)
qed

section \<open>Witnesses\<close>

lemma pole_plain: "plain pole_sentence" "length pole_sentence = 22" "NUL \<notin> set pole_sentence" "pole_sentence \<noteq> []"
  by (simp_all add: pole_sentence_def plain_def)

lemma pole_sample: "\<exists>g. sentence_result (c_part pole_sentence) = Some (NAV_NMEA_RESULT_SAMPLE, g)"
  unfolding c_part_id [OF pole_plain(3)] using latitude_beyond_pole by blast

theorem nmea_line_answer_witness:
  "\<exists>p'. nmea_feed (nmea_line void_sentence) nav_nmea_parser_init =
     Some (replicate 16 (NAV_NMEA_RESULT_NONE, sample_clear) @
       [(NAV_NMEA_RESULT_SAMPLE, nav_gnss_sample_zero), (NAV_NMEA_RESULT_NONE, sample_clear)], p')"
proof -
  have "void_sentence \<noteq> []" by (simp add: void_sentence_def)
  from nmea_line_answer [OF parser_wf_init void_plain(1) this] show ?thesis
    using void_plain(3) by (auto simp: void_c_part void_result)
qed

theorem nmea_push_defined_witness:
  "\<exists>r p' g. nav_nmea_parser_push 0x24 nav_nmea_parser_init = Some (r, p', g) \<and> parser_wf p'"
  using nmea_push_defined [OF parser_wf_init, of "0x24"]
  by (auto simp: pending_def c_part_def nav_nmea_parser_init_def sentence_fields_def coordinate_overflow_def
      parse_double_field_def)

theorem nmea_sample_sound_witness:
  "\<exists>p p' g. parser_wf p \<and> pending p = pole_sentence \<and>
     nav_nmea_parser_push 0x0D p = Some (NAV_NMEA_RESULT_SAMPLE, p', g) \<and> \<not> np_in_sentence p' \<and>
     position_in_bounds (gs_position g)"
proof -
  obtain p where p: "parser_wf p" "np_in_sentence p" "pending p = pole_sentence" "np_length p = 22"
    using parser_before_end [OF pole_plain(1)] pole_plain(2) by auto
  obtain g where "sentence_result (c_part (pending p)) = Some (NAV_NMEA_RESULT_SAMPLE, g)"
    using pole_sample p(3) by auto
  then obtain p' where p': "nav_nmea_parser_push 0x0D p = Some (NAV_NMEA_RESULT_SAMPLE, p', g)"
    using push_end [OF p(1,2)] p(4) by auto
  show ?thesis using nmea_sample_sound [OF p(1) p'] p p' by blast
qed

theorem nmea_corruption_detected_witness:
  "\<exists>q'. nmea_feed (nmea_line ''GPRMC,,A,8030,N,0,E*3B'') nav_nmea_parser_init =
     Some (replicate 23 (NAV_NMEA_RESULT_NONE, sample_clear) @
       [(NAV_NMEA_RESULT_CHECKSUM_ERROR, sample_clear), (NAV_NMEA_RESULT_NONE, sample_clear)], q')"
proof -
  obtain g where g: "sentence_result (c_part pole_sentence) = Some (NAV_NMEA_RESULT_SAMPLE, g)"
    using pole_sample by blast
  obtain rs p' where f: "nmea_feed (nmea_line pole_sentence) nav_nmea_parser_init = Some (rs, p')"
    "(NAV_NMEA_RESULT_SAMPLE, g) \<in> set rs"
    using feed_line [OF parser_wf_init pole_plain(1,4)] pole_plain(2) g by auto
  have k: "strchr pole_sentence (CHR ''*'') = Some 19" by (simp add: pole_sentence_def)
  have e: "pole_sentence[9 := CHR ''8''] = ''GPRMC,,A,8030,N,0,E*3B''" by (simp add: pole_sentence_def)
  have "pole_sentence ! 9 = CHR ''9''" by (simp add: pole_sentence_def)
  then show ?thesis
    using nmea_corruption_detected [OF parser_wf_init parser_wf_init pole_plain(1) _ pole_plain(3) f k, of 9 "CHR ''8''"]
      pole_plain(2) by (simp add: e)
qed

end
