(* ===== verification/Nav_Serial_Command.thy ===== *)
theory Nav_Serial_Command
  imports Nav_Types C_Text
begin

text \<open>
  The command scanner of \<^verbatim>\<open>core/src/nav_serial_json.c\<close>: flat JSON objects, one per line, searched for
  keys. A line is a C string; \<open>None\<close> as the result of a \<open>find\<close> or \<open>extract\<close> function inside an outer
  \<open>Some\<close> is the C result \<^verbatim>\<open>NULL\<close> or \<^verbatim>\<open>false\<close>, and \<open>w\<close> is the width of \<^verbatim>\<open>long\<close>, 64 on the host and 32
  on the microcontrollers.
\<close>

section \<open>Types\<close>

abbreviation (input) NAV_NODE_NAME_MAX :: nat where "NAV_NODE_NAME_MAX \<equiv> 24"

datatype nav_ctrl_cmd_type = NAV_CTRL_CMD_NONE | NAV_CTRL_CMD_GET | NAV_CTRL_CMD_SET_GPS
  | NAV_CTRL_CMD_SET_MOCK | NAV_CTRL_CMD_SET_NAME | NAV_CTRL_CMD_SET_ALTITUDE
  | NAV_CTRL_CMD_SET_NODE_ID | NAV_CTRL_CMD_SET_DEBUG | NAV_CTRL_CMD_UNKNOWN

record nav_ctrl_command =
  cc_type :: nav_ctrl_cmd_type
  cc_bool_value :: bool
  cc_int_value :: i32
  cc_str_value :: "char list"

definition ctrl_command_zero :: nav_ctrl_command where
  "ctrl_command_zero = \<lparr>cc_type = NAV_CTRL_CMD_NONE, cc_bool_value = False, cc_int_value = 0,
     cc_str_value = replicate NAV_NODE_NAME_MAX NUL\<rparr>"

section \<open>Values\<close>

abbreviation (input) dquote :: char where "dquote \<equiv> CHR 0x22"
abbreviation (input) backslash :: char where "backslash \<equiv> CHR 0x5C"

text \<open>The text behind the first colon that follows the quoted key.\<close>

definition find_value :: "string \<Rightarrow> string \<Rightarrow> string option" where
  "find_value line key =
     (let needle = dquote # key @ [dquote] in
      if length needle \<ge> 32 then None
      else case strstr line needle of None \<Rightarrow> None
      | Some i \<Rightarrow>
          (case strchr (drop (i + length needle) line) (CHR '':'') of None \<Rightarrow> None
           | Some j \<Rightarrow> Some (dropWhile (\<lambda>c. c = CHR '' '' \<or> c = CHR 0x09) (drop (i + length needle + j + 1) line))))"

text \<open>The copy loop of \<^verbatim>\<open>extract_string\<close> into an array of \<open>cap\<close> bytes.\<close>

fun extract_loop :: "nat \<Rightarrow> string \<Rightarrow> nat \<Rightarrow> char list \<Rightarrow> char list option" where
  "extract_loop cap [] i out = mem_write out i NUL"
| "extract_loop cap (c # rest) i out =
     (if c = dquote \<or> \<not> i + 1 < cap then mem_write out i NUL
      else if c = backslash \<and> rest \<noteq> [] then do {
        out \<leftarrow> mem_write out i (hd rest);
        extract_loop cap (tl rest) (i + 1) out }
      else do {
        out \<leftarrow> mem_write out i c;
        extract_loop cap rest (i + 1) out })"

definition extract_string :: "string \<Rightarrow> string \<Rightarrow> nat \<Rightarrow> char list \<Rightarrow> (bool \<times> char list) option" where
  "extract_string line key cap out = (case find_value line key of
     None \<Rightarrow> Some (False, out)
   | Some start \<Rightarrow>
       if start = [] \<or> hd start \<noteq> dquote then Some (False, out)
       else do { out \<leftarrow> extract_loop cap (tl start) 0 out; Some (True, out) })"

definition extract_bool :: "string \<Rightarrow> string \<Rightarrow> bool option" where
  "extract_bool line key = (case find_value line key of
     None \<Rightarrow> None
   | Some start \<Rightarrow> if take 4 start = ''true'' then Some True
       else if take 5 start = ''false'' then Some False else None)"

definition extract_int :: "nat \<Rightarrow> string \<Rightarrow> string \<Rightarrow> i32 option" where
  "extract_int w line key = (case find_value line key of
     None \<Rightarrow> None
   | Some start \<Rightarrow> (case strtol w start of (v, end, errno) \<Rightarrow> if end = start then None else Some (word_of_int v)))"

section \<open>Commands\<close>

definition command_bool :: "bool option \<Rightarrow> nav_ctrl_command \<Rightarrow> nav_status \<times> nav_ctrl_command" where
  "command_bool v out = (case v of None \<Rightarrow> (NAV_STATUS_BAD_FRAME, out)
     | Some b \<Rightarrow> (NAV_STATUS_OK, out\<lparr>cc_bool_value := b\<rparr>))"

text \<open>The chain of \<^verbatim>\<open>strcmp\<close> tests on the name of the command.\<close>

definition command_dispatch ::
  "nat \<Rightarrow> string \<Rightarrow> string \<Rightarrow> nav_ctrl_command \<Rightarrow> (nav_status \<times> nav_ctrl_command) option" where
  "command_dispatch w line cmd out =
     (if cmd = ''get'' then Some (NAV_STATUS_OK, out\<lparr>cc_type := NAV_CTRL_CMD_GET\<rparr>)
      else if cmd = ''gps'' then
        Some (command_bool (extract_bool line ''enabled'') (out\<lparr>cc_type := NAV_CTRL_CMD_SET_GPS\<rparr>))
      else if cmd = ''mock'' then
        Some (command_bool (extract_bool line ''enabled'') (out\<lparr>cc_type := NAV_CTRL_CMD_SET_MOCK\<rparr>))
      else if cmd = ''name'' then do {
        (ok, str_value) \<leftarrow> extract_string line ''value'' NAV_NODE_NAME_MAX (cc_str_value out);
        Some (if ok then NAV_STATUS_OK else NAV_STATUS_BAD_FRAME,
          out\<lparr>cc_type := NAV_CTRL_CMD_SET_NAME, cc_str_value := str_value\<rparr>) }
      else if cmd = ''alt'' then
        (let out = out\<lparr>cc_type := NAV_CTRL_CMD_SET_ALTITUDE\<rparr> in
         case extract_int w line ''alt_mm'' of
           None \<Rightarrow> Some (NAV_STATUS_BAD_FRAME, out)
         | Some v \<Rightarrow> Some (NAV_STATUS_OK, out\<lparr>cc_int_value := v\<rparr>))
      else if cmd = ''node_id'' then
        (let out = out\<lparr>cc_type := NAV_CTRL_CMD_SET_NODE_ID\<rparr> in
         case extract_int w line ''id'' of
           None \<Rightarrow> Some (NAV_STATUS_BAD_FRAME, out)
         | Some v \<Rightarrow> Some (if sint v \<ge> 0 \<and> sint v < int NAV_MAX_NODES then NAV_STATUS_OK else NAV_STATUS_BAD_FRAME,
             out\<lparr>cc_int_value := v\<rparr>))
      else if cmd = ''debug'' then
        (let out = out\<lparr>cc_type := NAV_CTRL_CMD_SET_DEBUG\<rparr> in
         Some (case extract_bool line ''on'' of
           Some b \<Rightarrow> (NAV_STATUS_OK, out\<lparr>cc_bool_value := b\<rparr>)
         | None \<Rightarrow> command_bool (extract_bool line ''enabled'') out))
      else Some (NAV_STATUS_OK, out\<lparr>cc_type := NAV_CTRL_CMD_UNKNOWN\<rparr>))"

definition nav_serial_parse_command ::
  "nat \<Rightarrow> string option \<Rightarrow> nav_ctrl_command \<Rightarrow> (nav_status \<times> nav_ctrl_command) option" where
  "nav_serial_parse_command w line out = (case line of
     None \<Rightarrow> Some (NAV_STATUS_INVALID_ARGUMENT, out)
   | Some line \<Rightarrow>
      let out = ctrl_command_zero in
      if strchr line (CHR ''{'') = None then Some (NAV_STATUS_BAD_FRAME, out)
      else do {
        (found, cmd) \<leftarrow> extract_string line ''cmd'' 16 (replicate 16 NUL);
        if \<not> found then Some (NAV_STATUS_BAD_FRAME, out)
        else do {
          cmd \<leftarrow> c_string cmd;
          command_dispatch w line cmd out } })"

end
