(* ===== verification/Nav_Serial_Json.thy ===== *)
theory Nav_Serial_Json
  imports Nav_Peer_Table Nav_Quality Nav_State_Machine Nav_Logging C_Text
begin

text \<open>
  \<^verbatim>\<open>core/src/nav_serial_json.c\<close>: the records that a node writes to its serial port as JSON, with the
  \<^verbatim>\<open>snprintf\<close> accumulator they share, and the scanner of the command lines it receives. A buffer is a
  list of characters and \<open>None\<close> is a write outside it. The value of a format string is the list of its
  literal pieces and formatted arguments.
\<close>

section \<open>The accumulator\<close>

text \<open>\<^verbatim>\<open>vsnprintf\<close> at an offset of the buffer with \<open>room\<close> bytes: nothing without room, else the text cut to
  \<open>room - 1\<close> characters and a NUL.\<close>

definition vsnprintf_at :: "char list \<Rightarrow> nat \<Rightarrow> nat \<Rightarrow> string \<Rightarrow> char list option" where
  "vsnprintf_at buf off room txt =
     (if room = 0 then Some buf
      else let w = take (room - 1) txt @ [NUL] in
        if off + length w \<le> length buf then Some (take off buf @ w @ drop (off + length w) buf) else None)"

type_synonym json_out = "char list \<times> int"

definition json_appendf :: "nat \<Rightarrow> string list \<Rightarrow> json_out \<Rightarrow> json_out option" where
  "json_appendf cap parts s = (case s of (buf, used) \<Rightarrow>
     if used < 0 then Some (buf, used)
     else
       let off = nat used; room = (if off < cap then cap - off else 0) in do {
         buf \<leftarrow> vsnprintf_at buf off room (concat parts);
         Some (buf, used + int (length (concat parts))) })"

definition hex_digit :: "nat \<Rightarrow> char" where
  "hex_digit n = (if n < 10 then char_of (48 + n) else char_of (87 + n))"

text \<open>\<^verbatim>\<open>\\u%04x\<close> of a byte.\<close>

definition fmt_u04x :: "nat \<Rightarrow> string" where
  "fmt_u04x n = [CHR 0x5C, CHR ''u'', CHR ''0'', CHR ''0'', hex_digit (n div 16), hex_digit (n mod 16)]"

definition json_append_char :: "nat \<Rightarrow> char \<Rightarrow> json_out \<Rightarrow> json_out option" where
  "json_append_char cap c s =
     (if c = CHR 0x22 \<or> c = CHR 0x5C then json_appendf cap [[CHR 0x5C], [c]] s
      else if code c < 0x20 then json_appendf cap [fmt_u04x (code c)] s
      else json_appendf cap [[c]] s)"

fun json_append_chars :: "nat \<Rightarrow> string \<Rightarrow> json_out \<Rightarrow> json_out option" where
  "json_append_chars cap [] s = Some s"
| "json_append_chars cap (c # cs) s = do { s \<leftarrow> json_append_char cap c s; json_append_chars cap cs s }"

abbreviation (input) quote :: string where "quote \<equiv> [CHR 0x22]"

definition json_append_escaped :: "nat \<Rightarrow> string \<Rightarrow> json_out \<Rightarrow> json_out option" where
  "json_append_escaped cap txt s = do {
     s \<leftarrow> json_appendf cap [quote] s;
     s \<leftarrow> json_append_chars cap txt s;
     json_appendf cap [quote] s }"

section \<open>Names\<close>

fun gnss_fix_type_to_string :: "nav_gnss_fix_type \<Rightarrow> string" where
  "gnss_fix_type_to_string NAV_GNSS_FIX_NONE = ''NONE''"
| "gnss_fix_type_to_string NAV_GNSS_FIX_2D = ''2D''"
| "gnss_fix_type_to_string NAV_GNSS_FIX_3D = ''3D''"
| "gnss_fix_type_to_string NAV_GNSS_FIX_RTK_FLOAT = ''RTK_FLOAT''"
| "gnss_fix_type_to_string NAV_GNSS_FIX_RTK_FIXED = ''RTK_FIXED''"
| "gnss_fix_type_to_string _ = ''UNKNOWN''"

definition solution_is_displayable :: "nav_solution_source \<Rightarrow> nav_solution_status \<Rightarrow> bool" where
  "solution_is_displayable source status =
     (if source = NAV_SOURCE_LOCAL_GNSS then status = NAV_SOLUTION_GNSS_DIRECT
      else if source = NAV_SOURCE_RADIO_3D then status = NAV_SOLUTION_RADIO_3D \<or> status = NAV_SOLUTION_DEGRADED
      else False)"

definition solution_is_degraded :: "nav_solution_source \<Rightarrow> nav_solution_status \<Rightarrow> bool" where
  "solution_is_degraded source status \<longleftrightarrow> source = NAV_SOURCE_RADIO_3D \<and> status = NAV_SOLUTION_DEGRADED"

fun position_source_to_json :: "nav_solution_source \<Rightarrow> string" where
  "position_source_to_json NAV_SOURCE_LOCAL_GNSS = ''GNSS''"
| "position_source_to_json NAV_SOURCE_RADIO_3D = ''RADIO_3D''"
| "position_source_to_json _ = ''NONE''"

fun radio_solve_outcome_to_json :: "nav_radio_solve_outcome \<Rightarrow> string" where
  "radio_solve_outcome_to_json NAV_RADIO_SOLVE_GNSS_DIRECT = ''GNSS_DIRECT''"
| "radio_solve_outcome_to_json NAV_RADIO_SOLVE_SOLVED = ''SOLVED''"
| "radio_solve_outcome_to_json NAV_RADIO_SOLVE_REJECTED = ''REJECTED''"
| "radio_solve_outcome_to_json NAV_RADIO_SOLVE_SKIPPED_CADENCE = ''SKIPPED_CADENCE''"
| "radio_solve_outcome_to_json NAV_RADIO_SOLVE_SKIPPED_UNCHANGED_INPUTS = ''SKIPPED_UNCHANGED_INPUTS''"
| "radio_solve_outcome_to_json NAV_RADIO_SOLVE_NONE = ''NONE''"

definition peer_effective_source :: "nav_peer_state \<Rightarrow> nav_solution_source" where
  "peer_effective_source peer =
     (if ps_solution_source peer \<noteq> NAV_SOURCE_NONE then ps_solution_source peer
      else if ps_gnss_valid peer then NAV_SOURCE_LOCAL_GNSS else NAV_SOURCE_NONE)"

definition peer_effective_status :: "nav_peer_state \<Rightarrow> nav_solution_source \<Rightarrow> nav_solution_status" where
  "peer_effective_status peer source =
     (if ps_solution_status peer \<noteq> NAV_SOLUTION_NONE then ps_solution_status peer
      else if source = NAV_SOURCE_LOCAL_GNSS then NAV_SOLUTION_GNSS_DIRECT else NAV_SOLUTION_NONE)"

section \<open>Records\<close>

record nav_serial_node_info =
  si_node_id :: u8
  si_node_name :: "string option"
  si_gps_enabled :: bool
  si_mock_enabled :: bool

record nav_serial_range_record =
  sr_timestamp_ms :: u32
  sr_from_id :: u8
  sr_to_id :: u8
  sr_request_id :: u16
  sr_ok :: bool
  sr_range_mm :: u32
  sr_range_sigma_mm :: u32
  sr_rssi_dbm :: i16
  sr_snr_db :: i16
  sr_range_fail_reason :: nav_range_fail_reason
  sr_source :: "string option"

abbreviation (input) pu :: "'a::len word \<Rightarrow> string" where "pu v \<equiv> fmt_u (unat v)"
abbreviation (input) pd :: "'a::len word \<Rightarrow> string" where "pd v \<equiv> fmt_d (sint v)"
abbreviation (input) pb :: "bool \<Rightarrow> string" where "pb b \<equiv> (if b then ''true'' else ''false'')"

definition append_peer :: "nat \<Rightarrow> nav_snapshot \<Rightarrow> nav_peer_state \<Rightarrow> json_out \<Rightarrow> json_out option" where
  "append_peer cap sn peer s =
     (let source = peer_effective_source peer;
          status = peer_effective_status peer source;
          telemetry_age_ms = (if sn_time_ms sn \<ge> ps_last_telemetry_timestamp_ms peer
            then sn_time_ms sn - ps_last_telemetry_timestamp_ms peer else 0)
      in json_appendf cap
        [''{\"id\":'', pu (ps_node_id peer), '',\"gnss\":'', pb (ps_gnss_valid peer),
         '',\"lat_e7\":'', pd (lat_e7 (ps_position peer)), '',\"lon_e7\":'', pd (lon_e7 (ps_position peer)),
         '',\"alt_mm\":'', pd (alt_mm (ps_position peer)),
         '',\"position_source\":\"'', position_source_to_json source,
         ''\",\"position_valid\":'', pb (solution_is_displayable source status),
         '',\"position_degraded\":'', pb (solution_is_degraded source status),
         '',\"telemetry_age_ms\":'', pu telemetry_age_ms, '',\"range_mm\":'', pu (ps_range_mm peer),
         '',\"range_valid\":'', pb (ps_range_valid peer), '',\"rssi\":'', pd (ps_rssi_dbm peer),
         '',\"snr\":'', pd (ps_snr_db peer), '',\"quality\":'', fmt_f 3 (ps_anchor_quality peer), ''}''] s)"

text \<open>One turn of the peer loop, with the flag \<^verbatim>\<open>first\<close>.\<close>

definition append_peer_entry ::
  "nat \<Rightarrow> nav_snapshot \<Rightarrow> nav_peer_table \<Rightarrow> u8 \<Rightarrow> bool \<times> json_out \<Rightarrow> (bool \<times> json_out) option" where
  "append_peer_entry cap sn table i st = (case st of (first, s) \<Rightarrow>
     (case nav_peer_table_get_const table i of
        None \<Rightarrow> Some (first, s)
      | Some peer \<Rightarrow>
          if \<not> ps_present peer then Some (first, s)
          else do {
            s \<leftarrow> json_appendf cap [if first then [] else '',''] s;
            s \<leftarrow> append_peer cap sn peer s;
            Some (False, s) }))"

text \<open>The loop over the node ids.\<close>

fun append_peers :: "nat \<Rightarrow> nav_snapshot \<Rightarrow> nav_peer_table \<Rightarrow> u8 list \<Rightarrow> bool \<times> json_out \<Rightarrow> (bool \<times> json_out) option" where
  "append_peers cap sn table [] st = Some st"
| "append_peers cap sn table (i # ids) st = do {
     st \<leftarrow> append_peer_entry cap sn table i st;
     append_peers cap sn table ids st }"

definition nav_serial_write_snapshot ::
  "char list \<Rightarrow> nat \<Rightarrow> nav_serial_node_info option \<Rightarrow> nav_snapshot option \<Rightarrow> nav_peer_table option \<Rightarrow> json_out option"
where
  "nav_serial_write_snapshot buf cap info snapshot table =
    (case (info, snapshot, table) of
       (Some info, Some sn, Some table) \<Rightarrow> do {
         s \<leftarrow> json_appendf cap [''{\"t\":'', pu (sn_time_ms sn), '',\"node\":{\"id\":'', pu (si_node_id info),
           '',\"name\":''] (buf, 0);
         s \<leftarrow> json_append_escaped cap (case si_node_name info of None \<Rightarrow> [] | Some n \<Rightarrow> n) s;
         s \<leftarrow> json_appendf cap ['',\"gps\":'', pb (si_gps_enabled info), '',\"mock\":'',
           pb (si_mock_enabled info), ''}''] s;
         s \<leftarrow> json_appendf cap ['',\"mode\":\"'', nav_mode_to_string (sn_nav_mode sn),
           ''\",\"sol\":\"'', nav_solution_status_to_string (sn_solution_status sn),
           ''\",\"src\":\"'', nav_solution_source_to_string (sn_solution_source sn),
           ''\",\"reject\":\"'', nav_reject_reason_to_string (sn_reject_reason sn), quote] s;
         s \<leftarrow> json_appendf cap ['',\"pos\":{\"lat_e7\":'', pd (lat_e7 (sn_position sn)),
           '',\"lon_e7\":'', pd (lon_e7 (sn_position sn)), '',\"alt_mm\":'', pd (alt_mm (sn_position sn)),
           ''},\"num_anchors\":'', pu (sn_num_anchors sn)] s;
         s \<leftarrow> json_appendf cap ['',\"anchor_ids\":['', pu (sn_selected_anchor_node_ids sn ! 0), '','',
           pu (sn_selected_anchor_node_ids sn ! 1), '','', pu (sn_selected_anchor_node_ids sn ! 2),
           ''],\"residual_rms_m\":'', fmt_f 6 (sn_residual_rms_m sn),
           '',\"max_residual_m\":'', fmt_f 6 (sn_max_residual_m sn),
           '',\"geometry_score\":'', fmt_f 3 (sn_geometry_score sn),
           '',\"anchor_triangle_area_m2\":'', fmt_f 3 (sn_anchor_triangle_area_m2 sn),
           '',\"total_quality\":'', fmt_f 3 (sn_total_quality sn)] s;
         s \<leftarrow> json_appendf cap ['',\"position_source\":\"'', position_source_to_json (sn_solution_source sn),
           ''\",\"position_valid\":'', pb (solution_is_displayable (sn_solution_source sn) (sn_solution_status sn)),
           '',\"position_degraded\":'', pb (solution_is_degraded (sn_solution_source sn) (sn_solution_status sn))] s;
         let local_gnss_usage = (if sn_local_gnss_used sn then ''solution''
           else if si_gps_enabled info then ''enabled'' else ''disabled'');
         s \<leftarrow> json_appendf cap ['',\"local_gnss\":{\"present\":'', pb (sn_local_gnss_present sn),
           '',\"valid\":'', pb (sn_local_gnss_valid sn), '',\"used\":'', pb (sn_local_gnss_used sn),
           '',\"usage\":\"'', local_gnss_usage, ''\",\"age_ms\":'', pu (sn_local_gnss_age_ms sn),
           '',\"fix_type\":\"'', gnss_fix_type_to_string (sn_local_gnss_fix_type sn),
           ''\",\"satellites\":'', pu (sn_local_gnss_satellites sn),
           '',\"hdop_centi\":'', pu (sn_local_gnss_hdop_centi sn),
           '',\"hacc_mm\":'', pu (sn_local_gnss_hacc_mm sn), '',\"vacc_mm\":'', pu (sn_local_gnss_vacc_mm sn),
           '',\"lat_e7\":'', pd (lat_e7 (sn_local_gnss_position sn)),
           '',\"lon_e7\":'', pd (lon_e7 (sn_local_gnss_position sn)),
           '',\"alt_mm\":'', pd (alt_mm (sn_local_gnss_position sn)), ''}''] s;
         s \<leftarrow> json_appendf cap ['',\"radio_solve\":{\"outcome\":\"'',
           radio_solve_outcome_to_json (sn_radio_solve_outcome sn),
           ''\",\"age_ms\":'', pu (sn_radio_solve_age_ms sn), '',\"elapsed_ms\":'', pu (sn_radio_solve_elapsed_ms sn),
           '',\"interval_ms\":'', pu (sn_radio_solve_interval_ms sn),
           '',\"generation\":'', pu (sn_radio_solve_generation sn),
           '',\"last_generation\":'', pu (sn_radio_solve_last_generation sn), ''}''] s;
         s \<leftarrow> json_appendf cap ['',\"peers\":[''] s;
         st \<leftarrow> append_peers cap sn table [0, 1, 2, 3] (True, s);
         json_appendf cap ['']}''] (snd st) }
     | _ \<Rightarrow> Some (buf, - 1))"

text \<open>The nested call writes into the rest of the buffer.\<close>

definition append_snapshot_payload ::
  "nat \<Rightarrow> nav_serial_node_info option \<Rightarrow> nav_snapshot option \<Rightarrow> nav_peer_table option \<Rightarrow> json_out \<Rightarrow> json_out option"
where
  "append_snapshot_payload cap info snapshot table s = (case s of (buf, used) \<Rightarrow>
     if used < 0 then Some (buf, used)
     else
       let off = nat used; room = (if off < cap then cap - off else 0) in do {
         (rest, n) \<leftarrow> nav_serial_write_snapshot (drop off buf) room info snapshot table;
         Some (take off buf @ rest, if n < 0 then - 1 else used + n) })"

definition nav_serial_write_snapshot_record ::
  "char list \<Rightarrow> nat \<Rightarrow> nav_serial_node_info option \<Rightarrow> nav_snapshot option \<Rightarrow> nav_peer_table option \<Rightarrow> json_out option"
where
  "nav_serial_write_snapshot_record buf cap info snapshot table =
     (if info = None \<or> snapshot = None \<or> table = None then Some (buf, - 1)
      else do {
        s \<leftarrow> json_appendf cap [''{\"type\":\"snapshot\",\"ts\":'', pu (sn_time_ms (the snapshot)), '',\"data\":''] (buf, 0);
        s \<leftarrow> append_snapshot_payload cap info snapshot table s;
        json_appendf cap [''}''] s })"

fun append_anchor_ids :: "nat \<Rightarrow> u8 list \<Rightarrow> nat \<Rightarrow> json_out \<Rightarrow> json_out option" where
  "append_anchor_ids cap [] i s = Some s"
| "append_anchor_ids cap (a # ids) i s = do {
     s \<leftarrow> json_appendf cap [if i = 0 then [] else '','', pu a] s;
     append_anchor_ids cap ids (i + 1) s }"

definition nav_serial_write_node_quality_record ::
  "char list \<Rightarrow> nat \<Rightarrow> nav_node_quality_report option \<Rightarrow> u32 \<Rightarrow> u32 \<Rightarrow> string option \<Rightarrow> json_out option" where
  "nav_serial_write_node_quality_record buf cap report timestamp_ms age_ms origin = (case report of
     None \<Rightarrow> Some (buf, - 1)
   | Some r \<Rightarrow>
      let anchor_count = (if unat (qr_num_anchors r) > NAV_TRILAT_ANCHOR_COUNT then NAV_TRILAT_ANCHOR_COUNT
            else unat (qr_num_anchors r)) in do {
        s \<leftarrow> json_appendf cap [''{\"type\":\"node_quality\",\"ts\":'', pu timestamp_ms, '',\"node_id\":'',
          pu (qr_node_id r), '',\"origin\":''] (buf, 0);
        s \<leftarrow> json_append_escaped cap (case origin of None \<Rightarrow> ''peer'' | Some t \<Rightarrow> t) s;
        s \<leftarrow> json_appendf cap ['',\"age_ms\":'', pu age_ms, '',\"data\":{\"nav_mode\":\"'',
          nav_mode_to_string (qr_nav_mode r), ''\",\"solution_status\":\"'',
          nav_solution_status_to_string (qr_solution_status r), ''\",\"solution_source\":\"'',
          nav_solution_source_to_string (qr_solution_source r),
          ''\",\"residual_rms_m\":'', fmt_f 3 (fp_div binary64 (fp_of_int binary64 (uint (qr_residual_rms_mm r))) (Fin 1000)),
          '',\"max_residual_m\":'', fmt_f 3 (fp_div binary64 (fp_of_int binary64 (uint (qr_max_residual_mm r))) (Fin 1000)),
          '',\"geometry_score\":'', fmt_f 3 (qr_geometry_score r),
          '',\"total_quality\":'', fmt_f 3 (qr_total_quality r),
          '',\"num_anchors\":'', fmt_u anchor_count, '',\"anchor_ids\":[''] s;
        s \<leftarrow> append_anchor_ids cap (take anchor_count (qr_anchor_ids r)) 0 s;
        json_appendf cap [''],\"fix_type\":\"'', gnss_fix_type_to_string (qr_fix_type r),
          ''\",\"satellites\":'', pu (qr_satellites r), '',\"hdop_centi\":'', pu (qr_hdop_centi r),
          '',\"hacc_mm\":'', pu (qr_hacc_mm r), '',\"vacc_mm\":'', pu (qr_vacc_mm r),
          '',\"lat_e7\":'', pd (lat_e7 (qr_position r)), '',\"lon_e7\":'', pd (lon_e7 (qr_position r)),
          '',\"alt_mm\":'', pd (alt_mm (qr_position r)), '',\"packet_seq\":'', pu (qr_packet_seq r), ''}}''] s })"

definition nav_serial_write_range_record ::
  "char list \<Rightarrow> nat \<Rightarrow> nav_serial_range_record option \<Rightarrow> json_out option" where
  "nav_serial_write_range_record buf cap record = (case record of
     None \<Rightarrow> Some (buf, - 1)
   | Some r \<Rightarrow> do {
       s \<leftarrow> json_appendf cap [''{\"type\":\"range\",\"ts\":'', pu (sr_timestamp_ms r), '',\"from_id\":'', pu (sr_from_id r),
         '',\"to_id\":'', pu (sr_to_id r), '',\"request_id\":'', pu (sr_request_id r), '',\"ok\":'', pb (sr_ok r)] (buf, 0);
       s \<leftarrow> (if sr_ok r
         then json_appendf cap ['',\"range_mm\":'', pu (sr_range_mm r), '',\"range_sigma_mm\":'', pu (sr_range_sigma_mm r)] s
         else json_appendf cap ['',\"range_fail_reason\":\"'', nav_range_fail_reason_to_string (sr_range_fail_reason r), quote] s);
       s \<leftarrow> json_appendf cap ['',\"rssi_dbm\":'', pd (sr_rssi_dbm r), '',\"snr_db\":'', pd (sr_snr_db r), '',\"source\":''] s;
       s \<leftarrow> json_append_escaped cap (case sr_source r of None \<Rightarrow> ''log'' | Some t \<Rightarrow> t) s;
       json_appendf cap [''}''] s })"

definition nav_serial_write_log_record ::
  "char list \<Rightarrow> nat \<Rightarrow> u32 \<Rightarrow> string option \<Rightarrow> string option \<Rightarrow> string option \<Rightarrow> json_out option" where
  "nav_serial_write_log_record buf cap timestamp_ms level tag txt = do {
     s \<leftarrow> json_appendf cap [''{\"type\":\"log\",\"ts\":'', pu timestamp_ms, '',\"level\":''] (buf, 0);
     s \<leftarrow> json_append_escaped cap (case level of None \<Rightarrow> [] | Some t \<Rightarrow> t) s;
     s \<leftarrow> json_appendf cap ['',\"tag\":''] s;
     s \<leftarrow> json_append_escaped cap (case tag of None \<Rightarrow> [] | Some t \<Rightarrow> t) s;
     s \<leftarrow> json_appendf cap ['',\"text\":''] s;
     s \<leftarrow> json_append_escaped cap (case txt of None \<Rightarrow> [] | Some t \<Rightarrow> t) s;
     json_appendf cap [''}''] s }"

end
