(* ===== verification/Nav_Serial_Text.thy ===== *)
theory Nav_Serial_Text
  imports Nav_Serial_Json
begin

text \<open>
  What the JSON writers write: the text of a JSON tree, whatever the size of the buffer. The contract
  of \<^verbatim>\<open>snprintf\<close> is the interface \<open>bounded_writer\<close>, and every writer implements it.
\<close>

section \<open>The contract\<close>

text \<open>The buffer after the text has been written with \<open>cap\<close> bytes available.\<close>

definition written :: "nat \<Rightarrow> char list \<Rightarrow> string \<Rightarrow> char list" where
  "written cap b t = (if cap = 0 then b
     else take (cap - 1) t @ NUL # drop (min (length t) (cap - 1) + 1) b)"

locale bounded_writer =
  fixes writer :: "char list \<Rightarrow> nat \<Rightarrow> json_out option" and result :: string
  assumes writes: "cap \<le> length b \<Longrightarrow> writer b cap = Some (written cap b result, int (length result))"
begin

lemma size_query: "writer b 0 = Some (b, int (length result))"
  using writes [of 0 b] by (simp add: written_def)

lemma frame:
  assumes "cap \<le> length b"
  shows "\<exists>b'. writer b cap = Some (b', int (length result)) \<and> length b' = length b \<and> drop cap b' = drop cap b"
  using writes [OF assms] assms by (auto simp: written_def min_def drop_Cons')

lemma bounded:
  assumes "cap \<le> length b"
  shows "\<exists>b' n. writer b cap = Some (b', n) \<and> drop cap b' = drop cap b \<and> writer [] 0 = Some ([], n)"
  using frame [OF assms] size_query [of "[]"] by auto

lemma content:
  assumes "cap \<le> length b" "0 < cap" "NUL \<notin> set result"
  shows "\<exists>b'. writer b cap = Some (b', int (length result)) \<and> c_string b' = Some (take (cap - 1) result)"
proof -
  have "NUL \<notin> set (take (cap - 1) result)" using assms(3) in_set_takeD by metis
  then show ?thesis using writes [OF assms(1)] assms(2) by (simp add: written_def c_string_append)
qed

end

section \<open>Appending\<close>

definition out_state :: "nat \<Rightarrow> char list \<Rightarrow> string \<Rightarrow> json_out \<Rightarrow> bool" where
  "out_state cap b t s \<longleftrightarrow> snd s = int (length t) \<and> (fst s = written cap b t \<or> t = [] \<and> fst s = b)"

definition appends :: "nat \<Rightarrow> (json_out \<Rightarrow> json_out option) \<Rightarrow> string \<Rightarrow> bool" where
  "appends cap f u \<longleftrightarrow> (\<forall>b t s. cap \<le> length b \<longrightarrow> out_state cap b t s \<longrightarrow>
     (\<exists>s'. f s = Some s' \<and> out_state cap b (t @ u) s'))"

lemma written_splice:
  assumes "cap \<le> length b" "buf = written cap b t \<or> t = [] \<and> buf = b" "length t < cap"
  shows "take (length t) buf @ written (cap - length t) (drop (length t) buf) u = written cap b (t @ u)"
proof (cases "buf = written cap b t")
  case True
  have "written cap b t = t @ NUL # drop (length t + 1) b" using assms(3) by (simp add: written_def min_def)
  then show ?thesis using assms(1,3) True
    by (simp add: written_def min_def drop_Cons' add.commute split: if_splits)
qed (use assms in auto)

lemma written_full: "cap \<le> length t \<Longrightarrow> written cap b (t @ u) = written cap b t"
  by (auto simp: written_def min_def)

text \<open>Writing a text through the remaining room extends what is written.\<close>

lemma splice_appends:
  assumes "\<And>buf off room. off + room \<le> length buf \<Longrightarrow>
      g buf off room = Some (take off buf @ written room (drop off buf) u, int (length u))"
    and "\<And>buf off. g buf off 0 = Some (buf, int (length u))"
  shows "appends cap (\<lambda>(buf, used). if used < 0 then Some (buf, used)
     else (let off = nat used; room = (if off < cap then cap - off else 0)
       in g buf off room \<bind> (\<lambda>(buf, n). Some (buf, if n < 0 then - 1 else used + n)))) u"
  unfolding appends_def
proof (intro allI impI)
  fix b :: "char list" and t :: string and s :: json_out
  assume cap: "cap \<le> length b" and s: "out_state cap b t s"
  obtain buf where buf: "s = (buf, int (length t))" "buf = written cap b t \<or> t = [] \<and> buf = b"
    using s by (cases s) (auto simp: out_state_def)
  have len: "length buf = length b" using buf(2) cap by (auto simp: written_def min_def)
  have "g buf (length t) (if length t < cap then cap - length t else 0) = Some (written cap b (t @ u), int (length u))"
  proof (cases "length t < cap")
    case True
    then show ?thesis using assms(1) [of "length t" "cap - length t" buf] written_splice [OF cap buf(2) True] cap len by simp
  next
    case False
    then show ?thesis using assms(2) buf(2) written_full [of cap t b u] by (auto simp: written_def)
  qed
  then show "\<exists>s'. (case s of (buf, used) \<Rightarrow> if used < 0 then Some (buf, used)
     else (let off = nat used; room = (if off < cap then cap - off else 0)
       in g buf off room \<bind> (\<lambda>(buf, n). Some (buf, if n < 0 then - 1 else used + n)))) = Some s' \<and>
       out_state cap b (t @ u) s'"
    by (simp add: buf(1) out_state_def)
qed

lemma vsnprintf_written:
  "off + room \<le> length buf \<Longrightarrow> vsnprintf_at buf off room u = Some (take off buf @ written room (drop off buf) u)"
  by (auto simp: vsnprintf_at_def written_def Let_def min_def add.commute)

lemma appendf_appends: "appends cap (json_appendf cap parts) (concat parts)"
proof -
  define g where "g buf off room = map_option (\<lambda>buf. (buf, int (length (concat parts)))) (vsnprintf_at buf off room (concat parts))"
    for buf off room
  have "json_appendf cap parts = (\<lambda>(buf, used). if used < 0 then Some (buf, used)
     else (let off = nat used; room = (if off < cap then cap - off else 0)
       in g buf off room \<bind> (\<lambda>(buf, n). Some (buf, if n < 0 then - 1 else used + n))))"
    by (auto simp: json_appendf_def fun_eq_iff Let_def g_def map_conv_bind_option)
  moreover have "g buf off 0 = Some (buf, int (length (concat parts)))" for buf off
    by (simp add: vsnprintf_at_def g_def)
  ultimately show ?thesis using splice_appends [of g "concat parts" cap] vsnprintf_written by (simp add: g_def)
qed

lemma appends_bind: "appends cap f t \<Longrightarrow> appends cap g u \<Longrightarrow> appends cap (\<lambda>s. f s \<bind> g) (t @ u)"
  unfolding appends_def by (metis append.assoc bind.bind_lunit)

lemma appends_Some: "appends cap Some []"
  by (simp add: appends_def)

lemma appends_eq: "appends cap f t \<Longrightarrow> t = u \<Longrightarrow> appends cap f u"
  by simp

text \<open>A writer that appends from the empty text obeys the contract.\<close>

lemma bounded_writerI:
  assumes "\<And>b cap. writer b cap = f cap (b, 0)" "\<And>cap. appends cap (f cap) result" "result \<noteq> []"
  shows "bounded_writer writer result"
proof
  fix cap and b :: "char list"
  assume "cap \<le> length b"
  moreover have "out_state cap b [] (b, 0)" by (simp add: out_state_def)
  ultimately show "writer b cap = Some (written cap b result, int (length result))"
    using assms(2) [of cap] assms(3) unfolding assms(1) appends_def out_state_def
    by (metis append_Nil prod.collapse)
qed


section \<open>JSON trees and their text\<close>

datatype json = JBool bool | JNum string | JStr string | JArr "json list" | JObj "(string \<times> json) list"

definition json_escape :: "char \<Rightarrow> string" where
  "json_escape c = (if c = CHR 0x22 \<or> c = CHR 0x5C then [CHR 0x5C, c]
     else if code c < 0x20 then fmt_u04x (code c) else [c])"

definition json_string :: "string \<Rightarrow> string" where
  "json_string s = CHR 0x22 # concat (map json_escape s) @ [CHR 0x22]"

fun commas :: "string list \<Rightarrow> string" where
  "commas [] = []"
| "commas [s] = s"
| "commas (s # t # ss) = s @ CHR '','' # commas (t # ss)"

fun json_text :: "json \<Rightarrow> string" where
  "json_text (JBool b) = pb b"
| "json_text (JNum n) = n"
| "json_text (JStr s) = json_string s"
| "json_text (JArr js) = CHR ''['' # commas (map json_text js) @ '']''"
| "json_text (JObj ms) = CHR ''{'' # commas (map (\<lambda>(k, v). json_string k @ CHR '':'' # json_text v) ms) @ ''}''"

lemma append_chars_appends: "appends cap (json_append_chars cap s) (concat (map json_escape s))"
proof (induction s)
  case Nil
  then show ?case using appends_Some [of cap] by (simp add: appends_def)
next
  case (Cons c s)
  have "appends cap (json_append_char cap c) (json_escape c)"
  proof -
    define parts where "parts = (if c = CHR 0x22 \<or> c = CHR 0x5C then [[CHR 0x5C], [c]]
      else if code c < 0x20 then [fmt_u04x (code c)] else [[c]])"
    have "json_append_char cap c = json_appendf cap parts" by (simp add: fun_eq_iff json_append_char_def parts_def)
    moreover have "concat parts = json_escape c" by (simp add: parts_def json_escape_def)
    ultimately show ?thesis using appendf_appends [of cap parts] by simp
  qed
  then show ?case using appends_bind Cons by fastforce
qed

lemma escaped_appends: "appends cap (json_append_escaped cap s) (json_string s)"
  unfolding json_append_escaped_def
  by (rule appends_eq, (rule appends_bind appendf_appends append_chars_appends)+) (simp add: json_string_def)

section \<open>The records as trees\<close>

abbreviation (input) JU :: "'a::len word \<Rightarrow> json" where "JU v \<equiv> JNum (pu v)"
abbreviation (input) JD :: "'a::len word \<Rightarrow> json" where "JD v \<equiv> JNum (pd v)"

definition peer_json :: "nav_snapshot \<Rightarrow> nav_peer_state \<Rightarrow> json" where
  "peer_json sn peer =
     (let source = peer_effective_source peer; status = peer_effective_status peer source in JObj
        [(''id'', JU (ps_node_id peer)), (''gnss'', JBool (ps_gnss_valid peer)),
         (''lat_e7'', JD (lat_e7 (ps_position peer))), (''lon_e7'', JD (lon_e7 (ps_position peer))),
         (''alt_mm'', JD (alt_mm (ps_position peer))),
         (''position_source'', JStr (position_source_to_json source)),
         (''position_valid'', JBool (solution_is_displayable source status)),
         (''position_degraded'', JBool (solution_is_degraded source status)),
         (''telemetry_age_ms'', JU (if sn_time_ms sn \<ge> ps_last_telemetry_timestamp_ms peer
            then sn_time_ms sn - ps_last_telemetry_timestamp_ms peer else 0)),
         (''range_mm'', JU (ps_range_mm peer)), (''range_valid'', JBool (ps_range_valid peer)),
         (''rssi'', JD (ps_rssi_dbm peer)), (''snr'', JD (ps_snr_db peer)),
         (''quality'', JNum (fmt_f 3 (ps_anchor_quality peer)))])"

definition present_peers :: "nav_peer_table \<Rightarrow> u8 list \<Rightarrow> nav_peer_state list" where
  "present_peers table ids = filter ps_present (List.map_filter (nav_peer_table_get_const table) ids)"

definition local_gnss_json :: "nav_serial_node_info \<Rightarrow> nav_snapshot \<Rightarrow> json" where
  "local_gnss_json info sn = JObj
     [(''present'', JBool (sn_local_gnss_present sn)), (''valid'', JBool (sn_local_gnss_valid sn)),
      (''used'', JBool (sn_local_gnss_used sn)),
      (''usage'', JStr (if sn_local_gnss_used sn then ''solution''
         else if si_gps_enabled info then ''enabled'' else ''disabled'')),
      (''age_ms'', JU (sn_local_gnss_age_ms sn)),
      (''fix_type'', JStr (gnss_fix_type_to_string (sn_local_gnss_fix_type sn))),
      (''satellites'', JU (sn_local_gnss_satellites sn)), (''hdop_centi'', JU (sn_local_gnss_hdop_centi sn)),
      (''hacc_mm'', JU (sn_local_gnss_hacc_mm sn)), (''vacc_mm'', JU (sn_local_gnss_vacc_mm sn)),
      (''lat_e7'', JD (lat_e7 (sn_local_gnss_position sn))),
      (''lon_e7'', JD (lon_e7 (sn_local_gnss_position sn))),
      (''alt_mm'', JD (alt_mm (sn_local_gnss_position sn)))]"

definition radio_solve_json :: "nav_snapshot \<Rightarrow> json" where
  "radio_solve_json sn = JObj
     [(''outcome'', JStr (radio_solve_outcome_to_json (sn_radio_solve_outcome sn))),
      (''age_ms'', JU (sn_radio_solve_age_ms sn)), (''elapsed_ms'', JU (sn_radio_solve_elapsed_ms sn)),
      (''interval_ms'', JU (sn_radio_solve_interval_ms sn)),
      (''generation'', JU (sn_radio_solve_generation sn)),
      (''last_generation'', JU (sn_radio_solve_last_generation sn))]"

definition snapshot_json :: "nav_serial_node_info \<Rightarrow> nav_snapshot \<Rightarrow> nav_peer_table \<Rightarrow> json" where
  "snapshot_json info sn table = JObj
     [(''t'', JU (sn_time_ms sn)),
      (''node'', JObj [(''id'', JU (si_node_id info)),
         (''name'', JStr (case si_node_name info of None \<Rightarrow> [] | Some n \<Rightarrow> n)),
         (''gps'', JBool (si_gps_enabled info)), (''mock'', JBool (si_mock_enabled info))]),
      (''mode'', JStr (nav_mode_to_string (sn_nav_mode sn))),
      (''sol'', JStr (nav_solution_status_to_string (sn_solution_status sn))),
      (''src'', JStr (nav_solution_source_to_string (sn_solution_source sn))),
      (''reject'', JStr (nav_reject_reason_to_string (sn_reject_reason sn))),
      (''pos'', JObj [(''lat_e7'', JD (lat_e7 (sn_position sn))), (''lon_e7'', JD (lon_e7 (sn_position sn))),
         (''alt_mm'', JD (alt_mm (sn_position sn)))]),
      (''num_anchors'', JU (sn_num_anchors sn)),
      (''anchor_ids'', JArr [JU (sn_selected_anchor_node_ids sn ! 0), JU (sn_selected_anchor_node_ids sn ! 1),
         JU (sn_selected_anchor_node_ids sn ! 2)]),
      (''residual_rms_m'', JNum (fmt_f 6 (sn_residual_rms_m sn))),
      (''max_residual_m'', JNum (fmt_f 6 (sn_max_residual_m sn))),
      (''geometry_score'', JNum (fmt_f 3 (sn_geometry_score sn))),
      (''anchor_triangle_area_m2'', JNum (fmt_f 3 (sn_anchor_triangle_area_m2 sn))),
      (''total_quality'', JNum (fmt_f 3 (sn_total_quality sn))),
      (''position_source'', JStr (position_source_to_json (sn_solution_source sn))),
      (''position_valid'', JBool (solution_is_displayable (sn_solution_source sn) (sn_solution_status sn))),
      (''position_degraded'', JBool (solution_is_degraded (sn_solution_source sn) (sn_solution_status sn))),
      (''local_gnss'', local_gnss_json info sn),
      (''radio_solve'', radio_solve_json sn),
      (''peers'', JArr (map (peer_json sn) (present_peers table [0, 1, 2, 3])))]"

section \<open>Text of names and trees\<close>

definition plain_text :: "string \<Rightarrow> bool" where
  "plain_text s \<longleftrightarrow> list_all (\<lambda>c. c \<noteq> CHR 0x22 \<and> c \<noteq> CHR 0x5C \<and> 0x20 \<le> code c) s"

lemma json_string_plain: "plain_text s \<Longrightarrow> json_string s = CHR 0x22 # s @ [CHR 0x22]"
proof -
  assume "plain_text s"
  then have "concat (map json_escape s) = s"
    by (induction s) (auto simp: plain_text_def json_escape_def)
  then show ?thesis by (simp add: json_string_def)
qed

lemma plain_names:
  "plain_text (nav_mode_to_string m)" "plain_text (nav_solution_status_to_string st)"
  "plain_text (nav_solution_source_to_string so)" "plain_text (nav_reject_reason_to_string r)"
  "plain_text (nav_range_fail_reason_to_string f)" "plain_text (gnss_fix_type_to_string g)"
  "plain_text (position_source_to_json so)" "plain_text (radio_solve_outcome_to_json o1)"
  subgoal by (cases m) (simp_all add: plain_text_def code_def)
  subgoal by (cases st) (simp_all add: plain_text_def code_def)
  subgoal by (cases so) (simp_all add: plain_text_def code_def)
  subgoal by (cases r) (simp_all add: plain_text_def code_def)
  subgoal by (cases f) (simp_all add: plain_text_def code_def)
  subgoal by (cases g) (simp_all add: plain_text_def code_def)
  subgoal by (cases so) (simp_all add: plain_text_def code_def)
  subgoal by (cases o1) (simp_all add: plain_text_def code_def)
  done

lemmas name_strings = plain_names [THEN json_string_plain]

lemmas text_simps = name_strings json_string_plain plain_text_def code_def Let_def

lemma append_peer_appends: "appends cap (append_peer cap sn p) (json_text (peer_json sn p))"
proof -
  show ?thesis unfolding append_peer_def Let_def
    by (rule appends_eq [OF appendf_appends]) (simp add: peer_json_def text_simps)
qed

text \<open>The peer loop separates the entries of the present peers by commas.\<close>

definition entries_text :: "bool \<Rightarrow> string list \<Rightarrow> string" where
  "entries_text first es = (if \<not> first \<and> es \<noteq> [] then '','' else []) @ commas es"

lemma entries_text_Cons: "entries_text first (e # es) = (if first then [] else '','') @ e @ entries_text False es"
  by (cases es) (simp_all add: entries_text_def)

lemma append_peers_out:
  assumes "cap \<le> length b" "out_state cap b t s"
  shows "\<exists>first' s'. append_peers cap sn table ids (first, s) = Some (first', s') \<and>
    out_state cap b (t @ entries_text first (map (\<lambda>p. json_text (peer_json sn p)) (present_peers table ids))) s'"
  using assms(2)
proof (induction ids arbitrary: first s t)
  case Nil
  then show ?case by (simp add: present_peers_def entries_text_def)
next
  case (Cons i ids)
  show ?case
  proof (cases "\<exists>p. nav_peer_table_get_const table i = Some p \<and> ps_present p")
    case False
    then have "append_peer_entry cap sn table i (first, s) = Some (first, s)"
      "present_peers table (i # ids) = present_peers table ids"
      by (auto simp: append_peer_entry_def present_peers_def map_filter_simps split: option.splits)
    then show ?thesis using Cons by simp
  next
    case True
    then obtain p where p: "nav_peer_table_get_const table i = Some p" "ps_present p" by blast
    have "appends cap (\<lambda>s. json_appendf cap [if first then [] else '',''] s \<bind> append_peer cap sn p)
        (concat [if first then [] else '',''] @ json_text (peer_json sn p))"
      by (rule appends_bind [OF appendf_appends append_peer_appends])
    then obtain s1 where "json_appendf cap [if first then [] else '',''] s \<bind> append_peer cap sn p = Some s1"
      and s1: "out_state cap b (t @ concat [if first then [] else '',''] @ json_text (peer_json sn p)) s1"
      using assms(1) Cons.prems unfolding appends_def by blast
    then obtain s0 where "json_appendf cap [if first then [] else '',''] s = Some s0" "append_peer cap sn p s0 = Some s1"
      by (cases "json_appendf cap [if first then [] else '',''] s") auto
    then have e: "append_peer_entry cap sn table i (first, s) = Some (False, s1)"
      using p by (simp add: append_peer_entry_def)
    have "present_peers table (i # ids) = p # present_peers table ids"
      using p by (simp add: present_peers_def map_filter_simps)
    then show ?thesis using Cons.IH [OF s1, of False] e by (simp add: entries_text_Cons)
  qed
qed

lemma peers_appends:
  assumes "appends cap k u"
  shows "appends cap (\<lambda>s. append_peers cap sn table ids (True, s) \<bind> (\<lambda>st. k (snd st)))
    (commas (map (\<lambda>p. json_text (peer_json sn p)) (present_peers table ids)) @ u)"
  unfolding appends_def
proof (intro allI impI)
  fix b :: "char list" and t :: string and s :: json_out
  assume "cap \<le> length b" "out_state cap b t s"
  then obtain f s1 where "append_peers cap sn table ids (True, s) = Some (f, s1)"
    "out_state cap b (t @ commas (map (\<lambda>p. json_text (peer_json sn p)) (present_peers table ids))) s1"
    using append_peers_out [of cap b t s sn table ids True] by (auto simp: entries_text_def)
  then show "\<exists>s'. append_peers cap sn table ids (True, s) \<bind> (\<lambda>st. k (snd st)) = Some s' \<and>
      out_state cap b (t @ commas (map (\<lambda>p. json_text (peer_json sn p)) (present_peers table ids)) @ u) s'"
    using assms \<open>cap \<le> length b\<close> unfolding appends_def by fastforce
qed

section \<open>The writers\<close>

lemma snapshot_w: "bounded_writer (\<lambda>b cap. nav_serial_write_snapshot b cap (Some info) (Some sn) (Some table))
  (json_text (snapshot_json info sn table))"
  unfolding nav_serial_write_snapshot_def option.case prod.case Let_def
  apply (rule bounded_writerI)
    apply (rule refl)
   apply (rule appends_eq)
    apply (rule appends_bind peers_appends appendf_appends escaped_appends)+
  apply (simp_all add: snapshot_json_def local_gnss_json_def radio_solve_json_def text_simps o_def)
  done

end
