(* ===== verification/Nav_Serial_Records.thy ===== *)
theory Nav_Serial_Records
  imports Nav_Serial_Text
begin

text \<open>
  The remaining writers as trees, the interpretations of the \<^verbatim>\<open>snprintf\<close> contract, and the trees as
  JSON: their numbers are JSON numbers and no character of their text is a NUL.
\<close>

section \<open>Trees\<close>

definition snapshot_record_json :: "nav_serial_node_info \<Rightarrow> nav_snapshot \<Rightarrow> nav_peer_table \<Rightarrow> json" where
  "snapshot_record_json info sn table = JObj [(''type'', JStr ''snapshot''), (''ts'', JU (sn_time_ms sn)),
     (''data'', snapshot_json info sn table)]"

definition quality_record_json :: "nav_node_quality_report \<Rightarrow> u32 \<Rightarrow> u32 \<Rightarrow> string option \<Rightarrow> json" where
  "quality_record_json r ts age origin =
     (let anchor_count = min 3 (unat (qr_num_anchors r)) in JObj
     [(''type'', JStr ''node_quality''), (''ts'', JU ts), (''node_id'', JU (qr_node_id r)),
      (''origin'', JStr (case origin of None \<Rightarrow> ''peer'' | Some t \<Rightarrow> t)), (''age_ms'', JU age),
      (''data'', JObj
        [(''nav_mode'', JStr (nav_mode_to_string (qr_nav_mode r))),
         (''solution_status'', JStr (nav_solution_status_to_string (qr_solution_status r))),
         (''solution_source'', JStr (nav_solution_source_to_string (qr_solution_source r))),
         (''residual_rms_m'', JNum (fmt_f 3 (fp_div binary64 (fp_of_int binary64 (uint (qr_residual_rms_mm r))) (Fin 1000)))),
         (''max_residual_m'', JNum (fmt_f 3 (fp_div binary64 (fp_of_int binary64 (uint (qr_max_residual_mm r))) (Fin 1000)))),
         (''geometry_score'', JNum (fmt_f 3 (qr_geometry_score r))),
         (''total_quality'', JNum (fmt_f 3 (qr_total_quality r))),
         (''num_anchors'', JNum (fmt_u anchor_count)),
         (''anchor_ids'', JArr (map JU (take anchor_count (qr_anchor_ids r)))),
         (''fix_type'', JStr (gnss_fix_type_to_string (qr_fix_type r))),
         (''satellites'', JU (qr_satellites r)), (''hdop_centi'', JU (qr_hdop_centi r)),
         (''hacc_mm'', JU (qr_hacc_mm r)), (''vacc_mm'', JU (qr_vacc_mm r)),
         (''lat_e7'', JD (lat_e7 (qr_position r))), (''lon_e7'', JD (lon_e7 (qr_position r))),
         (''alt_mm'', JD (alt_mm (qr_position r))), (''packet_seq'', JU (qr_packet_seq r))])])"

definition range_record_json :: "nav_serial_range_record \<Rightarrow> json" where
  "range_record_json r = JObj
     ([(''type'', JStr ''range''), (''ts'', JU (sr_timestamp_ms r)), (''from_id'', JU (sr_from_id r)),
       (''to_id'', JU (sr_to_id r)), (''request_id'', JU (sr_request_id r)), (''ok'', JBool (sr_ok r))] @
      (if sr_ok r then [(''range_mm'', JU (sr_range_mm r)), (''range_sigma_mm'', JU (sr_range_sigma_mm r))]
       else [(''range_fail_reason'', JStr (nav_range_fail_reason_to_string (sr_range_fail_reason r)))]) @
      [(''rssi_dbm'', JD (sr_rssi_dbm r)), (''snr_db'', JD (sr_snr_db r)),
       (''source'', JStr (case sr_source r of None \<Rightarrow> ''log'' | Some t \<Rightarrow> t))])"

definition log_record_json :: "u32 \<Rightarrow> string option \<Rightarrow> string option \<Rightarrow> string option \<Rightarrow> json" where
  "log_record_json ts level tag message = JObj [(''type'', JStr ''log''), (''ts'', JU ts),
     (''level'', JStr (case level of None \<Rightarrow> [] | Some t \<Rightarrow> t)),
     (''tag'', JStr (case tag of None \<Rightarrow> [] | Some t \<Rightarrow> t)),
     (''text'', JStr (case message of None \<Rightarrow> [] | Some t \<Rightarrow> t))]"

section \<open>Every writer obeys the contract\<close>

lemma appends_if: "appends cap f t \<Longrightarrow> appends cap g u \<Longrightarrow>
  appends cap (\<lambda>s. if c then f s else g s) (if c then t else u)"
  by (simp add: appends_def)

interpretation snapshot_w: bounded_writer
  "\<lambda>b cap. nav_serial_write_snapshot b cap (Some info) (Some sn) (Some table)"
  "json_text (snapshot_json info sn table)" for info sn table
  by (rule snapshot_w)

lemma payload_appends: "appends cap (append_snapshot_payload cap (Some info) (Some sn) (Some table))
  (json_text (snapshot_json info sn table))"
proof -
  let ?w = "\<lambda>b cap. nav_serial_write_snapshot b cap (Some info) (Some sn) (Some table)"
  define g where "g buf off room = map_option (\<lambda>(rest, n). (take off buf @ rest, n)) (?w (drop off buf) room)" for buf off room
  have "append_snapshot_payload cap (Some info) (Some sn) (Some table) = (\<lambda>(buf, used). if used < 0 then Some (buf, used)
     else (let off = nat used; room = (if off < cap then cap - off else 0)
       in g buf off room \<bind> (\<lambda>(buf, n). Some (buf, if n < 0 then - 1 else used + n))))"
    by (auto simp: append_snapshot_payload_def fun_eq_iff Let_def g_def map_conv_bind_option case_prod_unfold cong: if_cong)
  then show ?thesis
    using splice_appends [of g "json_text (snapshot_json info sn table)" cap]
    by (simp add: g_def snapshot_w.writes snapshot_w.size_query)
qed

lemma record_w: "bounded_writer (\<lambda>b cap. nav_serial_write_snapshot_record b cap (Some info) (Some sn) (Some table))
  (json_text (snapshot_record_json info sn table))"
  unfolding nav_serial_write_snapshot_record_def [of _ _ "Some info" "Some sn" "Some table", simplified]
  apply (rule bounded_writerI)
    apply (rule refl)
   apply (rule appends_eq)
    apply (rule appends_bind payload_appends appendf_appends)+
  apply (simp_all add: snapshot_record_json_def text_simps)
  done

lemma anchor_ids_appends: "appends cap (append_anchor_ids cap ids i) (entries_text (i = 0) (map pu ids))"
proof (induction ids arbitrary: i)
  case Nil
  then show ?case by (simp add: appends_def entries_text_def)
next
  case (Cons a ids)
  have "appends cap (\<lambda>s. json_appendf cap [if i = 0 then [] else '','', pu a] s \<bind> append_anchor_ids cap ids (i + 1))
     (concat [if i = 0 then [] else '','', pu a] @ entries_text (i + 1 = 0) (map pu ids))"
    by (rule appends_bind [OF appendf_appends Cons])
  then show ?case by (auto simp: entries_text_Cons appends_def)
qed

lemma quality_w: "bounded_writer (\<lambda>b cap. nav_serial_write_node_quality_record b cap (Some r) ts age origin)
  (json_text (quality_record_json r ts age origin))"
  unfolding nav_serial_write_node_quality_record_def option.case Let_def
  apply (rule bounded_writerI)
    apply (rule refl)
   apply (rule appends_eq)
    apply (rule appends_bind anchor_ids_appends appendf_appends escaped_appends)+
  apply (simp_all add: quality_record_json_def text_simps o_def entries_text_def min_def)
  done

lemma range_w: "bounded_writer (\<lambda>b cap. nav_serial_write_range_record b cap (Some r)) (json_text (range_record_json r))"
  unfolding nav_serial_write_range_record_def option.case Let_def
  apply (rule bounded_writerI)
    apply (rule refl)
   apply (rule appends_eq)
    apply (rule appends_bind appends_if appendf_appends escaped_appends)+
  apply (simp_all add: range_record_json_def text_simps)
  done

lemma log_w: "bounded_writer (\<lambda>b cap. nav_serial_write_log_record b cap ts level tag message)
  (json_text (log_record_json ts level tag message))"
  unfolding nav_serial_write_log_record_def
  apply (rule bounded_writerI)
    apply (rule refl)
   apply (rule appends_eq)
    apply (rule appends_bind appendf_appends escaped_appends)+
  apply (simp_all add: log_record_json_def text_simps)
  done

interpretation record_w: bounded_writer
  "\<lambda>b cap. nav_serial_write_snapshot_record b cap (Some info) (Some sn) (Some table)"
  "json_text (snapshot_record_json info sn table)" for info sn table
  by (rule record_w)

interpretation quality_w: bounded_writer
  "\<lambda>b cap. nav_serial_write_node_quality_record b cap (Some r) ts age origin"
  "json_text (quality_record_json r ts age origin)" for r ts age origin
  by (rule quality_w)

interpretation range_w: bounded_writer "\<lambda>b cap. nav_serial_write_range_record b cap (Some r)"
  "json_text (range_record_json r)" for r
  by (rule range_w)

interpretation log_w: bounded_writer "\<lambda>b cap. nav_serial_write_log_record b cap ts level tag message"
  "json_text (log_record_json ts level tag message)" for ts level tag message
  by (rule log_w)

section \<open>Well-formed trees\<close>

text \<open>A JSON number without an exponent: an optional minus, an integer without leading zeros, an
  optional point with digits.\<close>

definition unsigned_number :: "string \<Rightarrow> bool" where
  "unsigned_number t \<longleftrightarrow> (let ip = takeWhile isdigit t; r = dropWhile isdigit t in
     ip \<noteq> [] \<and> (hd ip = CHR ''0'' \<longrightarrow> length ip = 1) \<and>
     (r = [] \<or> hd r = CHR ''.'' \<and> tl r \<noteq> [] \<and> list_all isdigit (tl r)))"

definition json_number :: "string \<Rightarrow> bool" where
  "json_number s \<longleftrightarrow> unsigned_number (if s \<noteq> [] \<and> hd s = CHR ''-'' then tl s else s)"

fun json_ok :: "json \<Rightarrow> bool" where
  "json_ok (JBool b) = True"
| "json_ok (JNum s) = json_number s"
| "json_ok (JStr s) = True"
| "json_ok (JArr js) = list_all json_ok js"
| "json_ok (JObj ms) = (distinct (map fst ms) \<and> list_all (\<lambda>(k, v). json_ok v) ms)"

lemma isdigit_char_of: "d < 10 \<Longrightarrow> isdigit (char_of (48 + d :: nat))"
  by (simp add: isdigit_def code_def of_char_of)

lemma char_of_zero: "d < 10 \<Longrightarrow> char_of (48 + d :: nat) = CHR ''0'' \<longleftrightarrow> d = 0"
proof -
  assume d: "d < 10"
  have "char_of (of_char (CHR ''0'') :: nat) = CHR ''0''" by (rule char_of_char)
  then have z: "char_of (48 :: nat) = CHR ''0''" by simp
  have "of_char (char_of (48 + d)) = 48 + d" using d by (simp add: of_char_of)
  then have "d = 0" if "char_of (48 + d) = CHR ''0''" using that by simp
  then show ?thesis using z by auto
qed

lemma digits_number: "digits n \<noteq> [] \<and> list_all isdigit (digits n) \<and> (hd (digits n) = CHR ''0'' \<longrightarrow> n = 0 \<and> length (digits n) = 1)"
proof (induction n rule: digits.induct)
  case (1 n)
  show ?case
  proof (cases "n < 10")
    case True
    then show ?thesis using isdigit_char_of [of n] char_of_zero [of n] by (auto simp: digits.simps [of n] digits.simps [of 0])
  next
    case False
    then have "n div 10 \<noteq> 0" by simp
    then show ?thesis using 1 [OF False] False isdigit_char_of [of "n mod 10"] by (simp add: digits.simps [of n])
  qed
qed

lemma digits_unsigned:
  assumes "r = [] \<or> hd r = CHR ''.'' \<and> tl r \<noteq> [] \<and> list_all isdigit (tl r)"
  shows "unsigned_number (digits n @ r)" and "hd (digits n @ r) \<noteq> CHR ''-''"
proof -
  have a: "\<forall>c \<in> set (digits n). isdigit c" and ne: "digits n \<noteq> []"
    using digits_number [of n] by (auto simp: list_all_iff)
  have "takeWhile isdigit r = [] \<and> dropWhile isdigit r = r"
    using assms by (cases r) (auto simp: isdigit_def code_def)
  then have "takeWhile isdigit (digits n @ r) = digits n" "dropWhile isdigit (digits n @ r) = r"
    using a by (simp_all add: takeWhile_append2 dropWhile_append2)
  then show "unsigned_number (digits n @ r)" using digits_number [of n] assms by (simp add: unsigned_number_def)
  have "isdigit (hd (digits n))" using a ne by simp
  then show "hd (digits n @ r) \<noteq> CHR ''-''" using ne by (auto simp: isdigit_def code_def)
qed

lemma number_u: "json_number (fmt_u n)"
  using digits_unsigned [of "[]" n] by (simp add: json_number_def fmt_u_def)

lemma number_d: "json_number (fmt_d i)"
  using digits_unsigned [of "[]" "nat i"] digits_unsigned [of "[]" "nat (- i)"] digits_number [of "nat i"]
  by (auto simp: json_number_def fmt_d_def)

lemma number_f: "0 < k \<Longrightarrow> fp_isfinite x \<Longrightarrow> json_number (fmt_f k x)"
proof (cases x)
  case (Fin q)
  assume k: "0 < k"
  define m where "m = nat (rne (\<bar>q\<bar> * 10 ^ k))"
  define t where "t = pad_zeros k (digits (m mod 10 ^ k))"
  have "t \<noteq> []" "list_all isdigit t"
    using digits_number [of "m mod 10 ^ k"]
      isdigit_char_of [of 0]
    by (auto simp: t_def pad_zeros_def list_all_iff isdigit_def [of "CHR ''0''"] code_def)
  then have "''.'' @ t = [] \<or> hd (''.'' @ t) = CHR ''.'' \<and> tl (''.'' @ t) \<noteq> [] \<and> list_all isdigit (tl (''.'' @ t))"
    by simp
  note u = digits_unsigned [OF this, of "m div 10 ^ k"]
  have "fmt_f k x = (if q < 0 then ''-'' else []) @ digits (m div 10 ^ k) @ ''.'' @ t"
    by (simp add: Fin m_def t_def Let_def)
  then show ?thesis using u by (simp add: json_number_def)
qed simp_all

lemmas numbers = number_u number_d number_f

text \<open>A text is printable when it holds no control character.\<close>

definition printable :: "string \<Rightarrow> bool" where
  "printable s \<longleftrightarrow> list_all (\<lambda>c. 32 \<le> code c) s"

lemma printable_simps [simp]: "printable []" "printable (c # s) \<longleftrightarrow> 32 \<le> code c \<and> printable s"
  "printable (s @ t) \<longleftrightarrow> printable s \<and> printable t"
  by (simp_all add: printable_def)

lemma printable_no_NUL: "printable s \<Longrightarrow> NUL \<notin> set s"
  by (auto simp: printable_def list_all_iff code_def)

lemma number_printable: "json_number s \<Longrightarrow> printable s"
proof -
  assume s: "json_number s"
  define t where "t = (if s \<noteq> [] \<and> hd s = CHR ''-'' then tl s else s)"
  have d: "isdigit c \<Longrightarrow> 32 \<le> code c" for c by (simp add: isdigit_def code_def)
  have "unsigned_number t" using s by (simp add: json_number_def t_def)
  then have "dropWhile isdigit t = [] \<or> hd (dropWhile isdigit t) = CHR ''.'' \<and> list_all isdigit (tl (dropWhile isdigit t))"
    by (auto simp: unsigned_number_def Let_def)
  moreover have "32 \<le> code (CHR ''.'')" by (simp add: code_def)
  ultimately have "printable (dropWhile isdigit t)"
    using d by (cases "dropWhile isdigit t") (auto simp: list_all_iff printable_def dest!: set_dropWhileD)
  moreover have "printable (takeWhile isdigit t)" using d by (auto simp: printable_def list_all_iff dest: set_takeWhileD)
  ultimately have "printable t" by (metis printable_simps(3) takeWhile_dropWhile_id)
  then show ?thesis by (cases s) (auto simp: t_def code_def split: if_splits)
qed

lemma hex_digit_printable: "n < 16 \<Longrightarrow> 32 \<le> code (hex_digit n)"
  by (simp add: hex_digit_def code_def of_char_of)

lemma string_printable: "printable (json_string s)"
proof -
  have "printable (json_escape c)" for c
  proof -
    have "code c div 16 < 16" by (simp add: code_def less_mult_imp_div_less)
    then have "32 \<le> code (hex_digit (code c div 16))" "32 \<le> code (hex_digit (code c mod 16))"
      by (simp_all add: hex_digit_printable)
    then show ?thesis by (auto simp: json_escape_def fmt_u04x_def) (simp_all add: code_def)
  qed
  then show ?thesis by (induction s) (simp_all add: json_string_def, simp_all add: code_def)
qed

lemma commas_printable: "(\<And>s. s \<in> set ss \<Longrightarrow> printable s) \<Longrightarrow> printable (commas ss)"
  by (induction ss rule: commas.induct) (auto simp: code_def)

lemma text_printable: "json_ok j \<Longrightarrow> printable (json_text j)"
proof (induction j rule: json_text.induct)
  case (1 b)
  then show ?case by (cases b) (simp_all add: code_def)
next
  case (4 js)
  then have "printable (commas (map json_text js))" by (intro commas_printable) (auto simp: list_all_iff)
  then show ?case by (simp add: code_def)
next
  case (5 ms)
  have "printable (json_string k @ CHR '':'' # json_text v)" if "(k, v) \<in> set ms" for k v
    using 5 that string_printable [of k] by (auto simp: list_all_iff code_def)
  then have "printable (commas (map (\<lambda>(k, v). json_string k @ CHR '':'' # json_text v) ms))"
    by (intro commas_printable) auto
  then show ?case by (simp add: code_def)
qed (simp_all add: number_printable string_printable)

lemmas text_no_NUL = text_printable [THEN printable_no_NUL]

definition snapshot_finite :: "nav_snapshot \<Rightarrow> nav_peer_table \<Rightarrow> bool" where
  "snapshot_finite sn table \<longleftrightarrow> fp_isfinite (sn_residual_rms_m sn) \<and> fp_isfinite (sn_max_residual_m sn) \<and>
     fp_isfinite (sn_geometry_score sn) \<and> fp_isfinite (sn_anchor_triangle_area_m2 sn) \<and>
     fp_isfinite (sn_total_quality sn) \<and>
     list_all (\<lambda>p. fp_isfinite (ps_anchor_quality p)) (present_peers table [0, 1, 2, 3])"

lemma snapshot_ok: "snapshot_finite sn table \<Longrightarrow> json_ok (snapshot_record_json info sn table)"
proof -
  assume f: "snapshot_finite sn table"
  have p: "json_ok (peer_json sn p)" if "fp_isfinite (ps_anchor_quality p)" for p
    using that by (simp add: peer_json_def numbers Let_def)
  have "json_ok (local_gnss_json info sn)" "json_ok (radio_solve_json sn)"
    by (simp_all add: local_gnss_json_def radio_solve_json_def numbers)
  moreover have "json_ok (JArr (map (peer_json sn) (present_peers table [0, 1, 2, 3])))"
    using f p by (auto simp: snapshot_finite_def list_all_iff)
  ultimately show ?thesis using f
    by (simp add: snapshot_record_json_def snapshot_json_def snapshot_finite_def numbers del: json_text.simps)
qed

section \<open>Properties of the writers\<close>

lemma snapshot_null:
  "info = None \<or> sn = None \<or> table = None \<Longrightarrow> nav_serial_write_snapshot b cap info sn table = Some (b, - 1)"
  by (cases info; cases sn; cases table) (simp_all add: nav_serial_write_snapshot_def)

text \<open>No writer leaves its buffer: whatever the arguments and the size, the bytes behind the given
  capacity are untouched and the returned number does not depend on the capacity, so a call without a
  buffer tells the size that a record needs.\<close>

theorem writers_bounded:
  assumes "cap \<le> length b"
  shows "(\<exists>b' n. nav_serial_write_snapshot b cap info sn table = Some (b', n) \<and> drop cap b' = drop cap b \<and>
      nav_serial_write_snapshot [] 0 info sn table = Some ([], n)) \<and>
    (\<exists>b' n. nav_serial_write_snapshot_record b cap info sn table = Some (b', n) \<and> drop cap b' = drop cap b \<and>
      nav_serial_write_snapshot_record [] 0 info sn table = Some ([], n)) \<and>
    (\<exists>b' n. nav_serial_write_node_quality_record b cap report ts age origin = Some (b', n) \<and> drop cap b' = drop cap b \<and>
      nav_serial_write_node_quality_record [] 0 report ts age origin = Some ([], n)) \<and>
    (\<exists>b' n. nav_serial_write_range_record b cap range_record = Some (b', n) \<and> drop cap b' = drop cap b \<and>
      nav_serial_write_range_record [] 0 range_record = Some ([], n)) \<and>
    (\<exists>b' n. nav_serial_write_log_record b cap ts level tag message = Some (b', n) \<and> drop cap b' = drop cap b \<and>
      nav_serial_write_log_record [] 0 ts level tag message = Some ([], n))"
proof (intro conjI)
  show "\<exists>b' n. nav_serial_write_snapshot b cap info sn table = Some (b', n) \<and> drop cap b' = drop cap b \<and>
      nav_serial_write_snapshot [] 0 info sn table = Some ([], n)"
  proof (cases "info = None \<or> sn = None \<or> table = None")
    case True
    then show ?thesis by (simp add: snapshot_null)
  next
    case False
    then show ?thesis using snapshot_w.bounded [OF assms] by auto
  qed
  show "\<exists>b' n. nav_serial_write_snapshot_record b cap info sn table = Some (b', n) \<and> drop cap b' = drop cap b \<and>
      nav_serial_write_snapshot_record [] 0 info sn table = Some ([], n)"
  proof (cases "info = None \<or> sn = None \<or> table = None")
    case True
    then show ?thesis by (auto simp: nav_serial_write_snapshot_record_def)
  next
    case False
    then show ?thesis using record_w.bounded [OF assms] by auto
  qed
  show "\<exists>b' n. nav_serial_write_node_quality_record b cap report ts age origin = Some (b', n) \<and> drop cap b' = drop cap b \<and>
      nav_serial_write_node_quality_record [] 0 report ts age origin = Some ([], n)"
    using quality_w.bounded [OF assms]
    by (cases report) (simp_all add: nav_serial_write_node_quality_record_def [of _ _ None])
  show "\<exists>b' n. nav_serial_write_range_record b cap range_record = Some (b', n) \<and> drop cap b' = drop cap b \<and>
      nav_serial_write_range_record [] 0 range_record = Some ([], n)"
    using range_w.bounded [OF assms]
    by (cases range_record) (simp_all add: nav_serial_write_range_record_def [of _ _ None])
  show "\<exists>b' n. nav_serial_write_log_record b cap ts level tag message = Some (b', n) \<and> drop cap b' = drop cap b \<and>
      nav_serial_write_log_record [] 0 ts level tag message = Some ([], n)"
    by (rule log_w.bounded [OF assms])
qed

text \<open>C24: A snapshot record is JSON: with room for it, the buffer holds exactly the text of the JSON object
  with the fields of the snapshot, its header and the present peers; the keys of every object are
  different and every number is a JSON number, provided the quality figures are finite.\<close>

theorem snapshot_record_is_json:
  assumes "cap \<le> length b" "length (json_text (snapshot_record_json info sn table)) < cap"
    and "snapshot_finite sn table"
  shows "\<exists>b'. nav_serial_write_snapshot_record b cap (Some info) (Some sn) (Some table)
      = Some (b', int (length (json_text (snapshot_record_json info sn table)))) \<and>
    c_string b' = Some (json_text (snapshot_record_json info sn table)) \<and>
    json_ok (snapshot_record_json info sn table)"
  using record_w.content [OF assms(1) _ text_no_NUL [OF snapshot_ok [OF assms(3)]]] assms(2)
    snapshot_ok [OF assms(3)] by fastforce

end
