(* ===== verification/Nav_Serial_Control.thy ===== *)
theory Nav_Serial_Control
  imports Nav_Serial_Command Nav_Serial_Records
begin

text \<open>
  Properties of the command scanner: it is total and memory safe on every line, and it reads back
  every command that the telemetry UI sends.
\<close>

section \<open>Safety\<close>

lemma extract_loop_total:
  "i < cap \<Longrightarrow> cap \<le> length out \<Longrightarrow>
   \<exists>out'. extract_loop cap s i out = Some out' \<and> length out' = length out \<and> NUL \<in> set (take cap out')"
proof (induction cap s i out rule: extract_loop.induct)
  case (1 cap i out)
  then show ?case by (auto simp: mem_simps in_set_conv_nth intro!: exI [of _ i])
next
  case (2 cap c rest i out)
  have stop: "\<exists>out'. mem_write out i NUL = Some out' \<and> length out' = length out \<and> NUL \<in> set (take cap out')"
    using 2(3,4) by (auto simp: mem_simps in_set_conv_nth intro!: exI [of _ i])
  show ?case
  proof (cases "c = dquote \<or> \<not> i + 1 < cap")
    case True
    then show ?thesis using stop by auto
  next
    case False
    have w: "mem_write out i d = Some (out[i := d])" for d using 2(3,4) by (simp add: mem_simps)
    show ?thesis
    proof (cases "c = backslash \<and> rest \<noteq> []")
      case True
      then show ?thesis using 2(1) [OF False True, of "out[i := hd rest]"] False 2(4) w by simp
    next
      case f: False
      then show ?thesis using 2(2) [OF False f, of "out[i := c]"] False 2(4) w f by auto
    qed
  qed
qed

lemma extract_string_total:
  assumes "0 < cap" "cap \<le> length out"
  shows "\<exists>ok out'. extract_string line key cap out = Some (ok, out') \<and> length out' = length out \<and>
    (ok \<longrightarrow> NUL \<in> set (take cap out')) \<and> (\<not> ok \<longrightarrow> out' = out)"
proof (cases "find_value line key")
  case None
  then show ?thesis by (intro exI [of _ False] exI [of _ out]) (simp add: extract_string_def)
next
  case (Some s)
  then show ?thesis using extract_loop_total [OF assms, of "tl s"] by (auto simp: extract_string_def)
qed

lemma str_value_zero: "NUL \<in> set (cc_str_value ctrl_command_zero)" "length (cc_str_value ctrl_command_zero) = 24"
  by (simp_all add: ctrl_command_zero_def)

definition command_safe :: "nav_status \<times> nav_ctrl_command \<Rightarrow> bool" where
  "command_safe r \<longleftrightarrow> length (cc_str_value (snd r)) = 24 \<and> NUL \<in> set (cc_str_value (snd r)) \<and>
     \<not> (fst r = NAV_STATUS_OK \<and> cc_type (snd r) = NAV_CTRL_CMD_SET_NODE_ID \<and>
        \<not> (0 \<le> sint (cc_int_value (snd r)) \<and> sint (cc_int_value (snd r)) < 4))"

lemma command_safe_pair:
  "command_safe (st, c) \<longleftrightarrow> length (cc_str_value c) = 24 \<and> NUL \<in> set (cc_str_value c) \<and>
     \<not> (st = NAV_STATUS_OK \<and> cc_type c = NAV_CTRL_CMD_SET_NODE_ID \<and> \<not> (0 \<le> sint (cc_int_value c) \<and> sint (cc_int_value c) < 4))"
  by (simp add: command_safe_def)

lemma command_bool_safe: "t \<noteq> NAV_CTRL_CMD_SET_NODE_ID \<Longrightarrow> command_safe (command_bool v (ctrl_command_zero\<lparr>cc_type := t\<rparr>))"
  using str_value_zero by (cases v) (simp_all add: command_bool_def command_safe_def)

lemma dispatch_safe: "\<exists>r. command_dispatch w line cmd ctrl_command_zero = Some r \<and> command_safe r"
proof -
  note zero = str_value_zero
  obtain ok nm where n: "extract_string line ''value'' 24 (cc_str_value ctrl_command_zero) = Some (ok, nm)"
    "length nm = 24" "NUL \<in> set nm"
  proof -
    obtain ok nm where e: "extract_string line ''value'' 24 (cc_str_value ctrl_command_zero) = Some (ok, nm)"
      "length nm = 24" "ok \<longrightarrow> NUL \<in> set (take 24 nm)" "\<not> ok \<longrightarrow> nm = cc_str_value ctrl_command_zero"
      using extract_string_total [of 24 "cc_str_value ctrl_command_zero" line "''value''"] zero by auto
    then have "NUL \<in> set nm" using zero by (cases ok) auto
    then show ?thesis using that e by blast
  qed
  have d: "command_safe (case extract_bool line ''on'' of
      Some b \<Rightarrow> (NAV_STATUS_OK, ctrl_command_zero\<lparr>cc_type := NAV_CTRL_CMD_SET_DEBUG, cc_bool_value := b\<rparr>)
    | None \<Rightarrow> command_bool (extract_bool line ''enabled'') (ctrl_command_zero\<lparr>cc_type := NAV_CTRL_CMD_SET_DEBUG\<rparr>))"
    using zero by (cases "extract_bool line ''on''") (simp_all add: command_bool_safe command_safe_pair)
  show ?thesis unfolding command_dispatch_def Let_def
    using zero n command_bool_safe d
    by (cases "extract_int w line ''alt_mm''"; cases "extract_int w line ''id''") (simp_all add: command_safe_pair del: split_paired_Ex)
qed

lemma parse_command_total:
  "\<exists>r. nav_serial_parse_command w (Some line) out = Some r \<and> command_safe r"
proof -
  obtain ok cmd where e: "extract_string line ''cmd'' 16 (replicate 16 NUL) = Some (ok, cmd)"
    "ok \<longrightarrow> NUL \<in> set (take 16 cmd)"
    using extract_string_total [of 16 "replicate 16 NUL" line "''cmd''"] by auto
  have "\<exists>s. c_string cmd = Some s" if ok using e(2) that by (auto simp: c_string_def dest: in_set_takeD)
  moreover have "command_safe (NAV_STATUS_BAD_FRAME, ctrl_command_zero)" using str_value_zero by (simp add: command_safe_def)
  ultimately show ?thesis using e(1) dispatch_safe [of w line]
    by (cases ok; cases "strchr line (CHR ''{'')") (auto simp: nav_serial_parse_command_def)
qed

text \<open>The command scanner is total: it handles every line without leaving its arrays, always leaves a
  terminated name of at most 23 characters, and accepts a node id only from 0 to 3.\<close>

theorem parse_command_safe:
  "\<exists>r. nav_serial_parse_command w (Some line) out = Some r \<and> command_safe r"
  by (rule parse_command_total)

section \<open>Reading the commands back\<close>

text \<open>The commands of the telemetry UI, with the JSON objects that it sends for them.\<close>

datatype ui_command = Ui_Get | Ui_Gps bool | Ui_Mock bool | Ui_Name string | Ui_Alt int | Ui_Node_Id int | Ui_Debug bool

fun ui_json :: "ui_command \<Rightarrow> json" where
  "ui_json Ui_Get = JObj [(''cmd'', JStr ''get'')]"
| "ui_json (Ui_Gps b) = JObj [(''cmd'', JStr ''gps''), (''enabled'', JBool b)]"
| "ui_json (Ui_Mock b) = JObj [(''cmd'', JStr ''mock''), (''enabled'', JBool b)]"
| "ui_json (Ui_Name s) = JObj [(''cmd'', JStr ''name''), (''value'', JStr s)]"
| "ui_json (Ui_Alt v) = JObj [(''cmd'', JStr ''alt''), (''alt_mm'', JNum (fmt_d v))]"
| "ui_json (Ui_Node_Id v) = JObj [(''cmd'', JStr ''node_id''), (''id'', JNum (fmt_d v))]"
| "ui_json (Ui_Debug b) = JObj [(''cmd'', JStr ''debug''), (''on'', JBool b)]"

fun ui_ok :: "ui_command \<Rightarrow> bool" where
  "ui_ok (Ui_Name s) = (length s < NAV_NODE_NAME_MAX \<and> list_all (\<lambda>c. 0x20 \<le> code c) s)"
| "ui_ok (Ui_Alt v) = (- (2 ^ 31) \<le> v \<and> v < 2 ^ 31)"
| "ui_ok (Ui_Node_Id v) = (0 \<le> v \<and> v < int NAV_MAX_NODES)"
| "ui_ok _ = True"

fun ui_result :: "ui_command \<Rightarrow> nav_ctrl_command" where
  "ui_result Ui_Get = ctrl_command_zero\<lparr>cc_type := NAV_CTRL_CMD_GET\<rparr>"
| "ui_result (Ui_Gps b) = ctrl_command_zero\<lparr>cc_type := NAV_CTRL_CMD_SET_GPS, cc_bool_value := b\<rparr>"
| "ui_result (Ui_Mock b) = ctrl_command_zero\<lparr>cc_type := NAV_CTRL_CMD_SET_MOCK, cc_bool_value := b\<rparr>"
| "ui_result (Ui_Name s) = ctrl_command_zero\<lparr>cc_type := NAV_CTRL_CMD_SET_NAME,
     cc_str_value := s @ replicate (NAV_NODE_NAME_MAX - length s) NUL\<rparr>"
| "ui_result (Ui_Alt v) = ctrl_command_zero\<lparr>cc_type := NAV_CTRL_CMD_SET_ALTITUDE, cc_int_value := word_of_int v\<rparr>"
| "ui_result (Ui_Node_Id v) = ctrl_command_zero\<lparr>cc_type := NAV_CTRL_CMD_SET_NODE_ID, cc_int_value := word_of_int v\<rparr>"
| "ui_result (Ui_Debug b) = ctrl_command_zero\<lparr>cc_type := NAV_CTRL_CMD_SET_DEBUG, cc_bool_value := b\<rparr>"

text \<open>The copy loop undoes the escapes of printable characters.\<close>

lemma extract_loop_escaped:
  "list_all (\<lambda>c. 0x20 \<le> code c) s \<Longrightarrow> i + length s < cap \<Longrightarrow> cap \<le> length out \<Longrightarrow>
   extract_loop cap (concat (map json_escape s) @ dquote # rest) i out
     = Some (take i out @ s @ NUL # drop (i + length s + 1) out)"
proof (induction s arbitrary: i out)
  case Nil
  then show ?case by (simp add: mem_simps upd_conv_take_nth_drop)
next
  case (Cons c s)
  have w: "mem_write out i d = Some (out[i := d])" for d using Cons.prems by (simp add: mem_simps)
  have ih: "extract_loop cap (concat (map json_escape s) @ dquote # rest) (i + 1) (out[i := c])
      = Some (take (i + 1) (out[i := c]) @ s @ NUL # drop (i + 1 + length s + 1) (out[i := c]))"
    using Cons by simp
  have "take (i + 1) (out[i := c]) = take i out @ [c]" using Cons.prems by (simp add: take_Suc_conv_app_nth)
  moreover have "drop (i + 1 + length s + 1) (out[i := c]) = drop (i + length (c # s) + 1) out" by simp
  ultimately show ?case using ih w Cons.prems by (auto simp: json_escape_def [of c] code_def)
qed

lemma digits_append: "digits_value b (s @ [c]) = digits_value b s * b + xdigit c"
  by (simp add: digits_value_def)

lemma digits_value_digits: "digits_value 10 (digits n) = n"
proof (induction n rule: digits.induct)
  case (1 n)
  have x: "xdigit (char_of (48 + d :: nat)) = d" if "d < 10" for d
    using that isdigit_char_of [of d] by (simp add: xdigit_def code_def of_char_of)
  show ?case
  proof (cases "n < 10")
    case True
    then show ?thesis using x [of n] by (simp add: digits.simps [of n] digits_value_def)
  next
    case False
    then show ?thesis using 1 x [of "n mod 10"] by (simp add: digits.simps [of n] digits_append)
  qed
qed

lemma digit_not_space: "isdigit c \<Longrightarrow> \<not> isspace c"
  by (auto simp: isspace_def isdigit_def code_def)

lemma fmt_d_hd: "\<exists>c r. fmt_d v = c # r \<and> \<not> isspace c"
proof -
  have "\<exists>c r. digits n = c # r \<and> \<not> isspace c" for n
    using digits_number [of n] digit_not_space by (cases "digits n") auto
  moreover have "\<not> isspace (CHR ''-'')" by (simp add: isspace_def)
  ultimately show ?thesis by (simp add: fmt_d_def)
qed

text \<open>\<^verbatim>\<open>strtol\<close> undoes \<^verbatim>\<open>%d\<close>.\<close>

lemma strtol_fmt_d:
  assumes "- (2 ^ (w - 1)) \<le> v" "v < 2 ^ (w - 1)" "r = [] \<or> \<not> isdigit (hd r)"
  shows "strtol w (fmt_d v @ r) = (v, r, False)"
proof -
  obtain c cs where "fmt_d v = c # cs" "\<not> isspace c" using fmt_d_hd by blast
  then have ws: "dropWhile isspace (fmt_d v @ r) = fmt_d v @ r" by simp
  have r: "takeWhile isdigit r = []" "dropWhile isdigit r = r" using assms(3) by (cases r; simp)+
  have d: "takeWhile isdigit (digits n @ r) = digits n" "dropWhile isdigit (digits n @ r) = r"
    "digits n \<noteq> []" "scan_sign (digits n @ r) = (False, digits n @ r)" for n
  proof -
    have a: "\<forall>c \<in> set (digits n). isdigit c" "digits n \<noteq> []" using digits_number [of n] by (auto simp: list_all_iff)
    then show "takeWhile isdigit (digits n @ r) = digits n" "dropWhile isdigit (digits n @ r) = r"
      "digits n \<noteq> []" using r by (simp_all add: takeWhile_append2 dropWhile_append2)
    show "scan_sign (digits n @ r) = (False, digits n @ r)"
      using a by (cases "digits n") (auto simp: scan_sign_def isdigit_def code_def)
  qed
  show ?thesis unfolding strtol_def ws using assms(1,2) d digits_value_digits
    by (cases "v < 0") (simp_all add: fmt_d_def scan_sign_def)
qed

lemma i32_long: "32 \<le> w \<Longrightarrow> (2 :: int) ^ 31 \<le> 2 ^ (w - 1)"
  by (rule power_increasing) auto

lemma strtol_i32: "32 \<le> w \<Longrightarrow> - (2 ^ 31) \<le> v \<Longrightarrow> v < 2 ^ 31 \<Longrightarrow> strtol w (fmt_d v @ ''}'') = (v, ''}'', False)"
  using strtol_fmt_d [of w v "''}''"] i32_long [of w] by (simp add: isdigit_def code_def)

lemma blanks_fmt_d: "dropWhile (\<lambda>c. c = CHR '' '' \<or> c = CHR 0x09) (fmt_d v @ r) = fmt_d v @ r"
  using fmt_d_hd [of v] by (auto simp: isspace_def)

lemma fmt_d_ne: "fmt_d v @ r \<noteq> r"
  using fmt_d_hd [of v] by auto

lemma key_text:
  "json_string ''cmd'' = ''\"cmd\"''" "json_string ''enabled'' = ''\"enabled\"''" "json_string ''value'' = ''\"value\"''"
  "json_string ''alt_mm'' = ''\"alt_mm\"''" "json_string ''id'' = ''\"id\"''" "json_string ''on'' = ''\"on\"''"
  "json_string ''get'' = ''\"get\"''" "json_string ''gps'' = ''\"gps\"''" "json_string ''mock'' = ''\"mock\"''"
  "json_string ''name'' = ''\"name\"''" "json_string ''alt'' = ''\"alt\"''" "json_string ''node_id'' = ''\"node_id\"''"
  "json_string ''debug'' = ''\"debug\"''"
  by (simp_all add: json_string_def json_escape_def code_def)

lemmas scan_simps = command_dispatch_def extract_bool_def extract_int_def find_value_def command_bool_def Let_def

lemma parse_named:
  assumes n: "plain_text n" "length n < 16" and line: "line = ''{\"cmd\":'' @ json_string n @ r"
  shows "nav_serial_parse_command w (Some line) out = command_dispatch w line n ctrl_command_zero"
proof -
  have p: "list_all (\<lambda>c. 0x20 \<le> code c) n" using n(1) unfolding plain_text_def list_all_iff by blast
  have "code NUL = 0" by (simp add: code_def)
  then have z: "NUL \<notin> set n" using p unfolding list_all_iff by fastforce
  have l: "extract_loop 16 (concat (map json_escape n) @ dquote # r) 0 (replicate 16 NUL)
      = Some (n @ NUL # drop (length n + 1) (replicate 16 NUL))"
    using extract_loop_escaped [OF p, of 0 16 "replicate 16 NUL" r] n(2) by simp
  have f: "find_value line ''cmd'' = Some (dquote # concat (map json_escape n) @ dquote # r)"
    by (simp add: line find_value_def json_string_def Let_def)
  have s: "strchr line (CHR ''{'') = Some 0" by (simp add: line)
  show ?thesis
    unfolding nav_serial_parse_command_def extract_string_def option.case Let_def s f
    by (simp only: l list.sel bind.bind_lunit c_string_append [OF z] prod.case simp_thms if_True if_False
        option.simps list.simps not_Cons_self)
qed

lemma ui_name_line: "extract_string (json_text (ui_json (Ui_Name s))) ''value'' NAV_NODE_NAME_MAX (cc_str_value ctrl_command_zero)
    = Some (True, s @ replicate (NAV_NODE_NAME_MAX - length s) NUL)" if "ui_ok (Ui_Name s)"
proof -
  have r: "drop (0 + length s + 1) (replicate 24 NUL) = replicate (23 - length s) NUL" by simp
  have "extract_loop 24 (concat (map json_escape s) @ dquote # ''}'') 0 (replicate 24 NUL)
      = Some (s @ NUL # replicate (23 - length s) NUL)"
    using extract_loop_escaped [of s 0 24 "replicate 24 NUL" "''}''"] that by (simp add: r)
  moreover have "24 - length s = Suc (23 - length s)" using that by auto
  moreover have "find_value (json_text (ui_json (Ui_Name s))) ''value'' = Some (dquote # concat (map json_escape s) @ dquote # ''}'')"
    by (simp add: find_value_def key_text json_string_def [of s] key_text json_string_plain plain_text_def code_def Let_def)
  ultimately show ?thesis by (simp add: extract_string_def ctrl_command_zero_def)
qed

lemma ui_parse:
  assumes "32 \<le> w" "ui_ok c"
  shows "nav_serial_parse_command w (Some (json_text (ui_json c))) out = Some (NAV_STATUS_OK, ui_result c)"
proof (cases c)
  case Ui_Get
  then show ?thesis using parse_named [of "''get''" "json_text (ui_json c)" "''}''"]
    by (simp add: plain_text_def code_def command_dispatch_def key_text)
next
  case (Ui_Gps b)
  then show ?thesis using parse_named [of "''gps''" "json_text (ui_json c)" "'',\"enabled\":'' @ pb b @ ''}''"]
    by (cases b) (simp_all add: plain_text_def code_def scan_simps key_text)
next
  case (Ui_Mock b)
  then show ?thesis using parse_named [of "''mock''" "json_text (ui_json c)" "'',\"enabled\":'' @ pb b @ ''}''"]
    by (cases b) (simp_all add: plain_text_def code_def scan_simps key_text)
next
  case (Ui_Debug b)
  then show ?thesis using parse_named [of "''debug''" "json_text (ui_json c)" "'',\"on\":'' @ pb b @ ''}''"]
    by (cases b) (simp_all add: plain_text_def code_def scan_simps key_text)
next
  case (Ui_Name s)
  then show ?thesis using parse_named [of "''name''" "json_text (ui_json c)" "'',\"value\":'' @ json_string s @ ''}''"]
      ui_name_line [of s] assms(2)
    by (simp add: plain_text_def code_def command_dispatch_def key_text json_string_plain)
next
  case (Ui_Alt v)
  then show ?thesis using parse_named [of "''alt''" "json_text (ui_json c)" "'',\"alt_mm\":'' @ fmt_d v @ ''}''"]
      assms strtol_i32 [of w v] blanks_fmt_d [of v "''}''"] fmt_d_ne [of v "''}''"]
    by (simp add: plain_text_def code_def scan_simps key_text)
next
  case (Ui_Node_Id v)
  then have v: "0 \<le> v" "v < 4" using assms(2) by simp_all
  then have "sint (word_of_int v :: i32) = v" by (simp add: sint_sbintrunc' signed_take_bit_int_eq_self)
  then show ?thesis using Ui_Node_Id v parse_named [of "''node_id''" "json_text (ui_json c)" "'',\"id\":'' @ fmt_d v @ ''}''"]
      assms(1) strtol_i32 [of w v] blanks_fmt_d [of v "''}''"] fmt_d_ne [of v "''}''"]
    by (simp add: plain_text_def code_def scan_simps key_text)
qed

text \<open>C25: The command scanner undoes the printing of the commands: for every command that the telemetry UI can
  send (a name of up to 23 printable bytes with any quotes and backslashes, an altitude in 32 bits, a node id
  from 0 to 3), parsing its JSON line gives that command with its value and the status OK, on 32-bit and 64-bit targets.\<close>

theorem command_round_trip:
  assumes "w \<in> {32, 64}" "ui_ok c"
  shows "nav_serial_parse_command w (Some (json_text (ui_json c))) out = Some (NAV_STATUS_OK, ui_result c)"
  using assms ui_parse [of w c out] by auto

theorem command_round_trip_witness:
  "nav_serial_parse_command 64 (Some (json_text (ui_json (Ui_Name [dquote, CHR ''a'', backslash])))) ctrl_command_zero
     = Some (NAV_STATUS_OK, ui_result (Ui_Name [dquote, CHR ''a'', backslash]))"
  by (rule command_round_trip) (simp_all add: code_def)

text \<open>
  Two behaviours that the headers do not announce: where \<^verbatim>\<open>long\<close> has 64 bits, an id is cut to 32 bits
  before it is checked, and a line that ends inside a string is a command.
\<close>

lemma node_id_wraps:
  "nav_serial_parse_command 64 (Some ''{\"cmd\":\"node_id\",\"id\":4294967297}'') out
     = Some (NAV_STATUS_OK, ctrl_command_zero\<lparr>cc_type := NAV_CTRL_CMD_SET_NODE_ID, cc_int_value := 1\<rparr>)"
  using parse_named [of "''node_id''" "''{\"cmd\":\"node_id\",\"id\":4294967297}''" "'',\"id\":4294967297}''"]
  by (simp add: plain_text_def code_def scan_simps key_text strtol_def isspace_def scan_sign_def isdigit_def
      digits_value_def xdigit_def)

lemma truncated_command:
  "nav_serial_parse_command w (Some ''{\"cmd\":\"get'') out = Some (NAV_STATUS_OK, ctrl_command_zero\<lparr>cc_type := NAV_CTRL_CMD_GET\<rparr>)"
  by (simp add: nav_serial_parse_command_def extract_string_def scan_simps mem_simps c_string_def eval_nat_numeral)

end
