(* ===== verification/Nav_Serial_Run.thy ===== *)
theory Nav_Serial_Run
  imports Nav_Serial_Control Nav_Core
begin

text \<open>
  The serial records of a concrete node: the snapshot of the initial state with one known peer.
\<close>

definition run_info :: nav_serial_node_info where
  "run_info = \<lparr>si_node_id = 2, si_node_name = Some ''drone \"A\"'', si_gps_enabled = True, si_mock_enabled = False\<rparr>"

definition run_table :: nav_peer_table where
  "run_table = \<lparr>peers = [nav_peer_state_zero, nav_peer_state_zero\<lparr>ps_present := True, ps_node_id := 1, ps_anchor_quality := Fin (1 / 2)\<rparr>,
     nav_peer_state_zero, nav_peer_state_zero]\<rparr>"

definition run_text :: string where
  "run_text = json_text (snapshot_record_json run_info nav_snapshot_zero run_table)"

lemma run_finite: "snapshot_finite nav_snapshot_zero run_table"
  by (simp add: snapshot_finite_def nav_snapshot_zero_def present_peers_def run_table_def map_filter_simps
      nav_peer_table_get_const_def nav_peer_state_zero_def node_id_valid_def)

theorem snapshot_record_is_json_witness:
  "\<exists>b'. nav_serial_write_snapshot_record (replicate (length run_text + 1) NUL) (length run_text + 1)
        (Some run_info) (Some nav_snapshot_zero) (Some run_table) = Some (b', int (length run_text)) \<and>
    c_string b' = Some run_text \<and> json_ok (snapshot_record_json run_info nav_snapshot_zero run_table)"
  using snapshot_record_is_json [of "length run_text + 1" "replicate (length run_text + 1) NUL" run_info nav_snapshot_zero
      run_table] run_finite by (simp add: run_text_def)

theorem writers_bounded_witness:
  "\<exists>b' n. nav_serial_write_log_record (replicate 8 NUL) 4 7 (Some ''INFO'') (Some ''nav'') None = Some (b', n) \<and>
     drop 4 b' = replicate 4 NUL \<and> nav_serial_write_log_record [] 0 7 (Some ''INFO'') (Some ''nav'') None = Some ([], n)"
  using writers_bounded [of 4 "replicate 8 NUL" "Some run_info" "Some nav_snapshot_zero" "Some run_table" None 7 0 None None
      "Some ''INFO''" "Some ''nav''" None] by auto

end
