(* ===== verification/Nav_Mock.thy ===== *)
theory Nav_Mock
  imports Nav_Core_Safety
begin

text \<open>
  \<^verbatim>\<open>core/src/nav_mock.c\<close>: the simulated swarm that feeds one node with beacons and ranges of peers at known
  positions. The callback is a function of the event and of the state behind the \<^verbatim>\<open>user\<close> pointer; \<open>None\<close>
  is undefined behaviour in the callback, a conversion that does not fit, or an access outside the table.
\<close>

section \<open>State\<close>

record nav_mock_peer =
  mk_node_id :: u8
  mk_position :: nav_position
  mk_gnss_valid :: bool
  mk_rssi_dbm :: i16
  mk_snr_db :: i16
  mk_range_sigma_mm :: u32

record nav_mock =
  mo_local_truth :: nav_position
  mo_peers :: "nav_mock_peer list"
  mo_peer_count :: nat
  mo_enabled :: bool

definition nav_mock_peer_zero :: nav_mock_peer where
  "nav_mock_peer_zero = \<lparr>mk_node_id = 0, mk_position = nav_position_zero, mk_gnss_valid = False,
     mk_rssi_dbm = 0, mk_snr_db = 0, mk_range_sigma_mm = 0\<rparr>"

definition nav_mock_init :: nav_mock where
  "nav_mock_init = \<lparr>mo_local_truth = nav_position_zero, mo_peers = replicate NAV_MAX_NODES nav_mock_peer_zero,
     mo_peer_count = 0, mo_enabled = False\<rparr>"

definition nav_mock_set_enabled :: "bool \<Rightarrow> nav_mock \<Rightarrow> nav_mock" where
  "nav_mock_set_enabled enabled mock = mock\<lparr>mo_enabled := enabled\<rparr>"

definition nav_mock_set_local_truth :: "nav_position \<Rightarrow> nav_mock \<Rightarrow> nav_mock" where
  "nav_mock_set_local_truth local_truth mock = mock\<lparr>mo_local_truth := local_truth\<rparr>"

definition nav_mock_add_peer :: "nav_mock \<Rightarrow> nav_mock_peer option \<Rightarrow> (nav_status \<times> nav_mock) option" where
  "nav_mock_add_peer mock peer = (case peer of
     None \<Rightarrow> Some (NAV_STATUS_INVALID_ARGUMENT, mock)
   | Some p \<Rightarrow>
       if mk_node_id p = NAV_INVALID_NODE_ID then Some (NAV_STATUS_INVALID_ARGUMENT, mock)
       else if mo_peer_count mock \<ge> NAV_MAX_NODES then Some (NAV_STATUS_NO_SPACE, mock)
       else do {
         table \<leftarrow> mem_write (mo_peers mock) (mo_peer_count mock) p;
         Some (NAV_STATUS_OK, mock\<lparr>mo_peers := table, mo_peer_count := mo_peer_count mock + 1\<rparr>) })"

section \<open>Events\<close>

definition mock_deg :: "i32 \<Rightarrow> fp" where
  "mock_deg e7 = ddiv (fp_of_int binary64 (sint e7)) (Fin 10000000)"

definition mock_m :: "i32 \<Rightarrow> fp" where
  "mock_m mm = ddiv (fp_of_int binary64 (sint mm)) (Fin 1000)"

definition mock_range_mm :: "libm \<Rightarrow> nav_position \<Rightarrow> nav_position \<Rightarrow> u32 option" where
  "mock_range_mm lm local peer =
     (let meters = nav_trilat_distance_m lm
            (mock_deg (lat_e7 local)) (mock_deg (lon_e7 local)) (mock_m (alt_mm local))
            (mock_deg (lat_e7 peer)) (mock_deg (lon_e7 peer)) (mock_m (alt_mm peer))
      in if fp_le meters (Fin 0) then Some 0
         else map_option word_of_int (fp_to_int 0 (2 ^ 32 - 1) (dadd (dmul meters (Fin 1000)) (Fin (1 / 2)))))"

definition mock_beacon :: "u32 \<Rightarrow> nav_mock_peer \<Rightarrow> nav_peer_beacon_rx" where
  "mock_beacon now_ms peer =
     \<lparr>br_telemetry = \<lparr>pt_node_id = mk_node_id peer, pt_packet_seq = now_ms, pt_timestamp_ms = now_ms,
        pt_position = mk_position peer, pt_velocity = nav_velocity_zero,
        pt_fix_type = (if mk_gnss_valid peer then NAV_GNSS_FIX_3D else NAV_GNSS_FIX_NONE),
        pt_gnss_valid = mk_gnss_valid peer,
        pt_satellites = (if mk_gnss_valid peer then 12 else 0),
        pt_hdop_centi = (if mk_gnss_valid peer then 80 else 0),
        pt_hacc_mm = (if mk_gnss_valid peer then 1000 else 0),
        pt_vacc_mm = (if mk_gnss_valid peer then 1500 else 0),
        pt_nav_mode = (if mk_gnss_valid peer then NAV_MODE_GNSS_OK else NAV_MODE_NO_NAV_SOLUTION),
        pt_solution_status = (if mk_gnss_valid peer then NAV_SOLUTION_GNSS_DIRECT else NAV_SOLUTION_NONE),
        pt_solution_source = (if mk_gnss_valid peer then NAV_SOURCE_LOCAL_GNSS else NAV_SOURCE_NONE)\<rparr>,
      br_rssi_dbm = mk_rssi_dbm peer, br_snr_db = mk_snr_db peer\<rparr>"

definition mock_range :: "u32 \<Rightarrow> nav_mock_peer \<Rightarrow> u32 \<Rightarrow> nav_range_result" where
  "mock_range now_ms peer range_mm =
     \<lparr>rr_peer_id = mk_node_id peer, rr_request_id = ucast (now_ms + ucast (mk_node_id peer)),
      rr_timestamp_ms = now_ms, rr_range_mm = range_mm, rr_range_sigma_mm = mk_range_sigma_mm peer,
      rr_rssi_dbm = mk_rssi_dbm peer, rr_snr_db = mk_snr_db peer, rr_valid = True\<rparr>"

text \<open>One turn of the loop: the beacon of a peer, then its range.\<close>

definition mock_emit_peer ::
  "libm \<Rightarrow> nav_mock \<Rightarrow> u32 \<Rightarrow> (nav_event \<Rightarrow> 'u \<Rightarrow> 'u option) \<Rightarrow> nat \<Rightarrow> nat \<times> 'u \<Rightarrow> (nat \<times> 'u) option" where
  "mock_emit_peer lm mock now_ms emit i st = (case st of (emitted, user) \<Rightarrow> do {
     peer \<leftarrow> mem_read (mo_peers mock) i;
     user \<leftarrow> emit \<lparr>ev_timestamp_ms = now_ms, ev_data = NAV_EVT_PEER_TELEMETRY_RX (mock_beacon now_ms peer)\<rparr> user;
     range_mm \<leftarrow> mock_range_mm lm (mo_local_truth mock) (mk_position peer);
     user \<leftarrow> emit \<lparr>ev_timestamp_ms = now_ms, ev_data = NAV_EVT_RANGE_RESULT (mock_range now_ms peer range_mm)\<rparr> user;
     Some (emitted + 2, user) })"

fun mock_emit_loop ::
  "libm \<Rightarrow> nav_mock \<Rightarrow> u32 \<Rightarrow> (nav_event \<Rightarrow> 'u \<Rightarrow> 'u option) \<Rightarrow> nat list \<Rightarrow> nat \<times> 'u \<Rightarrow> (nat \<times> 'u) option" where
  "mock_emit_loop lm mock now_ms emit [] st = Some st"
| "mock_emit_loop lm mock now_ms emit (i # is) st = do {
     st \<leftarrow> mock_emit_peer lm mock now_ms emit i st;
     mock_emit_loop lm mock now_ms emit is st }"

definition nav_mock_emit ::
  "libm \<Rightarrow> nav_mock \<Rightarrow> u32 \<Rightarrow> (nav_event \<Rightarrow> 'u \<Rightarrow> 'u option) \<Rightarrow> 'u \<Rightarrow> (nat \<times> 'u) option" where
  "nav_mock_emit lm mock now_ms emit user =
     (if \<not> mo_enabled mock then Some (0, user)
      else mock_emit_loop lm mock now_ms emit [0..<mo_peer_count mock] (0, user))"

section \<open>Well-formed mocks\<close>

definition mock_wf :: "nav_mock \<Rightarrow> bool" where
  "mock_wf mock \<longleftrightarrow> length (mo_peers mock) = NAV_MAX_NODES \<and> mo_peer_count mock \<le> NAV_MAX_NODES \<and>
     list_all (\<lambda>p. mk_node_id p \<noteq> NAV_INVALID_NODE_ID) (take (mo_peer_count mock) (mo_peers mock))"

abbreviation mock_peers :: "nav_mock \<Rightarrow> nav_mock_peer list" where
  "mock_peers mock \<equiv> take (mo_peer_count mock) (mo_peers mock)"

lemma mock_wf_ops [frame_intros]:
  "mock_wf nav_mock_init"
  "mock_wf m \<Longrightarrow> mock_wf (nav_mock_set_enabled b m)"
  "mock_wf m \<Longrightarrow> mock_wf (nav_mock_set_local_truth p m)"
  by (simp_all add: mock_wf_def nav_mock_init_def nav_mock_set_enabled_def nav_mock_set_local_truth_def)

lemma add_peer_ok:
  assumes "mock_wf m" "mk_node_id p \<noteq> NAV_INVALID_NODE_ID" "mo_peer_count m < NAV_MAX_NODES"
  shows "\<exists>m'. nav_mock_add_peer m (Some p) = Some (NAV_STATUS_OK, m') \<and> mock_wf m' \<and>
    mock_peers m' = mock_peers m @ [p] \<and> mo_enabled m' = mo_enabled m \<and> mo_local_truth m' = mo_local_truth m"
  using assms by (auto simp: nav_mock_add_peer_def mock_wf_def mem_simps take_Suc_conv_app_nth)

section \<open>A core fed by the mock\<close>

lemma report_event_state:
  assumes "event_kind (ev_data e) = Report"
  shows "\<exists>s'. nav_core_handle_event lm (Some e) s = Some s' \<and>
    sy_peer_table s' = sy_peer_table (input_state (ev_timestamp_ms e) (ev_data e) s) \<and>
    sy_config s' = sy_config (input_state (ev_timestamp_ms e) (ev_data e) s)"
proof -
  let ?t = "input_state (ev_timestamp_ms e) (ev_data e) s"
  have "\<exists>s'. update_snapshot lm (ev_timestamp_ms e) False ?t = Some s'"
    by (simp add: update_snapshot_def Let_def)
  then obtain s' where "update_snapshot lm (ev_timestamp_ms e) False ?t = Some s'" by blast
  then show ?thesis using update_report_table inputs_ofD [OF inputs_update] report_event_eq [OF assms, of lm s] by auto
qed

lemma handle_tables:
  "sy_peer_table (handle_telemetry n b s) = snd (nav_peer_table_update_beacon_rx (sy_peer_table s) (Some b) n)"
  "sy_config (handle_telemetry n b s) = sy_config s"
  "sy_peer_table (handle_range n r s) = snd (nav_peer_table_update_range (sy_peer_table s) (Some r) n)"
  "sy_config (handle_range n r s) = sy_config s"
  by (simp_all add: handle_telemetry_def handle_range_def emit_log_def mark_radio_solve_inputs_changed_def Let_def
      split: prod.split)

definition mock_into :: "u32 \<Rightarrow> nav_mock_peer \<Rightarrow> u32 \<Rightarrow> nav_peer_state \<Rightarrow> nav_peer_state" where
  "mock_into now p r q = range_into (mock_range now p r) now (beacon_into (mock_beacon now p) now q)"

lemma emit_peer_core:
  assumes "peer_table_wf (sy_peer_table s)" "i < length (mo_peers m)"
    and "mock_range_mm lm (mo_local_truth m) (mk_position (mo_peers m ! i)) = Some r"
  shows "\<exists>s'. mock_emit_peer lm m now (\<lambda>e. nav_core_handle_event lm (Some e)) i (n, s) = Some (n + 2, s') \<and>
    sy_config s' = sy_config s \<and> peer_table_wf (sy_peer_table s') \<and>
    (\<forall>j. slot_for (sy_peer_table s') j = (if j = mk_node_id (mo_peers m ! i)
       then map_option (mock_into now (mo_peers m ! i) r) (slot_for (sy_peer_table s) j) else slot_for (sy_peer_table s) j))"
proof -
  let ?p = "mo_peers m ! i"
  let ?b = "\<lparr>ev_timestamp_ms = now, ev_data = NAV_EVT_PEER_TELEMETRY_RX (mock_beacon now ?p)\<rparr>"
  let ?r = "\<lparr>ev_timestamp_ms = now, ev_data = NAV_EVT_RANGE_RESULT (mock_range now ?p r)\<rparr>"
  have id: "pt_node_id (br_telemetry (mock_beacon now ?p)) = mk_node_id ?p" "rr_peer_id (mock_range now ?p r) = mk_node_id ?p"
    by (simp_all add: mock_beacon_def mock_range_def)
  obtain t where t: "nav_core_handle_event lm (Some ?b) s = Some t"
    "sy_peer_table t = snd (nav_peer_table_update_beacon_rx (sy_peer_table s) (Some (mock_beacon now ?p)) now)"
    "sy_config t = sy_config s"
    using report_event_state [of ?b lm s] by (auto simp: input_state_def handle_tables)
  have wf: "peer_table_wf (sy_peer_table t)" using t(2) update_beacon_wf [OF assms(1)] by simp
  obtain u where u: "nav_core_handle_event lm (Some ?r) t = Some u"
    "sy_peer_table u = snd (nav_peer_table_update_range (sy_peer_table t) (Some (mock_range now ?p r)) now)"
    "sy_config u = sy_config t"
    using report_event_state [of ?r lm t] by (auto simp: input_state_def handle_tables)
  have "peer_table_wf (sy_peer_table u)" using u(2) update_range_wf [OF wf] by simp
  moreover have "slot_for (sy_peer_table u) j = (if j = mk_node_id ?p
       then map_option (mock_into now ?p r) (slot_for (sy_peer_table s) j) else slot_for (sy_peer_table s) j)" for j
  proof -
    have a: "slot_for (sy_peer_table u) j = (if j = mk_node_id ?p then map_option (range_into (mock_range now ?p r) now)
        (slot_for (sy_peer_table t) j) else slot_for (sy_peer_table t) j)"
      using update_range_slot [OF wf, of "mock_range now ?p r" now j] unfolding u(2) id .
    have b: "slot_for (sy_peer_table t) j = (if j = mk_node_id ?p then map_option (beacon_into (mock_beacon now ?p) now)
        (slot_for (sy_peer_table s) j) else slot_for (sy_peer_table s) j)"
      using update_beacon_slot [OF assms(1), of "mock_beacon now ?p" now j] unfolding t(2) id .
    show ?thesis unfolding a b by (simp add: mock_into_def [abs_def] option.map_comp comp_def)
  qed
  moreover have "mock_emit_peer lm m now (\<lambda>e. nav_core_handle_event lm (Some e)) i (n, s) = Some (n + 2, u)"
    using t(1) u(1) assms(2,3) by (simp add: mock_emit_peer_def mem_simps)
  ultimately show ?thesis using t(3) u(3) by auto
qed

text \<open>What the core holds of a node behind the events of a list of mock peers.\<close>

definition mock_fed :: "libm \<Rightarrow> nav_mock \<Rightarrow> u32 \<Rightarrow> nat list \<Rightarrow> nav_peer_table \<Rightarrow> nav_peer_table \<Rightarrow> bool" where
  "mock_fed lm m now is t t' \<longleftrightarrow>
     (\<forall>j. j \<notin> mk_node_id ` (!) (mo_peers m) ` set is \<longrightarrow> slot_for t' j = slot_for t j) \<and>
     (\<forall>i \<in> set is. \<exists>r. mock_range_mm lm (mo_local_truth m) (mk_position (mo_peers m ! i)) = Some r \<and>
        slot_for t' (mk_node_id (mo_peers m ! i))
          = map_option (mock_into now (mo_peers m ! i) r) (slot_for t (mk_node_id (mo_peers m ! i))))"

lemma emit_loop_core:
  assumes "peer_table_wf (sy_peer_table s)" "\<And>i. i \<in> set is \<Longrightarrow> i < length (mo_peers m)"
    and "\<And>i. i \<in> set is \<Longrightarrow> \<exists>r. mock_range_mm lm (mo_local_truth m) (mk_position (mo_peers m ! i)) = Some r"
    and "distinct (map (\<lambda>i. mk_node_id (mo_peers m ! i)) is)"
  shows "\<exists>s'. mock_emit_loop lm m now (\<lambda>e. nav_core_handle_event lm (Some e)) is (n, s) = Some (n + 2 * length is, s') \<and>
    sy_config s' = sy_config s \<and> peer_table_wf (sy_peer_table s') \<and> mock_fed lm m now is (sy_peer_table s) (sy_peer_table s')"
  using assms
proof (induction "is" arbitrary: n s)
  case Nil
  then show ?case by (simp add: mock_fed_def)
next
  case (Cons i js)
  obtain r where r: "mock_range_mm lm (mo_local_truth m) (mk_position (mo_peers m ! i)) = Some r" using Cons.prems(3) by auto
  obtain t where t: "mock_emit_peer lm m now (\<lambda>e. nav_core_handle_event lm (Some e)) i (n, s) = Some (n + 2, t)"
    "sy_config t = sy_config s" "peer_table_wf (sy_peer_table t)"
    "\<And>j. slot_for (sy_peer_table t) j = (if j = mk_node_id (mo_peers m ! i)
       then map_option (mock_into now (mo_peers m ! i) r) (slot_for (sy_peer_table s) j) else slot_for (sy_peer_table s) j)"
    using emit_peer_core [OF Cons.prems(1) _ r, of now n] Cons.prems(2) by auto
  obtain u where u: "mock_emit_loop lm m now (\<lambda>e. nav_core_handle_event lm (Some e)) js (n + 2, t) = Some (n + 2 + 2 * length js, u)"
    "sy_config u = sy_config t" "peer_table_wf (sy_peer_table u)" "mock_fed lm m now js (sy_peer_table t) (sy_peer_table u)"
    using Cons.IH [OF t(3), of "n + 2"] Cons.prems by auto
  have fresh: "mk_node_id (mo_peers m ! i) \<notin> mk_node_id ` (!) (mo_peers m) ` set js" using Cons.prems(4) by auto
  have "mock_fed lm m now (i # js) (sy_peer_table s) (sy_peer_table u)"
  proof -
    have "slot_for (sy_peer_table u) j = slot_for (sy_peer_table s) j"
      if "j \<notin> mk_node_id ` (!) (mo_peers m) ` set (i # js)" for j
      using u(4) t(4) [of j] that by (simp add: mock_fed_def)
    moreover have "slot_for (sy_peer_table u) (mk_node_id (mo_peers m ! i))
        = map_option (mock_into now (mo_peers m ! i) r) (slot_for (sy_peer_table s) (mk_node_id (mo_peers m ! i)))"
      using u(4) t(4) [of "mk_node_id (mo_peers m ! i)"] fresh by (simp add: mock_fed_def)
    moreover have "slot_for (sy_peer_table t) (mk_node_id (mo_peers m ! k)) = slot_for (sy_peer_table s) (mk_node_id (mo_peers m ! k))"
      if "k \<in> set js" for k
    proof -
      have "mk_node_id (mo_peers m ! k) \<in> mk_node_id ` (!) (mo_peers m) ` set js" using that by (intro imageI)
      then have "mk_node_id (mo_peers m ! k) \<noteq> mk_node_id (mo_peers m ! i)" using fresh by metis
      then show ?thesis using t(4) by simp
    qed
    ultimately show ?thesis using u(4) r by (simp add: mock_fed_def)
  qed
  then show ?case using t u by auto
qed

text \<open>What the core requires of the evidence that a mock peer gives it.\<close>

definition mock_trusted :: "nav_config \<Rightarrow> nav_mock_peer \<Rightarrow> u32 \<Rightarrow> bool" where
  "mock_trusted cfg p r \<longleftrightarrow> mk_node_id p \<noteq> cfg_local_node_id cfg \<and> mk_gnss_valid p \<and> r \<noteq> 0 \<and>
     (cfg_max_range_sigma_mm cfg > 0 \<longrightarrow> mk_range_sigma_mm p \<le> cfg_max_range_sigma_mm cfg) \<and>
     peer_position_valid (mk_position p)"

lemma mock_into_trusted:
  assumes "slot_for (sy_peer_table s') (mk_node_id p) = map_option (mock_into now p r) (slot_for t (mk_node_id p))"
    and "mk_node_id p < 4"
  shows "trusted_anchor s' now (mk_node_id p) = mock_trusted (sy_config s') p r"
proof -
  obtain q where "slot_for t (mk_node_id p) = Some q" using assms(2) by (simp add: slot_for_def node_id_valid_def)
  then show ?thesis using assms(1)
    by (auto simp: trusted_anchor_def mock_trusted_def get_const_slot mock_into_def range_into_def beacon_into_def
        telemetry_into_def mock_beacon_def mock_range_def expired_def Let_def)
qed

text \<open>The mock drives the core: an enabled mock whose peers have different ids, with ranges that fit 32 bits,
  delivers two events per peer, and afterwards the core trusts exactly those mock peers as anchors that are
  not the node itself, claim GNSS, are not at distance zero, have an acceptable sigma and a valid position.\<close>

theorem mock_feeds_core:
  assumes "mock_wf m" "mo_enabled m" "peer_table_wf (sy_peer_table s)"
    and "distinct (map mk_node_id (mock_peers m))"
    and "\<And>p. p \<in> set (mock_peers m) \<Longrightarrow> mk_node_id p < 4 \<and> (\<exists>r. mock_range_mm lm (mo_local_truth m) (mk_position p) = Some r)"
  shows "\<exists>s'. nav_mock_emit lm m now (\<lambda>e. nav_core_handle_event lm (Some e)) s = Some (2 * mo_peer_count m, s') \<and>
    (\<forall>p \<in> set (mock_peers m). \<exists>r. mock_range_mm lm (mo_local_truth m) (mk_position p) = Some r \<and>
       trusted_anchor s' now (mk_node_id p) = mock_trusted (sy_config s) p r)"
proof -
  have len: "mo_peer_count m \<le> length (mo_peers m)" using assms(1) by (simp add: mock_wf_def)
  have p: "mock_peers m = map ((!) (mo_peers m)) [0..<mo_peer_count m]" using len by (simp add: list_eq_iff_nth_eq)
  have elem: "mo_peers m ! i \<in> set (mock_peers m)" if "i \<in> set [0..<mo_peer_count m]" for i
    using that unfolding p by simp
  have d: "distinct (map (\<lambda>i. mk_node_id (mo_peers m ! i)) [0..<mo_peer_count m])"
    using assms(4) unfolding p by (simp add: comp_def)
  obtain s' where s': "mock_emit_loop lm m now (\<lambda>e. nav_core_handle_event lm (Some e)) [0..<mo_peer_count m] (0, s)
      = Some (0 + 2 * length [0..<mo_peer_count m], s')"
    "sy_config s' = sy_config s" "mock_fed lm m now [0..<mo_peer_count m] (sy_peer_table s) (sy_peer_table s')"
    using emit_loop_core [OF assms(3) _ _ d, of lm now 0] assms(5) elem len by fastforce
  have "\<exists>r. mock_range_mm lm (mo_local_truth m) (mk_position q) = Some r \<and>
       trusted_anchor s' now (mk_node_id q) = mock_trusted (sy_config s) q r" if q: "q \<in> set (mock_peers m)" for q
  proof -
    obtain i where i: "i \<in> set [0..<mo_peer_count m]" "q = mo_peers m ! i" using q unfolding p by auto
    then obtain r where "mock_range_mm lm (mo_local_truth m) (mk_position q) = Some r"
      "slot_for (sy_peer_table s') (mk_node_id q) = map_option (mock_into now q r) (slot_for (sy_peer_table s) (mk_node_id q))"
      using s'(3) unfolding mock_fed_def by blast
    then show ?thesis using mock_into_trusted [of s' q now r] assms(5) [OF q] s'(2) by auto
  qed
  then show ?thesis using s'(1) assms(2) by (simp add: nav_mock_emit_def)
qed

end
