(* ===== verification/Nav_Mock_Run.thy ===== *)
theory Nav_Mock_Run
  imports Nav_Mock Nav_Core_Run Nav_Nmea_Accept
begin

text \<open>
  A mock with one peer five metres above the node, run against the core, and the distance at which the
  conversion of a simulated range to 32 bits is undefined.
\<close>

definition run_mock_peer :: nav_mock_peer where
  "run_mock_peer = \<lparr>mk_node_id = 2, mk_position = \<lparr>lat_e7 = 0, lon_e7 = 0, alt_mm = 5000\<rparr>, mk_gnss_valid = True,
     mk_rssi_dbm = - 60, mk_snr_db = 9, mk_range_sigma_mm = 500\<rparr>"

definition run_mock :: nav_mock where
  "run_mock = \<lparr>mo_local_truth = nav_position_zero,
     mo_peers = [run_mock_peer, nav_mock_peer_zero, nav_mock_peer_zero, nav_mock_peer_zero],
     mo_peer_count = 1, mo_enabled = True\<rparr>"

lemma run_mock_range: "mock_range_mm run_libm nav_position_zero (mk_position run_mock_peer) = Some 5000"
  by (simp add: mock_range_mm_def mock_deg_def mock_m_def nav_position_zero_def run_mock_peer_def nav_trilat_distance_m_def
      geodetic_to_ecef_def vec_norm_def vec_sub_def vec3_def Let_def dy_eval)

theorem mock_feeds_core_witness:
  "\<exists>s'. nav_mock_emit run_libm run_mock 100 (\<lambda>e. nav_core_handle_event run_libm (Some e)) (nav_core_init None) = Some (2, s') \<and>
     trusted_anchor s' 100 2"
proof -
  have t: "mock_trusted (sy_config (nav_core_init None)) run_mock_peer 5000"
    by (simp add: mock_trusted_def run_mock_peer_def nav_core_init_def nav_config_default_def Let_def peer_position_valid_def
        position_valid_def)
  have p: "take (Suc 0) (mo_peers run_mock) = [run_mock_peer]" by (simp add: run_mock_def)
  have m: "mo_local_truth run_mock = nav_position_zero" "mk_node_id run_mock_peer = 2" "mo_peer_count run_mock = 1"
    by (simp_all add: run_mock_def run_mock_peer_def)
  have "mock_wf run_mock" by (simp add: mock_wf_def run_mock_def run_mock_peer_def)
  moreover have "mo_enabled run_mock" by (simp add: run_mock_def)
  moreover have "peer_table_wf (sy_peer_table (nav_core_init None))"
    using peer_table_wf_init by (simp add: nav_core_init_def Let_def)
  ultimately show ?thesis using mock_feeds_core [of run_mock "nav_core_init None" run_libm 100] t run_mock_range
    by (simp add: p m)
qed

lemma mock_range_overflow:
  assumes "nav_trilat_distance_m lm (mock_deg (lat_e7 a)) (mock_deg (lon_e7 a)) (mock_m (alt_mm a))
      (mock_deg (lat_e7 b)) (mock_deg (lon_e7 b)) (mock_m (alt_mm b)) = Fin d"
    and "4294968 \<le> d"
  shows "mock_range_mm lm a b = None"
proof -
  have c: "fp_rnd binary64 4294968000 = Fin 4294968000" using rnd64_of_int [of 4294968000] by simp
  have "fp_le (fp_rnd binary64 (of_int 4294968000)) (fp_rnd binary64 (d * 1000))"
    using assms(2) by (intro f64.rnd_mono) simp
  then have m: "fp_le (Fin 4294968000) (dmul (Fin d) (Fin 1000))" by (simp add: c)
  have "dadd (dmul (Fin d) (Fin 1000)) (Fin (1 / 2)) = PInf
      \<or> (\<exists>r. dadd (dmul (Fin d) (Fin 1000)) (Fin (1 / 2)) = Fin r \<and> 4294968000 \<le> r)"
  proof (cases "dmul (Fin d) (Fin 1000)")
    case (Fin q)
    have "fp_le (fp_rnd binary64 (of_int 4294968000)) (fp_rnd binary64 (q + 1 / 2))"
      using m Fin by (intro f64.rnd_mono) simp
    then show ?thesis using Fin by (cases "fp_rnd binary64 (q + 1 / 2)") (simp_all add: c)
  qed (use m in auto)
  moreover have "fp_to_int 0 (2 ^ 32 - 1) (Fin r) = None" if "4294968000 \<le> r" for r
  proof -
    have "4294968000 \<le> \<lfloor>r\<rfloor>" using that by (simp add: le_floor_iff)
    then show ?thesis using that by (simp add: rat_trunc_def)
  qed
  ultimately show ?thesis using assms by (auto simp: mock_range_mm_def Let_def)
qed

end
