(* ===== verification/Nav_Replay_Csv.thy ===== *)
theory Nav_Replay_Csv
  imports Nav_Types C_Text
begin

text \<open>
  The text layer of \<^verbatim>\<open>tools/replay/nav_replay.c\<close>: lines, comma-separated rows, their fields and the names of
  the enumerations. A parser of C type \<^verbatim>\<open>bool\<close> with an output pointer is a function into \<open>option\<close>; \<open>None\<close>
  is the result \<^verbatim>\<open>false\<close>, after which the program stops with an error. The messages that go to \<^verbatim>\<open>stderr\<close>
  and to the log file with it are not modelled.
\<close>

section \<open>Lines\<close>

abbreviation (input) REPLAY_MAX_COLUMNS :: nat where "REPLAY_MAX_COLUMNS \<equiv> 32"
abbreviation (input) REPLAY_MAX_FIELD_LEN :: nat where "REPLAY_MAX_FIELD_LEN \<equiv> 96"
abbreviation (input) REPLAY_MAX_LINE_LEN :: nat where "REPLAY_MAX_LINE_LEN \<equiv> 2048"

text \<open>
  What \<^verbatim>\<open>fgets\<close> reads with room for \<open>n + 1\<close> bytes, until the end of the file: up to a line feed, but at most \<open>n\<close> bytes.
  The program then sees each buffer as a C string, up to its first NUL.
\<close>

fun fgets_chunk :: "nat \<Rightarrow> string \<Rightarrow> string \<times> string" where
  "fgets_chunk n [] = ([], [])"
| "fgets_chunk 0 s = ([], s)"
| "fgets_chunk (Suc n) (c # s) = (if c = CHR 0x0A then ([c], s)
     else (let (l, r) = fgets_chunk n s in (c # l, r)))"

lemma fgets_chunk_shorter: "length (snd (fgets_chunk n s)) \<le> length s"
  by (induction n s rule: fgets_chunk.induct) (auto split: prod.split)

function fgets_lines :: "nat \<Rightarrow> string \<Rightarrow> string list" where
  "fgets_lines n s = (if s = [] \<or> n = 0 then []
     else (let (l, r) = fgets_chunk n s in takeWhile (\<lambda>c. c \<noteq> NUL) l # fgets_lines n r))"
  by pat_completeness auto

termination
proof (relation "measure (length \<circ> snd)")
  fix n s x y l r
  assume "\<not> (s = [] \<or> n = (0 :: nat))" "x = fgets_chunk n s" "(l, r) = x"
  then show "((n, r), n, s) \<in> measure (length \<circ> snd)"
    using fgets_chunk_shorter [of "n - 1" "tl s"]
    by (cases n; cases s) (auto split: if_splits prod.splits simp: less_Suc_eq_le)
qed simp

declare fgets_lines.simps [simp del]

text \<open>\<^verbatim>\<open>trim\<close> cuts white space from both ends.\<close>

definition trim :: "string \<Rightarrow> string" where
  "trim s = rev (dropWhile isspace (rev (dropWhile isspace s)))"

definition line_is_ignored :: "string \<Rightarrow> bool" where
  "line_is_ignored line = (let s = trim line in s = [] \<or> hd s = CHR ''#'')"

section \<open>Rows\<close>

text \<open>The filled part of the array \<^verbatim>\<open>fields\<close>; its length is \<^verbatim>\<open>count\<close>.\<close>

type_synonym replay_row = "string list"

definition add_field :: "replay_row \<Rightarrow> string \<Rightarrow> replay_row option" where
  "add_field row start =
     (let field = trim start in
      if length row \<ge> REPLAY_MAX_COLUMNS \<or> length field \<ge> REPLAY_MAX_FIELD_LEN then None
      else Some (row @ [field]))"

text \<open>The scan with the text since the last separator; it stops at a line end.\<close>

fun split_csv_loop :: "string \<Rightarrow> string \<Rightarrow> replay_row \<Rightarrow> replay_row option" where
  "split_csv_loop start [] row = add_field row start"
| "split_csv_loop start (c # p) row =
     (if c = CHR '','' then do { row \<leftarrow> add_field row start; split_csv_loop [] p row }
      else if c = CHR 0x0A \<or> c = CHR 0x0D then add_field row start
      else split_csv_loop (start @ [c]) p row)"

definition split_csv_line :: "string \<Rightarrow> replay_row option" where
  "split_csv_line line = split_csv_loop [] line []"

section \<open>Values\<close>

definition parse_i64 :: "string \<Rightarrow> int \<Rightarrow> int \<Rightarrow> int option" where
  "parse_i64 txt min_value max_value =
     (if txt = [] then None
      else (case strtol 64 txt of (v, end, errno) \<Rightarrow>
        if errno \<or> end \<noteq> [] \<or> v < min_value \<or> v > max_value then None else Some v))"

definition parse_double_text :: "string \<Rightarrow> fp \<Rightarrow> fp \<Rightarrow> fp option" where
  "parse_double_text txt min_value max_value =
     (if txt = [] then None
      else (case strtod txt of (v, end, errno) \<Rightarrow>
        if errno \<or> end \<noteq> [] \<or> \<not> fp_isfinite v \<or> fp_lt v min_value \<or> fp_lt max_value v then None else Some v))"

definition parse_bool_text :: "string \<Rightarrow> bool option" where
  "parse_bool_text txt =
     (if txt = ''1'' \<or> txt = ''true'' \<or> txt = ''TRUE'' then Some True
      else if txt = ''0'' \<or> txt = ''false'' \<or> txt = ''FALSE'' then Some False
      else None)"

definition parse_nav_mode_text :: "string \<Rightarrow> nav_mode option" where
  "parse_nav_mode_text txt =
     (if txt = ''BOOT'' then Some NAV_MODE_BOOT
      else if txt = ''GNSS_ACQUIRE'' then Some NAV_MODE_GNSS_ACQUIRE
      else if txt = ''GNSS_OK'' then Some NAV_MODE_GNSS_OK
      else if txt = ''GNSS_SUSPECT'' then Some NAV_MODE_GNSS_SUSPECT
      else if txt = ''GPS_DENIED'' then Some NAV_MODE_GPS_DENIED
      else if txt = ''RADIO_NAV_OK'' then Some NAV_MODE_RADIO_NAV_OK
      else if txt = ''RADIO_NAV_DEGRADED'' then Some NAV_MODE_RADIO_NAV_DEGRADED
      else if txt = ''NO_NAV_SOLUTION'' then Some NAV_MODE_NO_NAV_SOLUTION
      else if txt = ''DEMO_FORCED_DENIED'' then Some NAV_MODE_DEMO_FORCED_DENIED
      else None)"

definition parse_fix_type_text :: "string \<Rightarrow> nav_gnss_fix_type option" where
  "parse_fix_type_text txt =
     (if txt = ''NONE'' \<or> txt = ''0'' then Some NAV_GNSS_FIX_NONE
      else if txt = ''2D'' \<or> txt = ''2'' then Some NAV_GNSS_FIX_2D
      else if txt = ''3D'' \<or> txt = ''3'' then Some NAV_GNSS_FIX_3D
      else if txt = ''RTK_FLOAT'' \<or> txt = ''4'' then Some NAV_GNSS_FIX_RTK_FLOAT
      else if txt = ''RTK_FIXED'' \<or> txt = ''5'' then Some NAV_GNSS_FIX_RTK_FIXED
      else None)"

definition parse_alt_source_text :: "string \<Rightarrow> nav_altitude_source option" where
  "parse_alt_source_text txt =
     (if txt = ''NONE'' then Some NAV_ALT_SOURCE_NONE
      else if txt = ''GNSS'' then Some NAV_ALT_SOURCE_GNSS
      else if txt = ''BARO'' then Some NAV_ALT_SOURCE_BARO
      else if txt = ''FC'' then Some NAV_ALT_SOURCE_FC
      else if txt = ''SIM'' then Some NAV_ALT_SOURCE_SIM
      else if txt = ''MANUAL'' then Some NAV_ALT_SOURCE_MANUAL
      else None)"

definition parse_range_fail_text :: "string \<Rightarrow> nav_range_fail_reason option" where
  "parse_range_fail_text txt =
     (if txt = ''NONE'' then Some NAV_RANGE_FAIL_NONE
      else if txt = ''TIMEOUT'' then Some NAV_RANGE_FAIL_TIMEOUT
      else if txt = ''NO_RESPONSE'' then Some NAV_RANGE_FAIL_NO_RESPONSE
      else if txt = ''RADIO_BUSY'' then Some NAV_RANGE_FAIL_RADIO_BUSY
      else if txt = ''BAD_FRAME'' then Some NAV_RANGE_FAIL_BAD_FRAME
      else if txt = ''RANGING_ENGINE_ERROR'' then Some NAV_RANGE_FAIL_RANGING_ENGINE_ERROR
      else if txt = ''ABORTED'' then Some NAV_RANGE_FAIL_ABORTED
      else if txt = ''UNKNOWN'' then Some NAV_RANGE_FAIL_UNKNOWN
      else None)"

definition parse_solution_status_text :: "string \<Rightarrow> nav_solution_status option" where
  "parse_solution_status_text txt =
     (if txt = ''NONE'' then Some NAV_SOLUTION_NONE
      else if txt = ''GNSS_DIRECT'' then Some NAV_SOLUTION_GNSS_DIRECT
      else if txt = ''RADIO_3D'' then Some NAV_SOLUTION_RADIO_3D
      else if txt = ''DEGRADED'' then Some NAV_SOLUTION_DEGRADED
      else if txt = ''REJECTED'' then Some NAV_SOLUTION_REJECTED
      else None)"

definition parse_solution_source_text :: "string \<Rightarrow> nav_solution_source option" where
  "parse_solution_source_text txt =
     (if txt = ''NONE'' then Some NAV_SOURCE_NONE
      else if txt = ''LOCAL_GNSS'' then Some NAV_SOURCE_LOCAL_GNSS
      else if txt = ''RADIO_3D'' then Some NAV_SOURCE_RADIO_3D
      else if txt = ''REPLAY'' then Some NAV_SOURCE_REPLAY
      else if txt = ''SIM'' then Some NAV_SOURCE_SIM
      else None)"

definition parse_reject_reason_text :: "string \<Rightarrow> nav_reject_reason option" where
  "parse_reject_reason_text txt =
     (if txt = ''NONE'' then Some NAV_REJECT_NONE
      else if txt = ''STALE_TELEMETRY'' then Some NAV_REJECT_STALE_TELEMETRY
      else if txt = ''STALE_RANGE'' then Some NAV_REJECT_STALE_RANGE
      else if txt = ''BAD_GNSS'' then Some NAV_REJECT_BAD_GNSS
      else if txt = ''BAD_POSITION'' then Some NAV_REJECT_BAD_POSITION
      else if txt = ''BAD_RANGE_SIGMA'' then Some NAV_REJECT_BAD_RANGE_SIGMA
      else if txt = ''RANGE_OUTLIER'' then Some NAV_REJECT_RANGE_OUTLIER
      else if txt = ''BAD_GEOMETRY'' then Some NAV_REJECT_BAD_GEOMETRY
      else if txt = ''NOT_ENOUGH_ANCHORS'' then Some NAV_REJECT_NOT_ENOUGH_ANCHORS
      else if txt = ''MISSING_LOCAL_ALTITUDE'' then Some NAV_REJECT_MISSING_LOCAL_ALTITUDE
      else if txt = ''TRILATERATION_FAILED'' then Some NAV_REJECT_TRILATERATION_FAILED
      else None)"

datatype replay_event_type = REPLAY_EVT_TICK | REPLAY_EVT_LOCAL_GNSS_SAMPLE | REPLAY_EVT_LOCAL_ALTITUDE_SAMPLE
  | REPLAY_EVT_PEER_BEACON_RX | REPLAY_EVT_RANGE_RESULT | REPLAY_EVT_RANGE_FAIL

definition parse_event_type_text :: "string \<Rightarrow> replay_event_type option" where
  "parse_event_type_text txt =
     (if txt = ''TICK'' then Some REPLAY_EVT_TICK
      else if txt = ''LOCAL_GNSS_SAMPLE'' then Some REPLAY_EVT_LOCAL_GNSS_SAMPLE
      else if txt = ''LOCAL_ALTITUDE_SAMPLE'' then Some REPLAY_EVT_LOCAL_ALTITUDE_SAMPLE
      else if txt = ''PEER_BEACON_RX'' then Some REPLAY_EVT_PEER_BEACON_RX
      else if txt = ''RANGE_RESULT'' then Some REPLAY_EVT_RANGE_RESULT
      else if txt = ''RANGE_FAIL'' then Some REPLAY_EVT_RANGE_FAIL
      else None)"

definition position_valid_e7 :: "i32 \<Rightarrow> i32 \<Rightarrow> bool" where
  "position_valid_e7 lat lon \<longleftrightarrow> sint lat \<ge> - 900000000 \<and> sint lat \<le> 900000000 \<and>
     sint lon \<ge> - 1800000000 \<and> sint lon \<le> 1800000000"

section \<open>Column headers\<close>

text \<open>
  The loop that both header parsers share in shape: for every column of the row the index of the expected names
  that are equal to it is overwritten; \<open>- 1\<close> means missing.
\<close>

definition index_columns :: "('k \<Rightarrow> string) \<Rightarrow> 'k list \<Rightarrow> replay_row \<Rightarrow> 'k \<Rightarrow> int" where
  "index_columns name expected row =
     fold (\<lambda>col index. fold (\<lambda>e index. if row ! col = name e then index(e := int col) else index) expected index)
       [0..<length row] (\<lambda>e. - 1)"

definition indexed_field :: "replay_row \<Rightarrow> int \<Rightarrow> string" where
  "indexed_field row index = (if index < 0 \<or> index \<ge> int (length row) then [] else row ! nat index)"

end
