(* ===== verification/Nav_Replay_Config.thy ===== *)
theory Nav_Replay_Config
  imports Nav_Replay_Csv
begin

text \<open>
  The inputs of the replay tool beside the events: its command line, the configuration file and the table of
  true positions. A file is the list of its bytes; \<open>None\<close> in place of a file is one that cannot be opened.
\<close>

section \<open>Command line\<close>

record replay_options =
  ro_events_path :: "string option"
  ro_out_dir :: "string option"
  ro_truth_path :: "string option"
  ro_config_path :: "string option"
  ro_node_id :: u8
  ro_node_id_override :: bool
  ro_no_truth :: bool
  ro_no_config :: bool
  ro_pretty :: bool

definition replay_options_zero :: replay_options where
  "replay_options_zero = \<lparr>ro_events_path = None, ro_out_dir = None, ro_truth_path = None, ro_config_path = None,
     ro_node_id = 0, ro_node_id_override = False, ro_no_truth = False, ro_no_config = False, ro_pretty = False\<rparr>"

text \<open>The node id of the command line, for a \<^verbatim>\<open>long\<close> of \<open>w\<close> bits.\<close>

definition node_id_option :: "nat \<Rightarrow> string \<Rightarrow> replay_options \<Rightarrow> replay_options option" where
  "node_id_option w arg options = (case strtol w arg of (v, end, errno) \<Rightarrow>
     if end \<noteq> [] \<or> v < 0 \<or> v \<ge> int NAV_MAX_NODES then None
     else Some (options\<lparr>ro_node_id := word_of_int v, ro_node_id_override := True\<rparr>))"

fun parse_arguments :: "nat \<Rightarrow> string list \<Rightarrow> replay_options \<Rightarrow> replay_options option" where
  "parse_arguments w [] options = Some options"
| "parse_arguments w (arg # rest) options =
     (if arg = ''--events'' \<and> rest \<noteq> [] then parse_arguments w (tl rest) (options\<lparr>ro_events_path := Some (hd rest)\<rparr>)
      else if arg = ''--out-dir'' \<and> rest \<noteq> [] then parse_arguments w (tl rest) (options\<lparr>ro_out_dir := Some (hd rest)\<rparr>)
      else if arg = ''--truth'' \<and> rest \<noteq> [] then parse_arguments w (tl rest) (options\<lparr>ro_truth_path := Some (hd rest)\<rparr>)
      else if arg = ''--config'' \<and> rest \<noteq> [] then parse_arguments w (tl rest) (options\<lparr>ro_config_path := Some (hd rest)\<rparr>)
      else if arg = ''--node-id'' \<and> rest \<noteq> [] then
        (case node_id_option w (hd rest) options of None \<Rightarrow> None
         | Some options \<Rightarrow> parse_arguments w (tl rest) options)
      else if arg = ''--no-truth'' then parse_arguments w rest (options\<lparr>ro_no_truth := True\<rparr>)
      else if arg = ''--no-config'' then parse_arguments w rest (options\<lparr>ro_no_config := True\<rparr>)
      else if arg = ''--pretty'' then parse_arguments w rest (options\<lparr>ro_pretty := True\<rparr>)
      else None)"

definition parse_options :: "nat \<Rightarrow> string list \<Rightarrow> replay_options option" where
  "parse_options w argv =
     (if length argv = 3 \<and> take 1 (argv ! 1) \<noteq> ''-''
      then Some (replay_options_zero\<lparr>ro_events_path := Some (argv ! 1), ro_out_dir := Some (argv ! 2)\<rparr>)
      else (case parse_arguments w (tl argv) replay_options_zero of None \<Rightarrow> None
        | Some options \<Rightarrow>
            if ro_events_path options \<noteq> None \<and> ro_out_dir options \<noteq> None then Some options else None))"

abbreviation (input) REPLAY_PATH_LEN :: nat where "REPLAY_PATH_LEN \<equiv> 512"

text \<open>\<^verbatim>\<open>snprintf\<close> cuts a path that is too long, so the length check behind it succeeds.\<close>

definition join_path :: "nat \<Rightarrow> string \<Rightarrow> string \<Rightarrow> string option" where
  "join_path out_len dir name =
     (let out = take (out_len - 1) (dir @ ''/'' @ name) in if length out < out_len then Some out else None)"

text \<open>The text in front of the last slash.\<close>

definition dirname_from_path :: "nat \<Rightarrow> string \<Rightarrow> string option" where
  "dirname_from_path out_len path =
     (if CHR ''/'' \<notin> set path then Some ''.''
      else (let dir = rev (tl (dropWhile (\<lambda>c. c \<noteq> CHR ''/'') (rev path)))
        in if dir = [] \<or> length dir \<ge> out_len then None else Some dir))"

section \<open>Configuration file\<close>

record replay_config_extra =
  rx_has_expected_mode :: bool
  rx_has_expected_solution :: bool
  rx_has_expected_source :: bool
  rx_has_expected_reject :: bool
  rx_expected_mode :: nav_mode
  rx_expected_solution :: nav_solution_status
  rx_expected_source :: nav_solution_source
  rx_expected_reject :: nav_reject_reason
  rx_max_allowed_horizontal_error_m :: fp
  rx_max_allowed_vertical_error_m :: fp
  rx_max_allowed_3d_error_m :: fp

definition replay_config_extra_init :: replay_config_extra where
  "replay_config_extra_init = \<lparr>rx_has_expected_mode = False, rx_has_expected_solution = False,
     rx_has_expected_source = False, rx_has_expected_reject = False, rx_expected_mode = NAV_MODE_BOOT,
     rx_expected_solution = NAV_SOLUTION_NONE, rx_expected_source = NAV_SOURCE_NONE,
     rx_expected_reject = NAV_REJECT_NONE, rx_max_allowed_horizontal_error_m = Fin 1,
     rx_max_allowed_vertical_error_m = Fin 1, rx_max_allowed_3d_error_m = Fin 1\<rparr>"

abbreviation (input) UINT8_MAX :: int where "UINT8_MAX \<equiv> 255"
abbreviation (input) UINT16_MAX :: int where "UINT16_MAX \<equiv> 65535"
abbreviation (input) UINT32_MAX :: int where "UINT32_MAX \<equiv> 4294967295"
abbreviation (input) I16_MIN :: int where "I16_MIN \<equiv> - 32768"
abbreviation (input) I16_MAX :: int where "I16_MAX \<equiv> 32767"
abbreviation (input) I32_MIN :: int where "I32_MIN \<equiv> - 2147483648"
abbreviation (input) I32_MAX :: int where "I32_MAX \<equiv> 2147483647"

definition parse_config_u8 :: "string \<Rightarrow> int \<Rightarrow> u8 option" where
  "parse_config_u8 v max_value = map_option word_of_int (parse_i64 v 0 max_value)"

definition parse_config_u32 :: "string \<Rightarrow> u32 option" where
  "parse_config_u32 v = map_option word_of_int (parse_i64 v 0 UINT32_MAX)"

definition parse_config_float :: "string \<Rightarrow> fp option" where
  "parse_config_float v = map_option (fp_cvt binary32)
     (parse_double_text v (Fin (- fmt_max binary32)) (Fin (fmt_max binary32)))"

definition parse_config_double_nonnegative :: "string \<Rightarrow> fp option" where
  "parse_config_double_nonnegative v = parse_double_text v (Fin 0) (Fin (fmt_max binary64))"

definition parse_config_bool :: "string \<Rightarrow> bool option" where
  "parse_config_bool v = parse_bool_text v"

type_synonym replay_setup = "nav_config \<times> replay_config_extra"

text \<open>A parsed value goes into a field of the configuration, or into a field of the extra settings.\<close>

definition set_config :: "('a \<Rightarrow> nav_config \<Rightarrow> nav_config) \<Rightarrow> 'a option \<Rightarrow> replay_setup \<Rightarrow> replay_setup option" where
  "set_config f v st = (case v of None \<Rightarrow> None | Some x \<Rightarrow> Some (f x (fst st), snd st))"

definition set_extra ::
  "('a \<Rightarrow> replay_config_extra \<Rightarrow> replay_config_extra) \<Rightarrow> 'a option \<Rightarrow> replay_setup \<Rightarrow> replay_setup option" where
  "set_extra f v st = (case v of None \<Rightarrow> None | Some x \<Rightarrow> Some (fst st, f x (snd st)))"

definition apply_config_row :: "string \<Rightarrow> string \<Rightarrow> replay_setup \<Rightarrow> replay_setup option" where
  "apply_config_row key v st =
     (if key = ''node_id'' then
        set_config (\<lambda>x c. c\<lparr>cfg_local_node_id := x\<rparr>) (parse_config_u8 v (int NAV_MAX_NODES - 1)) st
      else if key = ''telemetry_ttl_ms'' then
        set_config (\<lambda>x c. c\<lparr>cfg_telemetry_ttl_ms := x\<rparr>) (parse_config_u32 v) st
      else if key = ''range_ttl_ms'' then set_config (\<lambda>x c. c\<lparr>cfg_range_ttl_ms := x\<rparr>) (parse_config_u32 v) st
      else if key = ''local_altitude_ttl_ms'' then
        set_config (\<lambda>x c. c\<lparr>cfg_local_altitude_ttl_ms := x\<rparr>) (parse_config_u32 v) st
      else if key = ''tick_period_ms'' then set_config (\<lambda>x c. c\<lparr>cfg_tick_period_ms := x\<rparr>) (parse_config_u32 v) st
      else if key = ''max_range_sigma_mm'' then
        set_config (\<lambda>x c. c\<lparr>cfg_max_range_sigma_mm := x\<rparr>) (parse_config_u32 v) st
      else if key = ''min_anchor_quality'' then
        set_config (\<lambda>x c. c\<lparr>cfg_min_anchor_quality := x\<rparr>) (parse_config_float v) st
      else if key = ''min_solution_quality'' then
        set_config (\<lambda>x c. c\<lparr>cfg_min_solution_quality := x\<rparr>) (parse_config_float v) st
      else if key = ''max_residual_rms_m'' then
        set_config (\<lambda>x c. c\<lparr>cfg_max_residual_rms_m := x\<rparr>) (parse_config_float v) st
      else if key = ''max_residual_m'' then
        set_config (\<lambda>x c. c\<lparr>cfg_max_residual_m := x\<rparr>) (parse_config_float v) st
      else if key = ''min_anchor_triangle_area_m2'' then
        set_config (\<lambda>x c. c\<lparr>cfg_min_anchor_triangle_area_m2 := x\<rparr>) (parse_config_float v) st
      else if key = ''degraded_anchor_triangle_area_m2'' then
        set_config (\<lambda>x c. c\<lparr>cfg_degraded_anchor_triangle_area_m2 := x\<rparr>) (parse_config_float v) st
      else if key = ''demo_force_gps_denied'' then
        set_config (\<lambda>x c. c\<lparr>cfg_demo_force_gps_denied := x\<rparr>) (parse_config_bool v) st
      else if key = ''allow_gnss_altitude_in_demo_forced_denied'' then
        set_config (\<lambda>x c. c\<lparr>cfg_allow_gnss_altitude_in_demo_forced_denied := x\<rparr>) (parse_config_bool v) st
      else if key = ''max_allowed_horizontal_error_m'' then
        set_extra (\<lambda>x e. e\<lparr>rx_max_allowed_horizontal_error_m := x\<rparr>) (parse_config_double_nonnegative v) st
      else if key = ''max_allowed_vertical_error_m'' then
        set_extra (\<lambda>x e. e\<lparr>rx_max_allowed_vertical_error_m := x\<rparr>) (parse_config_double_nonnegative v) st
      else if key = ''max_allowed_3d_error_m'' then
        set_extra (\<lambda>x e. e\<lparr>rx_max_allowed_3d_error_m := x\<rparr>) (parse_config_double_nonnegative v) st
      else if key = ''expect_final_mode'' then
        set_extra (\<lambda>x e. e\<lparr>rx_has_expected_mode := True, rx_expected_mode := x\<rparr>) (parse_nav_mode_text v) st
      else if key = ''expect_final_solution'' then
        set_extra (\<lambda>x e. e\<lparr>rx_has_expected_solution := True, rx_expected_solution := x\<rparr>)
          (parse_solution_status_text v) st
      else if key = ''expect_final_source'' then
        set_extra (\<lambda>x e. e\<lparr>rx_has_expected_source := True, rx_expected_source := x\<rparr>)
          (parse_solution_source_text v) st
      else if key = ''expect_final_reject'' then
        set_extra (\<lambda>x e. e\<lparr>rx_has_expected_reject := True, rx_expected_reject := x\<rparr>)
          (parse_reject_reason_text v) st
      else None)"

text \<open>The loop over the lines, with the flag that the header line has been seen.\<close>

fun load_config_loop :: "string list \<Rightarrow> bool \<Rightarrow> replay_setup \<Rightarrow> replay_setup option" where
  "load_config_loop [] header_seen st = (if header_seen then Some st else None)"
| "load_config_loop (line # rest) header_seen st =
     (if line_is_ignored line then load_config_loop rest header_seen st
      else (case split_csv_line line of None \<Rightarrow> None
        | Some row \<Rightarrow>
            if length row < 2 then None
            else if \<not> header_seen then
              (if row ! 0 \<noteq> ''key'' \<or> row ! 1 \<noteq> ''value'' then None else load_config_loop rest True st)
            else if row ! 0 = [] \<or> row ! 1 = [] then None
            else (case apply_config_row (row ! 0) (row ! 1) st of None \<Rightarrow> None
              | Some st \<Rightarrow> load_config_loop rest True st)))"

definition load_replay_config :: "string option \<Rightarrow> replay_setup \<Rightarrow> replay_setup option" where
  "load_replay_config file st = (case file of None \<Rightarrow> None
     | Some bytes \<Rightarrow> load_config_loop (fgets_lines (REPLAY_MAX_LINE_LEN - 1) bytes) False st)"

section \<open>Truth table\<close>

record replay_truth_row =
  tt_time_ms :: u32
  tt_node_id :: u8
  tt_true_lat_e7 :: i32
  tt_true_lon_e7 :: i32
  tt_true_alt_mm :: i32
  tt_true_vn_mmps :: i32
  tt_true_ve_mmps :: i32
  tt_true_vd_mmps :: i32

abbreviation (input) REPLAY_MAX_TRUTH_ROWS :: nat where "REPLAY_MAX_TRUTH_ROWS \<equiv> 512"

definition truth_names :: "string list" where
  "truth_names = [''time_ms'', ''node_id'', ''true_lat_e7'', ''true_lon_e7'', ''true_alt_mm'', ''true_vn_mmps'',
     ''true_ve_mmps'', ''true_vd_mmps'']"

type_synonym truth_header = "nat \<Rightarrow> int"

definition parse_truth_header :: "replay_row \<Rightarrow> truth_header option" where
  "parse_truth_header row =
     (let indexes = index_columns ((!) truth_names) [0..<8] row
      in if \<exists>e \<in> set [0..<8]. indexes e < 0 then None else Some indexes)"

definition truth_field :: "replay_row \<Rightarrow> truth_header \<Rightarrow> nat \<Rightarrow> string" where
  "truth_field row indexes column = indexed_field row (indexes column)"

definition parse_truth_required_i64 :: "replay_row \<Rightarrow> truth_header \<Rightarrow> nat \<Rightarrow> int \<Rightarrow> int \<Rightarrow> int option" where
  "parse_truth_required_i64 row indexes column min_value max_value =
     (let txt = truth_field row indexes column in
      if txt = [] then None else parse_i64 txt min_value max_value)"

definition parse_truth_optional_i64 :: "replay_row \<Rightarrow> truth_header \<Rightarrow> nat \<Rightarrow> int \<Rightarrow> int \<Rightarrow> int \<Rightarrow> int option" where
  "parse_truth_optional_i64 row indexes column min_value max_value default_value =
     (let txt = truth_field row indexes column in
      if txt = [] then Some default_value else parse_i64 txt min_value max_value)"

definition build_truth_row :: "replay_row \<Rightarrow> truth_header \<Rightarrow> replay_truth_row option" where
  "build_truth_row row indexes = do {
     time_ms \<leftarrow> parse_truth_required_i64 row indexes 0 0 UINT32_MAX;
     node_id \<leftarrow> parse_truth_required_i64 row indexes 1 0 (int NAV_MAX_NODES - 1);
     lat \<leftarrow> parse_truth_required_i64 row indexes 2 I32_MIN I32_MAX;
     lon \<leftarrow> parse_truth_required_i64 row indexes 3 I32_MIN I32_MAX;
     if \<not> position_valid_e7 (word_of_int lat) (word_of_int lon) then None else do {
     alt \<leftarrow> parse_truth_required_i64 row indexes 4 I32_MIN I32_MAX;
     vn \<leftarrow> parse_truth_optional_i64 row indexes 5 I32_MIN I32_MAX 0;
     ve \<leftarrow> parse_truth_optional_i64 row indexes 6 I32_MIN I32_MAX 0;
     vd \<leftarrow> parse_truth_optional_i64 row indexes 7 I32_MIN I32_MAX 0;
     Some \<lparr>tt_time_ms = word_of_int time_ms, tt_node_id = word_of_int node_id, tt_true_lat_e7 = word_of_int lat,
       tt_true_lon_e7 = word_of_int lon, tt_true_alt_mm = word_of_int alt, tt_true_vn_mmps = word_of_int vn,
       tt_true_ve_mmps = word_of_int ve, tt_true_vd_mmps = word_of_int vd\<rparr> } }"

fun load_truth_loop ::
  "string list \<Rightarrow> truth_header option \<Rightarrow> replay_truth_row list \<Rightarrow> replay_truth_row list option" where
  "load_truth_loop [] header truth = (case header of None \<Rightarrow> None | Some indexes \<Rightarrow> Some truth)"
| "load_truth_loop (line # rest) header truth =
     (if line_is_ignored line then load_truth_loop rest header truth
      else (case split_csv_line line of None \<Rightarrow> None
        | Some row \<Rightarrow>
            (case header of
               None \<Rightarrow>
                 (case parse_truth_header row of None \<Rightarrow> None
                  | Some indexes \<Rightarrow> load_truth_loop rest (Some indexes) truth)
             | Some indexes \<Rightarrow>
                 if length truth \<ge> REPLAY_MAX_TRUTH_ROWS then None
                 else (case build_truth_row row indexes of None \<Rightarrow> None
                   | Some r \<Rightarrow> load_truth_loop rest (Some indexes) (truth @ [r])))))"

definition load_truth_csv :: "string option \<Rightarrow> replay_truth_row list option" where
  "load_truth_csv file = (case file of None \<Rightarrow> None
     | Some bytes \<Rightarrow> load_truth_loop (fgets_lines (REPLAY_MAX_LINE_LEN - 1) bytes) None [])"

definition find_truth_row :: "replay_truth_row list \<Rightarrow> u32 \<Rightarrow> u8 \<Rightarrow> replay_truth_row option" where
  "find_truth_row truth time_ms node_id = find (\<lambda>r. tt_time_ms r = time_ms \<and> tt_node_id r = node_id) truth"

end
