(* ===== verification/Nav_Replay_Event.thy ===== *)
theory Nav_Replay_Event
  imports Nav_Replay_Config
begin

text \<open>
  The rows of the event file: the columns, the header line and the construction of one event of the core.
\<close>

section \<open>Columns\<close>

datatype replay_column = COL_TIME_MS | COL_EVENT_TYPE | COL_NODE_ID | COL_PEER_ID | COL_PACKET_SEQ | COL_REQUEST_ID
  | COL_LAT_E7 | COL_LON_E7 | COL_ALT_MM | COL_VEL_N_MMPS | COL_VEL_E_MMPS | COL_VEL_D_MMPS | COL_FIX_TYPE
  | COL_GNSS_VALID | COL_SATELLITES | COL_HDOP_CENTI | COL_HACC_MM | COL_VACC_MM | COL_NAV_MODE | COL_RANGE_MM
  | COL_RANGE_SIGMA_MM | COL_RSSI_DBM | COL_SNR_DB | COL_RANGE_VALID | COL_ALT_SOURCE | COL_ALT_VALID
  | COL_RANGE_FAIL_REASON

definition replay_columns :: "replay_column list" where
  "replay_columns = [COL_TIME_MS, COL_EVENT_TYPE, COL_NODE_ID, COL_PEER_ID, COL_PACKET_SEQ, COL_REQUEST_ID,
     COL_LAT_E7, COL_LON_E7, COL_ALT_MM, COL_VEL_N_MMPS, COL_VEL_E_MMPS, COL_VEL_D_MMPS, COL_FIX_TYPE,
     COL_GNSS_VALID, COL_SATELLITES, COL_HDOP_CENTI, COL_HACC_MM, COL_VACC_MM, COL_NAV_MODE, COL_RANGE_MM,
     COL_RANGE_SIGMA_MM, COL_RSSI_DBM, COL_SNR_DB, COL_RANGE_VALID, COL_ALT_SOURCE, COL_ALT_VALID,
     COL_RANGE_FAIL_REASON]"

text \<open>The array \<^verbatim>\<open>COLUMN_NAMES\<close>.\<close>

fun column_name :: "replay_column \<Rightarrow> string" where
  "column_name COL_TIME_MS = ''time_ms''"
| "column_name COL_EVENT_TYPE = ''event_type''"
| "column_name COL_NODE_ID = ''node_id''"
| "column_name COL_PEER_ID = ''peer_id''"
| "column_name COL_PACKET_SEQ = ''packet_seq''"
| "column_name COL_REQUEST_ID = ''request_id''"
| "column_name COL_LAT_E7 = ''lat_e7''"
| "column_name COL_LON_E7 = ''lon_e7''"
| "column_name COL_ALT_MM = ''alt_mm''"
| "column_name COL_VEL_N_MMPS = ''vel_n_mmps''"
| "column_name COL_VEL_E_MMPS = ''vel_e_mmps''"
| "column_name COL_VEL_D_MMPS = ''vel_d_mmps''"
| "column_name COL_FIX_TYPE = ''fix_type''"
| "column_name COL_GNSS_VALID = ''gnss_valid''"
| "column_name COL_SATELLITES = ''satellites''"
| "column_name COL_HDOP_CENTI = ''hdop_centi''"
| "column_name COL_HACC_MM = ''hacc_mm''"
| "column_name COL_VACC_MM = ''vacc_mm''"
| "column_name COL_NAV_MODE = ''nav_mode''"
| "column_name COL_RANGE_MM = ''range_mm''"
| "column_name COL_RANGE_SIGMA_MM = ''range_sigma_mm''"
| "column_name COL_RSSI_DBM = ''rssi_dbm''"
| "column_name COL_SNR_DB = ''snr_db''"
| "column_name COL_RANGE_VALID = ''range_valid''"
| "column_name COL_ALT_SOURCE = ''alt_source''"
| "column_name COL_ALT_VALID = ''alt_valid''"
| "column_name COL_RANGE_FAIL_REASON = ''range_fail_reason''"

type_synonym replay_header = "replay_column \<Rightarrow> int"

definition parse_header :: "replay_row \<Rightarrow> replay_header option" where
  "parse_header row =
     (let header = index_columns column_name replay_columns row
      in if \<exists>expected \<in> set replay_columns. header expected < 0 then None else Some header)"

definition replay_field :: "replay_header \<Rightarrow> replay_row \<Rightarrow> replay_column \<Rightarrow> string" where
  "replay_field header row column = indexed_field row (header column)"

definition field_required :: "replay_header \<Rightarrow> replay_row \<Rightarrow> replay_column \<Rightarrow> bool" where
  "field_required header row column \<longleftrightarrow> replay_field header row column \<noteq> []"

definition parse_required_i64 :: "replay_header \<Rightarrow> replay_row \<Rightarrow> replay_column \<Rightarrow> int \<Rightarrow> int \<Rightarrow> int option" where
  "parse_required_i64 header row column min_value max_value =
     (if \<not> field_required header row column then None
      else parse_i64 (replay_field header row column) min_value max_value)"

definition parse_optional_i64 ::
  "replay_header \<Rightarrow> replay_row \<Rightarrow> replay_column \<Rightarrow> int \<Rightarrow> int \<Rightarrow> int \<Rightarrow> int option" where
  "parse_optional_i64 header row column min_value max_value default_value =
     (let txt = replay_field header row column in
      if txt = [] then Some default_value else parse_i64 txt min_value max_value)"

text \<open>A required field that is read by one of the name parsers.\<close>

definition required_name :: "replay_header \<Rightarrow> replay_row \<Rightarrow> replay_column \<Rightarrow> (string \<Rightarrow> 'a option) \<Rightarrow> 'a option" where
  "required_name header row column parse =
     (if \<not> field_required header row column then None else parse (replay_field header row column))"

section \<open>Events\<close>

text \<open>The three coordinates and the three optional velocities that GNSS rows and beacon rows share.\<close>

definition read_position :: "replay_header \<Rightarrow> replay_row \<Rightarrow> nav_position option" where
  "read_position h row = do {
     lat \<leftarrow> parse_required_i64 h row COL_LAT_E7 I32_MIN I32_MAX;
     lon \<leftarrow> parse_required_i64 h row COL_LON_E7 I32_MIN I32_MAX;
     alt \<leftarrow> parse_required_i64 h row COL_ALT_MM I32_MIN I32_MAX;
     Some \<lparr>lat_e7 = word_of_int lat, lon_e7 = word_of_int lon, alt_mm = word_of_int alt\<rparr> }"

definition read_velocity :: "replay_header \<Rightarrow> replay_row \<Rightarrow> nav_velocity option" where
  "read_velocity h row = do {
     n \<leftarrow> parse_optional_i64 h row COL_VEL_N_MMPS I32_MIN I32_MAX 0;
     e \<leftarrow> parse_optional_i64 h row COL_VEL_E_MMPS I32_MIN I32_MAX 0;
     d \<leftarrow> parse_optional_i64 h row COL_VEL_D_MMPS I32_MIN I32_MAX 0;
     Some \<lparr>vel_n_mmps = word_of_int n, vel_e_mmps = word_of_int e, vel_d_mmps = word_of_int d\<rparr> }"

definition build_gnss :: "replay_header \<Rightarrow> replay_row \<Rightarrow> u32 \<Rightarrow> nav_gnss_sample option" where
  "build_gnss h row timestamp_ms = do {
     node_id \<leftarrow> parse_required_i64 h row COL_NODE_ID 0 (int NAV_MAX_NODES - 1);
     pos \<leftarrow> read_position h row;
     vel \<leftarrow> read_velocity h row;
     fix_type \<leftarrow> required_name h row COL_FIX_TYPE parse_fix_type_text;
     valid \<leftarrow> required_name h row COL_GNSS_VALID parse_bool_text;
     satellites \<leftarrow> parse_required_i64 h row COL_SATELLITES 0 UINT8_MAX;
     hdop \<leftarrow> parse_required_i64 h row COL_HDOP_CENTI 0 UINT16_MAX;
     hacc \<leftarrow> parse_required_i64 h row COL_HACC_MM 0 UINT32_MAX;
     vacc \<leftarrow> parse_required_i64 h row COL_VACC_MM 0 UINT32_MAX;
     Some \<lparr>gs_node_id = word_of_int node_id, gs_timestamp_ms = timestamp_ms, gs_position = pos, gs_velocity = vel,
       gs_fix_type = fix_type, gs_valid = valid, gs_satellites = word_of_int satellites,
       gs_hdop_centi = word_of_int hdop, gs_hacc_mm = word_of_int hacc, gs_vacc_mm = word_of_int vacc\<rparr> }"

definition build_altitude :: "replay_header \<Rightarrow> replay_row \<Rightarrow> u32 \<Rightarrow> nav_local_altitude option" where
  "build_altitude h row timestamp_ms = do {
     alt \<leftarrow> parse_required_i64 h row COL_ALT_MM I32_MIN I32_MAX;
     source \<leftarrow> required_name h row COL_ALT_SOURCE parse_alt_source_text;
     valid \<leftarrow> required_name h row COL_ALT_VALID parse_bool_text;
     Some \<lparr>la_alt_mm = word_of_int alt, la_timestamp_ms = timestamp_ms, la_source = source, la_valid = valid\<rparr> }"

definition build_beacon :: "replay_header \<Rightarrow> replay_row \<Rightarrow> u32 \<Rightarrow> nav_peer_beacon_rx option" where
  "build_beacon h row timestamp_ms = do {
     node_id \<leftarrow> parse_required_i64 h row COL_PEER_ID 0 (int NAV_MAX_NODES - 1);
     packet_seq \<leftarrow> parse_required_i64 h row COL_PACKET_SEQ 0 UINT32_MAX;
     pos \<leftarrow> read_position h row;
     vel \<leftarrow> read_velocity h row;
     fix_type \<leftarrow> required_name h row COL_FIX_TYPE parse_fix_type_text;
     gnss_valid \<leftarrow> required_name h row COL_GNSS_VALID parse_bool_text;
     if gnss_valid \<and> \<not> position_valid_e7 (lat_e7 pos) (lon_e7 pos) then None else do {
     satellites \<leftarrow> parse_required_i64 h row COL_SATELLITES 0 UINT8_MAX;
     hdop \<leftarrow> parse_required_i64 h row COL_HDOP_CENTI 0 UINT16_MAX;
     hacc \<leftarrow> parse_required_i64 h row COL_HACC_MM 0 UINT32_MAX;
     vacc \<leftarrow> parse_required_i64 h row COL_VACC_MM 0 UINT32_MAX;
     mode \<leftarrow> required_name h row COL_NAV_MODE parse_nav_mode_text;
     rssi \<leftarrow> parse_required_i64 h row COL_RSSI_DBM I16_MIN I16_MAX;
     snr \<leftarrow> parse_required_i64 h row COL_SNR_DB I16_MIN I16_MAX;
     Some \<lparr>br_telemetry = \<lparr>pt_node_id = word_of_int node_id, pt_packet_seq = word_of_int packet_seq,
         pt_timestamp_ms = timestamp_ms, pt_position = pos, pt_velocity = vel, pt_fix_type = fix_type,
         pt_gnss_valid = gnss_valid, pt_satellites = word_of_int satellites, pt_hdop_centi = word_of_int hdop,
         pt_hacc_mm = word_of_int hacc, pt_vacc_mm = word_of_int vacc, pt_nav_mode = mode,
         pt_solution_status = NAV_SOLUTION_NONE, pt_solution_source = NAV_SOURCE_NONE\<rparr>,
       br_rssi_dbm = word_of_int rssi, br_snr_db = word_of_int snr\<rparr> } }"

definition build_range :: "replay_header \<Rightarrow> replay_row \<Rightarrow> u32 \<Rightarrow> nav_range_result option" where
  "build_range h row timestamp_ms = do {
     peer_id \<leftarrow> parse_required_i64 h row COL_PEER_ID 0 (int NAV_MAX_NODES - 1);
     request_id \<leftarrow> parse_required_i64 h row COL_REQUEST_ID 0 UINT16_MAX;
     range_mm \<leftarrow> parse_required_i64 h row COL_RANGE_MM 0 UINT32_MAX;
     sigma \<leftarrow> parse_required_i64 h row COL_RANGE_SIGMA_MM 0 UINT32_MAX;
     rssi \<leftarrow> parse_required_i64 h row COL_RSSI_DBM I16_MIN I16_MAX;
     snr \<leftarrow> parse_required_i64 h row COL_SNR_DB I16_MIN I16_MAX;
     valid \<leftarrow> required_name h row COL_RANGE_VALID parse_bool_text;
     Some \<lparr>rr_peer_id = word_of_int peer_id, rr_request_id = word_of_int request_id, rr_timestamp_ms = timestamp_ms,
       rr_range_mm = word_of_int range_mm, rr_range_sigma_mm = word_of_int sigma, rr_rssi_dbm = word_of_int rssi,
       rr_snr_db = word_of_int snr, rr_valid = valid\<rparr> }"

definition build_range_failure :: "replay_header \<Rightarrow> replay_row \<Rightarrow> u32 \<Rightarrow> nav_range_failure option" where
  "build_range_failure h row timestamp_ms = do {
     peer_id \<leftarrow> parse_required_i64 h row COL_PEER_ID 0 (int NAV_MAX_NODES - 1);
     request_id \<leftarrow> parse_required_i64 h row COL_REQUEST_ID 0 UINT16_MAX;
     reason \<leftarrow> required_name h row COL_RANGE_FAIL_REASON parse_range_fail_text;
     Some \<lparr>rf_peer_id = word_of_int peer_id, rf_request_id = word_of_int request_id, rf_timestamp_ms = timestamp_ms,
       rf_reason = reason\<rparr> }"

definition build_event :: "replay_header \<Rightarrow> replay_row \<Rightarrow> (replay_event_type \<times> nav_event) option" where
  "build_event h row = do {
     time_ms \<leftarrow> parse_required_i64 h row COL_TIME_MS 0 UINT32_MAX;
     let timestamp_ms = word_of_int time_ms;
     kind \<leftarrow> required_name h row COL_EVENT_TYPE parse_event_type_text;
     d \<leftarrow> (case kind of
         REPLAY_EVT_TICK \<Rightarrow> Some NAV_EVT_TICK
       | REPLAY_EVT_LOCAL_GNSS_SAMPLE \<Rightarrow> map_option NAV_EVT_LOCAL_GNSS_SAMPLE (build_gnss h row timestamp_ms)
       | REPLAY_EVT_LOCAL_ALTITUDE_SAMPLE \<Rightarrow>
           map_option NAV_EVT_LOCAL_ALTITUDE_SAMPLE (build_altitude h row timestamp_ms)
       | REPLAY_EVT_PEER_BEACON_RX \<Rightarrow> map_option NAV_EVT_PEER_TELEMETRY_RX (build_beacon h row timestamp_ms)
       | REPLAY_EVT_RANGE_RESULT \<Rightarrow> map_option NAV_EVT_RANGE_RESULT (build_range h row timestamp_ms)
       | REPLAY_EVT_RANGE_FAIL \<Rightarrow> map_option NAV_EVT_RANGE_FAIL (build_range_failure h row timestamp_ms));
     Some (kind, \<lparr>ev_timestamp_ms = timestamp_ms, ev_data = d\<rparr>) }"

end
