(* ===== verification/Nav_Replay.thy ===== *)
theory Nav_Replay
  imports Nav_Replay_Event Nav_Core
begin

text \<open>
  The replay itself: the comparison with the truth table, the rows of the output files, and the loop that drives
  the core with the events of a file. The output files are texts in the state of the loop. \<open>None\<close> as the result
  of a step is undefined behaviour inside the core; the status of the program is a number, as in the code.
\<close>

section \<open>Comparison with the truth\<close>

record replay_compare_stats =
  cs_rows_compared :: u32
  cs_rows_skipped_no_truth :: u32
  cs_rows_skipped_no_radio_solution :: u32
  cs_max_horizontal_error_m :: fp
  cs_sum_sq_horizontal_error_m :: fp
  cs_max_vertical_error_m :: fp
  cs_sum_sq_vertical_error_m :: fp
  cs_max_3d_error_m :: fp
  cs_sum_sq_3d_error_m :: fp

definition replay_compare_stats_zero :: replay_compare_stats where
  "replay_compare_stats_zero = \<lparr>cs_rows_compared = 0, cs_rows_skipped_no_truth = 0,
     cs_rows_skipped_no_radio_solution = 0, cs_max_horizontal_error_m = Fin 0, cs_sum_sq_horizontal_error_m = Fin 0,
     cs_max_vertical_error_m = Fin 0, cs_sum_sq_vertical_error_m = Fin 0, cs_max_3d_error_m = Fin 0,
     cs_sum_sq_3d_error_m = Fin 0\<rparr>"

definition REPLAY_EARTH_RADIUS_M :: fp where
  "REPLAY_EARTH_RADIUS_M = Fin 6378137"

definition deg_to_rad :: "fp \<Rightarrow> fp" where
  "deg_to_rad deg = dmul deg (dlit (1745329251994329576923690768489 / 10 ^ 32))"

definition e7_deg :: "i32 \<Rightarrow> fp" where
  "e7_deg e7 = ddiv (fp_of_int binary64 (sint e7)) (Fin 10000000)"

text \<open>The horizontal, vertical and spatial error of a position.\<close>

definition position_errors :: "libm \<Rightarrow> nav_position \<Rightarrow> replay_truth_row \<Rightarrow> fp \<times> fp \<times> fp" where
  "position_errors lm p t =
     (let lat_deg = e7_deg (lat_e7 p); lon_deg = e7_deg (lon_e7 p);
          truth_lat_deg = e7_deg (tt_true_lat_e7 t); truth_lon_deg = e7_deg (tt_true_lon_e7 t);
          mean_lat_rad = deg_to_rad (dmul (dadd lat_deg truth_lat_deg) (Fin (1 / 2)));
          dx_m = dmul (dmul (deg_to_rad (dsub lon_deg truth_lon_deg)) (lm_cos lm mean_lat_rad)) REPLAY_EARTH_RADIUS_M;
          dy_m = dmul (deg_to_rad (dsub lat_deg truth_lat_deg)) REPLAY_EARTH_RADIUS_M;
          horizontal_m = dsqrt (dadd (dmul dx_m dx_m) (dmul dy_m dy_m));
          vertical_m = fp_abs (ddiv (dsub (fp_of_int binary64 (sint (alt_mm p)))
            (fp_of_int binary64 (sint (tt_true_alt_mm t)))) (Fin 1000));
          error_3d_m = dsqrt (dadd (dmul horizontal_m horizontal_m) (dmul vertical_m vertical_m))
      in (horizontal_m, vertical_m, error_3d_m))"

definition compare_snapshot_with_truth ::
  "libm \<Rightarrow> nav_snapshot \<Rightarrow> replay_truth_row list \<Rightarrow> replay_compare_stats \<Rightarrow> replay_compare_stats" where
  "compare_snapshot_with_truth lm sn truth stats =
     (if sn_solution_status sn \<noteq> NAV_SOLUTION_RADIO_3D \<or> sn_solution_source sn \<noteq> NAV_SOURCE_RADIO_3D
      then stats\<lparr>cs_rows_skipped_no_radio_solution := cs_rows_skipped_no_radio_solution stats + 1\<rparr>
      else (case find_truth_row truth (sn_time_ms sn) (sn_node_id sn) of
        None \<Rightarrow> stats\<lparr>cs_rows_skipped_no_truth := cs_rows_skipped_no_truth stats + 1\<rparr>
      | Some t \<Rightarrow>
          (case position_errors lm (sn_position sn) t of (horizontal_m, vertical_m, error_3d_m) \<Rightarrow> stats
            \<lparr>cs_rows_compared := cs_rows_compared stats + 1,
             cs_sum_sq_horizontal_error_m := dadd (cs_sum_sq_horizontal_error_m stats) (dmul horizontal_m horizontal_m),
             cs_sum_sq_vertical_error_m := dadd (cs_sum_sq_vertical_error_m stats) (dmul vertical_m vertical_m),
             cs_sum_sq_3d_error_m := dadd (cs_sum_sq_3d_error_m stats) (dmul error_3d_m error_3d_m),
             cs_max_horizontal_error_m := (if fp_lt (cs_max_horizontal_error_m stats) horizontal_m
               then horizontal_m else cs_max_horizontal_error_m stats),
             cs_max_vertical_error_m := (if fp_lt (cs_max_vertical_error_m stats) vertical_m
               then vertical_m else cs_max_vertical_error_m stats),
             cs_max_3d_error_m := (if fp_lt (cs_max_3d_error_m stats) error_3d_m
               then error_3d_m else cs_max_3d_error_m stats)\<rparr>)))"

definition rms_from_stats :: "fp \<Rightarrow> u32 \<Rightarrow> fp" where
  "rms_from_stats sum_sq n = (if n = 0 then Fin 0 else dsqrt (ddiv sum_sq (fp_of_int binary64 (uint n))))"

definition compare_stats_pass :: "replay_compare_stats \<Rightarrow> replay_config_extra \<Rightarrow> bool" where
  "compare_stats_pass stats extra \<longleftrightarrow> cs_rows_compared stats > 0 \<and>
     fp_le (cs_max_horizontal_error_m stats) (rx_max_allowed_horizontal_error_m extra) \<and>
     fp_le (cs_max_vertical_error_m stats) (rx_max_allowed_vertical_error_m extra) \<and>
     fp_le (cs_max_3d_error_m stats) (rx_max_allowed_3d_error_m extra)"

abbreviation (input) newline :: string where "newline \<equiv> [CHR 0x0A]"

definition true_false :: "bool \<Rightarrow> string" where
  "true_false b = (if b then ''true'' else ''false'')"

text \<open>The texts of the two reports.\<close>

definition compare_report_txt :: "replay_compare_stats \<Rightarrow> replay_config_extra \<Rightarrow> string" where
  "compare_report_txt stats extra =
     (let n = cs_rows_compared stats in
      ''rows_compared='' @ fmt_u (unat n) @ newline @
      ''rows_skipped_no_truth='' @ fmt_u (unat (cs_rows_skipped_no_truth stats)) @ newline @
      ''rows_skipped_no_radio_solution='' @ fmt_u (unat (cs_rows_skipped_no_radio_solution stats)) @ newline @
      ''max_horizontal_error_m='' @ fmt_f 6 (cs_max_horizontal_error_m stats) @ newline @
      ''rms_horizontal_error_m='' @ fmt_f 6 (rms_from_stats (cs_sum_sq_horizontal_error_m stats) n) @ newline @
      ''max_vertical_error_m='' @ fmt_f 6 (cs_max_vertical_error_m stats) @ newline @
      ''rms_vertical_error_m='' @ fmt_f 6 (rms_from_stats (cs_sum_sq_vertical_error_m stats) n) @ newline @
      ''max_3d_error_m='' @ fmt_f 6 (cs_max_3d_error_m stats) @ newline @
      ''rms_3d_error_m='' @ fmt_f 6 (rms_from_stats (cs_sum_sq_3d_error_m stats) n) @ newline @
      ''max_allowed_horizontal_error_m='' @ fmt_f 6 (rx_max_allowed_horizontal_error_m extra) @ newline @
      ''max_allowed_vertical_error_m='' @ fmt_f 6 (rx_max_allowed_vertical_error_m extra) @ newline @
      ''max_allowed_3d_error_m='' @ fmt_f 6 (rx_max_allowed_3d_error_m extra) @ newline @
      ''pass='' @ true_false (compare_stats_pass stats extra) @ newline)"

definition compare_report_json :: "replay_compare_stats \<Rightarrow> replay_config_extra \<Rightarrow> string" where
  "compare_report_json stats extra =
     (let n = cs_rows_compared stats in
      ''{'' @ newline @
      ''  \"rows_compared\": '' @ fmt_u (unat n) @ '','' @ newline @
      ''  \"rows_skipped_no_truth\": '' @ fmt_u (unat (cs_rows_skipped_no_truth stats)) @ '','' @ newline @
      ''  \"rows_skipped_no_radio_solution\": '' @ fmt_u (unat (cs_rows_skipped_no_radio_solution stats)) @ '','' @ newline @
      ''  \"max_horizontal_error_m\": '' @ fmt_f 9 (cs_max_horizontal_error_m stats) @ '','' @ newline @
      ''  \"rms_horizontal_error_m\": '' @ fmt_f 9 (rms_from_stats (cs_sum_sq_horizontal_error_m stats) n) @ '','' @ newline @
      ''  \"max_vertical_error_m\": '' @ fmt_f 9 (cs_max_vertical_error_m stats) @ '','' @ newline @
      ''  \"rms_vertical_error_m\": '' @ fmt_f 9 (rms_from_stats (cs_sum_sq_vertical_error_m stats) n) @ '','' @ newline @
      ''  \"max_3d_error_m\": '' @ fmt_f 9 (cs_max_3d_error_m stats) @ '','' @ newline @
      ''  \"rms_3d_error_m\": '' @ fmt_f 9 (rms_from_stats (cs_sum_sq_3d_error_m stats) n) @ '','' @ newline @
      ''  \"max_allowed_horizontal_error_m\": '' @ fmt_f 9 (rx_max_allowed_horizontal_error_m extra) @ '','' @ newline @
      ''  \"max_allowed_vertical_error_m\": '' @ fmt_f 9 (rx_max_allowed_vertical_error_m extra) @ '','' @ newline @
      ''  \"max_allowed_3d_error_m\": '' @ fmt_f 9 (rx_max_allowed_3d_error_m extra) @ '','' @ newline @
      ''  \"pass\": '' @ true_false (compare_stats_pass stats extra) @ newline @
      ''}'' @ newline)"

section \<open>Output rows\<close>

fun comma_separated :: "string list \<Rightarrow> string" where
  "comma_separated [] = []"
| "comma_separated [s] = s"
| "comma_separated (s # t # ss) = s @ '','' @ comma_separated (t # ss)"

abbreviation (input) cu :: "'a::len word \<Rightarrow> string" where "cu v \<equiv> fmt_u (unat v)"
abbreviation (input) cd :: "'a::len word \<Rightarrow> string" where "cd v \<equiv> fmt_d (sint v)"
abbreviation (input) cb :: "bool \<Rightarrow> string" where "cb b \<equiv> fmt_u (if b then 1 else 0)"

definition solution_columns :: "string list" where
  "solution_columns = [''time_ms'', ''node_id'', ''nav_mode'', ''solution_status'',
     ''solution_source'', ''lat_e7'', ''lon_e7'', ''alt_mm'', ''hacc_mm'', ''vacc_mm'', ''num_anchors'', ''anchor0_id'',
     ''anchor1_id'', ''anchor2_id'', ''residual0_mm'', ''residual1_mm'', ''residual2_mm'', ''residual_rms_m'',
     ''max_residual_m'', ''geometry_score'', ''anchor_triangle_area_m2'', ''total_quality'', ''reject_reason'',
     ''altitude_source'', ''local_altitude_valid'']"

definition write_solution_header :: string where
  "write_solution_header = comma_separated solution_columns @ newline"

definition solution_cells :: "nav_snapshot \<Rightarrow> string list" where
  "solution_cells sn = [cu (sn_time_ms sn), cu (sn_node_id sn), nav_mode_to_string (sn_nav_mode sn),
     nav_solution_status_to_string (sn_solution_status sn), nav_solution_source_to_string (sn_solution_source sn),
     cd (lat_e7 (sn_position sn)), cd (lon_e7 (sn_position sn)), cd (alt_mm (sn_position sn)),
     cu (sn_hacc_mm sn), cu (sn_vacc_mm sn), cu (sn_num_anchors sn),
     cu (sn_selected_anchor_node_ids sn ! 0), cu (sn_selected_anchor_node_ids sn ! 1),
     cu (sn_selected_anchor_node_ids sn ! 2), cd (sn_anchor_residuals_mm sn ! 0), cd (sn_anchor_residuals_mm sn ! 1),
     cd (sn_anchor_residuals_mm sn ! 2), fmt_f 6 (sn_residual_rms_m sn), fmt_f 6 (sn_max_residual_m sn),
     fmt_f 6 (sn_geometry_score sn), fmt_f 3 (sn_anchor_triangle_area_m2 sn), fmt_f 6 (sn_total_quality sn),
     nav_reject_reason_to_string (sn_reject_reason sn), nav_altitude_source_to_string (sn_altitude_source sn),
     cb (sn_local_altitude_valid sn)]"

definition write_solution_row :: "nav_snapshot \<Rightarrow> string" where
  "write_solution_row sn = comma_separated (solution_cells sn) @ newline"

definition peers_columns :: "string list" where
  "peers_columns = [''time_ms'', ''local_node_id'', ''peer_id'', ''present'', ''telemetry_age_ms'',
     ''range_age_ms'', ''packet_seq'', ''request_id'', ''lat_e7'', ''lon_e7'', ''alt_mm'', ''fix_type'', ''gnss_valid'',
     ''nav_mode'', ''range_mm'', ''range_sigma_mm'', ''range_valid'', ''rssi_dbm'', ''snr_db'', ''telemetry_quality'',
     ''range_quality'', ''anchor_quality'', ''last_residual_m'', ''reject_reason'']"

definition write_peers_header :: string where
  "write_peers_header = comma_separated peers_columns @ newline"

fun fix_type_to_string :: "nav_gnss_fix_type \<Rightarrow> string" where
  "fix_type_to_string NAV_GNSS_FIX_NONE = ''NONE''"
| "fix_type_to_string NAV_GNSS_FIX_2D = ''2D''"
| "fix_type_to_string NAV_GNSS_FIX_3D = ''3D''"
| "fix_type_to_string NAV_GNSS_FIX_RTK_FLOAT = ''RTK_FLOAT''"
| "fix_type_to_string NAV_GNSS_FIX_RTK_FIXED = ''RTK_FIXED''"
| "fix_type_to_string _ = ''UNKNOWN''"

definition peer_cells :: "nav_system \<Rightarrow> u32 \<Rightarrow> u8 \<Rightarrow> nav_peer_state \<Rightarrow> string list" where
  "peer_cells sys now_ms peer_id peer = [cu now_ms, cu (cfg_local_node_id (sy_config sys)), cu peer_id,
     ''1'', cu (now_ms - ps_last_telemetry_timestamp_ms peer), cu (now_ms - ps_last_range_timestamp_ms peer),
     cu (ps_packet_seq peer), cu (ps_last_range_request_id peer), cd (lat_e7 (ps_position peer)),
     cd (lon_e7 (ps_position peer)), cd (alt_mm (ps_position peer)), fix_type_to_string (ps_fix_type peer),
     cb (ps_gnss_valid peer), nav_mode_to_string (ps_peer_nav_mode peer), cu (ps_range_mm peer),
     cu (ps_range_sigma_mm peer), cb (ps_range_valid peer), cd (ps_rssi_dbm peer), cd (ps_snr_db peer),
     fmt_f 6 (ps_telemetry_quality peer), fmt_f 6 (ps_range_quality peer), fmt_f 6 (ps_anchor_quality peer),
     fmt_f 6 (ps_last_residual_m peer), nav_reject_reason_to_string (ps_last_reject_reason peer)]"

definition peer_row :: "nav_system \<Rightarrow> u32 \<Rightarrow> u8 \<Rightarrow> nav_peer_state \<Rightarrow> string" where
  "peer_row sys now_ms peer_id peer = comma_separated (peer_cells sys now_ms peer_id peer) @ newline"

definition write_peers_rows :: "nav_system \<Rightarrow> u32 \<Rightarrow> string" where
  "write_peers_rows sys now_ms = concat (map (\<lambda>peer_id.
     case nav_peer_table_get_const (sy_peer_table sys) peer_id of None \<Rightarrow> []
     | Some peer \<Rightarrow> peer_row sys now_ms peer_id peer) [0, 1, 2, 3])"

section \<open>The loop\<close>

record replay_state =
  rp_sys :: nav_system
  rp_solution :: string
  rp_peers :: string
  rp_events_read :: u32
  rp_events_applied :: u32
  rp_solutions_written :: u32
  rp_compare_stats :: replay_compare_stats
  rp_header :: "replay_header option"
  rp_last_time_ms :: u32
  rp_have_time :: bool
  rp_status :: int

definition emit_outputs :: "libm \<Rightarrow> replay_truth_row list option \<Rightarrow> u32 \<Rightarrow> replay_state \<Rightarrow> bool \<times> replay_state" where
  "emit_outputs lm truth now_ms st = (case nav_core_get_snapshot (rp_sys st) of (ok, sn) \<Rightarrow>
     if \<not> ok then (False, st)
     else (True, st
       \<lparr>rp_solution := rp_solution st @ write_solution_row sn,
        rp_peers := rp_peers st @ write_peers_rows (rp_sys st) now_ms,
        rp_compare_stats := (case truth of None \<Rightarrow> rp_compare_stats st
          | Some t \<Rightarrow> compare_snapshot_with_truth lm sn t (rp_compare_stats st)),
        rp_solutions_written := rp_solutions_written st + 1\<rparr>))"

text \<open>The core calls for one event: a tick when time moves on and the row is no tick, then the event.\<close>

definition drive_core :: "libm \<Rightarrow> replay_event_type \<Rightarrow> nav_event \<Rightarrow> replay_state \<Rightarrow> nav_system option" where
  "drive_core lm kind event st = do {
     let now_ms = ev_timestamp_ms event;
     sys \<leftarrow> (if rp_have_time st \<and> now_ms > rp_last_time_ms st \<and> kind \<noteq> REPLAY_EVT_TICK
       then nav_core_tick lm now_ms (rp_sys st) else Some (rp_sys st));
     if kind = REPLAY_EVT_TICK then nav_core_tick lm now_ms sys
     else nav_core_handle_event lm (Some event) sys }"

text \<open>One event row; the flag says whether the loop goes on.\<close>

definition replay_event ::
  "libm \<Rightarrow> replay_truth_row list option \<Rightarrow> replay_event_type \<times> nav_event \<Rightarrow> replay_state \<Rightarrow> (bool \<times> replay_state) option" where
  "replay_event lm truth e st = (case e of (kind, event) \<Rightarrow>
     if rp_have_time st \<and> ev_timestamp_ms event < rp_last_time_ms st then Some (False, st\<lparr>rp_status := 1\<rparr>)
     else do {
       sys \<leftarrow> drive_core lm kind event st;
       let st = st\<lparr>rp_events_read := rp_events_read st + 1, rp_events_applied := rp_events_applied st + 1, rp_sys := sys\<rparr>;
       let (ok, st) = emit_outputs lm truth (ev_timestamp_ms event) st;
       if \<not> ok then Some (False, st\<lparr>rp_status := 1\<rparr>)
       else Some (True, st\<lparr>rp_last_time_ms := ev_timestamp_ms event, rp_have_time := True\<rparr>) })"

definition replay_line ::
  "libm \<Rightarrow> replay_truth_row list option \<Rightarrow> string \<Rightarrow> replay_state \<Rightarrow> (bool \<times> replay_state) option" where
  "replay_line lm truth line st =
     (if line_is_ignored line then Some (True, st)
      else (case split_csv_line line of None \<Rightarrow> Some (False, st\<lparr>rp_status := 1\<rparr>)
        | Some row \<Rightarrow>
            (case rp_header st of
               None \<Rightarrow>
                 (case parse_header row of None \<Rightarrow> Some (False, st\<lparr>rp_status := 1\<rparr>)
                  | Some header \<Rightarrow> Some (True, st\<lparr>rp_header := Some header\<rparr>))
             | Some header \<Rightarrow>
                 (case build_event header row of None \<Rightarrow> Some (False, st\<lparr>rp_status := 1\<rparr>)
                  | Some e \<Rightarrow> replay_event lm truth e st))))"

fun replay_loop ::
  "libm \<Rightarrow> replay_truth_row list option \<Rightarrow> string list \<Rightarrow> replay_state \<Rightarrow> replay_state option" where
  "replay_loop lm truth [] st = Some st"
| "replay_loop lm truth (line # rest) st = do {
     (continue, st) \<leftarrow> replay_line lm truth line st;
     if continue then replay_loop lm truth rest st else Some st }"

section \<open>The program\<close>

definition validate_expected_final :: "replay_config_extra \<Rightarrow> nav_snapshot \<Rightarrow> bool" where
  "validate_expected_final extra sn \<longleftrightarrow>
     \<not> (rx_has_expected_mode extra \<and> sn_nav_mode sn \<noteq> rx_expected_mode extra) \<and>
     \<not> (rx_has_expected_solution extra \<and> sn_solution_status sn \<noteq> rx_expected_solution extra) \<and>
     \<not> (rx_has_expected_source extra \<and> sn_solution_source sn \<noteq> rx_expected_source extra) \<and>
     \<not> (rx_has_expected_reject extra \<and> sn_reject_reason sn \<noteq> rx_expected_reject extra)"

text \<open>The configuration: the defaults of the tool, the file if there is one, and the id of the command line.\<close>

definition replay_setup_of :: "replay_options \<Rightarrow> string option option \<Rightarrow> replay_setup option" where
  "replay_setup_of options config_file =
     (let config = (nav_config_default (ro_node_id options))
            \<lparr>cfg_demo_force_gps_denied := True, cfg_min_anchor_triangle_area_m2 := Fin 10,
             cfg_degraded_anchor_triangle_area_m2 := Fin 100\<rparr>
      in case (case config_file of None \<Rightarrow> Some (config, replay_config_extra_init)
           | Some file \<Rightarrow> load_replay_config file (config, replay_config_extra_init)) of
           None \<Rightarrow> None
         | Some (config, extra) \<Rightarrow>
             Some (if ro_node_id_override options then config\<lparr>cfg_local_node_id := ro_node_id options\<rparr> else config, extra))"

definition replay_start :: "nav_config \<Rightarrow> replay_state" where
  "replay_start config =
     \<lparr>rp_sys = nav_core_set_logger (Some \<lparr>lg_callback = True, lg_min_level = NAV_LOG_TRACE\<rparr>) (nav_core_init (Some config)),
      rp_solution = write_solution_header, rp_peers = write_peers_header, rp_events_read = 0, rp_events_applied = 0,
      rp_solutions_written = 0, rp_compare_stats = replay_compare_stats_zero, rp_header = None,
      rp_last_time_ms = 0, rp_have_time = False, rp_status = 0\<rparr>"

text \<open>
  What follows the loop: a missing header line, the comparison, whose reports need two files
  (\<open>report_ok\<close>), and the expected final state.
\<close>

definition replay_status ::
  "replay_config_extra \<Rightarrow> replay_truth_row list option \<Rightarrow> bool \<Rightarrow> replay_state \<Rightarrow> int" where
  "replay_status extra truth report_ok st =
     (let status = (if rp_header st = None \<and> rp_status st = 0 then 1 else rp_status st);
          final = snd (nav_core_get_snapshot (rp_sys st));
          status = (if truth \<noteq> None \<and> (\<not> report_ok \<or> \<not> compare_stats_pass (rp_compare_stats st) extra) then 1 else status)
      in if validate_expected_final extra final then status else 1)"

text \<open>
  The program behind the opened output files, with the contents of the input files: a missing configuration or
  truth path is \<open>None\<close>, and a file that cannot be opened is \<open>Some None\<close>.
\<close>

definition replay_file ::
  "libm \<Rightarrow> replay_options \<Rightarrow> string option option \<Rightarrow> string option option \<Rightarrow> bool \<Rightarrow> string \<Rightarrow>
   (int \<times> replay_state option) option" where
  "replay_file lm options config_file truth_file report_ok events =
     (case replay_setup_of options config_file of None \<Rightarrow> Some (1, None)
      | Some (config, extra) \<Rightarrow>
          (case (case truth_file of None \<Rightarrow> Some None
              | Some file \<Rightarrow> map_option Some (load_truth_csv file)) of
             None \<Rightarrow> Some (1, None)
           | Some truth \<Rightarrow> do {
               st \<leftarrow> replay_loop lm truth (fgets_lines (REPLAY_MAX_LINE_LEN - 1) events) (replay_start config);
               Some (replay_status extra truth report_ok st, Some st) }))"

end
