(* ===== verification/Nav_Replay_Text.thy ===== *)
theory Nav_Replay_Text
  imports Nav_Replay Nav_Serial_Control
begin

text \<open>
  Properties of the text layer of the replay tool: the names that the parsers accept are those that the core
  prints, built events are typed, and the rows of the output files can be read back.
\<close>

section \<open>Names\<close>

text \<open>Each name parser is a lookup in its table.\<close>

lemma digit_chars: "char_of (48 :: nat) = CHR ''0''" "char_of (50 :: nat) = CHR ''2''" "char_of (51 :: nat) = CHR ''3''"
  "char_of (52 :: nat) = CHR ''4''" "char_of (53 :: nat) = CHR ''5''"
  using char_of_char [of "CHR ''0''", where ?'a = nat] char_of_char [of "CHR ''2''", where ?'a = nat]
    char_of_char [of "CHR ''3''", where ?'a = nat] char_of_char [of "CHR ''4''", where ?'a = nat]
    char_of_char [of "CHR ''5''", where ?'a = nat] by simp_all

lemma lookup_iff: "distinct (map fst t) \<Longrightarrow> map_of t s = Some m \<longleftrightarrow> (s, m) \<in> set t"
  by (rule map_of_eq_Some_iff)

lemma mode_name: "parse_nav_mode_text s = Some m \<longleftrightarrow> s = nav_mode_to_string m \<and> m \<notin> range NAV_MODE_RAW"
proof -
  let ?t = "[(''BOOT'', NAV_MODE_BOOT), (''GNSS_ACQUIRE'', NAV_MODE_GNSS_ACQUIRE),
     (''GNSS_OK'', NAV_MODE_GNSS_OK), (''GNSS_SUSPECT'', NAV_MODE_GNSS_SUSPECT),
     (''GPS_DENIED'', NAV_MODE_GPS_DENIED), (''RADIO_NAV_OK'', NAV_MODE_RADIO_NAV_OK),
     (''RADIO_NAV_DEGRADED'', NAV_MODE_RADIO_NAV_DEGRADED),
     (''NO_NAV_SOLUTION'', NAV_MODE_NO_NAV_SOLUTION),
     (''DEMO_FORCED_DENIED'', NAV_MODE_DEMO_FORCED_DENIED)]"
  have "parse_nav_mode_text s = map_of ?t s" by (simp add: parse_nav_mode_text_def)
  moreover have "distinct (map fst ?t)" by simp
  moreover have "(s, m) \<in> set ?t \<longleftrightarrow> s = nav_mode_to_string m \<and> m \<notin> range NAV_MODE_RAW"
    by (cases m) (simp_all add: image_iff)
  ultimately show ?thesis by (simp only: lookup_iff)
qed

lemma status_name: "parse_solution_status_text s = Some m \<longleftrightarrow> s = nav_solution_status_to_string m \<and> m \<notin> range NAV_SOLUTION_RAW"
proof -
  let ?t = "[(''NONE'', NAV_SOLUTION_NONE), (''GNSS_DIRECT'', NAV_SOLUTION_GNSS_DIRECT),
     (''RADIO_3D'', NAV_SOLUTION_RADIO_3D), (''DEGRADED'', NAV_SOLUTION_DEGRADED),
     (''REJECTED'', NAV_SOLUTION_REJECTED)]"
  have "parse_solution_status_text s = map_of ?t s" by (simp add: parse_solution_status_text_def)
  moreover have "distinct (map fst ?t)" by simp
  moreover have "(s, m) \<in> set ?t \<longleftrightarrow> s = nav_solution_status_to_string m \<and> m \<notin> range NAV_SOLUTION_RAW"
    by (cases m) (simp_all add: image_iff)
  ultimately show ?thesis by (simp only: lookup_iff)
qed

lemma source_name: "parse_solution_source_text s = Some m \<longleftrightarrow> s = nav_solution_source_to_string m \<and> m \<notin> range NAV_SOURCE_RAW"
proof -
  let ?t = "[(''NONE'', NAV_SOURCE_NONE), (''LOCAL_GNSS'', NAV_SOURCE_LOCAL_GNSS),
     (''RADIO_3D'', NAV_SOURCE_RADIO_3D), (''REPLAY'', NAV_SOURCE_REPLAY), (''SIM'', NAV_SOURCE_SIM)]"
  have "parse_solution_source_text s = map_of ?t s" by (simp add: parse_solution_source_text_def)
  moreover have "distinct (map fst ?t)" by simp
  moreover have "(s, m) \<in> set ?t \<longleftrightarrow> s = nav_solution_source_to_string m \<and> m \<notin> range NAV_SOURCE_RAW"
    by (cases m) (simp_all add: image_iff)
  ultimately show ?thesis by (simp only: lookup_iff)
qed

lemma reject_name: "parse_reject_reason_text s = Some m \<longleftrightarrow> s = nav_reject_reason_to_string m"
proof -
  let ?t = "[(''NONE'', NAV_REJECT_NONE), (''STALE_TELEMETRY'', NAV_REJECT_STALE_TELEMETRY),
     (''STALE_RANGE'', NAV_REJECT_STALE_RANGE), (''BAD_GNSS'', NAV_REJECT_BAD_GNSS),
     (''BAD_POSITION'', NAV_REJECT_BAD_POSITION), (''BAD_RANGE_SIGMA'', NAV_REJECT_BAD_RANGE_SIGMA),
     (''RANGE_OUTLIER'', NAV_REJECT_RANGE_OUTLIER), (''BAD_GEOMETRY'', NAV_REJECT_BAD_GEOMETRY),
     (''NOT_ENOUGH_ANCHORS'', NAV_REJECT_NOT_ENOUGH_ANCHORS),
     (''MISSING_LOCAL_ALTITUDE'', NAV_REJECT_MISSING_LOCAL_ALTITUDE),
     (''TRILATERATION_FAILED'', NAV_REJECT_TRILATERATION_FAILED)]"
  have "parse_reject_reason_text s = map_of ?t s" by (simp add: parse_reject_reason_text_def)
  moreover have "distinct (map fst ?t)" by simp
  moreover have "(s, m) \<in> set ?t \<longleftrightarrow> s = nav_reject_reason_to_string m"
    by (cases m) (simp_all add: image_iff)
  ultimately show ?thesis by (simp only: lookup_iff)
qed

lemma range_fail_name: "parse_range_fail_text s = Some m \<longleftrightarrow> s = nav_range_fail_reason_to_string m \<and> m \<notin> range NAV_RANGE_FAIL_RAW"
proof -
  let ?t = "[(''NONE'', NAV_RANGE_FAIL_NONE), (''TIMEOUT'', NAV_RANGE_FAIL_TIMEOUT),
     (''NO_RESPONSE'', NAV_RANGE_FAIL_NO_RESPONSE), (''RADIO_BUSY'', NAV_RANGE_FAIL_RADIO_BUSY),
     (''BAD_FRAME'', NAV_RANGE_FAIL_BAD_FRAME),
     (''RANGING_ENGINE_ERROR'', NAV_RANGE_FAIL_RANGING_ENGINE_ERROR),
     (''ABORTED'', NAV_RANGE_FAIL_ABORTED), (''UNKNOWN'', NAV_RANGE_FAIL_UNKNOWN)]"
  have "parse_range_fail_text s = map_of ?t s" by (simp add: parse_range_fail_text_def)
  moreover have "distinct (map fst ?t)" by simp
  moreover have "(s, m) \<in> set ?t \<longleftrightarrow> s = nav_range_fail_reason_to_string m \<and> m \<notin> range NAV_RANGE_FAIL_RAW"
    by (cases m) (simp_all add: image_iff)
  ultimately show ?thesis by (simp only: lookup_iff)
qed

lemma alt_source_name: "parse_alt_source_text s = Some m \<longleftrightarrow> s = nav_altitude_source_to_string m"
proof -
  let ?t = "[(''NONE'', NAV_ALT_SOURCE_NONE), (''GNSS'', NAV_ALT_SOURCE_GNSS), (''BARO'', NAV_ALT_SOURCE_BARO),
     (''FC'', NAV_ALT_SOURCE_FC), (''SIM'', NAV_ALT_SOURCE_SIM), (''MANUAL'', NAV_ALT_SOURCE_MANUAL)]"
  have "parse_alt_source_text s = map_of ?t s" by (simp add: parse_alt_source_text_def)
  moreover have "distinct (map fst ?t)" by simp
  moreover have "(s, m) \<in> set ?t \<longleftrightarrow> s = nav_altitude_source_to_string m"
    by (cases m) (simp_all add: image_iff)
  ultimately show ?thesis by (simp only: lookup_iff)
qed

lemma fix_name: "parse_fix_type_text s = Some m \<longleftrightarrow>
  (s = fix_type_to_string m \<or> s = fmt_d (nav_gnss_fix_type_code m)) \<and> m \<notin> range NAV_GNSS_FIX_RAW"
proof -
  let ?t = "[(''NONE'', NAV_GNSS_FIX_NONE), (''0'', NAV_GNSS_FIX_NONE), (''2D'', NAV_GNSS_FIX_2D), (''2'', NAV_GNSS_FIX_2D),
     (''3D'', NAV_GNSS_FIX_3D), (''3'', NAV_GNSS_FIX_3D), (''RTK_FLOAT'', NAV_GNSS_FIX_RTK_FLOAT),
     (''4'', NAV_GNSS_FIX_RTK_FLOAT), (''RTK_FIXED'', NAV_GNSS_FIX_RTK_FIXED), (''5'', NAV_GNSS_FIX_RTK_FIXED)]"
  have "parse_fix_type_text s = map_of ?t s" by (simp add: parse_fix_type_text_def)
  moreover have "distinct (map fst ?t)" by simp
  moreover have "(s, m) \<in> set ?t \<longleftrightarrow>
      (s = fix_type_to_string m \<or> s = fmt_d (nav_gnss_fix_type_code m)) \<and> m \<notin> range NAV_GNSS_FIX_RAW"
    by (cases m) (simp_all add: fmt_d_def digits.simps digit_chars image_iff)
  ultimately show ?thesis by (simp only: lookup_iff)
qed

text \<open>The name parsers of the replay tool accept exactly the names that the core prints, and give the printed
  value back: modes, solution states, sources, reject reasons, range failures and altitude sources; a fix type may
  also be given by its number.\<close>

theorem replay_names_round_trip:
  "(parse_nav_mode_text s = Some m \<longleftrightarrow> s = nav_mode_to_string m \<and> m \<notin> range NAV_MODE_RAW) \<and>
   (parse_solution_status_text s = Some st \<longleftrightarrow> s = nav_solution_status_to_string st \<and> st \<notin> range NAV_SOLUTION_RAW) \<and>
   (parse_solution_source_text s = Some so \<longleftrightarrow> s = nav_solution_source_to_string so \<and> so \<notin> range NAV_SOURCE_RAW) \<and>
   (parse_reject_reason_text s = Some r \<longleftrightarrow> s = nav_reject_reason_to_string r) \<and>
   (parse_range_fail_text s = Some f \<longleftrightarrow> s = nav_range_fail_reason_to_string f \<and> f \<notin> range NAV_RANGE_FAIL_RAW) \<and>
   (parse_alt_source_text s = Some a \<longleftrightarrow> s = nav_altitude_source_to_string a) \<and>
   (parse_fix_type_text s = Some x \<longleftrightarrow> (s = fix_type_to_string x \<or> s = fmt_d (nav_gnss_fix_type_code x)) \<and>
      x \<notin> range NAV_GNSS_FIX_RAW)"
  by (simp only: mode_name status_name source_name reject_name range_fail_name alt_source_name fix_name simp_thms)

section \<open>Typed events\<close>

definition replay_event_typed :: "replay_event_type \<times> nav_event \<Rightarrow> bool" where
  "replay_event_typed e = (case e of (kind, event) \<Rightarrow> (case ev_data event of
     NAV_EVT_TICK \<Rightarrow> kind = REPLAY_EVT_TICK
   | NAV_EVT_LOCAL_GNSS_SAMPLE g \<Rightarrow> kind = REPLAY_EVT_LOCAL_GNSS_SAMPLE \<and> gs_node_id g < 4 \<and>
       gs_fix_type g \<notin> range NAV_GNSS_FIX_RAW \<and> gs_timestamp_ms g = ev_timestamp_ms event
   | NAV_EVT_LOCAL_ALTITUDE_SAMPLE a \<Rightarrow> kind = REPLAY_EVT_LOCAL_ALTITUDE_SAMPLE \<and>
       la_timestamp_ms a = ev_timestamp_ms event
   | NAV_EVT_PEER_TELEMETRY_RX b \<Rightarrow> kind = REPLAY_EVT_PEER_BEACON_RX \<and> pt_node_id (br_telemetry b) < 4 \<and>
       pt_fix_type (br_telemetry b) \<notin> range NAV_GNSS_FIX_RAW \<and> pt_nav_mode (br_telemetry b) \<notin> range NAV_MODE_RAW \<and>
       (pt_gnss_valid (br_telemetry b) \<longrightarrow> position_valid (pt_position (br_telemetry b))) \<and>
       pt_timestamp_ms (br_telemetry b) = ev_timestamp_ms event
   | NAV_EVT_RANGE_RESULT r \<Rightarrow> kind = REPLAY_EVT_RANGE_RESULT \<and> rr_peer_id r < 4 \<and>
       rr_timestamp_ms r = ev_timestamp_ms event
   | NAV_EVT_RANGE_FAIL f \<Rightarrow> kind = REPLAY_EVT_RANGE_FAIL \<and> rf_peer_id f < 4 \<and>
       rf_reason f \<notin> range NAV_RANGE_FAIL_RAW \<and> rf_timestamp_ms f = ev_timestamp_ms event
   | _ \<Rightarrow> False))"

lemma parse_i64_bounds: "parse_i64 t lo hi = Some v \<Longrightarrow> lo \<le> v \<and> v \<le> hi"
  by (auto simp: parse_i64_def split: if_splits prod.splits)

lemma required_id:
  assumes "parse_required_i64 h row c 0 3 = Some v"
  shows "(word_of_int v :: u8) < 4"
proof -
  have "0 \<le> v \<and> v \<le> 3" using assms by (auto simp: parse_required_i64_def dest: parse_i64_bounds split: if_splits)
  then have "v \<in> {0, 1, 2, 3}" by auto
  then show ?thesis by auto
qed

lemma required_nameD: "required_name h row c p = Some x \<Longrightarrow> p (replay_field h row c) = Some x"
  by (simp add: required_name_def split: if_splits)

lemma named_types:
  "required_name h row c parse_fix_type_text = Some x \<Longrightarrow> x \<notin> range NAV_GNSS_FIX_RAW"
  "required_name h row c parse_nav_mode_text = Some m \<Longrightarrow> m \<notin> range NAV_MODE_RAW"
  "required_name h row c parse_range_fail_text = Some f \<Longrightarrow> f \<notin> range NAV_RANGE_FAIL_RAW"
  by (auto dest!: required_nameD simp: fix_name mode_name range_fail_name)

text \<open>What each of the row readers guarantees.\<close>

lemma build_typed:
  "build_gnss h row n = Some g \<Longrightarrow> gs_node_id g < 4 \<and> gs_fix_type g \<notin> range NAV_GNSS_FIX_RAW \<and> gs_timestamp_ms g = n"
  "build_altitude h row n = Some a \<Longrightarrow> la_timestamp_ms a = n"
  "build_beacon h row n = Some b \<Longrightarrow> pt_node_id (br_telemetry b) < 4 \<and>
     pt_fix_type (br_telemetry b) \<notin> range NAV_GNSS_FIX_RAW \<and> pt_nav_mode (br_telemetry b) \<notin> range NAV_MODE_RAW \<and>
     (pt_gnss_valid (br_telemetry b) \<longrightarrow> position_valid (pt_position (br_telemetry b))) \<and> pt_timestamp_ms (br_telemetry b) = n"
  "build_range h row n = Some r \<Longrightarrow> rr_peer_id r < 4 \<and> rr_timestamp_ms r = n"
  "build_range_failure h row n = Some f \<Longrightarrow> rf_peer_id f < 4 \<and> rf_reason f \<notin> range NAV_RANGE_FAIL_RAW \<and> rf_timestamp_ms f = n"
  subgoal by (auto simp: build_gnss_def bind_eq_Some_conv dest: required_id named_types)
  subgoal by (auto simp: build_altitude_def bind_eq_Some_conv)
  subgoal by (auto simp: build_beacon_def bind_eq_Some_conv position_valid_def position_valid_e7_def
        dest: required_id named_types split: if_splits)
  subgoal by (auto simp: build_range_def bind_eq_Some_conv dest: required_id)
  subgoal by (auto simp: build_range_failure_def bind_eq_Some_conv dest: required_id named_types)
  done

text \<open>Every event that the tool builds from a row is typed: its data belong to the kind of the row, the node ids are
  below 4, every enumeration holds one of its named values, a beacon that claims GNSS has a valid position, and
  all timestamps are the time of the row.\<close>

theorem build_event_typed:
  assumes "build_event h row = Some e"
  shows "replay_event_typed e"
proof -
  obtain kind where "required_name h row COL_EVENT_TYPE parse_event_type_text = Some kind"
    using assms by (auto simp: build_event_def bind_eq_Some_conv Let_def)
  then show ?thesis using assms
    by (cases kind) (auto simp: build_event_def bind_eq_Some_conv replay_event_typed_def Let_def dest: build_typed)
qed

definition run_header :: replay_header where
  "run_header c = (if c = COL_TIME_MS then 0 else if c = COL_EVENT_TYPE then 1 else if c = COL_PEER_ID then 2
     else if c = COL_REQUEST_ID then 3 else if c = COL_RANGE_FAIL_REASON then 4 else - 1)"

theorem build_event_typed_witness:
  "replay_event_typed (REPLAY_EVT_RANGE_FAIL, \<lparr>ev_timestamp_ms = 7, ev_data = NAV_EVT_RANGE_FAIL
     \<lparr>rf_peer_id = 2, rf_request_id = 5, rf_timestamp_ms = 7, rf_reason = NAV_RANGE_FAIL_TIMEOUT\<rparr>\<rparr>)"
proof (rule build_event_typed)
  show "build_event run_header [''7'', ''RANGE_FAIL'', ''2'', ''5'', ''TIMEOUT''] = Some (REPLAY_EVT_RANGE_FAIL,
     \<lparr>ev_timestamp_ms = 7, ev_data = NAV_EVT_RANGE_FAIL
     \<lparr>rf_peer_id = 2, rf_request_id = 5, rf_timestamp_ms = 7, rf_reason = NAV_RANGE_FAIL_TIMEOUT\<rparr>\<rparr>)"
    by (simp add: build_event_def build_range_failure_def parse_required_i64_def required_name_def field_required_def
        replay_field_def indexed_field_def run_header_def parse_i64_def strtol_def scan_sign_def isspace_def isdigit_def
        code_def digits_value_def xdigit_def parse_event_type_text_def parse_range_fail_text_def)
qed

section \<open>Reading rows back\<close>

text \<open>A text without white space and commas is a field.\<close>

definition csv_word :: "string \<Rightarrow> bool" where
  "csv_word f \<longleftrightarrow> list_all (\<lambda>c. \<not> isspace c \<and> c \<noteq> CHR '','') f \<and> length f < REPLAY_MAX_FIELD_LEN"

lemma trim_word: "list_all (\<lambda>c. \<not> isspace c) f \<Longrightarrow> trim f = f"
proof -
  assume "list_all (\<lambda>c. \<not> isspace c) f"
  then have "dropWhile isspace f = f" "dropWhile isspace (rev f) = rev f"
    by (auto simp: dropWhile_eq_self_iff list_all_iff hd_rev dest: last_in_set)
  then show ?thesis by (simp add: trim_def)
qed

lemma add_word: "csv_word f \<Longrightarrow> length row < REPLAY_MAX_COLUMNS \<Longrightarrow> add_field row f = Some (row @ [f])"
  using trim_word [of f] by (auto simp: add_field_def csv_word_def list_all_iff)

lemma split_loop_word:
  "list_all (\<lambda>c. \<not> isspace c \<and> c \<noteq> CHR '','') f \<Longrightarrow> split_csv_loop start (f @ p) row = split_csv_loop (start @ f) p row"
proof (induction f arbitrary: start)
  case (Cons c f)
  then have "c \<noteq> CHR '',''" "c \<noteq> CHR 0x0A" "c \<noteq> CHR 0x0D" by (auto simp: isspace_def)
  then show ?case using Cons by simp
qed simp

lemma split_comma_separated:
  "fs \<noteq> [] \<Longrightarrow> list_all csv_word fs \<Longrightarrow> length row + length fs \<le> REPLAY_MAX_COLUMNS \<Longrightarrow>
   split_csv_loop [] (comma_separated fs @ newline) row = Some (row @ fs)"
proof (induction fs arbitrary: row rule: comma_separated.induct)
  case (2 s)
  then have "list_all (\<lambda>c. \<not> isspace c \<and> c \<noteq> CHR '','') s" by (simp add: csv_word_def)
  then show ?case using 2 add_word [of s row] by (simp add: split_loop_word)
next
  case (3 s t ss)
  then have "list_all (\<lambda>c. \<not> isspace c \<and> c \<noteq> CHR '','') s" by (simp add: csv_word_def)
  then show ?case using 3 add_word [of s row] by (simp add: split_loop_word)
qed simp

lemma digit_word: "isdigit c \<Longrightarrow> \<not> isspace c \<and> c \<noteq> CHR '',''"
  using digit_not_space by (auto simp: isdigit_def code_def)

lemma digits_chars: "list_all (\<lambda>c. \<not> isspace c \<and> c \<noteq> CHR '','') (digits n)"
  using digits_number [of n] digit_word by (auto simp: list_all_iff)

lemma word_u: "n < 10 ^ 90 \<Longrightarrow> csv_word (fmt_u n)"
  using digits_chars [of n] digits_length [of n 90] by (simp add: csv_word_def fmt_u_def)

lemma word_d: "\<bar>i\<bar> < 10 ^ 90 \<Longrightarrow> csv_word (fmt_d i)"
  using digits_chars digits_length [of "nat i" 90] digits_length [of "nat (- i)" 90]
  by (auto simp: csv_word_def fmt_d_def isspace_def nat_less_iff)

text \<open>The values of type \<^verbatim>\<open>float\<close> have fewer than 40 digits in front of the point.\<close>

definition float_value :: "fp \<Rightarrow> bool" where
  "float_value x = (case x of Fin q \<Rightarrow> \<bar>q\<bar> \<le> fmt_max binary32 | _ \<Rightarrow> True)"

lemma word_append:
  "list_all (\<lambda>c. \<not> isspace c \<and> c \<noteq> CHR '','') f \<Longrightarrow> csv_word g \<Longrightarrow> length f + length g < 96 \<Longrightarrow> csv_word (f @ g)"
  by (simp add: csv_word_def)

lemma word_f:
  assumes "float_value x" "k \<le> 6"
  shows "csv_word (fmt_f k x)"
proof (cases x)
  case (Fin q)
  define n where "n = nat (rne (\<bar>q\<bar> * 10 ^ k))"
  have q: "\<bar>q\<bar> \<le> 2 ^ 128" using assms(1) Fin by (simp add: float_value_def binary32_def)
  have "(10 :: rat) ^ k \<le> 10 ^ 6" using assms(2) by (intro power_increasing) auto
  then have "\<bar>q\<bar> * 10 ^ k \<le> 2 ^ 128 * 10 ^ 6" using q by (intro mult_mono) auto
  then have "rne (\<bar>q\<bar> * 10 ^ k) \<le> 2 ^ 128 * 10 ^ 6" by (intro rne_le_of_int) simp
  then have "n \<le> 2 ^ 128 * 10 ^ 6" unfolding n_def by simp
  also have "\<dots> < (10 :: nat) ^ 50" by simp
  finally have "n < 10 ^ 50" .
  then have "n div 10 ^ k < 10 ^ 50" by (meson div_le_dividend le_less_trans)
  then have a: "length (digits (n div 10 ^ k)) \<le> 50" by (intro digits_length) auto
  have "n mod 10 ^ k < 10 ^ Suc k" by (rule less_trans [of _ "10 ^ k"]) auto
  then have "length (digits (n mod 10 ^ k)) \<le> Suc k" by (intro digits_length) auto
  then have b: "length (pad_zeros k (digits (n mod 10 ^ k))) \<le> 7" using assms(2) by (simp add: pad_zeros_def)
  let ?P = "\<lambda>c. \<not> isspace c \<and> c \<noteq> CHR '',''"
  have z: "?P (CHR ''0'')" "?P (CHR ''-'')" "?P (CHR ''.'')" by (simp_all add: isspace_def)
  have "list_all ?P (pad_zeros k (digits (n mod 10 ^ k)))"
    using z digits_chars unfolding pad_zeros_def list_all_append by (simp add: list_all_iff)
  moreover have "list_all ?P (if q < 0 then ''-'' else '''')" "list_all ?P ''.''" using z by simp_all
  moreover have "fmt_f k x = (if q < 0 then ''-'' else '''') @ digits (n div 10 ^ k) @ ''.'' @ pad_zeros k (digits (n mod 10 ^ k))"
    unfolding Fin fmt_f.simps Let_def n_def ..
  moreover have "length (if q < 0 then ''-'' else '''') \<le> 1" by simp
  ultimately show ?thesis using a b digits_chars [of "n div 10 ^ k"] unfolding csv_word_def
    by (simp only: list_all_append length_append list.size) simp
qed (simp_all add: csv_word_def isspace_def)

lemma word_names:
  "csv_word (nav_mode_to_string m)" "csv_word (nav_solution_status_to_string st)" "csv_word (nav_solution_source_to_string so)"
  "csv_word (nav_reject_reason_to_string r)" "csv_word (nav_altitude_source_to_string a)" "csv_word (fix_type_to_string x)"
  subgoal by (cases m) (simp_all add: csv_word_def isspace_def)
  subgoal by (cases st) (simp_all add: csv_word_def isspace_def)
  subgoal by (cases so) (simp_all add: csv_word_def isspace_def)
  subgoal by (cases r) (simp_all add: csv_word_def isspace_def)
  subgoal by (cases a) (simp_all add: csv_word_def isspace_def)
  subgoal by (cases x) (simp_all add: csv_word_def isspace_def)
  done

lemma unat_word_90: "unat (w :: 'a::len word) < 10 ^ 90" if "LENGTH('a) \<le> 64"
proof -
  have "unat w < 2 ^ LENGTH('a)" by (rule unsigned_less)
  also have "\<dots> \<le> 2 ^ 64" using that by (intro power_increasing) auto
  also have "\<dots> < (10 :: nat) ^ 90" by simp
  finally show ?thesis .
qed

lemma sint_word_90: "\<bar>sint (w :: 'a::len word)\<bar> < 10 ^ 90" if "LENGTH('a) \<le> 64"
proof -
  have "- (2 ^ (LENGTH('a) - 1)) \<le> sint w" "sint w < 2 ^ (LENGTH('a) - 1)" by (rule sint_ge, rule sint_lt)
  moreover have "(2 :: int) ^ (LENGTH('a) - 1) \<le> 2 ^ 64" using that by (intro power_increasing) auto
  moreover have "(2 :: int) ^ 64 < 10 ^ 90" by simp
  ultimately show ?thesis by linarith
qed

lemmas field_words = word_u [OF unat_word_90] word_d [OF sint_word_90] word_f word_names

lemma parse_d: "- (2 ^ 62) \<le> lo \<Longrightarrow> lo \<le> v \<Longrightarrow> v \<le> hi \<Longrightarrow> hi \<le> 2 ^ 62 \<Longrightarrow> parse_i64 (fmt_d v) lo hi = Some v"
  using strtol_fmt_d [of 64 v "[]"] fmt_d_hd [of v] by (auto simp: parse_i64_def)

lemma parse_u: "int n \<le> hi \<Longrightarrow> hi \<le> 2 ^ 62 \<Longrightarrow> parse_i64 (fmt_u n) 0 hi = Some (int n)"
  using parse_d [of 0 "int n" hi] by (simp add: fmt_u_def fmt_d_def)

lemma u_limits: "(255 :: int) \<le> 2 ^ 62" "(4294967295 :: int) \<le> 2 ^ 62"
  by simp_all

lemma parse_words:
  "parse_i64 (fmt_u (unat (a :: u32))) 0 UINT32_MAX = Some (uint a)"
  "parse_i64 (fmt_u (unat (b :: u8))) 0 UINT8_MAX = Some (uint b)"
  "parse_i64 (fmt_d (sint (c :: i32))) I32_MIN I32_MAX = Some (sint c)"
proof -
  have "unat a < 2 ^ 32" "unat b < 2 ^ 8" using unsigned_less [of a] unsigned_less [of b] by simp_all
  moreover have "int n \<le> UINT32_MAX" if "n < 2 ^ 32" for n using that by simp
  moreover have "int n \<le> UINT8_MAX" if "n < 2 ^ 8" for n using that by simp
  ultimately show "parse_i64 (fmt_u (unat a)) 0 UINT32_MAX = Some (uint a)"
    "parse_i64 (fmt_u (unat b)) 0 UINT8_MAX = Some (uint b)"
    unfolding uint_nat by (metis parse_u u_limits)+
  have "- (2 ^ 31) \<le> sint c" "sint c < 2 ^ 31" using sint_ge [of c] sint_lt [of c] by simp_all
  then show "parse_i64 (fmt_d (sint c)) I32_MIN I32_MAX = Some (sint c)" by (intro parse_d) simp_all
qed

text \<open>The cell of a row under the name of its column.\<close>

definition csv_cell :: "string \<Rightarrow> string \<Rightarrow> string \<Rightarrow> string option" where
  "csv_cell header row name = (case (split_csv_line header, split_csv_line row) of
     (Some names, Some cells) \<Rightarrow> if length names = length cells then map_of (zip names cells) name else None
   | _ \<Rightarrow> None)"

definition snapshot_floats :: "nav_snapshot \<Rightarrow> bool" where
  "snapshot_floats sn \<longleftrightarrow> float_value (sn_residual_rms_m sn) \<and> float_value (sn_max_residual_m sn) \<and>
     float_value (sn_geometry_score sn) \<and> float_value (sn_anchor_triangle_area_m2 sn) \<and> float_value (sn_total_quality sn)"

definition peer_floats :: "nav_peer_state \<Rightarrow> bool" where
  "peer_floats p \<longleftrightarrow> float_value (ps_telemetry_quality p) \<and> float_value (ps_range_quality p) \<and>
     float_value (ps_anchor_quality p) \<and> float_value (ps_last_residual_m p)"

lemma split_written: "list_all csv_word fs \<Longrightarrow> fs \<noteq> [] \<Longrightarrow> length fs \<le> REPLAY_MAX_COLUMNS \<Longrightarrow>
   split_csv_line (comma_separated fs @ newline) = Some fs"
  using split_comma_separated [of fs "[]"] by (simp add: split_csv_line_def)

lemma split_headers:
  "split_csv_line write_solution_header = Some solution_columns"
  "split_csv_line write_peers_header = Some peers_columns"
  unfolding write_solution_header_def write_peers_header_def
  by (rule split_written; simp add: solution_columns_def peers_columns_def csv_word_def isspace_def)+

lemma split_solution_row: "snapshot_floats sn \<Longrightarrow> split_csv_line (write_solution_row sn) = Some (solution_cells sn)"
  unfolding write_solution_row_def snapshot_floats_def
  by (rule split_written) (simp_all add: solution_cells_def field_words word_u)

lemma split_peer_row: "peer_floats p \<Longrightarrow> split_csv_line (peer_row sys n i p) = Some (peer_cells sys n i p)"
  unfolding peer_row_def peer_floats_def
  by (rule split_written) (simp_all add: peer_cells_def field_words word_u csv_word_def [of "''1''"] isspace_def)

lemma solution_cell: "snapshot_floats sn \<Longrightarrow>
   csv_cell write_solution_header (write_solution_row sn) name = map_of (zip solution_columns (solution_cells sn)) name"
  by (simp add: csv_cell_def split_headers split_solution_row) (simp add: solution_columns_def solution_cells_def)

text \<open>The output files of the replay can be read back: a row of \<^verbatim>\<open>solution.csv\<close> or \<^verbatim>\<open>peers.csv\<close> splits into as many
  cells as its header, and the cells under the names of the columns give the time, the node, the position, the mode,
  the status, the source, the reject reason and the altitude source of the snapshot.\<close>

theorem output_rows_read_back:
  assumes "snapshot_floats sn" "peer_floats p"
  defines "cell \<equiv> csv_cell write_solution_header (write_solution_row sn)"
  shows "split_csv_line (peer_row sys n i p) = Some (peer_cells sys n i p) \<and> length (peer_cells sys n i p) = length peers_columns \<and>
    (cell ''time_ms'' \<bind> (\<lambda>t. parse_i64 t 0 UINT32_MAX)) = Some (uint (sn_time_ms sn)) \<and>
    (cell ''node_id'' \<bind> (\<lambda>t. parse_i64 t 0 UINT8_MAX)) = Some (uint (sn_node_id sn)) \<and>
    (cell ''lat_e7'' \<bind> (\<lambda>t. parse_i64 t I32_MIN I32_MAX)) = Some (sint (lat_e7 (sn_position sn))) \<and>
    (cell ''lon_e7'' \<bind> (\<lambda>t. parse_i64 t I32_MIN I32_MAX)) = Some (sint (lon_e7 (sn_position sn))) \<and>
    (cell ''alt_mm'' \<bind> (\<lambda>t. parse_i64 t I32_MIN I32_MAX)) = Some (sint (alt_mm (sn_position sn))) \<and>
    cell ''nav_mode'' = Some (nav_mode_to_string (sn_nav_mode sn)) \<and>
    cell ''solution_status'' = Some (nav_solution_status_to_string (sn_solution_status sn)) \<and>
    cell ''solution_source'' = Some (nav_solution_source_to_string (sn_solution_source sn)) \<and>
    (cell ''reject_reason'' \<bind> parse_reject_reason_text) = Some (sn_reject_reason sn) \<and>
    (cell ''altitude_source'' \<bind> parse_alt_source_text) = Some (sn_altitude_source sn)"
proof -
  have "length (peer_cells sys n i p) = length peers_columns" by (simp add: peer_cells_def peers_columns_def)
  moreover have "cell c = map_of (zip solution_columns (solution_cells sn)) c" for c
    unfolding cell_def by (rule solution_cell [OF assms(1)])
  ultimately show ?thesis using split_peer_row [OF assms(2)]
    by (simp add: solution_columns_def solution_cells_def parse_words reject_name alt_source_name)
qed

theorem output_rows_read_back_witness:
  "csv_cell write_solution_header (write_solution_row nav_snapshot_zero) ''nav_mode'' = Some ''BOOT'' \<and>
   split_csv_line (peer_row (nav_core_init None) 9 1 nav_peer_state_zero)
     = Some (peer_cells (nav_core_init None) 9 1 nav_peer_state_zero)"
proof -
  have "snapshot_floats nav_snapshot_zero" "peer_floats nav_peer_state_zero"
    by (simp_all add: snapshot_floats_def peer_floats_def nav_snapshot_zero_def nav_peer_state_zero_def float_value_def
        binary32_def)
  from output_rows_read_back [OF this, of "nav_core_init None" 9 1] show ?thesis by (simp add: nav_snapshot_zero_def)
qed

end
