(* ===== verification/Nav_Replay_Run.thy ===== *)
theory Nav_Replay_Run
  imports Nav_Replay_Text Nav_Core_Run
begin

text \<open>
  What the replay does with a well-formed event file: it drives the core with the calls that the rows ask for, its
  files hold one row per event, and its verdict bounds every compared error.
\<close>

section \<open>The calls of an event list\<close>

fun run_calls :: "libm \<Rightarrow> nav_call list \<Rightarrow> nav_system \<Rightarrow> nav_system option" where
  "run_calls lm [] s = Some s"
| "run_calls lm (Call_tick n # cs) s = nav_core_tick lm n s \<bind> run_calls lm cs"
| "run_calls lm (Call_event e # cs) s = nav_core_handle_event lm e s \<bind> run_calls lm cs"
| "run_calls lm (Call_logger l # cs) s = run_calls lm cs (nav_core_set_logger l s)"

lemma run_calls_reachable: "run_calls lm cs s = Some s' \<Longrightarrow> nav_reachable lm s \<Longrightarrow> nav_reachable lm s'"
  by (induction lm cs s rule: run_calls.induct) (auto simp: bind_eq_Some_conv intro: nav_step.intros reach_step)

text \<open>A row that is no tick is preceded by a tick when time has moved on since the last row.\<close>

definition event_calls :: "bool \<Rightarrow> u32 \<Rightarrow> replay_event_type \<times> nav_event \<Rightarrow> nav_call list" where
  "event_calls seen prev e = (case e of (kind, event) \<Rightarrow> (let now = ev_timestamp_ms event in
     if kind = REPLAY_EVT_TICK then [Call_tick now]
     else if seen \<and> prev < now then [Call_tick now, Call_event (Some event)]
     else [Call_event (Some event)]))"

abbreviation time_of :: "replay_event_type \<times> nav_event \<Rightarrow> u32" where
  "time_of e \<equiv> ev_timestamp_ms (snd e)"

text \<open>The states of the core behind each event.\<close>

fun replay_trace ::
  "libm \<Rightarrow> bool \<Rightarrow> u32 \<Rightarrow> (replay_event_type \<times> nav_event) list \<Rightarrow> nav_system \<Rightarrow> nav_system list option" where
  "replay_trace lm seen prev [] s = Some []"
| "replay_trace lm seen prev (e # es) s = do {
     s' \<leftarrow> run_calls lm (event_calls seen prev e) s;
     ss \<leftarrow> replay_trace lm True (time_of e) es s';
     Some (s' # ss) }"

fun times_ok :: "bool \<Rightarrow> u32 \<Rightarrow> (replay_event_type \<times> nav_event) list \<Rightarrow> bool" where
  "times_ok seen prev [] = True"
| "times_ok seen prev (e # es) = ((seen \<longrightarrow> prev \<le> time_of e) \<and> times_ok True (time_of e) es)"

lemma trace_length: "replay_trace lm seen prev es s = Some tr \<Longrightarrow> length tr = length es"
  by (induction es arbitrary: seen prev s tr) (auto simp: bind_eq_Some_conv)

lemma trace_reachable:
  "replay_trace lm seen prev es s = Some tr \<Longrightarrow> nav_reachable lm s \<Longrightarrow> \<forall>s' \<in> set tr. nav_reachable lm s'"
proof (induction es arbitrary: seen prev s tr)
  case (Cons e es)
  then obtain s1 ss where s1: "run_calls lm (event_calls seen prev e) s = Some s1"
    "replay_trace lm True (time_of e) es s1 = Some ss" "tr = s1 # ss" by (auto simp: bind_eq_Some_conv)
  have "nav_reachable lm s1" by (rule run_calls_reachable [OF s1(1) Cons.prems(2)])
  then show ?case using Cons.IH [OF s1(2)] s1(3) by simp
qed simp

lemma run_calls_Nil: "run_calls lm [] = Some"
  by (simp add: fun_eq_iff)

lemma run_calls_single: "run_calls lm [Call_event e] = nav_core_handle_event lm e" "run_calls lm [Call_tick n] = nav_core_tick lm n"
  by (simp_all add: fun_eq_iff run_calls_Nil)

lemma drive_calls: "drive_core lm kind event st
    = run_calls lm (event_calls (rp_have_time st) (rp_last_time_ms st) (kind, event)) (rp_sys st)"
  by (auto simp: drive_core_def event_calls_def run_calls_single run_calls_Nil Let_def)

section \<open>The loop\<close>

text \<open>The state of the loop after the events \<open>es\<close> with the core states \<open>tr\<close>.\<close>

definition replay_after :: "libm \<Rightarrow> replay_truth_row list option \<Rightarrow> (replay_event_type \<times> nav_event) list \<Rightarrow> nav_system list
    \<Rightarrow> replay_state \<Rightarrow> replay_state" where
  "replay_after lm truth es tr st = st
     \<lparr>rp_sys := last (rp_sys st # tr),
      rp_solution := rp_solution st @ concat (map (\<lambda>s. write_solution_row (sy_snapshot s)) tr),
      rp_peers := rp_peers st @ concat (map2 (\<lambda>s e. write_peers_rows s (time_of e)) tr es),
      rp_events_read := rp_events_read st + of_nat (length es),
      rp_events_applied := rp_events_applied st + of_nat (length es),
      rp_solutions_written := rp_solutions_written st + of_nat (length es),
      rp_compare_stats := (case truth of None \<Rightarrow> rp_compare_stats st
        | Some t \<Rightarrow> fold (\<lambda>s. compare_snapshot_with_truth lm (sy_snapshot s) t) tr (rp_compare_stats st)),
      rp_last_time_ms := (if es = [] then rp_last_time_ms st else time_of (last es)),
      rp_have_time := rp_have_time st \<or> es \<noteq> []\<rparr>"

fun row_events :: "replay_header \<Rightarrow> string list \<Rightarrow> (replay_event_type \<times> nav_event) list option" where
  "row_events h [] = Some []"
| "row_events h (line # rest) =
     (if line_is_ignored line then row_events h rest
      else do {
        row \<leftarrow> split_csv_line line;
        e \<leftarrow> build_event h row;
        es \<leftarrow> row_events h rest;
        Some (e # es) })"

lemma replay_event_ok:
  assumes "rp_have_time st \<longrightarrow> rp_last_time_ms st \<le> time_of e"
  shows "replay_event lm truth e st = map_option (\<lambda>s. (True, replay_after lm truth [e] [s] st))
    (run_calls lm (event_calls (rp_have_time st) (rp_last_time_ms st) e) (rp_sys st))"
proof (cases "run_calls lm (event_calls (rp_have_time st) (rp_last_time_ms st) e) (rp_sys st)")
  case None
  then show ?thesis using assms by (cases e) (auto simp: replay_event_def drive_calls)
next
  case (Some s)
  then show ?thesis using assms
    by (cases e; cases truth) (auto simp: replay_event_def drive_calls emit_outputs_def nav_core_get_snapshot_def
        replay_after_def Let_def)
qed

lemma replay_after_Cons:
  "replay_after lm truth es tr (replay_after lm truth [e] [s] st) = replay_after lm truth (e # es) (s # tr) st"
  by (cases truth) (auto simp: replay_after_def)

lemma replay_rows:
  assumes "rp_header st = Some h" "row_events h lines = Some es" "times_ok (rp_have_time st) (rp_last_time_ms st) es"
  shows "replay_loop lm truth lines st = map_option (\<lambda>tr. replay_after lm truth es tr st)
    (replay_trace lm (rp_have_time st) (rp_last_time_ms st) es (rp_sys st))"
  using assms
proof (induction lines arbitrary: es st)
  case Nil
  then show ?case by (cases truth) (simp_all add: replay_after_def)
next
  case (Cons line rest)
  show ?case
  proof (cases "line_is_ignored line")
    case True
    then show ?thesis using Cons by (simp add: replay_line_def)
  next
    case False
    then obtain row e fs where e: "split_csv_line line = Some row" "build_event h row = Some e"
      "row_events h rest = Some fs" "es = e # fs"
      using Cons.prems(2) by (auto simp: bind_eq_Some_conv)
    have t: "rp_have_time st \<longrightarrow> rp_last_time_ms st \<le> time_of e" "times_ok True (time_of e) fs"
      using Cons.prems(3) e(4) by auto
    have line: "replay_line lm truth line st = map_option (\<lambda>s. (True, replay_after lm truth [e] [s] st))
        (run_calls lm (event_calls (rp_have_time st) (rp_last_time_ms st) e) (rp_sys st))"
      using False e Cons.prems(1) replay_event_ok [OF t(1)] by (simp add: replay_line_def)
    show ?thesis
    proof (cases "run_calls lm (event_calls (rp_have_time st) (rp_last_time_ms st) e) (rp_sys st)")
      case None
      then show ?thesis using line e(4) by simp
    next
      case (Some s)
      let ?st = "replay_after lm truth [e] [s] st"
      have sel: "rp_header ?st = Some h" "rp_have_time ?st" "rp_last_time_ms ?st = time_of e" "rp_sys ?st = s"
        using Cons.prems(1) by (simp_all add: replay_after_def)
      have "replay_loop lm truth rest ?st = map_option (\<lambda>tr. replay_after lm truth fs tr ?st) (replay_trace lm True (time_of e) fs s)"
        using Cons.IH [OF sel(1) e(3)] t(2) sel by simp
      then show ?thesis using line Some e(4)
        by (cases "replay_trace lm True (time_of e) fs s") (simp_all add: replay_after_Cons)
    qed
  qed
qed

lemma replay_ignored: "list_all line_is_ignored pre \<Longrightarrow> replay_loop lm truth (pre @ lines) st = replay_loop lm truth lines st"
  by (induction pre) (simp_all add: replay_line_def)

section \<open>Headers\<close>

lemma fold_updates: "fold (\<lambda>e index. if s = name e then index(e := v) else index) ex f
    = (\<lambda>e. if e \<in> set ex \<and> s = name e then v else f e)"
  by (induction ex arbitrary: f) (auto simp: fun_eq_iff)

lemma index_columns_eq: "index_columns name ex row
    = fold (\<lambda>col index e. if e \<in> set ex \<and> row ! col = name e then int col else index e) [0..<length row] (\<lambda>e. - 1)"
  by (simp add: index_columns_def fold_updates)

text \<open>The index of a column is its last position in the header.\<close>

lemma index_columns_snoc: "index_columns name ex (row @ [s])
    = (\<lambda>e. if e \<in> set ex \<and> s = name e then int (length row) else index_columns name ex row e)"
proof -
  have "fold (\<lambda>col index e. if e \<in> set ex \<and> (row @ [s]) ! col = name e then int col else index e)
      [0..<length row] (\<lambda>e. - 1) = index_columns name ex row"
    unfolding index_columns_eq by (rule fold_cong) (auto simp: nth_append)
  then show ?thesis unfolding index_columns_eq [of _ _ "row @ [s]"] by (simp cong: if_cong)
qed

lemma index_columns_found:
  "e \<in> set ex \<Longrightarrow> name e \<in> set row \<Longrightarrow> 0 \<le> index_columns name ex row e \<and>
     nat (index_columns name ex row e) < length row \<and> row ! nat (index_columns name ex row e) = name e"
  by (induction row rule: rev_induct) (auto simp: index_columns_snoc nth_append)

lemma index_columns_missing: "name e \<notin> set row \<Longrightarrow> index_columns name ex row e = - 1"
proof (induction row rule: rev_induct)
  case Nil
  then show ?case by (simp add: index_columns_def)
qed (auto simp: index_columns_snoc)

lemma columns_complete: "c \<in> set replay_columns"
  by (cases c) (simp_all add: replay_columns_def)

lemma parse_header_iff: "parse_header row \<noteq> None \<longleftrightarrow> (\<forall>c. column_name c \<in> set row)"
proof -
  have "index_columns column_name replay_columns row c < 0 \<longleftrightarrow> column_name c \<notin> set row" for c
    using index_columns_found [of c replay_columns column_name row] index_columns_missing [of column_name c row replay_columns]
      columns_complete [of c] by auto
  then show ?thesis using columns_complete by (auto simp: parse_header_def Let_def)
qed

section \<open>The whole file\<close>

text \<open>The events of a file: the first line that counts is the header.\<close>

fun file_events :: "string list \<Rightarrow> (replay_event_type \<times> nav_event) list option" where
  "file_events [] = None"
| "file_events (line # rest) =
     (if line_is_ignored line then file_events rest
      else do {
        row \<leftarrow> split_csv_line line;
        h \<leftarrow> parse_header row;
        row_events h rest })"

lemma rows_rejected:
  assumes "rp_header st = Some h" "rp_status st = 0" "replay_loop lm truth lines st = Some st'" "rp_status st' = 0"
  shows "\<exists>es. row_events h lines = Some es \<and> times_ok (rp_have_time st) (rp_last_time_ms st) es"
  using assms
proof (induction lines arbitrary: st)
  case (Cons line rest)
  show ?case
  proof (cases "line_is_ignored line")
    case True
    then show ?thesis using Cons by (auto simp: replay_line_def)
  next
    case False
    obtain go st1 where s1: "replay_line lm truth line st = Some (go, st1)"
      "if go then replay_loop lm truth rest st1 = Some st' else st1 = st'"
      using Cons.prems(3) by (auto simp: bind_eq_Some_conv split: if_splits)
    obtain row e where e: "split_csv_line line = Some row" "build_event h row = Some e" "replay_event lm truth e st = Some (go, st1)"
      using s1 False Cons.prems(1,4) by (auto simp: replay_line_def split: option.splits)
    have t: "rp_have_time st \<longrightarrow> rp_last_time_ms st \<le> time_of e"
      using e(3) s1(2) Cons.prems(4) by (cases e) (auto simp: replay_event_def not_less split: if_splits)
    then obtain s where s: "go" "st1 = replay_after lm truth [e] [s] st"
      using e(3) replay_event_ok [OF t, of lm truth] by auto
    have sel: "rp_header st1 = Some h" "rp_have_time st1" "rp_last_time_ms st1 = time_of e" "rp_status st1 = 0"
      using Cons.prems(1,2) s(2) by (simp_all add: replay_after_def)
    obtain es where "row_events h rest = Some es" "times_ok True (time_of e) es"
      using Cons.IH [OF sel(1,4)] s1(2) s(1) Cons.prems(4) sel by auto
    then show ?thesis using False e t by simp
  qed
qed simp

lemma file_rejected:
  assumes "rp_header st = None" "rp_status st = 0" "replay_loop lm truth lines st = Some st'" "rp_status st' = 0"
    "rp_header st' \<noteq> None" "\<not> rp_have_time st" "rp_last_time_ms st = 0"
  shows "\<exists>es. file_events lines = Some es \<and> times_ok False 0 es"
  using assms
proof (induction lines arbitrary: st)
  case (Cons line rest)
  show ?case
  proof (cases "line_is_ignored line")
    case True
    then show ?thesis using Cons by (auto simp: replay_line_def)
  next
    case False
    obtain row h where h: "split_csv_line line = Some row" "parse_header row = Some h"
      using False Cons.prems by (auto simp: replay_line_def split: option.splits)
    then have "replay_loop lm truth rest (st\<lparr>rp_header := Some h\<rparr>) = Some st'"
      using False Cons.prems by (simp add: replay_line_def)
    then show ?thesis using rows_rejected [of "st\<lparr>rp_header := Some h\<rparr>" h lm truth rest st'] h False Cons.prems by simp
  qed
qed simp

lemma file_accepted:
  assumes "rp_header st = None" "file_events lines = Some es" "times_ok (rp_have_time st) (rp_last_time_ms st) es"
  shows "\<exists>h. replay_loop lm truth lines st = map_option (\<lambda>tr. replay_after lm truth es tr (st\<lparr>rp_header := Some h\<rparr>))
    (replay_trace lm (rp_have_time st) (rp_last_time_ms st) es (rp_sys st))"
  using assms
proof (induction lines)
  case (Cons line rest)
  show ?case
  proof (cases "line_is_ignored line")
    case True
    then show ?thesis using Cons by (simp add: replay_line_def)
  next
    case False
    then obtain row h where h: "split_csv_line line = Some row" "parse_header row = Some h" "row_events h rest = Some es"
      using Cons.prems(2) by (auto simp: bind_eq_Some_conv)
    then show ?thesis using replay_rows [of "st\<lparr>rp_header := Some h\<rparr>" h rest es lm truth] False Cons.prems
      by (auto simp: replay_line_def)
  qed
qed simp

lemma start_reachable: "nav_reachable lm (rp_sys (replay_start config))"
  using reach_step [OF reach_init step_logger] by (simp add: replay_start_def)

lemma start_sel: "rp_header (replay_start config) = None" "rp_status (replay_start config) = 0"
  "\<not> rp_have_time (replay_start config)" "rp_last_time_ms (replay_start config) = 0"
  by (simp_all add: replay_start_def)

text \<open>C23: The replay refines the core: a file with a complete header and rows that build events at times that never go
  back drives the core with exactly the calls of those events (a tick in front of a row when time moves on), writes
  one row of the solution file per event from the snapshot behind it, and ends in a state that satisfies the
  invariant of the core; every other file makes the program fail.\<close>

theorem replay_drives_core:
  "(\<forall>es tr. file_events lines = Some es \<and> times_ok False 0 es \<and>
       replay_trace lm False 0 es (rp_sys (replay_start config)) = Some tr \<longrightarrow>
     (\<exists>st. replay_loop lm truth lines (replay_start config) = Some st \<and> rp_status st = 0 \<and> rp_header st \<noteq> None \<and>
        rp_sys st = last (rp_sys (replay_start config) # tr) \<and> core_inv (rp_sys st) \<and>
        rp_solution st = write_solution_header @ concat (map (\<lambda>s. write_solution_row (sy_snapshot s)) tr) \<and>
        rp_peers st = write_peers_header @ concat (map2 (\<lambda>s e. write_peers_rows s (time_of e)) tr es) \<and>
        rp_events_applied st = of_nat (length es) \<and>
        rp_compare_stats st = (case truth of None \<Rightarrow> replay_compare_stats_zero
          | Some t \<Rightarrow> fold (\<lambda>sn. compare_snapshot_with_truth lm sn t) (map sy_snapshot tr) replay_compare_stats_zero))) \<and>
   ((\<nexists>es. file_events lines = Some es \<and> times_ok False 0 es) \<longrightarrow>
     (\<forall>st. replay_loop lm truth lines (replay_start config) = Some st \<longrightarrow> replay_status extra truth report_ok st \<noteq> 0))"
proof (intro conjI allI impI, elim conjE)
  fix es tr
  assume f: "file_events lines = Some es" "times_ok False 0 es"
    and tr: "replay_trace lm False 0 es (rp_sys (replay_start config)) = Some tr"
  obtain h where h: "replay_loop lm truth lines (replay_start config)
      = Some (replay_after lm truth es tr (replay_start config\<lparr>rp_header := Some h\<rparr>))"
    using file_accepted [of "replay_start config" lines es lm truth] f tr by (auto simp: start_sel)
  have "\<forall>s \<in> set (rp_sys (replay_start config) # tr). nav_reachable lm s"
    using trace_reachable [OF tr start_reachable] start_reachable by simp
  then have "nav_reachable lm (last (rp_sys (replay_start config) # tr))" using last_in_set by blast
  then have inv: "core_inv (last (rp_sys (replay_start config) # tr))"
    by induction (auto intro: core_inv_init core_inv_step)
  show "\<exists>st. replay_loop lm truth lines (replay_start config) = Some st \<and> rp_status st = 0 \<and> rp_header st \<noteq> None \<and>
        rp_sys st = last (rp_sys (replay_start config) # tr) \<and> core_inv (rp_sys st) \<and>
        rp_solution st = write_solution_header @ concat (map (\<lambda>s. write_solution_row (sy_snapshot s)) tr) \<and>
        rp_peers st = write_peers_header @ concat (map2 (\<lambda>s e. write_peers_rows s (time_of e)) tr es) \<and>
        rp_events_applied st = of_nat (length es) \<and>
        rp_compare_stats st = (case truth of None \<Rightarrow> replay_compare_stats_zero
          | Some t \<Rightarrow> fold (\<lambda>sn. compare_snapshot_with_truth lm sn t) (map sy_snapshot tr) replay_compare_stats_zero)"
    by (rule exI [of _ "replay_after lm truth es tr (replay_start config\<lparr>rp_header := Some h\<rparr>)"])
      (use h inv in \<open>simp add: replay_after_def replay_start_def fold_map comp_def split: option.split\<close>)
next
  fix st
  assume "\<nexists>es. file_events lines = Some es \<and> times_ok False 0 es" "replay_loop lm truth lines (replay_start config) = Some st"
  then have "rp_status st \<noteq> 0 \<or> rp_header st = None"
    using file_rejected [OF start_sel(1,2) _ _ _ start_sel(3,4)] by blast
  then show "replay_status extra truth report_ok st \<noteq> 0" by (auto simp: replay_status_def Let_def)
qed

section \<open>The verdict\<close>

text \<open>The truth row that a snapshot is compared with.\<close>

definition compared_row :: "replay_truth_row list \<Rightarrow> nav_snapshot \<Rightarrow> replay_truth_row option" where
  "compared_row truth sn = (if sn_solution_status sn = NAV_SOLUTION_RADIO_3D \<and> sn_solution_source sn = NAV_SOURCE_RADIO_3D
     then find_truth_row truth (sn_time_ms sn) (sn_node_id sn) else None)"

text \<open>An error within its limit; a comparison with NaN counts as within.\<close>

definition error_ok :: "fp \<Rightarrow> fp \<Rightarrow> bool" where
  "error_ok limit e = (e = NaN \<or> fp_le e limit)"

definition errors_ok :: "replay_config_extra \<Rightarrow> fp \<times> fp \<times> fp \<Rightarrow> bool" where
  "errors_ok extra es = (case es of (h, v, d) \<Rightarrow> error_ok (rx_max_allowed_horizontal_error_m extra) h \<and>
     error_ok (rx_max_allowed_vertical_error_m extra) v \<and> error_ok (rx_max_allowed_3d_error_m extra) d)"

definition stats_ok :: "replay_config_extra \<Rightarrow> replay_compare_stats \<Rightarrow> bool" where
  "stats_ok extra s \<longleftrightarrow> fp_le (cs_max_horizontal_error_m s) (rx_max_allowed_horizontal_error_m extra) \<and>
     fp_le (cs_max_vertical_error_m s) (rx_max_allowed_vertical_error_m extra) \<and>
     fp_le (cs_max_3d_error_m s) (rx_max_allowed_3d_error_m extra)"

definition stats_numbers :: "replay_compare_stats \<Rightarrow> bool" where
  "stats_numbers s \<longleftrightarrow> cs_max_horizontal_error_m s \<noteq> NaN \<and> cs_max_vertical_error_m s \<noteq> NaN \<and> cs_max_3d_error_m s \<noteq> NaN"

lemma running_max:
  assumes "m \<noteq> NaN"
  shows "(if fp_lt m e then e else m) \<noteq> NaN \<and>
    (fp_le (if fp_lt m e then e else m) limit \<longleftrightarrow> fp_le m limit \<and> error_ok limit e)"
  using assms by (cases m; cases e; cases limit) (auto simp: error_ok_def fp_le_def)

lemma compare_step:
  assumes "stats_numbers s"
  shows "stats_numbers (compare_snapshot_with_truth lm sn truth s) \<and>
    (stats_ok extra (compare_snapshot_with_truth lm sn truth s) \<longleftrightarrow> stats_ok extra s \<and>
      (case compared_row truth sn of None \<Rightarrow> True | Some t \<Rightarrow> errors_ok extra (position_errors lm (sn_position sn) t))) \<and>
    cs_rows_compared (compare_snapshot_with_truth lm sn truth s)
      = cs_rows_compared s + (if compared_row truth sn = None then 0 else 1)"
proof (cases "compared_row truth sn")
  case None
  then show ?thesis using assms
    by (auto simp: compare_snapshot_with_truth_def compared_row_def stats_ok_def stats_numbers_def split: if_splits option.splits)
next
  case (Some t)
  then have c: "sn_solution_status sn = NAV_SOLUTION_RADIO_3D" "sn_solution_source sn = NAV_SOURCE_RADIO_3D"
    "find_truth_row truth (sn_time_ms sn) (sn_node_id sn) = Some t" by (auto simp: compared_row_def split: if_splits)
  obtain h v d where e: "position_errors lm (sn_position sn) t = (h, v, d)" by (cases "position_errors lm (sn_position sn) t")
  have m: "cs_max_horizontal_error_m s \<noteq> NaN" "cs_max_vertical_error_m s \<noteq> NaN" "cs_max_3d_error_m s \<noteq> NaN"
    using assms by (simp_all add: stats_numbers_def)
  show ?thesis unfolding compare_snapshot_with_truth_def stats_ok_def stats_numbers_def errors_ok_def
    using running_max [OF m(1), of h] running_max [OF m(2), of v] running_max [OF m(3), of d]
    by (simp add: c Some e) blast
qed

lemma compare_fold:
  "stats_numbers s \<Longrightarrow> (stats_ok extra (fold (\<lambda>sn. compare_snapshot_with_truth lm sn truth) sns s) \<longleftrightarrow> stats_ok extra s \<and>
      list_all (\<lambda>sn. case compared_row truth sn of None \<Rightarrow> True | Some t \<Rightarrow> errors_ok extra (position_errors lm (sn_position sn) t)) sns) \<and>
    cs_rows_compared (fold (\<lambda>sn. compare_snapshot_with_truth lm sn truth) sns s)
      = cs_rows_compared s + of_nat (length (filter (\<lambda>sn. compared_row truth sn \<noteq> None) sns))"
proof (induction sns arbitrary: s)
  case (Cons sn sns)
  then show ?case using compare_step [OF Cons.prems, of lm sn truth extra] by auto
qed simp

text \<open>The verdict of the truth comparison: a replay passes exactly when it compared a snapshot and the horizontal,
  vertical and spatial error of every radio solution that has a truth row are within the limits of the
  configuration (errors that are not numbers are not counted, and a limit that is no number or negative fails).\<close>

theorem compare_pass_iff:
  "compare_stats_pass (fold (\<lambda>sn. compare_snapshot_with_truth lm sn truth) sns replay_compare_stats_zero) extra \<longleftrightarrow>
    0 < (of_nat (length (filter (\<lambda>sn. compared_row truth sn \<noteq> None) sns)) :: u32) \<and>
    stats_ok extra replay_compare_stats_zero \<and>
    list_all (\<lambda>sn. case compared_row truth sn of None \<Rightarrow> True
      | Some t \<Rightarrow> errors_ok extra (position_errors lm (sn_position sn) t)) sns"
proof -
  have "stats_numbers replay_compare_stats_zero" "cs_rows_compared replay_compare_stats_zero = 0"
    by (simp_all add: stats_numbers_def replay_compare_stats_zero_def)
  then show ?thesis using compare_fold [of replay_compare_stats_zero extra lm truth sns]
    unfolding compare_stats_pass_def stats_ok_def [of _ "fold _ _ _"] by auto
qed

section \<open>A small file\<close>

definition run_names :: "string list" where
  "run_names = map column_name replay_columns"

definition run_file :: "string list" where
  "run_file = [''# one tick'' @ newline, comma_separated run_names @ newline, ''100,TICK'' @ newline]"

definition run_tick_event :: "replay_event_type \<times> nav_event" where
  "run_tick_event = (REPLAY_EVT_TICK, \<lparr>ev_timestamp_ms = 100, ev_data = NAV_EVT_TICK\<rparr>)"

lemma run_header_split: "split_csv_line (comma_separated run_names @ newline) = Some run_names"
  by (rule split_written) (simp_all add: run_names_def replay_columns_def csv_word_def isspace_def)

lemma run_header_cells:
  assumes "parse_header run_names = Some h"
  shows "h COL_TIME_MS = 0" "h COL_EVENT_TYPE = 1"
proof -
  have h: "h = index_columns column_name replay_columns run_names" using assms by (simp add: parse_header_def Let_def split: if_splits)
  have d: "distinct run_names" by (simp add: run_names_def replay_columns_def)
  have pos: "index_columns column_name replay_columns run_names c = int k" if "k < length run_names" "run_names ! k = column_name c" for c k
  proof -
    have m: "column_name c \<in> set run_names" using that by (metis nth_mem)
    note f = index_columns_found [where name = column_name, OF columns_complete m]
    then have "nat (index_columns column_name replay_columns run_names c) = k" using that d by (metis nth_eq_iff_index_eq)
    then show ?thesis using f by (metis int_nat_eq)
  qed
  show "h COL_TIME_MS = 0" "h COL_EVENT_TYPE = 1"
    using pos [of 0 COL_TIME_MS] pos [of 1 COL_EVENT_TYPE] by (simp_all add: h run_names_def replay_columns_def)
qed

lemma run_file_events: "file_events run_file = Some [run_tick_event]"
proof -
  have "\<forall>c. column_name c \<in> set run_names" using columns_complete by (simp add: run_names_def)
  then obtain h where h: "parse_header run_names = Some h" using parse_header_iff [of run_names] by auto
  have "build_event h [''100'', ''TICK''] = Some run_tick_event"
    using run_header_cells [OF h] by (simp add: build_event_def parse_required_i64_def required_name_def field_required_def
        replay_field_def indexed_field_def parse_i64_def strtol_def scan_sign_def isspace_def isdigit_def code_def
        digits_value_def xdigit_def parse_event_type_text_def run_tick_event_def)
  moreover have "split_csv_line (''100,TICK'' @ newline) = Some [''100'', ''TICK'']"
    by (simp add: split_csv_line_def add_field_def trim_def isspace_def)
  moreover have "line_is_ignored (''# one tick'' @ newline)" "\<not> line_is_ignored (''100,TICK'' @ newline)"
    "\<not> line_is_ignored (comma_separated run_names @ newline)"
    by (simp_all add: line_is_ignored_def trim_def isspace_def run_names_def replay_columns_def)
  ultimately show ?thesis using h run_header_split by (simp add: run_file_def)
qed

theorem replay_drives_core_witness:
  "\<exists>st. replay_loop run_libm None run_file (replay_start (nav_config_default 0)) = Some st \<and> rp_status st = 0 \<and>
     core_inv (rp_sys st) \<and> rp_events_applied st = 1"
proof -
  let ?s = "rp_sys (replay_start (nav_config_default 0))"
  have "resolve_local_altitude (aged_system 100 ?s) 100 = None"
    by (simp add: replay_start_def nav_core_set_logger_def emit_log_def nav_core_init_def nav_config_default_def
        aged_system_def resolve_local_altitude_def local_altitude_is_fresh_def nav_local_altitude_zero_def Let_def)
  then obtain s where s: "nav_core_tick run_libm 100 ?s = Some s"
    using tick_returns_if [of 100 ?s run_libm] by auto
  have "replay_trace run_libm False 0 [run_tick_event] ?s = Some [s]"
    using s by (simp add: run_tick_event_def event_calls_def run_calls_single)
  then show ?thesis
    using replay_drives_core [of run_file run_libm "nav_config_default 0" None replay_config_extra_init True] run_file_events
    by (auto simp: run_tick_event_def)
qed

text \<open>
  The length check behind \<^verbatim>\<open>join_path\<close> sees the text that \<^verbatim>\<open>snprintf\<close> has already cut, so a path that is too long
  is cut and never reported.
\<close>

lemma join_path_never_fails: "0 < out_len \<Longrightarrow> join_path out_len dir name = Some (take (out_len - 1) (dir @ ''/'' @ name))"
  by (auto simp: join_path_def Let_def)

end
