(* ===== verification/Node_Config.thy ===== *)
theory Node_Config
  imports Nav_Serial_Control "HOL-Library.AList"
begin

text \<open>
  \<^verbatim>\<open>src/NodeConfig.cpp\<close>: the settings of a node and their storage. The non-volatile storage of ESP-IDF is
  not part of the repository: it is the argument \<open>api\<close> of the definitions, a record of its calls as
  functions of the storage state, and its documented behaviour is the hypothesis \<open>nvs_behaves\<close>. The
  array \<^verbatim>\<open>name\<close> is represented by the C string in it.
\<close>

section \<open>Settings\<close>

record node_config =
  nc_node_id :: u8
  nc_name :: string
  nc_gps_enabled :: bool
  nc_mock_enabled :: bool
  nc_altitude_mm :: i32

definition node_config_wf :: "node_config \<Rightarrow> bool" where
  "node_config_wf c \<longleftrightarrow> length (nc_name c) < NAV_NODE_NAME_MAX \<and> NUL \<notin> set (nc_name c)"

text \<open>\<^verbatim>\<open>snprintf(name, sizeof(name), "node-%u", id)\<close>.\<close>

definition default_name :: "u8 \<Rightarrow> string" where
  "default_name node_id = take (NAV_NODE_NAME_MAX - 1) (''node-'' @ fmt_u (unat node_id))"

section \<open>The storage interface\<close>

datatype esp_err = ESP_OK | ESP_ERR_NVS_NO_FREE_PAGES | ESP_ERR_NVS_NEW_VERSION_FOUND | ESP_ERR_OTHER int

datatype nvs_mode = NVS_READONLY | NVS_READWRITE

record 's nvs_api =
  nvs_flash_init :: "'s \<Rightarrow> esp_err \<times> 's"
  nvs_flash_erase :: "'s \<Rightarrow> 's"
  nvs_open :: "string \<Rightarrow> nvs_mode \<Rightarrow> 's \<Rightarrow> esp_err \<times> nat \<times> 's"
  nvs_close :: "nat \<Rightarrow> 's \<Rightarrow> 's"
  nvs_get_str :: "nat \<Rightarrow> string \<Rightarrow> nat \<Rightarrow> 's \<Rightarrow> string option"
  nvs_get_u8 :: "nat \<Rightarrow> string \<Rightarrow> 's \<Rightarrow> u8 option"
  nvs_get_i32 :: "nat \<Rightarrow> string \<Rightarrow> 's \<Rightarrow> i32 option"
  nvs_set_str :: "nat \<Rightarrow> string \<Rightarrow> string \<Rightarrow> 's \<Rightarrow> esp_err \<times> 's"
  nvs_set_u8 :: "nat \<Rightarrow> string \<Rightarrow> u8 \<Rightarrow> 's \<Rightarrow> esp_err \<times> 's"
  nvs_set_i32 :: "nat \<Rightarrow> string \<Rightarrow> i32 \<Rightarrow> 's \<Rightarrow> esp_err \<times> 's"
  nvs_commit :: "nat \<Rightarrow> 's \<Rightarrow> esp_err \<times> 's"

section \<open>Load and save\<close>

definition ensure_nvs_ready :: "'s nvs_api \<Rightarrow> 's \<Rightarrow> bool \<times> 's" where
  "ensure_nvs_ready api s =
     (let (err, s) = nvs_flash_init api s;
          (err, s) = (if err = ESP_ERR_NVS_NO_FREE_PAGES \<or> err = ESP_ERR_NVS_NEW_VERSION_FOUND
            then nvs_flash_init api (nvs_flash_erase api s) else (err, s))
      in (err = ESP_OK, s))"

text \<open>\<^verbatim>\<open>ok = ok && call() == ESP_OK\<close>.\<close>

definition nvs_and :: "('s \<Rightarrow> esp_err \<times> 's) \<Rightarrow> bool \<times> 's \<Rightarrow> bool \<times> 's" where
  "nvs_and call st = (if fst st then (let (err, s) = call (snd st) in (err = ESP_OK, s)) else st)"

definition u8_of_bool :: "bool \<Rightarrow> u8" where
  "u8_of_bool b = (if b then 1 else 0)"

definition node_config_save :: "'s nvs_api \<Rightarrow> node_config \<Rightarrow> 's \<Rightarrow> bool \<times> 's" where
  "node_config_save api config s =
     (let (ready, s) = ensure_nvs_ready api s in
      if \<not> ready then (False, s)
      else let (err, handle, s) = nvs_open api ''navcfg'' NVS_READWRITE s in
        if err \<noteq> ESP_OK then (False, s)
        else let st = nvs_and (nvs_set_str api handle ''name'' (nc_name config)) (True, s);
                 st = nvs_and (nvs_set_u8 api handle ''node_id'' (nc_node_id config)) st;
                 st = nvs_and (nvs_set_u8 api handle ''gps'' (u8_of_bool (nc_gps_enabled config))) st;
                 st = nvs_and (nvs_set_u8 api handle ''mock'' (u8_of_bool (nc_mock_enabled config))) st;
                 st = nvs_and (nvs_set_i32 api handle ''alt_mm'' (nc_altitude_mm config)) st;
                 (ok, s) = nvs_and (nvs_commit api handle) st
             in (ok, nvs_close api handle s))"

definition default_config :: "u8 \<Rightarrow> node_config" where
  "default_config default_node_id = \<lparr>nc_node_id = default_node_id, nc_name = default_name default_node_id,
     nc_gps_enabled = True, nc_mock_enabled = False, nc_altitude_mm = 0\<rparr>"

definition node_config_load :: "'s nvs_api \<Rightarrow> u8 \<Rightarrow> 's \<Rightarrow> node_config \<times> 's" where
  "node_config_load api default_node_id s =
     (let config = default_config default_node_id;
          (ready, s) = ensure_nvs_ready api s in
      if \<not> ready then (config, s)
      else let (err, handle, s) = nvs_open api ''navcfg'' NVS_READONLY s in
        if err \<noteq> ESP_OK then (config, snd (node_config_save api config s))
        else let config = (case nvs_get_str api handle ''name'' NAV_NODE_NAME_MAX s of
                   None \<Rightarrow> config | Some t \<Rightarrow> config\<lparr>nc_name := t\<rparr>);
                 config = (case nvs_get_u8 api handle ''node_id'' s of
                   None \<Rightarrow> config | Some v \<Rightarrow> config\<lparr>nc_node_id := v\<rparr>);
                 config = (case nvs_get_u8 api handle ''gps'' s of
                   None \<Rightarrow> config | Some v \<Rightarrow> config\<lparr>nc_gps_enabled := v \<noteq> 0\<rparr>);
                 config = (case nvs_get_u8 api handle ''mock'' s of
                   None \<Rightarrow> config | Some v \<Rightarrow> config\<lparr>nc_mock_enabled := v \<noteq> 0\<rparr>);
                 config = (case nvs_get_i32 api handle ''alt_mm'' s of
                   None \<Rightarrow> config | Some v \<Rightarrow> config\<lparr>nc_altitude_mm := v\<rparr>)
             in (config, nvs_close api handle s))"

section \<open>What the storage does\<close>

datatype nvs_value = Nvs_Str string | Nvs_U8 u8 | Nvs_I32 i32

text \<open>The storage as documented: \<open>view\<close> is what a read returns, \<open>flash\<close> what survives \<open>reboot\<close>. A write
  that answers \<^verbatim>\<open>ESP_OK\<close> changes one key of the view, a commit makes the view permanent, and the other
  calls change neither. A string that is read fits the given length with its terminator.\<close>

type_synonym 's nvs_view = "'s \<Rightarrow> string \<Rightarrow> nvs_value option"

definition nvs_reads :: "'s nvs_api \<Rightarrow> 's nvs_view \<Rightarrow> bool" where
  "nvs_reads api view \<longleftrightarrow>
     (\<forall>h k cap t s. view s k = Some (Nvs_Str t) \<and> length t < cap \<and> NUL \<notin> set t \<longrightarrow> nvs_get_str api h k cap s = Some t) \<and>
     (\<forall>h k cap t s. nvs_get_str api h k cap s = Some t \<longrightarrow> length t < cap \<and> NUL \<notin> set t) \<and>
     (\<forall>h k v s. view s k = Some (Nvs_U8 v) \<longrightarrow> nvs_get_u8 api h k s = Some v) \<and>
     (\<forall>h k v s. view s k = Some (Nvs_I32 v) \<longrightarrow> nvs_get_i32 api h k s = Some v)"

definition nvs_writes :: "'s nvs_api \<Rightarrow> 's nvs_view \<Rightarrow> bool" where
  "nvs_writes api view \<longleftrightarrow>
     (\<forall>h k t s. fst (nvs_set_str api h k t s) = ESP_OK \<longrightarrow>
        view (snd (nvs_set_str api h k t s)) = (view s)(k \<mapsto> Nvs_Str t)) \<and>
     (\<forall>h k v s. fst (nvs_set_u8 api h k v s) = ESP_OK \<longrightarrow>
        view (snd (nvs_set_u8 api h k v s)) = (view s)(k \<mapsto> Nvs_U8 v)) \<and>
     (\<forall>h k v s. fst (nvs_set_i32 api h k v s) = ESP_OK \<longrightarrow>
        view (snd (nvs_set_i32 api h k v s)) = (view s)(k \<mapsto> Nvs_I32 v))"

definition nvs_keeps :: "'s nvs_api \<Rightarrow> 's nvs_view \<Rightarrow> 's nvs_view \<Rightarrow> ('s \<Rightarrow> 's) \<Rightarrow> bool" where
  "nvs_keeps api view flash reboot \<longleftrightarrow>
     (\<forall>s. fst (nvs_flash_init api s) = ESP_OK \<longrightarrow> view (snd (nvs_flash_init api s)) = view s) \<and>
     (\<forall>ns m h s s'. nvs_open api ns m s = (ESP_OK, h, s') \<longrightarrow> view s' = view s) \<and>
     (\<forall>h s. fst (nvs_commit api h s) = ESP_OK \<longrightarrow> flash (snd (nvs_commit api h s)) = view s) \<and>
     (\<forall>h s. flash (nvs_close api h s) = flash s) \<and>
     (\<forall>s. view (reboot s) = flash s)"

definition nvs_behaves :: "'s nvs_api \<Rightarrow> 's nvs_view \<Rightarrow> 's nvs_view \<Rightarrow> ('s \<Rightarrow> 's) \<Rightarrow> bool" where
  "nvs_behaves api view flash reboot \<longleftrightarrow> nvs_reads api view \<and> nvs_writes api view \<and> nvs_keeps api view flash reboot"

section \<open>Configurations survive a reboot\<close>

definition holds_config :: "(string \<Rightarrow> nvs_value option) \<Rightarrow> node_config \<Rightarrow> bool" where
  "holds_config m c \<longleftrightarrow> m ''name'' = Some (Nvs_Str (nc_name c)) \<and> m ''node_id'' = Some (Nvs_U8 (nc_node_id c)) \<and>
     m ''gps'' = Some (Nvs_U8 (u8_of_bool (nc_gps_enabled c))) \<and>
     m ''mock'' = Some (Nvs_U8 (u8_of_bool (nc_mock_enabled c))) \<and> m ''alt_mm'' = Some (Nvs_I32 (nc_altitude_mm c))"

lemma nvs_and_ok: "nvs_and call st = (True, s') \<longleftrightarrow> (\<exists>t. st = (True, t) \<and> call t = (ESP_OK, s'))"
  by (cases st) (auto simp: nvs_and_def split: prod.splits)

lemma nvs_writesD:
  assumes "nvs_writes api view"
  shows "nvs_set_str api h k t s = (ESP_OK, s') \<Longrightarrow> view s' = (view s)(k \<mapsto> Nvs_Str t)"
    "nvs_set_u8 api h k v s = (ESP_OK, s') \<Longrightarrow> view s' = (view s)(k \<mapsto> Nvs_U8 v)"
    "nvs_set_i32 api h k i s = (ESP_OK, s') \<Longrightarrow> view s' = (view s)(k \<mapsto> Nvs_I32 i)"
  using assms unfolding nvs_writes_def by (metis fst_conv snd_conv)+

lemma nvs_keepsD:
  assumes "nvs_keeps api view flash reboot"
  shows "nvs_flash_init api s = (ESP_OK, s') \<Longrightarrow> view s' = view s"
    "nvs_open api ns m s = (ESP_OK, h, s') \<Longrightarrow> view s' = view s"
    "nvs_commit api h s = (ESP_OK, s') \<Longrightarrow> flash s' = view s"
    "flash (nvs_close api h s) = flash s" "view (reboot s) = flash s"
  using assms unfolding nvs_keeps_def by (metis fst_conv snd_conv)+

lemma save_flash:
  assumes "nvs_writes api view" "nvs_keeps api view flash reboot" "node_config_save api c s = (True, s')"
  shows "holds_config (flash s') c"
proof -
  obtain ok s0 where r: "ensure_nvs_ready api s = (ok, s0)" by fastforce
  obtain err h s1 where o: "nvs_open api ''navcfg'' NVS_READWRITE s0 = (err, h, s1)" by (metis prod_cases3)
  obtain s2 s3 s4 s5 s6 s7 where
    "nvs_set_str api h ''name'' (nc_name c) s1 = (ESP_OK, s2)"
    "nvs_set_u8 api h ''node_id'' (nc_node_id c) s2 = (ESP_OK, s3)"
    "nvs_set_u8 api h ''gps'' (u8_of_bool (nc_gps_enabled c)) s3 = (ESP_OK, s4)"
    "nvs_set_u8 api h ''mock'' (u8_of_bool (nc_mock_enabled c)) s4 = (ESP_OK, s5)"
    "nvs_set_i32 api h ''alt_mm'' (nc_altitude_mm c) s5 = (ESP_OK, s6)"
    "nvs_commit api h s6 = (ESP_OK, s7)" "s' = nvs_close api h s7"
    using assms(3) by (auto simp: node_config_save_def r o Let_def nvs_and_ok split: if_splits prod.splits)
  then show ?thesis
    using nvs_writesD [OF assms(1)] nvs_keepsD [OF assms(2)] by (simp add: holds_config_def)
qed

lemma load_reads:
  assumes "nvs_reads api view" "holds_config (view s2) c" "node_config_wf c"
    and "nvs_flash_init api s = (ESP_OK, s1)" "nvs_open api ''navcfg'' NVS_READONLY s1 = (ESP_OK, h, s2)"
  shows "fst (node_config_load api d s) = c"
proof -
  have "nvs_get_str api h ''name'' NAV_NODE_NAME_MAX s2 = Some (nc_name c)"
    "nvs_get_u8 api h ''node_id'' s2 = Some (nc_node_id c)"
    "nvs_get_u8 api h ''gps'' s2 = Some (u8_of_bool (nc_gps_enabled c))"
    "nvs_get_u8 api h ''mock'' s2 = Some (u8_of_bool (nc_mock_enabled c))"
    "nvs_get_i32 api h ''alt_mm'' s2 = Some (nc_altitude_mm c)"
    using assms(1-3) unfolding nvs_reads_def holds_config_def node_config_wf_def by blast+
  then show ?thesis
    by (simp add: node_config_load_def ensure_nvs_ready_def assms(4,5) Let_def u8_of_bool_def)
qed

lemma load_name:
  "nc_name (case x of None \<Rightarrow> c | Some v \<Rightarrow> c\<lparr>nc_node_id := v\<rparr>) = nc_name c"
  "nc_name (case y of None \<Rightarrow> c | Some v \<Rightarrow> c\<lparr>nc_gps_enabled := v \<noteq> 0\<rparr>) = nc_name c"
  "nc_name (case y of None \<Rightarrow> c | Some v \<Rightarrow> c\<lparr>nc_mock_enabled := v \<noteq> 0\<rparr>) = nc_name c"
  "nc_name (case z of None \<Rightarrow> c | Some v \<Rightarrow> c\<lparr>nc_altitude_mm := v\<rparr>) = nc_name c"
  by (simp_all split: option.split)

lemma name_wf: "length (default_name i) < NAV_NODE_NAME_MAX" "NUL \<notin> set (default_name i)"
proof -
  have "NUL \<notin> set (''node-'' @ fmt_u (unat i))" using printable_no_NUL [OF number_printable [OF number_u]] by auto
  then show "NUL \<notin> set (default_name i)" unfolding default_name_def using in_set_takeD by fast
qed (simp add: default_name_def)

lemma default_wf: "node_config_wf (default_config d)"
  by (simp add: default_config_def node_config_wf_def name_wf del: One_nat_def)

lemma load_wf:
  assumes "nvs_reads api view"
  shows "node_config_wf (fst (node_config_load api d s))"
proof -
  have "node_config_wf (case nvs_get_str api h ''name'' NAV_NODE_NAME_MAX t of
      None \<Rightarrow> default_config d | Some n \<Rightarrow> (default_config d)\<lparr>nc_name := n\<rparr>)" for h t
  proof (cases "nvs_get_str api h ''name'' NAV_NODE_NAME_MAX t")
    case (Some n)
    then have "length n < NAV_NODE_NAME_MAX \<and> NUL \<notin> set n" using assms unfolding nvs_reads_def by blast
    then show ?thesis by (simp add: Some node_config_wf_def)
  qed (simp add: default_wf)
  then show ?thesis using default_wf [of d]
    by (simp add: node_config_load_def Let_def node_config_wf_def load_name split: prod.split)
qed

text \<open>C37: A configuration that is saved survives a reboot: when the save succeeded and the storage comes up
  at the next boot, the load returns the configuration that was saved, whatever the default id.\<close>

theorem config_survives_reboot:
  assumes "nvs_behaves api view flash reboot" and "node_config_wf c"
    and "node_config_save api c s = (True, s')"
    and "nvs_flash_init api (reboot s') = (ESP_OK, s1)"
    and "nvs_open api ''navcfg'' NVS_READONLY s1 = (ESP_OK, h, s2)"
  shows "fst (node_config_load api d (reboot s')) = c"
proof -
  have "holds_config (view s2) c"
    using save_flash [OF _ _ assms(3)] nvs_keepsD [of api view flash reboot] assms(1,4,5)
    unfolding nvs_behaves_def by metis
  then show ?thesis using load_reads [OF _ _ assms(2,4,5)] assms(1) unfolding nvs_behaves_def by blast
qed

section \<open>A storage\<close>

text \<open>An association list of what is readable and one of what is committed.\<close>

type_synonym ram_nvs = "(string \<times> nvs_value) list \<times> (string \<times> nvs_value) list"

definition ram_api :: "ram_nvs nvs_api" where
  "ram_api = \<lparr>nvs_flash_init = \<lambda>s. (ESP_OK, s), nvs_flash_erase = \<lambda>s. ([], []),
     nvs_open = \<lambda>ns m s. (if m = NVS_READONLY \<and> snd s = [] then ESP_ERR_OTHER 0x1102 else ESP_OK, 0, s),
     nvs_close = \<lambda>h s. s,
     nvs_get_str = \<lambda>h k cap s. (case map_of (fst s) k of
       Some (Nvs_Str t) \<Rightarrow> if length t < cap \<and> NUL \<notin> set t then Some t else None | _ \<Rightarrow> None),
     nvs_get_u8 = \<lambda>h k s. (case map_of (fst s) k of Some (Nvs_U8 v) \<Rightarrow> Some v | _ \<Rightarrow> None),
     nvs_get_i32 = \<lambda>h k s. (case map_of (fst s) k of Some (Nvs_I32 v) \<Rightarrow> Some v | _ \<Rightarrow> None),
     nvs_set_str = \<lambda>h k t s. (if NUL \<in> set t then ESP_ERR_OTHER 0x102 else ESP_OK,
       (AList.update k (Nvs_Str t) (fst s), snd s)),
     nvs_set_u8 = \<lambda>h k v s. (ESP_OK, (AList.update k (Nvs_U8 v) (fst s), snd s)),
     nvs_set_i32 = \<lambda>h k v s. (ESP_OK, (AList.update k (Nvs_I32 v) (fst s), snd s)),
     nvs_commit = \<lambda>h s. (ESP_OK, (fst s, fst s))\<rparr>"

definition ram_reboot :: "ram_nvs \<Rightarrow> ram_nvs" where
  "ram_reboot s = (snd s, snd s)"

lemma ram_str: "nvs_get_str ram_api h k cap s = Some t \<Longrightarrow> length t < cap \<and> NUL \<notin> set t"
  by (simp add: ram_api_def split: option.split_asm nvs_value.split_asm if_split_asm)

lemma ram_behaves: "nvs_behaves ram_api (map_of \<circ> fst) (map_of \<circ> snd) ram_reboot"
proof -
  have "nvs_reads ram_api (map_of \<circ> fst)"
    unfolding nvs_reads_def using ram_str by (intro conjI allI impI) (fastforce simp: ram_api_def)+
  moreover have "nvs_writes ram_api (map_of \<circ> fst)" by (auto simp: nvs_writes_def ram_api_def update_conv')
  moreover have "nvs_keeps ram_api (map_of \<circ> fst) (map_of \<circ> snd) ram_reboot"
    by (auto simp: nvs_keeps_def ram_api_def ram_reboot_def split: if_splits)
  ultimately show ?thesis by (simp add: nvs_behaves_def)
qed

definition ex_config :: node_config where
  "ex_config = \<lparr>nc_node_id = 2, nc_name = ''ridge'', nc_gps_enabled = False, nc_mock_enabled = True, nc_altitude_mm = - 5\<rparr>"

theorem config_survives_reboot_witness:
  "\<exists>s'. node_config_save ram_api ex_config ([], []) = (True, s') \<and>
     fst (node_config_load ram_api 0 (ram_reboot s')) = ex_config"
proof -
  obtain s' where s': "node_config_save ram_api ex_config ([], []) = (True, s')" "snd s' \<noteq> []"
    by (simp add: node_config_save_def ensure_nvs_ready_def ram_api_def nvs_and_def Let_def ex_config_def)
  have "nvs_flash_init ram_api (ram_reboot s') = (ESP_OK, ram_reboot s')"
    "nvs_open ram_api ''navcfg'' NVS_READONLY (ram_reboot s') = (ESP_OK, 0, ram_reboot s')"
    using s'(2) by (simp_all add: ram_api_def ram_reboot_def)
  moreover have "node_config_wf ex_config" by (simp add: node_config_wf_def ex_config_def)
  ultimately show ?thesis using s'(1) config_survives_reboot [OF ram_behaves] by blast
qed

end
