(* ===== verification/Control_Channel.thy ===== *)
theory Control_Channel
  imports Node_Config Nav_Mock Nav_Serial_Records Nav_Telemetry
begin

text \<open>
  \<^verbatim>\<open>src/ControlChannel.cpp\<close>: the owner of the navigation core on the ESP32 node. Its globals are one record;
  every function takes the mutex for its whole body, so a call is one step on that record. The lines
  written to the serial port are results, \<open>built\<close> is the compile-time switch \<^verbatim>\<open>NAV_ENABLE_GNSS\<close>, and the
  time read inside the lock is an argument. Log messages are left out. \<open>None\<close> is undefined behaviour.
\<close>

section \<open>State\<close>

record buffered_quality =
  bq_present :: bool
  bq_report :: nav_node_quality_report
  bq_received_ms :: u32

record control_state =
  ct_config :: node_config
  ct_nav :: nav_system
  ct_mock :: nav_mock
  ct_debug :: bool
  ct_quality_seq :: u32
  ct_node_quality :: "buffered_quality list"

definition quality_report_zero :: nav_node_quality_report where
  "quality_report_zero = \<lparr>qr_node_id = 0, qr_nav_mode = NAV_MODE_BOOT, qr_solution_status = NAV_SOLUTION_NONE,
     qr_solution_source = NAV_SOURCE_NONE, qr_num_anchors = 0, qr_anchor_ids = [0, 0, 0],
     qr_fix_type = NAV_GNSS_FIX_NONE, qr_satellites = 0, qr_geometry_score = Fin 0, qr_total_quality = Fin 0,
     qr_residual_rms_mm = 0, qr_max_residual_mm = 0, qr_hdop_centi = 0, qr_hacc_mm = 0, qr_vacc_mm = 0,
     qr_position = nav_position_zero, qr_packet_seq = 0\<rparr>"

definition node_quality_clear :: "buffered_quality list" where
  "node_quality_clear =
     replicate NAV_MAX_NODES \<lparr>bq_present = False, bq_report = quality_report_zero, bq_received_ms = 0\<rparr>"

section \<open>Configuration of the core\<close>

definition solution_is_mappable :: "nav_solution_source \<Rightarrow> nav_solution_status \<Rightarrow> bool" where
  "solution_is_mappable source status =
     (if source = NAV_SOURCE_LOCAL_GNSS then status = NAV_SOLUTION_GNSS_DIRECT
      else if source = NAV_SOURCE_RADIO_3D then status = NAV_SOLUTION_RADIO_3D \<or> status = NAV_SOLUTION_DEGRADED
      else False)"

definition effective_gps_enabled :: "bool \<Rightarrow> control_state \<Rightarrow> bool" where
  "effective_gps_enabled built st = (if built then nc_gps_enabled (ct_config st) else False)"

definition apply_core_config :: "bool \<Rightarrow> control_state \<Rightarrow> control_state" where
  "apply_core_config built st =
     (let nav = ct_nav st;
          nav = nav\<lparr>sy_config := (sy_config nav)\<lparr>cfg_demo_force_gps_denied := \<not> effective_gps_enabled built st\<rparr>\<rparr>;
          g = sy_radio_solve_generation nav + 1
      in st\<lparr>ct_nav := nav\<lparr>sy_radio_solve_generation := (if g = 0 then g + 1 else g)\<rparr>\<rparr>)"

definition hardware_config :: "u8 \<Rightarrow> nav_config" where
  "hardware_config node_id = (nav_config_default node_id)
     \<lparr>cfg_telemetry_ttl_ms := 30000, cfg_range_ttl_ms := 30000, cfg_local_altitude_ttl_ms := 2000,
      cfg_min_anchor_quality := Fin 0, cfg_min_solution_quality := Fin 0,
      cfg_max_residual_rms_m := Fin 100000, cfg_max_residual_m := Fin 100000,
      cfg_min_anchor_triangle_area_m2 := Fin 10, cfg_degraded_anchor_triangle_area_m2 := Fin 100,
      cfg_ignore_altitude_for_radio_solve := True, cfg_retain_last_range_on_failure := True\<rparr>"

definition seed_peers :: "nav_mock_peer list" where
  "seed_peers =
     [\<lparr>mk_node_id = 1, mk_position = \<lparr>lat_e7 = 504501000, lon_e7 = 305234000, alt_mm = 180000\<rparr>, mk_gnss_valid = True,
       mk_rssi_dbm = - 60, mk_snr_db = 10, mk_range_sigma_mm = 100\<rparr>,
      \<lparr>mk_node_id = 2, mk_position = \<lparr>lat_e7 = 504565000, lon_e7 = 305201000, alt_mm = 190000\<rparr>, mk_gnss_valid = True,
       mk_rssi_dbm = - 62, mk_snr_db = 9, mk_range_sigma_mm = 100\<rparr>,
      \<lparr>mk_node_id = 3, mk_position = \<lparr>lat_e7 = 504510000, lon_e7 = 305340000, alt_mm = 175000\<rparr>, mk_gnss_valid = True,
       mk_rssi_dbm = - 64, mk_snr_db = 8, mk_range_sigma_mm = 100\<rparr>]"

fun add_peers :: "nav_mock_peer list \<Rightarrow> nav_mock \<Rightarrow> nav_mock option" where
  "add_peers [] mock = Some mock"
| "add_peers (p # ps) mock = do { (status, mock) \<leftarrow> nav_mock_add_peer mock (Some p); add_peers ps mock }"

definition seed_mock :: "control_state \<Rightarrow> control_state option" where
  "seed_mock st = do {
     let mock = nav_mock_set_local_truth \<lparr>lat_e7 = 504520000, lon_e7 = 305260000, alt_mm = 183500\<rparr> nav_mock_init;
     mock \<leftarrow> add_peers seed_peers mock;
     Some (st\<lparr>ct_mock := nav_mock_set_enabled (nc_mock_enabled (ct_config st)) mock\<rparr>) }"

definition init_core_for_config :: "bool \<Rightarrow> control_state \<Rightarrow> control_state option" where
  "init_core_for_config built st =
     (let st = st\<lparr>ct_nav := nav_core_init (Some (hardware_config (nc_node_id (ct_config st))))\<rparr>;
          st = apply_core_config built st;
          st = st\<lparr>ct_node_quality := node_quality_clear\<rparr>
      in seed_mock st)"

text \<open>The globals before \<^verbatim>\<open>begin\<close>: zero.\<close>

definition control_zero :: control_state where
  "control_zero = \<lparr>ct_config = \<lparr>nc_node_id = 0, nc_name = '''', nc_gps_enabled = False, nc_mock_enabled = False,
       nc_altitude_mm = 0\<rparr>,
     ct_nav = nav_core_init None, ct_mock = nav_mock_init, ct_debug = False, ct_quality_seq = 0,
     ct_node_quality = node_quality_clear\<rparr>"

definition control_begin :: "bool \<Rightarrow> node_config \<Rightarrow> control_state option" where
  "control_begin built config =
     (let config = (if built then config else config\<lparr>nc_gps_enabled := False\<rparr>)
      in init_core_for_config built (control_zero\<lparr>ct_config := config\<rparr>))"

section \<open>Commands\<close>

text \<open>The changes of one command; the flag asks for the configuration to be saved.\<close>

definition command_effect :: "bool \<Rightarrow> nav_ctrl_command \<Rightarrow> control_state \<Rightarrow> (bool \<times> control_state) option" where
  "command_effect built cmd st =
     (let config = ct_config st in
      case cc_type cmd of
        NAV_CTRL_CMD_SET_NAME \<Rightarrow> do {
          name \<leftarrow> c_string (cc_str_value cmd);
          Some (True, st\<lparr>ct_config := config\<lparr>nc_name := take (NAV_NODE_NAME_MAX - 1) name\<rparr>\<rparr>) }
      | NAV_CTRL_CMD_SET_GPS \<Rightarrow>
          Some (True, apply_core_config built
            (st\<lparr>ct_config := config\<lparr>nc_gps_enabled := (if built then cc_bool_value cmd else False)\<rparr>\<rparr>))
      | NAV_CTRL_CMD_SET_MOCK \<Rightarrow>
          Some (True, st\<lparr>ct_config := config\<lparr>nc_mock_enabled := cc_bool_value cmd\<rparr>,
            ct_mock := nav_mock_set_enabled (cc_bool_value cmd) (ct_mock st)\<rparr>)
      | NAV_CTRL_CMD_SET_ALTITUDE \<Rightarrow> Some (True, st\<lparr>ct_config := config\<lparr>nc_altitude_mm := cc_int_value cmd\<rparr>\<rparr>)
      | NAV_CTRL_CMD_SET_NODE_ID \<Rightarrow> do {
          let node_id = ucast (cc_int_value cmd);
          st \<leftarrow> init_core_for_config built
            (st\<lparr>ct_config := config\<lparr>nc_node_id := node_id, nc_name := default_name node_id\<rparr>\<rparr>);
          Some (True, st) }
      | NAV_CTRL_CMD_SET_DEBUG \<Rightarrow>
          Some (False, if cc_bool_value cmd then st\<lparr>ct_debug := True\<rparr>
            else st\<lparr>ct_debug := False, ct_node_quality := node_quality_clear\<rparr>)
      | _ \<Rightarrow> Some (False, st))"

definition apply_command ::
  "'s nvs_api \<Rightarrow> bool \<Rightarrow> nav_ctrl_command \<Rightarrow> control_state \<times> 's \<Rightarrow> (control_state \<times> 's) option" where
  "apply_command api built cmd w = (case w of (st, s) \<Rightarrow> do {
     (changed, st) \<leftarrow> command_effect built cmd st;
     Some (st, if changed then snd (node_config_save api (ct_config st) s) else s) })"

text \<open>The reader task: a line buffer of 256 bytes and its length. One turn of its loop takes what
  \<^verbatim>\<open>getchar\<close> returned, \<open>None\<close> for \<^verbatim>\<open>EOF\<close>.\<close>

record line_reader =
  ln_line :: "char list"
  ln_len :: nat

abbreviation (input) LINE_MAX :: nat where "LINE_MAX \<equiv> 256"

definition reader_byte :: "'s nvs_api \<Rightarrow> bool \<Rightarrow> nat \<Rightarrow> u8 option \<Rightarrow> line_reader \<times> control_state \<times> 's \<Rightarrow>
    (line_reader \<times> control_state \<times> 's) option" where
  "reader_byte api built long_bits input w = (case w of (rd, cs) \<Rightarrow>
     (case input of
        None \<Rightarrow> Some (rd, cs)
      | Some b \<Rightarrow>
         let c = char_of (unat b) in
         if c = CHR 0x0A \<or> c = CHR 0x0D then
           if ln_len rd = 0 then Some (rd, cs)
           else do {
             line \<leftarrow> mem_write (ln_line rd) (ln_len rd) NUL;
             let rd = rd\<lparr>ln_line := line, ln_len := 0\<rparr>;
             txt \<leftarrow> c_string line;
             (status, cmd) \<leftarrow> nav_serial_parse_command long_bits (Some txt) ctrl_command_zero;
             cs \<leftarrow> (if status = NAV_STATUS_OK then apply_command api built cmd cs else Some cs);
             Some (rd, cs) }
         else if ln_len rd + 1 < LINE_MAX then do {
           line \<leftarrow> mem_write (ln_line rd) (ln_len rd) c;
           Some (rd\<lparr>ln_line := line, ln_len := ln_len rd + 1\<rparr>, cs) }
         else Some (rd\<lparr>ln_len := 0\<rparr>, cs)))"

fun reader_run :: "'s nvs_api \<Rightarrow> bool \<Rightarrow> nat \<Rightarrow> u8 option list \<Rightarrow> line_reader \<times> control_state \<times> 's \<Rightarrow>
    (line_reader \<times> control_state \<times> 's) option" where
  "reader_run api built long_bits [] w = Some w"
| "reader_run api built long_bits (b # bs) w = do {
     w \<leftarrow> reader_byte api built long_bits b w;
     reader_run api built long_bits bs w }"

section \<open>The emitter\<close>

definition meters_to_millimeters :: "fp \<Rightarrow> u32 option" where
  "meters_to_millimeters value_m =
     (if \<not> fp_isfinite value_m \<or> fp_le value_m (Fin 0) then Some 0
      else if fp_le (Fin 4294967) value_m then Some (- 1)
      else map_option word_of_int (fp_to_int 0 (2 ^ 32 - 1)
        (fp_add binary32 (fp_mul binary32 value_m (Fin 1000)) (Fin (1 / 2)))))"

definition fill_local_node_quality_report ::
  "u32 \<Rightarrow> nav_snapshot \<Rightarrow> nav_system \<Rightarrow> nav_node_quality_report option" where
  "fill_local_node_quality_report packet_seq snapshot nav = do {
     rms \<leftarrow> meters_to_millimeters (sn_residual_rms_m snapshot);
     max_residual \<leftarrow> meters_to_millimeters (sn_max_residual_m snapshot);
     let out = quality_report_zero
       \<lparr>qr_node_id := sn_node_id snapshot, qr_nav_mode := sn_nav_mode snapshot,
        qr_solution_status := sn_solution_status snapshot, qr_solution_source := sn_solution_source snapshot,
        qr_num_anchors := sn_num_anchors snapshot, qr_anchor_ids := sn_selected_anchor_node_ids snapshot,
        qr_geometry_score := sn_geometry_score snapshot, qr_total_quality := sn_total_quality snapshot,
        qr_residual_rms_mm := rms, qr_max_residual_mm := max_residual,
        qr_hacc_mm := sn_hacc_mm snapshot, qr_vacc_mm := sn_vacc_mm snapshot,
        qr_position := sn_position snapshot, qr_packet_seq := packet_seq\<rparr>;
     let g = sy_local_gnss nav;
     Some (if sy_local_gnss_present nav
       then out\<lparr>qr_fix_type := gs_fix_type g, qr_satellites := gs_satellites g, qr_hdop_centi := gs_hdop_centi g,
              qr_hacc_mm := gs_hacc_mm g, qr_vacc_mm := gs_vacc_mm g\<rparr>
       else out\<lparr>qr_fix_type := NAV_GNSS_FIX_NONE\<rparr>) }"

definition altitude_event :: "u32 \<Rightarrow> i32 \<Rightarrow> nav_event" where
  "altitude_event now mm = \<lparr>ev_timestamp_ms = now, ev_data = NAV_EVT_LOCAL_ALTITUDE_SAMPLE
     \<lparr>la_alt_mm = mm, la_timestamp_ms = now, la_source = NAV_ALT_SOURCE_MANUAL, la_valid = True\<rparr>\<rparr>"

definition feed_altitude :: "libm \<Rightarrow> u32 \<Rightarrow> control_state \<Rightarrow> control_state option" where
  "feed_altitude lm now st = do {
     nav \<leftarrow> nav_core_handle_event lm (Some (altitude_event now (nc_altitude_mm (ct_config st)))) (ct_nav st);
     Some (st\<lparr>ct_nav := nav\<rparr>) }"

text \<open>\<^verbatim>\<open>printRecord\<close>: the line that goes out, none for an empty buffer.\<close>

definition printed_record :: "char list \<Rightarrow> string list option" where
  "printed_record buf = do { txt \<leftarrow> c_string buf; Some (if txt = [] then [] else [txt]) }"

abbreviation (input) RECORD_BUF_MAX :: nat where "RECORD_BUF_MAX \<equiv> 2048"

definition emit_quality ::
  "nav_node_quality_report \<Rightarrow> u32 \<Rightarrow> u32 \<Rightarrow> string \<Rightarrow> char list \<times> string list \<Rightarrow> (char list \<times> string list) option" where
  "emit_quality report now age_ms origin st = (case st of (buf, lines) \<Rightarrow> do {
     (buf, n) \<leftarrow> nav_serial_write_node_quality_record buf RECORD_BUF_MAX (Some report) now age_ms (Some origin);
     out \<leftarrow> printed_record buf;
     Some (buf, lines @ out) })"

fun emit_peer_quality :: "u32 \<Rightarrow> buffered_quality list \<Rightarrow> char list \<times> string list \<Rightarrow> (char list \<times> string list) option" where
  "emit_peer_quality now [] st = Some st"
| "emit_peer_quality now (q # qs) st = do {
     st \<leftarrow> (if bq_present q then emit_quality (bq_report q) now (now - bq_received_ms q) ''peer'' st else Some st);
     emit_peer_quality now qs st }"

text \<open>The part of the emitter's cycle under the lock, up to the snapshot record in \<open>buf\<close>.\<close>

definition emitter_update :: "libm \<Rightarrow> u32 \<Rightarrow> control_state \<Rightarrow> control_state option" where
  "emitter_update lm now st = do {
     st \<leftarrow> feed_altitude lm now st;
     (n, nav) \<leftarrow> nav_mock_emit lm (ct_mock st) now (\<lambda>e. nav_core_handle_event lm (Some e)) (ct_nav st);
     nav \<leftarrow> nav_core_tick lm now nav;
     Some (st\<lparr>ct_nav := nav\<rparr>) }"

definition emitter_info :: "bool \<Rightarrow> control_state \<Rightarrow> nav_serial_node_info" where
  "emitter_info built st = \<lparr>si_node_id = nc_node_id (ct_config st), si_node_name = Some (nc_name (ct_config st)),
     si_gps_enabled = effective_gps_enabled built st, si_mock_enabled = nc_mock_enabled (ct_config st)\<rparr>"

definition emitter_cycle ::
  "libm \<Rightarrow> bool \<Rightarrow> u32 \<Rightarrow> char list \<times> control_state \<Rightarrow> (string list \<times> char list \<times> control_state) option" where
  "emitter_cycle lm built now w = (case w of (buf, st) \<Rightarrow> do {
     st \<leftarrow> emitter_update lm now st;
     let snapshot = snd (nav_core_get_snapshot (ct_nav st));
     (buf, n) \<leftarrow> nav_serial_write_snapshot_record buf RECORD_BUF_MAX (Some (emitter_info built st)) (Some snapshot)
       (Some (sy_peer_table (ct_nav st)));
     if \<not> ct_debug st then do {
       lines \<leftarrow> printed_record buf;
       Some (lines, buf, st) }
     else do {
       let st = st\<lparr>ct_quality_seq := ct_quality_seq st + 1\<rparr>;
       report \<leftarrow> fill_local_node_quality_report (ct_quality_seq st) snapshot (ct_nav st);
       lines \<leftarrow> printed_record buf;
       (buf, lines) \<leftarrow> emit_quality report now 0 ''local'' (buf, lines);
       (buf, lines) \<leftarrow> emit_peer_quality now (ct_node_quality st) (buf, lines);
       Some (lines, buf, st) } })"

section \<open>Calls from the other tasks\<close>

text \<open>Before \<^verbatim>\<open>begin\<close> there is no mutex: the calls answer \<^verbatim>\<open>false\<close>. A state that is \<open>None\<close> stands for that.\<close>

definition get_config :: "control_state option \<Rightarrow> node_config option" where
  "get_config ch = map_option ct_config ch"

definition is_debug_enabled :: "control_state option \<Rightarrow> bool" where
  "is_debug_enabled ch = (case ch of None \<Rightarrow> False | Some st \<Rightarrow> ct_debug st)"

definition is_gps_enabled :: "bool \<Rightarrow> control_state option \<Rightarrow> bool" where
  "is_gps_enabled built ch = (case ch of None \<Rightarrow> False | Some st \<Rightarrow> effective_gps_enabled built st)"

definition local_gnss_usable_now :: "bool \<Rightarrow> u32 \<Rightarrow> control_state \<Rightarrow> bool" where
  "local_gnss_usable_now built now st =
     (let nav = ct_nav st; ttl = cfg_telemetry_ttl_ms (sy_config nav);
          fresh_gnss = (sy_local_gnss_present nav \<and>
            (ttl = 0 \<or> now - gs_timestamp_ms (sy_local_gnss nav) \<le> ttl))
      in effective_gps_enabled built st \<and> fresh_gnss \<and> nav_gnss_sample_is_usable (Some (sy_local_gnss nav)))"

definition peer_telemetry_zero :: nav_peer_telemetry where
  "peer_telemetry_zero = \<lparr>pt_node_id = 0, pt_packet_seq = 0, pt_timestamp_ms = 0, pt_position = nav_position_zero,
     pt_velocity = nav_velocity_zero, pt_fix_type = NAV_GNSS_FIX_NONE, pt_gnss_valid = False, pt_satellites = 0,
     pt_hdop_centi = 0, pt_hacc_mm = 0, pt_vacc_mm = 0, pt_nav_mode = NAV_MODE_BOOT,
     pt_solution_status = NAV_SOLUTION_NONE, pt_solution_source = NAV_SOURCE_NONE\<rparr>"

text \<open>The beacon of this node; \<open>None\<close> when the call answers \<^verbatim>\<open>false\<close> and leaves \<^verbatim>\<open>out\<close> alone.\<close>

definition get_local_telemetry :: "bool \<Rightarrow> u32 \<Rightarrow> u32 \<Rightarrow> control_state option \<Rightarrow> nav_peer_telemetry option" where
  "get_local_telemetry built packet_seq now ch = (case ch of
     None \<Rightarrow> None
   | Some st \<Rightarrow>
      (let nav = ct_nav st; g = sy_local_gnss nav;
           snapshot = snd (nav_core_get_snapshot nav);
           usable_gnss = local_gnss_usable_now built now st;
           usable_radio_position = (sn_solution_source snapshot = NAV_SOURCE_RADIO_3D \<and>
             solution_is_mappable (sn_solution_source snapshot) (sn_solution_status snapshot));
           out = peer_telemetry_zero\<lparr>pt_node_id := nc_node_id (ct_config st), pt_packet_seq := packet_seq,
             pt_timestamp_ms := now, pt_nav_mode := sn_nav_mode snapshot\<rparr>
       in if usable_gnss then Some (out\<lparr>pt_position := gs_position g, pt_velocity := gs_velocity g,
            pt_fix_type := gs_fix_type g, pt_gnss_valid := True, pt_satellites := gs_satellites g,
            pt_hdop_centi := gs_hdop_centi g, pt_hacc_mm := gs_hacc_mm g, pt_vacc_mm := gs_vacc_mm g,
            pt_solution_status := NAV_SOLUTION_GNSS_DIRECT, pt_solution_source := NAV_SOURCE_LOCAL_GNSS\<rparr>)
          else if usable_radio_position then Some (out\<lparr>pt_position := sn_position snapshot,
            pt_fix_type := NAV_GNSS_FIX_NONE, pt_gnss_valid := False, pt_hacc_mm := sn_hacc_mm snapshot,
            pt_vacc_mm := sn_vacc_mm snapshot, pt_solution_status := sn_solution_status snapshot,
            pt_solution_source := sn_solution_source snapshot\<rparr>)
          else None))"

text \<open>The inner option is the \<^verbatim>\<open>bool\<close> result.\<close>

definition get_local_node_quality_report ::
  "u32 \<Rightarrow> control_state option \<Rightarrow> nav_node_quality_report option option" where
  "get_local_node_quality_report packet_seq ch = (case ch of
     None \<Rightarrow> Some None
   | Some st \<Rightarrow> (case nav_core_get_snapshot (ct_nav st) of (ok, snapshot) \<Rightarrow>
       if ok then map_option Some (fill_local_node_quality_report packet_seq snapshot (ct_nav st)) else Some None))"

definition handle_node_quality_report ::
  "nav_node_quality_report option \<Rightarrow> u32 \<Rightarrow> control_state \<Rightarrow> (bool \<times> control_state) option" where
  "handle_node_quality_report report received_ms st = (case report of
     None \<Rightarrow> Some (False, st)
   | Some r \<Rightarrow>
      if unat (qr_node_id r) \<ge> NAV_MAX_NODES then Some (False, st)
      else do {
        slots \<leftarrow> mem_write (ct_node_quality st) (unat (qr_node_id r))
          \<lparr>bq_present = True, bq_report = r, bq_received_ms = received_ms\<rparr>;
        Some (True, st\<lparr>ct_node_quality := slots\<rparr>) })"

text \<open>A range record through a buffer of 512 bytes; \<open>buf\<close> is its content before the call.\<close>

definition emit_range_record ::
  "char list \<Rightarrow> nav_serial_range_record option \<Rightarrow> (bool \<times> string list) option" where
  "emit_range_record buf record = (case record of
     None \<Rightarrow> Some (False, [])
   | Some r \<Rightarrow> do {
       (buf, n) \<leftarrow> nav_serial_write_range_record buf 512 (Some r);
       if n < 0 \<or> n \<ge> 512 then Some (False, [])
       else do { lines \<leftarrow> printed_record buf; Some (True, lines) } })"

definition range_record_of :: "u8 \<Rightarrow> nav_event \<Rightarrow> nav_serial_range_record option" where
  "range_record_of node_id e = (case ev_data e of
     NAV_EVT_RANGE_RESULT r \<Rightarrow> Some \<lparr>sr_timestamp_ms = ev_timestamp_ms e, sr_from_id = node_id,
       sr_to_id = rr_peer_id r, sr_request_id = rr_request_id r, sr_ok = rr_valid r, sr_range_mm = rr_range_mm r,
       sr_range_sigma_mm = rr_range_sigma_mm r, sr_rssi_dbm = rr_rssi_dbm r, sr_snr_db = rr_snr_db r,
       sr_range_fail_reason = (if rr_valid r then NAV_RANGE_FAIL_NONE else NAV_RANGE_FAIL_UNKNOWN),
       sr_source = Some ''log''\<rparr>
   | NAV_EVT_RANGE_FAIL f \<Rightarrow> Some \<lparr>sr_timestamp_ms = ev_timestamp_ms e, sr_from_id = node_id,
       sr_to_id = rf_peer_id f, sr_request_id = rf_request_id f, sr_ok = False, sr_range_mm = 0,
       sr_range_sigma_mm = 0, sr_rssi_dbm = 0, sr_snr_db = 0, sr_range_fail_reason = rf_reason f,
       sr_source = Some ''log''\<rparr>
   | _ \<Rightarrow> None)"

definition control_handle_event ::
  "libm \<Rightarrow> char list \<Rightarrow> nav_event option \<Rightarrow> control_state \<Rightarrow> (bool \<times> string list \<times> control_state) option" where
  "control_handle_event lm buf event st = (case event of
     None \<Rightarrow> Some (False, [], st)
   | Some e \<Rightarrow> do {
       nav \<leftarrow> nav_core_handle_event lm (Some e) (ct_nav st);
       let st = st\<lparr>ct_nav := nav\<rparr>;
       (case range_record_of (nc_node_id (ct_config st)) e of
          None \<Rightarrow> Some (True, [], st)
        | Some r \<Rightarrow> do { (sent, lines) \<leftarrow> emit_range_record buf (Some r); Some (True, lines, st) }) })"

end
