(* ===== verification/Control_Invariant.thy ===== *)
theory Control_Invariant
  imports Control_Channel
begin

text \<open>
  The control channel as a state machine: one step per call under the mutex, in any order. The invariant
  of its reachable states ties the core's configuration to the node's settings.
\<close>

section \<open>The core keeps its configuration\<close>

fun config_event :: "nav_event_data \<Rightarrow> bool" where
  "config_event (NAV_EVT_CONFIG_COMMAND c enabled) \<longleftrightarrow> True"
| "config_event _ \<longleftrightarrow> False"

lemma input_state_config:
  "\<not> config_event d \<Longrightarrow> sy_config (input_state n d s) = sy_config s"
  by (cases d) (simp_all add: input_state_def handle_tables handle_range_fail_table handle_gnss_def handle_altitude_def
      mark_radio_solve_inputs_changed_def Let_def)

lemma tick_config:
  assumes "nav_core_tick lm now s = Some s'"
  shows "sy_config s' = sy_config s"
proof -
  obtain t where t: "nav_core_tick lm now s = update_snapshot lm now True t" "same_evidence t (aged_system now s)"
    using tick_before_snapshot by blast
  then have "sy_config t = sy_config s" by (simp add: same_evidence_def aged_system_def)
  then show ?thesis using inputs_ofD [OF inputs_update [of lm now True t s']] assms t(1) by simp
qed

lemma event_config:
  assumes "nav_core_handle_event lm (Some e) s = Some s'" "\<not> config_event (ev_data e)"
  shows "sy_config s' = sy_config s"
proof (cases "event_kind (ev_data e)")
  case Report
  then show ?thesis
    using assms report_event_eq [OF Report, of lm s] inputs_ofD [OF inputs_update] input_state_config [OF assms(2)] by metis
next
  case Idle
  then have "ev_data e = NAV_EVT_NONE" by (cases "ev_data e") simp_all
  then show ?thesis using assms(1) by (simp add: nav_core_handle_event_def Let_def)
next
  case Decide
  then have "ev_data e = NAV_EVT_TICK" by (cases "ev_data e") simp_all
  then show ?thesis using assms(1) tick_config by (simp add: nav_core_handle_event_def Let_def)
qed

text \<open>A call that a task of the firmware makes on the core keeps \<open>core_holds\<close>.\<close>

definition core_holds :: "nav_config \<Rightarrow> nav_system \<Rightarrow> bool" where
  "core_holds cfg s \<longleftrightarrow> core_inv s \<and> sy_config s = cfg"

lemma core_holds_event:
  "nav_core_handle_event lm (Some e) s = Some s' \<Longrightarrow> core_holds cfg s \<Longrightarrow>
   \<not> config_event (ev_data e) \<Longrightarrow> core_holds cfg s'"
  using core_inv_step [OF step_event] event_config unfolding core_holds_def by metis

lemma core_holds_tick: "nav_core_tick lm now s = Some s' \<Longrightarrow> core_holds cfg s \<Longrightarrow> core_holds cfg s'"
  using core_inv_step [OF step_tick] tick_config unfolding core_holds_def by metis

text \<open>What a callback keeps for beacons and ranges, the whole emission of the mock keeps.\<close>

lemma mock_loop_keeps:
  assumes "\<And>e u u'. emit e u = Some u' \<Longrightarrow> P u \<Longrightarrow> \<not> config_event (ev_data e) \<Longrightarrow> P u'"
    and "mock_emit_loop lm m now emit is (n, u) = Some (n', u')" "P u"
  shows "P u'"
  using assms(2,3)
proof (induction "is" arbitrary: n u)
  case (Cons i js)
  obtain n1 u1 where 1: "mock_emit_peer lm m now emit i (n, u) = Some (n1, u1)"
    "mock_emit_loop lm m now emit js (n1, u1) = Some (n', u')"
    using Cons.prems(1) by (auto simp: bind_eq_Some_conv)
  have "P u1" using 1(1) Cons.prems(2) assms(1) by (fastforce simp: mock_emit_peer_def bind_eq_Some_conv)
  then show ?case using Cons.IH 1(2) by blast
qed simp

lemma mock_emit_keeps:
  assumes "\<And>e u u'. emit e u = Some u' \<Longrightarrow> P u \<Longrightarrow> \<not> config_event (ev_data e) \<Longrightarrow> P u'"
    and "nav_mock_emit lm m now emit u = Some (n, u')" "P u"
  shows "P u'"
proof (cases "mo_enabled m")
  case True
  then have "mock_emit_loop lm m now emit [0..<mo_peer_count m] (0, u) = Some (n, u')"
    using assms(2) by (simp add: nav_mock_emit_def)
  then show ?thesis using mock_loop_keeps [of emit P] assms(1,3) by blast
next
  case False
  then show ?thesis using assms(2,3) by (simp add: nav_mock_emit_def)
qed

section \<open>The invariant\<close>

lemma effective_gps: "effective_gps_enabled built st \<longleftrightarrow> built \<and> nc_gps_enabled (ct_config st)"
  by (simp add: effective_gps_enabled_def)

lemma set_enabled_sel [simp]:
  "mo_enabled (nav_mock_set_enabled b m) = b" "mock_wf (nav_mock_set_enabled b m) = mock_wf m"
  "mock_peers (nav_mock_set_enabled b m) = mock_peers m"
  by (simp_all add: nav_mock_set_enabled_def mock_wf_def)

definition core_config :: "bool \<Rightarrow> control_state \<Rightarrow> nav_config" where
  "core_config built st = (hardware_config (nc_node_id (ct_config st)))
     \<lparr>cfg_demo_force_gps_denied := \<not> effective_gps_enabled built st\<rparr>"

definition control_inv :: "bool \<Rightarrow> control_state \<Rightarrow> bool" where
  "control_inv built st \<longleftrightarrow> core_holds (core_config built st) (ct_nav st) \<and>
     mock_wf (ct_mock st) \<and> mo_enabled (ct_mock st) = nc_mock_enabled (ct_config st) \<and>
     node_config_wf (ct_config st) \<and> (nc_gps_enabled (ct_config st) \<longrightarrow> built) \<and>
     length (ct_node_quality st) = NAV_MAX_NODES"

lemma add_peers_ok:
  "mock_wf m \<Longrightarrow> list_all (\<lambda>p. mk_node_id p \<noteq> NAV_INVALID_NODE_ID) ps \<Longrightarrow> mo_peer_count m + length ps \<le> NAV_MAX_NODES \<Longrightarrow>
   \<exists>m'. add_peers ps m = Some m' \<and> mock_wf m' \<and> mock_peers m' = mock_peers m @ ps"
proof (induction ps arbitrary: m)
  case (Cons p ps)
  obtain m1 where m1: "nav_mock_add_peer m (Some p) = Some (NAV_STATUS_OK, m1)" "mock_wf m1"
    "mock_peers m1 = mock_peers m @ [p]" using add_peer_ok [OF Cons.prems(1), of p] Cons.prems(2,3) by auto
  have "length (mock_peers m1) = mo_peer_count m1" "length (mock_peers m) = mo_peer_count m"
    using m1(2) Cons.prems(1) by (auto simp: mock_wf_def)
  then have "mo_peer_count m1 = mo_peer_count m + 1" using m1(3) by simp
  then show ?case using Cons.IH [OF m1(2)] Cons.prems m1 by auto
qed simp

lemma seed_mock_ok:
  "\<exists>m. add_peers seed_peers (nav_mock_set_local_truth p nav_mock_init) = Some m \<and> mock_wf m \<and> mock_peers m = seed_peers"
proof -
  have "list_all (\<lambda>p. mk_node_id p \<noteq> NAV_INVALID_NODE_ID) seed_peers" "length seed_peers = 3"
    by (simp_all add: seed_peers_def)
  moreover have "mo_peer_count (nav_mock_set_local_truth p nav_mock_init) = 0"
    by (simp add: nav_mock_set_local_truth_def nav_mock_init_def)
  ultimately show ?thesis
    using add_peers_ok [OF mock_wf_ops(3) [OF mock_wf_ops(1)], of seed_peers p] by (simp del: add_peers.simps)
qed

lemma core_inv_inputs [simp]:
  "core_inv (s\<lparr>sy_config := c\<rparr>) = core_inv s" "core_inv (s\<lparr>sy_radio_solve_generation := g\<rparr>) = core_inv s"
  by (simp_all add: core_inv_def system_wf_def)

lemma apply_core_config_sel [simp]:
  "ct_config (apply_core_config built st) = ct_config st" "ct_mock (apply_core_config built st) = ct_mock st"
  "ct_debug (apply_core_config built st) = ct_debug st"
  "ct_node_quality (apply_core_config built st) = ct_node_quality st"
  "core_inv (ct_nav (apply_core_config built st)) = core_inv (ct_nav st)"
  "sy_config (ct_nav (apply_core_config built st)) =
     (sy_config (ct_nav st))\<lparr>cfg_demo_force_gps_denied := \<not> effective_gps_enabled built st\<rparr>"
  by (simp_all add: apply_core_config_def Let_def)

lemma init_core_ok:
  assumes "node_config_wf (ct_config st)" "nc_gps_enabled (ct_config st) \<longrightarrow> built"
  shows "\<exists>st'. init_core_for_config built st = Some st' \<and> control_inv built st' \<and> ct_config st' = ct_config st \<and>
    ct_debug st' = ct_debug st \<and> mock_peers (ct_mock st') = seed_peers"
proof -
  obtain m where m: "add_peers seed_peers (nav_mock_set_local_truth
      \<lparr>lat_e7 = 504520000, lon_e7 = 305260000, alt_mm = 183500\<rparr> nav_mock_init) = Some m"
    "mock_wf m" "mock_peers m = seed_peers" using seed_mock_ok by blast
  have "sy_config (nav_core_init (Some c)) = c" for c by (simp add: nav_core_init_def Let_def)
  then show ?thesis using m assms core_inv_init
    by (simp add: init_core_for_config_def seed_mock_def control_inv_def core_holds_def Let_def mock_wf_ops
        core_config_def effective_gps node_quality_clear_def)
qed

lemma begin_inv:
  assumes "node_config_wf config"
  shows "\<exists>st. control_begin built config = Some st \<and> control_inv built st"
  using init_core_ok [of "control_zero\<lparr>ct_config := if built then config else config\<lparr>nc_gps_enabled := False\<rparr>\<rparr>" built]
    assms by (auto simp: control_begin_def Let_def node_config_wf_def)

section \<open>The machine\<close>

text \<open>The calls that change the state: a command that the scanner accepted, a cycle of the emitter, an
  event from the GNSS or radio task, a quality report from the radio task.\<close>

datatype control_call = Command nav_ctrl_command | Cycle u32 | Inject nav_event | Quality nav_node_quality_report u32

definition accepted_command :: "nav_ctrl_command \<Rightarrow> bool" where
  "accepted_command cmd \<longleftrightarrow> (\<exists>w line out. nav_serial_parse_command w (Some line) out = Some (NAV_STATUS_OK, cmd))"

inductive control_step :: "libm \<Rightarrow> bool \<Rightarrow> control_state \<Rightarrow> control_call \<Rightarrow> control_state \<Rightarrow> bool" for lm built where
  step_command: "accepted_command cmd \<Longrightarrow> command_effect built cmd st = Some (changed, st') \<Longrightarrow>
    control_step lm built st (Command cmd) st'"
| step_cycle: "length buf = RECORD_BUF_MAX \<Longrightarrow> emitter_cycle lm built now (buf, st) = Some (lines, buf', st') \<Longrightarrow>
    control_step lm built st (Cycle now) st'"
| step_inject: "\<not> config_event (ev_data e) \<Longrightarrow> control_handle_event lm buf (Some e) st = Some (ok, lines, st') \<Longrightarrow>
    control_step lm built st (Inject e) st'"
| step_quality: "handle_node_quality_report (Some r) received st = Some (ok, st') \<Longrightarrow>
    control_step lm built st (Quality r received) st'"

inductive control_reachable :: "libm \<Rightarrow> bool \<Rightarrow> control_state \<Rightarrow> bool" for lm built where
  control_start: "node_config_wf config \<Longrightarrow> control_begin built config = Some st \<Longrightarrow> control_reachable lm built st"
| control_next: "control_reachable lm built st \<Longrightarrow> control_step lm built st c st' \<Longrightarrow> control_reachable lm built st'"

lemma control_inv_config:
  "control_inv built st \<Longrightarrow> node_config_wf c \<Longrightarrow> nc_node_id c = nc_node_id (ct_config st) \<Longrightarrow>
   nc_gps_enabled c = nc_gps_enabled (ct_config st) \<Longrightarrow> nc_mock_enabled c = nc_mock_enabled (ct_config st) \<Longrightarrow>
   control_inv built (st\<lparr>ct_config := c\<rparr>)"
  by (simp add: control_inv_def core_config_def effective_gps)

lemma command_effect_inv:
  assumes "control_inv built st" "command_effect built cmd st = Some (changed, st')"
  shows "control_inv built st'"
proof (cases "cc_type cmd")
  case NAV_CTRL_CMD_SET_NAME
  then obtain name where n: "c_string (cc_str_value cmd) = Some name"
    "st' = st\<lparr>ct_config := (ct_config st)\<lparr>nc_name := take (NAV_NODE_NAME_MAX - 1) name\<rparr>\<rparr>"
    using assms(2) by (auto simp: command_effect_def Let_def bind_eq_Some_conv)
  have "node_config_wf ((ct_config st)\<lparr>nc_name := take (NAV_NODE_NAME_MAX - 1) name\<rparr>)"
    using c_string_no_NUL [OF n(1)] by (auto simp: node_config_wf_def dest: in_set_takeD)
  then show ?thesis using control_inv_config [OF assms(1)] n(2) by simp
next
  case NAV_CTRL_CMD_SET_GPS
  then show ?thesis using assms
    by (cases built) (auto simp: command_effect_def control_inv_def core_holds_def core_config_def effective_gps
        node_config_wf_def)
next
  case NAV_CTRL_CMD_SET_MOCK
  then show ?thesis using assms
    by (auto simp: command_effect_def control_inv_def core_config_def effective_gps node_config_wf_def)
next
  case NAV_CTRL_CMD_SET_ALTITUDE
  then show ?thesis using assms control_inv_config [OF assms(1), of "(ct_config st)\<lparr>nc_altitude_mm := cc_int_value cmd\<rparr>"]
    by (auto simp: command_effect_def control_inv_def node_config_wf_def)
next
  case NAV_CTRL_CMD_SET_NODE_ID
  let ?c = "(ct_config st)\<lparr>nc_node_id := ucast (cc_int_value cmd), nc_name := default_name (ucast (cc_int_value cmd))\<rparr>"
  have "init_core_for_config built (st\<lparr>ct_config := ?c\<rparr>) = Some st'"
    using assms(2) NAV_CTRL_CMD_SET_NODE_ID by (simp add: command_effect_def Let_def bind_eq_Some_conv)
  moreover have "node_config_wf ?c" by (simp add: node_config_wf_def name_wf del: One_nat_def)
  ultimately show ?thesis using init_core_ok [of "st\<lparr>ct_config := ?c\<rparr>" built] assms(1) by (auto simp: control_inv_def)
next
  case NAV_CTRL_CMD_SET_DEBUG
  then show ?thesis using assms
    by (auto simp: command_effect_def control_inv_def core_config_def effective_gps node_quality_clear_def
        split: if_splits)
qed (use assms in \<open>auto simp: command_effect_def\<close>)

lemma control_inv_nav: "control_inv built st \<Longrightarrow> core_holds (core_config built st) nav \<Longrightarrow> control_inv built (st\<lparr>ct_nav := nav\<rparr>)"
  by (simp add: control_inv_def core_config_def effective_gps)

lemma emitter_update_inv:
  assumes "control_inv built st" "emitter_update lm now st = Some st'"
  shows "control_inv built st' \<and> ct_config st' = ct_config st"
proof -
  let ?P = "core_holds (core_config built st)"
  obtain n1 n2 k n3 where n: "nav_core_handle_event lm (Some (altitude_event now (nc_altitude_mm (ct_config st)))) (ct_nav st) = Some n1"
    "nav_mock_emit lm (ct_mock st) now (\<lambda>e. nav_core_handle_event lm (Some e)) n1 = Some (k, n2)"
    "nav_core_tick lm now n2 = Some n3" "st' = st\<lparr>ct_nav := n3\<rparr>"
    using assms(2) by (auto simp: emitter_update_def feed_altitude_def bind_eq_Some_conv)
  have "?P (ct_nav st)" using assms(1) by (simp add: control_inv_def)
  then have "?P n1" using core_holds_event [OF n(1)] by (simp add: altitude_event_def)
  then have "?P n2" using mock_emit_keeps [where P = ?P, OF _ n(2)] core_holds_event by blast
  then have "?P n3" using core_holds_tick [OF n(3)] by simp
  then show ?thesis using control_inv_nav [OF assms(1)] n(4) by simp
qed

lemma emitter_cycle_update:
  assumes "emitter_cycle lm built now (buf, st) = Some (lines, buf', st')"
  obtains st1 where "emitter_update lm now st = Some st1"
    "st' = (if ct_debug st1 then st1\<lparr>ct_quality_seq := ct_quality_seq st1 + 1\<rparr> else st1)"
  using assms by (auto simp: emitter_cycle_def Let_def bind_eq_Some_conv split: if_splits)

lemma control_inv_seq [simp]: "control_inv built (st\<lparr>ct_quality_seq := n\<rparr>) = control_inv built st"
  by (simp add: control_inv_def core_config_def effective_gps)

lemma handle_quality_inv:
  "control_inv built st \<Longrightarrow> handle_node_quality_report r received st = Some (ok, st') \<Longrightarrow> control_inv built st'"
  by (auto simp: handle_node_quality_report_def control_inv_def core_config_def effective_gps mem_write_def
      bind_eq_Some_conv split: option.splits if_splits)

lemma control_handle_event_nav:
  assumes "control_handle_event lm buf (Some e) st = Some (ok, lines, st')"
  obtains nav where "nav_core_handle_event lm (Some e) (ct_nav st) = Some nav" "st' = st\<lparr>ct_nav := nav\<rparr>"
  using assms by (auto simp: control_handle_event_def Let_def bind_eq_Some_conv split: option.splits)

lemma control_step_inv:
  assumes "control_step lm built st c st'" "control_inv built st"
  shows "control_inv built st'"
  using assms
proof cases
  case (step_command cmd changed)
  then show ?thesis using command_effect_inv assms(2) by blast
next
  case (step_cycle buf now lines buf')
  from step_cycle(3) obtain st1 where "emitter_update lm now st = Some st1"
    "st' = (if ct_debug st1 then st1\<lparr>ct_quality_seq := ct_quality_seq st1 + 1\<rparr> else st1)"
    by (rule emitter_cycle_update)
  then show ?thesis using emitter_update_inv [OF assms(2)] by simp
next
  case (step_inject e buf ok lines)
  from step_inject(3) obtain nav where "nav_core_handle_event lm (Some e) (ct_nav st) = Some nav" "st' = st\<lparr>ct_nav := nav\<rparr>"
    by (rule control_handle_event_nav)
  then show ?thesis using core_holds_event step_inject(2) control_inv_nav [OF assms(2)] assms(2)
    unfolding control_inv_def by blast
next
  case (step_quality r received ok)
  then show ?thesis using handle_quality_inv assms(2) by blast
qed

lemma control_reachable_inv: "control_reachable lm built st \<Longrightarrow> control_inv built st"
proof (induction rule: control_reachable.induct)
  case (control_start config st)
  then show ?case using begin_inv [of config built] by auto
next
  case (control_next st c st')
  then show ?case using control_step_inv by blast
qed

text \<open>C14: The invariant of the control channel: in every state that commands, emitter cycles, injected events and
  quality reports can reach, in any order, the core satisfies its own invariant, its configuration is the
  hardware configuration of the current node id with local GNSS denied exactly when the node's GPS is off,
  the mock is well formed and enabled as configured, and the node name is a proper C string.\<close>

theorem control_channel_invariant:
  assumes "control_reachable lm built st"
  shows "core_inv (ct_nav st) \<and>
    sy_config (ct_nav st) = (hardware_config (nc_node_id (ct_config st)))
      \<lparr>cfg_demo_force_gps_denied := \<not> (built \<and> nc_gps_enabled (ct_config st))\<rparr> \<and>
    mock_wf (ct_mock st) \<and> mo_enabled (ct_mock st) = nc_mock_enabled (ct_config st) \<and>
    length (nc_name (ct_config st)) < 24 \<and> NUL \<notin> set (nc_name (ct_config st)) \<and> length (ct_node_quality st) = 4"
  using control_reachable_inv [OF assms]
  by (simp add: control_inv_def core_holds_def core_config_def effective_gps node_config_wf_def)

end
