(* ===== verification/Control_Safety.thy ===== *)
theory Control_Safety
  imports Control_Invariant
begin

text \<open>
  What the node promises its operator and its peers: with its GPS off, local GNSS never becomes the source
  of its solution and it is never an anchor of another node; a line on the serial port is one command; a
  cycle of the emitter prints the JSON documents of the state it publishes.
\<close>

section \<open>GPS off\<close>

abbreviation source_of :: "nav_system \<Rightarrow> nav_solution_source" where
  "source_of s \<equiv> sn_solution_source (sy_snapshot s)"

lemma denied_source:
  assumes "nav_step lm s c s'" "cfg_demo_force_gps_denied (sy_config s')" "source_of s' = NAV_SOURCE_LOCAL_GNSS"
  shows "source_of s = NAV_SOURCE_LOCAL_GNSS"
proof -
  have "gnss_of s' = None" using assms(2) by (simp add: gnss_of_def local_usable_def)
  then have "nav_rule (sy_config s') None (call_kind_of c) (sy_snapshot s) (sy_snapshot s')"
    using core_refines_step [OF assms(1)] by simp
  then show ?thesis
    by cases (use assms(3) in \<open>auto simp: rejected_view_def solved_view_def dest: nav_view_eqD split: if_splits\<close>)
qed

text \<open>From the state \<open>s0\<close>, with GPS denied, nothing has made local GNSS the source.\<close>

definition denied_from :: "nav_config \<Rightarrow> nav_system \<Rightarrow> nav_system \<Rightarrow> bool" where
  "denied_from cfg s0 s \<longleftrightarrow> core_holds cfg s \<and>
     (source_of s = NAV_SOURCE_LOCAL_GNSS \<longrightarrow> source_of s0 = NAV_SOURCE_LOCAL_GNSS)"

lemma denied_from_event:
  assumes "nav_core_handle_event lm (Some e) s = Some s'" "\<not> config_event (ev_data e)"
    and "cfg_demo_force_gps_denied cfg" "denied_from cfg s0 s"
  shows "denied_from cfg s0 s'"
proof -
  have "core_holds cfg s'" using core_holds_event [OF assms(1)] assms(2,4) by (simp add: denied_from_def)
  then show ?thesis using denied_source [OF step_event [OF assms(1)]] assms(3,4)
    by (auto simp: denied_from_def core_holds_def)
qed

lemma denied_from_tick:
  assumes "nav_core_tick lm now s = Some s'" "cfg_demo_force_gps_denied cfg" "denied_from cfg s0 s"
  shows "denied_from cfg s0 s'"
proof -
  have "core_holds cfg s'" using core_holds_tick [OF assms(1)] assms(3) by (simp add: denied_from_def)
  then show ?thesis using denied_source [OF step_tick [OF assms(1)]] assms(2,3)
    by (auto simp: denied_from_def core_holds_def)
qed

lemma denied_cycle:
  assumes "control_inv built st" "emitter_update lm now st = Some st'" "\<not> effective_gps_enabled built st"
  shows "denied_from (core_config built st) (ct_nav st) (ct_nav st')"
proof -
  let ?P = "denied_from (core_config built st) (ct_nav st)"
  have d: "cfg_demo_force_gps_denied (core_config built st)" using assms(3) by (simp add: core_config_def)
  obtain n1 n2 k n3 where n: "nav_core_handle_event lm (Some (altitude_event now (nc_altitude_mm (ct_config st)))) (ct_nav st) = Some n1"
    "nav_mock_emit lm (ct_mock st) now (\<lambda>e. nav_core_handle_event lm (Some e)) n1 = Some (k, n2)"
    "nav_core_tick lm now n2 = Some n3" "st' = st\<lparr>ct_nav := n3\<rparr>"
    using assms(2) by (auto simp: emitter_update_def feed_altitude_def bind_eq_Some_conv)
  have "?P (ct_nav st)" using assms(1) by (simp add: denied_from_def control_inv_def)
  then have "?P n1" using denied_from_event [OF n(1) _ d] by (simp add: altitude_event_def)
  then have "?P n2" using mock_emit_keeps [where P = ?P, OF _ n(2)] denied_from_event d by blast
  then have "?P n3" using denied_from_tick [OF n(3) d] by simp
  then show ?thesis using n(4) by simp
qed

lemma init_core_source:
  "init_core_for_config built st = Some st' \<Longrightarrow> source_of (ct_nav st') = NAV_SOURCE_NONE"
  by (auto simp: init_core_for_config_def seed_mock_def apply_core_config_def nav_core_init_def
      snapshot_clear_diagnostics_def Let_def bind_eq_Some_conv)

lemma command_source:
  assumes "command_effect built cmd st = Some (changed, st')" "source_of (ct_nav st') = NAV_SOURCE_LOCAL_GNSS"
  shows "source_of (ct_nav st) = NAV_SOURCE_LOCAL_GNSS"
  using assms
  by (cases "cc_type cmd")
    (auto simp: command_effect_def apply_core_config_def Let_def bind_eq_Some_conv dest: init_core_source split: if_splits)

text \<open>C6: With the GPS of a node off, no call in any state of the invariant makes local GNSS the source of its solution: a result with that
  source after a step was already there before it.\<close>

theorem gps_off_never_gnss:
  assumes "control_inv built st" and "control_step lm built st c st'"
    and "\<not> effective_gps_enabled built st'"
    and "source_of (ct_nav st') = NAV_SOURCE_LOCAL_GNSS"
  shows "source_of (ct_nav st) = NAV_SOURCE_LOCAL_GNSS"
proof -
  note inv = assms(1)
  show ?thesis using assms(2)
  proof cases
    case (step_command cmd changed)
    then show ?thesis using command_source assms(4) by blast
  next
    case (step_cycle buf now lines buf')
    from step_cycle(3) obtain st1 where u: "emitter_update lm now st = Some st1"
      "st' = (if ct_debug st1 then st1\<lparr>ct_quality_seq := ct_quality_seq st1 + 1\<rparr> else st1)"
      by (rule emitter_cycle_update)
    have "\<not> effective_gps_enabled built st"
      using assms(3) u(2) emitter_update_inv [OF inv u(1)] by (auto simp: effective_gps split: if_splits)
    then show ?thesis using denied_cycle [OF inv u(1)] assms(4) u(2) by (auto simp: denied_from_def split: if_splits)
  next
    case (step_inject e buf ok lines)
    from step_inject(3) obtain nav where n: "nav_core_handle_event lm (Some e) (ct_nav st) = Some nav" "st' = st\<lparr>ct_nav := nav\<rparr>"
      by (rule control_handle_event_nav)
    have "cfg_demo_force_gps_denied (core_config built st)" using assms(3) n(2) by (simp add: core_config_def effective_gps)
    moreover have "denied_from (core_config built st) (ct_nav st) (ct_nav st)"
      using inv by (simp add: denied_from_def control_inv_def)
    ultimately have "denied_from (core_config built st) (ct_nav st) nav"
      using denied_from_event [OF n(1) step_inject(2)] by blast
    then show ?thesis using n(2) assms(4) by (simp add: denied_from_def)
  next
    case (step_quality r received ok)
    then have "ct_nav st' = ct_nav st"
      by (auto simp: handle_node_quality_report_def bind_eq_Some_conv split: option.splits if_splits)
    then show ?thesis using assms(4) by simp
  qed
qed

section \<open>The beacon of a node\<close>

lemma telemetry_cases:
  assumes "get_local_telemetry built seq now (Some st) = Some t"
  shows "pt_node_id t = nc_node_id (ct_config st) \<and> pt_packet_seq t = seq \<and> pt_timestamp_ms t = now \<and>
    (pt_gnss_valid t \<longrightarrow> effective_gps_enabled built st \<and> local_gnss_usable_now built now st \<and>
       pt_position t = gs_position (sy_local_gnss (ct_nav st)) \<and> pt_fix_type t = gs_fix_type (sy_local_gnss (ct_nav st))) \<and>
    (\<not> pt_gnss_valid t \<longrightarrow> pt_fix_type t = NAV_GNSS_FIX_NONE \<and> pt_solution_source t = NAV_SOURCE_RADIO_3D \<and>
       source_of (ct_nav st) = NAV_SOURCE_RADIO_3D \<and>
       pt_solution_status t \<in> {NAV_SOLUTION_RADIO_3D, NAV_SOLUTION_DEGRADED} \<and>
       pt_nav_mode t = sn_nav_mode (sy_snapshot (ct_nav st)) \<and>
       pt_position t = sn_position (sy_snapshot (ct_nav st)))"
  using assms by (auto simp: get_local_telemetry_def nav_core_get_snapshot_def solution_is_mappable_def
      local_gnss_usable_now_def Let_def split: if_splits)


lemma consistent_radio:
  "result_consistent m st src r \<Longrightarrow> src = NAV_SOURCE_RADIO_3D \<Longrightarrow> m = NAV_MODE_RADIO_NAV_OK \<or> m = NAV_MODE_RADIO_NAV_DEGRADED"
  by (cases m) simp_all

lemma radio_names_on_wire:
  "fix_w.on_wire NAV_GNSS_FIX_NONE" "mode_w.on_wire NAV_MODE_RADIO_NAV_OK" "mode_w.on_wire NAV_MODE_RADIO_NAV_DEGRADED"
  "status_w.on_wire NAV_SOLUTION_RADIO_3D" "status_w.on_wire NAV_SOLUTION_DEGRADED" "source_w.on_wire NAV_SOURCE_RADIO_3D"
  by (simp_all add: fix_w.on_wire_def mode_w.on_wire_def status_w.on_wire_def source_w.on_wire_def
      nav_mode_of_code_def nav_solution_status_of_code_def nav_solution_source_of_code_def nav_gnss_fix_type_of_code_def)

lemma denied_telemetry_on_wire:
  assumes "get_local_telemetry built seq now (Some st) = Some t" "\<not> pt_gnss_valid t" "core_inv (ct_nav st)"
  shows "telemetry_on_wire t"
proof -
  note c = telemetry_cases [OF assms(1)]
  have "pt_nav_mode t = NAV_MODE_RADIO_NAV_OK \<or> pt_nav_mode t = NAV_MODE_RADIO_NAV_DEGRADED"
    using assms(3) c assms(2) consistent_radio unfolding core_inv_def by metis
  moreover have "pt_fix_type t = NAV_GNSS_FIX_NONE" "pt_solution_source t = NAV_SOURCE_RADIO_3D"
    "pt_solution_status t = NAV_SOLUTION_RADIO_3D \<or> pt_solution_status t = NAV_SOLUTION_DEGRADED"
    using c assms(2) by blast+
  ultimately show ?thesis unfolding telemetry_on_wire_def by (metis radio_names_on_wire)
qed

text \<open>A beacon without GNSS takes its sender off the list of anchors, whatever was known of it.\<close>

lemma receive_beacon:
  assumes "peer_table_wf (sy_peer_table (ct_nav st))"
  shows "\<exists>st'. control_handle_event lm buf (Some \<lparr>ev_timestamp_ms = now, ev_data = NAV_EVT_PEER_TELEMETRY_RX b\<rparr>) st
      = Some (True, [], st') \<and> ct_config st' = ct_config st \<and> sy_config (ct_nav st') = sy_config (ct_nav st) \<and>
    (\<forall>j. slot_for (sy_peer_table (ct_nav st')) j = (if j = pt_node_id (br_telemetry b)
       then map_option (beacon_into b now) (slot_for (sy_peer_table (ct_nav st)) j) else slot_for (sy_peer_table (ct_nav st)) j))"
proof -
  let ?e = "\<lparr>ev_timestamp_ms = now, ev_data = NAV_EVT_PEER_TELEMETRY_RX b\<rparr>"
  obtain t where t: "nav_core_handle_event lm (Some ?e) (ct_nav st) = Some t"
    "sy_peer_table t = snd (nav_peer_table_update_beacon_rx (sy_peer_table (ct_nav st)) (Some b) now)"
    "sy_config t = sy_config (ct_nav st)"
    using report_event_state [of ?e lm "ct_nav st"] by (auto simp: input_state_def handle_tables)
  then show ?thesis using update_beacon_slot [OF assms, of b now]
    by (simp add: control_handle_event_def range_record_of_def Let_def)
qed

lemma beacon_untrusted:
  assumes "\<forall>j. slot_for (sy_peer_table s') j = (if j = pt_node_id (br_telemetry b)
      then map_option (beacon_into b now) (slot_for t j) else slot_for t j)"
    and "\<not> pt_gnss_valid (br_telemetry b)"
  shows "\<not> trusted_anchor s' later (pt_node_id (br_telemetry b))"
  using assms by (auto simp: trusted_anchor_def get_const_slot beacon_into_def telemetry_into_def split: option.splits)

text \<open>C7: A node whose GPS is off is nobody's anchor: the beacon that it sends, carried over the radio and
  injected into the core of any other node, leaves that node without trust in the sender, at every later
  time and whatever ranges and positions it had of the sender before.\<close>

theorem gps_off_no_anchor:
  assumes "control_inv built st" and "\<not> effective_gps_enabled built st"
    and "get_local_telemetry built seq sent_ms (Some st) = Some t"
    and "nav_telemetry_encode_beacon junk (Some t) frame_seq out cap n0 = Some (NAV_STATUS_OK, sent, n)" and "cap \<le> length out"
    and "control_inv built' peer"
  shows "\<exists>e peer'. nav_telemetry_decode_event (Some (take n sent)) n now rssi snr e0 = Some (NAV_STATUS_OK, e) \<and>
    control_handle_event lm' buf (Some e) peer = Some (True, [], peer') \<and>
    \<not> trusted_anchor (ct_nav peer') later (nc_node_id (ct_config st))"
proof -
  note inv = assms(1) and inv' = assms(6)
  have t: "pt_node_id t = nc_node_id (ct_config st)" "\<not> pt_gnss_valid t" using telemetry_cases [OF assms(3)] assms(2) by auto
  have w: "telemetry_on_wire t"
    using denied_telemetry_on_wire [OF assms(3) t(2)] inv by (simp add: control_inv_def core_holds_def)
  define b where "b = \<lparr>br_telemetry = t\<lparr>pt_satellites := 0, pt_hdop_centi := 0, pt_hacc_mm := 0, pt_vacc_mm := 0\<rparr>,
    br_rssi_dbm = rssi, br_snr_db = snr\<rparr>"
  have d: "nav_telemetry_decode_event (Some (take n sent)) n now rssi snr e0
      = Some (NAV_STATUS_OK, \<lparr>ev_timestamp_ms = now, ev_data = NAV_EVT_PEER_TELEMETRY_RX b\<rparr>)"
    unfolding b_def by (rule beacon_delivered [OF w assms(5,4)])
  have "peer_table_wf (sy_peer_table (ct_nav peer))" using inv' by (simp add: control_inv_def core_holds_def core_inv_def system_wf_def)
  from receive_beacon [OF this, of lm' buf now b] show ?thesis
    using d beacon_untrusted [of _ b now _ later] t by (fastforce simp: b_def)
qed

end
