(* ===== verification/Control_Serial.thy ===== *)
theory Control_Serial
  imports Control_Safety
begin

text \<open>
  The serial side of the control channel: the reader task is a line discipline in front of the command
  scanner, the emitter prints documents.
\<close>

section \<open>The reader\<close>

definition reader_wf :: "line_reader \<Rightarrow> bool" where
  "reader_wf rd \<longleftrightarrow> length (ln_line rd) = LINE_MAX \<and> ln_len rd < LINE_MAX"

text \<open>What a complete line does.\<close>

definition submit_line ::
  "'s nvs_api \<Rightarrow> bool \<Rightarrow> nat \<Rightarrow> string \<Rightarrow> control_state \<times> 's \<Rightarrow> (control_state \<times> 's) option" where
  "submit_line api built w txt cs = do {
     (status, cmd) \<leftarrow> nav_serial_parse_command w (Some txt) ctrl_command_zero;
     if status = NAV_STATUS_OK then apply_command api built cmd cs else Some cs }"

definition line_end :: "u8 \<Rightarrow> bool" where
  "line_end b \<longleftrightarrow> b = 10 \<or> b = 13"

lemma line_end_char: "(char_of (unat b) = CHR 0x0A \<or> char_of (unat b) = CHR 0x0D) \<longleftrightarrow> line_end b"
proof -
  have key: "char_of (unat b) = char_of (n :: nat) \<longleftrightarrow> b = of_nat n" if "n < 256" for n
  proof -
    have "unat b < 256" using unsigned_less [of b, where 'a = nat] by simp
    then have "char_of (unat b) = char_of n \<longleftrightarrow> unat b = n" using that
      by (metis mod_less of_char_of)
    also have "\<dots> \<longleftrightarrow> b = of_nat n" using that by (simp add: word_unat_eq_iff unsigned_of_nat take_bit_eq_mod)
    finally show ?thesis .
  qed
  have c: "char_of (10 :: nat) = CHR 0x0A" "char_of (13 :: nat) = CHR 0x0D" by (simp_all add: char_of_def bit_Suc_0_iff)
  have "char_of (unat b) = CHR 0x0A \<longleftrightarrow> b = of_nat 10" "char_of (unat b) = CHR 0x0D \<longleftrightarrow> b = of_nat 13"
    using key [of 10] key [of 13] unfolding c by simp_all
  then show ?thesis by (simp only: line_end_def of_nat_numeral)
qed

lemma reader_byte_simps:
  "reader_byte api built w None (rd, cs) = Some (rd, cs)"
  "line_end b \<Longrightarrow> ln_len rd = 0 \<Longrightarrow> reader_byte api built w (Some b) (rd, cs) = Some (rd, cs)"
  "\<not> line_end b \<Longrightarrow> reader_wf rd \<Longrightarrow> reader_byte api built w (Some b) (rd, cs) =
     Some (if ln_len rd + 1 < LINE_MAX
       then rd\<lparr>ln_line := (ln_line rd)[ln_len rd := char_of (unat b)], ln_len := ln_len rd + 1\<rparr>
       else rd\<lparr>ln_len := 0\<rparr>, cs)"
  using line_end_char [of b] by (auto simp: reader_byte_def reader_wf_def mem_write_def Let_def)

lemma reader_submit:
  assumes "line_end b" "reader_wf rd" "ln_len rd \<noteq> 0"
  shows "reader_byte api built w (Some b) (rd, cs) = map_option
    (Pair (rd\<lparr>ln_line := (ln_line rd)[ln_len rd := NUL], ln_len := 0\<rparr>))
    (submit_line api built w (takeWhile (\<lambda>c. c \<noteq> NUL) (take (ln_len rd) (ln_line rd))) cs)"
proof -
  let ?l = "(ln_line rd)[ln_len rd := NUL]"
  have l: "?l = take (ln_len rd) (ln_line rd) @ NUL # drop (Suc (ln_len rd)) (ln_line rd)"
    using assms(2) by (simp add: reader_wf_def upd_conv_take_nth_drop)
  have "c_string ?l = Some (takeWhile (\<lambda>c. c \<noteq> NUL) (take (ln_len rd) (ln_line rd)))"
    unfolding l by (auto simp: c_string_def takeWhile_append takeWhile_eq_all_conv [THEN iffD2, symmetric])
  moreover have "char_of (unat b) = CHR 0x0A \<or> char_of (unat b) = CHR 0x0D" using assms(1) line_end_char by blast
  ultimately have "reader_byte api built w (Some b) (rd, cs) = do {
      (status, cmd) \<leftarrow> nav_serial_parse_command w (Some (takeWhile (\<lambda>c. c \<noteq> NUL) (take (ln_len rd) (ln_line rd)))) ctrl_command_zero;
      cs \<leftarrow> (if status = NAV_STATUS_OK then apply_command api built cmd cs else Some cs);
      Some (rd\<lparr>ln_line := ?l, ln_len := 0\<rparr>, cs) }"
    using assms(2,3) by (auto simp: reader_byte_def reader_wf_def mem_write_def Let_def)
  moreover have "(do { (status, cmd) \<leftarrow> p; cs \<leftarrow> f status cmd; Some (x, cs) }) = map_option (Pair x) (do { (status, cmd) \<leftarrow> p; f status cmd })"
    for p :: "(nav_status \<times> nav_ctrl_command) option" and f and x :: line_reader
    by (cases p; cases "f (fst (the p)) (snd (the p))") (auto split: prod.splits)
  ultimately show ?thesis unfolding submit_line_def by simp
qed

lemma submit_inv:
  assumes "control_inv built st"
  shows "\<exists>st' s'. submit_line api built w txt (st, s) = Some (st', s') \<and> control_inv built st'"
proof -
  obtain status cmd where p: "nav_serial_parse_command w (Some txt) ctrl_command_zero = Some (status, cmd)"
    "command_safe (status, cmd)" using parse_command_total by (metis prod.collapse)
  obtain name where n: "c_string (cc_str_value cmd) = Some name"
    using p(2) by (auto simp: command_safe_pair c_string_def)
  have i: "\<exists>st'. init_core_for_config built (st\<lparr>ct_config := c\<rparr>) = Some st'"
    if "node_config_wf c" "nc_gps_enabled c = nc_gps_enabled (ct_config st)" for c
    using init_core_ok [of "st\<lparr>ct_config := c\<rparr>" built] that assms by (auto simp: control_inv_def)
  have "command_effect built cmd st \<noteq> None"
  proof (cases "cc_type cmd")
    case NAV_CTRL_CMD_SET_NODE_ID
    then show ?thesis using i [of "(ct_config st)\<lparr>nc_node_id := ucast (cc_int_value cmd), nc_name := default_name (ucast (cc_int_value cmd))\<rparr>"]
      by (auto simp: command_effect_def Let_def node_config_wf_def name_wf simp del: One_nat_def)
  qed (simp_all add: command_effect_def n Let_def)
  then obtain changed st' where e: "command_effect built cmd st = Some (changed, st')" by auto
  then show ?thesis using p(1) command_effect_inv [OF assms e] assms
    by (auto simp: submit_line_def apply_command_def)
qed

lemma reader_byte_inv:
  assumes "reader_wf rd" "control_inv built st"
  shows "\<exists>rd' st' s'. reader_byte api built w i (rd, st, s) = Some (rd', st', s') \<and> reader_wf rd' \<and> control_inv built st'"
proof (cases i)
  case None
  then show ?thesis using assms by (simp add: reader_byte_simps)
next
  case (Some b)
  consider "line_end b" "ln_len rd = 0" | "line_end b" "ln_len rd \<noteq> 0" | "\<not> line_end b" by blast
  then show ?thesis
  proof cases
    case 2
    obtain st' s' where "submit_line api built w (takeWhile (\<lambda>c. c \<noteq> NUL) (take (ln_len rd) (ln_line rd))) (st, s) = Some (st', s')"
      "control_inv built st'" using submit_inv [OF assms(2), of api w "takeWhile (\<lambda>c. c \<noteq> NUL) (take (ln_len rd) (ln_line rd))" s] by blast
    then show ?thesis using reader_submit [OF 2(1) assms(1) 2(2), of api built w "(st, s)"] assms(1) Some
      by (simp add: reader_wf_def)
  next
    case 3
    then show ?thesis using assms Some by (simp add: reader_byte_simps) (simp add: reader_wf_def)
  qed (use assms Some in \<open>simp add: reader_byte_simps\<close>)
qed

text \<open>The reader task survives every byte stream: it never leaves its line buffer, no line makes the command
  scanner or the configuration code fail, and the invariant of the node holds after every byte.\<close>

theorem reader_total:
  assumes "reader_wf rd" and "control_inv built st"
  shows "\<exists>rd' st' s'. reader_run api built w bytes (rd, st, s) = Some (rd', st', s') \<and> reader_wf rd' \<and> control_inv built st'"
  using assms
proof (induction bytes arbitrary: rd st s)
  case (Cons i bytes)
  obtain rd1 st1 s1 where "reader_byte api built w i (rd, st, s) = Some (rd1, st1, s1)" "reader_wf rd1" "control_inv built st1"
    using reader_byte_inv [OF Cons.prems, of api w i s] by blast
  then show ?case using Cons.IH by simp
qed simp

lemma reader_fill:
  assumes "length (ln_line rd) = LINE_MAX" "ln_len rd + length l < LINE_MAX" "list_all (\<lambda>b. \<not> line_end b) l"
  shows "\<exists>rd'. reader_run api built w (map Some l @ r) (rd, cs) = reader_run api built w r (rd', cs) \<and>
    length (ln_line rd') = LINE_MAX \<and> ln_len rd' = ln_len rd + length l \<and>
    take (ln_len rd') (ln_line rd') = take (ln_len rd) (ln_line rd) @ map (\<lambda>b. char_of (unat b)) l"
  using assms
proof (induction l arbitrary: rd)
  case (Cons b l)
  let ?rd = "rd\<lparr>ln_line := (ln_line rd)[ln_len rd := char_of (unat b)], ln_len := ln_len rd + 1\<rparr>"
  have step: "reader_byte api built w (Some b) (rd, cs) = Some (?rd, cs)"
    using Cons.prems reader_byte_simps(3) [of b rd] by (simp add: reader_wf_def)
  obtain rd' where "reader_run api built w (map Some l @ r) (?rd, cs) = reader_run api built w r (rd', cs)"
    "length (ln_line rd') = LINE_MAX" "ln_len rd' = ln_len rd + 1 + length l"
    "take (ln_len rd') (ln_line rd') = take (ln_len rd + 1) ((ln_line rd)[ln_len rd := char_of (unat b)]) @ map (\<lambda>b. char_of (unat b)) l"
    using Cons.IH [of ?rd] Cons.prems by auto
  moreover have "take (ln_len rd + 1) ((ln_line rd)[ln_len rd := char_of (unat b)]) = take (ln_len rd) (ln_line rd) @ [char_of (unat b)]"
    using Cons.prems by (simp add: take_Suc_conv_app_nth)
  ultimately show ?case using step by auto
qed auto

definition text_of :: "u8 list \<Rightarrow> string" where
  "text_of l = takeWhile (\<lambda>c. c \<noteq> NUL) (map (\<lambda>b. char_of (unat b)) l)"

text \<open>C32: A line is a command: up to 255 bytes without a line end, followed by CR or LF, have exactly the effect
  of the command scanner on the text in front of a NUL, once, and leave the buffer empty for the next line.\<close>

theorem reader_line:
  assumes "length (ln_line rd) = 256" and "ln_len rd = 0" and "l \<noteq> []" and "length l < 256"
    and "list_all (\<lambda>b. \<not> line_end b) l" and "line_end e"
  shows "\<exists>rd'. ln_len rd' = 0 \<and> length (ln_line rd') = 256 \<and>
    reader_run api built w (map Some (l @ [e])) (rd, cs) = map_option (Pair rd') (submit_line api built w (text_of l) cs)"
proof -
  obtain rd1 where 1: "reader_run api built w (map Some l @ [Some e]) (rd, cs) = reader_run api built w [Some e] (rd1, cs)"
    "length (ln_line rd1) = 256" "ln_len rd1 = length l" "take (ln_len rd1) (ln_line rd1) = map (\<lambda>b. char_of (unat b)) l"
    using reader_fill [of rd l api built w "[Some e]" cs] assms by auto
  have "reader_wf rd1" using 1(2,3) assms(4) by (simp add: reader_wf_def)
  then show ?thesis using reader_submit [OF assms(6), of rd1 api built w cs] 1 assms(3)
    by (intro exI [of _ "rd1\<lparr>ln_line := (ln_line rd1)[ln_len rd1 := NUL], ln_len := 0\<rparr>"])
      (cases "submit_line api built w (text_of l) cs", simp_all add: text_of_def)
qed

text \<open>The overflow branch empties the buffer but does not skip to the line end: what follows the first 256
  bytes of a longer line is read as a line of its own.\<close>

lemma overlong_tail_is_a_line:
  assumes "length (ln_line rd) = 256" "ln_len rd = 0" "length l = 256" "list_all (\<lambda>b. \<not> line_end b) l"
  shows "\<exists>rd'. ln_len rd' = 0 \<and> length (ln_line rd') = 256 \<and>
    reader_run api built w (map Some (l @ tail)) (rd, cs) = reader_run api built w (map Some tail) (rd', cs)"
proof -
  obtain k b where l: "l = k @ [b]" "length k = 255" using assms(3) by (cases l rule: rev_cases) auto
  obtain rd1 where 1: "reader_run api built w (map Some k @ Some b # map Some tail) (rd, cs)
      = reader_run api built w (Some b # map Some tail) (rd1, cs)" "length (ln_line rd1) = 256" "ln_len rd1 = 255"
    using reader_fill [of rd k api built w "Some b # map Some tail" cs] assms l by auto
  have "reader_byte api built w (Some b) (rd1, cs) = Some (rd1\<lparr>ln_len := 0\<rparr>, cs)"
    using reader_byte_simps(3) [of b rd1 api built w cs] 1 assms(4) l by (simp add: reader_wf_def)
  then show ?thesis using 1 l by (intro exI [of _ "rd1\<lparr>ln_len := 0\<rparr>"]) simp
qed

section \<open>The emitter\<close>

definition local_report :: "control_state \<Rightarrow> nav_node_quality_report option" where
  "local_report st = fill_local_node_quality_report (ct_quality_seq st) (sy_snapshot (ct_nav st)) (ct_nav st)"

definition quality_documents :: "u32 \<Rightarrow> buffered_quality list \<Rightarrow> json list" where
  "quality_documents now qs = map (\<lambda>q. quality_record_json (bq_report q) now (now - bq_received_ms q) (Some ''peer''))
     (filter bq_present qs)"

text \<open>The documents that describe a state at a time.\<close>

definition cycle_documents :: "bool \<Rightarrow> u32 \<Rightarrow> control_state \<Rightarrow> json list" where
  "cycle_documents built now st =
     snapshot_record_json (emitter_info built st) (sy_snapshot (ct_nav st)) (sy_peer_table (ct_nav st)) #
     (if ct_debug st then quality_record_json (the (local_report st)) now 0 (Some ''local'') #
        quality_documents now (ct_node_quality st) else [])"

text \<open>A figure that is not finite prints as \<^verbatim>\<open>nan\<close> or \<^verbatim>\<open>inf\<close>, which is no JSON number but a text like the others: what
  a record prints never depends on its figures being finite, only whether a JSON parser takes it does.\<close>

fun json_plain :: "json \<Rightarrow> bool" where
  "json_plain (JBool b) = True"
| "json_plain (JNum s) = printable s"
| "json_plain (JStr s) = True"
| "json_plain (JArr js) = list_all json_plain js"
| "json_plain (JObj ms) = list_all (\<lambda>(k, v). json_plain v) ms"

lemma plain_printable: "json_plain j \<Longrightarrow> printable (json_text j)"
proof (induction j rule: json_text.induct)
  case (1 b)
  then show ?case by (cases b) (simp_all add: code_def)
next
  case (4 js)
  then have "printable (commas (map json_text js))" by (intro commas_printable) (auto simp: list_all_iff)
  then show ?case by (simp add: code_def)
next
  case (5 ms)
  have "printable (json_string k @ CHR '':'' # json_text v)" if "(k, v) \<in> set ms" for k v
    using 5 that string_printable [of k] by (auto simp: list_all_iff code_def)
  then have "printable (commas (map (\<lambda>(k, v). json_string k @ CHR '':'' # json_text v) ms))"
    by (intro commas_printable) auto
  then show ?case by (simp add: code_def)
qed (simp_all add: string_printable)

lemmas plain_no_NUL = plain_printable [THEN printable_no_NUL]

lemma figure_printable: "0 < k \<Longrightarrow> printable (fmt_f k x)"
proof (cases "fp_isfinite x")
  case False
  then show ?thesis by (cases x) (simp_all add: code_def)
qed (simp add: number_f number_printable)

lemmas plain_numbers = figure_printable number_u [THEN number_printable] number_d [THEN number_printable]

lemma quality_plain: "json_plain (quality_record_json r ts age origin)"
  by (simp add: quality_record_json_def Let_def plain_numbers list_all_iff)

lemma snapshot_plain: "json_plain (snapshot_record_json info sn table)"
proof -
  have p: "json_plain (peer_json sn p)" for p by (simp add: peer_json_def plain_numbers Let_def)
  have "json_plain (local_gnss_json info sn)" "json_plain (radio_solve_json sn)"
    by (simp_all add: local_gnss_json_def radio_solve_json_def plain_numbers)
  moreover have "json_plain (JArr (map (peer_json sn) (present_peers table [0, 1, 2, 3])))"
    using p by (simp add: list_all_iff)
  ultimately show ?thesis
    by (simp add: snapshot_record_json_def snapshot_json_def plain_numbers del: json_text.simps)
qed

definition printed :: "json \<Rightarrow> string" where
  "printed j = take (RECORD_BUF_MAX - 1) (json_text j)"

lemma object_text: "json_text (JObj ms) \<noteq> []"
  by simp

lemma printed_written:
  assumes "c_string b = Some (take (RECORD_BUF_MAX - 1) (json_text (JObj ms)))"
  shows "printed_record b = Some [printed (JObj ms)]"
  using assms by (simp add: printed_record_def printed_def)

lemma quality_object: "\<exists>ms. quality_record_json r ts age origin = JObj ms"
  by (simp add: quality_record_json_def Let_def)

lemma quality_printed:
  assumes "length buf = RECORD_BUF_MAX"
  shows "\<exists>buf'. emit_quality r now age origin (buf, lines)
      = Some (buf', lines @ [printed (quality_record_json r now age (Some origin))]) \<and> length buf' = RECORD_BUF_MAX"
proof -
  obtain ms where f: "quality_record_json r now age (Some origin) = JObj ms" using quality_object by blast
  obtain b where b: "nav_serial_write_node_quality_record buf RECORD_BUF_MAX (Some r) now age (Some origin)
      = Some (b, int (length (json_text (JObj ms))))" "c_string b = Some (take (RECORD_BUF_MAX - 1) (json_text (JObj ms)))"
    using quality_w.content [of RECORD_BUF_MAX buf r now age "Some origin"] plain_no_NUL [OF quality_plain [of r now age "Some origin"]] assms
    unfolding f by auto
  have "length b = RECORD_BUF_MAX"
    using quality_w.frame [of RECORD_BUF_MAX buf r now age "Some origin"] b(1) assms by auto
  then show ?thesis using b(1) printed_written [OF b(2)] f by (auto simp: emit_quality_def)
qed

lemma peers_printed:
  assumes "length buf = RECORD_BUF_MAX"
  shows "\<exists>buf'. emit_peer_quality now qs (buf, lines) = Some (buf', lines @ map printed (quality_documents now qs)) \<and>
    length buf' = RECORD_BUF_MAX"
  using assms
proof (induction qs arbitrary: buf lines)
  case (Cons q qs)
  show ?case
  proof (cases "bq_present q")
    case True
    obtain buf1 where 1: "emit_quality (bq_report q) now (now - bq_received_ms q) ''peer'' (buf, lines)
      = Some (buf1, lines @ [printed (quality_record_json (bq_report q) now (now - bq_received_ms q) (Some ''peer''))])"
      "length buf1 = RECORD_BUF_MAX"
      using quality_printed [OF Cons.prems] by blast
    then show ?thesis
      using Cons.IH [OF 1(2), of "lines @ [printed (quality_record_json (bq_report q) now (now - bq_received_ms q) (Some ''peer''))]"]
        True by (simp add: quality_documents_def)
  next
    case False
    then show ?thesis using Cons by (simp add: quality_documents_def)
  qed
qed (simp add: quality_documents_def)

lemma snapshot_printed:
  assumes "length buf = RECORD_BUF_MAX"
  shows "\<exists>b k. nav_serial_write_snapshot_record buf RECORD_BUF_MAX (Some info) (Some sn) (Some table) = Some (b, k) \<and>
    printed_record b = Some [printed (snapshot_record_json info sn table)] \<and> length b = RECORD_BUF_MAX"
proof -
  obtain ms where f: "snapshot_record_json info sn table = JObj ms" by (simp add: snapshot_record_json_def)
  obtain b where b: "nav_serial_write_snapshot_record buf RECORD_BUF_MAX (Some info) (Some sn) (Some table)
      = Some (b, int (length (json_text (JObj ms))))" "c_string b = Some (take (RECORD_BUF_MAX - 1) (json_text (JObj ms)))"
    using record_w.content [of RECORD_BUF_MAX buf info sn table] plain_no_NUL [OF snapshot_plain [of info sn table]] assms unfolding f by auto
  have "length b = RECORD_BUF_MAX" using record_w.frame [of RECORD_BUF_MAX buf info sn table] b(1) assms by auto
  then show ?thesis using b(1) printed_written [OF b(2)] unfolding f by blast
qed

lemma cycle_quiet:
  assumes "emitter_update lm now st = Some st1" "\<not> ct_debug st1" "printed_record b = Some ls"
    and "nav_serial_write_snapshot_record buf RECORD_BUF_MAX (Some (emitter_info built st1)) (Some (sy_snapshot (ct_nav st1)))
      (Some (sy_peer_table (ct_nav st1))) = Some (b, k)"
  shows "emitter_cycle lm built now (buf, st) = Some (ls, b, st1)"
  using assms by (simp add: emitter_cycle_def nav_core_get_snapshot_def)

lemma cycle_debug:
  assumes "emitter_update lm now st = Some st1" "ct_debug st1" "printed_record b = Some ls"
    and "nav_serial_write_snapshot_record buf RECORD_BUF_MAX (Some (emitter_info built st1)) (Some (sy_snapshot (ct_nav st1)))
      (Some (sy_peer_table (ct_nav st1))) = Some (b, k)"
  shows "emitter_cycle lm built now (buf, st) = do {
      report \<leftarrow> local_report (st1\<lparr>ct_quality_seq := ct_quality_seq st1 + 1\<rparr>);
      (buf, lines) \<leftarrow> emit_quality report now 0 ''local'' (b, ls);
      (buf, lines) \<leftarrow> emit_peer_quality now (ct_node_quality st1) (buf, lines);
      Some (lines, buf, st1\<lparr>ct_quality_seq := ct_quality_seq st1 + 1\<rparr>) }"
  using assms by (simp add: emitter_cycle_def nav_core_get_snapshot_def local_report_def Let_def)

text \<open>The report of the node itself can always be filled in: no figure leaves the range of its conversion.\<close>

lemma millimeters_total: "\<exists>mm. meters_to_millimeters v = Some mm"
proof (cases "\<not> fp_isfinite v \<or> fp_le v (Fin 0) \<or> fp_le (Fin 4294967) v")
  case False
  then obtain x where x: "v = Fin x" "0 < x" "x < 4294967" by (cases v) auto
  then obtain s where s: "fp_rnd binary32 (x * 1000) = Fin s" "0 \<le> s" "\<bar>s - x * 1000\<bar> \<le> 128"
    using rnd32_error [of "x * 1000" 32] by auto
  then have b: "s \<le> 4294967128" using x by linarith
  then obtain z where z: "fp_rnd binary32 (s + 1 / 2) = Fin z" "0 \<le> z" "\<bar>z - (s + 1 / 2)\<bar> \<le> 128"
    using rnd32_error [of "s + 1 / 2" 32] s(2) by auto
  have "z \<le> 4294967295" using z(3) b by linarith
  then have "\<lfloor>z\<rfloor> \<le> 4294967295" using floor_mono [of z 4294967295] by simp
  then show ?thesis using x s(1) z(1,2)
    by (simp add: meters_to_millimeters_def rat_trunc_def)
qed (auto simp: meters_to_millimeters_def)

lemma local_report_total: "\<exists>r. local_report st = Some r \<and>
    qr_geometry_score r = sn_geometry_score (sy_snapshot (ct_nav st)) \<and>
    qr_total_quality r = sn_total_quality (sy_snapshot (ct_nav st))"
proof -
  obtain a b where "meters_to_millimeters (sn_residual_rms_m (sy_snapshot (ct_nav st))) = Some a"
    "meters_to_millimeters (sn_max_residual_m (sy_snapshot (ct_nav st))) = Some b"
    using millimeters_total by metis
  then show ?thesis by (simp add: local_report_def fill_local_node_quality_report_def Let_def)
qed

text \<open>The figures that the documents of a state show as real numbers.\<close>

definition figures_finite :: "control_state \<Rightarrow> bool" where
  "figures_finite st \<longleftrightarrow> snapshot_finite (sy_snapshot (ct_nav st)) (sy_peer_table (ct_nav st)) \<and>
     list_all (\<lambda>q. bq_present q \<longrightarrow> fp_isfinite (qr_geometry_score (bq_report q)) \<and> fp_isfinite (qr_total_quality (bq_report q)))
       (ct_node_quality st)"

lemma small_int_double: "0 \<le> n \<Longrightarrow> n \<le> 2 ^ 32 \<Longrightarrow> fp_rnd binary64 (of_int n) = Fin (of_int n)"
proof (rule fp_rnd_of_int)
  assume n: "0 \<le> n" "n \<le> 2 ^ 32"
  then have "\<bar>of_int n :: rat\<bar> \<le> of_int (2 ^ 32)" by (simp only: of_int_le_iff flip: of_int_abs)
  also have "\<dots> \<le> fmt_max binary64" by (rule order_trans [OF _ fmt_max_binary64]) simp
  finally show "\<bar>of_int n\<bar> \<le> fmt_max binary64" .
qed simp_all

lemma thousandth_finite: "fp_isfinite (fp_div binary64 (fp_of_int binary64 (uint (x :: u32))) (Fin 1000))"
proof -
  define n where "n = uint x"
  have n: "0 \<le> n" "n \<le> 2 ^ 32" using uint_bounded [of x] by (simp_all add: n_def)
  have "fp_le (fp_rnd binary64 0) (fp_rnd binary64 (of_int n / 1000))" "fp_le (fp_rnd binary64 (of_int n / 1000)) (fp_rnd binary64 (of_int (2 ^ 32)))"
    using n by (intro f64.rnd_mono; simp)+
  then have "fp_isfinite (fp_rnd binary64 (of_int n / 1000))"
    unfolding f64.rnd_zero small_int_double [OF zero_le_power order_refl, OF zero_le_numeral]
    by (cases "fp_rnd binary64 (of_int n / 1000)") simp_all
  moreover have "fp_of_int binary64 (uint x) = Fin (of_int n)"
    using small_int_double [OF n] by (simp add: fp_of_int_def n_def)
  ultimately show ?thesis by simp
qed

lemma documents_ok:
  assumes "figures_finite st"
  shows "list_all json_ok (cycle_documents built now st)"
proof -
  have q: "json_ok (quality_record_json r ts age origin)"
    if "fp_isfinite (qr_geometry_score r)" "fp_isfinite (qr_total_quality r)" for r ts age origin
    using that by (simp add: quality_record_json_def Let_def numbers thousandth_finite list_all_iff)
  obtain r where r: "local_report st = Some r" "qr_geometry_score r = sn_geometry_score (sy_snapshot (ct_nav st))"
    "qr_total_quality r = sn_total_quality (sy_snapshot (ct_nav st))" using local_report_total by blast
  have "fp_isfinite (qr_geometry_score r)" "fp_isfinite (qr_total_quality r)"
    using assms r(2,3) by (simp_all add: figures_finite_def snapshot_finite_def)
  then show ?thesis using assms r(1) q snapshot_ok
    by (auto simp: cycle_documents_def quality_documents_def figures_finite_def list_all_iff)
qed

text \<open>C33: The emitter publishes its state: once the core's part of a cycle has returned the cycle returns, and it prints
  the snapshot record of the state it leaves and, in debug mode, the quality record of the node itself and of
  every buffered peer with its age, each as the text of its document cut to the 2047 characters of the
  buffer, in this order and nothing else. Whether the figures are finite does not matter for that; where they
  are, every document is JSON.\<close>

theorem emitter_prints_documents:
  assumes "length buf = 2048" and "emitter_update lm now st = Some st1"
  shows "\<exists>buf' st'. emitter_cycle lm built now (buf, st) = Some (map printed (cycle_documents built now st'), buf', st') \<and>
    length buf' = 2048 \<and> st' = (if ct_debug st1 then st1\<lparr>ct_quality_seq := ct_quality_seq st1 + 1\<rparr> else st1) \<and>
    (figures_finite st' \<longrightarrow> list_all json_ok (cycle_documents built now st'))"
proof -
  define st' where "st' = (if ct_debug st1 then st1\<lparr>ct_quality_seq := ct_quality_seq st1 + 1\<rparr> else st1)"
  define doc where "doc = snapshot_record_json (emitter_info built st1) (sy_snapshot (ct_nav st1)) (sy_peer_table (ct_nav st1))"
  have docs: "cycle_documents built now st' = doc # (if ct_debug st1 then quality_record_json (the (local_report st')) now 0 (Some ''local'') #
      quality_documents now (ct_node_quality st1) else [])"
    by (simp add: st'_def cycle_documents_def doc_def emitter_info_def effective_gps)
  obtain b k where b: "nav_serial_write_snapshot_record buf RECORD_BUF_MAX (Some (emitter_info built st1))
      (Some (sy_snapshot (ct_nav st1))) (Some (sy_peer_table (ct_nav st1))) = Some (b, k)"
    "printed_record b = Some [printed doc]" "length b = RECORD_BUF_MAX"
    using snapshot_printed [OF assms(1), of "emitter_info built st1" "sy_snapshot (ct_nav st1)" "sy_peer_table (ct_nav st1)"]
    unfolding doc_def by blast
  have "\<exists>buf'. emitter_cycle lm built now (buf, st) = Some (map printed (cycle_documents built now st'), buf', st') \<and> length buf' = 2048"
  proof (cases "ct_debug st1")
    case False
    then show ?thesis using cycle_quiet [OF assms(2) False b(2,1)] b(3) docs by (simp add: st'_def)
  next
    case True
    note c = cycle_debug [OF assms(2) True b(2,1)]
    obtain r where r: "local_report st' = Some r" using local_report_total by blast
    obtain b1 where 1: "emit_quality r now 0 ''local'' (b, [printed doc])
        = Some (b1, [printed doc] @ [printed (quality_record_json r now 0 (Some ''local''))])" "length b1 = RECORD_BUF_MAX"
      using quality_printed [OF b(3)] by blast
    obtain b2 where 2: "emit_peer_quality now (ct_node_quality st1) (b1, [printed doc] @ [printed (quality_record_json r now 0 (Some ''local''))])
        = Some (b2, ([printed doc] @ [printed (quality_record_json r now 0 (Some ''local''))])
            @ map printed (quality_documents now (ct_node_quality st1)))" "length b2 = RECORD_BUF_MAX"
      using peers_printed [OF 1(2)] by blast
    have "st' = st1\<lparr>ct_quality_seq := ct_quality_seq st1 + 1\<rparr>" using True by (simp add: st'_def)
    then show ?thesis using 1(1) 2 r True unfolding c docs by simp
  qed
  then show ?thesis using documents_ok st'_def by blast
qed

end
