(* ===== verification/Control_Run.thy ===== *)
theory Control_Run
  imports Control_Serial Nav_Core_Run
begin

text \<open>
  The control channel on concrete states: a node that has just started, one with a radio position, one with
  a GNSS fix.
\<close>

definition run_start :: control_state where
  "run_start = the (control_begin True ex_config)"

lemma run_start: "control_begin True ex_config = Some run_start" "control_inv True run_start"
proof -
  have "node_config_wf ex_config" by (simp add: node_config_wf_def ex_config_def)
  then obtain st where "control_begin True ex_config = Some st" "control_inv True st" using begin_inv by blast
  then show "control_begin True ex_config = Some run_start" "control_inv True run_start" by (simp_all add: run_start_def)
qed

theorem control_channel_invariant_witness:
  "\<exists>st. control_reachable run_libm True st \<and> core_inv (ct_nav st) \<and> length (nc_name (ct_config st)) < 24"
proof -
  have "control_reachable run_libm True run_start"
    by (rule control_start [OF _ run_start(1)]) (simp add: node_config_wf_def ex_config_def)
  then show ?thesis using control_channel_invariant by blast
qed

text \<open>The start configuration has the GPS off; the core is given a radio result.\<close>

lemma run_start_config: "ct_config run_start = ex_config" "ct_debug run_start = False"
proof -
  have "ct_config run_start = ex_config \<and> ct_debug run_start = False"
    using run_start(1) init_core_ok [of "control_zero\<lparr>ct_config := ex_config\<rparr>" True]
    by (auto simp: control_begin_def control_zero_def ex_config_def node_config_wf_def)
  then show "ct_config run_start = ex_config" "ct_debug run_start = False" by simp_all
qed

definition with_result :: "nav_mode \<Rightarrow> nav_solution_status \<Rightarrow> nav_solution_source \<Rightarrow> control_state \<Rightarrow> control_state" where
  "with_result m st src ch = ch\<lparr>ct_nav := (ct_nav ch)\<lparr>sy_mode := m, sy_snapshot := (sy_snapshot (ct_nav ch))
     \<lparr>sn_nav_mode := m, sn_solution_status := st, sn_solution_source := src, sn_reject_reason := NAV_REJECT_NONE\<rparr>\<rparr>\<rparr>"

lemma with_result_inv:
  "control_inv built ch \<Longrightarrow> result_consistent m st src NAV_REJECT_NONE \<Longrightarrow> control_inv built (with_result m st src ch)"
  by (simp add: control_inv_def core_holds_def core_config_def effective_gps with_result_def core_inv_def system_wf_def
      snapshot_wf_def)

definition run_radio :: control_state where
  "run_radio = with_result NAV_MODE_RADIO_NAV_OK NAV_SOLUTION_RADIO_3D NAV_SOURCE_RADIO_3D run_start"

lemma run_radio: "control_inv True run_radio" "\<not> effective_gps_enabled True run_radio" "ct_config run_radio = ex_config"
  "source_of (ct_nav run_radio) = NAV_SOURCE_RADIO_3D"
  "sn_solution_status (sy_snapshot (ct_nav run_radio)) = NAV_SOLUTION_RADIO_3D"
  using with_result_inv [OF run_start(2)] run_start_config
  by (simp_all add: run_radio_def effective_gps) (simp_all add: with_result_def ex_config_def)

theorem gps_off_no_anchor_witness:
  "\<exists>t sent n e peer'. get_local_telemetry True 1 500 (Some run_radio) = Some t \<and>
     nav_telemetry_decode_event (Some (take n sent)) n 510 (- 60) 9 nav_event_zero = Some (NAV_STATUS_OK, e) \<and>
     control_handle_event run_libm [] (Some e) run_start = Some (True, [], peer') \<and>
     \<not> trusted_anchor (ct_nav peer') 520 2"
proof -
  obtain t where t: "get_local_telemetry True 1 500 (Some run_radio) = Some t"
    using run_radio by (simp add: get_local_telemetry_def nav_core_get_snapshot_def solution_is_mappable_def
        local_gnss_usable_now_def Let_def)
  obtain sent n where e: "nav_telemetry_encode_beacon (\<lambda>_. 0) (Some t) 7 ex_air 64 0 = Some (NAV_STATUS_OK, sent, n)"
    using send_ok [of "beacon_body t" NAV_RADIO_MSG_BEACON_RX 7] by (auto simp: encode_beacon_eq)
  have "nc_node_id (ct_config run_radio) = 2" using run_radio(3) by (simp add: ex_config_def)
  then show ?thesis
    using gps_off_no_anchor [OF run_radio(1,2) t e length_ex_air run_start(2), of 510 "- 60" 9 nav_event_zero run_libm "[]" 520] t
    by auto
qed

definition run_gnss :: control_state where
  "run_gnss = with_result NAV_MODE_GNSS_OK NAV_SOLUTION_GNSS_DIRECT NAV_SOURCE_LOCAL_GNSS run_start"

theorem gps_off_never_gnss_witness:
  "\<exists>st'. control_step run_libm True run_gnss (Quality ex_report 90) st' \<and> \<not> effective_gps_enabled True st' \<and>
     source_of (ct_nav st') = NAV_SOURCE_LOCAL_GNSS \<and> source_of (ct_nav run_gnss) = NAV_SOURCE_LOCAL_GNSS"
proof -
  have inv: "control_inv True run_gnss" using with_result_inv [OF run_start(2)] by (simp add: run_gnss_def)
  then have "length (ct_node_quality run_gnss) = 4" by (simp add: control_inv_def)
  then obtain st' where h: "handle_node_quality_report (Some ex_report) 90 run_gnss = Some (True, st')"
    "ct_nav st' = ct_nav run_gnss" "ct_config st' = ct_config run_gnss"
    by (simp add: handle_node_quality_report_def ex_report_def mem_write_def)
  have s: "control_step run_libm True run_gnss (Quality ex_report 90) st'" using h(1) by (rule step_quality)
  have g: "\<not> effective_gps_enabled True st'" "source_of (ct_nav st') = NAV_SOURCE_LOCAL_GNSS"
    using h run_start_config by (simp_all add: effective_gps run_gnss_def with_result_def ex_config_def)
  show ?thesis using s g gps_off_never_gnss [OF inv s g] by blast
qed

definition run_reader :: line_reader where
  "run_reader = \<lparr>ln_line = replicate 256 NUL, ln_len = 0\<rparr>"

theorem reader_total_witness:
  "\<exists>rd' st' s'. reader_run ram_api True 64 [Some 123, None, Some 10, Some 255] (run_reader, run_start, ([], []))
     = Some (rd', st', s') \<and> control_inv True st'"
proof -
  have "reader_wf run_reader" by (simp add: reader_wf_def run_reader_def)
  from reader_total [OF this run_start(2), of ram_api 64 "[Some 123, None, Some 10, Some 255]" "([], [])"]
  show ?thesis by blast
qed

theorem reader_line_witness:
  "\<exists>rd'. reader_run ram_api True 64 (map Some ([123, 125] @ [13])) (run_reader, run_start, ([], []))
     = map_option (Pair rd') (submit_line ram_api True 64 (text_of [123, 125]) (run_start, ([], []))) \<and> ln_len rd' = 0"
proof -
  have "length (ln_line run_reader) = 256" "ln_len run_reader = 0" by (simp_all add: run_reader_def)
  from reader_line [OF this, of "[123, 125]" 13 ram_api True 64 "(run_start, ([], []))"]
  show ?thesis by (auto simp: line_end_def)
qed

text \<open>A node with a GNSS fix and no peers.\<close>

lemma direct_finite:
  assumes "update_snapshot lm n allow s = Some s'" "local_usable s"
  shows "sn_residual_rms_m (sy_snapshot s') = Fin 0 \<and> sn_max_residual_m (sy_snapshot s') = Fin 0 \<and>
    sn_geometry_score (sy_snapshot s') = Fin 0 \<and> sn_anchor_triangle_area_m2 (sy_snapshot s') = Fin 0 \<and>
    sn_total_quality (sy_snapshot s') = Fin 1 \<and> sy_peer_table s' = sy_peer_table s"
  using assms(1)
proof (cases rule: update_snapshot_cases)
  case (direct s2)
  then show ?thesis
    by (simp add: use_gnss_def begin_update_def populate_local_gnss_evidence_def snapshot_clear_diagnostics_def
        populate_radio_solve_diagnostics_def Let_def)
qed (use assms(2) in simp_all)

lemma gnss_tick:
  assumes "local_usable s" "sy_peer_table s = nav_peer_table_init"
  shows "\<exists>s'. nav_core_tick lm now s = Some s' \<and> snapshot_finite (sy_snapshot s') (sy_peer_table s')"
proof -
  obtain t where t: "nav_core_tick lm now s = update_snapshot lm now True t" "same_evidence t (aged_system now s)"
    using tick_before_snapshot by blast
  have u: "local_usable t"
    using assms(1) local_usable_cong [OF t(2)] by (simp add: aged_system_def local_usable_def)
  then obtain s' where s': "update_snapshot lm now True t = Some s'" by (simp add: update_snapshot_def Let_def)
  have "sy_peer_table t = nav_peer_table_init"
    using t(2) assms(2) by (simp add: same_evidence_def aged_system_def nav_peer_table_init_def nav_peer_table_mark_stale_def
        mark_stale_peer_def nav_peer_state_zero_def)
  then have "present_peers (sy_peer_table s') [0, 1, 2, 3] = []"
    using direct_finite [OF s' u] by (simp add: present_peers_def List.map_filter_def nav_peer_table_get_const_def
        nav_peer_table_init_def nav_peer_state_zero_def)
  then show ?thesis using direct_finite [OF s' u] t(1) s' by (simp add: snapshot_finite_def)
qed

lemma gnss_cycle:
  assumes "local_usable (ct_nav st)" "sy_peer_table (ct_nav st) = nav_peer_table_init" "\<not> mo_enabled (ct_mock st)"
  shows "\<exists>st'. emitter_update lm now st = Some st' \<and> ct_debug st' = ct_debug st \<and> ct_node_quality st' = ct_node_quality st \<and>
    snapshot_finite (sy_snapshot (ct_nav st')) (sy_peer_table (ct_nav st'))"
proof -
  let ?e = "altitude_event now (nc_altitude_mm (ct_config st))"
  obtain n1 where 1: "nav_core_handle_event lm (Some ?e) (ct_nav st) = Some n1"
    "sy_peer_table n1 = sy_peer_table (ct_nav st)" "sy_config n1 = sy_config (ct_nav st)" "sy_local_gnss n1 = sy_local_gnss (ct_nav st)"
  proof -
    let ?t = "handle_altitude now \<lparr>la_alt_mm = nc_altitude_mm (ct_config st), la_timestamp_ms = now,
      la_source = NAV_ALT_SOURCE_MANUAL, la_valid = True\<rparr> (ct_nav st)"
    have t: "sy_peer_table ?t = sy_peer_table (ct_nav st)" "sy_config ?t = sy_config (ct_nav st)"
      "sy_local_gnss ?t = sy_local_gnss (ct_nav st)"
      by (simp_all add: handle_altitude_def mark_radio_solve_inputs_changed_def Let_def)
    have "nav_core_handle_event lm (Some ?e) (ct_nav st) = update_snapshot lm now False ?t"
      by (simp add: altitude_event_def nav_core_handle_event_def Let_def)
    moreover have "update_snapshot lm now False ?t \<noteq> None" by (auto simp: update_snapshot_def Let_def)
    then obtain n1 where u: "update_snapshot lm now False ?t = Some n1" by auto
    ultimately show ?thesis
      using that [of n1] update_report_table [OF u] inputs_ofD [OF inputs_update [OF u]] t by metis
  qed
  have "local_usable n1" using assms(1) 1(3,4) by (simp add: local_usable_def)
  then obtain n2 where "nav_core_tick lm now n1 = Some n2" "snapshot_finite (sy_snapshot n2) (sy_peer_table n2)"
    using gnss_tick 1(2) assms(2) by metis
  then show ?thesis using 1(1) assms(3) by (simp add: emitter_update_def feed_altitude_def nav_mock_emit_def)
qed

definition gnss_config :: node_config where
  "gnss_config = \<lparr>nc_node_id = 1, nc_name = ''mast'', nc_gps_enabled = True, nc_mock_enabled = False, nc_altitude_mm = 0\<rparr>"

definition gnss_fix :: nav_gnss_sample where
  "gnss_fix = nav_gnss_sample_zero\<lparr>gs_valid := True, gs_fix_type := NAV_GNSS_FIX_3D\<rparr>"

definition gnss_state :: control_state where
  "gnss_state = (the (control_begin True gnss_config))
     \<lparr>ct_nav := (ct_nav (the (control_begin True gnss_config)))\<lparr>sy_local_gnss := gnss_fix\<rparr>\<rparr>"

lemma gnss_state: "local_usable (ct_nav gnss_state)" "sy_peer_table (ct_nav gnss_state) = nav_peer_table_init"
  "\<not> mo_enabled (ct_mock gnss_state)" "\<not> ct_debug gnss_state"
proof -
  obtain m where m: "add_peers seed_peers (nav_mock_set_local_truth
      \<lparr>lat_e7 = 504520000, lon_e7 = 305260000, alt_mm = 183500\<rparr> nav_mock_init) = Some m" using seed_mock_ok by blast
  show "local_usable (ct_nav gnss_state)" "sy_peer_table (ct_nav gnss_state) = nav_peer_table_init"
    "\<not> mo_enabled (ct_mock gnss_state)" "\<not> ct_debug gnss_state"
    by (simp_all add: gnss_state_def control_begin_def init_core_for_config_def seed_mock_def m apply_core_config_def
        nav_core_init_def gnss_config_def control_zero_def effective_gps Let_def)
      (simp add: local_usable_def gnss_fix_def nav_gnss_sample_is_usable_def hardware_config_def)
qed

text \<open>The same node in debug mode, with the report of one other node in the buffer.\<close>

definition debug_state :: control_state where
  "debug_state = gnss_state\<lparr>ct_debug := True, ct_node_quality := node_quality_clear
     [2 := \<lparr>bq_present = True, bq_report = quality_report_zero\<lparr>qr_node_id := 2\<rparr>, bq_received_ms = 200\<rparr>]\<rparr>"

lemma four_copies: "replicate 4 x = [x, x, x, x]"
  by (simp add: numeral_eq_Suc)

theorem emitter_prints_documents_witness:
  "\<exists>lines st' buf'. emitter_cycle run_libm True 250 (replicate 2048 NUL, debug_state) = Some (lines, buf', st') \<and>
     lines = map printed (cycle_documents True 250 st') \<and> length lines = 3 \<and> length buf' = 2048 \<and>
     list_all json_ok (cycle_documents True 250 st')"
proof -
  have d: "local_usable (ct_nav debug_state)" "sy_peer_table (ct_nav debug_state) = nav_peer_table_init"
    "\<not> mo_enabled (ct_mock debug_state)" "ct_debug debug_state"
    using gnss_state by (simp_all add: debug_state_def)
  obtain st1 where u: "emitter_update run_libm 250 debug_state = Some st1" "ct_debug st1"
    "ct_node_quality st1 = ct_node_quality debug_state"
    "snapshot_finite (sy_snapshot (ct_nav st1)) (sy_peer_table (ct_nav st1))"
    using gnss_cycle [OF d(1-3)] d(4) by metis
  define st' where "st' = st1\<lparr>ct_quality_seq := ct_quality_seq st1 + 1\<rparr>"
  have "figures_finite st'" using u(3,4)
    by (simp add: st'_def figures_finite_def debug_state_def node_quality_clear_def quality_report_zero_def four_copies)
  moreover have "length (cycle_documents True 250 st') = 3" using u(2,3)
    by (simp add: st'_def cycle_documents_def quality_documents_def debug_state_def node_quality_clear_def four_copies)
  ultimately show ?thesis
    using emitter_prints_documents [OF length_replicate [of 2048 NUL] u(1), of True] u(2)
    unfolding st'_def [symmetric] by (metis length_map)
qed

end
