(* ===== verification/Node_Log.thy ===== *)
theory Node_Log
  imports Nav_Serial_Records
begin

text \<open>
  \<^verbatim>\<open>src/Logger.cpp\<close>: the log of the ESP32 node. A message is cut to its buffer, stamped with the time since
  the logger started and written as one JSON record, or as a fixed record when it does not fit the line.
  The mutex and the status LED of \<^verbatim>\<open>writeLine\<close> are left out; what it sends is the line and its CR LF.
\<close>

section \<open>Levels\<close>

text \<open>\<open>log_level\<close> is the compile-time \<^verbatim>\<open>LOG_LEVEL\<close>.\<close>

definition configured_log_level :: "int \<Rightarrow> nat" where
  "configured_log_level log_level = (if log_level < 0 then 0 else if log_level > 4 then 4 else nat log_level)"

definition should_print_level :: "int \<Rightarrow> string \<Rightarrow> bool" where
  "should_print_level log_level level =
     (if level = ''ERROR'' \<or> level = ''FAIL'' then True
      else if level = ''WARN'' then configured_log_level log_level \<ge> 1
      else if level = ''INFO'' \<or> level = ''OK'' then configured_log_level log_level \<ge> 2
      else if level = ''DEBUG'' then configured_log_level log_level \<ge> 3
      else if level = ''TRACE'' then configured_log_level log_level \<ge> 4
      else True)"

section \<open>The log call\<close>

text \<open>What a task hands to the logger: the level and tag names and the formatted message.\<close>

record log_call =
  lc_level :: string
  lc_tag :: string
  lc_message :: string

text \<open>\<^verbatim>\<open>writeLine\<close>: the bytes sent.\<close>

definition write_line :: "string \<Rightarrow> string" where
  "write_line line = line @ [CHR 0x0D, CHR 0x0A]"

definition too_long_notice :: "u32 \<Rightarrow> string list" where
  "too_long_notice elapsed_ms = [''{\"type\":\"log\",\"ts\":'', pu elapsed_ms,
     '',\"level\":\"WARN\",\"tag\":\"LOGGER\",\"text\":\"log record too long\"}'']"

text \<open>\<^verbatim>\<open>rawf\<close>: \<open>line\<close> is the content of its local array before the call and \<open>elapsed_ms\<close> the time since the
  start of the logger. The result is what it sends, if anything.\<close>

definition rawf :: "int \<Rightarrow> char list \<Rightarrow> u32 \<Rightarrow> log_call \<Rightarrow> string list option" where
  "rawf log_level line elapsed_ms c =
     (if \<not> should_print_level log_level (lc_level c) then Some []
      else do {
        let message = snprintf 224 [lc_message c];
        let log_text = snprintf 320 [''t='', pu elapsed_ms, ''ms ['', lc_level c, ''] ['', lc_tag c, ''] '', message];
        (line, written) \<leftarrow> nav_serial_write_log_record line 1024 elapsed_ms (Some (lc_level c)) (Some (lc_tag c))
          (Some log_text);
        if written \<ge> 0 then do {
          line \<leftarrow> (if nat written \<ge> 1024 then vsnprintf_at line 0 1024 (concat (too_long_notice elapsed_ms))
            else Some line);
          sent \<leftarrow> c_string line;
          Some [write_line sent] }
        else Some [] })"

section \<open>Every line is a document\<close>

definition log_document :: "u32 \<Rightarrow> log_call \<Rightarrow> json" where
  "log_document elapsed_ms c = log_record_json elapsed_ms (Some (lc_level c)) (Some (lc_tag c))
     (Some (snprintf 320 [''t='', pu elapsed_ms, ''ms ['', lc_level c, ''] ['', lc_tag c, ''] '', take 223 (lc_message c)]))"

definition too_long_document :: "u32 \<Rightarrow> json" where
  "too_long_document elapsed_ms =
     log_record_json elapsed_ms (Some ''WARN'') (Some ''LOGGER'') (Some ''log record too long'')"

definition logged_document :: "u32 \<Rightarrow> log_call \<Rightarrow> json" where
  "logged_document elapsed_ms c =
     (if length (json_text (log_document elapsed_ms c)) < 1024 then log_document elapsed_ms c
      else too_long_document elapsed_ms)"

lemma log_record_ok: "json_ok (log_record_json t level tag message)"
  by (simp add: log_record_json_def numbers)

lemma too_long_text: "json_text (too_long_document t) = concat (too_long_notice t)"
  by (simp add: too_long_document_def too_long_notice_def log_record_json_def text_simps)

lemma notice_short: "length (concat (too_long_notice t)) < 1023"
  using fmt_u_short [of t] by (simp add: too_long_notice_def)

text \<open>C34: Whatever a task logs, what reaches the serial port is either nothing, when the level is below the
  configured one, or one line that is a JSON document of printable characters: no message, level or tag can
  break a line, leave the buffers or put anything but its escaped text into the stream.\<close>

theorem log_call_is_one_line:
  assumes "length line = 1024"
  shows "rawf log_level line t c =
      Some (if should_print_level log_level (lc_level c) then [json_text (logged_document t c) @ [CHR 0x0D, CHR 0x0A]]
        else []) \<and>
    json_ok (logged_document t c) \<and> list_all (\<lambda>x. 32 \<le> code x) (json_text (logged_document t c))"
proof -
  let ?d = "log_document t c" and ?n = "concat (too_long_notice t)"
  define body where "body = snprintf 320 [''t='', pu t, ''ms ['', lc_level c, ''] ['', lc_tag c, ''] '', snprintf 224 [lc_message c]]"
  have d: "?d = log_record_json t (Some (lc_level c)) (Some (lc_tag c)) (Some body)"
    by (simp add: body_def log_document_def snprintf_def)
  have ok: "json_ok ?d" "json_ok (too_long_document t)" "json_ok (logged_document t c)"
    by (simp_all add: log_document_def too_long_document_def logged_document_def log_record_ok)
  obtain b where b: "nav_serial_write_log_record line 1024 t (Some (lc_level c)) (Some (lc_tag c)) (Some body)
      = Some (b, int (length (json_text ?d)))" "c_string b = Some (take 1023 (json_text ?d))"
    using log_w.content [of 1024 line t "Some (lc_level c)" "Some (lc_tag c)" "Some body"] text_no_NUL [OF ok(1)] assms
    unfolding d by auto
  have len: "length b = 1024"
    using log_w.frame [of 1024 line t "Some (lc_level c)" "Some (lc_tag c)" "Some body"] b(1) assms by auto
  have n: "length ?n < 1023" "NUL \<notin> set ?n"
    using notice_short [of t] text_no_NUL [OF ok(2)] unfolding too_long_text by blast+
  define b' where "b' = ?n @ NUL # drop (Suc (length ?n)) b"
  have b': "vsnprintf_at b 0 1024 ?n = Some b'" "c_string b' = Some ?n"
    using n(1) len by (simp add: vsnprintf_at_def Let_def b'_def) (simp only: b'_def c_string_append [OF n(2)])
  have short: "take 1023 (json_text ?d) = json_text ?d" if "length (json_text ?d) < 1024" using that by simp
  have "rawf log_level line t c =
      Some (if should_print_level log_level (lc_level c) then [json_text (logged_document t c) @ [CHR 0x0D, CHR 0x0A]] else [])"
    unfolding rawf_def body_def [symmetric] Let_def
    using b b' short by (simp add: logged_document_def write_line_def too_long_text)
  then show ?thesis using ok(3) text_printable [OF ok(3)] by (simp add: printable_def)
qed

theorem log_call_is_one_line_witness:
  "rawf 2 (replicate 1024 NUL) 5 \<lparr>lc_level = ''INFO'', lc_tag = ''GPS'', lc_message = ''up''\<rparr> =
     Some [json_text (logged_document 5 \<lparr>lc_level = ''INFO'', lc_tag = ''GPS'', lc_message = ''up''\<rparr>) @ [CHR 0x0D, CHR 0x0A]]"
  using log_call_is_one_line [of "replicate 1024 NUL" 2 5 "\<lparr>lc_level = ''INFO'', lc_tag = ''GPS'', lc_message = ''up''\<rparr>"]
  by (simp add: should_print_level_def configured_log_level_def)

end
