(* ===== verification/Node_Health.thy ===== *)
theory Node_Health
  imports Node_Log
begin

text \<open>
  \<^verbatim>\<open>include/HealthStatus.h\<close>, \<^verbatim>\<open>src/HealthStatus.cpp\<close> and the reporter task of \<^verbatim>\<open>src/main.cpp\<close>: what the radio
  task and the GPS task publish about themselves and the summary of it. The mutex is left out.
\<close>

datatype health_state = Health_Unknown | Health_Disabled | Health_Ok | Health_Warn | Health_Fail

record radio_health =
  rh_state :: health_state
  rh_initialized :: bool
  rh_tx_ok :: bool
  rh_rx_ok :: bool
  rh_tx_ok_count :: u32
  rh_rx_ok_count :: u32
  rh_last_error :: int
  rh_last_rssi_dbm :: fp
  rh_last_snr_db :: fp

record gps_health =
  gh_state :: health_state
  gh_bytes_seen :: bool
  gh_nmea_seen :: bool
  gh_fix_seen :: bool
  gh_fix_type :: nav_gnss_fix_type
  gh_bytes_received :: u32
  gh_valid_sentence_count :: u32
  gh_satellite_count :: u32
  gh_hdop_centi :: u16
  gh_lat_e7 :: i32
  gh_lon_e7 :: i32
  gh_alt_mm :: i32

record system_health =
  sh_radio :: radio_health
  sh_gps :: gps_health

definition radio_health_zero :: radio_health where
  "radio_health_zero = \<lparr>rh_state = Health_Unknown, rh_initialized = False, rh_tx_ok = False, rh_rx_ok = False,
     rh_tx_ok_count = 0, rh_rx_ok_count = 0, rh_last_error = 0, rh_last_rssi_dbm = Fin 0, rh_last_snr_db = Fin 0\<rparr>"

definition gps_health_zero :: gps_health where
  "gps_health_zero = \<lparr>gh_state = Health_Unknown, gh_bytes_seen = False, gh_nmea_seen = False, gh_fix_seen = False,
     gh_fix_type = NAV_GNSS_FIX_NONE, gh_bytes_received = 0, gh_valid_sentence_count = 0, gh_satellite_count = 0,
     gh_hdop_centi = 0, gh_lat_e7 = 0, gh_lon_e7 = 0, gh_alt_mm = 0\<rparr>"

definition set_radio :: "radio_health \<Rightarrow> system_health \<Rightarrow> system_health" where
  "set_radio status h = h\<lparr>sh_radio := status\<rparr>"

definition set_gps :: "gps_health \<Rightarrow> system_health \<Rightarrow> system_health" where
  "set_gps status h = h\<lparr>sh_gps := status\<rparr>"

fun health_state_name :: "health_state \<Rightarrow> string" where
  "health_state_name Health_Unknown = ''UNKNOWN''"
| "health_state_name Health_Disabled = ''DISABLED''"
| "health_state_name Health_Ok = ''OK''"
| "health_state_name Health_Warn = ''WARN''"
| "health_state_name Health_Fail = ''FAIL''"

text \<open>The log call of one round of \<^verbatim>\<open>HealthReporterTask\<close>, and what a firmware without GNSS publishes.\<close>

definition health_summary :: "system_health \<Rightarrow> log_call" where
  "health_summary h = \<lparr>lc_level = ''INFO'', lc_tag = ''SYSTEM'', lc_message = concat
     [''Health summary: RADIO='', health_state_name (rh_state (sh_radio h)), '' GPS='', health_state_name (gh_state (sh_gps h)),
      '' | radio tx='', pu (rh_tx_ok_count (sh_radio h)), '' rx='', pu (rh_rx_ok_count (sh_radio h)),
      '' gps_bytes='', pu (gh_bytes_received (sh_gps h)), '' gps_sentences='', pu (gh_valid_sentence_count (sh_gps h)),
      '' gps_fix='', fmt_d (nav_gnss_fix_type_code (gh_fix_type (sh_gps h)))]\<rparr>"

definition gps_disabled_health :: gps_health where
  "gps_disabled_health = gps_health_zero\<lparr>gh_state := Health_Disabled\<rparr>"

end
