(* ===== verification/Gps_Task.thy ===== *)
theory Gps_Task
  imports Control_Channel Nav_Nmea Node_Health
begin

text \<open>
  \<^verbatim>\<open>src/GpsHealth.cpp\<close>: the GPS task. It reads the UART, pushes every byte into the NMEA parser, completes the
  samples and hands them to the core through the control channel, and publishes the health of the receiver.
  The timer, the UART driver and the other tasks are the parameter \<open>B\<close>, as in the radio task; \<open>None\<close> is
  undefined behaviour.
\<close>

section \<open>The board and the task\<close>

text \<open>\<open>gb_uart_read\<close> is a call of \<^verbatim>\<open>uart_read_bytes\<close> for 128 bytes: the bytes it delivered, \<open>None\<close> when it
  answered an error.\<close>

record 'w gps_board =
  gb_now :: "'w \<Rightarrow> u32 \<times> 'w"
  gb_uart_read :: "'w \<Rightarrow> u8 list option \<times> 'w"
  gb_uart_param_config :: "'w \<Rightarrow> int \<times> 'w"
  gb_uart_set_pin :: "'w \<Rightarrow> int \<times> 'w"
  gb_uart_driver_install :: "'w \<Rightarrow> int \<times> 'w"
  gb_others :: "'w \<Rightarrow> control_state \<Rightarrow> control_state"
  gb_libm :: libm
  gb_gnss_built :: bool
  gb_line_junk :: "char list"

record 'w gps_task =
  gt_world :: 'w
  gt_control :: control_state
  gt_lines :: "string list"
  gt_log :: "log_call list"
  gt_status :: gps_health
  gt_published :: gps_health
  gt_last_byte_ms :: u32
  gt_last_sentence_ms :: u32
  gt_last_fix_ms :: u32
  gt_last_parser_warn_ms :: u32
  gt_parser :: nav_nmea_parser
  gt_last_report_ms :: u32
  gt_previous_chars :: u32
  gt_previous_sentences :: u32

abbreviation (input) kNoByteFailMs :: u32 where "kNoByteFailMs \<equiv> 5000"
abbreviation (input) kNoSentenceWarnMs :: u32 where "kNoSentenceWarnMs \<equiv> 5000"
abbreviation (input) kReportIntervalMs :: u32 where "kReportIntervalMs \<equiv> 5000"
abbreviation (input) kParserWarnIntervalMs :: u32 where "kParserWarnIntervalMs \<equiv> 5000"

definition gps_call :: "('w \<Rightarrow> 'a \<times> 'w) \<Rightarrow> 'w gps_task \<Rightarrow> 'a \<times> 'w gps_task" where
  "gps_call f s = (case f (gt_world s) of (a, w) \<Rightarrow> (a, s\<lparr>gt_world := w\<rparr>))"

definition gps_others_run :: "'w gps_board \<Rightarrow> 'w gps_task \<Rightarrow> 'w gps_task" where
  "gps_others_run B s = s\<lparr>gt_control := gb_others B (gt_world s) (gt_control s)\<rparr>"

definition gps_log :: "string \<Rightarrow> string list \<Rightarrow> 'w gps_task \<Rightarrow> 'w gps_task" where
  "gps_log level parts s =
     s\<lparr>gt_log := gt_log s @ [\<lparr>lc_level = level, lc_tag = ''GPS'', lc_message = concat parts\<rparr>]\<rparr>"

section \<open>Samples\<close>

definition publish_gps_status :: "health_state \<Rightarrow> 'w gps_task \<Rightarrow> 'w gps_task" where
  "publish_gps_status state s =
     (let s = s\<lparr>gt_status := (gt_status s)\<lparr>gh_state := state\<rparr>\<rparr> in s\<lparr>gt_published := gt_status s\<rparr>)"

definition update_status_from_sample :: "nav_gnss_sample \<Rightarrow> u32 \<Rightarrow> 'w gps_task \<Rightarrow> 'w gps_task" where
  "update_status_from_sample sample timestamp_ms s =
     (let s = s\<lparr>gt_status := (gt_status s)\<lparr>gh_nmea_seen := True,
            gh_valid_sentence_count := gh_valid_sentence_count (gt_status s) + 1,
            gh_fix_type := gs_fix_type sample, gh_satellite_count := ucast (gs_satellites sample),
            gh_hdop_centi := gs_hdop_centi sample, gh_lat_e7 := lat_e7 (gs_position sample),
            gh_lon_e7 := lon_e7 (gs_position sample), gh_alt_mm := alt_mm (gs_position sample)\<rparr>,
          gt_last_sentence_ms := timestamp_ms\<rparr>
      in if nav_gnss_sample_is_usable (Some sample)
         then s\<lparr>gt_status := (gt_status s)\<lparr>gh_fix_seen := True\<rparr>, gt_last_fix_ms := timestamp_ms\<rparr>
         else s)"

text \<open>A sentence without an altitude keeps the one that is known.\<close>

definition preserve_known_altitude :: "gps_health \<Rightarrow> nav_gnss_sample \<Rightarrow> nav_gnss_sample" where
  "preserve_known_altitude status sample =
     (if \<not> gs_valid sample \<or> alt_mm (gs_position sample) \<noteq> 0 \<or> gh_alt_mm status = 0 then sample
      else if gs_satellites sample = 0 \<and> gs_hdop_centi sample = 0
      then sample\<lparr>gs_position := (gs_position sample)\<lparr>alt_mm := gh_alt_mm status\<rparr>\<rparr>
      else sample)"

definition current_node_id :: "control_state option \<Rightarrow> u8" where
  "current_node_id ch = (case get_config ch of None \<Rightarrow> 0 | Some config \<Rightarrow> nc_node_id config)"

definition inject_gnss_sample :: "'w gps_board \<Rightarrow> nav_gnss_sample \<Rightarrow> u32 \<Rightarrow> 'w gps_task \<Rightarrow> ('w gps_task) option" where
  "inject_gnss_sample B sample timestamp_ms s = do {
     let s = gps_others_run B s;
     (ok, lines, st) \<leftarrow> control_handle_event (gb_libm B) (gb_line_junk B)
       (Some \<lparr>ev_timestamp_ms = timestamp_ms, ev_data = NAV_EVT_LOCAL_GNSS_SAMPLE sample\<rparr>) (gt_control s);
     Some (s\<lparr>gt_control := st, gt_lines := gt_lines s @ lines\<rparr>) }"

definition handle_parser_result ::
  "'w gps_board \<Rightarrow> nav_nmea_result \<Rightarrow> nav_gnss_sample \<Rightarrow> 'w gps_task \<Rightarrow> ('w gps_task) option" where
  "handle_parser_result B result sample s = (case gps_call (gb_now B) s of (current_ms, s) \<Rightarrow>
     if result = NAV_NMEA_RESULT_NONE then Some s
     else if result = NAV_NMEA_RESULT_SAMPLE then
       (let sample = preserve_known_altitude (gt_status s) sample;
            sample = nav_gnss_sample_set_time current_ms sample;
            s = gps_others_run B s;
            sample = sample\<lparr>gs_node_id := current_node_id (Some (gt_control s))\<rparr>
        in inject_gnss_sample B sample current_ms (update_status_from_sample sample current_ms s))
     else if current_ms - gt_last_parser_warn_ms s \<ge> kParserWarnIntervalMs then
       Some (gps_log ''WARN'' [''NMEA parser result='', nav_nmea_result_to_string result]
         (s\<lparr>gt_last_parser_warn_ms := current_ms\<rparr>))
     else Some s)"

fun gps_bytes :: "'w gps_board \<Rightarrow> u8 list \<Rightarrow> 'w gps_task \<Rightarrow> ('w gps_task) option" where
  "gps_bytes B [] s = Some s"
| "gps_bytes B (b # bs) s = do {
     (result, parser, sample) \<leftarrow> nav_nmea_parser_push b (gt_parser s);
     s \<leftarrow> handle_parser_result B result sample (s\<lparr>gt_parser := parser\<rparr>);
     gps_bytes B bs s }"

section \<open>The task\<close>

definition gps_receive :: "'w gps_board \<Rightarrow> 'w gps_task \<Rightarrow> ('w gps_task) option" where
  "gps_receive B s = (case gps_call (gb_uart_read B) s of (received, s) \<Rightarrow>
     case received of
       None \<Rightarrow> Some s
     | Some bs \<Rightarrow>
         if bs = [] then Some s
         else (case gps_call (gb_now B) s of (current_ms, s) \<Rightarrow>
           gps_bytes B bs (s\<lparr>gt_status := (gt_status s)\<lparr>gh_bytes_seen := True,
               gh_bytes_received := gh_bytes_received (gt_status s) + of_nat (length bs)\<rparr>,
             gt_last_byte_ms := current_ms\<rparr>)))"

definition gps_report :: "'w gps_board \<Rightarrow> u32 \<Rightarrow> 'w gps_task \<Rightarrow> 'w gps_task" where
  "gps_report B current_ms s =
     (let s = s\<lparr>gt_last_report_ms := current_ms\<rparr>;
          char_count = gh_bytes_received (gt_status s);
          sentence_count = gh_valid_sentence_count (gt_status s);
          new_chars = (char_count \<noteq> gt_previous_chars s);
          new_sentences = (sentence_count \<noteq> gt_previous_sentences s);
          s = s\<lparr>gt_previous_chars := char_count, gt_previous_sentences := sentence_count\<rparr>
      in if \<not> gh_bytes_seen (gt_status s) \<or>
            (gt_last_byte_ms s \<noteq> 0 \<and> current_ms - gt_last_byte_ms s > kNoByteFailMs)
         then gps_log ''FAIL'' [''No GPS bytes received in the last '', pu (kNoByteFailMs div 1000), '' seconds'']
           (publish_gps_status Health_Fail s)
         else if \<not> gh_nmea_seen (gt_status s) \<or>
            (gt_last_sentence_ms s \<noteq> 0 \<and> current_ms - gt_last_sentence_ms s > kNoSentenceWarnMs)
         then gps_log ''WARN'' [''GPS bytes are present but valid NMEA samples are not confirmed yet chars='',
           pu char_count, '' new_chars='', (if new_chars then ''yes'' else ''no'')] (publish_gps_status Health_Warn s)
         else if gt_last_fix_ms s = 0 \<or> current_ms - gt_last_fix_ms s > kNoSentenceWarnMs
         then gps_log ''WARN'' [''NMEA ok, waiting for 3D fix sentences='', pu sentence_count, '' new_sentences='',
           (if new_sentences then ''yes'' else ''no''), '' sats='', pu (gh_satellite_count (gt_status s)),
           '' hdop_centi='', pu (gh_hdop_centi (gt_status s))] (publish_gps_status Health_Warn s)
         else (let s = publish_gps_status Health_Ok s; s = gps_others_run B s; status = gt_status s in
           gps_log ''OK'' [''GNSS fix ok lat_e7='', pd (gh_lat_e7 status), '' lon_e7='', pd (gh_lon_e7 status),
             '' alt_mm='', pd (gh_alt_mm status), '' fix_type='', fmt_d (nav_gnss_fix_type_code (gh_fix_type status)),
             '' sats='', pu (gh_satellite_count status), '' hdop_centi='', pu (gh_hdop_centi status),
             '' age_ms='', pu (current_ms - gt_last_fix_ms s), '' usage='',
             (if is_gps_enabled (gb_gnss_built B) (Some (gt_control s)) then ''enabled'' else ''disabled'')] s))"

definition gps_turn :: "'w gps_board \<Rightarrow> 'w gps_task \<Rightarrow> ('w gps_task) option" where
  "gps_turn B s = do {
     s \<leftarrow> gps_receive B s;
     (case gps_call (gb_now B) s of (current_ms, s) \<Rightarrow>
       Some (if current_ms - gt_last_report_ms s \<ge> kReportIntervalMs then gps_report B current_ms s else s)) }"

text \<open>The start of the task: the configuration of the UART. When it fails the task publishes that and ends.\<close>

definition gps_uart_init :: "'w gps_board \<Rightarrow> 'w gps_task \<Rightarrow> int \<times> 'w gps_task" where
  "gps_uart_init B s =
     (let (err, s) = gps_call (gb_uart_param_config B) s;
          (err, s) = (if err = 0 then gps_call (gb_uart_set_pin B) s else (err, s))
      in if err = 0 then gps_call (gb_uart_driver_install B) s else (err, s))"

definition gps_globals :: "'w \<Rightarrow> control_state \<Rightarrow> 'w gps_task" where
  "gps_globals w st = \<lparr>gt_world = w, gt_control = st, gt_lines = [], gt_log = [], gt_status = gps_health_zero,
     gt_published = gps_health_zero, gt_last_byte_ms = 0, gt_last_sentence_ms = 0, gt_last_fix_ms = 0,
     gt_last_parser_warn_ms = 0, gt_parser = nav_nmea_parser_init, gt_last_report_ms = 0, gt_previous_chars = 0,
     gt_previous_sentences = 0\<rparr>"

definition gps_start :: "int \<Rightarrow> int \<Rightarrow> 'w gps_board \<Rightarrow> 'w gps_task \<Rightarrow> bool \<times> 'w gps_task" where
  "gps_start rx tx B s =
     (let s = gps_log ''INFO'' [''UART started at 115200 baud RX='', fmt_d rx, '' TX='', fmt_d tx] s;
          (err, s) = gps_uart_init B s
      in if err \<noteq> 0 then (False, gps_log ''FAIL'' [''UART init failed, esp_err='', fmt_d err] (publish_gps_status Health_Fail s))
         else (True, s))"

end
