(* ===== verification/Gps_Safety.thy ===== *)
theory Gps_Safety
  imports Gps_Task Nav_Nmea_Accept Control_Invariant
begin

text \<open>
  What the GPS task guarantees: its invariant over every stream of bytes, and the way of a sentence from the
  UART to the core.
\<close>

section \<open>Bytes and results\<close>

text \<open>The bytes of a burst are handled like the results that the parser gives for them.\<close>

fun gps_results ::
  "'w gps_board \<Rightarrow> (nav_nmea_result \<times> nav_gnss_sample) list \<Rightarrow> 'w gps_task \<Rightarrow> ('w gps_task) option" where
  "gps_results B [] s = Some s"
| "gps_results B ((r, g) # rs) s = handle_parser_result B r g s \<bind> gps_results B rs"

lemma handle_parser [simp]:
  "handle_parser_result B r g (s\<lparr>gt_parser := p\<rparr>) = map_option (\<lambda>t. t\<lparr>gt_parser := p\<rparr>) (handle_parser_result B r g s)"
proof -
  have i: "inject_gnss_sample B h now (t\<lparr>gt_parser := p\<rparr>) = map_option (\<lambda>t. t\<lparr>gt_parser := p\<rparr>) (inject_gnss_sample B h now t)" for h now t
    by (cases "control_handle_event (gb_libm B) (gb_line_junk B)
        (Some \<lparr>ev_timestamp_ms = now, ev_data = NAV_EVT_LOCAL_GNSS_SAMPLE h\<rparr>) (gb_others B (gt_world t) (gt_control t))")
      (auto simp: inject_gnss_sample_def gps_others_run_def Let_def)
  have u: "update_status_from_sample h now (t\<lparr>gt_parser := p\<rparr>) = (update_status_from_sample h now t)\<lparr>gt_parser := p\<rparr>" for h now t
    by (simp add: update_status_from_sample_def Let_def)
  have o: "gps_others_run B (t\<lparr>gt_parser := p\<rparr>) = (gps_others_run B t)\<lparr>gt_parser := p\<rparr>" for t
    by (simp add: gps_others_run_def)
  obtain now w where c: "gb_now B (gt_world s) = (now, w)" by fastforce
  have "gps_call (gb_now B) s = (now, s\<lparr>gt_world := w\<rparr>)"
    "gps_call (gb_now B) (s\<lparr>gt_parser := p\<rparr>) = (now, s\<lparr>gt_world := w\<rparr>\<lparr>gt_parser := p\<rparr>)"
    by (simp_all add: gps_call_def c)
  then show ?thesis
    unfolding handle_parser_result_def by (simp only: prod.case) (simp add: u o i Let_def gps_log_def)
qed

lemma results_parser:
  "gps_results B rs (s\<lparr>gt_parser := p\<rparr>) = map_option (\<lambda>t. t\<lparr>gt_parser := p\<rparr>) (gps_results B rs s)"
  by (induction B rs s rule: gps_results.induct)
    (auto simp: option.map_comp o_def split: Option.bind_splits)

lemma gps_bytes_feed:
  "gps_bytes B bs s = do { (rs, p) \<leftarrow> nmea_feed bs (gt_parser s); t \<leftarrow> gps_results B rs s; Some (t\<lparr>gt_parser := p\<rparr>) }"
proof (induction bs arbitrary: s)
  case (Cons b bs)
  show ?case
  proof (cases "nav_nmea_parser_push b (gt_parser s)")
    case (Some x)
    obtain r p g where x: "x = (r, p, g)" by (cases x)
    show ?thesis
      by (cases "handle_parser_result B r g s"; cases "nmea_feed bs p")
        (auto simp: Some x Cons.IH results_parser split: prod.split Option.bind_splits)
  qed simp
qed simp

lemma gnss_event_total:
  "\<exists>lines c'. control_handle_event lm buf (Some \<lparr>ev_timestamp_ms = now, ev_data = NAV_EVT_LOCAL_GNSS_SAMPLE g\<rparr>) c
     = Some (True, lines, c') \<and> ct_config c' = ct_config c \<and> sy_local_gnss (ct_nav c') = g \<and>
       sy_local_gnss_present (ct_nav c')"
proof -
  let ?e = "\<lparr>ev_timestamp_ms = now, ev_data = NAV_EVT_LOCAL_GNSS_SAMPLE g\<rparr>" and ?i = "handle_gnss now g (ct_nav c)"
  have u: "\<exists>n. update_snapshot lm now False ?i = Some n" by (simp add: update_snapshot_def Let_def)
  then obtain n where n: "update_snapshot lm now False ?i = Some n" by blast
  have "nav_core_handle_event lm (Some ?e) (ct_nav c) = Some n"
    using n by (simp add: report_event_eq input_state_def)
  moreover have "sy_local_gnss ?i = g" "sy_local_gnss_present ?i"
    by (simp_all add: handle_gnss_def Let_def mark_radio_solve_inputs_changed_def)
  ultimately show ?thesis using inputs_update [OF n]
    by (simp add: inputs_of_def control_handle_event_def range_record_of_def Let_def)
qed

section \<open>From the UART to the core\<close>

lemma sample_handled:
  fixes B :: "'w gps_board" and s :: "'w gps_task" and g :: nav_gnss_sample and now :: u32
  assumes "fst (gb_now B (gt_world s)) = now"
  defines "c \<equiv> gb_others B (snd (gb_now B (gt_world s))) (gt_control s)"
  defines "g' \<equiv> (preserve_known_altitude (gt_status s) g)\<lparr>gs_timestamp_ms := now, gs_node_id := nc_node_id (ct_config c)\<rparr>"
  shows "\<exists>t lines. handle_parser_result B NAV_NMEA_RESULT_SAMPLE g s = Some t \<and>
    control_handle_event (gb_libm B) (gb_line_junk B) (Some \<lparr>ev_timestamp_ms = now, ev_data = NAV_EVT_LOCAL_GNSS_SAMPLE g'\<rparr>)
      (gb_others B (gt_world t) c) = Some (True, lines, gt_control t) \<and>
    gt_world t = snd (gb_now B (gt_world s)) \<and> gt_parser t = gt_parser s \<and>
    sy_local_gnss (ct_nav (gt_control t)) = g' \<and> sy_local_gnss_present (ct_nav (gt_control t)) \<and>
    gh_valid_sentence_count (gt_status t) = gh_valid_sentence_count (gt_status s) + 1"
proof -
  obtain w where w: "gb_now B (gt_world s) = (now, w)" using assms(1) by (metis prod.collapse)
  obtain lines c' where e: "control_handle_event (gb_libm B) (gb_line_junk B)
      (Some \<lparr>ev_timestamp_ms = now, ev_data = NAV_EVT_LOCAL_GNSS_SAMPLE g'\<rparr>) (gb_others B w c) = Some (True, lines, c')"
    "sy_local_gnss (ct_nav c') = g'" "sy_local_gnss_present (ct_nav c')"
    using gnss_event_total by metis
  have c: "c = gb_others B w (gt_control s)" by (simp add: c_def w)
  define g0 where "g0 = preserve_known_altitude (gt_status s) g"
  have g': "g' = g0\<lparr>gs_timestamp_ms := now, gs_node_id := nc_node_id (ct_config c)\<rparr>" by (simp add: g'_def g0_def)
  have u: "gt_world (update_status_from_sample h now t) = gt_world t" "gt_control (update_status_from_sample h now t) = gt_control t"
    "gt_parser (update_status_from_sample h now t) = gt_parser t" "gt_lines (update_status_from_sample h now t) = gt_lines t"
    "gh_valid_sentence_count (gt_status (update_status_from_sample h now t)) = gh_valid_sentence_count (gt_status t) + 1" for h t
    by (simp_all add: update_status_from_sample_def Let_def)
  show ?thesis
    using e unfolding g' c
    by (simp add: handle_parser_result_def gps_call_def w Let_def nav_gnss_sample_set_time_def inject_gnss_sample_def
        gps_others_run_def u current_node_id_def get_config_def g0_def [symmetric])
qed

lemma silent_results:
  "\<exists>w. gps_results B (replicate n (NAV_NMEA_RESULT_NONE, g)) s = Some (s\<lparr>gt_world := w\<rparr>)"
proof (induction n arbitrary: s)
  case 0
  have "s = s\<lparr>gt_world := gt_world s\<rparr>" by simp
  then show ?case by (metis gps_results.simps(1) replicate_0)
next
  case (Suc n)
  obtain now w where "gb_now B (gt_world s) = (now, w)" by fastforce
  then show ?case using Suc [of "s\<lparr>gt_world := w\<rparr>"] by (simp add: handle_parser_result_def gps_call_def)
qed

lemma gps_results_append: "gps_results B (xs @ ys) s = gps_results B xs s \<bind> gps_results B ys"
  by (induction B xs s rule: gps_results.induct) (simp_all split: Option.bind_split)

text \<open>C18: A GNSS sentence reaches the core: when the bytes of a line of up to 95 characters whose text is an
  accepted sentence arrive, in whatever state the parser is, the GPS task hands exactly one sample to the
  control channel, the one of the sentence with the time of its reading, the node's current id and, when
  the sentence carries no altitude, the last one known, and the core takes it as its local GNSS.\<close>

theorem gps_line_reaches_core:
  assumes "parser_wf (gt_parser s)" and "plain x" and "x \<noteq> []" and "length x \<le> 95"
    and "sentence_result (c_part x) = Some (NAV_NMEA_RESULT_SAMPLE, g)"
  shows "\<exists>s' w c1 c2 g' lines. gps_bytes B (nmea_line x) s = Some s' \<and>
    c1 = gb_others B (snd (gb_now B w)) (gt_control s) \<and> c2 = gb_others B (snd (gb_now B w)) c1 \<and>
    g' = (preserve_known_altitude (gt_status s) g)\<lparr>gs_timestamp_ms := fst (gb_now B w),
      gs_node_id := nc_node_id (ct_config c1)\<rparr> \<and>
    control_handle_event (gb_libm B) (gb_line_junk B)
      (Some \<lparr>ev_timestamp_ms = fst (gb_now B w), ev_data = NAV_EVT_LOCAL_GNSS_SAMPLE g'\<rparr>) c2 = Some (True, lines, gt_control s') \<and>
    sy_local_gnss (ct_nav (gt_control s')) = g' \<and> sy_local_gnss_present (ct_nav (gt_control s')) \<and>
    gh_valid_sentence_count (gt_status s') = gh_valid_sentence_count (gt_status s) + 1 \<and>
    parser_wf (gt_parser s') \<and> \<not> np_in_sentence (gt_parser s')"
proof -
  let ?none = "replicate (length x + 1) (NAV_NMEA_RESULT_NONE, sample_clear)"
  obtain p' where p': "parser_wf p'" "\<not> np_in_sentence p'" "nmea_feed (nmea_line x) (gt_parser s) =
      Some (?none @ [(NAV_NMEA_RESULT_SAMPLE, g), (NAV_NMEA_RESULT_NONE, sample_clear)], p')"
    using feed_line [OF assms(1-4)] assms(5) by auto
  obtain w where w: "gps_results B ?none s = Some (s\<lparr>gt_world := w\<rparr>)"
    using silent_results [of B "length x + 1" sample_clear s] by blast
  obtain t lines where t: "handle_parser_result B NAV_NMEA_RESULT_SAMPLE g (s\<lparr>gt_world := w\<rparr>) = Some t"
    "gt_world t = snd (gb_now B w)"
    "control_handle_event (gb_libm B) (gb_line_junk B) (Some \<lparr>ev_timestamp_ms = fst (gb_now B w), ev_data = NAV_EVT_LOCAL_GNSS_SAMPLE
       ((preserve_known_altitude (gt_status s) g)\<lparr>gs_timestamp_ms := fst (gb_now B w),
         gs_node_id := nc_node_id (ct_config (gb_others B (snd (gb_now B w)) (gt_control s)))\<rparr>)\<rparr>)
      (gb_others B (gt_world t) (gb_others B (snd (gb_now B w)) (gt_control s))) = Some (True, lines, gt_control t)"
    "sy_local_gnss (ct_nav (gt_control t)) = (preserve_known_altitude (gt_status s) g)\<lparr>gs_timestamp_ms := fst (gb_now B w),
         gs_node_id := nc_node_id (ct_config (gb_others B (snd (gb_now B w)) (gt_control s)))\<rparr>"
    "sy_local_gnss_present (ct_nav (gt_control t))"
    "gh_valid_sentence_count (gt_status t) = gh_valid_sentence_count (gt_status s) + 1"
    using sample_handled [of B "s\<lparr>gt_world := w\<rparr>" _ g] by auto
  obtain w' where w': "gps_results B [(NAV_NMEA_RESULT_NONE, sample_clear)] t = Some (t\<lparr>gt_world := w'\<rparr>)"
    using silent_results [of B 1 sample_clear t] by auto
  have "gps_results B [(NAV_NMEA_RESULT_SAMPLE, g), (NAV_NMEA_RESULT_NONE, sample_clear)] (s\<lparr>gt_world := w\<rparr>) = Some (t\<lparr>gt_world := w'\<rparr>)"
    using t(1) w' by simp
  then have "gps_bytes B (nmea_line x) s = Some (t\<lparr>gt_world := w', gt_parser := p'\<rparr>)"
    unfolding gps_bytes_feed p'(3) by (simp only: bind.simps prod.case gps_results_append w)
  then show ?thesis using t p'(1,2) by auto
qed

section \<open>The invariant of the task\<close>

text \<open>The other tasks use the control channel through its calls, as this one does.\<close>

definition gps_others_lawful :: "'w gps_board \<Rightarrow> bool" where
  "gps_others_lawful B \<longleftrightarrow> (\<forall>w st. control_reachable (gb_libm B) (gb_gnss_built B) st \<longrightarrow>
     control_reachable (gb_libm B) (gb_gnss_built B) (gb_others B w st))"

inductive gps_reachable :: "'w gps_board \<Rightarrow> 'w gps_task \<Rightarrow> bool" for B where
  gps_started: "control_reachable (gb_libm B) (gb_gnss_built B) st \<Longrightarrow> gps_start rx tx B (gps_globals w st) = (True, s) \<Longrightarrow>
    gps_reachable B s"
| gps_next: "gps_reachable B s \<Longrightarrow> gps_turn B s = Some s' \<Longrightarrow> gps_reachable B s'"

text \<open>A fix was seen in a sentence and a sentence in bytes; what is published as good had a fix.\<close>

definition health_wf :: "'w gps_task \<Rightarrow> bool" where
  "health_wf s \<longleftrightarrow> (gt_last_fix_ms s \<noteq> 0 \<longrightarrow> gh_fix_seen (gt_status s)) \<and>
     (gh_fix_seen (gt_status s) \<longrightarrow> gh_nmea_seen (gt_status s)) \<and>
     (gh_nmea_seen (gt_status s) \<longrightarrow> gh_bytes_seen (gt_status s)) \<and>
     (gh_state (gt_published s) = Health_Ok \<longrightarrow> gh_fix_seen (gt_published s))"

definition gps_inv :: "'w gps_board \<Rightarrow> 'w gps_task \<Rightarrow> bool" where
  "gps_inv B s \<longleftrightarrow> control_reachable (gb_libm B) (gb_gnss_built B) (gt_control s) \<and> parser_wf (gt_parser s) \<and> health_wf s"

lemma gps_call_parts [simp]:
  "gt_control (snd (gps_call f s)) = gt_control s" "gt_parser (snd (gps_call f s)) = gt_parser s"
  "gt_status (snd (gps_call f s)) = gt_status s" "health_wf (snd (gps_call f s)) = health_wf s"
  by (simp_all add: gps_call_def health_wf_def split: prod.split)

lemma handled_inv:
  assumes "handle_parser_result B r g s = Some t" "gps_others_lawful B"
    and "control_reachable (gb_libm B) (gb_gnss_built B) (gt_control s)" "health_wf s" "gh_bytes_seen (gt_status s)"
  shows "control_reachable (gb_libm B) (gb_gnss_built B) (gt_control t) \<and> health_wf t \<and> gh_bytes_seen (gt_status t)"
proof -
  let ?R = "control_reachable (gb_libm B) (gb_gnss_built B)"
  obtain now w where w: "gb_now B (gt_world s) = (now, w)" by fastforce
  have o: "?R (gb_others B u c)" if "?R c" for u c using assms(2) that unfolding gps_others_lawful_def by blast
  have u: "health_wf (update_status_from_sample h now v) \<and> gh_bytes_seen (gt_status (update_status_from_sample h now v)) \<and>
      gt_control (update_status_from_sample h now v) = gt_control v" if "health_wf v" "gh_bytes_seen (gt_status v)" for h v
    using that by (auto simp: update_status_from_sample_def health_wf_def Let_def)
  have i: "?R (gt_control z) \<and> health_wf z \<and> gh_bytes_seen (gt_status z)"
    if z: "inject_gnss_sample B h now v = Some z" "?R (gt_control v)" "health_wf v" "gh_bytes_seen (gt_status v)" for h v z
  proof -
    obtain ok lines c where c: "control_handle_event (gb_libm B) (gb_line_junk B)
        (Some \<lparr>ev_timestamp_ms = now, ev_data = NAV_EVT_LOCAL_GNSS_SAMPLE h\<rparr>) (gb_others B (gt_world v) (gt_control v)) = Some (ok, lines, c)"
      "z = (gps_others_run B v)\<lparr>gt_control := c, gt_lines := gt_lines (gps_others_run B v) @ lines\<rparr>"
      using z(1) by (auto simp: inject_gnss_sample_def gps_others_run_def bind_eq_Some_conv Let_def)
    have "?R c" by (rule control_next [OF o [OF z(2)] step_inject [OF _ c(1)]]) simp
    then show ?thesis using z(3,4) by (simp add: c(2) health_wf_def gps_others_run_def)
  qed
  have s: "health_wf (gps_others_run B (s\<lparr>gt_world := w\<rparr>))" "gh_bytes_seen (gt_status (gps_others_run B (s\<lparr>gt_world := w\<rparr>)))"
    "?R (gt_control (gps_others_run B (s\<lparr>gt_world := w\<rparr>)))"
    using assms(3-5) o by (simp_all add: gps_others_run_def health_wf_def)
  show ?thesis
  proof (cases "r = NAV_NMEA_RESULT_SAMPLE")
    case True
    then show ?thesis using assms(1) u [OF s(1,2)] s(3)
      by (auto simp: handle_parser_result_def gps_call_def w Let_def dest!: i)
  next
    case False
    then show ?thesis using assms(1,3-5)
      by (auto simp: handle_parser_result_def gps_call_def w gps_log_def health_wf_def split: if_splits)
  qed
qed

lemma bytes_inv:
  assumes "gps_bytes B bs s = Some t" "gps_others_lawful B" "gps_inv B s" "gh_bytes_seen (gt_status s)"
  shows "gps_inv B t"
  using assms(1,3,4)
proof (induction bs arbitrary: s)
  case (Cons b bs)
  obtain r p g where p: "nav_nmea_parser_push b (gt_parser s) = Some (r, p, g)"
    using Cons.prems(1) by (cases "nav_nmea_parser_push b (gt_parser s)") auto
  obtain u where u: "handle_parser_result B r g s = Some u" "gps_bytes B bs (u\<lparr>gt_parser := p\<rparr>) = Some t"
    using Cons.prems(1) by (cases "handle_parser_result B r g s") (auto simp: p)
  have "parser_wf p" using push_wf p Cons.prems(2) by (auto simp: gps_inv_def)
  then have "gps_inv B (u\<lparr>gt_parser := p\<rparr>)" "gh_bytes_seen (gt_status (u\<lparr>gt_parser := p\<rparr>))"
    using handled_inv [OF u(1) assms(2)] Cons.prems(2,3) by (simp_all add: gps_inv_def health_wf_def)
  then show ?case by (rule Cons.IH [OF u(2)])
qed simp

lemma report_inv:
  assumes "health_wf s"
  shows "health_wf (gps_report B now s)" "gh_state (gt_published (gps_report B now s)) = Health_Ok \<Longrightarrow>
    now - gt_last_fix_ms s \<le> 5000 \<and> gh_fix_seen (gt_published (gps_report B now s))"
  using assms by (auto simp: gps_report_def Let_def publish_gps_status_def gps_log_def health_wf_def gps_others_run_def
      not_less split: if_splits)

lemma report_control:
  "gt_control (gps_report B now s) = gt_control s \<or> (\<exists>w. gt_control (gps_report B now s) = gb_others B w (gt_control s))"
  "gt_parser (gps_report B now s) = gt_parser s"
  by (auto simp: gps_report_def Let_def publish_gps_status_def gps_log_def gps_others_run_def)

lemma turn_inv:
  assumes "gps_turn B s = Some t" "gps_others_lawful B" "gps_inv B s"
  shows "gps_inv B t"
proof -
  obtain u where u: "gps_receive B s = Some u" "t = snd (gps_call (gb_now B) u) \<or>
      t = gps_report B (fst (gps_call (gb_now B) u)) (snd (gps_call (gb_now B) u))"
    using assms(1) by (auto simp: gps_turn_def bind_eq_Some_conv case_prod_beta split: if_splits)
  have "gps_inv B u"
  proof -
    obtain received s1 where r: "gps_call (gb_uart_read B) s = (received, s1)" by fastforce
    have s1: "gps_inv B s1" using assms(3) r gps_call_parts [of "gb_uart_read B" s] by (simp add: gps_inv_def)
    obtain now s2 where n: "gps_call (gb_now B) s1 = (now, s2)" by fastforce
    have s2: "gps_inv B s2" using s1 n gps_call_parts [of "gb_now B" s1] by (simp add: gps_inv_def)
    have "gps_inv B (s2\<lparr>gt_status := (gt_status s2)\<lparr>gh_bytes_seen := True, gh_bytes_received := k\<rparr>, gt_last_byte_ms := now\<rparr>)" for k
      using s2 by (simp add: gps_inv_def health_wf_def)
    then show ?thesis using u(1) s1
      by (auto simp: gps_receive_def r n split: option.splits if_splits dest!: bytes_inv [OF _ assms(2)])
  qed
  then show ?thesis
    using u(2) report_control [of B] report_inv(1) assms(2) unfolding gps_inv_def gps_others_lawful_def
    by (metis gps_call_parts)
qed

lemma gps_reachable_inv:
  assumes "gps_reachable B s" "gps_others_lawful B"
  shows "gps_inv B s"
  using assms(1)
proof (induction rule: gps_reachable.induct)
  case (gps_started st rx tx w s)
  then have "gt_control s = st \<and> gt_parser s = nav_nmea_parser_init \<and> health_wf s"
    by (auto simp: gps_start_def gps_uart_init_def gps_call_def gps_log_def gps_globals_def gps_health_zero_def health_wf_def
        Let_def split: prod.splits if_splits)
  then show ?case using gps_started(1) parser_wf_init by (simp add: gps_inv_def)
qed (use turn_inv assms(2) in blast)

lemma results_total: "gps_results B rs s \<noteq> None"
proof (induction B rs s rule: gps_results.induct)
  case (2 B r g rs s)
  have "inject_gnss_sample B h now v \<noteq> None" for h now v
    using gnss_event_total [of "gb_libm B" "gb_line_junk B" now h "gb_others B (gt_world v) (gt_control v)"]
    by (auto simp: inject_gnss_sample_def gps_others_run_def Let_def)
  then have "handle_parser_result B r g s \<noteq> None"
    by (simp add: handle_parser_result_def Let_def split: prod.split)
  then show ?case using 2 by auto
qed simp

section \<open>The history of fixes\<close>

text \<open>What counts as a fix, said apart from the code: a valid sample of a 3D fix or better. The times of the fixes
  among the results of a burst are the readings of the timer, one per result.\<close>

definition sound_fix :: "nav_gnss_sample \<Rightarrow> bool" where
  "sound_fix g \<longleftrightarrow> gs_valid g \<and> 3 \<le> nav_gnss_fix_type_code (gs_fix_type g)"

fun fix_times :: "('w \<Rightarrow> u32 \<times> 'w) \<Rightarrow> (nav_nmea_result \<times> nav_gnss_sample) list \<Rightarrow> 'w \<Rightarrow> u32 list" where
  "fix_times clock [] w = []"
| "fix_times clock ((r, g) # rs) w =
     (if r = NAV_NMEA_RESULT_SAMPLE \<and> sound_fix g then [fst (clock w)] else []) @ fix_times clock rs (snd (clock w))"

text \<open>The fixes that a turn of the task receives.\<close>

definition turn_fixes :: "'w gps_board \<Rightarrow> 'w gps_task \<Rightarrow> u32 list" where
  "turn_fixes B s = (case gb_uart_read B (gt_world s) of
     (Some bs, w) \<Rightarrow> (case nmea_feed bs (gt_parser s) of
       Some (rs, p) \<Rightarrow> if bs = [] then [] else fix_times (gb_now B) rs (snd (gb_now B w)) | None \<Rightarrow> [])
   | (None, w) \<Rightarrow> [])"

inductive gps_history :: "'w gps_board \<Rightarrow> u32 list \<Rightarrow> 'w gps_task \<Rightarrow> bool" for B where
  history_started: "control_reachable (gb_libm B) (gb_gnss_built B) st \<Longrightarrow>
    gps_start rx tx B (gps_globals w st) = (True, s) \<Longrightarrow> gps_history B [] s"
| history_next: "gps_history B found s \<Longrightarrow> gps_turn B s = Some s' \<Longrightarrow> gps_history B (found @ turn_fixes B s) s'"

lemma history_reachable: "gps_history B found s \<Longrightarrow> gps_reachable B s"
  by (induction rule: gps_history.induct) (auto intro: gps_reachable.intros)

lemma reachable_history: "gps_reachable B s \<Longrightarrow> \<exists>found. gps_history B found s"
  by (induction rule: gps_reachable.induct) (auto intro: gps_history.intros)

text \<open>What the status remembers of a list of fixes.\<close>

definition remembers :: "'w gps_task \<Rightarrow> u32 list \<Rightarrow> bool" where
  "remembers s found \<longleftrightarrow> gh_fix_seen (gt_status s) = (found \<noteq> []) \<and>
     gt_last_fix_ms s = (if found = [] then 0 else last found) \<and> (gh_fix_seen (gt_published s) \<longrightarrow> found \<noteq> [])"

lemma gps_call_remembers [simp]: "remembers (snd (gps_call f s)) found = remembers s found"
  by (simp add: gps_call_def remembers_def split: prod.split)

lemma handled_fix:
  assumes "handle_parser_result B r g s = Some t" "remembers s found"
  shows "remembers t (found @ (if r = NAV_NMEA_RESULT_SAMPLE \<and> sound_fix g then [fst (gb_now B (gt_world s))] else [])) \<and>
    gt_world t = snd (gb_now B (gt_world s))"
proof -
  obtain now w where w: "gb_now B (gt_world s) = (now, w)" by fastforce
  have i: "gt_status z = gt_status v \<and> gt_published z = gt_published v \<and> gt_last_fix_ms z = gt_last_fix_ms v \<and> gt_world z = gt_world v"
    if "inject_gnss_sample B h now v = Some z" for h v z
    using that by (auto simp: inject_gnss_sample_def gps_others_run_def bind_eq_Some_conv Let_def)
  have p: "gs_valid (preserve_known_altitude st g) = gs_valid g" "gs_fix_type (preserve_known_altitude st g) = gs_fix_type g" for st
    by (simp_all add: preserve_known_altitude_def)
  show ?thesis
  proof (cases "r = NAV_NMEA_RESULT_SAMPLE")
    case True
    then show ?thesis using assms w
      by (auto simp: handle_parser_result_def gps_call_def Let_def nav_gnss_sample_set_time_def update_status_from_sample_def
          nav_gnss_sample_is_usable_def gps_others_run_def remembers_def sound_fix_def p dest!: i)
  next
    case False
    then show ?thesis using assms w
      by (auto simp: handle_parser_result_def gps_call_def gps_log_def remembers_def split: if_splits)
  qed
qed

lemma results_fixes:
  assumes "gps_results B rs s = Some t" "remembers s found"
  shows "remembers t (found @ fix_times (gb_now B) rs (gt_world s))"
  using assms
proof (induction B rs s arbitrary: found rule: gps_results.induct)
  case (2 B r g rs s)
  then obtain u where u: "handle_parser_result B r g s = Some u" "gps_results B rs u = Some t" by (auto simp: bind_eq_Some_conv)
  from handled_fix [OF u(1) 2(3)] 2(1) [OF u] show ?case by (simp add: append_assoc [symmetric] del: append_assoc)
qed simp

lemma report_remembers: "remembers s found \<Longrightarrow> remembers (gps_report B now s) found"
  by (auto simp: gps_report_def Let_def publish_gps_status_def gps_log_def remembers_def gps_others_run_def)

lemma turn_remembers:
  assumes "gps_turn B s = Some t" "remembers s found"
  shows "remembers t (found @ turn_fixes B s)"
proof -
  obtain u where u: "gps_receive B s = Some u" "t = snd (gps_call (gb_now B) u) \<or>
      t = gps_report B (fst (gps_call (gb_now B) u)) (snd (gps_call (gb_now B) u))"
    using assms(1) by (auto simp: gps_turn_def bind_eq_Some_conv case_prod_beta split: if_splits)
  obtain received w where r: "gb_uart_read B (gt_world s) = (received, w)" by fastforce
  obtain now w2 where n: "gb_now B w = (now, w2)" by fastforce
  have "remembers u (found @ turn_fixes B s)"
  proof (cases received)
    case None
    then show ?thesis using u(1) assms(2) r by (auto simp: gps_receive_def gps_call_def turn_fixes_def remembers_def)
  next
    case (Some bs)
    show ?thesis
    proof (cases "bs = []")
      case True
      then show ?thesis using u(1) assms(2) r Some
        by (auto simp: gps_receive_def gps_call_def turn_fixes_def remembers_def split: option.split)
    next
      case False
      define v where "v = s\<lparr>gt_world := w2, gt_status := (gt_status s)\<lparr>gh_bytes_seen := True,
          gh_bytes_received := gh_bytes_received (gt_status s) + of_nat (length bs)\<rparr>, gt_last_byte_ms := now\<rparr>"
      have v: "gps_bytes B bs v = Some u" "remembers v found" "gt_world v = w2" "gt_parser v = gt_parser s"
        using u(1) assms(2) r n Some False by (simp_all add: gps_receive_def gps_call_def v_def remembers_def)
      then obtain rs p x where x: "nmea_feed bs (gt_parser s) = Some (rs, p)" "gps_results B rs v = Some x" "u = x\<lparr>gt_parser := p\<rparr>"
        by (auto simp: gps_bytes_feed bind_eq_Some_conv)
      have "turn_fixes B s = fix_times (gb_now B) rs w2" using r n Some False x(1) by (simp add: turn_fixes_def)
      then show ?thesis using results_fixes [OF x(2) v(2)] v(3) x(3) by (simp add: remembers_def)
    qed
  qed
  then show ?thesis using u(2) report_remembers [of "snd (gps_call (gb_now B) u)"] by auto
qed

lemma history_remembers: "gps_history B found s \<Longrightarrow> remembers s found"
proof (induction rule: gps_history.induct)
  case (history_started st rx tx w s)
  then show ?case
    by (auto simp: gps_start_def gps_uart_init_def gps_call_def gps_log_def gps_globals_def gps_health_zero_def remembers_def
        Let_def split: prod.splits if_splits)
qed (rule turn_remembers)

text \<open>C26: The invariant of the GPS task: after any stream of bytes from the UART, in any bursts and with any other
  calls of the control channel in between, the core keeps its invariant, local GNSS stays denied as
  configured, the parser's buffer stays well formed, and a burst is handled unless the parser itself leaves
  the defined behaviour. The status knows exactly the fixes: a fix was seen if and only if a sentence with a
  valid sample of a 3D fix arrived, and the time kept is the reading of the timer at the last of them.
  Good health is therefore published only when there was such a fix, and a report publishes it at most
  five seconds after the last one.\<close>

theorem gps_task_invariant:
  assumes "gps_history B found s" and "gps_others_lawful B"
  shows "core_inv (ct_nav (gt_control s)) \<and>
    cfg_demo_force_gps_denied (sy_config (ct_nav (gt_control s))) =
      (\<not> (gb_gnss_built B \<and> nc_gps_enabled (ct_config (gt_control s)))) \<and>
    parser_wf (gt_parser s) \<and> (gps_bytes B bs s = None) = (nmea_feed bs (gt_parser s) = None) \<and>
    gh_fix_seen (gt_status s) = (found \<noteq> []) \<and> gt_last_fix_ms s = (if found = [] then 0 else last found) \<and>
    (gh_state (gt_published s) = Health_Ok \<longrightarrow> found \<noteq> []) \<and>
    (gh_state (gt_published (gps_report B now s)) = Health_Ok \<longrightarrow>
      found \<noteq> [] \<and> now - last found \<le> 5000 \<and> gh_fix_seen (gt_published (gps_report B now s)))"
proof -
  note i = gps_reachable_inv [OF history_reachable [OF assms(1)] assms(2), unfolded gps_inv_def]
  have r: "remembers s found" by (rule history_remembers [OF assms(1)])
  have "(gps_bytes B bs s = None) = (nmea_feed bs (gt_parser s) = None)"
  proof (cases "nmea_feed bs (gt_parser s)")
    case (Some x)
    obtain rs p where x: "x = (rs, p)" by fastforce
    obtain t where "gps_results B rs s = Some t" using results_total [of B rs s] by auto
    then show ?thesis by (simp add: gps_bytes_feed Some x)
  qed (simp add: gps_bytes_feed)
  moreover have "gh_state (gt_published (gps_report B now s)) = Health_Ok \<longrightarrow>
      found \<noteq> [] \<and> now - last found \<le> 5000 \<and> gh_fix_seen (gt_published (gps_report B now s))"
    using report_inv(2) [of s B now] report_remembers [OF r, of B now] i r by (auto simp: remembers_def)
  moreover have "gh_state (gt_published s) = Health_Ok \<longrightarrow> found \<noteq> []"
    using i r by (auto simp: health_wf_def remembers_def)
  ultimately show ?thesis using control_reachable_inv [of "gb_libm B" "gb_gnss_built B" "gt_control s"] i r
    by (simp add: control_inv_def core_holds_def core_config_def effective_gps remembers_def)
qed

end
