(* ===== verification/Gps_Run.thy ===== *)
theory Gps_Run
  imports Gps_Safety Nav_Nmea_Run Control_Run
begin

text \<open>The GPS task on boards that can be evaluated: one whose timer counts its readings, one whose UART delivers a line.\<close>

definition ex_gps_board :: "nat gps_board" where
  "ex_gps_board = \<lparr>gb_now = (\<lambda>w. (of_nat w, w + 1)), gb_uart_read = (\<lambda>w. (Some [], w)), gb_uart_param_config = (\<lambda>w. (0, w)),
     gb_uart_set_pin = (\<lambda>w. (0, w)), gb_uart_driver_install = (\<lambda>w. (0, w)), gb_others = (\<lambda>_ st. st),
     gb_libm = run_libm, gb_gnss_built = True, gb_line_junk = replicate 512 NUL\<rparr>"

definition run_gps :: "nat gps_task" where
  "run_gps = snd (gps_start 17 18 ex_gps_board (gps_globals 6000 run_start))"

lemma run_gps: "gps_reachable ex_gps_board run_gps" "gt_parser run_gps = nav_nmea_parser_init"
  "gt_control run_gps = run_start" "gt_status run_gps = gps_health_zero"
proof -
  have s: "gps_start 17 18 ex_gps_board (gps_globals 6000 run_start) = (True, run_gps)"
    by (simp add: run_gps_def gps_start_def gps_uart_init_def gps_call_def ex_gps_board_def Let_def)
  have "control_reachable run_libm True run_start"
    by (rule control_start [OF _ run_start(1)]) (simp add: node_config_wf_def ex_config_def)
  then show "gps_reachable ex_gps_board run_gps" using gps_started [OF _ s] by (simp add: ex_gps_board_def)
  show "gt_parser run_gps = nav_nmea_parser_init" "gt_control run_gps = run_start" "gt_status run_gps = gps_health_zero"
    by (simp_all add: run_gps_def gps_start_def gps_uart_init_def gps_call_def ex_gps_board_def gps_globals_def gps_log_def Let_def)
qed

text \<open>A board whose UART delivers one line, at a time that stands still.\<close>

definition line_board :: "nat gps_board" where
  "line_board = ex_gps_board\<lparr>gb_now := (\<lambda>w. (6000, w)),
     gb_uart_read := (\<lambda>w. (Some (if w = 0 then nmea_line pole_sentence else []), w + 1))\<rparr>"

definition line_gps :: "nat gps_task" where
  "line_gps = snd (gps_start 17 18 line_board (gps_globals 0 run_start))"

lemma line_gps: "gps_history line_board [] line_gps" "gt_parser line_gps = nav_nmea_parser_init"
  "gt_last_report_ms line_gps = 0" "gt_world line_gps = 0"
proof -
  have s: "gps_start 17 18 line_board (gps_globals 0 run_start) = (True, line_gps)"
    by (simp add: line_gps_def gps_start_def gps_uart_init_def gps_call_def line_board_def ex_gps_board_def Let_def)
  have "control_reachable run_libm True run_start"
    by (rule control_start [OF _ run_start(1)]) (simp add: node_config_wf_def ex_config_def)
  then show "gps_history line_board [] line_gps" using history_started [OF _ s] by (simp add: line_board_def ex_gps_board_def)
  show "gt_parser line_gps = nav_nmea_parser_init" "gt_last_report_ms line_gps = 0" "gt_world line_gps = 0"
    by (simp_all add: line_gps_def gps_start_def gps_uart_init_def gps_call_def line_board_def ex_gps_board_def gps_globals_def
        gps_log_def Let_def)
qed

text \<open>What a usable sample leaves for the report.\<close>

definition just_fixed :: "nat gps_task \<Rightarrow> bool" where
  "just_fixed s \<longleftrightarrow> gh_bytes_seen (gt_status s) \<and> gh_nmea_seen (gt_status s) \<and> gt_last_byte_ms s = 6000 \<and>
     gt_last_sentence_ms s = 6000 \<and> gt_last_fix_ms s = 6000 \<and> gt_last_report_ms s = 0"

lemma sample_fixes:
  assumes "nav_gnss_sample_is_usable (Some g)" "gh_bytes_seen (gt_status s)" "gt_last_byte_ms s = 6000" "gt_last_report_ms s = 0"
  shows "\<exists>t. handle_parser_result line_board NAV_NMEA_RESULT_SAMPLE g s = Some t \<and> just_fixed t"
proof -
  have i: "\<exists>z. inject_gnss_sample line_board h now v = Some z \<and> just_fixed z = just_fixed v" for h now v
    using gnss_event_total [of "gb_libm line_board" "gb_line_junk line_board" now h "gb_others line_board (gt_world v) (gt_control v)"]
    by (auto simp: inject_gnss_sample_def gps_others_run_def just_fixed_def Let_def)
  have u: "nav_gnss_sample_is_usable (Some ((preserve_known_altitude st g)\<lparr>gs_timestamp_ms := a, gs_node_id := b\<rparr>))" for st a b
    using assms(1) by (simp add: nav_gnss_sample_is_usable_def preserve_known_altitude_def)
  define v where "v = update_status_from_sample ((preserve_known_altitude (gt_status s) g)\<lparr>gs_timestamp_ms := 6000,
      gs_node_id := current_node_id (Some (gt_control (gps_others_run line_board s)))\<rparr>) 6000 (gps_others_run line_board s)"
  have "just_fixed v"
    using assms(2-4) u by (simp add: v_def update_status_from_sample_def Let_def just_fixed_def gps_others_run_def)
  moreover have "handle_parser_result line_board NAV_NMEA_RESULT_SAMPLE g s = inject_gnss_sample line_board
      ((preserve_known_altitude (gt_status s) g)\<lparr>gs_timestamp_ms := 6000,
        gs_node_id := current_node_id (Some (gt_control (gps_others_run line_board s)))\<rparr>) 6000 v"
    by (simp add: handle_parser_result_def gps_call_def line_board_def Let_def nav_gnss_sample_set_time_def v_def)
  ultimately show ?thesis using i by metis
qed

lemma line_turn: "\<exists>s. gps_turn line_board line_gps = Some s \<and> gh_state (gt_published s) = Health_Ok \<and>
    turn_fixes line_board line_gps = [6000]"
proof -
  obtain g where g: "sentence_result (c_part pole_sentence) = Some (NAV_NMEA_RESULT_SAMPLE, g)" "nav_gnss_sample_is_usable (Some g)"
    unfolding c_part_id [OF pole_plain(3)] using latitude_beyond_pole by blast
  let ?none = "replicate 23 (NAV_NMEA_RESULT_NONE, sample_clear)"
  obtain p where f: "nmea_feed (nmea_line pole_sentence) nav_nmea_parser_init =
      Some (?none @ [(NAV_NMEA_RESULT_SAMPLE, g), (NAV_NMEA_RESULT_NONE, sample_clear)], p)"
    using feed_line [OF parser_wf_init pole_plain(1,4)] pole_plain(2) g(1) by auto
  define v where "v = line_gps\<lparr>gt_world := 1, gt_status := (gt_status line_gps)\<lparr>gh_bytes_seen := True,
      gh_bytes_received := gh_bytes_received (gt_status line_gps) + of_nat (length (nmea_line pole_sentence))\<rparr>, gt_last_byte_ms := 6000\<rparr>"
  obtain w where w: "gps_results line_board ?none v = Some (v\<lparr>gt_world := w\<rparr>)"
    using silent_results [of line_board 23 sample_clear v] by auto
  obtain t where t: "handle_parser_result line_board NAV_NMEA_RESULT_SAMPLE g (v\<lparr>gt_world := w\<rparr>) = Some t" "just_fixed t"
    using sample_fixes [OF g(2), of "v\<lparr>gt_world := w\<rparr>"] line_gps(3) by (auto simp: v_def)
  obtain w' where w': "gps_results line_board [(NAV_NMEA_RESULT_NONE, sample_clear)] t = Some (t\<lparr>gt_world := w'\<rparr>)"
    using silent_results [of line_board 1 sample_clear t] by auto
  define u where "u = t\<lparr>gt_world := w', gt_parser := p\<rparr>"
  have "gps_results line_board (?none @ [(NAV_NMEA_RESULT_SAMPLE, g), (NAV_NMEA_RESULT_NONE, sample_clear)]) v = Some (t\<lparr>gt_world := w'\<rparr>)"
    using w t(1) w' by (simp only: gps_results_append) simp
  then have b: "gps_bytes line_board (nmea_line pole_sentence) v = Some u"
    using f line_gps(2) unfolding gps_bytes_feed u_def by (simp add: v_def)
  have l: "nmea_line pole_sentence \<noteq> []" by (simp add: nmea_line_def)
  have "gps_receive line_board line_gps = Some u"
    using b l line_gps(4) by (simp add: gps_receive_def gps_call_def line_board_def v_def)
  moreover have "just_fixed u" using t(2) by (simp add: u_def just_fixed_def)
  ultimately have "\<exists>s. gps_turn line_board line_gps = Some s \<and> gh_state (gt_published s) = Health_Ok"
    by (simp add: gps_turn_def gps_call_def line_board_def ex_gps_board_def just_fixed_def gps_report_def Let_def
        publish_gps_status_def gps_log_def gps_others_run_def)
  moreover have "fix_times (gb_now line_board) (replicate n (NAV_NMEA_RESULT_NONE, sample_clear) @ rs) k
      = fix_times (gb_now line_board) rs k" for n rs k
    by (induction n) (simp_all add: line_board_def)
  then have "turn_fixes line_board line_gps = [6000]"
    using f l line_gps(2,4) g(2) by (simp add: turn_fixes_def line_board_def nav_gnss_sample_is_usable_def sound_fix_def)
  ultimately show ?thesis by blast
qed

theorem gps_task_invariant_witness:
  "\<exists>s. gps_turn line_board line_gps = Some s \<and> core_inv (ct_nav (gt_control s)) \<and>
     gh_state (gt_published s) = Health_Ok \<and> gh_fix_seen (gt_status s) \<and> gt_last_fix_ms s = 6000"
proof -
  have others: "gps_others_lawful line_board" by (simp add: gps_others_lawful_def line_board_def ex_gps_board_def)
  obtain s where s: "gps_turn line_board line_gps = Some s" "gh_state (gt_published s) = Health_Ok"
    "turn_fixes line_board line_gps = [6000]" using line_turn by blast
  have "gps_history line_board [6000] s" using history_next [OF line_gps(1) s(1)] s(3) by simp
  from gps_task_invariant [OF this others] show ?thesis using s by simp
qed

theorem gps_line_reaches_core_witness:
  "\<exists>s'. gps_bytes ex_gps_board (nmea_line pole_sentence) run_gps = Some s' \<and>
     gs_node_id (sy_local_gnss (ct_nav (gt_control s'))) = 2 \<and> sy_local_gnss_present (ct_nav (gt_control s')) \<and>
     gh_valid_sentence_count (gt_status s') = 1"
proof -
  obtain g where g: "sentence_result (c_part pole_sentence) = Some (NAV_NMEA_RESULT_SAMPLE, g)" using pole_sample by blast
  have p: "parser_wf (gt_parser run_gps)" by (simp add: run_gps parser_wf_init)
  have c: "nc_node_id (ct_config run_start) = 2" by (simp add: run_start_config ex_config_def)
  from gps_line_reaches_core [OF p pole_plain(1,4) _ g, of ex_gps_board] show ?thesis
    by (auto simp: run_gps pole_plain(2) c ex_gps_board_def gps_health_zero_def)
qed

end
