(* ===== verification/Radio_Link.thy ===== *)
theory Radio_Link
  imports Control_Channel Nav_Tdma Node_Health
begin

text \<open>
  \<^verbatim>\<open>src/RadioHealth.cpp\<close>, part one: the state of the radio task, the board it runs on and its clock. The
  board is a parameter: the timer, the delay, the pins and the SX1280 driver are functions on a world \<open>'w\<close>
  that the code only reads through them, and \<open>bd_others\<close> is what the other tasks did to the control
  channel before a call of this one. \<open>None\<close> is undefined behaviour or a wait that does not end.
\<close>

section \<open>The board\<close>

datatype irq_flag = SLAVE_REQ_VALID | MASTER_TIMEOUT | MASTER_RES_VALID | SLAVE_REQ_DISCARD | SLAVE_RESP_DONE
  | RX_TX_TIMEOUT

record radio_profile =
  rf_frequency_mhz :: fp
  rf_bandwidth_khz :: fp
  rf_spreading_factor :: u8
  rf_coding_rate :: u8
  rf_sync_word :: u8
  rf_tx_power_dbm :: int
  rf_preamble_len :: u16

record 'w board =
  bd_now :: "'w \<Rightarrow> u32 \<times> 'w"
  bd_delay :: "u32 \<Rightarrow> 'w \<Rightarrow> 'w"
  bd_ms_to_ticks :: "u32 \<Rightarrow> u32"
  bd_gpio_max :: int
  bd_busy_pin :: int
  bd_dio1_pin :: int
  bd_reset_pin :: int
  bd_gpio_get :: "int \<Rightarrow> 'w \<Rightarrow> int \<times> 'w"
  bd_gpio_input :: "int \<Rightarrow> 'w \<Rightarrow> 'w"
  bd_gpio_output :: "int \<Rightarrow> 'w \<Rightarrow> 'w"
  bd_gpio_set :: "int \<Rightarrow> int \<Rightarrow> 'w \<Rightarrow> 'w"
  bd_begin :: "radio_profile \<Rightarrow> 'w \<Rightarrow> i16 \<times> 'w"
  bd_transmit :: "u8 list \<Rightarrow> 'w \<Rightarrow> i16 \<times> 'w"
  bd_start_receive :: "'w \<Rightarrow> i16 \<times> 'w"
  bd_finish_receive :: "'w \<Rightarrow> 'w"
  bd_packet_length :: "'w \<Rightarrow> nat \<times> 'w"
  bd_read_data :: "nat \<Rightarrow> 'w \<Rightarrow> (i16 \<times> u8 list) \<times> 'w"
  bd_clear_irq :: "'w \<Rightarrow> 'w"
  bd_irq_status :: "'w \<Rightarrow> u16 \<times> 'w"
  bd_start_ranging :: "bool \<Rightarrow> u32 \<Rightarrow> u16 list list \<Rightarrow> 'w \<Rightarrow> i16 \<times> 'w"
  bd_finish_ranging :: "'w \<Rightarrow> i16 \<times> 'w"
  bd_ranging_raw :: "'w \<Rightarrow> i32 \<times> 'w"
  bd_ranging_result :: "'w \<Rightarrow> fp \<times> 'w"
  bd_rssi :: "'w \<Rightarrow> fp \<times> 'w"
  bd_snr :: "'w \<Rightarrow> fp \<times> 'w"
  bd_err_none :: i16
  bd_err_spi_timeout :: i16
  bd_err_ranging_timeout :: i16
  bd_irq_mask :: "irq_flag \<Rightarrow> u16"
  bd_profile_sync_word :: u8
  bd_tx_power_dbm :: int
  bd_others :: "'w \<Rightarrow> control_state \<Rightarrow> control_state"
  bd_libm :: libm
  bd_gnss_built :: bool
  bd_payload_junk :: "nat \<Rightarrow> u8"
  bd_frame_junk :: "nat \<Rightarrow> u8"
  bd_line_junk :: "char list"

section \<open>State of the task\<close>

record debug_telemetry =
  dt_remote_active_until_ms :: u32
  dt_last_beacon_tx_ms :: u32
  dt_last_debug_enable_tx_ms :: u32
  dt_last_node_quality_tx_ms :: u32
  dt_beacon_packet_seq :: u32
  dt_node_quality_packet_seq :: u32
  dt_tx_frame_seq :: u16
  dt_remote_was_active :: bool

record tdma_runtime =
  rt_schedule :: nav_tdma
  rt_local_node_id :: u8
  rt_epoch_local_ms :: u32
  rt_last_authority_heartbeat_ms :: u32
  rt_last_processed_slot :: u32
  rt_tx_frame_seq :: u16
  rt_initialized :: bool
  rt_authority_synced :: bool
  rt_waiting_logged :: bool

text \<open>The globals and locals of the task with what it has sent out: serial lines and log calls, and the
  health it has published.\<close>

record 'w radio_task =
  rk_world :: 'w
  rk_control :: control_state
  rk_lines :: "string list"
  rk_log :: "log_call list"
  rk_status :: radio_health
  rk_published :: radio_health
  rk_request_id :: u16
  rk_tdma :: tdma_runtime
  rk_debug :: debug_telemetry

definition debug_telemetry_zero :: debug_telemetry where
  "debug_telemetry_zero = \<lparr>dt_remote_active_until_ms = 0, dt_last_beacon_tx_ms = 0, dt_last_debug_enable_tx_ms = 0,
     dt_last_node_quality_tx_ms = 0, dt_beacon_packet_seq = 0, dt_node_quality_packet_seq = 0, dt_tx_frame_seq = 0,
     dt_remote_was_active = False\<rparr>"

definition tdma_runtime_zero :: tdma_runtime where
  "tdma_runtime_zero = \<lparr>rt_schedule = \<lparr>td_members = replicate NAV_MAX_NODES 0, td_member_count = 0,
       td_local_node_id = 0, td_slot_ms = 0\<rparr>,
     rt_local_node_id = 0, rt_epoch_local_ms = 0, rt_last_authority_heartbeat_ms = 0, rt_last_processed_slot = 0,
     rt_tx_frame_seq = 0, rt_initialized = False, rt_authority_synced = False, rt_waiting_logged = False\<rparr>"

text \<open>A call of the board, and one that has an effect only.\<close>

definition board_call :: "('w \<Rightarrow> 'a \<times> 'w) \<Rightarrow> 'w radio_task \<Rightarrow> 'a \<times> 'w radio_task" where
  "board_call f s = (case f (rk_world s) of (a, w) \<Rightarrow> (a, s\<lparr>rk_world := w\<rparr>))"

definition board_do :: "('w \<Rightarrow> 'w) \<Rightarrow> 'w radio_task \<Rightarrow> 'w radio_task" where
  "board_do f s = s\<lparr>rk_world := f (rk_world s)\<rparr>"

text \<open>The other tasks run before a call of the control channel takes its lock.\<close>

definition others_run :: "'w board \<Rightarrow> 'w radio_task \<Rightarrow> 'w radio_task" where
  "others_run B s = s\<lparr>rk_control := bd_others B (rk_world s) (rk_control s)\<rparr>"

definition log_to :: "string \<Rightarrow> string \<Rightarrow> string list \<Rightarrow> 'w radio_task \<Rightarrow> 'w radio_task" where
  "log_to level tag parts s =
     s\<lparr>rk_log := rk_log s @ [\<lparr>lc_level = level, lc_tag = tag, lc_message = concat parts\<rparr>]\<rparr>"

abbreviation (input) "debugf \<equiv> log_to ''DEBUG''"
abbreviation (input) "infof \<equiv> log_to ''INFO''"
abbreviation (input) "warnf \<equiv> log_to ''WARN''"
abbreviation (input) "okf \<equiv> log_to ''OK''"
abbreviation (input) "failf \<equiv> log_to ''FAIL''"

section \<open>Constants\<close>

abbreviation (input) kMasterTimeoutMs :: u32 where "kMasterTimeoutMs \<equiv> 250"
abbreviation (input) kRangingMasterStartGuardMs :: u32 where "kRangingMasterStartGuardMs \<equiv> 180"
abbreviation (input) kTdmaHeartbeatRxCompensationMs :: u32 where "kTdmaHeartbeatRxCompensationMs \<equiv> 100"
abbreviation (input) kSlaveListenSliceMs :: u32 where "kSlaveListenSliceMs \<equiv> 120"
abbreviation (input) kReportRxWindowMs :: u32 where "kReportRxWindowMs \<equiv> 45"
abbreviation (input) kReportTxRepeats :: nat where "kReportTxRepeats \<equiv> 3"
abbreviation (input) kReportTxGapMs :: u32 where "kReportTxGapMs \<equiv> 8"
abbreviation (input) kBestEffortTxGuardMs :: u32 where "kBestEffortTxGuardMs \<equiv> 80"
abbreviation (input) kTelemetryBeaconRepeats :: nat where "kTelemetryBeaconRepeats \<equiv> 3"
abbreviation (input) kTelemetryBeaconRepeatGapMs :: u32 where "kTelemetryBeaconRepeatGapMs \<equiv> 55"
abbreviation (input) kDebugEnablePeriodMs :: u32 where "kDebugEnablePeriodMs \<equiv> 1000"
abbreviation (input) kDebugEnableTtlMs :: u16 where "kDebugEnableTtlMs \<equiv> 15000"
abbreviation (input) kNodeQualityReportPeriodMs :: u32 where "kNodeQualityReportPeriodMs \<equiv> 5000"
abbreviation (input) kConfigPollMs :: u32 where "kConfigPollMs \<equiv> 250"
abbreviation (input) kRadioInitRetryMs :: u32 where "kRadioInitRetryMs \<equiv> 5000"
abbreviation (input) kRangeSigmaMm :: u32 where "kRangeSigmaMm \<equiv> 1000"
abbreviation (input) kRangeReportPayloadMax :: nat where "kRangeReportPayloadMax \<equiv> 224"

definition ranging_calibration :: "u16 list list" where
  "ranging_calibration =
     [[10299, 10271, 10244, 10242, 10230, 10246],
      [11486, 11474, 11453, 11426, 11417, 11401],
      [13308, 13493, 13528, 13515, 13430, 13376]]"

section \<open>Time\<close>

definition board_now :: "'w board \<Rightarrow> 'w radio_task \<Rightarrow> u32 \<times> 'w radio_task" where
  "board_now B s = board_call (bd_now B) s"

definition delay_ms :: "'w board \<Rightarrow> u32 \<Rightarrow> 'w radio_task \<Rightarrow> 'w radio_task" where
  "delay_ms B ms s = (let ticks = bd_ms_to_ticks B ms in board_do (bd_delay B (if ticks = 0 then 1 else ticks)) s)"

definition is_valid_node_id :: "u8 \<Rightarrow> bool" where
  "is_valid_node_id node_id \<longleftrightarrow> unat node_id < NAV_MAX_NODES"

definition ranging_address_for :: "u8 \<Rightarrow> u32" where
  "ranging_address_for slave_node_id = 0x4E415600 OR ucast slave_node_id"

definition time_reached :: "u32 \<Rightarrow> u32 \<Rightarrow> bool" where
  "time_reached now deadline \<longleftrightarrow> sint (now - deadline) \<ge> 0"

definition remaining_in_window :: "'w board \<Rightarrow> u32 \<Rightarrow> u32 \<Rightarrow> 'w radio_task \<Rightarrow> u32 \<times> 'w radio_task" where
  "remaining_in_window B started_ms window_ms s = (case board_now B s of (now, s) \<Rightarrow>
     (let elapsed_ms = now - started_ms in (if elapsed_ms \<ge> window_ms then 0 else window_ms - elapsed_ms, s)))"

definition period_due :: "u32 \<Rightarrow> u32 \<Rightarrow> u32 \<Rightarrow> bool" where
  "period_due now last_tx_ms period_ms \<longleftrightarrow> last_tx_ms = 0 \<or> now - last_tx_ms \<ge> period_ms"

section \<open>The slot clock\<close>

definition tdma_absolute_slot :: "nav_tdma \<Rightarrow> nav_tdma_action \<Rightarrow> u32" where
  "tdma_absolute_slot sched action =
     act_frame_index action * of_nat (nav_tdma_slots_per_frame sched) + act_slot_index action"

definition reset_tdma_runtime :: "u8 \<Rightarrow> tdma_runtime option" where
  "reset_tdma_runtime node_id = do {
     let tdma = tdma_runtime_zero\<lparr>rt_local_node_id := node_id,
       rt_schedule := nav_tdma_init node_id NAV_TDMA_FIXED_SLOT_MS\<rparr>;
     (status, sched) \<leftarrow> nav_tdma_set_fixed_field_members (rt_schedule tdma);
     Some (tdma\<lparr>rt_schedule := sched, rt_last_processed_slot := - 1,
       rt_authority_synced := (node_id = NAV_TDMA_AUTHORITY_ID), rt_epoch_local_ms := 0, rt_initialized := True\<rparr>) }"

definition tdma_has_authority_timing :: "tdma_runtime \<Rightarrow> u32 \<Rightarrow> bool" where
  "tdma_has_authority_timing tdma now =
     (if rt_local_node_id tdma = NAV_TDMA_AUTHORITY_ID then True
      else rt_authority_synced tdma \<and> \<not> nav_tdma_authority_expired now (rt_last_authority_heartbeat_ms tdma))"

definition tdma_aligned_now :: "tdma_runtime \<Rightarrow> u32 \<Rightarrow> u32" where
  "tdma_aligned_now tdma now =
     (if rt_local_node_id tdma = NAV_TDMA_AUTHORITY_ID then now else now - rt_epoch_local_ms tdma)"

definition tdma_local_slot_end :: "tdma_runtime \<Rightarrow> nav_tdma_action \<Rightarrow> u32" where
  "tdma_local_slot_end tdma action =
     (if rt_local_node_id tdma = NAV_TDMA_AUTHORITY_ID then act_slot_end_ms action
      else rt_epoch_local_ms tdma + act_slot_end_ms action)"

definition tdma_local_slot_start :: "tdma_runtime \<Rightarrow> nav_tdma_action \<Rightarrow> u32" where
  "tdma_local_slot_start tdma action =
     (if rt_local_node_id tdma = NAV_TDMA_AUTHORITY_ID then act_slot_start_ms action
      else rt_epoch_local_ms tdma + act_slot_start_ms action)"

definition tdma_action_name :: "nav_tdma_action \<Rightarrow> string" where
  "tdma_action_name action = (case act_type action of
     NAV_TDMA_TX_BEACON \<Rightarrow> ''beacon'' | NAV_TDMA_RANGE_PEER \<Rightarrow> ''range'' | NAV_TDMA_LISTEN \<Rightarrow> ''listen'')"

definition tdma_role_name :: "u8 \<Rightarrow> nav_tdma_action \<Rightarrow> string" where
  "tdma_role_name node_id action =
     (if node_id = NAV_TDMA_AUTHORITY_ID \<and> act_type action = NAV_TDMA_TX_BEACON then ''authority''
      else if act_type action = NAV_TDMA_TX_BEACON \<and> act_from_id action = node_id then ''follower''
      else if act_type action = NAV_TDMA_RANGE_PEER \<and> act_from_id action = node_id then ''ranging_master''
      else if act_type action = NAV_TDMA_LISTEN \<and> act_to_id action = node_id then ''ranging_slave''
      else ''listener'')"

definition tdma_sync_state_name :: "tdma_runtime \<Rightarrow> u32 \<Rightarrow> string" where
  "tdma_sync_state_name tdma now =
     (if rt_local_node_id tdma = NAV_TDMA_AUTHORITY_ID then ''authority''
      else if \<not> rt_authority_synced tdma then ''waiting''
      else if nav_tdma_authority_expired now (rt_last_authority_heartbeat_ms tdma) then ''expired''
      else ''synced'')"

definition authority_age_ms :: "tdma_runtime \<Rightarrow> u32 \<Rightarrow> u32" where
  "authority_age_ms tdma now =
     (if rt_local_node_id tdma = NAV_TDMA_AUTHORITY_ID \<or> rt_last_authority_heartbeat_ms tdma = 0 then 0
      else now - rt_last_authority_heartbeat_ms tdma)"

definition log_tdma_slot :: "string \<Rightarrow> nav_tdma_action \<Rightarrow> u32 \<Rightarrow> u32 \<Rightarrow> string \<Rightarrow> 'w radio_task \<Rightarrow> 'w radio_task" where
  "log_tdma_slot event action local_now remaining_ms reason s =
     infof ''TDMA'' [''event='', event, '' local_ms='', pu local_now, '' node_id='', pu (rt_local_node_id (rk_tdma s)),
       '' frame_index='', pu (act_frame_index action), '' slot_index='', pu (act_slot_index action),
       '' slot_ms='', pu NAV_TDMA_FIXED_SLOT_MS, '' remaining_ms='', pu remaining_ms,
       '' action='', tdma_action_name action, '' role='', tdma_role_name (rt_local_node_id (rk_tdma s)) action,
       '' from_id='', pu (act_from_id action), '' to_id='', pu (act_to_id action),
       '' peer_id='', pu (act_peer_id action), '' authority_age_ms='', pu (authority_age_ms (rk_tdma s) local_now),
       '' sync_state='', tdma_sync_state_name (rk_tdma s) local_now, '' reason='', reason] s"

definition log_tdma_authority ::
  "string \<Rightarrow> u32 \<Rightarrow> string \<Rightarrow> nav_tdma_timing_heartbeat option \<Rightarrow> 'w radio_task \<Rightarrow> 'w radio_task" where
  "log_tdma_authority event local_now reason heartbeat s =
     (let h = (case heartbeat of None \<Rightarrow> \<lparr>th_authority_id = 0, th_frame_index = 0, th_slot_index = 0, th_slot_ms = 0,
            th_slot_elapsed_ms = 0\<rparr> | Some h \<Rightarrow> h)
      in infof ''TDMA'' [''event='', event, '' local_ms='', pu local_now,
        '' node_id='', pu (rt_local_node_id (rk_tdma s)), '' frame_index='', pu (th_frame_index h),
        '' slot_index='', pu (th_slot_index h), '' slot_ms='', pu (th_slot_ms h),
        '' slot_elapsed_ms='', pu (th_slot_elapsed_ms h),
        '' authority_age_ms='', pu (authority_age_ms (rk_tdma s) local_now),
        '' sync_state='', tdma_sync_state_name (rk_tdma s) local_now, '' reason='', reason] s)"

section \<open>Pins and waits\<close>

definition read_pin :: "'w board \<Rightarrow> int \<Rightarrow> 'w radio_task \<Rightarrow> int \<times> 'w radio_task" where
  "read_pin B pin s = (if pin < 0 \<or> pin \<ge> bd_gpio_max B then (0, s) else board_call (bd_gpio_get B pin) s)"

definition configure_input_pin :: "'w board \<Rightarrow> int \<Rightarrow> 'w radio_task \<Rightarrow> 'w radio_task" where
  "configure_input_pin B pin s = (if pin < 0 \<or> pin \<ge> bd_gpio_max B then s else board_do (bd_gpio_input B pin) s)"

definition configure_output_pin :: "'w board \<Rightarrow> int \<Rightarrow> int \<Rightarrow> 'w radio_task \<Rightarrow> 'w radio_task" where
  "configure_output_pin B pin level s =
     (if pin < 0 \<or> pin \<ge> bd_gpio_max B then s
      else board_do (bd_gpio_set B pin level) (board_do (bd_gpio_output B pin) s))"

definition pulse_radio_reset :: "'w board \<Rightarrow> u32 \<Rightarrow> 'w radio_task \<Rightarrow> 'w radio_task" where
  "pulse_radio_reset B attempt s =
     (if bd_reset_pin B < 0 \<or> bd_reset_pin B \<ge> bd_gpio_max B then s
      else
        let s = infof ''RADIO'' [''Pulsing SX128x reset before init attempt='', pu attempt,
              '' rst_pin='', fmt_d (bd_reset_pin B)] s;
            s = delay_ms B 2 (configure_output_pin B (bd_reset_pin B) 1 s);
            s = delay_ms B 10 (board_do (bd_gpio_set B (bd_reset_pin B) 0) s)
        in delay_ms B 20 (board_do (bd_gpio_set B (bd_reset_pin B) 1) s))"

text \<open>The loop of \<^verbatim>\<open>waitBusyLow\<close> and \<^verbatim>\<open>waitDio1High\<close>: poll every two milliseconds while the level is \<open>waiting\<close>.\<close>

partial_function (option) wait_pin ::
  "'w board \<Rightarrow> int \<Rightarrow> (int \<Rightarrow> bool) \<Rightarrow> u32 \<Rightarrow> u32 \<Rightarrow> 'w radio_task \<Rightarrow> (bool \<times> 'w radio_task) option" where
  "wait_pin B pin waiting started_ms timeout_ms s = (case read_pin B pin s of (level, s) \<Rightarrow>
     if \<not> waiting level then Some (True, s)
     else (case board_now B s of (now, s) \<Rightarrow>
       if now - started_ms \<ge> timeout_ms then Some (False, s)
       else wait_pin B pin waiting started_ms timeout_ms (delay_ms B 2 s)))"

definition wait_busy_low :: "'w board \<Rightarrow> u32 \<Rightarrow> 'w radio_task \<Rightarrow> (bool \<times> 'w radio_task) option" where
  "wait_busy_low B timeout_ms s = (case board_now B s of (started_ms, s) \<Rightarrow>
     wait_pin B (bd_busy_pin B) (\<lambda>level. level \<noteq> 0) started_ms timeout_ms s)"

definition wait_dio1_high :: "'w board \<Rightarrow> u32 \<Rightarrow> 'w radio_task \<Rightarrow> (bool \<times> 'w radio_task) option" where
  "wait_dio1_high B timeout_ms s = (case board_now B s of (started_ms, s) \<Rightarrow>
     wait_pin B (bd_dio1_pin B) (\<lambda>level. level = 0) started_ms timeout_ms s)"

partial_function (option) delay_until_local_time :: "'w board \<Rightarrow> u32 \<Rightarrow> 'w radio_task \<Rightarrow> ('w radio_task) option" where
  "delay_until_local_time B deadline_ms s = (case board_now B s of (now, s) \<Rightarrow>
     if time_reached now deadline_ms then Some s
     else (case board_now B s of (now, s) \<Rightarrow>
       let remaining_ms = deadline_ms - now in
       delay_until_local_time B deadline_ms (delay_ms B (if remaining_ms < 10 then remaining_ms else 10) s)))"

section \<open>Transmission\<close>

definition transmit_typed_report ::
  "'w board \<Rightarrow> u8 list \<Rightarrow> nat \<Rightarrow> string \<Rightarrow> 'w radio_task \<Rightarrow> (bool \<times> 'w radio_task) option" where
  "transmit_typed_report B payload payload_len kind s =
     (if payload_len = 0 then Some (False, s)
      else do {
        (ready, s) \<leftarrow> wait_busy_low B 50 s;
        if \<not> ready then Some (False, warnf ''RADIO''
          [kind, '' tx=false error='', pd (bd_err_spi_timeout B), '' note=\"BUSY stayed high\"''] s)
        else if length payload < payload_len then None
        else (case board_call (bd_transmit B (take payload_len payload)) s of (state, s) \<Rightarrow>
          if state \<noteq> bd_err_none B then Some (False, warnf ''RADIO'' [kind, '' tx=false error='', pd state] s)
          else Some (True, s)) })"

text \<open>The loop of \<^verbatim>\<open>transmitTypedReportRepeated\<close>: \<open>left\<close> attempts, a gap after each but the last.\<close>

fun transmit_repeats ::
  "'w board \<Rightarrow> u8 list \<Rightarrow> nat \<Rightarrow> string \<Rightarrow> u32 \<Rightarrow> nat \<Rightarrow> nat \<times> 'w radio_task \<Rightarrow> (nat \<times> 'w radio_task) option" where
  "transmit_repeats B payload payload_len kind gap_ms 0 st = Some st"
| "transmit_repeats B payload payload_len kind gap_ms (Suc left) st = (case st of (sent, s) \<Rightarrow> do {
     (ok, s) \<leftarrow> transmit_typed_report B payload payload_len kind s;
     transmit_repeats B payload payload_len kind gap_ms left
       (if ok then sent + 1 else sent, if left = 0 then s else delay_ms B gap_ms s) })"

definition transmit_typed_report_repeated ::
  "'w board \<Rightarrow> u8 list \<Rightarrow> nat \<Rightarrow> string \<Rightarrow> nat \<Rightarrow> u32 \<Rightarrow> 'w radio_task \<Rightarrow> (nat \<times> 'w radio_task) option" where
  "transmit_typed_report_repeated B payload payload_len kind repeats gap_ms s =
     transmit_repeats B payload payload_len kind gap_ms repeats (0, s)"

end
