(* ===== verification/Radio_Report.thy ===== *)
theory Radio_Report
  imports Radio_Link
begin

text \<open>
  \<^verbatim>\<open>src/RadioHealth.cpp\<close>, part two: the text reports of ranging exchanges, the typed frames, and what a
  received packet does. The \<^verbatim>\<open>sscanf\<close> of the reports is a list of conversions over the unread input.
\<close>

section \<open>Names of failure reasons\<close>

fun range_fail_reason_name :: "nav_range_fail_reason \<Rightarrow> string" where
  "range_fail_reason_name NAV_RANGE_FAIL_NONE = ''NONE''"
| "range_fail_reason_name NAV_RANGE_FAIL_TIMEOUT = ''TIMEOUT''"
| "range_fail_reason_name NAV_RANGE_FAIL_NO_RESPONSE = ''NO_RESPONSE''"
| "range_fail_reason_name NAV_RANGE_FAIL_RADIO_BUSY = ''RADIO_BUSY''"
| "range_fail_reason_name NAV_RANGE_FAIL_BAD_FRAME = ''BAD_FRAME''"
| "range_fail_reason_name NAV_RANGE_FAIL_RANGING_ENGINE_ERROR = ''RANGING_ENGINE_ERROR''"
| "range_fail_reason_name NAV_RANGE_FAIL_ABORTED = ''ABORTED''"
| "range_fail_reason_name _ = ''UNKNOWN''"

definition parse_range_fail_reason :: "string \<Rightarrow> nav_range_fail_reason" where
  "parse_range_fail_reason name =
     (if name = ''TIMEOUT'' then NAV_RANGE_FAIL_TIMEOUT
      else if name = ''NO_RESPONSE'' then NAV_RANGE_FAIL_NO_RESPONSE
      else if name = ''RADIO_BUSY'' then NAV_RANGE_FAIL_RADIO_BUSY
      else if name = ''BAD_FRAME'' then NAV_RANGE_FAIL_BAD_FRAME
      else if name = ''RANGING_ENGINE_ERROR'' then NAV_RANGE_FAIL_RANGING_ENGINE_ERROR
      else if name = ''ABORTED'' then NAV_RANGE_FAIL_ABORTED
      else if name = ''NONE'' then NAV_RANGE_FAIL_NONE
      else NAV_RANGE_FAIL_UNKNOWN)"

section \<open>Scanning\<close>

text \<open>A directive of \<^verbatim>\<open>sscanf\<close> gives the unread rest, or \<open>None\<close> when it does not match. White space in the
  format matches any amount of it, every other character itself.\<close>

fun scan_literal :: "string \<Rightarrow> string \<Rightarrow> string option" where
  "scan_literal [] s = Some s"
| "scan_literal (f # fs) s =
     (if isspace f then scan_literal fs (dropWhile isspace s)
      else (case s of [] \<Rightarrow> None | c # r \<Rightarrow> if c = f then scan_literal fs r else None))"

text \<open>\<^verbatim>\<open>%u\<close> and \<^verbatim>\<open>%lu\<close> of the 32-bit firmware: white space, a sign, digits, negated modulo \<open>2 ^ 32\<close> after a
  minus. A value that does not fit is undefined: the outer \<open>None\<close>.\<close>

definition scan_unsigned :: "string \<Rightarrow> (u32 \<times> string) option option" where
  "scan_unsigned s =
     (let (neg, r) = scan_sign (dropWhile isspace s); ds = takeWhile isdigit r; n = digits_value 10 ds
      in if ds = [] then Some None
         else if n \<ge> 2 ^ 32 then None
         else Some (Some (if neg then - of_nat n else of_nat n, dropWhile isdigit r)))"

text \<open>\<^verbatim>\<open>%31s\<close>: white space, then one to 31 other characters.\<close>

definition scan_string :: "nat \<Rightarrow> string \<Rightarrow> (string \<times> string) option" where
  "scan_string width s =
     (let r = dropWhile isspace s; w = take width (takeWhile (\<lambda>c. \<not> isspace c) r)
      in if w = [] then None else Some (w, drop (length w) r))"

text \<open>One pair of a literal and an unsigned conversion.\<close>

definition scan_field :: "string \<Rightarrow> string \<Rightarrow> (u32 \<times> string) option option" where
  "scan_field label s = (case scan_literal label s of None \<Rightarrow> Some None | Some r \<Rightarrow> scan_unsigned r)"

text \<open>The common head of both formats: the three numbers and the rest, inner \<open>None\<close> when one is missing.\<close>

definition scan_report_head :: "string \<Rightarrow> string \<Rightarrow> (u32 \<times> u32 \<times> u32 \<times> string) option option" where
  "scan_report_head label s = do {
     a \<leftarrow> scan_field label s;
     (case a of None \<Rightarrow> Some None | Some (from_id, s) \<Rightarrow> do {
       b \<leftarrow> scan_field '' to='' s;
       (case b of None \<Rightarrow> Some None | Some (to_id, s) \<Rightarrow> do {
         c \<leftarrow> scan_field '' request_id='' s;
         (case c of None \<Rightarrow> Some None | Some (request_id, s) \<Rightarrow> Some (Some (from_id, to_id, request_id, s))) }) }) }"

definition range_record_zero :: nav_serial_range_record where
  "range_record_zero = \<lparr>sr_timestamp_ms = 0, sr_from_id = 0, sr_to_id = 0, sr_request_id = 0, sr_ok = False,
     sr_range_mm = 0, sr_range_sigma_mm = 0, sr_rssi_dbm = 0, sr_snr_db = 0,
     sr_range_fail_reason = NAV_RANGE_FAIL_NONE, sr_source = None\<rparr>"

text \<open>\<^verbatim>\<open>parseLegacyRangeReport\<close>: the record of an accepted report; the inner \<open>None\<close> is the answer \<^verbatim>\<open>false\<close>.\<close>

definition parse_failed_report :: "string \<Rightarrow> u32 \<Rightarrow> i16 \<Rightarrow> i16 \<Rightarrow> nav_serial_range_record option option" where
  "parse_failed_report s timestamp_ms rssi_dbm snr_db = do {
     head \<leftarrow> scan_report_head ''range_result ok=false from='' s;
     Some (case head of None \<Rightarrow> None
       | Some (from_id, to_id, request_id, r) \<Rightarrow>
         (case Option.bind (scan_literal '' range_fail_reason='' r) (scan_string 31) of None \<Rightarrow> None
          | Some (reason, r) \<Rightarrow>
            if unat from_id < NAV_MAX_NODES \<and> unat to_id < NAV_MAX_NODES \<and> request_id \<le> 65535
            then Some (range_record_zero\<lparr>sr_timestamp_ms := timestamp_ms, sr_from_id := ucast from_id,
              sr_to_id := ucast to_id, sr_request_id := ucast request_id, sr_ok := False, sr_rssi_dbm := rssi_dbm,
              sr_snr_db := snr_db, sr_range_fail_reason := parse_range_fail_reason reason,
              sr_source := Some ''air_report''\<rparr>)
            else None)) }"

definition parse_legacy_range_report ::
  "string option \<Rightarrow> u32 \<Rightarrow> i16 \<Rightarrow> i16 \<Rightarrow> nav_serial_range_record option option" where
  "parse_legacy_range_report text_in timestamp_ms rssi_dbm snr_db = (case text_in of None \<Rightarrow> Some None
   | Some s \<Rightarrow> do {
       head \<leftarrow> scan_report_head ''range_result ok=true from='' s;
       (case head of None \<Rightarrow> parse_failed_report s timestamp_ms rssi_dbm snr_db
        | Some (from_id, to_id, request_id, r) \<Rightarrow> do {
            last_field \<leftarrow> scan_field '' range_mm='' r;
            (case last_field of None \<Rightarrow> parse_failed_report s timestamp_ms rssi_dbm snr_db
             | Some (range_mm, r) \<Rightarrow> Some (
                if unat from_id < NAV_MAX_NODES \<and> unat to_id < NAV_MAX_NODES \<and> request_id \<le> 65535
                then Some (range_record_zero\<lparr>sr_timestamp_ms := timestamp_ms, sr_from_id := ucast from_id,
                  sr_to_id := ucast to_id, sr_request_id := ucast request_id, sr_ok := True, sr_range_mm := range_mm,
                  sr_range_sigma_mm := kRangeSigmaMm, sr_rssi_dbm := rssi_dbm, sr_snr_db := snr_db,
                  sr_source := Some ''air_report''\<rparr>)
                else None)) }) })"

definition sanitize_report_text :: "string \<Rightarrow> string" where
  "sanitize_report_text s = map (\<lambda>c. if code c < 32 \<or> code c > 126 then CHR '' '' else c) s"

section \<open>Calls of the control channel\<close>

definition inject_event :: "'w board \<Rightarrow> nav_event \<Rightarrow> 'w radio_task \<Rightarrow> (bool \<times> 'w radio_task) option" where
  "inject_event B e s = do {
     let s = others_run B s;
     (ok, lines, st) \<leftarrow> control_handle_event (bd_libm B) (bd_line_junk B) (Some e) (rk_control s);
     Some (ok, s\<lparr>rk_control := st, rk_lines := rk_lines s @ lines\<rparr>) }"

definition air_report_event :: "u8 \<Rightarrow> nav_serial_range_record \<Rightarrow> nav_event" where
  "air_report_event peer_id r = \<lparr>ev_timestamp_ms = sr_timestamp_ms r, ev_data =
     (if sr_ok r then NAV_EVT_RANGE_RESULT \<lparr>rr_peer_id = peer_id, rr_request_id = sr_request_id r,
        rr_timestamp_ms = sr_timestamp_ms r, rr_range_mm = sr_range_mm r, rr_range_sigma_mm = sr_range_sigma_mm r,
        rr_rssi_dbm = sr_rssi_dbm r, rr_snr_db = sr_snr_db r, rr_valid = True\<rparr>
      else NAV_EVT_RANGE_FAIL \<lparr>rf_peer_id = peer_id, rf_request_id = sr_request_id r,
        rf_timestamp_ms = sr_timestamp_ms r,
        rf_reason = (if sr_range_fail_reason r = NAV_RANGE_FAIL_NONE then NAV_RANGE_FAIL_UNKNOWN
          else sr_range_fail_reason r)\<rparr>)\<rparr>"

definition ingest_local_endpoint_air_report ::
  "'w board \<Rightarrow> nav_serial_range_record \<Rightarrow> 'w radio_task \<Rightarrow> ('w radio_task) option" where
  "ingest_local_endpoint_air_report B r s =
     (let s = others_run B s; node_id = nc_node_id (ct_config (rk_control s)) in
      if sr_from_id r \<noteq> node_id \<and> sr_to_id r \<noteq> node_id then Some s
      else
        let peer_id = (if sr_from_id r = node_id then sr_to_id r else sr_from_id r) in
        if peer_id = node_id \<or> \<not> is_valid_node_id peer_id then Some s
        else map_option snd (inject_event B (air_report_event peer_id r) s))"

text \<open>\<^verbatim>\<open>broadcastRangeReport\<close>: the text with its mark, at most 224 bytes, three times.\<close>

fun report_attempts :: "'w board \<Rightarrow> u8 list \<Rightarrow> nat \<Rightarrow> 'w radio_task \<Rightarrow> ('w radio_task) option" where
  "report_attempts B payload 0 s = Some s"
| "report_attempts B payload (Suc left) s = do {
     (ready, s) \<leftarrow> wait_busy_low B 100 s;
     if \<not> ready then Some (warnf ''RANGE''
       [''range_report tx=false error='', pd (bd_err_spi_timeout B), '' note=\"BUSY stayed high\"''] s)
     else (case board_call (bd_transmit B payload) s of (state, s) \<Rightarrow>
       if state \<noteq> bd_err_none B then Some (warnf ''RANGE''
         [''range_report tx=false error='', pd state, '' attempt='', fmt_u (kReportTxRepeats - left)] s)
       else report_attempts B payload left (if left = 0 then s else delay_ms B kReportTxGapMs s)) }"

definition broadcast_range_report :: "'w board \<Rightarrow> string \<Rightarrow> 'w radio_task \<Rightarrow> ('w radio_task) option" where
  "broadcast_range_report B range_result_text s =
     (if range_result_text = [] then Some s
      else let payload = ''NRR1 '' @ range_result_text in
        if length payload \<ge> kRangeReportPayloadMax + 1
        then Some (warnf ''RANGE'' [''range_report tx=false note=\"payload too long\"''] s)
        else report_attempts B (map (\<lambda>c. of_nat (code c)) payload) kReportTxRepeats s)"

section \<open>Typed frames\<close>

definition debug_telemetry_remote_active :: "debug_telemetry \<Rightarrow> u32 \<Rightarrow> bool" where
  "debug_telemetry_remote_active d now \<longleftrightarrow>
     dt_remote_active_until_ms d \<noteq> 0 \<and> \<not> time_reached now (dt_remote_active_until_ms d)"

fun nav_status_code :: "nav_status \<Rightarrow> int" where
  "nav_status_code NAV_STATUS_OK = 0"
| "nav_status_code NAV_STATUS_INVALID_ARGUMENT = - 1"
| "nav_status_code NAV_STATUS_NOT_FOUND = - 2"
| "nav_status_code NAV_STATUS_NO_SPACE = - 3"
| "nav_status_code NAV_STATUS_BAD_FRAME = - 4"
| "nav_status_code NAV_STATUS_NOT_IMPLEMENTED = - 5"
| "nav_status_code NAV_STATUS_INTERNAL_ERROR = - 6"

definition debug_enable_zero :: nav_debug_enable where
  "debug_enable_zero = \<lparr>de_origin_node_id = 0, de_ttl_ms = 0\<rparr>"

definition heartbeat_zero :: nav_radio_heartbeat_payload where
  "heartbeat_zero = \<lparr>hb_node_id = 0, hb_uptime_ms = 0, hb_status_flags = 0, hb_tdma_frame_index = 0,
     hb_tdma_slot_index = 0, hb_tdma_slot_ms = 0, hb_tdma_slot_elapsed_ms = 0\<rparr>"

definition handle_debug_enable_frame :: "'w board \<Rightarrow> nav_radio_frame \<Rightarrow> u8 \<Rightarrow> 'w radio_task \<Rightarrow> ('w radio_task) option" where
  "handle_debug_enable_frame B frame node_id s = do {
     (status, debug) \<leftarrow> nav_telemetry_decode_debug_enable (Some frame) debug_enable_zero;
     if status \<noteq> NAV_STATUS_OK
     then Some (warnf ''RADIO'' [''debug_enable rx=false status='', fmt_d (nav_status_code status)] s)
     else (case board_now B s of (now, s) \<Rightarrow>
       let was_active = debug_telemetry_remote_active (rk_debug s) now;
           s = s\<lparr>rk_debug := (rk_debug s)\<lparr>dt_remote_active_until_ms := now + ucast (de_ttl_ms debug),
                 dt_last_node_quality_tx_ms := 0, dt_remote_was_active := True\<rparr>\<rparr>
       in Some (if \<not> was_active then infof ''RADIO''
           [''debug_telemetry active=true origin='', pu (de_origin_node_id debug), '' heard_by='', pu node_id,
            '' ttl_ms='', pu (de_ttl_ms debug)] s
         else s)) }"

definition handle_node_quality_frame :: "'w board \<Rightarrow> nav_radio_frame \<Rightarrow> u8 \<Rightarrow> 'w radio_task \<Rightarrow> ('w radio_task) option" where
  "handle_node_quality_frame B frame node_id s = do {
     (status, report) \<leftarrow> nav_telemetry_decode_node_quality_report (Some frame) quality_report_zero;
     if status \<noteq> NAV_STATUS_OK
     then Some (warnf ''RADIO'' [''node_quality rx=false status='', fmt_d (nav_status_code status)] s)
     else (case board_now B s of (now, s) \<Rightarrow> do {
       let s = others_run B s;
       (ok, st) \<leftarrow> handle_node_quality_report (Some report) now (rk_control s);
       let s = s\<lparr>rk_control := st\<rparr>;
       Some (if \<not> ok then warnf ''RADIO'' [''node_quality rx=false node='', pu (qr_node_id report), '' heard_by='',
             pu node_id, '' note=\"buffer rejected\"''] s
         else debugf ''RADIO'' [''node_quality rx=true node='', pu (qr_node_id report), '' heard_by='', pu node_id,
             '' packet_seq='', pu (qr_packet_seq report)] s) }) }"

definition heartbeat_timing :: "nav_radio_heartbeat_payload \<Rightarrow> nav_tdma_timing_heartbeat" where
  "heartbeat_timing h = \<lparr>th_authority_id = hb_node_id h, th_frame_index = hb_tdma_frame_index h,
     th_slot_index = ucast (hb_tdma_slot_index h), th_slot_ms = hb_tdma_slot_ms h,
     th_slot_elapsed_ms = hb_tdma_slot_elapsed_ms h\<rparr>"

definition authority_time_ms :: "nav_tdma \<Rightarrow> nav_tdma_timing_heartbeat \<Rightarrow> u32" where
  "authority_time_ms sched t =
     (let absolute_slot = th_frame_index t * of_nat (nav_tdma_slots_per_frame sched) + th_slot_index t
      in absolute_slot * ucast (th_slot_ms t) + ucast (th_slot_elapsed_ms t) + kTdmaHeartbeatRxCompensationMs)"

definition handle_heartbeat_frame :: "'w board \<Rightarrow> nav_radio_frame \<Rightarrow> u8 \<Rightarrow> 'w radio_task \<Rightarrow> ('w radio_task) option" where
  "handle_heartbeat_frame B frame node_id s =
     (if node_id = NAV_TDMA_AUTHORITY_ID then Some s
      else do {
        (status, heartbeat) \<leftarrow> nav_telemetry_decode_heartbeat (Some frame) heartbeat_zero;
        if status \<noteq> NAV_STATUS_OK
        then Some (warnf ''TDMA'' [''event=authority_sync node_id='', pu node_id, '' ok=false reason=bad_frame status='',
          fmt_d (nav_status_code status)] s)
        else (case board_now B s of (now, s) \<Rightarrow> do {
          let timing = heartbeat_timing heartbeat;
          valid \<leftarrow> nav_tdma_validate_timing_heartbeat (rt_schedule (rk_tdma s)) (Some timing);
          if valid \<noteq> NAV_STATUS_OK
          then Some (log_tdma_authority ''authority_mismatch'' now ''tdma_config_mismatch'' (Some timing) s)
          else do {
            let t = rk_tdma s;
            let s = s\<lparr>rk_tdma := t\<lparr>rt_epoch_local_ms := now - authority_time_ms (rt_schedule t) timing,
              rt_last_authority_heartbeat_ms := now, rt_authority_synced := True, rt_waiting_logged := False\<rparr>\<rparr>;
            Some (log_tdma_authority ''authority_sync'' now ''ok'' (Some timing) s) } }) })"

definition handle_beacon_frame ::
  "'w board \<Rightarrow> u8 list \<Rightarrow> nat \<Rightarrow> u8 \<Rightarrow> i16 \<Rightarrow> i16 \<Rightarrow> 'w radio_task \<Rightarrow> ('w radio_task) option" where
  "handle_beacon_frame B payload payload_len node_id rssi_dbm snr_db s = (case board_now B s of (now, s) \<Rightarrow> do {
     (status, event) \<leftarrow> nav_telemetry_decode_event (Some payload) payload_len now rssi_dbm snr_db nav_event_zero;
     (case ev_data event of
        NAV_EVT_PEER_TELEMETRY_RX rx \<Rightarrow>
          let telemetry = br_telemetry rx; peer_id = pt_node_id telemetry in
          if status \<noteq> NAV_STATUS_OK
          then Some (warnf ''RADIO'' [''beacon rx=false status='', fmt_d (nav_status_code status)] s)
          else if peer_id = node_id then Some s
          else do {
            (ok, s) \<leftarrow> inject_event B event s;
            Some (if \<not> ok then warnf ''RADIO'' [''beacon rx=false peer='', pu peer_id, '' note=\"core rejected\"''] s
              else debugf ''RADIO'' [''beacon rx=true peer='', pu peer_id, '' heard_by='', pu node_id,
                '' packet_seq='', pu (pt_packet_seq telemetry), '' gnss='', (if pt_gnss_valid telemetry then ''1'' else ''0'')] s) }
      | _ \<Rightarrow> Some (warnf ''RADIO'' [''beacon rx=false status='', fmt_d (nav_status_code status)] s)) })"

definition dispatch_typed_report ::
  "'w board \<Rightarrow> u8 list \<Rightarrow> nat \<Rightarrow> u8 \<Rightarrow> i16 \<Rightarrow> i16 \<Rightarrow> 'w radio_task \<Rightarrow> ('w radio_task) option" where
  "dispatch_typed_report B payload payload_len node_id rssi_dbm snr_db s = do {
     (status, frame) \<leftarrow> nav_radio_decode_frame (Some payload) payload_len frame_local;
     if status \<noteq> NAV_STATUS_OK then Some s
     else (case fr_type frame of
         NAV_RADIO_MSG_BEACON_RX \<Rightarrow> handle_beacon_frame B payload payload_len node_id rssi_dbm snr_db s
       | NAV_RADIO_MSG_HEARTBEAT \<Rightarrow> handle_heartbeat_frame B frame node_id s
       | NAV_RADIO_MSG_DEBUG_ENABLE \<Rightarrow> handle_debug_enable_frame B frame node_id s
       | NAV_RADIO_MSG_NODE_QUALITY_REPORT \<Rightarrow> handle_node_quality_frame B frame node_id s
       | t \<Rightarrow> Some (debugf ''RADIO'' [''best_effort rx=true type='', nav_radio_message_type_to_string t,
           '' note=\"ignored\"''] s)) }"

section \<open>Reception\<close>

text \<open>\<^verbatim>\<open>(int16_t)lround(x)\<close>: undefined when the rounded value does not fit the 32-bit \<^verbatim>\<open>long\<close>.\<close>

definition lround :: "fp \<Rightarrow> int option" where
  "lround x = (case fp_llround x of None \<Rightarrow> None | Some n \<Rightarrow> if - (2 ^ 31) \<le> n \<and> n < 2 ^ 31 then Some n else None)"

definition lround_i16 :: "fp \<Rightarrow> i16 option" where
  "lround_i16 x = map_option word_of_int (lround x)"

definition report_mark :: "u8 list" where
  "report_mark = [0x4E, 0x52, 0x52, 0x31, 0x20]"

definition receive_air_report :: "'w board \<Rightarrow> u8 list \<Rightarrow> u8 \<Rightarrow> 'w radio_task \<Rightarrow> ('w radio_task) option" where
  "receive_air_report B payload node_id s = do {
     let received = takeWhile (\<lambda>c. c \<noteq> NUL) (map (\<lambda>b. char_of (unat b)) payload);
     let report = drop 5 (sanitize_report_text received);
     let (report_rssi, s) = board_call (bd_rssi B) s;
     let (report_snr, s) = board_call (bd_snr B) s;
     let s = infof ''RANGE'' [report, '' source=air_report heard_by='', pu node_id, '' report_rssi_dbm='',
       fmt_f 1 report_rssi, '' report_snr_db='', fmt_f 1 report_snr] s;
     let (now, s) = board_now B s;
     rssi_dbm \<leftarrow> lround_i16 report_rssi;
     snr_db \<leftarrow> lround_i16 report_snr;
     parsed \<leftarrow> parse_legacy_range_report (Some report) now rssi_dbm snr_db;
     (case parsed of None \<Rightarrow> Some s
      | Some r \<Rightarrow> do {
          (sent, lines) \<leftarrow> emit_range_record (bd_line_junk B) (Some r);
          ingest_local_endpoint_air_report B r (s\<lparr>rk_lines := rk_lines s @ lines\<rparr>) }) }"

definition receive_typed_frame :: "'w board \<Rightarrow> u8 list \<Rightarrow> nat \<Rightarrow> u8 \<Rightarrow> 'w radio_task \<Rightarrow> ('w radio_task) option" where
  "receive_typed_frame B payload read_len node_id s = do {
     let (rssi, s) = board_call (bd_rssi B) s;
     rssi_dbm \<leftarrow> lround_i16 rssi;
     let (snr, s) = board_call (bd_snr B) s;
     snr_db \<leftarrow> lround_i16 snr;
     dispatch_typed_report B payload read_len node_id rssi_dbm snr_db s }"

text \<open>The packet in the zeroed local array of 224 bytes: the driver writes at most \<open>read_len\<close> bytes of it.\<close>

definition received_payload :: "u8 list \<Rightarrow> nat \<Rightarrow> u8 list" where
  "received_payload bytes read_len =
     take read_len bytes @ replicate (kRangeReportPayloadMax - length (take read_len bytes)) 0"

definition service_report_rx :: "'w board \<Rightarrow> u8 \<Rightarrow> u32 \<Rightarrow> 'w radio_task \<Rightarrow> ('w radio_task) option" where
  "service_report_rx B node_id window_ms s =
     (if window_ms < 5 then Some s
      else do {
        (ready, s) \<leftarrow> wait_busy_low B 100 s;
        if \<not> ready then Some s
        else do {
          let (state, s) = board_call (bd_start_receive B) (board_do (bd_clear_irq B) s);
          if state \<noteq> bd_err_none B then Some s
          else do {
            (arrived, s) \<leftarrow> wait_dio1_high B window_ms s;
            if \<not> arrived then Some (board_do (bd_finish_receive B) s)
            else do {
              let (packet_len, s) = board_call (bd_packet_length B) s;
              let read_len = (if packet_len < kRangeReportPayloadMax then packet_len else kRangeReportPayloadMax);
              let ((state, bytes), s) = board_call (bd_read_data B read_len) s;
              let payload = received_payload bytes read_len;
              if state \<noteq> bd_err_none B then Some s
              else if read_len \<ge> 5 \<and> take 5 payload = report_mark
              then receive_air_report B (take read_len payload) node_id s
              else receive_typed_frame B payload read_len node_id s } } } })"

end
