(* ===== verification/Radio_Slot.thy ===== *)
theory Radio_Slot
  imports Radio_Report
begin

text \<open>
  \<^verbatim>\<open>src/RadioHealth.cpp\<close>, part three: what the task sends, one ranging exchange from either side, listening,
  the service of one slot and the loop of the task.
\<close>

section \<open>Broadcasts\<close>

abbreviation (input) frame_buffer :: "'w board \<Rightarrow> u8 list" where
  "frame_buffer B \<equiv> stack_bytes (bd_frame_junk B) NAV_RADIO_MAX_FRAME_BYTES"

definition bool_text :: "bool \<Rightarrow> string" where
  "bool_text b = (if b then ''true'' else ''false'')"

definition broadcast_telemetry_beacon :: "'w board \<Rightarrow> u32 \<Rightarrow> 'w radio_task \<Rightarrow> (bool \<times> 'w radio_task) option" where
  "broadcast_telemetry_beacon B now s = do {
     let s = s\<lparr>rk_debug := (rk_debug s)\<lparr>dt_last_beacon_tx_ms := now\<rparr>\<rparr>;
     let packet_seq = dt_beacon_packet_seq (rk_debug s) + 1;
     let s = others_run B s;
     let (read_ms, s) = board_now B s;
     (case get_local_telemetry (bd_gnss_built B) packet_seq read_ms (Some (rk_control s)) of
        None \<Rightarrow> Some (False, s)
      | Some telemetry \<Rightarrow> do {
          let frame_seq = dt_tx_frame_seq (rk_debug s) + 1;
          let s = s\<lparr>rk_debug := (rk_debug s)\<lparr>dt_beacon_packet_seq := packet_seq, dt_tx_frame_seq := frame_seq\<rparr>\<rparr>;
          (status, frame, frame_len) \<leftarrow> nav_telemetry_encode_beacon (bd_payload_junk B) (Some telemetry) frame_seq
            (frame_buffer B) NAV_RADIO_MAX_FRAME_BYTES 0;
          if status \<noteq> NAV_STATUS_OK
          then Some (False, warnf ''RADIO'' [''beacon tx=false status='', fmt_d (nav_status_code status)] s)
          else do {
            (sent, s) \<leftarrow> transmit_typed_report_repeated B frame frame_len ''beacon'' kTelemetryBeaconRepeats
              kTelemetryBeaconRepeatGapMs s;
            Some (sent > 0, infof ''RADIO'' [''beacon tx='', bool_text (sent > 0), '' packet_seq='', pu packet_seq,
              '' repeats='', fmt_u kTelemetryBeaconRepeats, '' sent='', fmt_u sent] s) } }) }"

text \<open>The payload of the timing heartbeat at time \<open>now\<close> in the slot of \<open>action\<close>.\<close>

definition timing_heartbeat :: "tdma_runtime \<Rightarrow> nav_tdma_action \<Rightarrow> u32 \<Rightarrow> nav_radio_heartbeat_payload" where
  "timing_heartbeat tdma action now =
     (let elapsed_ms = now - tdma_local_slot_start tdma action in
      \<lparr>hb_node_id = rt_local_node_id tdma, hb_uptime_ms = now, hb_status_flags = 0,
       hb_tdma_frame_index = act_frame_index action, hb_tdma_slot_index = ucast (act_slot_index action),
       hb_tdma_slot_ms = ucast NAV_TDMA_FIXED_SLOT_MS,
       hb_tdma_slot_elapsed_ms = ucast (if elapsed_ms < NAV_TDMA_FIXED_SLOT_MS then elapsed_ms
         else NAV_TDMA_FIXED_SLOT_MS - 1)\<rparr>)"

definition broadcast_timing_heartbeat :: "'w board \<Rightarrow> nav_tdma_action \<Rightarrow> 'w radio_task \<Rightarrow> (bool \<times> 'w radio_task) option" where
  "broadcast_timing_heartbeat B action s =
     (if rt_local_node_id (rk_tdma s) \<noteq> NAV_TDMA_AUTHORITY_ID then Some (False, s)
      else do {
        let (now, s) = board_now B s;
        let heartbeat = timing_heartbeat (rk_tdma s) action now;
        let frame_seq = rt_tx_frame_seq (rk_tdma s) + 1;
        let s = s\<lparr>rk_tdma := (rk_tdma s)\<lparr>rt_tx_frame_seq := frame_seq\<rparr>\<rparr>;
        (status, frame, frame_len) \<leftarrow> nav_telemetry_encode_heartbeat (bd_payload_junk B) (Some heartbeat) frame_seq
          (frame_buffer B) NAV_RADIO_MAX_FRAME_BYTES 0;
        if status \<noteq> NAV_STATUS_OK
        then Some (False, warnf ''TDMA'' [''event=authority_heartbeat_tx node_id='', pu (rt_local_node_id (rk_tdma s)),
          '' ok=false status='', fmt_d (nav_status_code status)] s)
        else do {
          (ok, s) \<leftarrow> transmit_typed_report B frame frame_len ''heartbeat'' s;
          Some (ok, infof ''TDMA'' [''event=authority_heartbeat_tx node_id='', pu (rt_local_node_id (rk_tdma s)),
            '' ok='', (if ok then ''1'' else ''0''), '' frame_index='', pu (act_frame_index action),
            '' slot_index='', pu (act_slot_index action), '' slot_ms='', pu NAV_TDMA_FIXED_SLOT_MS,
            '' slot_elapsed_ms='', pu (hb_tdma_slot_elapsed_ms heartbeat)] s) } })"

definition broadcast_debug_enable :: "'w board \<Rightarrow> u8 \<Rightarrow> 'w radio_task \<Rightarrow> ('w radio_task) option" where
  "broadcast_debug_enable B node_id s = do {
     let frame_seq = dt_tx_frame_seq (rk_debug s) + 1;
     let s = s\<lparr>rk_debug := (rk_debug s)\<lparr>dt_tx_frame_seq := frame_seq\<rparr>\<rparr>;
     (status, frame, frame_len) \<leftarrow> nav_telemetry_encode_debug_enable (bd_payload_junk B)
       (Some \<lparr>de_origin_node_id = node_id, de_ttl_ms = kDebugEnableTtlMs\<rparr>) frame_seq
       (frame_buffer B) NAV_RADIO_MAX_FRAME_BYTES 0;
     if status \<noteq> NAV_STATUS_OK
     then Some (warnf ''RADIO'' [''debug_enable tx=false status='', fmt_d (nav_status_code status)] s)
     else map_option snd (transmit_typed_report B frame frame_len ''debug_enable'' s) }"

definition broadcast_node_quality_report :: "'w board \<Rightarrow> 'w radio_task \<Rightarrow> ('w radio_task) option" where
  "broadcast_node_quality_report B s = do {
     let packet_seq = dt_node_quality_packet_seq (rk_debug s) + 1;
     let s = others_run B (s\<lparr>rk_debug := (rk_debug s)\<lparr>dt_node_quality_packet_seq := packet_seq\<rparr>\<rparr>);
     answer \<leftarrow> get_local_node_quality_report packet_seq (Some (rk_control s));
     (case answer of None \<Rightarrow> Some s
      | Some report \<Rightarrow> do {
          let frame_seq = dt_tx_frame_seq (rk_debug s) + 1;
          let s = s\<lparr>rk_debug := (rk_debug s)\<lparr>dt_tx_frame_seq := frame_seq\<rparr>\<rparr>;
          (status, frame, frame_len) \<leftarrow> nav_telemetry_encode_node_quality_report (bd_payload_junk B) (Some report)
            frame_seq (frame_buffer B) NAV_RADIO_MAX_FRAME_BYTES 0;
          if status \<noteq> NAV_STATUS_OK
          then Some (warnf ''RADIO'' [''node_quality tx=false status='', fmt_d (nav_status_code status)] s)
          else map_option snd (transmit_typed_report B frame frame_len ''node_quality'' s) }) }"

definition service_debug_telemetry_tx :: "'w board \<Rightarrow> u8 \<Rightarrow> u32 \<Rightarrow> 'w radio_task \<Rightarrow> ('w radio_task) option" where
  "service_debug_telemetry_tx B node_id remaining_ms s =
     (if remaining_ms < kBestEffortTxGuardMs + kSlaveListenSliceMs then Some s
      else
        let (now, s) = board_now B s; s = others_run B s in
        if is_debug_enabled (Some (rk_control s)) \<and>
           period_due now (dt_last_debug_enable_tx_ms (rk_debug s)) kDebugEnablePeriodMs
        then broadcast_debug_enable B node_id (s\<lparr>rk_debug := (rk_debug s)\<lparr>dt_last_debug_enable_tx_ms := now\<rparr>\<rparr>)
        else if \<not> debug_telemetry_remote_active (rk_debug s) now then
          Some (if dt_remote_was_active (rk_debug s)
            then infof ''RADIO'' [''debug_telemetry active=false note=\"ttl expired\"'']
              (s\<lparr>rk_debug := (rk_debug s)\<lparr>dt_remote_was_active := False\<rparr>\<rparr>)
            else s)
        else
          let s = s\<lparr>rk_debug := (rk_debug s)\<lparr>dt_remote_was_active := True\<rparr>\<rparr> in
          if period_due now (dt_last_node_quality_tx_ms (rk_debug s)) kNodeQualityReportPeriodMs
          then broadcast_node_quality_report B (s\<lparr>rk_debug := (rk_debug s)\<lparr>dt_last_node_quality_tx_ms := now\<rparr>\<rparr>)
          else Some s)"

section \<open>Results of an exchange\<close>

definition publish_status :: "health_state \<Rightarrow> 'w radio_task \<Rightarrow> 'w radio_task" where
  "publish_status h s = (let st = (rk_status s)\<lparr>rh_state := h\<rparr> in s\<lparr>rk_status := st, rk_published := st\<rparr>)"

definition range_result_event :: "u32 \<Rightarrow> u8 \<Rightarrow> u16 \<Rightarrow> u32 \<Rightarrow> i16 \<Rightarrow> i16 \<Rightarrow> bool \<Rightarrow> nav_event" where
  "range_result_event now peer_id request_id range_mm rssi_dbm snr_db valid =
     \<lparr>ev_timestamp_ms = now, ev_data = NAV_EVT_RANGE_RESULT \<lparr>rr_peer_id = peer_id, rr_request_id = request_id,
       rr_timestamp_ms = now, rr_range_mm = range_mm, rr_range_sigma_mm = kRangeSigmaMm, rr_rssi_dbm = rssi_dbm,
       rr_snr_db = snr_db, rr_valid = valid\<rparr>\<rparr>"

definition range_fail_event :: "u32 \<Rightarrow> u8 \<Rightarrow> u16 \<Rightarrow> nav_range_fail_reason \<Rightarrow> nav_event" where
  "range_fail_event now peer_id request_id reason =
     \<lparr>ev_timestamp_ms = now, ev_data = NAV_EVT_RANGE_FAIL \<lparr>rf_peer_id = peer_id, rf_request_id = request_id,
       rf_timestamp_ms = now, rf_reason = reason\<rparr>\<rparr>"

definition inject_range_result ::
  "'w board \<Rightarrow> u8 \<Rightarrow> u16 \<Rightarrow> u32 \<Rightarrow> i16 \<Rightarrow> i16 \<Rightarrow> bool \<Rightarrow> 'w radio_task \<Rightarrow> ('w radio_task) option" where
  "inject_range_result B peer_id request_id range_mm rssi_dbm snr_db valid s = (case board_now B s of (now, s) \<Rightarrow>
     map_option snd (inject_event B (range_result_event now peer_id request_id range_mm rssi_dbm snr_db valid) s))"

definition inject_range_fail ::
  "'w board \<Rightarrow> u8 \<Rightarrow> u16 \<Rightarrow> nav_range_fail_reason \<Rightarrow> 'w radio_task \<Rightarrow> ('w radio_task) option" where
  "inject_range_fail B peer_id request_id reason s = (case board_now B s of (now, s) \<Rightarrow>
     map_option snd (inject_event B (range_fail_event now peer_id request_id reason) s))"

section \<open>The names of the interrupt flags\<close>

fun irq_flag_name :: "irq_flag \<Rightarrow> string" where
  "irq_flag_name SLAVE_REQ_VALID = ''slave_req_valid''"
| "irq_flag_name MASTER_TIMEOUT = ''master_timeout''"
| "irq_flag_name MASTER_RES_VALID = ''master_result_valid''"
| "irq_flag_name SLAVE_REQ_DISCARD = ''slave_req_discard''"
| "irq_flag_name SLAVE_RESP_DONE = ''slave_response_done''"
| "irq_flag_name RX_TX_TIMEOUT = ''rx_tx_timeout''"

text \<open>\<^verbatim>\<open>strncat\<close> keeps the text below the size of the buffer.\<close>

definition strncat :: "nat \<Rightarrow> string \<Rightarrow> string \<Rightarrow> string" where
  "strncat cap buffer s = buffer @ take (cap - length buffer - 1) s"

definition append_flag :: "nat \<Rightarrow> string \<Rightarrow> string \<Rightarrow> string" where
  "append_flag cap flag buffer =
     (if length buffer + 2 \<ge> cap then buffer
      else strncat cap (if length buffer > 0 then strncat cap buffer '' '' else buffer) flag)"

definition log_irq_flags :: "'w board \<Rightarrow> u16 \<Rightarrow> nat \<Rightarrow> string" where
  "log_irq_flags B irq cap = fold (\<lambda>f buffer.
       if irq AND bd_irq_mask B f \<noteq> 0 then append_flag cap (irq_flag_name f) buffer else buffer)
     [SLAVE_REQ_VALID, MASTER_TIMEOUT, MASTER_RES_VALID, SLAVE_REQ_DISCARD, SLAVE_RESP_DONE, RX_TX_TIMEOUT] []"

text \<open>\<^verbatim>\<open>0x%04X\<close> and \<^verbatim>\<open>0x%08lX\<close>.\<close>

definition hex_upper :: "nat \<Rightarrow> char" where
  "hex_upper n = (if n < 10 then char_of (48 + n) else char_of (55 + n))"

definition fmt_x :: "nat \<Rightarrow> nat \<Rightarrow> string" where
  "fmt_x k n = ''0x'' @ map (\<lambda>i. hex_upper (n div 16 ^ i mod 16)) (rev [0..<k])"

section \<open>The ranging master\<close>

text \<open>The common part of the log line and the report on the air of a failed, an invalid and a good exchange.\<close>

definition failure_report :: "u8 \<Rightarrow> u8 \<Rightarrow> u16 \<Rightarrow> nav_range_fail_reason \<Rightarrow> u32 \<Rightarrow> i16 \<Rightarrow> string list" where
  "failure_report master_id peer_id request_id reason elapsed_ms error_code =
     [''range_result ok=false from='', pu master_id, '' to='', pu peer_id,
      '' request_id='', pu request_id, '' range_fail_reason='', range_fail_reason_name reason,
      '' elapsed_ms='', pu elapsed_ms, '' error='', pd error_code]"

definition invalid_report :: "u8 \<Rightarrow> u8 \<Rightarrow> u16 \<Rightarrow> i32 \<Rightarrow> fp \<Rightarrow> u32 \<Rightarrow> string list" where
  "invalid_report master_id peer_id request_id raw_reg range_m elapsed_ms =
     [''range_result ok=false from='', pu master_id, '' to='', pu peer_id, '' request_id='', pu request_id,
      '' range_fail_reason='', range_fail_reason_name NAV_RANGE_FAIL_RANGING_ENGINE_ERROR,
      '' raw_reg='', pd raw_reg, '' uncorrected_m='', fmt_f 2 range_m, '' elapsed_ms='', pu elapsed_ms]"

definition success_report :: "u8 \<Rightarrow> u8 \<Rightarrow> u16 \<Rightarrow> u32 \<Rightarrow> fp \<Rightarrow> i32 \<Rightarrow> fp \<Rightarrow> fp \<Rightarrow> u32 \<Rightarrow> string list" where
  "success_report master_id peer_id request_id range_mm range_m raw_reg rssi snr elapsed_ms =
     [''range_result ok=true from='', pu master_id, '' to='', pu peer_id, '' request_id='', pu request_id,
      '' range_mm='', pu range_mm, '' uncorrected_m='', fmt_f 2 range_m, '' raw_reg='', pd raw_reg,
      '' rssi_dbm='', fmt_f 1 rssi, '' snr_db='', fmt_f 1 snr, '' elapsed_ms='', pu elapsed_ms]"

definition log_master_failure ::
  "'w board \<Rightarrow> u8 \<Rightarrow> u8 \<Rightarrow> u16 \<Rightarrow> u32 \<Rightarrow> i16 \<Rightarrow> nav_range_fail_reason \<Rightarrow> string \<Rightarrow> bool \<Rightarrow> 'w radio_task \<Rightarrow>
   ('w radio_task) option" where
  "log_master_failure B master_id peer_id request_id elapsed_ms error_code reason note broadcast_air_report s =
     (case board_call (bd_irq_status B) s of (irq, s) \<Rightarrow>
       let flags = log_irq_flags B irq 96;
           report_head = failure_report master_id peer_id request_id reason elapsed_ms error_code;
           s = warnf ''RANGE'' (report_head @ ['' irq='', fmt_x 4 (unat irq), '' flags=\"'', flags, ''\" note=\"'', note, ''\"'']) s
       in if broadcast_air_report
          then broadcast_range_report B
            (snprintf kRangeReportPayloadMax (report_head @ ['' note=\"'', note, ''\"''])) s
          else Some s)"

text \<open>A failed exchange: the log, the report on the air when asked for, the event.\<close>

definition fail_exchange ::
  "'w board \<Rightarrow> u8 \<Rightarrow> u8 \<Rightarrow> u16 \<Rightarrow> u32 \<Rightarrow> i16 \<Rightarrow> nav_range_fail_reason \<Rightarrow> string \<Rightarrow> bool \<Rightarrow> 'w radio_task \<Rightarrow>
   ('w radio_task) option" where
  "fail_exchange B master_id peer_id request_id started_ms error_code reason note broadcast_air_report s = do {
     let (now, s) = board_now B s;
     s \<leftarrow> log_master_failure B master_id peer_id request_id (now - started_ms) error_code reason note
       broadcast_air_report s;
     inject_range_fail B peer_id request_id reason s }"

text \<open>The end of an exchange that the radio finished: the distance is checked and reported.\<close>

definition finish_exchange ::
  "'w board \<Rightarrow> u8 \<Rightarrow> u8 \<Rightarrow> u16 \<Rightarrow> u32 \<Rightarrow> u16 \<Rightarrow> bool \<Rightarrow> 'w radio_task \<Rightarrow> ('w radio_task) option" where
  "finish_exchange B master_id peer_id request_id started_ms irq broadcast_air_report s = do {
     let (raw_reg, s) = board_call (bd_ranging_raw B) s;
     let (range_m, s) = board_call (bd_ranging_result B) s;
     let (rssi, s) = board_call (bd_rssi B) s;
     let (snr, s) = board_call (bd_snr B) s;
     let valid = (fp_isfinite range_m \<and> fp_lt (Fin 0) range_m);
     range_mm \<leftarrow> (if valid then map_option word_of_int (lround (fp_mul binary32 range_m (Fin 1000))) else Some 0);
     let (now, s) = board_now B s;
     let elapsed_ms = now - started_ms;
     let flags = log_irq_flags B irq 96;
     let irq_text = ['' irq='', fmt_x 4 (unat irq), '' flags=\"'', flags, ''\"''];
     if \<not> valid then do {
       let report_head = invalid_report master_id peer_id request_id raw_reg range_m elapsed_ms;
       let s = warnf ''RANGE'' (report_head @ irq_text @ ['' note=\"invalid distance\"'']) s;
       s \<leftarrow> (if broadcast_air_report then broadcast_range_report B
          (snprintf kRangeReportPayloadMax (report_head @ ['' note=\"invalid distance\"''])) s else Some s);
       inject_range_fail B peer_id request_id NAV_RANGE_FAIL_RANGING_ENGINE_ERROR s }
     else do {
       let s = publish_status Health_Ok (s\<lparr>rk_status := (rk_status s)\<lparr>rh_rx_ok := True,
         rh_rx_ok_count := rh_rx_ok_count (rk_status s) + 1, rh_last_error := sint (bd_err_none B),
         rh_last_rssi_dbm := rssi, rh_last_snr_db := snr\<rparr>\<rparr>);
       let report_head = success_report master_id peer_id request_id range_mm range_m raw_reg rssi snr elapsed_ms;
       let s = okf ''RANGE'' (report_head @ irq_text) s;
       s \<leftarrow> (if broadcast_air_report then broadcast_range_report B
          (snprintf kRangeReportPayloadMax (report_head @ ['' note=\"range ok\"''])) s else Some s);
       rssi_dbm \<leftarrow> lround_i16 rssi;
       snr_db \<leftarrow> lround_i16 snr;
       inject_range_result B peer_id request_id range_mm rssi_dbm snr_db True s } }"

definition run_master_exchange :: "'w board \<Rightarrow> u8 \<Rightarrow> u8 \<Rightarrow> bool \<Rightarrow> 'w radio_task \<Rightarrow> ('w radio_task) option" where
  "run_master_exchange B master_id peer_id broadcast_air_report s = do {
     let request_id = rk_request_id s + 1;
     let s = s\<lparr>rk_request_id := request_id\<rparr>;
     let (started_ms, s) = board_now B s;
     let s = publish_status Health_Warn (s\<lparr>rk_status := (rk_status s)\<lparr>rh_tx_ok := True,
       rh_tx_ok_count := rh_tx_ok_count (rk_status s) + 1\<rparr>\<rparr>);
     (ready, s) \<leftarrow> wait_busy_low B 1000 s;
     if \<not> ready then fail_exchange B master_id peer_id request_id started_ms (bd_err_spi_timeout B)
       NAV_RANGE_FAIL_RADIO_BUSY ''BUSY stayed high before ranging'' broadcast_air_report s
     else do {
       let (state, s) = board_call (bd_start_ranging B True (ranging_address_for peer_id) ranging_calibration)
         (board_do (bd_clear_irq B) s);
       if state \<noteq> bd_err_none B then do {
         let (ignored, s) = board_call (bd_finish_ranging B) s;
         fail_exchange B master_id peer_id request_id started_ms state
           NAV_RANGE_FAIL_RANGING_ENGINE_ERROR ''startRanging master failed'' broadcast_air_report s }
       else do {
         (raised, s) \<leftarrow> wait_dio1_high B kMasterTimeoutMs s;
         if \<not> raised then do {
           let (ignored, s) = board_call (bd_finish_ranging B) s;
           fail_exchange B master_id peer_id request_id started_ms (bd_err_ranging_timeout B)
             NAV_RANGE_FAIL_TIMEOUT ''ranging timeout'' broadcast_air_report s }
         else do {
           let (irq, s) = board_call (bd_irq_status B) s;
           let (state, s) = board_call (bd_finish_ranging B) s;
           if state \<noteq> bd_err_none B then fail_exchange B master_id peer_id request_id started_ms state
             NAV_RANGE_FAIL_RANGING_ENGINE_ERROR ''finishRanging master failed'' broadcast_air_report s
           else finish_exchange B master_id peer_id request_id started_ms irq broadcast_air_report s } } } }"

section \<open>The ranging slave\<close>

partial_function (option) slave_listen :: "'w board \<Rightarrow> u32 \<Rightarrow> u32 \<Rightarrow> 'w radio_task \<Rightarrow> ('w radio_task) option" where
  "slave_listen B started_ms window_ms s = (case read_pin B (bd_dio1_pin B) s of (level, s) \<Rightarrow>
     if level \<noteq> 0 then Some s
     else (case board_now B s of (now, s) \<Rightarrow>
       if now - started_ms < window_ms then slave_listen B started_ms window_ms (delay_ms B 20 s) else Some s))"

definition set_last_error :: "int \<Rightarrow> 'w radio_task \<Rightarrow> 'w radio_task" where
  "set_last_error e s = s\<lparr>rk_status := (rk_status s)\<lparr>rh_last_error := e\<rparr>\<rparr>"

definition service_slave :: "'w board \<Rightarrow> u8 \<Rightarrow> u32 \<Rightarrow> 'w radio_task \<Rightarrow> ('w radio_task) option" where
  "service_slave B node_id listen_window_ms s = do {
     let (started_ms, s) = board_now B s;
     let address = ranging_address_for node_id;
     (ready, s) \<leftarrow> wait_busy_low B 1000 s;
     if \<not> ready then
       Some (delay_ms B 500 (warnf ''RANGE'' [''slave_listen ok=false node='', pu node_id, '' error='',
         pd (bd_err_spi_timeout B), '' note=\"BUSY stayed high\"'']
         (publish_status Health_Fail (set_last_error (sint (bd_err_spi_timeout B)) s))))
     else do {
       let (state, s) = board_call (bd_start_ranging B False address ranging_calibration) (board_do (bd_clear_irq B) s);
       if state \<noteq> bd_err_none B then
         Some (delay_ms B 500 (warnf ''RANGE'' [''slave_listen ok=false node='', pu node_id, '' address='',
           fmt_x 8 (unat address), '' error='', pd state] (publish_status Health_Warn (set_last_error (sint state) s))))
       else do {
         s \<leftarrow> slave_listen B started_ms listen_window_ms s;
         let (irq, s) = board_call (bd_irq_status B) s;
         let (level, s) = read_pin B (bd_dio1_pin B) s;
         if level = 0 then
           (case board_call (bd_finish_ranging B) s of (ignored, s) \<Rightarrow> Some (publish_status Health_Warn s))
         else do {
           let (state, s) = board_call (bd_finish_ranging B) s;
           let flags = log_irq_flags B irq 96;
           let s = set_last_error (sint state) s;
           if state = bd_err_none B then do {
             let st = rk_status s;
             let s = publish_status Health_Ok (s\<lparr>rk_status := st\<lparr>rh_tx_ok := True, rh_rx_ok := True,
               rh_tx_ok_count := rh_tx_ok_count st + 1, rh_rx_ok_count := rh_rx_ok_count st + 1\<rparr>\<rparr>);
             let (now, s) = board_now B s;
             Some (okf ''RANGE'' [''slave_response ok=true node='', pu node_id, '' address='', fmt_x 8 (unat address),
               '' elapsed_ms='', pu (now - started_ms), '' irq='', fmt_x 4 (unat irq), '' flags=\"'', flags, ''\"''] s) }
           else do {
             let (now, s) = board_now B (publish_status Health_Warn s);
             Some (warnf ''RANGE'' [''slave_response ok=false node='', pu node_id, '' address='', fmt_x 8 (unat address),
               '' error='', pd state, '' elapsed_ms='', pu (now - started_ms), '' irq='', fmt_x 4 (unat irq),
               '' flags=\"'', flags, ''\"''] s) } } } } }"

section \<open>Listening\<close>

text \<open>One turn of \<^verbatim>\<open>servicePassiveListen\<close> inside the window; the flag says that the loop goes on.\<close>

definition passive_listen_turn ::
  "'w board \<Rightarrow> u8 \<Rightarrow> u32 \<Rightarrow> u32 \<Rightarrow> bool \<Rightarrow> 'w radio_task \<Rightarrow> (bool \<times> 'w radio_task) option" where
  "passive_listen_turn B node_id started_ms window_ms allow_debug_tx s = do {
     let (remaining_ms, s) = remaining_in_window B started_ms window_ms s;
     s \<leftarrow> (if allow_debug_tx then service_debug_telemetry_tx B node_id remaining_ms s else Some s);
     let (remaining_ms, s) = remaining_in_window B started_ms window_ms s;
     (remaining_ms, s) \<leftarrow> (if remaining_ms \<ge> kReportRxWindowMs + 20
       then map_option (remaining_in_window B started_ms window_ms) (service_report_rx B node_id kReportRxWindowMs s)
       else Some (remaining_ms, s));
     Some (if remaining_ms < 20 then (False, s) else (True, delay_ms B (if remaining_ms < 20 then remaining_ms else 20) s)) }"

partial_function (option) passive_listen_loop ::
  "'w board \<Rightarrow> u8 \<Rightarrow> u32 \<Rightarrow> u32 \<Rightarrow> bool \<Rightarrow> 'w radio_task \<Rightarrow> ('w radio_task) option" where
  "passive_listen_loop B node_id started_ms window_ms allow_debug_tx s = (case board_now B s of (now, s) \<Rightarrow>
     if now - started_ms < window_ms then do {
       (more, s) \<leftarrow> passive_listen_turn B node_id started_ms window_ms allow_debug_tx s;
       if more then passive_listen_loop B node_id started_ms window_ms allow_debug_tx s else Some s }
     else Some s)"

definition service_passive_listen :: "'w board \<Rightarrow> u8 \<Rightarrow> u32 \<Rightarrow> bool \<Rightarrow> 'w radio_task \<Rightarrow> ('w radio_task) option" where
  "service_passive_listen B node_id window_ms allow_debug_tx s = (case board_now B s of (started_ms, s) \<Rightarrow>
     passive_listen_loop B node_id started_ms window_ms allow_debug_tx s)"

definition listen_until_local_time :: "'w board \<Rightarrow> u8 \<Rightarrow> u32 \<Rightarrow> bool \<Rightarrow> 'w radio_task \<Rightarrow> ('w radio_task) option" where
  "listen_until_local_time B node_id deadline_ms allow_debug_tx s = (case board_now B s of (now, s) \<Rightarrow>
     if \<not> time_reached now deadline_ms then service_passive_listen B node_id (deadline_ms - now) allow_debug_tx s
     else Some s)"

definition complete_slot_listening ::
  "'w board \<Rightarrow> u8 \<Rightarrow> nav_tdma_action \<Rightarrow> bool \<Rightarrow> 'w radio_task \<Rightarrow> ('w radio_task) option" where
  "complete_slot_listening B node_id action allow_debug_tx s =
     listen_until_local_time B node_id (tdma_local_slot_end (rk_tdma s) action) allow_debug_tx s"

section \<open>The slot\<close>

definition log_slot_now :: "'w board \<Rightarrow> string \<Rightarrow> nav_tdma_action \<Rightarrow> u32 \<Rightarrow> string \<Rightarrow> 'w radio_task \<Rightarrow> 'w radio_task" where
  "log_slot_now B event action remaining_ms reason s = (case board_now B s of (now, s) \<Rightarrow>
     log_tdma_slot event action now remaining_ms reason s)"

text \<open>The \<^verbatim>\<open>switch\<close> over the action of the slot.\<close>

definition perform_action :: "'w board \<Rightarrow> u8 \<Rightarrow> nav_tdma_action \<Rightarrow> 'w radio_task \<Rightarrow> ('w radio_task) option" where
  "perform_action B node_id action s = (case act_type action of
     NAV_TDMA_TX_BEACON \<Rightarrow> do {
       s \<leftarrow> (if node_id = NAV_TDMA_AUTHORITY_ID then map_option snd (broadcast_timing_heartbeat B action s) else Some s);
       let (now, s) = board_now B s;
       (beacon_ok, s) \<leftarrow> broadcast_telemetry_beacon B now s;
       let s = log_slot_now B ''slot_decision'' action (act_remaining_ms action)
         (if beacon_ok then ''beacon_tx'' else ''beacon_tx_failed'') s;
       complete_slot_listening B node_id action True s }
   | NAV_TDMA_RANGE_PEER \<Rightarrow> do {
       let s = log_slot_now B ''slot_decision'' action (act_remaining_ms action) ''range_master'' s;
       s \<leftarrow> delay_until_local_time B (tdma_local_slot_start (rk_tdma s) action + kRangingMasterStartGuardMs) s;
       s \<leftarrow> run_master_exchange B node_id (act_peer_id action) False s;
       complete_slot_listening B node_id action False s }
   | NAV_TDMA_LISTEN \<Rightarrow>
       if act_to_id action = node_id then do {
         let s = log_slot_now B ''slot_decision'' action (act_remaining_ms action) ''range_slave'' s;
         s \<leftarrow> service_slave B node_id (act_remaining_ms action) s;
         complete_slot_listening B node_id action False s }
       else
         complete_slot_listening B node_id action False
           (log_slot_now B ''slot_decision'' action (act_remaining_ms action) ''passive_listen'' s))"

text \<open>The slot that \<^verbatim>\<open>serviceTdmaSlot\<close> has not handled before.\<close>

definition start_slot :: "'w board \<Rightarrow> u8 \<Rightarrow> u32 \<Rightarrow> nav_tdma_action \<Rightarrow> 'w radio_task \<Rightarrow> ('w radio_task) option" where
  "start_slot B node_id now action s = do {
     let s = log_tdma_slot ''slot_start'' action now (act_remaining_ms action) ''begin'' s;
     let s = (if act_slot_index action = 0
       then log_tdma_slot ''frame_start'' action now (act_remaining_ms action) ''begin'' s else s);
     let can_start = nav_tdma_action_can_start (Some action);
     if \<not> can_start \<and> act_type action \<noteq> NAV_TDMA_LISTEN then do {
       let s = log_tdma_slot ''slot_missed'' action now (act_remaining_ms action) ''late'' s;
       s \<leftarrow> complete_slot_listening B node_id action False s;
       Some (log_slot_now B ''slot_complete'' action 0 ''missed'' s) }
     else do {
       s \<leftarrow> perform_action B node_id action s;
       Some (log_slot_now B ''slot_complete'' action 0 ''done'' s) } }"

definition service_tdma_slot :: "'w board \<Rightarrow> u8 \<Rightarrow> 'w radio_task \<Rightarrow> ('w radio_task) option" where
  "service_tdma_slot B node_id s = (case board_now B s of (now, s) \<Rightarrow>
     if \<not> tdma_has_authority_timing (rk_tdma s) now then
       service_passive_listen B node_id NAV_TDMA_FIXED_SLOT_MS False
         (if rt_waiting_logged (rk_tdma s) then s
          else let s = log_tdma_authority ''authority_missing'' now ''missing_or_expired'' None s
               in s\<lparr>rk_tdma := (rk_tdma s)\<lparr>rt_waiting_logged := True\<rparr>\<rparr>)
     else do {
       (status, action) \<leftarrow> nav_tdma_action_at (rt_schedule (rk_tdma s)) (tdma_aligned_now (rk_tdma s) now);
       if status \<noteq> NAV_STATUS_OK then Some (delay_ms B 20 s)
       else
         let absolute_slot = tdma_absolute_slot (rt_schedule (rk_tdma s)) action in
         if rt_last_processed_slot (rk_tdma s) = absolute_slot
         then listen_until_local_time B node_id (tdma_local_slot_end (rk_tdma s) action) False s
         else start_slot B node_id now action
           (s\<lparr>rk_tdma := (rk_tdma s)\<lparr>rt_last_processed_slot := absolute_slot\<rparr>\<rparr>) })"

section \<open>The task\<close>

definition ranging_profile :: "'w board \<Rightarrow> radio_profile" where
  "ranging_profile B = \<lparr>rf_frequency_mhz = Fin 2445, rf_bandwidth_khz = Fin 1625, rf_spreading_factor = 7,
     rf_coding_rate = 5, rf_sync_word = bd_profile_sync_word B, rf_tx_power_dbm = bd_tx_power_dbm B,
     rf_preamble_len = 12\<rparr>"

definition init_radio :: "'w board \<Rightarrow> u32 \<Rightarrow> 'w radio_task \<Rightarrow> (bool \<times> 'w radio_task) option" where
  "init_radio B attempt s = do {
     let s = configure_input_pin B (bd_dio1_pin B) (configure_input_pin B (bd_busy_pin B) s);
     let s = pulse_radio_reset B attempt s;
     let p = ranging_profile B;
     let s = infof ''RADIO'' [''Initializing SX128x distance-only ranging attempt='', pu attempt] s;
     let s = infof ''RADIO'' [''ranging_profile freq='', fmt_f 1 (rf_frequency_mhz p), '' MHz bw='',
       fmt_f 1 (rf_bandwidth_khz p), '' kHz sf='', pu (rf_spreading_factor p), '' cr=4/'', pu (rf_coding_rate p),
       '' sync=private power='', fmt_d (rf_tx_power_dbm p), '' dBm''] s;
     (ready, s) \<leftarrow> wait_busy_low B 1000 s;
     if \<not> ready then
       Some (False, failf ''RADIO'' [''BUSY pin stayed HIGH before init attempt='', pu attempt, '' retry_in_ms='',
         pu kRadioInitRetryMs] (publish_status Health_Fail (set_last_error (sint (bd_err_spi_timeout B))
           (s\<lparr>rk_status := (rk_status s)\<lparr>rh_initialized := False\<rparr>\<rparr>))))
     else (case board_call (bd_begin B p) s of (state, s) \<Rightarrow>
       let s = set_last_error (sint state) s in
       if state \<noteq> bd_err_none B then
         Some (False, failf ''RADIO'' [''SX128x ranging init failed, code='', pd state, '' attempt='', pu attempt,
           '' retry_in_ms='', pu kRadioInitRetryMs]
           (publish_status Health_Fail (s\<lparr>rk_status := (rk_status s)\<lparr>rh_initialized := False\<rparr>\<rparr>)))
       else Some (True, okf ''RADIO'' [''SX128x ranging initialized attempt='', pu attempt]
         (publish_status Health_Warn (s\<lparr>rk_status := (rk_status s)\<lparr>rh_initialized := True\<rparr>\<rparr>)))) }"

partial_function (option) bring_up_radio :: "'w board \<Rightarrow> u32 \<Rightarrow> 'w radio_task \<Rightarrow> ('w radio_task) option" where
  "bring_up_radio B attempt s = do {
     (ok, s) \<leftarrow> init_radio B attempt s;
     if ok then Some s else bring_up_radio B (attempt + 1) (delay_ms B kRadioInitRetryMs s) }"

text \<open>The locals of the loop of \<^verbatim>\<open>RadioHealthTask\<close> and one turn of it.\<close>

record radio_loop =
  lp_last_node_id :: u8
  lp_last_config_log_ms :: u32

definition radio_loop_start :: radio_loop where
  "radio_loop_start = \<lparr>lp_last_node_id = NAV_INVALID_NODE_ID, lp_last_config_log_ms = 0\<rparr>"

definition adopt_node_id :: "u8 \<Rightarrow> 'w radio_task \<Rightarrow> ('w radio_task) option" where
  "adopt_node_id node_id s = do {
     tdma \<leftarrow> reset_tdma_runtime node_id;
     frame_ms \<leftarrow> nav_tdma_frame_duration_ms (rt_schedule tdma);
     Some (infof ''TDMA'' [''event=tdma_config node_id='', pu node_id, '' authority_id='', pu NAV_TDMA_AUTHORITY_ID,
       '' slot_ms='', pu NAV_TDMA_FIXED_SLOT_MS, '' frame_slots='', fmt_u (nav_tdma_slots_per_frame (rt_schedule tdma)),
       '' frame_ms='', pu frame_ms, '' role='',
       (if node_id = NAV_TDMA_AUTHORITY_ID then ''authority'' else ''follower'')] (s\<lparr>rk_tdma := tdma\<rparr>)) }"

definition radio_turn :: "'w board \<Rightarrow> radio_loop \<times> 'w radio_task \<Rightarrow> (radio_loop \<times> 'w radio_task) option" where
  "radio_turn B = (\<lambda>(l, s).
     let s = others_run B s; node_id = nc_node_id (ct_config (rk_control s)) in
     if \<not> is_valid_node_id node_id then
       (case board_now B s of (now, s) \<Rightarrow>
         if now - lp_last_config_log_ms l > 2000 then
           (case board_now B s of (now, s) \<Rightarrow>
             Some (l\<lparr>lp_last_config_log_ms := now\<rparr>, delay_ms B kConfigPollMs (warnf ''RANGE''
               [''invalid node_id='', pu node_id, ''; set node id 0..3 in telemetry UI''] s)))
         else Some (l, delay_ms B kConfigPollMs s))
     else do {
       s \<leftarrow> (if node_id \<noteq> lp_last_node_id l then adopt_node_id node_id s else Some s);
       s \<leftarrow> service_tdma_slot B node_id s;
       Some (l\<lparr>lp_last_node_id := node_id\<rparr>, s) })"

end
