(* ===== verification/Radio_Invariant.thy ===== *)
theory Radio_Invariant
  imports Radio_Slot Control_Invariant
begin

text \<open>
  What the radio task may do to the rest of the node. A run of any of its operations changes the control
  channel only by calls under its lock, and keeps the schedule it was set up with. The rules for \<open>after\<close>
  walk through an operation; one lemma per operation lets the larger ones use the smaller ones.
\<close>

section \<open>Results of operations that may not return\<close>

definition after :: "('a \<Rightarrow> bool) \<Rightarrow> 'a option \<Rightarrow> bool" where
  "after P m \<longleftrightarrow> (\<forall>x. m = Some x \<longrightarrow> P x)"

lemma after_simps [simp]:
  "after P (Some x) = P x" "after P None"
  "after P (map_option g m) = after (\<lambda>x. P (g x)) m"
  by (auto simp: after_def)

lemma after_bind: "after Q m \<Longrightarrow> (\<And>x. Q x \<Longrightarrow> after P (f x)) \<Longrightarrow> after P (Option.bind m f)"
  by (auto simp: after_def bind_eq_Some_conv)

lemma after_mono: "after Q m \<Longrightarrow> (\<And>x. Q x \<Longrightarrow> P x) \<Longrightarrow> after P m"
  by (simp add: after_def)

lemma after_any: "after (\<lambda>_. True) m"
  by (simp add: after_def)

lemma afterD: "after P m \<Longrightarrow> m = Some x \<Longrightarrow> P x"
  by (simp add: after_def)

section \<open>The relation\<close>

inductive channel_step :: "'w board \<Rightarrow> control_state \<Rightarrow> control_state \<Rightarrow> bool" for B where
  by_others: "channel_step B st (bd_others B w st)"
| by_event: "\<not> config_event (ev_data e) \<Longrightarrow>
    control_handle_event (bd_libm B) buf (Some e) st = Some (ok, lines, st') \<Longrightarrow> channel_step B st st'"
| by_quality: "handle_node_quality_report (Some r) received st = Some (ok, st') \<Longrightarrow> channel_step B st st'"

definition evolves :: "'w board \<Rightarrow> 'w radio_task \<Rightarrow> 'w radio_task \<Rightarrow> bool" where
  "evolves B s s' \<longleftrightarrow> (channel_step B)\<^sup>*\<^sup>* (rk_control s) (rk_control s') \<and>
     rt_schedule (rk_tdma s') = rt_schedule (rk_tdma s) \<and> rt_local_node_id (rk_tdma s') = rt_local_node_id (rk_tdma s)"

lemma evolves_refl [simp]: "evolves B s s"
  by (simp add: evolves_def)

lemma evolves_trans: "evolves B s t \<Longrightarrow> evolves B t u \<Longrightarrow> evolves B s u"
  by (auto simp: evolves_def)

lemma evolves_upd [simp]:
  "evolves B s (t\<lparr>rk_world := w\<rparr>) = evolves B s t"
  "evolves B s (t\<lparr>rk_lines := l\<rparr>) = evolves B s t"
  "evolves B s (t\<lparr>rk_log := g\<rparr>) = evolves B s t"
  "evolves B s (t\<lparr>rk_status := h\<rparr>) = evolves B s t"
  "evolves B s (t\<lparr>rk_published := h\<rparr>) = evolves B s t"
  "evolves B s (t\<lparr>rk_request_id := r\<rparr>) = evolves B s t"
  "evolves B s (t\<lparr>rk_debug := d\<rparr>) = evolves B s t"
  by (simp_all add: evolves_def)

lemma evolves_tdma:
  "evolves B s t \<Longrightarrow> rt_schedule d = rt_schedule (rk_tdma t) \<Longrightarrow> rt_local_node_id d = rt_local_node_id (rk_tdma t) \<Longrightarrow>
   evolves B s (t\<lparr>rk_tdma := d\<rparr>)"
  by (simp add: evolves_def)

lemma evolves_control: "evolves B s t \<Longrightarrow> channel_step B (rk_control t) c \<Longrightarrow> evolves B s (t\<lparr>rk_control := c\<rparr>)"
  by (auto simp: evolves_def)

lemma evolves_others [simp]: "evolves B s t \<Longrightarrow> evolves B s (others_run B t)"
  by (simp add: others_run_def evolves_control channel_step.by_others)

lemma evolves_log [simp]: "evolves B s (log_to level tag parts t) = evolves B s t"
  by (simp add: log_to_def)

lemma evolves_log_tdma [simp]:
  "evolves B s (log_tdma_slot event action now left reason t) = evolves B s t"
  "evolves B s (log_tdma_authority event now reason h t) = evolves B s t"
  by (simp_all add: log_tdma_slot_def log_tdma_authority_def Let_def)

lemma evolves_board [simp]:
  "evolves B s (snd (board_call f t)) = evolves B s t" "evolves B s (board_do g t) = evolves B s t"
  "evolves B s (snd (board_now B t)) = evolves B s t" "evolves B s (delay_ms B ms t) = evolves B s t"
  "evolves B s (snd (read_pin B pin t)) = evolves B s t"
  "evolves B s (snd (remaining_in_window B a b t)) = evolves B s t"
  "evolves B s (configure_input_pin B pin t) = evolves B s t"
  "evolves B s (configure_output_pin B pin level t) = evolves B s t"
  "evolves B s (pulse_radio_reset B n t) = evolves B s t"
  "evolves B s (publish_status h t) = evolves B s t" "evolves B s (set_last_error e t) = evolves B s t"
  by (simp_all add: board_call_def board_do_def board_now_def delay_ms_def read_pin_def remaining_in_window_def
      configure_input_pin_def configure_output_pin_def pulse_radio_reset_def publish_status_def set_last_error_def
      Let_def split: prod.split)

lemma evolves_log_now [simp]: "evolves B s (log_slot_now B event action n reason t) = evolves B s t"
  by (simp add: log_slot_now_def case_prod_beta)

named_theorems keeps

section \<open>Waits\<close>

lemma wait_pin_keeps:
  assumes "wait_pin B pin waiting started timeout t = Some r" "evolves B s t"
  shows "evolves B s (snd r)"
proof -
  have "B = B \<longrightarrow> evolves B s t \<longrightarrow> evolves B s (snd r)"
    by (rule wait_pin.raw_induct [where P = "\<lambda>C pin waiting started timeout t r. C = B \<longrightarrow> evolves B s t \<longrightarrow> evolves B s (snd r)",
        OF _ assms(1)]) (auto simp: case_prod_beta split: if_splits)
  then show ?thesis using assms(2) by simp
qed

lemma delay_until_keeps:
  assumes "delay_until_local_time B deadline t = Some t'" "evolves B s t"
  shows "evolves B s t'"
proof -
  have "B = B \<longrightarrow> evolves B s t \<longrightarrow> evolves B s t'"
    by (rule delay_until_local_time.raw_induct [where P = "\<lambda>C deadline t t'. C = B \<longrightarrow> evolves B s t \<longrightarrow> evolves B s t'",
        OF _ assms(1)]) (auto simp: case_prod_beta Let_def split: if_splits)
  then show ?thesis using assms(2) by simp
qed

lemma slave_listen_keeps:
  assumes "slave_listen B started window t = Some t'" "evolves B s t"
  shows "evolves B s t'"
proof -
  have "B = B \<longrightarrow> evolves B s t \<longrightarrow> evolves B s t'"
    by (rule slave_listen.raw_induct [where P = "\<lambda>C started window t t'. C = B \<longrightarrow> evolves B s t \<longrightarrow> evolves B s t'",
        OF _ assms(1)]) (auto simp: case_prod_beta split: if_splits)
  then show ?thesis using assms(2) by simp
qed

lemma wait_keeps [keeps]:
  "evolves B s t \<Longrightarrow> after (\<lambda>(_, t). evolves B s t) (wait_busy_low B n t)"
  "evolves B s t \<Longrightarrow> after (\<lambda>(_, t). evolves B s t) (wait_dio1_high B n t)"
  by (auto simp: wait_busy_low_def wait_dio1_high_def after_def case_prod_beta dest: wait_pin_keeps)


lemma loops_keep [keeps]:
  "evolves B s t \<Longrightarrow> after (evolves B s) (delay_until_local_time B n t)"
  "evolves B s t \<Longrightarrow> after (evolves B s) (slave_listen B n m t)"
  using delay_until_keeps slave_listen_keeps by (auto simp: after_def)

section \<open>Transmission and control calls\<close>

lemma transmit_keeps [keeps]:
  assumes "evolves B s t"
  shows "after (\<lambda>(_, t). evolves B s t) (transmit_typed_report B payload n kind t)"
  unfolding transmit_typed_report_def using assms
  by (auto simp: case_prod_beta intro!: after_bind [OF wait_keeps(1) [OF assms]])

lemma transmit_repeats_keeps:
  "evolves B s (snd st) \<Longrightarrow> after (\<lambda>(_, t). evolves B s t) (transmit_repeats B payload n kind gap k st)"
proof (induction k arbitrary: st)
  case (Suc k)
  then show ?case
    by (auto simp: case_prod_beta intro!: after_bind [OF transmit_keeps] Suc.IH [unfolded case_prod_beta])
qed (simp add: case_prod_beta)

lemma transmit_repeated_keeps [keeps]:
  "evolves B s t \<Longrightarrow> after (\<lambda>(_, t). evolves B s t) (transmit_typed_report_repeated B payload n kind k gap t)"
  using transmit_repeats_keeps [of B s "(0, t)"] by (simp add: transmit_typed_report_repeated_def)

lemma inject_keeps [keeps]:
  assumes "evolves B s t" "\<not> config_event (ev_data e)"
  shows "after (\<lambda>(_, t). evolves B s t) (inject_event B e t)"
proof (unfold after_def, intro allI impI)
  fix r
  assume "inject_event B e t = Some r"
  then obtain ok lines c where c: "control_handle_event (bd_libm B) (bd_line_junk B) (Some e) (rk_control (others_run B t)) = Some (ok, lines, c)"
    "snd r = (others_run B t)\<lparr>rk_control := c, rk_lines := rk_lines (others_run B t) @ lines\<rparr>"
    by (auto simp: inject_event_def bind_eq_Some_conv Let_def)
  then have "channel_step B (rk_control (others_run B t)) c" using channel_step.by_event assms(2) by blast
  then have "evolves B s ((others_run B t)\<lparr>rk_control := c\<rparr>)" using evolves_control evolves_others assms(1) by blast
  then show "case r of (_, t) \<Rightarrow> evolves B s t" using c(2) by (simp add: case_prod_beta)
qed

lemma inject_range_keeps [keeps]:
  "evolves B s t \<Longrightarrow> after (evolves B s) (inject_range_result B p r mm rssi snr v t)"
  "evolves B s t \<Longrightarrow> after (evolves B s) (inject_range_fail B p r reason t)"
  unfolding inject_range_result_def inject_range_fail_def
  by (auto simp: case_prod_beta range_result_event_def range_fail_event_def
      intro!: after_mono [OF inject_keeps])


section \<open>Reception\<close>

lemma report_attempts_keeps:
  "evolves B s t \<Longrightarrow> after (evolves B s) (report_attempts B payload k t)"
proof (induction k arbitrary: t)
  case (Suc k)
  then show ?case
    by (auto simp: case_prod_beta intro!: after_bind [OF wait_keeps(1)] Suc.IH)
qed simp

lemma broadcast_report_keeps [keeps]: "evolves B s t \<Longrightarrow> after (evolves B s) (broadcast_range_report B txt t)"
  by (simp add: broadcast_range_report_def Let_def report_attempts_keeps)

lemma ingest_keeps [keeps]: "evolves B s t \<Longrightarrow> after (evolves B s) (ingest_local_endpoint_air_report B r t)"
  by (auto simp: ingest_local_endpoint_air_report_def Let_def air_report_event_def
      intro!: after_mono [OF inject_keeps])

lemma debug_enable_keeps [keeps]: "evolves B s t \<Longrightarrow> after (evolves B s) (handle_debug_enable_frame B f i t)"
  by (auto simp: handle_debug_enable_frame_def case_prod_beta Let_def intro!: after_bind [OF after_any])

lemma quality_frame_keeps [keeps]: "evolves B s t \<Longrightarrow> after (evolves B s) (handle_node_quality_frame B f i t)"
  by (auto simp: handle_node_quality_frame_def case_prod_beta Let_def after_def bind_eq_Some_conv
      intro!: evolves_control channel_step.by_quality split: if_splits)

lemma heartbeat_keeps [keeps]: "evolves B s t \<Longrightarrow> after (evolves B s) (handle_heartbeat_frame B f i t)"
  by (auto simp: handle_heartbeat_frame_def case_prod_beta Let_def intro!: after_bind [OF after_any] evolves_tdma)

lemma beacon_frame_keeps [keeps]: "evolves B s t \<Longrightarrow> after (evolves B s) (handle_beacon_frame B p n i rssi snr t)"
  by (auto simp: handle_beacon_frame_def case_prod_beta Let_def split: nav_event_data.split
      intro!: after_bind [where m = "nav_telemetry_decode_event a b c d e f" for a b c d e f, OF after_any]
        after_bind [OF inject_keeps])

lemma dispatch_keeps [keeps]: "evolves B s t \<Longrightarrow> after (evolves B s) (dispatch_typed_report B p n i rssi snr t)"
  by (auto simp: dispatch_typed_report_def case_prod_beta Let_def split: nav_radio_message_type.split
      intro!: after_bind [OF after_any] keeps)

lemma air_report_keeps [keeps]: "evolves B s t \<Longrightarrow> after (evolves B s) (receive_air_report B p i t)"
  by (auto simp: receive_air_report_def case_prod_beta Let_def split: option.split
      intro!: after_bind [OF after_any] ingest_keeps)

lemma typed_frame_keeps [keeps]: "evolves B s t \<Longrightarrow> after (evolves B s) (receive_typed_frame B p n i t)"
  by (auto simp: receive_typed_frame_def case_prod_beta Let_def intro!: after_bind [OF after_any] dispatch_keeps)

lemma report_rx_keeps [keeps]: "evolves B s t \<Longrightarrow> after (evolves B s) (service_report_rx B i w t)"
  by (auto simp: service_report_rx_def case_prod_beta Let_def
      intro!: after_bind [OF wait_keeps(1)] after_bind [OF wait_keeps(2)] keeps)

section \<open>Broadcasts\<close>

lemma beacon_keeps [keeps]: "evolves B s t \<Longrightarrow> after (\<lambda>(_, t). evolves B s t) (broadcast_telemetry_beacon B now t)"
  by (auto simp: broadcast_telemetry_beacon_def case_prod_beta Let_def split: option.split
      intro!: after_bind [where m = "nav_telemetry_encode_beacon a b c d e f" for a b c d e f, OF after_any]
        after_bind [OF transmit_repeated_keeps] evolves_others)

lemma timing_heartbeat_keeps [keeps]: "evolves B s t \<Longrightarrow> after (\<lambda>(_, t). evolves B s t) (broadcast_timing_heartbeat B a t)"
  by (auto simp: broadcast_timing_heartbeat_def case_prod_beta Let_def board_now_def board_call_def
      intro!: after_bind [where m = "nav_telemetry_encode_heartbeat a b c d e f" for a b c d e f, OF after_any]
        after_bind [OF transmit_keeps] evolves_tdma)

lemma broadcast_debug_keeps [keeps]: "evolves B s t \<Longrightarrow> after (evolves B s) (broadcast_debug_enable B i t)"
  by (auto simp: broadcast_debug_enable_def case_prod_beta Let_def
      intro!: after_bind [where m = "nav_telemetry_encode_debug_enable a b c d e f" for a b c d e f, OF after_any]
        transmit_keeps [unfolded case_prod_beta])

lemma broadcast_quality_keeps [keeps]: "evolves B s t \<Longrightarrow> after (evolves B s) (broadcast_node_quality_report B t)"
  by (auto simp: broadcast_node_quality_report_def case_prod_beta Let_def split: option.split
      intro!: after_bind [where m = "get_local_node_quality_report a b" for a b, OF after_any]
        after_bind [where m = "nav_telemetry_encode_node_quality_report a b c d e f" for a b c d e f, OF after_any]
        transmit_keeps [unfolded case_prod_beta])

lemma debug_tx_keeps [keeps]: "evolves B s t \<Longrightarrow> after (evolves B s) (service_debug_telemetry_tx B i n t)"
  by (auto simp: service_debug_telemetry_tx_def case_prod_beta Let_def intro!: keeps)

section \<open>Ranging\<close>

lemma master_failure_keeps [keeps]:
  "evolves B s t \<Longrightarrow> after (evolves B s) (log_master_failure B i p r n e reason note b t)"
  by (auto simp: log_master_failure_def case_prod_beta Let_def intro!: keeps)

lemma fail_exchange_keeps [keeps]:
  "evolves B s t \<Longrightarrow> after (evolves B s) (fail_exchange B i p r n e reason note b t)"
  by (auto simp: fail_exchange_def case_prod_beta Let_def intro!: after_bind [OF master_failure_keeps] keeps)

lemma finish_exchange_keeps [keeps]:
  "evolves B s t \<Longrightarrow> after (evolves B s) (finish_exchange B i p r n irq b t)"
  unfolding finish_exchange_def case_prod_beta Let_def
  by (rule after_bind [OF after_any], cases b)
    (auto intro!: after_bind [OF broadcast_report_keeps] after_bind [where m = "lround_i16 a" for a, OF after_any] keeps)

lemma exchange_keeps [keeps]: "evolves B s t \<Longrightarrow> after (evolves B s) (run_master_exchange B i p b t)"
  by (auto simp: run_master_exchange_def case_prod_beta Let_def
      intro!: after_bind [OF wait_keeps(1)] after_bind [OF wait_keeps(2)] keeps)

lemma slave_keeps [keeps]: "evolves B s t \<Longrightarrow> after (evolves B s) (service_slave B i n t)"
  by (auto simp: service_slave_def case_prod_beta Let_def
      intro!: after_bind [OF wait_keeps(1)] after_bind [OF loops_keep(2)])

section \<open>Slots\<close>

lemma listen_turn_keeps [keeps]: "evolves B s t \<Longrightarrow> after (\<lambda>(_, t). evolves B s t) (passive_listen_turn B i a w d t)"
  by (cases d) (auto simp: passive_listen_turn_def case_prod_beta Let_def
      intro!: after_bind [OF debug_tx_keeps] after_bind [where Q = "\<lambda>(_, t). evolves B s t"] after_mono [OF report_rx_keeps])

lemma passive_listen_keeps:
  assumes "passive_listen_loop B i a w d t = Some t'" "evolves B s t"
  shows "evolves B s t'"
proof -
  have "B = B \<longrightarrow> evolves B s t \<longrightarrow> evolves B s t'"
  proof (rule passive_listen_loop.raw_induct
      [where P = "\<lambda>C i a w d t t'. C = B \<longrightarrow> evolves B s t \<longrightarrow> evolves B s t'", OF _ assms(1)])
    fix f C i a w d t t'
    assume IH: "\<And>C i a w d t t'. f C i a w d t = Some t' \<Longrightarrow> C = B \<longrightarrow> evolves B s t \<longrightarrow> evolves B s t'"
      and eq: "(case board_now C t of (now, t) \<Rightarrow> if now - a < w then do {
          (more, t) \<leftarrow> passive_listen_turn C i a w d t;
          if more then f C i a w d t else Some t } else Some t) = Some t'"
    show "C = B \<longrightarrow> evolves B s t \<longrightarrow> evolves B s t'"
    proof (intro impI)
      assume C: "C = B" and e: "evolves B s t"
      have turn: "passive_listen_turn B i a w d (snd (board_now B t)) = Some (more, u) \<Longrightarrow> evolves B s u" for more u
        using afterD [OF listen_turn_keeps [of B s "snd (board_now B t)" i a w d]] e by force
      then show "evolves B s t'"
        using eq IH [THEN mp, OF _ C, THEN mp] e unfolding C by (auto simp: case_prod_beta bind_eq_Some_conv split: if_splits)
    qed
  qed
  then show ?thesis using assms(2) by simp
qed

lemma listen_keeps [keeps]:
  "evolves B s t \<Longrightarrow> after (evolves B s) (service_passive_listen B i w d t)"
  "evolves B s t \<Longrightarrow> after (evolves B s) (listen_until_local_time B i n d t)"
  "evolves B s t \<Longrightarrow> after (evolves B s) (complete_slot_listening B i action d t)"
  by (auto simp: complete_slot_listening_def listen_until_local_time_def service_passive_listen_def case_prod_beta
      after_def dest: passive_listen_keeps)

lemma timing_sent_keeps: "evolves B s t \<Longrightarrow> after (evolves B s) (map_option snd (broadcast_timing_heartbeat B a t))"
  by (auto intro: after_mono [OF timing_heartbeat_keeps])

lemma action_keeps [keeps]: "evolves B s t \<Longrightarrow> after (evolves B s) (perform_action B i action t)"
  by (cases "i = NAV_TDMA_AUTHORITY_ID") (auto simp: perform_action_def case_prod_beta Let_def split: nav_tdma_action_type.split
      intro!: after_bind [OF beacon_keeps] after_bind [OF loops_keep(1)] after_bind [OF exchange_keeps]
        after_bind [OF slave_keeps] after_bind [OF timing_sent_keeps] keeps)

lemma start_slot_keeps [keeps]: "evolves B s t \<Longrightarrow> after (evolves B s) (start_slot B i now action t)"
  by (auto simp: start_slot_def Let_def intro!: after_bind [OF listen_keeps(3)] after_bind [OF action_keeps])

lemma slot_keeps [keeps]: "evolves B s t \<Longrightarrow> after (evolves B s) (service_tdma_slot B i t)"
  by (auto simp: service_tdma_slot_def case_prod_beta Let_def
      intro!: after_bind [where m = "nav_tdma_action_at a b" for a b, OF after_any] keeps evolves_tdma)

lemma init_keeps [keeps]: "evolves B s t \<Longrightarrow> after (\<lambda>(_, t). evolves B s t) (init_radio B n t)"
  by (auto simp: init_radio_def case_prod_beta Let_def intro!: after_bind [OF wait_keeps(1)])


lemma bring_up_keeps:
  assumes "bring_up_radio B n t = Some t'" "evolves B s t"
  shows "evolves B s t'"
proof -
  have "B = B \<longrightarrow> evolves B s t \<longrightarrow> evolves B s t'"
  proof (rule bring_up_radio.raw_induct [where P = "\<lambda>C n t t'. C = B \<longrightarrow> evolves B s t \<longrightarrow> evolves B s t'", OF _ assms(1)])
    fix f C n t t'
    assume IH: "\<And>C n t t'. f C n t = Some t' \<Longrightarrow> C = B \<longrightarrow> evolves B s t \<longrightarrow> evolves B s t'"
      and eq: "(do { (ok, t) \<leftarrow> init_radio C n t;
          if ok then Some t else f C (n + 1) (delay_ms C kRadioInitRetryMs t) }) = Some t'"
    show "C = B \<longrightarrow> evolves B s t \<longrightarrow> evolves B s t'"
      using eq IH [THEN mp, THEN mp] afterD [OF init_keeps [of B s t n]]
      by (fastforce simp: bind_eq_Some_conv split: if_splits)
  qed
  then show ?thesis using assms(2) by simp
qed

section \<open>The task\<close>

text \<open>What the task relies on: the other tasks keep the channel in its reachable states.\<close>

definition others_lawful :: "'w board \<Rightarrow> bool" where
  "others_lawful B \<longleftrightarrow> (\<forall>w st. control_reachable (bd_libm B) (bd_gnss_built B) st \<longrightarrow>
     control_reachable (bd_libm B) (bd_gnss_built B) (bd_others B w st))"

lemma channel_step_reachable:
  assumes "channel_step B c c'" "others_lawful B" "control_reachable (bd_libm B) (bd_gnss_built B) c"
  shows "control_reachable (bd_libm B) (bd_gnss_built B) c'"
  using assms
proof cases
  case (by_others w)
  then show ?thesis using assms(2,3) by (simp add: others_lawful_def)
qed (blast intro: control_next step_inject step_quality)+

lemma channel_reachable:
  assumes "(channel_step B)\<^sup>*\<^sup>* c c'" "others_lawful B" "control_reachable (bd_libm B) (bd_gnss_built B) c"
  shows "control_reachable (bd_libm B) (bd_gnss_built B) c'"
  using assms by (induction rule: rtranclp_induct) (auto intro: channel_step_reachable)

definition fixed_schedule :: "u8 \<Rightarrow> nav_tdma" where
  "fixed_schedule i = \<lparr>td_members = [0, 1, 2, 3], td_member_count = 4, td_local_node_id = i, td_slot_ms = 500\<rparr>"

definition runtime_for :: "u8 \<Rightarrow> tdma_runtime \<Rightarrow> bool" where
  "runtime_for i t \<longleftrightarrow> rt_schedule t = fixed_schedule i \<and> rt_local_node_id t = i"

lemma reset_runtime: "\<exists>t. reset_tdma_runtime i = Some t \<and> runtime_for i t \<and> rt_last_processed_slot t = - 1 \<and>
    rt_authority_synced t = (i = NAV_TDMA_AUTHORITY_ID) \<and> rt_epoch_local_ms t = 0"
  by (simp add: reset_tdma_runtime_def fixed_members_eq runtime_for_def fixed_schedule_def)

text \<open>The states of the task between two turns of its loop.\<close>

inductive radio_reachable :: "'w board \<Rightarrow> radio_loop \<times> 'w radio_task \<Rightarrow> bool" for B where
  radio_start: "control_reachable (bd_libm B) (bd_gnss_built B) (rk_control s) \<Longrightarrow>
    bring_up_radio B 1 s = Some t \<Longrightarrow> radio_reachable B (radio_loop_start, t)"
| radio_next: "radio_reachable B ls \<Longrightarrow> radio_turn B ls = Some ls' \<Longrightarrow> radio_reachable B ls'"

definition radio_inv :: "'w board \<Rightarrow> radio_loop \<times> 'w radio_task \<Rightarrow> bool" where
  "radio_inv B ls \<longleftrightarrow> control_reachable (bd_libm B) (bd_gnss_built B) (rk_control (snd ls)) \<and>
     (lp_last_node_id (fst ls) \<noteq> NAV_INVALID_NODE_ID \<longrightarrow>
       is_valid_node_id (lp_last_node_id (fst ls)) \<and> runtime_for (lp_last_node_id (fst ls)) (rk_tdma (snd ls)))"

lemma evolves_reachable:
  "evolves B s t \<Longrightarrow> others_lawful B \<Longrightarrow> control_reachable (bd_libm B) (bd_gnss_built B) (rk_control s) \<Longrightarrow>
   control_reachable (bd_libm B) (bd_gnss_built B) (rk_control t)"
  by (auto simp: evolves_def intro: channel_reachable)

lemma evolves_runtime: "evolves B s t \<Longrightarrow> runtime_for i (rk_tdma s) \<Longrightarrow> runtime_for i (rk_tdma t)"
  by (simp add: evolves_def runtime_for_def)

lemma adopt_runtime:
  assumes "adopt_node_id i s = Some t"
  shows "runtime_for i (rk_tdma t)" and "rk_control t = rk_control s"
  using assms reset_runtime [of i] by (auto simp: adopt_node_id_def bind_eq_Some_conv log_to_def)

lemma radio_turn_inv:
  assumes "radio_turn B ls = Some ls'" "others_lawful B" "radio_inv B ls"
  shows "radio_inv B ls'"
proof -
  obtain l s where ls: "ls = (l, s)" by fastforce
  let ?s = "others_run B s"
  let ?i = "nc_node_id (ct_config (rk_control ?s))"
  have ev: "evolves B s ?s" by simp
  have r: "control_reachable (bd_libm B) (bd_gnss_built B) (rk_control ?s)"
    using evolves_reachable [OF ev assms(2)] assms(3) by (simp add: radio_inv_def ls)
  show ?thesis
  proof (cases "is_valid_node_id ?i")
    case True
    then obtain t u where t: "(if ?i \<noteq> lp_last_node_id l then adopt_node_id ?i ?s else Some ?s) = Some t"
      "service_tdma_slot B ?i t = Some u" "ls' = (l\<lparr>lp_last_node_id := ?i\<rparr>, u)"
      using assms(1) by (auto simp: radio_turn_def ls Let_def bind_eq_Some_conv)
    have "255 \<noteq> ?i" using True by (auto simp: is_valid_node_id_def)
    then have rt: "runtime_for ?i (rk_tdma t)" "rk_control t = rk_control ?s"
      using t(1) adopt_runtime [of ?i ?s t] evolves_runtime [OF ev, of ?i] assms(3)
      by (auto simp: radio_inv_def ls others_run_def split: if_splits)
    have e: "evolves B t u" using afterD [OF slot_keeps [OF evolves_refl] t(2)] .
    then show ?thesis
      using evolves_reachable [OF e assms(2)] evolves_runtime [OF e] rt r True by (simp add: radio_inv_def t(3))
  next
    case False
    then have "evolves B s (snd ls')" "lp_last_node_id (fst ls') = lp_last_node_id l"
      using assms(1) ev by (auto simp: radio_turn_def ls Let_def case_prod_beta split: if_splits)
    then show ?thesis
      using evolves_reachable [OF _ assms(2)] evolves_runtime assms(3) by (auto simp: radio_inv_def ls)
  qed
qed

lemma radio_reachable_inv:
  assumes "radio_reachable B ls" "others_lawful B"
  shows "radio_inv B ls"
  using assms(1)
proof induction
  case (radio_start s t)
  then have "evolves B s t" using bring_up_keeps evolves_refl by blast
  then show ?case using evolves_reachable assms(2) radio_start by (simp add: radio_inv_def radio_loop_start_def)
qed (rule radio_turn_inv [OF _ assms(2)])

text \<open>C5: Whatever arrives on the air and whatever the other tasks do in between, the radio task keeps the
  node's invariants: between two turns of its loop the navigation core satisfies its own invariant and is
  configured as the node's settings demand, and once a node id has been adopted the task runs the fixed
  four-node plan for that id, which is between 0 and 3.\<close>

theorem radio_task_invariant:
  assumes "radio_reachable B (l, s)" and "others_lawful B"
  shows "core_inv (ct_nav (rk_control s)) \<and>
    cfg_demo_force_gps_denied (sy_config (ct_nav (rk_control s))) =
      (\<not> (bd_gnss_built B \<and> nc_gps_enabled (ct_config (rk_control s)))) \<and>
    (lp_last_node_id l \<noteq> NAV_INVALID_NODE_ID \<longrightarrow> lp_last_node_id l < 4 \<and>
      rt_local_node_id (rk_tdma s) = lp_last_node_id l \<and>
      rt_schedule (rk_tdma s) = \<lparr>td_members = [0, 1, 2, 3], td_member_count = 4,
        td_local_node_id = lp_last_node_id l, td_slot_ms = 500\<rparr>)"
proof -
  have i: "radio_inv B (l, s)" by (rule radio_reachable_inv [OF assms])
  then have "control_inv (bd_gnss_built B) (rk_control s)"
    using control_reachable_inv [of "bd_libm B" "bd_gnss_built B" "rk_control s"] by (simp add: radio_inv_def)
  then show ?thesis using i
    by (auto simp: control_inv_def core_holds_def core_config_def effective_gps radio_inv_def runtime_for_def
        fixed_schedule_def is_valid_node_id_def word_less_nat_alt)
qed

end
