(* ===== verification/Radio_Clock.thy ===== *)
theory Radio_Clock
  imports Radio_Invariant
begin

text \<open>
  The radio task in real time: on a board whose clock runs and whose calls take a bounded time, the waits
  return, and the ranging master starts inside the window that the schedule leaves for it. \<open>tm w\<close> is the true
  time of the world \<open>w\<close> in milliseconds since boot, of which the task sees the low 32 bits.
\<close>

section \<open>Operations that return\<close>

definition yields :: "('a \<Rightarrow> bool) \<Rightarrow> 'a option \<Rightarrow> bool" where
  "yields P m \<longleftrightarrow> (\<exists>x. m = Some x \<and> P x)"

lemma yields_simps [simp]:
  "yields P (Some x) = P x" "yields P None = False"
  "yields P (map_option g m) = yields (\<lambda>x. P (g x)) m"
  by (auto simp: yields_def)

lemma yields_bind: "yields Q m \<Longrightarrow> (\<And>x. Q x \<Longrightarrow> yields P (f x)) \<Longrightarrow> yields P (Option.bind m f)"
  by (auto simp: yields_def)

lemma yields_mono: "yields Q m \<Longrightarrow> (\<And>x. Q x \<Longrightarrow> P x) \<Longrightarrow> yields P m"
  by (auto simp: yields_def)

section \<open>The clock\<close>

text \<open>A step of the world that takes at most \<open>d\<close> milliseconds.\<close>

definition within_time :: "('w \<Rightarrow> nat) \<Rightarrow> nat \<Rightarrow> 'w \<Rightarrow> 'w \<Rightarrow> bool" where
  "within_time tm d w w' \<longleftrightarrow> tm w \<le> tm w' \<and> tm w' \<le> tm w + d"

text \<open>The board's part: the timer shows the true time; a delay lasts at least a millisecond and at most \<open>lat\<close>
  longer than asked; every other call takes at most \<open>lat\<close>.\<close>

definition clock_runs :: "'w board \<Rightarrow> ('w \<Rightarrow> nat) \<Rightarrow> nat \<Rightarrow> bool" where
  "clock_runs B tm lat \<longleftrightarrow>
     (\<forall>w. fst (bd_now B w) = of_nat (tm (snd (bd_now B w))) \<and> within_time tm lat w (snd (bd_now B w))) \<and>
     (\<forall>ms w. let ticks = bd_ms_to_ticks B ms; w' = bd_delay B (if ticks = 0 then 1 else ticks) w in
       tm w < tm w' \<and> tm w' \<le> tm w + unat ms + lat) \<and>
     (\<forall>pin w. within_time tm lat w (snd (bd_gpio_get B pin w))) \<and>
     (\<forall>w. within_time tm lat w (bd_clear_irq B w)) \<and>
     (\<forall>w. within_time tm lat w (snd (bd_irq_status B w))) \<and>
     (\<forall>m a c w. within_time tm lat w (snd (bd_start_ranging B m a c w))) \<and>
     (\<forall>w. within_time tm lat w (snd (bd_finish_ranging B w))) \<and>
     (\<forall>w. within_time tm lat w (snd (bd_ranging_raw B w))) \<and>
     (\<forall>w. within_time tm lat w (snd (bd_ranging_result B w))) \<and>
     (\<forall>w. within_time tm lat w (snd (bd_rssi B w))) \<and> (\<forall>w. within_time tm lat w (snd (bd_snr B w)))"

abbreviation task_time :: "('w \<Rightarrow> nat) \<Rightarrow> 'w radio_task \<Rightarrow> nat" where
  "task_time tm s \<equiv> tm (rk_world s)"

text \<open>The part of the task that only the control calls change.\<close>

definition same_channel :: "'w radio_task \<Rightarrow> 'w radio_task \<Rightarrow> bool" where
  "same_channel s t \<longleftrightarrow> rk_control t = rk_control s \<and> rk_tdma t = rk_tdma s \<and> rk_request_id t = rk_request_id s \<and>
     rk_debug t = rk_debug s \<and> rk_lines t = rk_lines s"

lemma same_channel_refl [simp]: "same_channel s s"
  by (simp add: same_channel_def)

lemma same_channel_upd [simp]:
  "same_channel s (t\<lparr>rk_world := w\<rparr>) = same_channel s t" "same_channel s (t\<lparr>rk_log := g\<rparr>) = same_channel s t"
  "same_channel s (t\<lparr>rk_status := h\<rparr>) = same_channel s t" "same_channel s (t\<lparr>rk_published := h\<rparr>) = same_channel s t"
  by (simp_all add: same_channel_def)

lemma same_channel_log [simp]: "same_channel s (log_to level tag parts t) = same_channel s t"
  by (simp add: log_to_def)

lemma log_world [simp]: "rk_world (log_to level tag parts t) = rk_world t"
  by (simp add: log_to_def)

lemma publish_sel [simp]:
  "rk_world (publish_status h t) = rk_world t" "same_channel s (publish_status h t) = same_channel s t"
  by (simp_all add: publish_status_def Let_def same_channel_def)

lemma now_step:
  assumes "clock_runs B tm lat" "board_now B s = (t, s')"
  shows "t = of_nat (task_time tm s')" "within_time tm lat (rk_world s) (rk_world s')" "s' = s\<lparr>rk_world := rk_world s'\<rparr>"
  using assms by (auto simp: board_now_def board_call_def clock_runs_def split: prod.splits) (metis fst_conv snd_conv)+

lemma delay_step:
  assumes "clock_runs B tm lat"
  shows "task_time tm s < task_time tm (delay_ms B ms s)" "task_time tm (delay_ms B ms s) \<le> task_time tm s + unat ms + lat"
    "same_channel u (delay_ms B ms s) = same_channel u s"
  using assms by (simp_all add: delay_ms_def board_do_def clock_runs_def Let_def)

lemma pin_step:
  assumes "clock_runs B tm lat" "read_pin B pin s = (level, s')"
  shows "within_time tm lat (rk_world s) (rk_world s')" "same_channel u s' = same_channel u s"
  using assms by (auto simp: read_pin_def board_call_def clock_runs_def within_time_def split: prod.splits if_splits)
    (metis snd_conv)+

section \<open>Waits end\<close>

text \<open>The milliseconds that a 32-bit stamp and a later reading are apart.\<close>

lemma elapsed_word:
  assumes "t0 \<le> t" "t - t0 < 2 ^ 32"
  shows "unat (of_nat t - of_nat t0 :: u32) = t - t0"
proof -
  have "(of_nat t - of_nat t0 :: u32) = of_nat (t - t0)" using assms(1) by (simp add: of_nat_diff)
  then show ?thesis using assms(2) by (simp add: unat_of_nat)
qed

lemma same_channel_trans: "same_channel s t \<Longrightarrow> same_channel t u \<Longrightarrow> same_channel s u"
  by (simp add: same_channel_def)

lemma wait_pin_returns:
  assumes B: "clock_runs B tm lat" and small: "unat timeout + 2 + 3 * lat < 2 ^ 32"
  shows "t0 \<le> task_time tm s \<Longrightarrow> task_time tm s \<le> t0 + unat timeout + 2 + lat \<Longrightarrow>
    yields (\<lambda>(ok, s'). same_channel s s' \<and> task_time tm s \<le> task_time tm s' \<and>
      task_time tm s' \<le> t0 + unat timeout + 2 + 3 * lat \<and> (\<not> ok \<longrightarrow> t0 + unat timeout \<le> task_time tm s'))
    (wait_pin B pin waiting (of_nat t0) timeout s)"
proof (induction "t0 + unat timeout + 3 + lat - task_time tm s" arbitrary: s rule: less_induct)
  case less
  obtain level s1 where 1: "read_pin B pin s = (level, s1)" by fastforce
  obtain now s2 where 2: "board_now B s1 = (now, s2)" by fastforce
  let ?s3 = "delay_ms B 2 s2"
  have p: "within_time tm lat (rk_world s) (rk_world s1)" "same_channel s s1" using pin_step [OF B 1] by auto
  have n: "now = of_nat (task_time tm s2)" "within_time tm lat (rk_world s1) (rk_world s2)" "same_channel s s2"
    using now_step [OF B 2] p(2) by (auto, metis same_channel_upd(1))
  have t: "task_time tm s \<le> task_time tm s2" "task_time tm s2 \<le> task_time tm s + 2 * lat"
    using p(1) n(2) by (auto simp: within_time_def)
  have e: "unat (now - of_nat t0 :: u32) = task_time tm s2 - t0"
    unfolding n(1) using t less.prems small by (intro elapsed_word) linarith+
  show ?case
  proof (cases "waiting level \<and> now - of_nat t0 < timeout")
    case True
    then have "task_time tm s2 - t0 < unat timeout" using e by (simp add: word_less_nat_alt)
    then have late: "task_time tm s2 < t0 + unat timeout" using t(1) less.prems(1) by linarith
    have d: "task_time tm s2 < task_time tm ?s3" "task_time tm ?s3 \<le> task_time tm s2 + 2 + lat"
      "same_channel s ?s3" using delay_step [OF B, where s = s2 and ms = 2] n(3) by simp_all
    have rec: "wait_pin B pin waiting (of_nat t0) timeout s = wait_pin B pin waiting (of_nat t0) timeout ?s3"
      using True 1 2 by (simp add: wait_pin.simps [of B pin waiting "of_nat t0" timeout s] linorder_not_le [symmetric])
    have "yields (\<lambda>(ok, s'). same_channel ?s3 s' \<and> task_time tm ?s3 \<le> task_time tm s' \<and>
        task_time tm s' \<le> t0 + unat timeout + 2 + 3 * lat \<and> (\<not> ok \<longrightarrow> t0 + unat timeout \<le> task_time tm s'))
      (wait_pin B pin waiting (of_nat t0) timeout ?s3)"
      using late d t less.prems by (intro less.hyps) linarith+
    then show ?thesis unfolding rec using d t by (auto elim!: yields_mono intro: same_channel_trans)
  next
    case False
    have w: "wait_pin B pin waiting (of_nat t0) timeout s = Some (if waiting level then (False, s2) else (True, s1))"
      using False 1 2 by (auto simp: wait_pin.simps [of B pin waiting "of_nat t0" timeout s])
    have "waiting level \<Longrightarrow> t0 + unat timeout \<le> task_time tm s2"
      using False e less.prems(1) t(1) by (simp add: word_less_nat_alt not_less)
    then show ?thesis unfolding w using p n(3) t less.prems by (auto simp: within_time_def)
  qed
qed

text \<open>A wait with its own start: it ends at most \<open>2 + 4 * lat\<close> after its timeout, and a failed one not before.\<close>

definition waited :: "('w \<Rightarrow> nat) \<Rightarrow> nat \<Rightarrow> 'w radio_task \<Rightarrow> nat \<Rightarrow> bool \<times> 'w radio_task \<Rightarrow> bool" where
  "waited tm lat s timeout = (\<lambda>(ok, s'). same_channel s s' \<and> task_time tm s \<le> task_time tm s' \<and>
     task_time tm s' \<le> task_time tm s + timeout + 2 + 4 * lat \<and> (\<not> ok \<longrightarrow> task_time tm s + timeout \<le> task_time tm s'))"

lemma waits_return:
  assumes B: "clock_runs B tm lat" and small: "unat timeout + 2 + 3 * lat < 2 ^ 32"
  shows "yields (waited tm lat s (unat timeout)) (wait_busy_low B timeout s)"
    and "yields (waited tm lat s (unat timeout)) (wait_dio1_high B timeout s)"
proof -
  obtain now s1 where 1: "board_now B s = (now, s1)" by fastforce
  have n: "now = of_nat (task_time tm s1)" "within_time tm lat (rk_world s) (rk_world s1)" "same_channel s s1"
    using now_step [OF B 1] by (auto, metis same_channel_refl same_channel_upd(1))
  have r: "yields (\<lambda>(ok, s'). same_channel s1 s' \<and> task_time tm s1 \<le> task_time tm s' \<and>
      task_time tm s' \<le> task_time tm s1 + unat timeout + 2 + 3 * lat \<and> (\<not> ok \<longrightarrow> task_time tm s1 + unat timeout \<le> task_time tm s'))
    (wait_pin B pin waiting (of_nat (task_time tm s1)) timeout s1)" for pin waiting
    by (intro wait_pin_returns [OF B small]) simp_all
  show "yields (waited tm lat s (unat timeout)) (wait_busy_low B timeout s)"
    "yields (waited tm lat s (unat timeout)) (wait_dio1_high B timeout s)"
    unfolding wait_busy_low_def wait_dio1_high_def 1 prod.case n(1)
    using n(2,3) by (auto simp: waited_def within_time_def intro!: yields_mono [OF r] intro: same_channel_trans)
qed

section \<open>Waiting for a local time\<close>

lemma time_reached_word:
  assumes "now < deadline + 2 ^ 31" "deadline < now + 2 ^ 31"
  shows "time_reached (of_nat now) (of_nat deadline) \<longleftrightarrow> deadline \<le> now"
proof -
  have w: "(of_nat now - of_nat deadline :: u32) = word_of_int (int now - int deadline)"
    by simp
  have "sint (word_of_int (int now - int deadline) :: u32) = int now - int deadline"
    unfolding sint_sbintrunc' using assms by (intro signed_take_bit_int_eq_self) simp_all
  then show ?thesis by (simp only: time_reached_def w) linarith
qed

lemma delay_until_returns:
  assumes B: "clock_runs B tm lat" and lat: "lat < 2 ^ 20"
  shows "deadline < task_time tm s + 2 ^ 30 \<Longrightarrow> task_time tm s < deadline + 2 ^ 30 \<Longrightarrow>
    yields (\<lambda>s'. same_channel s s' \<and> task_time tm s \<le> task_time tm s' \<and> deadline \<le> task_time tm s' \<and>
      task_time tm s' \<le> max (task_time tm s) (deadline + 2 * lat + 10) + lat)
    (delay_until_local_time B (of_nat deadline) s)"
proof (induction "deadline + 1 - task_time tm s" arbitrary: s rule: less_induct)
  case less
  obtain n1 s1 where 1: "board_now B s = (n1, s1)" by fastforce
  obtain n2 s2 where 2: "board_now B s1 = (n2, s2)" by fastforce
  have m1: "n1 = of_nat (task_time tm s1)" "within_time tm lat (rk_world s) (rk_world s1)" "same_channel s s1"
    using now_step [OF B 1] by (auto, metis same_channel_refl same_channel_upd(1))
  have m2: "n2 = of_nat (task_time tm s2)" "within_time tm lat (rk_world s1) (rk_world s2)" "same_channel s s2"
    using now_step [OF B 2] m1(3) by (auto, metis same_channel_upd(1))
  note w = m1(2) m2(2)
  have reached: "time_reached n1 (of_nat deadline) \<longleftrightarrow> deadline \<le> task_time tm s1"
    unfolding m1(1) using less.prems w lat by (intro time_reached_word) (auto simp: within_time_def)
  show ?case
  proof (cases "deadline \<le> task_time tm s1")
    case True
    then show ?thesis using 1 reached m1(2,3)
      by (auto simp: delay_until_local_time.simps [of B _ s] within_time_def)
  next
    case False
    define left where "left = (if of_nat deadline - n2 < (10 :: u32) then of_nat deadline - n2 else 10)"
    let ?s3 = "delay_ms B left s2"
    have l10: "unat left \<le> 10" by (simp add: left_def word_less_nat_alt)
    have ll: "unat left \<le> deadline - task_time tm s2" if "task_time tm s2 \<le> deadline"
    proof -
      have "unat (of_nat deadline - n2) = deadline - task_time tm s2"
        unfolding m2(1) using that less.prems w by (intro elapsed_word) (auto simp: within_time_def)
      then show ?thesis by (auto simp: left_def word_less_nat_alt)
    qed
    have d: "task_time tm s2 < task_time tm ?s3" "task_time tm ?s3 \<le> task_time tm s2 + unat left + lat"
      "same_channel s ?s3" using delay_step [OF B, where s = s2 and ms = left] m2(3) by simp_all
    have nxt: "task_time tm ?s3 \<le> deadline + 2 * lat + 10" "task_time tm s < task_time tm ?s3"
      using d w False l10 ll by (auto simp: within_time_def not_le)
    have rec: "delay_until_local_time B (of_nat deadline) s = delay_until_local_time B (of_nat deadline) ?s3"
      using False reached 1 2 by (simp add: delay_until_local_time.simps [of B _ s] left_def Let_def)
    have "yields (\<lambda>s'. same_channel ?s3 s' \<and> task_time tm ?s3 \<le> task_time tm s' \<and> deadline \<le> task_time tm s' \<and>
        task_time tm s' \<le> max (task_time tm ?s3) (deadline + 2 * lat + 10) + lat)
      (delay_until_local_time B (of_nat deadline) ?s3)"
      using nxt less.prems False w lat by (intro less.hyps) (auto simp: within_time_def)
    then show ?thesis unfolding rec using nxt d(3)
      by (auto elim!: yields_mono intro: same_channel_trans)
  qed
qed

section \<open>A ranging exchange ends with one report\<close>

text \<open>From \<open>s0\<close> to \<open>s\<close> at most \<open>k\<close> milliseconds have passed and the control channel was not used.\<close>

definition at_most :: "('w \<Rightarrow> nat) \<Rightarrow> 'w radio_task \<Rightarrow> nat \<Rightarrow> 'w radio_task \<Rightarrow> bool" where
  "at_most tm s0 k s \<longleftrightarrow> same_channel s0 s \<and> task_time tm s0 \<le> task_time tm s \<and> task_time tm s \<le> task_time tm s0 + k"

lemma at_most_upd [simp]:
  "at_most tm s0 k (s\<lparr>rk_log := g\<rparr>) = at_most tm s0 k s" "at_most tm s0 k (s\<lparr>rk_status := h\<rparr>) = at_most tm s0 k s"
  "at_most tm s0 k (s\<lparr>rk_published := h\<rparr>) = at_most tm s0 k s"
  "at_most tm s0 k (log_to level tag parts s) = at_most tm s0 k s"
  "at_most tm s0 k (publish_status ps s) = at_most tm s0 k s"
  by (simp_all add: at_most_def)

definition quick :: "('w \<Rightarrow> nat) \<Rightarrow> nat \<Rightarrow> ('w \<Rightarrow> 'a \<times> 'w) \<Rightarrow> bool" where
  "quick tm lat f \<longleftrightarrow> (\<forall>w. within_time tm lat w (snd (f w)))"

lemma clock_quick:
  assumes "clock_runs B tm lat"
  shows "quick tm lat (bd_now B)" "quick tm lat (bd_irq_status B)" "quick tm lat (bd_start_ranging B m a c)"
    "quick tm lat (bd_finish_ranging B)" "quick tm lat (bd_ranging_raw B)" "quick tm lat (bd_ranging_result B)"
    "quick tm lat (bd_rssi B)" "quick tm lat (bd_snr B)"
  using assms by (simp_all add: clock_runs_def quick_def)

lemma yields_call:
  assumes "at_most tm s0 k s" "quick tm lat f"
    and "\<And>s1. at_most tm s0 (k + lat) s1 \<Longrightarrow> yields P (g (fst (f (rk_world s))) s1)"
  shows "yields P (case board_call f s of (a, s1) \<Rightarrow> g a s1)"
proof -
  have "at_most tm s0 (k + lat) (s\<lparr>rk_world := snd (f (rk_world s))\<rparr>)"
    using assms(1) assms(2) [unfolded quick_def within_time_def, rule_format, of "rk_world s"]
    by (simp add: at_most_def)
  then show ?thesis using assms(3) by (simp add: board_call_def case_prod_beta)
qed

lemma clock_clear: "clock_runs B tm lat \<Longrightarrow> within_time tm lat w (bd_clear_irq B w)"
  by (simp add: clock_runs_def)

lemma yields_clear:
  "at_most tm s0 k s \<Longrightarrow> clock_runs B tm lat \<Longrightarrow> at_most tm s0 (k + lat) (board_do (bd_clear_irq B) s)"
  using clock_clear [of B tm lat "rk_world s"] by (simp add: at_most_def board_do_def within_time_def)

lemma yields_wait:
  assumes "clock_runs B tm lat" "unat timeout + 2 + 3 * lat < 2 ^ 32" "at_most tm s0 k s"
    and "\<And>ok s1. at_most tm s0 (k + unat timeout + 2 + 4 * lat) s1 \<Longrightarrow> yields P (g ok s1)"
  shows "yields P (wait_busy_low B timeout s \<bind> (\<lambda>(ok, s1). g ok s1))"
    and "yields P (wait_dio1_high B timeout s \<bind> (\<lambda>(ok, s1). g ok s1))"
proof -
  have "yields P (case x of (ok, s1) \<Rightarrow> g ok s1)" if "waited tm lat s (unat timeout) x" for x
  proof -
    have "at_most tm s0 (k + unat timeout + 2 + 4 * lat) (snd x)"
      using that assms(3) same_channel_trans [of s0 s "snd x"] by (auto simp: waited_def at_most_def split: prod.splits)
    then show ?thesis using assms(4) by (simp add: case_prod_beta)
  qed
  then show "yields P (wait_busy_low B timeout s \<bind> (\<lambda>(ok, s1). g ok s1))"
    "yields P (wait_dio1_high B timeout s \<bind> (\<lambda>(ok, s1). g ok s1))"
    using waits_return [OF assms(1,2), of s] by (auto intro: yields_bind)
qed

text \<open>The one event that reaches the core, in whatever state the other tasks have left it.\<close>

definition delivered :: "'w board \<Rightarrow> 'w radio_task \<Rightarrow> nav_event \<Rightarrow> 'w radio_task \<Rightarrow> bool" where
  "delivered B s e s' \<longleftrightarrow> (\<exists>w lines.
     control_handle_event (bd_libm B) (bd_line_junk B) (Some e) (bd_others B w (rk_control s))
       = Some (True, lines, rk_control s') \<and> rk_lines s' = rk_lines s @ lines)"

lemma range_record_total:
  assumes "length buf = 512"
  shows "\<exists>sent lines. emit_range_record buf (Some r) = Some (sent, lines)"
proof -
  have "json_ok (range_record_json r)" by (simp add: range_record_json_def numbers)
  then obtain b where "nav_serial_write_range_record buf 512 (Some r) = Some (b, int (length (json_text (range_record_json r))))"
    "c_string b = Some (take 511 (json_text (range_record_json r)))"
    using range_w.content [of 512 buf r] text_no_NUL assms by auto
  then show ?thesis by (auto simp: emit_range_record_def printed_record_def)
qed

lemma report_event_total:
  assumes "length buf = 512" "event_kind (ev_data e) = Report"
  shows "\<exists>lines st'. control_handle_event lm buf (Some e) st = Some (True, lines, st')"
proof -
  obtain nav where nav: "nav_core_handle_event lm (Some e) (ct_nav st) = Some nav"
    using core_report_total [OF assms(2)] by blast
  show ?thesis
  proof (cases "range_record_of (nc_node_id (ct_config st)) e")
    case (Some r)
    obtain sent lines where "emit_range_record buf (Some r) = Some (sent, lines)"
      using range_record_total [OF assms(1)] by blast
    then show ?thesis using nav Some by (simp add: control_handle_event_def)
  qed (simp add: control_handle_event_def nav)
qed

lemma inject_delivers:
  assumes "length (bd_line_junk B) = 512" "event_kind (ev_data e) = Report"
  shows "yields (\<lambda>(ok, s'). delivered B s e s' \<and> rk_world s' = rk_world s \<and> rk_tdma s' = rk_tdma s \<and>
      rk_debug s' = rk_debug s \<and> rk_request_id s' = rk_request_id s) (inject_event B e s)"
proof -
  obtain lines st where "control_handle_event (bd_libm B) (bd_line_junk B) (Some e) (rk_control (others_run B s)) = Some (True, lines, st)"
    using report_event_total [OF assms] by blast
  then show ?thesis by (auto simp: inject_event_def Let_def delivered_def others_run_def)
qed

text \<open>The exchange from \<open>s0\<close> has ended in \<open>s\<close> with the event \<open>e\<close>.\<close>

definition ended :: "'w board \<Rightarrow> ('w \<Rightarrow> nat) \<Rightarrow> 'w radio_task \<Rightarrow> nat \<Rightarrow> (nav_event \<Rightarrow> bool) \<Rightarrow> 'w radio_task \<Rightarrow> bool" where
  "ended B tm s0 k R s \<longleftrightarrow> (\<exists>e. R e \<and> delivered B s0 e s) \<and> task_time tm s \<le> task_time tm s0 + k \<and>
     rk_request_id s = rk_request_id s0 \<and> rk_tdma s = rk_tdma s0"

lemma inject_ends:
  assumes "length (bd_line_junk B) = 512" "event_kind (ev_data e) = Report" "R e" "at_most tm s0 k s"
  shows "yields (\<lambda>x. ended B tm s0 k R (snd x)) (inject_event B e s)"
  using assms(3,4) by (auto simp: ended_def delivered_def at_most_def same_channel_def
      intro!: yields_mono [OF inject_delivers [OF assms(1,2)]])

lemma at_most_le: "at_most tm s0 k s \<Longrightarrow> k \<le> k' \<Longrightarrow> at_most tm s0 k' s"
  by (simp add: at_most_def)

lemma ended_le: "ended B tm s0 k R s \<Longrightarrow> k \<le> k' \<Longrightarrow> ended B tm s0 k' R s"
  by (auto simp: ended_def)

definition range_failure :: "u8 \<Rightarrow> u16 \<Rightarrow> nav_event \<Rightarrow> bool" where
  "range_failure peer r e \<longleftrightarrow> (\<exists>now reason. e = range_fail_event now peer r reason)"

definition range_success :: "u8 \<Rightarrow> u16 \<Rightarrow> nav_event \<Rightarrow> bool" where
  "range_success peer r e \<longleftrightarrow> (\<exists>now mm rssi snr. e = range_result_event now peer r mm rssi snr True)"

lemma failure_logged:
  assumes B: "clock_runs B tm lat" and s: "at_most tm s0 k s"
  shows "yields (at_most tm s0 (k + lat)) (log_master_failure B m p r n err reason note False s)"
  unfolding log_master_failure_def by (rule yields_call [OF s clock_quick(2) [OF B]]) (simp add: Let_def)

lemma failure_injected:
  assumes B: "clock_runs B tm lat" "length (bd_line_junk B) = 512" and s: "at_most tm s0 k s"
  shows "yields (ended B tm s0 (k + lat) (\<lambda>e. range_failure p r e \<or> R e)) (inject_range_fail B p r reason s)"
  unfolding inject_range_fail_def board_now_def
proof (rule yields_call [OF s clock_quick(1) [OF B(1)]])
  fix s1
  assume "at_most tm s0 (k + lat) s1"
  then show "yields (ended B tm s0 (k + lat) (\<lambda>e. range_failure p r e \<or> R e))
    (map_option snd (inject_event B (range_fail_event (fst (bd_now B (rk_world s))) p r reason) s1))"
    unfolding yields_simps by (intro inject_ends [OF B(2)]) (auto simp: range_fail_event_def range_failure_def)
qed

lemma fail_exchange_ends:
  assumes B: "clock_runs B tm lat" "length (bd_line_junk B) = 512" and s: "at_most tm s0 k s"
  shows "yields (ended B tm s0 (k + 3 * lat) (\<lambda>e. range_failure p r e \<or> R e))
    (fail_exchange B m p r started err reason note False s)"
  unfolding fail_exchange_def board_now_def Let_def
proof (rule yields_call [OF s clock_quick(1) [OF B(1)]])
  fix s1 :: "'a radio_task" and n
  assume "at_most tm s0 (k + lat) s1"
  from failure_logged [OF B(1) this]
  have "yields (ended B tm s0 (k + lat + lat + lat) (\<lambda>e. range_failure p r e \<or> R e))
    (log_master_failure B m p r n err reason note False s1 \<bind> inject_range_fail B p r reason)" for n
    by (rule yields_bind) (rule failure_injected [OF B])
  then show "yields (ended B tm s0 (k + 3 * lat) (\<lambda>e. range_failure p r e \<or> R e))
    (log_master_failure B m p r (fst (bd_now B (rk_world s)) - started) err reason note False s1 \<bind> inject_range_fail B p r reason)"
    by (simp add: eval_nat_numeral add.assoc)
qed

text \<open>The values of the driver fit the firmware's integers.\<close>

definition driver_in_range :: "'w board \<Rightarrow> bool" where
  "driver_in_range B \<longleftrightarrow> (\<forall>w. lround_i16 (fst (bd_rssi B w)) \<noteq> None) \<and> (\<forall>w. lround_i16 (fst (bd_snr B w)) \<noteq> None) \<and>
     (\<forall>w. let r = fst (bd_ranging_result B w) in fp_isfinite r \<longrightarrow> fp_lt (Fin 0) r \<longrightarrow>
       lround (fp_mul binary32 r (Fin 1000)) \<noteq> None)"

lemma result_injected:
  assumes B: "clock_runs B tm lat" "length (bd_line_junk B) = 512" and s: "at_most tm s0 k s"
  shows "yields (ended B tm s0 (k + lat) (\<lambda>e. range_failure p r e \<or> range_success p r e))
    (inject_range_result B p r mm rssi snr True s)"
  unfolding inject_range_result_def board_now_def
proof (rule yields_call [OF s clock_quick(1) [OF B(1)]])
  fix s1
  assume "at_most tm s0 (k + lat) s1"
  then show "yields (ended B tm s0 (k + lat) (\<lambda>e. range_failure p r e \<or> range_success p r e))
    (map_option snd (inject_event B (range_result_event (fst (bd_now B (rk_world s))) p r mm rssi snr True) s1))"
    unfolding yields_simps by (intro inject_ends [OF B(2)]) (auto simp: range_result_event_def range_success_def)
qed

lemma finish_exchange_ends:
  assumes B: "clock_runs B tm lat" "length (bd_line_junk B) = 512" "driver_in_range B" and s: "at_most tm s0 k s"
  shows "yields (ended B tm s0 (k + 6 * lat) (\<lambda>e. range_failure p r e \<or> range_success p r e))
    (finish_exchange B m p r started irq False s)"
  unfolding finish_exchange_def board_now_def Let_def
proof (rule yields_call [OF s clock_quick(5) [OF B(1)]], rule yields_call [OF _ clock_quick(6) [OF B(1)]], assumption,
    rule yields_call [OF _ clock_quick(7) [OF B(1)]], assumption, rule yields_call [OF _ clock_quick(8) [OF B(1)]], assumption,
    goal_cases)
  case (1 s1 s2 s3 s4)
  let ?r = "fst (bd_ranging_result B (rk_world s1))"
  let ?valid = "fp_isfinite ?r \<and> fp_lt (Fin 0) ?r"
  obtain mm where mm: "(if ?valid then map_option word_of_int (lround (fp_mul binary32 ?r (Fin 1000))) else Some 0) = Some (mm :: u32)"
    using B(3) by (cases ?valid) (auto simp: driver_in_range_def Let_def)
  obtain rssi snr where v: "lround_i16 (fst (bd_rssi B (rk_world s2))) = Some rssi"
    "lround_i16 (fst (bd_snr B (rk_world s3))) = Some snr"
    using B(3) unfolding driver_in_range_def by (meson not_None_eq)
  show ?case
    unfolding mm bind.simps
  proof (rule yields_call [OF 1(4) clock_quick(1) [OF B(1)]], goal_cases)
    case (1 s5)
    then have s5: "at_most tm s0 (k + lat + lat + lat + lat + lat) s5" by simp
    have fail: "yields (ended B tm s0 (k + 6 * lat) (\<lambda>e. range_failure p r e \<or> range_success p r e))
        (inject_range_fail B p r reason (log_to a b c s5))" for reason a b c
      using failure_injected [OF B(1,2), of s0 "k + lat + lat + lat + lat + lat" "log_to a b c s5"] s5
      by (simp add: eval_nat_numeral add.assoc)
    have ok: "yields (ended B tm s0 (k + 6 * lat) (\<lambda>e. range_failure p r e \<or> range_success p r e))
        (inject_range_result B p r mm rssi snr True (log_to a b c (publish_status h (s5\<lparr>rk_status := g\<rparr>))))" for a b c h g
      using result_injected [OF B(1,2), of s0 "k + lat + lat + lat + lat + lat" "log_to a b c (publish_status h (s5\<lparr>rk_status := g\<rparr>))"] s5
      by (simp add: eval_nat_numeral add.assoc)
    note fail ok v
    show ?case
      by (cases ?valid) (simp_all add: fail ok v)
  qed
qed


lemma yields_clear_call:
  assumes "at_most tm s0 k s" "clock_runs B tm lat" "quick tm lat f"
    and "\<And>s1. at_most tm s0 (k + 2 * lat) s1 \<Longrightarrow> yields P (g (fst (f (bd_clear_irq B (rk_world s)))) s1)"
  shows "yields P (case board_call f (board_do (bd_clear_irq B) s) of (a, s1) \<Rightarrow> g a s1)"
proof (rule yields_call [OF yields_clear [OF assms(1,2)] assms(3)])
  fix s1
  assume "at_most tm s0 (k + lat + lat) s1"
  then show "yields P (g (fst (f (rk_world (board_do (bd_clear_irq B) s)))) s1)"
    using assms(4) [of s1] by (simp add: board_do_def mult_2 add.assoc)
qed

lemma yields_if: "(c \<Longrightarrow> yields P a) \<Longrightarrow> (\<not> c \<Longrightarrow> yields P b) \<Longrightarrow> yields P (if c then a else b)"
  by simp

lemma exchange_ends:
  assumes B: "clock_runs B tm lat" "lat < 2 ^ 20" "length (bd_line_junk B) = 512" "driver_in_range B"
  shows "yields (\<lambda>s'. ended B tm (s\<lparr>rk_request_id := rk_request_id s + 1\<rparr>) (1254 + 20 * lat)
      (\<lambda>e. range_failure p (rk_request_id s + 1) e \<or> range_success p (rk_request_id s + 1) e) s')
    (run_master_exchange B m p False s)"
proof -
  define r where "r = rk_request_id s + 1"
  define s0 where "s0 = s\<lparr>rk_request_id := r\<rparr>"
  let ?G = "ended B tm s0 (1254 + 20 * lat) (\<lambda>e. range_failure p r e \<or> range_success p r e)"
  note small = B(2)
  have fail: "yields ?G (fail_exchange B m p r started err reason nt False t)"
    if "at_most tm s0 (1254 + 17 * lat) t" for started err reason nt t
    using fail_exchange_ends [OF B(1,3) that, of p r "range_success p r" m started err reason nt]
    by (simp add: add.assoc)
  have finish: "yields ?G (finish_exchange B m p r started irq False t)"
    if "at_most tm s0 (1254 + 14 * lat) t" for started irq t
    using finish_exchange_ends [OF B(1,3,4) that, of p r m started irq] by (simp add: add.assoc)
  have start: "at_most tm s0 0 s0" by (simp add: at_most_def)
  show ?thesis
    unfolding run_master_exchange_def Let_def r_def [symmetric] s0_def [symmetric] board_now_def
  proof (rule yields_call [OF start clock_quick(1) [OF B(1)]], goal_cases)
  case (1 s1)
  then have s1: "at_most tm s0 lat (publish_status Health_Warn (s1\<lparr>rk_status := h\<rparr>))" for h by simp
  show ?case
  proof (rule yields_wait(1) [OF B(1) _ s1], goal_cases)
    case 1
    then show ?case using small by simp
  next
    case (2 ready s2)
    note s2 = 2
    show ?case
    proof (rule yields_if, goal_cases)
      case 1
      then show ?case using fail [OF at_most_le [OF s2]] by simp
    next
      case 2
      show ?case
      proof (rule yields_clear_call [OF s2 B(1) clock_quick(3) [OF B(1)]], rule yields_if, goal_cases)
        case (1 s3)
        show ?case
          by (rule yields_call [OF 1(1) clock_quick(4) [OF B(1)]]) (auto intro!: fail elim!: at_most_le)
      next
        case (2 s3)
        show ?case
        proof (rule yields_wait(2) [OF B(1) _ 2(1)], goal_cases)
          case 1
          then show ?case using small by simp
        next
          case (2 raised s4)
          note s4 = 2
          show ?case
          proof (rule yields_if, goal_cases)
            case 1
            show ?case
              by (rule yields_call [OF s4 clock_quick(4) [OF B(1)]]) (auto intro!: fail elim!: at_most_le)
          next
            case 2
            show ?case
              by (rule yields_call [OF s4 clock_quick(2) [OF B(1)]], rule yields_call [OF _ clock_quick(4) [OF B(1)]], assumption)
                (auto intro!: fail finish elim!: at_most_le)
          qed
        qed
      qed
    qed
  qed
  qed
qed


text \<open>C11: A ranging exchange always ends, and with one report: on a board whose clock runs it returns within
  1254 ms and twenty call latencies, the request id has gone up by one, and the core has received exactly one
  event from it, a valid range or a failure, with that request id and the ranged peer.\<close>

theorem exchange_reports_once:
  assumes "clock_runs B tm lat" "lat < 2 ^ 20" "length (bd_line_junk B) = 512" "driver_in_range B"
  shows "\<exists>s' e w lines. run_master_exchange B m p False s = Some s' \<and>
    task_time tm s' \<le> task_time tm s + 1254 + 20 * lat \<and> rk_request_id s' = rk_request_id s + 1 \<and>
    rk_tdma s' = rk_tdma s \<and>
    ((\<exists>now mm rssi snr. e = range_result_event now p (rk_request_id s + 1) mm rssi snr True) \<or>
     (\<exists>now reason. e = range_fail_event now p (rk_request_id s + 1) reason)) \<and>
    control_handle_event (bd_libm B) (bd_line_junk B) (Some e) (bd_others B w (rk_control s))
      = Some (True, lines, rk_control s') \<and> rk_lines s' = rk_lines s @ lines"
  using exchange_ends [OF assms, of s p m] unfolding yields_def ended_def delivered_def range_failure_def range_success_def
  by force

text \<open>The wait for a busy radio is not bounded by the slot: while BUSY stays high the exchange goes on for a second.\<close>

lemma busy_outlasts_slot:
  assumes "clock_runs B tm lat" "lat < 2 ^ 20" "\<And>w. fst (bd_gpio_get B (bd_busy_pin B) w) \<noteq> 0"
    and "0 \<le> bd_busy_pin B" "bd_busy_pin B < bd_gpio_max B"
  shows "yields (\<lambda>(ok, s'). \<not> ok \<and> task_time tm s + 1000 \<le> task_time tm s') (wait_busy_low B 1000 s)"
proof -
  have "\<not> ok" if "wait_pin B (bd_busy_pin B) (\<lambda>level. level \<noteq> 0) n t s = Some (ok, s')" for n t s s' ok
  proof -
    have "B = B \<longrightarrow> bd_busy_pin B = bd_busy_pin B \<longrightarrow> (\<lambda>level :: int. level \<noteq> 0) = (\<lambda>level. level \<noteq> 0) \<longrightarrow> \<not> fst (ok, s')"
      by (rule wait_pin.raw_induct [where P = "\<lambda>C pin waiting n t s r. C = B \<longrightarrow> pin = bd_busy_pin B \<longrightarrow>
          waiting = (\<lambda>level. level \<noteq> 0) \<longrightarrow> \<not> fst r", OF _ that])
        (use assms(3-5) in \<open>auto simp: case_prod_beta read_pin_def board_call_def split: if_splits\<close>)
    then show ?thesis by simp
  qed
  then have "\<And>r. wait_busy_low B 1000 s = Some r \<Longrightarrow> \<not> fst r"
    by (simp add: wait_busy_low_def case_prod_beta) (metis prod.collapse)
  moreover have "unat (1000 :: u32) + 2 + 3 * lat < 2 ^ 32" using assms(2) by simp
  ultimately show ?thesis using waits_return(1) [OF assms(1), of 1000 s]
    by (fastforce simp: yields_def waited_def)
qed

end
