(* ===== verification/Radio_Sync.thy ===== *)
theory Radio_Sync
  imports Radio_Clock
begin

text \<open>
  The common slot clock: what a timing heartbeat of the authority does to a follower, and where in the
  authority's slot a follower's ranging exchange lies.
\<close>

section \<open>The fixed plan\<close>

lemma fixed_schedule_facts [simp]:
  "tdma_wf (fixed_schedule i)" "td_member_count (fixed_schedule i) = 4" "td_slot_ms (fixed_schedule i) = 500"
  "nav_tdma_slots_per_frame (fixed_schedule i) = 10" "td_members (fixed_schedule i) = [0, 1, 2, 3]"
  "td_local_node_id (fixed_schedule i) = i"
  by (simp_all add: fixed_schedule_def tdma_wf_def nav_tdma_slots_per_frame_def pair_count_def)

lemma fixed_action:
  assumes "nav_tdma_action_at (fixed_schedule i) now = Some (st, a)"
  shows "act_slot_start_ms a = now div 500 * 500" "act_slot_end_ms a = now div 500 * 500 + 500"
    "act_frame_index a = now div 500 div 10" "act_slot_index a = now div 500 mod 10" "st = NAV_STATUS_OK"
    "action_view (fixed_schedule i) now a"
proof -
  have "act_slot_start_ms a = now div 500 * 500 \<and> act_slot_end_ms a = now div 500 * 500 + 500 \<and>
    act_frame_index a = now div 500 div 10 \<and> act_slot_index a = now div 500 mod 10"
    using assms by (auto simp: nav_tdma_action_at_def Let_def bind_eq_Some_conv split: if_splits)
  then show "act_slot_start_ms a = now div 500 * 500" "act_slot_end_ms a = now div 500 * 500 + 500"
    "act_frame_index a = now div 500 div 10" "act_slot_index a = now div 500 mod 10" by blast+
  show "st = NAV_STATUS_OK" "action_view (fixed_schedule i) now a"
    using action_at_view [of "fixed_schedule i" now] assms by auto
qed

lemma absolute_slot:
  "nav_tdma_action_at (fixed_schedule i) now = Some (st, a) \<Longrightarrow> tdma_absolute_slot (fixed_schedule i) a = now div 500"
  using fixed_action(3,4) [of i now st a] div_mult_mod_eq [of "now div 500" 10]
  by (simp add: tdma_absolute_slot_def)

section \<open>Synchronisation\<close>

lemma ucast_small:
  "unat (x :: u32) < 2 ^ LENGTH('a) \<Longrightarrow> (ucast (ucast x :: 'a::len word) :: u32) = x"
  by (simp add: word_unat_eq_iff unsigned_ucast_eq unsigned_take_bit_eq take_bit_nat_eq_self_iff)

lemma heartbeat_at_body:
  "nav_telemetry_decode_heartbeat (Some ((body_frame NAV_RADIO_MSG_HEARTBEAT seq (heartbeat_body h))
     \<lparr>fr_payload := Some (heartbeat_body h @ rest)\<rparr>)) h0 = Some (NAV_STATUS_OK, h)"
  by (simp add: nav_telemetry_decode_heartbeat_def get_laws body_frame_def) (simp add: heartbeat_body_def enc_laws)

text \<open>A frame arrives in the receiver's array with zeros behind it.\<close>

lemma deliver_padded:
  assumes "nav_radio_encode_frame (Some (body_frame type seq body)) out cap n0 = Some (NAV_STATUS_OK, sent, n)"
    and "cap \<le> length out" "msg_w.on_wire type" "n \<le> kRangeReportPayloadMax"
  shows "\<exists>rest. nav_radio_decode_frame (Some (received_payload (take n sent) n)) n frame_local =
    Some (NAV_STATUS_OK, (body_frame type seq body)\<lparr>fr_payload := Some (body @ rest)\<rparr>)"
proof -
  let ?F = "body_frame type seq body" and ?z = "replicate (kRangeReportPayloadMax - n) (0 :: u8)"
  note enc = encode_OK_D [OF body_frame_ok assms(2,1)]
  then have "take n sent = frame_bytes ?F" "length (frame_bytes ?F) = n"
    using length_frame_bytes [OF body_frame_ok] by simp_all
  then have "received_payload (take n sent) n = frame_bytes ?F @ ?z" by (simp add: received_payload_def)
  then show ?thesis
    using decode_frame_bytes [OF body_frame_ok, of type seq body ?z frame_local] enc assms(3)
    by (auto simp: body_frame_def payload_bytes_def msg_w.byte_round_trip frame_local_def
        simp del: uint_word_of_int)
qed

text \<open>The authority's heartbeat names the time it was built at.\<close>

lemma heartbeat_time:
  assumes "nav_tdma_action_at (fixed_schedule 0) t0 = Some (st, a)" "runtime_for 0 TA"
    and "ta - act_slot_start_ms a < 500"
  defines "t \<equiv> heartbeat_timing (timing_heartbeat TA a ta)"
  shows "nav_tdma_validate_timing_heartbeat (fixed_schedule i) (Some t) = Some NAV_STATUS_OK"
    and "authority_time_ms (fixed_schedule i) t = ta + 100"
proof -
  note f = fixed_action [OF assms(1)]
  have start: "tdma_local_slot_start TA a = act_slot_start_ms a"
    using assms(2) by (simp add: tdma_local_slot_start_def runtime_for_def)
  have k: "act_slot_index a < 10" by (simp add: f(4) word_mod_less_divisor)
  then have slot: "th_slot_index t = act_slot_index a"
    by (simp add: t_def heartbeat_timing_def timing_heartbeat_def Let_def ucast_small word_less_nat_alt)
  have el: "(ucast (th_slot_elapsed_ms t) :: u32) = ta - act_slot_start_ms a"
    using assms(3) by (simp add: t_def heartbeat_timing_def timing_heartbeat_def Let_def start ucast_small word_less_nat_alt)
  have "th_slot_elapsed_ms t < 500"
  proof -
    have "unat (ucast (th_slot_elapsed_ms t) :: u32) < 500" using assms(3) by (simp add: el word_less_nat_alt)
    moreover have "take_bit 32 (unat (th_slot_elapsed_ms t)) = unat (th_slot_elapsed_ms t)"
      by (rule take_bit_nat_eq_self) (use unsigned_less [of "th_slot_elapsed_ms t", where 'a = nat] in simp)
    ultimately show ?thesis by (simp add: word_less_nat_alt unsigned_ucast_eq)
  qed
  moreover have rest: "th_authority_id t = 0" "th_slot_ms t = 500" "th_frame_index t = act_frame_index a"
    using assms(2) by (simp_all add: t_def heartbeat_timing_def timing_heartbeat_def Let_def runtime_for_def)
  ultimately show "nav_tdma_validate_timing_heartbeat (fixed_schedule i) (Some t) = Some NAV_STATUS_OK"
    using validate_heartbeat_iff [of "fixed_schedule i" t] k by (simp add: slot)
  have "act_frame_index a * 10 + act_slot_index a = t0 div 500"
    using absolute_slot [OF assms(1)] by (simp add: tdma_absolute_slot_def)
  then show "authority_time_ms (fixed_schedule i) t = ta + 100"
    by (simp add: authority_time_ms_def Let_def rest slot el f(1))
qed


text \<open>C12: A heartbeat synchronises the slot clocks: when the authority builds its timing heartbeat at its time
  \<open>ta\<close> in the slot of its action, encodes and sends it, a follower that receives the frame takes \<open>ta + 100\<close>
  for the authority's time at that moment, and its slot clock runs on from there, exactly for the next 15
  seconds; the navigation core is not touched.\<close>

theorem heartbeat_synchronises:
  assumes "runtime_for 0 TA" and "nav_tdma_action_at (rt_schedule TA) t0 = Some (NAV_STATUS_OK, a)"
    and "ta - act_slot_start_ms a < 500"
    and "nav_telemetry_encode_heartbeat junk (Some (timing_heartbeat TA a ta)) seq out cap n0 = Some (NAV_STATUS_OK, sent, n)"
    and "cap \<le> length out" and "runtime_for i (rk_tdma s)" and "i \<noteq> 0"
  shows "\<exists>s'. dispatch_typed_report B (received_payload (take n sent) n) n i rssi snr s = Some s' \<and>
    rk_control s' = rk_control s \<and> runtime_for i (rk_tdma s') \<and>
    (\<forall>k. tdma_aligned_now (rk_tdma s') (fst (board_now B s) + k) = ta + 100 + k \<and>
      tdma_has_authority_timing (rk_tdma s') (fst (board_now B s) + k) = (k \<le> 15000))"
proof -
  let ?h = "timing_heartbeat TA a ta"
  obtain now s1 where now: "board_now B s = (now, s1)" by fastforce
  have s1: "rk_tdma s1 = rk_tdma s" "rk_control s1 = rk_control s"
    using now by (auto simp: board_now_def board_call_def split: prod.splits)
  have enc: "nav_radio_encode_frame (Some (body_frame NAV_RADIO_MSG_HEARTBEAT seq (heartbeat_body ?h))) out cap n0
      = Some (NAV_STATUS_OK, sent, n)" using assms(4) by (simp add: encode_heartbeat_eq)
  have "n \<le> 224" using encode_OK_D [OF body_frame_ok assms(5) enc] by (simp add: body_frame_def)
  then obtain rest where d: "nav_radio_decode_frame (Some (received_payload (take n sent) n)) n frame_local =
      Some (NAV_STATUS_OK, (body_frame NAV_RADIO_MSG_HEARTBEAT seq (heartbeat_body ?h))\<lparr>fr_payload := Some (heartbeat_body ?h @ rest)\<rparr>)"
    using deliver_padded [OF enc assms(5)] by auto
  have a: "nav_tdma_action_at (fixed_schedule 0) t0 = Some (NAV_STATUS_OK, a)"
    using assms(1,2) by (simp add: runtime_for_def)
  note time = heartbeat_time [OF a assms(1,3), of i]
  have sch: "rt_schedule (rk_tdma s) = fixed_schedule i" "rt_local_node_id (rk_tdma s) = i"
    using assms(6) by (simp_all add: runtime_for_def)
  have type: "fr_type (body_frame NAV_RADIO_MSG_HEARTBEAT seq (heartbeat_body ?h)) = NAV_RADIO_MSG_HEARTBEAT"
    by (simp add: body_frame_def)
  have "dispatch_typed_report B (received_payload (take n sent) n) n i rssi snr s = Some (log_tdma_authority ''authority_sync'' now ''ok''
      (Some (heartbeat_timing ?h)) (s1\<lparr>rk_tdma := (rk_tdma s)\<lparr>rt_epoch_local_ms := now - (ta + 100),
        rt_last_authority_heartbeat_ms := now, rt_authority_synced := True, rt_waiting_logged := False\<rparr>\<rparr>))"
    using assms(7) now s1 by (simp add: dispatch_typed_report_def d type handle_heartbeat_frame_def heartbeat_at_body time sch Let_def)
  then show ?thesis
    using now s1 sch assms(7)
    by (simp add: log_tdma_authority_def log_to_def Let_def tdma_aligned_now_def tdma_has_authority_timing_def
        runtime_for_def nav_tdma_authority_expired_def linorder_not_less algebra_simps)
qed

section \<open>A ranging exchange in the authority's slot\<close>

lemma local_slot_times:
  assumes "nav_tdma_action_at (fixed_schedule i) (tdma_aligned_now T now) = Some (st, a)" "runtime_for i T"
  shows "tdma_local_slot_start T a = now - tdma_aligned_now T now mod 500"
    and "tdma_local_slot_end T a = now - tdma_aligned_now T now mod 500 + 500"
proof -
  let ?x = "tdma_aligned_now T now"
  have "?x div 500 * 500 = ?x - ?x mod 500" by (simp add: minus_mod_eq_div_mult)
  then show "tdma_local_slot_start T a = now - ?x mod 500" "tdma_local_slot_end T a = now - ?x mod 500 + 500"
    using fixed_action(1,2) [OF assms(1)] assms(2)
    by (simp_all add: tdma_local_slot_start_def tdma_local_slot_end_def tdma_aligned_now_def runtime_for_def)
qed


lemma fixed_slot_at: "slot_at (fixed_schedule i) x = unat x div 500 mod 10"
  by (simp add: slot_at_def)

lemma same_slot_action:
  assumes a: "nav_tdma_action_at (fixed_schedule i) y = Some (st, a)" "act_type a = NAV_TDMA_RANGE_PEER"
    and x: "unat x div 500 = unat y div 500" "unat x mod 500 + 250 \<le> 500"
  shows "\<exists>b. nav_tdma_action_at (fixed_schedule 0) x = Some (NAV_STATUS_OK, b) \<and>
    act_frame_index b = act_frame_index a \<and> act_slot_index b = act_slot_index a \<and> act_from_id b = i \<and>
    act_to_id b = act_peer_id a \<and> 250 \<le> unat (act_remaining_ms b)"
proof -
  obtain b where b: "nav_tdma_action_at (fixed_schedule 0) x = Some (NAV_STATUS_OK, b)"
    using action_at_view [of "fixed_schedule 0" x] by auto
  note va = fixed_action [OF a(1)] and vb = fixed_action [OF b]
  obtain src dst where job: "schedule [0, 1, 2, 3] ! (unat y div 500 mod 10) = (src, dst)" by fastforce
  have q: "x div 500 = y div 500" using x(1) by (simp add: word_unat_eq_iff unat_div)
  have "act_from_id a = src" "src = i" "act_peer_id a = dst" "act_from_id b = src" "act_to_id b = dst"
    using va(6) vb(6) a(2) job x(1) by (auto simp: action_view_def fixed_slot_at Let_def split: if_splits)
  moreover have "act_remaining_ms b = 500 - x mod 500"
    using action_view_remaining [OF vb(6)] by simp
  moreover have "250 \<le> unat (500 - x mod 500 :: u32)"
    using remaining_500 [of 250 x] x(2) by (simp add: word_le_nat_alt)
  ultimately show ?thesis using b va(3,4) vb(3,4) q by auto
qed

lemma word_ahead:
  assumes "unat (x :: u32) + d < 2 ^ 32"
  shows "unat (x + of_nat d) = unat x + d"
  using assms by (simp add: unat_word_ariths unat_of_nat)

text \<open>C17: The exchange that a ranging master starts lies in its slot on the authority's clock: a node that picks a
  ranging slot in time waits, on a board whose clock runs, until 180 ms into the slot on its own slot clock, and if
  that clock is ahead of the authority's by at most 180 ms and behind by at most 60 ms less three call
  latencies, the authority is then in the same slot of the same frame, sees the same pair of nodes, and has
  at least the 250 ms left that the exchange may take.\<close>

theorem ranging_in_authority_slot:
  assumes B: "clock_runs B tm lat" "lat < 2 ^ 20"
    and T: "runtime_for i (rk_tdma s)"
    and a: "nav_tdma_action_at (rt_schedule (rk_tdma s)) (tdma_aligned_now (rk_tdma s) (of_nat n0)) = Some (NAV_STATUS_OK, a)"
      "act_type a = NAV_TDMA_RANGE_PEER" "nav_tdma_action_can_start (Some a)"
    and n0: "n0 \<le> task_time tm s" "task_time tm s \<le> n0 + 100" "500 \<le> n0"
    and wrap: "unat (tdma_aligned_now (rk_tdma s) (of_nat n0)) + 1000 + 3 * lat < 2 ^ 32"
  shows "\<exists>s'. delay_until_local_time B (tdma_local_slot_start (rk_tdma s) a + kRangingMasterStartGuardMs) s = Some s' \<and>
    rk_tdma s' = rk_tdma s \<and> rk_control s' = rk_control s \<and>
    (\<forall>x e. int (unat (tdma_aligned_now (rk_tdma s') (of_nat (task_time tm s')))) = int (unat x) + e \<and>
       3 * int lat - 60 \<le> e \<and> e \<le> 180 \<longrightarrow>
       (\<exists>b. nav_tdma_action_at (fixed_schedule 0) x = Some (NAV_STATUS_OK, b) \<and>
         act_frame_index b = act_frame_index a \<and> act_slot_index b = act_slot_index a \<and> act_from_id b = i \<and>
         act_to_id b = act_peer_id a \<and> 250 \<le> unat (act_remaining_ms b)))"
proof -
  define y where "y = tdma_aligned_now (rk_tdma s) (of_nat n0)"
  define m where "m = unat y mod 500"
  let ?D = "n0 - m + 180"
  have sch: "rt_schedule (rk_tdma s) = fixed_schedule i" using T by (simp add: runtime_for_def)
  have act: "nav_tdma_action_at (fixed_schedule i) y = Some (NAV_STATUS_OK, a)" using a(1) by (simp add: sch y_def)
  have "act_remaining_ms a \<ge> 450" using a(2,3) by (simp add: nav_tdma_action_can_start_def)
  then have m: "m \<le> 50"
    using action_view_remaining [OF fixed_action(6) [OF act]] remaining_500 [of 450 y] by (simp add: m_def)
  have "of_nat m = y mod 500" by (simp add: m_def word_unat_eq_iff unat_mod unat_of_nat)
  then have D: "tdma_local_slot_start (rk_tdma s) a + kRangingMasterStartGuardMs = of_nat ?D"
    using local_slot_times(1) [OF act [unfolded y_def] T] m n0(3) by (simp add: y_def of_nat_diff)
  have d: "?D < task_time tm s + 2 ^ 30" "task_time tm s < ?D + 2 ^ 30" using n0 m by simp_all
  obtain s' where s': "delay_until_local_time B (of_nat ?D) s = Some s'" "same_channel s s'" "?D \<le> task_time tm s'"
    "task_time tm s' \<le> max (task_time tm s) (?D + 2 * lat + 10) + lat"
    using delay_until_returns [OF B d] by (auto simp: yields_def)
  have u: "n0 \<le> task_time tm s'" "task_time tm s' \<le> ?D + 3 * lat + 10" using s'(3,4) n0 m by linarith+
  let ?z = "tdma_aligned_now (rk_tdma s') (of_nat (task_time tm s'))"
  have "?z = y + of_nat (task_time tm s' - n0)"
    using u(1) s'(2) T by (simp add: y_def tdma_aligned_now_def same_channel_def of_nat_diff)
  then have z: "unat ?z = unat y + (task_time tm s' - n0)"
    using word_ahead [of y "task_time tm s' - n0"] u(2) wrap m by (simp add: y_def)
  have "unat y = 500 * (unat y div 500) + m" by (simp add: m_def)
  then have zz: "500 * (unat y div 500) + 180 \<le> unat ?z" "unat ?z \<le> 500 * (unat y div 500) + 190 + 3 * lat"
    using z u s'(3) m n0 by linarith+
  have "\<exists>b. nav_tdma_action_at (fixed_schedule 0) x = Some (NAV_STATUS_OK, b) \<and>
      act_frame_index b = act_frame_index a \<and> act_slot_index b = act_slot_index a \<and> act_from_id b = i \<and>
      act_to_id b = act_peer_id a \<and> 250 \<le> unat (act_remaining_ms b)"
    if "int (unat ?z) = int (unat x) + e" "3 * int lat - 60 \<le> e" "e \<le> 180" for x e
  proof (rule same_slot_action [OF act a(2)])
    have x: "500 * (unat y div 500) \<le> unat x" "unat x + 250 \<le> 500 * (unat y div 500) + 500"
      using that zz by linarith+
    from x have q: "unat x div 500 = unat y div 500" by (intro div_nat_eqI) simp_all
    moreover have "unat x = 500 * (unat x div 500) + unat x mod 500" by simp
    ultimately show "unat x div 500 = unat y div 500" "unat x mod 500 + 250 \<le> 500"
      using x by linarith+
  qed
  then show ?thesis using s'(1,2) D by (auto simp: same_channel_def)
qed

end
