(* ===== verification/Radio_Slave.thy ===== *)
theory Radio_Slave
  imports Radio_Sync
begin

text \<open>
  Who learns a distance: in the fixed plan a node starts exchanges with peers of a higher id only, and the
  part of the addressed slave leaves its control channel untouched.
\<close>

lemma wait_pin_silent:
  assumes "wait_pin B pin waiting started timeout t = Some r"
  shows "rk_control (snd r) = rk_control t"
  by (rule wait_pin.raw_induct [where P = "\<lambda>B pin waiting started timeout t r. rk_control (snd r) = rk_control t", OF _ assms])
    (auto simp: read_pin_def board_now_def board_call_def delay_ms_def board_do_def Let_def split: if_splits prod.splits)

lemma slave_listen_silent:
  assumes "slave_listen B started window t = Some t'"
  shows "rk_control t' = rk_control t"
  by (rule slave_listen.raw_induct [where P = "\<lambda>B started window t t'. rk_control t' = rk_control t", OF _ assms])
    (auto simp: read_pin_def board_now_def board_call_def delay_ms_def board_do_def Let_def split: if_splits prod.splits)

lemma slave_silent:
  assumes "service_slave B i window s = Some s'"
  shows "rk_control s' = rk_control s"
proof -
  have w: "rk_control t' = rk_control t" if "wait_busy_low B n t = Some (ok, t')" for n t ok t'
    using that by (auto simp: wait_busy_low_def board_now_def board_call_def split: prod.splits dest!: wait_pin_silent)
  show ?thesis using assms
    by (auto simp: service_slave_def board_now_def board_call_def board_do_def delay_ms_def read_pin_def log_to_def
        publish_status_def set_last_error_def Let_def bind_eq_Some_conv split: prod.splits if_splits
        dest!: w slave_listen_silent)
qed

lemma fixed_pairs: "schedule [0, 1, 2, 3 :: u8] =
    [(0, 255), (1, 255), (2, 255), (3, 255), (0, 1), (0, 2), (0, 3), (1, 2), (1, 3), (2, 3)]"
  by (simp add: schedule_def)

text \<open>So of the four nodes only node 0 can ever hold three measured distances.\<close>

theorem only_lower_id_measures:
  assumes "nav_tdma_action_at (fixed_schedule i) now = Some (st, a)"
  shows "act_type a = NAV_TDMA_RANGE_PEER \<longrightarrow> i < act_peer_id a \<and> act_peer_id a < 4"
    and "service_slave B i window s = Some s' \<longrightarrow> ct_nav (rk_control s') = ct_nav (rk_control s)"
proof -
  let ?k = "slot_at (fixed_schedule i) now"
  have v: "action_view (fixed_schedule i) now a" by (rule fixed_action(6) [OF assms])
  have "?k < 10" using slot_at_word(2) [of "fixed_schedule i" now] by simp
  then have "?k \<in> {0, 1, 2, 3, 4, 5, 6, 7, 8, 9}" by auto
  then show "act_type a = NAV_TDMA_RANGE_PEER \<longrightarrow> i < act_peer_id a \<and> act_peer_id a < 4"
    using v by (elim insertE) (simp_all add: action_view_def Let_def fixed_pairs split: if_splits prod.splits)
  show "service_slave B i window s = Some s' \<longrightarrow> ct_nav (rk_control s') = ct_nav (rk_control s)"
    using slave_silent by metis
qed

end
