(* ===== verification/Radio_Packet.thy ===== *)
theory Radio_Packet
  imports Radio_Invariant Nav_Serial_Control
begin

text \<open>
  What the radio task does with the text packets it receives: the text of a ranging report is read back as the
  exchange it reports, wherever its buffer cuts it.
\<close>

section \<open>Reading a report\<close>

lemma scan_unsigned_digits:
  assumes "n < 2 ^ 32" "r = [] \<or> \<not> isdigit (hd r)"
  shows "scan_unsigned (digits n @ r) = Some (Some (of_nat n, r))"
proof -
  have a: "\<forall>c \<in> set (digits n). isdigit c" "digits n \<noteq> []" using digits_number [of n] by (auto simp: list_all_iff)
  then obtain c cs where c: "digits n = c # cs" "isdigit c" by (cases "digits n") auto
  have ws: "dropWhile isspace (digits n @ r) = digits n @ r" using c digit_not_space by simp
  have sg: "scan_sign (digits n @ r) = (False, digits n @ r)"
    using c by (auto simp: scan_sign_def isdigit_def code_def)
  have "takeWhile isdigit r = []" "dropWhile isdigit r = r" using assms(2) by (cases r; simp)+
  then have "takeWhile isdigit (digits n @ r) = digits n" "dropWhile isdigit (digits n @ r) = r"
    using a by (simp_all add: takeWhile_append2 dropWhile_append2)
  then show ?thesis using assms(1) a(2) by (simp add: scan_unsigned_def ws sg digits_value_digits Let_def)
qed

lemma scan_field_digits:
  assumes "scan_literal label (label @ digits (unat v) @ r) = Some (digits (unat v) @ r)" "r = [] \<or> \<not> isdigit (hd r)"
    and "unat v < 2 ^ 32"
  shows "scan_field label (label @ digits (unat v) @ r) = Some (Some (of_nat (unat v), r))"
  using scan_unsigned_digits [OF assms(3,2)] assms(1) by (simp add: scan_field_def)

lemma space_not_digit: "\<not> isdigit (CHR '' '')"
  by (simp add: isdigit_def code_def)

text \<open>A literal matches itself in front of anything that does not start with white space.\<close>

fun literal_ok :: "string \<Rightarrow> bool" where
  "literal_ok [] = True"
| "literal_ok [f] = (\<not> isspace f)"
| "literal_ok (f # g # fs) = ((isspace f \<longrightarrow> f = CHR '' '' \<and> \<not> isspace g) \<and> literal_ok (g # fs))"

lemma scan_literal_self: "literal_ok l \<Longrightarrow> scan_literal l (l @ s) = Some s"
proof (induction l rule: literal_ok.induct)
  case (3 f g fs)
  then show ?case by auto
qed (auto split: if_splits)

lemma literals:
  "literal_ok ''range_result ok=true from=''" "literal_ok ''range_result ok=false from=''" "literal_ok '' to=''"
  "literal_ok '' request_id=''" "literal_ok '' range_mm=''" "literal_ok '' range_fail_reason=''"
  by (simp_all add: isspace_def)

lemma field_ok:
  assumes "literal_ok label" "r = [] \<or> \<not> isdigit (hd r)" "LENGTH('a) \<le> 32"
  shows "scan_field label (label @ fmt_u (unat (v :: 'a::len word)) @ r) = Some (Some (ucast v, r))"
proof -
  have "unat v < 2 ^ LENGTH('a)" by (rule unsigned_less)
  moreover have "(2 :: nat) ^ LENGTH('a) \<le> 2 ^ 32" using assms(3) by (intro power_increasing) simp_all
  ultimately have "unat v < 2 ^ 32" by linarith
  then show ?thesis
    using scan_field_digits [OF scan_literal_self [OF assms(1)] assms(2), of v] by (simp add: fmt_u_def of_nat_unat)
qed

lemma report_head_read:
  fixes m p :: u8 and r :: u16
  assumes "literal_ok label" "rest = [] \<or> \<not> isdigit (hd rest)"
  shows "scan_report_head label (label @ fmt_u (unat m) @ '' to='' @ fmt_u (unat p) @ '' request_id='' @ fmt_u (unat r) @ rest)
    = Some (Some (ucast m, ucast p, ucast r, rest))"
proof -
  have "scan_field label (label @ fmt_u (unat m) @ '' to='' @ X) = Some (Some (ucast m, '' to='' @ X))" for X
    using field_ok [OF assms(1), of "'' to='' @ X" m] by (simp add: space_not_digit)
  moreover have "scan_field '' to='' ('' to='' @ fmt_u (unat p) @ '' request_id='' @ X) = Some (Some (ucast p, '' request_id='' @ X))" for X
    using field_ok [OF literals(3), of "'' request_id='' @ X" p] by (simp add: space_not_digit)
  moreover have "scan_field '' request_id='' ('' request_id='' @ fmt_u (unat r) @ rest) = Some (Some (ucast r, rest))"
    using field_ok [OF literals(4) assms(2), of r] by simp
  ultimately show ?thesis by (simp add: scan_report_head_def)
qed

lemma other_label: "scan_report_head ''range_result ok=true from='' (''range_result ok=false from='' @ s) = Some None"
  by (simp add: scan_report_head_def scan_field_def isspace_def)

lemma cut_after:
  assumes "length P < 223" "concat xs = P @ CHR '' '' # u"
  shows "\<exists>t. snprintf 224 xs = P @ CHR '' '' # t"
proof -
  have "snprintf 224 xs = P @ CHR '' '' # take (222 - length P) u"
    using assms by (simp add: snprintf_def take_Cons')
  then show ?thesis by blast
qed

lemma u8_node: "m < (4 :: u8) \<Longrightarrow> unat (ucast m :: u32) < 4 \<and> (ucast (ucast m :: u32) :: u8) = m"
  by (simp add: word_less_nat_alt unsigned_ucast_eq take_bit_nat_eq_self take_bit_word_eq_self)

lemma u16_request: "(ucast (r :: u16) :: u32) \<le> 65535 \<and> (ucast (ucast r :: u32) :: u16) = r"
proof -
  have "unat r < 2 ^ 16" using unsigned_less [of r, where 'a = nat] by simp
  then show ?thesis by (simp add: word_le_nat_alt unsigned_ucast_eq take_bit_nat_eq_self take_bit_word_eq_self)
qed

lemma reason_word:
  "\<exists>c cs. range_fail_reason_name reason = c # cs \<and> list_all (\<lambda>c. \<not> isspace c) (range_fail_reason_name reason) \<and>
    length (range_fail_reason_name reason) \<le> 20"
  by (cases reason) (simp_all add: isspace_def)

lemma scan_name:
  "scan_string 31 (range_fail_reason_name reason @ CHR '' '' # t) = Some (range_fail_reason_name reason, CHR '' '' # t)"
proof -
  obtain c cs where n: "range_fail_reason_name reason = c # cs" "list_all (\<lambda>c. \<not> isspace c) (c # cs)"
    "length (c # cs) \<le> 20" using reason_word [of reason] by auto
  then have "dropWhile isspace (range_fail_reason_name reason @ CHR '' '' # t) = range_fail_reason_name reason @ CHR '' '' # t"
    "takeWhile (\<lambda>c. \<not> isspace c) (range_fail_reason_name reason @ CHR '' '' # t) = range_fail_reason_name reason"
    by (simp_all add: takeWhile_append list_all_iff isspace_def)
  then show ?thesis using n by (simp add: scan_string_def Let_def)
qed

definition named_reason :: "nav_range_fail_reason \<Rightarrow> nav_range_fail_reason" where
  "named_reason reason = (case reason of NAV_RANGE_FAIL_RAW _ \<Rightarrow> NAV_RANGE_FAIL_UNKNOWN | _ \<Rightarrow> reason)"

lemma parse_name: "parse_range_fail_reason (range_fail_reason_name reason) = named_reason reason"
  by (cases reason) (simp_all add: parse_range_fail_reason_def named_reason_def)


lemma failed_text_read:
  fixes m p :: u8 and r :: u16
  assumes "m < 4" "p < 4" "concat xs = ''range_result ok=false from='' @ fmt_u (unat m) @ '' to='' @ fmt_u (unat p)
      @ '' request_id='' @ fmt_u (unat r) @ '' range_fail_reason='' @ range_fail_reason_name reason @ CHR '' '' # u"
  shows "parse_legacy_range_report (Some (snprintf 224 xs)) ts rssi snr = Some (Some (range_record_zero
    \<lparr>sr_timestamp_ms := ts, sr_from_id := m, sr_to_id := p, sr_request_id := r, sr_ok := False, sr_rssi_dbm := rssi,
     sr_snr_db := snr, sr_range_fail_reason := named_reason reason, sr_source := Some ''air_report''\<rparr>))"
proof -
  let ?P = "''range_result ok=false from='' @ fmt_u (unat m) @ '' to='' @ fmt_u (unat p) @ '' request_id='' @
      fmt_u (unat r) @ '' range_fail_reason='' @ range_fail_reason_name reason"
  have "length ?P < 223"
    using fmt_u_short [of m] fmt_u_short [of p] fmt_u_short [of r] reason_word [of reason] by auto
  then obtain t where t: "snprintf 224 xs = ?P @ CHR '' '' # t" using cut_after [of ?P xs u] assms(3) by auto
  let ?s = "''range_result ok=false from='' @ fmt_u (unat m) @ '' to='' @ fmt_u (unat p) @ '' request_id='' @
      fmt_u (unat r) @ '' range_fail_reason='' @ range_fail_reason_name reason @ CHR '' '' # t"
  have h: "scan_report_head ''range_result ok=false from='' ?s
      = Some (Some (ucast m, ucast p, ucast r, '' range_fail_reason='' @ range_fail_reason_name reason @ CHR '' '' # t))"
    by (rule report_head_read [OF literals(2)]) (simp add: space_not_digit)
  have l: "scan_literal '' range_fail_reason='' ('' range_fail_reason='' @ range_fail_reason_name reason @ CHR '' '' # t)
      = Some (range_fail_reason_name reason @ CHR '' '' # t)" by (rule scan_literal_self [OF literals(6)])
  have "parse_failed_report ?s ts rssi snr = Some (Some (range_record_zero
    \<lparr>sr_timestamp_ms := ts, sr_from_id := m, sr_to_id := p, sr_request_id := r, sr_ok := False, sr_rssi_dbm := rssi,
     sr_snr_db := snr, sr_range_fail_reason := named_reason reason, sr_source := Some ''air_report''\<rparr>))"
    unfolding parse_failed_report_def h
    using u8_node [OF assms(1)] u8_node [OF assms(2)] u16_request [of r] by (simp only: bind.simps option.case prod.case l scan_name parse_name) simp
  moreover have "scan_report_head ''range_result ok=true from='' ?s = Some None" by (rule other_label)
  moreover have "snprintf 224 xs = ?s" using t by simp
  ultimately show ?thesis by (simp only: parse_legacy_range_report_def option.case bind.simps)
qed

text \<open>C27: The text report of a ranging exchange is read back as the exchange: whatever follows the fields and
  wherever the 224-byte buffer cuts the text, the scanner finds the two nodes, the request id, and the distance
  or the reason of the failure in the reports of a good, a failed and an invalid exchange.\<close>

theorem report_text_round_trip:
  assumes "m < 4" and "p < 4"
  shows "parse_legacy_range_report (Some (snprintf 224 (success_report m p r mm x raw a b el @ tail))) ts rssi snr =
      Some (Some \<lparr>sr_timestamp_ms = ts, sr_from_id = m, sr_to_id = p, sr_request_id = r, sr_ok = True, sr_range_mm = mm,
        sr_range_sigma_mm = 1000, sr_rssi_dbm = rssi, sr_snr_db = snr, sr_range_fail_reason = NAV_RANGE_FAIL_NONE,
        sr_source = Some ''air_report''\<rparr>) \<and>
    parse_legacy_range_report (Some (snprintf 224 (failure_report m p r reason el err @ tail))) ts rssi snr =
      Some (Some \<lparr>sr_timestamp_ms = ts, sr_from_id = m, sr_to_id = p, sr_request_id = r, sr_ok = False, sr_range_mm = 0,
        sr_range_sigma_mm = 0, sr_rssi_dbm = rssi, sr_snr_db = snr,
        sr_range_fail_reason = (case reason of NAV_RANGE_FAIL_RAW _ \<Rightarrow> NAV_RANGE_FAIL_UNKNOWN | _ \<Rightarrow> reason),
        sr_source = Some ''air_report''\<rparr>) \<and>
    parse_legacy_range_report (Some (snprintf 224 (invalid_report m p r raw x el @ tail))) ts rssi snr =
      Some (Some \<lparr>sr_timestamp_ms = ts, sr_from_id = m, sr_to_id = p, sr_request_id = r, sr_ok = False, sr_range_mm = 0,
        sr_range_sigma_mm = 0, sr_rssi_dbm = rssi, sr_snr_db = snr,
        sr_range_fail_reason = NAV_RANGE_FAIL_RANGING_ENGINE_ERROR, sr_source = Some ''air_report''\<rparr>)"
proof (intro conjI, goal_cases)
  case 1
  let ?xs = "success_report m p r mm x raw a b el @ tail"
  let ?Q = "''range_result ok=true from='' @ fmt_u (unat m) @ '' to='' @ fmt_u (unat p) @ '' request_id='' @ fmt_u (unat r)"
  let ?P = "?Q @ '' range_mm='' @ fmt_u (unat mm)"
  have "length ?P < 223"
    using fmt_u_short [of m] fmt_u_short [of p] fmt_u_short [of r] fmt_u_short [of mm] by simp
  moreover have "\<exists>u. concat ?xs = ?P @ CHR '' '' # u" by (simp add: success_report_def)
  ultimately obtain t where t: "snprintf 224 ?xs = ?P @ CHR '' '' # t" using cut_after [of ?P ?xs] by blast
  have h: "scan_report_head ''range_result ok=true from='' (''range_result ok=true from='' @ fmt_u (unat m) @ '' to='' @ fmt_u (unat p)
      @ '' request_id='' @ fmt_u (unat r) @ '' range_mm='' @ fmt_u (unat mm) @ CHR '' '' # t)
      = Some (Some (ucast m, ucast p, ucast r, '' range_mm='' @ fmt_u (unat mm) @ CHR '' '' # t))"
    by (rule report_head_read [OF literals(1)]) (simp add: space_not_digit)
  have f: "scan_field '' range_mm='' ('' range_mm='' @ fmt_u (unat mm) @ CHR '' '' # t) = Some (Some (mm, CHR '' '' # t))"
    using field_ok [OF literals(5), of "CHR '' '' # t" mm] by (simp add: space_not_digit)
  have s: "snprintf 224 ?xs = ''range_result ok=true from='' @ fmt_u (unat m) @ '' to='' @ fmt_u (unat p)
      @ '' request_id='' @ fmt_u (unat r) @ '' range_mm='' @ fmt_u (unat mm) @ CHR '' '' # t" using t by simp
  show ?case
    unfolding parse_legacy_range_report_def option.case s h
    using u8_node [OF assms(1)] u8_node [OF assms(2)] u16_request [of r]
    by (simp only: bind.simps option.case prod.case f) (simp add: range_record_zero_def)
next
  case 2
  obtain u where u: "concat (failure_report m p r reason el err @ tail) = ''range_result ok=false from='' @ fmt_u (unat m) @ '' to='' @ fmt_u (unat p)
      @ '' request_id='' @ fmt_u (unat r) @ '' range_fail_reason='' @ range_fail_reason_name reason @ CHR '' '' # u"
    by (simp add: failure_report_def)
  show ?case using failed_text_read [OF assms u] by (simp add: range_record_zero_def named_reason_def)
next
  case 3
  obtain u where u: "concat (invalid_report m p r raw x el @ tail) = ''range_result ok=false from='' @ fmt_u (unat m) @ '' to='' @ fmt_u (unat p)
      @ '' request_id='' @ fmt_u (unat r) @ '' range_fail_reason='' @ range_fail_reason_name NAV_RANGE_FAIL_RANGING_ENGINE_ERROR @ CHR '' '' # u"
    by (simp add: invalid_report_def)
  show ?case using failed_text_read [OF assms u] by (simp add: range_record_zero_def named_reason_def)
qed

end
