(* ===== verification/Radio_Frames.thy ===== *)
theory Radio_Frames
  imports Radio_Packet
begin

text \<open>
  The typed frames that the radio task receives: no bytes lead outside the defined behaviour of the decoders
  and of the tables they fill.
\<close>

section \<open>Typed frames are safe\<close>

lemma decoded_payload:
  assumes "nav_radio_decode_frame (Some b) n out = Some (NAV_STATUS_OK, f)" "n \<le> length b"
  shows "\<exists>p. fr_payload f = Some p \<and> fr_payload_len f \<le> length p"
  using assms by (auto simp: decode_frame_eq split: if_splits)

lemma total_if: "(c \<Longrightarrow> x \<noteq> None) \<Longrightarrow> (\<not> c \<Longrightarrow> y \<noteq> None) \<Longrightarrow> (if c then x else y) \<noteq> None"
  by simp

lemma decode_total:
  assumes "fr_payload f = Some p" "fr_payload_len f \<le> length p"
  shows "nav_telemetry_decode_heartbeat (Some f) h \<noteq> None" "nav_telemetry_decode_debug_enable (Some f) d \<noteq> None"
    "nav_telemetry_decode_node_quality_report (Some f) q \<noteq> None"
proof -
  show "nav_telemetry_decode_heartbeat (Some f) h \<noteq> None" "nav_telemetry_decode_debug_enable (Some f) d \<noteq> None"
    unfolding nav_telemetry_decode_heartbeat_def nav_telemetry_decode_debug_enable_def option.case
    using assms by (intro total_if; simp add: get_laws)+
  show "nav_telemetry_decode_node_quality_report (Some f) q \<noteq> None"
    unfolding nav_telemetry_decode_node_quality_report_def option.case
    using assms by (intro total_if; simp add: get_laws eval_nat_numeral Let_def)+
qed

lemma validate_total: "nav_tdma_validate_timing_heartbeat (fixed_schedule i) (Some t) \<noteq> None"
proof -
  have "members_match [0, 1, 2, 3] 0 4 = Some True" by (simp add: eval_nat_numeral mem_simps)
  then have "nav_tdma_fixed_plan_valid (fixed_schedule i) = Some True"
    by (simp add: nav_tdma_fixed_plan_valid_def fixed_schedule_def)
  then show ?thesis by (simp add: nav_tdma_validate_timing_heartbeat_def)
qed

lemma telemetry_inject_total:
  assumes "ev_data e = NAV_EVT_PEER_TELEMETRY_RX x"
  shows "inject_event B e s \<noteq> None"
proof -
  have k: "event_kind (ev_data e) = Report" using assms by simp
  obtain nav where "nav_core_handle_event (bd_libm B) (Some e) (ct_nav (rk_control (others_run B s))) = Some nav"
    using core_report_total [OF k] by blast
  then show ?thesis by (simp add: inject_event_def control_handle_event_def Let_def range_record_of_def assms)
qed

lemma beacon_total:
  assumes "nav_radio_decode_frame (Some b) n frame_local = Some (NAV_STATUS_OK, f)" "n \<le> length b"
    and "fr_type f = NAV_RADIO_MSG_BEACON_RX"
  shows "handle_beacon_frame B b n i rssi snr s \<noteq> None"
proof -
  obtain p where p: "fr_payload f = Some p" "fr_payload_len f \<le> length p" using decoded_payload [OF assms(1,2)] by blast
  obtain now s1 where now: "board_now B s = (now, s1)" by fastforce
  have e: "nav_telemetry_decode_event (Some b) n now rssi snr nav_event_zero = decode_beacon f now rssi snr nav_event_zero"
    by (simp add: nav_telemetry_decode_event_def assms(1,3))
  show ?thesis
  proof (cases "fr_payload_len f < 43")
    case True
    then show ?thesis
      by (simp add: handle_beacon_frame_def now e [unfolded nav_event_zero_def] decode_beacon_eq [OF p] nav_event_zero_def)
  next
    case False
    let ?e = "\<lparr>ev_timestamp_ms = now, ev_data = NAV_EVT_PEER_TELEMETRY_RX
        \<lparr>br_telemetry = telemetry_at p, br_rssi_dbm = rssi, br_snr_db = snr\<rparr>\<rparr>"
    obtain y where "inject_event B ?e s1 = Some y" using telemetry_inject_total [of ?e] by fastforce
    then show ?thesis using False
      by (simp add: handle_beacon_frame_def now e decode_beacon_eq [OF p] Let_def split: prod.split)
  qed
qed

lemma heartbeat_total:
  assumes "fr_payload f = Some p" "fr_payload_len f \<le> length p" "runtime_for j (rk_tdma s)"
  shows "handle_heartbeat_frame B f i s \<noteq> None"
proof -
  obtain now s1 where now: "board_now B s = (now, s1)" by fastforce
  then have sched: "rt_schedule (rk_tdma s1) = fixed_schedule j"
    using assms(3) by (auto simp: board_now_def board_call_def runtime_for_def split: prod.splits)
  obtain st h where d: "nav_telemetry_decode_heartbeat (Some f) heartbeat_zero = Some (st, h)"
    using decode_total(1) [OF assms(1,2), of heartbeat_zero] by auto
  obtain v where "nav_tdma_validate_timing_heartbeat (rt_schedule (rk_tdma s1)) (Some (heartbeat_timing h)) = Some v"
    using validate_total [of j "heartbeat_timing h"] by (auto simp: sched)
  then show ?thesis by (simp add: handle_heartbeat_frame_def d now Let_def)
qed

lemma quality_total:
  assumes "fr_payload f = Some p" "fr_payload_len f \<le> length p"
    and "others_lawful B" "control_reachable (bd_libm B) (bd_gnss_built B) (rk_control s)"
  shows "handle_node_quality_frame B f i s \<noteq> None"
proof -
  obtain now s1 where now: "board_now B s = (now, s1)" by fastforce
  then have "control_reachable (bd_libm B) (bd_gnss_built B) (rk_control (others_run B s1))"
    using assms(3,4) by (auto simp: others_lawful_def others_run_def board_now_def board_call_def split: prod.splits)
  then have len: "length (ct_node_quality (rk_control (others_run B s1))) = 4"
    using control_reachable_inv by (auto simp: control_inv_def)
  obtain st q where d: "nav_telemetry_decode_node_quality_report (Some f) quality_report_zero = Some (st, q)"
    using decode_total(3) [OF assms(1,2), of quality_report_zero] by auto
  have "handle_node_quality_report (Some q) now (rk_control (others_run B s1)) \<noteq> None"
    using len by (auto simp: handle_node_quality_report_def mem_write_def)
  then obtain ok c where "handle_node_quality_report (Some q) now (rk_control (others_run B s1)) = Some (ok, c)" by auto
  then show ?thesis by (simp add: handle_node_quality_frame_def d now Let_def)
qed

lemma debug_total: "fr_payload f = Some p \<Longrightarrow> fr_payload_len f \<le> length p \<Longrightarrow> handle_debug_enable_frame B f i s \<noteq> None"
  using decode_total(2) [of f p debug_enable_zero] by (auto simp: handle_debug_enable_frame_def Let_def split: prod.split)

lemma dispatch_total:
  assumes "n \<le> length b" and "others_lawful B"
    and "control_reachable (bd_libm B) (bd_gnss_built B) (rk_control s)" and "runtime_for j (rk_tdma s)"
  shows "dispatch_typed_report B b n i rssi snr s \<noteq> None"
proof -
  have "nav_radio_decode_frame (Some b) n frame_local \<noteq> None" using assms(1) by (simp add: decode_frame_eq)
  then obtain st f where d: "nav_radio_decode_frame (Some b) n frame_local = Some (st, f)" by auto
  show ?thesis
  proof (cases "st = NAV_STATUS_OK")
    case True
    obtain p where p: "fr_payload f = Some p" "fr_payload_len f \<le> length p"
      using decoded_payload [OF d [unfolded True] assms(1)] by blast
    show ?thesis
      using beacon_total [OF d [unfolded True] assms(1)] heartbeat_total [OF p assms(4)] debug_total [OF p]
        quality_total [OF p assms(2,3)]
      by (auto simp: dispatch_typed_report_def d True split: nav_radio_message_type.split)
  qed (simp add: dispatch_typed_report_def d)
qed

text \<open>C15: No packet takes the node down: whatever bytes arrive as a typed frame, of whatever length, the radio task
  handles them within its buffers and returns, and the control channel and the schedule stay in the states
  that their invariants describe.\<close>

theorem typed_frames_safe:
  assumes "n \<le> length b" and "others_lawful B"
    and "control_reachable (bd_libm B) (bd_gnss_built B) (rk_control s)" and "runtime_for i (rk_tdma s)"
  shows "\<exists>s'. dispatch_typed_report B b n i rssi snr s = Some s' \<and>
    control_reachable (bd_libm B) (bd_gnss_built B) (rk_control s') \<and> runtime_for i (rk_tdma s')"
proof -
  have "dispatch_typed_report B b n i rssi snr s \<noteq> None" by (rule dispatch_total [OF assms])
  then obtain s' where s': "dispatch_typed_report B b n i rssi snr s = Some s'" by blast
  have "evolves B s s'" by (rule afterD [OF dispatch_keeps [OF evolves_refl] s'])
  then show ?thesis using s' evolves_reachable assms(2,3) evolves_runtime assms(4) by blast
qed

end
