(* ===== verification/Radio_Run.thy ===== *)
theory Radio_Run
  imports Radio_Sync Radio_Frames Control_Run Fp_Eval
begin

text \<open>
  The radio task on a concrete board: a driver that always answers, a timer that moves on by \<open>k\<close>
  milliseconds with every reading, and other tasks that do nothing.
\<close>

definition ex_board :: "nat \<Rightarrow> nat board" where
  "ex_board k = \<lparr>bd_now = (\<lambda>w. (of_nat (w + k), w + k)), bd_delay = (\<lambda>ticks w. w + unat ticks), bd_ms_to_ticks = (\<lambda>ms. ms),
     bd_gpio_max = 49, bd_busy_pin = - 1, bd_dio1_pin = - 1, bd_reset_pin = - 1, bd_gpio_get = (\<lambda>_ w. (0, w)),
     bd_gpio_input = (\<lambda>_ w. w), bd_gpio_output = (\<lambda>_ w. w), bd_gpio_set = (\<lambda>_ _ w. w), bd_begin = (\<lambda>_ w. (0, w)),
     bd_transmit = (\<lambda>_ w. (0, w)), bd_start_receive = (\<lambda>w. (0, w)), bd_finish_receive = (\<lambda>w. w),
     bd_packet_length = (\<lambda>w. (0, w)), bd_read_data = (\<lambda>n w. ((0, replicate n 0), w)), bd_clear_irq = (\<lambda>w. w),
     bd_irq_status = (\<lambda>w. (0, w)), bd_start_ranging = (\<lambda>_ _ _ w. (0, w)), bd_finish_ranging = (\<lambda>w. (0, w)),
     bd_ranging_raw = (\<lambda>w. (1024, w)), bd_ranging_result = (\<lambda>w. (dy 12 0, w)), bd_rssi = (\<lambda>w. (dy (- 60) 0, w)),
     bd_snr = (\<lambda>w. (dy 9 0, w)), bd_err_none = 0, bd_err_spi_timeout = - 705, bd_err_ranging_timeout = - 901,
     bd_irq_mask = (\<lambda>_. 0), bd_profile_sync_word = 0x12, bd_tx_power_dbm = 10, bd_others = (\<lambda>_ st. st),
     bd_libm = run_libm, bd_gnss_built = True, bd_payload_junk = (\<lambda>_. 0), bd_frame_junk = (\<lambda>_. 0),
     bd_line_junk = replicate 512 NUL\<rparr>"

lemma ex_board_simps [simp]:
  "bd_others (ex_board k) = (\<lambda>_ st. st)" "bd_libm (ex_board k) = run_libm" "bd_gnss_built (ex_board k)"
  "bd_now (ex_board k) w = (of_nat (w + k), w + k)" "length (bd_line_junk (ex_board k)) = 512"
  "bd_busy_pin (ex_board k) = - 1" "bd_dio1_pin (ex_board k) = - 1" "bd_reset_pin (ex_board k) = - 1"
  "bd_begin (ex_board k) p w = (0, w)" "bd_err_none (ex_board k) = 0"
  by (simp_all add: ex_board_def)

lemma ex_others: "others_lawful (ex_board k)"
  by (simp add: others_lawful_def)

lemma ex_clock: "clock_runs (ex_board k) id (Suc k)"
  by (simp add: clock_runs_def within_time_def ex_board_def Let_def unat_gt_0)

lemma ex_driver: "driver_in_range (ex_board k)"
proof -
  have m: "Fin 1000 = dy 1000 0" by (simp add: dy_def)
  show ?thesis unfolding driver_in_range_def ex_board_def m
    by (simp add: lround_i16_def lround_def dy_eval Let_def)
qed

text \<open>Node 2 at its start, and with the runtime of a follower.\<close>

definition ex_task :: "nat \<Rightarrow> nat radio_task" where
  "ex_task w = \<lparr>rk_world = w, rk_control = run_start, rk_lines = [], rk_log = [], rk_status = radio_health_zero,
     rk_published = radio_health_zero, rk_request_id = 0, rk_tdma = tdma_runtime_zero, rk_debug = debug_telemetry_zero\<rparr>"

lemma run_start_reachable: "control_reachable run_libm True run_start"
  by (rule control_start [OF _ run_start(1)]) (simp add: node_config_wf_def ex_config_def)

definition ex_runtime :: tdma_runtime where
  "ex_runtime = the (reset_tdma_runtime 2)"

lemma ex_runtime: "reset_tdma_runtime 2 = Some ex_runtime" "runtime_for 2 ex_runtime" "\<not> rt_authority_synced ex_runtime"
  "rt_epoch_local_ms ex_runtime = 0" "\<not> rt_waiting_logged ex_runtime"
proof -
  obtain t where t: "reset_tdma_runtime 2 = Some t" "runtime_for 2 t" "rt_authority_synced t = (2 = NAV_TDMA_AUTHORITY_ID)"
    "rt_epoch_local_ms t = 0" using reset_runtime [of 2] by blast
  then show "reset_tdma_runtime 2 = Some ex_runtime" "runtime_for 2 ex_runtime" "\<not> rt_authority_synced ex_runtime"
    "rt_epoch_local_ms ex_runtime = 0" "\<not> rt_waiting_logged ex_runtime"
    by (simp_all add: ex_runtime_def) (auto simp: reset_tdma_runtime_def tdma_runtime_zero_def bind_eq_Some_conv)
qed

definition ex_follower :: "nat \<Rightarrow> nat radio_task" where
  "ex_follower w = (ex_task w)\<lparr>rk_tdma := ex_runtime\<rparr>"

lemma ex_follower [simp]: "rk_control (ex_follower w) = run_start" "rk_tdma (ex_follower w) = ex_runtime"
  "rk_world (ex_follower w) = w" "runtime_for 2 (rk_tdma (ex_follower w))"
  by (simp_all add: ex_follower_def ex_task_def ex_runtime)

section \<open>Witnesses\<close>

theorem typed_frames_safe_witness:
  "\<exists>s'. dispatch_typed_report (ex_board 0) [0x4E, 0x52, 0x01] 3 2 (- 60) 9 (ex_follower 100) = Some s' \<and>
     control_reachable run_libm True (rk_control s') \<and> runtime_for 2 (rk_tdma s')"
proof -
  have "control_reachable (bd_libm (ex_board 0)) (bd_gnss_built (ex_board 0)) (rk_control (ex_follower 100))"
    using run_start_reachable by simp
  from typed_frames_safe [OF _ ex_others this ex_follower(4), of 3 "[0x4E, 0x52, 0x01]" "- 60" 9]
  show ?thesis by simp
qed

theorem exchange_reports_once_witness:
  "\<exists>s' e w lines. run_master_exchange (ex_board 1) 2 3 False (ex_follower 5000) = Some s' \<and> rk_world s' \<le> 6294 \<and>
     rk_request_id s' = 1 \<and>
     control_handle_event run_libm (bd_line_junk (ex_board 1)) (Some e) (bd_others (ex_board 1) w run_start)
       = Some (True, lines, rk_control s')"
proof -
  have "rk_request_id (ex_follower 5000) = 0" by (simp add: ex_follower_def ex_task_def)
  then show ?thesis
    using exchange_reports_once [OF ex_clock [of 1] _ ex_board_simps(5) ex_driver, where m = 2 and p = 3 and s = "ex_follower 5000"] by auto
qed

theorem heartbeat_synchronises_witness:
  "\<exists>a sent n s'. nav_tdma_action_at (fixed_schedule 0) 720 = Some (NAV_STATUS_OK, a) \<and>
     nav_telemetry_encode_heartbeat (\<lambda>_. 0) (Some (timing_heartbeat (tdma_runtime_zero\<lparr>rt_schedule := fixed_schedule 0\<rparr>) a 730))
       7 ex_air 64 0 = Some (NAV_STATUS_OK, sent, n) \<and>
     dispatch_typed_report (ex_board 0) (received_payload (take n sent) n) n 2 (- 60) 9 (ex_follower 5000) = Some s' \<and>
     tdma_aligned_now (rk_tdma s') 5020 = 850"
proof -
  let ?T = "tdma_runtime_zero\<lparr>rt_schedule := fixed_schedule 0\<rparr>"
  have T: "runtime_for 0 ?T" by (simp add: runtime_for_def tdma_runtime_zero_def)
  obtain a where a: "nav_tdma_action_at (rt_schedule ?T) 720 = Some (NAV_STATUS_OK, a)"
    using action_at_view [of "fixed_schedule 0" 720] by auto
  have start: "730 - act_slot_start_ms a < 500" using fixed_action(1) [of 0 720 NAV_STATUS_OK a] a by simp
  obtain sent n where e: "nav_telemetry_encode_heartbeat (\<lambda>_. 0) (Some (timing_heartbeat ?T a 730)) 7 ex_air 64 0
      = Some (NAV_STATUS_OK, sent, n)"
    using send_ok [of "heartbeat_body (timing_heartbeat ?T a 730)" NAV_RADIO_MSG_HEARTBEAT 7] by (auto simp: encode_heartbeat_eq)
  obtain s' where s': "dispatch_typed_report (ex_board 0) (received_payload (take n sent) n) n 2 (- 60) 9 (ex_follower 5000) = Some s'"
    "\<And>k. tdma_aligned_now (rk_tdma s') (fst (board_now (ex_board 0) (ex_follower 5000)) + k) = 730 + 100 + k"
    using heartbeat_synchronises [OF T a start e length_ex_air ex_follower(4), of "ex_board 0" "- 60" 9 5000] by auto
  then show ?thesis using a e s'(2) [of 20] by (auto simp: board_now_def board_call_def)
qed

text \<open>Node 2 ranges node 3 in the last slot of the frame.\<close>

lemma ex_slot:
  "\<exists>a. nav_tdma_action_at (fixed_schedule 2) 4510 = Some (NAV_STATUS_OK, a) \<and> act_type a = NAV_TDMA_RANGE_PEER \<and>
     act_peer_id a = 3 \<and> act_slot_index a = 9 \<and> act_frame_index a = 0 \<and> nav_tdma_action_can_start (Some a)"
proof -
  have "pairs_of (membership (fixed_schedule 2)) ! 5 = (2, 3)"
    by (simp add: fixed_schedule_def eval_nat_numeral)
  then have "ranging_pair (fixed_schedule 2) 5 = Some (2, 3)"
    using ranging_pair_eq [of "fixed_schedule 2" 5] by (simp add: pair_count_def)
  then show ?thesis by (simp add: nav_tdma_action_at_def Let_def nav_tdma_action_can_start_def)
qed

theorem ranging_in_authority_slot_witness:
  "\<exists>a b s'. nav_tdma_action_at (fixed_schedule 2) 4510 = Some (NAV_STATUS_OK, a) \<and>
     delay_until_local_time (ex_board 1) (tdma_local_slot_start ex_runtime a + 180) (ex_follower 4520) = Some s' \<and>
     nav_tdma_action_at (fixed_schedule 0) (of_nat (rk_world s')) = Some (NAV_STATUS_OK, b) \<and>
     act_from_id b = 2 \<and> act_to_id b = 3 \<and> 250 \<le> unat (act_remaining_ms b)"
proof -
  obtain a where a: "nav_tdma_action_at (fixed_schedule 2) 4510 = Some (NAV_STATUS_OK, a)" "act_type a = NAV_TDMA_RANGE_PEER"
    "act_peer_id a = 3" "nav_tdma_action_can_start (Some a)" using ex_slot by blast
  have al: "tdma_aligned_now ex_runtime x = x" for x
    using ex_runtime(2,4) by (simp add: tdma_aligned_now_def runtime_for_def)
  have sched: "rt_schedule ex_runtime = fixed_schedule 2" using ex_runtime(2) by (simp add: runtime_for_def)
  have a': "nav_tdma_action_at (rt_schedule (rk_tdma (ex_follower 4520))) (tdma_aligned_now (rk_tdma (ex_follower 4520)) (of_nat 4510))
      = Some (NAV_STATUS_OK, a)" using a(1) by (simp add: sched al)
  let ?S = "tdma_local_slot_start (rk_tdma (ex_follower 4520)) a + kRangingMasterStartGuardMs"
  have "\<exists>s'. delay_until_local_time (ex_board 1) ?S (ex_follower 4520) = Some s' \<and>
    rk_tdma s' = rk_tdma (ex_follower 4520) \<and> rk_control s' = rk_control (ex_follower 4520) \<and>
    (\<forall>x e. int (unat (tdma_aligned_now (rk_tdma s') (of_nat (task_time id s')))) = int (unat x) + e \<and>
       3 * int (Suc 1) - 60 \<le> e \<and> e \<le> 180 \<longrightarrow>
       (\<exists>b. nav_tdma_action_at (fixed_schedule 0) x = Some (NAV_STATUS_OK, b) \<and>
         act_frame_index b = act_frame_index a \<and> act_slot_index b = act_slot_index a \<and> act_from_id b = 2 \<and>
         act_to_id b = act_peer_id a \<and> 250 \<le> unat (act_remaining_ms b)))"
    by (rule ranging_in_authority_slot [OF ex_clock [of 1] _ ex_follower(4) a' a(2,4)]) (simp_all add: al)
  then obtain s' where s': "delay_until_local_time (ex_board 1) ?S (ex_follower 4520) = Some s'" "rk_tdma s' = ex_runtime"
    "\<And>x e. int (unat (tdma_aligned_now (rk_tdma s') (of_nat (task_time id s')))) = int (unat x) + e \<and>
       3 * int (Suc 1) - 60 \<le> e \<and> e \<le> 180 \<Longrightarrow>
       (\<exists>b. nav_tdma_action_at (fixed_schedule 0) x = Some (NAV_STATUS_OK, b) \<and>
         act_frame_index b = act_frame_index a \<and> act_slot_index b = act_slot_index a \<and> act_from_id b = 2 \<and>
         act_to_id b = act_peer_id a \<and> 250 \<le> unat (act_remaining_ms b))" by auto
  show ?thesis using s'(3) [of "of_nat (rk_world s')" 0] a s'(1,2) by (auto simp: al)
qed

theorem report_text_round_trip_witness:
  "parse_legacy_range_report (Some (snprintf 224 (success_report 1 2 7 1234 (Fin 1) 5 (Fin 0) (Fin 0) 9 @ []))) 100 (- 60) 9 =
     Some (Some \<lparr>sr_timestamp_ms = 100, sr_from_id = 1, sr_to_id = 2, sr_request_id = 7, sr_ok = True, sr_range_mm = 1234,
       sr_range_sigma_mm = 1000, sr_rssi_dbm = - 60, sr_snr_db = 9, sr_range_fail_reason = NAV_RANGE_FAIL_NONE,
       sr_source = Some ''air_report''\<rparr>)"
proof -
  have "(1 :: u8) < 4" "(2 :: u8) < 4" by simp_all
  from report_text_round_trip [OF this] show ?thesis by blast
qed

text \<open>The start of the task and its first turn, on a board whose timer jumps by 600 ms.\<close>

lemma ex_up: "\<exists>w lg st. bring_up_radio (ex_board 600) 1 (ex_task 0) = Some ((ex_task 0)\<lparr>rk_world := w, rk_log := lg,
    rk_status := st, rk_published := st\<rparr>)"
  by (subst bring_up_radio.simps) (simp add: init_radio_def configure_input_pin_def pulse_radio_reset_def wait_busy_low_def
      wait_pin.simps read_pin_def board_now_def board_call_def Let_def log_to_def publish_status_def set_last_error_def ex_task_def)

lemma ex_turn:
  "\<exists>t. radio_turn (ex_board 600) (radio_loop_start, (ex_task 0)\<lparr>rk_world := w, rk_log := lg, rk_status := st, rk_published := st\<rparr>)
     = Some (radio_loop_start\<lparr>lp_last_node_id := 2\<rparr>, t)"
proof -
  have c: "nc_node_id (ct_config run_start) = 2" by (simp add: run_start_config ex_config_def)
  have f: "nav_tdma_frame_duration_ms (rt_schedule ex_runtime) = Some 5000"
    using ex_runtime(2) by (simp add: runtime_for_def nav_tdma_frame_duration_ms_def)
  have h: "\<not> tdma_has_authority_timing ex_runtime n" for n
    using ex_runtime(2,3) by (simp add: tdma_has_authority_timing_def runtime_for_def)
  have l: "passive_listen_loop (ex_board 600) i n 500 d s = Some (s\<lparr>rk_world := rk_world s + 600\<rparr>)"
    if "n = of_nat (rk_world s)" for i n d s
    by (subst passive_listen_loop.simps) (simp add: that board_now_def board_call_def)
  show ?thesis
    by (simp add: radio_turn_def others_run_def ex_task_def c is_valid_node_id_def radio_loop_start_def adopt_node_id_def
        ex_runtime(1) f service_tdma_slot_def board_now_def board_call_def h service_passive_listen_def log_to_def
        log_tdma_authority_def ex_runtime(5) l Let_def)
qed

theorem radio_task_invariant_witness:
  "\<exists>l s. radio_reachable (ex_board 600) (l, s) \<and> lp_last_node_id l = 2 \<and> core_inv (ct_nav (rk_control s)) \<and>
     rt_local_node_id (rk_tdma s) = 2"
proof -
  obtain w lg st where up: "bring_up_radio (ex_board 600) 1 (ex_task 0) = Some ((ex_task 0)\<lparr>rk_world := w, rk_log := lg,
    rk_status := st, rk_published := st\<rparr>)" using ex_up by blast
  obtain t where t: "radio_turn (ex_board 600) (radio_loop_start, (ex_task 0)\<lparr>rk_world := w, rk_log := lg, rk_status := st, rk_published := st\<rparr>)
     = Some (radio_loop_start\<lparr>lp_last_node_id := 2\<rparr>, t)" using ex_turn by blast
  have "control_reachable (bd_libm (ex_board 600)) (bd_gnss_built (ex_board 600)) (rk_control (ex_task 0))"
    using run_start_reachable by (simp add: ex_task_def)
  then have r: "radio_reachable (ex_board 600) (radio_loop_start\<lparr>lp_last_node_id := 2\<rparr>, t)"
    using radio_next [OF radio_start [OF _ up] t] by blast
  from radio_task_invariant [OF this ex_others] show ?thesis using r by (intro exI conjI) (assumption, simp_all)
qed

end
