(* ===== verification/Sx1280.thy ===== *)
theory Sx1280
  imports Ieee_Float
begin

text \<open>
  \<^verbatim>\<open>ports/speedybee/lib/SX1280\<close>: the SX1280 driver of the SpeedyBee node. The Arduino core is a parameter:
  the timers, the pins and the SPI bus are functions on a world \<open>'w\<close>. A loop that polls the chip is a
  partial function, so \<open>None\<close> is a wait that does not end, a read outside an array or an undefined
  conversion. The two time-outs of the BUSY line that the code ignores are ignored here as well.
\<close>

unbundle bit_operations_syntax

section \<open>The Arduino core\<close>

datatype pin_mode = INPUT | OUTPUT

record 'w arduino =
  ar_millis :: "'w \<Rightarrow> u32 \<times> 'w"
  ar_micros :: "'w \<Rightarrow> u32 \<times> 'w"
  ar_delay :: "u32 \<Rightarrow> 'w \<Rightarrow> 'w"
  ar_delay_us :: "u32 \<Rightarrow> 'w \<Rightarrow> 'w"
  ar_pin_mode :: "int \<Rightarrow> pin_mode \<Rightarrow> 'w \<Rightarrow> 'w"
  ar_digital_write :: "int \<Rightarrow> bool \<Rightarrow> 'w \<Rightarrow> 'w"
  ar_digital_read :: "int \<Rightarrow> 'w \<Rightarrow> bool \<times> 'w"
  ar_spi_begin :: "'w \<Rightarrow> 'w"
  ar_spi_begin_transaction :: "'w \<Rightarrow> 'w"
  ar_spi_end_transaction :: "'w \<Rightarrow> 'w"
  ar_spi_transfer :: "u8 \<Rightarrow> 'w \<Rightarrow> u8 \<times> 'w"

record sx1280 =
  sx_nss :: int
  sx_rst :: int
  sx_busy :: int

record packet_status =
  ps_rssi_dbm :: i16
  ps_snr_db :: fp

datatype ranging_role = RANGING_ROLE_SLAVE | RANGING_ROLE_MASTER

datatype packet_type = PACKET_TYPE_LORA | PACKET_TYPE_RANGING

datatype standby = STDBY_RC | STDBY_XOSC

fun role_code :: "ranging_role \<Rightarrow> u8" where
  "role_code RANGING_ROLE_SLAVE = 0" | "role_code RANGING_ROLE_MASTER = 1"

fun packet_type_code :: "packet_type \<Rightarrow> u8" where
  "packet_type_code PACKET_TYPE_LORA = 1" | "packet_type_code PACKET_TYPE_RANGING = 2"

fun standby_code :: "standby \<Rightarrow> u8" where
  "standby_code STDBY_RC = 0" | "standby_code STDBY_XOSC = 1"

abbreviation (input) IRQ_TX_DONE :: u16 where "IRQ_TX_DONE \<equiv> 0x0001"
abbreviation (input) IRQ_RX_DONE :: u16 where "IRQ_RX_DONE \<equiv> 0x0002"
abbreviation (input) IRQ_HEADER_ERROR :: u16 where "IRQ_HEADER_ERROR \<equiv> 0x0020"
abbreviation (input) IRQ_CRC_ERROR :: u16 where "IRQ_CRC_ERROR \<equiv> 0x0040"
abbreviation (input) IRQ_SLAVE_RESPONSE_DONE :: u16 where "IRQ_SLAVE_RESPONSE_DONE \<equiv> 0x0080"
abbreviation (input) IRQ_SLAVE_REQUEST_DISCARD :: u16 where "IRQ_SLAVE_REQUEST_DISCARD \<equiv> 0x0100"
abbreviation (input) IRQ_MASTER_RESULT_VALID :: u16 where "IRQ_MASTER_RESULT_VALID \<equiv> 0x0200"
abbreviation (input) IRQ_MASTER_TIMEOUT :: u16 where "IRQ_MASTER_TIMEOUT \<equiv> 0x0400"
abbreviation (input) IRQ_SLAVE_REQUEST_VALID :: u16 where "IRQ_SLAVE_REQUEST_VALID \<equiv> 0x0800"
abbreviation (input) IRQ_RX_TX_TIMEOUT :: u16 where "IRQ_RX_TX_TIMEOUT \<equiv> 0x4000"
abbreviation (input) IRQ_ALL :: u16 where "IRQ_ALL \<equiv> 0xFFFF"

section \<open>The bus\<close>

partial_function (option) sx_poll_busy ::
  "'w arduino \<Rightarrow> int \<Rightarrow> u32 \<Rightarrow> u32 \<Rightarrow> 'w \<Rightarrow> (bool \<times> 'w) option" where
  "sx_poll_busy A pin start timeout_us w = (case ar_digital_read A pin w of (busy, w) \<Rightarrow>
     if \<not> busy then Some (True, w)
     else (case ar_micros A w of (now, w) \<Rightarrow>
       if now - start > timeout_us then Some (False, w)
       else sx_poll_busy A pin start timeout_us (ar_delay_us A 50 w)))"

definition sx_wait_busy :: "'w arduino \<Rightarrow> sx1280 \<Rightarrow> u32 \<Rightarrow> 'w \<Rightarrow> (bool \<times> 'w) option" where
  "sx_wait_busy A D timeout_us w = (case ar_micros A w of (start, w) \<Rightarrow> sx_poll_busy A (sx_busy D) start timeout_us w)"

fun spi_send :: "'w arduino \<Rightarrow> u8 list \<Rightarrow> 'w \<Rightarrow> 'w" where
  "spi_send A [] w = w"
| "spi_send A (b # bytes) w = spi_send A bytes (snd (ar_spi_transfer A b w))"

fun spi_receive :: "'w arduino \<Rightarrow> nat \<Rightarrow> 'w \<Rightarrow> u8 list \<times> 'w" where
  "spi_receive A 0 w = ([], w)"
| "spi_receive A (Suc n) w = (case ar_spi_transfer A 0 w of (b, w) \<Rightarrow>
     (case spi_receive A n w of (bytes, w) \<Rightarrow> (b # bytes, w)))"

text \<open>The frame of every access: wait for the chip, claim the bus, select it, exchange bytes, release.\<close>

definition sx_transaction :: "'w arduino \<Rightarrow> sx1280 \<Rightarrow> ('w \<Rightarrow> 'a \<times> 'w) \<Rightarrow> 'w \<Rightarrow> ('a \<times> 'w) option" where
  "sx_transaction A D io w = do {
     (ready, w) \<leftarrow> sx_wait_busy A D 10000 w;
     let w = ar_digital_write A (sx_nss D) False (ar_spi_begin_transaction A w);
     let (a, w) = io w;
     Some (a, ar_spi_end_transaction A (ar_digital_write A (sx_nss D) True w)) }"

definition sx_write_command :: "'w arduino \<Rightarrow> sx1280 \<Rightarrow> u8 \<Rightarrow> u8 list \<Rightarrow> 'w \<Rightarrow> 'w option" where
  "sx_write_command A D opcode params w =
     map_option snd (sx_transaction A D (\<lambda>w. ((), spi_send A (opcode # params) w)) w)"

definition sx_read_command :: "'w arduino \<Rightarrow> sx1280 \<Rightarrow> u8 \<Rightarrow> nat \<Rightarrow> 'w \<Rightarrow> (u8 list \<times> 'w) option" where
  "sx_read_command A D opcode n w = sx_transaction A D (\<lambda>w. spi_receive A n (spi_send A [opcode, 0] w)) w"

definition sx_write_registers :: "'w arduino \<Rightarrow> sx1280 \<Rightarrow> u16 \<Rightarrow> u8 list \<Rightarrow> 'w \<Rightarrow> 'w option" where
  "sx_write_registers A D addr values w =
     map_option snd (sx_transaction A D (\<lambda>w. ((), spi_send A ([0x18, ucast (drop_bit 8 addr), ucast (addr AND 0xFF)] @ values) w)) w)"

definition sx_write_register :: "'w arduino \<Rightarrow> sx1280 \<Rightarrow> u16 \<Rightarrow> u8 \<Rightarrow> 'w \<Rightarrow> 'w option" where
  "sx_write_register A D addr v w = sx_write_command A D 0x18 [ucast (drop_bit 8 addr), ucast (addr AND 0xFF), v] w"

definition sx_read_register :: "'w arduino \<Rightarrow> sx1280 \<Rightarrow> u16 \<Rightarrow> 'w \<Rightarrow> (u8 \<times> 'w) option" where
  "sx_read_register A D addr w =
     sx_transaction A D (\<lambda>w. ar_spi_transfer A 0 (spi_send A [0x19, ucast (drop_bit 8 addr), ucast (addr AND 0xFF), 0] w)) w"

definition sx_get_status :: "'w arduino \<Rightarrow> sx1280 \<Rightarrow> 'w \<Rightarrow> (u8 \<times> 'w) option" where
  "sx_get_status A D w = sx_transaction A D (\<lambda>w. ar_spi_transfer A 0 (spi_send A [0xC0] w)) w"

definition sx_get_packet_type :: "'w arduino \<Rightarrow> sx1280 \<Rightarrow> 'w \<Rightarrow> (u8 \<times> 'w) option" where
  "sx_get_packet_type A D w = do { (r, w) \<leftarrow> sx_read_command A D 0x03 1 w; Some (r ! 0, w) }"

definition sx_write_buffer :: "'w arduino \<Rightarrow> sx1280 \<Rightarrow> u8 list \<Rightarrow> nat \<Rightarrow> u8 \<Rightarrow> 'w \<Rightarrow> 'w option" where
  "sx_write_buffer A D data n offset w =
     (if length data < n then None
      else map_option snd (sx_transaction A D (\<lambda>w. ((), spi_send A ([0x1A, offset] @ take n data) w)) w))"

definition sx_read_buffer :: "'w arduino \<Rightarrow> sx1280 \<Rightarrow> nat \<Rightarrow> u8 \<Rightarrow> 'w \<Rightarrow> (u8 list \<times> 'w) option" where
  "sx_read_buffer A D n offset w = sx_transaction A D (\<lambda>w. spi_receive A n (spi_send A [0x1B, offset, 0] w)) w"

section \<open>Commands\<close>

definition sx_set_standby :: "'w arduino \<Rightarrow> sx1280 \<Rightarrow> standby \<Rightarrow> 'w \<Rightarrow> 'w option" where
  "sx_set_standby A D mode w = sx_write_command A D 0x80 [standby_code mode] w"

definition sx_set_packet_type :: "'w arduino \<Rightarrow> sx1280 \<Rightarrow> packet_type \<Rightarrow> 'w \<Rightarrow> 'w option" where
  "sx_set_packet_type A D t w = sx_write_command A D 0x8A [packet_type_code t] w"

definition sx_set_buffer_base_address :: "'w arduino \<Rightarrow> sx1280 \<Rightarrow> u8 \<Rightarrow> u8 \<Rightarrow> 'w \<Rightarrow> 'w option" where
  "sx_set_buffer_base_address A D tx_base rx_base w = sx_write_command A D 0x8F [tx_base, rx_base] w"

definition sx_set_modulation_params :: "'w arduino \<Rightarrow> sx1280 \<Rightarrow> u8 \<Rightarrow> u8 \<Rightarrow> u8 \<Rightarrow> 'w \<Rightarrow> 'w option" where
  "sx_set_modulation_params A D p1 p2 p3 w = sx_write_command A D 0x8B [p1, p2, p3] w"

definition sx_set_packet_params_lora :: "'w arduino \<Rightarrow> sx1280 \<Rightarrow> u8 \<Rightarrow> 'w \<Rightarrow> 'w option" where
  "sx_set_packet_params_lora A D payload_len w =
     sx_write_command A D 0x8C [0x0C, 0x00, payload_len, 0x20, 0x40, 0x00, 0x00] w"

definition sx_set_tx_params :: "'w arduino \<Rightarrow> sx1280 \<Rightarrow> u8 \<Rightarrow> 'w \<Rightarrow> 'w option" where
  "sx_set_tx_params A D power_dbm w = sx_write_command A D 0x8E [power_dbm, 0xE0] w"

definition sx_set_lora_sync_word :: "'w arduino \<Rightarrow> sx1280 \<Rightarrow> u8 \<Rightarrow> 'w \<Rightarrow> 'w option" where
  "sx_set_lora_sync_word A D sync_word w = sx_write_registers A D 0x0944
     [(sync_word AND 0xF0) OR drop_bit 4 (0x44 AND 0xF0), push_bit 4 (sync_word AND 0x0F) OR (0x44 AND 0x0F)] w"

text \<open>The quotient is computed in \<^verbatim>\<open>double\<close> and truncated.\<close>

definition frequency_word :: "u32 \<Rightarrow> u32 option" where
  "frequency_word freq_hz = map_option word_of_int (fp_to_int 0 (2 ^ 32 - 1)
     (fp_div binary64 (fp_of_int binary64 (uint freq_hz)) (fp_div binary64 (Fin 52000000) (Fin 262144))))"

definition sx_set_frequency_hz :: "'w arduino \<Rightarrow> sx1280 \<Rightarrow> u32 \<Rightarrow> 'w \<Rightarrow> 'w option" where
  "sx_set_frequency_hz A D freq_hz w = do {
     frf \<leftarrow> frequency_word freq_hz;
     sx_write_command A D 0x86 [ucast (drop_bit 16 frf), ucast (drop_bit 8 frf), ucast frf] w }"

definition sx_set_dio_irq_params :: "'w arduino \<Rightarrow> sx1280 \<Rightarrow> u16 \<Rightarrow> u16 \<Rightarrow> u16 \<Rightarrow> u16 \<Rightarrow> 'w \<Rightarrow> 'w option" where
  "sx_set_dio_irq_params A D irq_mask dio1_mask dio2_mask dio3_mask w = sx_write_command A D 0x8D
     [ucast (drop_bit 8 irq_mask), ucast irq_mask, ucast (drop_bit 8 dio1_mask), ucast dio1_mask,
      ucast (drop_bit 8 dio2_mask), ucast dio2_mask, ucast (drop_bit 8 dio3_mask), ucast dio3_mask] w"

definition sx_get_irq_status :: "'w arduino \<Rightarrow> sx1280 \<Rightarrow> 'w \<Rightarrow> (u16 \<times> 'w) option" where
  "sx_get_irq_status A D w = do {
     (irq, w) \<leftarrow> sx_read_command A D 0x15 2 w;
     Some (push_bit 8 (ucast (irq ! 0)) OR ucast (irq ! 1), w) }"

definition sx_clear_irq_status :: "'w arduino \<Rightarrow> sx1280 \<Rightarrow> u16 \<Rightarrow> 'w \<Rightarrow> 'w option" where
  "sx_clear_irq_status A D irq_mask w = sx_write_command A D 0x97 [ucast (drop_bit 8 irq_mask), ucast irq_mask] w"

definition sx_set_ranging_address :: "'w arduino \<Rightarrow> sx1280 \<Rightarrow> ranging_role \<Rightarrow> u32 \<Rightarrow> 'w \<Rightarrow> 'w option" where
  "sx_set_ranging_address A D role address w =
     (let base = (if role = RANGING_ROLE_MASTER then 0x0912 else 0x0916) in do {
        w \<leftarrow> sx_write_register A D (base + 0) (ucast (drop_bit 24 address)) w;
        w \<leftarrow> sx_write_register A D (base + 1) (ucast (drop_bit 16 address)) w;
        w \<leftarrow> sx_write_register A D (base + 2) (ucast (drop_bit 8 address)) w;
        w \<leftarrow> sx_write_register A D (base + 3) (ucast address) w;
        if role = RANGING_ROLE_SLAVE then do {
          (v, w) \<leftarrow> sx_read_register A D 0x0931 w;
          sx_write_register A D 0x0931 ((v AND 0x3F) OR 0xC0) w }
        else Some w })"

definition sx_set_ranging_calibration :: "'w arduino \<Rightarrow> sx1280 \<Rightarrow> u16 \<Rightarrow> 'w \<Rightarrow> 'w option" where
  "sx_set_ranging_calibration A D calibration w = do {
     w \<leftarrow> sx_write_register A D 0x092C (ucast (drop_bit 8 calibration)) w;
     sx_write_register A D 0x092D (ucast calibration) w }"

section \<open>Bring-up\<close>

definition sx_reset :: "'w arduino \<Rightarrow> sx1280 \<Rightarrow> 'w \<Rightarrow> 'w option" where
  "sx_reset A D w =
     (let w = ar_digital_write A (sx_rst D) False (ar_pin_mode A (sx_rst D) OUTPUT w);
          w = ar_digital_write A (sx_rst D) True (ar_delay_us A 100 w)
      in map_option snd (sx_wait_busy A D 10000 (ar_delay A 5 w)))"

text \<open>The head that \<^verbatim>\<open>beginLoRa\<close> and \<^verbatim>\<open>beginRanging\<close> share, up to the registers of the modulation.\<close>

definition sx_begin_common :: "'w arduino \<Rightarrow> sx1280 \<Rightarrow> packet_type \<Rightarrow> u32 \<Rightarrow> 'w \<Rightarrow> 'w option" where
  "sx_begin_common A D t frequency_hz w = do {
     let w = ar_digital_write A (sx_nss D) True (ar_pin_mode A (sx_nss D) OUTPUT w);
     let w = ar_spi_begin A (ar_pin_mode A (sx_busy D) INPUT w);
     w \<leftarrow> sx_reset A D w;
     w \<leftarrow> sx_set_standby A D STDBY_RC w;
     w \<leftarrow> sx_write_command A D 0x96 [0] w;
     w \<leftarrow> sx_set_packet_type A D t w;
     w \<leftarrow> sx_set_frequency_hz A D frequency_hz w;
     w \<leftarrow> sx_set_buffer_base_address A D 0x00 0x80 w;
     w \<leftarrow> sx_set_modulation_params A D 0x70 0x0A 0x01 w;
     w \<leftarrow> sx_write_register A D 0x0925 0x37 w;
     sx_write_register A D 0x093C 0x01 w }"

definition sx_begin_lora :: "'w arduino \<Rightarrow> sx1280 \<Rightarrow> u32 \<Rightarrow> 'w \<Rightarrow> (bool \<times> 'w) option" where
  "sx_begin_lora A D frequency_hz w = do {
     w \<leftarrow> sx_begin_common A D PACKET_TYPE_LORA frequency_hz w;
     w \<leftarrow> sx_set_packet_params_lora A D 0xFF w;
     w \<leftarrow> sx_set_tx_params A D 20 w;
     w \<leftarrow> sx_set_lora_sync_word A D 0x12 w;
     let mask = IRQ_RX_DONE OR IRQ_TX_DONE OR IRQ_RX_TX_TIMEOUT OR IRQ_CRC_ERROR OR IRQ_HEADER_ERROR;
     w \<leftarrow> sx_set_dio_irq_params A D mask mask 0 0 w;
     w \<leftarrow> sx_clear_irq_status A D IRQ_ALL w;
     (status, w) \<leftarrow> sx_get_status A D w;
     if status \<noteq> 0x00 \<and> status \<noteq> 0xFF then do {
       (t, w) \<leftarrow> sx_get_packet_type A D w;
       Some (t = packet_type_code PACKET_TYPE_LORA, w) }
     else Some (False, w) }"

definition ranging_irq_mask :: "ranging_role \<Rightarrow> u16" where
  "ranging_irq_mask role =
     (if role = RANGING_ROLE_MASTER then IRQ_RX_TX_TIMEOUT OR (IRQ_MASTER_RESULT_VALID OR IRQ_MASTER_TIMEOUT)
      else IRQ_RX_TX_TIMEOUT OR (IRQ_SLAVE_RESPONSE_DONE OR IRQ_SLAVE_REQUEST_DISCARD OR IRQ_SLAVE_REQUEST_VALID))"

definition sx_begin_ranging ::
  "'w arduino \<Rightarrow> sx1280 \<Rightarrow> ranging_role \<Rightarrow> u32 \<Rightarrow> u32 \<Rightarrow> u16 \<Rightarrow> 'w \<Rightarrow> (bool \<times> 'w) option" where
  "sx_begin_ranging A D role frequency_hz ranging_address calibration w = do {
     w \<leftarrow> sx_begin_common A D PACKET_TYPE_RANGING frequency_hz w;
     w \<leftarrow> sx_set_packet_params_lora A D 0x08 w;
     w \<leftarrow> sx_set_tx_params A D 28 w;
     w \<leftarrow> sx_set_ranging_address A D role ranging_address w;
     w \<leftarrow> sx_set_ranging_calibration A D calibration w;
     w \<leftarrow> sx_write_register A D 0x091E 8 w;
     (v, w) \<leftarrow> sx_read_register A D 0x0923 w;
     w \<leftarrow> sx_write_register A D 0x0923 (v OR 0x40) w;
     w \<leftarrow> sx_set_dio_irq_params A D (ranging_irq_mask role) (ranging_irq_mask role) 0 0 w;
     w \<leftarrow> sx_write_command A D 0xA3 [role_code role] w;
     w \<leftarrow> sx_clear_irq_status A D IRQ_ALL w;
     (status, w) \<leftarrow> sx_get_status A D w;
     Some (status \<noteq> 0x00 \<and> status \<noteq> 0xFF, w) }"

section \<open>Packets\<close>

text \<open>Every exit of the packet functions clears the interrupts and goes to standby.\<close>

definition sx_finish :: "'w arduino \<Rightarrow> sx1280 \<Rightarrow> 'w \<Rightarrow> 'w option" where
  "sx_finish A D w = do { w \<leftarrow> sx_clear_irq_status A D IRQ_ALL w; sx_set_standby A D STDBY_RC w }"

definition sx_lora_mode :: "'w arduino \<Rightarrow> sx1280 \<Rightarrow> 'w \<Rightarrow> 'w option" where
  "sx_lora_mode A D w = do {
     w \<leftarrow> sx_set_standby A D STDBY_RC w;
     (t, w) \<leftarrow> sx_get_packet_type A D w;
     w \<leftarrow> (if t \<noteq> packet_type_code PACKET_TYPE_LORA then sx_set_packet_type A D PACKET_TYPE_LORA w else Some w);
     sx_set_buffer_base_address A D 0x00 0x80 w }"

partial_function (option) sx_transmit_wait ::
  "'w arduino \<Rightarrow> sx1280 \<Rightarrow> u32 \<Rightarrow> u32 \<Rightarrow> 'w \<Rightarrow> (bool \<times> 'w) option" where
  "sx_transmit_wait A D started_ms timeout_ms w = (case ar_millis A w of (now, w) \<Rightarrow>
     if now - started_ms < timeout_ms then do {
       (irq, w) \<leftarrow> sx_get_irq_status A D w;
       if irq AND IRQ_TX_DONE \<noteq> 0 then Some (True, w)
       else if irq AND IRQ_RX_TX_TIMEOUT \<noteq> 0 then Some (False, w)
       else sx_transmit_wait A D started_ms timeout_ms (ar_delay A 1 w) }
     else Some (False, w))"

definition sx_transmit_packet ::
  "'w arduino \<Rightarrow> sx1280 \<Rightarrow> u8 list option \<Rightarrow> u8 \<Rightarrow> u32 \<Rightarrow> 'w \<Rightarrow> (bool \<times> 'w) option" where
  "sx_transmit_packet A D payload len timeout_ms w = (case payload of
     None \<Rightarrow> Some (False, w)
   | Some bytes \<Rightarrow>
       if len = 0 then Some (False, w)
       else do {
         w \<leftarrow> sx_lora_mode A D w;
         w \<leftarrow> sx_set_packet_params_lora A D len w;
         w \<leftarrow> sx_set_tx_params A D 20 w;
         w \<leftarrow> sx_write_buffer A D bytes (unat len) 0 w;
         let mask = IRQ_TX_DONE OR IRQ_RX_TX_TIMEOUT;
         w \<leftarrow> sx_set_dio_irq_params A D mask mask 0 0 w;
         w \<leftarrow> sx_clear_irq_status A D IRQ_ALL w;
         w \<leftarrow> sx_write_command A D 0x83 [0, 0, 0] w;
         let (started_ms, w) = ar_millis A w;
         (sent, w) \<leftarrow> sx_transmit_wait A D started_ms timeout_ms w;
         w \<leftarrow> sx_finish A D w;
         Some (sent, w) })"

definition sx_read_packet_status :: "'w arduino \<Rightarrow> sx1280 \<Rightarrow> 'w \<Rightarrow> (packet_status \<times> 'w) option" where
  "sx_read_packet_status A D w = do {
     (status, w) \<leftarrow> sx_read_command A D 0x1D 2 w;
     Some (\<lparr>ps_rssi_dbm = word_of_int (- (uint (status ! 0) div 2)),
       ps_snr_db = fp_div binary32 (fp_of_int binary32 (sint (status ! 1))) (Fin 4)\<rparr>, w) }"

text \<open>What a reception leaves in the arguments of the caller: the result, the bytes written to the front of
  \<^verbatim>\<open>payload\<close> (their number is \<^verbatim>\<open>*out_len\<close>) and the status, \<open>None\<close> while it is not written.\<close>

type_synonym reception = "bool \<times> u8 list \<times> packet_status option"

definition sx_read_packet :: "'w arduino \<Rightarrow> sx1280 \<Rightarrow> u8 \<Rightarrow> 'w \<Rightarrow> (reception \<times> 'w) option" where
  "sx_read_packet A D max_len w = do {
     (rx_status, w) \<leftarrow> sx_read_command A D 0x17 2 w;
     let packet_len = rx_status ! 0;
     let read_len = (if packet_len < max_len then packet_len else max_len);
     (bytes, w) \<leftarrow> sx_read_buffer A D (unat read_len) (rx_status ! 1) w;
     (status, w) \<leftarrow> sx_read_packet_status A D w;
     Some ((packet_len \<le> max_len, bytes, Some status), w) }"

partial_function (option) sx_receive_wait ::
  "'w arduino \<Rightarrow> sx1280 \<Rightarrow> u8 \<Rightarrow> u32 \<Rightarrow> u32 \<Rightarrow> 'w \<Rightarrow> (reception \<times> 'w) option" where
  "sx_receive_wait A D max_len started_ms timeout_ms w = (case ar_millis A w of (now, w) \<Rightarrow>
     if now - started_ms < timeout_ms then do {
       (irq, w) \<leftarrow> sx_get_irq_status A D w;
       if irq AND (IRQ_CRC_ERROR OR IRQ_HEADER_ERROR OR IRQ_RX_TX_TIMEOUT) \<noteq> 0 then Some ((False, [], None), w)
       else if irq AND IRQ_RX_DONE \<noteq> 0 then sx_read_packet A D max_len w
       else sx_receive_wait A D max_len started_ms timeout_ms (ar_delay A 1 w) }
     else Some ((False, [], None), w))"

definition sx_receive_packet :: "'w arduino \<Rightarrow> sx1280 \<Rightarrow> u8 \<Rightarrow> u32 \<Rightarrow> 'w \<Rightarrow> (reception \<times> 'w) option" where
  "sx_receive_packet A D max_len timeout_ms w =
     (if max_len = 0 then Some ((False, [], None), w)
      else do {
        w \<leftarrow> sx_lora_mode A D w;
        w \<leftarrow> sx_set_packet_params_lora A D 0xFF w;
        let mask = IRQ_RX_DONE OR IRQ_RX_TX_TIMEOUT OR IRQ_CRC_ERROR OR IRQ_HEADER_ERROR;
        w \<leftarrow> sx_set_dio_irq_params A D mask mask 0 0 w;
        w \<leftarrow> sx_clear_irq_status A D IRQ_ALL w;
        w \<leftarrow> sx_write_command A D 0x82 [0x00, 0xFF, 0xFF] w;
        let (started_ms, w) = ar_millis A w;
        (answer, w) \<leftarrow> sx_receive_wait A D max_len started_ms timeout_ms w;
        w \<leftarrow> sx_finish A D w;
        Some (answer, w) })"

section \<open>Ranging\<close>

definition sx_start_master_exchange :: "'w arduino \<Rightarrow> sx1280 \<Rightarrow> u16 \<Rightarrow> 'w \<Rightarrow> 'w option" where
  "sx_start_master_exchange A D timeout_ms w = do {
     w \<leftarrow> sx_finish A D w;
     sx_write_command A D 0x83 [0x02, ucast (drop_bit 8 timeout_ms), ucast timeout_ms] w }"

definition sx_start_slave_listen :: "'w arduino \<Rightarrow> sx1280 \<Rightarrow> 'w \<Rightarrow> 'w option" where
  "sx_start_slave_listen A D w = do {
     w \<leftarrow> sx_finish A D w;
     sx_write_command A D 0x82 [0x00, 0xFF, 0xFF] w }"

text \<open>The 24-bit two's complement result, in the order in which the operands are written.\<close>

definition ranging_result :: "u8 \<Rightarrow> u8 \<Rightarrow> u8 \<Rightarrow> i32" where
  "ranging_result high mid low =
     (let raw = push_bit 16 (ucast high) OR push_bit 8 (ucast mid) OR ucast low
      in if raw AND 0x00800000 \<noteq> 0 then raw OR 0xFF000000 else raw)"

definition sx_read_ranging_result_raw :: "'w arduino \<Rightarrow> sx1280 \<Rightarrow> 'w \<Rightarrow> (i32 \<times> 'w) option" where
  "sx_read_ranging_result_raw A D w = do {
     w \<leftarrow> sx_set_standby A D STDBY_XOSC w;
     (v, w) \<leftarrow> sx_read_register A D 0x097F w;
     w \<leftarrow> sx_write_register A D 0x097F (v OR 0x02) w;
     (v, w) \<leftarrow> sx_read_register A D 0x0924 w;
     w \<leftarrow> sx_write_register A D 0x0924 (v AND 0xCF) w;
     (high, w) \<leftarrow> sx_read_register A D 0x0961 w;
     (mid, w) \<leftarrow> sx_read_register A D (0x0961 + 1) w;
     (low, w) \<leftarrow> sx_read_register A D (0x0961 + 2) w;
     w \<leftarrow> sx_set_standby A D STDBY_RC w;
     Some (ranging_result high mid low, w) }"

definition raw_ranging_meters :: "i32 \<Rightarrow> fp" where
  "raw_ranging_meters raw_result = fp_div binary32
     (fp_mul binary32 (fp_of_int binary32 (sint raw_result)) (Fin 150)) (fp_mul binary32 (Fin 4096) (Fin (13 / 8)))"

end
