(* ===== verification/Bee_Node.thy ===== *)
theory Bee_Node
  imports Radio_Slot Sx1280
begin

text \<open>
  \<^verbatim>\<open>ports/speedybee/src/main.cpp\<close>, part one: the globals of the SpeedyBee firmware, its settings, its serial
  port and its records. The firmware is one Arduino loop, so the globals are one record that every function
  takes and returns. Helpers that are the same text in \<^verbatim>\<open>src/ControlChannel.cpp\<close> or \<^verbatim>\<open>src/RadioHealth.cpp\<close>
  (\<^verbatim>\<open>metersToMillimeters\<close>, the mock peers, the report scanner, the names of failure reasons) are the
  definitions of those theories. \<open>None\<close> is undefined behaviour or a loop that does not end.
\<close>

section \<open>The board\<close>

text \<open>The struct kept in EEPROM; the name is the raw array, since storage may hold any bytes.\<close>

record persist_config =
  pc_magic :: u32
  pc_node_id :: u8
  pc_name :: "char list"
  pc_gps_enabled :: u8
  pc_mock_enabled :: u8
  pc_altitude_mm :: i32

record 'w bee_board =
  bb_arduino :: "'w arduino"
  bb_serial_begin :: "'w \<Rightarrow> 'w"
  bb_serial_available :: "'w \<Rightarrow> int \<times> 'w"
  bb_serial_read :: "'w \<Rightarrow> int \<times> 'w"
  bb_eeprom_begin :: "'w \<Rightarrow> 'w"
  bb_eeprom_get :: "'w \<Rightarrow> persist_config \<times> 'w"
  bb_eeprom_put :: "persist_config \<Rightarrow> 'w \<Rightarrow> 'w"
  bb_eeprom_commit :: "'w \<Rightarrow> bool \<times> 'w"
  bb_expf :: "fp \<Rightarrow> fp"
  bb_libm :: libm
  bb_mock_available :: bool
  bb_payload_junk :: "nat \<Rightarrow> u8"
  bb_frame_junk :: "nat \<Rightarrow> u8"
  bb_line_junk :: "nat \<Rightarrow> char"

record 'w bee =
  be_world :: 'w
  be_config :: persist_config
  be_nav :: nav_system
  be_mock :: nav_mock
  be_line :: "char list"
  be_line_len :: nat
  be_last_snapshot_ms :: u32
  be_status_led_until_ms :: u32
  be_debug_enabled :: bool
  be_status_led_on :: bool
  be_local_quality_packet_seq :: u32
  be_radio_ready :: bool
  be_radio_frame_seq :: u16
  be_remote_debug_active_until_ms :: u32
  be_remote_debug_was_active :: bool
  be_last_debug_enable_tx_ms :: u32
  be_last_node_quality_tx_ms :: u32
  be_radio_quality_packet_seq :: u32
  be_last_radio_not_ready_log_ms :: u32
  be_last_node_quality_tx_log_ms :: u32
  be_range_request_id :: u16
  be_radio_node_id :: u8
  be_next_peer_id :: u8
  be_next_master_at_ms :: u32
  be_node_quality :: "buffered_quality list"
  be_record_buf :: "char list"
  be_lines :: "string list"

text \<open>Calls of the board; the driver may not return.\<close>

definition bee_call :: "('w \<Rightarrow> 'a \<times> 'w) \<Rightarrow> 'w bee \<Rightarrow> 'a \<times> 'w bee" where
  "bee_call f s = (case f (be_world s) of (a, w) \<Rightarrow> (a, s\<lparr>be_world := w\<rparr>))"

definition bee_do :: "('w \<Rightarrow> 'w) \<Rightarrow> 'w bee \<Rightarrow> 'w bee" where
  "bee_do f s = s\<lparr>be_world := f (be_world s)\<rparr>"

definition bee_radio_call :: "('w \<Rightarrow> ('a \<times> 'w) option) \<Rightarrow> 'w bee \<Rightarrow> ('a \<times> 'w bee) option" where
  "bee_radio_call f s = map_option (\<lambda>(a, w). (a, s\<lparr>be_world := w\<rparr>)) (f (be_world s))"

definition bee_radio_do :: "('w \<Rightarrow> 'w option) \<Rightarrow> 'w bee \<Rightarrow> ('w bee) option" where
  "bee_radio_do f s = map_option (\<lambda>w. s\<lparr>be_world := w\<rparr>) (f (be_world s))"

abbreviation (input) PIN_PA_RXEN :: int where "PIN_PA_RXEN \<equiv> 9"
abbreviation (input) PIN_PA_TXEN :: int where "PIN_PA_TXEN \<equiv> 10"
abbreviation (input) PIN_RADIO_DIO1 :: int where "PIN_RADIO_DIO1 \<equiv> 4"
abbreviation (input) PIN_LED :: int where "PIN_LED \<equiv> 16"

definition bee_radio :: sx1280 where
  "bee_radio = \<lparr>sx_nss = 15, sx_rst = 2, sx_busy = 5\<rparr>"

section \<open>Constants\<close>

abbreviation (input) kSnapshotPeriodMs :: u32 where "kSnapshotPeriodMs \<equiv> 500"
abbreviation (input) kRecordBufMax :: nat where "kRecordBufMax \<equiv> 1536"
abbreviation (input) kLogBufMax :: nat where "kLogBufMax \<equiv> 256"
abbreviation (input) kDefaultNodeId :: u8 where "kDefaultNodeId \<equiv> 0"
abbreviation (input) kDefaultAltitudeMm :: i32 where "kDefaultAltitudeMm \<equiv> 183500"
abbreviation (input) kConfigMagic :: u32 where "kConfigMagic \<equiv> 0x5342324E"

section \<open>Time and output\<close>

definition bee_now :: "'w bee_board \<Rightarrow> 'w bee \<Rightarrow> u32 \<times> 'w bee" where
  "bee_now B s = bee_call (ar_millis (bb_arduino B)) s"

definition bee_delay :: "'w bee_board \<Rightarrow> u32 \<Rightarrow> 'w bee \<Rightarrow> 'w bee" where
  "bee_delay B ms s = bee_do (ar_delay (bb_arduino B) ms) s"

definition bee_pin :: "'w bee_board \<Rightarrow> int \<Rightarrow> bool \<Rightarrow> 'w bee \<Rightarrow> 'w bee" where
  "bee_pin B pin level s = bee_do (ar_digital_write (bb_arduino B) pin level) s"

definition bee_print_record :: "'w bee_board \<Rightarrow> char list \<Rightarrow> int \<Rightarrow> nat \<Rightarrow> 'w bee \<Rightarrow> ('w bee) option" where
  "bee_print_record B buf n_out cap s =
     (if n_out \<ge> 0 \<and> nat n_out < cap then do {
        txt \<leftarrow> c_string buf;
        let s = bee_pin B PIN_LED True (s\<lparr>be_lines := be_lines s @ [txt]\<rparr>);
        let (now, s) = bee_now B (s\<lparr>be_status_led_on := True\<rparr>);
        Some (s\<lparr>be_status_led_until_ms := now + 40\<rparr>) }
      else Some s)"

definition bee_junk_line :: "'w bee_board \<Rightarrow> nat \<Rightarrow> char list" where
  "bee_junk_line B n = map (bb_line_junk B) [0..<n]"

definition bee_emit_log :: "'w bee_board \<Rightarrow> u32 \<Rightarrow> string \<Rightarrow> string \<Rightarrow> string \<Rightarrow> 'w bee \<Rightarrow> ('w bee) option" where
  "bee_emit_log B now level tag message s = do {
     (buf, n_out) \<leftarrow> nav_serial_write_log_record (bee_junk_line B kLogBufMax) kLogBufMax now (Some level) (Some tag)
       (Some message);
     bee_print_record B buf n_out kLogBufMax s }"

definition bee_emit_log_now :: "'w bee_board \<Rightarrow> string \<Rightarrow> string \<Rightarrow> string \<Rightarrow> 'w bee \<Rightarrow> ('w bee) option" where
  "bee_emit_log_now B level tag message s = (case bee_now B s of (now, s) \<Rightarrow> bee_emit_log B now level tag message s)"

text \<open>\<^verbatim>\<open>emitRangeRecord\<close>, whose result no caller uses; the LED does not light.\<close>

definition bee_emit_range_record :: "'w bee_board \<Rightarrow> nav_serial_range_record \<Rightarrow> 'w bee \<Rightarrow> ('w bee) option" where
  "bee_emit_range_record B r s = do {
     (buf, n_out) \<leftarrow> nav_serial_write_range_record (bee_junk_line B 512) 512 (Some r);
     if n_out < 0 \<or> nat n_out \<ge> 512 then Some s
     else do { txt \<leftarrow> c_string buf; Some (s\<lparr>be_lines := be_lines s @ [txt]\<rparr>) } }"

section \<open>Settings\<close>

definition bee_save_config :: "'w bee_board \<Rightarrow> 'w bee \<Rightarrow> 'w bee" where
  "bee_save_config B s = snd (bee_call (bb_eeprom_commit B) (bee_do (bb_eeprom_put B (be_config s)) s))"

definition bee_default_name :: "u8 \<Rightarrow> char list \<Rightarrow> char list option" where
  "bee_default_name node_id name = vsnprintf_at name 0 NAV_NODE_NAME_MAX (concat [''speedybee-'', pu node_id])"

definition bee_default_config :: "persist_config \<Rightarrow> persist_config option" where
  "bee_default_config c = do {
     name \<leftarrow> bee_default_name kDefaultNodeId (pc_name c);
     Some \<lparr>pc_magic = kConfigMagic, pc_node_id = kDefaultNodeId, pc_name = name, pc_gps_enabled = 0,
       pc_mock_enabled = 0, pc_altitude_mm = kDefaultAltitudeMm\<rparr> }"

text \<open>The repair of a stored configuration, with the flag that asks for it to be saved again.\<close>

definition bee_repair_config :: "bool \<Rightarrow> persist_config \<Rightarrow> (bool \<times> persist_config) option" where
  "bee_repair_config mock_available c = do {
     name \<leftarrow> mem_write (pc_name c) (NAV_NODE_NAME_MAX - 1) NUL;
     let c = c\<lparr>pc_name := name\<rparr>;
     (changed, c) \<leftarrow> (if unat (pc_node_id c) \<ge> NAV_MAX_NODES then do {
         name \<leftarrow> bee_default_name kDefaultNodeId (pc_name c);
         Some (True, c\<lparr>pc_node_id := kDefaultNodeId, pc_name := name\<rparr>) }
       else Some (False, c));
     let (changed, c) = (if pc_gps_enabled c \<noteq> 0 then (True, c\<lparr>pc_gps_enabled := 0\<rparr>) else (changed, c));
     let (changed, c) = (if \<not> mock_available \<and> pc_mock_enabled c \<noteq> 0 then (True, c\<lparr>pc_mock_enabled := 0\<rparr>)
       else if pc_mock_enabled c > 1 then (True, c\<lparr>pc_mock_enabled := 0\<rparr>) else (changed, c));
     Some (if pc_mock_enabled c \<noteq> 0 \<and> pc_altitude_mm c = 0 then (True, c\<lparr>pc_altitude_mm := kDefaultAltitudeMm\<rparr>)
       else (changed, c)) }"

definition bee_load_config :: "'w bee_board \<Rightarrow> 'w bee \<Rightarrow> ('w bee) option" where
  "bee_load_config B s = (case bee_call (bb_eeprom_get B) s of (c, s) \<Rightarrow>
     if pc_magic c \<noteq> kConfigMagic then do {
       c \<leftarrow> bee_default_config c;
       Some (bee_save_config B (s\<lparr>be_config := c\<rparr>)) }
     else do {
       (changed, c) \<leftarrow> bee_repair_config (bb_mock_available B) c;
       let s = s\<lparr>be_config := c\<rparr>;
       Some (if changed then bee_save_config B s else s) })"

definition bee_apply_core_config :: "'w bee \<Rightarrow> 'w bee" where
  "bee_apply_core_config s =
     s\<lparr>be_nav := (be_nav s)\<lparr>sy_config := (sy_config (be_nav s))\<lparr>cfg_demo_force_gps_denied := True\<rparr>\<rparr>\<rparr>"

definition bee_mock_on :: "'w bee_board \<Rightarrow> persist_config \<Rightarrow> bool" where
  "bee_mock_on B c \<longleftrightarrow> bb_mock_available B \<and> pc_mock_enabled c \<noteq> 0"

definition bee_seed_mock :: "'w bee_board \<Rightarrow> 'w bee \<Rightarrow> ('w bee) option" where
  "bee_seed_mock B s = do {
     let mock = nav_mock_set_local_truth \<lparr>lat_e7 = 504520000, lon_e7 = 305260000, alt_mm = 183500\<rparr> nav_mock_init;
     mock \<leftarrow> add_peers seed_peers mock;
     Some (s\<lparr>be_mock := nav_mock_set_enabled (bee_mock_on B (be_config s)) mock\<rparr>) }"

definition bee_core_config :: "u8 \<Rightarrow> nav_config" where
  "bee_core_config node_id = (nav_config_default node_id)
     \<lparr>cfg_telemetry_ttl_ms := 3000, cfg_range_ttl_ms := 15000, cfg_local_altitude_ttl_ms := 2000,
      cfg_min_anchor_triangle_area_m2 := Fin 10, cfg_degraded_anchor_triangle_area_m2 := Fin 100\<rparr>"

definition bee_init_core :: "'w bee_board \<Rightarrow> 'w bee \<Rightarrow> ('w bee) option" where
  "bee_init_core B s =
     (let s = s\<lparr>be_nav := nav_core_init (Some (bee_core_config (pc_node_id (be_config s))))\<rparr>
      in bee_seed_mock B ((bee_apply_core_config s)\<lparr>be_node_quality := node_quality_clear\<rparr>))"

section \<open>Commands\<close>

text \<open>\<^verbatim>\<open>strncpy\<close> of 23 characters into the name, padded with NUL, and the terminator.\<close>

definition bee_copy_name :: "char list \<Rightarrow> char list \<Rightarrow> char list option" where
  "bee_copy_name src name =
     (let taken = take (NAV_NODE_NAME_MAX - 1) src; txt = takeWhile (\<lambda>c. c \<noteq> NUL) taken in
      if length name < NAV_NODE_NAME_MAX \<or> (length taken < NAV_NODE_NAME_MAX - 1 \<and> NUL \<notin> set taken) then None
      else Some (txt @ replicate (NAV_NODE_NAME_MAX - 1 - length txt) NUL @ [NUL] @ drop NAV_NODE_NAME_MAX name))"

definition bee_set_name :: "char list \<Rightarrow> 'w bee \<Rightarrow> ('w bee) option" where
  "bee_set_name src s = map_option (\<lambda>n. s\<lparr>be_config := (be_config s)\<lparr>pc_name := n\<rparr>\<rparr>)
     (bee_copy_name src (pc_name (be_config s)))"

definition bee_set_mock :: "u8 \<Rightarrow> bool \<Rightarrow> 'w bee \<Rightarrow> 'w bee" where
  "bee_set_mock flag on s =
     s\<lparr>be_config := (be_config s)\<lparr>pc_mock_enabled := flag\<rparr>, be_mock := nav_mock_set_enabled on (be_mock s)\<rparr>"

definition bee_set_node_id :: "'w bee_board \<Rightarrow> u8 \<Rightarrow> 'w bee \<Rightarrow> ('w bee) option" where
  "bee_set_node_id B node_id s = do {
     name \<leftarrow> bee_default_name node_id (pc_name (be_config s));
     bee_init_core B (s\<lparr>be_config := (be_config s)\<lparr>pc_node_id := node_id, pc_name := name\<rparr>\<rparr>) }"

definition bee_set_debug :: "bool \<Rightarrow> 'w bee \<Rightarrow> 'w bee" where
  "bee_set_debug on s = (let s = s\<lparr>be_debug_enabled := on\<rparr> in
     if on then s else s\<lparr>be_node_quality := node_quality_clear\<rparr>)"

text \<open>One command: the change, the log call, and whether the settings are saved.\<close>

definition bee_command_effect ::
  "'w bee_board \<Rightarrow> u32 \<Rightarrow> nav_ctrl_command \<Rightarrow> 'w bee \<Rightarrow> (bool \<times> 'w bee) option" where
  "bee_command_effect B now cmd s = (case cc_type cmd of
     NAV_CTRL_CMD_SET_NAME \<Rightarrow> do {
       s \<leftarrow> bee_set_name (cc_str_value cmd) s;
       s \<leftarrow> bee_emit_log B now ''INFO'' ''CONFIG'' ''node name updated'' s;
       Some (True, s) }
   | NAV_CTRL_CMD_SET_GPS \<Rightarrow> do {
       let s = bee_apply_core_config (s\<lparr>be_config := (be_config s)\<lparr>pc_gps_enabled := 0\<rparr>\<rparr>);
       s \<leftarrow> bee_emit_log B now ''INFO'' ''CONFIG'' ''GPS command ignored: SpeedyBee has no GPS hardware'' s;
       Some (False, s) }
   | NAV_CTRL_CMD_SET_MOCK \<Rightarrow>
       if bb_mock_available B then do {
         let s = bee_set_mock (if cc_bool_value cmd then 1 else 0) (cc_bool_value cmd) s;
         s \<leftarrow> bee_emit_log B now ''INFO'' ''CONFIG'' (if cc_bool_value cmd then ''mock enabled'' else ''mock disabled'') s;
         Some (True, s) }
       else do {
         s \<leftarrow> bee_emit_log B now ''INFO'' ''CONFIG'' ''mock command ignored: disabled in SpeedyBee build''
           (bee_set_mock 0 False s);
         Some (False, s) }
   | NAV_CTRL_CMD_SET_ALTITUDE \<Rightarrow> do {
       let s = s\<lparr>be_config := (be_config s)\<lparr>pc_altitude_mm := cc_int_value cmd\<rparr>\<rparr>;
       s \<leftarrow> bee_emit_log B now ''INFO'' ''CONFIG'' ''altitude updated'' s;
       Some (True, s) }
   | NAV_CTRL_CMD_SET_NODE_ID \<Rightarrow>
       if sint (cc_int_value cmd) \<ge> 0 \<and> sint (cc_int_value cmd) < int NAV_MAX_NODES then do {
         s \<leftarrow> bee_set_node_id B (ucast (cc_int_value cmd)) s;
         s \<leftarrow> bee_emit_log B now ''INFO'' ''CONFIG'' ''node id updated'' s;
         Some (True, s) }
       else Some (False, s)
   | NAV_CTRL_CMD_SET_DEBUG \<Rightarrow> do {
       let s = bee_set_debug (cc_bool_value cmd) s;
       s \<leftarrow> bee_emit_log B now ''INFO'' ''CONFIG''
         (if be_debug_enabled s
          then (if be_radio_ready s then ''debug telemetry enabled; radio ready''
            else ''debug telemetry enabled; radio not ready'')
          else ''debug telemetry disabled'') s;
       Some (False, s) }
   | _ \<Rightarrow> Some (False, s))"

definition bee_apply_command :: "'w bee_board \<Rightarrow> nav_ctrl_command \<Rightarrow> 'w bee \<Rightarrow> ('w bee) option" where
  "bee_apply_command B cmd s = do {
     let (now, s) = bee_now B s;
     (changed, s) \<leftarrow> bee_command_effect B now cmd s;
     Some (if changed then bee_save_config B s else s) }"

definition bee_handle_line :: "'w bee_board \<Rightarrow> string \<Rightarrow> 'w bee \<Rightarrow> ('w bee) option" where
  "bee_handle_line B line s = do {
     (status, cmd) \<leftarrow> nav_serial_parse_command 32 (Some line) ctrl_command_zero;
     if status = NAV_STATUS_OK then bee_apply_command B cmd s else Some s }"

text \<open>One turn of the loop of \<^verbatim>\<open>pumpSerial\<close> with the byte \<open>c\<close>.\<close>

definition bee_serial_byte :: "'w bee_board \<Rightarrow> int \<Rightarrow> 'w bee \<Rightarrow> ('w bee) option" where
  "bee_serial_byte B c s =
     (if c = 10 \<or> c = 13 then
        if be_line_len s > 0 then do {
          line \<leftarrow> mem_write (be_line s) (be_line_len s) NUL;
          txt \<leftarrow> c_string line;
          s \<leftarrow> bee_handle_line B txt (s\<lparr>be_line := line\<rparr>);
          Some (s\<lparr>be_line_len := 0\<rparr>) }
        else Some s
      else if be_line_len s + 1 < 256 then do {
        line \<leftarrow> mem_write (be_line s) (be_line_len s) (char_of (nat (c mod 256)));
        Some (s\<lparr>be_line := line, be_line_len := be_line_len s + 1\<rparr>) }
      else Some (s\<lparr>be_line_len := 0\<rparr>))"

partial_function (option) bee_pump_serial :: "'w bee_board \<Rightarrow> 'w bee \<Rightarrow> ('w bee) option" where
  "bee_pump_serial B s = (case bee_call (bb_serial_available B) s of (n, s) \<Rightarrow>
     if n \<le> 0 then Some s
     else (case bee_call (bb_serial_read B) s of (c, s) \<Rightarrow> do {
       s \<leftarrow> bee_serial_byte B c s;
       bee_pump_serial B s }))"

section \<open>Records\<close>

definition bee_fill_local_node_quality_report :: "u32 \<Rightarrow> nav_snapshot \<Rightarrow> nav_node_quality_report option" where
  "bee_fill_local_node_quality_report packet_seq snapshot = do {
     rms \<leftarrow> meters_to_millimeters (sn_residual_rms_m snapshot);
     max_residual \<leftarrow> meters_to_millimeters (sn_max_residual_m snapshot);
     Some (quality_report_zero
       \<lparr>qr_node_id := sn_node_id snapshot, qr_nav_mode := sn_nav_mode snapshot,
        qr_solution_status := sn_solution_status snapshot, qr_solution_source := sn_solution_source snapshot,
        qr_num_anchors := sn_num_anchors snapshot, qr_anchor_ids := sn_selected_anchor_node_ids snapshot,
        qr_fix_type := NAV_GNSS_FIX_NONE, qr_geometry_score := sn_geometry_score snapshot,
        qr_total_quality := sn_total_quality snapshot, qr_residual_rms_mm := rms,
        qr_max_residual_mm := max_residual, qr_hacc_mm := sn_hacc_mm snapshot, qr_vacc_mm := sn_vacc_mm snapshot,
        qr_position := sn_position snapshot, qr_packet_seq := packet_seq\<rparr>) }"

definition bee_current_local_quality :: "u32 \<Rightarrow> 'w bee \<Rightarrow> nav_node_quality_report option option" where
  "bee_current_local_quality packet_seq s = (case nav_core_get_snapshot (be_nav s) of (ok, snapshot) \<Rightarrow>
     if ok then map_option Some (bee_fill_local_node_quality_report packet_seq snapshot) else Some None)"

definition bee_nav_event :: "'w bee_board \<Rightarrow> nav_event \<Rightarrow> 'w bee \<Rightarrow> ('w bee) option" where
  "bee_nav_event B e s = do {
     nav \<leftarrow> nav_core_handle_event (bb_libm B) (Some e) (be_nav s);
     Some (s\<lparr>be_nav := nav\<rparr>) }"

definition bee_feed_altitude :: "'w bee_board \<Rightarrow> u32 \<Rightarrow> 'w bee \<Rightarrow> ('w bee) option" where
  "bee_feed_altitude B now s = bee_nav_event B (altitude_event now (pc_altitude_mm (be_config s))) s"

definition bee_update :: "'w bee_board \<Rightarrow> u32 \<Rightarrow> 'w bee \<Rightarrow> ('w bee) option" where
  "bee_update B now s = do {
     s \<leftarrow> bee_feed_altitude B now s;
     (n, nav) \<leftarrow> nav_mock_emit (bb_libm B) (be_mock s) now (\<lambda>e. nav_core_handle_event (bb_libm B) (Some e)) (be_nav s);
     nav \<leftarrow> nav_core_tick (bb_libm B) now nav;
     Some (s\<lparr>be_nav := nav\<rparr>) }"

definition bee_print_quality ::
  "'w bee_board \<Rightarrow> nav_node_quality_report \<Rightarrow> u32 \<Rightarrow> u32 \<Rightarrow> string \<Rightarrow> 'w bee \<Rightarrow> ('w bee) option" where
  "bee_print_quality B report now age_ms origin s = do {
     (buf, n_out) \<leftarrow> nav_serial_write_node_quality_record (be_record_buf s) kRecordBufMax (Some report) now age_ms
       (Some origin);
     bee_print_record B buf n_out kRecordBufMax (s\<lparr>be_record_buf := buf\<rparr>) }"

fun bee_print_peers :: "'w bee_board \<Rightarrow> u32 \<Rightarrow> nat list \<Rightarrow> 'w bee \<Rightarrow> ('w bee) option" where
  "bee_print_peers B now [] s = Some s"
| "bee_print_peers B now (i # is) s = do {
     q \<leftarrow> mem_read (be_node_quality s) i;
     s \<leftarrow> (if bq_present q then bee_print_quality B (bq_report q) now (now - bq_received_ms q) ''peer'' s else Some s);
     bee_print_peers B now is s }"

definition bee_info :: "'w bee_board \<Rightarrow> 'w bee \<Rightarrow> nav_serial_node_info option" where
  "bee_info B s = do {
     name \<leftarrow> c_string (pc_name (be_config s));
     Some \<lparr>si_node_id = pc_node_id (be_config s), si_node_name = Some name, si_gps_enabled = False,
       si_mock_enabled = bee_mock_on B (be_config s)\<rparr> }"

definition bee_emit_records :: "'w bee_board \<Rightarrow> u32 \<Rightarrow> 'w bee \<Rightarrow> ('w bee) option" where
  "bee_emit_records B now s = do {
     s \<leftarrow> bee_update B now s;
     let (ok, snapshot) = nav_core_get_snapshot (be_nav s);
     if \<not> ok then Some s
     else do {
       info \<leftarrow> bee_info B s;
       (buf, n_out) \<leftarrow> nav_serial_write_snapshot_record (be_record_buf s) kRecordBufMax (Some info) (Some snapshot)
         (Some (sy_peer_table (be_nav s)));
       s \<leftarrow> bee_print_record B buf n_out kRecordBufMax (s\<lparr>be_record_buf := buf\<rparr>);
       if \<not> be_debug_enabled s then Some s
       else do {
         let s = s\<lparr>be_local_quality_packet_seq := be_local_quality_packet_seq s + 1\<rparr>;
         quality \<leftarrow> bee_fill_local_node_quality_report (be_local_quality_packet_seq s) snapshot;
         s \<leftarrow> bee_print_quality B quality now 0 ''local'' s;
         bee_print_peers B now [0..<NAV_MAX_NODES] s } } }"

definition bee_service_control_channel :: "'w bee_board \<Rightarrow> 'w bee \<Rightarrow> ('w bee) option" where
  "bee_service_control_channel B s = do {
     s \<leftarrow> bee_pump_serial B s;
     let (now, s) = bee_now B s;
     let s = (if be_status_led_on s \<and> sint (now - be_status_led_until_ms s) \<ge> 0
       then (bee_pin B PIN_LED False s)\<lparr>be_status_led_on := False\<rparr> else s);
     if now - be_last_snapshot_ms s \<ge> kSnapshotPeriodMs
     then bee_emit_records B now (s\<lparr>be_last_snapshot_ms := now\<rparr>)
     else Some s }"

end
