(* ===== verification/Bee_Radio.thy ===== *)
theory Bee_Radio
  imports Bee_Node
begin

text \<open>
  \<^verbatim>\<open>ports/speedybee/src/main.cpp\<close>, part two: the radio. The node ranges to its peers in turn every 3.2
  seconds, and in between listens for packets and answers as a ranging slave; commands and records are served
  inside those waits. The arrays for packets hold \<^verbatim>\<open>NAV_RADIO_MAX_FRAME_BYTES + 6\<close> bytes.
\<close>

unbundle bit_operations_syntax

section \<open>Constants\<close>

abbreviation (input) kRadioFrequencyHz :: u32 where "kRadioFrequencyHz \<equiv> 2445000000"
abbreviation (input) kRangingCalibration :: u16 where "kRangingCalibration \<equiv> 13528"
abbreviation (input) kMasterExchangeTimeoutMs :: u16 where "kMasterExchangeTimeoutMs \<equiv> 150"
abbreviation (input) kMasterHostTimeoutMs :: u32 where "kMasterHostTimeoutMs \<equiv> 350"
abbreviation (input) kMasterPeerGapMs :: u32 where "kMasterPeerGapMs \<equiv> 120"
abbreviation (input) kSlaveListenWindowMs :: u32 where "kSlaveListenWindowMs \<equiv> 250"
abbreviation (input) kPacketRxWindowMs :: u32 where "kPacketRxWindowMs \<equiv> 45"
abbreviation (input) kPacketTxTimeoutMs :: u32 where "kPacketTxTimeoutMs \<equiv> 120"
abbreviation (input) kMasterScanIntervalMs :: u32 where "kMasterScanIntervalMs \<equiv> 3200"
abbreviation (input) kRemoteDebugFallbackTtlMs :: u32 where "kRemoteDebugFallbackTtlMs \<equiv> 3000"
abbreviation (input) kPacketMax :: nat where "kPacketMax \<equiv> NAV_RADIO_MAX_FRAME_BYTES + 6"

section \<open>Turns and windows\<close>

definition bee_valid_node_id :: "u8 \<Rightarrow> bool" where
  "bee_valid_node_id node_id \<longleftrightarrow> unat node_id < NAV_MAX_NODES"

definition bee_ranging_address_for :: "u8 \<Rightarrow> u32" where
  "bee_ranging_address_for slave_node_id = 0x4E415600 OR ucast slave_node_id"

text \<open>The loop of \<^verbatim>\<open>nextPeerAfter\<close> over the offsets 1 to 4; the sum is an \<^verbatim>\<open>int\<close>.\<close>

fun bee_peer_search :: "u8 \<Rightarrow> u8 \<Rightarrow> nat list \<Rightarrow> u8" where
  "bee_peer_search self_id previous_id [] = NAV_INVALID_NODE_ID"
| "bee_peer_search self_id previous_id (offset # offsets) =
     (let candidate = of_nat ((unat previous_id + offset) mod NAV_MAX_NODES) in
      if candidate \<noteq> self_id then candidate else bee_peer_search self_id previous_id offsets)"

definition next_peer_after :: "u8 \<Rightarrow> u8 \<Rightarrow> u8" where
  "next_peer_after self_id previous_id = bee_peer_search self_id previous_id [1..<NAV_MAX_NODES + 1]"

definition bee_initial_master_at :: "'w bee_board \<Rightarrow> u8 \<Rightarrow> 'w bee \<Rightarrow> u32 \<times> 'w bee" where
  "bee_initial_master_at B node_id s = (case bee_now B s of (now, s) \<Rightarrow> (now + 1000 + ucast node_id * 700, s))"

definition bee_time_reached :: "u32 \<Rightarrow> u32 \<Rightarrow> bool" where
  "bee_time_reached now deadline \<longleftrightarrow> sint (now - deadline) \<ge> 0"

definition listen_window_until :: "u32 \<Rightarrow> u32 \<Rightarrow> u32" where
  "listen_window_until now deadline =
     (if bee_time_reached now deadline then 0
      else let until_deadline_ms = deadline - now in
        if until_deadline_ms < kSlaveListenWindowMs then until_deadline_ms else kSlaveListenWindowMs)"

definition bee_remaining_in_window :: "'w bee_board \<Rightarrow> u32 \<Rightarrow> u32 \<Rightarrow> 'w bee \<Rightarrow> u32 \<times> 'w bee" where
  "bee_remaining_in_window B started_ms window_ms s = (case bee_now B s of (now, s) \<Rightarrow>
     (let elapsed_ms = now - started_ms in (if elapsed_ms \<ge> window_ms then 0 else window_ms - elapsed_ms, s)))"

definition bee_period_due :: "u32 \<Rightarrow> u32 \<Rightarrow> u32 \<Rightarrow> bool" where
  "bee_period_due now last_ms period_ms \<longleftrightarrow> last_ms = 0 \<or> now - last_ms \<ge> period_ms"

definition bee_remote_debug_active :: "u32 \<Rightarrow> 'w bee \<Rightarrow> bool" where
  "bee_remote_debug_active now s \<longleftrightarrow> be_remote_debug_active_until_ms s \<noteq> 0 \<and>
     \<not> bee_time_reached now (be_remote_debug_active_until_ms s)"

text \<open>Short distances are corrected by an exponential fit, in single precision.\<close>

definition correct_range :: "'w bee_board \<Rightarrow> fp \<Rightarrow> fp \<times> string" where
  "correct_range B biased_raw_m =
     (if fp_le biased_raw_m (Fin (37 / 2))
      then (bb_expf B (fp_div binary32 (fp_add binary32 biased_raw_m (fp_rnd binary32 (24917 / 10000)))
        (fp_rnd binary32 (72262 / 10000))), ''short_exp'')
      else (biased_raw_m, ''linear_bias''))"

datatype pa_mode = PA_OFF | PA_RX | PA_TX

definition bee_set_pa_mode :: "'w bee_board \<Rightarrow> pa_mode \<Rightarrow> 'w bee \<Rightarrow> 'w bee" where
  "bee_set_pa_mode B mode s = (case mode of
     PA_RX \<Rightarrow> bee_pin B PIN_PA_TXEN False (bee_pin B PIN_PA_RXEN True s)
   | PA_TX \<Rightarrow> bee_pin B PIN_PA_TXEN True (bee_pin B PIN_PA_RXEN False s)
   | PA_OFF \<Rightarrow> bee_pin B PIN_PA_TXEN False (bee_pin B PIN_PA_RXEN False s))"

definition irq_flag_names :: "(u16 \<times> string) list" where
  "irq_flag_names = [(IRQ_SLAVE_REQUEST_VALID, ''slave_req_valid''), (IRQ_MASTER_TIMEOUT, ''master_timeout''),
     (IRQ_MASTER_RESULT_VALID, ''master_result_valid''), (IRQ_SLAVE_REQUEST_DISCARD, ''slave_req_discard''),
     (IRQ_SLAVE_RESPONSE_DONE, ''slave_response_done''), (IRQ_RX_TX_TIMEOUT, ''rx_tx_timeout'')]"

definition irq_flags_to_string :: "u16 \<Rightarrow> nat \<Rightarrow> string" where
  "irq_flags_to_string irq cap = fold (\<lambda>(mask, flag) buffer.
     if irq AND mask \<noteq> 0 then append_flag cap flag buffer else buffer) irq_flag_names []"

section \<open>Results of an exchange\<close>

definition bee_range_record :: "u32 \<Rightarrow> u8 \<Rightarrow> u8 \<Rightarrow> u16 \<Rightarrow> nav_serial_range_record" where
  "bee_range_record now from_id peer_id request_id = range_record_zero\<lparr>sr_timestamp_ms := now, sr_from_id := from_id,
     sr_to_id := peer_id, sr_request_id := request_id, sr_source := Some ''log''\<rparr>"

definition bee_inject_range_result ::
  "'w bee_board \<Rightarrow> u8 \<Rightarrow> u8 \<Rightarrow> u16 \<Rightarrow> u32 \<Rightarrow> i16 \<Rightarrow> i16 \<Rightarrow> bool \<Rightarrow> 'w bee \<Rightarrow> ('w bee) option" where
  "bee_inject_range_result B from_id peer_id request_id range_mm rssi_dbm snr_db valid s = (case bee_now B s of (now, s) \<Rightarrow> do {
     s \<leftarrow> bee_nav_event B (range_result_event now peer_id request_id range_mm rssi_dbm snr_db valid) s;
     bee_emit_range_record B ((bee_range_record now from_id peer_id request_id)\<lparr>sr_ok := valid, sr_range_mm := range_mm,
       sr_range_sigma_mm := 1000, sr_rssi_dbm := rssi_dbm, sr_snr_db := snr_db,
       sr_range_fail_reason := (if valid then NAV_RANGE_FAIL_NONE else NAV_RANGE_FAIL_UNKNOWN)\<rparr>) s })"

definition bee_inject_range_fail ::
  "'w bee_board \<Rightarrow> u8 \<Rightarrow> u8 \<Rightarrow> u16 \<Rightarrow> nav_range_fail_reason \<Rightarrow> 'w bee \<Rightarrow> ('w bee) option" where
  "bee_inject_range_fail B from_id peer_id request_id reason s = (case bee_now B s of (now, s) \<Rightarrow> do {
     s \<leftarrow> bee_nav_event B (range_fail_event now peer_id request_id reason) s;
     bee_emit_range_record B ((bee_range_record now from_id peer_id request_id)\<lparr>sr_range_fail_reason := reason\<rparr>) s })"

text \<open>A packet on the air: the amplifier, three milliseconds of settling, the driver.\<close>

definition bee_transmit :: "'w bee_board \<Rightarrow> u8 list \<Rightarrow> u8 \<Rightarrow> 'w bee \<Rightarrow> (bool \<times> 'w bee) option" where
  "bee_transmit B payload len s = do {
     let s = bee_do (ar_delay_us (bb_arduino B) 3000) (bee_set_pa_mode B PA_TX s);
     (ok, s) \<leftarrow> bee_radio_call (sx_transmit_packet (bb_arduino B) bee_radio (Some payload) len kPacketTxTimeoutMs) s;
     Some (ok, bee_set_pa_mode B PA_OFF s) }"

fun bee_report_attempts :: "'w bee_board \<Rightarrow> u8 list \<Rightarrow> nat \<Rightarrow> 'w bee \<Rightarrow> ('w bee) option" where
  "bee_report_attempts B payload 0 s = Some s"
| "bee_report_attempts B payload (Suc left) s = do {
     (ok, s) \<leftarrow> bee_transmit B payload (of_nat (length payload)) s;
     if \<not> ok then bee_emit_log_now B ''WARN'' ''RANGE'' ''range_report tx failed'' s
     else bee_report_attempts B payload left (if left = 0 then s else bee_delay B 8 s) }"

definition bee_broadcast_range_report :: "'w bee_board \<Rightarrow> string \<Rightarrow> 'w bee \<Rightarrow> ('w bee) option" where
  "bee_broadcast_range_report B range_result_text s =
     (if range_result_text = [] \<or> \<not> be_radio_ready s then Some s
      else let payload = ''NRR1 '' @ range_result_text in
        if length payload \<ge> kRangeReportPayloadMax + 1
        then bee_emit_log_now B ''WARN'' ''RANGE'' ''range_report tx failed: payload too long'' s
        else bee_report_attempts B (map (\<lambda>c. of_nat (code c)) payload) 3 s)"

section \<open>Bring-up\<close>

definition bee_begin_ranging :: "'w bee_board \<Rightarrow> ranging_role \<Rightarrow> u8 \<Rightarrow> 'w bee \<Rightarrow> (bool \<times> 'w bee) option" where
  "bee_begin_ranging B role slave_id s = bee_radio_call (sx_begin_ranging (bb_arduino B) bee_radio role kRadioFrequencyHz
     (bee_ranging_address_for slave_id) kRangingCalibration) s"

definition bee_init_radio :: "'w bee_board \<Rightarrow> 'w bee \<Rightarrow> ('w bee) option" where
  "bee_init_radio B s =
     (let A = bb_arduino B;
          s = bee_do (ar_pin_mode A PIN_PA_TXEN OUTPUT) (bee_do (ar_pin_mode A PIN_PA_RXEN OUTPUT) s);
          s = bee_set_pa_mode B PA_OFF (bee_do (ar_pin_mode A PIN_RADIO_DIO1 INPUT) s)
      in do {
        s \<leftarrow> bee_emit_log_now B ''INFO'' ''RADIO'' ''initializing SpeedyBee SX1280 ranging'' s;
        (ready, s) \<leftarrow> bee_begin_ranging B RANGING_ROLE_SLAVE (pc_node_id (be_config s)) s;
        let s = s\<lparr>be_radio_ready := ready\<rparr>;
        if ready then bee_emit_log_now B ''OK'' ''RADIO'' ''SpeedyBee SX1280 ranging initialized'' s
        else bee_emit_log_now B ''ERROR'' ''RADIO'' ''SpeedyBee SX1280 ranging init failed'' s })"

section \<open>Reception\<close>

definition bee_handle_debug_enable :: "'w bee_board \<Rightarrow> nav_radio_frame \<Rightarrow> u32 \<Rightarrow> 'w bee \<Rightarrow> ('w bee) option" where
  "bee_handle_debug_enable B frame now s = do {
     (status, debug) \<leftarrow> nav_telemetry_decode_debug_enable (Some frame) debug_enable_zero;
     if status \<noteq> NAV_STATUS_OK then bee_emit_log B now ''WARN'' ''RADIO'' ''debug_enable decode failed'' s
     else
       let was_active = bee_remote_debug_active now s;
           ttl_ms = (if de_ttl_ms debug = 0 then kRemoteDebugFallbackTtlMs else ucast (de_ttl_ms debug));
           s = s\<lparr>be_remote_debug_active_until_ms := now + ttl_ms, be_last_node_quality_tx_ms := 0,
                 be_remote_debug_was_active := True\<rparr>
       in if \<not> was_active then bee_emit_log B now ''INFO'' ''RADIO'' ''debug telemetry enabled by OTA'' s else Some s }"

definition bee_handle_beacon ::
  "'w bee_board \<Rightarrow> u8 list \<Rightarrow> u32 \<Rightarrow> packet_status \<Rightarrow> 'w bee \<Rightarrow> ('w bee) option" where
  "bee_handle_beacon B payload now st s = do {
     snr_db \<leftarrow> lround_i16 (ps_snr_db st);
     (status, event) \<leftarrow> nav_telemetry_decode_event (Some payload) (length payload) now (ps_rssi_dbm st) snr_db nav_event_zero;
     (case ev_data event of
        NAV_EVT_PEER_TELEMETRY_RX rx \<Rightarrow>
          if status \<noteq> NAV_STATUS_OK then bee_emit_log B now ''WARN'' ''RADIO'' ''beacon decode failed'' s
          else if pt_node_id (br_telemetry rx) = pc_node_id (be_config s) then Some s
          else bee_nav_event B event s
      | _ \<Rightarrow> bee_emit_log B now ''WARN'' ''RADIO'' ''beacon decode failed'' s) }"

definition bee_handle_node_quality :: "'w bee_board \<Rightarrow> nav_radio_frame \<Rightarrow> u32 \<Rightarrow> 'w bee \<Rightarrow> ('w bee) option" where
  "bee_handle_node_quality B frame now s = do {
     (status, report) \<leftarrow> nav_telemetry_decode_node_quality_report (Some frame) quality_report_zero;
     if status \<noteq> NAV_STATUS_OK \<or> unat (qr_node_id report) \<ge> NAV_MAX_NODES
     then bee_emit_log B now ''WARN'' ''RADIO'' ''node_quality decode failed'' s
     else do {
       slots \<leftarrow> mem_write (be_node_quality s) (unat (qr_node_id report))
         \<lparr>bq_present = True, bq_report = report, bq_received_ms = now\<rparr>;
       Some (s\<lparr>be_node_quality := slots\<rparr>) } }"

definition bee_handle_radio_frame ::
  "'w bee_board \<Rightarrow> u8 list \<Rightarrow> u32 \<Rightarrow> packet_status \<Rightarrow> 'w bee \<Rightarrow> ('w bee) option" where
  "bee_handle_radio_frame B payload now st s = do {
     (status, frame) \<leftarrow> nav_radio_decode_frame (Some payload) (length payload) frame_local;
     if status \<noteq> NAV_STATUS_OK then Some s
     else (case fr_type frame of
         NAV_RADIO_MSG_BEACON_RX \<Rightarrow> bee_handle_beacon B payload now st s
       | NAV_RADIO_MSG_DEBUG_ENABLE \<Rightarrow> bee_handle_debug_enable B frame now s
       | NAV_RADIO_MSG_NODE_QUALITY_REPORT \<Rightarrow> bee_handle_node_quality B frame now s
       | _ \<Rightarrow> Some s) }"

definition bee_handle_report_packet ::
  "'w bee_board \<Rightarrow> u8 list \<Rightarrow> u32 \<Rightarrow> packet_status \<Rightarrow> 'w bee \<Rightarrow> ('w bee) option" where
  "bee_handle_report_packet B payload now st s = do {
     let received = takeWhile (\<lambda>c. c \<noteq> NUL) (map (\<lambda>b. char_of (unat b)) (take kRangeReportPayloadMax payload));
     let report = drop 5 (sanitize_report_text received);
     s \<leftarrow> bee_emit_log B now ''INFO'' ''RANGE'' (snprintf 384 [report, '' source=air_report heard_by='',
       pu (pc_node_id (be_config s)), '' report_rssi_dbm='', pd (ps_rssi_dbm st), '' report_snr_db='',
       fmt_f 1 (ps_snr_db st)]) s;
     snr_db \<leftarrow> lround_i16 (ps_snr_db st);
     parsed \<leftarrow> parse_legacy_range_report (Some report) now (ps_rssi_dbm st) snr_db;
     (case parsed of None \<Rightarrow> Some s | Some r \<Rightarrow> bee_emit_range_record B r s) }"

text \<open>The driver writes the received bytes to the front of the array; only they are read.\<close>

definition bee_handle_packet :: "'w bee_board \<Rightarrow> u32 \<Rightarrow> reception \<Rightarrow> 'w bee \<Rightarrow> ('w bee) option" where
  "bee_handle_packet B now received s = (case received of (ok, payload, status) \<Rightarrow>
     if \<not> ok \<or> payload = [] then Some s
     else (case status of None \<Rightarrow> None
       | Some st \<Rightarrow>
           if length payload \<ge> 5 \<and> take 5 payload = report_mark then bee_handle_report_packet B payload now st s
           else (case bee_now B s of (now, s) \<Rightarrow> bee_handle_radio_frame B payload now st s)))"

definition bee_service_packet_rx :: "'w bee_board \<Rightarrow> u32 \<Rightarrow> u32 \<Rightarrow> 'w bee \<Rightarrow> ('w bee) option" where
  "bee_service_packet_rx B now window_ms s =
     (if \<not> be_radio_ready s \<or> window_ms < 5 then Some s
      else do {
        (received, s) \<leftarrow> bee_radio_call
          (sx_receive_packet (bb_arduino B) bee_radio (of_nat kPacketMax) window_ms) (bee_set_pa_mode B PA_RX s);
        bee_handle_packet B now received (bee_set_pa_mode B PA_OFF s) })"

section \<open>Debug telemetry\<close>

definition bee_frame_buffer :: "'w bee_board \<Rightarrow> u8 list" where
  "bee_frame_buffer B = map (bb_frame_junk B) [0..<kPacketMax]"

definition bee_transmit_debug_enable :: "'w bee_board \<Rightarrow> u32 \<Rightarrow> 'w bee \<Rightarrow> ('w bee) option" where
  "bee_transmit_debug_enable B now s = do {
     let s = s\<lparr>be_radio_frame_seq := be_radio_frame_seq s + 1\<rparr>;
     (status, frame, frame_len) \<leftarrow> nav_telemetry_encode_debug_enable (bb_payload_junk B)
       (Some \<lparr>de_origin_node_id = pc_node_id (be_config s), de_ttl_ms = 3000\<rparr>) (be_radio_frame_seq s)
       (bee_frame_buffer B) kPacketMax 0;
     if status \<noteq> NAV_STATUS_OK \<or> frame_len = 0 \<or> frame_len > 255
     then bee_emit_log B now ''WARN'' ''RADIO'' ''debug_enable encode failed'' s
     else do {
       (ok, s) \<leftarrow> bee_transmit B frame (of_nat frame_len) s;
       if \<not> ok then bee_emit_log B now ''WARN'' ''RADIO'' ''debug_enable tx failed'' s else Some s } }"

definition bee_transmit_node_quality :: "'w bee_board \<Rightarrow> u32 \<Rightarrow> 'w bee \<Rightarrow> ('w bee) option" where
  "bee_transmit_node_quality B now s =
     (if \<not> be_radio_ready s \<or> \<not> bee_period_due now (be_last_node_quality_tx_ms s) 1000 then Some s
      else do {
        let s = s\<lparr>be_radio_quality_packet_seq := be_radio_quality_packet_seq s + 1\<rparr>;
        answer \<leftarrow> bee_current_local_quality (be_radio_quality_packet_seq s) s;
        (case answer of None \<Rightarrow> Some s
         | Some report \<Rightarrow> do {
             let s = s\<lparr>be_radio_frame_seq := be_radio_frame_seq s + 1\<rparr>;
             (status, frame, frame_len) \<leftarrow> nav_telemetry_encode_node_quality_report (bb_payload_junk B) (Some report)
               (be_radio_frame_seq s) (bee_frame_buffer B) kPacketMax 0;
             if status \<noteq> NAV_STATUS_OK \<or> frame_len = 0 \<or> frame_len > 255
             then bee_emit_log B now ''WARN'' ''RADIO'' ''node_quality encode failed'' s
             else do {
               (ok, s) \<leftarrow> bee_transmit B frame (of_nat frame_len) (s\<lparr>be_last_node_quality_tx_ms := now\<rparr>);
               if \<not> ok then bee_emit_log B now ''WARN'' ''RADIO'' ''node_quality tx failed'' s
               else if bee_period_due now (be_last_node_quality_tx_log_ms s) 5000
               then bee_emit_log B now ''DEBUG'' ''RADIO'' ''node_quality tx ok''
                 (s\<lparr>be_last_node_quality_tx_log_ms := now\<rparr>)
               else Some s } }) })"

text \<open>The complaint of both services while the radio is down, at most every five seconds.\<close>

definition bee_radio_not_ready :: "'w bee_board \<Rightarrow> u32 \<Rightarrow> string \<Rightarrow> 'w bee \<Rightarrow> ('w bee) option" where
  "bee_radio_not_ready B now message s =
     (if (be_debug_enabled s \<or> bee_remote_debug_active now s) \<and> bee_period_due now (be_last_radio_not_ready_log_ms s) 5000
      then bee_emit_log B now ''WARN'' ''RADIO'' message (s\<lparr>be_last_radio_not_ready_log_ms := now\<rparr>)
      else Some s)"

definition bee_service_debug_telemetry_tx :: "'w bee_board \<Rightarrow> u32 \<Rightarrow> u32 \<Rightarrow> 'w bee \<Rightarrow> ('w bee) option" where
  "bee_service_debug_telemetry_tx B now remaining_ms s =
     (if \<not> be_radio_ready s then bee_radio_not_ready B now ''debug telemetry radio not ready'' s
      else if remaining_ms < 80 + kPacketRxWindowMs then Some s
      else if be_debug_enabled s \<and> bee_period_due now (be_last_debug_enable_tx_ms s) 1000
      then bee_transmit_debug_enable B now (s\<lparr>be_last_debug_enable_tx_ms := now\<rparr>)
      else do {
        let remote_active_now = bee_remote_debug_active now s;
        s \<leftarrow> (if \<not> remote_active_now \<and> be_remote_debug_was_active s
          then bee_emit_log B now ''INFO'' ''RADIO'' ''debug telemetry disabled by OTA timeout''
            (s\<lparr>be_remote_debug_was_active := False\<rparr>)
          else Some s);
        if be_debug_enabled s \<or> remote_active_now then bee_transmit_node_quality B now s else Some s })"

section \<open>The ranging master\<close>

definition bee_failure_text ::
  "u8 \<Rightarrow> u8 \<Rightarrow> u16 \<Rightarrow> nav_range_fail_reason \<Rightarrow> u32 \<Rightarrow> u16 \<Rightarrow> string \<Rightarrow> string" where
  "bee_failure_text master_id peer_id request_id reason elapsed_ms irq remark = snprintf 256
     [''range_result ok=false from='', pu master_id, '' to='', pu peer_id, '' request_id='', pu request_id,
      '' range_fail_reason='', range_fail_reason_name reason, '' elapsed_ms='', pu elapsed_ms,
      '' irq='', fmt_x 4 (unat irq), '' flags=\"'', irq_flags_to_string irq 96, ''\" note=\"'', remark, ''\"'']"

definition bee_log_master_failure ::
  "'w bee_board \<Rightarrow> u8 \<Rightarrow> u8 \<Rightarrow> u16 \<Rightarrow> u32 \<Rightarrow> nav_range_fail_reason \<Rightarrow> u16 \<Rightarrow> string \<Rightarrow> 'w bee \<Rightarrow> ('w bee) option" where
  "bee_log_master_failure B master_id peer_id request_id elapsed_ms reason irq remark s = do {
     s \<leftarrow> bee_emit_log_now B ''WARN'' ''RANGE''
       (bee_failure_text master_id peer_id request_id reason elapsed_ms irq remark) s;
     bee_inject_range_fail B master_id peer_id request_id reason s }"

definition bee_invalid_text ::
  "u8 \<Rightarrow> u8 \<Rightarrow> u16 \<Rightarrow> i32 \<Rightarrow> fp \<Rightarrow> fp \<Rightarrow> u32 \<Rightarrow> u16 \<Rightarrow> string" where
  "bee_invalid_text master_id peer_id request_id raw_result raw_m corrected_m elapsed_ms irq = snprintf 512
     [''range_result ok=false from='', pu master_id, '' to='', pu peer_id, '' request_id='', pu request_id,
      '' range_fail_reason='', range_fail_reason_name NAV_RANGE_FAIL_RANGING_ENGINE_ERROR, '' raw_reg='', pd raw_result,
      '' raw_m='', fmt_f 2 raw_m, '' corrected_m='', fmt_f 2 corrected_m, '' elapsed_ms='', pu elapsed_ms,
      '' irq='', fmt_x 4 (unat irq), '' flags=\"'', irq_flags_to_string irq 96, ''\" note=\"invalid distance\"'']"

definition bee_success_text ::
  "u8 \<Rightarrow> u8 \<Rightarrow> u16 \<Rightarrow> u32 \<Rightarrow> fp \<Rightarrow> string \<Rightarrow> fp \<Rightarrow> i32 \<Rightarrow> packet_status \<Rightarrow> u32 \<Rightarrow> u16 \<Rightarrow> string" where
  "bee_success_text master_id peer_id request_id range_mm corrected_m correction raw_m raw_result st elapsed_ms irq =
     snprintf 512
     [''range_result ok=true from='', pu master_id, '' to='', pu peer_id, '' request_id='', pu request_id,
      '' range_mm='', pu range_mm, '' corrected_m='', fmt_f 2 corrected_m, '' correction='', correction,
      '' raw_m='', fmt_f 2 raw_m, '' raw_reg='', pd raw_result, '' rssi_dbm='', pd (ps_rssi_dbm st),
      '' snr_db='', fmt_f 1 (ps_snr_db st), '' elapsed_ms='', pu elapsed_ms, '' irq='', fmt_x 4 (unat irq),
      '' flags=\"'', irq_flags_to_string irq 96, ''\"'']"

definition bee_air_text ::
  "u8 \<Rightarrow> u8 \<Rightarrow> u16 \<Rightarrow> u32 \<Rightarrow> fp \<Rightarrow> fp \<Rightarrow> i32 \<Rightarrow> packet_status \<Rightarrow> u32 \<Rightarrow> string" where
  "bee_air_text master_id peer_id request_id range_mm corrected_m raw_m raw_result st elapsed_ms =
     snprintf kRangeReportPayloadMax
     [''range_result ok=true from='', pu master_id, '' to='', pu peer_id, '' request_id='', pu request_id,
      '' range_mm='', pu range_mm, '' corrected_m='', fmt_f 2 corrected_m, '' raw_m='', fmt_f 2 raw_m,
      '' raw_reg='', pd raw_result, '' rssi_dbm='', pd (ps_rssi_dbm st), '' snr_db='', fmt_f 1 (ps_snr_db st),
      '' elapsed_ms='', pu elapsed_ms, '' note=\"range ok\"'']"

text \<open>The end of every exchange that started: the radio is quiet and the amplifier off.\<close>

definition bee_radio_quiet :: "'w bee_board \<Rightarrow> 'w bee \<Rightarrow> ('w bee) option" where
  "bee_radio_quiet B s =
     map_option (bee_set_pa_mode B PA_OFF) (bee_radio_do (sx_finish (bb_arduino B) bee_radio) s)"

definition bee_irq :: "'w bee_board \<Rightarrow> 'w bee \<Rightarrow> (u16 \<times> 'w bee) option" where
  "bee_irq B s = bee_radio_call (sx_get_irq_status (bb_arduino B) bee_radio) s"

partial_function (option) bee_master_wait :: "'w bee_board \<Rightarrow> u32 \<Rightarrow> u16 \<Rightarrow> 'w bee \<Rightarrow> (u16 \<times> 'w bee) option" where
  "bee_master_wait B started_ms irq s = (case bee_now B s of (now, s) \<Rightarrow>
     if now - started_ms < kMasterHostTimeoutMs then do {
       s \<leftarrow> bee_pump_serial B s;
       (irq, s) \<leftarrow> bee_irq B s;
       if irq AND (IRQ_MASTER_RESULT_VALID OR IRQ_MASTER_TIMEOUT OR IRQ_RX_TX_TIMEOUT) \<noteq> 0 then Some (irq, s)
       else bee_master_wait B started_ms irq (bee_delay B 2 s) }
     else Some (irq, s))"

definition bee_exchange_failed ::
  "'w bee_board \<Rightarrow> u8 \<Rightarrow> u8 \<Rightarrow> u16 \<Rightarrow> u32 \<Rightarrow> u16 \<Rightarrow> 'w bee \<Rightarrow> ('w bee) option" where
  "bee_exchange_failed B master_id peer_id request_id elapsed_ms irq s = do {
     let reason = (if irq AND (IRQ_MASTER_TIMEOUT OR IRQ_RX_TX_TIMEOUT) \<noteq> 0 then NAV_RANGE_FAIL_TIMEOUT
       else NAV_RANGE_FAIL_NO_RESPONSE);
     s \<leftarrow> bee_radio_quiet B s;
     bee_log_master_failure B master_id peer_id request_id elapsed_ms reason irq ''ranging timeout'' s }"

text \<open>The distance of a result: in metres before and after the correction, whether it is usable, in millimetres.\<close>

definition bee_measured_range :: "'w bee_board \<Rightarrow> i32 \<Rightarrow> (fp \<times> fp \<times> string \<times> bool \<times> u32) option" where
  "bee_measured_range B raw_result = do {
     let raw_m = raw_ranging_meters raw_result;
     let (corrected_m, correction) = correct_range B (fp_add binary32 raw_m (fp_rnd binary32 (62 / 10)));
     let valid = (fp_isfinite corrected_m \<and> fp_lt (Fin 0) corrected_m);
     range_mm \<leftarrow> (if valid then meters_to_millimeters corrected_m else Some 0);
     Some (raw_m, corrected_m, correction, valid, range_mm) }"

definition bee_exchange_measured ::
  "'w bee_board \<Rightarrow> u8 \<Rightarrow> u8 \<Rightarrow> u16 \<Rightarrow> u32 \<Rightarrow> u16 \<Rightarrow> 'w bee \<Rightarrow> ('w bee) option" where
  "bee_exchange_measured B master_id peer_id request_id elapsed_ms irq s = do {
     (st, s) \<leftarrow> bee_radio_call (sx_read_packet_status (bb_arduino B) bee_radio) s;
     (raw_result, s) \<leftarrow> bee_radio_call (sx_read_ranging_result_raw (bb_arduino B) bee_radio) s;
     (raw_m, corrected_m, correction, valid, range_mm) \<leftarrow> bee_measured_range B raw_result;
     if \<not> valid \<or> range_mm = 0 then do {
       s \<leftarrow> bee_emit_log_now B ''WARN'' ''RANGE''
         (bee_invalid_text master_id peer_id request_id raw_result raw_m corrected_m elapsed_ms irq) s;
       s \<leftarrow> bee_inject_range_fail B master_id peer_id request_id NAV_RANGE_FAIL_RANGING_ENGINE_ERROR s;
       bee_radio_quiet B s }
     else do {
       s \<leftarrow> bee_emit_log_now B ''OK'' ''RANGE'' (bee_success_text master_id peer_id request_id range_mm corrected_m
         correction raw_m raw_result st elapsed_ms irq) s;
       s \<leftarrow> bee_broadcast_range_report B
         (bee_air_text master_id peer_id request_id range_mm corrected_m raw_m raw_result st elapsed_ms) s;
       snr_db \<leftarrow> lround_i16 (ps_snr_db st);
       s \<leftarrow> bee_inject_range_result B master_id peer_id request_id range_mm (ps_rssi_dbm st) snr_db True s;
       bee_radio_quiet B s } }"

definition bee_run_master_exchange :: "'w bee_board \<Rightarrow> u8 \<Rightarrow> u8 \<Rightarrow> 'w bee \<Rightarrow> ('w bee) option" where
  "bee_run_master_exchange B master_id peer_id s =
     (if \<not> bee_valid_node_id master_id \<or> \<not> bee_valid_node_id peer_id \<or> master_id = peer_id then Some s
      else do {
        let request_id = be_range_request_id s + 1;
        let (started_ms, s) = bee_now B (s\<lparr>be_range_request_id := request_id\<rparr>);
        (begun, s) \<leftarrow> bee_begin_ranging B RANGING_ROLE_MASTER peer_id s;
        if \<not> begun then do {
          let (now, s) = bee_now B s;
          (irq, s) \<leftarrow> bee_irq B s;
          bee_log_master_failure B master_id peer_id request_id (now - started_ms) NAV_RANGE_FAIL_RANGING_ENGINE_ERROR irq
            ''beginRanging master failed'' s }
        else do {
          s \<leftarrow> bee_radio_do (sx_start_master_exchange (bb_arduino B) bee_radio kMasterExchangeTimeoutMs)
            (bee_set_pa_mode B PA_TX s);
          let s = bee_set_pa_mode B PA_RX (bee_do (ar_delay_us (bb_arduino B) 3000) s);
          (irq, s) \<leftarrow> bee_master_wait B started_ms 0 s;
          let (now, s) = bee_now B s;
          if irq AND IRQ_MASTER_RESULT_VALID = 0
          then bee_exchange_failed B master_id peer_id request_id (now - started_ms) irq s
          else bee_exchange_measured B master_id peer_id request_id (now - started_ms) irq s } })"

section \<open>The ranging slave\<close>

definition bee_response_text :: "u8 \<Rightarrow> u32 \<Rightarrow> u16 \<Rightarrow> string" where
  "bee_response_text node_id elapsed_ms irq = snprintf 256 [''slave_response ok=true node='', pu node_id,
     '' address='', fmt_x 8 (unat (bee_ranging_address_for node_id)), '' elapsed_ms='', pu elapsed_ms,
     '' irq='', fmt_x 4 (unat irq), '' flags=\"'', irq_flags_to_string irq 96, ''\"'']"

partial_function (option) bee_slave_wait ::
  "'w bee_board \<Rightarrow> u8 \<Rightarrow> u32 \<Rightarrow> u32 \<Rightarrow> bool \<Rightarrow> 'w bee \<Rightarrow> ('w bee) option" where
  "bee_slave_wait B node_id started_ms window_ms request_logged s = (case bee_now B s of (now, s) \<Rightarrow>
     if now - started_ms < window_ms then do {
       s \<leftarrow> bee_pump_serial B s;
       (irq, s) \<leftarrow> bee_irq B s;
       s \<leftarrow> (if irq AND IRQ_SLAVE_REQUEST_VALID \<noteq> 0 \<and> \<not> request_logged
         then bee_radio_do (sx_clear_irq_status (bb_arduino B) bee_radio IRQ_SLAVE_REQUEST_VALID) s else Some s);
       if irq AND (IRQ_SLAVE_RESPONSE_DONE OR IRQ_SLAVE_REQUEST_DISCARD OR IRQ_RX_TX_TIMEOUT) \<noteq> 0
       then (if irq AND IRQ_SLAVE_RESPONSE_DONE \<noteq> 0
         then (case bee_now B s of (now, s) \<Rightarrow>
           bee_emit_log_now B ''OK'' ''RANGE'' (bee_response_text node_id (now - started_ms) irq) s)
         else Some s)
       else bee_slave_wait B node_id started_ms window_ms (request_logged \<or> irq AND IRQ_SLAVE_REQUEST_VALID \<noteq> 0)
         (bee_delay B 10 s) }
     else Some s)"

definition bee_service_slave :: "'w bee_board \<Rightarrow> u8 \<Rightarrow> u32 \<Rightarrow> 'w bee \<Rightarrow> ('w bee) option" where
  "bee_service_slave B node_id listen_window_ms s =
     (if \<not> bee_valid_node_id node_id \<or> listen_window_ms < 10 then Some s
      else do {
        let (started_ms, s) = bee_now B s;
        (begun, s) \<leftarrow> bee_begin_ranging B RANGING_ROLE_SLAVE node_id s;
        if \<not> begun then
          map_option (bee_set_pa_mode B PA_OFF)
            (bee_emit_log_now B ''WARN'' ''RANGE'' ''slave_listen failed: beginRanging slave failed'' s)
        else do {
          s \<leftarrow> bee_radio_do (sx_start_slave_listen (bb_arduino B) bee_radio) (bee_set_pa_mode B PA_RX s);
          s \<leftarrow> bee_slave_wait B node_id started_ms listen_window_ms False s;
          bee_radio_quiet B s } })"

section \<open>The loop\<close>

definition bee_listen_turn :: "'w bee_board \<Rightarrow> u8 \<Rightarrow> u32 \<Rightarrow> u32 \<Rightarrow> 'w bee \<Rightarrow> (bool \<times> 'w bee) option" where
  "bee_listen_turn B node_id started_ms window_ms s = do {
     s \<leftarrow> bee_service_control_channel B s;
     let (remaining_ms, s) = bee_remaining_in_window B started_ms window_ms s;
     let (now, s) = bee_now B s;
     s \<leftarrow> bee_service_debug_telemetry_tx B now remaining_ms s;
     let (remaining_ms, s) = bee_remaining_in_window B started_ms window_ms s;
     (remaining_ms, s) \<leftarrow> (if remaining_ms \<ge> kPacketRxWindowMs + 20 then do {
         let (now, s) = bee_now B s;
         s \<leftarrow> bee_service_packet_rx B now kPacketRxWindowMs s;
         Some (bee_remaining_in_window B started_ms window_ms s) }
       else Some (remaining_ms, s));
     if remaining_ms < 20 then Some (False, s)
     else do {
       s \<leftarrow> bee_service_slave B node_id (if remaining_ms < 120 then remaining_ms else 120) s;
       Some (True, s) } }"

partial_function (option) bee_network_wait :: "'w bee_board \<Rightarrow> u8 \<Rightarrow> u32 \<Rightarrow> u32 \<Rightarrow> 'w bee \<Rightarrow> ('w bee) option" where
  "bee_network_wait B node_id started_ms window_ms s = (case bee_now B s of (now, s) \<Rightarrow>
     if now - started_ms < window_ms then do {
       (again, s) \<leftarrow> bee_listen_turn B node_id started_ms window_ms s;
       if again then bee_network_wait B node_id started_ms window_ms s else Some s }
     else Some s)"

definition bee_service_network_listen :: "'w bee_board \<Rightarrow> u8 \<Rightarrow> u32 \<Rightarrow> 'w bee \<Rightarrow> ('w bee) option" where
  "bee_service_network_listen B node_id window_ms s = (case bee_now B s of (started_ms, s) \<Rightarrow>
     bee_network_wait B node_id started_ms window_ms s)"

definition bee_adopt_node_id :: "'w bee_board \<Rightarrow> u32 \<Rightarrow> 'w bee \<Rightarrow> ('w bee) option" where
  "bee_adopt_node_id B now s =
     (let node_id = pc_node_id (be_config s) in
      if node_id = be_radio_node_id s then Some s
      else
        let peer = next_peer_after node_id node_id;
            (at_ms, s) = bee_initial_master_at B node_id (s\<lparr>be_radio_node_id := node_id, be_next_peer_id := peer\<rparr>)
        in bee_emit_log B now ''INFO'' ''RANGE'' (snprintf 128 [''distance-only role node='', pu node_id,
             '' role=single-hop-discovery next_peer='', pu peer]) (s\<lparr>be_next_master_at_ms := at_ms\<rparr>))"

definition bee_master_turn :: "'w bee_board \<Rightarrow> 'w bee \<Rightarrow> ('w bee) option" where
  "bee_master_turn B s = do {
     s \<leftarrow> (if be_next_peer_id s \<noteq> NAV_INVALID_NODE_ID then do {
         s \<leftarrow> bee_run_master_exchange B (pc_node_id (be_config s)) (be_next_peer_id s) s;
         Some (s\<lparr>be_next_peer_id := next_peer_after (pc_node_id (be_config s)) (be_next_peer_id s)\<rparr>) }
       else Some s);
     let (now, s) = bee_now B s;
     Some (bee_delay B kMasterPeerGapMs (s\<lparr>be_next_master_at_ms := now + kMasterScanIntervalMs\<rparr>)) }"

definition bee_service_radio :: "'w bee_board \<Rightarrow> u32 \<Rightarrow> 'w bee \<Rightarrow> ('w bee) option" where
  "bee_service_radio B now s =
     (if \<not> be_radio_ready s then bee_radio_not_ready B now ''radio not ready'' s
      else if \<not> bee_valid_node_id (pc_node_id (be_config s)) then Some s
      else do {
        s \<leftarrow> bee_adopt_node_id B now s;
        if bee_time_reached now (be_next_master_at_ms s) then bee_master_turn B s
        else
          let listen_window_ms = listen_window_until now (be_next_master_at_ms s) in
          if listen_window_ms \<ge> 20
          then bee_service_network_listen B (pc_node_id (be_config s)) listen_window_ms s else Some s })"

text \<open>The globals before \<^verbatim>\<open>setup\<close>; \<open>w\<close> is the world at power-on.\<close>

definition bee_zero :: "'w \<Rightarrow> 'w bee" where
  "bee_zero w = \<lparr>be_world = w, be_config = \<lparr>pc_magic = 0, pc_node_id = 0, pc_name = replicate NAV_NODE_NAME_MAX NUL,
       pc_gps_enabled = 0, pc_mock_enabled = 0, pc_altitude_mm = 0\<rparr>,
     be_nav = nav_core_init None, be_mock = nav_mock_init, be_line = replicate 256 NUL, be_line_len = 0,
     be_last_snapshot_ms = 0, be_status_led_until_ms = 0, be_debug_enabled = False, be_status_led_on = False,
     be_local_quality_packet_seq = 0, be_radio_ready = False, be_radio_frame_seq = 0,
     be_remote_debug_active_until_ms = 0, be_remote_debug_was_active = False, be_last_debug_enable_tx_ms = 0,
     be_last_node_quality_tx_ms = 0, be_radio_quality_packet_seq = 0, be_last_radio_not_ready_log_ms = 0,
     be_last_node_quality_tx_log_ms = 0, be_range_request_id = 0, be_radio_node_id = NAV_INVALID_NODE_ID,
     be_next_peer_id = NAV_INVALID_NODE_ID, be_next_master_at_ms = 0, be_node_quality = node_quality_clear,
     be_record_buf = replicate kRecordBufMax NUL, be_lines = []\<rparr>"

definition bee_setup :: "'w bee_board \<Rightarrow> 'w bee \<Rightarrow> ('w bee) option" where
  "bee_setup B s =
     (let s = bee_do (ar_pin_mode (bb_arduino B) PIN_LED OUTPUT) (bee_do (bb_serial_begin B) s);
          s = bee_do (bb_eeprom_begin B) (bee_pin B PIN_LED False s)
      in do {
        s \<leftarrow> bee_load_config B s;
        s \<leftarrow> bee_init_core B s;
        s \<leftarrow> bee_emit_log_now B ''INFO'' ''SYSTEM'' ''SpeedyBee firmware started'' s;
        bee_init_radio B s })"

definition bee_loop :: "'w bee_board \<Rightarrow> 'w bee \<Rightarrow> ('w bee) option" where
  "bee_loop B s = do {
     s \<leftarrow> bee_service_control_channel B s;
     let (now, s) = bee_now B s;
     bee_service_radio B now s }"

end
