(* ===== verification/Sx1280_Bus.thy ===== *)
theory Sx1280_Bus
  imports Sx1280 Radio_Clock
begin

text \<open>
  What the driver does to the world. The locale states what a predicate of the world needs so that every
  operation of the driver keeps it: the pins and timers keep it, and a transaction enters a second predicate
  while the chip is selected. It is instantiated on a board that records its pin writes and transfers.
\<close>

section \<open>Predicates that the driver keeps\<close>

locale chip_world =
  fixes A :: "'w arduino" and D :: sx1280 and P :: "'w \<Rightarrow> bool" and S :: "'w \<Rightarrow> bool"
  assumes timers: "P w \<Longrightarrow> P (snd (ar_millis A w))" "P w \<Longrightarrow> P (snd (ar_micros A w))"
    and delays: "P w \<Longrightarrow> P (ar_delay A n w)" "P w \<Longrightarrow> P (ar_delay_us A n w)"
    and pins: "P w \<Longrightarrow> P (ar_pin_mode A pin m w)" "P w \<Longrightarrow> P (snd (ar_digital_read A pin w))"
      "P w \<Longrightarrow> P (ar_digital_write A (sx_rst D) v w)" "P w \<Longrightarrow> P (ar_digital_write A (sx_nss D) True w)"
    and begin_spi: "P w \<Longrightarrow> P (ar_spi_begin A w)"
    and select: "P w \<Longrightarrow> S (ar_digital_write A (sx_nss D) False (ar_spi_begin_transaction A w))"
    and transfer: "S w \<Longrightarrow> S (snd (ar_spi_transfer A b w))"
    and release: "S w \<Longrightarrow> P (ar_spi_end_transaction A (ar_digital_write A (sx_nss D) True w))"
begin

lemma poll_busy:
  assumes "sx_poll_busy A pin start timeout w = Some r" "P w"
  shows "P (snd r)"
proof -
  have "A = A \<longrightarrow> P w \<longrightarrow> P (snd r)"
    by (rule sx_poll_busy.raw_induct [where P = "\<lambda>C pin start timeout w r. C = A \<longrightarrow> P w \<longrightarrow> P (snd r)",
        OF _ assms(1)]) (auto simp: case_prod_beta timers delays pins split: if_splits)
  then show ?thesis using assms(2) by simp
qed

lemma wait_busy: "P w \<Longrightarrow> after (\<lambda>r. P (snd r)) (sx_wait_busy A D n w)"
  using poll_busy timers by (auto simp: sx_wait_busy_def after_def case_prod_beta)

lemma send: "S w \<Longrightarrow> S (spi_send A bytes w)"
  by (induction bytes arbitrary: w) (simp_all add: transfer)

lemma receive: "S w \<Longrightarrow> S (snd (spi_receive A n w))"
  by (induction n arbitrary: w) (simp_all add: case_prod_beta transfer)

lemma transaction:
  assumes "P w" "\<And>w. S w \<Longrightarrow> S (snd (io w))"
  shows "after (\<lambda>r. P (snd r)) (sx_transaction A D io w)"
  unfolding sx_transaction_def
  by (rule after_bind [OF wait_busy [OF assms(1)]]) (auto simp: case_prod_beta Let_def select release assms(2))

lemma commands:
  "P w \<Longrightarrow> after P (sx_write_command A D opcode params w)"
  "P w \<Longrightarrow> after P (sx_write_registers A D addr params w)"
  "P w \<Longrightarrow> after P (sx_write_register A D addr v w)"
  "P w \<Longrightarrow> after P (sx_write_buffer A D params n off w)"
  "P w \<Longrightarrow> after (\<lambda>r. P (snd r)) (sx_read_command A D opcode n w)"
  "P w \<Longrightarrow> after (\<lambda>r. P (snd r)) (sx_read_register A D addr w)"
  "P w \<Longrightarrow> after (\<lambda>r. P (snd r)) (sx_read_buffer A D n off w)"
  "P w \<Longrightarrow> after (\<lambda>r. P (snd r)) (sx_get_status A D w)"
  by (auto simp: sx_write_command_def sx_write_registers_def sx_write_register_def sx_write_buffer_def
      sx_read_command_def sx_read_register_def sx_read_buffer_def sx_get_status_def transfer send receive
      simp del: spi_send.simps intro!: transaction)

lemmas bind_write = after_bind [where Q = P]
lemmas bind_read = after_bind [where Q = "\<lambda>r. P (snd r)"]

lemma settings:
  "P w \<Longrightarrow> after P (sx_set_standby A D mode w)" "P w \<Longrightarrow> after P (sx_set_packet_type A D t w)"
  "P w \<Longrightarrow> after P (sx_set_buffer_base_address A D a b w)" "P w \<Longrightarrow> after P (sx_set_modulation_params A D a b c w)"
  "P w \<Longrightarrow> after P (sx_set_packet_params_lora A D n w)" "P w \<Longrightarrow> after P (sx_set_tx_params A D v w)"
  "P w \<Longrightarrow> after P (sx_set_lora_sync_word A D v w)" "P w \<Longrightarrow> after P (sx_set_dio_irq_params A D i1 i2 i3 i4 w)"
  "P w \<Longrightarrow> after P (sx_clear_irq_status A D i w)" "P w \<Longrightarrow> after P (sx_set_frequency_hz A D f w)"
  by (simp_all add: sx_set_standby_def sx_set_packet_type_def sx_set_buffer_base_address_def sx_set_modulation_params_def
      sx_set_packet_params_lora_def sx_set_tx_params_def sx_set_lora_sync_word_def sx_set_dio_irq_params_def
      sx_clear_irq_status_def sx_set_frequency_hz_def commands after_bind [OF after_any])

lemma statuses:
  "P w \<Longrightarrow> after (\<lambda>r. P (snd r)) (sx_get_packet_type A D w)"
  "P w \<Longrightarrow> after (\<lambda>r. P (snd r)) (sx_get_irq_status A D w)"
  "P w \<Longrightarrow> after (\<lambda>r. P (snd r)) (sx_read_packet_status A D w)"
  by (auto simp: sx_get_packet_type_def sx_get_irq_status_def sx_read_packet_status_def intro!: bind_read commands)

lemma ranging_settings:
  "P w \<Longrightarrow> after P (sx_set_ranging_address A D role addr w)" "P w \<Longrightarrow> after P (sx_set_ranging_calibration A D c w)"
  by (auto simp: sx_set_ranging_address_def sx_set_ranging_calibration_def Let_def
      intro!: bind_write bind_read commands)

lemma reset: "P w \<Longrightarrow> after P (sx_reset A D w)"
  using wait_busy by (simp add: sx_reset_def Let_def pins delays)

lemma begin_common: "P w \<Longrightarrow> after P (sx_begin_common A D t f w)"
  by (auto simp: sx_begin_common_def Let_def pins begin_spi intro!: bind_write commands settings reset)

lemma begins:
  "P w \<Longrightarrow> after (\<lambda>r. P (snd r)) (sx_begin_lora A D f w)"
  "P w \<Longrightarrow> after (\<lambda>r. P (snd r)) (sx_begin_ranging A D role f addr c w)"
  by (auto simp: sx_begin_lora_def sx_begin_ranging_def Let_def
      intro!: bind_write bind_read commands settings statuses ranging_settings begin_common)

lemma finish: "P w \<Longrightarrow> after P (sx_finish A D w)"
  by (auto simp: sx_finish_def intro!: bind_write settings)

lemma lora_mode: "P w \<Longrightarrow> after P (sx_lora_mode A D w)"
  by (auto simp: sx_lora_mode_def intro!: bind_write bind_read settings statuses)

lemma irq_read: "sx_get_irq_status A D w = Some (irq, w') \<Longrightarrow> P w \<Longrightarrow> P w'"
  using afterD [OF statuses(2)] by fastforce

lemma transmit_wait:
  assumes "sx_transmit_wait A D started timeout w = Some r" "P w"
  shows "P (snd r)"
proof -
  have "A = A \<longrightarrow> D = D \<longrightarrow> P w \<longrightarrow> P (snd r)"
  proof (rule sx_transmit_wait.raw_induct [where P = "\<lambda>C E started timeout w r. C = A \<longrightarrow> E = D \<longrightarrow> P w \<longrightarrow> P (snd r)",
        OF _ assms(1)], intro impI, goal_cases)
    case (1 f C E started timeout w r)
    obtain now w1 where n: "ar_millis A w = (now, w1)" by fastforce
    have p: "P w1" using timers(1) [OF 1(5)] n by simp
    show ?case
    proof (cases "now - started < timeout")
      case True
      then obtain irq w2 where i: "sx_get_irq_status A D w1 = Some (irq, w2)"
        "(if irq AND IRQ_TX_DONE \<noteq> 0 then Some (True, w2) else if irq AND IRQ_RX_TX_TIMEOUT \<noteq> 0 then Some (False, w2)
          else f A D started timeout (ar_delay A 1 w2)) = Some r"
        using 1(2-4) n by (auto simp: bind_eq_Some_conv)
      have "P w2" using irq_read i(1) p by blast
      then show ?thesis using i(2) 1(1) [of A D started timeout "ar_delay A 1 w2" r] delays(1) by (auto split: if_splits)
    next
      case False
      then show ?thesis using 1(2-4) n p by auto
    qed
  qed
  then show ?thesis using assms(2) by simp
qed

lemma read_packet: "P w \<Longrightarrow> after (\<lambda>r. P (snd r)) (sx_read_packet A D n w)"
  by (auto simp: sx_read_packet_def Let_def intro!: bind_read commands statuses)

lemma receive_wait:
  assumes "sx_receive_wait A D n started timeout w = Some r" "P w"
  shows "P (snd r)"
proof -
  have "A = A \<longrightarrow> D = D \<longrightarrow> P w \<longrightarrow> P (snd r)"
  proof (rule sx_receive_wait.raw_induct [where P = "\<lambda>C E n started timeout w r. C = A \<longrightarrow> E = D \<longrightarrow> P w \<longrightarrow> P (snd r)",
        OF _ assms(1)], intro impI, goal_cases)
    case (1 f C E n started timeout w r)
    obtain now w1 where m: "ar_millis A w = (now, w1)" by fastforce
    have p: "P w1" using timers(1) [OF 1(5)] m by simp
    show ?case
    proof (cases "now - started < timeout")
      case True
      then obtain irq w2 where i: "sx_get_irq_status A D w1 = Some (irq, w2)"
        "(if irq AND (IRQ_CRC_ERROR OR IRQ_HEADER_ERROR OR IRQ_RX_TX_TIMEOUT) \<noteq> 0 then Some ((False, [], None), w2)
          else if irq AND IRQ_RX_DONE \<noteq> 0 then sx_read_packet A D n w2
          else f A D n started timeout (ar_delay A 1 w2)) = Some r"
        using 1(2-4) m by (auto simp: bind_eq_Some_conv)
      have "P w2" using irq_read i(1) p by blast
      then show ?thesis
        using i(2) 1(1) [of A D n started timeout "ar_delay A 1 w2" r] delays(1) afterD [OF read_packet]
        by (auto split: if_splits)
    next
      case False
      then show ?thesis using 1(2-4) m p by auto
    qed
  qed
  then show ?thesis using assms(2) by simp
qed

lemma waits:
  "P w \<Longrightarrow> after (\<lambda>r. P (snd r)) (sx_transmit_wait A D started timeout w)"
  "P w \<Longrightarrow> after (\<lambda>r. P (snd r)) (sx_receive_wait A D n started timeout w)"
  using transmit_wait receive_wait by (auto simp: after_def)

lemma packets:
  "P w \<Longrightarrow> after (\<lambda>r. P (snd r)) (sx_transmit_packet A D payload len timeout w)"
  "P w \<Longrightarrow> after (\<lambda>r. P (snd r)) (sx_receive_packet A D n timeout w)"
  by (auto simp: sx_transmit_packet_def sx_receive_packet_def Let_def case_prod_beta timers split: option.split
      intro!: bind_write bind_read commands settings lora_mode waits finish)

lemma ranging:
  "P w \<Longrightarrow> after P (sx_start_master_exchange A D n w)" "P w \<Longrightarrow> after P (sx_start_slave_listen A D w)"
  "P w \<Longrightarrow> after (\<lambda>r. P (snd r)) (sx_read_ranging_result_raw A D w)"
  by (auto simp: sx_start_master_exchange_def sx_start_slave_listen_def sx_read_ranging_result_raw_def
      intro!: bind_write bind_read commands settings finish)

end

end
