(* ===== verification/Bee_Invariant.thy ===== *)
theory Bee_Invariant
  imports Bee_Radio Sx1280_Bus Control_Safety
begin

text \<open>
  The SpeedyBee firmware as a machine: \<^verbatim>\<open>setup\<close>, then turns of \<^verbatim>\<open>loop\<close> with any input from the serial port,
  the chip and the clock. The locale carries a predicate of the world, indexed by the mode of the radio
  front end, through every function together with the invariant of the globals.
\<close>

section \<open>The globals\<close>

definition bee_core_ok :: "u8 \<Rightarrow> nav_system \<Rightarrow> bool" where
  "bee_core_ok node_id nav \<longleftrightarrow> core_holds ((bee_core_config node_id)\<lparr>cfg_demo_force_gps_denied := True\<rparr>) nav \<and>
     source_of nav \<noteq> NAV_SOURCE_LOCAL_GNSS"

definition bee_config_wf :: "persist_config \<Rightarrow> bool" where
  "bee_config_wf c \<longleftrightarrow> pc_magic c = kConfigMagic \<and> unat (pc_node_id c) < NAV_MAX_NODES \<and>
     length (pc_name c) = NAV_NODE_NAME_MAX \<and> NUL \<in> set (pc_name c) \<and> pc_gps_enabled c = 0"

definition bee_inv :: "'w bee_board \<Rightarrow> 'w bee \<Rightarrow> bool" where
  "bee_inv B s \<longleftrightarrow> bee_config_wf (be_config s) \<and> bee_core_ok (pc_node_id (be_config s)) (be_nav s) \<and>
     mock_wf (be_mock s) \<and> mo_enabled (be_mock s) = bee_mock_on B (be_config s) \<and>
     length (be_line s) = 256 \<and> be_line_len s < 256 \<and>
     length (be_node_quality s) = NAV_MAX_NODES \<and> length (be_record_buf s) = kRecordBufMax"

lemma bee_inv_upd [simp]:
  "bee_inv B (s\<lparr>be_world := w\<rparr>) = bee_inv B s" "bee_inv B (s\<lparr>be_lines := l\<rparr>) = bee_inv B s"
  "bee_inv B (s\<lparr>be_last_snapshot_ms := t\<rparr>) = bee_inv B s" "bee_inv B (s\<lparr>be_status_led_until_ms := t\<rparr>) = bee_inv B s"
  "bee_inv B (s\<lparr>be_debug_enabled := b\<rparr>) = bee_inv B s" "bee_inv B (s\<lparr>be_status_led_on := b\<rparr>) = bee_inv B s"
  "bee_inv B (s\<lparr>be_local_quality_packet_seq := t\<rparr>) = bee_inv B s" "bee_inv B (s\<lparr>be_radio_ready := b\<rparr>) = bee_inv B s"
  "bee_inv B (s\<lparr>be_radio_frame_seq := h\<rparr>) = bee_inv B s"
  "bee_inv B (s\<lparr>be_remote_debug_active_until_ms := t\<rparr>) = bee_inv B s"
  "bee_inv B (s\<lparr>be_remote_debug_was_active := b\<rparr>) = bee_inv B s"
  "bee_inv B (s\<lparr>be_last_debug_enable_tx_ms := t\<rparr>) = bee_inv B s"
  "bee_inv B (s\<lparr>be_last_node_quality_tx_ms := t\<rparr>) = bee_inv B s"
  "bee_inv B (s\<lparr>be_radio_quality_packet_seq := t\<rparr>) = bee_inv B s"
  "bee_inv B (s\<lparr>be_last_radio_not_ready_log_ms := t\<rparr>) = bee_inv B s"
  "bee_inv B (s\<lparr>be_last_node_quality_tx_log_ms := t\<rparr>) = bee_inv B s"
  "bee_inv B (s\<lparr>be_range_request_id := h\<rparr>) = bee_inv B s" "bee_inv B (s\<lparr>be_radio_node_id := i\<rparr>) = bee_inv B s"
  "bee_inv B (s\<lparr>be_next_peer_id := i\<rparr>) = bee_inv B s" "bee_inv B (s\<lparr>be_next_master_at_ms := t\<rparr>) = bee_inv B s"
  by (simp_all add: bee_inv_def)

section \<open>The core\<close>

lemma bee_core_event:
  assumes "nav_core_handle_event lm (Some e) nav = Some nav'" "\<not> config_event (ev_data e)" "bee_core_ok i nav"
  shows "bee_core_ok i nav'"
  using denied_from_event [OF assms(1,2), of "(bee_core_config i)\<lparr>cfg_demo_force_gps_denied := True\<rparr>" nav] assms(3)
  by (simp add: bee_core_ok_def denied_from_def)

lemma bee_core_tick:
  assumes "nav_core_tick lm now nav = Some nav'" "bee_core_ok i nav"
  shows "bee_core_ok i nav'"
  using denied_from_tick [OF assms(1), of "(bee_core_config i)\<lparr>cfg_demo_force_gps_denied := True\<rparr>" nav] assms(2)
  by (simp add: bee_core_ok_def denied_from_def)

lemma bee_inv_nav: "bee_inv B s \<Longrightarrow> bee_core_ok (pc_node_id (be_config s)) nav \<Longrightarrow> bee_inv B (s\<lparr>be_nav := nav\<rparr>)"
  by (simp add: bee_inv_def)

lemma bee_core_init:
  "bee_core_ok i ((nav_core_init (Some (bee_core_config i)))
     \<lparr>sy_config := (sy_config (nav_core_init (Some (bee_core_config i))))\<lparr>cfg_demo_force_gps_denied := True\<rparr>\<rparr>)"
proof -
  have "sy_config (nav_core_init (Some c)) = c" "source_of (nav_core_init (Some c)) = NAV_SOURCE_NONE" for c
    by (simp_all add: nav_core_init_def snapshot_clear_diagnostics_def Let_def)
  then show ?thesis using core_inv_init by (simp add: bee_core_ok_def core_holds_def)
qed

text \<open>\<^verbatim>\<open>initCoreForConfig\<close> establishes the part of the invariant that depends on the settings.\<close>

lemma bee_init_core_inv:
  assumes "bee_config_wf (be_config s)" "length (be_line s) = 256" "be_line_len s < 256"
    "length (be_record_buf s) = kRecordBufMax"
  shows "\<exists>s'. bee_init_core B s = Some s' \<and> bee_inv B s' \<and> be_world s' = be_world s"
proof -
  obtain m where m: "add_peers seed_peers (nav_mock_set_local_truth
      \<lparr>lat_e7 = 504520000, lon_e7 = 305260000, alt_mm = 183500\<rparr> nav_mock_init) = Some m" "mock_wf m"
    using seed_mock_ok by blast
  then show ?thesis using assms bee_core_init
    by (simp add: bee_init_core_def bee_seed_mock_def bee_apply_core_config_def bee_inv_def Let_def mock_wf_ops
        node_quality_clear_def)
qed

section \<open>Settings\<close>

lemma bee_name_ok:
  assumes "length name = NAV_NODE_NAME_MAX"
  shows "\<exists>n. bee_default_name i name = Some n \<and> length n = NAV_NODE_NAME_MAX \<and> NUL \<in> set n"
  using assms by (auto simp: bee_default_name_def vsnprintf_at_def Let_def)

lemma bee_copy_ok:
  assumes "bee_copy_name src name = Some n" "length name = NAV_NODE_NAME_MAX"
  shows "length n = NAV_NODE_NAME_MAX" "NUL \<in> set n"
proof -
  have "length (takeWhile (\<lambda>c. c \<noteq> NUL) (take (NAV_NODE_NAME_MAX - 1) src)) \<le> length (take (NAV_NODE_NAME_MAX - 1) src)"
    by (rule length_takeWhile_le)
  then have "length (takeWhile (\<lambda>c. c \<noteq> NUL) (take (NAV_NODE_NAME_MAX - 1) src)) \<le> NAV_NODE_NAME_MAX - 1" by simp
  then show "length n = NAV_NODE_NAME_MAX" "NUL \<in> set n"
    using assms by (auto simp: bee_copy_name_def Let_def split: if_splits)
qed

lemma bee_repair_wf:
  assumes "pc_magic c = kConfigMagic" "length (pc_name c) = NAV_NODE_NAME_MAX"
  shows "\<exists>changed c'. bee_repair_config avail c = Some (changed, c') \<and> bee_config_wf c'"
proof -
  have n: "length ((pc_name c)[NAV_NODE_NAME_MAX - 1 := NUL]) = NAV_NODE_NAME_MAX"
    "NUL \<in> set ((pc_name c)[NAV_NODE_NAME_MAX - 1 := NUL])"
    using assms(2) by (auto intro: set_update_memI)
  obtain n2 where n2: "bee_default_name kDefaultNodeId ((pc_name c)[NAV_NODE_NAME_MAX - 1 := NUL]) = Some n2"
    "length n2 = NAV_NODE_NAME_MAX" "NUL \<in> set n2" using bee_name_ok [OF n(1)] by blast
  then show ?thesis using assms n
    by (simp add: bee_repair_config_def mem_simps bee_config_wf_def Let_def del: One_nat_def) auto
qed

section \<open>The functions keep the invariant\<close>

locale bee_world =
  fixes B :: "'w bee_board" and P :: "pa_mode \<Rightarrow> 'w \<Rightarrow> bool" and S :: "pa_mode \<Rightarrow> 'w \<Rightarrow> bool"
  assumes chip: "chip_world (bb_arduino B) bee_radio (P m) (S m)"
    and led: "P m w \<Longrightarrow> P m (ar_digital_write (bb_arduino B) PIN_LED v w)"
    and front_end: "P m w \<Longrightarrow> P PA_OFF (ar_digital_write (bb_arduino B) PIN_PA_TXEN False
        (ar_digital_write (bb_arduino B) PIN_PA_RXEN False w))"
      "P m w \<Longrightarrow> P PA_RX (ar_digital_write (bb_arduino B) PIN_PA_TXEN False
        (ar_digital_write (bb_arduino B) PIN_PA_RXEN True w))"
      "P m w \<Longrightarrow> P PA_TX (ar_digital_write (bb_arduino B) PIN_PA_TXEN True
        (ar_digital_write (bb_arduino B) PIN_PA_RXEN False w))"
    and serial: "P m w \<Longrightarrow> P m (bb_serial_begin B w)" "P m w \<Longrightarrow> P m (snd (bb_serial_available B w))"
      "P m w \<Longrightarrow> P m (snd (bb_serial_read B w))"
    and eeprom: "P m w \<Longrightarrow> P m (bb_eeprom_begin B w)" "P m w \<Longrightarrow> P m (snd (bb_eeprom_get B w))"
      "P m w \<Longrightarrow> P m (bb_eeprom_put B c w)" "P m w \<Longrightarrow> P m (snd (bb_eeprom_commit B w))"

sublocale bee_world \<subseteq> driver: chip_world "bb_arduino B" bee_radio "P m" "S m" for m
  by (rule chip)

context bee_world
begin

definition holds :: "pa_mode \<Rightarrow> 'w bee \<Rightarrow> bool" where
  "holds m s \<longleftrightarrow> bee_inv B s \<and> P m (be_world s)"

lemma holds_upd [simp]:
  "holds m (s\<lparr>be_lines := l\<rparr>) = holds m s"
  "holds m (s\<lparr>be_last_snapshot_ms := t\<rparr>) = holds m s" "holds m (s\<lparr>be_status_led_until_ms := t\<rparr>) = holds m s"
  "holds m (s\<lparr>be_debug_enabled := b\<rparr>) = holds m s" "holds m (s\<lparr>be_status_led_on := b\<rparr>) = holds m s"
  "holds m (s\<lparr>be_local_quality_packet_seq := t\<rparr>) = holds m s" "holds m (s\<lparr>be_radio_ready := b\<rparr>) = holds m s"
  "holds m (s\<lparr>be_radio_frame_seq := h\<rparr>) = holds m s"
  "holds m (s\<lparr>be_remote_debug_active_until_ms := t\<rparr>) = holds m s"
  "holds m (s\<lparr>be_remote_debug_was_active := b\<rparr>) = holds m s"
  "holds m (s\<lparr>be_last_debug_enable_tx_ms := t\<rparr>) = holds m s"
  "holds m (s\<lparr>be_last_node_quality_tx_ms := t\<rparr>) = holds m s"
  "holds m (s\<lparr>be_radio_quality_packet_seq := t\<rparr>) = holds m s"
  "holds m (s\<lparr>be_last_radio_not_ready_log_ms := t\<rparr>) = holds m s"
  "holds m (s\<lparr>be_last_node_quality_tx_log_ms := t\<rparr>) = holds m s"
  "holds m (s\<lparr>be_range_request_id := h\<rparr>) = holds m s" "holds m (s\<lparr>be_radio_node_id := i\<rparr>) = holds m s"
  "holds m (s\<lparr>be_next_peer_id := i\<rparr>) = holds m s" "holds m (s\<lparr>be_next_master_at_ms := t\<rparr>) = holds m s"
  by (simp_all add: holds_def)

text \<open>Calls of the board.\<close>

lemma calls:
  "(\<And>w. P m w \<Longrightarrow> P m (snd (f w))) \<Longrightarrow> holds m s \<Longrightarrow> holds m (snd (bee_call f s))"
  "(\<And>w. P m w \<Longrightarrow> P m (g w)) \<Longrightarrow> holds m s \<Longrightarrow> holds m (bee_do g s)"
  by (simp_all add: bee_call_def bee_do_def holds_def case_prod_beta)

lemma radio_calls:
  "(\<And>w. P m w \<Longrightarrow> after (\<lambda>r. P m (snd r)) (f w)) \<Longrightarrow> holds m s \<Longrightarrow> after (\<lambda>r. holds m (snd r)) (bee_radio_call f s)"
  "(\<And>w. P m w \<Longrightarrow> after (P m) (g w)) \<Longrightarrow> holds m s \<Longrightarrow> after (holds m) (bee_radio_do g s)"
  by (auto simp: bee_radio_call_def bee_radio_do_def holds_def case_prod_beta after_def)

lemma time [simp]:
  "holds m s \<Longrightarrow> holds m (snd (bee_now B s))" "holds m s \<Longrightarrow> holds m (bee_delay B n s)"
  "holds m s \<Longrightarrow> holds m (snd (bee_remaining_in_window B a b s))"
  "holds m s \<Longrightarrow> holds m (snd (bee_initial_master_at B i s))"
  "holds m s \<Longrightarrow> holds m (bee_do (ar_delay_us (bb_arduino B) n) s)"
  "holds m s \<Longrightarrow> holds m (bee_do (ar_pin_mode (bb_arduino B) pin d) s)"
  "holds m s \<Longrightarrow> holds m (bee_pin B PIN_LED v s)"
  by (simp_all add: bee_now_def bee_delay_def bee_pin_def bee_remaining_in_window_def bee_initial_master_at_def Let_def
      case_prod_beta calls driver.timers driver.delays driver.pins led)

lemma now: "bee_now B s = (t, s') \<Longrightarrow> holds m s \<Longrightarrow> holds m s'"
  using time(1) by fastforce

lemma pa: "holds m s \<Longrightarrow> holds m' (bee_set_pa_mode B m' s)"
  using front_end [of m "be_world s"] by (cases m') (simp_all add: bee_set_pa_mode_def bee_pin_def bee_do_def holds_def)

text \<open>Output.\<close>

lemma show_record: "holds m s \<Longrightarrow> after (holds m) (bee_print_record B buf n cap s)"
  by (auto simp: bee_print_record_def Let_def case_prod_beta intro!: after_bind [OF after_any])

lemma emit_log: "holds m s \<Longrightarrow> after (holds m) (bee_emit_log B t level tag message s)"
  by (auto simp: bee_emit_log_def intro!: after_bind [OF after_any] show_record)

lemma emit_log_now: "holds m s \<Longrightarrow> after (holds m) (bee_emit_log_now B level tag message s)"
  by (simp add: bee_emit_log_now_def case_prod_beta emit_log)

lemma emit_range: "holds m s \<Longrightarrow> after (holds m) (bee_emit_range_record B r s)"
  by (auto simp: bee_emit_range_record_def intro!: after_bind [OF after_any])

lemma save_config: "holds m s \<Longrightarrow> holds m (bee_save_config B s)"
  by (simp add: bee_save_config_def calls eeprom)

text \<open>Commands and the serial port.\<close>

lemma config_change:
  assumes "holds m s" "bee_config_wf c" "pc_node_id c = pc_node_id (be_config s)"
    "pc_mock_enabled c = pc_mock_enabled (be_config s)"
  shows "holds m (s\<lparr>be_config := c\<rparr>)"
  using assms by (simp add: holds_def bee_inv_def bee_mock_on_def)

lemma config_ok: "holds m s \<Longrightarrow> bee_config_wf (be_config s)"
  by (simp add: holds_def bee_inv_def)

lemma set_name: "holds m s \<Longrightarrow> after (holds m) (bee_set_name src s)"
  using bee_copy_ok by (fastforce simp: bee_set_name_def after_def bee_config_wf_def dest: config_ok intro!: config_change)

lemma denied_again: "holds m s \<Longrightarrow> holds m (bee_apply_core_config s)"
  by (simp add: holds_def bee_inv_def bee_apply_core_config_def bee_core_ok_def core_holds_def)

lemma set_mock:
  assumes "holds m s" "on = (bb_mock_available B \<and> flag \<noteq> 0)"
  shows "holds m (bee_set_mock flag on s)"
  using assms by (simp add: holds_def bee_inv_def bee_set_mock_def bee_mock_on_def bee_config_wf_def mock_wf_ops)

lemma set_node_id:
  assumes "holds m s" "unat i < NAV_MAX_NODES"
  shows "after (holds m) (bee_set_node_id B i s)"
proof (unfold after_def, intro allI impI)
  fix s' assume r: "bee_set_node_id B i s = Some s'"
  have i: "bee_inv B s" "P m (be_world s)" using assms(1) by (simp_all add: holds_def)
  obtain n where n: "bee_default_name i (pc_name (be_config s)) = Some n" "length n = NAV_NODE_NAME_MAX" "NUL \<in> set n"
    using bee_name_ok i(1) by (auto simp: bee_inv_def bee_config_wf_def)
  define t where "t = s\<lparr>be_config := (be_config s)\<lparr>pc_node_id := i, pc_name := n\<rparr>\<rparr>"
  have "bee_config_wf (be_config t)" using n i(1) assms(2) by (simp add: t_def bee_inv_def bee_config_wf_def)
  moreover have "length (be_line t) = 256" "be_line_len t < 256" "length (be_record_buf t) = kRecordBufMax"
    using i(1) by (simp_all add: t_def bee_inv_def)
  ultimately obtain u where "bee_init_core B t = Some u" "bee_inv B u" "be_world u = be_world t"
    using bee_init_core_inv by blast
  then show "holds m s'" using r n(1) i(2) by (simp add: bee_set_node_id_def t_def holds_def)
qed

lemma set_debug: "holds m s \<Longrightarrow> holds m (bee_set_debug on s)"
  by (simp add: bee_set_debug_def Let_def holds_def bee_inv_def node_quality_clear_def)

lemma small_id: "0 \<le> sint v \<Longrightarrow> sint v < 4 \<Longrightarrow> unat (ucast (v :: i32) :: u8) < 4"
proof -
  assume v: "0 \<le> sint v" "sint v < 4"
  then have "sint v = sint (0 :: i32) \<or> sint v = sint (1 :: i32) \<or> sint v = sint (2 :: i32) \<or> sint v = sint (3 :: i32)"
    by simp arith
  then have "v = 0 \<or> v = 1 \<or> v = 2 \<or> v = 3" using signed_word_eqI by blast
  then show ?thesis by auto
qed

lemma next_step: "after (holds m) f \<Longrightarrow> (\<And>x. holds m x \<Longrightarrow> after Q (g x)) \<Longrightarrow> after Q (Option.bind f g)"
  by (rule after_bind)

lemma next_result:
  "after (\<lambda>r. holds m (snd r)) f \<Longrightarrow> (\<And>a x. holds m x \<Longrightarrow> after Q (g (a, x))) \<Longrightarrow> after Q (Option.bind f g)"
  by (erule after_bind) (auto simp: split_paired_all)

lemma command_effect: "holds m s \<Longrightarrow> after (\<lambda>r. holds m (snd r)) (bee_command_effect B t cmd s)"
proof (cases "cc_type cmd")
  case NAV_CTRL_CMD_SET_ALTITUDE
  assume "holds m s"
  then show ?thesis using NAV_CTRL_CMD_SET_ALTITUDE config_ok
    by (auto simp: bee_command_effect_def Let_def bee_config_wf_def intro!: next_step [where m = m] emit_log config_change)
next
  case NAV_CTRL_CMD_SET_GPS
  assume "holds m s"
  then show ?thesis using NAV_CTRL_CMD_SET_GPS config_ok
    by (auto simp: bee_command_effect_def Let_def bee_config_wf_def intro!: next_step [where m = m] emit_log config_change denied_again)
qed (auto simp: bee_command_effect_def Let_def intro!: next_step [where m = m] set_name emit_log set_mock set_node_id small_id set_debug)

lemma apply_command: "holds m s \<Longrightarrow> after (holds m) (bee_apply_command B cmd s)"
  by (auto simp: bee_apply_command_def Let_def case_prod_beta save_config intro!: next_result [where m = m] command_effect)

lemma serial_byte: "holds m s \<Longrightarrow> after (holds m) (bee_serial_byte B c s)"
proof -
  assume h: "holds m s"
  have l: "length (be_line s) = 256" "be_line_len s < 256" using h by (simp_all add: holds_def bee_inv_def)
  have u: "holds m (s\<lparr>be_line := b\<rparr>)" if "length b = 256" for b using h that by (simp add: holds_def bee_inv_def)
  have n: "holds m (t\<lparr>be_line_len := 0\<rparr>)" if "holds m t" for t using that by (simp add: holds_def bee_inv_def)
  have "after (holds m) (bee_handle_line B tx (s\<lparr>be_line := b\<rparr>))" if "length b = 256" for tx b
    using u [OF that] by (auto simp: bee_handle_line_def intro!: after_bind [OF after_any] apply_command)
  then have e: "after (holds m) (do { t \<leftarrow> bee_handle_line B tx (s\<lparr>be_line := b\<rparr>); Some (t\<lparr>be_line_len := 0\<rparr>) })"
    if "length b = 256" for tx b using that by (auto intro!: next_step [where m = m] n)
  have "holds m (s\<lparr>be_line := b, be_line_len := k\<rparr>)" if "length b = 256" "k < 256" for b k
    using h that by (simp add: holds_def bee_inv_def)
  moreover have "after (holds m) (c_string b \<bind> (\<lambda>tx. bee_handle_line B tx (s\<lparr>be_line := b\<rparr>) \<bind>
      (\<lambda>t. Some (t\<lparr>be_line_len := 0\<rparr>))))" if "length b = 256" for b
    using e [OF that] by (cases "c_string b") simp_all
  ultimately show ?thesis using l h n [OF h] by (simp add: bee_serial_byte_def mem_simps)
qed

lemma pump_serial:
  assumes "bee_pump_serial B s = Some s'" "holds m s"
  shows "holds m s'"
proof -
  have "B = B \<longrightarrow> holds m s \<longrightarrow> holds m s'"
  proof (rule bee_pump_serial.raw_induct [where P = "\<lambda>C s s'. C = B \<longrightarrow> holds m s \<longrightarrow> holds m s'", OF _ assms(1)],
      intro impI, goal_cases)
    case (1 f C s r)
    obtain n s1 where n: "bee_call (bb_serial_available B) s = (n, s1)" by fastforce
    have h1: "holds m s1" using calls(1) [of m "bb_serial_available B" s] serial(2) 1(4) n by simp
    show ?case
    proof (cases "n \<le> 0")
      case False
      obtain c s2 where c: "bee_call (bb_serial_read B) s1 = (c, s2)" by fastforce
      have "holds m s2" using calls(1) [of m "bb_serial_read B" s1] serial(3) h1 c by simp
      moreover obtain s3 where s3: "bee_serial_byte B c s2 = Some s3" "f B s3 = Some r"
        using 1(2,3) n c False by (auto simp: bind_eq_Some_conv)
      ultimately have "holds m s3" using afterD [OF serial_byte] by blast
      then show ?thesis using 1(1) [OF s3(2)] by simp
    qed (use 1(2,3) n h1 in auto)
  qed
  then show ?thesis using assms(2) by simp
qed

lemma pump: "holds m s \<Longrightarrow> after (holds m) (bee_pump_serial B s)"
  using pump_serial by (auto simp: after_def)

text \<open>Records.\<close>

lemma nav_event: "holds m s \<Longrightarrow> \<not> config_event (ev_data e) \<Longrightarrow> after (holds m) (bee_nav_event B e s)"
  using bee_core_event by (fastforce simp: bee_nav_event_def after_def bind_eq_Some_conv holds_def bee_inv_def)

lemma update: "holds m s \<Longrightarrow> after (holds m) (bee_update B t s)"
proof (unfold after_def, intro allI impI)
  fix s' assume h: "holds m s" and r: "bee_update B t s = Some s'"
  let ?ok = "bee_core_ok (pc_node_id (be_config s))"
  obtain s1 k n2 n3 where n: "bee_feed_altitude B t s = Some s1"
    "nav_mock_emit (bb_libm B) (be_mock s1) t (\<lambda>e. nav_core_handle_event (bb_libm B) (Some e)) (be_nav s1) = Some (k, n2)"
    "nav_core_tick (bb_libm B) t n2 = Some n3" "s' = s1\<lparr>be_nav := n3\<rparr>"
    using r by (auto simp: bee_update_def bind_eq_Some_conv)
  have "after (holds m) (bee_feed_altitude B t s)"
    using nav_event [OF h] by (simp add: bee_feed_altitude_def altitude_event_def)
  then have "holds m s1" using n(1) by simp
  moreover have "be_config s1 = be_config s"
    using n(1) by (auto simp: bee_feed_altitude_def bee_nav_event_def bind_eq_Some_conv)
  moreover from calculation have "?ok n2"
    using mock_emit_keeps [where P = ?ok, OF _ n(2)] bee_core_event by (auto simp: holds_def bee_inv_def)
  then have "?ok n3" using bee_core_tick [OF n(3)] by blast
  ultimately show "holds m s'" using n(4) by (simp add: holds_def bee_inv_def)
qed

end

end
