(* ===== verification/Bee_Loop.thy ===== *)
theory Bee_Loop
  imports Bee_Invariant
begin

text \<open>
  The rest of the walk through the SpeedyBee firmware: the records, the radio services and the main loop keep
  the invariant, and every radio service leaves the front end off. The theorems about the reachable states
  are instances of it.
\<close>

section \<open>Records\<close>

text \<open>Steps that compute a value and leave the state alone.\<close>

lemmas pure_step =
  after_bind [OF after_any, where m = "mem_read b i" for b i] after_bind [OF after_any, where m = "mem_write b i v" for b i v]
  after_bind [OF after_any, where m = "bee_info B s" for B s]
  after_bind [OF after_any, where m = "bee_fill_local_node_quality_report k sn" for k sn]
  after_bind [OF after_any, where m = "bee_current_local_quality k s" for k s]
  after_bind [OF after_any, where m = "lround_i16 v" for v] after_bind [OF after_any, where m = "meters_to_millimeters v" for v]
  after_bind [OF after_any, where m = "parse_legacy_range_report tx t rssi snr" for tx t rssi snr]
  after_bind [OF after_any, where m = "nav_radio_decode_frame b n f" for b n f]
  after_bind [OF after_any, where m = "nav_telemetry_decode_event b n t rssi snr e" for b n t rssi snr e]
  after_bind [OF after_any, where m = "nav_telemetry_decode_debug_enable f d" for f d]
  after_bind [OF after_any, where m = "nav_telemetry_decode_node_quality_report f d" for f d]
  after_bind [OF after_any, where m = "nav_telemetry_encode_debug_enable j d q b n k" for j d q b n k]
  after_bind [OF after_any, where m = "nav_telemetry_encode_node_quality_report j d q b n k" for j d q b n k]

context bee_world
begin

lemma buffer: "holds m s \<Longrightarrow> length b = kRecordBufMax \<Longrightarrow> holds m (s\<lparr>be_record_buf := b\<rparr>)"
  by (simp add: holds_def bee_inv_def)

lemma buffer_len: "holds m s \<Longrightarrow> length (be_record_buf s) = kRecordBufMax"
  by (simp add: holds_def bee_inv_def)

lemma print_quality:
  assumes "holds m s"
  shows "after (holds m) (bee_print_quality B r t age origin s)"
proof -
  obtain b n where "nav_serial_write_node_quality_record (be_record_buf s) kRecordBufMax (Some r) t age (Some origin) = Some (b, n)"
    "length b = kRecordBufMax"
    using quality_w.frame [of kRecordBufMax "be_record_buf s" r t age "Some origin"] buffer_len [OF assms] by auto
  then show ?thesis using assms by (simp add: bee_print_quality_def show_record buffer)
qed

lemma print_peers: "holds m s \<Longrightarrow> after (holds m) (bee_print_peers B t is s)"
proof (induction "is" arbitrary: s)
  case (Cons i "is")
  then show ?case
    by (auto intro!: pure_step next_step [where m = m] print_quality)
qed simp

lemma emit_records: "holds m s \<Longrightarrow> after (holds m) (bee_emit_records B t s)"
proof -
  have q: "after (holds m) (bee_fill_local_node_quality_report k sn \<bind> (\<lambda>q. bee_print_quality B q t 0 ''local'' s
      \<bind> bee_print_peers B t [0..<4]))" if h: "holds m s" for s k sn
    using h by (auto intro!: pure_step next_step [where m = m] print_quality print_peers)
  have "after (holds m) (nav_serial_write_snapshot_record (be_record_buf s) kRecordBufMax (Some info) (Some sn) (Some table)
      \<bind> (\<lambda>(buf, n). bee_print_record B buf n kRecordBufMax (s\<lparr>be_record_buf := buf\<rparr>) \<bind> g))"
    if "holds m s" "\<And>x. holds m x \<Longrightarrow> after (holds m) (g x)" for s info sn table g
  proof -
    note h = that
    obtain b n where "nav_serial_write_snapshot_record (be_record_buf s) kRecordBufMax (Some info) (Some sn) (Some table) = Some (b, n)"
      "length b = kRecordBufMax"
      using record_w.frame [of kRecordBufMax "be_record_buf s" info sn table] buffer_len [OF h(1)] by auto
    then show ?thesis using h by (auto intro!: next_step [where m = m] show_record buffer)
  qed
  then show "holds m s \<Longrightarrow> after (holds m) (bee_emit_records B t s)"
    using q by (auto simp: bee_emit_records_def Let_def case_prod_beta
        intro!: pure_step next_step [where m = m, OF update])
qed

lemma service_control: "holds m s \<Longrightarrow> after (holds m) (bee_service_control_channel B s)"
  by (auto simp: bee_service_control_channel_def Let_def case_prod_beta intro!: next_step [where m = m, OF pump] emit_records)

section \<open>Results and packets\<close>

lemma inject:
  "holds m s \<Longrightarrow> after (holds m) (bee_inject_range_result B f p r mm rssi snr v s)"
  "holds m s \<Longrightarrow> after (holds m) (bee_inject_range_fail B f p r reason s)"
  by (auto simp: bee_inject_range_result_def bee_inject_range_fail_def case_prod_beta range_result_event_def
      range_fail_event_def intro!: next_step [where m = m, OF nav_event] emit_range)

lemma transmit: "holds m s \<Longrightarrow> after (\<lambda>r. holds PA_OFF (snd r)) (bee_transmit B payload n s)"
  using pa [of m s PA_TX]
  by (auto simp: bee_transmit_def Let_def intro!: next_result [where m = PA_TX, OF radio_calls(1)] driver.packets
      pa [of PA_TX])

lemma report_attempts: "holds PA_OFF s \<Longrightarrow> after (holds PA_OFF) (bee_report_attempts B payload k s)"
proof (induction k arbitrary: s)
  case (Suc k)
  then show ?case by (auto intro!: next_result [where m = PA_OFF, OF transmit] emit_log_now)
qed simp

lemma broadcast_report:
  "holds m s \<Longrightarrow> after (\<lambda>s. \<exists>m. holds m s) (bee_broadcast_range_report B message s)"
proof (cases "message = [] \<or> \<not> be_radio_ready s")
  case False
  assume h: "holds m s"
  let ?b = "map (\<lambda>c. of_nat (code c)) (''NRR1 '' @ message) :: u8 list"
  have "after (\<lambda>s. \<exists>m. holds m s) (bee_report_attempts B ?b 3 s)"
  proof -
    have "after (holds PA_OFF) (bee_report_attempts B ?b (Suc 2) s)"
      unfolding bee_report_attempts.simps
      using h by (auto intro!: next_result [where m = PA_OFF, OF transmit] emit_log_now report_attempts)
    then show ?thesis by (auto simp: numeral_3_eq_3 numeral_2_eq_2 elim: after_mono)
  qed
  moreover have "after (\<lambda>s. \<exists>m. holds m s) (bee_emit_log_now B l g x s)" for l g x
    using h by (blast intro: after_mono [OF emit_log_now])
  ultimately show ?thesis using False by (simp add: bee_broadcast_range_report_def Let_def)
qed (auto simp: bee_broadcast_range_report_def)

section \<open>Reception\<close>

lemma beacon: "holds m s \<Longrightarrow> after (holds m) (bee_handle_beacon B payload t st s)"
  by (auto simp: bee_handle_beacon_def intro!: pure_step emit_log nav_event split: nav_event_data.split)

lemma debug_enable: "holds m s \<Longrightarrow> after (holds m) (bee_handle_debug_enable B f t s)"
  by (auto simp: bee_handle_debug_enable_def Let_def intro!: pure_step emit_log)

lemma node_quality: "holds m s \<Longrightarrow> after (holds m) (bee_handle_node_quality B f t s)"
proof -
  assume h: "holds m s"
  have "length (be_node_quality s) = NAV_MAX_NODES" using h by (simp add: holds_def bee_inv_def)
  moreover have "holds m (s\<lparr>be_node_quality := q\<rparr>)" if "length q = NAV_MAX_NODES" for q
    using h that by (simp add: holds_def bee_inv_def)
  ultimately show ?thesis using h
    by (auto simp: bee_handle_node_quality_def mem_simps intro!: pure_step emit_log)
qed

lemma radio_frame: "holds m s \<Longrightarrow> after (holds m) (bee_handle_radio_frame B payload t st s)"
  by (auto simp: bee_handle_radio_frame_def beacon debug_enable node_quality intro!: pure_step
      split: nav_radio_message_type.split)

lemma report_packet: "holds m s \<Longrightarrow> after (holds m) (bee_handle_report_packet B payload t st s)"
  by (auto simp: bee_handle_report_packet_def Let_def emit_range intro!: pure_step
      next_step [where m = m, OF emit_log] split: option.split)

lemma handle_packet: "holds m s \<Longrightarrow> after (holds m) (bee_handle_packet B t received s)"
  by (auto simp: bee_handle_packet_def case_prod_beta report_packet radio_frame split: prod.split option.split)

lemma packet_rx: "holds PA_OFF s \<Longrightarrow> after (holds PA_OFF) (bee_service_packet_rx B t window s)"
  by (auto simp: bee_service_packet_rx_def intro!: next_result [where m = PA_RX, OF radio_calls(1)] driver.packets
      handle_packet pa [of PA_OFF s' PA_RX for s'] pa [of PA_RX s' PA_OFF for s'])

section \<open>Debug telemetry\<close>

lemma not_ready: "holds m s \<Longrightarrow> after (holds m) (bee_radio_not_ready B t message s)"
  by (simp add: bee_radio_not_ready_def emit_log)

lemma transmit_debug_enable: "holds PA_OFF s \<Longrightarrow> after (holds PA_OFF) (bee_transmit_debug_enable B t s)"
  by (auto simp: bee_transmit_debug_enable_def Let_def intro!: pure_step next_result [where m = PA_OFF, OF transmit] emit_log)

lemma transmit_node_quality: "holds PA_OFF s \<Longrightarrow> after (holds PA_OFF) (bee_transmit_node_quality B t s)"
  by (auto simp: bee_transmit_node_quality_def Let_def split: option.split
      intro!: pure_step next_result [where m = PA_OFF, OF transmit] emit_log)

lemma debug_telemetry_tx: "holds PA_OFF s \<Longrightarrow> after (holds PA_OFF) (bee_service_debug_telemetry_tx B t left s)"
  by (auto simp: bee_service_debug_telemetry_tx_def Let_def not_ready transmit_debug_enable transmit_node_quality
      intro!: next_step [where m = PA_OFF] emit_log)

section \<open>Ranging\<close>

lemma begin_ranging: "holds m s \<Longrightarrow> after (\<lambda>r. holds m (snd r)) (bee_begin_ranging B role i s)"
  by (simp add: bee_begin_ranging_def radio_calls driver.begins)

lemma irq: "holds m s \<Longrightarrow> after (\<lambda>r. holds m (snd r)) (bee_irq B s)"
  by (simp add: bee_irq_def radio_calls driver.statuses)

lemma quiet: "holds m s \<Longrightarrow> after (holds PA_OFF) (bee_radio_quiet B s)"
proof -
  assume "holds m s"
  then have "after (holds m) (bee_radio_do (sx_finish (bb_arduino B) bee_radio) s)"
    by (simp add: radio_calls driver.finish)
  then show ?thesis by (auto simp: bee_radio_quiet_def elim!: after_mono intro: pa)
qed

lemma log_failure: "holds m s \<Longrightarrow> after (holds m) (bee_log_master_failure B a p r t reason i remark s)"
  by (auto simp: bee_log_master_failure_def intro!: next_step [where m = m, OF emit_log_now] inject)

lemma exchange_failed: "holds m s \<Longrightarrow> after (holds PA_OFF) (bee_exchange_failed B a p r t i s)"
  by (auto simp: bee_exchange_failed_def Let_def intro!: next_step [where m = PA_OFF, OF quiet] log_failure)

lemma exchange_measured: "holds m s \<Longrightarrow> after (holds PA_OFF) (bee_exchange_measured B a p r t i s)"
proof -
  have ok: "after (holds PA_OFF) (bee_broadcast_range_report B message s \<bind> (\<lambda>s. lround_i16 v \<bind> (\<lambda>snr.
      bee_inject_range_result B a p r mm rssi snr True s \<bind> bee_radio_quiet B)))"
    if "holds m s" for s message v mm rssi
  proof (rule after_bind [OF broadcast_report [OF that]], elim exE)
    fix m x
    assume "holds m x"
    then show "after (holds PA_OFF) (lround_i16 v \<bind> (\<lambda>snr. bee_inject_range_result B a p r mm rssi snr True x \<bind> bee_radio_quiet B))"
      by (auto intro!: pure_step next_step [where m = m, OF inject(1)] quiet)
  qed
  assume "holds m s"
  then show ?thesis
    by (auto simp: bee_exchange_measured_def Let_def case_prod_beta
        intro!: next_result [where m = m, OF radio_calls(1)] driver.statuses driver.ranging after_bind [OF after_any, where m = "bee_measured_range B v" for v]
          next_step [where m = m, OF emit_log_now] ok next_step [where m = m, OF inject(2)] quiet)
qed

lemma master_wait:
  assumes "bee_master_wait B started i s = Some r" "holds m s"
  shows "holds m (snd r)"
proof -
  have "B = B \<longrightarrow> holds m s \<longrightarrow> holds m (snd r)"
  proof (rule bee_master_wait.raw_induct [where P = "\<lambda>C started i s r. C = B \<longrightarrow> holds m s \<longrightarrow> holds m (snd r)", OF _ assms(1)],
      intro impI, goal_cases)
    case (1 f C started i s r)
    obtain t s1 where t: "bee_now B s = (t, s1)" by fastforce
    have h1: "holds m s1" using now [OF t 1(4)] .
    show ?case
    proof (cases "t - started < kMasterHostTimeoutMs")
      case True
      then obtain s2 i2 s3 where s: "bee_pump_serial B s1 = Some s2" "bee_irq B s2 = Some (i2, s3)"
        "(if i2 AND (IRQ_MASTER_RESULT_VALID OR IRQ_MASTER_TIMEOUT OR IRQ_RX_TX_TIMEOUT) \<noteq> 0 then Some (i2, s3)
          else f B started i2 (bee_delay B 2 s3)) = Some r"
        using 1(2,3) t by (auto simp: bind_eq_Some_conv)
      have "holds m s3" using afterD [OF irq s(2)] pump_serial [OF s(1) h1] by simp
      then show ?thesis using s(3) 1(1) [of B started i2 "bee_delay B 2 s3" r] by (auto split: if_splits)
    next
      case False
      then show ?thesis using 1(2,3) t h1 by auto
    qed
  qed
  then show ?thesis using assms(2) by simp
qed

lemma run_exchange: "holds PA_OFF s \<Longrightarrow> after (holds PA_OFF) (bee_run_master_exchange B a p s)"
proof -
  have w: "after (\<lambda>r. holds m (snd r)) (bee_master_wait B t i s)" if "holds m s" for m t i s
    using master_wait that by (auto simp: after_def)
  assume "holds PA_OFF s"
  then show ?thesis
    by (auto simp: bee_run_master_exchange_def Let_def case_prod_beta
        intro!: next_result [where m = PA_OFF, OF begin_ranging] next_result [where m = PA_OFF, OF irq] log_failure
          next_step [where m = PA_TX, OF radio_calls(2)] driver.ranging pa [of PA_OFF s' PA_TX for s'] pa [of PA_TX s' PA_RX for s']
          next_result [where m = PA_RX, OF w] exchange_failed [of PA_RX] exchange_measured [of PA_RX])
qed

lemma slave_wait:
  assumes "bee_slave_wait B i started window logged s = Some r" "holds m s"
  shows "holds m r"
proof -
  have "B = B \<longrightarrow> holds m s \<longrightarrow> holds m r"
  proof (rule bee_slave_wait.raw_induct [where P = "\<lambda>C i started window logged s r. C = B \<longrightarrow> holds m s \<longrightarrow> holds m r",
        OF _ assms(1)], intro impI, goal_cases)
    case (1 f C i started window logged s r)
    obtain t s1 where t: "bee_now B s = (t, s1)" by fastforce
    have h1: "holds m s1" using now [OF t 1(4)] .
    show ?case
    proof (cases "t - started < window")
      case True
      then obtain s2 i2 s3 s4 where s: "bee_pump_serial B s1 = Some s2" "bee_irq B s2 = Some (i2, s3)"
        "(if i2 AND IRQ_SLAVE_REQUEST_VALID \<noteq> 0 \<and> \<not> logged
          then bee_radio_do (sx_clear_irq_status (bb_arduino B) bee_radio IRQ_SLAVE_REQUEST_VALID) s3 else Some s3) = Some s4"
        "(if i2 AND (IRQ_SLAVE_RESPONSE_DONE OR IRQ_SLAVE_REQUEST_DISCARD OR IRQ_RX_TX_TIMEOUT) \<noteq> 0
          then (if i2 AND IRQ_SLAVE_RESPONSE_DONE \<noteq> 0 then (case bee_now B s4 of (t, s) \<Rightarrow>
              bee_emit_log_now B ''OK'' ''RANGE'' (bee_response_text i (t - started) i2) s) else Some s4)
          else f B i started window (logged \<or> i2 AND IRQ_SLAVE_REQUEST_VALID \<noteq> 0) (bee_delay B 10 s4)) = Some r"
        using 1(2) t unfolding 1(3) by (auto simp: bind_eq_Some_conv)
      have h3: "holds m s3" using afterD [OF irq s(2)] pump_serial [OF s(1) h1] by simp
      then have "after (holds m) (bee_radio_do (sx_clear_irq_status (bb_arduino B) bee_radio IRQ_SLAVE_REQUEST_VALID) s3)"
        by (simp add: radio_calls driver.settings)
      then have h4: "holds m s4" using s(3) h3 by (auto simp: after_def split: if_splits)
      have "after (holds m) (case bee_now B s4 of (t, s) \<Rightarrow>
          bee_emit_log_now B ''OK'' ''RANGE'' (bee_response_text i (t - started) i2) s)"
        using h4 by (simp add: case_prod_beta emit_log_now)
      then show ?thesis using s(4) h4 1(1) [of B i started window _ "bee_delay B 10 s4" r]
        by (auto simp: after_def split: if_splits)
    next
      case False
      then show ?thesis using 1(2,3) t h1 by auto
    qed
  qed
  then show ?thesis using assms(2) by simp
qed

lemma service_slave: "holds PA_OFF s \<Longrightarrow> after (holds PA_OFF) (bee_service_slave B i window s)"
proof -
  have w: "after (holds m) (bee_slave_wait B i a b c s)" if "holds m s" for m a b c s
    using slave_wait that by (auto simp: after_def)
  have l: "after (\<lambda>x. holds PA_OFF (bee_set_pa_mode B PA_OFF x)) (bee_emit_log_now B l g x s)" if "holds m s" for m l g x s
    using emit_log_now [OF that] by (rule after_mono) (rule pa)
  assume "holds PA_OFF s"
  then show ?thesis
    by (auto simp: bee_service_slave_def Let_def case_prod_beta
        intro!: next_result [where m = PA_OFF, OF begin_ranging] l [of PA_OFF]
          next_step [where m = PA_RX, OF radio_calls(2)] driver.ranging pa [of PA_OFF s' PA_RX for s']
          next_step [where m = PA_RX, OF w] quiet [of PA_RX])
qed

section \<open>The loop\<close>

lemma listen_turn: "holds PA_OFF s \<Longrightarrow> after (\<lambda>r. holds PA_OFF (snd r)) (bee_listen_turn B i a b s)"
  by (auto simp: bee_listen_turn_def Let_def case_prod_beta
      intro!: next_step [where m = PA_OFF, OF service_control] next_step [where m = PA_OFF, OF debug_telemetry_tx]
        next_step [where m = PA_OFF, OF packet_rx] next_step [where m = PA_OFF, OF service_slave])

lemma network_wait:
  assumes "bee_network_wait B i a b s = Some r" "holds PA_OFF s"
  shows "holds PA_OFF r"
proof -
  have "B = B \<longrightarrow> holds PA_OFF s \<longrightarrow> holds PA_OFF r"
  proof (rule bee_network_wait.raw_induct [where P = "\<lambda>C i a b s r. C = B \<longrightarrow> holds PA_OFF s \<longrightarrow> holds PA_OFF r",
        OF _ assms(1)], intro impI, goal_cases)
    case (1 f C i a b s r)
    obtain t s1 where t: "bee_now B s = (t, s1)" by fastforce
    have h1: "holds PA_OFF s1" using now [OF t 1(4)] .
    show ?case
    proof (cases "t - a < b")
      case True
      then obtain again s2 where s: "bee_listen_turn B i a b s1 = Some (again, s2)"
        "(if again then f B i a b s2 else Some s2) = Some r"
        using 1(2,3) t by (auto simp: bind_eq_Some_conv)
      have "holds PA_OFF s2" using afterD [OF listen_turn [OF h1] s(1)] by simp
      then show ?thesis using s(2) 1(1) [of B i a b s2 r] by (auto split: if_splits)
    next
      case False
      then show ?thesis using 1(2,3) t h1 by auto
    qed
  qed
  then show ?thesis using assms(2) by simp
qed

lemma network_listen: "holds PA_OFF s \<Longrightarrow> after (holds PA_OFF) (bee_service_network_listen B i window s)"
  using network_wait by (auto simp: bee_service_network_listen_def after_def case_prod_beta)

lemma adopt: "holds m s \<Longrightarrow> after (holds m) (bee_adopt_node_id B t s)"
  by (auto simp: bee_adopt_node_id_def Let_def case_prod_beta intro!: emit_log)

lemma master_turn: "holds PA_OFF s \<Longrightarrow> after (holds PA_OFF) (bee_master_turn B s)"
  by (auto simp: bee_master_turn_def Let_def case_prod_beta intro!: next_step [where m = PA_OFF, OF run_exchange])

lemma service_radio: "holds PA_OFF s \<Longrightarrow> after (holds PA_OFF) (bee_service_radio B t s)"
  by (auto simp: bee_service_radio_def Let_def not_ready master_turn network_listen
      intro!: next_step [where m = PA_OFF, OF adopt])

lemma loop: "holds PA_OFF s \<Longrightarrow> after (holds PA_OFF) (bee_loop B s)"
  by (auto simp: bee_loop_def Let_def case_prod_beta intro!: next_step [where m = PA_OFF, OF service_control] service_radio)

section \<open>Bring-up\<close>

lemma load_config:
  assumes "P PA_OFF (be_world s)" "length (pc_name (fst (bb_eeprom_get B (be_world s)))) = NAV_NODE_NAME_MAX"
  shows "\<exists>c w. bee_load_config B s = Some (s\<lparr>be_config := c, be_world := w\<rparr>) \<and> bee_config_wf c \<and> P PA_OFF w"
proof -
  obtain c w where g: "bb_eeprom_get B (be_world s) = (c, w)" by fastforce
  have w: "P PA_OFF w" "length (pc_name c) = NAV_NODE_NAME_MAX" using eeprom(2) [OF assms(1)] assms(2) g by simp_all
  have save: "bee_save_config B (s\<lparr>be_world := w, be_config := d\<rparr>) = s\<lparr>be_config := d, be_world := snd (bb_eeprom_commit B (bb_eeprom_put B d w))\<rparr>"
    "P PA_OFF (snd (bb_eeprom_commit B (bb_eeprom_put B d w)))" for d
    using eeprom(3,4) w(1) by (simp_all add: bee_save_config_def bee_call_def bee_do_def case_prod_beta)
  show ?thesis
  proof (cases "pc_magic c = kConfigMagic")
    case False
    obtain n where n: "bee_default_name kDefaultNodeId (pc_name c) = Some n" "length n = NAV_NODE_NAME_MAX" "NUL \<in> set n"
      using bee_name_ok [OF w(2)] by blast
    define d where "d = \<lparr>pc_magic = kConfigMagic, pc_node_id = kDefaultNodeId, pc_name = n, pc_gps_enabled = 0,
      pc_mock_enabled = 0, pc_altitude_mm = kDefaultAltitudeMm\<rparr>"
    have "bee_config_wf d" using n by (simp add: d_def bee_config_wf_def)
    moreover have "bee_load_config B s = Some (bee_save_config B (s\<lparr>be_world := w, be_config := d\<rparr>))"
      using False n(1) by (simp add: bee_load_config_def bee_call_def g bee_default_config_def d_def)
    ultimately show ?thesis using save by metis
  next
    case True
    obtain changed d where d: "bee_repair_config (bb_mock_available B) c = Some (changed, d)" "bee_config_wf d"
      using bee_repair_wf [OF True w(2)] by blast
    have "bee_load_config B s = Some (if changed then bee_save_config B (s\<lparr>be_world := w, be_config := d\<rparr>)
        else s\<lparr>be_config := d, be_world := w\<rparr>)"
      using True d(1) by (simp add: bee_load_config_def bee_call_def g)
    then show ?thesis using d(2) save w(1) by (metis (full_types))
  qed
qed

lemma init_radio: "holds m s \<Longrightarrow> after (holds PA_OFF) (bee_init_radio B s)"
  by (auto simp: bee_init_radio_def Let_def intro!: next_step [where m = PA_OFF, OF emit_log_now]
      next_result [where m = PA_OFF, OF begin_ranging] emit_log_now pa [of m s' PA_OFF for s'])

lemma bring_up:
  assumes "P PA_OFF w" "\<forall>w. length (pc_name (fst (bb_eeprom_get B w))) = NAV_NODE_NAME_MAX"
  shows "after (holds PA_OFF) (bee_setup B (bee_zero w))"
proof -
  define s where "s = bee_do (bb_eeprom_begin B) (bee_pin B PIN_LED False (bee_do (ar_pin_mode (bb_arduino B) PIN_LED OUTPUT)
    (bee_do (bb_serial_begin B) (bee_zero w))))"
  have "P PA_OFF (be_world s)" using assms(1)
    by (simp add: s_def bee_do_def bee_pin_def bee_zero_def eeprom led serial driver.pins)
  then obtain c v where c: "bee_load_config B s = Some (s\<lparr>be_config := c, be_world := v\<rparr>)" "bee_config_wf c" "P PA_OFF v"
    using load_config assms(2) by blast
  obtain t where t: "bee_init_core B (s\<lparr>be_config := c, be_world := v\<rparr>) = Some t" "bee_inv B t" "be_world t = v"
    using bee_init_core_inv [of "s\<lparr>be_config := c, be_world := v\<rparr>" B] c(2)
    by (auto simp: s_def bee_do_def bee_pin_def bee_zero_def)
  have "holds PA_OFF t" using t c(3) by (simp add: holds_def)
  then show ?thesis using c(1) t(1)
    by (auto simp: bee_setup_def Let_def s_def [symmetric] intro!: next_step [where m = PA_OFF, OF emit_log_now] init_radio)
qed

end

section \<open>The machine\<close>

inductive bee_reachable :: "'w bee_board \<Rightarrow> 'w \<Rightarrow> 'w bee \<Rightarrow> bool" for B w where
  bee_start: "bee_setup B (bee_zero w) = Some s \<Longrightarrow> bee_reachable B w s"
| bee_next: "bee_reachable B w s \<Longrightarrow> bee_loop B s = Some s' \<Longrightarrow> bee_reachable B w s'"

text \<open>What EEPROM holds is read into the struct: its name has 24 characters.\<close>

definition eeprom_typed :: "'w bee_board \<Rightarrow> bool" where
  "eeprom_typed B \<longleftrightarrow> (\<forall>w. length (pc_name (fst (bb_eeprom_get B w))) = NAV_NODE_NAME_MAX)"

context bee_world
begin

lemma reachable_holds:
  assumes "bee_reachable B w s" "P PA_OFF w" "eeprom_typed B"
  shows "holds PA_OFF s"
  using assms(1)
proof induction
  case (bee_start s)
  then show ?case using afterD [OF bring_up [OF assms(2)]] assms(3) by (simp add: eeprom_typed_def)
next
  case (bee_next s s')
  then show ?case using afterD [OF loop] by blast
qed

end

interpretation any_world: bee_world B "\<lambda>_ _. True" "\<lambda>_ _. True" for B :: "'w bee_board"
  by unfold_locales simp_all

text \<open>C38: The SpeedyBee node keeps its invariants whatever arrives on its serial port and its radio and whatever its
  EEPROM held (only its type is assumed: a name of 24 characters): between two turns of the loop the navigation core satisfies its own invariant and runs the
  configuration of the current node id with local GNSS denied, GNSS is never the source of its solution, the
  node id is below 4, the node name is a C string, and the mock peers are on only in a build that has them.\<close>

theorem bee_node_invariant:
  assumes "bee_reachable B w s" and "eeprom_typed B"
  shows "core_inv (be_nav s) \<and>
    sy_config (be_nav s) = (bee_core_config (pc_node_id (be_config s)))\<lparr>cfg_demo_force_gps_denied := True\<rparr> \<and>
    sn_solution_source (sy_snapshot (be_nav s)) \<noteq> NAV_SOURCE_LOCAL_GNSS \<and> pc_node_id (be_config s) < 4 \<and>
    (\<exists>name. c_string (pc_name (be_config s)) = Some name \<and> length name < 24) \<and>
    (mo_enabled (be_mock s) \<longrightarrow> bb_mock_available B)"
proof -
  have i: "bee_inv B s" using any_world.reachable_holds [OF assms(1) _ assms(2)] by (simp add: any_world.holds_def)
  then obtain name where n: "c_string (pc_name (be_config s)) = Some name" "length name < 24"
    using c_string_len [of "pc_name (be_config s)"] by (auto simp: bee_inv_def bee_config_wf_def c_string_def)
  then show ?thesis using i
    by (auto simp: bee_inv_def bee_config_wf_def bee_core_ok_def core_holds_def bee_mock_on_def word_less_nat_alt)
qed

end
