(* ===== verification/Bee_Log.thy ===== *)
theory Bee_Log
  imports Bee_Loop
begin

text \<open>
  The log line of a successful exchange. \<^verbatim>\<open>runMasterExchange\<close> prints it into 512 bytes, but \<^verbatim>\<open>emitLog\<close> has 256
  for the whole JSON document and drops a document that does not fit. The lemmas bound the length of the document from below:
  ten seconds after power-on no distance of a metre or more is ever logged.
\<close>

section \<open>Shortest texts\<close>

lemma digits_long: "10 ^ k \<le> n \<Longrightarrow> k < length (digits n)"
proof (induction n arbitrary: k rule: digits.induct)
  case (1 n)
  show ?case
  proof (cases k)
    case 0
    then show ?thesis by (simp add: digits.simps [of n])
  next
    case (Suc j)
    have b: "(1 :: nat) \<le> 10 ^ j" "10 * 10 ^ j \<le> n" using 1(2) Suc by simp_all
    then have "10 ^ j \<le> n div 10" by (simp add: less_eq_div_iff_mult_less_eq mult.commute)
    moreover have "\<not> n < 10" using b by linarith
    ultimately have "\<not> n < 10" "10 ^ j \<le> n div 10" by blast+
    then show ?thesis using 1(1) [of j] Suc by (simp add: digits.simps [of n])
  qed
qed

lemma digits_any: "1 \<le> length (digits n)"
  using digits_long [of 0 n] by (cases "n = 0") (simp_all add: digits.simps [of 0] Suc_le_eq)

lemma number_long: "1 \<le> length (fmt_u n)" "1 \<le> length (fmt_d z)" "length (fmt_x k n) = k + 2"
  using digits_any by (simp_all add: fmt_u_def fmt_d_def fmt_x_def)

lemma decimal_long: "fp_isfinite x \<Longrightarrow> k + 2 \<le> length (fmt_f k x)"
proof (cases x)
  case (Fin r)
  have "1 \<le> length (digits (nat (rne (\<bar>r\<bar> * 10 ^ k)) div 10 ^ k))" by (rule digits_any)
  moreover have "k \<le> length (pad_zeros k (digits (nat (rne (\<bar>r\<bar> * 10 ^ k)) mod 10 ^ k)))" by (simp add: pad_zeros_def)
  ultimately show ?thesis unfolding Fin fmt_f.simps Let_def length_append by (simp del: abs_mult)
qed simp_all

lemma escaped_long:
  "length s + length (filter (\<lambda>c. c = CHR 0x22) s) \<le> length (concat (map json_escape s))"
proof (induction s)
  case (Cons c s)
  have "1 + (if c = CHR 0x22 then 1 else 0) \<le> length (json_escape c)"
    by (simp add: json_escape_def fmt_u04x_def)
  then show ?case using Cons by auto
qed simp

lemma flag_kept: "length buffer \<le> length (append_flag cap flag buffer)"
  by (simp add: append_flag_def strncat_def)

lemma flags_long: "irq AND IRQ_MASTER_RESULT_VALID \<noteq> 0 \<Longrightarrow> 19 \<le> length (irq_flags_to_string irq 96)"
proof -
  assume v: "irq AND IRQ_MASTER_RESULT_VALID \<noteq> 0"
  define flag where "flag mask name buffer = (if irq AND mask \<noteq> 0 then append_flag 96 name buffer else buffer)" for mask name buffer
  have k: "n \<le> length (flag mask name buffer)" if "n \<le> length buffer" for n mask name buffer
    using flag_kept [of buffer 96 name] that by (simp add: flag_def)
  define before where "before = flag IRQ_MASTER_TIMEOUT ''master_timeout'' (flag IRQ_SLAVE_REQUEST_VALID ''slave_req_valid'' [])"
  have "length before \<le> 30"
    by (simp add: before_def flag_def append_flag_def strncat_def)
  then have "19 \<le> length (flag IRQ_MASTER_RESULT_VALID ''master_result_valid'' before)"
    using v by (simp add: flag_def append_flag_def strncat_def)
  moreover have "irq_flags_to_string irq 96 = flag IRQ_RX_TX_TIMEOUT ''rx_tx_timeout'' (flag IRQ_SLAVE_RESPONSE_DONE ''slave_response_done''
      (flag IRQ_SLAVE_REQUEST_DISCARD ''slave_req_discard'' (flag IRQ_MASTER_RESULT_VALID ''master_result_valid'' before)))"
    by (simp add: irq_flags_to_string_def irq_flag_names_def flag_def before_def)
  ultimately show ?thesis by (simp only: k)
qed

section \<open>The document\<close>

lemma success_text_long:
  assumes "1000 \<le> unat range_mm" "fp_isfinite corrected_m" "fp_isfinite raw_m" "fp_isfinite (ps_snr_db st)"
    "irq AND IRQ_MASTER_RESULT_VALID \<noteq> 0" "9 \<le> length correction"
  shows "194 \<le> length (concat (map json_escape
    (bee_success_text master_id peer_id request_id range_mm corrected_m correction raw_m raw_result st elapsed_ms irq)))"
proof -
  define parts where "parts = [''range_result ok=true from='', pu master_id, '' to='', pu peer_id, '' request_id='', pu request_id,
      '' range_mm='', pu range_mm, '' corrected_m='', fmt_f 2 corrected_m, '' correction='', correction,
      '' raw_m='', fmt_f 2 raw_m, '' raw_reg='', pd raw_result, '' rssi_dbm='', pd (ps_rssi_dbm st),
      '' snr_db='', fmt_f 1 (ps_snr_db st), '' elapsed_ms='', pu elapsed_ms, '' irq='', fmt_x 4 (unat irq),
      '' flags=\"'', irq_flags_to_string irq 96, ''\"'']"
  note lengths = number_long(1) [of "unat master_id"] number_long(1) [of "unat peer_id"] number_long(1) [of "unat request_id"]
    digits_long [of 3 "unat range_mm"] decimal_long [OF assms(2), of 2] decimal_long [OF assms(3), of 2]
    number_long(2) [of "sint raw_result"] number_long(2) [of "sint (ps_rssi_dbm st)"] decimal_long [OF assms(4), of 1]
    number_long(1) [of "unat elapsed_ms"] flags_long [OF assms(5)]
  have "4 \<le> length (pu range_mm)" using lengths(4) assms(1) by (simp add: fmt_u_def)
  then have long: "192 \<le> length (concat parts)" using lengths assms(6) by (simp add: parts_def number_long(3))
  have quotes: "2 \<le> length (filter (\<lambda>c. c = CHR 0x22) (concat parts))" by (simp add: parts_def)
  have "194 \<le> length (take 511 (concat parts)) + length (filter (\<lambda>c. c = CHR 0x22) (take 511 (concat parts)))"
  proof (cases "length (concat parts) \<le> 511")
    case True
    then show ?thesis using long quotes by simp
  qed simp
  then show ?thesis
    using escaped_long [of "take 511 (concat parts)"] unfolding bee_success_text_def snprintf_def parts_def [symmetric]
    by simp
qed

text \<open>A board that has run for ten seconds never prints the record of a distance of a metre or more.\<close>

lemma success_log_dropped:
  assumes "10000 \<le> unat now" "1000 \<le> unat range_mm" "fp_isfinite corrected_m" "fp_isfinite raw_m" "fp_isfinite (ps_snr_db st)"
    "irq AND IRQ_MASTER_RESULT_VALID \<noteq> 0" "9 \<le> length correction"
  shows "bee_emit_log B now ''OK'' ''RANGE'' (bee_success_text master_id peer_id request_id range_mm corrected_m correction raw_m
    raw_result st elapsed_ms irq) s = Some s"
proof -
  define message where "message = bee_success_text master_id peer_id request_id range_mm corrected_m correction raw_m
    raw_result st elapsed_ms irq"
  have m: "194 \<le> length (concat (map json_escape message))"
    unfolding message_def by (rule success_text_long [OF assms(2-7)])
  have "5 \<le> length (pu now)" using digits_long [of 4 "unat now"] assms(1) by (simp add: fmt_u_def)
  then have "256 \<le> length (json_text (log_record_json now (Some ''OK'') (Some ''RANGE'') (Some message)))"
    using m by (simp add: log_record_json_def text_simps) (simp add: json_string_def)
  moreover obtain b where "nav_serial_write_log_record (bee_junk_line B kLogBufMax) kLogBufMax now (Some ''OK'') (Some ''RANGE'')
      (Some message) = Some (b, int (length (json_text (log_record_json now (Some ''OK'') (Some ''RANGE'') (Some message)))))"
    using log_w.frame [of kLogBufMax "bee_junk_line B kLogBufMax" now "Some ''OK''" "Some ''RANGE''" "Some message"]
    by (auto simp: bee_junk_line_def)
  ultimately show ?thesis unfolding message_def [symmetric] by (simp add: bee_emit_log_def bee_print_record_def)
qed

end
