(* ===== verification/Bee_Pins.thy ===== *)
theory Bee_Pins
  imports Bee_Loop
begin

text \<open>
  The wires of the SpeedyBee board: a board that records every pin write and every byte on the SPI bus, and
  an automaton that reads such a recording. The whole firmware drives the chip select and the two lines of
  the radio front end as the hardware needs it.
\<close>

section \<open>A board that records\<close>

datatype bus_event = Pin int bool | Transfer u8

definition lift_do :: "('w \<Rightarrow> 'w) \<Rightarrow> 'w \<times> bus_event list \<Rightarrow> 'w \<times> bus_event list" where
  "lift_do f x = (f (fst x), snd x)"

definition lift_call :: "('w \<Rightarrow> 'a \<times> 'w) \<Rightarrow> 'w \<times> bus_event list \<Rightarrow> 'a \<times> 'w \<times> bus_event list" where
  "lift_call f x = (case f (fst x) of (a, w) \<Rightarrow> (a, w, snd x))"

definition recorded :: "'w arduino \<Rightarrow> ('w \<times> bus_event list) arduino" where
  "recorded A = \<lparr>ar_millis = lift_call (ar_millis A), ar_micros = lift_call (ar_micros A),
     ar_delay = (\<lambda>n. lift_do (ar_delay A n)), ar_delay_us = (\<lambda>n. lift_do (ar_delay_us A n)),
     ar_pin_mode = (\<lambda>pin m. lift_do (ar_pin_mode A pin m)),
     ar_digital_write = (\<lambda>pin v (w, events). (ar_digital_write A pin v w, events @ [Pin pin v])),
     ar_digital_read = (\<lambda>pin. lift_call (ar_digital_read A pin)),
     ar_spi_begin = lift_do (ar_spi_begin A), ar_spi_begin_transaction = lift_do (ar_spi_begin_transaction A),
     ar_spi_end_transaction = lift_do (ar_spi_end_transaction A),
     ar_spi_transfer = (\<lambda>b (w, events). case ar_spi_transfer A b w of (r, w) \<Rightarrow> (r, w, events @ [Transfer b]))\<rparr>"

definition recorded_board :: "'w bee_board \<Rightarrow> ('w \<times> bus_event list) bee_board" where
  "recorded_board B = \<lparr>bb_arduino = recorded (bb_arduino B), bb_serial_begin = lift_do (bb_serial_begin B),
     bb_serial_available = lift_call (bb_serial_available B), bb_serial_read = lift_call (bb_serial_read B),
     bb_eeprom_begin = lift_do (bb_eeprom_begin B), bb_eeprom_get = lift_call (bb_eeprom_get B),
     bb_eeprom_put = (\<lambda>c. lift_do (bb_eeprom_put B c)), bb_eeprom_commit = lift_call (bb_eeprom_commit B),
     bb_expf = bb_expf B, bb_libm = bb_libm B, bb_mock_available = bb_mock_available B,
     bb_payload_junk = bb_payload_junk B, bb_frame_junk = bb_frame_junk B, bb_line_junk = bb_line_junk B\<rparr>"

section \<open>The automaton\<close>

text \<open>Chip selected, receive line high, transmit line high. A byte needs the chip selected and the two lines
  not both high; the chip is selected only when it is not.\<close>

type_synonym wires = "bool \<times> bool \<times> bool"

fun wire_step :: "wires \<Rightarrow> bus_event \<Rightarrow> wires option" where
  "wire_step (sel, rx, tx) (Pin pin v) =
     (if pin = sx_nss bee_radio then (if sel \<and> \<not> v then None else Some (\<not> v, rx, tx))
      else if pin = PIN_PA_RXEN then Some (sel, v, tx)
      else if pin = PIN_PA_TXEN then Some (sel, rx, v)
      else Some (sel, rx, tx))"
| "wire_step (sel, rx, tx) (Transfer b) =
     (if sel \<and> \<not> (rx \<and> tx) then Some (sel, rx, tx) else None)"

fun wires_after :: "wires \<Rightarrow> bus_event list \<Rightarrow> wires option" where
  "wires_after st [] = Some st"
| "wires_after st (e # es) = Option.bind (wire_step st e) (\<lambda>st. wires_after st es)"

lemma wires_append: "wires_after st (es @ fs) = Option.bind (wires_after st es) (\<lambda>st. wires_after st fs)"
  by (induction es arbitrary: st) (auto split: bind_splits)

fun front_end_lines :: "pa_mode \<Rightarrow> bool \<times> bool" where
  "front_end_lines PA_OFF = (False, False)"
| "front_end_lines PA_RX = (True, False)"
| "front_end_lines PA_TX = (False, True)"

definition wired :: "bool \<Rightarrow> pa_mode \<Rightarrow> 'w \<times> bus_event list \<Rightarrow> bool" where
  "wired sel m x \<longleftrightarrow> wires_after (False, False, False) (snd x) = Some (sel, front_end_lines m)"

lemma wired_lift [simp]:
  "wired b m (lift_do f x) = wired b m x" "wired b m (snd (lift_call g x)) = wired b m x"
  by (simp_all add: wired_def lift_do_def lift_call_def case_prod_beta)

lemma recorded_calls [simp]:
  "ar_millis (recorded A) = lift_call (ar_millis A)" "ar_micros (recorded A) = lift_call (ar_micros A)"
  "ar_delay (recorded A) n = lift_do (ar_delay A n)" "ar_delay_us (recorded A) n = lift_do (ar_delay_us A n)"
  "ar_pin_mode (recorded A) pin d = lift_do (ar_pin_mode A pin d)"
  "ar_digital_read (recorded A) pin = lift_call (ar_digital_read A pin)"
  "ar_spi_begin (recorded A) = lift_do (ar_spi_begin A)"
  "ar_spi_begin_transaction (recorded A) = lift_do (ar_spi_begin_transaction A)"
  "ar_spi_end_transaction (recorded A) = lift_do (ar_spi_end_transaction A)"
  by (simp_all add: recorded_def)

lemma wired_write:
  "wired sel m x \<Longrightarrow> wire_step (sel, front_end_lines m) (Pin pin v) = Some (sel', front_end_lines m') \<Longrightarrow>
   wired sel' m' (ar_digital_write (recorded A) pin v x)"
  by (cases x) (simp add: wired_def recorded_def wires_append)

lemma wired_transfer:
  assumes "wired True m x"
  shows "wired True m (snd (ar_spi_transfer (recorded A) b x))"
  using assms by (cases m) (auto simp: wired_def recorded_def wires_append split: prod.split)

lemma chip_wires: "chip_world (recorded A) bee_radio (wired False m) (wired True m)"
proof
  show "wired False m (ar_digital_write (recorded A) (sx_rst bee_radio) v w)" if "wired False m w" for v w
    by (rule wired_write [OF that]) (cases m; simp add: bee_radio_def)
  show "wired False m (ar_digital_write (recorded A) (sx_nss bee_radio) True w)" if "wired False m w" for w
    by (rule wired_write [OF that]) (cases m; simp)
  show "wired True m (ar_digital_write (recorded A) (sx_nss bee_radio) False (ar_spi_begin_transaction (recorded A) w))"
    if "wired False m w" for w
    by (rule wired_write [where sel = False and m = m]) (use that in \<open>cases m; simp\<close>)+
  show "wired False m (ar_spi_end_transaction (recorded A) (ar_digital_write (recorded A) (sx_nss bee_radio) True w))"
    if "wired True m w" for w
    using wired_write [OF that, of "sx_nss bee_radio" True False m] by (cases m) simp_all
qed (simp_all add: wired_transfer)

interpretation wire_chip: chip_world "recorded A" bee_radio "wired False m" "wired True m" for A :: "'w arduino" and m
  by (rule chip_wires)

text \<open>The two lines of a mode are written one after the other.\<close>

lemma wired_front_end:
  assumes "wired False m x" "front_end_lines m' = (rx, tx)"
  shows "wired False m' (ar_digital_write (recorded A) PIN_PA_TXEN tx (ar_digital_write (recorded A) PIN_PA_RXEN rx x))"
  using assms by (cases x; cases "front_end_lines m") (simp add: wired_def recorded_def wires_append bee_radio_def)

lemma wired_led: "wired False m x \<Longrightarrow> wired False m (ar_digital_write (recorded A) PIN_LED v x)"
  using wired_write [of False m x PIN_LED v False m] by (cases m) (simp_all add: bee_radio_def)

interpretation wires: bee_world "recorded_board B" "wired False" "wired True" for B :: "'w bee_board"
proof (rule bee_world.intro)
  show "chip_world (bb_arduino (recorded_board B)) bee_radio (wired False m) (wired True m)" for m
    by (simp add: recorded_board_def chip_wires)
  show "wired False PA_OFF (ar_digital_write (bb_arduino (recorded_board B)) PIN_PA_TXEN False
      (ar_digital_write (bb_arduino (recorded_board B)) PIN_PA_RXEN False w))"
    "wired False PA_RX (ar_digital_write (bb_arduino (recorded_board B)) PIN_PA_TXEN False
      (ar_digital_write (bb_arduino (recorded_board B)) PIN_PA_RXEN True w))"
    "wired False PA_TX (ar_digital_write (bb_arduino (recorded_board B)) PIN_PA_TXEN True
      (ar_digital_write (bb_arduino (recorded_board B)) PIN_PA_RXEN False w))" if "wired False m w" for m w
    using wired_front_end [OF that] by (simp_all add: recorded_board_def)
qed (simp_all add: recorded_board_def wired_led)

section \<open>The wires of the firmware\<close>

text \<open>C39: The firmware drives the SpeedyBee's wires safely, whatever its EEPROM held (only its type is assumed): over the whole run since power-on, every byte on the SPI
  bus was sent with the chip selected and with the receive and transmit lines of the radio front end not both
  high, no transaction was opened inside another, and between two turns of the loop the chip is released and
  both lines are low.\<close>

theorem bee_wires_safe:
  assumes "bee_reachable (recorded_board B) (w, []) s" and "eeprom_typed B"
  shows "wires_after (False, False, False) (snd (be_world s)) = Some (False, False, False)"
proof -
  have "eeprom_typed (recorded_board B)"
    using assms(2) by (simp add: eeprom_typed_def recorded_board_def lift_call_def case_prod_beta)
  moreover have "wired False PA_OFF (w, [])" by (simp add: wired_def)
  ultimately have "wires.holds B PA_OFF s" using wires.reachable_holds [OF assms(1)] by blast
  then show ?thesis by (simp add: wires.holds_def wired_def)
qed

text \<open>Switching from transmission to reception raises one line before it lowers the other: for one pin write
  both are high. Every other switch breaks before it makes.\<close>

lemma both_lines_high:
  "wires_after (False, True, False) [Pin PIN_PA_RXEN False, Pin PIN_PA_TXEN True] = Some (False, False, True)"
  "wires_after (False, False, True) [Pin PIN_PA_RXEN True] = Some (False, True, True)"
  by (simp_all add: bee_radio_def)

end
