(* ===== verification/Bee_Distance.thy ===== *)
theory Bee_Distance
  imports Bee_Radio Fp_Eval Control_Serial
begin

text \<open>
  The distance that a SpeedyBee node reports: from the three bytes of the chip's result register through the
  single-precision correction to millimetres.
\<close>

unbundle bit_operations_syntax

section \<open>The result register\<close>

definition register_value :: "u8 \<Rightarrow> u8 \<Rightarrow> u8 \<Rightarrow> int" where
  "register_value high mid low = uint high * 65536 + uint mid * 256 + uint low"

definition twos_complement_24 :: "int \<Rightarrow> int" where
  "twos_complement_24 v = (if v < 2 ^ 23 then v else v - 2 ^ 24)"

lemma byte_bounds: "0 \<le> uint (b :: u8)" "uint (b :: u8) < 256"
  using unsigned_less [of b, where ?'a = int] by simp_all

lemma register_bounds: "0 \<le> register_value h m l" "register_value h m l < 2 ^ 24"
  using byte_bounds [of h] byte_bounds [of m] byte_bounds [of l] by (simp_all add: register_value_def)

lemma register_word:
  "(push_bit 16 (ucast (h :: u8)) OR push_bit 8 (ucast (m :: u8)) OR ucast (l :: u8) :: u32) = word_of_int (register_value h m l)"
proof -
  have "(push_bit 16 (ucast h) OR (push_bit 8 (ucast m) OR ucast l) :: u32) = push_bit 16 (ucast h) + (push_bit 8 (ucast m) + ucast l)"
    by (subst (1 2) disjunctive_add) (auto simp: bit_simps dest: bit_imp_le_length)
  also have "\<dots> = word_of_int (uint h) * 65536 + (word_of_int (uint m) * 256 + word_of_int (uint l))"
    by (simp add: push_bit_eq_mult unsigned_ucast_eq)
  finally show ?thesis by (simp add: register_value_def or.assoc)
qed

lemma sign_bit:
  assumes "0 \<le> v" "v < 2 ^ 24"
  shows "(word_of_int v :: u32) AND 0x00800000 \<noteq> 0 \<longleftrightarrow> 2 ^ 23 \<le> v"
proof -
  have "(word_of_int v :: u32) AND 2 ^ 23 = 0 \<longleftrightarrow> \<not> bit (word_of_int v :: u32) 23"
    by (rule and_exp_eq_0_iff_not_bit)
  also have "bit (word_of_int v :: u32) 23 \<longleftrightarrow> bit v 23" by (simp add: bit_simps)
  also have "\<dots> \<longleftrightarrow> odd (v div 2 ^ 23)" by (rule bit_iff_odd)
  also have "odd (v div 2 ^ 23) \<longleftrightarrow> 2 ^ 23 \<le> v"
  proof (cases "2 ^ 23 \<le> v")
    case True
    then have "v div 2 ^ 23 = 1" using assms(2) by (simp add: div_pos_geq)
    then show ?thesis using True by simp
  qed (use assms in simp)
  finally show ?thesis by simp
qed

lemma ranging_result_value: "sint (ranging_result h m l) = twos_complement_24 (register_value h m l)"
proof -
  define v where "v = register_value h m l"
  have b: "0 \<le> v" "v < 2 ^ 24" using register_bounds by (simp_all add: v_def)
  have w: "(push_bit 16 (ucast h) OR push_bit 8 (ucast m) OR ucast l :: u32) = word_of_int v"
    unfolding v_def by (rule register_word)
  show ?thesis
  proof (cases "2 ^ 23 \<le> v")
    case True
    have "(word_of_int v OR 0xFF000000 :: u32) = word_of_int v + 0xFF000000"
    proof (rule disjunctive_add [symmetric])
      fix n
      have "\<not> bit v n" if "24 \<le> n"
      proof -
        have "(2 :: int) ^ 24 \<le> 2 ^ n" using that by (rule power_increasing) simp
        then show ?thesis using b by (simp add: bit_iff_odd)
      qed
      moreover have "\<not> bit (0xFF000000 :: u32) n" if "n < 24"
      proof -
        have "(0xFF000000 :: u32) = push_bit 24 255" by simp
        then show ?thesis using that by (simp only: bit_push_bit_iff) simp
      qed
      ultimately show "\<not> bit (word_of_int v :: u32) n \<or> \<not> bit (0xFF000000 :: u32) n"
        by (cases "24 \<le> n") (simp_all add: bit_simps)
    qed
    then have "ranging_result h m l = word_of_int (v - 2 ^ 24)"
      using True sign_bit [OF b] by (simp add: ranging_result_def w)
    moreover have "sint (word_of_int (v - 2 ^ 24) :: u32) = v - 2 ^ 24"
      unfolding sint_sbintrunc' by (rule signed_take_bit_int_eq_self) (use b True in simp_all)
    ultimately show ?thesis using True by (simp add: twos_complement_24_def v_def)
  next
    case False
    then have "ranging_result h m l = word_of_int v" using sign_bit [OF b] by (simp add: ranging_result_def w)
    moreover have "sint (word_of_int v :: u32) = v"
      using b False by (simp add: sint_sbintrunc' signed_take_bit_int_eq_self)
    ultimately show ?thesis using False by (simp add: twos_complement_24_def v_def)
  qed
qed

section \<open>The distance\<close>

lemma rnd32_near:
  assumes "\<bar>x\<bar> < 2 ^ k" "k \<le> 100"
  shows "\<exists>s. fp_rnd binary32 x = Fin s \<and> \<bar>s - x\<bar> \<le> 2 ^ k / 2 ^ 25"
proof (cases "0 \<le> x")
  case True
  then show ?thesis using rnd32_error [of x k] assms by auto
next
  case False
  then obtain s where s: "fp_rnd binary32 (- x) = Fin s" "\<bar>s - - x\<bar> \<le> 2 ^ k / 2 ^ 25"
    using rnd32_error [of "- x" k] assms by auto
  have "fp_rnd binary32 x = Fin (- s)" using grid_neg [of binary32 "- x"] s(1) by simp
  moreover have "\<bar>- s - x\<bar> \<le> 2 ^ k / 2 ^ 25" using s(2) by linarith
  ultimately show ?thesis by blast
qed

lemma trunc_floor: "0 \<le> z \<Longrightarrow> rat_trunc z = \<lfloor>z\<rfloor>"
  by (simp add: rat_trunc_def)

text \<open>\<^verbatim>\<open>metersToMillimeters\<close> is exact to a millimetre below four kilometres.\<close>

lemma millimeters_near:
  assumes "1 \<le> x" "x \<le> 4000"
  shows "\<exists>mm. meters_to_millimeters (Fin x) = Some mm \<and> \<bar>of_nat (unat mm) - x * 1000\<bar> \<le> 3 / 4"
proof -
  obtain s where s: "fp_rnd binary32 (x * 1000) = Fin s" "\<bar>s - x * 1000\<bar> \<le> 1 / 8"
    using rnd32_near [of "x * 1000" 22] assms by auto
  then have b: "900 \<le> s" "s \<le> 4000001" using assms by linarith+
  then have "\<bar>s + 1 / 2\<bar> < 2 ^ 22" by (simp add: abs_less_iff)
  then obtain z where z: "fp_rnd binary32 (s + 1 / 2) = Fin z" "\<bar>z - (s + 1 / 2)\<bar> \<le> 1 / 8"
    using rnd32_near [of "s + 1 / 2" 22] by auto
  define k where "k = \<lfloor>z\<rfloor>"
  have k: "of_int k \<le> z" "z < of_int k + 1" using floor_correct [of z] by (simp_all add: k_def)
  have z0: "0 \<le> z" "z < 4294967295" using z(2) b by linarith+
  then have "0 \<le> k" "k < 4294967295" using k by (simp add: k_def, linarith)
  then have "meters_to_millimeters (Fin x) = Some (word_of_int k)" "of_nat (unat (word_of_int k :: u32)) = (of_int k :: rat)"
    using assms s(1) z(1) z0(1) by (simp_all add: meters_to_millimeters_def trunc_floor k_def unat_eq_nat_uint uint_word_of_int_eq take_bit_int_eq_self)
  moreover have "\<bar>of_int k - x * 1000\<bar> \<le> 3 / 4" using k s(2) z(2) by linarith
  ultimately show ?thesis by metis
qed


text \<open>The correction is the exponential or the value itself, so no raw result leaves the conversions undefined.\<close>

lemma measured_total: "\<exists>raw_m corrected_m correction valid mm. bee_measured_range B v = Some (raw_m, corrected_m, correction, valid, mm)"
proof -
  obtain c n where c: "correct_range B (fp_add binary32 (raw_ranging_meters v) (fp_rnd binary32 (62 / 10))) = (c, n)" by fastforce
  obtain mm where "meters_to_millimeters c = Some mm" using millimeters_total by blast
  then show ?thesis using c by (auto simp: bee_measured_range_def Let_def)
qed

text \<open>One rounded operation per step: the product is exact, the quotient, the bias and their sum are not.\<close>

lemma small_int_exact: "\<bar>n\<bar> < 2 ^ 24 \<Longrightarrow> fp_rnd binary32 (of_int n) = Fin (of_int n)"
  by (rule fp_rnd_of_int) (simp_all flip: of_int_abs)

lemma small_register: "\<bar>n\<bar> \<le> 100000 \<Longrightarrow> \<bar>of_int n\<bar> \<le> (100000 :: rat)"
  by (metis of_int_abs of_int_le_iff of_int_numeral)

lemma raw_meters_near:
  assumes "sint v = n" "\<bar>n\<bar> \<le> 100000"
  shows "\<exists>r. raw_ranging_meters v = Fin r \<and> \<bar>r - of_int n * 150 / 6656\<bar> \<le> 1 / 8192"
proof -
  have n: "fp_of_int binary32 (sint v) = Fin (of_int n)" using assms small_int_exact [of n] by (simp add: fp_of_int_def)
  have m: "fp_mul binary32 (Fin (of_int n)) (Fin 150) = Fin (of_int n * 150)"
    using small_int_exact [of "n * 150"] assms by simp
  have d: "fp_mul binary32 (Fin 4096) (Fin (13 / 8)) = Fin 6656" using small_int_exact [of 6656] by simp
  have "\<bar>of_int n * 150 / 6656 :: rat\<bar> < 2 ^ 12" using small_register [OF assms(2)] by (simp add: abs_less_iff abs_le_iff)
  then obtain s where "fp_rnd binary32 (of_int n * 150 / 6656) = Fin s" "\<bar>s - of_int n * 150 / 6656\<bar> \<le> 2 ^ 12 / 2 ^ 25"
    using rnd32_near [of "of_int n * 150 / 6656" 12] by auto
  then show ?thesis unfolding raw_ranging_meters_def n m d by simp
qed

text \<open>The distance that the formula means, before the short-range correction.\<close>

definition exact_distance :: "int \<Rightarrow> rat" where
  "exact_distance n = of_int n * 150 / 6656 + 62 / 10"

lemma exact_bounds: "\<bar>n\<bar> \<le> 100000 \<Longrightarrow> - 2300 \<le> exact_distance n \<and> exact_distance n \<le> 2300"
  using small_register [of n] by (simp add: exact_distance_def abs_le_iff)

lemma biased_near:
  assumes "sint v = n" "\<bar>n\<bar> \<le> 100000"
  shows "\<exists>r. fp_add binary32 (raw_ranging_meters v) (fp_rnd binary32 (62 / 10)) = Fin r
    \<and> \<bar>r - exact_distance n\<bar> \<le> 1 / 2048"
proof -
  obtain r where r: "raw_ranging_meters v = Fin r" "\<bar>r - of_int n * 150 / 6656\<bar> \<le> 1 / 8192"
    using raw_meters_near [OF assms] by blast
  obtain c where c: "fp_rnd binary32 (62 / 10) = Fin c" "\<bar>c - 62 / 10\<bar> \<le> 1 / 8192"
    using rnd32_near [of "62 / 10" 3] by auto
  have near: "\<bar>r + c - exact_distance n\<bar> \<le> 1 / 4096" using r(2) c(2) unfolding exact_distance_def by linarith
  then have "r + c < 4096" "- 4096 < r + c" using exact_bounds [OF assms(2)] by linarith+
  then have "\<bar>r + c\<bar> < 2 ^ 12" by (simp add: abs_less_iff)
  then obtain s where s: "fp_rnd binary32 (r + c) = Fin s" "\<bar>s - (r + c)\<bar> \<le> 1 / 8192"
    using rnd32_near [of "r + c" 12] by auto
  have "\<bar>s - exact_distance n\<bar> \<le> 1 / 2048" using near s(2) by linarith
  then show ?thesis using s(1) r(1) c(1) by simp
qed

text \<open>The argument of the exponential.\<close>

lemma exponent_near:
  assumes "\<bar>r - x\<bar> \<le> 1 / 2048" "- 2300 \<le> x" "x \<le> 2300"
  shows "\<exists>y. fp_div binary32 (fp_add binary32 (Fin r) (fp_rnd binary32 (24917 / 10000))) (fp_rnd binary32 (72262 / 10000)) = Fin y
    \<and> \<bar>y - (x + 24917 / 10000) / (72262 / 10000)\<bar> \<le> 1 / 1000"
proof -
  obtain c where c: "fp_rnd binary32 (24917 / 10000) = Fin c" "\<bar>c - 24917 / 10000\<bar> \<le> 1 / 8192"
    using rnd32_near [of "24917 / 10000" 2] by auto
  obtain d where d: "fp_rnd binary32 (72262 / 10000) = Fin d" "\<bar>d - 72262 / 10000\<bar> \<le> 1 / 4194304"
    using rnd32_near [of "72262 / 10000" 3] by auto
  have "r + c < 4096" "- 4096 < r + c" using assms c(2) by linarith+
  then have "\<bar>r + c\<bar> < 2 ^ 12" by (simp add: abs_less_iff)
  then obtain s where s: "fp_rnd binary32 (r + c) = Fin s" "\<bar>s - (r + c)\<bar> \<le> 1 / 8192"
    using rnd32_near [of "r + c" 12] by auto
  define z where "z = (x + 24917 / 10000) / (72262 / 10000 :: rat)"
  have z: "\<bar>z\<bar> \<le> 330" using assms(2,3) by (simp add: z_def abs_le_iff)
  have d7: "7 \<le> d" using d(2) by linarith
  have "s - z * d = (s - (x + 24917 / 10000)) + z * (72262 / 10000 - d)" by (simp add: z_def field_simps)
  moreover have "\<bar>s - (x + 24917 / 10000)\<bar> \<le> 1 / 1024" using assms(1) c(2) s(2) by linarith
  moreover have "\<bar>z * (72262 / 10000 - d)\<bar> \<le> 330 * (1 / 4194304)"
    unfolding abs_mult by (rule mult_mono) (use z d(2) in \<open>simp_all add: abs_minus_commute\<close>)
  ultimately have e: "\<bar>s - z * d\<bar> \<le> 1 / 512" by linarith
  have "\<bar>s / d - z\<bar> = \<bar>s - z * d\<bar> / d" using d7 by (simp add: abs_if field_simps)
  also have "\<dots> \<le> (1 / 512) / 7" by (rule frac_le) (use e d7 in simp_all)
  finally have q: "\<bar>s / d - z\<bar> \<le> 1 / 3584" by simp
  then have "s / d < 512" "- 512 < s / d" using z by linarith+
  then have "\<bar>s / d\<bar> < 2 ^ 9" by (simp only: abs_less_iff) simp
  then obtain y where y: "fp_rnd binary32 (s / d) = Fin y" "\<bar>y - s / d\<bar> \<le> 1 / 65536"
    using rnd32_near [of "s / d" 9] by auto
  have "\<bar>y - z\<bar> \<le> 1 / 1000" using q y(2) by linarith
  moreover have "fp_div binary32 (fp_add binary32 (Fin r) (Fin c)) (Fin d) = Fin y" using s(1) y(1) d7 by simp
  ultimately show ?thesis unfolding c(1) d(1) z_def by blast
qed

text \<open>C40: Whatever three bytes the chip's result register holds, the conversion to a
  distance is defined: no conversion from \<^verbatim>\<open>float\<close> leaves the range of its integer type. When the register's two's
  complement value lies between -100000 and 100000, the raw distance is within 1/8192 m of the exact one; beyond the
  short-range limit of 18.5 m the exponential is not consulted and the millimetres reported are within 1.25 of the
  exact biased distance; below it the correction is the exponential of an argument within 0.001 of the exact one.
  All the roundings of the single-precision arithmetic are counted.
\<close>

theorem bee_distance:
  "\<exists>raw_m corrected_m correction valid mm. bee_measured_range B (ranging_result h m l) = Some (raw_m, corrected_m, correction, valid, mm) \<and>
     (\<bar>twos_complement_24 (register_value h m l)\<bar> \<le> 100000 \<longrightarrow>
       (\<exists>r. raw_m = Fin r \<and> \<bar>r - of_int (twos_complement_24 (register_value h m l)) * 150 / 6656\<bar> \<le> 1 / 8192) \<and>
       (18501 / 1000 \<le> exact_distance (twos_complement_24 (register_value h m l)) \<longrightarrow> correction = ''linear_bias'' \<and> valid \<and>
         \<bar>of_nat (unat mm) - exact_distance (twos_complement_24 (register_value h m l)) * 1000\<bar> \<le> 5 / 4) \<and>
       (exact_distance (twos_complement_24 (register_value h m l)) \<le> 18499 / 1000 \<longrightarrow> correction = ''short_exp'' \<and>
         (\<exists>y. corrected_m = bb_expf B (Fin y) \<and>
           \<bar>y - (exact_distance (twos_complement_24 (register_value h m l)) + 24917 / 10000) / (72262 / 10000)\<bar> \<le> 1 / 1000)))"
proof -
  define v where "v = ranging_result h m l"
  define n where "n = twos_complement_24 (register_value h m l)"
  have vn: "sint v = n" by (simp add: v_def n_def ranging_result_value)
  obtain raw_m corrected_m correction valid mm where
    t: "bee_measured_range B v = Some (raw_m, corrected_m, correction, valid, mm)" using measured_total by blast
  have "(\<exists>r. raw_m = Fin r \<and> \<bar>r - of_int n * 150 / 6656\<bar> \<le> 1 / 8192) \<and>
      (18501 / 1000 \<le> exact_distance n \<longrightarrow> correction = ''linear_bias'' \<and> valid \<and>
        \<bar>of_nat (unat mm) - exact_distance n * 1000\<bar> \<le> 5 / 4) \<and>
      (exact_distance n \<le> 18499 / 1000 \<longrightarrow> correction = ''short_exp'' \<and>
        (\<exists>y. corrected_m = bb_expf B (Fin y) \<and> \<bar>y - (exact_distance n + 24917 / 10000) / (72262 / 10000)\<bar> \<le> 1 / 1000))"
    if n: "\<bar>n\<bar> \<le> 100000"
  proof (intro conjI impI)
    note x = exact_bounds [OF n]
    have near: "\<bar>k - e * 1000\<bar> \<le> 5 / 4" if "\<bar>k - r * 1000\<bar> \<le> 3 / 4" "\<bar>r - e\<bar> \<le> 1 / 2048" for k e r :: rat
      using that by linarith
    obtain r where r: "fp_add binary32 (raw_ranging_meters v) (fp_rnd binary32 (62 / 10)) = Fin r" "\<bar>r - exact_distance n\<bar> \<le> 1 / 2048"
      using biased_near [OF vn n] by blast
    have m: "raw_m = raw_ranging_meters v" "(corrected_m, correction) = correct_range B (Fin r)"
      using t unfolding bee_measured_range_def Let_def r(1) by (auto split: prod.splits option.splits if_splits bind_splits)
    show "\<exists>r. raw_m = Fin r \<and> \<bar>r - of_int n * 150 / 6656\<bar> \<le> 1 / 8192" using raw_meters_near [OF vn n] m(1) by simp
    {
      assume "18501 / 1000 \<le> exact_distance n"
      then have b: "37 / 2 < r" "1 \<le> r" "r \<le> 4000" using r(2) x by linarith+
      then obtain k where k: "meters_to_millimeters (Fin r) = Some k" "\<bar>of_nat (unat k) - r * 1000\<bar> \<le> 3 / 4"
        using millimeters_near [of r] by auto
      have c: "correct_range B (Fin r) = (Fin r, ''linear_bias'')" using b by (simp add: correct_range_def)
      have "correction = ''linear_bias''" "valid" "mm = k"
        using t b k(1) unfolding bee_measured_range_def Let_def r(1) c by auto
      then show "correction = ''linear_bias''" "valid" "\<bar>of_nat (unat mm) - exact_distance n * 1000\<bar> \<le> 5 / 4"
        using near [OF k(2) r(2)] by simp_all
    next
      assume "exact_distance n \<le> 18499 / 1000"
      then have "r \<le> 37 / 2" using r(2) by linarith
      then have "correction = ''short_exp''" "corrected_m = bb_expf B (fp_div binary32 (fp_add binary32 (Fin r)
          (fp_rnd binary32 (24917 / 10000))) (fp_rnd binary32 (72262 / 10000)))"
        using m(2) by (simp_all add: correct_range_def)
      then show "correction = ''short_exp''"
        "\<exists>y. corrected_m = bb_expf B (Fin y) \<and> \<bar>y - (exact_distance n + 24917 / 10000) / (72262 / 10000)\<bar> \<le> 1 / 1000"
        using exponent_near [OF r(2)] x by auto
    }
  qed
  then show ?thesis using t unfolding n_def [symmetric] v_def [symmetric] by blast
qed

end
