(* ===== verification/Bee_Run.thy ===== *)
theory Bee_Run
  imports Bee_Pins Bee_Distance Nav_Trilateration_Run
begin

text \<open>
  Runs of the SpeedyBee firmware. On a board whose radio chip never answers, bring-up and a turn of the loop
  return: every wait for the chip ends, the node logs that the radio is missing and goes on serving its
  control channel. A concrete such board is the witness of the theorems about the firmware.
\<close>

section \<open>Calls that return\<close>

definition comes_back :: "('a \<Rightarrow> bool) \<Rightarrow> 'a option \<Rightarrow> bool" where
  "comes_back P m \<longleftrightarrow> (\<exists>x. m = Some x \<and> P x)"

lemma comes_back_Some [simp]: "comes_back P (Some x) = P x"
  by (simp add: comes_back_def)

lemma comes_back_bind:
  "comes_back P m \<Longrightarrow> (\<And>x. P x \<Longrightarrow> comes_back Q (f x)) \<Longrightarrow> comes_back Q (Option.bind m f)"
  by (auto simp: comes_back_def)

lemma comes_back_mono: "comes_back P m \<Longrightarrow> (\<And>x. P x \<Longrightarrow> Q x) \<Longrightarrow> comes_back Q m"
  by (auto simp: comes_back_def)

lemma comes_back_if: "(b \<Longrightarrow> comes_back P m) \<Longrightarrow> (\<not> b \<Longrightarrow> comes_back P n) \<Longrightarrow> comes_back P (if b then m else n)"
  by simp

abbreviation (input) answers :: "'a option \<Rightarrow> bool" where "answers m \<equiv> comes_back (\<lambda>_. True) m"

lemmas answers_bind = comes_back_bind [where P = "\<lambda>_. True"]

section \<open>A chip that does not answer\<close>

text \<open>Its BUSY line is low and its data line stays low.\<close>

definition dead_chip :: "'w arduino \<Rightarrow> bool" where
  "dead_chip A \<longleftrightarrow> (\<forall>pin b w. \<not> fst (ar_digital_read A pin w) \<and> fst (ar_spi_transfer A b w) = 0)"

lemma dead_wait: "dead_chip A \<Longrightarrow> answers (sx_wait_busy A D n w)"
  by (simp add: dead_chip_def sx_wait_busy_def case_prod_beta sx_poll_busy.simps)

lemma dead_transaction:
  "dead_chip A \<Longrightarrow> (\<And>w. P (fst (io w))) \<Longrightarrow> comes_back (\<lambda>r. P (fst r)) (sx_transaction A D io w)"
  by (auto simp: sx_transaction_def Let_def case_prod_beta intro!: answers_bind dead_wait)

lemma dead_commands:
  assumes "dead_chip A"
  shows "answers (sx_write_command A D opcode params w)" "answers (sx_write_registers A D addr params w)"
    "answers (sx_write_register A D addr v w)" "answers (sx_read_register A D addr w)"
    "comes_back (\<lambda>r. fst r = 0) (sx_get_status A D w)"
proof -
  have t: "answers (map_option f (sx_transaction A D io w))" for f and io :: "'a \<Rightarrow> unit \<times> 'a"
    using dead_transaction [OF assms, of "\<lambda>_. True" io] by (auto simp: comes_back_def)
  show "answers (sx_write_command A D opcode params w)" "answers (sx_write_registers A D addr params w)"
    "answers (sx_write_register A D addr v w)"
    by (simp_all only: sx_write_command_def sx_write_registers_def sx_write_register_def t)
  show "answers (sx_read_register A D addr w)"
    using dead_transaction [OF assms, of "\<lambda>_. True"] unfolding sx_read_register_def by simp
  show "comes_back (\<lambda>r. fst r = 0) (sx_get_status A D w)"
    unfolding sx_get_status_def by (rule dead_transaction [OF assms]) (use assms in \<open>simp add: dead_chip_def\<close>)
qed

lemma frequency_defined: "\<exists>f. frequency_word kRadioFrequencyHz = Some f"
  by (simp add: frequency_word_def dy_eval)

lemma dead_settings:
  assumes "dead_chip A"
  shows "answers (sx_set_standby A D mode w)" "answers (sx_set_packet_type A D t w)"
    "answers (sx_set_buffer_base_address A D a b w)" "answers (sx_set_modulation_params A D a b c w)"
    "answers (sx_set_packet_params_lora A D n w)" "answers (sx_set_tx_params A D v w)"
    "answers (sx_set_dio_irq_params A D i1 i2 i3 i4 w)" "answers (sx_clear_irq_status A D i w)"
    "answers (sx_set_frequency_hz A D kRadioFrequencyHz w)" "answers (sx_reset A D w)"
    "answers (sx_set_ranging_address A D role address w)" "answers (sx_set_ranging_calibration A D cal w)"
proof -
  note d = dead_commands [OF assms]
  show "answers (sx_reset A D w)"
    using dead_wait [OF assms] by (fastforce simp: sx_reset_def Let_def comes_back_def)
  show "answers (sx_set_ranging_address A D role address w)" "answers (sx_set_ranging_calibration A D cal w)"
    by (auto simp: sx_set_ranging_address_def sx_set_ranging_calibration_def Let_def intro!: answers_bind d)
  obtain f where "frequency_word kRadioFrequencyHz = Some f" using frequency_defined by blast
  then show "answers (sx_set_frequency_hz A D kRadioFrequencyHz w)" by (simp add: sx_set_frequency_hz_def d)
qed (simp_all add: sx_set_standby_def sx_set_packet_type_def sx_set_buffer_base_address_def sx_set_modulation_params_def
    sx_set_packet_params_lora_def sx_set_tx_params_def sx_set_dio_irq_params_def sx_clear_irq_status_def
    dead_commands [OF assms])

lemma dead_begin:
  assumes "dead_chip A"
  shows "comes_back (\<lambda>r. \<not> fst r) (sx_begin_ranging A D role kRadioFrequencyHz address cal w)"
proof -
  note d = dead_commands [OF assms] dead_settings [OF assms]
  have "answers (sx_begin_common A D t kRadioFrequencyHz w)" for t w
    unfolding sx_begin_common_def Let_def by (intro answers_bind d)
  then show ?thesis unfolding sx_begin_ranging_def
    by (auto intro!: answers_bind [of "sx_begin_common A D t kRadioFrequencyHz w" for t w] answers_bind d comes_back_bind [OF d(5)])
qed

section \<open>The firmware without its radio\<close>

definition dead_board :: "'w bee_board \<Rightarrow> bool" where
  "dead_board B \<longleftrightarrow> dead_chip (bb_arduino B) \<and> eeprom_typed B \<and> (\<forall>w. fst (ar_millis (bb_arduino B) w) < kSnapshotPeriodMs) \<and>
     (\<forall>w. fst (bb_serial_available B w) = 0)"

text \<open>What decides how much the loop does.\<close>

definition switches :: "'w bee \<Rightarrow> bool \<times> u32 \<times> u32 \<times> bool" where
  "switches s = (be_debug_enabled s, be_remote_debug_active_until_ms s, be_last_snapshot_ms s, be_radio_ready s)"

lemma switches_upd [simp]:
  "switches (s\<lparr>be_world := w\<rparr>) = switches s" "switches (s\<lparr>be_lines := l\<rparr>) = switches s"
  "switches (s\<lparr>be_status_led_until_ms := t\<rparr>) = switches s" "switches (s\<lparr>be_status_led_on := b\<rparr>) = switches s"
  "switches (s\<lparr>be_config := c\<rparr>) = switches s" "switches (s\<lparr>be_nav := n\<rparr>) = switches s"
  "switches (s\<lparr>be_mock := m\<rparr>) = switches s" "switches (s\<lparr>be_node_quality := q\<rparr>) = switches s"
  by (simp_all add: switches_def)

lemma switches_calls [simp]:
  "switches (bee_do g s) = switches s" "switches (snd (bee_call f s)) = switches s" "switches (snd (bee_now B s)) = switches s"
  "switches (bee_pin B pin v s) = switches s" "switches (bee_set_pa_mode B m s) = switches s"
  by (simp_all add: bee_do_def bee_call_def bee_now_def bee_pin_def bee_set_pa_mode_def case_prod_beta split: pa_mode.split)

lemma log_returns: "comes_back (\<lambda>s'. switches s' = switches s) (bee_emit_log B now level tag message s)"
proof -
  let ?d = "json_text (log_record_json now (Some level) (Some tag) (Some message))"
  obtain b where "nav_serial_write_log_record (bee_junk_line B kLogBufMax) kLogBufMax now (Some level) (Some tag) (Some message)
      = Some (b, int (length ?d))" "c_string b = Some (take 255 ?d)"
    using log_w.content [of kLogBufMax "bee_junk_line B kLogBufMax" now "Some level" "Some tag" "Some message"]
      text_no_NUL [OF log_record_ok] by (auto simp: bee_junk_line_def)
  then show ?thesis
    by (simp add: bee_emit_log_def bee_print_record_def Let_def case_prod_beta bee_now_def bee_call_def bee_pin_def bee_do_def)
qed

lemma log_now_returns: "comes_back (\<lambda>s'. switches s' = switches s) (bee_emit_log_now B level tag message s)"
  using log_returns [of "snd (bee_now B s)"] by (simp add: bee_emit_log_now_def case_prod_beta)

text \<open>Bring-up ends with the radio marked as missing.\<close>

lemma load_returns:
  assumes "eeprom_typed B"
  shows "comes_back (\<lambda>s'. switches s' = switches s \<and> bee_config_wf (be_config s') \<and> be_line s' = be_line s \<and>
    be_line_len s' = be_line_len s \<and> be_record_buf s' = be_record_buf s) (bee_load_config B s)"
  using any_world.load_config [of B s] assms by (auto simp: eeprom_typed_def comes_back_def)

lemma init_core_returns:
  assumes "bee_config_wf (be_config s)" "length (be_line s) = 256" "be_line_len s < 256" "length (be_record_buf s) = kRecordBufMax"
  shows "comes_back (\<lambda>s'. switches s' = switches s) (bee_init_core B s)"
proof -
  obtain s' where "bee_init_core B s = Some s'" using bee_init_core_inv [OF assms] by blast
  moreover from this have "switches s' = switches s"
    by (auto simp: bee_init_core_def bee_seed_mock_def bee_apply_core_config_def Let_def bind_eq_Some_conv)
  ultimately show ?thesis by simp
qed

lemma init_radio_returns:
  assumes "dead_chip (bb_arduino B)" "switches s = (debug, until, snapshot, ready)"
  shows "comes_back (\<lambda>s'. switches s' = (debug, until, snapshot, False)) (bee_init_radio B s)"
proof -
  have r: "comes_back (\<lambda>r. \<not> fst r \<and> switches (snd r) = switches s) (bee_begin_ranging B role i s)" for role i s
    using dead_begin [OF assms(1), of bee_radio role] by (fastforce simp: bee_begin_ranging_def bee_radio_call_def comes_back_def)
  have l: "comes_back (\<lambda>s'. switches s' = switches t) (bee_emit_log_now B level tag message s)" if "switches s = switches t"
    for level tag message s t
    using log_now_returns [of s] that by simp
  have e: "comes_back (\<lambda>s'. switches s' = (debug, until, snapshot, False)) (bee_emit_log_now B level tag message (t\<lparr>be_radio_ready := False\<rparr>))"
    if "switches t = switches s" for level tag message t
    using log_now_returns [of "t\<lparr>be_radio_ready := False\<rparr>"] that assms(2) by (simp add: switches_def)
  show ?thesis unfolding bee_init_radio_def Let_def
    by (auto simp: case_prod_beta e intro!: comes_back_bind [OF l [of _ s]] comes_back_bind [OF r])
qed

lemma dead_setup:
  assumes "dead_board B"
  shows "comes_back (\<lambda>s. switches s = (False, 0, 0, False)) (bee_setup B (bee_zero w))"
proof -
  have d: "dead_chip (bb_arduino B)" "eeprom_typed B" using assms by (simp_all add: dead_board_def)
  define s where "s = bee_do (bb_eeprom_begin B) (bee_pin B PIN_LED False
    (bee_do (ar_pin_mode (bb_arduino B) PIN_LED OUTPUT) (bee_do (bb_serial_begin B) (bee_zero w))))"
  have s: "switches s = (False, 0, 0, False)" "length (be_line s) = 256" "be_line_len s = 0" "length (be_record_buf s) = kRecordBufMax"
    by (simp_all add: s_def) (simp_all add: bee_do_def bee_pin_def bee_zero_def switches_def)
  have c: "comes_back (\<lambda>s. switches s = (False, 0, 0, False)) (bee_init_core B t)"
    if "switches t = switches s \<and> bee_config_wf (be_config t) \<and> be_line t = be_line s \<and> be_line_len t = be_line_len s \<and>
      be_record_buf t = be_record_buf s" for t
    using init_core_returns [of t B] that s by simp
  have l: "comes_back (\<lambda>s. switches s = (False, 0, 0, False)) (bee_emit_log_now B level tag message t)"
    if "switches t = (False, 0, 0, False)" for level tag message t
    using log_now_returns [of t] that by simp
  show ?thesis
    unfolding bee_setup_def Let_def s_def [symmetric]
    by (rule comes_back_bind [OF load_returns [OF d(2)]], rule comes_back_bind [OF c], assumption,
        rule comes_back_bind [OF l], assumption, rule init_radio_returns [OF d(1)])
qed

lemma dead_loop:
  assumes "dead_board B" "switches s = (False, 0, 0, False)"
  shows "comes_back (\<lambda>s'. switches s' = (False, 0, 0, False)) (bee_loop B s)"
proof -
  have serial: "fst (bee_call (bb_serial_available B) t) = 0" and time: "fst (bee_now B t) < kSnapshotPeriodMs" for t
    using assms(1) by (simp_all add: dead_board_def bee_call_def bee_now_def case_prod_beta)
  define u where "u = snd (bee_now B (snd (bee_call (bb_serial_available B) s)))"
  have u: "switches u = (False, 0, 0, False)" using assms(2) by (simp add: u_def)
  have p: "bee_pump_serial B s = Some (snd (bee_call (bb_serial_available B) s))"
    using serial by (simp add: bee_pump_serial.simps case_prod_beta)
  have "\<exists>v. bee_service_control_channel B s = Some v \<and> switches v = (False, 0, 0, False)"
  proof -
    have last: "be_last_snapshot_ms t = 0" if "switches t = (False, 0, 0, False)" for t :: "'a bee"
      using that by (simp add: switches_def)
    have "switches (bee_pin B PIN_LED False u) = (False, 0, 0, False)" using u by simp
    then show ?thesis
      unfolding bee_service_control_channel_def p using u time [of "snd (bee_call (bb_serial_available B) s)"]
      by (simp add: case_prod_beta Let_def u_def [symmetric] last not_le [symmetric])
  qed
  then obtain v where v: "bee_service_control_channel B s = Some v" "switches v = (False, 0, 0, False)" by blast
  have "switches (snd (bee_now B v)) = (False, 0, 0, False)" using v(2) by simp
  then show ?thesis using v
    by (simp add: bee_loop_def case_prod_beta bee_service_radio_def bee_radio_not_ready_def bee_remote_debug_active_def switches_def)
qed

theorem dead_board_runs:
  assumes "dead_board B"
  shows "\<exists>s s'. bee_setup B (bee_zero w) = Some s \<and> bee_loop B s = Some s' \<and> bee_reachable B w s'"
proof -
  obtain s where s: "bee_setup B (bee_zero w) = Some s" "switches s = (False, 0, 0, False)"
    using dead_setup [OF assms] by (auto simp: comes_back_def)
  moreover obtain s' where "bee_loop B s = Some s'" using dead_loop [OF assms s(2)] by (auto simp: comes_back_def)
  ultimately show ?thesis by (blast intro: bee_reachable.intros)
qed

section \<open>Witnesses\<close>

text \<open>A board with an erased EEPROM, a stopped clock and nothing on its ports.\<close>

definition bare_board :: "unit bee_board" where
  "bare_board = \<lparr>bb_arduino = \<lparr>ar_millis = (\<lambda>w. (100, w)), ar_micros = (\<lambda>w. (0, w)), ar_delay = (\<lambda>_ w. w),
       ar_delay_us = (\<lambda>_ w. w), ar_pin_mode = (\<lambda>_ _ w. w), ar_digital_write = (\<lambda>_ _ w. w),
       ar_digital_read = (\<lambda>_ w. (False, w)), ar_spi_begin = (\<lambda>w. w), ar_spi_begin_transaction = (\<lambda>w. w),
       ar_spi_end_transaction = (\<lambda>w. w), ar_spi_transfer = (\<lambda>_ w. (0, w))\<rparr>,
     bb_serial_begin = (\<lambda>w. w), bb_serial_available = (\<lambda>w. (0, w)), bb_serial_read = (\<lambda>w. (- 1, w)),
     bb_eeprom_begin = (\<lambda>w. w),
     bb_eeprom_get = (\<lambda>w. (\<lparr>pc_magic = 0xFFFFFFFF, pc_node_id = 0xFF, pc_name = replicate 24 (CHR 0xFF),
       pc_gps_enabled = 0xFF, pc_mock_enabled = 0xFF, pc_altitude_mm = - 1\<rparr>, w)),
     bb_eeprom_put = (\<lambda>_ w. w), bb_eeprom_commit = (\<lambda>w. (True, w)), bb_expf = (\<lambda>x. x), bb_libm = run_libm,
     bb_mock_available = False, bb_payload_junk = (\<lambda>_. 0), bb_frame_junk = (\<lambda>_. 0), bb_line_junk = (\<lambda>_. NUL)\<rparr>"

lemma bare_typed: "eeprom_typed bare_board"
  by (simp add: eeprom_typed_def bare_board_def)

lemma bare_dead: "dead_board bare_board" "dead_board (recorded_board bare_board)"
  by (simp_all add: dead_board_def dead_chip_def eeprom_typed_def recorded_board_def recorded_def lift_call_def
      bare_board_def case_prod_beta)

theorem bee_node_invariant_witness:
  "\<exists>s. bee_reachable bare_board () s \<and> sy_config (be_nav s) =
     (bee_core_config (pc_node_id (be_config s)))\<lparr>cfg_demo_force_gps_denied := True\<rparr> \<and> \<not> mo_enabled (be_mock s)"
proof -
  obtain s where "bee_reachable bare_board () s" using dead_board_runs [OF bare_dead(1)] by blast
  with bee_node_invariant [OF this bare_typed] show ?thesis by (auto simp: bare_board_def)
qed

theorem bee_wires_safe_witness:
  "\<exists>s s'. bee_setup (recorded_board bare_board) (bee_zero ((), [])) = Some s \<and> bee_loop (recorded_board bare_board) s = Some s' \<and>
     wires_after (False, False, False) (snd (be_world s')) = Some (False, False, False)"
proof -
  obtain s s' where s: "bee_setup (recorded_board bare_board) (bee_zero ((), [])) = Some s"
    "bee_loop (recorded_board bare_board) s = Some s'" "bee_reachable (recorded_board bare_board) ((), []) s'"
    using dead_board_runs [OF bare_dead(2)] by blast
  with bee_wires_safe [OF s(3) bare_typed] show ?thesis by blast
qed

text \<open>The register value 4096: \<open>4096 * 150 / 6656 + 6.2\<close> is 98.507 m; and all ones, -1, whose biased distance of
  6.177 m is corrected.\<close>

theorem bee_distance_witness:
  "(\<exists>raw_m corrected_m mm. bee_measured_range bare_board (ranging_result 0 16 0) = Some (raw_m, corrected_m, ''linear_bias'', True, mm) \<and>
     98506 \<le> unat mm \<and> unat mm \<le> 98509) \<and>
   (\<exists>raw_m y valid mm. bee_measured_range bare_board (ranging_result 0xFF 0xFF 0xFF) = Some (raw_m, Fin y, ''short_exp'', valid, mm) \<and>
     \<bar>y - 12 / 10\<bar> \<le> 1 / 100)"
proof
  have v: "twos_complement_24 (register_value 0 16 0) = 4096" by (simp add: register_value_def twos_complement_24_def)
  have x: "exact_distance 4096 = 4096 * 150 / 6656 + 62 / 10" by (simp add: exact_distance_def)
  obtain raw_m corrected_m correction valid mm where
    m: "bee_measured_range bare_board (ranging_result 0 16 0) = Some (raw_m, corrected_m, correction, valid, mm)"
      "correction = ''linear_bias'' \<and> valid \<and> \<bar>of_nat (unat mm) - (4096 * 150 / 6656 + 62 / (10 :: rat)) * 1000\<bar> \<le> 5 / 4"
    using bee_distance [where B = bare_board and h = 0 and m = 16 and l = 0] unfolding v x by auto
  then have "(of_nat (unat mm) :: rat) - (4096 * 150 / 6656 + 62 / 10) * 1000 \<le> 5 / 4"
    "- ((of_nat (unat mm) :: rat) - (4096 * 150 / 6656 + 62 / 10) * 1000) \<le> 5 / 4" using abs_le_iff by blast+
  then have "98506 \<le> (of_nat (unat mm) :: rat)" "(of_nat (unat mm) :: rat) \<le> 98509" by (simp_all only: field_simps) simp_all
  then have "98506 \<le> unat mm" "unat mm \<le> 98509"
    by (metis of_nat_le_iff of_nat_numeral)+
  moreover have "correction = ''linear_bias''" "valid" using m(2) by blast+
  ultimately show "\<exists>raw_m corrected_m mm. bee_measured_range bare_board (ranging_result 0 16 0) =
      Some (raw_m, corrected_m, ''linear_bias'', True, mm) \<and> 98506 \<le> unat mm \<and> unat mm \<le> 98509"
    using m(1) by simp
next
  have v: "twos_complement_24 (register_value 0xFF 0xFF 0xFF) = - 1" by (simp add: register_value_def twos_complement_24_def)
  have e: "bb_expf bare_board z = z" for z by (simp add: bare_board_def)
  have near: "\<bar>y - 12 / 10\<bar> \<le> 1 / 100" if "\<bar>y - (exact_distance (- 1) + 24917 / 10000) / (72262 / 10000)\<bar> \<le> 1 / 1000" for y
  proof -
    have "\<bar>(exact_distance (- 1) + 24917 / 10000) / (72262 / 10000) - 12 / 10\<bar> \<le> 2 / 1000" by (simp add: exact_distance_def)
    then show ?thesis using that by linarith
  qed
  obtain raw_m corrected_m correction valid mm y where
    "bee_measured_range bare_board (ranging_result 0xFF 0xFF 0xFF) = Some (raw_m, corrected_m, correction, valid, mm)"
    "correction = ''short_exp''" "corrected_m = Fin y"
    "\<bar>y - (exact_distance (- 1) + 24917 / 10000) / (72262 / 10000)\<bar> \<le> 1 / 1000"
    using bee_distance [where B = bare_board and h = 255 and m = 255 and l = 255] unfolding v e by (auto simp: exact_distance_def)
  then show "\<exists>raw_m y valid mm. bee_measured_range bare_board (ranging_result 0xFF 0xFF 0xFF) =
      Some (raw_m, Fin y, ''short_exp'', valid, mm) \<and> \<bar>y - 12 / 10\<bar> \<le> 1 / 100"
    using near by blast
qed

end
