(* ===== verification/Spec2Isabelle.thy ===== *)
theory Spec2Isabelle
  imports Nav_Telemetry Nav_Tdma Nav_Core_Run Nav_Nmea_Run Nav_Serial_Run Nav_Mock_Run Nav_Replay_Run Control_Run Gps_Run Radio_Slave Radio_Run Bee_Log Bee_Run
begin

text \<open>
  A verification library for \<^verbatim>\<open>mcu-nav\<close>, the firmware of a swarm of up to four radio nodes that tell each other
  where they are and measure their distances, so that a node without satellite navigation can still compute
  its position. Paths are those of the repository.

  \<^bold>\<open>The program.\<close> The portable core in \<^verbatim>\<open>core/\<close> is a C library without input, output or clock of its own: the
  caller hands it events with their time. \<^verbatim>\<open>nav_core.c\<close> owns one \<^verbatim>\<open>nav_system_t\<close>: the last local samples, the
  peer table (\<^verbatim>\<open>nav_peer_table.c\<close>), the last snapshot. An event updates the inputs; a tick ages the table,
  scores the peers (\<^verbatim>\<open>nav_quality.c\<close>), picks three anchors, calls the solver (\<^verbatim>\<open>nav_trilateration.c\<close>) and
  publishes a new snapshot. Around it are the codecs: the radio frame (\<^verbatim>\<open>nav_radio_protocol.c\<close>) and its bodies
  (\<^verbatim>\<open>nav_telemetry.c\<close>), the NMEA parser (\<^verbatim>\<open>nav_nmea.c\<close>), the JSON records and commands of the serial port
  (\<^verbatim>\<open>nav_serial_json.c\<close>), the slot scheduler (\<^verbatim>\<open>nav_tdma.c\<close>) and a simulated swarm (\<^verbatim>\<open>nav_mock.c\<close>). The firmware of
  the ESP32 node in \<^verbatim>\<open>src/\<close> runs the core under one mutex, the control channel (\<^verbatim>\<open>ControlChannel.cpp\<close>): a reader
  task takes commands, an emitter task ticks the core and prints records, the GPS task (\<^verbatim>\<open>GpsHealth.cpp\<close>) feeds
  samples, and the radio task (\<^verbatim>\<open>RadioHealth.cpp\<close>) follows the slot schedule, sends beacons, ranges peers and
  feeds what it hears. \<^verbatim>\<open>ports/speedybee\<close> is a second firmware, one Arduino loop over its own SX1280 driver.
  \<^verbatim>\<open>tools/replay\<close> drives the core from recorded files.

  \<^bold>\<open>Foundations.\<close> \<^verbatim>\<open>Prelude\<close>: the integer types of \<^verbatim>\<open>stdint.h\<close> as words, checked array accesses, the collections
  \<open>mem_simps\<close>, \<open>enum_simps\<close>, \<open>frame_intros\<close>. \<^verbatim>\<open>Rounding\<close>, \<^verbatim>\<open>Ieee_Float\<close>: \<^verbatim>\<open>float\<close> and \<^verbatim>\<open>double\<close> as exact rationals
  rounded to the binary grid after every operation, with infinities and NaN; \<^verbatim>\<open>Fp_Eval\<close> computes closed terms
  by integer arithmetic (\<open>dy_eval\<close>). \<^verbatim>\<open>C_Text\<close>: C strings, \<^verbatim>\<open>strtol\<close>, \<^verbatim>\<open>strtod\<close>. \<^verbatim>\<open>Nav_Types\<close>: the structures as
  records and the enumerations as datatypes with the constructors of the source.

  \<^bold>\<open>The core.\<close> \<^verbatim>\<open>Nav_Peer_Table\<close>, \<^verbatim>\<open>Nav_Quality\<close>, \<^verbatim>\<open>Nav_State_Machine\<close>, \<^verbatim>\<open>Nav_Logging\<close>, \<^verbatim>\<open>Nav_Trilateration\<close> and
  \<^verbatim>\<open>Nav_Core\<close> hold one definition per C function, under its name, with the lemmas of the component; the record
  \<^verbatim>\<open>nav_system\<close> is \<^verbatim>\<open>nav_system_t\<close> with the trace of the logger. \<^verbatim>\<open>Nav_Core_Selection\<close>: which anchors are chosen and
  why others are not. \<^verbatim>\<open>Nav_Core_Policy\<close>: the decision list of a tick. \<^verbatim>\<open>Nav_Core_Machine\<close>: the calls of the
  environment as steps, the invariant of the reachable states, and an abstract rule of the navigation result
  that every step refines. \<^verbatim>\<open>Nav_Core_Safety\<close>: what a published radio position rests on. \<^verbatim>\<open>Nav_Core_Run\<close>,
  \<^verbatim>\<open>Nav_Trilateration_Run\<close>: a complete tick and solve, evaluated.

  \<^bold>\<open>The codecs.\<close> \<^verbatim>\<open>Nav_Radio_Protocol\<close>, \<^verbatim>\<open>Nav_Telemetry\<close>: encoders and decoders over byte lists, round trips, no
  access outside the buffers. \<^verbatim>\<open>Nav_Nmea\<close>, \<^verbatim>\<open>Nav_Nmea_Sentence\<close>, \<^verbatim>\<open>Nav_Nmea_Stream\<close>, \<^verbatim>\<open>Nav_Nmea_Accept\<close>: the parser
  byte by byte, equal to a function of the text of the line; what it accepts. \<^verbatim>\<open>Nav_Serial_Json\<close>,
  \<^verbatim>\<open>Nav_Serial_Text\<close>, \<^verbatim>\<open>Nav_Serial_Records\<close>: the writers print the text of JSON trees whatever the buffer.
  \<^verbatim>\<open>Nav_Serial_Command\<close>, \<^verbatim>\<open>Nav_Serial_Control\<close>: the command scanner. \<^verbatim>\<open>Nav_Tdma\<close>: the schedule, in which no two
  nodes transmit at once. \<^verbatim>\<open>Nav_Mock\<close>: the simulated swarm.

  \<^bold>\<open>The ESP32 node.\<close> \<^verbatim>\<open>Node_Config\<close>: the settings and their storage. \<^verbatim>\<open>Control_Channel\<close>: the globals of
  \<^verbatim>\<open>ControlChannel.cpp\<close> as the record \<^verbatim>\<open>control_state\<close> and its calls as functions on it. \<^verbatim>\<open>Control_Invariant\<close>: the
  calls in any order, and their invariant. \<^verbatim>\<open>Control_Safety\<close>, \<^verbatim>\<open>Control_Serial\<close>: what holds with the GPS off, the
  reader and the emitter. \<^verbatim>\<open>Node_Log\<close>, \<^verbatim>\<open>Node_Health\<close>: the logger and the health records. \<^verbatim>\<open>Gps_Task\<close>,
  \<^verbatim>\<open>Gps_Safety\<close>: the GPS task, its invariant, and the way of a sentence from the UART to the core.
  \<^verbatim>\<open>Radio_Link\<close>, \<^verbatim>\<open>Radio_Report\<close>, \<^verbatim>\<open>Radio_Slot\<close>: the radio task in three parts, from pins and slot clock over
  reception to the slot and the loop. \<^verbatim>\<open>Radio_Invariant\<close>: what it keeps under any interference.
  \<^verbatim>\<open>Radio_Clock\<close>: time bounds of waits and exchanges. \<^verbatim>\<open>Radio_Sync\<close>: synchronisation with the authority and the
  place of an exchange in the authority's slot. \<^verbatim>\<open>Radio_Packet\<close>, \<^verbatim>\<open>Radio_Frames\<close>: reports read back, arbitrary
  frames are safe. \<^verbatim>\<open>Radio_Slave\<close>: who learns a distance.

  \<^bold>\<open>The SpeedyBee node.\<close> \<^verbatim>\<open>Sx1280\<close>: the driver of \<^verbatim>\<open>lib/SX1280\<close> over the pins and the bus. \<^verbatim>\<open>Bee_Node\<close>, \<^verbatim>\<open>Bee_Radio\<close>:
  \<^verbatim>\<open>main.cpp\<close>, its globals the record \<^verbatim>\<open>bee\<close>, its functions functions on it. \<^verbatim>\<open>Sx1280_Bus\<close>, \<^verbatim>\<open>Bee_Invariant\<close>,
  \<^verbatim>\<open>Bee_Loop\<close>: what every function keeps of the globals and of the world. \<^verbatim>\<open>Bee_Pins\<close>: the wires, on a board that
  records its pin writes and bus bytes. \<^verbatim>\<open>Bee_Distance\<close>: the accuracy of a distance. \<^verbatim>\<open>Bee_Log\<close>: the record that
  never fits. \<^verbatim>\<open>Bee_Run\<close>: bring-up and a turn of the loop without a radio, which return.

  \<^bold>\<open>The replay tool.\<close> \<^verbatim>\<open>Nav_Replay_Csv\<close>, \<^verbatim>\<open>Nav_Replay_Config\<close>, \<^verbatim>\<open>Nav_Replay_Event\<close>, \<^verbatim>\<open>Nav_Replay\<close>: rows, configuration,
  events and the loop; \<^verbatim>\<open>Nav_Replay_Text\<close>, \<^verbatim>\<open>Nav_Replay_Run\<close>: what a well-formed file does to the core.

  Theories whose names end in \<^verbatim>\<open>Run\<close> evaluate concrete states and hold the witnesses of the properties.

  \<^bold>\<open>Interfaces.\<close> Seven locales state what one part relies on from another, and are interpreted on the model of the
  provider: \<open>fp_rounding\<close> (the rounding of both formats), \<open>wire_enum\<close> (an enumeration and its byte),
  \<open>peer_store\<close> (look up after store in the peer table), \<open>field_codec\<close> (a field of a message body and its place),
  \<open>bounded_writer\<close> (the contract of \<^verbatim>\<open>snprintf\<close> that every JSON writer implements), \<open>chip_world\<close> and \<open>bee_world\<close> (a
  predicate of the world that the pins and the bus keep, for the driver and for the whole firmware).

  \<^bold>\<open>Conventions.\<close> A function of the core answers \<open>None\<close> exactly where the C code has undefined behaviour: an access
  outside an array, a division by zero, a conversion of a number that does not fit. In the radio task and the SpeedyBee
  \<open>None\<close> is also a wait that never ends. In the parsers of the replay tool \<open>None\<close> stands for the answer \<^verbatim>\<open>false\<close>, and its
  own type tells a parsed file from a rejected one. Pointers to input are options where the code tests for
  \<^verbatim>\<open>NULL\<close>; state and results are passed by value, so calls with a null state or result pointer are not
  modelled. Signed integers are words read with \<^verbatim>\<open>sint\<close>. An enumeration has a constructor \<open>..._RAW\<close> for the
  bytes that name no value, since the code casts received bytes unchecked. Numbers have one zero, no fused
  multiply-add and no excess precision. \<^verbatim>\<open>sqrt\<close>, \<^verbatim>\<open>fmod\<close>, \<^verbatim>\<open>fabs\<close>, \<^verbatim>\<open>fmax\<close> and \<^verbatim>\<open>fmin\<close> are the correctly rounded
  operations; \<^verbatim>\<open>sin\<close>, \<^verbatim>\<open>cos\<close>, \<^verbatim>\<open>atan2\<close> and \<^verbatim>\<open>hypot\<close> are the parameter \<^verbatim>\<open>libm\<close>. \<^verbatim>\<open>long\<close> has a width parameter in the scanner of commands. The calls of the control channel
  are atomic, as they are under its mutex. The driver of the radio, pins, timer and the other tasks are the
  parameter \<^verbatim>\<open>board\<close> of the radio task (\<^verbatim>\<open>gps_board\<close> of the GPS task, \<^verbatim>\<open>arduino\<close> and \<^verbatim>\<open>bee_board\<close> of the SpeedyBee): \<open>bd_others\<close> is any interference before a
  call takes the lock, and \<open>others_lawful\<close> says that it uses the channel through its calls. \<open>clock_runs\<close> states
  that the timer shows the time and that a call takes at most \<open>lat\<close> milliseconds. Uninitialised local arrays
  are parameters of the definitions.

  \<^bold>\<open>Bounds.\<close> The solver makes at most 30 iterations. Recursion over the finite arrays and buffers of the code is
  structural: 4 nodes, payloads of 128 and reports of 224 bytes, sentences of 96, names of 24, command lines of
  256, records of 2048, range records of 512, log lines of 1024 bytes, rows of 32 columns of 96 characters and
  512 truth rows. There is no fuel: loops that wait for the hardware are \<^verbatim>\<open>partial_function\<close>, and that they end
  is a theorem about boards whose clock runs (for the SpeedyBee, about boards whose chip does not answer). The SpeedyBee has
  records of 1536 and log lines of 256 bytes.

  \<^bold>\<open>Not modelled.\<close> Of the replay tool: creation of directories, reading of files (a file is its bytes) and messages
  on \<^verbatim>\<open>stderr\<close>. Of the ESP32 node: task and mutex creation, the LED driver, the adapter of the radio library, all
  calls of ESP-IDF. The POSIX port, the GNSS tools and the bring-up programs under \<^verbatim>\<open>reference\<close> and \<^verbatim>\<open>examples\<close>. The telemetry
  UI, the simulation and the plots are programs in other languages.
\<close>

end
